(* ===== verification/Emu_Prelude.thy ===== *)
theory Emu_Prelude
  imports Main "HOL-Library.Word"
begin

text \<open>
  Shared vocabulary of the development: the machine integer types of the C++ sources
  (\<^verbatim>\<open>stdint.h\<close>), the two C++ shift operators, and the bit-level facts every component uses.

  \<^verbatim>\<open><<\<close> and \<^verbatim>\<open>>>\<close> on unsigned operands are \<open>shl\<close> and \<open>shr\<close>. A shift count that is not below
  the operand's width is undefined in C++; the only build target is MSVC for x64, where the
  shift instructions take the count modulo the operand width (32 or 64), and that is what
  \<open>shl\<close> and \<open>shr\<close> do. The few places where a count reaches the width are pointed out
  where they are modelled.

  The collection \<open>bit_lits\<close> holds the rules that turn a test of an instruction word (a bit
  field compared with a constant, a masked comparison) into literals \<open>bit w n\<close>.
\<close>

unbundle bit_operations_syntax

named_theorems bit_lits \<open>tests of an instruction word as literals on its bits\<close>
named_theorems cpp_defs \<open>definitions of small C++ helpers that proofs unfold together\<close>

type_synonym u8 = "8 word"
type_synonym u16 = "16 word"
type_synonym u32 = "32 word"
type_synonym u64 = "64 word"

definition shl :: "'a::len word \<Rightarrow> nat \<Rightarrow> 'a word" where
  "shl v n = push_bit (n mod LENGTH('a)) v"

definition shr :: "'a::len word \<Rightarrow> nat \<Rightarrow> 'a word" where
  "shr v n = drop_bit (n mod LENGTH('a)) v"

lemma shl_less: "n < LENGTH('a) \<Longrightarrow> shl (v :: 'a::len word) n = push_bit n v"
  by (simp add: shl_def)

lemma shr_less: "n < LENGTH('a) \<Longrightarrow> shr (v :: 'a::len word) n = drop_bit n v"
  by (simp add: shr_def)

lemma shl_width [simp]: "shl (v :: 'a::len word) LENGTH('a) = v"
  by (simp add: shl_def)

lemma bit_shl: "bit (shl (v :: 'a::len word) n) i \<longleftrightarrow>
    n mod LENGTH('a) \<le> i \<and> i < LENGTH('a) \<and> bit v (i - n mod LENGTH('a))"
  by (simp add: shl_def bit_push_bit_iff)

lemma bit_shr: "bit (shr (v :: 'a::len word) n) i \<longleftrightarrow> bit v (n mod LENGTH('a) + i)"
  by (simp add: shr_def bit_drop_bit_eq)

subsection \<open>Literals of a masked comparison\<close>

text \<open>
  \<open>lits k m v w\<close> says that \<open>w\<close>, read from bit \<open>k\<close> upwards and masked with \<open>m\<close>, has exactly
  the bits of \<open>v\<close>. On numerals the rules below unfold it digit by digit into literals.
\<close>

definition lits :: "nat \<Rightarrow> int \<Rightarrow> int \<Rightarrow> 'a::len word \<Rightarrow> bool" where
  "lits k m v w \<longleftrightarrow> (\<forall>i. (bit w (k + i) \<and> bit m i) = bit v i)"

lemma lits_rec: "lits k m v w \<longleftrightarrow>
    (bit w k \<and> odd m) = odd v \<and> lits (Suc k) (m div 2) (v div 2) w"
proof -
  have "All Q = (Q 0 \<and> (\<forall>k. Q (Suc k)))" for Q :: "nat \<Rightarrow> bool"
    by (metis nat.exhaust)
  from this [of "\<lambda>i. (bit w (k + i) \<and> bit m i) = bit v i"] show ?thesis
    by (simp add: lits_def bit_Suc bit_0)
qed

lemma lits_0_0 [bit_lits]: "lits k 0 0 w"
  by (simp add: lits_def)

lemma lits_0_m [bit_lits]:
  "lits k 0 (numeral v) w = False" "lits k 0 1 w = False"
proof -
  have "\<exists>i. bit (numeral v :: int) i" "\<exists>i. bit (1 :: int) i"
    using bit_eqI [of "numeral v :: int" 0] bit_eqI [of "1 :: int" 0] by auto
  then show "lits k 0 (numeral v) w = False" "lits k 0 1 w = False"
    by (auto simp: lits_def)
qed

lemma lits_digits [bit_lits]:
  "lits k (numeral (Num.Bit0 m)) (numeral (Num.Bit0 v)) w = lits (Suc k) (numeral m) (numeral v) w"
  "lits k (numeral (Num.Bit0 m)) (numeral (Num.Bit1 v)) w = False"
  "lits k (numeral (Num.Bit0 m)) 1 w = False"
  "lits k (numeral (Num.Bit0 m)) 0 w = lits (Suc k) (numeral m) 0 w"
  "lits k (numeral (Num.Bit1 m)) (numeral (Num.Bit0 v)) w =
     (\<not> bit w k \<and> lits (Suc k) (numeral m) (numeral v) w)"
  "lits k (numeral (Num.Bit1 m)) (numeral (Num.Bit1 v)) w =
     (bit w k \<and> lits (Suc k) (numeral m) (numeral v) w)"
  "lits k (numeral (Num.Bit1 m)) 1 w = (bit w k \<and> lits (Suc k) (numeral m) 0 w)"
  "lits k (numeral (Num.Bit1 m)) 0 w = (\<not> bit w k \<and> lits (Suc k) (numeral m) 0 w)"
  "lits k 1 (numeral (Num.Bit0 v)) w = False"
  "lits k 1 (numeral (Num.Bit1 v)) w = False"
  "lits k 1 1 w = bit w k"
  "lits k 1 0 w = (\<not> bit w k)"
  by (subst lits_rec; simp add: lits_0_0 lits_0_m)+

lemma Suc_Suc_0_eq_2 [bit_lits]: "Suc (Suc 0) = 2"
  by simp

lemma bit_int_less:
  assumes "0 \<le> (m :: int)" and "m < 2 ^ n" and "bit m i"
  shows "i < n"
  using assms by (metis bit_take_bit_iff take_bit_int_eq_self)

lemma unat_two_power: "k < LENGTH('a) \<Longrightarrow> unat (2 ^ k :: 'a::len word) = 2 ^ k"
proof -
  assume "k < LENGTH('a)"
  then have "(2 :: nat) ^ k < 2 ^ LENGTH('a)" by simp
  moreover have "unat (2 ^ k :: 'a word) = take_bit LENGTH('a) (2 ^ k)"
    using unsigned_of_nat [of "2 ^ k", where 'b = 'a and 'a = nat] by simp
  ultimately show ?thesis by (simp add: take_bit_nat_eq_self)
qed

lemma word_less_two_power:
  "k < LENGTH('a) \<Longrightarrow> (x :: 'a::len word) < 2 ^ k \<longleftrightarrow> drop_bit k x = 0"
proof -
  assume k: "k < LENGTH('a)"
  then have "x < 2 ^ k \<longleftrightarrow> unat x div 2 ^ k = 0"
    by (simp add: word_less_nat_alt unat_two_power div_eq_0_iff)
  also have "unat x div 2 ^ k = unat (drop_bit k x)"
    by (metis drop_bit_eq_div unat_drop_bit_eq)
  finally show ?thesis by (simp add: unat_eq_0)
qed

lemma masked_eq_lits:
  assumes "0 \<le> m" and "m < 2 ^ LENGTH('a)" and "0 \<le> v" and "v < 2 ^ LENGTH('a)"
  shows "(w :: 'a::len word) AND of_int m = of_int v \<longleftrightarrow> lits 0 m v w"
  using bit_int_less [OF assms(1,2)] bit_int_less [OF assms(3,4)]
  by (auto simp: lits_def bit_eq_iff bit_simps)

subsection \<open>Words as natural numbers\<close>

lemma bit_top_nat: "n < 2 ^ Suc p \<Longrightarrow> bit (n :: nat) p \<longleftrightarrow> 2 ^ p \<le> n"
proof -
  assume "n < 2 ^ Suc p"
  then have "n div 2 ^ p < 2" by (simp add: less_mult_imp_div_less)
  then have "odd (n div 2 ^ p) \<longleftrightarrow> n div 2 ^ p \<noteq> 0" by (cases "n div 2 ^ p") auto
  then show ?thesis by (simp add: bit_iff_odd div_eq_0_iff not_less)
qed

lemma unat_take_bit: "unat (take_bit n w) = take_bit n (unat w)"
  by (rule unsigned_take_bit_eq)

lemma unat_and_mask: "unat (w AND mask n) = take_bit n (unat w)"
  by (simp flip: take_bit_eq_mask add: unat_take_bit)

lemma unat_ucast_u32: "unat (ucast (x :: u32) :: u64) = unat x"
  using unsigned_less [of x, where 'a = nat] by (simp add: unsigned_ucast_eq take_bit_nat_eq_self)

lemma unat_take_bit_not:
  fixes x :: "'a::len word"
  assumes "n < LENGTH('a)" and "unat x < 2 ^ n"
  shows "unat (take_bit n (NOT x)) = 2 ^ n - 1 - unat x"
proof -
  have "take_bit n x = x"
    using assms by (simp add: word_unat_eq_iff unat_take_bit take_bit_nat_eq_self)
  then have "take_bit n (NOT x) = mask n - x"
    by (simp add: take_bit_not_eq_mask_diff)
  moreover have "unat (mask n :: 'a word) = 2 ^ n - 1"
    using assms(1) unat_two_power [of n, where 'a = 'a]
    by (simp add: mask_eq_exp_minus_1 unat_sub word_le_nat_alt)
  ultimately show ?thesis using assms
    by (simp add: unat_sub word_le_nat_alt)
qed

lemma low_split: "take_bit (Suc p) (unat w) = of_bool (bit w p) * 2 ^ p + take_bit p (unat (w :: 'a::len word))"
  by (simp add: take_bit_Suc_from_most bit_unsigned_iff)

lemma signed_low_split:
  "signed_take_bit p (uint w) = int (take_bit p (unat (w :: 'a::len word))) - of_bool (bit w p) * 2 ^ p"
proof -
  have "take_bit (Suc p) (uint w) = int (take_bit (Suc p) (unat w))"
    by (simp add: of_nat_take_bit)
  moreover have "bit (uint w) p \<longleftrightarrow> bit w p" by (simp add: bit_unsigned_iff)
  ultimately show ?thesis
    by (simp add: signed_take_bit_eq_take_bit_minus low_split)
qed

lemma and_mask_64: "(x :: u64) AND mask 64 = x"
  by (rule bit_word_eqI) (auto simp: bit_simps)

end
