(* ===== verification/Bitutils.thy ===== *)
theory Bitutils
  imports Emu_Prelude
begin

text \<open>
  \<^verbatim>\<open>common/inc/bitutils.h\<close>. Each C++ helper comes in two forms: a template whose positions
  are compile-time constants (\<open>testBit\<close>, \<open>bitmask\<close>, \<open>bitRange\<close>, \<open>signExtend\<close>, with
  the template arguments first) and a function of run-time positions of the value's own type
  (suffix \<open>_rt\<close>), where \<open>size - 1\<close> wraps around at 0.
\<close>

definition testBit :: "nat \<Rightarrow> 'a::len word \<Rightarrow> bool" where
  "testBit pos val \<longleftrightarrow> val AND shl 1 pos \<noteq> 0"

definition bitmask :: "nat \<Rightarrow> 'a::len word" where
  "bitmask sz = (if sz = LENGTH('a) then -1 else shl 1 sz - 1)"

definition bitmask_rt :: "'a::len word \<Rightarrow> 'a word" where
  "bitmask_rt sz = (if sz = word_of_nat LENGTH('a) then -1 else shl 1 (unat sz) - 1)"

definition bitRange :: "nat \<Rightarrow> nat \<Rightarrow> 'a::len word \<Rightarrow> 'a word" where
  "bitRange start stop val = shr val start AND bitmask (stop - start + 1)"

definition bitRange_rt :: "'a::len word \<Rightarrow> 'a word \<Rightarrow> 'a word \<Rightarrow> 'a word" where
  "bitRange_rt val start stop = shr val (unat start) AND bitmask_rt (stop - start + 1)"

definition signExtend :: "nat \<Rightarrow> 'a::len word \<Rightarrow> 'a word" where
  "signExtend sz val = (if testBit (sz - 1) val then val OR NOT (bitmask sz) else val)"

definition signExtend_rt :: "'a::len word \<Rightarrow> 'a word \<Rightarrow> 'a word" where
  "signExtend_rt val sz =
     (if testBit (unat (sz - 1)) val then val OR NOT (bitmask_rt sz) else val)"

text \<open>
  \<open>constLog2\<close> is evaluated at compile time on \<open>sizeof(T)\<close> only; on 0 the C++ recursion has no
  end and the program would not compile.
\<close>

fun constLog2 :: "nat \<Rightarrow> nat" where
  "constLog2 num = (if num \<le> 1 then 0 else 1 + constLog2 (num div 2))"

declare constLog2.simps [simp del]

subsection \<open>What the helpers compute\<close>

lemma testBit_iff_bit: "pos < LENGTH('a) \<Longrightarrow> testBit pos (w :: 'a::len word) \<longleftrightarrow> bit w pos"
proof -
  assume "pos < LENGTH('a)"
  then have "w AND shl 1 pos = of_bool (bit w pos) * 2 ^ pos"
    by (intro bit_word_eqI) (auto simp: shl_less bit_simps)
  with \<open>pos < LENGTH('a)\<close> show ?thesis
    by (simp add: testBit_def)
qed

lemma bitmask_eq_mask: "n \<le> LENGTH('a) \<Longrightarrow> (bitmask n :: 'a::len word) = mask n"
  by (auto simp: bitmask_def shl_less mask_eq_exp_minus_1 push_bit_eq_mult)

lemma bitRange_eq_take_drop:
  "start \<le> stop \<Longrightarrow> stop < LENGTH('a) \<Longrightarrow>
   bitRange start stop (w :: 'a::len word) = take_bit (Suc stop - start) (drop_bit start w)"
  by (simp add: bitRange_def shr_less bitmask_eq_mask take_bit_eq_mask Suc_diff_le)

lemma bit_bitRange:
  "start \<le> stop \<Longrightarrow> stop < LENGTH('a) \<Longrightarrow>
   bit (bitRange start stop (w :: 'a::len word)) i \<longleftrightarrow>
     i < Suc stop - start \<and> bit w (start + i)"
  by (auto simp: bitRange_eq_take_drop bit_simps)

lemma bit_signExtend:
  assumes "0 < n" and "n \<le> LENGTH('a)"
  shows "bit (signExtend n (w :: 'a::len word)) i \<longleftrightarrow>
    bit w i \<or> bit w (n - 1) \<and> n \<le> i \<and> i < LENGTH('a)"
  using assms by (auto simp: signExtend_def testBit_iff_bit bitmask_eq_mask bit_simps)

lemma signExtend_eq_signed_take_bit:
  assumes n: "0 < n" "n \<le> LENGTH('a)" and w: "take_bit n w = w"
  shows "signExtend n (w :: 'a::len word) = signed_take_bit (n - 1) w"
proof (rule bit_word_eqI)
  fix i
  assume i: "i < LENGTH('a)"
  have low: "\<not> bit w j" if "n \<le> j" for j
    using arg_cong [OF w, of "\<lambda>x. bit x j"] that by (simp add: bit_take_bit_iff)
  show "bit (signExtend n w) i \<longleftrightarrow> bit (signed_take_bit (n - 1) w) i"
  proof (cases "n \<le> i")
    case True
    then show ?thesis using n i low by (simp add: bit_signExtend bit_signed_take_bit_iff min_def)
  next
    case False
    then have "min i (n - 1) = i" by simp
    with False n i show ?thesis by (simp add: bit_signExtend bit_signed_take_bit_iff)
  qed
qed
lemma signExtend_arith:
  assumes n: "0 < n" "n \<le> LENGTH('a)" and w: "take_bit n w = w"
  shows "signExtend n (w :: 'a::len word) = w - of_bool (bit w (n - 1)) * 2 ^ n"
proof -
  have low: "\<not> bit w j" if "n \<le> j" for j
    using arg_cong [OF w, of "\<lambda>x. bit x j"] that by (simp add: bit_take_bit_iff)
  have "w OR NOT (mask n) = w + NOT (mask n)"
    using low by (intro disjunctive_add [symmetric]) (auto simp: bit_simps not_less)
  moreover have "NOT (mask n :: 'a word) = - (2 ^ n)"
    by (simp add: not_eq_complement mask_eq_exp_minus_1)
  ultimately show ?thesis
    using n by (simp add: signExtend_def testBit_iff_bit bitmask_eq_mask)
qed

subsection \<open>Tests of a bit field as literals\<close>

lemma bitRange_masked_lits:
  assumes "start \<le> stop" and "stop < LENGTH('a)"
    and "0 \<le> m" and "m < 2 ^ LENGTH('a)" and "0 \<le> v" and "v < 2 ^ LENGTH('a)"
  shows "bitRange start stop (w :: 'a::len word) AND of_int m = of_int v \<longleftrightarrow>
    lits start (take_bit (Suc stop - start) m) v w"
  using bit_int_less [OF assms(3,4)] bit_int_less [OF assms(5,6)] assms(1,2)
  by (auto simp: lits_def bit_eq_iff bit_simps bit_bitRange)

lemma bitRange_eq_lits:
  assumes "start \<le> stop" and "stop < LENGTH('a)" and "0 \<le> v" and "v < 2 ^ LENGTH('a)"
  shows "bitRange start stop (w :: 'a::len word) = of_int v \<longleftrightarrow>
    lits start (2 ^ (Suc stop - start) - 1) v w"
proof -
  have "take_bit (Suc stop - start) (mask LENGTH('a)) = (mask (Suc stop - start) :: int)"
    using assms by (simp add: min_def)
  moreover have "(mask LENGTH('a) :: int) < 2 ^ LENGTH('a)"
    by (simp add: mask_eq_exp_minus_1)
  moreover have "bitRange start stop w AND of_int (mask LENGTH('a)) = bitRange start stop w"
    by (simp add: of_int_mask_eq)
  ultimately show ?thesis
    using bitRange_masked_lits [of start stop "mask LENGTH('a)" v w] assms
    by (simp only: mask_eq_exp_minus_1 [symmetric]) simp
qed

lemma bitRange_single: "a < LENGTH('a) \<Longrightarrow> bitRange a a (w :: 'a::len word) = of_bool (bit w a)"
  by (intro bit_word_eqI) (auto simp: bit_bitRange bit_simps)

lemma bitRange_less_exp:
  assumes "start + k \<le> stop" and "stop < LENGTH('a)"
  shows "bitRange start stop (w :: 'a::len word) < 2 ^ k \<longleftrightarrow> bitRange (start + k) stop w = 0"
proof -
  have "bitRange (start + k) stop w = drop_bit k (bitRange start stop w)"
    using assms by (intro bit_word_eqI) (auto simp: bit_bitRange bit_simps ac_simps)
  then show ?thesis
    using assms by (simp add: word_less_two_power)
qed

lemma bitRange_less_size:
  assumes "start \<le> stop" and "stop < LENGTH('a)" and "Suc stop - start < LENGTH('a)"
  shows "bitRange start stop (w :: 'a::len word) < 2 ^ (Suc stop - start)"
proof -
  have "drop_bit (Suc stop - start) (bitRange start stop w) = 0"
    using assms by (intro bit_word_eqI) (auto simp: bit_bitRange bit_simps)
  then show ?thesis using assms by (simp add: word_less_two_power)
qed

text \<open>
  The rules for instruction words: a 32-bit word compared under a mask, a field of it compared
  with a constant, ordered against a constant, or tested for one bit.
\<close>

lemma masked_numeral_lits [bit_lits]:
  fixes w :: u32
  assumes "(numeral m :: int) < 2 ^ 32"
  shows "w AND numeral m = 0 \<longleftrightarrow> lits 0 (numeral m) 0 w"
    and "w AND numeral m = 1 \<longleftrightarrow> lits 0 (numeral m) 1 w"
    and "(numeral v :: int) < 2 ^ 32 \<Longrightarrow> w AND numeral m = numeral v \<longleftrightarrow> lits 0 (numeral m) (numeral v) w"
  using masked_eq_lits [of "numeral m" 0 w] masked_eq_lits [of "numeral m" 1 w]
    masked_eq_lits [of "numeral m" "numeral v" w] assms by simp_all

lemma field_eq_lits [bit_lits]:
  fixes w :: u32
  assumes "start \<le> stop" and "stop < 32"
  shows "bitRange start stop w = 0 \<longleftrightarrow> lits start (2 ^ (Suc stop - start) - 1) 0 w"
    and "bitRange start stop w = 1 \<longleftrightarrow> lits start (2 ^ (Suc stop - start) - 1) 1 w"
    and "(numeral v :: int) < 2 ^ 32 \<Longrightarrow>
      bitRange start stop w = numeral v \<longleftrightarrow> lits start (2 ^ (Suc stop - start) - 1) (numeral v) w"
  using bitRange_eq_lits [of start stop 0 w] bitRange_eq_lits [of start stop 1 w]
    bitRange_eq_lits [of start stop "numeral v" w] assms by simp_all

lemma field_masked_lits [bit_lits]:
  fixes w :: u32
  assumes "start \<le> stop" and "stop < 32"
  shows "bitRange start stop w AND 1 = 0 \<longleftrightarrow> \<not> bit w start"
    and "bitRange start stop w AND 1 = 1 \<longleftrightarrow> bit w start"
    and "(numeral m :: int) < 2 ^ 32 \<Longrightarrow> bitRange start stop w AND numeral m = 0 \<longleftrightarrow>
      lits start (take_bit (Suc stop - start) (numeral m)) 0 w"
    and "(numeral m :: int) < 2 ^ 32 \<Longrightarrow> bitRange start stop w AND numeral m = 1 \<longleftrightarrow>
      lits start (take_bit (Suc stop - start) (numeral m)) 1 w"
    and "(numeral m :: int) < 2 ^ 32 \<Longrightarrow> (numeral v :: int) < 2 ^ 32 \<Longrightarrow>
      bitRange start stop w AND numeral m = numeral v \<longleftrightarrow>
      lits start (take_bit (Suc stop - start) (numeral m)) (numeral v) w"
proof -
  have "odd (bitRange start stop w) \<longleftrightarrow> bit w start"
    using bit_bitRange [of start stop w 0] assms by (simp add: bit_0)
  then show "bitRange start stop w AND 1 = 0 \<longleftrightarrow> \<not> bit w start"
    and "bitRange start stop w AND 1 = 1 \<longleftrightarrow> bit w start"
    by (auto simp: and_one_eq mod_2_eq_odd)
qed (use bitRange_masked_lits [of start stop "numeral m" 0 w]
    bitRange_masked_lits [of start stop "numeral m" 1 w]
    bitRange_masked_lits [of start stop "numeral m" "numeral v" w] assms in simp_all)

lemma field_less_lits [bit_lits]:
  fixes w :: u32
  assumes "stop < 32"
  shows "start + 1 \<le> stop \<Longrightarrow> bitRange start stop w < 2 \<longleftrightarrow> bitRange (start + 1) stop w = 0"
    and "start + 2 \<le> stop \<Longrightarrow> bitRange start stop w < 4 \<longleftrightarrow> bitRange (start + 2) stop w = 0"
    and "start + 3 \<le> stop \<Longrightarrow> bitRange start stop w < 8 \<longleftrightarrow> bitRange (start + 3) stop w = 0"
    and "start + 5 \<le> stop \<Longrightarrow> bitRange start stop w < 32 \<longleftrightarrow> bitRange (start + 5) stop w = 0"
  using bitRange_less_exp [of start 1 stop w] bitRange_less_exp [of start 2 stop w]
    bitRange_less_exp [of start 3 stop w] bitRange_less_exp [of start 5 stop w] assms
  by simp_all

lemma greater_numeral_lits [bit_lits]:
  fixes x :: u32
  shows "1 < x \<longleftrightarrow> \<not> x < 2" and "3 < x \<longleftrightarrow> \<not> x < 4" and "7 < x \<longleftrightarrow> \<not> x < 8" and "31 < x \<longleftrightarrow> \<not> x < 32"
    and "4 < x \<longleftrightarrow> \<not> x < 8 \<or> x = 5 \<or> x = 6 \<or> x = 7"
    and "5 < x \<longleftrightarrow> \<not> x < 8 \<or> x = 6 \<or> x = 7"
  by unat_arith+

lemma testBit_lits [bit_lits]:
  fixes w :: u32
  shows "n < 32 \<Longrightarrow> testBit n w \<longleftrightarrow> bit w n"
    and "start \<le> stop \<Longrightarrow> stop < 32 \<Longrightarrow>
      bit (bitRange start stop w) n \<longleftrightarrow> n < Suc stop - start \<and> bit w (start + n)"
    and "a < 32 \<Longrightarrow> b < 32 \<Longrightarrow> bitRange a a w = bitRange b b w \<longleftrightarrow> bit w a = bit w b"
  by (simp_all add: testBit_iff_bit bit_bitRange bitRange_single)

end
