(* ===== verification/Instruction_Ids.thy ===== *)
theory Instruction_Ids
  imports Emu_Prelude
begin

text \<open>
  The enumeration \<^verbatim>\<open>instructionID\<close> (\<^verbatim>\<open>libcpu/inc/instructionTable.h\<close>): \<^verbatim>\<open>INVALID\<close>, then one
  enumerator per \<^verbatim>\<open>INST\<close> line of \<^verbatim>\<open>libcpu/inc/instructions.inl\<close> in the order of that file, then
  \<^verbatim>\<open>NUM_INSTRUCTIONS\<close>. The C++ type is an \<^verbatim>\<open>enum class\<close> over \<^verbatim>\<open>uint32_t\<close> whose values index the
  tables of the decoder, the encoder and the interpreter, so an enumerator is its value; the
  name \<open>ID_x\<close> stands for \<^verbatim>\<open>instructionID::x\<close>. With more than a thousand enumerators a
  \<^theory_text>\<open>datatype\<close> would need over a million distinctness facts; numerals are told apart by
  arithmetic.
\<close>

type_synonym instructionID = nat

abbreviation (input) ID_INVALID :: instructionID where "ID_INVALID \<equiv> 0"

text \<open>Branch\<close>

abbreviation (input) ID_B_cond :: instructionID where "ID_B_cond \<equiv> 1"
abbreviation (input) ID_BR :: instructionID where "ID_BR \<equiv> 2"
abbreviation (input) ID_BLR :: instructionID where "ID_BLR \<equiv> 3"
abbreviation (input) ID_RET :: instructionID where "ID_RET \<equiv> 4"
abbreviation (input) ID_ERET :: instructionID where "ID_ERET \<equiv> 5"
abbreviation (input) ID_DRPS :: instructionID where "ID_DRPS \<equiv> 6"
abbreviation (input) ID_B :: instructionID where "ID_B \<equiv> 7"
abbreviation (input) ID_BL :: instructionID where "ID_BL \<equiv> 8"
abbreviation (input) ID_CBZ_32 :: instructionID where "ID_CBZ_32 \<equiv> 9"
abbreviation (input) ID_CBNZ_32 :: instructionID where "ID_CBNZ_32 \<equiv> 10"
abbreviation (input) ID_CBZ_64 :: instructionID where "ID_CBZ_64 \<equiv> 11"
abbreviation (input) ID_CBNZ_64 :: instructionID where "ID_CBNZ_64 \<equiv> 12"
abbreviation (input) ID_TBZ :: instructionID where "ID_TBZ \<equiv> 13"
abbreviation (input) ID_TBNZ :: instructionID where "ID_TBNZ \<equiv> 14"

text \<open>Exception Generating\<close>

abbreviation (input) ID_SVC :: instructionID where "ID_SVC \<equiv> 15"
abbreviation (input) ID_HVC :: instructionID where "ID_HVC \<equiv> 16"
abbreviation (input) ID_SMC :: instructionID where "ID_SMC \<equiv> 17"
abbreviation (input) ID_BRK :: instructionID where "ID_BRK \<equiv> 18"
abbreviation (input) ID_HLT :: instructionID where "ID_HLT \<equiv> 19"
abbreviation (input) ID_DCPS1 :: instructionID where "ID_DCPS1 \<equiv> 20"
abbreviation (input) ID_DCPS2 :: instructionID where "ID_DCPS2 \<equiv> 21"
abbreviation (input) ID_DCPS3 :: instructionID where "ID_DCPS3 \<equiv> 22"

text \<open>System\<close>

abbreviation (input) ID_MSR_imm :: instructionID where "ID_MSR_imm \<equiv> 23"
abbreviation (input) ID_MSR_reg :: instructionID where "ID_MSR_reg \<equiv> 24"
abbreviation (input) ID_HINT :: instructionID where "ID_HINT \<equiv> 25"
abbreviation (input) ID_NOP :: instructionID where "ID_NOP \<equiv> 26"
abbreviation (input) ID_YIELD :: instructionID where "ID_YIELD \<equiv> 27"
abbreviation (input) ID_WFE :: instructionID where "ID_WFE \<equiv> 28"
abbreviation (input) ID_WFI :: instructionID where "ID_WFI \<equiv> 29"
abbreviation (input) ID_SEV :: instructionID where "ID_SEV \<equiv> 30"
abbreviation (input) ID_SEVL :: instructionID where "ID_SEVL \<equiv> 31"
abbreviation (input) ID_CLREX :: instructionID where "ID_CLREX \<equiv> 32"
abbreviation (input) ID_DSB :: instructionID where "ID_DSB \<equiv> 33"
abbreviation (input) ID_DMB :: instructionID where "ID_DMB \<equiv> 34"
abbreviation (input) ID_ISB :: instructionID where "ID_ISB \<equiv> 35"
abbreviation (input) ID_SYS :: instructionID where "ID_SYS \<equiv> 36"
abbreviation (input) ID_SYSL :: instructionID where "ID_SYSL \<equiv> 37"
abbreviation (input) ID_MRS :: instructionID where "ID_MRS \<equiv> 38"

text \<open>PC-rel. addressing\<close>

abbreviation (input) ID_ADR :: instructionID where "ID_ADR \<equiv> 39"
abbreviation (input) ID_ADRP :: instructionID where "ID_ADRP \<equiv> 40"

text \<open>Add/subtract (immediate)\<close>

abbreviation (input) ID_ADD_32_imm :: instructionID where "ID_ADD_32_imm \<equiv> 41"
abbreviation (input) ID_ADDS_32_imm :: instructionID where "ID_ADDS_32_imm \<equiv> 42"
abbreviation (input) ID_SUB_32_imm :: instructionID where "ID_SUB_32_imm \<equiv> 43"
abbreviation (input) ID_SUBS_32_imm :: instructionID where "ID_SUBS_32_imm \<equiv> 44"
abbreviation (input) ID_ADD_64_imm :: instructionID where "ID_ADD_64_imm \<equiv> 45"
abbreviation (input) ID_ADDS_64_imm :: instructionID where "ID_ADDS_64_imm \<equiv> 46"
abbreviation (input) ID_SUB_64_imm :: instructionID where "ID_SUB_64_imm \<equiv> 47"
abbreviation (input) ID_SUBS_64_imm :: instructionID where "ID_SUBS_64_imm \<equiv> 48"

text \<open>Logical (immediate)\<close>

abbreviation (input) ID_AND_32_imm :: instructionID where "ID_AND_32_imm \<equiv> 49"
abbreviation (input) ID_ORR_32_imm :: instructionID where "ID_ORR_32_imm \<equiv> 50"
abbreviation (input) ID_EOR_32_imm :: instructionID where "ID_EOR_32_imm \<equiv> 51"
abbreviation (input) ID_ANDS_32_imm :: instructionID where "ID_ANDS_32_imm \<equiv> 52"
abbreviation (input) ID_AND_64_imm :: instructionID where "ID_AND_64_imm \<equiv> 53"
abbreviation (input) ID_ORR_64_imm :: instructionID where "ID_ORR_64_imm \<equiv> 54"
abbreviation (input) ID_EOR_64_imm :: instructionID where "ID_EOR_64_imm \<equiv> 55"
abbreviation (input) ID_ANDS_64_imm :: instructionID where "ID_ANDS_64_imm \<equiv> 56"

text \<open>Move wide (immediate)\<close>

abbreviation (input) ID_MOVN_32 :: instructionID where "ID_MOVN_32 \<equiv> 57"
abbreviation (input) ID_MOVZ_32 :: instructionID where "ID_MOVZ_32 \<equiv> 58"
abbreviation (input) ID_MOVK_32 :: instructionID where "ID_MOVK_32 \<equiv> 59"
abbreviation (input) ID_MOVN_64 :: instructionID where "ID_MOVN_64 \<equiv> 60"
abbreviation (input) ID_MOVZ_64 :: instructionID where "ID_MOVZ_64 \<equiv> 61"
abbreviation (input) ID_MOVK_64 :: instructionID where "ID_MOVK_64 \<equiv> 62"

text \<open>Bitfield\<close>

abbreviation (input) ID_SBFM_32 :: instructionID where "ID_SBFM_32 \<equiv> 63"
abbreviation (input) ID_BFM_32 :: instructionID where "ID_BFM_32 \<equiv> 64"
abbreviation (input) ID_UBFM_32 :: instructionID where "ID_UBFM_32 \<equiv> 65"
abbreviation (input) ID_SBFM_64 :: instructionID where "ID_SBFM_64 \<equiv> 66"
abbreviation (input) ID_BFM_64 :: instructionID where "ID_BFM_64 \<equiv> 67"
abbreviation (input) ID_UBFM_64 :: instructionID where "ID_UBFM_64 \<equiv> 68"

text \<open>Extract\<close>

abbreviation (input) ID_EXTR_32 :: instructionID where "ID_EXTR_32 \<equiv> 69"
abbreviation (input) ID_EXTR_64 :: instructionID where "ID_EXTR_64 \<equiv> 70"

text \<open>Data-processing (2 source)\<close>

abbreviation (input) ID_UDIV_32 :: instructionID where "ID_UDIV_32 \<equiv> 71"
abbreviation (input) ID_SDIV_32 :: instructionID where "ID_SDIV_32 \<equiv> 72"
abbreviation (input) ID_LSLV_32 :: instructionID where "ID_LSLV_32 \<equiv> 73"
abbreviation (input) ID_LSRV_32 :: instructionID where "ID_LSRV_32 \<equiv> 74"
abbreviation (input) ID_ASRV_32 :: instructionID where "ID_ASRV_32 \<equiv> 75"
abbreviation (input) ID_RORV_32 :: instructionID where "ID_RORV_32 \<equiv> 76"
abbreviation (input) ID_UDIV_64 :: instructionID where "ID_UDIV_64 \<equiv> 77"
abbreviation (input) ID_SDIV_64 :: instructionID where "ID_SDIV_64 \<equiv> 78"
abbreviation (input) ID_LSLV_64 :: instructionID where "ID_LSLV_64 \<equiv> 79"
abbreviation (input) ID_LSRV_64 :: instructionID where "ID_LSRV_64 \<equiv> 80"
abbreviation (input) ID_ASRV_64 :: instructionID where "ID_ASRV_64 \<equiv> 81"
abbreviation (input) ID_RORV_64 :: instructionID where "ID_RORV_64 \<equiv> 82"
abbreviation (input) ID_CRC32B :: instructionID where "ID_CRC32B \<equiv> 83"
abbreviation (input) ID_CRC32H :: instructionID where "ID_CRC32H \<equiv> 84"
abbreviation (input) ID_CRC32W :: instructionID where "ID_CRC32W \<equiv> 85"
abbreviation (input) ID_CRC32X :: instructionID where "ID_CRC32X \<equiv> 86"
abbreviation (input) ID_CRC32CB :: instructionID where "ID_CRC32CB \<equiv> 87"
abbreviation (input) ID_CRC32CH :: instructionID where "ID_CRC32CH \<equiv> 88"
abbreviation (input) ID_CRC32CW :: instructionID where "ID_CRC32CW \<equiv> 89"
abbreviation (input) ID_CRC32CX :: instructionID where "ID_CRC32CX \<equiv> 90"

text \<open>Data-processing (1 source)\<close>

abbreviation (input) ID_RBIT_32 :: instructionID where "ID_RBIT_32 \<equiv> 91"
abbreviation (input) ID_REV16_32 :: instructionID where "ID_REV16_32 \<equiv> 92"
abbreviation (input) ID_REV_32 :: instructionID where "ID_REV_32 \<equiv> 93"
abbreviation (input) ID_CLZ_32 :: instructionID where "ID_CLZ_32 \<equiv> 94"
abbreviation (input) ID_CLS_32 :: instructionID where "ID_CLS_32 \<equiv> 95"
abbreviation (input) ID_RBIT_64 :: instructionID where "ID_RBIT_64 \<equiv> 96"
abbreviation (input) ID_REV16_64 :: instructionID where "ID_REV16_64 \<equiv> 97"
abbreviation (input) ID_REV32_64 :: instructionID where "ID_REV32_64 \<equiv> 98"
abbreviation (input) ID_REV_64 :: instructionID where "ID_REV_64 \<equiv> 99"
abbreviation (input) ID_CLZ_64 :: instructionID where "ID_CLZ_64 \<equiv> 100"
abbreviation (input) ID_CLS_64 :: instructionID where "ID_CLS_64 \<equiv> 101"

text \<open>Logical (shifted register)\<close>

abbreviation (input) ID_AND_32_shifted :: instructionID where "ID_AND_32_shifted \<equiv> 102"
abbreviation (input) ID_BIC_32_shifted :: instructionID where "ID_BIC_32_shifted \<equiv> 103"
abbreviation (input) ID_ORR_32_shifted :: instructionID where "ID_ORR_32_shifted \<equiv> 104"
abbreviation (input) ID_ORN_32_shifted :: instructionID where "ID_ORN_32_shifted \<equiv> 105"
abbreviation (input) ID_EOR_32_shifted :: instructionID where "ID_EOR_32_shifted \<equiv> 106"
abbreviation (input) ID_EON_32_shifted :: instructionID where "ID_EON_32_shifted \<equiv> 107"
abbreviation (input) ID_ANDS_32_shifted :: instructionID where "ID_ANDS_32_shifted \<equiv> 108"
abbreviation (input) ID_BICS_32_shifted :: instructionID where "ID_BICS_32_shifted \<equiv> 109"
abbreviation (input) ID_AND_64_shifted :: instructionID where "ID_AND_64_shifted \<equiv> 110"
abbreviation (input) ID_BIC_64_shifted :: instructionID where "ID_BIC_64_shifted \<equiv> 111"
abbreviation (input) ID_ORR_64_shifted :: instructionID where "ID_ORR_64_shifted \<equiv> 112"
abbreviation (input) ID_ORN_64_shifted :: instructionID where "ID_ORN_64_shifted \<equiv> 113"
abbreviation (input) ID_EOR_64_shifted :: instructionID where "ID_EOR_64_shifted \<equiv> 114"
abbreviation (input) ID_EON_64_shifted :: instructionID where "ID_EON_64_shifted \<equiv> 115"
abbreviation (input) ID_ANDS_64_shifted :: instructionID where "ID_ANDS_64_shifted \<equiv> 116"
abbreviation (input) ID_BICS_64_shifted :: instructionID where "ID_BICS_64_shifted \<equiv> 117"

text \<open>Add/subtract (shifted register)\<close>

abbreviation (input) ID_ADD_32_shifted :: instructionID where "ID_ADD_32_shifted \<equiv> 118"
abbreviation (input) ID_ADDS_32_shifted :: instructionID where "ID_ADDS_32_shifted \<equiv> 119"
abbreviation (input) ID_SUB_32_shifted :: instructionID where "ID_SUB_32_shifted \<equiv> 120"
abbreviation (input) ID_SUBS_32_shifted :: instructionID where "ID_SUBS_32_shifted \<equiv> 121"
abbreviation (input) ID_ADD_64_shifted :: instructionID where "ID_ADD_64_shifted \<equiv> 122"
abbreviation (input) ID_ADDS_64_shifted :: instructionID where "ID_ADDS_64_shifted \<equiv> 123"
abbreviation (input) ID_SUB_64_shifted :: instructionID where "ID_SUB_64_shifted \<equiv> 124"
abbreviation (input) ID_SUBS_64_shifted :: instructionID where "ID_SUBS_64_shifted \<equiv> 125"

text \<open>Add/subtract (extended register)\<close>

abbreviation (input) ID_ADD_32_extended :: instructionID where "ID_ADD_32_extended \<equiv> 126"
abbreviation (input) ID_ADDS_32_extended :: instructionID where "ID_ADDS_32_extended \<equiv> 127"
abbreviation (input) ID_SUB_32_extended :: instructionID where "ID_SUB_32_extended \<equiv> 128"
abbreviation (input) ID_SUBS_32_extended :: instructionID where "ID_SUBS_32_extended \<equiv> 129"
abbreviation (input) ID_ADD_64_extended :: instructionID where "ID_ADD_64_extended \<equiv> 130"
abbreviation (input) ID_ADDS_64_extended :: instructionID where "ID_ADDS_64_extended \<equiv> 131"
abbreviation (input) ID_SUB_64_extended :: instructionID where "ID_SUB_64_extended \<equiv> 132"
abbreviation (input) ID_SUBS_64_extended :: instructionID where "ID_SUBS_64_extended \<equiv> 133"

text \<open>Add/subtract (with carry)\<close>

abbreviation (input) ID_ADC_32 :: instructionID where "ID_ADC_32 \<equiv> 134"
abbreviation (input) ID_ADCS_32 :: instructionID where "ID_ADCS_32 \<equiv> 135"
abbreviation (input) ID_SBC_32 :: instructionID where "ID_SBC_32 \<equiv> 136"
abbreviation (input) ID_SBCS_32 :: instructionID where "ID_SBCS_32 \<equiv> 137"
abbreviation (input) ID_ADC_64 :: instructionID where "ID_ADC_64 \<equiv> 138"
abbreviation (input) ID_ADCS_64 :: instructionID where "ID_ADCS_64 \<equiv> 139"
abbreviation (input) ID_SBC_64 :: instructionID where "ID_SBC_64 \<equiv> 140"
abbreviation (input) ID_SBCS_64 :: instructionID where "ID_SBCS_64 \<equiv> 141"

text \<open>Conditional compare (register)\<close>

abbreviation (input) ID_CCMN_32_reg :: instructionID where "ID_CCMN_32_reg \<equiv> 142"
abbreviation (input) ID_CCMP_32_reg :: instructionID where "ID_CCMP_32_reg \<equiv> 143"
abbreviation (input) ID_CCMN_64_reg :: instructionID where "ID_CCMN_64_reg \<equiv> 144"
abbreviation (input) ID_CCMP_64_reg :: instructionID where "ID_CCMP_64_reg \<equiv> 145"

text \<open>Conditional compare (immediate)\<close>

abbreviation (input) ID_CCMN_32_imm :: instructionID where "ID_CCMN_32_imm \<equiv> 146"
abbreviation (input) ID_CCMP_32_imm :: instructionID where "ID_CCMP_32_imm \<equiv> 147"
abbreviation (input) ID_CCMN_64_imm :: instructionID where "ID_CCMN_64_imm \<equiv> 148"
abbreviation (input) ID_CCMP_64_imm :: instructionID where "ID_CCMP_64_imm \<equiv> 149"

text \<open>Conditional select\<close>

abbreviation (input) ID_CSEL_32 :: instructionID where "ID_CSEL_32 \<equiv> 150"
abbreviation (input) ID_CSINC_32 :: instructionID where "ID_CSINC_32 \<equiv> 151"
abbreviation (input) ID_CSINV_32 :: instructionID where "ID_CSINV_32 \<equiv> 152"
abbreviation (input) ID_CSNEG_32 :: instructionID where "ID_CSNEG_32 \<equiv> 153"
abbreviation (input) ID_CSEL_64 :: instructionID where "ID_CSEL_64 \<equiv> 154"
abbreviation (input) ID_CSINC_64 :: instructionID where "ID_CSINC_64 \<equiv> 155"
abbreviation (input) ID_CSINV_64 :: instructionID where "ID_CSINV_64 \<equiv> 156"
abbreviation (input) ID_CSNEG_64 :: instructionID where "ID_CSNEG_64 \<equiv> 157"

text \<open>Data-processing (3 source)\<close>

abbreviation (input) ID_MADD_32 :: instructionID where "ID_MADD_32 \<equiv> 158"
abbreviation (input) ID_MSUB_32 :: instructionID where "ID_MSUB_32 \<equiv> 159"
abbreviation (input) ID_MADD_64 :: instructionID where "ID_MADD_64 \<equiv> 160"
abbreviation (input) ID_MSUB_64 :: instructionID where "ID_MSUB_64 \<equiv> 161"
abbreviation (input) ID_SMADDL :: instructionID where "ID_SMADDL \<equiv> 162"
abbreviation (input) ID_SMSUBL :: instructionID where "ID_SMSUBL \<equiv> 163"
abbreviation (input) ID_SMULH :: instructionID where "ID_SMULH \<equiv> 164"
abbreviation (input) ID_UMADDL :: instructionID where "ID_UMADDL \<equiv> 165"
abbreviation (input) ID_UMSUBL :: instructionID where "ID_UMSUBL \<equiv> 166"
abbreviation (input) ID_UMULH :: instructionID where "ID_UMULH \<equiv> 167"

text \<open>Advanced SIMD load/store multiple structures\<close>

abbreviation (input) ID_ST1_multi_1reg :: instructionID where "ID_ST1_multi_1reg \<equiv> 168"
abbreviation (input) ID_ST1_multi_2reg :: instructionID where "ID_ST1_multi_2reg \<equiv> 169"
abbreviation (input) ID_ST1_multi_3reg :: instructionID where "ID_ST1_multi_3reg \<equiv> 170"
abbreviation (input) ID_ST1_multi_4reg :: instructionID where "ID_ST1_multi_4reg \<equiv> 171"
abbreviation (input) ID_ST2_multi :: instructionID where "ID_ST2_multi \<equiv> 172"
abbreviation (input) ID_ST3_multi :: instructionID where "ID_ST3_multi \<equiv> 173"
abbreviation (input) ID_ST4_multi :: instructionID where "ID_ST4_multi \<equiv> 174"
abbreviation (input) ID_LD1_multi_1reg :: instructionID where "ID_LD1_multi_1reg \<equiv> 175"
abbreviation (input) ID_LD1_multi_2reg :: instructionID where "ID_LD1_multi_2reg \<equiv> 176"
abbreviation (input) ID_LD1_multi_3reg :: instructionID where "ID_LD1_multi_3reg \<equiv> 177"
abbreviation (input) ID_LD1_multi_4reg :: instructionID where "ID_LD1_multi_4reg \<equiv> 178"
abbreviation (input) ID_LD2_multi :: instructionID where "ID_LD2_multi \<equiv> 179"
abbreviation (input) ID_LD3_multi :: instructionID where "ID_LD3_multi \<equiv> 180"
abbreviation (input) ID_LD4_multi :: instructionID where "ID_LD4_multi \<equiv> 181"

text \<open>Advanced SIMD load/store multiple structures (post-indexed)\<close>

abbreviation (input) ID_ST1_multi_reg_1reg :: instructionID where "ID_ST1_multi_reg_1reg \<equiv> 182"
abbreviation (input) ID_ST1_multi_reg_2reg :: instructionID where "ID_ST1_multi_reg_2reg \<equiv> 183"
abbreviation (input) ID_ST1_multi_reg_3reg :: instructionID where "ID_ST1_multi_reg_3reg \<equiv> 184"
abbreviation (input) ID_ST1_multi_reg_4reg :: instructionID where "ID_ST1_multi_reg_4reg \<equiv> 185"
abbreviation (input) ID_ST2_multi_reg :: instructionID where "ID_ST2_multi_reg \<equiv> 186"
abbreviation (input) ID_ST3_multi_reg :: instructionID where "ID_ST3_multi_reg \<equiv> 187"
abbreviation (input) ID_ST4_multi_reg :: instructionID where "ID_ST4_multi_reg \<equiv> 188"
abbreviation (input) ID_ST1_multi_offset_1reg :: instructionID where "ID_ST1_multi_offset_1reg \<equiv> 189"
abbreviation (input) ID_ST1_multi_offset_2reg :: instructionID where "ID_ST1_multi_offset_2reg \<equiv> 190"
abbreviation (input) ID_ST1_multi_offset_3reg :: instructionID where "ID_ST1_multi_offset_3reg \<equiv> 191"
abbreviation (input) ID_ST1_multi_offset_4reg :: instructionID where "ID_ST1_multi_offset_4reg \<equiv> 192"
abbreviation (input) ID_ST2_multi_offset :: instructionID where "ID_ST2_multi_offset \<equiv> 193"
abbreviation (input) ID_ST3_multi_offset :: instructionID where "ID_ST3_multi_offset \<equiv> 194"
abbreviation (input) ID_ST4_multi_offset :: instructionID where "ID_ST4_multi_offset \<equiv> 195"
abbreviation (input) ID_LD1_multi_reg_1reg :: instructionID where "ID_LD1_multi_reg_1reg \<equiv> 196"
abbreviation (input) ID_LD1_multi_reg_2reg :: instructionID where "ID_LD1_multi_reg_2reg \<equiv> 197"
abbreviation (input) ID_LD1_multi_reg_3reg :: instructionID where "ID_LD1_multi_reg_3reg \<equiv> 198"
abbreviation (input) ID_LD1_multi_reg_4reg :: instructionID where "ID_LD1_multi_reg_4reg \<equiv> 199"
abbreviation (input) ID_LD2_multi_reg :: instructionID where "ID_LD2_multi_reg \<equiv> 200"
abbreviation (input) ID_LD3_multi_reg :: instructionID where "ID_LD3_multi_reg \<equiv> 201"
abbreviation (input) ID_LD4_multi_reg :: instructionID where "ID_LD4_multi_reg \<equiv> 202"
abbreviation (input) ID_LD1_multi_offset_1reg :: instructionID where "ID_LD1_multi_offset_1reg \<equiv> 203"
abbreviation (input) ID_LD1_multi_offset_2reg :: instructionID where "ID_LD1_multi_offset_2reg \<equiv> 204"
abbreviation (input) ID_LD1_multi_offset_3reg :: instructionID where "ID_LD1_multi_offset_3reg \<equiv> 205"
abbreviation (input) ID_LD1_multi_offset_4reg :: instructionID where "ID_LD1_multi_offset_4reg \<equiv> 206"
abbreviation (input) ID_LD2_multi_offset :: instructionID where "ID_LD2_multi_offset \<equiv> 207"
abbreviation (input) ID_LD3_multi_offset :: instructionID where "ID_LD3_multi_offset \<equiv> 208"
abbreviation (input) ID_LD4_multi_offset :: instructionID where "ID_LD4_multi_offset \<equiv> 209"

text \<open>Advanced SIMD load/store single structure\<close>

abbreviation (input) ID_ST1_single_8 :: instructionID where "ID_ST1_single_8 \<equiv> 210"
abbreviation (input) ID_ST1_single_16 :: instructionID where "ID_ST1_single_16 \<equiv> 211"
abbreviation (input) ID_ST1_single_32 :: instructionID where "ID_ST1_single_32 \<equiv> 212"
abbreviation (input) ID_ST1_single_64 :: instructionID where "ID_ST1_single_64 \<equiv> 213"
abbreviation (input) ID_ST2_single_8 :: instructionID where "ID_ST2_single_8 \<equiv> 214"
abbreviation (input) ID_ST2_single_16 :: instructionID where "ID_ST2_single_16 \<equiv> 215"
abbreviation (input) ID_ST2_single_32 :: instructionID where "ID_ST2_single_32 \<equiv> 216"
abbreviation (input) ID_ST2_single_64 :: instructionID where "ID_ST2_single_64 \<equiv> 217"
abbreviation (input) ID_ST3_single_8 :: instructionID where "ID_ST3_single_8 \<equiv> 218"
abbreviation (input) ID_ST3_single_16 :: instructionID where "ID_ST3_single_16 \<equiv> 219"
abbreviation (input) ID_ST3_single_32 :: instructionID where "ID_ST3_single_32 \<equiv> 220"
abbreviation (input) ID_ST3_single_64 :: instructionID where "ID_ST3_single_64 \<equiv> 221"
abbreviation (input) ID_ST4_single_8 :: instructionID where "ID_ST4_single_8 \<equiv> 222"
abbreviation (input) ID_ST4_single_16 :: instructionID where "ID_ST4_single_16 \<equiv> 223"
abbreviation (input) ID_ST4_single_32 :: instructionID where "ID_ST4_single_32 \<equiv> 224"
abbreviation (input) ID_ST4_single_64 :: instructionID where "ID_ST4_single_64 \<equiv> 225"
abbreviation (input) ID_LD1_single_8 :: instructionID where "ID_LD1_single_8 \<equiv> 226"
abbreviation (input) ID_LD1_single_16 :: instructionID where "ID_LD1_single_16 \<equiv> 227"
abbreviation (input) ID_LD1_single_32 :: instructionID where "ID_LD1_single_32 \<equiv> 228"
abbreviation (input) ID_LD1_single_64 :: instructionID where "ID_LD1_single_64 \<equiv> 229"
abbreviation (input) ID_LD2_single_8 :: instructionID where "ID_LD2_single_8 \<equiv> 230"
abbreviation (input) ID_LD2_single_16 :: instructionID where "ID_LD2_single_16 \<equiv> 231"
abbreviation (input) ID_LD2_single_32 :: instructionID where "ID_LD2_single_32 \<equiv> 232"
abbreviation (input) ID_LD2_single_64 :: instructionID where "ID_LD2_single_64 \<equiv> 233"
abbreviation (input) ID_LD3_single_8 :: instructionID where "ID_LD3_single_8 \<equiv> 234"
abbreviation (input) ID_LD3_single_16 :: instructionID where "ID_LD3_single_16 \<equiv> 235"
abbreviation (input) ID_LD3_single_32 :: instructionID where "ID_LD3_single_32 \<equiv> 236"
abbreviation (input) ID_LD3_single_64 :: instructionID where "ID_LD3_single_64 \<equiv> 237"
abbreviation (input) ID_LD4_single_8 :: instructionID where "ID_LD4_single_8 \<equiv> 238"
abbreviation (input) ID_LD4_single_16 :: instructionID where "ID_LD4_single_16 \<equiv> 239"
abbreviation (input) ID_LD4_single_32 :: instructionID where "ID_LD4_single_32 \<equiv> 240"
abbreviation (input) ID_LD4_single_64 :: instructionID where "ID_LD4_single_64 \<equiv> 241"
abbreviation (input) ID_LD1R :: instructionID where "ID_LD1R \<equiv> 242"
abbreviation (input) ID_LD2R :: instructionID where "ID_LD2R \<equiv> 243"
abbreviation (input) ID_LD3R :: instructionID where "ID_LD3R \<equiv> 244"
abbreviation (input) ID_LD4R :: instructionID where "ID_LD4R \<equiv> 245"

text \<open>Advanced SIMD load/store single structure (post-indexed)\<close>

abbreviation (input) ID_ST1_single_8_reg :: instructionID where "ID_ST1_single_8_reg \<equiv> 246"
abbreviation (input) ID_ST1_single_16_reg :: instructionID where "ID_ST1_single_16_reg \<equiv> 247"
abbreviation (input) ID_ST1_single_32_reg :: instructionID where "ID_ST1_single_32_reg \<equiv> 248"
abbreviation (input) ID_ST1_single_64_reg :: instructionID where "ID_ST1_single_64_reg \<equiv> 249"
abbreviation (input) ID_ST2_single_8_reg :: instructionID where "ID_ST2_single_8_reg \<equiv> 250"
abbreviation (input) ID_ST2_single_16_reg :: instructionID where "ID_ST2_single_16_reg \<equiv> 251"
abbreviation (input) ID_ST2_single_32_reg :: instructionID where "ID_ST2_single_32_reg \<equiv> 252"
abbreviation (input) ID_ST2_single_64_reg :: instructionID where "ID_ST2_single_64_reg \<equiv> 253"
abbreviation (input) ID_ST3_single_8_reg :: instructionID where "ID_ST3_single_8_reg \<equiv> 254"
abbreviation (input) ID_ST3_single_16_reg :: instructionID where "ID_ST3_single_16_reg \<equiv> 255"
abbreviation (input) ID_ST3_single_32_reg :: instructionID where "ID_ST3_single_32_reg \<equiv> 256"
abbreviation (input) ID_ST3_single_64_reg :: instructionID where "ID_ST3_single_64_reg \<equiv> 257"
abbreviation (input) ID_ST4_single_8_reg :: instructionID where "ID_ST4_single_8_reg \<equiv> 258"
abbreviation (input) ID_ST4_single_16_reg :: instructionID where "ID_ST4_single_16_reg \<equiv> 259"
abbreviation (input) ID_ST4_single_32_reg :: instructionID where "ID_ST4_single_32_reg \<equiv> 260"
abbreviation (input) ID_ST4_single_64_reg :: instructionID where "ID_ST4_single_64_reg \<equiv> 261"
abbreviation (input) ID_ST1_single_8_imm :: instructionID where "ID_ST1_single_8_imm \<equiv> 262"
abbreviation (input) ID_ST1_single_16_imm :: instructionID where "ID_ST1_single_16_imm \<equiv> 263"
abbreviation (input) ID_ST1_single_32_imm :: instructionID where "ID_ST1_single_32_imm \<equiv> 264"
abbreviation (input) ID_ST1_single_64_imm :: instructionID where "ID_ST1_single_64_imm \<equiv> 265"
abbreviation (input) ID_ST2_single_8_imm :: instructionID where "ID_ST2_single_8_imm \<equiv> 266"
abbreviation (input) ID_ST2_single_16_imm :: instructionID where "ID_ST2_single_16_imm \<equiv> 267"
abbreviation (input) ID_ST2_single_32_imm :: instructionID where "ID_ST2_single_32_imm \<equiv> 268"
abbreviation (input) ID_ST2_single_64_imm :: instructionID where "ID_ST2_single_64_imm \<equiv> 269"
abbreviation (input) ID_ST3_single_8_imm :: instructionID where "ID_ST3_single_8_imm \<equiv> 270"
abbreviation (input) ID_ST3_single_16_imm :: instructionID where "ID_ST3_single_16_imm \<equiv> 271"
abbreviation (input) ID_ST3_single_32_imm :: instructionID where "ID_ST3_single_32_imm \<equiv> 272"
abbreviation (input) ID_ST3_single_64_imm :: instructionID where "ID_ST3_single_64_imm \<equiv> 273"
abbreviation (input) ID_ST4_single_8_imm :: instructionID where "ID_ST4_single_8_imm \<equiv> 274"
abbreviation (input) ID_ST4_single_16_imm :: instructionID where "ID_ST4_single_16_imm \<equiv> 275"
abbreviation (input) ID_ST4_single_32_imm :: instructionID where "ID_ST4_single_32_imm \<equiv> 276"
abbreviation (input) ID_ST4_single_64_imm :: instructionID where "ID_ST4_single_64_imm \<equiv> 277"
abbreviation (input) ID_LD1_single_8_reg :: instructionID where "ID_LD1_single_8_reg \<equiv> 278"
abbreviation (input) ID_LD1_single_16_reg :: instructionID where "ID_LD1_single_16_reg \<equiv> 279"
abbreviation (input) ID_LD1_single_32_reg :: instructionID where "ID_LD1_single_32_reg \<equiv> 280"
abbreviation (input) ID_LD1_single_64_reg :: instructionID where "ID_LD1_single_64_reg \<equiv> 281"
abbreviation (input) ID_LD2_single_8_reg :: instructionID where "ID_LD2_single_8_reg \<equiv> 282"
abbreviation (input) ID_LD2_single_16_reg :: instructionID where "ID_LD2_single_16_reg \<equiv> 283"
abbreviation (input) ID_LD2_single_32_reg :: instructionID where "ID_LD2_single_32_reg \<equiv> 284"
abbreviation (input) ID_LD2_single_64_reg :: instructionID where "ID_LD2_single_64_reg \<equiv> 285"
abbreviation (input) ID_LD3_single_8_reg :: instructionID where "ID_LD3_single_8_reg \<equiv> 286"
abbreviation (input) ID_LD3_single_16_reg :: instructionID where "ID_LD3_single_16_reg \<equiv> 287"
abbreviation (input) ID_LD3_single_32_reg :: instructionID where "ID_LD3_single_32_reg \<equiv> 288"
abbreviation (input) ID_LD3_single_64_reg :: instructionID where "ID_LD3_single_64_reg \<equiv> 289"
abbreviation (input) ID_LD4_single_8_reg :: instructionID where "ID_LD4_single_8_reg \<equiv> 290"
abbreviation (input) ID_LD4_single_16_reg :: instructionID where "ID_LD4_single_16_reg \<equiv> 291"
abbreviation (input) ID_LD4_single_32_reg :: instructionID where "ID_LD4_single_32_reg \<equiv> 292"
abbreviation (input) ID_LD4_single_64_reg :: instructionID where "ID_LD4_single_64_reg \<equiv> 293"
abbreviation (input) ID_LD1R_reg :: instructionID where "ID_LD1R_reg \<equiv> 294"
abbreviation (input) ID_LD2R_reg :: instructionID where "ID_LD2R_reg \<equiv> 295"
abbreviation (input) ID_LD3R_reg :: instructionID where "ID_LD3R_reg \<equiv> 296"
abbreviation (input) ID_LD4R_reg :: instructionID where "ID_LD4R_reg \<equiv> 297"
abbreviation (input) ID_LD1_single_8_imm :: instructionID where "ID_LD1_single_8_imm \<equiv> 298"
abbreviation (input) ID_LD1_single_16_imm :: instructionID where "ID_LD1_single_16_imm \<equiv> 299"
abbreviation (input) ID_LD1_single_32_imm :: instructionID where "ID_LD1_single_32_imm \<equiv> 300"
abbreviation (input) ID_LD1_single_64_imm :: instructionID where "ID_LD1_single_64_imm \<equiv> 301"
abbreviation (input) ID_LD2_single_8_imm :: instructionID where "ID_LD2_single_8_imm \<equiv> 302"
abbreviation (input) ID_LD2_single_16_imm :: instructionID where "ID_LD2_single_16_imm \<equiv> 303"
abbreviation (input) ID_LD2_single_32_imm :: instructionID where "ID_LD2_single_32_imm \<equiv> 304"
abbreviation (input) ID_LD2_single_64_imm :: instructionID where "ID_LD2_single_64_imm \<equiv> 305"
abbreviation (input) ID_LD3_single_8_imm :: instructionID where "ID_LD3_single_8_imm \<equiv> 306"
abbreviation (input) ID_LD3_single_16_imm :: instructionID where "ID_LD3_single_16_imm \<equiv> 307"
abbreviation (input) ID_LD3_single_32_imm :: instructionID where "ID_LD3_single_32_imm \<equiv> 308"
abbreviation (input) ID_LD3_single_64_imm :: instructionID where "ID_LD3_single_64_imm \<equiv> 309"
abbreviation (input) ID_LD4_single_8_imm :: instructionID where "ID_LD4_single_8_imm \<equiv> 310"
abbreviation (input) ID_LD4_single_16_imm :: instructionID where "ID_LD4_single_16_imm \<equiv> 311"
abbreviation (input) ID_LD4_single_32_imm :: instructionID where "ID_LD4_single_32_imm \<equiv> 312"
abbreviation (input) ID_LD4_single_64_imm :: instructionID where "ID_LD4_single_64_imm \<equiv> 313"
abbreviation (input) ID_LD1R_imm :: instructionID where "ID_LD1R_imm \<equiv> 314"
abbreviation (input) ID_LD2R_imm :: instructionID where "ID_LD2R_imm \<equiv> 315"
abbreviation (input) ID_LD3R_imm :: instructionID where "ID_LD3R_imm \<equiv> 316"
abbreviation (input) ID_LD4R_imm :: instructionID where "ID_LD4R_imm \<equiv> 317"

text \<open>Load/store exclusive\<close>

abbreviation (input) ID_STXRB :: instructionID where "ID_STXRB \<equiv> 318"
abbreviation (input) ID_STLXRB :: instructionID where "ID_STLXRB \<equiv> 319"
abbreviation (input) ID_LDXRB :: instructionID where "ID_LDXRB \<equiv> 320"
abbreviation (input) ID_LDAXRB :: instructionID where "ID_LDAXRB \<equiv> 321"
abbreviation (input) ID_STLRB :: instructionID where "ID_STLRB \<equiv> 322"
abbreviation (input) ID_LDARB :: instructionID where "ID_LDARB \<equiv> 323"
abbreviation (input) ID_STXRH :: instructionID where "ID_STXRH \<equiv> 324"
abbreviation (input) ID_STLXRH :: instructionID where "ID_STLXRH \<equiv> 325"
abbreviation (input) ID_LDXRH :: instructionID where "ID_LDXRH \<equiv> 326"
abbreviation (input) ID_LDAXRH :: instructionID where "ID_LDAXRH \<equiv> 327"
abbreviation (input) ID_STLRH :: instructionID where "ID_STLRH \<equiv> 328"
abbreviation (input) ID_LDARH :: instructionID where "ID_LDARH \<equiv> 329"
abbreviation (input) ID_STXR32 :: instructionID where "ID_STXR32 \<equiv> 330"
abbreviation (input) ID_STLXR32 :: instructionID where "ID_STLXR32 \<equiv> 331"
abbreviation (input) ID_STXP32 :: instructionID where "ID_STXP32 \<equiv> 332"
abbreviation (input) ID_STLXP32 :: instructionID where "ID_STLXP32 \<equiv> 333"
abbreviation (input) ID_LDXR32 :: instructionID where "ID_LDXR32 \<equiv> 334"
abbreviation (input) ID_LDAXR32 :: instructionID where "ID_LDAXR32 \<equiv> 335"
abbreviation (input) ID_LDXP32 :: instructionID where "ID_LDXP32 \<equiv> 336"
abbreviation (input) ID_LDAXP32 :: instructionID where "ID_LDAXP32 \<equiv> 337"
abbreviation (input) ID_STLR32 :: instructionID where "ID_STLR32 \<equiv> 338"
abbreviation (input) ID_LDAR32 :: instructionID where "ID_LDAR32 \<equiv> 339"
abbreviation (input) ID_STXR64 :: instructionID where "ID_STXR64 \<equiv> 340"
abbreviation (input) ID_STLXR64 :: instructionID where "ID_STLXR64 \<equiv> 341"
abbreviation (input) ID_STXP64 :: instructionID where "ID_STXP64 \<equiv> 342"
abbreviation (input) ID_STLXP64 :: instructionID where "ID_STLXP64 \<equiv> 343"
abbreviation (input) ID_LDXR64 :: instructionID where "ID_LDXR64 \<equiv> 344"
abbreviation (input) ID_LDAXR64 :: instructionID where "ID_LDAXR64 \<equiv> 345"
abbreviation (input) ID_LDXP64 :: instructionID where "ID_LDXP64 \<equiv> 346"
abbreviation (input) ID_LDAXP64 :: instructionID where "ID_LDAXP64 \<equiv> 347"
abbreviation (input) ID_STLR64 :: instructionID where "ID_STLR64 \<equiv> 348"
abbreviation (input) ID_LDAR64 :: instructionID where "ID_LDAR64 \<equiv> 349"

text \<open>Load register (literal)\<close>

abbreviation (input) ID_LDR32_literal :: instructionID where "ID_LDR32_literal \<equiv> 350"
abbreviation (input) ID_LDR32_literal_float :: instructionID where "ID_LDR32_literal_float \<equiv> 351"
abbreviation (input) ID_LDR64_literal :: instructionID where "ID_LDR64_literal \<equiv> 352"
abbreviation (input) ID_LDR64_literal_float :: instructionID where "ID_LDR64_literal_float \<equiv> 353"
abbreviation (input) ID_LDRSW_literal :: instructionID where "ID_LDRSW_literal \<equiv> 354"
abbreviation (input) ID_LDR128_literal :: instructionID where "ID_LDR128_literal \<equiv> 355"
abbreviation (input) ID_PRFM_literal :: instructionID where "ID_PRFM_literal \<equiv> 356"

text \<open>Load/store no-allocate pair (offset)\<close>

abbreviation (input) ID_STNP32 :: instructionID where "ID_STNP32 \<equiv> 357"
abbreviation (input) ID_LDNP32 :: instructionID where "ID_LDNP32 \<equiv> 358"
abbreviation (input) ID_STNP32_float :: instructionID where "ID_STNP32_float \<equiv> 359"
abbreviation (input) ID_LDNP32_float :: instructionID where "ID_LDNP32_float \<equiv> 360"
abbreviation (input) ID_STNP64_float :: instructionID where "ID_STNP64_float \<equiv> 361"
abbreviation (input) ID_LDNP64_float :: instructionID where "ID_LDNP64_float \<equiv> 362"
abbreviation (input) ID_STNP64 :: instructionID where "ID_STNP64 \<equiv> 363"
abbreviation (input) ID_LDNP64 :: instructionID where "ID_LDNP64 \<equiv> 364"
abbreviation (input) ID_STNP128 :: instructionID where "ID_STNP128 \<equiv> 365"
abbreviation (input) ID_LDNP128 :: instructionID where "ID_LDNP128 \<equiv> 366"

text \<open>Load/store register pair (post-indexed)\<close>

abbreviation (input) ID_STP32_post :: instructionID where "ID_STP32_post \<equiv> 367"
abbreviation (input) ID_LDP32_post :: instructionID where "ID_LDP32_post \<equiv> 368"
abbreviation (input) ID_STP32_post_float :: instructionID where "ID_STP32_post_float \<equiv> 369"
abbreviation (input) ID_LDP32_post_float :: instructionID where "ID_LDP32_post_float \<equiv> 370"
abbreviation (input) ID_LDPSW_post :: instructionID where "ID_LDPSW_post \<equiv> 371"
abbreviation (input) ID_STP64_post_float :: instructionID where "ID_STP64_post_float \<equiv> 372"
abbreviation (input) ID_LDP64_post_float :: instructionID where "ID_LDP64_post_float \<equiv> 373"
abbreviation (input) ID_STP64_post :: instructionID where "ID_STP64_post \<equiv> 374"
abbreviation (input) ID_LDP64_post :: instructionID where "ID_LDP64_post \<equiv> 375"
abbreviation (input) ID_STP128_post :: instructionID where "ID_STP128_post \<equiv> 376"
abbreviation (input) ID_LDP128_post :: instructionID where "ID_LDP128_post \<equiv> 377"

text \<open>Load/store register pair (offset)\<close>

abbreviation (input) ID_STP32_offset :: instructionID where "ID_STP32_offset \<equiv> 378"
abbreviation (input) ID_LDP32_offset :: instructionID where "ID_LDP32_offset \<equiv> 379"
abbreviation (input) ID_STP32_offset_float :: instructionID where "ID_STP32_offset_float \<equiv> 380"
abbreviation (input) ID_LDP32_offset_float :: instructionID where "ID_LDP32_offset_float \<equiv> 381"
abbreviation (input) ID_LDPSW_offset :: instructionID where "ID_LDPSW_offset \<equiv> 382"
abbreviation (input) ID_STP64_offset_float :: instructionID where "ID_STP64_offset_float \<equiv> 383"
abbreviation (input) ID_LDP64_offset_float :: instructionID where "ID_LDP64_offset_float \<equiv> 384"
abbreviation (input) ID_STP64_offset :: instructionID where "ID_STP64_offset \<equiv> 385"
abbreviation (input) ID_LDP64_offset :: instructionID where "ID_LDP64_offset \<equiv> 386"
abbreviation (input) ID_STP128_offset :: instructionID where "ID_STP128_offset \<equiv> 387"
abbreviation (input) ID_LDP128_offset :: instructionID where "ID_LDP128_offset \<equiv> 388"

text \<open>Load/store register pair (pre-indexed)\<close>

abbreviation (input) ID_STP32_pre :: instructionID where "ID_STP32_pre \<equiv> 389"
abbreviation (input) ID_LDP32_pre :: instructionID where "ID_LDP32_pre \<equiv> 390"
abbreviation (input) ID_STP32_pre_float :: instructionID where "ID_STP32_pre_float \<equiv> 391"
abbreviation (input) ID_LDP32_pre_float :: instructionID where "ID_LDP32_pre_float \<equiv> 392"
abbreviation (input) ID_LDPSW_pre :: instructionID where "ID_LDPSW_pre \<equiv> 393"
abbreviation (input) ID_STP64_pre_float :: instructionID where "ID_STP64_pre_float \<equiv> 394"
abbreviation (input) ID_LDP64_pre_float :: instructionID where "ID_LDP64_pre_float \<equiv> 395"
abbreviation (input) ID_STP64_pre :: instructionID where "ID_STP64_pre \<equiv> 396"
abbreviation (input) ID_LDP64_pre :: instructionID where "ID_LDP64_pre \<equiv> 397"
abbreviation (input) ID_STP128_pre :: instructionID where "ID_STP128_pre \<equiv> 398"
abbreviation (input) ID_LDP128_pre :: instructionID where "ID_LDP128_pre \<equiv> 399"

text \<open>Load/store register (unscaled immediate)\<close>

abbreviation (input) ID_STURB :: instructionID where "ID_STURB \<equiv> 400"
abbreviation (input) ID_LDURB :: instructionID where "ID_LDURB \<equiv> 401"
abbreviation (input) ID_LDURSB64 :: instructionID where "ID_LDURSB64 \<equiv> 402"
abbreviation (input) ID_LDURSB32 :: instructionID where "ID_LDURSB32 \<equiv> 403"
abbreviation (input) ID_STUR8_float :: instructionID where "ID_STUR8_float \<equiv> 404"
abbreviation (input) ID_LDUR8_float :: instructionID where "ID_LDUR8_float \<equiv> 405"
abbreviation (input) ID_STUR128 :: instructionID where "ID_STUR128 \<equiv> 406"
abbreviation (input) ID_LDUR128 :: instructionID where "ID_LDUR128 \<equiv> 407"
abbreviation (input) ID_STURH :: instructionID where "ID_STURH \<equiv> 408"
abbreviation (input) ID_LDURH :: instructionID where "ID_LDURH \<equiv> 409"
abbreviation (input) ID_LDURSH64 :: instructionID where "ID_LDURSH64 \<equiv> 410"
abbreviation (input) ID_LDURSH32 :: instructionID where "ID_LDURSH32 \<equiv> 411"
abbreviation (input) ID_STUR16_float :: instructionID where "ID_STUR16_float \<equiv> 412"
abbreviation (input) ID_LDUR16_float :: instructionID where "ID_LDUR16_float \<equiv> 413"
abbreviation (input) ID_STUR32 :: instructionID where "ID_STUR32 \<equiv> 414"
abbreviation (input) ID_LDUR32 :: instructionID where "ID_LDUR32 \<equiv> 415"
abbreviation (input) ID_LDURSW :: instructionID where "ID_LDURSW \<equiv> 416"
abbreviation (input) ID_STUR32_float :: instructionID where "ID_STUR32_float \<equiv> 417"
abbreviation (input) ID_LDUR32_float :: instructionID where "ID_LDUR32_float \<equiv> 418"
abbreviation (input) ID_STUR64 :: instructionID where "ID_STUR64 \<equiv> 419"
abbreviation (input) ID_LDUR64 :: instructionID where "ID_LDUR64 \<equiv> 420"
abbreviation (input) ID_PRFM_unscaled :: instructionID where "ID_PRFM_unscaled \<equiv> 421"
abbreviation (input) ID_STUR64_float :: instructionID where "ID_STUR64_float \<equiv> 422"
abbreviation (input) ID_LDUR64_float :: instructionID where "ID_LDUR64_float \<equiv> 423"

text \<open>Load/store register (immediate post-indexed)\<close>

abbreviation (input) ID_STRB_post :: instructionID where "ID_STRB_post \<equiv> 424"
abbreviation (input) ID_LDRB_post :: instructionID where "ID_LDRB_post \<equiv> 425"
abbreviation (input) ID_LDRSB64_post :: instructionID where "ID_LDRSB64_post \<equiv> 426"
abbreviation (input) ID_LDRSB32_post :: instructionID where "ID_LDRSB32_post \<equiv> 427"
abbreviation (input) ID_STR8_post_float :: instructionID where "ID_STR8_post_float \<equiv> 428"
abbreviation (input) ID_LDR8_post_float :: instructionID where "ID_LDR8_post_float \<equiv> 429"
abbreviation (input) ID_STR128_post :: instructionID where "ID_STR128_post \<equiv> 430"
abbreviation (input) ID_LDR128_post :: instructionID where "ID_LDR128_post \<equiv> 431"
abbreviation (input) ID_STRH_post :: instructionID where "ID_STRH_post \<equiv> 432"
abbreviation (input) ID_LDRH_post :: instructionID where "ID_LDRH_post \<equiv> 433"
abbreviation (input) ID_LDRSH64_post :: instructionID where "ID_LDRSH64_post \<equiv> 434"
abbreviation (input) ID_LDRSH32_post :: instructionID where "ID_LDRSH32_post \<equiv> 435"
abbreviation (input) ID_STR16_post_float :: instructionID where "ID_STR16_post_float \<equiv> 436"
abbreviation (input) ID_LDR16_post_float :: instructionID where "ID_LDR16_post_float \<equiv> 437"
abbreviation (input) ID_STR32_post :: instructionID where "ID_STR32_post \<equiv> 438"
abbreviation (input) ID_LDR32_post :: instructionID where "ID_LDR32_post \<equiv> 439"
abbreviation (input) ID_LDRSW_post :: instructionID where "ID_LDRSW_post \<equiv> 440"
abbreviation (input) ID_STR32_post_float :: instructionID where "ID_STR32_post_float \<equiv> 441"
abbreviation (input) ID_LDR32_post_float :: instructionID where "ID_LDR32_post_float \<equiv> 442"
abbreviation (input) ID_STR64_post :: instructionID where "ID_STR64_post \<equiv> 443"
abbreviation (input) ID_LDR64_post :: instructionID where "ID_LDR64_post \<equiv> 444"
abbreviation (input) ID_STR64_post_float :: instructionID where "ID_STR64_post_float \<equiv> 445"
abbreviation (input) ID_LDR64_post_float :: instructionID where "ID_LDR64_post_float \<equiv> 446"

text \<open>Load/store register (unprivileged)\<close>

abbreviation (input) ID_STTRB :: instructionID where "ID_STTRB \<equiv> 447"
abbreviation (input) ID_LDTRB :: instructionID where "ID_LDTRB \<equiv> 448"
abbreviation (input) ID_LDTRSB64 :: instructionID where "ID_LDTRSB64 \<equiv> 449"
abbreviation (input) ID_LDTRSB32 :: instructionID where "ID_LDTRSB32 \<equiv> 450"
abbreviation (input) ID_STTRH :: instructionID where "ID_STTRH \<equiv> 451"
abbreviation (input) ID_LDTRH :: instructionID where "ID_LDTRH \<equiv> 452"
abbreviation (input) ID_LDTRSH64 :: instructionID where "ID_LDTRSH64 \<equiv> 453"
abbreviation (input) ID_LDTRSH32 :: instructionID where "ID_LDTRSH32 \<equiv> 454"
abbreviation (input) ID_STTR32 :: instructionID where "ID_STTR32 \<equiv> 455"
abbreviation (input) ID_LDTR32 :: instructionID where "ID_LDTR32 \<equiv> 456"
abbreviation (input) ID_LDTRSW :: instructionID where "ID_LDTRSW \<equiv> 457"
abbreviation (input) ID_STTR64 :: instructionID where "ID_STTR64 \<equiv> 458"
abbreviation (input) ID_LDTR64 :: instructionID where "ID_LDTR64 \<equiv> 459"

text \<open>Load/store register (immediate pre-indexed)\<close>

abbreviation (input) ID_STRB_pre :: instructionID where "ID_STRB_pre \<equiv> 460"
abbreviation (input) ID_LDRB_pre :: instructionID where "ID_LDRB_pre \<equiv> 461"
abbreviation (input) ID_LDRSB64_pre :: instructionID where "ID_LDRSB64_pre \<equiv> 462"
abbreviation (input) ID_LDRSB32_pre :: instructionID where "ID_LDRSB32_pre \<equiv> 463"
abbreviation (input) ID_STR8_pre_float :: instructionID where "ID_STR8_pre_float \<equiv> 464"
abbreviation (input) ID_LDR8_pre_float :: instructionID where "ID_LDR8_pre_float \<equiv> 465"
abbreviation (input) ID_STR128_pre :: instructionID where "ID_STR128_pre \<equiv> 466"
abbreviation (input) ID_LDR128_pre :: instructionID where "ID_LDR128_pre \<equiv> 467"
abbreviation (input) ID_STRH_pre :: instructionID where "ID_STRH_pre \<equiv> 468"
abbreviation (input) ID_LDRH_pre :: instructionID where "ID_LDRH_pre \<equiv> 469"
abbreviation (input) ID_LDRSH64_pre :: instructionID where "ID_LDRSH64_pre \<equiv> 470"
abbreviation (input) ID_LDRSH32_pre :: instructionID where "ID_LDRSH32_pre \<equiv> 471"
abbreviation (input) ID_STR16_pre_float :: instructionID where "ID_STR16_pre_float \<equiv> 472"
abbreviation (input) ID_LDR16_pre_float :: instructionID where "ID_LDR16_pre_float \<equiv> 473"
abbreviation (input) ID_STR32_pre :: instructionID where "ID_STR32_pre \<equiv> 474"
abbreviation (input) ID_LDR32_pre :: instructionID where "ID_LDR32_pre \<equiv> 475"
abbreviation (input) ID_LDRSW_pre :: instructionID where "ID_LDRSW_pre \<equiv> 476"
abbreviation (input) ID_STR32_pre_float :: instructionID where "ID_STR32_pre_float \<equiv> 477"
abbreviation (input) ID_LDR32_pre_float :: instructionID where "ID_LDR32_pre_float \<equiv> 478"
abbreviation (input) ID_STR64_pre :: instructionID where "ID_STR64_pre \<equiv> 479"
abbreviation (input) ID_LDR64_pre :: instructionID where "ID_LDR64_pre \<equiv> 480"
abbreviation (input) ID_STR64_pre_float :: instructionID where "ID_STR64_pre_float \<equiv> 481"
abbreviation (input) ID_LDR64_pre_float :: instructionID where "ID_LDR64_pre_float \<equiv> 482"

text \<open>Load/store register (register offset)\<close>

abbreviation (input) ID_STRB_reg :: instructionID where "ID_STRB_reg \<equiv> 483"
abbreviation (input) ID_LDRB_reg :: instructionID where "ID_LDRB_reg \<equiv> 484"
abbreviation (input) ID_LDRSB64_reg :: instructionID where "ID_LDRSB64_reg \<equiv> 485"
abbreviation (input) ID_LDRSB32_reg :: instructionID where "ID_LDRSB32_reg \<equiv> 486"
abbreviation (input) ID_STR8_reg_float :: instructionID where "ID_STR8_reg_float \<equiv> 487"
abbreviation (input) ID_LDR8_reg_float :: instructionID where "ID_LDR8_reg_float \<equiv> 488"
abbreviation (input) ID_STR128_reg :: instructionID where "ID_STR128_reg \<equiv> 489"
abbreviation (input) ID_LDR128_reg :: instructionID where "ID_LDR128_reg \<equiv> 490"
abbreviation (input) ID_STRH_reg :: instructionID where "ID_STRH_reg \<equiv> 491"
abbreviation (input) ID_LDRH_reg :: instructionID where "ID_LDRH_reg \<equiv> 492"
abbreviation (input) ID_LDRSH64_reg :: instructionID where "ID_LDRSH64_reg \<equiv> 493"
abbreviation (input) ID_LDRSH32_reg :: instructionID where "ID_LDRSH32_reg \<equiv> 494"
abbreviation (input) ID_STR16_reg_float :: instructionID where "ID_STR16_reg_float \<equiv> 495"
abbreviation (input) ID_LDR16_reg_float :: instructionID where "ID_LDR16_reg_float \<equiv> 496"
abbreviation (input) ID_STR32_reg :: instructionID where "ID_STR32_reg \<equiv> 497"
abbreviation (input) ID_LDR32_reg :: instructionID where "ID_LDR32_reg \<equiv> 498"
abbreviation (input) ID_LDRSW_reg :: instructionID where "ID_LDRSW_reg \<equiv> 499"
abbreviation (input) ID_STR32_reg_float :: instructionID where "ID_STR32_reg_float \<equiv> 500"
abbreviation (input) ID_LDR32_reg_float :: instructionID where "ID_LDR32_reg_float \<equiv> 501"
abbreviation (input) ID_STR64_reg :: instructionID where "ID_STR64_reg \<equiv> 502"
abbreviation (input) ID_LDR64_reg :: instructionID where "ID_LDR64_reg \<equiv> 503"
abbreviation (input) ID_PRFM_reg :: instructionID where "ID_PRFM_reg \<equiv> 504"
abbreviation (input) ID_STR64_reg_float :: instructionID where "ID_STR64_reg_float \<equiv> 505"
abbreviation (input) ID_LDR64_reg_float :: instructionID where "ID_LDR64_reg_float \<equiv> 506"

text \<open>Load/store register (unsigned immediate)\<close>

abbreviation (input) ID_STRB_imm :: instructionID where "ID_STRB_imm \<equiv> 507"
abbreviation (input) ID_LDRB_imm :: instructionID where "ID_LDRB_imm \<equiv> 508"
abbreviation (input) ID_LDRSB64_imm :: instructionID where "ID_LDRSB64_imm \<equiv> 509"
abbreviation (input) ID_LDRSB32_imm :: instructionID where "ID_LDRSB32_imm \<equiv> 510"
abbreviation (input) ID_STR8_imm_float :: instructionID where "ID_STR8_imm_float \<equiv> 511"
abbreviation (input) ID_LDR8_imm_float :: instructionID where "ID_LDR8_imm_float \<equiv> 512"
abbreviation (input) ID_STR128_imm :: instructionID where "ID_STR128_imm \<equiv> 513"
abbreviation (input) ID_LDR128_imm :: instructionID where "ID_LDR128_imm \<equiv> 514"
abbreviation (input) ID_STRH_imm :: instructionID where "ID_STRH_imm \<equiv> 515"
abbreviation (input) ID_LDRH_imm :: instructionID where "ID_LDRH_imm \<equiv> 516"
abbreviation (input) ID_LDRSH64_imm :: instructionID where "ID_LDRSH64_imm \<equiv> 517"
abbreviation (input) ID_LDRSH32_imm :: instructionID where "ID_LDRSH32_imm \<equiv> 518"
abbreviation (input) ID_STR16_imm_float :: instructionID where "ID_STR16_imm_float \<equiv> 519"
abbreviation (input) ID_LDR16_imm_float :: instructionID where "ID_LDR16_imm_float \<equiv> 520"
abbreviation (input) ID_STR32_imm :: instructionID where "ID_STR32_imm \<equiv> 521"
abbreviation (input) ID_LDR32_imm :: instructionID where "ID_LDR32_imm \<equiv> 522"
abbreviation (input) ID_LDRSW_imm :: instructionID where "ID_LDRSW_imm \<equiv> 523"
abbreviation (input) ID_STR32_imm_float :: instructionID where "ID_STR32_imm_float \<equiv> 524"
abbreviation (input) ID_LDR32_imm_float :: instructionID where "ID_LDR32_imm_float \<equiv> 525"
abbreviation (input) ID_STR64_imm :: instructionID where "ID_STR64_imm \<equiv> 526"
abbreviation (input) ID_LDR64_imm :: instructionID where "ID_LDR64_imm \<equiv> 527"
abbreviation (input) ID_PRFM_imm :: instructionID where "ID_PRFM_imm \<equiv> 528"
abbreviation (input) ID_STR64_imm_float :: instructionID where "ID_STR64_imm_float \<equiv> 529"
abbreviation (input) ID_LDR64_imm_float :: instructionID where "ID_LDR64_imm_float \<equiv> 530"

text \<open>Conversion between floating-point and fixed-point\<close>

abbreviation (input) ID_SCVTF_32_single_fixed :: instructionID where "ID_SCVTF_32_single_fixed \<equiv> 531"
abbreviation (input) ID_UCVTF_32_single_fixed :: instructionID where "ID_UCVTF_32_single_fixed \<equiv> 532"
abbreviation (input) ID_FCVTZS_single_32_fixed :: instructionID where "ID_FCVTZS_single_32_fixed \<equiv> 533"
abbreviation (input) ID_FCVTZU_single_32_fixed :: instructionID where "ID_FCVTZU_single_32_fixed \<equiv> 534"
abbreviation (input) ID_SCVTF_32_double_fixed :: instructionID where "ID_SCVTF_32_double_fixed \<equiv> 535"
abbreviation (input) ID_UCVTF_32_double_fixed :: instructionID where "ID_UCVTF_32_double_fixed \<equiv> 536"
abbreviation (input) ID_FCVTZS_double_32_fixed :: instructionID where "ID_FCVTZS_double_32_fixed \<equiv> 537"
abbreviation (input) ID_FCVTZU_double_32_fixed :: instructionID where "ID_FCVTZU_double_32_fixed \<equiv> 538"
abbreviation (input) ID_SCVTF_64_single_fixed :: instructionID where "ID_SCVTF_64_single_fixed \<equiv> 539"
abbreviation (input) ID_UCVTF_64_single_fixed :: instructionID where "ID_UCVTF_64_single_fixed \<equiv> 540"
abbreviation (input) ID_FCVTZS_single_64_fixed :: instructionID where "ID_FCVTZS_single_64_fixed \<equiv> 541"
abbreviation (input) ID_FCVTZU_single_64_fixed :: instructionID where "ID_FCVTZU_single_64_fixed \<equiv> 542"
abbreviation (input) ID_SCVTF_64_double_fixed :: instructionID where "ID_SCVTF_64_double_fixed \<equiv> 543"
abbreviation (input) ID_UCVTF_64_double_fixed :: instructionID where "ID_UCVTF_64_double_fixed \<equiv> 544"
abbreviation (input) ID_FCVTZS_double_64_fixed :: instructionID where "ID_FCVTZS_double_64_fixed \<equiv> 545"
abbreviation (input) ID_FCVTZU_double_64_fixed :: instructionID where "ID_FCVTZU_double_64_fixed \<equiv> 546"

text \<open>Conversion between floating-point and integer\<close>

abbreviation (input) ID_FCVTNS_single_32_int :: instructionID where "ID_FCVTNS_single_32_int \<equiv> 547"
abbreviation (input) ID_FCVTNU_single_32_int :: instructionID where "ID_FCVTNU_single_32_int \<equiv> 548"
abbreviation (input) ID_SCVTF_32_single_int :: instructionID where "ID_SCVTF_32_single_int \<equiv> 549"
abbreviation (input) ID_UCVTF_32_single_int :: instructionID where "ID_UCVTF_32_single_int \<equiv> 550"
abbreviation (input) ID_FCVTAS_single_32_int :: instructionID where "ID_FCVTAS_single_32_int \<equiv> 551"
abbreviation (input) ID_FCVTAU_single_32_int :: instructionID where "ID_FCVTAU_single_32_int \<equiv> 552"
abbreviation (input) ID_FMOV_single_32 :: instructionID where "ID_FMOV_single_32 \<equiv> 553"
abbreviation (input) ID_FMOV_32_single :: instructionID where "ID_FMOV_32_single \<equiv> 554"
abbreviation (input) ID_FCVTPS_single_32_int :: instructionID where "ID_FCVTPS_single_32_int \<equiv> 555"
abbreviation (input) ID_FCVTPU_single_32_int :: instructionID where "ID_FCVTPU_single_32_int \<equiv> 556"
abbreviation (input) ID_FCVTMS_single_32_int :: instructionID where "ID_FCVTMS_single_32_int \<equiv> 557"
abbreviation (input) ID_FCVTMU_single_32_int :: instructionID where "ID_FCVTMU_single_32_int \<equiv> 558"
abbreviation (input) ID_FCVTZS_single_32_int :: instructionID where "ID_FCVTZS_single_32_int \<equiv> 559"
abbreviation (input) ID_FCVTZU_single_32_int :: instructionID where "ID_FCVTZU_single_32_int \<equiv> 560"
abbreviation (input) ID_FCVTNS_double_32_int :: instructionID where "ID_FCVTNS_double_32_int \<equiv> 561"
abbreviation (input) ID_FCVTNU_double_32_int :: instructionID where "ID_FCVTNU_double_32_int \<equiv> 562"
abbreviation (input) ID_SCVTF_32_double_int :: instructionID where "ID_SCVTF_32_double_int \<equiv> 563"
abbreviation (input) ID_UCVTF_32_double_int :: instructionID where "ID_UCVTF_32_double_int \<equiv> 564"
abbreviation (input) ID_FCVTAS_double_32_int :: instructionID where "ID_FCVTAS_double_32_int \<equiv> 565"
abbreviation (input) ID_FCVTAU_double_32_int :: instructionID where "ID_FCVTAU_double_32_int \<equiv> 566"
abbreviation (input) ID_FCVTPS_double_32_int :: instructionID where "ID_FCVTPS_double_32_int \<equiv> 567"
abbreviation (input) ID_FCVTPU_double_32_int :: instructionID where "ID_FCVTPU_double_32_int \<equiv> 568"
abbreviation (input) ID_FCVTMS_double_32_int :: instructionID where "ID_FCVTMS_double_32_int \<equiv> 569"
abbreviation (input) ID_FCVTMU_double_32_int :: instructionID where "ID_FCVTMU_double_32_int \<equiv> 570"
abbreviation (input) ID_FCVTZS_double_32_int :: instructionID where "ID_FCVTZS_double_32_int \<equiv> 571"
abbreviation (input) ID_FCVTZU_double_32_int :: instructionID where "ID_FCVTZU_double_32_int \<equiv> 572"
abbreviation (input) ID_FCVTNS_single_64_int :: instructionID where "ID_FCVTNS_single_64_int \<equiv> 573"
abbreviation (input) ID_FCVTNU_single_64_int :: instructionID where "ID_FCVTNU_single_64_int \<equiv> 574"
abbreviation (input) ID_SCVTF_64_single_int :: instructionID where "ID_SCVTF_64_single_int \<equiv> 575"
abbreviation (input) ID_UCVTF_64_single_int :: instructionID where "ID_UCVTF_64_single_int \<equiv> 576"
abbreviation (input) ID_FCVTAS_single_64_int :: instructionID where "ID_FCVTAS_single_64_int \<equiv> 577"
abbreviation (input) ID_FCVTAU_single_64_int :: instructionID where "ID_FCVTAU_single_64_int \<equiv> 578"
abbreviation (input) ID_FCVTPS_single_64_int :: instructionID where "ID_FCVTPS_single_64_int \<equiv> 579"
abbreviation (input) ID_FCVTPU_single_64_int :: instructionID where "ID_FCVTPU_single_64_int \<equiv> 580"
abbreviation (input) ID_FCVTMS_single_64_int :: instructionID where "ID_FCVTMS_single_64_int \<equiv> 581"
abbreviation (input) ID_FCVTMU_single_64_int :: instructionID where "ID_FCVTMU_single_64_int \<equiv> 582"
abbreviation (input) ID_FCVTZS_single_64_int :: instructionID where "ID_FCVTZS_single_64_int \<equiv> 583"
abbreviation (input) ID_FCVTZU_single_64_int :: instructionID where "ID_FCVTZU_single_64_int \<equiv> 584"
abbreviation (input) ID_FCVTNS_double_64_int :: instructionID where "ID_FCVTNS_double_64_int \<equiv> 585"
abbreviation (input) ID_FCVTNU_double_64_int :: instructionID where "ID_FCVTNU_double_64_int \<equiv> 586"
abbreviation (input) ID_SCVTF_64_double_int :: instructionID where "ID_SCVTF_64_double_int \<equiv> 587"
abbreviation (input) ID_UCVTF_64_double_int :: instructionID where "ID_UCVTF_64_double_int \<equiv> 588"
abbreviation (input) ID_FCVTAS_double_64_int :: instructionID where "ID_FCVTAS_double_64_int \<equiv> 589"
abbreviation (input) ID_FCVTAU_double_64_int :: instructionID where "ID_FCVTAU_double_64_int \<equiv> 590"
abbreviation (input) ID_FMOV_double_64 :: instructionID where "ID_FMOV_double_64 \<equiv> 591"
abbreviation (input) ID_FMOV_64_double :: instructionID where "ID_FMOV_64_double \<equiv> 592"
abbreviation (input) ID_FCVTPS_double_64_int :: instructionID where "ID_FCVTPS_double_64_int \<equiv> 593"
abbreviation (input) ID_FCVTPU_double_64_int :: instructionID where "ID_FCVTPU_double_64_int \<equiv> 594"
abbreviation (input) ID_FCVTMS_double_64_int :: instructionID where "ID_FCVTMS_double_64_int \<equiv> 595"
abbreviation (input) ID_FCVTMU_double_64_int :: instructionID where "ID_FCVTMU_double_64_int \<equiv> 596"
abbreviation (input) ID_FCVTZS_double_64_int :: instructionID where "ID_FCVTZS_double_64_int \<equiv> 597"
abbreviation (input) ID_FCVTZU_double_64_int :: instructionID where "ID_FCVTZU_double_64_int \<equiv> 598"
abbreviation (input) ID_FMOV_top128_64 :: instructionID where "ID_FMOV_top128_64 \<equiv> 599"
abbreviation (input) ID_FMOV_64_top128 :: instructionID where "ID_FMOV_64_top128 \<equiv> 600"

text \<open>Floating-point data-processing (1 source)\<close>

abbreviation (input) ID_FMOV_reg_single :: instructionID where "ID_FMOV_reg_single \<equiv> 601"
abbreviation (input) ID_FABS_single :: instructionID where "ID_FABS_single \<equiv> 602"
abbreviation (input) ID_FNEG_single :: instructionID where "ID_FNEG_single \<equiv> 603"
abbreviation (input) ID_FSQRT_single :: instructionID where "ID_FSQRT_single \<equiv> 604"
abbreviation (input) ID_FCVT_single_double :: instructionID where "ID_FCVT_single_double \<equiv> 605"
abbreviation (input) ID_FCVT_single_half :: instructionID where "ID_FCVT_single_half \<equiv> 606"
abbreviation (input) ID_FRINTN_single :: instructionID where "ID_FRINTN_single \<equiv> 607"
abbreviation (input) ID_FRINTP_single :: instructionID where "ID_FRINTP_single \<equiv> 608"
abbreviation (input) ID_FRINTM_single :: instructionID where "ID_FRINTM_single \<equiv> 609"
abbreviation (input) ID_FRINTZ_single :: instructionID where "ID_FRINTZ_single \<equiv> 610"
abbreviation (input) ID_FRINTA_single :: instructionID where "ID_FRINTA_single \<equiv> 611"
abbreviation (input) ID_FRINTX_single :: instructionID where "ID_FRINTX_single \<equiv> 612"
abbreviation (input) ID_FRINTI_single :: instructionID where "ID_FRINTI_single \<equiv> 613"
abbreviation (input) ID_FMOV_reg_double :: instructionID where "ID_FMOV_reg_double \<equiv> 614"
abbreviation (input) ID_FABS_double :: instructionID where "ID_FABS_double \<equiv> 615"
abbreviation (input) ID_FNEG_double :: instructionID where "ID_FNEG_double \<equiv> 616"
abbreviation (input) ID_FSQRT_double :: instructionID where "ID_FSQRT_double \<equiv> 617"
abbreviation (input) ID_FCVT_double_single :: instructionID where "ID_FCVT_double_single \<equiv> 618"
abbreviation (input) ID_FCVT_double_half :: instructionID where "ID_FCVT_double_half \<equiv> 619"
abbreviation (input) ID_FRINTN_double :: instructionID where "ID_FRINTN_double \<equiv> 620"
abbreviation (input) ID_FRINTP_double :: instructionID where "ID_FRINTP_double \<equiv> 621"
abbreviation (input) ID_FRINTM_double :: instructionID where "ID_FRINTM_double \<equiv> 622"
abbreviation (input) ID_FRINTZ_double :: instructionID where "ID_FRINTZ_double \<equiv> 623"
abbreviation (input) ID_FRINTA_double :: instructionID where "ID_FRINTA_double \<equiv> 624"
abbreviation (input) ID_FRINTX_double :: instructionID where "ID_FRINTX_double \<equiv> 625"
abbreviation (input) ID_FRINTI_double :: instructionID where "ID_FRINTI_double \<equiv> 626"
abbreviation (input) ID_FCVT_half_single :: instructionID where "ID_FCVT_half_single \<equiv> 627"
abbreviation (input) ID_FCVT_half_double :: instructionID where "ID_FCVT_half_double \<equiv> 628"

text \<open>Floating-point compare\<close>

abbreviation (input) ID_FCMP_single :: instructionID where "ID_FCMP_single \<equiv> 629"
abbreviation (input) ID_FCMP_single_zero :: instructionID where "ID_FCMP_single_zero \<equiv> 630"
abbreviation (input) ID_FCMPE_single :: instructionID where "ID_FCMPE_single \<equiv> 631"
abbreviation (input) ID_FCMPE_single_zero :: instructionID where "ID_FCMPE_single_zero \<equiv> 632"
abbreviation (input) ID_FCMP_double :: instructionID where "ID_FCMP_double \<equiv> 633"
abbreviation (input) ID_FCMP_double_zero :: instructionID where "ID_FCMP_double_zero \<equiv> 634"
abbreviation (input) ID_FCMPE_double :: instructionID where "ID_FCMPE_double \<equiv> 635"
abbreviation (input) ID_FCMPE_double_zero :: instructionID where "ID_FCMPE_double_zero \<equiv> 636"

text \<open>Floating-point immediate\<close>

abbreviation (input) ID_FMOV_imm_single :: instructionID where "ID_FMOV_imm_single \<equiv> 637"
abbreviation (input) ID_FMOV_imm_double :: instructionID where "ID_FMOV_imm_double \<equiv> 638"

text \<open>Floating-point conditional compare\<close>

abbreviation (input) ID_FCCMP_single :: instructionID where "ID_FCCMP_single \<equiv> 639"
abbreviation (input) ID_FCCMPE_single :: instructionID where "ID_FCCMPE_single \<equiv> 640"
abbreviation (input) ID_FCCMP_double :: instructionID where "ID_FCCMP_double \<equiv> 641"
abbreviation (input) ID_FCCMPE_double :: instructionID where "ID_FCCMPE_double \<equiv> 642"

text \<open>Floating-point data-processing (2 source)\<close>

abbreviation (input) ID_FMUL_single :: instructionID where "ID_FMUL_single \<equiv> 643"
abbreviation (input) ID_FDIV_single :: instructionID where "ID_FDIV_single \<equiv> 644"
abbreviation (input) ID_FADD_single :: instructionID where "ID_FADD_single \<equiv> 645"
abbreviation (input) ID_FSUB_single :: instructionID where "ID_FSUB_single \<equiv> 646"
abbreviation (input) ID_FMAX_single :: instructionID where "ID_FMAX_single \<equiv> 647"
abbreviation (input) ID_FMIN_single :: instructionID where "ID_FMIN_single \<equiv> 648"
abbreviation (input) ID_FMAXNM_single :: instructionID where "ID_FMAXNM_single \<equiv> 649"
abbreviation (input) ID_FMINNM_single :: instructionID where "ID_FMINNM_single \<equiv> 650"
abbreviation (input) ID_FNMUL_single :: instructionID where "ID_FNMUL_single \<equiv> 651"
abbreviation (input) ID_FMUL_double :: instructionID where "ID_FMUL_double \<equiv> 652"
abbreviation (input) ID_FDIV_double :: instructionID where "ID_FDIV_double \<equiv> 653"
abbreviation (input) ID_FADD_double :: instructionID where "ID_FADD_double \<equiv> 654"
abbreviation (input) ID_FSUB_double :: instructionID where "ID_FSUB_double \<equiv> 655"
abbreviation (input) ID_FMAX_double :: instructionID where "ID_FMAX_double \<equiv> 656"
abbreviation (input) ID_FMIN_double :: instructionID where "ID_FMIN_double \<equiv> 657"
abbreviation (input) ID_FMAXNM_double :: instructionID where "ID_FMAXNM_double \<equiv> 658"
abbreviation (input) ID_FMINNM_double :: instructionID where "ID_FMINNM_double \<equiv> 659"
abbreviation (input) ID_FNMUL_double :: instructionID where "ID_FNMUL_double \<equiv> 660"

text \<open>Floating-point conditional select\<close>

abbreviation (input) ID_FCSEL_single :: instructionID where "ID_FCSEL_single \<equiv> 661"
abbreviation (input) ID_FCSEL_double :: instructionID where "ID_FCSEL_double \<equiv> 662"

text \<open>Floating-point data-processing (3 source)\<close>

abbreviation (input) ID_FMADD_single :: instructionID where "ID_FMADD_single \<equiv> 663"
abbreviation (input) ID_FMSUB_single :: instructionID where "ID_FMSUB_single \<equiv> 664"
abbreviation (input) ID_FNMADD_single :: instructionID where "ID_FNMADD_single \<equiv> 665"
abbreviation (input) ID_FNMSUB_single :: instructionID where "ID_FNMSUB_single \<equiv> 666"
abbreviation (input) ID_FMADD_double :: instructionID where "ID_FMADD_double \<equiv> 667"
abbreviation (input) ID_FMSUB_double :: instructionID where "ID_FMSUB_double \<equiv> 668"
abbreviation (input) ID_FNMADD_double :: instructionID where "ID_FNMADD_double \<equiv> 669"
abbreviation (input) ID_FNMSUB_double :: instructionID where "ID_FNMSUB_double \<equiv> 670"

text \<open>Cryptographic AES\<close>

abbreviation (input) ID_AESE :: instructionID where "ID_AESE \<equiv> 671"
abbreviation (input) ID_AESD :: instructionID where "ID_AESD \<equiv> 672"
abbreviation (input) ID_AESMC :: instructionID where "ID_AESMC \<equiv> 673"
abbreviation (input) ID_AESIMC :: instructionID where "ID_AESIMC \<equiv> 674"

text \<open>Cryptographic three-register SHA\<close>

abbreviation (input) ID_SHA1C :: instructionID where "ID_SHA1C \<equiv> 675"
abbreviation (input) ID_SHA1P :: instructionID where "ID_SHA1P \<equiv> 676"
abbreviation (input) ID_SHA1M :: instructionID where "ID_SHA1M \<equiv> 677"
abbreviation (input) ID_SHA1SU0 :: instructionID where "ID_SHA1SU0 \<equiv> 678"
abbreviation (input) ID_SHA256H :: instructionID where "ID_SHA256H \<equiv> 679"
abbreviation (input) ID_SHA256H2 :: instructionID where "ID_SHA256H2 \<equiv> 680"
abbreviation (input) ID_SHA256SU1 :: instructionID where "ID_SHA256SU1 \<equiv> 681"

text \<open>Cryptographic two-register SHA\<close>

abbreviation (input) ID_SHA1H :: instructionID where "ID_SHA1H \<equiv> 682"
abbreviation (input) ID_SHA1SU1 :: instructionID where "ID_SHA1SU1 \<equiv> 683"
abbreviation (input) ID_SHA256SU0 :: instructionID where "ID_SHA256SU0 \<equiv> 684"

text \<open>Advanced SIMD scalar copy\<close>

abbreviation (input) ID_DUP_element_scalar :: instructionID where "ID_DUP_element_scalar \<equiv> 685"

text \<open>Advanced SIMD scalar two-register miscellaneous\<close>

abbreviation (input) ID_SUQADD_scalar :: instructionID where "ID_SUQADD_scalar \<equiv> 686"
abbreviation (input) ID_SQABS_scalar :: instructionID where "ID_SQABS_scalar \<equiv> 687"
abbreviation (input) ID_CMGT_scalar_zero :: instructionID where "ID_CMGT_scalar_zero \<equiv> 688"
abbreviation (input) ID_CMEQ_scalar_zero :: instructionID where "ID_CMEQ_scalar_zero \<equiv> 689"
abbreviation (input) ID_CMLT_scalar_zero :: instructionID where "ID_CMLT_scalar_zero \<equiv> 690"
abbreviation (input) ID_ABS_scalar :: instructionID where "ID_ABS_scalar \<equiv> 691"
abbreviation (input) ID_SQXTN_scalar :: instructionID where "ID_SQXTN_scalar \<equiv> 692"
abbreviation (input) ID_FCVTNS_scalar :: instructionID where "ID_FCVTNS_scalar \<equiv> 693"
abbreviation (input) ID_FCVTMS_scalar :: instructionID where "ID_FCVTMS_scalar \<equiv> 694"
abbreviation (input) ID_FCVTAS_scalar :: instructionID where "ID_FCVTAS_scalar \<equiv> 695"
abbreviation (input) ID_SCVTF_scalar_int :: instructionID where "ID_SCVTF_scalar_int \<equiv> 696"
abbreviation (input) ID_FCMGT_scalar_zero :: instructionID where "ID_FCMGT_scalar_zero \<equiv> 697"
abbreviation (input) ID_FCMEQ_scalar_zero :: instructionID where "ID_FCMEQ_scalar_zero \<equiv> 698"
abbreviation (input) ID_FCMLT_scalar_zero :: instructionID where "ID_FCMLT_scalar_zero \<equiv> 699"
abbreviation (input) ID_FCVTPS_scalar :: instructionID where "ID_FCVTPS_scalar \<equiv> 700"
abbreviation (input) ID_FCVTZS_scalar_int :: instructionID where "ID_FCVTZS_scalar_int \<equiv> 701"
abbreviation (input) ID_FRECPE_scalar :: instructionID where "ID_FRECPE_scalar \<equiv> 702"
abbreviation (input) ID_FRECPX_scalar :: instructionID where "ID_FRECPX_scalar \<equiv> 703"
abbreviation (input) ID_USQADD_scalar :: instructionID where "ID_USQADD_scalar \<equiv> 704"
abbreviation (input) ID_SQNEG_scalar :: instructionID where "ID_SQNEG_scalar \<equiv> 705"
abbreviation (input) ID_CMGE_scalar_zero :: instructionID where "ID_CMGE_scalar_zero \<equiv> 706"
abbreviation (input) ID_CMLE_scalar_zero :: instructionID where "ID_CMLE_scalar_zero \<equiv> 707"
abbreviation (input) ID_NEG_scalar :: instructionID where "ID_NEG_scalar \<equiv> 708"
abbreviation (input) ID_SQXTUN_scalar :: instructionID where "ID_SQXTUN_scalar \<equiv> 709"
abbreviation (input) ID_UQXTN_scalar :: instructionID where "ID_UQXTN_scalar \<equiv> 710"
abbreviation (input) ID_FCVTXN_scalar :: instructionID where "ID_FCVTXN_scalar \<equiv> 711"
abbreviation (input) ID_FCVTNU_scalar :: instructionID where "ID_FCVTNU_scalar \<equiv> 712"
abbreviation (input) ID_FCVTMU_scalar :: instructionID where "ID_FCVTMU_scalar \<equiv> 713"
abbreviation (input) ID_FCVTAU_scalar :: instructionID where "ID_FCVTAU_scalar \<equiv> 714"
abbreviation (input) ID_UCVTF_scalar_int :: instructionID where "ID_UCVTF_scalar_int \<equiv> 715"
abbreviation (input) ID_FCMGE_scalar_zero :: instructionID where "ID_FCMGE_scalar_zero \<equiv> 716"
abbreviation (input) ID_FCMLE_scalar_zero :: instructionID where "ID_FCMLE_scalar_zero \<equiv> 717"
abbreviation (input) ID_FCVTPU_scalar :: instructionID where "ID_FCVTPU_scalar \<equiv> 718"
abbreviation (input) ID_FCVTZU_scalar_int :: instructionID where "ID_FCVTZU_scalar_int \<equiv> 719"
abbreviation (input) ID_FRSQRTE_scalar :: instructionID where "ID_FRSQRTE_scalar \<equiv> 720"

text \<open>Advanced SIMD scalar pairwise\<close>

abbreviation (input) ID_ADDP_scalar :: instructionID where "ID_ADDP_scalar \<equiv> 721"
abbreviation (input) ID_FMAXNMP_scalar :: instructionID where "ID_FMAXNMP_scalar \<equiv> 722"
abbreviation (input) ID_FADDP_scalar :: instructionID where "ID_FADDP_scalar \<equiv> 723"
abbreviation (input) ID_FMAXP_scalar :: instructionID where "ID_FMAXP_scalar \<equiv> 724"
abbreviation (input) ID_FMINNMP_scalar :: instructionID where "ID_FMINNMP_scalar \<equiv> 725"
abbreviation (input) ID_FMINP_scalar :: instructionID where "ID_FMINP_scalar \<equiv> 726"

text \<open>Advanced SIMD scalar three different\<close>

abbreviation (input) ID_SQDMLAL_scalar :: instructionID where "ID_SQDMLAL_scalar \<equiv> 727"
abbreviation (input) ID_SQDMLSL_scalar :: instructionID where "ID_SQDMLSL_scalar \<equiv> 728"
abbreviation (input) ID_SQDMULL_scalar :: instructionID where "ID_SQDMULL_scalar \<equiv> 729"

text \<open>Advanced SIMD scalar three same\<close>

abbreviation (input) ID_SQADD_scalar :: instructionID where "ID_SQADD_scalar \<equiv> 730"
abbreviation (input) ID_SQSUB_scalar :: instructionID where "ID_SQSUB_scalar \<equiv> 731"
abbreviation (input) ID_CMGT_scalar_reg :: instructionID where "ID_CMGT_scalar_reg \<equiv> 732"
abbreviation (input) ID_CMGE_scalar_reg :: instructionID where "ID_CMGE_scalar_reg \<equiv> 733"
abbreviation (input) ID_SSHL_scalar :: instructionID where "ID_SSHL_scalar \<equiv> 734"
abbreviation (input) ID_SQSHL_scalar_reg :: instructionID where "ID_SQSHL_scalar_reg \<equiv> 735"
abbreviation (input) ID_SRSHL_scalar :: instructionID where "ID_SRSHL_scalar \<equiv> 736"
abbreviation (input) ID_SQRSHL_scalar :: instructionID where "ID_SQRSHL_scalar \<equiv> 737"
abbreviation (input) ID_ADD_scalar :: instructionID where "ID_ADD_scalar \<equiv> 738"
abbreviation (input) ID_CMTST_scalar :: instructionID where "ID_CMTST_scalar \<equiv> 739"
abbreviation (input) ID_SQDMULH_scalar :: instructionID where "ID_SQDMULH_scalar \<equiv> 740"
abbreviation (input) ID_FMULX_scalar :: instructionID where "ID_FMULX_scalar \<equiv> 741"
abbreviation (input) ID_FCMEQ_scalar_reg :: instructionID where "ID_FCMEQ_scalar_reg \<equiv> 742"
abbreviation (input) ID_FRECPS_scalar :: instructionID where "ID_FRECPS_scalar \<equiv> 743"
abbreviation (input) ID_FRSQRTS_scalar :: instructionID where "ID_FRSQRTS_scalar \<equiv> 744"
abbreviation (input) ID_UQADD_scalar :: instructionID where "ID_UQADD_scalar \<equiv> 745"
abbreviation (input) ID_UQSUB_scalar :: instructionID where "ID_UQSUB_scalar \<equiv> 746"
abbreviation (input) ID_CMHI_scalar_reg :: instructionID where "ID_CMHI_scalar_reg \<equiv> 747"
abbreviation (input) ID_CMHS_scalar_reg :: instructionID where "ID_CMHS_scalar_reg \<equiv> 748"
abbreviation (input) ID_USHL_scalar :: instructionID where "ID_USHL_scalar \<equiv> 749"
abbreviation (input) ID_UQSHL_scalar_reg :: instructionID where "ID_UQSHL_scalar_reg \<equiv> 750"
abbreviation (input) ID_URSHL_scalar :: instructionID where "ID_URSHL_scalar \<equiv> 751"
abbreviation (input) ID_UQRSHL_scalar :: instructionID where "ID_UQRSHL_scalar \<equiv> 752"
abbreviation (input) ID_SUB_scalar :: instructionID where "ID_SUB_scalar \<equiv> 753"
abbreviation (input) ID_CMEQ_scalar_reg :: instructionID where "ID_CMEQ_scalar_reg \<equiv> 754"
abbreviation (input) ID_SQRDMULH_scalar :: instructionID where "ID_SQRDMULH_scalar \<equiv> 755"
abbreviation (input) ID_FCMGE_scalar_reg :: instructionID where "ID_FCMGE_scalar_reg \<equiv> 756"
abbreviation (input) ID_FACGE_scalar :: instructionID where "ID_FACGE_scalar \<equiv> 757"
abbreviation (input) ID_FABD_scalar :: instructionID where "ID_FABD_scalar \<equiv> 758"
abbreviation (input) ID_FCMGT_scalar_reg :: instructionID where "ID_FCMGT_scalar_reg \<equiv> 759"
abbreviation (input) ID_FACGT_scalar :: instructionID where "ID_FACGT_scalar \<equiv> 760"

text \<open>Advanced SIMD scalar shift by immediate\<close>

abbreviation (input) ID_SSHR_scalar :: instructionID where "ID_SSHR_scalar \<equiv> 761"
abbreviation (input) ID_SSRA_scalar :: instructionID where "ID_SSRA_scalar \<equiv> 762"
abbreviation (input) ID_SRSHR_scalar :: instructionID where "ID_SRSHR_scalar \<equiv> 763"
abbreviation (input) ID_SRSRA_scalar :: instructionID where "ID_SRSRA_scalar \<equiv> 764"
abbreviation (input) ID_SHL_scalar :: instructionID where "ID_SHL_scalar \<equiv> 765"
abbreviation (input) ID_SQSHL_scalar_imm :: instructionID where "ID_SQSHL_scalar_imm \<equiv> 766"
abbreviation (input) ID_SQSHRN_scalar :: instructionID where "ID_SQSHRN_scalar \<equiv> 767"
abbreviation (input) ID_SQRSHRN_scalar :: instructionID where "ID_SQRSHRN_scalar \<equiv> 768"
abbreviation (input) ID_SCVTF_scalar_fixed :: instructionID where "ID_SCVTF_scalar_fixed \<equiv> 769"
abbreviation (input) ID_FCVTZS_scalar_fixed :: instructionID where "ID_FCVTZS_scalar_fixed \<equiv> 770"
abbreviation (input) ID_USHR_scalar :: instructionID where "ID_USHR_scalar \<equiv> 771"
abbreviation (input) ID_USRA_scalar :: instructionID where "ID_USRA_scalar \<equiv> 772"
abbreviation (input) ID_URSHR_scalar :: instructionID where "ID_URSHR_scalar \<equiv> 773"
abbreviation (input) ID_URSRA_scalar :: instructionID where "ID_URSRA_scalar \<equiv> 774"
abbreviation (input) ID_SRI_scalar :: instructionID where "ID_SRI_scalar \<equiv> 775"
abbreviation (input) ID_SLI_scalar :: instructionID where "ID_SLI_scalar \<equiv> 776"
abbreviation (input) ID_SQSHLU_scalar :: instructionID where "ID_SQSHLU_scalar \<equiv> 777"
abbreviation (input) ID_UQSHL_scalar_imm :: instructionID where "ID_UQSHL_scalar_imm \<equiv> 778"
abbreviation (input) ID_SQSHRUN_scalar :: instructionID where "ID_SQSHRUN_scalar \<equiv> 779"
abbreviation (input) ID_SQRSHRUN_scalar :: instructionID where "ID_SQRSHRUN_scalar \<equiv> 780"
abbreviation (input) ID_UQSHRN_scalar :: instructionID where "ID_UQSHRN_scalar \<equiv> 781"
abbreviation (input) ID_UQRSHRN_scalar :: instructionID where "ID_UQRSHRN_scalar \<equiv> 782"
abbreviation (input) ID_UCVTF_scalar_fixed :: instructionID where "ID_UCVTF_scalar_fixed \<equiv> 783"
abbreviation (input) ID_FCVTZU_scalar_fixed :: instructionID where "ID_FCVTZU_scalar_fixed \<equiv> 784"

text \<open>Advanced SIMD scalar x indexed element\<close>

abbreviation (input) ID_SQDMLAL_scalar_element :: instructionID where "ID_SQDMLAL_scalar_element \<equiv> 785"
abbreviation (input) ID_SQDMLSL_scalar_element :: instructionID where "ID_SQDMLSL_scalar_element \<equiv> 786"
abbreviation (input) ID_SQDMULL_scalar_element :: instructionID where "ID_SQDMULL_scalar_element \<equiv> 787"
abbreviation (input) ID_SQDMULH_scalar_element :: instructionID where "ID_SQDMULH_scalar_element \<equiv> 788"
abbreviation (input) ID_SQRDMULH_scalar_element :: instructionID where "ID_SQRDMULH_scalar_element \<equiv> 789"
abbreviation (input) ID_FMLA_scalar_element :: instructionID where "ID_FMLA_scalar_element \<equiv> 790"
abbreviation (input) ID_FMLS_scalar_element :: instructionID where "ID_FMLS_scalar_element \<equiv> 791"
abbreviation (input) ID_FMUL_scalar_element :: instructionID where "ID_FMUL_scalar_element \<equiv> 792"
abbreviation (input) ID_FMULX_scalar_element :: instructionID where "ID_FMULX_scalar_element \<equiv> 793"

text \<open>Advanced SIMD table lookup\<close>

abbreviation (input) ID_TBL_one_reg :: instructionID where "ID_TBL_one_reg \<equiv> 794"
abbreviation (input) ID_TBX_one_reg :: instructionID where "ID_TBX_one_reg \<equiv> 795"
abbreviation (input) ID_TBL_two_reg :: instructionID where "ID_TBL_two_reg \<equiv> 796"
abbreviation (input) ID_TBX_two_reg :: instructionID where "ID_TBX_two_reg \<equiv> 797"
abbreviation (input) ID_TBL_three_reg :: instructionID where "ID_TBL_three_reg \<equiv> 798"
abbreviation (input) ID_TBX_three_reg :: instructionID where "ID_TBX_three_reg \<equiv> 799"
abbreviation (input) ID_TBL_four_reg :: instructionID where "ID_TBL_four_reg \<equiv> 800"
abbreviation (input) ID_TBX_four_reg :: instructionID where "ID_TBX_four_reg \<equiv> 801"

text \<open>Advanced SIMD permute\<close>

abbreviation (input) ID_UZP1 :: instructionID where "ID_UZP1 \<equiv> 802"
abbreviation (input) ID_TRN1 :: instructionID where "ID_TRN1 \<equiv> 803"
abbreviation (input) ID_ZIP1 :: instructionID where "ID_ZIP1 \<equiv> 804"
abbreviation (input) ID_UZP2 :: instructionID where "ID_UZP2 \<equiv> 805"
abbreviation (input) ID_TRN2 :: instructionID where "ID_TRN2 \<equiv> 806"
abbreviation (input) ID_ZIP2 :: instructionID where "ID_ZIP2 \<equiv> 807"

text \<open>Advanced SIMD extract\<close>

abbreviation (input) ID_EXT :: instructionID where "ID_EXT \<equiv> 808"

text \<open>Advanced SIMD copy\<close>

abbreviation (input) ID_DUP_element_vec :: instructionID where "ID_DUP_element_vec \<equiv> 809"
abbreviation (input) ID_DUP_general :: instructionID where "ID_DUP_general \<equiv> 810"
abbreviation (input) ID_SMOV_32 :: instructionID where "ID_SMOV_32 \<equiv> 811"
abbreviation (input) ID_UMOV_32 :: instructionID where "ID_UMOV_32 \<equiv> 812"
abbreviation (input) ID_INS_general :: instructionID where "ID_INS_general \<equiv> 813"
abbreviation (input) ID_SMOV_64 :: instructionID where "ID_SMOV_64 \<equiv> 814"
abbreviation (input) ID_UMOV_64 :: instructionID where "ID_UMOV_64 \<equiv> 815"
abbreviation (input) ID_INS_element :: instructionID where "ID_INS_element \<equiv> 816"

text \<open>Advanced SIMD two-register miscellaneous\<close>

abbreviation (input) ID_REV64_vec :: instructionID where "ID_REV64_vec \<equiv> 817"
abbreviation (input) ID_REV16_vec :: instructionID where "ID_REV16_vec \<equiv> 818"
abbreviation (input) ID_SADDLP_vec :: instructionID where "ID_SADDLP_vec \<equiv> 819"
abbreviation (input) ID_SUQADD_vec :: instructionID where "ID_SUQADD_vec \<equiv> 820"
abbreviation (input) ID_CLS_vec :: instructionID where "ID_CLS_vec \<equiv> 821"
abbreviation (input) ID_CNT_vec :: instructionID where "ID_CNT_vec \<equiv> 822"
abbreviation (input) ID_SADALP_vec :: instructionID where "ID_SADALP_vec \<equiv> 823"
abbreviation (input) ID_SQABS_vec :: instructionID where "ID_SQABS_vec \<equiv> 824"
abbreviation (input) ID_CMGT_vec_zero :: instructionID where "ID_CMGT_vec_zero \<equiv> 825"
abbreviation (input) ID_CMEQ_vec_zero :: instructionID where "ID_CMEQ_vec_zero \<equiv> 826"
abbreviation (input) ID_CMLT_vec_zero :: instructionID where "ID_CMLT_vec_zero \<equiv> 827"
abbreviation (input) ID_ABS_vec :: instructionID where "ID_ABS_vec \<equiv> 828"
abbreviation (input) ID_XTN_vec :: instructionID where "ID_XTN_vec \<equiv> 829"
abbreviation (input) ID_XTN2_vec :: instructionID where "ID_XTN2_vec \<equiv> 830"
abbreviation (input) ID_SQXTN_vec :: instructionID where "ID_SQXTN_vec \<equiv> 831"
abbreviation (input) ID_SQXTN2_vec :: instructionID where "ID_SQXTN2_vec \<equiv> 832"
abbreviation (input) ID_FCVTN_vec :: instructionID where "ID_FCVTN_vec \<equiv> 833"
abbreviation (input) ID_FCVTN2_vec :: instructionID where "ID_FCVTN2_vec \<equiv> 834"
abbreviation (input) ID_FCVTL_vec :: instructionID where "ID_FCVTL_vec \<equiv> 835"
abbreviation (input) ID_FCVTL2_vec :: instructionID where "ID_FCVTL2_vec \<equiv> 836"
abbreviation (input) ID_FRINTN_vec :: instructionID where "ID_FRINTN_vec \<equiv> 837"
abbreviation (input) ID_FRINTM_vec :: instructionID where "ID_FRINTM_vec \<equiv> 838"
abbreviation (input) ID_FCVTNS_vec :: instructionID where "ID_FCVTNS_vec \<equiv> 839"
abbreviation (input) ID_FCVTMS_vec :: instructionID where "ID_FCVTMS_vec \<equiv> 840"
abbreviation (input) ID_FCVTAS_vec :: instructionID where "ID_FCVTAS_vec \<equiv> 841"
abbreviation (input) ID_SCVTF_vec_int :: instructionID where "ID_SCVTF_vec_int \<equiv> 842"
abbreviation (input) ID_FCMGT_vec_zero :: instructionID where "ID_FCMGT_vec_zero \<equiv> 843"
abbreviation (input) ID_FCMEQ_vec_zero :: instructionID where "ID_FCMEQ_vec_zero \<equiv> 844"
abbreviation (input) ID_FCMLT_vec_zero :: instructionID where "ID_FCMLT_vec_zero \<equiv> 845"
abbreviation (input) ID_FABS_vec :: instructionID where "ID_FABS_vec \<equiv> 846"
abbreviation (input) ID_FRINTP_vec :: instructionID where "ID_FRINTP_vec \<equiv> 847"
abbreviation (input) ID_FRINTZ_vec :: instructionID where "ID_FRINTZ_vec \<equiv> 848"
abbreviation (input) ID_FCVTPS_vec :: instructionID where "ID_FCVTPS_vec \<equiv> 849"
abbreviation (input) ID_FCVTZS_vec_int :: instructionID where "ID_FCVTZS_vec_int \<equiv> 850"
abbreviation (input) ID_URECPE_vec :: instructionID where "ID_URECPE_vec \<equiv> 851"
abbreviation (input) ID_FRECPE_vec :: instructionID where "ID_FRECPE_vec \<equiv> 852"
abbreviation (input) ID_REV32_vec :: instructionID where "ID_REV32_vec \<equiv> 853"
abbreviation (input) ID_UADDLP_vec :: instructionID where "ID_UADDLP_vec \<equiv> 854"
abbreviation (input) ID_USQADD_vec :: instructionID where "ID_USQADD_vec \<equiv> 855"
abbreviation (input) ID_CLZ_vec :: instructionID where "ID_CLZ_vec \<equiv> 856"
abbreviation (input) ID_UADALP_vec :: instructionID where "ID_UADALP_vec \<equiv> 857"
abbreviation (input) ID_SQNEG_vec :: instructionID where "ID_SQNEG_vec \<equiv> 858"
abbreviation (input) ID_CMGE_vec_zero :: instructionID where "ID_CMGE_vec_zero \<equiv> 859"
abbreviation (input) ID_CMLE_vec_zero :: instructionID where "ID_CMLE_vec_zero \<equiv> 860"
abbreviation (input) ID_NEG_vec :: instructionID where "ID_NEG_vec \<equiv> 861"
abbreviation (input) ID_SQXTUN_vec :: instructionID where "ID_SQXTUN_vec \<equiv> 862"
abbreviation (input) ID_SQXTUN2_vec :: instructionID where "ID_SQXTUN2_vec \<equiv> 863"
abbreviation (input) ID_SHLL_vec :: instructionID where "ID_SHLL_vec \<equiv> 864"
abbreviation (input) ID_SHLL2_vec :: instructionID where "ID_SHLL2_vec \<equiv> 865"
abbreviation (input) ID_UQXTN_vec :: instructionID where "ID_UQXTN_vec \<equiv> 866"
abbreviation (input) ID_UQXTN2_vec :: instructionID where "ID_UQXTN2_vec \<equiv> 867"
abbreviation (input) ID_FCVTXN_vec :: instructionID where "ID_FCVTXN_vec \<equiv> 868"
abbreviation (input) ID_FCVTXN2_vec :: instructionID where "ID_FCVTXN2_vec \<equiv> 869"
abbreviation (input) ID_FRINTA_vec :: instructionID where "ID_FRINTA_vec \<equiv> 870"
abbreviation (input) ID_FRINTX_vec :: instructionID where "ID_FRINTX_vec \<equiv> 871"
abbreviation (input) ID_FCVTNU_vec :: instructionID where "ID_FCVTNU_vec \<equiv> 872"
abbreviation (input) ID_FCVTMU_vec :: instructionID where "ID_FCVTMU_vec \<equiv> 873"
abbreviation (input) ID_FCVTAU_vec :: instructionID where "ID_FCVTAU_vec \<equiv> 874"
abbreviation (input) ID_UCVTF_vec_int :: instructionID where "ID_UCVTF_vec_int \<equiv> 875"
abbreviation (input) ID_NOT_vec :: instructionID where "ID_NOT_vec \<equiv> 876"
abbreviation (input) ID_RBIT_vec :: instructionID where "ID_RBIT_vec \<equiv> 877"
abbreviation (input) ID_FCMGE_vec_zero :: instructionID where "ID_FCMGE_vec_zero \<equiv> 878"
abbreviation (input) ID_FCMLE_vec_zero :: instructionID where "ID_FCMLE_vec_zero \<equiv> 879"
abbreviation (input) ID_FNEG_vec :: instructionID where "ID_FNEG_vec \<equiv> 880"
abbreviation (input) ID_FRINTI_vec :: instructionID where "ID_FRINTI_vec \<equiv> 881"
abbreviation (input) ID_FCVTPU_vec :: instructionID where "ID_FCVTPU_vec \<equiv> 882"
abbreviation (input) ID_FCVTZU_vec_int :: instructionID where "ID_FCVTZU_vec_int \<equiv> 883"
abbreviation (input) ID_URSQRTE_vec :: instructionID where "ID_URSQRTE_vec \<equiv> 884"
abbreviation (input) ID_FRSQRTE_vec :: instructionID where "ID_FRSQRTE_vec \<equiv> 885"
abbreviation (input) ID_FSQRT_vec :: instructionID where "ID_FSQRT_vec \<equiv> 886"

text \<open>Advanced SIMD across lanes\<close>

abbreviation (input) ID_SADDLV_vec :: instructionID where "ID_SADDLV_vec \<equiv> 887"
abbreviation (input) ID_SMAXV_vec :: instructionID where "ID_SMAXV_vec \<equiv> 888"
abbreviation (input) ID_SMINV_vec :: instructionID where "ID_SMINV_vec \<equiv> 889"
abbreviation (input) ID_ADDV_vec :: instructionID where "ID_ADDV_vec \<equiv> 890"
abbreviation (input) ID_UADDLV_vec :: instructionID where "ID_UADDLV_vec \<equiv> 891"
abbreviation (input) ID_UMAXV_vec :: instructionID where "ID_UMAXV_vec \<equiv> 892"
abbreviation (input) ID_UMINV_vec :: instructionID where "ID_UMINV_vec \<equiv> 893"
abbreviation (input) ID_FMAXNMV_vec :: instructionID where "ID_FMAXNMV_vec \<equiv> 894"
abbreviation (input) ID_FMAXV_vec :: instructionID where "ID_FMAXV_vec \<equiv> 895"
abbreviation (input) ID_FMINNMV_vec :: instructionID where "ID_FMINNMV_vec \<equiv> 896"
abbreviation (input) ID_FMINV_vec :: instructionID where "ID_FMINV_vec \<equiv> 897"

text \<open>Advanced SIMD three different\<close>

abbreviation (input) ID_SADDL :: instructionID where "ID_SADDL \<equiv> 898"
abbreviation (input) ID_SADDL2 :: instructionID where "ID_SADDL2 \<equiv> 899"
abbreviation (input) ID_SADDW :: instructionID where "ID_SADDW \<equiv> 900"
abbreviation (input) ID_SADDW2 :: instructionID where "ID_SADDW2 \<equiv> 901"
abbreviation (input) ID_SSUBL :: instructionID where "ID_SSUBL \<equiv> 902"
abbreviation (input) ID_SSUBL2 :: instructionID where "ID_SSUBL2 \<equiv> 903"
abbreviation (input) ID_SSUBW :: instructionID where "ID_SSUBW \<equiv> 904"
abbreviation (input) ID_SSUBW2 :: instructionID where "ID_SSUBW2 \<equiv> 905"
abbreviation (input) ID_ADDHN :: instructionID where "ID_ADDHN \<equiv> 906"
abbreviation (input) ID_ADDHN2 :: instructionID where "ID_ADDHN2 \<equiv> 907"
abbreviation (input) ID_SABAL :: instructionID where "ID_SABAL \<equiv> 908"
abbreviation (input) ID_SABAL2 :: instructionID where "ID_SABAL2 \<equiv> 909"
abbreviation (input) ID_SUBHN :: instructionID where "ID_SUBHN \<equiv> 910"
abbreviation (input) ID_SUBHN2 :: instructionID where "ID_SUBHN2 \<equiv> 911"
abbreviation (input) ID_SABDL :: instructionID where "ID_SABDL \<equiv> 912"
abbreviation (input) ID_SABDL2 :: instructionID where "ID_SABDL2 \<equiv> 913"
abbreviation (input) ID_SMLAL_vec :: instructionID where "ID_SMLAL_vec \<equiv> 914"
abbreviation (input) ID_SMLAL2_vec :: instructionID where "ID_SMLAL2_vec \<equiv> 915"
abbreviation (input) ID_SQDMLAL_vec :: instructionID where "ID_SQDMLAL_vec \<equiv> 916"
abbreviation (input) ID_SQDMLAL2_vec :: instructionID where "ID_SQDMLAL2_vec \<equiv> 917"
abbreviation (input) ID_SMLSL_vec :: instructionID where "ID_SMLSL_vec \<equiv> 918"
abbreviation (input) ID_SMLSL2_vec :: instructionID where "ID_SMLSL2_vec \<equiv> 919"
abbreviation (input) ID_SQDMLSL_vec :: instructionID where "ID_SQDMLSL_vec \<equiv> 920"
abbreviation (input) ID_SQDMLSL2_vec :: instructionID where "ID_SQDMLSL2_vec \<equiv> 921"
abbreviation (input) ID_SMULL_vec :: instructionID where "ID_SMULL_vec \<equiv> 922"
abbreviation (input) ID_SMULL2_vec :: instructionID where "ID_SMULL2_vec \<equiv> 923"
abbreviation (input) ID_SQDMULL_vec :: instructionID where "ID_SQDMULL_vec \<equiv> 924"
abbreviation (input) ID_SQDMULL2_vec :: instructionID where "ID_SQDMULL2_vec \<equiv> 925"
abbreviation (input) ID_PMULL :: instructionID where "ID_PMULL \<equiv> 926"
abbreviation (input) ID_PMULL2 :: instructionID where "ID_PMULL2 \<equiv> 927"
abbreviation (input) ID_UADDL :: instructionID where "ID_UADDL \<equiv> 928"
abbreviation (input) ID_UADDL2 :: instructionID where "ID_UADDL2 \<equiv> 929"
abbreviation (input) ID_UADDW :: instructionID where "ID_UADDW \<equiv> 930"
abbreviation (input) ID_UADDW2 :: instructionID where "ID_UADDW2 \<equiv> 931"
abbreviation (input) ID_USUBL :: instructionID where "ID_USUBL \<equiv> 932"
abbreviation (input) ID_USUBL2 :: instructionID where "ID_USUBL2 \<equiv> 933"
abbreviation (input) ID_USUBW :: instructionID where "ID_USUBW \<equiv> 934"
abbreviation (input) ID_USUBW2 :: instructionID where "ID_USUBW2 \<equiv> 935"
abbreviation (input) ID_RADDHN :: instructionID where "ID_RADDHN \<equiv> 936"
abbreviation (input) ID_RADDHN2 :: instructionID where "ID_RADDHN2 \<equiv> 937"
abbreviation (input) ID_UABAL :: instructionID where "ID_UABAL \<equiv> 938"
abbreviation (input) ID_UABAL2 :: instructionID where "ID_UABAL2 \<equiv> 939"
abbreviation (input) ID_RSUBHN :: instructionID where "ID_RSUBHN \<equiv> 940"
abbreviation (input) ID_RSUBHN2 :: instructionID where "ID_RSUBHN2 \<equiv> 941"
abbreviation (input) ID_UABDL :: instructionID where "ID_UABDL \<equiv> 942"
abbreviation (input) ID_UABDL2 :: instructionID where "ID_UABDL2 \<equiv> 943"
abbreviation (input) ID_UMLAL_vec :: instructionID where "ID_UMLAL_vec \<equiv> 944"
abbreviation (input) ID_UMLAL2_vec :: instructionID where "ID_UMLAL2_vec \<equiv> 945"
abbreviation (input) ID_UMLSL_vec :: instructionID where "ID_UMLSL_vec \<equiv> 946"
abbreviation (input) ID_UMLSL2_vec :: instructionID where "ID_UMLSL2_vec \<equiv> 947"
abbreviation (input) ID_UMULL_vec :: instructionID where "ID_UMULL_vec \<equiv> 948"
abbreviation (input) ID_UMULL2_vec :: instructionID where "ID_UMULL2_vec \<equiv> 949"

text \<open>Advanced SIMD three same\<close>

abbreviation (input) ID_SHADD_vec :: instructionID where "ID_SHADD_vec \<equiv> 950"
abbreviation (input) ID_SQADD_vec :: instructionID where "ID_SQADD_vec \<equiv> 951"
abbreviation (input) ID_SRHADD_vec :: instructionID where "ID_SRHADD_vec \<equiv> 952"
abbreviation (input) ID_SHSUB_vec :: instructionID where "ID_SHSUB_vec \<equiv> 953"
abbreviation (input) ID_SQSUB_vec :: instructionID where "ID_SQSUB_vec \<equiv> 954"
abbreviation (input) ID_CMGT_vec_reg :: instructionID where "ID_CMGT_vec_reg \<equiv> 955"
abbreviation (input) ID_CMGE_vec_reg :: instructionID where "ID_CMGE_vec_reg \<equiv> 956"
abbreviation (input) ID_SSHL_vec :: instructionID where "ID_SSHL_vec \<equiv> 957"
abbreviation (input) ID_SQSHL_vec_reg :: instructionID where "ID_SQSHL_vec_reg \<equiv> 958"
abbreviation (input) ID_SRSHL_vec :: instructionID where "ID_SRSHL_vec \<equiv> 959"
abbreviation (input) ID_SQRSHL_vec :: instructionID where "ID_SQRSHL_vec \<equiv> 960"
abbreviation (input) ID_SMAX_vec :: instructionID where "ID_SMAX_vec \<equiv> 961"
abbreviation (input) ID_SMIN_vec :: instructionID where "ID_SMIN_vec \<equiv> 962"
abbreviation (input) ID_SABD_vec :: instructionID where "ID_SABD_vec \<equiv> 963"
abbreviation (input) ID_SABA_vec :: instructionID where "ID_SABA_vec \<equiv> 964"
abbreviation (input) ID_ADD_vec :: instructionID where "ID_ADD_vec \<equiv> 965"
abbreviation (input) ID_CMTST_vec :: instructionID where "ID_CMTST_vec \<equiv> 966"
abbreviation (input) ID_MLA_vec :: instructionID where "ID_MLA_vec \<equiv> 967"
abbreviation (input) ID_MUL_vec :: instructionID where "ID_MUL_vec \<equiv> 968"
abbreviation (input) ID_SMAXP_vec :: instructionID where "ID_SMAXP_vec \<equiv> 969"
abbreviation (input) ID_SMINP_vec :: instructionID where "ID_SMINP_vec \<equiv> 970"
abbreviation (input) ID_SQDMULH_vec :: instructionID where "ID_SQDMULH_vec \<equiv> 971"
abbreviation (input) ID_ADDP_vec :: instructionID where "ID_ADDP_vec \<equiv> 972"
abbreviation (input) ID_FMAXNM_vec :: instructionID where "ID_FMAXNM_vec \<equiv> 973"
abbreviation (input) ID_FMLA_vec :: instructionID where "ID_FMLA_vec \<equiv> 974"
abbreviation (input) ID_FADD_vec :: instructionID where "ID_FADD_vec \<equiv> 975"
abbreviation (input) ID_FMULX_vec :: instructionID where "ID_FMULX_vec \<equiv> 976"
abbreviation (input) ID_FCMEQ_vec_reg :: instructionID where "ID_FCMEQ_vec_reg \<equiv> 977"
abbreviation (input) ID_FMAX_vec :: instructionID where "ID_FMAX_vec \<equiv> 978"
abbreviation (input) ID_FRECPS_vec :: instructionID where "ID_FRECPS_vec \<equiv> 979"
abbreviation (input) ID_AND_vec :: instructionID where "ID_AND_vec \<equiv> 980"
abbreviation (input) ID_BIC_vec_reg :: instructionID where "ID_BIC_vec_reg \<equiv> 981"
abbreviation (input) ID_FMINNM_vec :: instructionID where "ID_FMINNM_vec \<equiv> 982"
abbreviation (input) ID_FMLS_vec :: instructionID where "ID_FMLS_vec \<equiv> 983"
abbreviation (input) ID_FSUB_vec :: instructionID where "ID_FSUB_vec \<equiv> 984"
abbreviation (input) ID_FMIN_vec :: instructionID where "ID_FMIN_vec \<equiv> 985"
abbreviation (input) ID_FRSQRTS_vec :: instructionID where "ID_FRSQRTS_vec \<equiv> 986"
abbreviation (input) ID_ORR_vec_reg :: instructionID where "ID_ORR_vec_reg \<equiv> 987"
abbreviation (input) ID_ORN_vec :: instructionID where "ID_ORN_vec \<equiv> 988"
abbreviation (input) ID_UHADD_vec :: instructionID where "ID_UHADD_vec \<equiv> 989"
abbreviation (input) ID_UQADD_vec :: instructionID where "ID_UQADD_vec \<equiv> 990"
abbreviation (input) ID_URHADD_vec :: instructionID where "ID_URHADD_vec \<equiv> 991"
abbreviation (input) ID_UHSUB_vec :: instructionID where "ID_UHSUB_vec \<equiv> 992"
abbreviation (input) ID_UQSUB_vec :: instructionID where "ID_UQSUB_vec \<equiv> 993"
abbreviation (input) ID_CMHI_vec_reg :: instructionID where "ID_CMHI_vec_reg \<equiv> 994"
abbreviation (input) ID_CMHS_vec_reg :: instructionID where "ID_CMHS_vec_reg \<equiv> 995"
abbreviation (input) ID_USHL_vec :: instructionID where "ID_USHL_vec \<equiv> 996"
abbreviation (input) ID_UQSHL_vec_reg :: instructionID where "ID_UQSHL_vec_reg \<equiv> 997"
abbreviation (input) ID_URSHL_vec :: instructionID where "ID_URSHL_vec \<equiv> 998"
abbreviation (input) ID_UQRSHL_vec :: instructionID where "ID_UQRSHL_vec \<equiv> 999"
abbreviation (input) ID_UMAX_vec :: instructionID where "ID_UMAX_vec \<equiv> 1000"
abbreviation (input) ID_UMIN_vec :: instructionID where "ID_UMIN_vec \<equiv> 1001"
abbreviation (input) ID_UABD_vec :: instructionID where "ID_UABD_vec \<equiv> 1002"
abbreviation (input) ID_UABA_vec :: instructionID where "ID_UABA_vec \<equiv> 1003"
abbreviation (input) ID_SUB_vec :: instructionID where "ID_SUB_vec \<equiv> 1004"
abbreviation (input) ID_CMEQ_vec_reg :: instructionID where "ID_CMEQ_vec_reg \<equiv> 1005"
abbreviation (input) ID_MLS_vec :: instructionID where "ID_MLS_vec \<equiv> 1006"
abbreviation (input) ID_PMUL_vec :: instructionID where "ID_PMUL_vec \<equiv> 1007"
abbreviation (input) ID_UMAXP_vec :: instructionID where "ID_UMAXP_vec \<equiv> 1008"
abbreviation (input) ID_UMINP_vec :: instructionID where "ID_UMINP_vec \<equiv> 1009"
abbreviation (input) ID_SQRDMULH_vec :: instructionID where "ID_SQRDMULH_vec \<equiv> 1010"
abbreviation (input) ID_FMAXNMP_vec :: instructionID where "ID_FMAXNMP_vec \<equiv> 1011"
abbreviation (input) ID_FADDP_vec :: instructionID where "ID_FADDP_vec \<equiv> 1012"
abbreviation (input) ID_FMUL_vec :: instructionID where "ID_FMUL_vec \<equiv> 1013"
abbreviation (input) ID_FCMGE_vec_reg :: instructionID where "ID_FCMGE_vec_reg \<equiv> 1014"
abbreviation (input) ID_FACGE_vec :: instructionID where "ID_FACGE_vec \<equiv> 1015"
abbreviation (input) ID_FMAXP_vec :: instructionID where "ID_FMAXP_vec \<equiv> 1016"
abbreviation (input) ID_FDIV_vec :: instructionID where "ID_FDIV_vec \<equiv> 1017"
abbreviation (input) ID_EOR_vec :: instructionID where "ID_EOR_vec \<equiv> 1018"
abbreviation (input) ID_BSL_vec :: instructionID where "ID_BSL_vec \<equiv> 1019"
abbreviation (input) ID_FMINNMP_vec :: instructionID where "ID_FMINNMP_vec \<equiv> 1020"
abbreviation (input) ID_FABD_vec :: instructionID where "ID_FABD_vec \<equiv> 1021"
abbreviation (input) ID_FCMGT_vec_reg :: instructionID where "ID_FCMGT_vec_reg \<equiv> 1022"
abbreviation (input) ID_FACGT_vec :: instructionID where "ID_FACGT_vec \<equiv> 1023"
abbreviation (input) ID_FMINP_vec :: instructionID where "ID_FMINP_vec \<equiv> 1024"
abbreviation (input) ID_BIT_vec :: instructionID where "ID_BIT_vec \<equiv> 1025"
abbreviation (input) ID_BIF_vec :: instructionID where "ID_BIF_vec \<equiv> 1026"

text \<open>Advanced SIMD modified immediate\<close>

abbreviation (input) ID_MOVI_32_shifted_imm :: instructionID where "ID_MOVI_32_shifted_imm \<equiv> 1027"
abbreviation (input) ID_ORR_vec_imm_32 :: instructionID where "ID_ORR_vec_imm_32 \<equiv> 1028"
abbreviation (input) ID_MOVI_16_shifted_imm :: instructionID where "ID_MOVI_16_shifted_imm \<equiv> 1029"
abbreviation (input) ID_ORR_vec_imm_16 :: instructionID where "ID_ORR_vec_imm_16 \<equiv> 1030"
abbreviation (input) ID_MOVI_32_shifting_ones :: instructionID where "ID_MOVI_32_shifting_ones \<equiv> 1031"
abbreviation (input) ID_MOVI_8_imm :: instructionID where "ID_MOVI_8_imm \<equiv> 1032"
abbreviation (input) ID_FMOV_vec_imm_single :: instructionID where "ID_FMOV_vec_imm_single \<equiv> 1033"
abbreviation (input) ID_MVNI_32_shifted_imm :: instructionID where "ID_MVNI_32_shifted_imm \<equiv> 1034"
abbreviation (input) ID_BIC_vec_imm_32 :: instructionID where "ID_BIC_vec_imm_32 \<equiv> 1035"
abbreviation (input) ID_MVNI_16_shifted_imm :: instructionID where "ID_MVNI_16_shifted_imm \<equiv> 1036"
abbreviation (input) ID_BIC_vec_imm_16 :: instructionID where "ID_BIC_vec_imm_16 \<equiv> 1037"
abbreviation (input) ID_MVNI_32_shifting_ones :: instructionID where "ID_MVNI_32_shifting_ones \<equiv> 1038"
abbreviation (input) ID_MOVI_64_scalar :: instructionID where "ID_MOVI_64_scalar \<equiv> 1039"
abbreviation (input) ID_MOVI_64_vec :: instructionID where "ID_MOVI_64_vec \<equiv> 1040"
abbreviation (input) ID_FMOV_vec_imm_double :: instructionID where "ID_FMOV_vec_imm_double \<equiv> 1041"

text \<open>Advanced SIMD shift by immediate\<close>

abbreviation (input) ID_SSHR_vec :: instructionID where "ID_SSHR_vec \<equiv> 1042"
abbreviation (input) ID_SSRA_vec :: instructionID where "ID_SSRA_vec \<equiv> 1043"
abbreviation (input) ID_SRSHR_vec :: instructionID where "ID_SRSHR_vec \<equiv> 1044"
abbreviation (input) ID_SRSRA_vec :: instructionID where "ID_SRSRA_vec \<equiv> 1045"
abbreviation (input) ID_SHL_vec :: instructionID where "ID_SHL_vec \<equiv> 1046"
abbreviation (input) ID_SQSHL_vec_imm :: instructionID where "ID_SQSHL_vec_imm \<equiv> 1047"
abbreviation (input) ID_SHRN_vec :: instructionID where "ID_SHRN_vec \<equiv> 1048"
abbreviation (input) ID_SHRN2_vec :: instructionID where "ID_SHRN2_vec \<equiv> 1049"
abbreviation (input) ID_RSHRN_vec :: instructionID where "ID_RSHRN_vec \<equiv> 1050"
abbreviation (input) ID_RSHRN2_vec :: instructionID where "ID_RSHRN2_vec \<equiv> 1051"
abbreviation (input) ID_SQSHRN_vec :: instructionID where "ID_SQSHRN_vec \<equiv> 1052"
abbreviation (input) ID_SQSHRN2_vec :: instructionID where "ID_SQSHRN2_vec \<equiv> 1053"
abbreviation (input) ID_SQRSHRN_vec :: instructionID where "ID_SQRSHRN_vec \<equiv> 1054"
abbreviation (input) ID_SQRSHRN2_vec :: instructionID where "ID_SQRSHRN2_vec \<equiv> 1055"
abbreviation (input) ID_SSHLL_vec :: instructionID where "ID_SSHLL_vec \<equiv> 1056"
abbreviation (input) ID_SSHLL2_vec :: instructionID where "ID_SSHLL2_vec \<equiv> 1057"
abbreviation (input) ID_SCVTF_vec_fixed :: instructionID where "ID_SCVTF_vec_fixed \<equiv> 1058"
abbreviation (input) ID_FCVTZS_vec_fixed :: instructionID where "ID_FCVTZS_vec_fixed \<equiv> 1059"
abbreviation (input) ID_USHR_vec :: instructionID where "ID_USHR_vec \<equiv> 1060"
abbreviation (input) ID_USRA_vec :: instructionID where "ID_USRA_vec \<equiv> 1061"
abbreviation (input) ID_URSHR_vec :: instructionID where "ID_URSHR_vec \<equiv> 1062"
abbreviation (input) ID_URSRA_vec :: instructionID where "ID_URSRA_vec \<equiv> 1063"
abbreviation (input) ID_SRI_vec :: instructionID where "ID_SRI_vec \<equiv> 1064"
abbreviation (input) ID_SLI_vec :: instructionID where "ID_SLI_vec \<equiv> 1065"
abbreviation (input) ID_SQSHLU_vec :: instructionID where "ID_SQSHLU_vec \<equiv> 1066"
abbreviation (input) ID_UQSHL_vec_imm :: instructionID where "ID_UQSHL_vec_imm \<equiv> 1067"
abbreviation (input) ID_SQSHRUN_vec :: instructionID where "ID_SQSHRUN_vec \<equiv> 1068"
abbreviation (input) ID_SQSHRUN2_vec :: instructionID where "ID_SQSHRUN2_vec \<equiv> 1069"
abbreviation (input) ID_SQRSHRUN_vec :: instructionID where "ID_SQRSHRUN_vec \<equiv> 1070"
abbreviation (input) ID_SQRSHRUN2_vec :: instructionID where "ID_SQRSHRUN2_vec \<equiv> 1071"
abbreviation (input) ID_UQSHRN_vec :: instructionID where "ID_UQSHRN_vec \<equiv> 1072"
abbreviation (input) ID_UQSHRN2_vec :: instructionID where "ID_UQSHRN2_vec \<equiv> 1073"
abbreviation (input) ID_UQRSHRN_vec :: instructionID where "ID_UQRSHRN_vec \<equiv> 1074"
abbreviation (input) ID_UQRSHRN2_vec :: instructionID where "ID_UQRSHRN2_vec \<equiv> 1075"
abbreviation (input) ID_USHLL_vec :: instructionID where "ID_USHLL_vec \<equiv> 1076"
abbreviation (input) ID_USHLL2_vec :: instructionID where "ID_USHLL2_vec \<equiv> 1077"
abbreviation (input) ID_UCVTF_vec_fixed :: instructionID where "ID_UCVTF_vec_fixed \<equiv> 1078"
abbreviation (input) ID_FCVTZU_vec_fixed :: instructionID where "ID_FCVTZU_vec_fixed \<equiv> 1079"

text \<open>Advanced SIMD vector x indexed element\<close>

abbreviation (input) ID_SMLAL_vec_element :: instructionID where "ID_SMLAL_vec_element \<equiv> 1080"
abbreviation (input) ID_SMLAL2_vec_element :: instructionID where "ID_SMLAL2_vec_element \<equiv> 1081"
abbreviation (input) ID_SQDMLAL_vec_element :: instructionID where "ID_SQDMLAL_vec_element \<equiv> 1082"
abbreviation (input) ID_SQDMLAL2_vec_element :: instructionID where "ID_SQDMLAL2_vec_element \<equiv> 1083"
abbreviation (input) ID_SMLSL_vec_element :: instructionID where "ID_SMLSL_vec_element \<equiv> 1084"
abbreviation (input) ID_SMLSL2_vec_element :: instructionID where "ID_SMLSL2_vec_element \<equiv> 1085"
abbreviation (input) ID_SQDMLSL_vec_element :: instructionID where "ID_SQDMLSL_vec_element \<equiv> 1086"
abbreviation (input) ID_SQDMLSL2_vec_element :: instructionID where "ID_SQDMLSL2_vec_element \<equiv> 1087"
abbreviation (input) ID_MUL_vec_element :: instructionID where "ID_MUL_vec_element \<equiv> 1088"
abbreviation (input) ID_SMULL_vec_element :: instructionID where "ID_SMULL_vec_element \<equiv> 1089"
abbreviation (input) ID_SMULL2_vec_element :: instructionID where "ID_SMULL2_vec_element \<equiv> 1090"
abbreviation (input) ID_SQDMULL_vec_element :: instructionID where "ID_SQDMULL_vec_element \<equiv> 1091"
abbreviation (input) ID_SQDMULL2_vec_element :: instructionID where "ID_SQDMULL2_vec_element \<equiv> 1092"
abbreviation (input) ID_SQDMULH_vec_element :: instructionID where "ID_SQDMULH_vec_element \<equiv> 1093"
abbreviation (input) ID_SQRDMULH_vec_element :: instructionID where "ID_SQRDMULH_vec_element \<equiv> 1094"
abbreviation (input) ID_FMLA_vec_element :: instructionID where "ID_FMLA_vec_element \<equiv> 1095"
abbreviation (input) ID_FMLS_vec_element :: instructionID where "ID_FMLS_vec_element \<equiv> 1096"
abbreviation (input) ID_FMUL_vec_element :: instructionID where "ID_FMUL_vec_element \<equiv> 1097"
abbreviation (input) ID_MLA_vec_element :: instructionID where "ID_MLA_vec_element \<equiv> 1098"
abbreviation (input) ID_UMLAL_vec_element :: instructionID where "ID_UMLAL_vec_element \<equiv> 1099"
abbreviation (input) ID_UMLAL2_vec_element :: instructionID where "ID_UMLAL2_vec_element \<equiv> 1100"
abbreviation (input) ID_MLS_vec_element :: instructionID where "ID_MLS_vec_element \<equiv> 1101"
abbreviation (input) ID_UMLSL_vec_element :: instructionID where "ID_UMLSL_vec_element \<equiv> 1102"
abbreviation (input) ID_UMLSL2_vec_element :: instructionID where "ID_UMLSL2_vec_element \<equiv> 1103"
abbreviation (input) ID_UMULL_vec_element :: instructionID where "ID_UMULL_vec_element \<equiv> 1104"
abbreviation (input) ID_UMULL2_vec_element :: instructionID where "ID_UMULL2_vec_element \<equiv> 1105"
abbreviation (input) ID_FMULX_vec_element :: instructionID where "ID_FMULX_vec_element \<equiv> 1106"

abbreviation (input) NUM_INSTRUCTIONS :: nat where "NUM_INSTRUCTIONS \<equiv> 1107"

end
