(* ===== verification/Decode_DPImm.thy ===== *)
theory Decode_DPImm
  imports Bitutils Instruction_Ids
begin

text \<open>
  Data processing with an immediate operand: the decision functions of \<^verbatim>\<open>libcpu/src/decode/decodeDPImm.cpp\<close>, one definition per C++
  function, in the order of the file. A C++ function assigns \<^verbatim>\<open>inst.id\<close>, which \<^verbatim>\<open>decode\<close> has set to
  \<^verbatim>\<open>INVALID\<close> before; the definition returns the value \<^verbatim>\<open>inst.id\<close> has at the end. A \<^verbatim>\<open>switch\<close> is a
  chain of tests in the order of its labels, and a \<^verbatim>\<open>default\<close> that only logs \<^verbatim>\<open>UNREACHABLE\<close>, or a
  missing one, leaves \<^verbatim>\<open>inst.id\<close> as it is.
\<close>

definition decodePCRel :: "u32 \<Rightarrow> instructionID" where
  "decodePCRel bits =
     (let isPage = testBit 31 bits in
      if isPage then ID_ADRP
      else ID_ADR)"

definition decodeAddSubImm :: "u32 \<Rightarrow> instructionID" where
  "decodeAddSubImm bits =
     (let shift = bitRange 22 23 bits in
      if shift > 1 then ID_INVALID
      else
          (let flags = bitRange 29 31 bits in
           if flags = 0 then ID_ADD_32_imm
           else if flags = 1 then ID_ADDS_32_imm
           else if flags = 2 then ID_SUB_32_imm
           else if flags = 3 then ID_SUBS_32_imm
           else if flags = 4 then ID_ADD_64_imm
           else if flags = 5 then ID_ADDS_64_imm
           else if flags = 6 then ID_SUB_64_imm
           else if flags = 7 then ID_SUBS_64_imm
           else ID_INVALID))"

definition decodeLogicalImm :: "u32 \<Rightarrow> instructionID" where
  "decodeLogicalImm bits =
     (let is64 = testBit 31 bits;
          opc = bitRange 29 30 bits;
          N = bitRange 22 22 bits in
      if \<not> is64 \<and> N = 1 then ID_INVALID
      else if is64 then
          (if opc = 0 then ID_AND_64_imm
           else if opc = 1 then ID_ORR_64_imm
           else if opc = 2 then ID_EOR_64_imm
           else if opc = 3 then ID_ANDS_64_imm
           else ID_INVALID)
      else if opc = 0 then ID_AND_32_imm
      else if opc = 1 then ID_ORR_32_imm
      else if opc = 2 then ID_EOR_32_imm
      else if opc = 3 then ID_ANDS_32_imm
      else ID_INVALID)"

definition decodeMoveWide :: "u32 \<Rightarrow> instructionID" where
  "decodeMoveWide bits =
     (let is64 = testBit 31 bits;
          opc = bitRange 29 30 bits;
          hw = bitRange 21 22 bits in
      if \<not> is64 \<and> hw > 1 \<or> opc = 1 then ID_INVALID
      else if is64 then
          (if opc = 0 then ID_MOVN_64
           else if opc = 2 then ID_MOVZ_64
           else if opc = 3 then ID_MOVK_64
           else ID_INVALID)
      else if opc = 0 then ID_MOVN_32
      else if opc = 2 then ID_MOVZ_32
      else if opc = 3 then ID_MOVK_32
      else ID_INVALID)"

definition decodeBitfield :: "u32 \<Rightarrow> instructionID" where
  "decodeBitfield bits =
     (let sf = bitRange 31 31 bits;
          opc = bitRange 29 30 bits;
          N = bitRange 22 22 bits;
          immr = bitRange 16 21 bits;
          imms = bitRange 10 15 bits in
      if sf \<noteq> N \<or> opc = 3 then ID_INVALID
      else if sf = 0 \<and> (immr > 31 \<or> imms > 31) then ID_INVALID
      else if sf = 1 then
          (if opc = 0 then ID_SBFM_64
           else if opc = 1 then ID_BFM_64
           else if opc = 2 then ID_UBFM_64
           else ID_INVALID)
      else if opc = 0 then ID_SBFM_32
      else if opc = 1 then ID_BFM_32
      else if opc = 2 then ID_UBFM_32
      else ID_INVALID)"

definition decodeExtract :: "u32 \<Rightarrow> instructionID" where
  "decodeExtract bits =
     (let sf = bitRange 31 31 bits;
          op21 = bitRange 29 30 bits;
          N = bitRange 22 22 bits;
          o0 = bitRange 21 21 bits;
          imms = bitRange 10 15 bits in
      if sf = 0 \<and> op21 = 0 \<and> N = 0 \<and> o0 = 0 \<and> imms < 32 then ID_EXTR_32
      else if sf = 1 \<and> op21 = 0 \<and> N = 1 \<and> o0 = 0 then ID_EXTR_64
      else ID_INVALID)"

definition decodeDPImm :: "u32 \<Rightarrow> instructionID" where
  "decodeDPImm bits =
     (let opcode = bitRange 23 25 bits in
      if opcode \<in> {0, 1} then decodePCRel bits
      else if opcode \<in> {2, 3} then decodeAddSubImm bits
      else if opcode = 4 then decodeLogicalImm bits
      else if opcode = 5 then decodeMoveWide bits
      else if opcode = 6 then decodeBitfield bits
      else if opcode = 7 then decodeExtract bits
      else ID_INVALID)"

end
