(* ===== verification/Decode_DPReg.thy ===== *)
theory Decode_DPReg
  imports Bitutils Instruction_Ids
begin

text \<open>
  Data processing on registers: the decision functions of \<^verbatim>\<open>libcpu/src/decode/decodeDPReg.cpp\<close>, one definition per C++
  function, in the order of the file. A C++ function assigns \<^verbatim>\<open>inst.id\<close>, which \<^verbatim>\<open>decode\<close> has set to
  \<^verbatim>\<open>INVALID\<close> before; the definition returns the value \<^verbatim>\<open>inst.id\<close> has at the end. A \<^verbatim>\<open>switch\<close> is a
  chain of tests in the order of its labels, and a \<^verbatim>\<open>default\<close> that only logs \<^verbatim>\<open>UNREACHABLE\<close>, or a
  missing one, leaves \<^verbatim>\<open>inst.id\<close> as it is.
\<close>

definition decodeDP2Source :: "u32 \<Rightarrow> instructionID" where
  "decodeDP2Source bits =
     (let is64 = testBit 31 bits;
          S = bitRange 29 29 bits;
          opcode = bitRange 10 15 bits in
      if S = 1 then ID_INVALID
      else if opcode = 2 then
          (if is64 then ID_UDIV_64
           else ID_UDIV_32)
      else if opcode = 3 then
          (if is64 then ID_SDIV_64
           else ID_SDIV_32)
      else if opcode = 8 then
          (if is64 then ID_LSLV_64
           else ID_LSLV_32)
      else if opcode = 9 then
          (if is64 then ID_LSRV_64
           else ID_LSRV_32)
      else if opcode = 10 then
          (if is64 then ID_ASRV_64
           else ID_ASRV_32)
      else if opcode = 11 then
          (if is64 then ID_RORV_64
           else ID_RORV_32)
      else if opcode = 16 then
          (if is64 then ID_INVALID
           else ID_CRC32B)
      else if opcode = 17 then
          (if is64 then ID_INVALID
           else ID_CRC32H)
      else if opcode = 18 then
          (if is64 then ID_INVALID
           else ID_CRC32W)
      else if opcode = 19 then
          (if is64 then ID_CRC32X
           else ID_INVALID)
      else if opcode = 20 then
          (if is64 then ID_INVALID
           else ID_CRC32CB)
      else if opcode = 21 then
          (if is64 then ID_INVALID
           else ID_CRC32CH)
      else if opcode = 22 then
          (if is64 then ID_INVALID
           else ID_CRC32CW)
      else if opcode = 23 then
          (if is64 then ID_CRC32CX
           else ID_INVALID)
      else ID_INVALID)"

definition decodeDP1Source :: "u32 \<Rightarrow> instructionID" where
  "decodeDP1Source bits =
     (let is64 = testBit 31 bits;
          S = bitRange 29 29 bits;
          opcode2 = bitRange 16 20 bits;
          opcode = bitRange 10 15 bits in
      if opcode > 5 then ID_INVALID
      else if opcode2 \<noteq> 0 then ID_INVALID
      else if S = 1 then ID_INVALID
      else if opcode = 0 then
          (if is64 then ID_RBIT_64
           else ID_RBIT_32)
      else if opcode = 1 then
          (if is64 then ID_REV16_64
           else ID_REV16_32)
      else if opcode = 2 then
          (if is64 then ID_REV32_64
           else ID_REV_32)
      else if opcode = 3 then
          (if is64 then ID_REV_64
           else ID_INVALID)
      else if opcode = 4 then
          (if is64 then ID_CLZ_64
           else ID_CLZ_32)
      else if opcode = 5 then
          (if is64 then ID_CLS_64
           else ID_CLS_32)
      else ID_INVALID)"

definition decodeLogicalReg :: "u32 \<Rightarrow> instructionID" where
  "decodeLogicalReg bits =
     (let is64 = testBit 31 bits;
          opc = bitRange 29 30 bits;
          negate = testBit 21 bits;
          imm = bitRange 10 15 bits in
      if \<not> is64 \<and> imm > 31 then ID_INVALID
      else if is64 then
          (if opc = 0 then
               (if negate then ID_BIC_64_shifted
                else ID_AND_64_shifted)
           else if opc = 1 then
               (if negate then ID_ORN_64_shifted
                else ID_ORR_64_shifted)
           else if opc = 2 then
               (if negate then ID_EON_64_shifted
                else ID_EOR_64_shifted)
           else if opc = 3 then
               (if negate then ID_BICS_64_shifted
                else ID_ANDS_64_shifted)
           else ID_INVALID)
      else if opc = 0 then
          (if negate then ID_BIC_32_shifted
           else ID_AND_32_shifted)
      else if opc = 1 then
          (if negate then ID_ORN_32_shifted
           else ID_ORR_32_shifted)
      else if opc = 2 then
          (if negate then ID_EON_32_shifted
           else ID_EOR_32_shifted)
      else if opc = 3 then
          (if negate then ID_BICS_32_shifted
           else ID_ANDS_32_shifted)
      else ID_INVALID)"

definition decodeAddSubShifted :: "u32 \<Rightarrow> instructionID" where
  "decodeAddSubShifted bits =
     (let flags = bitRange 29 31 bits;
          shift = bitRange 22 23 bits in
      if shift = 3 then ID_INVALID
      else if testBit 15 bits \<and> \<not> testBit 31 bits then ID_INVALID
      else if flags = 0 then ID_ADD_32_shifted
      else if flags = 1 then ID_ADDS_32_shifted
      else if flags = 2 then ID_SUB_32_shifted
      else if flags = 3 then ID_SUBS_32_shifted
      else if flags = 4 then ID_ADD_64_shifted
      else if flags = 5 then ID_ADDS_64_shifted
      else if flags = 6 then ID_SUB_64_shifted
      else if flags = 7 then ID_SUBS_64_shifted
      else ID_INVALID)"

definition decodeAddSubExtended :: "u32 \<Rightarrow> instructionID" where
  "decodeAddSubExtended bits =
     (let flags = bitRange 29 31 bits;
          opt = bitRange 22 23 bits;
          imm = bitRange 10 12 bits in
      if opt \<noteq> 0 then ID_INVALID
      else if imm > 4 then ID_INVALID
      else if flags = 0 then ID_ADD_32_extended
      else if flags = 1 then ID_ADDS_32_extended
      else if flags = 2 then ID_SUB_32_extended
      else if flags = 3 then ID_SUBS_32_extended
      else if flags = 4 then ID_ADD_64_extended
      else if flags = 5 then ID_ADDS_64_extended
      else if flags = 6 then ID_SUB_64_extended
      else if flags = 7 then ID_SUBS_64_extended
      else ID_INVALID)"

definition decodeAddSubCarry :: "u32 \<Rightarrow> instructionID" where
  "decodeAddSubCarry bits =
     (let flags = bitRange 29 31 bits;
          opcode2 = bitRange 10 15 bits in
      if opcode2 \<noteq> 0 then ID_INVALID
      else if flags = 0 then ID_ADC_32
      else if flags = 1 then ID_ADCS_32
      else if flags = 2 then ID_SBC_32
      else if flags = 3 then ID_SBCS_32
      else if flags = 4 then ID_ADC_64
      else if flags = 5 then ID_ADCS_64
      else if flags = 6 then ID_SBC_64
      else if flags = 7 then ID_SBCS_64
      else ID_INVALID)"

definition decodeCondCmpReg :: "u32 \<Rightarrow> instructionID" where
  "decodeCondCmpReg bits =
     (let is64 = testBit 31 bits;
          negate = testBit 30 bits;
          S = bitRange 29 29 bits;
          o2 = bitRange 10 10 bits;
          o3 = bitRange 4 4 bits in
      if o3 = 1 \<or> o2 = 1 \<or> S = 0 then ID_INVALID
      else if is64 then
          (if negate then ID_CCMP_64_reg
           else ID_CCMN_64_reg)
      else if negate then ID_CCMP_32_reg
      else ID_CCMN_32_reg)"

definition decodeCondCmpImm :: "u32 \<Rightarrow> instructionID" where
  "decodeCondCmpImm bits =
     (let is64 = testBit 31 bits;
          negate = testBit 30 bits;
          S = bitRange 29 29 bits;
          o2 = bitRange 10 10 bits;
          o3 = bitRange 4 4 bits in
      if o3 = 1 \<or> o2 = 1 \<or> S = 0 then ID_INVALID
      else if is64 then
          (if negate then ID_CCMP_64_imm
           else ID_CCMN_64_imm)
      else if negate then ID_CCMP_32_imm
      else ID_CCMN_32_imm)"

definition decodeCondSel :: "u32 \<Rightarrow> instructionID" where
  "decodeCondSel bits =
     (let is64 = testBit 31 bits;
          invert = testBit 30 bits;
          S = bitRange 29 29 bits;
          op2 = bitRange 10 11 bits in
      if S = 1 \<or> op2 > 1 then ID_INVALID
      else if op2 = 1 then
          (if is64 then
               (if invert then ID_CSNEG_64
                else ID_CSINC_64)
           else if invert then ID_CSNEG_32
           else ID_CSINC_32)
      else if is64 then
          (if invert then ID_CSINV_64
           else ID_CSEL_64)
      else if invert then ID_CSINV_32
      else ID_CSEL_32)"

definition decodeDP3Source :: "u32 \<Rightarrow> instructionID" where
  "decodeDP3Source bits =
     (let is64 = testBit 31 bits;
          op54 = bitRange 29 30 bits;
          op31 = bitRange 21 23 bits;
          o0 = bitRange 15 15 bits in
      if op54 \<noteq> 0 then ID_INVALID
      else if is64 then
          (if op31 = 0 then
               (if o0 \<noteq> 0 then ID_MSUB_64
                else ID_MADD_64)
           else if op31 = 1 then
               (if o0 \<noteq> 0 then ID_SMSUBL
                else ID_SMADDL)
           else if op31 = 2 then
               (if o0 = 1 then ID_INVALID
                else ID_SMULH)
           else if op31 = 5 then
               (if o0 \<noteq> 0 then ID_UMSUBL
                else ID_UMADDL)
           else if op31 = 6 then
               (if o0 = 1 then ID_INVALID
                else ID_UMULH)
           else if op31 \<in> {3, 4, 7} then ID_INVALID
           else ID_INVALID)
      else if op31 \<noteq> 0 then ID_INVALID
      else if o0 \<noteq> 0 then ID_MSUB_32
      else ID_MADD_32)"

definition decodeDPReg :: "u32 \<Rightarrow> instructionID" where
  "decodeDPReg bits =
     (let op0 = bitRange 30 30 bits;
          op1 = bitRange 28 28 bits;
          op2 = bitRange 21 24 bits;
          op3 = bitRange 11 11 bits in
      if op1 = 1 then
          (if op2 = 0 then decodeAddSubCarry bits
           else if op2 = 2 then
               (if op3 = 0 then decodeCondCmpReg bits
                else decodeCondCmpImm bits)
           else if op2 = 4 then decodeCondSel bits
           else if op2 = 6 then
               (if op0 = 0 then decodeDP2Source bits
                else decodeDP1Source bits)
           else if op2 \<in> {8, 9, 10, 11, 12, 13, 14, 15} then decodeDP3Source bits
           else if op2 \<in> {1, 3, 5, 7} then ID_INVALID
           else ID_INVALID)
      else if op2 \<in> {0, 1, 2, 3, 4, 5, 6, 7} then decodeLogicalReg bits
      else if op2 \<in> {8, 10, 12, 14} then decodeAddSubShifted bits
      else if op2 \<in> {9, 11, 13, 15} then decodeAddSubExtended bits
      else ID_INVALID)"

end
