(* ===== verification/Decode_System.thy ===== *)
theory Decode_System
  imports Bitutils Instruction_Ids
begin

text \<open>
  System and exception generating instructions: the decision functions of \<^verbatim>\<open>libcpu/src/decode/decodeSystem.cpp\<close>, one definition per C++
  function, in the order of the file. A C++ function assigns \<^verbatim>\<open>inst.id\<close>, which \<^verbatim>\<open>decode\<close> has set to
  \<^verbatim>\<open>INVALID\<close> before; the definition returns the value \<^verbatim>\<open>inst.id\<close> has at the end. A \<^verbatim>\<open>switch\<close> is a
  chain of tests in the order of its labels, and a \<^verbatim>\<open>default\<close> that only logs \<^verbatim>\<open>UNREACHABLE\<close>, or a
  missing one, leaves \<^verbatim>\<open>inst.id\<close> as it is.
\<close>

definition decodeSystem :: "u32 \<Rightarrow> instructionID" where
  "decodeSystem bits =
     (let L = bitRange 21 21 bits;
          op0 = bitRange 19 20 bits;
          op1 = bitRange 16 18 bits;
          CRn = bitRange 12 15 bits;
          CRm = bitRange 8 11 bits;
          op2 = bitRange 5 7 bits;
          Rt = bitRange 0 4 bits in
      if L = 1 then
          (if op0 = 0 then ID_INVALID
           else if op0 = 1 then ID_SYSL
           else ID_MRS)
      else if op0 = 0 then
          (if CRn \<in> {0, 1, 5, 6, 7, 8, 9, 10, 11, 12, 13, 14, 15} then ID_INVALID
           else if CRn = 4 then
               (if Rt = 31 then ID_MSR_imm
                else ID_INVALID)
           else if CRn = 2 then
               (if op1 \<noteq> 3 then ID_INVALID
                else if Rt \<noteq> 31 then ID_INVALID
                else if CRm \<noteq> 0 then ID_HINT
                else if op2 = 0 then ID_NOP
                else if op2 = 1 then ID_YIELD
                else if op2 = 2 then ID_WFE
                else if op2 = 3 then ID_WFI
                else if op2 = 4 then ID_SEV
                else if op2 = 5 then ID_SEVL
                else if op2 \<in> {6, 7} then ID_HINT
                else ID_INVALID)
           else if CRn = 3 then
               (if op1 \<noteq> 3 then ID_INVALID
                else if Rt \<noteq> 31 then ID_INVALID
                else if op2 \<in> {0, 1, 3, 7} then ID_INVALID
                else if op2 = 2 then ID_CLREX
                else if op2 = 4 then ID_DSB
                else if op2 = 5 then ID_DMB
                else if op2 = 6 then ID_ISB
                else ID_INVALID)
           else ID_INVALID)
      else if op0 = 1 then ID_SYS
      else ID_MSR_reg)"

definition decodeExceptionGenerating :: "u32 \<Rightarrow> instructionID" where
  "decodeExceptionGenerating bits =
     (let opc = bitRange 21 23 bits;
          op2 = bitRange 2 4 bits;
          LL = bitRange 0 1 bits in
      if op2 \<noteq> 0 then ID_INVALID
      else if opc = 0 then
          (if LL = 0 then ID_INVALID
           else if LL = 1 then ID_SVC
           else if LL = 2 then ID_HVC
           else if LL = 3 then ID_SMC
           else ID_INVALID)
      else if opc = 1 then
          (if LL = 0 then ID_BRK
           else ID_INVALID)
      else if opc = 2 then
          (if LL = 0 then ID_HLT
           else ID_INVALID)
      else if opc = 5 then
          (if LL = 0 then ID_INVALID
           else if LL = 1 then ID_DCPS1
           else if LL = 2 then ID_DCPS2
           else if LL = 3 then ID_DCPS3
           else ID_INVALID)
      else if opc \<in> {3, 4, 6, 7} then ID_INVALID
      else ID_INVALID)"

end
