(* ===== verification/Decode_LoadStore.thy ===== *)
theory Decode_LoadStore
  imports Bitutils Instruction_Ids
begin

text \<open>
  Loads and stores: the decision functions of \<^verbatim>\<open>libcpu/src/decode/decodeLoadStore.cpp\<close>, one definition per C++
  function, in the order of the file. A C++ function assigns \<^verbatim>\<open>inst.id\<close>, which \<^verbatim>\<open>decode\<close> has set to
  \<^verbatim>\<open>INVALID\<close> before; the definition returns the value \<^verbatim>\<open>inst.id\<close> has at the end. A \<^verbatim>\<open>switch\<close> is a
  chain of tests in the order of its labels, and a \<^verbatim>\<open>default\<close> that only logs \<^verbatim>\<open>UNREACHABLE\<close>, or a
  missing one, leaves \<^verbatim>\<open>inst.id\<close> as it is.
\<close>

definition decodeLoadStoreSIMDMultipleStructs :: "u32 \<Rightarrow> instructionID" where
  "decodeLoadStoreSIMDMultipleStructs bits =
     (let L = bitRange 22 22 bits;
          opcode = bitRange 12 15 bits in
      if opcode = 0 then
          (if L = 0 then ID_ST4_multi
           else ID_LD4_multi)
      else if opcode = 2 then
          (if L = 0 then ID_ST1_multi_4reg
           else ID_LD1_multi_4reg)
      else if opcode = 4 then
          (if L = 0 then ID_ST3_multi
           else ID_LD3_multi)
      else if opcode = 6 then
          (if L = 0 then ID_ST1_multi_3reg
           else ID_LD1_multi_3reg)
      else if opcode = 7 then
          (if L = 0 then ID_ST1_multi_1reg
           else ID_LD1_multi_1reg)
      else if opcode = 8 then
          (if L = 0 then ID_ST2_multi
           else ID_LD2_multi)
      else if opcode = 10 then
          (if L = 0 then ID_ST1_multi_2reg
           else ID_LD1_multi_2reg)
      else ID_INVALID)"

definition decodeLoadStoreSIMDMultipleStructsPostIndex :: "u32 \<Rightarrow> instructionID" where
  "decodeLoadStoreSIMDMultipleStructsPostIndex bits =
     (let L = bitRange 22 22 bits;
          Rm = bitRange 16 20 bits;
          opcode = bitRange 12 15 bits in
      if Rm \<noteq> 31 then
          (if opcode = 0 then
               (if L = 0 then ID_ST4_multi_reg
                else ID_LD4_multi_reg)
           else if opcode = 2 then
               (if L = 0 then ID_ST1_multi_reg_4reg
                else ID_LD1_multi_reg_4reg)
           else if opcode = 4 then
               (if L = 0 then ID_ST3_multi_reg
                else ID_LD3_multi_reg)
           else if opcode = 6 then
               (if L = 0 then ID_ST1_multi_reg_3reg
                else ID_LD1_multi_reg_3reg)
           else if opcode = 7 then
               (if L = 0 then ID_ST1_multi_reg_1reg
                else ID_LD1_multi_reg_1reg)
           else if opcode = 8 then
               (if L = 0 then ID_ST2_multi_reg
                else ID_LD2_multi_reg)
           else if opcode = 10 then
               (if L = 0 then ID_ST1_multi_reg_2reg
                else ID_LD1_multi_reg_2reg)
           else ID_INVALID)
      else if opcode = 0 then
          (if L = 0 then ID_ST4_multi_offset
           else ID_LD4_multi_offset)
      else if opcode = 2 then
          (if L = 0 then ID_ST1_multi_offset_4reg
           else ID_LD1_multi_offset_4reg)
      else if opcode = 4 then
          (if L = 0 then ID_ST3_multi_offset
           else ID_LD3_multi_offset)
      else if opcode = 6 then
          (if L = 0 then ID_ST1_multi_offset_3reg
           else ID_LD1_multi_offset_3reg)
      else if opcode = 7 then
          (if L = 0 then ID_ST1_multi_offset_1reg
           else ID_LD1_multi_offset_1reg)
      else if opcode = 8 then
          (if L = 0 then ID_ST2_multi_offset
           else ID_LD2_multi_offset)
      else if opcode = 10 then
          (if L = 0 then ID_ST1_multi_offset_2reg
           else ID_LD1_multi_offset_2reg)
      else ID_INVALID)"

definition decodeLoadStoreSIMDSingleStruct :: "u32 \<Rightarrow> instructionID" where
  "decodeLoadStoreSIMDSingleStruct bits =
     (let L = bitRange 22 22 bits;
          R = bitRange 21 21 bits;
          opcode = bitRange 13 15 bits;
          S = bitRange 12 12 bits;
          size = bitRange 10 11 bits in
      if L = 0 then
          (if R = 0 then
               (if opcode = 0 then ID_ST1_single_8
                else if opcode = 1 then ID_ST3_single_8
                else if opcode = 2 then
                    (if size AND 1 = 0 then ID_ST1_single_16
                     else ID_INVALID)
                else if opcode = 3 then
                    (if size AND 1 = 0 then ID_ST3_single_16
                     else ID_INVALID)
                else if opcode = 4 then
                    (if size = 0 then ID_ST1_single_32
                     else if size = 1 \<and> S = 0 then ID_ST1_single_64
                     else ID_INVALID)
                else if opcode = 5 then
                    (if size = 0 then ID_ST3_single_32
                     else if size = 1 \<and> S = 0 then ID_ST3_single_64
                     else ID_INVALID)
                else ID_INVALID)
           else if opcode = 0 then ID_ST2_single_8
           else if opcode = 1 then ID_ST4_single_8
           else if opcode = 2 then
               (if size AND 1 = 0 then ID_ST2_single_16
                else ID_INVALID)
           else if opcode = 3 then
               (if size AND 1 = 0 then ID_ST4_single_16
                else ID_INVALID)
           else if opcode = 4 then
               (if size = 0 then ID_ST2_single_32
                else if size = 1 \<and> S = 0 then ID_ST2_single_64
                else ID_INVALID)
           else if opcode = 5 then
               (if size = 0 then ID_ST4_single_32
                else if size = 1 \<and> S = 0 then ID_ST4_single_64
                else ID_INVALID)
           else ID_INVALID)
      else if R = 0 then
          (if opcode = 0 then ID_LD1_single_8
           else if opcode = 1 then ID_LD3_single_8
           else if opcode = 2 then
               (if size AND 1 = 0 then ID_LD1_single_16
                else ID_INVALID)
           else if opcode = 3 then
               (if size AND 1 = 0 then ID_LD3_single_16
                else ID_INVALID)
           else if opcode = 4 then
               (if size = 0 then ID_LD1_single_32
                else if size = 1 \<and> S = 0 then ID_LD1_single_64
                else ID_INVALID)
           else if opcode = 5 then
               (if size = 0 then ID_LD3_single_32
                else if size = 1 \<and> S = 0 then ID_LD3_single_64
                else ID_INVALID)
           else if opcode = 6 then
               (if S = 0 then ID_LD1R
                else ID_INVALID)
           else if opcode = 7 then
               (if S = 0 then ID_LD3R
                else ID_INVALID)
           else ID_INVALID)
      else if opcode = 0 then ID_LD2_single_8
      else if opcode = 1 then ID_LD4_single_8
      else if opcode = 2 then
          (if size AND 1 = 0 then ID_LD2_single_16
           else ID_INVALID)
      else if opcode = 3 then
          (if size AND 1 = 0 then ID_LD4_single_16
           else ID_INVALID)
      else if opcode = 4 then
          (if size = 0 then ID_LD2_single_32
           else if size = 1 \<and> S = 0 then ID_LD2_single_64
           else ID_INVALID)
      else if opcode = 5 then
          (if size = 0 then ID_LD4_single_32
           else if size = 1 \<and> S = 0 then ID_LD4_single_64
           else ID_INVALID)
      else if opcode = 6 then
          (if S = 0 then ID_LD2R
           else ID_INVALID)
      else if opcode = 7 then
          (if S = 0 then ID_LD4R
           else ID_INVALID)
      else ID_INVALID)"

definition decodeLoadStoreSIMDSingleStructPostIndex :: "u32 \<Rightarrow> instructionID" where
  "decodeLoadStoreSIMDSingleStructPostIndex bits =
     (let L = bitRange 22 22 bits;
          R = bitRange 21 21 bits;
          Rm = bitRange 16 20 bits;
          opcode = bitRange 13 15 bits;
          S = bitRange 12 12 bits;
          size = bitRange 10 11 bits in
      if Rm \<noteq> 31 then
          (if L = 0 then
               (if R = 0 then
                    (if opcode = 0 then ID_ST1_single_8_reg
                     else if opcode = 1 then ID_ST3_single_8_reg
                     else if opcode = 2 then
                         (if size AND 1 = 0 then ID_ST1_single_16_reg
                          else ID_INVALID)
                     else if opcode = 3 then
                         (if size AND 1 = 0 then ID_ST3_single_16_reg
                          else ID_INVALID)
                     else if opcode = 4 then
                         (if size = 0 then ID_ST1_single_32_reg
                          else if size = 1 \<and> S = 0 then ID_ST1_single_64_reg
                          else ID_INVALID)
                     else if opcode = 5 then
                         (if size = 0 then ID_ST3_single_32_reg
                          else if size = 1 \<and> S = 0 then ID_ST3_single_64_reg
                          else ID_INVALID)
                     else ID_INVALID)
                else if opcode = 0 then ID_ST2_single_8_reg
                else if opcode = 1 then ID_ST4_single_8_reg
                else if opcode = 2 then
                    (if size AND 1 = 0 then ID_ST2_single_16_reg
                     else ID_INVALID)
                else if opcode = 3 then
                    (if size AND 1 = 0 then ID_ST4_single_16_reg
                     else ID_INVALID)
                else if opcode = 4 then
                    (if size = 0 then ID_ST2_single_32_reg
                     else if size = 1 \<and> S = 0 then ID_ST2_single_64_reg
                     else ID_INVALID)
                else if opcode = 5 then
                    (if size = 0 then ID_ST4_single_32_reg
                     else if size = 1 \<and> S = 0 then ID_ST4_single_64_reg
                     else ID_INVALID)
                else ID_INVALID)
           else if R = 0 then
               (if opcode = 0 then ID_LD1_single_8_reg
                else if opcode = 1 then ID_LD3_single_8_reg
                else if opcode = 2 then
                    (if size AND 1 = 0 then ID_LD1_single_16_reg
                     else ID_INVALID)
                else if opcode = 3 then
                    (if size AND 1 = 0 then ID_LD3_single_16_reg
                     else ID_INVALID)
                else if opcode = 4 then
                    (if size = 0 then ID_LD1_single_32_reg
                     else if size = 1 \<and> S = 0 then ID_LD1_single_64_reg
                     else ID_INVALID)
                else if opcode = 5 then
                    (if size = 0 then ID_LD3_single_32_reg
                     else if size = 1 \<and> S = 0 then ID_LD3_single_64_reg
                     else ID_INVALID)
                else if opcode = 6 then
                    (if S = 0 then ID_LD1R_reg
                     else ID_INVALID)
                else if opcode = 7 then
                    (if S = 0 then ID_LD3R_reg
                     else ID_INVALID)
                else ID_INVALID)
           else if opcode = 0 then ID_LD2_single_8_reg
           else if opcode = 1 then ID_LD4_single_8_reg
           else if opcode = 2 then
               (if size AND 1 = 0 then ID_LD2_single_16_reg
                else ID_INVALID)
           else if opcode = 3 then
               (if size AND 1 = 0 then ID_LD4_single_16_reg
                else ID_INVALID)
           else if opcode = 4 then
               (if size = 0 then ID_LD2_single_32_reg
                else if size = 1 \<and> S = 0 then ID_LD2_single_64_reg
                else ID_INVALID)
           else if opcode = 5 then
               (if size = 0 then ID_LD4_single_32_reg
                else if size = 1 \<and> S = 0 then ID_LD4_single_64_reg
                else ID_INVALID)
           else if opcode = 6 then
               (if S = 0 then ID_LD2R_reg
                else ID_INVALID)
           else if opcode = 7 then
               (if S = 0 then ID_LD4R_reg
                else ID_INVALID)
           else ID_INVALID)
      else if L = 0 then
          (if R = 0 then
               (if opcode = 0 then ID_ST1_single_8_imm
                else if opcode = 1 then ID_ST3_single_8_imm
                else if opcode = 2 then
                    (if size AND 1 = 0 then ID_ST1_single_16_imm
                     else ID_INVALID)
                else if opcode = 3 then
                    (if size AND 1 = 0 then ID_ST3_single_16_imm
                     else ID_INVALID)
                else if opcode = 4 then
                    (if size = 0 then ID_ST1_single_32_imm
                     else if size = 1 \<and> S = 0 then ID_ST1_single_64_imm
                     else ID_INVALID)
                else if opcode = 5 then
                    (if size = 0 then ID_ST3_single_32_imm
                     else if size = 1 \<and> S = 0 then ID_ST3_single_64_imm
                     else ID_INVALID)
                else ID_INVALID)
           else if opcode = 0 then ID_ST2_single_8_imm
           else if opcode = 1 then ID_ST4_single_8_imm
           else if opcode = 2 then
               (if size AND 1 = 0 then ID_ST2_single_16_imm
                else ID_INVALID)
           else if opcode = 3 then
               (if size AND 1 = 0 then ID_ST4_single_16_imm
                else ID_INVALID)
           else if opcode = 4 then
               (if size = 0 then ID_ST2_single_32_imm
                else if size = 1 \<and> S = 0 then ID_ST2_single_64_imm
                else ID_INVALID)
           else if opcode = 5 then
               (if size = 0 then ID_ST4_single_32_imm
                else if size = 1 \<and> S = 0 then ID_ST4_single_64_imm
                else ID_INVALID)
           else ID_INVALID)
      else if R = 0 then
          (if opcode = 0 then ID_LD1_single_8_imm
           else if opcode = 1 then ID_LD3_single_8_imm
           else if opcode = 2 then
               (if size AND 1 = 0 then ID_LD1_single_16_imm
                else ID_INVALID)
           else if opcode = 3 then
               (if size AND 1 = 0 then ID_LD3_single_16_imm
                else ID_INVALID)
           else if opcode = 4 then
               (if size = 0 then ID_LD1_single_32_imm
                else if size = 1 \<and> S = 0 then ID_LD1_single_64_imm
                else ID_INVALID)
           else if opcode = 5 then
               (if size = 0 then ID_LD3_single_32_imm
                else if size = 1 \<and> S = 0 then ID_LD3_single_64_imm
                else ID_INVALID)
           else if opcode = 6 then
               (if S = 0 then ID_LD1R_imm
                else ID_INVALID)
           else if opcode = 7 then
               (if S = 0 then ID_LD3R_imm
                else ID_INVALID)
           else ID_INVALID)
      else if opcode = 0 then ID_LD2_single_8_imm
      else if opcode = 1 then ID_LD4_single_8_imm
      else if opcode = 2 then
          (if size AND 1 = 0 then ID_LD2_single_16_imm
           else ID_INVALID)
      else if opcode = 3 then
          (if size AND 1 = 0 then ID_LD4_single_16_imm
           else ID_INVALID)
      else if opcode = 4 then
          (if size = 0 then ID_LD2_single_32_imm
           else if size = 1 \<and> S = 0 then ID_LD2_single_64_imm
           else ID_INVALID)
      else if opcode = 5 then
          (if size = 0 then ID_LD4_single_32_imm
           else if size = 1 \<and> S = 0 then ID_LD4_single_64_imm
           else ID_INVALID)
      else if opcode = 6 then
          (if S = 0 then ID_LD2R_imm
           else ID_INVALID)
      else if opcode = 7 then
          (if S = 0 then ID_LD4R_imm
           else ID_INVALID)
      else ID_INVALID)"

definition decodeLoadStoreExclusive :: "u32 \<Rightarrow> instructionID" where
  "decodeLoadStoreExclusive bits =
     (let size = bitRange 30 31 bits;
          o2 = bitRange 23 23 bits;
          L = bitRange 22 22 bits;
          o1 = bitRange 21 21 bits;
          o0 = bitRange 15 15 bits in
      if o2 = 1 \<and> o1 = 0 \<and> o0 = 0 then ID_INVALID
      else if o2 = 1 \<and> o1 = 1 then ID_INVALID
      else if size < 2 \<and> o1 = 1 then ID_INVALID
      else if size = 0 then
          (if o2 = 0 then
               (if L = 0 then
                    (if o0 = 0 then ID_STXRB
                     else ID_STLXRB)
                else if o0 = 0 then ID_LDXRB
                else ID_LDAXRB)
           else if L = 0 then ID_STLRB
           else ID_LDARB)
      else if size = 1 then
          (if o2 = 0 then
               (if L = 0 then
                    (if o0 = 0 then ID_STXRH
                     else ID_STLXRH)
                else if o0 = 0 then ID_LDXRH
                else ID_LDAXRH)
           else if L = 0 then ID_STLRH
           else ID_LDARH)
      else if size = 2 then
          (if o2 = 0 then
               (if o1 = 0 then
                    (if L = 0 then
                         (if o0 = 0 then ID_STXR32
                          else ID_STLXR32)
                     else if o0 = 0 then ID_LDXR32
                     else ID_LDAXR32)
                else if L = 0 then
                    (if o0 = 0 then ID_STXP32
                     else ID_STLXP32)
                else if o0 = 0 then ID_LDXP32
                else ID_LDAXP32)
           else if L = 0 then ID_STLR32
           else ID_LDAR32)
      else if size = 3 then
          (if o2 = 0 then
               (if o1 = 0 then
                    (if L = 0 then
                         (if o0 = 0 then ID_STXR64
                          else ID_STLXR64)
                     else if o0 = 0 then ID_LDXR64
                     else ID_LDAXR64)
                else if L = 0 then
                    (if o0 = 0 then ID_STXP64
                     else ID_STLXP64)
                else if o0 = 0 then ID_LDXP64
                else ID_LDAXP64)
           else if L = 0 then ID_STLR64
           else ID_LDAR64)
      else ID_INVALID)"

definition decodeLoadStoreUnprivileged :: "u32 \<Rightarrow> instructionID" where
  "decodeLoadStoreUnprivileged bits =
     (let size = bitRange 30 31 bits;
          isSIMD = testBit 26 bits;
          opc = bitRange 22 23 bits in
      if isSIMD then ID_INVALID
      else if size = 0 then
          (if opc = 0 then ID_STTRB
           else if opc = 1 then ID_LDTRB
           else if opc = 2 then ID_LDTRSB64
           else if opc = 3 then ID_LDTRSB32
           else ID_INVALID)
      else if size = 1 then
          (if opc = 0 then ID_STTRH
           else if opc = 1 then ID_LDTRH
           else if opc = 2 then ID_LDTRSH64
           else if opc = 3 then ID_LDTRSH32
           else ID_INVALID)
      else if size = 2 then
          (if opc = 0 then ID_STTR32
           else if opc = 1 then ID_LDTR32
           else if opc = 2 then ID_LDTRSW
           else ID_INVALID)
      else if size = 3 then
          (if opc = 0 then ID_STTR64
           else if opc = 1 then ID_LDTR64
           else ID_INVALID)
      else ID_INVALID)"

definition decodeLoadStoreRegUnsignedImm :: "u32 \<Rightarrow> instructionID" where
  "decodeLoadStoreRegUnsignedImm bits =
     (let size = bitRange 30 31 bits;
          isSIMD = testBit 26 bits;
          opc = bitRange 22 23 bits;
          inst_id = (if size \<noteq> 0 \<and> isSIMD \<and> opc > 1 then ID_INVALID else ID_INVALID) in
      if isSIMD then
          (if size = 0 then
               (if opc = 0 then ID_STR8_imm_float
                else if opc = 1 then ID_LDR8_imm_float
                else if opc = 2 then ID_STR128_imm
                else if opc = 3 then ID_LDR128_imm
                else inst_id)
           else if size = 1 then
               (if opc = 0 then ID_STR16_imm_float
                else if opc = 1 then ID_LDR16_imm_float
                else if opc \<in> {2, 3} then ID_INVALID
                else inst_id)
           else if size = 2 then
               (if opc = 0 then ID_STR32_imm_float
                else if opc = 1 then ID_LDR32_imm_float
                else if opc \<in> {2, 3} then ID_INVALID
                else inst_id)
           else if size = 3 then
               (if opc = 0 then ID_STR64_imm_float
                else if opc = 1 then ID_LDR64_imm_float
                else if opc \<in> {2, 3} then ID_INVALID
                else inst_id)
           else inst_id)
      else if size = 0 then
          (if opc = 0 then ID_STRB_imm
           else if opc = 1 then ID_LDRB_imm
           else if opc = 2 then ID_LDRSB64_imm
           else if opc = 3 then ID_LDRSB32_imm
           else inst_id)
      else if size = 1 then
          (if opc = 0 then ID_STRH_imm
           else if opc = 1 then ID_LDRH_imm
           else if opc = 2 then ID_LDRSH64_imm
           else if opc = 3 then ID_LDRSH32_imm
           else inst_id)
      else if size = 2 then
          (if opc = 0 then ID_STR32_imm
           else if opc = 1 then ID_LDR32_imm
           else if opc = 2 then ID_LDRSW_imm
           else if opc = 3 then ID_INVALID
           else inst_id)
      else if size = 3 then
          (if opc = 0 then ID_STR64_imm
           else if opc = 1 then ID_LDR64_imm
           else if opc = 2 then ID_PRFM_imm
           else if opc = 3 then ID_INVALID
           else inst_id)
      else inst_id)"

definition decodeLoadStoreRegImmPostIndex :: "u32 \<Rightarrow> instructionID" where
  "decodeLoadStoreRegImmPostIndex bits =
     (let size = bitRange 30 31 bits;
          isSIMD = testBit 26 bits;
          opc = bitRange 22 23 bits;
          inst_id = (if size \<noteq> 0 \<and> isSIMD \<and> opc > 1 then ID_INVALID else ID_INVALID) in
      if isSIMD then
          (if size = 0 then
               (if opc = 0 then ID_STR8_post_float
                else if opc = 1 then ID_LDR8_post_float
                else if opc = 2 then ID_STR128_post
                else if opc = 3 then ID_LDR128_post
                else inst_id)
           else if size = 1 then
               (if opc = 0 then ID_STR16_post_float
                else if opc = 1 then ID_LDR16_post_float
                else if opc \<in> {2, 3} then ID_INVALID
                else inst_id)
           else if size = 2 then
               (if opc = 0 then ID_STR32_post_float
                else if opc = 1 then ID_LDR32_post_float
                else if opc \<in> {2, 3} then ID_INVALID
                else inst_id)
           else if size = 3 then
               (if opc = 0 then ID_STR64_post_float
                else if opc = 1 then ID_LDR64_post_float
                else if opc \<in> {2, 3} then ID_INVALID
                else inst_id)
           else inst_id)
      else if size = 0 then
          (if opc = 0 then ID_STRB_post
           else if opc = 1 then ID_LDRB_post
           else if opc = 2 then ID_LDRSB64_post
           else if opc = 3 then ID_LDRSB32_post
           else inst_id)
      else if size = 1 then
          (if opc = 0 then ID_STRH_post
           else if opc = 1 then ID_LDRH_post
           else if opc = 2 then ID_LDRSH64_post
           else if opc = 3 then ID_LDRSH32_post
           else inst_id)
      else if size = 2 then
          (if opc = 0 then ID_STR32_post
           else if opc = 1 then ID_LDR32_post
           else if opc = 2 then ID_LDRSW_post
           else if opc = 3 then ID_INVALID
           else inst_id)
      else if size = 3 then
          (if opc = 0 then ID_STR64_post
           else if opc = 1 then ID_LDR64_post
           else if opc \<in> {2, 3} then ID_INVALID
           else inst_id)
      else inst_id)"

definition decodeLoadStoreRegImmPreIndex :: "u32 \<Rightarrow> instructionID" where
  "decodeLoadStoreRegImmPreIndex bits =
     (let size = bitRange 30 31 bits;
          isSIMD = testBit 26 bits;
          opc = bitRange 22 23 bits;
          inst_id = (if size \<noteq> 0 \<and> isSIMD \<and> opc > 1 then ID_INVALID else ID_INVALID) in
      if isSIMD then
          (if size = 0 then
               (if opc = 0 then ID_STR8_pre_float
                else if opc = 1 then ID_LDR8_pre_float
                else if opc = 2 then ID_STR128_pre
                else if opc = 3 then ID_LDR128_pre
                else inst_id)
           else if size = 1 then
               (if opc = 0 then ID_STR16_pre_float
                else if opc = 1 then ID_LDR16_pre_float
                else if opc \<in> {2, 3} then ID_INVALID
                else inst_id)
           else if size = 2 then
               (if opc = 0 then ID_STR32_pre_float
                else if opc = 1 then ID_LDR32_pre_float
                else if opc \<in> {2, 3} then ID_INVALID
                else inst_id)
           else if size = 3 then
               (if opc = 0 then ID_STR64_pre_float
                else if opc = 1 then ID_LDR64_pre_float
                else if opc \<in> {2, 3} then ID_INVALID
                else inst_id)
           else inst_id)
      else if size = 0 then
          (if opc = 0 then ID_STRB_pre
           else if opc = 1 then ID_LDRB_pre
           else if opc = 2 then ID_LDRSB64_pre
           else if opc = 3 then ID_LDRSB32_pre
           else inst_id)
      else if size = 1 then
          (if opc = 0 then ID_STRH_pre
           else if opc = 1 then ID_LDRH_pre
           else if opc = 2 then ID_LDRSH64_pre
           else if opc = 3 then ID_LDRSH32_pre
           else inst_id)
      else if size = 2 then
          (if opc = 0 then ID_STR32_pre
           else if opc = 1 then ID_LDR32_pre
           else if opc = 2 then ID_LDRSW_pre
           else if opc = 3 then ID_INVALID
           else inst_id)
      else if size = 3 then
          (if opc = 0 then ID_STR64_pre
           else if opc = 1 then ID_LDR64_pre
           else if opc \<in> {2, 3} then ID_INVALID
           else inst_id)
      else inst_id)"

definition decodeLoadStoreRegUnscaled :: "u32 \<Rightarrow> instructionID" where
  "decodeLoadStoreRegUnscaled bits =
     (let size = bitRange 30 31 bits;
          isSIMD = testBit 26 bits;
          opc = bitRange 22 23 bits;
          inst_id = (if size \<noteq> 0 \<and> isSIMD \<and> opc > 1 then ID_INVALID else ID_INVALID) in
      if isSIMD then
          (if size = 0 then
               (if opc = 0 then ID_STUR8_float
                else if opc = 1 then ID_LDUR8_float
                else if opc = 2 then ID_STUR128
                else if opc = 3 then ID_LDUR128
                else inst_id)
           else if size = 1 then
               (if opc = 0 then ID_STUR16_float
                else if opc = 1 then ID_LDUR16_float
                else if opc \<in> {2, 3} then ID_INVALID
                else inst_id)
           else if size = 2 then
               (if opc = 0 then ID_STUR32_float
                else if opc = 1 then ID_LDUR32_float
                else if opc \<in> {2, 3} then ID_INVALID
                else inst_id)
           else if size = 3 then
               (if opc = 0 then ID_STUR64_float
                else if opc = 1 then ID_LDUR64_float
                else if opc \<in> {2, 3} then ID_INVALID
                else inst_id)
           else inst_id)
      else if size = 0 then
          (if opc = 0 then ID_STURB
           else if opc = 1 then ID_LDURB
           else if opc = 2 then ID_LDURSB64
           else if opc = 3 then ID_LDURSB32
           else inst_id)
      else if size = 1 then
          (if opc = 0 then ID_STURH
           else if opc = 1 then ID_LDURH
           else if opc = 2 then ID_LDURSH64
           else if opc = 3 then ID_LDURSH32
           else inst_id)
      else if size = 2 then
          (if opc = 0 then ID_STUR32
           else if opc = 1 then ID_LDUR32
           else if opc = 2 then ID_LDURSW
           else if opc = 3 then ID_INVALID
           else inst_id)
      else if size = 3 then
          (if opc = 0 then ID_STUR64
           else if opc = 1 then ID_LDUR64
           else if opc = 2 then ID_PRFM_unscaled
           else if opc = 3 then ID_INVALID
           else inst_id)
      else inst_id)"

definition decodeLoadStorePair :: "u32 \<Rightarrow> instructionID" where
  "decodeLoadStorePair bits =
     (let op3 = bitRange 23 24 bits;
          opc = bitRange 30 31 bits;
          isSIMD = testBit 26 bits;
          isLoad = testBit 22 bits in
      if opc = 3 \<or> \<not> isLoad \<and> \<not> isSIMD \<and> opc = 1 then ID_INVALID
      else if isSIMD then
          (if op3 = 0 then
               (if opc = 0 then
                    (if isLoad then ID_LDNP32_float
                     else ID_STNP32_float)
                else if opc = 1 then
                    (if isLoad then ID_LDNP64_float
                     else ID_STNP64_float)
                else if isLoad then ID_LDNP128
                else ID_STNP128)
           else if op3 = 1 then
               (if opc = 0 then
                    (if isLoad then ID_LDP32_post_float
                     else ID_STP32_post_float)
                else if opc = 1 then
                    (if isLoad then ID_LDP64_post_float
                     else ID_STP64_post_float)
                else if isLoad then ID_LDP128_post
                else ID_STP128_post)
           else if op3 = 2 then
               (if opc = 0 then
                    (if isLoad then ID_LDP32_offset_float
                     else ID_STP32_offset_float)
                else if opc = 1 then
                    (if isLoad then ID_LDP64_offset_float
                     else ID_STP64_offset_float)
                else if isLoad then ID_LDP128_offset
                else ID_STP128_offset)
           else if op3 = 3 then
               (if opc = 0 then
                    (if isLoad then ID_LDP32_pre_float
                     else ID_STP32_pre_float)
                else if opc = 1 then
                    (if isLoad then ID_LDP64_pre_float
                     else ID_STP64_pre_float)
                else if isLoad then ID_LDP128_pre
                else ID_STP128_pre)
           else ID_INVALID)
      else if op3 = 0 then
          (if opc = 0 then
               (if isLoad then ID_LDNP32
                else ID_STNP32)
           else if opc = 1 then ID_INVALID
           else if isLoad then ID_LDNP64
           else ID_STNP64)
      else if op3 = 1 then
          (if opc = 0 then
               (if isLoad then ID_LDP32_post
                else ID_STP32_post)
           else if opc = 1 then ID_LDPSW_post
           else if isLoad then ID_LDP64_post
           else ID_STP64_post)
      else if op3 = 2 then
          (if opc = 0 then
               (if isLoad then ID_LDP32_offset
                else ID_STP32_offset)
           else if opc = 1 then ID_LDPSW_offset
           else if isLoad then ID_LDP64_offset
           else ID_STP64_offset)
      else if op3 = 3 then
          (if opc = 0 then
               (if isLoad then ID_LDP32_pre
                else ID_STP32_pre)
           else if opc = 1 then ID_LDPSW_pre
           else if isLoad then ID_LDP64_pre
           else ID_STP64_pre)
      else ID_INVALID)"

definition decodeLoadStoreRegOff :: "u32 \<Rightarrow> instructionID" where
  "decodeLoadStoreRegOff bits =
     (let size = bitRange 30 31 bits;
          isSIMD = testBit 26 bits;
          opc = bitRange 22 23 bits;
          option = bitRange 13 15 bits;
          inst_id = (if size \<noteq> 0 \<and> isSIMD \<and> opc > 1 then ID_INVALID else ID_INVALID);
          inst_id = (if testBit 1 option then ID_INVALID else inst_id) in
      if isSIMD then
          (if size = 0 then
               (if opc = 0 then ID_STR8_reg_float
                else if opc = 1 then ID_LDR8_reg_float
                else if opc = 2 then ID_STR128_reg
                else if opc = 3 then ID_LDR128_reg
                else inst_id)
           else if size = 1 then
               (if opc = 0 then ID_STR16_reg_float
                else if opc = 1 then ID_LDR16_reg_float
                else if opc \<in> {2, 3} then ID_INVALID
                else inst_id)
           else if size = 2 then
               (if opc = 0 then ID_STR32_reg_float
                else if opc = 1 then ID_LDR32_reg_float
                else if opc \<in> {2, 3} then ID_INVALID
                else inst_id)
           else if size = 3 then
               (if opc = 0 then ID_STR64_reg_float
                else if opc = 1 then ID_LDR64_reg_float
                else if opc \<in> {2, 3} then ID_INVALID
                else inst_id)
           else inst_id)
      else if size = 0 then
          (if opc = 0 then ID_STRB_reg
           else if opc = 1 then ID_LDRB_reg
           else if opc = 2 then ID_LDRSB64_reg
           else if opc = 3 then ID_LDRSB32_reg
           else inst_id)
      else if size = 1 then
          (if opc = 0 then ID_STRH_reg
           else if opc = 1 then ID_LDRH_reg
           else if opc = 2 then ID_LDRSH64_reg
           else if opc = 3 then ID_LDRSH32_reg
           else inst_id)
      else if size = 2 then
          (if opc = 0 then ID_STR32_reg
           else if opc = 1 then ID_LDR32_reg
           else if opc = 2 then ID_LDRSW_reg
           else if opc = 3 then ID_INVALID
           else inst_id)
      else if size = 3 then
          (if opc = 0 then ID_STR64_reg
           else if opc = 1 then ID_LDR64_reg
           else if opc = 2 then ID_PRFM_reg
           else if opc = 3 then ID_INVALID
           else inst_id)
      else inst_id)"

definition decodeLoadRegLiteral :: "u32 \<Rightarrow> instructionID" where
  "decodeLoadRegLiteral bits =
     (let opc = bitRange 30 31 bits;
          isSIMD = testBit 26 bits in
      if isSIMD then
          (if opc = 0 then ID_LDR32_literal_float
           else if opc = 1 then ID_LDR64_literal_float
           else if opc = 2 then ID_LDR128_literal
           else if opc = 3 then ID_INVALID
           else ID_INVALID)
      else if opc = 0 then ID_LDR32_literal
      else if opc = 1 then ID_LDR64_literal
      else if opc = 2 then ID_LDRSW_literal
      else if opc = 3 then ID_PRFM_literal
      else ID_INVALID)"

definition decodeLoadStore :: "u32 \<Rightarrow> instructionID" where
  "decodeLoadStore bits =
     (let op0 = bitRange 31 31 bits;
          op1 = bitRange 28 29 bits;
          op2 = bitRange 26 26 bits;
          op3 = bitRange 23 24 bits;
          op4 = bitRange 16 21 bits;
          op5 = bitRange 10 11 bits in
      if op1 = 0 then
          (if op2 = 1 then
               (if op0 = 1 then ID_INVALID
                else if op3 = 0 then
                    (if op4 = 0 then decodeLoadStoreSIMDMultipleStructs bits
                     else ID_INVALID)
                else if op3 = 1 then
                    (if op4 < 32 then decodeLoadStoreSIMDMultipleStructsPostIndex bits
                     else ID_INVALID)
                else if op3 = 2 then
                    (if op4 = 0 \<or> op4 = 32 then decodeLoadStoreSIMDSingleStruct bits
                     else ID_INVALID)
                else if op3 = 3 then decodeLoadStoreSIMDSingleStructPostIndex bits
                else ID_INVALID)
           else if op3 < 2 then decodeLoadStoreExclusive bits
           else ID_INVALID)
      else if op1 = 1 then
          (if op3 < 2 then decodeLoadRegLiteral bits
           else ID_INVALID)
      else if op1 = 2 then decodeLoadStorePair bits
      else if op1 = 3 then
          (if op3 < 2 then
               (if op4 < 32 then
                    (if op5 = 0 then decodeLoadStoreRegUnscaled bits
                     else if op5 = 1 then decodeLoadStoreRegImmPostIndex bits
                     else if op5 = 2 then decodeLoadStoreUnprivileged bits
                     else if op5 = 3 then decodeLoadStoreRegImmPreIndex bits
                     else ID_INVALID)
                else if op5 = 2 then decodeLoadStoreRegOff bits
                else ID_INVALID)
           else decodeLoadStoreRegUnsignedImm bits)
      else ID_INVALID)"

end
