(* ===== verification/Decode_Float.thy ===== *)
theory Decode_Float
  imports Bitutils Instruction_Ids
begin

text \<open>
  Scalar floating point: the decision functions of \<^verbatim>\<open>libcpu/src/decode/decodeFloat.cpp\<close>, one definition per C++
  function, in the order of the file. A C++ function assigns \<^verbatim>\<open>inst.id\<close>, which \<^verbatim>\<open>decode\<close> has set to
  \<^verbatim>\<open>INVALID\<close> before; the definition returns the value \<^verbatim>\<open>inst.id\<close> has at the end. A \<^verbatim>\<open>switch\<close> is a
  chain of tests in the order of its labels, and a \<^verbatim>\<open>default\<close> that only logs \<^verbatim>\<open>UNREACHABLE\<close>, or a
  missing one, leaves \<^verbatim>\<open>inst.id\<close> as it is.
\<close>

definition decodeConvertFloatAndFixed :: "u32 \<Rightarrow> instructionID" where
  "decodeConvertFloatAndFixed bits =
     (let sf = bitRange 31 31 bits;
          S = bitRange 29 29 bits;
          type = bitRange 22 23 bits;
          rmode = bitRange 19 20 bits;
          opcode = bitRange 16 18 bits in
      if S = 1 then ID_INVALID
      else if sf = 0 then
          (if type = 0 then
               (if rmode = 0 \<and> opcode = 2 then ID_SCVTF_32_single_fixed
                else if rmode = 0 \<and> opcode = 3 then ID_UCVTF_32_single_fixed
                else if rmode = 3 \<and> opcode = 0 then ID_FCVTZS_single_32_fixed
                else if rmode = 3 \<and> opcode = 1 then ID_FCVTZU_single_32_fixed
                else ID_INVALID)
           else if type = 1 then
               (if rmode = 0 \<and> opcode = 2 then ID_SCVTF_32_double_fixed
                else if rmode = 0 \<and> opcode = 3 then ID_UCVTF_32_double_fixed
                else if rmode = 3 \<and> opcode = 0 then ID_FCVTZS_double_32_fixed
                else if rmode = 3 \<and> opcode = 1 then ID_FCVTZU_double_32_fixed
                else ID_INVALID)
           else ID_INVALID)
      else if type = 0 then
          (if rmode = 0 \<and> opcode = 2 then ID_SCVTF_64_single_fixed
           else if rmode = 0 \<and> opcode = 3 then ID_UCVTF_64_single_fixed
           else if rmode = 3 \<and> opcode = 0 then ID_FCVTZS_single_64_fixed
           else if rmode = 3 \<and> opcode = 1 then ID_FCVTZU_single_64_fixed
           else ID_INVALID)
      else if type = 1 then
          (if rmode = 0 \<and> opcode = 2 then ID_SCVTF_64_double_fixed
           else if rmode = 0 \<and> opcode = 3 then ID_UCVTF_64_double_fixed
           else if rmode = 3 \<and> opcode = 0 then ID_FCVTZS_double_64_fixed
           else if rmode = 3 \<and> opcode = 1 then ID_FCVTZU_double_64_fixed
           else ID_INVALID)
      else ID_INVALID)"

definition decodeConvertFloatAndInt :: "u32 \<Rightarrow> instructionID" where
  "decodeConvertFloatAndInt bits =
     (let sf = bitRange 31 31 bits;
          S = bitRange 29 29 bits;
          type = bitRange 22 23 bits;
          rmode = bitRange 19 20 bits;
          opcode = bitRange 16 18 bits in
      if S = 1 then ID_INVALID
      else if sf = 0 then
          (if type = 0 then
               (if rmode = 0 then
                    (if opcode = 0 then ID_FCVTNS_single_32_int
                     else if opcode = 1 then ID_FCVTNU_single_32_int
                     else if opcode = 2 then ID_SCVTF_32_single_int
                     else if opcode = 3 then ID_UCVTF_32_single_int
                     else if opcode = 4 then ID_FCVTAS_single_32_int
                     else if opcode = 5 then ID_FCVTAU_single_32_int
                     else if opcode = 6 then ID_FMOV_single_32
                     else if opcode = 7 then ID_FMOV_32_single
                     else ID_INVALID)
                else if rmode = 1 then
                    (if opcode = 0 then ID_FCVTPS_single_32_int
                     else if opcode = 1 then ID_FCVTPU_single_32_int
                     else ID_INVALID)
                else if rmode = 2 then
                    (if opcode = 0 then ID_FCVTMS_single_32_int
                     else if opcode = 1 then ID_FCVTMU_single_32_int
                     else ID_INVALID)
                else if rmode = 3 then
                    (if opcode = 0 then ID_FCVTZS_single_32_int
                     else if opcode = 1 then ID_FCVTZU_single_32_int
                     else ID_INVALID)
                else ID_INVALID)
           else if type = 1 then
               (if rmode = 0 then
                    (if opcode = 0 then ID_FCVTNS_double_32_int
                     else if opcode = 1 then ID_FCVTNU_double_32_int
                     else if opcode = 2 then ID_SCVTF_32_double_int
                     else if opcode = 3 then ID_UCVTF_32_double_int
                     else if opcode = 4 then ID_FCVTAS_double_32_int
                     else if opcode = 5 then ID_FCVTAU_double_32_int
                     else if opcode \<in> {6, 7} then ID_INVALID
                     else ID_INVALID)
                else if rmode = 1 then
                    (if opcode = 0 then ID_FCVTPS_double_32_int
                     else if opcode = 1 then ID_FCVTPU_double_32_int
                     else ID_INVALID)
                else if rmode = 2 then
                    (if opcode = 0 then ID_FCVTMS_double_32_int
                     else if opcode = 1 then ID_FCVTMU_double_32_int
                     else ID_INVALID)
                else if rmode = 3 then
                    (if opcode = 0 then ID_FCVTZS_double_32_int
                     else if opcode = 1 then ID_FCVTZU_double_32_int
                     else ID_INVALID)
                else ID_INVALID)
           else ID_INVALID)
      else if type = 0 then
          (if rmode = 0 then
               (if opcode = 0 then ID_FCVTNS_single_64_int
                else if opcode = 1 then ID_FCVTNU_single_64_int
                else if opcode = 2 then ID_SCVTF_64_single_int
                else if opcode = 3 then ID_UCVTF_64_single_int
                else if opcode = 4 then ID_FCVTAS_single_64_int
                else if opcode = 5 then ID_FCVTAU_single_64_int
                else if opcode \<in> {6, 7} then ID_INVALID
                else ID_INVALID)
           else if rmode = 1 then
               (if opcode = 0 then ID_FCVTPS_single_64_int
                else if opcode = 1 then ID_FCVTPU_single_64_int
                else ID_INVALID)
           else if rmode = 2 then
               (if opcode = 0 then ID_FCVTMS_single_64_int
                else if opcode = 1 then ID_FCVTMU_single_64_int
                else ID_INVALID)
           else if rmode = 3 then
               (if opcode = 0 then ID_FCVTZS_single_64_int
                else if opcode = 1 then ID_FCVTZU_single_64_int
                else ID_INVALID)
           else ID_INVALID)
      else if type = 1 then
          (if rmode = 0 then
               (if opcode = 0 then ID_FCVTNS_double_64_int
                else if opcode = 1 then ID_FCVTNU_double_64_int
                else if opcode = 2 then ID_SCVTF_64_double_int
                else if opcode = 3 then ID_UCVTF_64_double_int
                else if opcode = 4 then ID_FCVTAS_double_64_int
                else if opcode = 5 then ID_FCVTAU_double_64_int
                else if opcode = 6 then ID_FMOV_double_64
                else if opcode = 7 then ID_FMOV_64_double
                else ID_INVALID)
           else if rmode = 1 then
               (if opcode = 0 then ID_FCVTPS_double_64_int
                else if opcode = 1 then ID_FCVTPU_double_64_int
                else ID_INVALID)
           else if rmode = 2 then
               (if opcode = 0 then ID_FCVTMS_double_64_int
                else if opcode = 1 then ID_FCVTMU_double_64_int
                else ID_INVALID)
           else if rmode = 3 then
               (if opcode = 0 then ID_FCVTZS_double_64_int
                else if opcode = 1 then ID_FCVTZU_double_64_int
                else ID_INVALID)
           else ID_INVALID)
      else if type = 2 then
          (if rmode = 1 then
               (if opcode = 6 then ID_FMOV_top128_64
                else if opcode = 7 then ID_FMOV_64_top128
                else ID_INVALID)
           else ID_INVALID)
      else ID_INVALID)"

definition decodeFloatDP1Source :: "u32 \<Rightarrow> instructionID" where
  "decodeFloatDP1Source bits =
     (let M = bitRange 31 31 bits;
          S = bitRange 29 29 bits;
          type = bitRange 22 23 bits;
          opcode = bitRange 15 20 bits in
      if M = 1 \<or> S = 1 \<or> type = 2 \<or> opcode > 15 then ID_INVALID
      else if type = 0 then
          (if opcode = 0 then ID_FMOV_reg_single
           else if opcode = 1 then ID_FABS_single
           else if opcode = 2 then ID_FNEG_single
           else if opcode = 3 then ID_FSQRT_single
           else if opcode = 5 then ID_FCVT_single_double
           else if opcode = 7 then ID_FCVT_single_half
           else if opcode = 8 then ID_FRINTN_single
           else if opcode = 9 then ID_FRINTP_single
           else if opcode = 10 then ID_FRINTM_single
           else if opcode = 11 then ID_FRINTZ_single
           else if opcode = 12 then ID_FRINTA_single
           else if opcode = 14 then ID_FRINTX_single
           else if opcode = 15 then ID_FRINTI_single
           else if opcode \<in> {4, 6, 13} then ID_INVALID
           else ID_INVALID)
      else if type = 1 then
          (if opcode = 0 then ID_FMOV_reg_double
           else if opcode = 1 then ID_FABS_double
           else if opcode = 2 then ID_FNEG_double
           else if opcode = 3 then ID_FSQRT_double
           else if opcode = 4 then ID_FCVT_double_single
           else if opcode = 7 then ID_FCVT_double_half
           else if opcode = 8 then ID_FRINTN_double
           else if opcode = 9 then ID_FRINTP_double
           else if opcode = 10 then ID_FRINTM_double
           else if opcode = 11 then ID_FRINTZ_double
           else if opcode = 12 then ID_FRINTA_double
           else if opcode = 14 then ID_FRINTX_double
           else if opcode = 15 then ID_FRINTI_double
           else if opcode \<in> {5, 6, 13} then ID_INVALID
           else ID_INVALID)
      else if type = 2 then ID_INVALID
      else if type = 3 then
          (if opcode = 4 then ID_FCVT_half_single
           else if opcode = 5 then ID_FCVT_half_double
           else ID_INVALID)
      else ID_INVALID)"

definition decodeFloatCmp :: "u32 \<Rightarrow> instructionID" where
  "decodeFloatCmp bits =
     (let M = bitRange 31 31 bits;
          S = bitRange 29 29 bits;
          type = bitRange 22 23 bits;
          op = bitRange 14 15 bits;
          opcode2 = bitRange 0 4 bits in
      if M = 1 \<or> S = 1 \<or> type > 1 \<or> op \<noteq> 0 \<or> opcode2 AND 7 \<noteq> 0 then ID_INVALID
      else if type = 0 then
          (if opcode2 = 0 then ID_FCMP_single
           else if opcode2 = 8 then ID_FCMP_single_zero
           else if opcode2 = 16 then ID_FCMPE_single
           else if opcode2 = 24 then ID_FCMPE_single_zero
           else ID_INVALID)
      else if opcode2 = 0 then ID_FCMP_double
      else if opcode2 = 8 then ID_FCMP_double_zero
      else if opcode2 = 16 then ID_FCMPE_double
      else if opcode2 = 24 then ID_FCMPE_double_zero
      else ID_INVALID)"

definition decodeFloatImm :: "u32 \<Rightarrow> instructionID" where
  "decodeFloatImm bits =
     (let M = bitRange 31 31 bits;
          S = bitRange 29 29 bits;
          type = bitRange 22 23 bits;
          imm5 = bitRange 5 9 bits in
      if M = 1 \<or> S = 1 \<or> type > 1 \<or> imm5 \<noteq> 0 then ID_INVALID
      else if type = 0 then ID_FMOV_imm_single
      else ID_FMOV_imm_double)"

definition decodeFloatCondCmp :: "u32 \<Rightarrow> instructionID" where
  "decodeFloatCondCmp bits =
     (let M = bitRange 31 31 bits;
          S = bitRange 29 29 bits;
          type = bitRange 22 23 bits;
          op = bitRange 4 4 bits in
      if M = 1 \<or> S = 1 \<or> type > 1 then ID_INVALID
      else if type = 0 then
          (if op = 0 then ID_FCCMP_single
           else ID_FCCMPE_single)
      else if op = 0 then ID_FCCMP_double
      else ID_FCCMPE_double)"

definition decodeFloatDP2Source :: "u32 \<Rightarrow> instructionID" where
  "decodeFloatDP2Source bits =
     (let M = bitRange 31 31 bits;
          S = bitRange 29 29 bits;
          type = bitRange 22 23 bits;
          opcode = bitRange 12 15 bits in
      if M = 1 \<or> S = 1 \<or> type > 1 \<or> opcode > 8 then ID_INVALID
      else if type = 0 then
          (if opcode = 0 then ID_FMUL_single
           else if opcode = 1 then ID_FDIV_single
           else if opcode = 2 then ID_FADD_single
           else if opcode = 3 then ID_FSUB_single
           else if opcode = 4 then ID_FMAX_single
           else if opcode = 5 then ID_FMIN_single
           else if opcode = 6 then ID_FMAXNM_single
           else if opcode = 7 then ID_FMINNM_single
           else if opcode = 8 then ID_FNMUL_single
           else ID_INVALID)
      else if opcode = 0 then ID_FMUL_double
      else if opcode = 1 then ID_FDIV_double
      else if opcode = 2 then ID_FADD_double
      else if opcode = 3 then ID_FSUB_double
      else if opcode = 4 then ID_FMAX_double
      else if opcode = 5 then ID_FMIN_double
      else if opcode = 6 then ID_FMAXNM_double
      else if opcode = 7 then ID_FMINNM_double
      else if opcode = 8 then ID_FNMUL_double
      else ID_INVALID)"

definition decodeFloatCondSel :: "u32 \<Rightarrow> instructionID" where
  "decodeFloatCondSel bits =
     (let M = bitRange 31 31 bits;
          S = bitRange 29 29 bits;
          type = bitRange 22 23 bits in
      if M = 1 \<or> S = 1 \<or> type > 1 then ID_INVALID
      else if type = 0 then ID_FCSEL_single
      else ID_FCSEL_double)"

definition decodeFloatDP3Source :: "u32 \<Rightarrow> instructionID" where
  "decodeFloatDP3Source bits =
     (let M = bitRange 31 31 bits;
          S = bitRange 29 29 bits;
          type = bitRange 22 23 bits;
          op1 = bitRange 21 21 bits;
          op0 = bitRange 15 15 bits in
      if M = 1 \<or> S = 1 \<or> type > 1 then ID_INVALID
      else if type = 0 then
          (if op1 = 0 then
               (if op0 = 0 then ID_FMADD_single
                else ID_FMSUB_single)
           else if op0 = 0 then ID_FNMADD_single
           else ID_FNMSUB_single)
      else if op1 = 0 then
          (if op0 = 0 then ID_FMADD_double
           else ID_FMSUB_double)
      else if op0 = 0 then ID_FNMADD_double
      else ID_FNMSUB_double)"

definition decodeFloat :: "u32 \<Rightarrow> instructionID" where
  "decodeFloat bits =
     (let op1 = bitRange 23 24 bits;
          op2 = bitRange 19 22 bits;
          op4 = bitRange 10 15 bits in
      if op1 < 2 then
          (if testBit 2 op2 then
               (if testBit 0 op4 then
                    (if testBit 1 op4 then decodeFloatCondSel bits
                     else decodeFloatCondCmp bits)
                else if testBit 1 op4 then decodeFloatDP2Source bits
                else if testBit 2 op4 then decodeFloatImm bits
                else if testBit 3 op4 then decodeFloatCmp bits
                else if testBit 4 op4 then decodeFloatDP1Source bits
                else if testBit 5 op4 then ID_INVALID
                else decodeConvertFloatAndInt bits)
           else decodeConvertFloatAndFixed bits)
      else decodeFloatDP3Source bits)"

end
