(* ===== verification/Decode_SIMD.thy ===== *)
theory Decode_SIMD
  imports Bitutils Instruction_Ids
begin

text \<open>
  Advanced SIMD and cryptographic instructions: the decision functions of \<^verbatim>\<open>libcpu/src/decode/decodeSIMD.cpp\<close>, one definition per C++
  function, in the order of the file. A C++ function assigns \<^verbatim>\<open>inst.id\<close>, which \<^verbatim>\<open>decode\<close> has set to
  \<^verbatim>\<open>INVALID\<close> before; the definition returns the value \<^verbatim>\<open>inst.id\<close> has at the end. A \<^verbatim>\<open>switch\<close> is a
  chain of tests in the order of its labels, and a \<^verbatim>\<open>default\<close> that only logs \<^verbatim>\<open>UNREACHABLE\<close>, or a
  missing one, leaves \<^verbatim>\<open>inst.id\<close> as it is.
\<close>

definition decodeCryptographicAES :: "u32 \<Rightarrow> instructionID" where
  "decodeCryptographicAES bits =
     (let size = bitRange 22 23 bits;
          opcode = bitRange 12 16 bits in
      if size \<noteq> 0 then ID_INVALID
      else if opcode = 4 then ID_AESE
      else if opcode = 5 then ID_AESD
      else if opcode = 6 then ID_AESMC
      else if opcode = 7 then ID_AESIMC
      else ID_INVALID)"

definition decodeCryptographic3Reg :: "u32 \<Rightarrow> instructionID" where
  "decodeCryptographic3Reg bits =
     (let size = bitRange 22 23 bits;
          opcode = bitRange 12 14 bits in
      if size \<noteq> 0 then ID_INVALID
      else if opcode = 0 then ID_SHA1C
      else if opcode = 1 then ID_SHA1P
      else if opcode = 2 then ID_SHA1M
      else if opcode = 3 then ID_SHA1SU0
      else if opcode = 4 then ID_SHA256H
      else if opcode = 5 then ID_SHA256H2
      else if opcode = 6 then ID_SHA256SU1
      else ID_INVALID)"

definition decodeCryptographic2Reg :: "u32 \<Rightarrow> instructionID" where
  "decodeCryptographic2Reg bits =
     (let size = bitRange 22 23 bits;
          opcode = bitRange 12 16 bits in
      if size \<noteq> 0 then ID_INVALID
      else if opcode = 0 then ID_SHA1H
      else if opcode = 1 then ID_SHA1SU1
      else if opcode = 2 then ID_SHA256SU0
      else ID_INVALID)"

definition decodeSIMDScalarCopy :: "u32 \<Rightarrow> instructionID" where
  "decodeSIMDScalarCopy bits =
     (if \<not> testBit 29 bits \<and> bitRange 16 19 bits \<noteq> 0 \<and> bitRange 11 15 bits = 0 then ID_DUP_element_scalar
     else ID_INVALID)"

definition decodeSIMDScalar2Reg :: "u32 \<Rightarrow> instructionID" where
  "decodeSIMDScalar2Reg bits =
     (let U = testBit 29 bits;
          size = bitRange 22 23 bits;
          opcode = bitRange 12 16 bits in
      if \<not> U then
          (if opcode = 3 then ID_SUQADD_scalar
           else if opcode = 7 then ID_SQABS_scalar
           else if opcode = 8 then ID_CMGT_scalar_zero
           else if opcode = 9 then ID_CMEQ_scalar_zero
           else if opcode = 10 then ID_CMLT_scalar_zero
           else if opcode = 11 then ID_ABS_scalar
           else if opcode = 12 then
               (if size < 2 then ID_INVALID
                else ID_FCMGT_scalar_zero)
           else if opcode = 13 then
               (if size < 2 then ID_INVALID
                else ID_FCMEQ_scalar_zero)
           else if opcode = 14 then
               (if size < 2 then ID_INVALID
                else ID_FCMLT_scalar_zero)
           else if opcode = 20 then ID_SQXTN_scalar
           else if opcode = 26 then
               (if size < 2 then ID_FCVTNS_scalar
                else ID_FCVTPS_scalar)
           else if opcode = 27 then
               (if size < 2 then ID_FCVTMS_scalar
                else ID_FCVTZS_scalar_int)
           else if opcode = 28 then
               (if size < 2 then ID_FCVTAS_scalar
                else ID_INVALID)
           else if opcode = 29 then
               (if size < 2 then ID_SCVTF_scalar_int
                else ID_FRECPE_scalar)
           else if opcode = 31 then
               (if size < 2 then ID_INVALID
                else ID_FRECPX_scalar)
           else ID_INVALID)
      else if opcode = 3 then ID_USQADD_scalar
      else if opcode = 7 then ID_SQNEG_scalar
      else if opcode = 8 then ID_CMGE_scalar_zero
      else if opcode = 9 then ID_CMLE_scalar_zero
      else if opcode = 11 then ID_NEG_scalar
      else if opcode = 12 then
          (if size < 2 then ID_INVALID
           else ID_FCMGE_scalar_zero)
      else if opcode = 13 then
          (if size < 2 then ID_INVALID
           else ID_FCMLE_scalar_zero)
      else if opcode = 18 then ID_SQXTUN_scalar
      else if opcode = 20 then ID_UQXTN_scalar
      else if opcode = 22 then
          (if size < 2 then ID_FCVTXN_scalar
           else ID_INVALID)
      else if opcode = 26 then
          (if size < 2 then ID_FCVTNU_scalar
           else ID_FCVTPU_scalar)
      else if opcode = 27 then
          (if size < 2 then ID_FCVTMU_scalar
           else ID_FCVTZU_scalar_int)
      else if opcode = 28 then
          (if size < 2 then ID_FCVTAU_scalar
           else ID_INVALID)
      else if opcode = 29 then
          (if size < 2 then ID_UCVTF_scalar_int
           else ID_FRSQRTE_scalar)
      else ID_INVALID)"

definition decodeSIMDScalarPairwise :: "u32 \<Rightarrow> instructionID" where
  "decodeSIMDScalarPairwise bits =
     (let U = testBit 29 bits;
          size = bitRange 22 23 bits;
          opcode = bitRange 12 16 bits in
      if \<not> U then
          (if opcode = 27 then ID_ADDP_scalar
           else ID_INVALID)
      else if size < 2 then
          (if opcode = 12 then ID_FMAXNMP_scalar
           else if opcode = 13 then ID_FADDP_scalar
           else if opcode = 15 then ID_FMAXP_scalar
           else ID_INVALID)
      else if opcode = 12 then ID_FMINNMP_scalar
      else if opcode = 15 then ID_FMINP_scalar
      else ID_INVALID)"

definition decodeSIMDScalar3Different :: "u32 \<Rightarrow> instructionID" where
  "decodeSIMDScalar3Different bits =
     (let U = testBit 29 bits;
          opcode = bitRange 12 15 bits in
      if \<not> U then
          (if opcode = 9 then ID_SQDMLAL_scalar
           else if opcode = 11 then ID_SQDMLSL_scalar
           else if opcode = 13 then ID_SQDMULL_scalar
           else ID_INVALID)
      else ID_INVALID)"

definition decodeSIMDScalar3Same :: "u32 \<Rightarrow> instructionID" where
  "decodeSIMDScalar3Same bits =
     (let U = testBit 29 bits;
          size = bitRange 22 23 bits;
          opcode = bitRange 11 15 bits in
      if \<not> U then
          (if opcode = 1 then ID_SQADD_scalar
           else if opcode = 5 then ID_SQSUB_scalar
           else if opcode = 6 then ID_CMGT_scalar_reg
           else if opcode = 7 then ID_CMGE_scalar_reg
           else if opcode = 8 then ID_SSHL_scalar
           else if opcode = 9 then ID_SQSHL_scalar_reg
           else if opcode = 10 then ID_SRSHL_scalar
           else if opcode = 11 then ID_SQRSHL_scalar
           else if opcode = 16 then ID_ADD_scalar
           else if opcode = 17 then ID_CMTST_scalar
           else if opcode = 22 then ID_SQDMULH_scalar
           else if opcode = 27 then
               (if size < 2 then ID_FMULX_scalar
                else ID_INVALID)
           else if opcode = 28 then
               (if size < 2 then ID_FCMEQ_scalar_reg
                else ID_INVALID)
           else if opcode = 31 then
               (if size < 2 then ID_FRECPS_scalar
                else ID_FRSQRTS_scalar)
           else ID_INVALID)
      else if opcode = 1 then ID_UQADD_scalar
      else if opcode = 5 then ID_UQSUB_scalar
      else if opcode = 6 then ID_CMHI_scalar_reg
      else if opcode = 7 then ID_CMHS_scalar_reg
      else if opcode = 8 then ID_USHL_scalar
      else if opcode = 9 then ID_UQSHL_scalar_reg
      else if opcode = 10 then ID_URSHL_scalar
      else if opcode = 11 then ID_UQRSHL_scalar
      else if opcode = 16 then ID_SUB_scalar
      else if opcode = 17 then ID_CMEQ_scalar_reg
      else if opcode = 22 then ID_SQRDMULH_scalar
      else if opcode = 26 then
          (if size < 2 then ID_INVALID
           else ID_FABD_scalar)
      else if opcode = 28 then
          (if size < 2 then ID_FCMGE_scalar_reg
           else ID_FCMGT_scalar_reg)
      else if opcode = 29 then
          (if size < 2 then ID_FACGE_scalar
           else ID_FACGT_scalar)
      else ID_INVALID)"

definition decodeSIMDScalarShiftImmediate :: "u32 \<Rightarrow> instructionID" where
  "decodeSIMDScalarShiftImmediate bits =
     (if bitRange 19 22 bits = 0 then ID_INVALID
     else
         (let U = testBit 29 bits;
              opcode = bitRange 11 15 bits in
          if \<not> U then
              (if opcode = 0 then ID_SSHR_scalar
               else if opcode = 2 then ID_SSRA_scalar
               else if opcode = 4 then ID_SRSHR_scalar
               else if opcode = 6 then ID_SRSRA_scalar
               else if opcode = 10 then ID_SHL_scalar
               else if opcode = 14 then ID_SQSHL_scalar_imm
               else if opcode = 18 then ID_SQSHRN_scalar
               else if opcode = 19 then ID_SQRSHRN_scalar
               else if opcode = 28 then ID_SCVTF_scalar_fixed
               else if opcode = 31 then ID_FCVTZS_scalar_fixed
               else ID_INVALID)
          else if opcode = 0 then ID_USHR_scalar
          else if opcode = 2 then ID_USRA_scalar
          else if opcode = 4 then ID_URSHR_scalar
          else if opcode = 6 then ID_URSRA_scalar
          else if opcode = 8 then ID_SRI_scalar
          else if opcode = 10 then ID_SLI_scalar
          else if opcode = 12 then ID_SQSHLU_scalar
          else if opcode = 14 then ID_UQSHL_scalar_imm
          else if opcode = 16 then ID_SQSHRUN_scalar
          else if opcode = 17 then ID_SQRSHRUN_scalar
          else if opcode = 18 then ID_UQSHRN_scalar
          else if opcode = 19 then ID_UQRSHRN_scalar
          else if opcode = 28 then ID_UCVTF_scalar_fixed
          else if opcode = 31 then ID_FCVTZU_scalar_fixed
          else ID_INVALID))"

definition decodeSIMDScalarXIndexed :: "u32 \<Rightarrow> instructionID" where
  "decodeSIMDScalarXIndexed bits =
     (let U = testBit 29 bits;
          size = bitRange 22 23 bits;
          opcode = bitRange 12 15 bits in
      if \<not> U then
          (if opcode = 1 then
               (if size > 1 then ID_FMLA_scalar_element
                else ID_INVALID)
           else if opcode = 3 then ID_SQDMLAL_scalar_element
           else if opcode = 5 then
               (if size > 1 then ID_FMLS_scalar_element
                else ID_INVALID)
           else if opcode = 7 then ID_SQDMLSL_scalar_element
           else if opcode = 9 then
               (if size > 1 then ID_FMUL_scalar_element
                else ID_INVALID)
           else if opcode = 11 then ID_SQDMULL_scalar_element
           else if opcode = 12 then ID_SQDMULH_scalar_element
           else if opcode = 13 then ID_SQRDMULH_scalar_element
           else ID_INVALID)
      else if size > 1 \<and> opcode = 9 then ID_FMULX_scalar_element
      else ID_INVALID)"

definition decodeSIMDTableLookup :: "u32 \<Rightarrow> instructionID" where
  "decodeSIMDTableLookup bits =
     (if bitRange 22 23 bits \<noteq> 0 then ID_INVALID
     else
         (let len = bitRange 13 14 bits;
              op = bitRange 12 12 bits in
          if len = 0 then
              (if op = 0 then ID_TBL_one_reg
               else ID_TBX_one_reg)
          else if len = 1 then
              (if op = 0 then ID_TBL_two_reg
               else ID_TBX_two_reg)
          else if len = 2 then
              (if op = 0 then ID_TBL_three_reg
               else ID_TBX_three_reg)
          else if len = 3 then
              (if op = 0 then ID_TBL_four_reg
               else ID_TBX_four_reg)
          else ID_INVALID))"

definition decodeSIMDPermute :: "u32 \<Rightarrow> instructionID" where
  "decodeSIMDPermute bits =
     (let opcode = bitRange 12 14 bits in
      if opcode = 1 then ID_UZP1
      else if opcode = 2 then ID_TRN1
      else if opcode = 3 then ID_ZIP1
      else if opcode = 5 then ID_UZP2
      else if opcode = 6 then ID_TRN2
      else if opcode = 7 then ID_ZIP2
      else ID_INVALID)"

definition decodeSIMDExtract :: "u32 \<Rightarrow> instructionID" where
  "decodeSIMDExtract bits =
     (if bitRange 22 23 bits = 0 then ID_EXT
     else ID_INVALID)"

definition decodeSIMDCopy :: "u32 \<Rightarrow> instructionID" where
  "decodeSIMDCopy bits =
     (let Q = testBit 30 bits;
          op = testBit 29 bits;
          imm5 = bitRange 16 20 bits;
          imm4 = bitRange 11 14 bits in
      if imm5 AND 15 = 0 then ID_INVALID
      else if \<not> op then
          (if imm4 = 0 then ID_DUP_element_vec
           else if imm4 = 1 then ID_DUP_general
           else if imm4 = 3 then
               (if Q then ID_INS_general
                else ID_INVALID)
           else if imm4 = 5 then
               (if Q then ID_SMOV_64
                else ID_SMOV_32)
           else if imm4 = 7 then
               (if Q then
                    (if imm5 AND 15 = 8 then ID_UMOV_64
                     else ID_INVALID)
                else ID_UMOV_32)
           else ID_INVALID)
      else if Q then ID_INS_element
      else ID_INVALID)"

definition decodeSIMD2Reg :: "u32 \<Rightarrow> instructionID" where
  "decodeSIMD2Reg bits =
     (let Q = testBit 30 bits;
          U = testBit 29 bits;
          size = bitRange 22 23 bits;
          opcode = bitRange 12 16 bits in
      if \<not> U then
          (if opcode = 0 then ID_REV64_vec
           else if opcode = 1 then ID_REV16_vec
           else if opcode = 2 then ID_SADDLP_vec
           else if opcode = 3 then ID_SUQADD_vec
           else if opcode = 4 then ID_CLS_vec
           else if opcode = 5 then ID_CNT_vec
           else if opcode = 6 then ID_SADALP_vec
           else if opcode = 7 then ID_SQABS_vec
           else if opcode = 8 then ID_CMGT_vec_zero
           else if opcode = 9 then ID_CMEQ_vec_zero
           else if opcode = 10 then ID_CMLT_vec_zero
           else if opcode = 11 then ID_ABS_vec
           else if opcode = 12 then
               (if size < 2 then ID_INVALID
                else ID_FCMGT_vec_zero)
           else if opcode = 13 then
               (if size < 2 then ID_INVALID
                else ID_FCMEQ_vec_zero)
           else if opcode = 14 then
               (if size < 2 then ID_INVALID
                else ID_FCMLT_vec_zero)
           else if opcode = 15 then
               (if size < 2 then ID_INVALID
                else ID_FABS_vec)
           else if opcode = 18 then
               (if \<not> Q then ID_XTN_vec
                else ID_XTN2_vec)
           else if opcode = 20 then
               (if \<not> Q then ID_SQXTN_vec
                else ID_SQXTN2_vec)
           else if opcode = 22 then
               (if size < 2 then
                    (if \<not> Q then ID_FCVTN_vec
                     else ID_FCVTN2_vec)
                else ID_INVALID)
           else if opcode = 23 then
               (if size < 2 then
                    (if \<not> Q then ID_FCVTL_vec
                     else ID_FCVTL2_vec)
                else ID_INVALID)
           else if opcode = 24 then
               (if size < 2 then ID_FRINTN_vec
                else ID_FRINTP_vec)
           else if opcode = 25 then
               (if size < 2 then ID_FRINTM_vec
                else ID_FRINTZ_vec)
           else if opcode = 26 then
               (if size < 2 then ID_FCVTNS_vec
                else ID_FCVTPS_vec)
           else if opcode = 27 then
               (if size < 2 then ID_FCVTMS_vec
                else ID_FCVTZS_vec_int)
           else if opcode = 28 then
               (if size < 2 then ID_FCVTAS_vec
                else ID_URECPE_vec)
           else if opcode = 29 then
               (if size < 2 then ID_SCVTF_vec_int
                else ID_FRECPE_vec)
           else ID_INVALID)
      else if opcode = 0 then ID_REV32_vec
      else if opcode = 2 then ID_UADDLP_vec
      else if opcode = 3 then ID_USQADD_vec
      else if opcode = 4 then ID_CLZ_vec
      else if opcode = 5 then
          (if size = 0 then ID_NOT_vec
           else if size = 1 then ID_RBIT_vec
           else ID_INVALID)
      else if opcode = 6 then ID_UADALP_vec
      else if opcode = 7 then ID_SQNEG_vec
      else if opcode = 8 then ID_CMGE_vec_zero
      else if opcode = 9 then ID_CMLE_vec_zero
      else if opcode = 11 then ID_NEG_vec
      else if opcode = 12 then
          (if size < 2 then ID_INVALID
           else ID_FCMGE_vec_zero)
      else if opcode = 13 then
          (if size < 2 then ID_INVALID
           else ID_FCMLE_vec_zero)
      else if opcode = 15 then
          (if size < 2 then ID_INVALID
           else ID_FNEG_vec)
      else if opcode = 18 then
          (if \<not> Q then ID_SQXTUN_vec
           else ID_SQXTUN2_vec)
      else if opcode = 19 then
          (if \<not> Q then ID_SHLL_vec
           else ID_SHLL2_vec)
      else if opcode = 20 then
          (if \<not> Q then ID_UQXTN_vec
           else ID_UQXTN2_vec)
      else if opcode = 22 then
          (if size < 2 then
               (if \<not> Q then ID_FCVTXN_vec
                else ID_FCVTXN2_vec)
           else ID_INVALID)
      else if opcode = 24 then
          (if size < 2 then ID_FRINTA_vec
           else ID_INVALID)
      else if opcode = 25 then
          (if size < 2 then ID_FRINTX_vec
           else ID_FRINTI_vec)
      else if opcode = 26 then
          (if size < 2 then ID_FCVTNU_vec
           else ID_FCVTPU_vec)
      else if opcode = 27 then
          (if size < 2 then ID_FCVTMU_vec
           else ID_FCVTZU_vec_int)
      else if opcode = 28 then
          (if size < 2 then ID_FCVTAU_vec
           else ID_URSQRTE_vec)
      else if opcode = 29 then
          (if size < 2 then ID_UCVTF_vec_int
           else ID_FRSQRTE_vec)
      else if opcode = 31 then
          (if size < 2 then ID_INVALID
           else ID_FSQRT_vec)
      else ID_INVALID)"

definition decodeSIMDAcrossLanes :: "u32 \<Rightarrow> instructionID" where
  "decodeSIMDAcrossLanes bits =
     (let U = testBit 29 bits;
          size = bitRange 22 23 bits;
          opcode = bitRange 12 16 bits in
      if \<not> U then
          (if opcode = 3 then ID_SADDLV_vec
           else if opcode = 10 then ID_SMAXV_vec
           else if opcode = 26 then ID_SMINV_vec
           else if opcode = 27 then ID_ADDV_vec
           else ID_INVALID)
      else if opcode = 3 then ID_UADDLV_vec
      else if opcode = 10 then ID_UMAXV_vec
      else if opcode = 12 then
          (if size < 2 then ID_FMAXNMV_vec
           else ID_FMINNMV_vec)
      else if opcode = 15 then
          (if size < 2 then ID_FMAXV_vec
           else ID_FMINV_vec)
      else if opcode = 26 then ID_UMINV_vec
      else ID_INVALID)"

definition decodeSIMD3Different :: "u32 \<Rightarrow> instructionID" where
  "decodeSIMD3Different bits =
     (let Q = testBit 30 bits;
          U = testBit 29 bits;
          opcode = bitRange 12 15 bits in
      if \<not> U then
          (if opcode = 0 then
               (if \<not> Q then ID_SADDL
                else ID_SADDL2)
           else if opcode = 1 then
               (if \<not> Q then ID_SADDW
                else ID_SADDW2)
           else if opcode = 2 then
               (if \<not> Q then ID_SSUBL
                else ID_SSUBL2)
           else if opcode = 3 then
               (if \<not> Q then ID_SSUBW
                else ID_SSUBW2)
           else if opcode = 4 then
               (if \<not> Q then ID_ADDHN
                else ID_ADDHN2)
           else if opcode = 5 then
               (if \<not> Q then ID_SABAL
                else ID_SABAL2)
           else if opcode = 6 then
               (if \<not> Q then ID_SUBHN
                else ID_SUBHN2)
           else if opcode = 7 then
               (if \<not> Q then ID_SABDL
                else ID_SABDL2)
           else if opcode = 8 then
               (if \<not> Q then ID_SMLAL_vec
                else ID_SMLAL2_vec)
           else if opcode = 9 then
               (if \<not> Q then ID_SQDMLAL_vec
                else ID_SQDMLAL2_vec)
           else if opcode = 10 then
               (if \<not> Q then ID_SMLSL_vec
                else ID_SMLSL2_vec)
           else if opcode = 11 then
               (if \<not> Q then ID_SQDMLSL_vec
                else ID_SQDMLSL2_vec)
           else if opcode = 12 then
               (if \<not> Q then ID_SMULL_vec
                else ID_SMULL2_vec)
           else if opcode = 13 then
               (if \<not> Q then ID_SQDMULL_vec
                else ID_SQDMULL2_vec)
           else if opcode = 14 then
               (if \<not> Q then ID_PMULL
                else ID_PMULL2)
           else ID_INVALID)
      else if opcode = 0 then
          (if \<not> Q then ID_UADDL
           else ID_UADDL2)
      else if opcode = 1 then
          (if \<not> Q then ID_UADDW
           else ID_UADDW2)
      else if opcode = 2 then
          (if \<not> Q then ID_USUBL
           else ID_USUBL2)
      else if opcode = 3 then
          (if \<not> Q then ID_USUBW
           else ID_USUBW2)
      else if opcode = 4 then
          (if \<not> Q then ID_RADDHN
           else ID_RADDHN2)
      else if opcode = 5 then
          (if \<not> Q then ID_UABAL
           else ID_UABAL2)
      else if opcode = 6 then
          (if \<not> Q then ID_RSUBHN
           else ID_RSUBHN2)
      else if opcode = 7 then
          (if \<not> Q then ID_UABDL
           else ID_UABDL2)
      else if opcode = 8 then
          (if \<not> Q then ID_UMLAL_vec
           else ID_UMLAL2_vec)
      else if opcode = 10 then
          (if \<not> Q then ID_UMLSL_vec
           else ID_UMLSL2_vec)
      else if opcode = 12 then
          (if \<not> Q then ID_UMULL_vec
           else ID_UMULL2_vec)
      else ID_INVALID)"

definition decodeSIMD3Same :: "u32 \<Rightarrow> instructionID" where
  "decodeSIMD3Same bits =
     (let U = testBit 29 bits;
          size = bitRange 22 23 bits;
          opcode = bitRange 11 15 bits in
      if \<not> U then
          (if opcode = 0 then ID_SHADD_vec
           else if opcode = 1 then ID_SQADD_vec
           else if opcode = 2 then ID_SRHADD_vec
           else if opcode = 3 then
               (if size = 0 then ID_AND_vec
                else if size = 1 then ID_BIC_vec_reg
                else if size = 2 then ID_ORR_vec_reg
                else if size = 3 then ID_ORN_vec
                else ID_INVALID)
           else if opcode = 4 then ID_SHSUB_vec
           else if opcode = 5 then ID_SQSUB_vec
           else if opcode = 6 then ID_CMGT_vec_reg
           else if opcode = 7 then ID_CMGE_vec_reg
           else if opcode = 8 then ID_SSHL_vec
           else if opcode = 9 then ID_SQSHL_vec_reg
           else if opcode = 10 then ID_SRSHL_vec
           else if opcode = 11 then ID_SQRSHL_vec
           else if opcode = 12 then ID_SMAX_vec
           else if opcode = 13 then ID_SMIN_vec
           else if opcode = 14 then ID_SABD_vec
           else if opcode = 15 then ID_SABA_vec
           else if opcode = 16 then ID_ADD_vec
           else if opcode = 17 then ID_CMTST_vec
           else if opcode = 18 then ID_MLA_vec
           else if opcode = 19 then ID_MUL_vec
           else if opcode = 20 then ID_SMAXP_vec
           else if opcode = 21 then ID_SMINP_vec
           else if opcode = 22 then ID_SQDMULH_vec
           else if opcode = 23 then ID_ADDP_vec
           else if opcode = 24 then
               (if size < 2 then ID_FMAXNM_vec
                else ID_FMINNM_vec)
           else if opcode = 25 then
               (if size < 2 then ID_FMLA_vec
                else ID_FMLS_vec)
           else if opcode = 26 then
               (if size < 2 then ID_FADD_vec
                else ID_FSUB_vec)
           else if opcode = 27 then
               (if size < 2 then ID_FMULX_vec
                else ID_INVALID)
           else if opcode = 28 then
               (if size < 2 then ID_FCMEQ_vec_reg
                else ID_INVALID)
           else if opcode = 29 then ID_INVALID
           else if opcode = 30 then
               (if size < 2 then ID_FMAX_vec
                else ID_FMIN_vec)
           else if opcode = 31 then
               (if size < 2 then ID_FRECPS_vec
                else ID_FRSQRTS_vec)
           else ID_INVALID)
      else if opcode = 0 then ID_UHADD_vec
      else if opcode = 1 then ID_UQADD_vec
      else if opcode = 2 then ID_URHADD_vec
      else if opcode = 3 then
          (if size = 0 then ID_EOR_vec
           else if size = 1 then ID_BSL_vec
           else if size = 2 then ID_BIT_vec
           else if size = 3 then ID_BIF_vec
           else ID_INVALID)
      else if opcode = 4 then ID_UHSUB_vec
      else if opcode = 5 then ID_UQSUB_vec
      else if opcode = 6 then ID_CMHI_vec_reg
      else if opcode = 7 then ID_CMHS_vec_reg
      else if opcode = 8 then ID_USHL_vec
      else if opcode = 9 then ID_UQSHL_vec_reg
      else if opcode = 10 then ID_URSHL_vec
      else if opcode = 11 then ID_UQRSHL_vec
      else if opcode = 12 then ID_UMAX_vec
      else if opcode = 13 then ID_UMIN_vec
      else if opcode = 14 then ID_UABD_vec
      else if opcode = 15 then ID_UABA_vec
      else if opcode = 16 then ID_SUB_vec
      else if opcode = 17 then ID_CMEQ_vec_reg
      else if opcode = 18 then ID_MLS_vec
      else if opcode = 19 then ID_PMUL_vec
      else if opcode = 20 then ID_UMAXP_vec
      else if opcode = 21 then ID_UMINP_vec
      else if opcode = 22 then ID_SQRDMULH_vec
      else if opcode = 23 then ID_INVALID
      else if opcode = 24 then
          (if size < 2 then ID_FMAXNMP_vec
           else ID_FMINNMP_vec)
      else if opcode = 25 then ID_INVALID
      else if opcode = 26 then
          (if size < 2 then ID_FADDP_vec
           else ID_FABD_vec)
      else if opcode = 27 then
          (if size < 2 then ID_FMUL_vec
           else ID_INVALID)
      else if opcode = 28 then
          (if size < 2 then ID_FCMGE_vec_reg
           else ID_FCMGT_vec_reg)
      else if opcode = 29 then
          (if size < 2 then ID_FACGE_vec
           else ID_FACGT_vec)
      else if opcode = 30 then
          (if size < 2 then ID_FMAXP_vec
           else ID_FMINP_vec)
      else if opcode = 31 then
          (if size < 2 then ID_FDIV_vec
           else ID_INVALID)
      else ID_INVALID)"

definition decodeSIMDModifiedImmediate :: "u32 \<Rightarrow> instructionID" where
  "decodeSIMDModifiedImmediate bits =
     (let Q = testBit 30 bits;
          op = testBit 29 bits;
          cmode = bitRange 12 15 bits in
      if testBit 11 bits then ID_INVALID
      else if \<not> op then
          (if cmode \<in> {0, 2, 4, 6} then ID_MOVI_32_shifted_imm
           else if cmode \<in> {1, 3, 5, 7} then ID_ORR_vec_imm_32
           else if cmode \<in> {8, 10} then ID_MOVI_16_shifted_imm
           else if cmode \<in> {9, 11} then ID_ORR_vec_imm_16
           else if cmode \<in> {12, 13} then ID_MOVI_32_shifting_ones
           else if cmode = 14 then ID_MOVI_8_imm
           else if cmode = 15 then ID_FMOV_vec_imm_single
           else ID_INVALID)
      else if cmode \<in> {0, 2, 4, 6} then ID_MVNI_32_shifted_imm
      else if cmode \<in> {1, 3, 5, 7} then ID_BIC_vec_imm_32
      else if cmode \<in> {8, 10} then ID_MVNI_16_shifted_imm
      else if cmode \<in> {9, 11} then ID_BIC_vec_imm_16
      else if cmode \<in> {12, 13} then ID_MVNI_32_shifting_ones
      else if cmode = 14 then
          (if Q then ID_MOVI_64_vec
           else ID_MOVI_64_scalar)
      else if cmode = 15 then
          (if Q then ID_FMOV_vec_imm_double
           else ID_INVALID)
      else ID_INVALID)"

definition decodeSIMDShiftImmediate :: "u32 \<Rightarrow> instructionID" where
  "decodeSIMDShiftImmediate bits =
     (let Q = testBit 30 bits;
          U = testBit 29 bits;
          opcode = bitRange 11 15 bits in
      if \<not> U then
          (if opcode = 0 then ID_SSHR_vec
           else if opcode = 2 then ID_SSRA_vec
           else if opcode = 4 then ID_SRSHR_vec
           else if opcode = 6 then ID_SRSRA_vec
           else if opcode = 10 then ID_SHL_vec
           else if opcode = 14 then ID_SQSHL_vec_imm
           else if opcode = 16 then
               (if \<not> Q then ID_SHRN_vec
                else ID_SHRN2_vec)
           else if opcode = 17 then
               (if \<not> Q then ID_RSHRN_vec
                else ID_RSHRN2_vec)
           else if opcode = 18 then
               (if \<not> Q then ID_SQSHRN_vec
                else ID_SQSHRN2_vec)
           else if opcode = 19 then
               (if \<not> Q then ID_SQRSHRN_vec
                else ID_SQRSHRN2_vec)
           else if opcode = 20 then
               (if \<not> Q then ID_SSHLL_vec
                else ID_SSHLL2_vec)
           else if opcode = 28 then ID_SCVTF_vec_fixed
           else if opcode = 31 then ID_FCVTZS_vec_fixed
           else ID_INVALID)
      else if opcode = 0 then ID_USHR_vec
      else if opcode = 2 then ID_USRA_vec
      else if opcode = 4 then ID_URSHR_vec
      else if opcode = 6 then ID_URSRA_vec
      else if opcode = 8 then ID_SRI_vec
      else if opcode = 10 then ID_SLI_vec
      else if opcode = 12 then ID_SQSHLU_vec
      else if opcode = 14 then ID_UQSHL_vec_imm
      else if opcode = 16 then
          (if \<not> Q then ID_SQSHRUN_vec
           else ID_SQSHRUN2_vec)
      else if opcode = 17 then
          (if \<not> Q then ID_SQRSHRUN_vec
           else ID_SQRSHRUN2_vec)
      else if opcode = 18 then
          (if \<not> Q then ID_UQSHRN_vec
           else ID_UQSHRN2_vec)
      else if opcode = 19 then
          (if \<not> Q then ID_UQRSHRN_vec
           else ID_UQRSHRN2_vec)
      else if opcode = 20 then
          (if \<not> Q then ID_USHLL_vec
           else ID_USHLL2_vec)
      else if opcode = 28 then ID_UCVTF_vec_fixed
      else if opcode = 31 then ID_FCVTZU_vec_fixed
      else ID_INVALID)"

definition decodeSIMDVectorXIndexed :: "u32 \<Rightarrow> instructionID" where
  "decodeSIMDVectorXIndexed bits =
     (let Q = testBit 30 bits;
          U = testBit 29 bits;
          size = bitRange 22 23 bits;
          opcode = bitRange 12 15 bits in
      if \<not> U then
          (if opcode = 1 then
               (if size > 1 then ID_FMLA_vec_element
                else ID_INVALID)
           else if opcode = 2 then
               (if \<not> Q then ID_SMLAL_vec_element
                else ID_SMLAL2_vec_element)
           else if opcode = 3 then
               (if \<not> Q then ID_SQDMLAL_vec_element
                else ID_SQDMLAL2_vec_element)
           else if opcode = 5 then
               (if size > 1 then ID_FMLS_vec_element
                else ID_INVALID)
           else if opcode = 6 then
               (if \<not> Q then ID_SMLSL_vec_element
                else ID_SMLSL2_vec_element)
           else if opcode = 7 then
               (if \<not> Q then ID_SQDMLSL_vec_element
                else ID_SQDMLSL2_vec_element)
           else if opcode = 8 then ID_MUL_vec_element
           else if opcode = 9 then
               (if size > 1 then ID_FMUL_vec_element
                else ID_INVALID)
           else if opcode = 10 then
               (if \<not> Q then ID_SMULL_vec_element
                else ID_SMULL2_vec_element)
           else if opcode = 11 then
               (if \<not> Q then ID_SQDMULL_vec_element
                else ID_SQDMULL2_vec_element)
           else if opcode = 12 then ID_SQDMULH_vec_element
           else if opcode = 13 then ID_SQRDMULH_vec_element
           else ID_INVALID)
      else if opcode = 0 then ID_MLA_vec_element
      else if opcode = 2 then
          (if \<not> Q then ID_UMLAL_vec_element
           else ID_UMLAL2_vec_element)
      else if opcode = 4 then ID_MLS_vec_element
      else if opcode = 6 then
          (if \<not> Q then ID_UMLSL_vec_element
           else ID_UMLSL2_vec_element)
      else if opcode = 9 then
          (if size > 1 then ID_FMULX_vec_element
           else ID_INVALID)
      else if opcode = 10 then
          (if \<not> Q then ID_UMULL_vec_element
           else ID_UMULL2_vec_element)
      else ID_INVALID)"

definition decodeSIMD :: "u32 \<Rightarrow> instructionID" where
  "decodeSIMD bits =
     (let op0 = bitRange 28 31 bits;
          op1 = bitRange 23 24 bits;
          op2 = bitRange 19 22 bits;
          op3 = bitRange 17 18 bits;
          op4 = bitRange 10 15 bits in
      if op0 = 4 \<and> op1 < 2 \<and> op2 AND 7 = 5 \<and> op3 = 0 \<and> op4 AND 3 = 2 then decodeCryptographicAES bits
      else if op0 = 5 \<and> op1 < 2 \<and> \<not> testBit 2 op2 \<and> op4 AND 35 = 0 then decodeCryptographic3Reg bits
      else if op0 = 5 \<and> op1 < 2 \<and> op2 AND 7 = 5 \<and> op3 = 0 \<and> op4 AND 3 = 2 then decodeCryptographic2Reg bits
      else if op0 AND 13 = 5 \<and> op1 = 0 \<and> op2 < 4 \<and> op4 AND 33 = 1 then decodeSIMDScalarCopy bits
      else if op0 AND 13 = 5 \<and> op1 < 2 \<and> op2 AND 7 = 4 \<and> op3 = 0 \<and> op4 AND 3 = 2 then decodeSIMDScalar2Reg bits
      else if op0 AND 13 = 5 \<and> op1 < 2 \<and> op2 AND 7 = 6 \<and> op3 = 0 \<and> op4 AND 3 = 2 then decodeSIMDScalarPairwise bits
      else if op0 AND 13 = 5 \<and> op1 < 2 \<and> op2 AND 4 = 4 \<and> op4 AND 3 = 0 then decodeSIMDScalar3Different bits
      else if op0 AND 13 = 5 \<and> op1 < 2 \<and> op2 AND 4 = 4 \<and> op4 AND 1 = 1 then decodeSIMDScalar3Same bits
      else if op0 AND 13 = 5 \<and> op1 = 2 \<and> op4 AND 1 = 1 then decodeSIMDScalarShiftImmediate bits
      else if op0 AND 13 = 5 \<and> op1 > 1 \<and> op4 AND 1 = 0 then decodeSIMDScalarXIndexed bits
      else if op0 AND 11 = 0 \<and> op1 < 2 \<and> op2 AND 4 = 0 \<and> op4 AND 35 = 0 then decodeSIMDTableLookup bits
      else if op0 AND 11 = 0 \<and> op1 < 2 \<and> op2 AND 4 = 0 \<and> op4 AND 35 = 2 then decodeSIMDPermute bits
      else if op0 AND 11 = 2 \<and> op1 < 2 \<and> op2 AND 4 = 0 \<and> op4 AND 33 = 0 then decodeSIMDExtract bits
      else if op0 AND 9 = 0 \<and> op1 = 0 \<and> op2 AND 12 = 0 \<and> op4 AND 33 = 1 then decodeSIMDCopy bits
      else if op0 AND 9 = 0 \<and> op1 < 2 \<and> op2 AND 7 = 4 \<and> op3 = 0 \<and> op4 AND 3 = 2 then decodeSIMD2Reg bits
      else if op0 AND 9 = 0 \<and> op1 < 2 \<and> op2 AND 7 = 6 \<and> op3 = 0 \<and> op4 AND 3 = 2 then decodeSIMDAcrossLanes bits
      else if op0 AND 9 = 0 \<and> op1 < 2 \<and> op2 AND 4 = 4 \<and> op4 AND 3 = 0 then decodeSIMD3Different bits
      else if op0 AND 9 = 0 \<and> op1 < 2 \<and> op2 AND 4 = 4 \<and> op4 AND 1 = 1 then decodeSIMD3Same bits
      else if op0 AND 9 = 0 \<and> op1 = 2 \<and> op2 = 0 \<and> op4 AND 1 = 1 then decodeSIMDModifiedImmediate bits
      else if op0 AND 9 = 0 \<and> op1 = 2 \<and> op2 \<noteq> 0 \<and> op4 AND 1 = 1 then decodeSIMDShiftImmediate bits
      else if op0 AND 9 = 0 \<and> op1 > 1 \<and> op4 AND 1 = 0 then decodeSIMDVectorXIndexed bits
      else ID_INVALID)"

end
