(* ===== verification/Decode_Table.thy ===== *)
theory Decode_Table
  imports Bitutils Instruction_Ids
begin

text \<open>
  The instruction list \<^verbatim>\<open>libcpu/inc/instructions.inl\<close> as data, one definition per section of the
  file, and what \<^verbatim>\<open>libcpu/src/decode/decode.cpp\<close> and \<^verbatim>\<open>libcpu/src/encode.cpp\<close> build from it: the table
  \<^verbatim>\<open>gInstructionDecodeTable\<close> filled by \<^verbatim>\<open>init\<close>, the table-driven decoder \<^verbatim>\<open>decode2\<close> and \<^verbatim>\<open>encode\<close>. An
  \<^verbatim>\<open>INST\<close> line gives the enumerator, the mask, the bits to match under the mask, and two optional
  lists of masks, of which no one may be all clear and no one all set. The assembler name and
  the operand list of a line are used by the disassembler only (theory \<open>Inst_Info\<close>).
\<close>

record instructionDecodeInfo =
  di_mask :: u32
  di_match :: u32
  bitsMustNotAllBeClear :: "u32 list"
  bitsMustNotAllBeSet :: "u32 list"

definition INST :: "instructionID \<Rightarrow> u32 \<Rightarrow> u32 \<Rightarrow> u32 list \<Rightarrow> u32 list \<Rightarrow> instructionID \<times> instructionDecodeInfo" where
  "INST x msk mtch clr st =
     (x, \<lparr>di_mask = msk, di_match = mtch, bitsMustNotAllBeClear = clr, bitsMustNotAllBeSet = st\<rparr>)"

definition insts_Branch :: "(instructionID \<times> instructionDecodeInfo) list" where
  "insts_Branch = [
     INST ID_B_cond 0b11111111000000000000000000010000 0b01010100000000000000000000000000 [] [],
     INST ID_BR 0b11111111111111111111110000011111 0b11010110000111110000000000000000 [] [],
     INST ID_BLR 0b11111111111111111111110000011111 0b11010110001111110000000000000000 [] [],
     INST ID_RET 0b11111111111111111111110000011111 0b11010110010111110000000000000000 [] [],
     INST ID_ERET 0b11111111111111111111111111111111 0b11010110100111110000001111100000 [] [],
     INST ID_DRPS 0b11111111111111111111111111111111 0b11010110101111110000001111100000 [] [],
     INST ID_B 0b11111100000000000000000000000000 0b00010100000000000000000000000000 [] [],
     INST ID_BL 0b11111100000000000000000000000000 0b10010100000000000000000000000000 [] [],
     INST ID_CBZ_32 0b11111111000000000000000000000000 0b00110100000000000000000000000000 [] [],
     INST ID_CBNZ_32 0b11111111000000000000000000000000 0b00110101000000000000000000000000 [] [],
     INST ID_CBZ_64 0b11111111000000000000000000000000 0b10110100000000000000000000000000 [] [],
     INST ID_CBNZ_64 0b11111111000000000000000000000000 0b10110101000000000000000000000000 [] [],
     INST ID_TBZ 0b01111111000000000000000000000000 0b00110110000000000000000000000000 [] [],
     INST ID_TBNZ 0b01111111000000000000000000000000 0b00110111000000000000000000000000 [] []]"

definition insts_Exception_Generating :: "(instructionID \<times> instructionDecodeInfo) list" where
  "insts_Exception_Generating = [
     INST ID_SVC 0b11111111111000000000000000011111 0b11010100000000000000000000000001 [] [],
     INST ID_HVC 0b11111111111000000000000000011111 0b11010100000000000000000000000010 [] [],
     INST ID_SMC 0b11111111111000000000000000011111 0b11010100000000000000000000000011 [] [],
     INST ID_BRK 0b11111111111000000000000000011111 0b11010100001000000000000000000000 [] [],
     INST ID_HLT 0b11111111111000000000000000011111 0b11010100010000000000000000000000 [] [],
     INST ID_DCPS1 0b11111111111000000000000000011111 0b11010100101000000000000000000001 [] [],
     INST ID_DCPS2 0b11111111111000000000000000011111 0b11010100101000000000000000000010 [] [],
     INST ID_DCPS3 0b11111111111000000000000000011111 0b11010100101000000000000000000011 [] []]"

definition insts_System :: "(instructionID \<times> instructionDecodeInfo) list" where
  "insts_System = [
     INST ID_MSR_imm 0b11111111111110001111000000011111 0b11010101000000000100000000011111 [] [],
     INST ID_MSR_reg 0b11111111111100000000000000000000 0b11010101000100000000000000000000 [] [],
     INST ID_HINT 0b11111111111111111111000000011111 0b11010101000000110010000000011111 [] [],
     INST ID_NOP 0b11111111111111111111111111111111 0b11010101000000110010000000011111 [] [],
     INST ID_YIELD 0b11111111111111111111111111111111 0b11010101000000110010000000111111 [] [],
     INST ID_WFE 0b11111111111111111111111111111111 0b11010101000000110010000001011111 [] [],
     INST ID_WFI 0b11111111111111111111111111111111 0b11010101000000110010000001111111 [] [],
     INST ID_SEV 0b11111111111111111111111111111111 0b11010101000000110010000010011111 [] [],
     INST ID_SEVL 0b11111111111111111111111111111111 0b11010101000000110010000010111111 [] [],
     INST ID_CLREX 0b11111111111111111111000011111111 0b11010101000000110011000001011111 [] [],
     INST ID_DSB 0b11111111111111111111000011111111 0b11010101000000110011000010011111 [] [],
     INST ID_DMB 0b11111111111111111111000011111111 0b11010101000000110011000010111111 [] [],
     INST ID_ISB 0b11111111111111111111000011111111 0b11010101000000110011000011011111 [] [],
     INST ID_SYS 0b11111111111110000000000000000000 0b11010101000010000000000000000000 [] [],
     INST ID_SYSL 0b11111111111110000000000000000000 0b11010101001010000000000000000000 [] [],
     INST ID_MRS 0b11111111111100000000000000000000 0b11010101001100000000000000000000 [] []]"

definition insts_PC_rel_addressing :: "(instructionID \<times> instructionDecodeInfo) list" where
  "insts_PC_rel_addressing = [
     INST ID_ADR 0b10011111000000000000000000000000 0b00010000000000000000000000000000 [] [],
     INST ID_ADRP 0b10011111000000000000000000000000 0b10010000000000000000000000000000 [] []]"

definition insts_Add_subtract_immediate :: "(instructionID \<times> instructionDecodeInfo) list" where
  "insts_Add_subtract_immediate = [
     INST ID_ADD_32_imm 0b11111111100000000000000000000000 0b00010001000000000000000000000000 [] [],
     INST ID_ADDS_32_imm 0b11111111100000000000000000000000 0b00110001000000000000000000000000 [] [],
     INST ID_SUB_32_imm 0b11111111100000000000000000000000 0b01010001000000000000000000000000 [] [],
     INST ID_SUBS_32_imm 0b11111111100000000000000000000000 0b01110001000000000000000000000000 [] [],
     INST ID_ADD_64_imm 0b11111111100000000000000000000000 0b10010001000000000000000000000000 [] [],
     INST ID_ADDS_64_imm 0b11111111100000000000000000000000 0b10110001000000000000000000000000 [] [],
     INST ID_SUB_64_imm 0b11111111100000000000000000000000 0b11010001000000000000000000000000 [] [],
     INST ID_SUBS_64_imm 0b11111111100000000000000000000000 0b11110001000000000000000000000000 [] []]"

definition insts_Logical_immediate :: "(instructionID \<times> instructionDecodeInfo) list" where
  "insts_Logical_immediate = [
     INST ID_AND_32_imm 0b11111111110000000000000000000000 0b00010010000000000000000000000000 [] [],
     INST ID_ORR_32_imm 0b11111111110000000000000000000000 0b00110010000000000000000000000000 [] [],
     INST ID_EOR_32_imm 0b11111111110000000000000000000000 0b01010010000000000000000000000000 [] [],
     INST ID_ANDS_32_imm 0b11111111110000000000000000000000 0b01110010000000000000000000000000 [] [],
     INST ID_AND_64_imm 0b11111111100000000000000000000000 0b10010010000000000000000000000000 [] [],
     INST ID_ORR_64_imm 0b11111111100000000000000000000000 0b10110010000000000000000000000000 [] [],
     INST ID_EOR_64_imm 0b11111111100000000000000000000000 0b11010010000000000000000000000000 [] [],
     INST ID_ANDS_64_imm 0b11111111100000000000000000000000 0b11110010000000000000000000000000 [] []]"

definition insts_Move_wide_immediate :: "(instructionID \<times> instructionDecodeInfo) list" where
  "insts_Move_wide_immediate = [
     INST ID_MOVN_32 0b11111111110000000000000000000000 0b00010010100000000000000000000000 [] [],
     INST ID_MOVZ_32 0b11111111110000000000000000000000 0b01010010100000000000000000000000 [] [],
     INST ID_MOVK_32 0b11111111110000000000000000000000 0b01110010100000000000000000000000 [] [],
     INST ID_MOVN_64 0b11111111100000000000000000000000 0b10010010100000000000000000000000 [] [],
     INST ID_MOVZ_64 0b11111111100000000000000000000000 0b11010010100000000000000000000000 [] [],
     INST ID_MOVK_64 0b11111111100000000000000000000000 0b11110010100000000000000000000000 [] []]"

definition insts_Bitfield :: "(instructionID \<times> instructionDecodeInfo) list" where
  "insts_Bitfield = [
     INST ID_SBFM_32 0b11111111111000001000000000000000 0b00010011000000000000000000000000 [] [],
     INST ID_BFM_32 0b11111111111000001000000000000000 0b00110011000000000000000000000000 [] [],
     INST ID_UBFM_32 0b11111111111000001000000000000000 0b01010011000000000000000000000000 [] [],
     INST ID_SBFM_64 0b11111111110000000000000000000000 0b10010011010000000000000000000000 [] [],
     INST ID_BFM_64 0b11111111110000000000000000000000 0b10110011010000000000000000000000 [] [],
     INST ID_UBFM_64 0b11111111110000000000000000000000 0b11010011010000000000000000000000 [] []]"

definition insts_Extract :: "(instructionID \<times> instructionDecodeInfo) list" where
  "insts_Extract = [
     INST ID_EXTR_32 0b11111111111000001000000000000000 0b00010011100000000000000000000000 [] [],
     INST ID_EXTR_64 0b11111111111000000000000000000000 0b10010011110000000000000000000000 [] []]"

definition insts_Data_processing_2_source :: "(instructionID \<times> instructionDecodeInfo) list" where
  "insts_Data_processing_2_source = [
     INST ID_UDIV_32 0b11111111111000001111110000000000 0b00011010110000000000100000000000 [] [],
     INST ID_SDIV_32 0b11111111111000001111110000000000 0b00011010110000000000110000000000 [] [],
     INST ID_LSLV_32 0b11111111111000001111110000000000 0b00011010110000000010000000000000 [] [],
     INST ID_LSRV_32 0b11111111111000001111110000000000 0b00011010110000000010010000000000 [] [],
     INST ID_ASRV_32 0b11111111111000001111110000000000 0b00011010110000000010100000000000 [] [],
     INST ID_RORV_32 0b11111111111000001111110000000000 0b00011010110000000010110000000000 [] [],
     INST ID_UDIV_64 0b11111111111000001111110000000000 0b10011010110000000000100000000000 [] [],
     INST ID_SDIV_64 0b11111111111000001111110000000000 0b10011010110000000000110000000000 [] [],
     INST ID_LSLV_64 0b11111111111000001111110000000000 0b10011010110000000010000000000000 [] [],
     INST ID_LSRV_64 0b11111111111000001111110000000000 0b10011010110000000010010000000000 [] [],
     INST ID_ASRV_64 0b11111111111000001111110000000000 0b10011010110000000010100000000000 [] [],
     INST ID_RORV_64 0b11111111111000001111110000000000 0b10011010110000000010110000000000 [] [],
     INST ID_CRC32B 0b11111111111000001111110000000000 0b00011010110000000100000000000000 [] [],
     INST ID_CRC32H 0b11111111111000001111110000000000 0b00011010110000000100010000000000 [] [],
     INST ID_CRC32W 0b11111111111000001111110000000000 0b00011010110000000100100000000000 [] [],
     INST ID_CRC32X 0b11111111111000001111110000000000 0b10011010110000000100110000000000 [] [],
     INST ID_CRC32CB 0b11111111111000001111110000000000 0b00011010110000000101000000000000 [] [],
     INST ID_CRC32CH 0b11111111111000001111110000000000 0b00011010110000000101010000000000 [] [],
     INST ID_CRC32CW 0b11111111111000001111110000000000 0b00011010110000000101100000000000 [] [],
     INST ID_CRC32CX 0b11111111111000001111110000000000 0b10011010110000000101110000000000 [] []]"

definition insts_Data_processing_1_source :: "(instructionID \<times> instructionDecodeInfo) list" where
  "insts_Data_processing_1_source = [
     INST ID_RBIT_32 0b11111111111111111111110000000000 0b01011010110000000000000000000000 [] [],
     INST ID_REV16_32 0b11111111111111111111110000000000 0b01011010110000000000010000000000 [] [],
     INST ID_REV_32 0b11111111111111111111110000000000 0b01011010110000000000100000000000 [] [],
     INST ID_CLZ_32 0b11111111111111111111110000000000 0b01011010110000000001000000000000 [] [],
     INST ID_CLS_32 0b11111111111111111111110000000000 0b01011010110000000001010000000000 [] [],
     INST ID_RBIT_64 0b11111111111111111111110000000000 0b11011010110000000000000000000000 [] [],
     INST ID_REV16_64 0b11111111111111111111110000000000 0b11011010110000000000010000000000 [] [],
     INST ID_REV32_64 0b11111111111111111111110000000000 0b11011010110000000000100000000000 [] [],
     INST ID_REV_64 0b11111111111111111111110000000000 0b11011010110000000000110000000000 [] [],
     INST ID_CLZ_64 0b11111111111111111111110000000000 0b11011010110000000001000000000000 [] [],
     INST ID_CLS_64 0b11111111111111111111110000000000 0b11011010110000000001010000000000 [] []]"

definition insts_Logical_shifted_register :: "(instructionID \<times> instructionDecodeInfo) list" where
  "insts_Logical_shifted_register = [
     INST ID_AND_32_shifted 0b11111111001000001000000000000000 0b00001010000000000000000000000000 [] [],
     INST ID_BIC_32_shifted 0b11111111001000001000000000000000 0b00001010001000000000000000000000 [] [],
     INST ID_ORR_32_shifted 0b11111111001000001000000000000000 0b00101010000000000000000000000000 [] [],
     INST ID_ORN_32_shifted 0b11111111001000001000000000000000 0b00101010001000000000000000000000 [] [],
     INST ID_EOR_32_shifted 0b11111111001000001000000000000000 0b01001010000000000000000000000000 [] [],
     INST ID_EON_32_shifted 0b11111111001000001000000000000000 0b01001010001000000000000000000000 [] [],
     INST ID_ANDS_32_shifted 0b11111111001000001000000000000000 0b01101010000000000000000000000000 [] [],
     INST ID_BICS_32_shifted 0b11111111001000001000000000000000 0b01101010001000000000000000000000 [] [],
     INST ID_AND_64_shifted 0b11111111001000000000000000000000 0b10001010000000000000000000000000 [] [],
     INST ID_BIC_64_shifted 0b11111111001000000000000000000000 0b10001010001000000000000000000000 [] [],
     INST ID_ORR_64_shifted 0b11111111001000000000000000000000 0b10101010000000000000000000000000 [] [],
     INST ID_ORN_64_shifted 0b11111111001000000000000000000000 0b10101010001000000000000000000000 [] [],
     INST ID_EOR_64_shifted 0b11111111001000000000000000000000 0b11001010000000000000000000000000 [] [],
     INST ID_EON_64_shifted 0b11111111001000000000000000000000 0b11001010001000000000000000000000 [] [],
     INST ID_ANDS_64_shifted 0b11111111001000000000000000000000 0b11101010000000000000000000000000 [] [],
     INST ID_BICS_64_shifted 0b11111111001000000000000000000000 0b11101010001000000000000000000000 [] []]"

definition insts_Add_subtract_shifted_register :: "(instructionID \<times> instructionDecodeInfo) list" where
  "insts_Add_subtract_shifted_register = [
     INST ID_ADD_32_shifted 0b11111111001000001000000000000000 0b00001011000000000000000000000000 [] [0b00000000110000000000000000000000],
     INST ID_ADDS_32_shifted 0b11111111001000001000000000000000 0b00101011000000000000000000000000 [] [0b00000000110000000000000000000000],
     INST ID_SUB_32_shifted 0b11111111001000001000000000000000 0b01001011000000000000000000000000 [] [0b00000000110000000000000000000000],
     INST ID_SUBS_32_shifted 0b11111111001000001000000000000000 0b01101011000000000000000000000000 [] [0b00000000110000000000000000000000],
     INST ID_ADD_64_shifted 0b11111111001000000000000000000000 0b10001011000000000000000000000000 [] [0b00000000110000000000000000000000],
     INST ID_ADDS_64_shifted 0b11111111001000000000000000000000 0b10101011000000000000000000000000 [] [0b00000000110000000000000000000000],
     INST ID_SUB_64_shifted 0b11111111001000000000000000000000 0b11001011000000000000000000000000 [] [0b00000000110000000000000000000000],
     INST ID_SUBS_64_shifted 0b11111111001000000000000000000000 0b11101011000000000000000000000000 [] [0b00000000110000000000000000000000]]"

definition insts_Add_subtract_extended_register :: "(instructionID \<times> instructionDecodeInfo) list" where
  "insts_Add_subtract_extended_register = [
     INST ID_ADD_32_extended 0b11111111111000000000000000000000 0b00001011001000000000000000000000 [] [0b00000000000000000001100000000000, 0b00000000000000000001010000000000],
     INST ID_ADDS_32_extended 0b11111111111000000000000000000000 0b00101011001000000000000000000000 [] [0b00000000000000000001100000000000, 0b00000000000000000001010000000000],
     INST ID_SUB_32_extended 0b11111111111000000000000000000000 0b01001011001000000000000000000000 [] [0b00000000000000000001100000000000, 0b00000000000000000001010000000000],
     INST ID_SUBS_32_extended 0b11111111111000000000000000000000 0b01101011001000000000000000000000 [] [0b00000000000000000001100000000000, 0b00000000000000000001010000000000],
     INST ID_ADD_64_extended 0b11111111111000000000000000000000 0b10001011001000000000000000000000 [] [0b00000000000000000001100000000000, 0b00000000000000000001010000000000],
     INST ID_ADDS_64_extended 0b11111111111000000000000000000000 0b10101011001000000000000000000000 [] [0b00000000000000000001100000000000, 0b00000000000000000001010000000000],
     INST ID_SUB_64_extended 0b11111111111000000000000000000000 0b11001011001000000000000000000000 [] [0b00000000000000000001100000000000, 0b00000000000000000001010000000000],
     INST ID_SUBS_64_extended 0b11111111111000000000000000000000 0b11101011001000000000000000000000 [] [0b00000000000000000001100000000000, 0b00000000000000000001010000000000]]"

definition insts_Add_subtract_with_carry :: "(instructionID \<times> instructionDecodeInfo) list" where
  "insts_Add_subtract_with_carry = [
     INST ID_ADC_32 0b11111111111000001111110000000000 0b00011010000000000000000000000000 [] [],
     INST ID_ADCS_32 0b11111111111000001111110000000000 0b00111010000000000000000000000000 [] [],
     INST ID_SBC_32 0b11111111111000001111110000000000 0b01011010000000000000000000000000 [] [],
     INST ID_SBCS_32 0b11111111111000001111110000000000 0b01111010000000000000000000000000 [] [],
     INST ID_ADC_64 0b11111111111000001111110000000000 0b10011010000000000000000000000000 [] [],
     INST ID_ADCS_64 0b11111111111000001111110000000000 0b10111010000000000000000000000000 [] [],
     INST ID_SBC_64 0b11111111111000001111110000000000 0b11011010000000000000000000000000 [] [],
     INST ID_SBCS_64 0b11111111111000001111110000000000 0b11111010000000000000000000000000 [] []]"

definition insts_Conditional_compare_register :: "(instructionID \<times> instructionDecodeInfo) list" where
  "insts_Conditional_compare_register = [
     INST ID_CCMN_32_reg 0b11111111111000000000110000010000 0b00111010010000000000000000000000 [] [],
     INST ID_CCMP_32_reg 0b11111111111000000000110000010000 0b01111010010000000000000000000000 [] [],
     INST ID_CCMN_64_reg 0b11111111111000000000110000010000 0b10111010010000000000000000000000 [] [],
     INST ID_CCMP_64_reg 0b11111111111000000000110000010000 0b11111010010000000000000000000000 [] []]"

definition insts_Conditional_compare_immediate :: "(instructionID \<times> instructionDecodeInfo) list" where
  "insts_Conditional_compare_immediate = [
     INST ID_CCMN_32_imm 0b11111111111000000000110000010000 0b00111010010000000000100000000000 [] [],
     INST ID_CCMP_32_imm 0b11111111111000000000110000010000 0b01111010010000000000100000000000 [] [],
     INST ID_CCMN_64_imm 0b11111111111000000000110000010000 0b10111010010000000000100000000000 [] [],
     INST ID_CCMP_64_imm 0b11111111111000000000110000010000 0b11111010010000000000100000000000 [] []]"

definition insts_Conditional_select :: "(instructionID \<times> instructionDecodeInfo) list" where
  "insts_Conditional_select = [
     INST ID_CSEL_32 0b11111111111000000000110000000000 0b00011010100000000000000000000000 [] [],
     INST ID_CSINC_32 0b11111111111000000000110000000000 0b00011010100000000000010000000000 [] [],
     INST ID_CSINV_32 0b11111111111000000000110000000000 0b01011010100000000000000000000000 [] [],
     INST ID_CSNEG_32 0b11111111111000000000110000000000 0b01011010100000000000010000000000 [] [],
     INST ID_CSEL_64 0b11111111111000000000110000000000 0b10011010100000000000000000000000 [] [],
     INST ID_CSINC_64 0b11111111111000000000110000000000 0b10011010100000000000010000000000 [] [],
     INST ID_CSINV_64 0b11111111111000000000110000000000 0b11011010100000000000000000000000 [] [],
     INST ID_CSNEG_64 0b11111111111000000000110000000000 0b11011010100000000000010000000000 [] []]"

definition insts_Data_processing_3_source :: "(instructionID \<times> instructionDecodeInfo) list" where
  "insts_Data_processing_3_source = [
     INST ID_MADD_32 0b11111111111000001000000000000000 0b00011011000000000000000000000000 [] [],
     INST ID_MSUB_32 0b11111111111000001000000000000000 0b00011011000000001000000000000000 [] [],
     INST ID_MADD_64 0b11111111111000001000000000000000 0b10011011000000000000000000000000 [] [],
     INST ID_MSUB_64 0b11111111111000001000000000000000 0b10011011000000001000000000000000 [] [],
     INST ID_SMADDL 0b11111111111000001000000000000000 0b10011011001000000000000000000000 [] [],
     INST ID_SMSUBL 0b11111111111000001000000000000000 0b10011011001000001000000000000000 [] [],
     INST ID_SMULH 0b11111111111000001000000000000000 0b10011011010000000000000000000000 [] [],
     INST ID_UMADDL 0b11111111111000001000000000000000 0b10011011101000000000000000000000 [] [],
     INST ID_UMSUBL 0b11111111111000001000000000000000 0b10011011101000001000000000000000 [] [],
     INST ID_UMULH 0b11111111111000001000000000000000 0b10011011110000000000000000000000 [] []]"

definition insts_Advanced_SIMD_load_store_multiple_structures :: "(instructionID \<times> instructionDecodeInfo) list" where
  "insts_Advanced_SIMD_load_store_multiple_structures = [
     INST ID_ST1_multi_1reg 0b10111111111111111111000000000000 0b00001100000000000111000000000000 [] [],
     INST ID_ST1_multi_2reg 0b10111111111111111111000000000000 0b00001100000000001010000000000000 [] [],
     INST ID_ST1_multi_3reg 0b10111111111111111111000000000000 0b00001100000000000110000000000000 [] [],
     INST ID_ST1_multi_4reg 0b10111111111111111111000000000000 0b00001100000000000010000000000000 [] [],
     INST ID_ST2_multi 0b10111111111111111111000000000000 0b00001100000000001000000000000000 [] [],
     INST ID_ST3_multi 0b10111111111111111111000000000000 0b00001100000000000100000000000000 [] [],
     INST ID_ST4_multi 0b10111111111111111111000000000000 0b00001100000000000000000000000000 [] [],
     INST ID_LD1_multi_1reg 0b10111111111111111111000000000000 0b00001100010000000111000000000000 [] [],
     INST ID_LD1_multi_2reg 0b10111111111111111111000000000000 0b00001100010000001010000000000000 [] [],
     INST ID_LD1_multi_3reg 0b10111111111111111111000000000000 0b00001100010000000110000000000000 [] [],
     INST ID_LD1_multi_4reg 0b10111111111111111111000000000000 0b00001100010000000010000000000000 [] [],
     INST ID_LD2_multi 0b10111111111111111111000000000000 0b00001100010000001000000000000000 [] [],
     INST ID_LD3_multi 0b10111111111111111111000000000000 0b00001100010000000100000000000000 [] [],
     INST ID_LD4_multi 0b10111111111111111111000000000000 0b00001100010000000000000000000000 [] []]"

definition insts_Advanced_SIMD_load_store_multiple_structures_post_indexed :: "(instructionID \<times> instructionDecodeInfo) list" where
  "insts_Advanced_SIMD_load_store_multiple_structures_post_indexed = [
     INST ID_ST1_multi_reg_1reg 0b10111111111000001111000000000000 0b00001100100000000111000000000000 [] [0b00000000000111110000000000000000],
     INST ID_ST1_multi_reg_2reg 0b10111111111000001111000000000000 0b00001100100000001010000000000000 [] [0b00000000000111110000000000000000],
     INST ID_ST1_multi_reg_3reg 0b10111111111000001111000000000000 0b00001100100000000110000000000000 [] [0b00000000000111110000000000000000],
     INST ID_ST1_multi_reg_4reg 0b10111111111000001111000000000000 0b00001100100000000010000000000000 [] [0b00000000000111110000000000000000],
     INST ID_ST2_multi_reg 0b10111111111000001111000000000000 0b00001100100000001000000000000000 [] [0b00000000000111110000000000000000],
     INST ID_ST3_multi_reg 0b10111111111000001111000000000000 0b00001100100000000100000000000000 [] [0b00000000000111110000000000000000],
     INST ID_ST4_multi_reg 0b10111111111000001111000000000000 0b00001100100000000000000000000000 [] [0b00000000000111110000000000000000],
     INST ID_ST1_multi_offset_1reg 0b10111111111111111111000000000000 0b00001100100111110111000000000000 [] [],
     INST ID_ST1_multi_offset_2reg 0b10111111111111111111000000000000 0b00001100100111111010000000000000 [] [],
     INST ID_ST1_multi_offset_3reg 0b10111111111111111111000000000000 0b00001100100111110110000000000000 [] [],
     INST ID_ST1_multi_offset_4reg 0b10111111111111111111000000000000 0b00001100100111110010000000000000 [] [],
     INST ID_ST2_multi_offset 0b10111111111111111111000000000000 0b00001100100111111000000000000000 [] [],
     INST ID_ST3_multi_offset 0b10111111111111111111000000000000 0b00001100100111110100000000000000 [] [],
     INST ID_ST4_multi_offset 0b10111111111111111111000000000000 0b00001100100111110000000000000000 [] [],
     INST ID_LD1_multi_reg_1reg 0b10111111111000001111000000000000 0b00001100110000000111000000000000 [] [0b00000000000111110000000000000000],
     INST ID_LD1_multi_reg_2reg 0b10111111111000001111000000000000 0b00001100110000001010000000000000 [] [0b00000000000111110000000000000000],
     INST ID_LD1_multi_reg_3reg 0b10111111111000001111000000000000 0b00001100110000000110000000000000 [] [0b00000000000111110000000000000000],
     INST ID_LD1_multi_reg_4reg 0b10111111111000001111000000000000 0b00001100110000000010000000000000 [] [0b00000000000111110000000000000000],
     INST ID_LD2_multi_reg 0b10111111111000001111000000000000 0b00001100110000001000000000000000 [] [0b00000000000111110000000000000000],
     INST ID_LD3_multi_reg 0b10111111111000001111000000000000 0b00001100110000000100000000000000 [] [0b00000000000111110000000000000000],
     INST ID_LD4_multi_reg 0b10111111111000001111000000000000 0b00001100110000000000000000000000 [] [0b00000000000111110000000000000000],
     INST ID_LD1_multi_offset_1reg 0b10111111111111111111000000000000 0b00001100110111110111000000000000 [] [],
     INST ID_LD1_multi_offset_2reg 0b10111111111111111111000000000000 0b00001100110111111010000000000000 [] [],
     INST ID_LD1_multi_offset_3reg 0b10111111111111111111000000000000 0b00001100110111110110000000000000 [] [],
     INST ID_LD1_multi_offset_4reg 0b10111111111111111111000000000000 0b00001100110111110010000000000000 [] [],
     INST ID_LD2_multi_offset 0b10111111111111111111000000000000 0b00001100110111111000000000000000 [] [],
     INST ID_LD3_multi_offset 0b10111111111111111111000000000000 0b00001100110111110100000000000000 [] [],
     INST ID_LD4_multi_offset 0b10111111111111111111000000000000 0b00001100110111110000000000000000 [] []]"

definition insts_Advanced_SIMD_load_store_single_structure :: "(instructionID \<times> instructionDecodeInfo) list" where
  "insts_Advanced_SIMD_load_store_single_structure = [
     INST ID_ST1_single_8 0b10111111111111111110000000000000 0b00001101000000000000000000000000 [] [],
     INST ID_ST1_single_16 0b10111111111111111110010000000000 0b00001101000000000100000000000000 [] [],
     INST ID_ST1_single_32 0b10111111111111111110110000000000 0b00001101000000001000000000000000 [] [],
     INST ID_ST1_single_64 0b10111111111111111111110000000000 0b00001101000000001000010000000000 [] [],
     INST ID_ST2_single_8 0b10111111111111111110000000000000 0b00001101001000000000000000000000 [] [],
     INST ID_ST2_single_16 0b10111111111111111110010000000000 0b00001101001000000100000000000000 [] [],
     INST ID_ST2_single_32 0b10111111111111111110110000000000 0b00001101001000001000000000000000 [] [],
     INST ID_ST2_single_64 0b10111111111111111111110000000000 0b00001101001000001000010000000000 [] [],
     INST ID_ST3_single_8 0b10111111111111111110000000000000 0b00001101000000000010000000000000 [] [],
     INST ID_ST3_single_16 0b10111111111111111110010000000000 0b00001101000000000110000000000000 [] [],
     INST ID_ST3_single_32 0b10111111111111111110110000000000 0b00001101000000001010000000000000 [] [],
     INST ID_ST3_single_64 0b10111111111111111111110000000000 0b00001101000000001010010000000000 [] [],
     INST ID_ST4_single_8 0b10111111111111111110000000000000 0b00001101001000000010000000000000 [] [],
     INST ID_ST4_single_16 0b10111111111111111110010000000000 0b00001101001000000110000000000000 [] [],
     INST ID_ST4_single_32 0b10111111111111111110110000000000 0b00001101001000001010000000000000 [] [],
     INST ID_ST4_single_64 0b10111111111111111111110000000000 0b00001101001000001010010000000000 [] [],
     INST ID_LD1_single_8 0b10111111111111111110000000000000 0b00001101010000000000000000000000 [] [],
     INST ID_LD1_single_16 0b10111111111111111110010000000000 0b00001101010000000100000000000000 [] [],
     INST ID_LD1_single_32 0b10111111111111111110110000000000 0b00001101010000001000000000000000 [] [],
     INST ID_LD1_single_64 0b10111111111111111111110000000000 0b00001101010000001000010000000000 [] [],
     INST ID_LD2_single_8 0b10111111111111111110000000000000 0b00001101011000000000000000000000 [] [],
     INST ID_LD2_single_16 0b10111111111111111110010000000000 0b00001101011000000100000000000000 [] [],
     INST ID_LD2_single_32 0b10111111111111111110110000000000 0b00001101011000001000000000000000 [] [],
     INST ID_LD2_single_64 0b10111111111111111111110000000000 0b00001101011000001000010000000000 [] [],
     INST ID_LD3_single_8 0b10111111111111111110000000000000 0b00001101010000000010000000000000 [] [],
     INST ID_LD3_single_16 0b10111111111111111110010000000000 0b00001101010000000110000000000000 [] [],
     INST ID_LD3_single_32 0b10111111111111111110110000000000 0b00001101010000001010000000000000 [] [],
     INST ID_LD3_single_64 0b10111111111111111111110000000000 0b00001101010000001010010000000000 [] [],
     INST ID_LD4_single_8 0b10111111111111111110000000000000 0b00001101011000000010000000000000 [] [],
     INST ID_LD4_single_16 0b10111111111111111110010000000000 0b00001101011000000110000000000000 [] [],
     INST ID_LD4_single_32 0b10111111111111111110110000000000 0b00001101011000001010000000000000 [] [],
     INST ID_LD4_single_64 0b10111111111111111111110000000000 0b00001101011000001010010000000000 [] [],
     INST ID_LD1R 0b10111111111111111111000000000000 0b00001101010000001100000000000000 [] [],
     INST ID_LD2R 0b10111111111111111111000000000000 0b00001101011000001100000000000000 [] [],
     INST ID_LD3R 0b10111111111111111111000000000000 0b00001101010000001110000000000000 [] [],
     INST ID_LD4R 0b10111111111111111111000000000000 0b00001101011000001110000000000000 [] []]"

definition insts_Advanced_SIMD_load_store_single_structure_post_indexed :: "(instructionID \<times> instructionDecodeInfo) list" where
  "insts_Advanced_SIMD_load_store_single_structure_post_indexed = [
     INST ID_ST1_single_8_reg 0b10111111111000001110000000000000 0b00001101100000000000000000000000 [] [0b00000000000111110000000000000000],
     INST ID_ST1_single_16_reg 0b10111111111000001110010000000000 0b00001101100000000100000000000000 [] [0b00000000000111110000000000000000],
     INST ID_ST1_single_32_reg 0b10111111111000001110110000000000 0b00001101100000001000000000000000 [] [0b00000000000111110000000000000000],
     INST ID_ST1_single_64_reg 0b10111111111000001111110000000000 0b00001101100000001000010000000000 [] [0b00000000000111110000000000000000],
     INST ID_ST2_single_8_reg 0b10111111111000001110000000000000 0b00001101101000000000000000000000 [] [0b00000000000111110000000000000000],
     INST ID_ST2_single_16_reg 0b10111111111000001110010000000000 0b00001101101000000100000000000000 [] [0b00000000000111110000000000000000],
     INST ID_ST2_single_32_reg 0b10111111111000001110110000000000 0b00001101101000001000000000000000 [] [0b00000000000111110000000000000000],
     INST ID_ST2_single_64_reg 0b10111111111000001111110000000000 0b00001101101000001000010000000000 [] [0b00000000000111110000000000000000],
     INST ID_ST3_single_8_reg 0b10111111111000001110000000000000 0b00001101100000000010000000000000 [] [0b00000000000111110000000000000000],
     INST ID_ST3_single_16_reg 0b10111111111000001110010000000000 0b00001101100000000110000000000000 [] [0b00000000000111110000000000000000],
     INST ID_ST3_single_32_reg 0b10111111111000001110110000000000 0b00001101100000001010000000000000 [] [0b00000000000111110000000000000000],
     INST ID_ST3_single_64_reg 0b10111111111000001111110000000000 0b00001101100000001010010000000000 [] [0b00000000000111110000000000000000],
     INST ID_ST4_single_8_reg 0b10111111111000001110000000000000 0b00001101101000000010000000000000 [] [0b00000000000111110000000000000000],
     INST ID_ST4_single_16_reg 0b10111111111000001110010000000000 0b00001101101000000110000000000000 [] [0b00000000000111110000000000000000],
     INST ID_ST4_single_32_reg 0b10111111111000001110110000000000 0b00001101101000001010000000000000 [] [0b00000000000111110000000000000000],
     INST ID_ST4_single_64_reg 0b10111111111000001111110000000000 0b00001101101000001010010000000000 [] [0b00000000000111110000000000000000],
     INST ID_ST1_single_8_imm 0b10111111111111111110000000000000 0b00001101100111110000000000000000 [] [],
     INST ID_ST1_single_16_imm 0b10111111111111111110010000000000 0b00001101100111110100000000000000 [] [],
     INST ID_ST1_single_32_imm 0b10111111111111111110110000000000 0b00001101100111111000000000000000 [] [],
     INST ID_ST1_single_64_imm 0b10111111111111111111110000000000 0b00001101100111111000010000000000 [] [],
     INST ID_ST2_single_8_imm 0b10111111111111111110000000000000 0b00001101101111110000000000000000 [] [],
     INST ID_ST2_single_16_imm 0b10111111111111111110010000000000 0b00001101101111110100000000000000 [] [],
     INST ID_ST2_single_32_imm 0b10111111111111111110110000000000 0b00001101101111111000000000000000 [] [],
     INST ID_ST2_single_64_imm 0b10111111111111111111110000000000 0b00001101101111111000010000000000 [] [],
     INST ID_ST3_single_8_imm 0b10111111111111111110000000000000 0b00001101100111110010000000000000 [] [],
     INST ID_ST3_single_16_imm 0b10111111111111111110010000000000 0b00001101100111110110000000000000 [] [],
     INST ID_ST3_single_32_imm 0b10111111111111111110110000000000 0b00001101100111111010000000000000 [] [],
     INST ID_ST3_single_64_imm 0b10111111111111111111110000000000 0b00001101100111111010010000000000 [] [],
     INST ID_ST4_single_8_imm 0b10111111111111111110000000000000 0b00001101101111110010000000000000 [] [],
     INST ID_ST4_single_16_imm 0b10111111111111111110010000000000 0b00001101101111110110000000000000 [] [],
     INST ID_ST4_single_32_imm 0b10111111111111111110110000000000 0b00001101101111111010000000000000 [] [],
     INST ID_ST4_single_64_imm 0b10111111111111111111110000000000 0b00001101101111111010010000000000 [] [],
     INST ID_LD1_single_8_reg 0b10111111111000001110000000000000 0b00001101110000000000000000000000 [] [0b00000000000111110000000000000000],
     INST ID_LD1_single_16_reg 0b10111111111000001110010000000000 0b00001101110000000100000000000000 [] [0b00000000000111110000000000000000],
     INST ID_LD1_single_32_reg 0b10111111111000001110110000000000 0b00001101110000001000000000000000 [] [0b00000000000111110000000000000000],
     INST ID_LD1_single_64_reg 0b10111111111000001111110000000000 0b00001101110000001000010000000000 [] [0b00000000000111110000000000000000],
     INST ID_LD2_single_8_reg 0b10111111111000001110000000000000 0b00001101111000000000000000000000 [] [0b00000000000111110000000000000000],
     INST ID_LD2_single_16_reg 0b10111111111000001110010000000000 0b00001101111000000100000000000000 [] [0b00000000000111110000000000000000],
     INST ID_LD2_single_32_reg 0b10111111111000001110110000000000 0b00001101111000001000000000000000 [] [0b00000000000111110000000000000000],
     INST ID_LD2_single_64_reg 0b10111111111000001111110000000000 0b00001101111000001000010000000000 [] [0b00000000000111110000000000000000],
     INST ID_LD3_single_8_reg 0b10111111111000001110000000000000 0b00001101110000000010000000000000 [] [0b00000000000111110000000000000000],
     INST ID_LD3_single_16_reg 0b10111111111000001110010000000000 0b00001101110000000110000000000000 [] [0b00000000000111110000000000000000],
     INST ID_LD3_single_32_reg 0b10111111111000001110110000000000 0b00001101110000001010000000000000 [] [0b00000000000111110000000000000000],
     INST ID_LD3_single_64_reg 0b10111111111000001111110000000000 0b00001101110000001010010000000000 [] [0b00000000000111110000000000000000],
     INST ID_LD4_single_8_reg 0b10111111111000001110000000000000 0b00001101111000000010000000000000 [] [0b00000000000111110000000000000000],
     INST ID_LD4_single_16_reg 0b10111111111000001110010000000000 0b00001101111000000110000000000000 [] [0b00000000000111110000000000000000],
     INST ID_LD4_single_32_reg 0b10111111111000001110110000000000 0b00001101111000001010000000000000 [] [0b00000000000111110000000000000000],
     INST ID_LD4_single_64_reg 0b10111111111000001111110000000000 0b00001101111000001010010000000000 [] [0b00000000000111110000000000000000],
     INST ID_LD1R_reg 0b10111111111000001111000000000000 0b00001101110000001100000000000000 [] [0b00000000000111110000000000000000],
     INST ID_LD2R_reg 0b10111111111000001111000000000000 0b00001101111000001100000000000000 [] [0b00000000000111110000000000000000],
     INST ID_LD3R_reg 0b10111111111000001111000000000000 0b00001101110000001110000000000000 [] [0b00000000000111110000000000000000],
     INST ID_LD4R_reg 0b10111111111000001111000000000000 0b00001101111000001110000000000000 [] [0b00000000000111110000000000000000],
     INST ID_LD1_single_8_imm 0b10111111111111111110000000000000 0b00001101110111110000000000000000 [] [],
     INST ID_LD1_single_16_imm 0b10111111111111111110010000000000 0b00001101110111110100000000000000 [] [],
     INST ID_LD1_single_32_imm 0b10111111111111111110110000000000 0b00001101110111111000000000000000 [] [],
     INST ID_LD1_single_64_imm 0b10111111111111111111110000000000 0b00001101110111111000010000000000 [] [],
     INST ID_LD2_single_8_imm 0b10111111111111111110000000000000 0b00001101111111110000000000000000 [] [],
     INST ID_LD2_single_16_imm 0b10111111111111111110010000000000 0b00001101111111110100000000000000 [] [],
     INST ID_LD2_single_32_imm 0b10111111111111111110110000000000 0b00001101111111111000000000000000 [] [],
     INST ID_LD2_single_64_imm 0b10111111111111111111110000000000 0b00001101111111111000010000000000 [] [],
     INST ID_LD3_single_8_imm 0b10111111111111111110000000000000 0b00001101110111110010000000000000 [] [],
     INST ID_LD3_single_16_imm 0b10111111111111111110010000000000 0b00001101110111110110000000000000 [] [],
     INST ID_LD3_single_32_imm 0b10111111111111111110110000000000 0b00001101110111111010000000000000 [] [],
     INST ID_LD3_single_64_imm 0b10111111111111111111110000000000 0b00001101110111111010010000000000 [] [],
     INST ID_LD4_single_8_imm 0b10111111111111111110000000000000 0b00001101111111110010000000000000 [] [],
     INST ID_LD4_single_16_imm 0b10111111111111111110010000000000 0b00001101111111110110000000000000 [] [],
     INST ID_LD4_single_32_imm 0b10111111111111111110110000000000 0b00001101111111111010000000000000 [] [],
     INST ID_LD4_single_64_imm 0b10111111111111111111110000000000 0b00001101111111111010010000000000 [] [],
     INST ID_LD1R_imm 0b10111111111111111111000000000000 0b00001101110111111100000000000000 [] [],
     INST ID_LD2R_imm 0b10111111111111111111000000000000 0b00001101111111111100000000000000 [] [],
     INST ID_LD3R_imm 0b10111111111111111111000000000000 0b00001101110111111110000000000000 [] [],
     INST ID_LD4R_imm 0b10111111111111111111000000000000 0b00001101111111111110000000000000 [] []]"

definition insts_Load_store_exclusive :: "(instructionID \<times> instructionDecodeInfo) list" where
  "insts_Load_store_exclusive = [
     INST ID_STXRB 0b11111111111000001000000000000000 0b00001000000000000000000000000000 [] [],
     INST ID_STLXRB 0b11111111111000001000000000000000 0b00001000000000001000000000000000 [] [],
     INST ID_LDXRB 0b11111111111000001000000000000000 0b00001000010000000000000000000000 [] [],
     INST ID_LDAXRB 0b11111111111000001000000000000000 0b00001000010000001000000000000000 [] [],
     INST ID_STLRB 0b11111111111000001000000000000000 0b00001000100000001000000000000000 [] [],
     INST ID_LDARB 0b11111111111000001000000000000000 0b00001000110000001000000000000000 [] [],
     INST ID_STXRH 0b11111111111000001000000000000000 0b01001000000000000000000000000000 [] [],
     INST ID_STLXRH 0b11111111111000001000000000000000 0b01001000000000001000000000000000 [] [],
     INST ID_LDXRH 0b11111111111000001000000000000000 0b01001000010000000000000000000000 [] [],
     INST ID_LDAXRH 0b11111111111000001000000000000000 0b01001000010000001000000000000000 [] [],
     INST ID_STLRH 0b11111111111000001000000000000000 0b01001000100000001000000000000000 [] [],
     INST ID_LDARH 0b11111111111000001000000000000000 0b01001000110000001000000000000000 [] [],
     INST ID_STXR32 0b11111111111000001000000000000000 0b10001000000000000000000000000000 [] [],
     INST ID_STLXR32 0b11111111111000001000000000000000 0b10001000000000001000000000000000 [] [],
     INST ID_STXP32 0b11111111111000001000000000000000 0b10001000001000000000000000000000 [] [],
     INST ID_STLXP32 0b11111111111000001000000000000000 0b10001000001000001000000000000000 [] [],
     INST ID_LDXR32 0b11111111111000001000000000000000 0b10001000010000000000000000000000 [] [],
     INST ID_LDAXR32 0b11111111111000001000000000000000 0b10001000010000001000000000000000 [] [],
     INST ID_LDXP32 0b11111111111000001000000000000000 0b10001000011000000000000000000000 [] [],
     INST ID_LDAXP32 0b11111111111000001000000000000000 0b10001000011000001000000000000000 [] [],
     INST ID_STLR32 0b11111111111000001000000000000000 0b10001000100000001000000000000000 [] [],
     INST ID_LDAR32 0b11111111111000001000000000000000 0b10001000110000001000000000000000 [] [],
     INST ID_STXR64 0b11111111111000001000000000000000 0b11001000000000000000000000000000 [] [],
     INST ID_STLXR64 0b11111111111000001000000000000000 0b11001000000000001000000000000000 [] [],
     INST ID_STXP64 0b11111111111000001000000000000000 0b11001000001000000000000000000000 [] [],
     INST ID_STLXP64 0b11111111111000001000000000000000 0b11001000001000001000000000000000 [] [],
     INST ID_LDXR64 0b11111111111000001000000000000000 0b11001000010000000000000000000000 [] [],
     INST ID_LDAXR64 0b11111111111000001000000000000000 0b11001000010000001000000000000000 [] [],
     INST ID_LDXP64 0b11111111111000001000000000000000 0b11001000011000000000000000000000 [] [],
     INST ID_LDAXP64 0b11111111111000001000000000000000 0b11001000011000001000000000000000 [] [],
     INST ID_STLR64 0b11111111111000001000000000000000 0b11001000100000001000000000000000 [] [],
     INST ID_LDAR64 0b11111111111000001000000000000000 0b11001000110000001000000000000000 [] []]"

definition insts_Load_register_literal :: "(instructionID \<times> instructionDecodeInfo) list" where
  "insts_Load_register_literal = [
     INST ID_LDR32_literal 0b11111111000000000000000000000000 0b00011000000000000000000000000000 [] [],
     INST ID_LDR32_literal_float 0b11111111000000000000000000000000 0b00011100000000000000000000000000 [] [],
     INST ID_LDR64_literal 0b11111111000000000000000000000000 0b01011000000000000000000000000000 [] [],
     INST ID_LDR64_literal_float 0b11111111000000000000000000000000 0b01011100000000000000000000000000 [] [],
     INST ID_LDRSW_literal 0b11111111000000000000000000000000 0b10011000000000000000000000000000 [] [],
     INST ID_LDR128_literal 0b11111111000000000000000000000000 0b10011100000000000000000000000000 [] [],
     INST ID_PRFM_literal 0b11111111000000000000000000000000 0b11011000000000000000000000000000 [] []]"

definition insts_Load_store_no_allocate_pair_offset :: "(instructionID \<times> instructionDecodeInfo) list" where
  "insts_Load_store_no_allocate_pair_offset = [
     INST ID_STNP32 0b11111111110000000000000000000000 0b00101000000000000000000000000000 [] [],
     INST ID_LDNP32 0b11111111110000000000000000000000 0b00101000010000000000000000000000 [] [],
     INST ID_STNP32_float 0b11111111110000000000000000000000 0b00101100000000000000000000000000 [] [],
     INST ID_LDNP32_float 0b11111111110000000000000000000000 0b00101100010000000000000000000000 [] [],
     INST ID_STNP64_float 0b11111111110000000000000000000000 0b01101100000000000000000000000000 [] [],
     INST ID_LDNP64_float 0b11111111110000000000000000000000 0b01101100010000000000000000000000 [] [],
     INST ID_STNP64 0b11111111110000000000000000000000 0b10101000000000000000000000000000 [] [],
     INST ID_LDNP64 0b11111111110000000000000000000000 0b10101000010000000000000000000000 [] [],
     INST ID_STNP128 0b11111111110000000000000000000000 0b10101100000000000000000000000000 [] [],
     INST ID_LDNP128 0b11111111110000000000000000000000 0b10101100010000000000000000000000 [] []]"

definition insts_Load_store_register_pair_post_indexed :: "(instructionID \<times> instructionDecodeInfo) list" where
  "insts_Load_store_register_pair_post_indexed = [
     INST ID_STP32_post 0b11111111110000000000000000000000 0b00101000100000000000000000000000 [] [],
     INST ID_LDP32_post 0b11111111110000000000000000000000 0b00101000110000000000000000000000 [] [],
     INST ID_STP32_post_float 0b11111111110000000000000000000000 0b00101100100000000000000000000000 [] [],
     INST ID_LDP32_post_float 0b11111111110000000000000000000000 0b00101100110000000000000000000000 [] [],
     INST ID_LDPSW_post 0b11111111110000000000000000000000 0b01101000110000000000000000000000 [] [],
     INST ID_STP64_post_float 0b11111111110000000000000000000000 0b01101100100000000000000000000000 [] [],
     INST ID_LDP64_post_float 0b11111111110000000000000000000000 0b01101100110000000000000000000000 [] [],
     INST ID_STP64_post 0b11111111110000000000000000000000 0b10101000100000000000000000000000 [] [],
     INST ID_LDP64_post 0b11111111110000000000000000000000 0b10101000110000000000000000000000 [] [],
     INST ID_STP128_post 0b11111111110000000000000000000000 0b10101100100000000000000000000000 [] [],
     INST ID_LDP128_post 0b11111111110000000000000000000000 0b10101100110000000000000000000000 [] []]"

definition insts_Load_store_register_pair_offset :: "(instructionID \<times> instructionDecodeInfo) list" where
  "insts_Load_store_register_pair_offset = [
     INST ID_STP32_offset 0b11111111110000000000000000000000 0b00101001000000000000000000000000 [] [],
     INST ID_LDP32_offset 0b11111111110000000000000000000000 0b00101001010000000000000000000000 [] [],
     INST ID_STP32_offset_float 0b11111111110000000000000000000000 0b00101101000000000000000000000000 [] [],
     INST ID_LDP32_offset_float 0b11111111110000000000000000000000 0b00101101010000000000000000000000 [] [],
     INST ID_LDPSW_offset 0b11111111110000000000000000000000 0b01101001010000000000000000000000 [] [],
     INST ID_STP64_offset_float 0b11111111110000000000000000000000 0b01101101000000000000000000000000 [] [],
     INST ID_LDP64_offset_float 0b11111111110000000000000000000000 0b01101101010000000000000000000000 [] [],
     INST ID_STP64_offset 0b11111111110000000000000000000000 0b10101001000000000000000000000000 [] [],
     INST ID_LDP64_offset 0b11111111110000000000000000000000 0b10101001010000000000000000000000 [] [],
     INST ID_STP128_offset 0b11111111110000000000000000000000 0b10101101000000000000000000000000 [] [],
     INST ID_LDP128_offset 0b11111111110000000000000000000000 0b10101101010000000000000000000000 [] []]"

definition insts_Load_store_register_pair_pre_indexed :: "(instructionID \<times> instructionDecodeInfo) list" where
  "insts_Load_store_register_pair_pre_indexed = [
     INST ID_STP32_pre 0b11111111110000000000000000000000 0b00101001100000000000000000000000 [] [],
     INST ID_LDP32_pre 0b11111111110000000000000000000000 0b00101001110000000000000000000000 [] [],
     INST ID_STP32_pre_float 0b11111111110000000000000000000000 0b00101101100000000000000000000000 [] [],
     INST ID_LDP32_pre_float 0b11111111110000000000000000000000 0b00101101110000000000000000000000 [] [],
     INST ID_LDPSW_pre 0b11111111110000000000000000000000 0b01101001110000000000000000000000 [] [],
     INST ID_STP64_pre_float 0b11111111110000000000000000000000 0b01101101100000000000000000000000 [] [],
     INST ID_LDP64_pre_float 0b11111111110000000000000000000000 0b01101101110000000000000000000000 [] [],
     INST ID_STP64_pre 0b11111111110000000000000000000000 0b10101001100000000000000000000000 [] [],
     INST ID_LDP64_pre 0b11111111110000000000000000000000 0b10101001110000000000000000000000 [] [],
     INST ID_STP128_pre 0b11111111110000000000000000000000 0b10101101100000000000000000000000 [] [],
     INST ID_LDP128_pre 0b11111111110000000000000000000000 0b10101101110000000000000000000000 [] []]"

definition insts_Load_store_register_unscaled_immediate :: "(instructionID \<times> instructionDecodeInfo) list" where
  "insts_Load_store_register_unscaled_immediate = [
     INST ID_STURB 0b11111111111000000000110000000000 0b00111000000000000000000000000000 [] [],
     INST ID_LDURB 0b11111111111000000000110000000000 0b00111000010000000000000000000000 [] [],
     INST ID_LDURSB64 0b11111111111000000000110000000000 0b00111000100000000000000000000000 [] [],
     INST ID_LDURSB32 0b11111111111000000000110000000000 0b00111000110000000000000000000000 [] [],
     INST ID_STUR8_float 0b11111111111000000000110000000000 0b00111100000000000000000000000000 [] [],
     INST ID_LDUR8_float 0b11111111111000000000110000000000 0b00111100010000000000000000000000 [] [],
     INST ID_STUR128 0b11111111111000000000110000000000 0b00111100100000000000000000000000 [] [],
     INST ID_LDUR128 0b11111111111000000000110000000000 0b00111100110000000000000000000000 [] [],
     INST ID_STURH 0b11111111111000000000110000000000 0b01111000000000000000000000000000 [] [],
     INST ID_LDURH 0b11111111111000000000110000000000 0b01111000010000000000000000000000 [] [],
     INST ID_LDURSH64 0b11111111111000000000110000000000 0b01111000100000000000000000000000 [] [],
     INST ID_LDURSH32 0b11111111111000000000110000000000 0b01111000110000000000000000000000 [] [],
     INST ID_STUR16_float 0b11111111111000000000110000000000 0b01111100000000000000000000000000 [] [],
     INST ID_LDUR16_float 0b11111111111000000000110000000000 0b01111100010000000000000000000000 [] [],
     INST ID_STUR32 0b11111111111000000000110000000000 0b10111000000000000000000000000000 [] [],
     INST ID_LDUR32 0b11111111111000000000110000000000 0b10111000010000000000000000000000 [] [],
     INST ID_LDURSW 0b11111111111000000000110000000000 0b10111000100000000000000000000000 [] [],
     INST ID_STUR32_float 0b11111111111000000000110000000000 0b10111100000000000000000000000000 [] [],
     INST ID_LDUR32_float 0b11111111111000000000110000000000 0b10111100010000000000000000000000 [] [],
     INST ID_STUR64 0b11111111111000000000110000000000 0b11111000000000000000000000000000 [] [],
     INST ID_LDUR64 0b11111111111000000000110000000000 0b11111000010000000000000000000000 [] [],
     INST ID_PRFM_unscaled 0b11111111111000000000110000000000 0b11111000100000000000000000000000 [] [],
     INST ID_STUR64_float 0b11111111111000000000110000000000 0b11111100000000000000000000000000 [] [],
     INST ID_LDUR64_float 0b11111111111000000000110000000000 0b11111100010000000000000000000000 [] []]"

definition insts_Load_store_register_immediate_post_indexed :: "(instructionID \<times> instructionDecodeInfo) list" where
  "insts_Load_store_register_immediate_post_indexed = [
     INST ID_STRB_post 0b11111111111000000000110000000000 0b00111000000000000000010000000000 [] [],
     INST ID_LDRB_post 0b11111111111000000000110000000000 0b00111000010000000000010000000000 [] [],
     INST ID_LDRSB64_post 0b11111111111000000000110000000000 0b00111000100000000000010000000000 [] [],
     INST ID_LDRSB32_post 0b11111111111000000000110000000000 0b00111000110000000000010000000000 [] [],
     INST ID_STR8_post_float 0b11111111111000000000110000000000 0b00111100000000000000010000000000 [] [],
     INST ID_LDR8_post_float 0b11111111111000000000110000000000 0b00111100010000000000010000000000 [] [],
     INST ID_STR128_post 0b11111111111000000000110000000000 0b00111100100000000000010000000000 [] [],
     INST ID_LDR128_post 0b11111111111000000000110000000000 0b00111100110000000000010000000000 [] [],
     INST ID_STRH_post 0b11111111111000000000110000000000 0b01111000000000000000010000000000 [] [],
     INST ID_LDRH_post 0b11111111111000000000110000000000 0b01111000010000000000010000000000 [] [],
     INST ID_LDRSH64_post 0b11111111111000000000110000000000 0b01111000100000000000010000000000 [] [],
     INST ID_LDRSH32_post 0b11111111111000000000110000000000 0b01111000110000000000010000000000 [] [],
     INST ID_STR16_post_float 0b11111111111000000000110000000000 0b01111100000000000000010000000000 [] [],
     INST ID_LDR16_post_float 0b11111111111000000000110000000000 0b01111100010000000000010000000000 [] [],
     INST ID_STR32_post 0b11111111111000000000110000000000 0b10111000000000000000010000000000 [] [],
     INST ID_LDR32_post 0b11111111111000000000110000000000 0b10111000010000000000010000000000 [] [],
     INST ID_LDRSW_post 0b11111111111000000000110000000000 0b10111000100000000000010000000000 [] [],
     INST ID_STR32_post_float 0b11111111111000000000110000000000 0b10111100000000000000010000000000 [] [],
     INST ID_LDR32_post_float 0b11111111111000000000110000000000 0b10111100010000000000010000000000 [] [],
     INST ID_STR64_post 0b11111111111000000000110000000000 0b11111000000000000000010000000000 [] [],
     INST ID_LDR64_post 0b11111111111000000000110000000000 0b11111000010000000000010000000000 [] [],
     INST ID_STR64_post_float 0b11111111111000000000110000000000 0b11111100000000000000010000000000 [] [],
     INST ID_LDR64_post_float 0b11111111111000000000110000000000 0b11111100010000000000010000000000 [] []]"

definition insts_Load_store_register_unprivileged :: "(instructionID \<times> instructionDecodeInfo) list" where
  "insts_Load_store_register_unprivileged = [
     INST ID_STTRB 0b11111111111000000000110000000000 0b00111000000000000000100000000000 [] [],
     INST ID_LDTRB 0b11111111111000000000110000000000 0b00111000010000000000100000000000 [] [],
     INST ID_LDTRSB64 0b11111111111000000000110000000000 0b00111000100000000000100000000000 [] [],
     INST ID_LDTRSB32 0b11111111111000000000110000000000 0b00111000110000000000100000000000 [] [],
     INST ID_STTRH 0b11111111111000000000110000000000 0b01111000000000000000100000000000 [] [],
     INST ID_LDTRH 0b11111111111000000000110000000000 0b01111000010000000000100000000000 [] [],
     INST ID_LDTRSH64 0b11111111111000000000110000000000 0b01111000100000000000100000000000 [] [],
     INST ID_LDTRSH32 0b11111111111000000000110000000000 0b01111000110000000000100000000000 [] [],
     INST ID_STTR32 0b11111111111000000000110000000000 0b10111000000000000000100000000000 [] [],
     INST ID_LDTR32 0b11111111111000000000110000000000 0b10111000010000000000100000000000 [] [],
     INST ID_LDTRSW 0b11111111111000000000110000000000 0b10111000100000000000100000000000 [] [],
     INST ID_STTR64 0b11111111111000000000110000000000 0b11111000000000000000100000000000 [] [],
     INST ID_LDTR64 0b11111111111000000000110000000000 0b11111000010000000000100000000000 [] []]"

definition insts_Load_store_register_immediate_pre_indexed :: "(instructionID \<times> instructionDecodeInfo) list" where
  "insts_Load_store_register_immediate_pre_indexed = [
     INST ID_STRB_pre 0b11111111111000000000110000000000 0b00111000000000000000110000000000 [] [],
     INST ID_LDRB_pre 0b11111111111000000000110000000000 0b00111000010000000000110000000000 [] [],
     INST ID_LDRSB64_pre 0b11111111111000000000110000000000 0b00111000100000000000110000000000 [] [],
     INST ID_LDRSB32_pre 0b11111111111000000000110000000000 0b00111000110000000000110000000000 [] [],
     INST ID_STR8_pre_float 0b11111111111000000000110000000000 0b00111100000000000000110000000000 [] [],
     INST ID_LDR8_pre_float 0b11111111111000000000110000000000 0b00111100010000000000110000000000 [] [],
     INST ID_STR128_pre 0b11111111111000000000110000000000 0b00111100100000000000110000000000 [] [],
     INST ID_LDR128_pre 0b11111111111000000000110000000000 0b00111100110000000000110000000000 [] [],
     INST ID_STRH_pre 0b11111111111000000000110000000000 0b01111000000000000000110000000000 [] [],
     INST ID_LDRH_pre 0b11111111111000000000110000000000 0b01111000010000000000110000000000 [] [],
     INST ID_LDRSH64_pre 0b11111111111000000000110000000000 0b01111000100000000000110000000000 [] [],
     INST ID_LDRSH32_pre 0b11111111111000000000110000000000 0b01111000110000000000110000000000 [] [],
     INST ID_STR16_pre_float 0b11111111111000000000110000000000 0b01111100000000000000110000000000 [] [],
     INST ID_LDR16_pre_float 0b11111111111000000000110000000000 0b01111100010000000000110000000000 [] [],
     INST ID_STR32_pre 0b11111111111000000000110000000000 0b10111000000000000000110000000000 [] [],
     INST ID_LDR32_pre 0b11111111111000000000110000000000 0b10111000010000000000110000000000 [] [],
     INST ID_LDRSW_pre 0b11111111111000000000110000000000 0b10111000100000000000110000000000 [] [],
     INST ID_STR32_pre_float 0b11111111111000000000110000000000 0b10111100000000000000110000000000 [] [],
     INST ID_LDR32_pre_float 0b11111111111000000000110000000000 0b10111100010000000000110000000000 [] [],
     INST ID_STR64_pre 0b11111111111000000000110000000000 0b11111000000000000000110000000000 [] [],
     INST ID_LDR64_pre 0b11111111111000000000110000000000 0b11111000010000000000110000000000 [] [],
     INST ID_STR64_pre_float 0b11111111111000000000110000000000 0b11111100000000000000110000000000 [] [],
     INST ID_LDR64_pre_float 0b11111111111000000000110000000000 0b11111100010000000000110000000000 [] []]"

definition insts_Load_store_register_register_offset :: "(instructionID \<times> instructionDecodeInfo) list" where
  "insts_Load_store_register_register_offset = [
     INST ID_STRB_reg 0b11111111111000000000110000000000 0b00111000001000000000100000000000 [] [],
     INST ID_LDRB_reg 0b11111111111000000000110000000000 0b00111000011000000000100000000000 [] [],
     INST ID_LDRSB64_reg 0b11111111111000000000110000000000 0b00111000101000000000100000000000 [] [],
     INST ID_LDRSB32_reg 0b11111111111000000000110000000000 0b00111000111000000000100000000000 [] [],
     INST ID_STR8_reg_float 0b11111111111000000000110000000000 0b00111100001000000000100000000000 [] [],
     INST ID_LDR8_reg_float 0b11111111111000000000110000000000 0b00111100011000000000100000000000 [] [],
     INST ID_STR128_reg 0b11111111111000000000110000000000 0b00111100101000000000100000000000 [] [],
     INST ID_LDR128_reg 0b11111111111000000000110000000000 0b00111100111000000000100000000000 [] [],
     INST ID_STRH_reg 0b11111111111000000000110000000000 0b01111000001000000000100000000000 [] [],
     INST ID_LDRH_reg 0b11111111111000000000110000000000 0b01111000011000000000100000000000 [] [],
     INST ID_LDRSH64_reg 0b11111111111000000000110000000000 0b01111000101000000000100000000000 [] [],
     INST ID_LDRSH32_reg 0b11111111111000000000110000000000 0b01111000111000000000100000000000 [] [],
     INST ID_STR16_reg_float 0b11111111111000000000110000000000 0b01111100001000000000100000000000 [] [],
     INST ID_LDR16_reg_float 0b11111111111000000000110000000000 0b01111100011000000000100000000000 [] [],
     INST ID_STR32_reg 0b11111111111000000000110000000000 0b10111000001000000000100000000000 [] [],
     INST ID_LDR32_reg 0b11111111111000000000110000000000 0b10111000011000000000100000000000 [] [],
     INST ID_LDRSW_reg 0b11111111111000000000110000000000 0b10111000101000000000100000000000 [] [],
     INST ID_STR32_reg_float 0b11111111111000000000110000000000 0b10111100001000000000100000000000 [] [],
     INST ID_LDR32_reg_float 0b11111111111000000000110000000000 0b10111100011000000000100000000000 [] [],
     INST ID_STR64_reg 0b11111111111000000000110000000000 0b11111000001000000000100000000000 [] [],
     INST ID_LDR64_reg 0b11111111111000000000110000000000 0b11111000011000000000100000000000 [] [],
     INST ID_PRFM_reg 0b11111111111000000000110000000000 0b11111000101000000000100000000000 [] [],
     INST ID_STR64_reg_float 0b11111111111000000000110000000000 0b11111100001000000000100000000000 [] [],
     INST ID_LDR64_reg_float 0b11111111111000000000110000000000 0b11111100011000000000100000000000 [] []]"

definition insts_Load_store_register_unsigned_immediate :: "(instructionID \<times> instructionDecodeInfo) list" where
  "insts_Load_store_register_unsigned_immediate = [
     INST ID_STRB_imm 0b11111111110000000000000000000000 0b00111001000000000000000000000000 [] [],
     INST ID_LDRB_imm 0b11111111110000000000000000000000 0b00111001010000000000000000000000 [] [],
     INST ID_LDRSB64_imm 0b11111111110000000000000000000000 0b00111001100000000000000000000000 [] [],
     INST ID_LDRSB32_imm 0b11111111110000000000000000000000 0b00111001110000000000000000000000 [] [],
     INST ID_STR8_imm_float 0b11111111110000000000000000000000 0b00111101000000000000000000000000 [] [],
     INST ID_LDR8_imm_float 0b11111111110000000000000000000000 0b00111101010000000000000000000000 [] [],
     INST ID_STR128_imm 0b11111111110000000000000000000000 0b00111101100000000000000000000000 [] [],
     INST ID_LDR128_imm 0b11111111110000000000000000000000 0b00111101110000000000000000000000 [] [],
     INST ID_STRH_imm 0b11111111110000000000000000000000 0b01111001000000000000000000000000 [] [],
     INST ID_LDRH_imm 0b11111111110000000000000000000000 0b01111001010000000000000000000000 [] [],
     INST ID_LDRSH64_imm 0b11111111110000000000000000000000 0b01111001100000000000000000000000 [] [],
     INST ID_LDRSH32_imm 0b11111111110000000000000000000000 0b01111001110000000000000000000000 [] [],
     INST ID_STR16_imm_float 0b11111111110000000000000000000000 0b01111101000000000000000000000000 [] [],
     INST ID_LDR16_imm_float 0b11111111110000000000000000000000 0b01111101010000000000000000000000 [] [],
     INST ID_STR32_imm 0b11111111110000000000000000000000 0b10111001000000000000000000000000 [] [],
     INST ID_LDR32_imm 0b11111111110000000000000000000000 0b10111001010000000000000000000000 [] [],
     INST ID_LDRSW_imm 0b11111111110000000000000000000000 0b10111001100000000000000000000000 [] [],
     INST ID_STR32_imm_float 0b11111111110000000000000000000000 0b10111101000000000000000000000000 [] [],
     INST ID_LDR32_imm_float 0b11111111110000000000000000000000 0b10111101010000000000000000000000 [] [],
     INST ID_STR64_imm 0b11111111110000000000000000000000 0b11111001000000000000000000000000 [] [],
     INST ID_LDR64_imm 0b11111111110000000000000000000000 0b11111001010000000000000000000000 [] [],
     INST ID_PRFM_imm 0b11111111110000000000000000000000 0b11111001100000000000000000000000 [] [],
     INST ID_STR64_imm_float 0b11111111110000000000000000000000 0b11111101000000000000000000000000 [] [],
     INST ID_LDR64_imm_float 0b11111111110000000000000000000000 0b11111101010000000000000000000000 [] []]"

definition insts_Conversion_between_floating_point_and_fixed_point :: "(instructionID \<times> instructionDecodeInfo) list" where
  "insts_Conversion_between_floating_point_and_fixed_point = [
     INST ID_SCVTF_32_single_fixed 0b11111111111111110000000000000000 0b00011110000000100000000000000000 [] [],
     INST ID_UCVTF_32_single_fixed 0b11111111111111110000000000000000 0b00011110000000110000000000000000 [] [],
     INST ID_FCVTZS_single_32_fixed 0b11111111111111110000000000000000 0b00011110000110000000000000000000 [] [],
     INST ID_FCVTZU_single_32_fixed 0b11111111111111110000000000000000 0b00011110000110010000000000000000 [] [],
     INST ID_SCVTF_32_double_fixed 0b11111111111111110000000000000000 0b00011110010000100000000000000000 [] [],
     INST ID_UCVTF_32_double_fixed 0b11111111111111110000000000000000 0b00011110010000110000000000000000 [] [],
     INST ID_FCVTZS_double_32_fixed 0b11111111111111110000000000000000 0b00011110010110000000000000000000 [] [],
     INST ID_FCVTZU_double_32_fixed 0b11111111111111110000000000000000 0b00011110010110010000000000000000 [] [],
     INST ID_SCVTF_64_single_fixed 0b11111111111111110000000000000000 0b10011110000000100000000000000000 [] [],
     INST ID_UCVTF_64_single_fixed 0b11111111111111110000000000000000 0b10011110000000110000000000000000 [] [],
     INST ID_FCVTZS_single_64_fixed 0b11111111111111110000000000000000 0b10011110000110000000000000000000 [] [],
     INST ID_FCVTZU_single_64_fixed 0b11111111111111110000000000000000 0b10011110000110010000000000000000 [] [],
     INST ID_SCVTF_64_double_fixed 0b11111111111111110000000000000000 0b10011110010000100000000000000000 [] [],
     INST ID_UCVTF_64_double_fixed 0b11111111111111110000000000000000 0b10011110010000110000000000000000 [] [],
     INST ID_FCVTZS_double_64_fixed 0b11111111111111110000000000000000 0b10011110010110000000000000000000 [] [],
     INST ID_FCVTZU_double_64_fixed 0b11111111111111110000000000000000 0b10011110010110010000000000000000 [] []]"

definition insts_Conversion_between_floating_point_and_integer :: "(instructionID \<times> instructionDecodeInfo) list" where
  "insts_Conversion_between_floating_point_and_integer = [
     INST ID_FCVTNS_single_32_int 0b11111111111111111111110000000000 0b00011110001000000000000000000000 [] [],
     INST ID_FCVTNU_single_32_int 0b11111111111111111111110000000000 0b00011110001000010000000000000000 [] [],
     INST ID_SCVTF_32_single_int 0b11111111111111111111110000000000 0b00011110001000100000000000000000 [] [],
     INST ID_UCVTF_32_single_int 0b11111111111111111111110000000000 0b00011110001000110000000000000000 [] [],
     INST ID_FCVTAS_single_32_int 0b11111111111111111111110000000000 0b00011110001001000000000000000000 [] [],
     INST ID_FCVTAU_single_32_int 0b11111111111111111111110000000000 0b00011110001001010000000000000000 [] [],
     INST ID_FMOV_single_32 0b11111111111111111111110000000000 0b00011110001001100000000000000000 [] [],
     INST ID_FMOV_32_single 0b11111111111111111111110000000000 0b00011110001001110000000000000000 [] [],
     INST ID_FCVTPS_single_32_int 0b11111111111111111111110000000000 0b00011110001010000000000000000000 [] [],
     INST ID_FCVTPU_single_32_int 0b11111111111111111111110000000000 0b00011110001010010000000000000000 [] [],
     INST ID_FCVTMS_single_32_int 0b11111111111111111111110000000000 0b00011110001100000000000000000000 [] [],
     INST ID_FCVTMU_single_32_int 0b11111111111111111111110000000000 0b00011110001100010000000000000000 [] [],
     INST ID_FCVTZS_single_32_int 0b11111111111111111111110000000000 0b00011110001110000000000000000000 [] [],
     INST ID_FCVTZU_single_32_int 0b11111111111111111111110000000000 0b00011110001110010000000000000000 [] [],
     INST ID_FCVTNS_double_32_int 0b11111111111111111111110000000000 0b00011110011000000000000000000000 [] [],
     INST ID_FCVTNU_double_32_int 0b11111111111111111111110000000000 0b00011110011000010000000000000000 [] [],
     INST ID_SCVTF_32_double_int 0b11111111111111111111110000000000 0b00011110011000100000000000000000 [] [],
     INST ID_UCVTF_32_double_int 0b11111111111111111111110000000000 0b00011110011000110000000000000000 [] [],
     INST ID_FCVTAS_double_32_int 0b11111111111111111111110000000000 0b00011110011001000000000000000000 [] [],
     INST ID_FCVTAU_double_32_int 0b11111111111111111111110000000000 0b00011110011001010000000000000000 [] [],
     INST ID_FCVTPS_double_32_int 0b11111111111111111111110000000000 0b00011110011010000000000000000000 [] [],
     INST ID_FCVTPU_double_32_int 0b11111111111111111111110000000000 0b00011110011010010000000000000000 [] [],
     INST ID_FCVTMS_double_32_int 0b11111111111111111111110000000000 0b00011110011100000000000000000000 [] [],
     INST ID_FCVTMU_double_32_int 0b11111111111111111111110000000000 0b00011110011100010000000000000000 [] [],
     INST ID_FCVTZS_double_32_int 0b11111111111111111111110000000000 0b00011110011110000000000000000000 [] [],
     INST ID_FCVTZU_double_32_int 0b11111111111111111111110000000000 0b00011110011110010000000000000000 [] [],
     INST ID_FCVTNS_single_64_int 0b11111111111111111111110000000000 0b10011110001000000000000000000000 [] [],
     INST ID_FCVTNU_single_64_int 0b11111111111111111111110000000000 0b10011110001000010000000000000000 [] [],
     INST ID_SCVTF_64_single_int 0b11111111111111111111110000000000 0b10011110001000100000000000000000 [] [],
     INST ID_UCVTF_64_single_int 0b11111111111111111111110000000000 0b10011110001000110000000000000000 [] [],
     INST ID_FCVTAS_single_64_int 0b11111111111111111111110000000000 0b10011110001001000000000000000000 [] [],
     INST ID_FCVTAU_single_64_int 0b11111111111111111111110000000000 0b10011110001001010000000000000000 [] [],
     INST ID_FCVTPS_single_64_int 0b11111111111111111111110000000000 0b10011110001010000000000000000000 [] [],
     INST ID_FCVTPU_single_64_int 0b11111111111111111111110000000000 0b10011110001010010000000000000000 [] [],
     INST ID_FCVTMS_single_64_int 0b11111111111111111111110000000000 0b10011110001100000000000000000000 [] [],
     INST ID_FCVTMU_single_64_int 0b11111111111111111111110000000000 0b10011110001100010000000000000000 [] [],
     INST ID_FCVTZS_single_64_int 0b11111111111111111111110000000000 0b10011110001110000000000000000000 [] [],
     INST ID_FCVTZU_single_64_int 0b11111111111111111111110000000000 0b10011110001110010000000000000000 [] [],
     INST ID_FCVTNS_double_64_int 0b11111111111111111111110000000000 0b10011110011000000000000000000000 [] [],
     INST ID_FCVTNU_double_64_int 0b11111111111111111111110000000000 0b10011110011000010000000000000000 [] [],
     INST ID_SCVTF_64_double_int 0b11111111111111111111110000000000 0b10011110011000100000000000000000 [] [],
     INST ID_UCVTF_64_double_int 0b11111111111111111111110000000000 0b10011110011000110000000000000000 [] [],
     INST ID_FCVTAS_double_64_int 0b11111111111111111111110000000000 0b10011110011001000000000000000000 [] [],
     INST ID_FCVTAU_double_64_int 0b11111111111111111111110000000000 0b10011110011001010000000000000000 [] [],
     INST ID_FMOV_double_64 0b11111111111111111111110000000000 0b10011110011001100000000000000000 [] [],
     INST ID_FMOV_64_double 0b11111111111111111111110000000000 0b10011110011001110000000000000000 [] [],
     INST ID_FCVTPS_double_64_int 0b11111111111111111111110000000000 0b10011110011010000000000000000000 [] [],
     INST ID_FCVTPU_double_64_int 0b11111111111111111111110000000000 0b10011110011010010000000000000000 [] [],
     INST ID_FCVTMS_double_64_int 0b11111111111111111111110000000000 0b10011110011100000000000000000000 [] [],
     INST ID_FCVTMU_double_64_int 0b11111111111111111111110000000000 0b10011110011100010000000000000000 [] [],
     INST ID_FCVTZS_double_64_int 0b11111111111111111111110000000000 0b10011110011110000000000000000000 [] [],
     INST ID_FCVTZU_double_64_int 0b11111111111111111111110000000000 0b10011110011110010000000000000000 [] [],
     INST ID_FMOV_top128_64 0b11111111111111111111110000000000 0b10011110101011100000000000000000 [] [],
     INST ID_FMOV_64_top128 0b11111111111111111111110000000000 0b10011110101011110000000000000000 [] []]"

definition insts_Floating_point_data_processing_1_source :: "(instructionID \<times> instructionDecodeInfo) list" where
  "insts_Floating_point_data_processing_1_source = [
     INST ID_FMOV_reg_single 0b11111111111111111111110000000000 0b00011110001000000100000000000000 [] [],
     INST ID_FABS_single 0b11111111111111111111110000000000 0b00011110001000001100000000000000 [] [],
     INST ID_FNEG_single 0b11111111111111111111110000000000 0b00011110001000010100000000000000 [] [],
     INST ID_FSQRT_single 0b11111111111111111111110000000000 0b00011110001000011100000000000000 [] [],
     INST ID_FCVT_single_double 0b11111111111111111111110000000000 0b00011110001000101100000000000000 [] [],
     INST ID_FCVT_single_half 0b11111111111111111111110000000000 0b00011110001000111100000000000000 [] [],
     INST ID_FRINTN_single 0b11111111111111111111110000000000 0b00011110001001000100000000000000 [] [],
     INST ID_FRINTP_single 0b11111111111111111111110000000000 0b00011110001001001100000000000000 [] [],
     INST ID_FRINTM_single 0b11111111111111111111110000000000 0b00011110001001010100000000000000 [] [],
     INST ID_FRINTZ_single 0b11111111111111111111110000000000 0b00011110001001011100000000000000 [] [],
     INST ID_FRINTA_single 0b11111111111111111111110000000000 0b00011110001001100100000000000000 [] [],
     INST ID_FRINTX_single 0b11111111111111111111110000000000 0b00011110001001110100000000000000 [] [],
     INST ID_FRINTI_single 0b11111111111111111111110000000000 0b00011110001001111100000000000000 [] [],
     INST ID_FMOV_reg_double 0b11111111111111111111110000000000 0b00011110011000000100000000000000 [] [],
     INST ID_FABS_double 0b11111111111111111111110000000000 0b00011110011000001100000000000000 [] [],
     INST ID_FNEG_double 0b11111111111111111111110000000000 0b00011110011000010100000000000000 [] [],
     INST ID_FSQRT_double 0b11111111111111111111110000000000 0b00011110011000011100000000000000 [] [],
     INST ID_FCVT_double_single 0b11111111111111111111110000000000 0b00011110011000100100000000000000 [] [],
     INST ID_FCVT_double_half 0b11111111111111111111110000000000 0b00011110011000111100000000000000 [] [],
     INST ID_FRINTN_double 0b11111111111111111111110000000000 0b00011110011001000100000000000000 [] [],
     INST ID_FRINTP_double 0b11111111111111111111110000000000 0b00011110011001001100000000000000 [] [],
     INST ID_FRINTM_double 0b11111111111111111111110000000000 0b00011110011001010100000000000000 [] [],
     INST ID_FRINTZ_double 0b11111111111111111111110000000000 0b00011110011001011100000000000000 [] [],
     INST ID_FRINTA_double 0b11111111111111111111110000000000 0b00011110011001100100000000000000 [] [],
     INST ID_FRINTX_double 0b11111111111111111111110000000000 0b00011110011001110100000000000000 [] [],
     INST ID_FRINTI_double 0b11111111111111111111110000000000 0b00011110011001111100000000000000 [] [],
     INST ID_FCVT_half_single 0b11111111111111111111110000000000 0b00011110111000100100000000000000 [] [],
     INST ID_FCVT_half_double 0b11111111111111111111110000000000 0b00011110111000101100000000000000 [] []]"

definition insts_Floating_point_compare :: "(instructionID \<times> instructionDecodeInfo) list" where
  "insts_Floating_point_compare = [
     INST ID_FCMP_single 0b11111111111000001111110000011111 0b00011110001000000010000000000000 [] [],
     INST ID_FCMP_single_zero 0b11111111111000001111110000011111 0b00011110001000000010000000001000 [] [],
     INST ID_FCMPE_single 0b11111111111000001111110000011111 0b00011110001000000010000000010000 [] [],
     INST ID_FCMPE_single_zero 0b11111111111000001111110000011111 0b00011110001000000010000000011000 [] [],
     INST ID_FCMP_double 0b11111111111000001111110000011111 0b00011110011000000010000000000000 [] [],
     INST ID_FCMP_double_zero 0b11111111111000001111110000011111 0b00011110011000000010000000001000 [] [],
     INST ID_FCMPE_double 0b11111111111000001111110000011111 0b00011110011000000010000000010000 [] [],
     INST ID_FCMPE_double_zero 0b11111111111000001111110000011111 0b00011110011000000010000000011000 [] []]"

definition insts_Floating_point_immediate :: "(instructionID \<times> instructionDecodeInfo) list" where
  "insts_Floating_point_immediate = [
     INST ID_FMOV_imm_single 0b11111111111000000001111111100000 0b00011110001000000001000000000000 [] [],
     INST ID_FMOV_imm_double 0b11111111111000000001111111100000 0b00011110011000000001000000000000 [] []]"

definition insts_Floating_point_conditional_compare :: "(instructionID \<times> instructionDecodeInfo) list" where
  "insts_Floating_point_conditional_compare = [
     INST ID_FCCMP_single 0b11111111111000000000110000010000 0b00011110001000000000010000000000 [] [],
     INST ID_FCCMPE_single 0b11111111111000000000110000010000 0b00011110001000000000010000010000 [] [],
     INST ID_FCCMP_double 0b11111111111000000000110000010000 0b00011110011000000000010000000000 [] [],
     INST ID_FCCMPE_double 0b11111111111000000000110000010000 0b00011110011000000000010000010000 [] []]"

definition insts_Floating_point_data_processing_2_source :: "(instructionID \<times> instructionDecodeInfo) list" where
  "insts_Floating_point_data_processing_2_source = [
     INST ID_FMUL_single 0b11111111111000001111110000000000 0b00011110001000000000100000000000 [] [],
     INST ID_FDIV_single 0b11111111111000001111110000000000 0b00011110001000000001100000000000 [] [],
     INST ID_FADD_single 0b11111111111000001111110000000000 0b00011110001000000010100000000000 [] [],
     INST ID_FSUB_single 0b11111111111000001111110000000000 0b00011110001000000011100000000000 [] [],
     INST ID_FMAX_single 0b11111111111000001111110000000000 0b00011110001000000100100000000000 [] [],
     INST ID_FMIN_single 0b11111111111000001111110000000000 0b00011110001000000101100000000000 [] [],
     INST ID_FMAXNM_single 0b11111111111000001111110000000000 0b00011110001000000110100000000000 [] [],
     INST ID_FMINNM_single 0b11111111111000001111110000000000 0b00011110001000000111100000000000 [] [],
     INST ID_FNMUL_single 0b11111111111000001111110000000000 0b00011110001000001000100000000000 [] [],
     INST ID_FMUL_double 0b11111111111000001111110000000000 0b00011110011000000000100000000000 [] [],
     INST ID_FDIV_double 0b11111111111000001111110000000000 0b00011110011000000001100000000000 [] [],
     INST ID_FADD_double 0b11111111111000001111110000000000 0b00011110011000000010100000000000 [] [],
     INST ID_FSUB_double 0b11111111111000001111110000000000 0b00011110011000000011100000000000 [] [],
     INST ID_FMAX_double 0b11111111111000001111110000000000 0b00011110011000000100100000000000 [] [],
     INST ID_FMIN_double 0b11111111111000001111110000000000 0b00011110011000000101100000000000 [] [],
     INST ID_FMAXNM_double 0b11111111111000001111110000000000 0b00011110011000000110100000000000 [] [],
     INST ID_FMINNM_double 0b11111111111000001111110000000000 0b00011110011000000111100000000000 [] [],
     INST ID_FNMUL_double 0b11111111111000001111110000000000 0b00011110011000001000100000000000 [] []]"

definition insts_Floating_point_conditional_select :: "(instructionID \<times> instructionDecodeInfo) list" where
  "insts_Floating_point_conditional_select = [
     INST ID_FCSEL_single 0b11111111111000000000110000000000 0b00011110001000000000110000000000 [] [],
     INST ID_FCSEL_double 0b11111111111000000000110000000000 0b00011110011000000000110000000000 [] []]"

definition insts_Floating_point_data_processing_3_source :: "(instructionID \<times> instructionDecodeInfo) list" where
  "insts_Floating_point_data_processing_3_source = [
     INST ID_FMADD_single 0b11111111111000001000000000000000 0b00011111000000000000000000000000 [] [],
     INST ID_FMSUB_single 0b11111111111000001000000000000000 0b00011111000000001000000000000000 [] [],
     INST ID_FNMADD_single 0b11111111111000001000000000000000 0b00011111001000000000000000000000 [] [],
     INST ID_FNMSUB_single 0b11111111111000001000000000000000 0b00011111001000001000000000000000 [] [],
     INST ID_FMADD_double 0b11111111111000001000000000000000 0b00011111010000000000000000000000 [] [],
     INST ID_FMSUB_double 0b11111111111000001000000000000000 0b00011111010000001000000000000000 [] [],
     INST ID_FNMADD_double 0b11111111111000001000000000000000 0b00011111011000000000000000000000 [] [],
     INST ID_FNMSUB_double 0b11111111111000001000000000000000 0b00011111011000001000000000000000 [] []]"

definition insts_Cryptographic_AES :: "(instructionID \<times> instructionDecodeInfo) list" where
  "insts_Cryptographic_AES = [
     INST ID_AESE 0b11111111111111111111110000000000 0b01001110001010000100100000000000 [] [],
     INST ID_AESD 0b11111111111111111111110000000000 0b01001110001010000101100000000000 [] [],
     INST ID_AESMC 0b11111111111111111111110000000000 0b01001110001010000110100000000000 [] [],
     INST ID_AESIMC 0b11111111111111111111110000000000 0b01001110001010000111100000000000 [] []]"

definition insts_Cryptographic_three_register_SHA :: "(instructionID \<times> instructionDecodeInfo) list" where
  "insts_Cryptographic_three_register_SHA = [
     INST ID_SHA1C 0b11111111111000001111110000000000 0b01011110000000000000000000000000 [] [],
     INST ID_SHA1P 0b11111111111000001111110000000000 0b01011110000000000001000000000000 [] [],
     INST ID_SHA1M 0b11111111111000001111110000000000 0b01011110000000000010000000000000 [] [],
     INST ID_SHA1SU0 0b11111111111000001111110000000000 0b01011110000000000011000000000000 [] [],
     INST ID_SHA256H 0b11111111111000001111110000000000 0b01011110000000000100000000000000 [] [],
     INST ID_SHA256H2 0b11111111111000001111110000000000 0b01011110000000000101000000000000 [] [],
     INST ID_SHA256SU1 0b11111111111000001111110000000000 0b01011110000000000110000000000000 [] []]"

definition insts_Cryptographic_two_register_SHA :: "(instructionID \<times> instructionDecodeInfo) list" where
  "insts_Cryptographic_two_register_SHA = [
     INST ID_SHA1H 0b11111111111111111111110000000000 0b01011110001010000000100000000000 [] [],
     INST ID_SHA1SU1 0b11111111111111111111110000000000 0b01011110001010000001100000000000 [] [],
     INST ID_SHA256SU0 0b11111111111111111111110000000000 0b01011110001010000010100000000000 [] []]"

definition insts_Advanced_SIMD_scalar_copy :: "(instructionID \<times> instructionDecodeInfo) list" where
  "insts_Advanced_SIMD_scalar_copy = [
     INST ID_DUP_element_scalar 0b11111111111000001111110000000000 0b01011110000000000000010000000000 [0b00000000000011110000000000000000] []]"

definition insts_Advanced_SIMD_scalar_two_register_miscellaneous :: "(instructionID \<times> instructionDecodeInfo) list" where
  "insts_Advanced_SIMD_scalar_two_register_miscellaneous = [
     INST ID_SUQADD_scalar 0b11111111001111111111110000000000 0b01011110001000000011100000000000 [] [],
     INST ID_SQABS_scalar 0b11111111001111111111110000000000 0b01011110001000000111100000000000 [] [],
     INST ID_CMGT_scalar_zero 0b11111111001111111111110000000000 0b01011110001000001000100000000000 [] [],
     INST ID_CMEQ_scalar_zero 0b11111111001111111111110000000000 0b01011110001000001001100000000000 [] [],
     INST ID_CMLT_scalar_zero 0b11111111001111111111110000000000 0b01011110001000001010100000000000 [] [],
     INST ID_ABS_scalar 0b11111111001111111111110000000000 0b01011110001000001011100000000000 [] [],
     INST ID_SQXTN_scalar 0b11111111001111111111110000000000 0b01011110001000010100100000000000 [] [],
     INST ID_FCVTNS_scalar 0b11111111101111111111110000000000 0b01011110001000011010100000000000 [] [],
     INST ID_FCVTMS_scalar 0b11111111101111111111110000000000 0b01011110001000011011100000000000 [] [],
     INST ID_FCVTAS_scalar 0b11111111101111111111110000000000 0b01011110001000011100100000000000 [] [],
     INST ID_SCVTF_scalar_int 0b11111111101111111111110000000000 0b01011110001000011101100000000000 [] [],
     INST ID_FCMGT_scalar_zero 0b11111111101111111111110000000000 0b01011110101000001100100000000000 [] [],
     INST ID_FCMEQ_scalar_zero 0b11111111101111111111110000000000 0b01011110101000001101100000000000 [] [],
     INST ID_FCMLT_scalar_zero 0b11111111101111111111110000000000 0b01011110101000001110100000000000 [] [],
     INST ID_FCVTPS_scalar 0b11111111101111111111110000000000 0b01011110101000011010100000000000 [] [],
     INST ID_FCVTZS_scalar_int 0b11111111101111111111110000000000 0b01011110101000011011100000000000 [] [],
     INST ID_FRECPE_scalar 0b11111111101111111111110000000000 0b01011110101000011101100000000000 [] [],
     INST ID_FRECPX_scalar 0b11111111101111111111110000000000 0b01011110101000011111100000000000 [] [],
     INST ID_USQADD_scalar 0b11111111001111111111110000000000 0b01111110001000000011100000000000 [] [],
     INST ID_SQNEG_scalar 0b11111111001111111111110000000000 0b01111110001000000111100000000000 [] [],
     INST ID_CMGE_scalar_zero 0b11111111001111111111110000000000 0b01111110001000001000100000000000 [] [],
     INST ID_CMLE_scalar_zero 0b11111111001111111111110000000000 0b01111110001000001001100000000000 [] [],
     INST ID_NEG_scalar 0b11111111001111111111110000000000 0b01111110001000001011100000000000 [] [],
     INST ID_SQXTUN_scalar 0b11111111001111111111110000000000 0b01111110001000010010100000000000 [] [],
     INST ID_UQXTN_scalar 0b11111111001111111111110000000000 0b01111110001000010100100000000000 [] [],
     INST ID_FCVTXN_scalar 0b11111111101111111111110000000000 0b01111110001000010110100000000000 [] [],
     INST ID_FCVTNU_scalar 0b11111111101111111111110000000000 0b01111110001000011010100000000000 [] [],
     INST ID_FCVTMU_scalar 0b11111111101111111111110000000000 0b01111110001000011011100000000000 [] [],
     INST ID_FCVTAU_scalar 0b11111111101111111111110000000000 0b01111110001000011100100000000000 [] [],
     INST ID_UCVTF_scalar_int 0b11111111101111111111110000000000 0b01111110001000011101100000000000 [] [],
     INST ID_FCMGE_scalar_zero 0b11111111101111111111110000000000 0b01111110101000001100100000000000 [] [],
     INST ID_FCMLE_scalar_zero 0b11111111101111111111110000000000 0b01111110101000001101100000000000 [] [],
     INST ID_FCVTPU_scalar 0b11111111101111111111110000000000 0b01111110101000011010100000000000 [] [],
     INST ID_FCVTZU_scalar_int 0b11111111101111111111110000000000 0b01111110101000011011100000000000 [] [],
     INST ID_FRSQRTE_scalar 0b11111111101111111111110000000000 0b01111110101000011101100000000000 [] []]"

definition insts_Advanced_SIMD_scalar_pairwise :: "(instructionID \<times> instructionDecodeInfo) list" where
  "insts_Advanced_SIMD_scalar_pairwise = [
     INST ID_ADDP_scalar 0b11111111001111111111110000000000 0b01011110001100011011100000000000 [] [],
     INST ID_FMAXNMP_scalar 0b11111111101111111111110000000000 0b01111110001100001100100000000000 [] [],
     INST ID_FADDP_scalar 0b11111111101111111111110000000000 0b01111110001100001101100000000000 [] [],
     INST ID_FMAXP_scalar 0b11111111101111111111110000000000 0b01111110001100001111100000000000 [] [],
     INST ID_FMINNMP_scalar 0b11111111101111111111110000000000 0b01111110101100001100100000000000 [] [],
     INST ID_FMINP_scalar 0b11111111101111111111110000000000 0b01111110101100001111100000000000 [] []]"

definition insts_Advanced_SIMD_scalar_three_different :: "(instructionID \<times> instructionDecodeInfo) list" where
  "insts_Advanced_SIMD_scalar_three_different = [
     INST ID_SQDMLAL_scalar 0b11111111001000001111110000000000 0b01011110001000001001000000000000 [] [],
     INST ID_SQDMLSL_scalar 0b11111111001000001111110000000000 0b01011110001000001011000000000000 [] [],
     INST ID_SQDMULL_scalar 0b11111111001000001111110000000000 0b01011110001000001101000000000000 [] []]"

definition insts_Advanced_SIMD_scalar_three_same :: "(instructionID \<times> instructionDecodeInfo) list" where
  "insts_Advanced_SIMD_scalar_three_same = [
     INST ID_SQADD_scalar 0b11111111001000001111110000000000 0b01011110001000000000110000000000 [] [],
     INST ID_SQSUB_scalar 0b11111111001000001111110000000000 0b01011110001000000010110000000000 [] [],
     INST ID_CMGT_scalar_reg 0b11111111001000001111110000000000 0b01011110001000000011010000000000 [] [],
     INST ID_CMGE_scalar_reg 0b11111111001000001111110000000000 0b01011110001000000011110000000000 [] [],
     INST ID_SSHL_scalar 0b11111111001000001111110000000000 0b01011110001000000100010000000000 [] [],
     INST ID_SQSHL_scalar_reg 0b11111111001000001111110000000000 0b01011110001000000100110000000000 [] [],
     INST ID_SRSHL_scalar 0b11111111001000001111110000000000 0b01011110001000000101010000000000 [] [],
     INST ID_SQRSHL_scalar 0b11111111001000001111110000000000 0b01011110001000000101110000000000 [] [],
     INST ID_ADD_scalar 0b11111111001000001111110000000000 0b01011110001000001000010000000000 [] [],
     INST ID_CMTST_scalar 0b11111111001000001111110000000000 0b01011110001000001000110000000000 [] [],
     INST ID_SQDMULH_scalar 0b11111111001000001111110000000000 0b01011110001000001011010000000000 [] [],
     INST ID_FMULX_scalar 0b11111111101000001111110000000000 0b01011110001000001101110000000000 [] [],
     INST ID_FCMEQ_scalar_reg 0b11111111101000001111110000000000 0b01011110001000001110010000000000 [] [],
     INST ID_FRECPS_scalar 0b11111111101000001111110000000000 0b01011110001000001111110000000000 [] [],
     INST ID_FRSQRTS_scalar 0b11111111101000001111110000000000 0b01011110101000001111110000000000 [] [],
     INST ID_UQADD_scalar 0b11111111001000001111110000000000 0b01111110001000000000110000000000 [] [],
     INST ID_UQSUB_scalar 0b11111111001000001111110000000000 0b01111110001000000010110000000000 [] [],
     INST ID_CMHI_scalar_reg 0b11111111001000001111110000000000 0b01111110001000000011010000000000 [] [],
     INST ID_CMHS_scalar_reg 0b11111111001000001111110000000000 0b01111110001000000011110000000000 [] [],
     INST ID_USHL_scalar 0b11111111001000001111110000000000 0b01111110001000000100010000000000 [] [],
     INST ID_UQSHL_scalar_reg 0b11111111001000001111110000000000 0b01111110001000000100110000000000 [] [],
     INST ID_URSHL_scalar 0b11111111001000001111110000000000 0b01111110001000000101010000000000 [] [],
     INST ID_UQRSHL_scalar 0b11111111001000001111110000000000 0b01111110001000000101110000000000 [] [],
     INST ID_SUB_scalar 0b11111111001000001111110000000000 0b01111110001000001000010000000000 [] [],
     INST ID_CMEQ_scalar_reg 0b11111111001000001111110000000000 0b01111110001000001000110000000000 [] [],
     INST ID_SQRDMULH_scalar 0b11111111001000001111110000000000 0b01111110001000001011010000000000 [] [],
     INST ID_FCMGE_scalar_reg 0b11111111101000001111110000000000 0b01111110001000001110010000000000 [] [],
     INST ID_FACGE_scalar 0b11111111101000001111110000000000 0b01111110001000001110110000000000 [] [],
     INST ID_FABD_scalar 0b11111111101000001111110000000000 0b01111110101000001101010000000000 [] [],
     INST ID_FCMGT_scalar_reg 0b11111111101000001111110000000000 0b01111110101000001110010000000000 [] [],
     INST ID_FACGT_scalar 0b11111111101000001111110000000000 0b01111110101000001110110000000000 [] []]"

definition insts_Advanced_SIMD_scalar_shift_by_immediate :: "(instructionID \<times> instructionDecodeInfo) list" where
  "insts_Advanced_SIMD_scalar_shift_by_immediate = [
     INST ID_SSHR_scalar 0b11111111100000001111110000000000 0b01011111000000000000010000000000 [0b00000000011110000000000000000000] [],
     INST ID_SSRA_scalar 0b11111111100000001111110000000000 0b01011111000000000001010000000000 [0b00000000011110000000000000000000] [],
     INST ID_SRSHR_scalar 0b11111111100000001111110000000000 0b01011111000000000010010000000000 [0b00000000011110000000000000000000] [],
     INST ID_SRSRA_scalar 0b11111111100000001111110000000000 0b01011111000000000011010000000000 [0b00000000011110000000000000000000] [],
     INST ID_SHL_scalar 0b11111111100000001111110000000000 0b01011111000000000101010000000000 [0b00000000011110000000000000000000] [],
     INST ID_SQSHL_scalar_imm 0b11111111100000001111110000000000 0b01011111000000000111010000000000 [0b00000000011110000000000000000000] [],
     INST ID_SQSHRN_scalar 0b11111111100000001111110000000000 0b01011111000000001001010000000000 [0b00000000011110000000000000000000] [],
     INST ID_SQRSHRN_scalar 0b11111111100000001111110000000000 0b01011111000000001001110000000000 [0b00000000011110000000000000000000] [],
     INST ID_SCVTF_scalar_fixed 0b11111111100000001111110000000000 0b01011111000000001110010000000000 [0b00000000011110000000000000000000] [],
     INST ID_FCVTZS_scalar_fixed 0b11111111100000001111110000000000 0b01011111000000001111110000000000 [0b00000000011110000000000000000000] [],
     INST ID_USHR_scalar 0b11111111100000001111110000000000 0b01111111000000000000010000000000 [0b00000000011110000000000000000000] [],
     INST ID_USRA_scalar 0b11111111100000001111110000000000 0b01111111000000000001010000000000 [0b00000000011110000000000000000000] [],
     INST ID_URSHR_scalar 0b11111111100000001111110000000000 0b01111111000000000010010000000000 [0b00000000011110000000000000000000] [],
     INST ID_URSRA_scalar 0b11111111100000001111110000000000 0b01111111000000000011010000000000 [0b00000000011110000000000000000000] [],
     INST ID_SRI_scalar 0b11111111100000001111110000000000 0b01111111000000000100010000000000 [0b00000000011110000000000000000000] [],
     INST ID_SLI_scalar 0b11111111100000001111110000000000 0b01111111000000000101010000000000 [0b00000000011110000000000000000000] [],
     INST ID_SQSHLU_scalar 0b11111111100000001111110000000000 0b01111111000000000110010000000000 [0b00000000011110000000000000000000] [],
     INST ID_UQSHL_scalar_imm 0b11111111100000001111110000000000 0b01111111000000000111010000000000 [0b00000000011110000000000000000000] [],
     INST ID_SQSHRUN_scalar 0b11111111100000001111110000000000 0b01111111000000001000010000000000 [0b00000000011110000000000000000000] [],
     INST ID_SQRSHRUN_scalar 0b11111111100000001111110000000000 0b01111111000000001000110000000000 [0b00000000011110000000000000000000] [],
     INST ID_UQSHRN_scalar 0b11111111100000001111110000000000 0b01111111000000001001010000000000 [0b00000000011110000000000000000000] [],
     INST ID_UQRSHRN_scalar 0b11111111100000001111110000000000 0b01111111000000001001110000000000 [0b00000000011110000000000000000000] [],
     INST ID_UCVTF_scalar_fixed 0b11111111100000001111110000000000 0b01111111000000001110010000000000 [0b00000000011110000000000000000000] [],
     INST ID_FCVTZU_scalar_fixed 0b11111111100000001111110000000000 0b01111111000000001111110000000000 [0b00000000011110000000000000000000] []]"

definition insts_Advanced_SIMD_scalar_x_indexed_element :: "(instructionID \<times> instructionDecodeInfo) list" where
  "insts_Advanced_SIMD_scalar_x_indexed_element = [
     INST ID_SQDMLAL_scalar_element 0b11111111000000001111010000000000 0b01011111000000000011000000000000 [] [],
     INST ID_SQDMLSL_scalar_element 0b11111111000000001111010000000000 0b01011111000000000111000000000000 [] [],
     INST ID_SQDMULL_scalar_element 0b11111111000000001111010000000000 0b01011111000000001011000000000000 [] [],
     INST ID_SQDMULH_scalar_element 0b11111111000000001111010000000000 0b01011111000000001100000000000000 [] [],
     INST ID_SQRDMULH_scalar_element 0b11111111000000001111010000000000 0b01011111000000001101000000000000 [] [],
     INST ID_FMLA_scalar_element 0b11111111100000001111010000000000 0b01011111100000000001000000000000 [] [],
     INST ID_FMLS_scalar_element 0b11111111100000001111010000000000 0b01011111100000000101000000000000 [] [],
     INST ID_FMUL_scalar_element 0b11111111100000001111010000000000 0b01011111100000001001000000000000 [] [],
     INST ID_FMULX_scalar_element 0b11111111100000001111010000000000 0b01111111100000001001000000000000 [] []]"

definition insts_Advanced_SIMD_table_lookup :: "(instructionID \<times> instructionDecodeInfo) list" where
  "insts_Advanced_SIMD_table_lookup = [
     INST ID_TBL_one_reg 0b10111111111000001111110000000000 0b00001110000000000000000000000000 [] [],
     INST ID_TBX_one_reg 0b10111111111000001111110000000000 0b00001110000000000001000000000000 [] [],
     INST ID_TBL_two_reg 0b10111111111000001111110000000000 0b00001110000000000010000000000000 [] [],
     INST ID_TBX_two_reg 0b10111111111000001111110000000000 0b00001110000000000011000000000000 [] [],
     INST ID_TBL_three_reg 0b10111111111000001111110000000000 0b00001110000000000100000000000000 [] [],
     INST ID_TBX_three_reg 0b10111111111000001111110000000000 0b00001110000000000101000000000000 [] [],
     INST ID_TBL_four_reg 0b10111111111000001111110000000000 0b00001110000000000110000000000000 [] [],
     INST ID_TBX_four_reg 0b10111111111000001111110000000000 0b00001110000000000111000000000000 [] []]"

definition insts_Advanced_SIMD_permute :: "(instructionID \<times> instructionDecodeInfo) list" where
  "insts_Advanced_SIMD_permute = [
     INST ID_UZP1 0b10111111001000001111110000000000 0b00001110000000000001100000000000 [] [],
     INST ID_TRN1 0b10111111001000001111110000000000 0b00001110000000000010100000000000 [] [],
     INST ID_ZIP1 0b10111111001000001111110000000000 0b00001110000000000011100000000000 [] [],
     INST ID_UZP2 0b10111111001000001111110000000000 0b00001110000000000101100000000000 [] [],
     INST ID_TRN2 0b10111111001000001111110000000000 0b00001110000000000110100000000000 [] [],
     INST ID_ZIP2 0b10111111001000001111110000000000 0b00001110000000000111100000000000 [] []]"

definition insts_Advanced_SIMD_extract :: "(instructionID \<times> instructionDecodeInfo) list" where
  "insts_Advanced_SIMD_extract = [
     INST ID_EXT 0b10111111111000001000010000000000 0b00101110000000000000000000000000 [] []]"

definition insts_Advanced_SIMD_copy :: "(instructionID \<times> instructionDecodeInfo) list" where
  "insts_Advanced_SIMD_copy = [
     INST ID_DUP_element_vec 0b10111111111000001111110000000000 0b00001110000000000000010000000000 [0b00000000000011110000000000000000] [],
     INST ID_DUP_general 0b10111111111000001111110000000000 0b00001110000000000000110000000000 [0b00000000000011110000000000000000] [],
     INST ID_SMOV_32 0b11111111111000001111110000000000 0b00001110000000000010110000000000 [0b00000000000011110000000000000000] [],
     INST ID_UMOV_32 0b11111111111000001111110000000000 0b00001110000000000011110000000000 [0b00000000000011110000000000000000] [],
     INST ID_INS_general 0b11111111111000001111110000000000 0b01001110000000000001110000000000 [0b00000000000011110000000000000000] [],
     INST ID_SMOV_64 0b11111111111000001111110000000000 0b01001110000000000010110000000000 [0b00000000000011110000000000000000] [],
     INST ID_UMOV_64 0b11111111111011111111110000000000 0b01001110000010000011110000000000 [0b00000000000011110000000000000000] [],
     INST ID_INS_element 0b11111111111000001000010000000000 0b01101110000000000000010000000000 [0b00000000000011110000000000000000] []]"

definition insts_Advanced_SIMD_two_register_miscellaneous :: "(instructionID \<times> instructionDecodeInfo) list" where
  "insts_Advanced_SIMD_two_register_miscellaneous = [
     INST ID_REV64_vec 0b10111111001111111111110000000000 0b00001110001000000000100000000000 [] [],
     INST ID_REV16_vec 0b10111111001111111111110000000000 0b00001110001000000001100000000000 [] [],
     INST ID_SADDLP_vec 0b10111111001111111111110000000000 0b00001110001000000010100000000000 [] [],
     INST ID_SUQADD_vec 0b10111111001111111111110000000000 0b00001110001000000011100000000000 [] [],
     INST ID_CLS_vec 0b10111111001111111111110000000000 0b00001110001000000100100000000000 [] [],
     INST ID_CNT_vec 0b10111111001111111111110000000000 0b00001110001000000101100000000000 [] [],
     INST ID_SADALP_vec 0b10111111001111111111110000000000 0b00001110001000000110100000000000 [] [],
     INST ID_SQABS_vec 0b10111111001111111111110000000000 0b00001110001000000111100000000000 [] [],
     INST ID_CMGT_vec_zero 0b10111111001111111111110000000000 0b00001110001000001000100000000000 [] [],
     INST ID_CMEQ_vec_zero 0b10111111001111111111110000000000 0b00001110001000001001100000000000 [] [],
     INST ID_CMLT_vec_zero 0b10111111001111111111110000000000 0b00001110001000001010100000000000 [] [],
     INST ID_ABS_vec 0b10111111001111111111110000000000 0b00001110001000001011100000000000 [] [],
     INST ID_XTN_vec 0b11111111001111111111110000000000 0b00001110001000010010100000000000 [] [],
     INST ID_XTN2_vec 0b11111111001111111111110000000000 0b01001110001000010010100000000000 [] [],
     INST ID_SQXTN_vec 0b11111111001111111111110000000000 0b00001110001000010100100000000000 [] [],
     INST ID_SQXTN2_vec 0b11111111001111111111110000000000 0b01001110001000010100100000000000 [] [],
     INST ID_FCVTN_vec 0b11111111101111111111110000000000 0b00001110001000010110100000000000 [] [],
     INST ID_FCVTN2_vec 0b11111111101111111111110000000000 0b01001110001000010110100000000000 [] [],
     INST ID_FCVTL_vec 0b11111111101111111111110000000000 0b00001110001000010111100000000000 [] [],
     INST ID_FCVTL2_vec 0b11111111101111111111110000000000 0b01001110001000010111100000000000 [] [],
     INST ID_FRINTN_vec 0b10111111101111111111110000000000 0b00001110001000011000100000000000 [] [],
     INST ID_FRINTM_vec 0b10111111101111111111110000000000 0b00001110001000011001100000000000 [] [],
     INST ID_FCVTNS_vec 0b10111111101111111111110000000000 0b00001110001000011010100000000000 [] [],
     INST ID_FCVTMS_vec 0b10111111101111111111110000000000 0b00001110001000011011100000000000 [] [],
     INST ID_FCVTAS_vec 0b10111111101111111111110000000000 0b00001110001000011100100000000000 [] [],
     INST ID_SCVTF_vec_int 0b10111111101111111111110000000000 0b00001110001000011101100000000000 [] [],
     INST ID_FCMGT_vec_zero 0b10111111101111111111110000000000 0b00001110101000001100100000000000 [] [],
     INST ID_FCMEQ_vec_zero 0b10111111101111111111110000000000 0b00001110101000001101100000000000 [] [],
     INST ID_FCMLT_vec_zero 0b10111111101111111111110000000000 0b00001110101000001110100000000000 [] [],
     INST ID_FABS_vec 0b10111111101111111111110000000000 0b00001110101000001111100000000000 [] [],
     INST ID_FRINTP_vec 0b10111111101111111111110000000000 0b00001110101000011000100000000000 [] [],
     INST ID_FRINTZ_vec 0b10111111101111111111110000000000 0b00001110101000011001100000000000 [] [],
     INST ID_FCVTPS_vec 0b10111111101111111111110000000000 0b00001110101000011010100000000000 [] [],
     INST ID_FCVTZS_vec_int 0b10111111101111111111110000000000 0b00001110101000011011100000000000 [] [],
     INST ID_URECPE_vec 0b10111111101111111111110000000000 0b00001110101000011100100000000000 [] [],
     INST ID_FRECPE_vec 0b10111111101111111111110000000000 0b00001110101000011101100000000000 [] [],
     INST ID_REV32_vec 0b10111111001111111111110000000000 0b00101110001000000000100000000000 [] [],
     INST ID_UADDLP_vec 0b10111111001111111111110000000000 0b00101110001000000010100000000000 [] [],
     INST ID_USQADD_vec 0b10111111001111111111110000000000 0b00101110001000000011100000000000 [] [],
     INST ID_CLZ_vec 0b10111111001111111111110000000000 0b00101110001000000100100000000000 [] [],
     INST ID_UADALP_vec 0b10111111001111111111110000000000 0b00101110001000000110100000000000 [] [],
     INST ID_SQNEG_vec 0b10111111001111111111110000000000 0b00101110001000000111100000000000 [] [],
     INST ID_CMGE_vec_zero 0b10111111001111111111110000000000 0b00101110001000001000100000000000 [] [],
     INST ID_CMLE_vec_zero 0b10111111001111111111110000000000 0b00101110001000001001100000000000 [] [],
     INST ID_NEG_vec 0b10111111001111111111110000000000 0b00101110001000001011100000000000 [] [],
     INST ID_SQXTUN_vec 0b11111111001111111111110000000000 0b00101110001000010010100000000000 [] [],
     INST ID_SQXTUN2_vec 0b11111111001111111111110000000000 0b01101110001000010010100000000000 [] [],
     INST ID_SHLL_vec 0b11111111001111111111110000000000 0b00101110001000010011100000000000 [] [],
     INST ID_SHLL2_vec 0b11111111001111111111110000000000 0b01101110001000010011100000000000 [] [],
     INST ID_UQXTN_vec 0b11111111001111111111110000000000 0b00101110001000010100100000000000 [] [],
     INST ID_UQXTN2_vec 0b11111111001111111111110000000000 0b01101110001000010100100000000000 [] [],
     INST ID_FCVTXN_vec 0b11111111101111111111110000000000 0b00101110001000010110100000000000 [] [],
     INST ID_FCVTXN2_vec 0b11111111101111111111110000000000 0b01101110001000010110100000000000 [] [],
     INST ID_FRINTA_vec 0b10111111101111111111110000000000 0b00101110001000011000100000000000 [] [],
     INST ID_FRINTX_vec 0b10111111101111111111110000000000 0b00101110001000011001100000000000 [] [],
     INST ID_FCVTNU_vec 0b10111111101111111111110000000000 0b00101110001000011010100000000000 [] [],
     INST ID_FCVTMU_vec 0b10111111101111111111110000000000 0b00101110001000011011100000000000 [] [],
     INST ID_FCVTAU_vec 0b10111111101111111111110000000000 0b00101110001000011100100000000000 [] [],
     INST ID_UCVTF_vec_int 0b10111111101111111111110000000000 0b00101110001000011101100000000000 [] [],
     INST ID_NOT_vec 0b10111111111111111111110000000000 0b00101110001000000101100000000000 [] [],
     INST ID_RBIT_vec 0b10111111111111111111110000000000 0b00101110011000000101100000000000 [] [],
     INST ID_FCMGE_vec_zero 0b10111111101111111111110000000000 0b00101110101000001100100000000000 [] [],
     INST ID_FCMLE_vec_zero 0b10111111101111111111110000000000 0b00101110101000001101100000000000 [] [],
     INST ID_FNEG_vec 0b10111111101111111111110000000000 0b00101110101000001111100000000000 [] [],
     INST ID_FRINTI_vec 0b10111111101111111111110000000000 0b00101110101000011001100000000000 [] [],
     INST ID_FCVTPU_vec 0b10111111101111111111110000000000 0b00101110101000011010100000000000 [] [],
     INST ID_FCVTZU_vec_int 0b10111111101111111111110000000000 0b00101110101000011011100000000000 [] [],
     INST ID_URSQRTE_vec 0b10111111101111111111110000000000 0b00101110101000011100100000000000 [] [],
     INST ID_FRSQRTE_vec 0b10111111101111111111110000000000 0b00101110101000011101100000000000 [] [],
     INST ID_FSQRT_vec 0b10111111101111111111110000000000 0b00101110101000011111100000000000 [] []]"

definition insts_Advanced_SIMD_across_lanes :: "(instructionID \<times> instructionDecodeInfo) list" where
  "insts_Advanced_SIMD_across_lanes = [
     INST ID_SADDLV_vec 0b10111111001111111111110000000000 0b00001110001100000011100000000000 [] [],
     INST ID_SMAXV_vec 0b10111111001111111111110000000000 0b00001110001100001010100000000000 [] [],
     INST ID_SMINV_vec 0b10111111001111111111110000000000 0b00001110001100011010100000000000 [] [],
     INST ID_ADDV_vec 0b10111111001111111111110000000000 0b00001110001100011011100000000000 [] [],
     INST ID_UADDLV_vec 0b10111111001111111111110000000000 0b00101110001100000011100000000000 [] [],
     INST ID_UMAXV_vec 0b10111111001111111111110000000000 0b00101110001100001010100000000000 [] [],
     INST ID_UMINV_vec 0b10111111001111111111110000000000 0b00101110001100011010100000000000 [] [],
     INST ID_FMAXNMV_vec 0b10111111101111111111110000000000 0b00101110001100001100100000000000 [] [],
     INST ID_FMAXV_vec 0b10111111101111111111110000000000 0b00101110001100001111100000000000 [] [],
     INST ID_FMINNMV_vec 0b10111111101111111111110000000000 0b00101110101100001100100000000000 [] [],
     INST ID_FMINV_vec 0b10111111101111111111110000000000 0b00101110101100001111100000000000 [] []]"

definition insts_Advanced_SIMD_three_different :: "(instructionID \<times> instructionDecodeInfo) list" where
  "insts_Advanced_SIMD_three_different = [
     INST ID_SADDL 0b11111111001000001111110000000000 0b00001110001000000000000000000000 [] [],
     INST ID_SADDL2 0b11111111001000001111110000000000 0b01001110001000000000000000000000 [] [],
     INST ID_SADDW 0b11111111001000001111110000000000 0b00001110001000000001000000000000 [] [],
     INST ID_SADDW2 0b11111111001000001111110000000000 0b01001110001000000001000000000000 [] [],
     INST ID_SSUBL 0b11111111001000001111110000000000 0b00001110001000000010000000000000 [] [],
     INST ID_SSUBL2 0b11111111001000001111110000000000 0b01001110001000000010000000000000 [] [],
     INST ID_SSUBW 0b11111111001000001111110000000000 0b00001110001000000011000000000000 [] [],
     INST ID_SSUBW2 0b11111111001000001111110000000000 0b01001110001000000011000000000000 [] [],
     INST ID_ADDHN 0b11111111001000001111110000000000 0b00001110001000000100000000000000 [] [],
     INST ID_ADDHN2 0b11111111001000001111110000000000 0b01001110001000000100000000000000 [] [],
     INST ID_SABAL 0b11111111001000001111110000000000 0b00001110001000000101000000000000 [] [],
     INST ID_SABAL2 0b11111111001000001111110000000000 0b01001110001000000101000000000000 [] [],
     INST ID_SUBHN 0b11111111001000001111110000000000 0b00001110001000000110000000000000 [] [],
     INST ID_SUBHN2 0b11111111001000001111110000000000 0b01001110001000000110000000000000 [] [],
     INST ID_SABDL 0b11111111001000001111110000000000 0b00001110001000000111000000000000 [] [],
     INST ID_SABDL2 0b11111111001000001111110000000000 0b01001110001000000111000000000000 [] [],
     INST ID_SMLAL_vec 0b11111111001000001111110000000000 0b00001110001000001000000000000000 [] [],
     INST ID_SMLAL2_vec 0b11111111001000001111110000000000 0b01001110001000001000000000000000 [] [],
     INST ID_SQDMLAL_vec 0b11111111001000001111110000000000 0b00001110001000001001000000000000 [] [],
     INST ID_SQDMLAL2_vec 0b11111111001000001111110000000000 0b01001110001000001001000000000000 [] [],
     INST ID_SMLSL_vec 0b11111111001000001111110000000000 0b00001110001000001010000000000000 [] [],
     INST ID_SMLSL2_vec 0b11111111001000001111110000000000 0b01001110001000001010000000000000 [] [],
     INST ID_SQDMLSL_vec 0b11111111001000001111110000000000 0b00001110001000001011000000000000 [] [],
     INST ID_SQDMLSL2_vec 0b11111111001000001111110000000000 0b01001110001000001011000000000000 [] [],
     INST ID_SMULL_vec 0b11111111001000001111110000000000 0b00001110001000001100000000000000 [] [],
     INST ID_SMULL2_vec 0b11111111001000001111110000000000 0b01001110001000001100000000000000 [] [],
     INST ID_SQDMULL_vec 0b11111111001000001111110000000000 0b00001110001000001101000000000000 [] [],
     INST ID_SQDMULL2_vec 0b11111111001000001111110000000000 0b01001110001000001101000000000000 [] [],
     INST ID_PMULL 0b11111111001000001111110000000000 0b00001110001000001110000000000000 [] [],
     INST ID_PMULL2 0b11111111001000001111110000000000 0b01001110001000001110000000000000 [] [],
     INST ID_UADDL 0b11111111001000001111110000000000 0b00101110001000000000000000000000 [] [],
     INST ID_UADDL2 0b11111111001000001111110000000000 0b01101110001000000000000000000000 [] [],
     INST ID_UADDW 0b11111111001000001111110000000000 0b00101110001000000001000000000000 [] [],
     INST ID_UADDW2 0b11111111001000001111110000000000 0b01101110001000000001000000000000 [] [],
     INST ID_USUBL 0b11111111001000001111110000000000 0b00101110001000000010000000000000 [] [],
     INST ID_USUBL2 0b11111111001000001111110000000000 0b01101110001000000010000000000000 [] [],
     INST ID_USUBW 0b11111111001000001111110000000000 0b00101110001000000011000000000000 [] [],
     INST ID_USUBW2 0b11111111001000001111110000000000 0b01101110001000000011000000000000 [] [],
     INST ID_RADDHN 0b11111111001000001111110000000000 0b00101110001000000100000000000000 [] [],
     INST ID_RADDHN2 0b11111111001000001111110000000000 0b01101110001000000100000000000000 [] [],
     INST ID_UABAL 0b11111111001000001111110000000000 0b00101110001000000101000000000000 [] [],
     INST ID_UABAL2 0b11111111001000001111110000000000 0b01101110001000000101000000000000 [] [],
     INST ID_RSUBHN 0b11111111001000001111110000000000 0b00101110001000000110000000000000 [] [],
     INST ID_RSUBHN2 0b11111111001000001111110000000000 0b01101110001000000110000000000000 [] [],
     INST ID_UABDL 0b11111111001000001111110000000000 0b00101110001000000111000000000000 [] [],
     INST ID_UABDL2 0b11111111001000001111110000000000 0b01101110001000000111000000000000 [] [],
     INST ID_UMLAL_vec 0b11111111001000001111110000000000 0b00101110001000001000000000000000 [] [],
     INST ID_UMLAL2_vec 0b11111111001000001111110000000000 0b01101110001000001000000000000000 [] [],
     INST ID_UMLSL_vec 0b11111111001000001111110000000000 0b00101110001000001010000000000000 [] [],
     INST ID_UMLSL2_vec 0b11111111001000001111110000000000 0b01101110001000001010000000000000 [] [],
     INST ID_UMULL_vec 0b11111111001000001111110000000000 0b00101110001000001100000000000000 [] [],
     INST ID_UMULL2_vec 0b11111111001000001111110000000000 0b01101110001000001100000000000000 [] []]"

definition insts_Advanced_SIMD_three_same :: "(instructionID \<times> instructionDecodeInfo) list" where
  "insts_Advanced_SIMD_three_same = [
     INST ID_SHADD_vec 0b10111111001000001111110000000000 0b00001110001000000000010000000000 [] [],
     INST ID_SQADD_vec 0b10111111001000001111110000000000 0b00001110001000000000110000000000 [] [],
     INST ID_SRHADD_vec 0b10111111001000001111110000000000 0b00001110001000000001010000000000 [] [],
     INST ID_SHSUB_vec 0b10111111001000001111110000000000 0b00001110001000000010010000000000 [] [],
     INST ID_SQSUB_vec 0b10111111001000001111110000000000 0b00001110001000000010110000000000 [] [],
     INST ID_CMGT_vec_reg 0b10111111001000001111110000000000 0b00001110001000000011010000000000 [] [],
     INST ID_CMGE_vec_reg 0b10111111001000001111110000000000 0b00001110001000000011110000000000 [] [],
     INST ID_SSHL_vec 0b10111111001000001111110000000000 0b00001110001000000100010000000000 [] [],
     INST ID_SQSHL_vec_reg 0b10111111001000001111110000000000 0b00001110001000000100110000000000 [] [],
     INST ID_SRSHL_vec 0b10111111001000001111110000000000 0b00001110001000000101010000000000 [] [],
     INST ID_SQRSHL_vec 0b10111111001000001111110000000000 0b00001110001000000101110000000000 [] [],
     INST ID_SMAX_vec 0b10111111001000001111110000000000 0b00001110001000000110010000000000 [] [],
     INST ID_SMIN_vec 0b10111111001000001111110000000000 0b00001110001000000110110000000000 [] [],
     INST ID_SABD_vec 0b10111111001000001111110000000000 0b00001110001000000111010000000000 [] [],
     INST ID_SABA_vec 0b10111111001000001111110000000000 0b00001110001000000111110000000000 [] [],
     INST ID_ADD_vec 0b10111111001000001111110000000000 0b00001110001000001000010000000000 [] [],
     INST ID_CMTST_vec 0b10111111001000001111110000000000 0b00001110001000001000110000000000 [] [],
     INST ID_MLA_vec 0b10111111001000001111110000000000 0b00001110001000001001010000000000 [] [],
     INST ID_MUL_vec 0b10111111001000001111110000000000 0b00001110001000001001110000000000 [] [],
     INST ID_SMAXP_vec 0b10111111001000001111110000000000 0b00001110001000001010010000000000 [] [],
     INST ID_SMINP_vec 0b10111111001000001111110000000000 0b00001110001000001010110000000000 [] [],
     INST ID_SQDMULH_vec 0b10111111001000001111110000000000 0b00001110001000001011010000000000 [] [],
     INST ID_ADDP_vec 0b10111111001000001111110000000000 0b00001110001000001011110000000000 [] [],
     INST ID_FMAXNM_vec 0b10111111101000001111110000000000 0b00001110001000001100010000000000 [] [],
     INST ID_FMLA_vec 0b10111111101000001111110000000000 0b00001110001000001100110000000000 [] [],
     INST ID_FADD_vec 0b10111111101000001111110000000000 0b00001110001000001101010000000000 [] [],
     INST ID_FMULX_vec 0b10111111101000001111110000000000 0b00001110001000001101110000000000 [] [],
     INST ID_FCMEQ_vec_reg 0b10111111101000001111110000000000 0b00001110001000001110010000000000 [] [],
     INST ID_FMAX_vec 0b10111111101000001111110000000000 0b00001110001000001111010000000000 [] [],
     INST ID_FRECPS_vec 0b10111111101000001111110000000000 0b00001110001000001111110000000000 [] [],
     INST ID_AND_vec 0b10111111111000001111110000000000 0b00001110001000000001110000000000 [] [],
     INST ID_BIC_vec_reg 0b10111111111000001111110000000000 0b00001110011000000001110000000000 [] [],
     INST ID_FMINNM_vec 0b10111111101000001111110000000000 0b00001110101000001100010000000000 [] [],
     INST ID_FMLS_vec 0b10111111101000001111110000000000 0b00001110101000001100110000000000 [] [],
     INST ID_FSUB_vec 0b10111111101000001111110000000000 0b00001110101000001101010000000000 [] [],
     INST ID_FMIN_vec 0b10111111101000001111110000000000 0b00001110101000001111010000000000 [] [],
     INST ID_FRSQRTS_vec 0b10111111101000001111110000000000 0b00001110101000001111110000000000 [] [],
     INST ID_ORR_vec_reg 0b10111111111000001111110000000000 0b00001110101000000001110000000000 [] [],
     INST ID_ORN_vec 0b10111111111000001111110000000000 0b00001110111000000001110000000000 [] [],
     INST ID_UHADD_vec 0b10111111001000001111110000000000 0b00101110001000000000010000000000 [] [],
     INST ID_UQADD_vec 0b10111111001000001111110000000000 0b00101110001000000000110000000000 [] [],
     INST ID_URHADD_vec 0b10111111001000001111110000000000 0b00101110001000000001010000000000 [] [],
     INST ID_UHSUB_vec 0b10111111001000001111110000000000 0b00101110001000000010010000000000 [] [],
     INST ID_UQSUB_vec 0b10111111001000001111110000000000 0b00101110001000000010110000000000 [] [],
     INST ID_CMHI_vec_reg 0b10111111001000001111110000000000 0b00101110001000000011010000000000 [] [],
     INST ID_CMHS_vec_reg 0b10111111001000001111110000000000 0b00101110001000000011110000000000 [] [],
     INST ID_USHL_vec 0b10111111001000001111110000000000 0b00101110001000000100010000000000 [] [],
     INST ID_UQSHL_vec_reg 0b10111111001000001111110000000000 0b00101110001000000100110000000000 [] [],
     INST ID_URSHL_vec 0b10111111001000001111110000000000 0b00101110001000000101010000000000 [] [],
     INST ID_UQRSHL_vec 0b10111111001000001111110000000000 0b00101110001000000101110000000000 [] [],
     INST ID_UMAX_vec 0b10111111001000001111110000000000 0b00101110001000000110010000000000 [] [],
     INST ID_UMIN_vec 0b10111111001000001111110000000000 0b00101110001000000110110000000000 [] [],
     INST ID_UABD_vec 0b10111111001000001111110000000000 0b00101110001000000111010000000000 [] [],
     INST ID_UABA_vec 0b10111111001000001111110000000000 0b00101110001000000111110000000000 [] [],
     INST ID_SUB_vec 0b10111111001000001111110000000000 0b00101110001000001000010000000000 [] [],
     INST ID_CMEQ_vec_reg 0b10111111001000001111110000000000 0b00101110001000001000110000000000 [] [],
     INST ID_MLS_vec 0b10111111001000001111110000000000 0b00101110001000001001010000000000 [] [],
     INST ID_PMUL_vec 0b10111111001000001111110000000000 0b00101110001000001001110000000000 [] [],
     INST ID_UMAXP_vec 0b10111111001000001111110000000000 0b00101110001000001010010000000000 [] [],
     INST ID_UMINP_vec 0b10111111001000001111110000000000 0b00101110001000001010110000000000 [] [],
     INST ID_SQRDMULH_vec 0b10111111001000001111110000000000 0b00101110001000001011010000000000 [] [],
     INST ID_FMAXNMP_vec 0b10111111101000001111110000000000 0b00101110001000001100010000000000 [] [],
     INST ID_FADDP_vec 0b10111111101000001111110000000000 0b00101110001000001101010000000000 [] [],
     INST ID_FMUL_vec 0b10111111101000001111110000000000 0b00101110001000001101110000000000 [] [],
     INST ID_FCMGE_vec_reg 0b10111111101000001111110000000000 0b00101110001000001110010000000000 [] [],
     INST ID_FACGE_vec 0b10111111101000001111110000000000 0b00101110001000001110110000000000 [] [],
     INST ID_FMAXP_vec 0b10111111101000001111110000000000 0b00101110001000001111010000000000 [] [],
     INST ID_FDIV_vec 0b10111111101000001111110000000000 0b00101110001000001111110000000000 [] [],
     INST ID_EOR_vec 0b10111111111000001111110000000000 0b00101110001000000001110000000000 [] [],
     INST ID_BSL_vec 0b10111111111000001111110000000000 0b00101110011000000001110000000000 [] [],
     INST ID_FMINNMP_vec 0b10111111101000001111110000000000 0b00101110101000001100010000000000 [] [],
     INST ID_FABD_vec 0b10111111101000001111110000000000 0b00101110101000001101010000000000 [] [],
     INST ID_FCMGT_vec_reg 0b10111111101000001111110000000000 0b00101110101000001110010000000000 [] [],
     INST ID_FACGT_vec 0b10111111101000001111110000000000 0b00101110101000001110110000000000 [] [],
     INST ID_FMINP_vec 0b10111111101000001111110000000000 0b00101110101000001111010000000000 [] [],
     INST ID_BIT_vec 0b10111111111000001111110000000000 0b00101110101000000001110000000000 [] [],
     INST ID_BIF_vec 0b10111111111000001111110000000000 0b00101110111000000001110000000000 [] []]"

definition insts_Advanced_SIMD_modified_immediate :: "(instructionID \<times> instructionDecodeInfo) list" where
  "insts_Advanced_SIMD_modified_immediate = [
     INST ID_MOVI_32_shifted_imm 0b10111111111110001001110000000000 0b00001111000000000000010000000000 [] [],
     INST ID_ORR_vec_imm_32 0b10111111111110001001110000000000 0b00001111000000000001010000000000 [] [],
     INST ID_MOVI_16_shifted_imm 0b10111111111110001101110000000000 0b00001111000000001000010000000000 [] [],
     INST ID_ORR_vec_imm_16 0b10111111111110001101110000000000 0b00001111000000001001010000000000 [] [],
     INST ID_MOVI_32_shifting_ones 0b10111111111110001110110000000000 0b00001111000000001100010000000000 [] [],
     INST ID_MOVI_8_imm 0b10111111111110001111110000000000 0b00001111000000001110010000000000 [] [],
     INST ID_FMOV_vec_imm_single 0b10111111111110001111110000000000 0b00001111000000001111010000000000 [] [],
     INST ID_MVNI_32_shifted_imm 0b10111111111110001001110000000000 0b00101111000000000000010000000000 [] [],
     INST ID_BIC_vec_imm_32 0b10111111111110001001110000000000 0b00101111000000000001010000000000 [] [],
     INST ID_MVNI_16_shifted_imm 0b10111111111110001101110000000000 0b00101111000000001000010000000000 [] [],
     INST ID_BIC_vec_imm_16 0b10111111111110001101110000000000 0b00101111000000001001010000000000 [] [],
     INST ID_MVNI_32_shifting_ones 0b10111111111110001110110000000000 0b00101111000000001100010000000000 [] [],
     INST ID_MOVI_64_scalar 0b11111111111110001111110000000000 0b00101111000000001110010000000000 [] [],
     INST ID_MOVI_64_vec 0b11111111111110001111110000000000 0b01101111000000001110010000000000 [] [],
     INST ID_FMOV_vec_imm_double 0b11111111111110001111110000000000 0b01101111000000001111010000000000 [] []]"

definition insts_Advanced_SIMD_shift_by_immediate :: "(instructionID \<times> instructionDecodeInfo) list" where
  "insts_Advanced_SIMD_shift_by_immediate = [
     INST ID_SSHR_vec 0b10111111100000001111110000000000 0b00001111000000000000010000000000 [0b00000000011110000000000000000000] [],
     INST ID_SSRA_vec 0b10111111100000001111110000000000 0b00001111000000000001010000000000 [0b00000000011110000000000000000000] [],
     INST ID_SRSHR_vec 0b10111111100000001111110000000000 0b00001111000000000010010000000000 [0b00000000011110000000000000000000] [],
     INST ID_SRSRA_vec 0b10111111100000001111110000000000 0b00001111000000000011010000000000 [0b00000000011110000000000000000000] [],
     INST ID_SHL_vec 0b10111111100000001111110000000000 0b00001111000000000101010000000000 [0b00000000011110000000000000000000] [],
     INST ID_SQSHL_vec_imm 0b10111111100000001111110000000000 0b00001111000000000111010000000000 [0b00000000011110000000000000000000] [],
     INST ID_SHRN_vec 0b11111111100000001111110000000000 0b00001111000000001000010000000000 [0b00000000011110000000000000000000] [],
     INST ID_SHRN2_vec 0b11111111100000001111110000000000 0b01001111000000001000010000000000 [0b00000000011110000000000000000000] [],
     INST ID_RSHRN_vec 0b11111111100000001111110000000000 0b00001111000000001000110000000000 [0b00000000011110000000000000000000] [],
     INST ID_RSHRN2_vec 0b11111111100000001111110000000000 0b01001111000000001000110000000000 [0b00000000011110000000000000000000] [],
     INST ID_SQSHRN_vec 0b11111111100000001111110000000000 0b00001111000000001001010000000000 [0b00000000011110000000000000000000] [],
     INST ID_SQSHRN2_vec 0b11111111100000001111110000000000 0b01001111000000001001010000000000 [0b00000000011110000000000000000000] [],
     INST ID_SQRSHRN_vec 0b11111111100000001111110000000000 0b00001111000000001001110000000000 [0b00000000011110000000000000000000] [],
     INST ID_SQRSHRN2_vec 0b11111111100000001111110000000000 0b01001111000000001001110000000000 [0b00000000011110000000000000000000] [],
     INST ID_SSHLL_vec 0b11111111100000001111110000000000 0b00001111000000001010010000000000 [0b00000000011110000000000000000000] [],
     INST ID_SSHLL2_vec 0b11111111100000001111110000000000 0b01001111000000001010010000000000 [0b00000000011110000000000000000000] [],
     INST ID_SCVTF_vec_fixed 0b10111111100000001111110000000000 0b00001111000000001110010000000000 [0b00000000011110000000000000000000] [],
     INST ID_FCVTZS_vec_fixed 0b10111111100000001111110000000000 0b00001111000000001111110000000000 [0b00000000011110000000000000000000] [],
     INST ID_USHR_vec 0b10111111100000001111110000000000 0b00101111000000000000010000000000 [0b00000000011110000000000000000000] [],
     INST ID_USRA_vec 0b10111111100000001111110000000000 0b00101111000000000001010000000000 [0b00000000011110000000000000000000] [],
     INST ID_URSHR_vec 0b10111111100000001111110000000000 0b00101111000000000010010000000000 [0b00000000011110000000000000000000] [],
     INST ID_URSRA_vec 0b10111111100000001111110000000000 0b00101111000000000011010000000000 [0b00000000011110000000000000000000] [],
     INST ID_SRI_vec 0b10111111100000001111110000000000 0b00101111000000000100010000000000 [0b00000000011110000000000000000000] [],
     INST ID_SLI_vec 0b10111111100000001111110000000000 0b00101111000000000101010000000000 [0b00000000011110000000000000000000] [],
     INST ID_SQSHLU_vec 0b10111111100000001111110000000000 0b00101111000000000110010000000000 [0b00000000011110000000000000000000] [],
     INST ID_UQSHL_vec_imm 0b10111111100000001111110000000000 0b00101111000000000111010000000000 [0b00000000011110000000000000000000] [],
     INST ID_SQSHRUN_vec 0b11111111100000001111110000000000 0b00101111000000001000010000000000 [0b00000000011110000000000000000000] [],
     INST ID_SQSHRUN2_vec 0b11111111100000001111110000000000 0b01101111000000001000010000000000 [0b00000000011110000000000000000000] [],
     INST ID_SQRSHRUN_vec 0b11111111100000001111110000000000 0b00101111000000001000110000000000 [0b00000000011110000000000000000000] [],
     INST ID_SQRSHRUN2_vec 0b11111111100000001111110000000000 0b01101111000000001000110000000000 [0b00000000011110000000000000000000] [],
     INST ID_UQSHRN_vec 0b11111111100000001111110000000000 0b00101111000000001001010000000000 [0b00000000011110000000000000000000] [],
     INST ID_UQSHRN2_vec 0b11111111100000001111110000000000 0b01101111000000001001010000000000 [0b00000000011110000000000000000000] [],
     INST ID_UQRSHRN_vec 0b11111111100000001111110000000000 0b00101111000000001001110000000000 [0b00000000011110000000000000000000] [],
     INST ID_UQRSHRN2_vec 0b11111111100000001111110000000000 0b01101111000000001001110000000000 [0b00000000011110000000000000000000] [],
     INST ID_USHLL_vec 0b11111111100000001111110000000000 0b00101111000000001010010000000000 [0b00000000011110000000000000000000] [],
     INST ID_USHLL2_vec 0b11111111100000001111110000000000 0b01101111000000001010010000000000 [0b00000000011110000000000000000000] [],
     INST ID_UCVTF_vec_fixed 0b10111111100000001111110000000000 0b00101111000000001110010000000000 [0b00000000011110000000000000000000] [],
     INST ID_FCVTZU_vec_fixed 0b10111111100000001111110000000000 0b00101111000000001111110000000000 [0b00000000011110000000000000000000] []]"

definition insts_Advanced_SIMD_vector_x_indexed_element :: "(instructionID \<times> instructionDecodeInfo) list" where
  "insts_Advanced_SIMD_vector_x_indexed_element = [
     INST ID_SMLAL_vec_element 0b11111111000000001111010000000000 0b00001111000000000010000000000000 [] [],
     INST ID_SMLAL2_vec_element 0b11111111000000001111010000000000 0b01001111000000000010000000000000 [] [],
     INST ID_SQDMLAL_vec_element 0b11111111000000001111010000000000 0b00001111000000000011000000000000 [] [],
     INST ID_SQDMLAL2_vec_element 0b11111111000000001111010000000000 0b01001111000000000011000000000000 [] [],
     INST ID_SMLSL_vec_element 0b11111111000000001111010000000000 0b00001111000000000110000000000000 [] [],
     INST ID_SMLSL2_vec_element 0b11111111000000001111010000000000 0b01001111000000000110000000000000 [] [],
     INST ID_SQDMLSL_vec_element 0b11111111000000001111010000000000 0b00001111000000000111000000000000 [] [],
     INST ID_SQDMLSL2_vec_element 0b11111111000000001111010000000000 0b01001111000000000111000000000000 [] [],
     INST ID_MUL_vec_element 0b10111111000000001111010000000000 0b00001111000000001000000000000000 [] [],
     INST ID_SMULL_vec_element 0b11111111000000001111010000000000 0b00001111000000001010000000000000 [] [],
     INST ID_SMULL2_vec_element 0b11111111000000001111010000000000 0b01001111000000001010000000000000 [] [],
     INST ID_SQDMULL_vec_element 0b11111111000000001111010000000000 0b00001111000000001011000000000000 [] [],
     INST ID_SQDMULL2_vec_element 0b11111111000000001111010000000000 0b01001111000000001011000000000000 [] [],
     INST ID_SQDMULH_vec_element 0b10111111000000001111010000000000 0b00001111000000001100000000000000 [] [],
     INST ID_SQRDMULH_vec_element 0b10111111000000001111010000000000 0b00001111000000001101000000000000 [] [],
     INST ID_FMLA_vec_element 0b10111111100000001111010000000000 0b00001111100000000001000000000000 [] [],
     INST ID_FMLS_vec_element 0b10111111100000001111010000000000 0b00001111100000000101000000000000 [] [],
     INST ID_FMUL_vec_element 0b10111111100000001111010000000000 0b00001111100000001001000000000000 [] [],
     INST ID_MLA_vec_element 0b10111111000000001111010000000000 0b00101111000000000000000000000000 [] [],
     INST ID_UMLAL_vec_element 0b11111111000000001111010000000000 0b00101111000000000010000000000000 [] [],
     INST ID_UMLAL2_vec_element 0b11111111000000001111010000000000 0b01101111000000000010000000000000 [] [],
     INST ID_MLS_vec_element 0b10111111000000001111010000000000 0b00101111000000000100000000000000 [] [],
     INST ID_UMLSL_vec_element 0b11111111000000001111010000000000 0b00101111000000000110000000000000 [] [],
     INST ID_UMLSL2_vec_element 0b11111111000000001111010000000000 0b01101111000000000110000000000000 [] [],
     INST ID_UMULL_vec_element 0b11111111000000001111010000000000 0b00101111000000001010000000000000 [] [],
     INST ID_UMULL2_vec_element 0b11111111000000001111010000000000 0b01101111000000001010000000000000 [] [],
     INST ID_FMULX_vec_element 0b10111111100000001111010000000000 0b00101111100000001001000000000000 [] []]"

definition instructions :: "(instructionID \<times> instructionDecodeInfo) list" where
  "instructions =
     insts_Branch @
     insts_Exception_Generating @
     insts_System @
     insts_PC_rel_addressing @
     insts_Add_subtract_immediate @
     insts_Logical_immediate @
     insts_Move_wide_immediate @
     insts_Bitfield @
     insts_Extract @
     insts_Data_processing_2_source @
     insts_Data_processing_1_source @
     insts_Logical_shifted_register @
     insts_Add_subtract_shifted_register @
     insts_Add_subtract_extended_register @
     insts_Add_subtract_with_carry @
     insts_Conditional_compare_register @
     insts_Conditional_compare_immediate @
     insts_Conditional_select @
     insts_Data_processing_3_source @
     insts_Advanced_SIMD_load_store_multiple_structures @
     insts_Advanced_SIMD_load_store_multiple_structures_post_indexed @
     insts_Advanced_SIMD_load_store_single_structure @
     insts_Advanced_SIMD_load_store_single_structure_post_indexed @
     insts_Load_store_exclusive @
     insts_Load_register_literal @
     insts_Load_store_no_allocate_pair_offset @
     insts_Load_store_register_pair_post_indexed @
     insts_Load_store_register_pair_offset @
     insts_Load_store_register_pair_pre_indexed @
     insts_Load_store_register_unscaled_immediate @
     insts_Load_store_register_immediate_post_indexed @
     insts_Load_store_register_unprivileged @
     insts_Load_store_register_immediate_pre_indexed @
     insts_Load_store_register_register_offset @
     insts_Load_store_register_unsigned_immediate @
     insts_Conversion_between_floating_point_and_fixed_point @
     insts_Conversion_between_floating_point_and_integer @
     insts_Floating_point_data_processing_1_source @
     insts_Floating_point_compare @
     insts_Floating_point_immediate @
     insts_Floating_point_conditional_compare @
     insts_Floating_point_data_processing_2_source @
     insts_Floating_point_conditional_select @
     insts_Floating_point_data_processing_3_source @
     insts_Cryptographic_AES @
     insts_Cryptographic_three_register_SHA @
     insts_Cryptographic_two_register_SHA @
     insts_Advanced_SIMD_scalar_copy @
     insts_Advanced_SIMD_scalar_two_register_miscellaneous @
     insts_Advanced_SIMD_scalar_pairwise @
     insts_Advanced_SIMD_scalar_three_different @
     insts_Advanced_SIMD_scalar_three_same @
     insts_Advanced_SIMD_scalar_shift_by_immediate @
     insts_Advanced_SIMD_scalar_x_indexed_element @
     insts_Advanced_SIMD_table_lookup @
     insts_Advanced_SIMD_permute @
     insts_Advanced_SIMD_extract @
     insts_Advanced_SIMD_copy @
     insts_Advanced_SIMD_two_register_miscellaneous @
     insts_Advanced_SIMD_across_lanes @
     insts_Advanced_SIMD_three_different @
     insts_Advanced_SIMD_three_same @
     insts_Advanced_SIMD_modified_immediate @
     insts_Advanced_SIMD_shift_by_immediate @
     insts_Advanced_SIMD_vector_x_indexed_element"

text \<open>
  \<^verbatim>\<open>init\<close> starts from an array of default entries (mask all ones, match 0) and assigns the entry of
  each \<^verbatim>\<open>INST\<close> line at the index of its enumerator.
\<close>

definition default_info :: instructionDecodeInfo where
  "default_info =
     \<lparr>di_mask = 0xFFFFFFFF, di_match = 0, bitsMustNotAllBeClear = [], bitsMustNotAllBeSet = []\<rparr>"

definition gInstructionDecodeTable :: "instructionDecodeInfo list" where
  "gInstructionDecodeTable =
     fold (\<lambda>(x, info) tab. tab[x := info]) instructions (replicate NUM_INSTRUCTIONS default_info)"

record DecodedInstruction =
  di_id :: instructionID
  di_inst :: u32

text \<open>
  The body of the loop of \<^verbatim>\<open>decode2\<close>: an entry is taken when the masked word matches, no mask of
  the first list is all clear and no mask of the second list is all set. The loop does not stop
  at a match, so the last matching entry wins.
\<close>

definition entry_matches :: "instructionDecodeInfo \<Rightarrow> u32 \<Rightarrow> bool" where
  "entry_matches info bits \<longleftrightarrow>
     bits AND di_mask info = di_match info \<and>
     list_all (\<lambda>mask. bits AND mask \<noteq> 0) (bitsMustNotAllBeClear info) \<and>
     list_all (\<lambda>mask. bits AND mask \<noteq> mask) (bitsMustNotAllBeSet info)"

fun decode2_loop :: "nat \<Rightarrow> instructionDecodeInfo list \<Rightarrow> u32 \<Rightarrow> instructionID \<Rightarrow> instructionID" where
  "decode2_loop i [] bits inst_id = inst_id"
| "decode2_loop i (info # infos) bits inst_id =
     decode2_loop (Suc i) infos bits (if entry_matches info bits then i else inst_id)"

definition decode2 :: "u32 \<Rightarrow> DecodedInstruction" where
  "decode2 bits =
     \<lparr>di_id = decode2_loop 0 gInstructionDecodeTable bits ID_INVALID, di_inst = bits\<rparr>"

text \<open>
  \<^verbatim>\<open>encode\<close> (\<^verbatim>\<open>libcpu/src/encode.cpp\<close>) looks the match bits of an instruction up; index 0 and every
  index past the table give 0.
\<close>

definition gEncodeInfo :: "u32 list" where
  "gEncodeInfo = 0 # map (\<lambda>(x, info). di_match info) instructions"

definition encode :: "instructionID \<Rightarrow> u32" where
  "encode x = (if x \<ge> length gEncodeInfo then 0 else gEncodeInfo ! x)"

end
