(* ===== verification/Decoder.thy ===== *)
theory Decoder
  imports Decode_DPImm Decode_DPReg Decode_System Decode_LoadStore Decode_Float Decode_SIMD Decode_Table
begin

text \<open>
  \<^verbatim>\<open>libcpu/src/decode/decode.cpp\<close>: the top of the hand-written decoder, \<^verbatim>\<open>decode\<close>, which dispatches
  on the opcode type to the decision functions of the imported theories. It is the decoder the
  interpreter and the recompiler call; \<^verbatim>\<open>decode2\<close> (theory \<open>Decode_Table\<close>) is the table-driven
  alternative.
\<close>

definition decodeSystemOrBranch :: "u32 \<Rightarrow> instructionID" where
  "decodeSystemOrBranch bits =
     (let op0 = bitRange 29 31 bits;
          op1 = bitRange 22 25 bits in
      if op0 = 2 then
          (if op1 < 8 then
               (if testBit 4 bits \<or> testBit 24 bits then ID_INVALID
                else ID_B_cond)
           else ID_INVALID)
      else if op0 = 6 then
          (if op1 > 7 then
               (let opc = bitRange 21 24 bits;
                    op2 = bitRange 16 20 bits;
                    op3 = bitRange 10 15 bits;
                    Rn = bitRange 5 9 bits;
                    op4 = bitRange 0 4 bits in
                if op2 \<noteq> 31 \<or> op3 \<noteq> 0 \<or> op4 \<noteq> 0 then ID_INVALID
                else if opc = 0 then ID_BR
                else if opc = 1 then ID_BLR
                else if opc = 2 then ID_RET
                else if opc = 4 then
                    (if Rn = 31 then ID_ERET
                     else ID_INVALID)
                else if opc = 5 then
                    (if Rn = 31 then ID_DRPS
                     else ID_INVALID)
                else if opc \<in> {3, 6, 7, 8, 9, 10, 11, 12, 13, 14, 15} then ID_INVALID
                else ID_INVALID)
           else if op1 < 4 then decodeExceptionGenerating bits
           else if op1 = 4 then decodeSystem bits
           else ID_INVALID)
      else if op0 \<in> {0, 4} then
          (let isLink = testBit 31 bits in
           if isLink then ID_BL
           else ID_B)
      else if op0 \<in> {1, 5} then
          (if op1 < 8 then
               (let is64 = testBit 31 bits;
                    negate = testBit 24 bits in
                if is64 then
                    (if negate then ID_CBNZ_64
                     else ID_CBZ_64)
                else if negate then ID_CBNZ_32
                else ID_CBZ_32)
           else
               (let negate = testBit 24 bits in
                if negate then ID_TBNZ
                else ID_TBZ))
      else if op0 \<in> {3, 7} then ID_INVALID
      else ID_INVALID)"

definition decodeFloatOrSIMD :: "u32 \<Rightarrow> instructionID" where
  "decodeFloatOrSIMD bits =
     (let op0 = bitRange 28 31 bits in
      if op0 \<in> {1, 3, 9, 11} then decodeFloat bits
      else if op0 \<in> {8, 10, 12, 13, 14, 15} then ID_INVALID
      else if op0 \<in> {0, 2, 4, 5, 6, 7} then decodeSIMD bits
      else ID_INVALID)"

definition decode :: "u32 \<Rightarrow> DecodedInstruction" where
  "decode bits =
     \<lparr>di_id =
         (let opcodeType = bitRange 25 28 bits in
           if opcodeType \<in> {0, 1, 2, 3} then ID_INVALID
           else if opcodeType \<in> {8, 9} then decodeDPImm bits
           else if opcodeType \<in> {10, 11} then decodeSystemOrBranch bits
           else if opcodeType \<in> {4, 6, 12, 14} then decodeLoadStore bits
           else if opcodeType \<in> {5, 13} then decodeDPReg bits
           else if opcodeType \<in> {7, 15} then decodeFloatOrSIMD bits
           else ID_INVALID),
      di_inst = bits\<rparr>"

end
