(* ===== verification/Decode_Laws.thy ===== *)
theory Decode_Laws
  imports Decoder
begin

text \<open>
  What it means for the hand-written decoder to agree with the instruction list, section by section:
  \<open>sec_complete\<close> (a word that matches an entry is decoded to that entry or a later one: only
  \<^verbatim>\<open>HINT\<close> overlaps with later entries, \<^verbatim>\<open>NOP\<close> to \<^verbatim>\<open>SEVL\<close>) and \<open>sec_sound\<close> (an
  identifier other than \<^verbatim>\<open>INVALID\<close> that a decision function returns has a matching entry). The locale
  \<open>decode_table\<close> derives from the two that scanning the table computes the same function as the
  decision functions.
\<close>

unbundle bit_operations_syntax

lemma field_sets:
  fixes w :: u32
  shows "bitRange 25 28 w \<in> {0, 1, 2, 3} \<longleftrightarrow> \<not> bit w 28 \<and> \<not> bit w 27"
    and "bitRange 25 28 w \<in> {8, 9} \<longleftrightarrow> bit w 28 \<and> \<not> bit w 27 \<and> \<not> bit w 26"
    and "bitRange 25 28 w \<in> {10, 11} \<longleftrightarrow> bit w 28 \<and> \<not> bit w 27 \<and> bit w 26"
    and "bitRange 25 28 w \<in> {4, 6, 12, 14} \<longleftrightarrow> bit w 27 \<and> \<not> bit w 25"
    and "bitRange 25 28 w \<in> {5, 13} \<longleftrightarrow> bit w 27 \<and> \<not> bit w 26 \<and> bit w 25"
    and "bitRange 25 28 w \<in> {7, 15} \<longleftrightarrow> bit w 27 \<and> bit w 26 \<and> bit w 25"
    and "bitRange 28 31 w \<in> {1, 3, 9, 11} \<longleftrightarrow> bit w 28 \<and> \<not> bit w 30"
    and "bitRange 28 31 w \<in> {8, 10, 12, 13, 14, 15} \<longleftrightarrow> bit w 31 \<and> (bit w 30 \<or> \<not> bit w 28)"
    and "bitRange 28 31 w \<in> {0, 2, 4, 5, 6, 7} \<longleftrightarrow> \<not> bit w 31 \<and> (bit w 30 \<or> \<not> bit w 28)"
    and "bitRange 29 31 w \<in> {0, 4} \<longleftrightarrow> \<not> bit w 30 \<and> \<not> bit w 29"
    and "bitRange 29 31 w \<in> {1, 5} \<longleftrightarrow> \<not> bit w 30 \<and> bit w 29"
    and "bitRange 29 31 w \<in> {3, 7} \<longleftrightarrow> bit w 30 \<and> bit w 29"
    and "bitRange 23 25 w \<in> {0, 1} \<longleftrightarrow> \<not> bit w 25 \<and> \<not> bit w 24"
    and "bitRange 23 25 w \<in> {2, 3} \<longleftrightarrow> \<not> bit w 25 \<and> bit w 24"
    and "bitRange 21 24 w \<in> {0, 1, 2, 3, 4, 5, 6, 7} \<longleftrightarrow> \<not> bit w 24"
    and "bitRange 21 24 w \<in> {8, 9, 10, 11, 12, 13, 14, 15} \<longleftrightarrow> bit w 24"
    and "bitRange 21 24 w \<in> {1, 3, 5, 7} \<longleftrightarrow> \<not> bit w 24 \<and> bit w 21"
    and "bitRange 21 24 w \<in> {8, 10, 12, 14} \<longleftrightarrow> bit w 24 \<and> \<not> bit w 21"
    and "bitRange 21 24 w \<in> {9, 11, 13, 15} \<longleftrightarrow> bit w 24 \<and> bit w 21"
    and "bitRange 12 15 w \<in> {0, 2, 4, 6} \<longleftrightarrow> \<not> bit w 15 \<and> \<not> bit w 12"
    and "bitRange 12 15 w \<in> {1, 3, 5, 7} \<longleftrightarrow> \<not> bit w 15 \<and> bit w 12"
    and "bitRange 12 15 w \<in> {8, 10} \<longleftrightarrow> bit w 15 \<and> \<not> bit w 14 \<and> \<not> bit w 12"
    and "bitRange 12 15 w \<in> {9, 11} \<longleftrightarrow> bit w 15 \<and> \<not> bit w 14 \<and> bit w 12"
    and "bitRange 12 15 w \<in> {12, 13} \<longleftrightarrow> bit w 15 \<and> bit w 14 \<and> \<not> bit w 13"
    and "bitRange 5 7 w \<in> {6, 7} \<longleftrightarrow> bit w 7 \<and> bit w 6"
  by (auto simp: bit_lits)

lemma field_orders:
  fixes w :: u32
  shows "8 < bitRange 12 15 w \<longleftrightarrow> bit w 15 \<and> (bit w 14 \<or> bit w 13 \<or> bit w 12)"
    and "15 < bitRange 15 20 w \<longleftrightarrow> bit w 20 \<or> bit w 19"
    and "4 < bitRange 10 12 w \<longleftrightarrow> bit w 12 \<and> (bit w 11 \<or> bit w 10)"
proof -
  have 8: "x < 16 \<Longrightarrow> 8 < x \<longleftrightarrow> x = 9 \<or> x = 10 \<or> x = 11 \<or> x = 12 \<or> x = 13 \<or> x = 14 \<or> x = 15"
    for x :: u32 by unat_arith
  have 4: "x < 8 \<Longrightarrow> 4 < x \<longleftrightarrow> x = 5 \<or> x = 6 \<or> x = 7" for x :: u32
    by unat_arith
  have 15: "15 < x \<longleftrightarrow> \<not> x < 2 ^ 4" for x :: u32
    by (simp, unat_arith)
  have lt: "bitRange 12 15 w < 16" "bitRange 10 12 w < 8"
    using bitRange_less_size [of 12 15 w] bitRange_less_size [of 10 12 w] by simp_all
  show "8 < bitRange 12 15 w \<longleftrightarrow> bit w 15 \<and> (bit w 14 \<or> bit w 13 \<or> bit w 12)"
    unfolding 8 [OF lt(1)] by (auto simp: bit_lits)
  show "15 < bitRange 15 20 w \<longleftrightarrow> bit w 20 \<or> bit w 19"
    unfolding 15 using bitRange_less_exp [of 15 4 20 w] by (auto simp: bit_lits)
  show "4 < bitRange 10 12 w \<longleftrightarrow> bit w 12 \<and> (bit w 11 \<or> bit w 10)"
    unfolding 4 [OF lt(2)] by (auto simp: bit_lits)
qed

lemmas field_tests = Let_def field_sets field_orders

lemma decode_class:
  shows "bit w 28 \<Longrightarrow> \<not> bit w 27 \<Longrightarrow> \<not> bit w 26 \<Longrightarrow> di_id (decode w) = decodeDPImm w"
    and "bit w 28 \<Longrightarrow> \<not> bit w 27 \<Longrightarrow> bit w 26 \<Longrightarrow> di_id (decode w) = decodeSystemOrBranch w"
    and "bit w 27 \<Longrightarrow> \<not> bit w 25 \<Longrightarrow> di_id (decode w) = decodeLoadStore w"
    and "bit w 27 \<Longrightarrow> \<not> bit w 26 \<Longrightarrow> bit w 25 \<Longrightarrow> di_id (decode w) = decodeDPReg w"
    and "bit w 27 \<Longrightarrow> bit w 26 \<Longrightarrow> bit w 25 \<Longrightarrow> bit w 28 \<Longrightarrow> \<not> bit w 30 \<Longrightarrow>
      di_id (decode w) = decodeFloat w"
    and "bit w 27 \<Longrightarrow> bit w 26 \<Longrightarrow> bit w 25 \<Longrightarrow> \<not> bit w 31 \<Longrightarrow> \<not> bit w 28 \<or> bit w 30 \<Longrightarrow>
      di_id (decode w) = decodeSIMD w"
  by (auto simp add: decode_def decodeFloatOrSIMD_def Let_def field_sets simp del: insert_iff)

subsection \<open>Entries\<close>

lemma INST_simps:
  "fst (INST i m v a b) = i"
  "entry_matches (snd (INST i m v a b)) w \<longleftrightarrow>
     w AND m = v \<and> list_all (\<lambda>mask. w AND mask \<noteq> 0) a \<and> list_all (\<lambda>mask. w AND mask \<noteq> mask) b"
  by (simp_all add: INST_def entry_matches_def)

lemmas all_sections =
  insts_Branch_def
  insts_Exception_Generating_def
  insts_System_def
  insts_PC_rel_addressing_def
  insts_Add_subtract_immediate_def
  insts_Logical_immediate_def
  insts_Move_wide_immediate_def
  insts_Bitfield_def
  insts_Extract_def
  insts_Data_processing_2_source_def
  insts_Data_processing_1_source_def
  insts_Logical_shifted_register_def
  insts_Add_subtract_shifted_register_def
  insts_Add_subtract_extended_register_def
  insts_Add_subtract_with_carry_def
  insts_Conditional_compare_register_def
  insts_Conditional_compare_immediate_def
  insts_Conditional_select_def
  insts_Data_processing_3_source_def
  insts_Advanced_SIMD_load_store_multiple_structures_def
  insts_Advanced_SIMD_load_store_multiple_structures_post_indexed_def
  insts_Advanced_SIMD_load_store_single_structure_def
  insts_Advanced_SIMD_load_store_single_structure_post_indexed_def
  insts_Load_store_exclusive_def
  insts_Load_register_literal_def
  insts_Load_store_no_allocate_pair_offset_def
  insts_Load_store_register_pair_post_indexed_def
  insts_Load_store_register_pair_offset_def
  insts_Load_store_register_pair_pre_indexed_def
  insts_Load_store_register_unscaled_immediate_def
  insts_Load_store_register_immediate_post_indexed_def
  insts_Load_store_register_unprivileged_def
  insts_Load_store_register_immediate_pre_indexed_def
  insts_Load_store_register_register_offset_def
  insts_Load_store_register_unsigned_immediate_def
  insts_Conversion_between_floating_point_and_fixed_point_def
  insts_Conversion_between_floating_point_and_integer_def
  insts_Floating_point_data_processing_1_source_def
  insts_Floating_point_compare_def
  insts_Floating_point_immediate_def
  insts_Floating_point_conditional_compare_def
  insts_Floating_point_data_processing_2_source_def
  insts_Floating_point_conditional_select_def
  insts_Floating_point_data_processing_3_source_def
  insts_Cryptographic_AES_def
  insts_Cryptographic_three_register_SHA_def
  insts_Cryptographic_two_register_SHA_def
  insts_Advanced_SIMD_scalar_copy_def
  insts_Advanced_SIMD_scalar_two_register_miscellaneous_def
  insts_Advanced_SIMD_scalar_pairwise_def
  insts_Advanced_SIMD_scalar_three_different_def
  insts_Advanced_SIMD_scalar_three_same_def
  insts_Advanced_SIMD_scalar_shift_by_immediate_def
  insts_Advanced_SIMD_scalar_x_indexed_element_def
  insts_Advanced_SIMD_table_lookup_def
  insts_Advanced_SIMD_permute_def
  insts_Advanced_SIMD_extract_def
  insts_Advanced_SIMD_copy_def
  insts_Advanced_SIMD_two_register_miscellaneous_def
  insts_Advanced_SIMD_across_lanes_def
  insts_Advanced_SIMD_three_different_def
  insts_Advanced_SIMD_three_same_def
  insts_Advanced_SIMD_modified_immediate_def
  insts_Advanced_SIMD_shift_by_immediate_def
  insts_Advanced_SIMD_vector_x_indexed_element_def

definition sec_complete :: "(instructionID \<times> instructionDecodeInfo) list \<Rightarrow> u32 \<Rightarrow> bool" where
  "sec_complete sec w \<longleftrightarrow>
     list_all (\<lambda>x. entry_matches (snd x) w \<longrightarrow>
       di_id (decode w) = fst x \<or> fst x = ID_HINT \<and> ID_HINT < di_id (decode w)) sec"

fun matches_id :: "(instructionID \<times> instructionDecodeInfo) list \<Rightarrow> instructionID \<Rightarrow> u32 \<Rightarrow> bool" where
  "matches_id [] i w = False"
| "matches_id (x # sec) i w = (if i = fst x then entry_matches (snd x) w else matches_id sec i w)"

definition sec_sound :: "(instructionID \<times> instructionDecodeInfo) list \<Rightarrow> u32 \<Rightarrow> instructionID \<Rightarrow> bool" where
  "sec_sound sec w i \<longleftrightarrow> i = 0 \<or> matches_id sec i w"

lemma sec_sound_simps:
  "sec_sound sec w (if c then i else j) \<longleftrightarrow> (c \<longrightarrow> sec_sound sec w i) \<and> (\<not> c \<longrightarrow> sec_sound sec w j)"
  "sec_sound sec w 0"
  "sec_sound sec w (numeral n) \<longleftrightarrow> matches_id sec (numeral n) w"
  by (auto simp: sec_sound_def)

lemma matches_id_mem: "matches_id sec i w \<Longrightarrow> \<exists>e. (i, e) \<in> set sec \<and> entry_matches e w"
  by (induction sec i w rule: matches_id.induct) (auto split: if_splits)

lemma matches_id_entries:
  "distinct (map fst sec) \<Longrightarrow> x \<in> set sec \<Longrightarrow> matches_id sec (fst x) w = entry_matches (snd x) w"
  by (induction sec) (auto simp: rev_image_eqI)

lemma matches_id_rules:
  assumes "sec = xs" and "map fst sec = [a..<b]"
  shows "list_all (\<lambda>x. matches_id sec (fst x) w = entry_matches (snd x) w) xs"
  using matches_id_entries [of sec] assms by (auto simp: list_all_iff)

lemma sec_sound_mem:
  "sec_sound sec w i \<Longrightarrow> set sec \<subseteq> set insts \<Longrightarrow> i = 0 \<or> (\<exists>e. (i, e) \<in> set insts \<and> entry_matches e w)"
  using matches_id_mem unfolding sec_sound_def by blast

lemma sec_complete_append: "sec_complete (xs @ ys) w \<longleftrightarrow> sec_complete xs w \<and> sec_complete ys w"
  by (simp add: sec_complete_def)

subsection \<open>A decision procedure and a table that agree\<close>

text \<open>
  The contract between a decision procedure \<open>dec\<close> and an instruction list \<open>insts\<close>: the list is
  numbered from 1 in order, no entry after the one \<open>dec\<close> chooses matches, and what \<open>dec\<close> chooses
  is 0 or a matching entry.
\<close>

locale decode_table =
  fixes insts :: "(instructionID \<times> instructionDecodeInfo) list"
    and dec :: "u32 \<Rightarrow> instructionID"
  assumes ids: "map fst insts = [1..<Suc (length insts)]"
    and complete: "(i, e) \<in> set insts \<Longrightarrow> entry_matches e w \<Longrightarrow> i \<le> dec w"
    and sound: "dec w = 0 \<or> (\<exists>e. (dec w, e) \<in> set insts \<and> entry_matches e w)"
begin

lemma entry_id: "k < length insts \<Longrightarrow> fst (insts ! k) = Suc k"
  using arg_cong [OF ids, of "\<lambda>xs. xs ! k"] by (simp del: upt_Suc)

lemma entry_matches_iff:
  assumes n: "n < length insts"
  shows "dec w = Suc n \<Longrightarrow> entry_matches (snd (insts ! n)) w"
    and "entry_matches (snd (insts ! n)) w \<Longrightarrow> Suc n \<le> dec w"
proof -
  have mem: "(Suc n, snd (insts ! n)) \<in> set insts"
    using nth_mem [OF n] entry_id [OF n] by (metis prod.collapse)
  then show "entry_matches (snd (insts ! n)) w \<Longrightarrow> Suc n \<le> dec w"
    by (rule complete)
  assume "dec w = Suc n"
  then obtain e where "(Suc n, e) \<in> set insts" and "entry_matches e w"
    using sound [of w] by auto
  moreover have "distinct (map fst insts)" by (simp add: ids del: upt_Suc)
  ultimately show "entry_matches (snd (insts ! n)) w"
    using mem by (metis eq_key_imp_eq_value)
qed

lemma loop_invariant:
  "n + length xs = length insts \<Longrightarrow> drop n insts = xs \<Longrightarrow> dec w \<le> length insts \<Longrightarrow>
   decode2_loop (Suc n) (map snd xs) w j = (if n < dec w then dec w else j)"
proof (induction xs arbitrary: n j)
  case (Cons x xs)
  then have n: "n < length insts" by auto
  then have x: "x = insts ! n" and xs: "drop (Suc n) insts = xs"
    using Cons.prems(2) by (simp_all add: Cons_nth_drop_Suc [symmetric])
  show ?case
    using Cons.IH [of "Suc n"] Cons.prems(1,3) xs entry_matches_iff [OF n, of w] x by auto
qed simp

lemma dec_range: "dec w \<le> length insts"
proof -
  have "fst ` set insts = {1..<Suc (length insts)}"
    using ids by (metis atLeastLessThan_upt image_set)
  then have "(i, e) \<in> set insts \<Longrightarrow> i \<le> length insts" for i e
    using rev_image_eqI [of "(i, e)" "set insts" i fst] by auto
  then show ?thesis using sound [of w] by auto
qed

lemma scan_eq_dec: "decode2_loop 0 (info # map snd insts) w 0 = dec w"
  using loop_invariant [of 0 insts w 0] dec_range [of w] by auto

lemma match_last:
  "(i, e) \<in> set insts \<Longrightarrow> entry_matches e w \<Longrightarrow>
   (\<And>j f. (j, f) \<in> set insts \<Longrightarrow> entry_matches f w \<Longrightarrow> j \<le> i) \<Longrightarrow> dec w = i"
  using complete [of i e w] sound [of w] by (metis antisym le_zero_eq)

end

text \<open>
  \<^verbatim>\<open>init\<close> fills the table in the order of the identifiers, so for a list numbered from 1 the table is
  the default entry followed by the entries of the list.
\<close>

lemma fill_table:
  "map fst xs = [n..<n + length xs] \<Longrightarrow> length tab = n + length xs \<Longrightarrow>
   fold (\<lambda>(x, info) tab. tab[x := info]) xs tab = take n tab @ map snd xs"
proof (induction xs arbitrary: n tab)
  case (Cons x xs)
  have up: "[n..<n + length (x # xs)] = n # [Suc n..<Suc n + length xs]"
    by (simp add: upt_conv_Cons del: upt_Suc)
  with Cons.prems have "fst x = n" and tl: "map fst xs = [Suc n..<Suc n + length xs]"
    by (simp_all del: upt_Suc)
  moreover have "take (Suc n) (tab[n := snd x]) = take n tab @ [snd x]"
    using Cons.prems(2) by (simp add: take_Suc_conv_app_nth)
  ultimately show ?case
    using Cons.IH [OF tl, of "tab[n := snd x]"] Cons.prems(2) by (simp add: case_prod_beta)
qed simp

end
