(* ===== verification/Decode_Complete.thy ===== *)
theory Decode_Complete
  imports Decode_Laws
begin

text \<open>
  Completeness of the hand-written decoder, section by section of the instruction list: a word that
  matches an entry is decoded to the identifier of that entry, or the entry is \<^verbatim>\<open>HINT\<close> and the word is a later, more special hint. Each bundle holds the decision
  functions of one source file with the tests of their \<^verbatim>\<open>switch\<close> labels as literals.
\<close>

lemmas dpimm_defs =
  decodePCRel_def [unfolded field_tests]
  decodeAddSubImm_def [unfolded field_tests]
  decodeLogicalImm_def [unfolded field_tests]
  decodeMoveWide_def [unfolded field_tests]
  decodeBitfield_def [unfolded field_tests]
  decodeExtract_def [unfolded field_tests]
  decodeDPImm_def [unfolded field_tests]

lemmas dpreg_defs =
  decodeDP2Source_def [unfolded field_tests]
  decodeDP1Source_def [unfolded field_tests]
  decodeLogicalReg_def [unfolded field_tests]
  decodeAddSubShifted_def [unfolded field_tests]
  decodeAddSubExtended_def [unfolded field_tests]
  decodeAddSubCarry_def [unfolded field_tests]
  decodeCondCmpReg_def [unfolded field_tests]
  decodeCondCmpImm_def [unfolded field_tests]
  decodeCondSel_def [unfolded field_tests]
  decodeDP3Source_def [unfolded field_tests]
  decodeDPReg_def [unfolded field_tests]

lemmas system_defs =
  decodeSystem_def [unfolded field_tests]
  decodeExceptionGenerating_def [unfolded field_tests]
  decodeSystemOrBranch_def [unfolded field_tests]

lemmas loadstore_defs =
  decodeLoadStoreSIMDMultipleStructs_def [unfolded field_tests]
  decodeLoadStoreSIMDMultipleStructsPostIndex_def [unfolded field_tests]
  decodeLoadStoreSIMDSingleStruct_def [unfolded field_tests]
  decodeLoadStoreSIMDSingleStructPostIndex_def [unfolded field_tests]
  decodeLoadStoreExclusive_def [unfolded field_tests]
  decodeLoadStoreUnprivileged_def [unfolded field_tests]
  decodeLoadStoreRegUnsignedImm_def [unfolded field_tests]
  decodeLoadStoreRegImmPostIndex_def [unfolded field_tests]
  decodeLoadStoreRegImmPreIndex_def [unfolded field_tests]
  decodeLoadStoreRegUnscaled_def [unfolded field_tests]
  decodeLoadStorePair_def [unfolded field_tests]
  decodeLoadStoreRegOff_def [unfolded field_tests]
  decodeLoadRegLiteral_def [unfolded field_tests]
  decodeLoadStore_def [unfolded field_tests]

lemmas float_defs =
  decodeConvertFloatAndFixed_def [unfolded field_tests]
  decodeConvertFloatAndInt_def [unfolded field_tests]
  decodeFloatDP1Source_def [unfolded field_tests]
  decodeFloatCmp_def [unfolded field_tests]
  decodeFloatImm_def [unfolded field_tests]
  decodeFloatCondCmp_def [unfolded field_tests]
  decodeFloatDP2Source_def [unfolded field_tests]
  decodeFloatCondSel_def [unfolded field_tests]
  decodeFloatDP3Source_def [unfolded field_tests]
  decodeFloat_def [unfolded field_tests]

lemmas simd_defs =
  decodeCryptographicAES_def [unfolded field_tests]
  decodeCryptographic3Reg_def [unfolded field_tests]
  decodeCryptographic2Reg_def [unfolded field_tests]
  decodeSIMDScalarCopy_def [unfolded field_tests]
  decodeSIMDScalar2Reg_def [unfolded field_tests]
  decodeSIMDScalarPairwise_def [unfolded field_tests]
  decodeSIMDScalar3Different_def [unfolded field_tests]
  decodeSIMDScalar3Same_def [unfolded field_tests]
  decodeSIMDScalarShiftImmediate_def [unfolded field_tests]
  decodeSIMDScalarXIndexed_def [unfolded field_tests]
  decodeSIMDTableLookup_def [unfolded field_tests]
  decodeSIMDPermute_def [unfolded field_tests]
  decodeSIMDExtract_def [unfolded field_tests]
  decodeSIMDCopy_def [unfolded field_tests]
  decodeSIMD2Reg_def [unfolded field_tests]
  decodeSIMDAcrossLanes_def [unfolded field_tests]
  decodeSIMD3Different_def [unfolded field_tests]
  decodeSIMD3Same_def [unfolded field_tests]
  decodeSIMDModifiedImmediate_def [unfolded field_tests]
  decodeSIMDShiftImmediate_def [unfolded field_tests]
  decodeSIMDVectorXIndexed_def [unfolded field_tests]
  decodeSIMD_def [unfolded field_tests]

lemma insts_Branch_complete: "sec_complete insts_Branch w"
  by (simp add: sec_complete_def insts_Branch_def
      INST_simps decode_class system_defs bit_lits)

lemma insts_Exception_Generating_complete: "sec_complete insts_Exception_Generating w"
  by (simp add: sec_complete_def insts_Exception_Generating_def
      INST_simps decode_class system_defs bit_lits)

lemma insts_System_complete: "sec_complete insts_System w"
  by (cases "bit w 5"; cases "bit w 6"; cases "bit w 7"; simp add: sec_complete_def insts_System_def
      INST_simps decode_class system_defs bit_lits)

lemma insts_PC_rel_addressing_complete: "sec_complete insts_PC_rel_addressing w"
  by (simp add: sec_complete_def insts_PC_rel_addressing_def
      INST_simps decode_class dpimm_defs bit_lits)

lemma insts_Add_subtract_immediate_complete: "sec_complete insts_Add_subtract_immediate w"
  by (simp add: sec_complete_def insts_Add_subtract_immediate_def
      INST_simps decode_class dpimm_defs bit_lits)

lemma insts_Logical_immediate_complete: "sec_complete insts_Logical_immediate w"
  by (simp add: sec_complete_def insts_Logical_immediate_def
      INST_simps decode_class dpimm_defs bit_lits)

lemma insts_Move_wide_immediate_complete: "sec_complete insts_Move_wide_immediate w"
  by (simp add: sec_complete_def insts_Move_wide_immediate_def
      INST_simps decode_class dpimm_defs bit_lits)

lemma insts_Bitfield_complete: "sec_complete insts_Bitfield w"
  by (simp add: sec_complete_def insts_Bitfield_def
      INST_simps decode_class dpimm_defs bit_lits)

lemma insts_Extract_complete: "sec_complete insts_Extract w"
  by (simp add: sec_complete_def insts_Extract_def
      INST_simps decode_class dpimm_defs bit_lits)

lemma insts_Data_processing_2_source_complete: "sec_complete insts_Data_processing_2_source w"
  by (simp add: sec_complete_def insts_Data_processing_2_source_def
      INST_simps decode_class dpreg_defs bit_lits)

lemma insts_Data_processing_1_source_complete: "sec_complete insts_Data_processing_1_source w"
  by (simp add: sec_complete_def insts_Data_processing_1_source_def
      INST_simps decode_class dpreg_defs bit_lits)

lemma insts_Logical_shifted_register_complete: "sec_complete insts_Logical_shifted_register w"
  by (simp add: sec_complete_def insts_Logical_shifted_register_def
      INST_simps decode_class dpreg_defs bit_lits)

lemma insts_Add_subtract_shifted_register_complete: "sec_complete insts_Add_subtract_shifted_register w"
  by (simp add: sec_complete_def insts_Add_subtract_shifted_register_def
      INST_simps decode_class dpreg_defs bit_lits)

lemma insts_Add_subtract_extended_register_complete: "sec_complete insts_Add_subtract_extended_register w"
  by (simp add: sec_complete_def insts_Add_subtract_extended_register_def
      INST_simps decode_class dpreg_defs bit_lits)

lemma insts_Add_subtract_with_carry_complete: "sec_complete insts_Add_subtract_with_carry w"
  by (simp add: sec_complete_def insts_Add_subtract_with_carry_def
      INST_simps decode_class dpreg_defs bit_lits)

lemma insts_Conditional_compare_register_complete: "sec_complete insts_Conditional_compare_register w"
  by (simp add: sec_complete_def insts_Conditional_compare_register_def
      INST_simps decode_class dpreg_defs bit_lits)

lemma insts_Conditional_compare_immediate_complete: "sec_complete insts_Conditional_compare_immediate w"
  by (simp add: sec_complete_def insts_Conditional_compare_immediate_def
      INST_simps decode_class dpreg_defs bit_lits)

lemma insts_Conditional_select_complete: "sec_complete insts_Conditional_select w"
  by (simp add: sec_complete_def insts_Conditional_select_def
      INST_simps decode_class dpreg_defs bit_lits)

lemma insts_Data_processing_3_source_complete: "sec_complete insts_Data_processing_3_source w"
  by (simp add: sec_complete_def insts_Data_processing_3_source_def
      INST_simps decode_class dpreg_defs bit_lits)

lemma insts_Advanced_SIMD_load_store_multiple_structures_complete: "sec_complete insts_Advanced_SIMD_load_store_multiple_structures w"
  by (simp add: sec_complete_def insts_Advanced_SIMD_load_store_multiple_structures_def
      INST_simps decode_class loadstore_defs bit_lits)

lemma insts_Advanced_SIMD_load_store_multiple_structures_post_indexed_complete: "sec_complete insts_Advanced_SIMD_load_store_multiple_structures_post_indexed w"
  by (simp add: sec_complete_def insts_Advanced_SIMD_load_store_multiple_structures_post_indexed_def
      INST_simps decode_class loadstore_defs bit_lits)

lemma insts_Advanced_SIMD_load_store_single_structure_complete: "sec_complete insts_Advanced_SIMD_load_store_single_structure w"
  by (simp add: sec_complete_def insts_Advanced_SIMD_load_store_single_structure_def
      INST_simps decode_class loadstore_defs bit_lits)

lemma insts_Advanced_SIMD_load_store_single_structure_post_indexed_complete: "sec_complete insts_Advanced_SIMD_load_store_single_structure_post_indexed w"
  by (simp add: sec_complete_def insts_Advanced_SIMD_load_store_single_structure_post_indexed_def
      INST_simps decode_class loadstore_defs bit_lits)

lemma insts_Load_store_exclusive_complete: "sec_complete insts_Load_store_exclusive w"
  by (simp add: sec_complete_def insts_Load_store_exclusive_def
      INST_simps decode_class loadstore_defs bit_lits)

lemma insts_Load_register_literal_complete: "sec_complete insts_Load_register_literal w"
  by (simp add: sec_complete_def insts_Load_register_literal_def
      INST_simps decode_class loadstore_defs bit_lits)

lemma insts_Load_store_no_allocate_pair_offset_complete: "sec_complete insts_Load_store_no_allocate_pair_offset w"
  by (simp add: sec_complete_def insts_Load_store_no_allocate_pair_offset_def
      INST_simps decode_class loadstore_defs bit_lits)

lemma insts_Load_store_register_pair_post_indexed_complete: "sec_complete insts_Load_store_register_pair_post_indexed w"
  by (simp add: sec_complete_def insts_Load_store_register_pair_post_indexed_def
      INST_simps decode_class loadstore_defs bit_lits)

lemma insts_Load_store_register_pair_offset_complete: "sec_complete insts_Load_store_register_pair_offset w"
  by (simp add: sec_complete_def insts_Load_store_register_pair_offset_def
      INST_simps decode_class loadstore_defs bit_lits)

lemma insts_Load_store_register_pair_pre_indexed_complete: "sec_complete insts_Load_store_register_pair_pre_indexed w"
  by (simp add: sec_complete_def insts_Load_store_register_pair_pre_indexed_def
      INST_simps decode_class loadstore_defs bit_lits)

lemma insts_Load_store_register_unscaled_immediate_complete: "sec_complete insts_Load_store_register_unscaled_immediate w"
  by (simp add: sec_complete_def insts_Load_store_register_unscaled_immediate_def
      INST_simps decode_class loadstore_defs bit_lits)

lemma insts_Load_store_register_immediate_post_indexed_complete: "sec_complete insts_Load_store_register_immediate_post_indexed w"
  by (simp add: sec_complete_def insts_Load_store_register_immediate_post_indexed_def
      INST_simps decode_class loadstore_defs bit_lits)

lemma insts_Load_store_register_unprivileged_complete: "sec_complete insts_Load_store_register_unprivileged w"
  by (simp add: sec_complete_def insts_Load_store_register_unprivileged_def
      INST_simps decode_class loadstore_defs bit_lits)

lemma insts_Load_store_register_immediate_pre_indexed_complete: "sec_complete insts_Load_store_register_immediate_pre_indexed w"
  by (simp add: sec_complete_def insts_Load_store_register_immediate_pre_indexed_def
      INST_simps decode_class loadstore_defs bit_lits)

lemma insts_Load_store_register_register_offset_complete: "sec_complete insts_Load_store_register_register_offset w"
  by (simp add: sec_complete_def insts_Load_store_register_register_offset_def
      INST_simps decode_class loadstore_defs bit_lits)

lemma insts_Load_store_register_unsigned_immediate_complete: "sec_complete insts_Load_store_register_unsigned_immediate w"
  by (simp add: sec_complete_def insts_Load_store_register_unsigned_immediate_def
      INST_simps decode_class loadstore_defs bit_lits)

lemma insts_Conversion_between_floating_point_and_fixed_point_complete: "sec_complete insts_Conversion_between_floating_point_and_fixed_point w"
  by (simp add: sec_complete_def insts_Conversion_between_floating_point_and_fixed_point_def
      INST_simps decode_class float_defs bit_lits)

lemma insts_Conversion_between_floating_point_and_integer_complete: "sec_complete insts_Conversion_between_floating_point_and_integer w"
  by (simp add: sec_complete_def insts_Conversion_between_floating_point_and_integer_def
      INST_simps decode_class float_defs bit_lits)

lemma insts_Floating_point_data_processing_1_source_complete: "sec_complete insts_Floating_point_data_processing_1_source w"
  by (simp add: sec_complete_def insts_Floating_point_data_processing_1_source_def
      INST_simps decode_class float_defs bit_lits)

lemma insts_Floating_point_compare_complete: "sec_complete insts_Floating_point_compare w"
  by (simp add: sec_complete_def insts_Floating_point_compare_def
      INST_simps decode_class float_defs bit_lits)

lemma insts_Floating_point_immediate_complete: "sec_complete insts_Floating_point_immediate w"
  by (simp add: sec_complete_def insts_Floating_point_immediate_def
      INST_simps decode_class float_defs bit_lits)

lemma insts_Floating_point_conditional_compare_complete: "sec_complete insts_Floating_point_conditional_compare w"
  by (simp add: sec_complete_def insts_Floating_point_conditional_compare_def
      INST_simps decode_class float_defs bit_lits)

lemma insts_Floating_point_data_processing_2_source_complete: "sec_complete insts_Floating_point_data_processing_2_source w"
  by (simp add: sec_complete_def insts_Floating_point_data_processing_2_source_def
      INST_simps decode_class float_defs bit_lits)

lemma insts_Floating_point_conditional_select_complete: "sec_complete insts_Floating_point_conditional_select w"
  by (simp add: sec_complete_def insts_Floating_point_conditional_select_def
      INST_simps decode_class float_defs bit_lits)

lemma insts_Floating_point_data_processing_3_source_complete: "sec_complete insts_Floating_point_data_processing_3_source w"
  by (simp add: sec_complete_def insts_Floating_point_data_processing_3_source_def
      INST_simps decode_class float_defs bit_lits)

lemma insts_Cryptographic_AES_complete: "sec_complete insts_Cryptographic_AES w"
  by (simp add: sec_complete_def insts_Cryptographic_AES_def
      INST_simps decode_class simd_defs bit_lits)

lemma insts_Cryptographic_three_register_SHA_complete: "sec_complete insts_Cryptographic_three_register_SHA w"
  by (simp add: sec_complete_def insts_Cryptographic_three_register_SHA_def
      INST_simps decode_class simd_defs bit_lits)

lemma insts_Cryptographic_two_register_SHA_complete: "sec_complete insts_Cryptographic_two_register_SHA w"
  by (simp add: sec_complete_def insts_Cryptographic_two_register_SHA_def
      INST_simps decode_class simd_defs bit_lits)

lemma insts_Advanced_SIMD_scalar_copy_complete: "sec_complete insts_Advanced_SIMD_scalar_copy w"
  by (simp add: sec_complete_def insts_Advanced_SIMD_scalar_copy_def
      INST_simps decode_class simd_defs bit_lits)

lemma insts_Advanced_SIMD_scalar_two_register_miscellaneous_complete: "sec_complete insts_Advanced_SIMD_scalar_two_register_miscellaneous w"
  by (simp add: sec_complete_def insts_Advanced_SIMD_scalar_two_register_miscellaneous_def
      INST_simps decode_class simd_defs bit_lits)

lemma insts_Advanced_SIMD_scalar_pairwise_complete: "sec_complete insts_Advanced_SIMD_scalar_pairwise w"
  by (simp add: sec_complete_def insts_Advanced_SIMD_scalar_pairwise_def
      INST_simps decode_class simd_defs bit_lits)

lemma insts_Advanced_SIMD_scalar_three_different_complete: "sec_complete insts_Advanced_SIMD_scalar_three_different w"
  by (simp add: sec_complete_def insts_Advanced_SIMD_scalar_three_different_def
      INST_simps decode_class simd_defs bit_lits)

lemma insts_Advanced_SIMD_scalar_three_same_complete: "sec_complete insts_Advanced_SIMD_scalar_three_same w"
  by (simp add: sec_complete_def insts_Advanced_SIMD_scalar_three_same_def
      INST_simps decode_class simd_defs bit_lits)

lemma insts_Advanced_SIMD_scalar_shift_by_immediate_complete: "sec_complete insts_Advanced_SIMD_scalar_shift_by_immediate w"
  by (simp add: sec_complete_def insts_Advanced_SIMD_scalar_shift_by_immediate_def
      INST_simps decode_class simd_defs bit_lits)

lemma insts_Advanced_SIMD_scalar_x_indexed_element_complete: "sec_complete insts_Advanced_SIMD_scalar_x_indexed_element w"
  by (simp add: sec_complete_def insts_Advanced_SIMD_scalar_x_indexed_element_def
      INST_simps decode_class simd_defs bit_lits)

lemma insts_Advanced_SIMD_table_lookup_complete: "sec_complete insts_Advanced_SIMD_table_lookup w"
  by (simp add: sec_complete_def insts_Advanced_SIMD_table_lookup_def
      INST_simps decode_class simd_defs bit_lits)

lemma insts_Advanced_SIMD_permute_complete: "sec_complete insts_Advanced_SIMD_permute w"
  by (simp add: sec_complete_def insts_Advanced_SIMD_permute_def
      INST_simps decode_class simd_defs bit_lits)

lemma insts_Advanced_SIMD_extract_complete: "sec_complete insts_Advanced_SIMD_extract w"
  by (simp add: sec_complete_def insts_Advanced_SIMD_extract_def
      INST_simps decode_class simd_defs bit_lits)

lemma insts_Advanced_SIMD_copy_complete: "sec_complete insts_Advanced_SIMD_copy w"
  by (simp add: sec_complete_def insts_Advanced_SIMD_copy_def
      INST_simps decode_class simd_defs bit_lits)

lemma insts_Advanced_SIMD_two_register_miscellaneous_complete: "sec_complete insts_Advanced_SIMD_two_register_miscellaneous w"
  by (simp add: sec_complete_def insts_Advanced_SIMD_two_register_miscellaneous_def
      INST_simps decode_class simd_defs bit_lits)

lemma insts_Advanced_SIMD_across_lanes_complete: "sec_complete insts_Advanced_SIMD_across_lanes w"
  by (simp add: sec_complete_def insts_Advanced_SIMD_across_lanes_def
      INST_simps decode_class simd_defs bit_lits)

lemma insts_Advanced_SIMD_three_different_complete: "sec_complete insts_Advanced_SIMD_three_different w"
  by (simp add: sec_complete_def insts_Advanced_SIMD_three_different_def
      INST_simps decode_class simd_defs bit_lits)

lemma insts_Advanced_SIMD_three_same_complete: "sec_complete insts_Advanced_SIMD_three_same w"
  by (simp add: sec_complete_def insts_Advanced_SIMD_three_same_def
      INST_simps decode_class simd_defs bit_lits)

lemma insts_Advanced_SIMD_modified_immediate_complete: "sec_complete insts_Advanced_SIMD_modified_immediate w"
  by (simp add: sec_complete_def insts_Advanced_SIMD_modified_immediate_def
      INST_simps decode_class simd_defs bit_lits)

lemma insts_Advanced_SIMD_shift_by_immediate_complete: "sec_complete insts_Advanced_SIMD_shift_by_immediate w"
  by (simp add: sec_complete_def insts_Advanced_SIMD_shift_by_immediate_def
      INST_simps decode_class simd_defs bit_lits)

lemma insts_Advanced_SIMD_vector_x_indexed_element_complete: "sec_complete insts_Advanced_SIMD_vector_x_indexed_element w"
  by (simp add: sec_complete_def insts_Advanced_SIMD_vector_x_indexed_element_def
      INST_simps decode_class simd_defs bit_lits)

lemmas all_complete =
  insts_Branch_complete
  insts_Exception_Generating_complete
  insts_System_complete
  insts_PC_rel_addressing_complete
  insts_Add_subtract_immediate_complete
  insts_Logical_immediate_complete
  insts_Move_wide_immediate_complete
  insts_Bitfield_complete
  insts_Extract_complete
  insts_Data_processing_2_source_complete
  insts_Data_processing_1_source_complete
  insts_Logical_shifted_register_complete
  insts_Add_subtract_shifted_register_complete
  insts_Add_subtract_extended_register_complete
  insts_Add_subtract_with_carry_complete
  insts_Conditional_compare_register_complete
  insts_Conditional_compare_immediate_complete
  insts_Conditional_select_complete
  insts_Data_processing_3_source_complete
  insts_Advanced_SIMD_load_store_multiple_structures_complete
  insts_Advanced_SIMD_load_store_multiple_structures_post_indexed_complete
  insts_Advanced_SIMD_load_store_single_structure_complete
  insts_Advanced_SIMD_load_store_single_structure_post_indexed_complete
  insts_Load_store_exclusive_complete
  insts_Load_register_literal_complete
  insts_Load_store_no_allocate_pair_offset_complete
  insts_Load_store_register_pair_post_indexed_complete
  insts_Load_store_register_pair_offset_complete
  insts_Load_store_register_pair_pre_indexed_complete
  insts_Load_store_register_unscaled_immediate_complete
  insts_Load_store_register_immediate_post_indexed_complete
  insts_Load_store_register_unprivileged_complete
  insts_Load_store_register_immediate_pre_indexed_complete
  insts_Load_store_register_register_offset_complete
  insts_Load_store_register_unsigned_immediate_complete
  insts_Conversion_between_floating_point_and_fixed_point_complete
  insts_Conversion_between_floating_point_and_integer_complete
  insts_Floating_point_data_processing_1_source_complete
  insts_Floating_point_compare_complete
  insts_Floating_point_immediate_complete
  insts_Floating_point_conditional_compare_complete
  insts_Floating_point_data_processing_2_source_complete
  insts_Floating_point_conditional_select_complete
  insts_Floating_point_data_processing_3_source_complete
  insts_Cryptographic_AES_complete
  insts_Cryptographic_three_register_SHA_complete
  insts_Cryptographic_two_register_SHA_complete
  insts_Advanced_SIMD_scalar_copy_complete
  insts_Advanced_SIMD_scalar_two_register_miscellaneous_complete
  insts_Advanced_SIMD_scalar_pairwise_complete
  insts_Advanced_SIMD_scalar_three_different_complete
  insts_Advanced_SIMD_scalar_three_same_complete
  insts_Advanced_SIMD_scalar_shift_by_immediate_complete
  insts_Advanced_SIMD_scalar_x_indexed_element_complete
  insts_Advanced_SIMD_table_lookup_complete
  insts_Advanced_SIMD_permute_complete
  insts_Advanced_SIMD_extract_complete
  insts_Advanced_SIMD_copy_complete
  insts_Advanced_SIMD_two_register_miscellaneous_complete
  insts_Advanced_SIMD_across_lanes_complete
  insts_Advanced_SIMD_three_different_complete
  insts_Advanced_SIMD_three_same_complete
  insts_Advanced_SIMD_modified_immediate_complete
  insts_Advanced_SIMD_shift_by_immediate_complete
  insts_Advanced_SIMD_vector_x_indexed_element_complete

end
