(* ===== verification/Decode_Sound.thy ===== *)
theory Decode_Sound
  imports Decode_Laws
begin

text \<open>
  Soundness of the decision functions, one lemma per function that assigns identifiers: on the words
  of the opcode class the dispatch sends to it (the mask and match of the premise), it returns
  \<^verbatim>\<open>INVALID\<close> or the identifier of an entry the word matches.
\<close>

lemma insts_PC_rel_addressing_ids: "map fst insts_PC_rel_addressing = [39..<41]"
  by (simp add: insts_PC_rel_addressing_def INST_simps upt_rec_numeral)

lemma decodePCRel_sound:
  "w AND 0b00011111000000000000000000000000 = 0b00010000000000000000000000000000 \<Longrightarrow>
   sec_sound insts_PC_rel_addressing w (decodePCRel w)"
  using matches_id_rules [OF insts_PC_rel_addressing_def insts_PC_rel_addressing_ids, of w]
  by (simp add: decodePCRel_def [unfolded field_tests] sec_sound_simps INST_simps bit_lits)

lemma insts_Add_subtract_immediate_ids: "map fst insts_Add_subtract_immediate = [41..<49]"
  by (simp add: insts_Add_subtract_immediate_def INST_simps upt_rec_numeral)

lemma decodeAddSubImm_sound:
  "w AND 0b00011111000000000000000000000000 = 0b00010001000000000000000000000000 \<Longrightarrow>
   sec_sound insts_Add_subtract_immediate w (decodeAddSubImm w)"
  using matches_id_rules [OF insts_Add_subtract_immediate_def insts_Add_subtract_immediate_ids, of w]
  by (simp add: decodeAddSubImm_def [unfolded field_tests] sec_sound_simps INST_simps bit_lits)

lemma insts_Logical_immediate_ids: "map fst insts_Logical_immediate = [49..<57]"
  by (simp add: insts_Logical_immediate_def INST_simps upt_rec_numeral)

lemma decodeLogicalImm_sound:
  "w AND 0b00011111100000000000000000000000 = 0b00010010000000000000000000000000 \<Longrightarrow>
   sec_sound insts_Logical_immediate w (decodeLogicalImm w)"
  using matches_id_rules [OF insts_Logical_immediate_def insts_Logical_immediate_ids, of w]
  by (simp add: decodeLogicalImm_def [unfolded field_tests] sec_sound_simps INST_simps bit_lits)

lemma insts_Move_wide_immediate_ids: "map fst insts_Move_wide_immediate = [57..<63]"
  by (simp add: insts_Move_wide_immediate_def INST_simps upt_rec_numeral)

lemma decodeMoveWide_sound:
  "w AND 0b00011111100000000000000000000000 = 0b00010010100000000000000000000000 \<Longrightarrow>
   sec_sound insts_Move_wide_immediate w (decodeMoveWide w)"
  using matches_id_rules [OF insts_Move_wide_immediate_def insts_Move_wide_immediate_ids, of w]
  by (simp add: decodeMoveWide_def [unfolded field_tests] sec_sound_simps INST_simps bit_lits; blast)

lemma insts_Bitfield_ids: "map fst insts_Bitfield = [63..<69]"
  by (simp add: insts_Bitfield_def INST_simps upt_rec_numeral)

lemma decodeBitfield_sound:
  "w AND 0b00011111100000000000000000000000 = 0b00010011000000000000000000000000 \<Longrightarrow>
   sec_sound insts_Bitfield w (decodeBitfield w)"
  using matches_id_rules [OF insts_Bitfield_def insts_Bitfield_ids, of w]
  by (simp add: decodeBitfield_def [unfolded field_tests] sec_sound_simps INST_simps bit_lits)

lemma insts_Extract_ids: "map fst insts_Extract = [69..<71]"
  by (simp add: insts_Extract_def INST_simps upt_rec_numeral)

lemma decodeExtract_sound:
  "w AND 0b00011111100000000000000000000000 = 0b00010011100000000000000000000000 \<Longrightarrow>
   sec_sound insts_Extract w (decodeExtract w)"
  using matches_id_rules [OF insts_Extract_def insts_Extract_ids, of w]
  by (simp add: decodeExtract_def [unfolded field_tests] sec_sound_simps INST_simps bit_lits)

lemma insts_Data_processing_2_source_ids: "map fst insts_Data_processing_2_source = [71..<91]"
  by (simp add: insts_Data_processing_2_source_def INST_simps upt_rec_numeral)

lemma decodeDP2Source_sound:
  "w AND 0b01011111111000000000000000000000 = 0b00011010110000000000000000000000 \<Longrightarrow>
   sec_sound insts_Data_processing_2_source w (decodeDP2Source w)"
  using matches_id_rules [OF insts_Data_processing_2_source_def insts_Data_processing_2_source_ids, of w]
  by (simp add: decodeDP2Source_def [unfolded field_tests] sec_sound_simps INST_simps bit_lits)

lemma insts_Data_processing_1_source_ids: "map fst insts_Data_processing_1_source = [91..<102]"
  by (simp add: insts_Data_processing_1_source_def INST_simps upt_rec_numeral)

lemma decodeDP1Source_sound:
  "w AND 0b01011111111000000000000000000000 = 0b01011010110000000000000000000000 \<Longrightarrow>
   sec_sound insts_Data_processing_1_source w (decodeDP1Source w)"
  using matches_id_rules [OF insts_Data_processing_1_source_def insts_Data_processing_1_source_ids, of w]
  by (simp add: decodeDP1Source_def [unfolded field_tests] sec_sound_simps INST_simps bit_lits)

lemma insts_Logical_shifted_register_ids: "map fst insts_Logical_shifted_register = [102..<118]"
  by (simp add: insts_Logical_shifted_register_def INST_simps upt_rec_numeral)

lemma decodeLogicalReg_sound:
  "w AND 0b00011111000000000000000000000000 = 0b00001010000000000000000000000000 \<Longrightarrow>
   sec_sound insts_Logical_shifted_register w (decodeLogicalReg w)"
  using matches_id_rules [OF insts_Logical_shifted_register_def insts_Logical_shifted_register_ids, of w]
  by (simp add: decodeLogicalReg_def [unfolded field_tests] sec_sound_simps INST_simps bit_lits)

lemma insts_Add_subtract_shifted_register_ids: "map fst insts_Add_subtract_shifted_register = [118..<126]"
  by (simp add: insts_Add_subtract_shifted_register_def INST_simps upt_rec_numeral)

lemma decodeAddSubShifted_sound:
  "w AND 0b00011111001000000000000000000000 = 0b00001011000000000000000000000000 \<Longrightarrow>
   sec_sound insts_Add_subtract_shifted_register w (decodeAddSubShifted w)"
  using matches_id_rules [OF insts_Add_subtract_shifted_register_def insts_Add_subtract_shifted_register_ids, of w]
  by (simp add: decodeAddSubShifted_def [unfolded field_tests] sec_sound_simps INST_simps bit_lits; blast)

lemma insts_Add_subtract_extended_register_ids: "map fst insts_Add_subtract_extended_register = [126..<134]"
  by (simp add: insts_Add_subtract_extended_register_def INST_simps upt_rec_numeral)

lemma decodeAddSubExtended_sound:
  "w AND 0b00011111001000000000000000000000 = 0b00001011001000000000000000000000 \<Longrightarrow>
   sec_sound insts_Add_subtract_extended_register w (decodeAddSubExtended w)"
  using matches_id_rules [OF insts_Add_subtract_extended_register_def insts_Add_subtract_extended_register_ids, of w]
  by (simp add: decodeAddSubExtended_def [unfolded field_tests] sec_sound_simps INST_simps bit_lits; blast)

lemma insts_Add_subtract_with_carry_ids: "map fst insts_Add_subtract_with_carry = [134..<142]"
  by (simp add: insts_Add_subtract_with_carry_def INST_simps upt_rec_numeral)

lemma decodeAddSubCarry_sound:
  "w AND 0b00011111111000000000000000000000 = 0b00011010000000000000000000000000 \<Longrightarrow>
   sec_sound insts_Add_subtract_with_carry w (decodeAddSubCarry w)"
  using matches_id_rules [OF insts_Add_subtract_with_carry_def insts_Add_subtract_with_carry_ids, of w]
  by (simp add: decodeAddSubCarry_def [unfolded field_tests] sec_sound_simps INST_simps bit_lits)

lemma insts_Conditional_compare_register_ids: "map fst insts_Conditional_compare_register = [142..<146]"
  by (simp add: insts_Conditional_compare_register_def INST_simps upt_rec_numeral)

lemma decodeCondCmpReg_sound:
  "w AND 0b00011111111000000000100000000000 = 0b00011010010000000000000000000000 \<Longrightarrow>
   sec_sound insts_Conditional_compare_register w (decodeCondCmpReg w)"
  using matches_id_rules [OF insts_Conditional_compare_register_def insts_Conditional_compare_register_ids, of w]
  by (simp add: decodeCondCmpReg_def [unfolded field_tests] sec_sound_simps INST_simps bit_lits)

lemma insts_Conditional_compare_immediate_ids: "map fst insts_Conditional_compare_immediate = [146..<150]"
  by (simp add: insts_Conditional_compare_immediate_def INST_simps upt_rec_numeral)

lemma decodeCondCmpImm_sound:
  "w AND 0b00011111111000000000100000000000 = 0b00011010010000000000100000000000 \<Longrightarrow>
   sec_sound insts_Conditional_compare_immediate w (decodeCondCmpImm w)"
  using matches_id_rules [OF insts_Conditional_compare_immediate_def insts_Conditional_compare_immediate_ids, of w]
  by (simp add: decodeCondCmpImm_def [unfolded field_tests] sec_sound_simps INST_simps bit_lits)

lemma insts_Conditional_select_ids: "map fst insts_Conditional_select = [150..<158]"
  by (simp add: insts_Conditional_select_def INST_simps upt_rec_numeral)

lemma decodeCondSel_sound:
  "w AND 0b00011111111000000000000000000000 = 0b00011010100000000000000000000000 \<Longrightarrow>
   sec_sound insts_Conditional_select w (decodeCondSel w)"
  using matches_id_rules [OF insts_Conditional_select_def insts_Conditional_select_ids, of w]
  by (simp add: decodeCondSel_def [unfolded field_tests] sec_sound_simps INST_simps bit_lits)

lemma insts_Data_processing_3_source_ids: "map fst insts_Data_processing_3_source = [158..<168]"
  by (simp add: insts_Data_processing_3_source_def INST_simps upt_rec_numeral)

lemma decodeDP3Source_sound:
  "w AND 0b00011111000000000000000000000000 = 0b00011011000000000000000000000000 \<Longrightarrow>
   sec_sound insts_Data_processing_3_source w (decodeDP3Source w)"
  using matches_id_rules [OF insts_Data_processing_3_source_def insts_Data_processing_3_source_ids, of w]
  by (simp add: decodeDP3Source_def [unfolded field_tests] sec_sound_simps INST_simps bit_lits)

lemma insts_Conversion_between_floating_point_and_fixed_point_ids: "map fst insts_Conversion_between_floating_point_and_fixed_point = [531..<547]"
  by (simp add: insts_Conversion_between_floating_point_and_fixed_point_def INST_simps upt_rec_numeral)

lemma decodeConvertFloatAndFixed_sound:
  "w AND 0b01011111001000000000000000000000 = 0b00011110000000000000000000000000 \<Longrightarrow>
   sec_sound insts_Conversion_between_floating_point_and_fixed_point w (decodeConvertFloatAndFixed w)"
  using matches_id_rules [OF insts_Conversion_between_floating_point_and_fixed_point_def insts_Conversion_between_floating_point_and_fixed_point_ids, of w]
  by (simp add: decodeConvertFloatAndFixed_def [unfolded field_tests] sec_sound_simps INST_simps bit_lits)

lemma insts_Conversion_between_floating_point_and_integer_ids: "map fst insts_Conversion_between_floating_point_and_integer = [547..<601]"
  by (simp add: insts_Conversion_between_floating_point_and_integer_def INST_simps upt_rec_numeral)

lemma decodeConvertFloatAndInt_sound:
  "w AND 0b01011111001000001111110000000000 = 0b00011110001000000000000000000000 \<Longrightarrow>
   sec_sound insts_Conversion_between_floating_point_and_integer w (decodeConvertFloatAndInt w)"
  using matches_id_rules [OF insts_Conversion_between_floating_point_and_integer_def insts_Conversion_between_floating_point_and_integer_ids, of w]
  by (simp add: decodeConvertFloatAndInt_def [unfolded field_tests] sec_sound_simps INST_simps bit_lits)

lemma insts_Floating_point_data_processing_1_source_ids: "map fst insts_Floating_point_data_processing_1_source = [601..<629]"
  by (simp add: insts_Floating_point_data_processing_1_source_def INST_simps upt_rec_numeral)

lemma decodeFloatDP1Source_sound:
  "w AND 0b01011111001000000111110000000000 = 0b00011110001000000100000000000000 \<Longrightarrow>
   sec_sound insts_Floating_point_data_processing_1_source w (decodeFloatDP1Source w)"
  using matches_id_rules [OF insts_Floating_point_data_processing_1_source_def insts_Floating_point_data_processing_1_source_ids, of w]
  by (simp add: decodeFloatDP1Source_def [unfolded field_tests] sec_sound_simps INST_simps bit_lits)

lemma insts_Floating_point_compare_ids: "map fst insts_Floating_point_compare = [629..<637]"
  by (simp add: insts_Floating_point_compare_def INST_simps upt_rec_numeral)

lemma decodeFloatCmp_sound:
  "w AND 0b01011111001000000011110000000000 = 0b00011110001000000010000000000000 \<Longrightarrow>
   sec_sound insts_Floating_point_compare w (decodeFloatCmp w)"
  using matches_id_rules [OF insts_Floating_point_compare_def insts_Floating_point_compare_ids, of w]
  by (simp add: decodeFloatCmp_def [unfolded field_tests] sec_sound_simps INST_simps bit_lits)

lemma insts_Floating_point_immediate_ids: "map fst insts_Floating_point_immediate = [637..<639]"
  by (simp add: insts_Floating_point_immediate_def INST_simps upt_rec_numeral)

lemma decodeFloatImm_sound:
  "w AND 0b01011111001000000001110000000000 = 0b00011110001000000001000000000000 \<Longrightarrow>
   sec_sound insts_Floating_point_immediate w (decodeFloatImm w)"
  using matches_id_rules [OF insts_Floating_point_immediate_def insts_Floating_point_immediate_ids, of w]
  by (simp add: decodeFloatImm_def [unfolded field_tests] sec_sound_simps INST_simps bit_lits)

lemma insts_Floating_point_conditional_compare_ids: "map fst insts_Floating_point_conditional_compare = [639..<643]"
  by (simp add: insts_Floating_point_conditional_compare_def INST_simps upt_rec_numeral)

lemma decodeFloatCondCmp_sound:
  "w AND 0b01011111001000000000110000000000 = 0b00011110001000000000010000000000 \<Longrightarrow>
   sec_sound insts_Floating_point_conditional_compare w (decodeFloatCondCmp w)"
  using matches_id_rules [OF insts_Floating_point_conditional_compare_def insts_Floating_point_conditional_compare_ids, of w]
  by (simp add: decodeFloatCondCmp_def [unfolded field_tests] sec_sound_simps INST_simps bit_lits)

lemma insts_Floating_point_data_processing_2_source_ids: "map fst insts_Floating_point_data_processing_2_source = [643..<661]"
  by (simp add: insts_Floating_point_data_processing_2_source_def INST_simps upt_rec_numeral)

lemma decodeFloatDP2Source_sound:
  "w AND 0b01011111001000000000110000000000 = 0b00011110001000000000100000000000 \<Longrightarrow>
   sec_sound insts_Floating_point_data_processing_2_source w (decodeFloatDP2Source w)"
  using matches_id_rules [OF insts_Floating_point_data_processing_2_source_def insts_Floating_point_data_processing_2_source_ids, of w]
  by (simp add: decodeFloatDP2Source_def [unfolded field_tests] sec_sound_simps INST_simps bit_lits)

lemma insts_Floating_point_conditional_select_ids: "map fst insts_Floating_point_conditional_select = [661..<663]"
  by (simp add: insts_Floating_point_conditional_select_def INST_simps upt_rec_numeral)

lemma decodeFloatCondSel_sound:
  "w AND 0b01011111001000000000110000000000 = 0b00011110001000000000110000000000 \<Longrightarrow>
   sec_sound insts_Floating_point_conditional_select w (decodeFloatCondSel w)"
  using matches_id_rules [OF insts_Floating_point_conditional_select_def insts_Floating_point_conditional_select_ids, of w]
  by (simp add: decodeFloatCondSel_def [unfolded field_tests] sec_sound_simps INST_simps bit_lits)

lemma insts_Floating_point_data_processing_3_source_ids: "map fst insts_Floating_point_data_processing_3_source = [663..<671]"
  by (simp add: insts_Floating_point_data_processing_3_source_def INST_simps upt_rec_numeral)

lemma decodeFloatDP3Source_sound:
  "w AND 0b01011111000000000000000000000000 = 0b00011111000000000000000000000000 \<Longrightarrow>
   sec_sound insts_Floating_point_data_processing_3_source w (decodeFloatDP3Source w)"
  using matches_id_rules [OF insts_Floating_point_data_processing_3_source_def insts_Floating_point_data_processing_3_source_ids, of w]
  by (simp add: decodeFloatDP3Source_def [unfolded field_tests] sec_sound_simps INST_simps bit_lits)

lemma insts_Advanced_SIMD_load_store_multiple_structures_ids: "map fst insts_Advanced_SIMD_load_store_multiple_structures = [168..<182]"
  by (simp add: insts_Advanced_SIMD_load_store_multiple_structures_def INST_simps upt_rec_numeral)

lemma decodeLoadStoreSIMDMultipleStructs_sound:
  "w AND 0b10111111101111110000000000000000 = 0b00001100000000000000000000000000 \<Longrightarrow>
   sec_sound insts_Advanced_SIMD_load_store_multiple_structures w (decodeLoadStoreSIMDMultipleStructs w)"
  using matches_id_rules [OF insts_Advanced_SIMD_load_store_multiple_structures_def insts_Advanced_SIMD_load_store_multiple_structures_ids, of w]
  by (simp add: decodeLoadStoreSIMDMultipleStructs_def [unfolded field_tests] sec_sound_simps INST_simps bit_lits)

lemma insts_Advanced_SIMD_load_store_multiple_structures_post_indexed_ids: "map fst insts_Advanced_SIMD_load_store_multiple_structures_post_indexed = [182..<210]"
  by (simp add: insts_Advanced_SIMD_load_store_multiple_structures_post_indexed_def INST_simps upt_rec_numeral)

lemma decodeLoadStoreSIMDMultipleStructsPostIndex_sound:
  "w AND 0b10111111101000000000000000000000 = 0b00001100100000000000000000000000 \<Longrightarrow>
   sec_sound insts_Advanced_SIMD_load_store_multiple_structures_post_indexed w (decodeLoadStoreSIMDMultipleStructsPostIndex w)"
  using matches_id_rules [OF insts_Advanced_SIMD_load_store_multiple_structures_post_indexed_def insts_Advanced_SIMD_load_store_multiple_structures_post_indexed_ids, of w]
  by (simp add: decodeLoadStoreSIMDMultipleStructsPostIndex_def [unfolded field_tests] sec_sound_simps INST_simps bit_lits)

lemma insts_Advanced_SIMD_load_store_single_structure_ids: "map fst insts_Advanced_SIMD_load_store_single_structure = [210..<246]"
  by (simp add: insts_Advanced_SIMD_load_store_single_structure_def INST_simps upt_rec_numeral)

lemma decodeLoadStoreSIMDSingleStruct_sound:
  "w AND 0b10111111100111110000000000000000 = 0b00001101000000000000000000000000 \<Longrightarrow>
   sec_sound insts_Advanced_SIMD_load_store_single_structure w (decodeLoadStoreSIMDSingleStruct w)"
  using matches_id_rules [OF insts_Advanced_SIMD_load_store_single_structure_def insts_Advanced_SIMD_load_store_single_structure_ids, of w]
  by (simp add: decodeLoadStoreSIMDSingleStruct_def [unfolded field_tests] sec_sound_simps INST_simps bit_lits)

lemma insts_Advanced_SIMD_load_store_single_structure_post_indexed_ids: "map fst insts_Advanced_SIMD_load_store_single_structure_post_indexed = [246..<318]"
  by (simp add: insts_Advanced_SIMD_load_store_single_structure_post_indexed_def INST_simps upt_rec_numeral)

lemma decodeLoadStoreSIMDSingleStructPostIndex_sound:
  "w AND 0b10111111100000000000000000000000 = 0b00001101100000000000000000000000 \<Longrightarrow>
   sec_sound insts_Advanced_SIMD_load_store_single_structure_post_indexed w (decodeLoadStoreSIMDSingleStructPostIndex w)"
  using matches_id_rules [OF insts_Advanced_SIMD_load_store_single_structure_post_indexed_def insts_Advanced_SIMD_load_store_single_structure_post_indexed_ids, of w]
  by (simp add: decodeLoadStoreSIMDSingleStructPostIndex_def [unfolded field_tests] sec_sound_simps INST_simps bit_lits)

lemma insts_Load_store_exclusive_ids: "map fst insts_Load_store_exclusive = [318..<350]"
  by (simp add: insts_Load_store_exclusive_def INST_simps upt_rec_numeral)

lemma decodeLoadStoreExclusive_sound:
  "w AND 0b00111111000000000000000000000000 = 0b00001000000000000000000000000000 \<Longrightarrow>
   sec_sound insts_Load_store_exclusive w (decodeLoadStoreExclusive w)"
  using matches_id_rules [OF insts_Load_store_exclusive_def insts_Load_store_exclusive_ids, of w]
  by (simp add: decodeLoadStoreExclusive_def [unfolded field_tests] sec_sound_simps INST_simps bit_lits; blast)

lemma insts_Load_store_register_unprivileged_ids: "map fst insts_Load_store_register_unprivileged = [447..<460]"
  by (simp add: insts_Load_store_register_unprivileged_def INST_simps upt_rec_numeral)

lemma decodeLoadStoreUnprivileged_sound:
  "w AND 0b00111011001000000000110000000000 = 0b00111000000000000000100000000000 \<Longrightarrow>
   sec_sound insts_Load_store_register_unprivileged w (decodeLoadStoreUnprivileged w)"
  using matches_id_rules [OF insts_Load_store_register_unprivileged_def insts_Load_store_register_unprivileged_ids, of w]
  by (simp add: decodeLoadStoreUnprivileged_def [unfolded field_tests] sec_sound_simps INST_simps bit_lits)

lemma insts_Load_store_register_unsigned_immediate_ids: "map fst insts_Load_store_register_unsigned_immediate = [507..<531]"
  by (simp add: insts_Load_store_register_unsigned_immediate_def INST_simps upt_rec_numeral)

lemma decodeLoadStoreRegUnsignedImm_sound:
  "w AND 0b00111011000000000000000000000000 = 0b00111001000000000000000000000000 \<Longrightarrow>
   sec_sound insts_Load_store_register_unsigned_immediate w (decodeLoadStoreRegUnsignedImm w)"
  using matches_id_rules [OF insts_Load_store_register_unsigned_immediate_def insts_Load_store_register_unsigned_immediate_ids, of w]
  by (simp add: decodeLoadStoreRegUnsignedImm_def [unfolded field_tests] sec_sound_simps INST_simps bit_lits)

lemma insts_Load_store_register_immediate_post_indexed_ids: "map fst insts_Load_store_register_immediate_post_indexed = [424..<447]"
  by (simp add: insts_Load_store_register_immediate_post_indexed_def INST_simps upt_rec_numeral)

lemma decodeLoadStoreRegImmPostIndex_sound:
  "w AND 0b00111011001000000000110000000000 = 0b00111000000000000000010000000000 \<Longrightarrow>
   sec_sound insts_Load_store_register_immediate_post_indexed w (decodeLoadStoreRegImmPostIndex w)"
  using matches_id_rules [OF insts_Load_store_register_immediate_post_indexed_def insts_Load_store_register_immediate_post_indexed_ids, of w]
  by (simp add: decodeLoadStoreRegImmPostIndex_def [unfolded field_tests] sec_sound_simps INST_simps bit_lits)

lemma insts_Load_store_register_immediate_pre_indexed_ids: "map fst insts_Load_store_register_immediate_pre_indexed = [460..<483]"
  by (simp add: insts_Load_store_register_immediate_pre_indexed_def INST_simps upt_rec_numeral)

lemma decodeLoadStoreRegImmPreIndex_sound:
  "w AND 0b00111011001000000000110000000000 = 0b00111000000000000000110000000000 \<Longrightarrow>
   sec_sound insts_Load_store_register_immediate_pre_indexed w (decodeLoadStoreRegImmPreIndex w)"
  using matches_id_rules [OF insts_Load_store_register_immediate_pre_indexed_def insts_Load_store_register_immediate_pre_indexed_ids, of w]
  by (simp add: decodeLoadStoreRegImmPreIndex_def [unfolded field_tests] sec_sound_simps INST_simps bit_lits)

lemma insts_Load_store_register_unscaled_immediate_ids: "map fst insts_Load_store_register_unscaled_immediate = [400..<424]"
  by (simp add: insts_Load_store_register_unscaled_immediate_def INST_simps upt_rec_numeral)

lemma decodeLoadStoreRegUnscaled_sound:
  "w AND 0b00111011001000000000110000000000 = 0b00111000000000000000000000000000 \<Longrightarrow>
   sec_sound insts_Load_store_register_unscaled_immediate w (decodeLoadStoreRegUnscaled w)"
  using matches_id_rules [OF insts_Load_store_register_unscaled_immediate_def insts_Load_store_register_unscaled_immediate_ids, of w]
  by (simp add: decodeLoadStoreRegUnscaled_def [unfolded field_tests] sec_sound_simps INST_simps bit_lits)

lemma insts_Load_store_no_allocate_pair_offset_ids: "map fst insts_Load_store_no_allocate_pair_offset = [357..<367]"
  by (simp add: insts_Load_store_no_allocate_pair_offset_def INST_simps upt_rec_numeral)

lemma insts_Load_store_register_pair_post_indexed_ids: "map fst insts_Load_store_register_pair_post_indexed = [367..<378]"
  by (simp add: insts_Load_store_register_pair_post_indexed_def INST_simps upt_rec_numeral)

lemma insts_Load_store_register_pair_offset_ids: "map fst insts_Load_store_register_pair_offset = [378..<389]"
  by (simp add: insts_Load_store_register_pair_offset_def INST_simps upt_rec_numeral)

lemma insts_Load_store_register_pair_pre_indexed_ids: "map fst insts_Load_store_register_pair_pre_indexed = [389..<400]"
  by (simp add: insts_Load_store_register_pair_pre_indexed_def INST_simps upt_rec_numeral)

lemma decodeLoadStorePair_sound:
  "w AND 0b00111010000000000000000000000000 = 0b00101000000000000000000000000000 \<Longrightarrow>
   sec_sound (insts_Load_store_no_allocate_pair_offset @
     insts_Load_store_register_pair_post_indexed @
     insts_Load_store_register_pair_offset @
     insts_Load_store_register_pair_pre_indexed) w
     (decodeLoadStorePair w)"
  by (simp add: decodeLoadStorePair_def [unfolded field_tests] sec_sound_simps INST_simps bit_lits
      insts_Load_store_no_allocate_pair_offset_def
      insts_Load_store_register_pair_post_indexed_def
      insts_Load_store_register_pair_offset_def
      insts_Load_store_register_pair_pre_indexed_def; blast)

lemma insts_Load_store_register_register_offset_ids: "map fst insts_Load_store_register_register_offset = [483..<507]"
  by (simp add: insts_Load_store_register_register_offset_def INST_simps upt_rec_numeral)

lemma decodeLoadStoreRegOff_sound:
  "w AND 0b00111011001000000000110000000000 = 0b00111000001000000000100000000000 \<Longrightarrow>
   sec_sound insts_Load_store_register_register_offset w (decodeLoadStoreRegOff w)"
  using matches_id_rules [OF insts_Load_store_register_register_offset_def insts_Load_store_register_register_offset_ids, of w]
  by (simp add: decodeLoadStoreRegOff_def [unfolded field_tests] sec_sound_simps INST_simps bit_lits)

lemma insts_Load_register_literal_ids: "map fst insts_Load_register_literal = [350..<357]"
  by (simp add: insts_Load_register_literal_def INST_simps upt_rec_numeral)

lemma decodeLoadRegLiteral_sound:
  "w AND 0b00111011000000000000000000000000 = 0b00011000000000000000000000000000 \<Longrightarrow>
   sec_sound insts_Load_register_literal w (decodeLoadRegLiteral w)"
  using matches_id_rules [OF insts_Load_register_literal_def insts_Load_register_literal_ids, of w]
  by (simp add: decodeLoadRegLiteral_def [unfolded field_tests] sec_sound_simps INST_simps bit_lits)

lemma insts_Cryptographic_AES_ids: "map fst insts_Cryptographic_AES = [671..<675]"
  by (simp add: insts_Cryptographic_AES_def INST_simps upt_rec_numeral)

lemma decodeCryptographicAES_sound:
  "w AND 0b11111111001111100000110000000000 = 0b01001110001010000000100000000000 \<Longrightarrow>
   sec_sound insts_Cryptographic_AES w (decodeCryptographicAES w)"
  using matches_id_rules [OF insts_Cryptographic_AES_def insts_Cryptographic_AES_ids, of w]
  by (simp add: decodeCryptographicAES_def [unfolded field_tests] sec_sound_simps INST_simps bit_lits)

lemma insts_Cryptographic_three_register_SHA_ids: "map fst insts_Cryptographic_three_register_SHA = [675..<682]"
  by (simp add: insts_Cryptographic_three_register_SHA_def INST_simps upt_rec_numeral)

lemma decodeCryptographic3Reg_sound:
  "w AND 0b11111111001000001000110000000000 = 0b01011110000000000000000000000000 \<Longrightarrow>
   sec_sound insts_Cryptographic_three_register_SHA w (decodeCryptographic3Reg w)"
  using matches_id_rules [OF insts_Cryptographic_three_register_SHA_def insts_Cryptographic_three_register_SHA_ids, of w]
  by (simp add: decodeCryptographic3Reg_def [unfolded field_tests] sec_sound_simps INST_simps bit_lits)

lemma insts_Cryptographic_two_register_SHA_ids: "map fst insts_Cryptographic_two_register_SHA = [682..<685]"
  by (simp add: insts_Cryptographic_two_register_SHA_def INST_simps upt_rec_numeral)

lemma decodeCryptographic2Reg_sound:
  "w AND 0b11111111001111100000110000000000 = 0b01011110001010000000100000000000 \<Longrightarrow>
   sec_sound insts_Cryptographic_two_register_SHA w (decodeCryptographic2Reg w)"
  using matches_id_rules [OF insts_Cryptographic_two_register_SHA_def insts_Cryptographic_two_register_SHA_ids, of w]
  by (simp add: decodeCryptographic2Reg_def [unfolded field_tests] sec_sound_simps INST_simps bit_lits)

lemma insts_Advanced_SIMD_scalar_copy_ids: "map fst insts_Advanced_SIMD_scalar_copy = [685..<686]"
  by (simp add: insts_Advanced_SIMD_scalar_copy_def INST_simps upt_rec_numeral)

lemma decodeSIMDScalarCopy_sound:
  "w AND 0b11011111111000001000010000000000 = 0b01011110000000000000010000000000 \<Longrightarrow>
   sec_sound insts_Advanced_SIMD_scalar_copy w (decodeSIMDScalarCopy w)"
  using matches_id_rules [OF insts_Advanced_SIMD_scalar_copy_def insts_Advanced_SIMD_scalar_copy_ids, of w]
  by (simp add: decodeSIMDScalarCopy_def [unfolded field_tests] sec_sound_simps INST_simps bit_lits)

lemma insts_Advanced_SIMD_scalar_two_register_miscellaneous_ids: "map fst insts_Advanced_SIMD_scalar_two_register_miscellaneous = [686..<721]"
  by (simp add: insts_Advanced_SIMD_scalar_two_register_miscellaneous_def INST_simps upt_rec_numeral)

lemma decodeSIMDScalar2Reg_sound:
  "w AND 0b11011111001111100000110000000000 = 0b01011110001000000000100000000000 \<Longrightarrow>
   sec_sound insts_Advanced_SIMD_scalar_two_register_miscellaneous w (decodeSIMDScalar2Reg w)"
  using matches_id_rules [OF insts_Advanced_SIMD_scalar_two_register_miscellaneous_def insts_Advanced_SIMD_scalar_two_register_miscellaneous_ids, of w]
  by (simp add: decodeSIMDScalar2Reg_def [unfolded field_tests] sec_sound_simps INST_simps bit_lits)

lemma insts_Advanced_SIMD_scalar_pairwise_ids: "map fst insts_Advanced_SIMD_scalar_pairwise = [721..<727]"
  by (simp add: insts_Advanced_SIMD_scalar_pairwise_def INST_simps upt_rec_numeral)

lemma decodeSIMDScalarPairwise_sound:
  "w AND 0b11011111001111100000110000000000 = 0b01011110001100000000100000000000 \<Longrightarrow>
   sec_sound insts_Advanced_SIMD_scalar_pairwise w (decodeSIMDScalarPairwise w)"
  using matches_id_rules [OF insts_Advanced_SIMD_scalar_pairwise_def insts_Advanced_SIMD_scalar_pairwise_ids, of w]
  by (simp add: decodeSIMDScalarPairwise_def [unfolded field_tests] sec_sound_simps INST_simps bit_lits)

lemma insts_Advanced_SIMD_scalar_three_different_ids: "map fst insts_Advanced_SIMD_scalar_three_different = [727..<730]"
  by (simp add: insts_Advanced_SIMD_scalar_three_different_def INST_simps upt_rec_numeral)

lemma decodeSIMDScalar3Different_sound:
  "w AND 0b11011111001000000000110000000000 = 0b01011110001000000000000000000000 \<Longrightarrow>
   sec_sound insts_Advanced_SIMD_scalar_three_different w (decodeSIMDScalar3Different w)"
  using matches_id_rules [OF insts_Advanced_SIMD_scalar_three_different_def insts_Advanced_SIMD_scalar_three_different_ids, of w]
  by (simp add: decodeSIMDScalar3Different_def [unfolded field_tests] sec_sound_simps INST_simps bit_lits)

lemma insts_Advanced_SIMD_scalar_three_same_ids: "map fst insts_Advanced_SIMD_scalar_three_same = [730..<761]"
  by (simp add: insts_Advanced_SIMD_scalar_three_same_def INST_simps upt_rec_numeral)

lemma decodeSIMDScalar3Same_sound:
  "w AND 0b11011111001000000000010000000000 = 0b01011110001000000000010000000000 \<Longrightarrow>
   sec_sound insts_Advanced_SIMD_scalar_three_same w (decodeSIMDScalar3Same w)"
  using matches_id_rules [OF insts_Advanced_SIMD_scalar_three_same_def insts_Advanced_SIMD_scalar_three_same_ids, of w]
  by (simp add: decodeSIMDScalar3Same_def [unfolded field_tests] sec_sound_simps INST_simps bit_lits)

lemma insts_Advanced_SIMD_scalar_shift_by_immediate_ids: "map fst insts_Advanced_SIMD_scalar_shift_by_immediate = [761..<785]"
  by (simp add: insts_Advanced_SIMD_scalar_shift_by_immediate_def INST_simps upt_rec_numeral)

lemma decodeSIMDScalarShiftImmediate_sound:
  "w AND 0b11011111100000000000010000000000 = 0b01011111000000000000010000000000 \<Longrightarrow>
   sec_sound insts_Advanced_SIMD_scalar_shift_by_immediate w (decodeSIMDScalarShiftImmediate w)"
  using matches_id_rules [OF insts_Advanced_SIMD_scalar_shift_by_immediate_def insts_Advanced_SIMD_scalar_shift_by_immediate_ids, of w]
  by (simp add: decodeSIMDScalarShiftImmediate_def [unfolded field_tests] sec_sound_simps INST_simps bit_lits)

lemma insts_Advanced_SIMD_scalar_x_indexed_element_ids: "map fst insts_Advanced_SIMD_scalar_x_indexed_element = [785..<794]"
  by (simp add: insts_Advanced_SIMD_scalar_x_indexed_element_def INST_simps upt_rec_numeral)

lemma decodeSIMDScalarXIndexed_sound:
  "w AND 0b11011111000000000000010000000000 = 0b01011111000000000000000000000000 \<Longrightarrow>
   sec_sound insts_Advanced_SIMD_scalar_x_indexed_element w (decodeSIMDScalarXIndexed w)"
  using matches_id_rules [OF insts_Advanced_SIMD_scalar_x_indexed_element_def insts_Advanced_SIMD_scalar_x_indexed_element_ids, of w]
  by (simp add: decodeSIMDScalarXIndexed_def [unfolded field_tests] sec_sound_simps INST_simps bit_lits)

lemma insts_Advanced_SIMD_table_lookup_ids: "map fst insts_Advanced_SIMD_table_lookup = [794..<802]"
  by (simp add: insts_Advanced_SIMD_table_lookup_def INST_simps upt_rec_numeral)

lemma decodeSIMDTableLookup_sound:
  "w AND 0b10111111001000001000110000000000 = 0b00001110000000000000000000000000 \<Longrightarrow>
   sec_sound insts_Advanced_SIMD_table_lookup w (decodeSIMDTableLookup w)"
  using matches_id_rules [OF insts_Advanced_SIMD_table_lookup_def insts_Advanced_SIMD_table_lookup_ids, of w]
  by (simp add: decodeSIMDTableLookup_def [unfolded field_tests] sec_sound_simps INST_simps bit_lits)

lemma insts_Advanced_SIMD_permute_ids: "map fst insts_Advanced_SIMD_permute = [802..<808]"
  by (simp add: insts_Advanced_SIMD_permute_def INST_simps upt_rec_numeral)

lemma decodeSIMDPermute_sound:
  "w AND 0b10111111001000001000110000000000 = 0b00001110000000000000100000000000 \<Longrightarrow>
   sec_sound insts_Advanced_SIMD_permute w (decodeSIMDPermute w)"
  using matches_id_rules [OF insts_Advanced_SIMD_permute_def insts_Advanced_SIMD_permute_ids, of w]
  by (simp add: decodeSIMDPermute_def [unfolded field_tests] sec_sound_simps INST_simps bit_lits)

lemma insts_Advanced_SIMD_extract_ids: "map fst insts_Advanced_SIMD_extract = [808..<809]"
  by (simp add: insts_Advanced_SIMD_extract_def INST_simps upt_rec_numeral)

lemma decodeSIMDExtract_sound:
  "w AND 0b10111111001000001000010000000000 = 0b00101110000000000000000000000000 \<Longrightarrow>
   sec_sound insts_Advanced_SIMD_extract w (decodeSIMDExtract w)"
  using matches_id_rules [OF insts_Advanced_SIMD_extract_def insts_Advanced_SIMD_extract_ids, of w]
  by (simp add: decodeSIMDExtract_def [unfolded field_tests] sec_sound_simps INST_simps bit_lits)

lemma insts_Advanced_SIMD_copy_ids: "map fst insts_Advanced_SIMD_copy = [809..<817]"
  by (simp add: insts_Advanced_SIMD_copy_def INST_simps upt_rec_numeral)

lemma decodeSIMDCopy_sound:
  "w AND 0b10011111111000001000010000000000 = 0b00001110000000000000010000000000 \<Longrightarrow>
   sec_sound insts_Advanced_SIMD_copy w (decodeSIMDCopy w)"
  using matches_id_rules [OF insts_Advanced_SIMD_copy_def insts_Advanced_SIMD_copy_ids, of w]
  by (simp add: decodeSIMDCopy_def [unfolded field_tests] sec_sound_simps INST_simps bit_lits)

lemma insts_Advanced_SIMD_two_register_miscellaneous_ids: "map fst insts_Advanced_SIMD_two_register_miscellaneous = [817..<887]"
  by (simp add: insts_Advanced_SIMD_two_register_miscellaneous_def INST_simps upt_rec_numeral)

lemma decodeSIMD2Reg_sound:
  "w AND 0b10011111001111100000110000000000 = 0b00001110001000000000100000000000 \<Longrightarrow>
   sec_sound insts_Advanced_SIMD_two_register_miscellaneous w (decodeSIMD2Reg w)"
  using matches_id_rules [OF insts_Advanced_SIMD_two_register_miscellaneous_def insts_Advanced_SIMD_two_register_miscellaneous_ids, of w]
  by (simp add: decodeSIMD2Reg_def [unfolded field_tests] sec_sound_simps INST_simps bit_lits)

lemma insts_Advanced_SIMD_across_lanes_ids: "map fst insts_Advanced_SIMD_across_lanes = [887..<898]"
  by (simp add: insts_Advanced_SIMD_across_lanes_def INST_simps upt_rec_numeral)

lemma decodeSIMDAcrossLanes_sound:
  "w AND 0b10011111001111100000110000000000 = 0b00001110001100000000100000000000 \<Longrightarrow>
   sec_sound insts_Advanced_SIMD_across_lanes w (decodeSIMDAcrossLanes w)"
  using matches_id_rules [OF insts_Advanced_SIMD_across_lanes_def insts_Advanced_SIMD_across_lanes_ids, of w]
  by (simp add: decodeSIMDAcrossLanes_def [unfolded field_tests] sec_sound_simps INST_simps bit_lits)

lemma insts_Advanced_SIMD_three_different_ids: "map fst insts_Advanced_SIMD_three_different = [898..<950]"
  by (simp add: insts_Advanced_SIMD_three_different_def INST_simps upt_rec_numeral)

lemma decodeSIMD3Different_sound:
  "w AND 0b10011111001000000000110000000000 = 0b00001110001000000000000000000000 \<Longrightarrow>
   sec_sound insts_Advanced_SIMD_three_different w (decodeSIMD3Different w)"
  using matches_id_rules [OF insts_Advanced_SIMD_three_different_def insts_Advanced_SIMD_three_different_ids, of w]
  by (simp add: decodeSIMD3Different_def [unfolded field_tests] sec_sound_simps INST_simps bit_lits)

lemma insts_Advanced_SIMD_three_same_ids: "map fst insts_Advanced_SIMD_three_same = [950..<1027]"
  by (simp add: insts_Advanced_SIMD_three_same_def INST_simps upt_rec_numeral)

lemma decodeSIMD3Same_sound:
  "w AND 0b10011111001000000000010000000000 = 0b00001110001000000000010000000000 \<Longrightarrow>
   sec_sound insts_Advanced_SIMD_three_same w (decodeSIMD3Same w)"
  using matches_id_rules [OF insts_Advanced_SIMD_three_same_def insts_Advanced_SIMD_three_same_ids, of w]
  by (simp add: decodeSIMD3Same_def [unfolded field_tests] sec_sound_simps INST_simps bit_lits)

lemma insts_Advanced_SIMD_modified_immediate_ids: "map fst insts_Advanced_SIMD_modified_immediate = [1027..<1042]"
  by (simp add: insts_Advanced_SIMD_modified_immediate_def INST_simps upt_rec_numeral)

lemma decodeSIMDModifiedImmediate_sound:
  "w AND 0b10011111111110000000010000000000 = 0b00001111000000000000010000000000 \<Longrightarrow>
   sec_sound insts_Advanced_SIMD_modified_immediate w (decodeSIMDModifiedImmediate w)"
  using matches_id_rules [OF insts_Advanced_SIMD_modified_immediate_def insts_Advanced_SIMD_modified_immediate_ids, of w]
  by (simp add: decodeSIMDModifiedImmediate_def [unfolded field_tests] sec_sound_simps INST_simps bit_lits)

lemma insts_Advanced_SIMD_shift_by_immediate_ids: "map fst insts_Advanced_SIMD_shift_by_immediate = [1042..<1080]"
  by (simp add: insts_Advanced_SIMD_shift_by_immediate_def INST_simps upt_rec_numeral)

lemma decodeSIMDShiftImmediate_sound:
  "w AND 0b10011111100000000000010000000000 = 0b00001111000000000000010000000000 \<Longrightarrow>
   bitRange 19 22 w \<noteq> 0 \<Longrightarrow>
   sec_sound insts_Advanced_SIMD_shift_by_immediate w (decodeSIMDShiftImmediate w)"
  using matches_id_rules [OF insts_Advanced_SIMD_shift_by_immediate_def insts_Advanced_SIMD_shift_by_immediate_ids, of w]
  by (simp add: decodeSIMDShiftImmediate_def [unfolded field_tests] sec_sound_simps INST_simps bit_lits; blast)

lemma insts_Advanced_SIMD_vector_x_indexed_element_ids: "map fst insts_Advanced_SIMD_vector_x_indexed_element = [1080..<1107]"
  by (simp add: insts_Advanced_SIMD_vector_x_indexed_element_def INST_simps upt_rec_numeral)

lemma decodeSIMDVectorXIndexed_sound:
  "w AND 0b10011111000000000000010000000000 = 0b00001111000000000000000000000000 \<Longrightarrow>
   sec_sound insts_Advanced_SIMD_vector_x_indexed_element w (decodeSIMDVectorXIndexed w)"
  using matches_id_rules [OF insts_Advanced_SIMD_vector_x_indexed_element_def insts_Advanced_SIMD_vector_x_indexed_element_ids, of w]
  by (simp add: decodeSIMDVectorXIndexed_def [unfolded field_tests] sec_sound_simps INST_simps bit_lits)

lemma insts_System_ids: "map fst insts_System = [23..<39]"
  by (simp add: insts_System_def INST_simps upt_rec_numeral)

lemma decodeSystem_sound:
  "w AND 0b11111111110000000000000000000000 = 0b11010101000000000000000000000000 \<Longrightarrow>
   sec_sound insts_System w (decodeSystem w)"
  using matches_id_rules [OF insts_System_def insts_System_ids, of w]
  by (simp add: decodeSystem_def [unfolded field_tests] sec_sound_simps INST_simps bit_lits)

lemma insts_Exception_Generating_ids: "map fst insts_Exception_Generating = [15..<23]"
  by (simp add: insts_Exception_Generating_def INST_simps upt_rec_numeral)

lemma decodeExceptionGenerating_sound:
  "w AND 0b11111111000000000000000000000000 = 0b11010100000000000000000000000000 \<Longrightarrow>
   sec_sound insts_Exception_Generating w (decodeExceptionGenerating w)"
  using matches_id_rules [OF insts_Exception_Generating_def insts_Exception_Generating_ids, of w]
  by (simp add: decodeExceptionGenerating_def [unfolded field_tests] sec_sound_simps INST_simps bit_lits)

lemma insts_Branch_ids: "map fst insts_Branch = [1..<15]"
  by (simp add: insts_Branch_def INST_simps upt_rec [of "Suc 0"] upt_rec_numeral Suc_Suc_0_eq_2)

lemmas all_ids =
  insts_Branch_ids
  insts_Exception_Generating_ids
  insts_System_ids
  insts_PC_rel_addressing_ids
  insts_Add_subtract_immediate_ids
  insts_Logical_immediate_ids
  insts_Move_wide_immediate_ids
  insts_Bitfield_ids
  insts_Extract_ids
  insts_Data_processing_2_source_ids
  insts_Data_processing_1_source_ids
  insts_Logical_shifted_register_ids
  insts_Add_subtract_shifted_register_ids
  insts_Add_subtract_extended_register_ids
  insts_Add_subtract_with_carry_ids
  insts_Conditional_compare_register_ids
  insts_Conditional_compare_immediate_ids
  insts_Conditional_select_ids
  insts_Data_processing_3_source_ids
  insts_Advanced_SIMD_load_store_multiple_structures_ids
  insts_Advanced_SIMD_load_store_multiple_structures_post_indexed_ids
  insts_Advanced_SIMD_load_store_single_structure_ids
  insts_Advanced_SIMD_load_store_single_structure_post_indexed_ids
  insts_Load_store_exclusive_ids
  insts_Load_register_literal_ids
  insts_Load_store_no_allocate_pair_offset_ids
  insts_Load_store_register_pair_post_indexed_ids
  insts_Load_store_register_pair_offset_ids
  insts_Load_store_register_pair_pre_indexed_ids
  insts_Load_store_register_unscaled_immediate_ids
  insts_Load_store_register_immediate_post_indexed_ids
  insts_Load_store_register_unprivileged_ids
  insts_Load_store_register_immediate_pre_indexed_ids
  insts_Load_store_register_register_offset_ids
  insts_Load_store_register_unsigned_immediate_ids
  insts_Conversion_between_floating_point_and_fixed_point_ids
  insts_Conversion_between_floating_point_and_integer_ids
  insts_Floating_point_data_processing_1_source_ids
  insts_Floating_point_compare_ids
  insts_Floating_point_immediate_ids
  insts_Floating_point_conditional_compare_ids
  insts_Floating_point_data_processing_2_source_ids
  insts_Floating_point_conditional_select_ids
  insts_Floating_point_data_processing_3_source_ids
  insts_Cryptographic_AES_ids
  insts_Cryptographic_three_register_SHA_ids
  insts_Cryptographic_two_register_SHA_ids
  insts_Advanced_SIMD_scalar_copy_ids
  insts_Advanced_SIMD_scalar_two_register_miscellaneous_ids
  insts_Advanced_SIMD_scalar_pairwise_ids
  insts_Advanced_SIMD_scalar_three_different_ids
  insts_Advanced_SIMD_scalar_three_same_ids
  insts_Advanced_SIMD_scalar_shift_by_immediate_ids
  insts_Advanced_SIMD_scalar_x_indexed_element_ids
  insts_Advanced_SIMD_table_lookup_ids
  insts_Advanced_SIMD_permute_ids
  insts_Advanced_SIMD_extract_ids
  insts_Advanced_SIMD_copy_ids
  insts_Advanced_SIMD_two_register_miscellaneous_ids
  insts_Advanced_SIMD_across_lanes_ids
  insts_Advanced_SIMD_three_different_ids
  insts_Advanced_SIMD_three_same_ids
  insts_Advanced_SIMD_modified_immediate_ids
  insts_Advanced_SIMD_shift_by_immediate_ids
  insts_Advanced_SIMD_vector_x_indexed_element_ids

lemmas all_sound =
  decodePCRel_sound
  decodeAddSubImm_sound
  decodeLogicalImm_sound
  decodeMoveWide_sound
  decodeBitfield_sound
  decodeExtract_sound
  decodeDP2Source_sound
  decodeDP1Source_sound
  decodeLogicalReg_sound
  decodeAddSubShifted_sound
  decodeAddSubExtended_sound
  decodeAddSubCarry_sound
  decodeCondCmpReg_sound
  decodeCondCmpImm_sound
  decodeCondSel_sound
  decodeDP3Source_sound
  decodeConvertFloatAndFixed_sound
  decodeConvertFloatAndInt_sound
  decodeFloatDP1Source_sound
  decodeFloatCmp_sound
  decodeFloatImm_sound
  decodeFloatCondCmp_sound
  decodeFloatDP2Source_sound
  decodeFloatCondSel_sound
  decodeFloatDP3Source_sound
  decodeLoadStoreSIMDMultipleStructs_sound
  decodeLoadStoreSIMDMultipleStructsPostIndex_sound
  decodeLoadStoreSIMDSingleStruct_sound
  decodeLoadStoreSIMDSingleStructPostIndex_sound
  decodeLoadStoreExclusive_sound
  decodeLoadStoreUnprivileged_sound
  decodeLoadStoreRegUnsignedImm_sound
  decodeLoadStoreRegImmPostIndex_sound
  decodeLoadStoreRegImmPreIndex_sound
  decodeLoadStoreRegUnscaled_sound
  decodeLoadStorePair_sound
  decodeLoadStoreRegOff_sound
  decodeLoadRegLiteral_sound
  decodeCryptographicAES_sound
  decodeCryptographic3Reg_sound
  decodeCryptographic2Reg_sound
  decodeSIMDScalarCopy_sound
  decodeSIMDScalar2Reg_sound
  decodeSIMDScalarPairwise_sound
  decodeSIMDScalar3Different_sound
  decodeSIMDScalar3Same_sound
  decodeSIMDScalarShiftImmediate_sound
  decodeSIMDScalarXIndexed_sound
  decodeSIMDTableLookup_sound
  decodeSIMDPermute_sound
  decodeSIMDExtract_sound
  decodeSIMDCopy_sound
  decodeSIMD2Reg_sound
  decodeSIMDAcrossLanes_sound
  decodeSIMD3Different_sound
  decodeSIMD3Same_sound
  decodeSIMDModifiedImmediate_sound
  decodeSIMDShiftImmediate_sound
  decodeSIMDVectorXIndexed_sound
  decodeSystem_sound
  decodeExceptionGenerating_sound

end
