(* ===== verification/Decode_Equiv.thy ===== *)
theory Decode_Equiv
  imports Decode_Complete Decode_Sound
begin

text \<open>
  The two decoders of \<^verbatim>\<open>decode.cpp\<close> compute the same function: the hand-written decision tree
  \<^verbatim>\<open>decode\<close> satisfies the contract \<open>decode_table\<close> on the instruction list, so the scan of
  \<^verbatim>\<open>decode2\<close> finds what \<^verbatim>\<open>decode\<close> finds on every 32-bit word.
\<close>

lemma section_subsets:
  "set insts_Branch \<subseteq> set instructions"
  "set insts_Exception_Generating \<subseteq> set instructions"
  "set insts_System \<subseteq> set instructions"
  "set insts_PC_rel_addressing \<subseteq> set instructions"
  "set insts_Add_subtract_immediate \<subseteq> set instructions"
  "set insts_Logical_immediate \<subseteq> set instructions"
  "set insts_Move_wide_immediate \<subseteq> set instructions"
  "set insts_Bitfield \<subseteq> set instructions"
  "set insts_Extract \<subseteq> set instructions"
  "set insts_Data_processing_2_source \<subseteq> set instructions"
  "set insts_Data_processing_1_source \<subseteq> set instructions"
  "set insts_Logical_shifted_register \<subseteq> set instructions"
  "set insts_Add_subtract_shifted_register \<subseteq> set instructions"
  "set insts_Add_subtract_extended_register \<subseteq> set instructions"
  "set insts_Add_subtract_with_carry \<subseteq> set instructions"
  "set insts_Conditional_compare_register \<subseteq> set instructions"
  "set insts_Conditional_compare_immediate \<subseteq> set instructions"
  "set insts_Conditional_select \<subseteq> set instructions"
  "set insts_Data_processing_3_source \<subseteq> set instructions"
  "set insts_Advanced_SIMD_load_store_multiple_structures \<subseteq> set instructions"
  "set insts_Advanced_SIMD_load_store_multiple_structures_post_indexed \<subseteq> set instructions"
  "set insts_Advanced_SIMD_load_store_single_structure \<subseteq> set instructions"
  "set insts_Advanced_SIMD_load_store_single_structure_post_indexed \<subseteq> set instructions"
  "set insts_Load_store_exclusive \<subseteq> set instructions"
  "set insts_Load_register_literal \<subseteq> set instructions"
  "set insts_Load_store_no_allocate_pair_offset \<subseteq> set instructions"
  "set insts_Load_store_register_pair_post_indexed \<subseteq> set instructions"
  "set insts_Load_store_register_pair_offset \<subseteq> set instructions"
  "set insts_Load_store_register_pair_pre_indexed \<subseteq> set instructions"
  "set insts_Load_store_register_unscaled_immediate \<subseteq> set instructions"
  "set insts_Load_store_register_immediate_post_indexed \<subseteq> set instructions"
  "set insts_Load_store_register_unprivileged \<subseteq> set instructions"
  "set insts_Load_store_register_immediate_pre_indexed \<subseteq> set instructions"
  "set insts_Load_store_register_register_offset \<subseteq> set instructions"
  "set insts_Load_store_register_unsigned_immediate \<subseteq> set instructions"
  "set insts_Conversion_between_floating_point_and_fixed_point \<subseteq> set instructions"
  "set insts_Conversion_between_floating_point_and_integer \<subseteq> set instructions"
  "set insts_Floating_point_data_processing_1_source \<subseteq> set instructions"
  "set insts_Floating_point_compare \<subseteq> set instructions"
  "set insts_Floating_point_immediate \<subseteq> set instructions"
  "set insts_Floating_point_conditional_compare \<subseteq> set instructions"
  "set insts_Floating_point_data_processing_2_source \<subseteq> set instructions"
  "set insts_Floating_point_conditional_select \<subseteq> set instructions"
  "set insts_Floating_point_data_processing_3_source \<subseteq> set instructions"
  "set insts_Cryptographic_AES \<subseteq> set instructions"
  "set insts_Cryptographic_three_register_SHA \<subseteq> set instructions"
  "set insts_Cryptographic_two_register_SHA \<subseteq> set instructions"
  "set insts_Advanced_SIMD_scalar_copy \<subseteq> set instructions"
  "set insts_Advanced_SIMD_scalar_two_register_miscellaneous \<subseteq> set instructions"
  "set insts_Advanced_SIMD_scalar_pairwise \<subseteq> set instructions"
  "set insts_Advanced_SIMD_scalar_three_different \<subseteq> set instructions"
  "set insts_Advanced_SIMD_scalar_three_same \<subseteq> set instructions"
  "set insts_Advanced_SIMD_scalar_shift_by_immediate \<subseteq> set instructions"
  "set insts_Advanced_SIMD_scalar_x_indexed_element \<subseteq> set instructions"
  "set insts_Advanced_SIMD_table_lookup \<subseteq> set instructions"
  "set insts_Advanced_SIMD_permute \<subseteq> set instructions"
  "set insts_Advanced_SIMD_extract \<subseteq> set instructions"
  "set insts_Advanced_SIMD_copy \<subseteq> set instructions"
  "set insts_Advanced_SIMD_two_register_miscellaneous \<subseteq> set instructions"
  "set insts_Advanced_SIMD_across_lanes \<subseteq> set instructions"
  "set insts_Advanced_SIMD_three_different \<subseteq> set instructions"
  "set insts_Advanced_SIMD_three_same \<subseteq> set instructions"
  "set insts_Advanced_SIMD_modified_immediate \<subseteq> set instructions"
  "set insts_Advanced_SIMD_shift_by_immediate \<subseteq> set instructions"
  "set insts_Advanced_SIMD_vector_x_indexed_element \<subseteq> set instructions"
  unfolding instructions_def set_append by blast+

definition is_entry :: "u32 \<Rightarrow> instructionID \<Rightarrow> bool" where
  "is_entry w i \<longleftrightarrow> i = 0 \<or> (\<exists>e. (i, e) \<in> set instructions \<and> entry_matches e w)"

lemma is_entry_simps:
  "is_entry w (if c then i else j) \<longleftrightarrow> (c \<longrightarrow> is_entry w i) \<and> (\<not> c \<longrightarrow> is_entry w j)"
  "is_entry w 0"
  by (auto simp: is_entry_def)

lemma sec_sound_is_entry: "sec_sound sec w i \<Longrightarrow> set sec \<subseteq> set instructions \<Longrightarrow> is_entry w i"
  unfolding is_entry_def by (rule sec_sound_mem)

lemma branch_entries: "list_all (\<lambda>x. entry_matches (snd x) w \<longrightarrow> is_entry w (fst x)) insts_Branch"
  using section_subsets by (force simp: list_all_iff is_entry_def)

lemmas is_entry_rules = is_entry_simps section_subsets all_sound [THEN sec_sound_is_entry]

subsection \<open>The dispatch\<close>

lemma decodeDPImm_entry:
  "bit w 28 \<Longrightarrow> \<not> bit w 27 \<Longrightarrow> \<not> bit w 26 \<Longrightarrow> is_entry w (decodeDPImm w)"
  by (simp add: decodeDPImm_def [unfolded field_tests] is_entry_rules bit_lits)

lemma decodeDPReg_entry:
  "bit w 27 \<Longrightarrow> \<not> bit w 26 \<Longrightarrow> bit w 25 \<Longrightarrow> is_entry w (decodeDPReg w)"
  by (simp add: decodeDPReg_def [unfolded field_tests] is_entry_rules bit_lits)

lemma decodeLoadStore_entry:
  "bit w 27 \<Longrightarrow> \<not> bit w 25 \<Longrightarrow> is_entry w (decodeLoadStore w)"
  by (simp add: decodeLoadStore_def [unfolded field_tests] is_entry_rules bit_lits)

lemma decodeFloat_entry:
  "bit w 27 \<Longrightarrow> bit w 26 \<Longrightarrow> bit w 25 \<Longrightarrow> bit w 28 \<Longrightarrow> \<not> bit w 30 \<Longrightarrow> is_entry w (decodeFloat w)"
  by (simp add: decodeFloat_def [unfolded field_tests] is_entry_rules bit_lits)

lemma decodeSIMD_entry:
  "bit w 27 \<Longrightarrow> bit w 26 \<Longrightarrow> bit w 25 \<Longrightarrow> \<not> bit w 31 \<Longrightarrow> is_entry w (decodeSIMD w)"
  by (simp add: decodeSIMD_def [unfolded field_tests] is_entry_rules bit_lits)

lemma decodeSystemOrBranch_entry:
  "bit w 28 \<Longrightarrow> \<not> bit w 27 \<Longrightarrow> bit w 26 \<Longrightarrow> is_entry w (decodeSystemOrBranch w)"
  using branch_entries [unfolded insts_Branch_def, of w]
  by (simp add: decodeSystemOrBranch_def [unfolded field_tests] INST_simps is_entry_rules bit_lits)

lemma decode_entry: "is_entry w (di_id (decode w))"
  using decodeDPImm_entry [of w] decodeDPReg_entry [of w] decodeLoadStore_entry [of w]
    decodeFloat_entry [of w] decodeSIMD_entry [of w] decodeSystemOrBranch_entry [of w]
  by (simp add: decode_def decodeFloatOrSIMD_def field_tests is_entry_simps del: insert_iff)

subsection \<open>The table\<close>

lemma instructions_complete: "sec_complete instructions w"
  by (simp add: instructions_def sec_complete_append all_complete)

lemma instructions_ids: "map fst instructions = [1..<NUM_INSTRUCTIONS]"
proof -
  have "[i..<j] @ [j..<k] = [i..<k]" if "i \<le> j" "j \<le> k" for i j k :: nat
    using that upt_add_eq_append [of i j "k - j"] by simp
  then show ?thesis
    by (simp add: instructions_def all_ids del: upt_rec_numeral)
qed

lemma instructions_exact:
  "(i, e) \<in> set instructions \<Longrightarrow> entry_matches e w \<Longrightarrow>
   di_id (decode w) = i \<or> i = ID_HINT \<and> ID_HINT < di_id (decode w)"
  using instructions_complete [of w] unfolding sec_complete_def list_all_iff by fastforce

lemma hint_entry:
  assumes "(ID_HINT, e) \<in> set instructions" and "entry_matches e w"
  shows "di_id (decode w) \<le> ID_SEVL"
proof -
  have hint: "(ID_HINT, snd (INST ID_HINT 0b11111111111111111111000000011111
      0b11010101000000110010000000011111 [] [])) \<in> set instructions"
    using section_subsets(3) by (auto simp: insts_System_def INST_def)
  have "distinct (map fst instructions)" by (simp add: instructions_ids del: upt_rec_numeral)
  from eq_key_imp_eq_value [OF this assms(1) hint]
  have "w AND 0b11111111111111111111000000011111 = 0b11010101000000110010000000011111"
    using assms(2) by (simp add: INST_simps)
  then show ?thesis
    by (simp add: decode_class system_defs bit_lits)
qed

lemma length_instructions: "length instructions = 1106"
  using arg_cong [OF instructions_ids, of length] by simp

interpretation dt: decode_table instructions "\<lambda>w. di_id (decode w)"
proof
  show "map fst instructions = [1..<Suc (length instructions)]"
    by (simp add: instructions_ids length_instructions)
  show "(i, e) \<in> set instructions \<Longrightarrow> entry_matches e w \<Longrightarrow> i \<le> di_id (decode w)" for i e w
    using instructions_exact [of i e w] by auto
  show "di_id (decode w) = 0 \<or>
      (\<exists>e. (di_id (decode w), e) \<in> set instructions \<and> entry_matches e w)" for w
    using decode_entry [of w] by (simp add: is_entry_def)
qed

lemma gInstructionDecodeTable_eq: "gInstructionDecodeTable = default_info # map snd instructions"
proof -
  have "fold (\<lambda>(x, info) tab. tab[x := info]) instructions (replicate 1107 default_info) =
      take 1 (replicate 1107 default_info) @ map snd instructions"
    by (rule fill_table) (simp_all add: instructions_ids length_instructions)
  then show ?thesis by (simp add: gInstructionDecodeTable_def)
qed

lemma decode_id_range: "di_id (decode w) < NUM_INSTRUCTIONS"
  using dt.dec_range [of w] by (simp add: length_instructions)

subsection \<open>Properties\<close>

text \<open>
  C1. The two decoders agree: on every 32-bit word the table scan \<^verbatim>\<open>decode2\<close> returns what the
  hand-written \<^verbatim>\<open>decode\<close> returns, for all 1106 entries of the instruction list. It is what
  \<^verbatim>\<open>decoder::test\<close> checks at run time by enumerating the words.
\<close>

theorem decode2_eq_decode: "decode2 w = decode w"
proof -
  have "di_id (decode2 w) = di_id (decode w)"
    using dt.scan_eq_dec by (simp add: decode2_def gInstructionDecodeTable_eq)
  then show ?thesis by (simp add: decode2_def decode_def)
qed

text \<open>
  C2. The identifier \<^verbatim>\<open>decode\<close> returns indexes the tables of the interpreter, and an entry of the
  instruction list that a word matches is the one \<^verbatim>\<open>decode\<close> returns; the only exception is \<^verbatim>\<open>HINT\<close>,
  which gives way to the special hints after it (\<^verbatim>\<open>NOP\<close> to \<^verbatim>\<open>SEVL\<close>).
\<close>

theorem decode_matches_entry:
  assumes "(i, e) \<in> set instructions" and "entry_matches e w"
  shows "di_id (decode w) < NUM_INSTRUCTIONS \<and>
    (di_id (decode w) = i \<or> i = ID_HINT \<and> di_id (decode w) \<in> {ID_NOP..ID_SEVL})"
proof -
  have "di_id (decode w) \<in> {ID_NOP..ID_SEVL}" if "i = ID_HINT" "ID_HINT < di_id (decode w)"
    using that assms hint_entry [of e w] by auto
  then show ?thesis
    using instructions_exact [OF assms] decode_id_range [of w] by auto
qed

theorem decode_matches_entry_witness:
  "di_id (decode 0xD503201F) < NUM_INSTRUCTIONS \<and>
   (di_id (decode 0xD503201F) = ID_HINT \<or>
    ID_HINT = ID_HINT \<and> di_id (decode 0xD503201F) \<in> {ID_NOP..ID_SEVL})"
proof (rule decode_matches_entry [of _ "snd (INST ID_HINT 0b11111111111111111111000000011111
    0b11010101000000110010000000011111 [] [])"])
  show "(ID_HINT, snd (INST ID_HINT 0b11111111111111111111000000011111
    0b11010101000000110010000000011111 [] [])) \<in> set instructions"
    using section_subsets(3) by (auto simp: insts_System_def INST_def)
qed (simp add: INST_def entry_matches_def)

end
