(* ===== verification/Encode.thy ===== *)
theory Encode
  imports Decode_Equiv
begin

text \<open>
  Round trips between \<^verbatim>\<open>encode\<close> (\<^verbatim>\<open>libcpu/src/encode.cpp\<close>) and the decoder. The unit tests build an
  instruction word by taking \<^verbatim>\<open>encode(id)\<close> and setting operand fields; the lemmas here say when the
  decoder reads the identifier back.
\<close>

unbundle bit_operations_syntax

lemma encode_entry:
  assumes "(i, e) \<in> set instructions"
  shows "encode i = di_match e"
proof -
  obtain k where k: "k < length instructions" and ik: "instructions ! k = (i, e)"
    using assms by (metis in_set_conv_nth)
  then have "i = Suc k"
    using dt.entry_id [OF k] by simp
  with k ik show ?thesis
    by (simp add: encode_def gEncodeInfo_def)
qed

definition match_in_mask :: "(instructionID \<times> instructionDecodeInfo) list \<Rightarrow> bool" where
  "match_in_mask = list_all (\<lambda>x. di_match (snd x) AND di_mask (snd x) = di_match (snd x))"

lemma match_in_mask_INST:
  "match_in_mask (INST i m v a b # xs) \<longleftrightarrow> v AND m = v \<and> match_in_mask xs"
  "match_in_mask []"
  by (simp_all add: match_in_mask_def INST_def)

lemma instructions_match_in_mask: "match_in_mask instructions"
proof -
  have append: "match_in_mask (xs @ ys) \<longleftrightarrow> match_in_mask xs \<and> match_in_mask ys" for xs ys
    by (simp add: match_in_mask_def)
  show ?thesis
    unfolding instructions_def append
    by (intro conjI; simp only: all_sections match_in_mask_INST; simp)
qed

text \<open>The conditions of an entry on operand bits, beyond its mask.\<close>

definition operands_ok :: "instructionDecodeInfo \<Rightarrow> u32 \<Rightarrow> bool" where
  "operands_ok e w \<longleftrightarrow> list_all (\<lambda>m. w AND m \<noteq> 0) (bitsMustNotAllBeClear e) \<and> list_all (\<lambda>m. w AND m \<noteq> m) (bitsMustNotAllBeSet e)"

lemma encoded_word_matches:
  assumes "(i, e) \<in> set instructions" and "w = encode i OR (operands AND NOT (di_mask e))"
  shows "entry_matches e w \<longleftrightarrow> operands_ok e w"
proof -
  have "di_match e AND di_mask e = di_match e"
    using instructions_match_in_mask assms(1) by (force simp: match_in_mask_def list_all_iff)
  moreover have "(m OR (x AND NOT k)) AND k = m AND k" for m x k :: u32
    by (rule bit_word_eqI) (auto simp: bit_simps)
  ultimately have "w AND di_mask e = di_match e"
    using assms by (simp add: encode_entry)
  then show ?thesis by (simp add: entry_matches_def operands_ok_def)
qed

lemma entry_unique: "(i, e) \<in> set instructions \<Longrightarrow> (i, e') \<in> set instructions \<Longrightarrow> e = e'"
  using eq_key_imp_eq_value [of instructions i e e'] by (simp add: instructions_ids del: upt_rec_numeral)

lemma decoded_entry: "(i, e) \<in> set instructions \<Longrightarrow> di_id (decode w) = i \<Longrightarrow> entry_matches e w"
proof -
  assume i: "(i, e) \<in> set instructions" "di_id (decode w) = i"
  have "i \<in> set (map fst instructions)" using i(1) by force
  then have "i \<noteq> 0" by (simp add: instructions_ids del: upt_rec_numeral)
  then obtain e' where "(i, e') \<in> set instructions" "entry_matches e' w"
    using decode_entry [of w] i(2) by (auto simp: is_entry_def)
  then show "entry_matches e w" using entry_unique [OF i(1)] by blast
qed

lemma hint_no_conditions: "(ID_HINT, e) \<in> set instructions \<Longrightarrow> operands_ok e w"
proof -
  assume e: "(ID_HINT, e) \<in> set instructions"
  have "(ID_HINT, snd (INST ID_HINT 0b11111111111111111111000000011111 0b11010101000000110010000000011111 [] [])) \<in> set instructions"
    using section_subsets(3) by (auto simp: insts_System_def INST_def)
  from entry_unique [OF e this] show "operands_ok e w" by (simp add: operands_ok_def INST_def)
qed

subsection \<open>Properties\<close>

text \<open>
  C18. Encode/decode round trip, for every entry of the instruction list: the word \<^verbatim>\<open>encode(id)\<close> with any operand bits set outside the entry's
  mask decodes to \<^verbatim>\<open>id\<close> again precisely when it satisfies the further conditions of the entry on operand bits, which most entries do not have, and
  the decoder returns the word itself with it. The exception is \<^verbatim>\<open>HINT\<close>, which has no such conditions: its word decodes to \<^verbatim>\<open>HINT\<close> or to one of the special
  hints \<^verbatim>\<open>NOP\<close> to \<^verbatim>\<open>SEVL\<close>.
\<close>

theorem decode_encode:
  assumes "(i, e) \<in> set instructions" and "w = encode i OR (operands AND NOT (di_mask e))"
  shows "di_inst (decode w) = w \<and>
    (if i = ID_HINT then di_id (decode w) \<in> {ID_HINT, ID_NOP, ID_YIELD, ID_WFE, ID_WFI, ID_SEV, ID_SEVL}
     else di_id (decode w) = i \<longleftrightarrow> operands_ok e w)"
proof -
  note match = encoded_word_matches [OF assms]
  have "di_id (decode w) \<in> {ID_HINT, ID_NOP, ID_YIELD, ID_WFE, ID_WFI, ID_SEV, ID_SEVL}" if hint: "i = ID_HINT"
  proof -
    have "entry_matches e w" using hint assms(1) match hint_no_conditions by blast
    with instructions_exact [OF assms(1), of w] hint_entry [of e w] assms(1) hint
    have "ID_HINT \<le> di_id (decode w)" "di_id (decode w) \<le> ID_SEVL" by auto
    then show ?thesis by auto
  qed
  moreover have "di_id (decode w) = i \<longleftrightarrow> operands_ok e w" if "i \<noteq> ID_HINT"
    using instructions_exact [OF assms(1), of w] decoded_entry [OF assms(1), of w] match that by blast
  ultimately show ?thesis by (simp add: decode_def)
qed

theorem decode_encode_witness:
  "decode (encode ID_ADD_64_imm OR (0x23 AND NOT 0xFF800000)) =
   \<lparr>di_id = ID_ADD_64_imm, di_inst = encode ID_ADD_64_imm OR (0x23 AND NOT 0xFF800000)\<rparr>"
proof -
  let ?e = "\<lparr>di_mask = 0xFF800000, di_match = 0x91000000,
    bitsMustNotAllBeClear = [], bitsMustNotAllBeSet = []\<rparr> :: instructionDecodeInfo"
  have "(ID_ADD_64_imm, ?e) \<in> set instructions"
    using section_subsets(5) by (auto simp: insts_Add_subtract_immediate_def INST_def)
  from decode_encode [OF this refl, of "0x23"] show ?thesis by (simp add: operands_ok_def)
qed

end
