(* ===== verification/Cpu_State.thy ===== *)
theory Cpu_State
  imports Bitutils Instruction_Ids
begin

text \<open>
  The state of one emulated core (\<^verbatim>\<open>libcpu/inc/cpu.h\<close>, \<^verbatim>\<open>common/inc/types.h\<close>) and the fields of an
  instruction word (\<^verbatim>\<open>libcpu/inc/instruction.h\<close>).

  The 32 general registers are a function of the 5-bit register number an instruction encodes;
  register 31 is the zero register, which \<^verbatim>\<open>interpreter::step\<close> clears after every instruction. The
  union \<^verbatim>\<open>VReg\<close> is its two 64-bit halves; the narrower members overlay them in little-endian order.
  Of \<^verbatim>\<open>PSTATE_t\<close> only the four condition flags are ever read or written. The host thread of a core
  and its \<^verbatim>\<open>std::atomic\<close> wrapper have no state of their own.
\<close>

unbundle bit_operations_syntax

type_synonym reg = "5 word"

record PSTATE_t =
  PS_N :: bool
  PS_Z :: bool
  PS_C :: bool
  PS_V :: bool

record VReg =
  VReg_D0 :: u64
  VReg_D1 :: u64

record Core =
  isActive :: bool
  coreNum :: nat
  GPRegs :: "reg \<Rightarrow> u64"
  VRegs :: "reg \<Rightarrow> VReg"
  PC :: u64
  SP :: u64
  PSTATE :: PSTATE_t
  TLSAddr :: u64
  nextPC :: u64
  numInsts :: u64
  exclusiveAccess :: bool
  exclusiveAccessAddr :: u64
  exclusiveData0 :: u64
  exclusiveData1 :: u64
  interrupts :: u64

definition GENERIC_INTERRUPT :: u64 where "GENERIC_INTERRUPT = shl 1 0"
definition DEBUG_BREAK_INTERRUPT :: u64 where "DEBUG_BREAK_INTERRUPT = shl 1 1"
definition RESET_INTERRUPT :: u64 where "RESET_INTERRUPT = shl 1 2"

text \<open>Assignment to one register, and \<^verbatim>\<open>fetch_or\<close> on the interrupt word of the core.\<close>

definition set_GPR :: "reg \<Rightarrow> u64 \<Rightarrow> Core \<Rightarrow> Core" where
  "set_GPR r v core = core\<lparr>GPRegs := (GPRegs core)(r := v)\<rparr>"

definition set_VReg :: "reg \<Rightarrow> VReg \<Rightarrow> Core \<Rightarrow> Core" where
  "set_VReg r v core = core\<lparr>VRegs := (VRegs core)(r := v)\<rparr>"

definition sendInterrupts :: "u64 \<Rightarrow> Core \<Rightarrow> Core" where
  "sendInterrupts ints core = core\<lparr>interrupts := interrupts core OR ints\<rparr>"

subsection \<open>Instruction fields\<close>

text \<open>
  \<^verbatim>\<open>FLD(name, from, to)\<close> declares the bit field from bit \<^verbatim>\<open>from\<close> to bit \<^verbatim>\<open>to\<close>; a field that names a
  register is read at the width of a register number.
\<close>

definition FLD :: "nat \<Rightarrow> nat \<Rightarrow> u32 \<Rightarrow> u32" where
  "FLD lo hi bits = bitRange lo hi bits"

definition FLD_reg :: "nat \<Rightarrow> u32 \<Rightarrow> reg" where
  "FLD_reg lo bits = ucast (FLD lo (lo + 4) bits)"

definition inst_cond :: "u32 \<Rightarrow> u32" where "inst_cond = FLD 0 3"
definition inst_cond_comp :: "u32 \<Rightarrow> u32" where "inst_cond_comp = FLD 12 15"
definition inst_0_25 :: "u32 \<Rightarrow> u32" where "inst_0_25 = FLD 0 25"
definition inst_5_18 :: "u32 \<Rightarrow> u32" where "inst_5_18 = FLD 5 18"
definition inst_5_20 :: "u32 \<Rightarrow> u32" where "inst_5_20 = FLD 5 20"
definition inst_5_23 :: "u32 \<Rightarrow> u32" where "inst_5_23 = FLD 5 23"
definition inst_10_12 :: "u32 \<Rightarrow> u32" where "inst_10_12 = FLD 10 12"
definition inst_10_15 :: "u32 \<Rightarrow> u32" where "inst_10_15 = FLD 10 15"
definition inst_10_21 :: "u32 \<Rightarrow> u32" where "inst_10_21 = FLD 10 21"
definition inst_12_20 :: "u32 \<Rightarrow> u32" where "inst_12_20 = FLD 12 20"
definition inst_13_20 :: "u32 \<Rightarrow> u32" where "inst_13_20 = FLD 13 20"
definition inst_15_21 :: "u32 \<Rightarrow> u32" where "inst_15_21 = FLD 15 21"
definition inst_16_20 :: "u32 \<Rightarrow> u32" where "inst_16_20 = FLD 16 20"
definition inst_22_23 :: "u32 \<Rightarrow> u32" where "inst_22_23 = FLD 22 23"
definition inst_o0 :: "u32 \<Rightarrow> u32" where "inst_o0 = FLD 19 19"
definition inst_op1 :: "u32 \<Rightarrow> u32" where "inst_op1 = FLD 16 18"
definition inst_CRn :: "u32 \<Rightarrow> u32" where "inst_CRn = FLD 12 15"
definition inst_CRm :: "u32 \<Rightarrow> u32" where "inst_CRm = FLD 8 11"
definition inst_op2 :: "u32 \<Rightarrow> u32" where "inst_op2 = FLD 5 7"
definition inst_option :: "u32 \<Rightarrow> u32" where "inst_option = FLD 13 15"
definition inst_hw :: "u32 \<Rightarrow> u32" where "inst_hw = FLD 21 22"
definition inst_opc :: "u32 \<Rightarrow> u32" where "inst_opc = FLD 29 30"
definition inst_shift :: "u32 \<Rightarrow> u32" where "inst_shift = FLD 22 23"
definition inst_Rt :: "u32 \<Rightarrow> reg" where "inst_Rt = FLD_reg 0"
definition inst_Rd :: "u32 \<Rightarrow> reg" where "inst_Rd = FLD_reg 0"
definition inst_Rn :: "u32 \<Rightarrow> reg" where "inst_Rn = FLD_reg 5"
definition inst_Rm :: "u32 \<Rightarrow> reg" where "inst_Rm = FLD_reg 16"
definition inst_Ra :: "u32 \<Rightarrow> reg" where "inst_Ra = FLD_reg 10"
definition inst_Rt2 :: "u32 \<Rightarrow> reg" where "inst_Rt2 = FLD_reg 10"
definition inst_Rs :: "u32 \<Rightarrow> reg" where "inst_Rs = FLD_reg 16"
definition inst_immlo :: "u32 \<Rightarrow> u32" where "inst_immlo = FLD 29 30"
definition inst_immhi :: "u32 \<Rightarrow> u32" where "inst_immhi = FLD 5 23"
definition inst_imms :: "u32 \<Rightarrow> u32" where "inst_imms = FLD 10 15"
definition inst_immr :: "u32 \<Rightarrow> u32" where "inst_immr = FLD 16 21"
definition inst_N :: "u32 \<Rightarrow> u32" where "inst_N = FLD 22 22"
definition inst_b40 :: "u32 \<Rightarrow> u32" where "inst_b40 = FLD 19 23"
definition inst_b5 :: "u32 \<Rightarrow> u32" where "inst_b5 = FLD 31 31"
definition inst_nzcv :: "u32 \<Rightarrow> u32" where "inst_nzcv = FLD 0 3"

lemmas inst_fields =
  FLD_reg_def inst_cond_def inst_cond_comp_def inst_0_25_def inst_5_18_def inst_5_20_def inst_5_23_def
  inst_10_12_def inst_10_15_def inst_10_21_def inst_12_20_def inst_13_20_def inst_15_21_def inst_16_20_def inst_22_23_def
  inst_o0_def inst_op1_def inst_CRn_def inst_CRm_def inst_op2_def inst_option_def inst_hw_def
  inst_opc_def inst_shift_def inst_Rt_def inst_Rd_def inst_Rn_def inst_Rm_def inst_Ra_def
  inst_Rt2_def inst_Rs_def inst_immlo_def inst_immhi_def inst_imms_def inst_immr_def inst_N_def
  inst_b40_def inst_b5_def inst_nzcv_def FLD_def

lemma unat_FLD_less:
  assumes "lo \<le> hi" and "hi < 32" and "Suc hi - lo < 32"
  shows "unat (FLD lo hi bits) < 2 ^ (Suc hi - lo)"
proof -
  have "FLD lo hi bits < 2 ^ (Suc hi - lo)"
    using bitRange_less_size [of lo hi bits] assms by (simp add: FLD_def)
  then have "unat (FLD lo hi bits) < unat (2 ^ (Suc hi - lo) :: u32)"
    by (simp only: word_less_nat_alt)
  then show ?thesis using assms by (simp add: unat_two_power)
qed

subsection \<open>Registers\<close>

lemma set_GPR_simps [simp]:
  "GPRegs (set_GPR r v core) = (GPRegs core)(r := v)"
  "VRegs (set_GPR r v core) = VRegs core"
  "PC (set_GPR r v core) = PC core"
  "SP (set_GPR r v core) = SP core"
  "PSTATE (set_GPR r v core) = PSTATE core"
  "TLSAddr (set_GPR r v core) = TLSAddr core"
  "nextPC (set_GPR r v core) = nextPC core"
  "numInsts (set_GPR r v core) = numInsts core"
  "interrupts (set_GPR r v core) = interrupts core"
  by (simp_all add: set_GPR_def)

lemma sendInterrupts_simps [simp]:
  "GPRegs (sendInterrupts ints core) = GPRegs core"
  "PC (sendInterrupts ints core) = PC core"
  "nextPC (sendInterrupts ints core) = nextPC core"
  "interrupts (sendInterrupts ints core) = interrupts core OR ints"
  by (simp_all add: sendInterrupts_def)

text \<open>A core with all registers clear, for concrete instances.\<close>

definition zero_core :: Core where
  "zero_core = \<lparr>isActive = True, coreNum = 0, GPRegs = (\<lambda>r. 0), VRegs = (\<lambda>r. \<lparr>VReg_D0 = 0, VReg_D1 = 0\<rparr>), PC = 0, SP = 0,
     PSTATE = \<lparr>PS_N = False, PS_Z = False, PS_C = False, PS_V = False\<rparr>, TLSAddr = 0, nextPC = 0, numInsts = 0,
     exclusiveAccess = False, exclusiveAccessAddr = 0, exclusiveData0 = 0, exclusiveData1 = 0, interrupts = 0\<rparr>"

end
