(* ===== verification/Instutils.thy ===== *)
theory Instutils
  imports Cpu_State
begin

text \<open>
  \<^verbatim>\<open>libcpu/inc/instutils.h\<close>: condition codes, register shifts, the immediates of the logical
  instructions, and the adder with its flags, shared by the interpreter and the recompiler.
\<close>

unbundle bit_operations_syntax

datatype Condition = EQ | NE | CS | CC | MI | PL | VS | VC | HI | LS | GE | LT | GT | LE | AL | A2

datatype SHIFT_TYPE = LSL | LSR | ASR | ROR

text \<open>The conversions \<^verbatim>\<open>static_cast<Condition>\<close> of a 4-bit and \<^verbatim>\<open>static_cast<SHIFT_TYPE>\<close> of a 2-bit field.\<close>

definition to_Condition :: "u32 \<Rightarrow> Condition" where
  "to_Condition c =
     [EQ, NE, CS, CC, MI, PL, VS, VC, HI, LS, GE, LT, GT, LE, AL, A2] ! (unat c mod 16)"

definition to_SHIFT_TYPE :: "u32 \<Rightarrow> SHIFT_TYPE" where
  "to_SHIFT_TYPE t = [LSL, LSR, ASR, ROR] ! (unat t mod 4)"

fun testCondition :: "PSTATE_t \<Rightarrow> Condition \<Rightarrow> bool" where
  "testCondition state EQ = PS_Z state"
| "testCondition state NE = (\<not> PS_Z state)"
| "testCondition state CS = PS_C state"
| "testCondition state CC = (\<not> PS_C state)"
| "testCondition state MI = PS_N state"
| "testCondition state PL = (\<not> PS_N state)"
| "testCondition state VS = PS_V state"
| "testCondition state VC = (\<not> PS_V state)"
| "testCondition state HI = (PS_C state \<and> \<not> PS_Z state)"
| "testCondition state LS = (\<not> (PS_C state \<and> \<not> PS_Z state))"
| "testCondition state GE = (PS_N state = PS_V state)"
| "testCondition state LT = (\<not> (PS_N state = PS_V state))"
| "testCondition state GT = (PS_N state = PS_V state \<and> \<not> PS_Z state)"
| "testCondition state LE = (\<not> (PS_N state = PS_V state \<and> \<not> PS_Z state))"
| "testCondition state AL = True"
| "testCondition state A2 = True"

definition shift :: "u64 \<Rightarrow> SHIFT_TYPE \<Rightarrow> u64 \<Rightarrow> u64 \<Rightarrow> u64" where
  "shift val t amount bits =
     (if amount = 0 then val
      else case t of
        LSL \<Rightarrow> shl val (unat amount)
      | LSR \<Rightarrow> shr val (unat amount)
      | ASR \<Rightarrow> signExtend_rt (shr val (unat amount)) (bits - amount)
      | ROR \<Rightarrow> shr val (unat amount) OR shl val (unat (bits - amount)))"

text \<open>The two loops of \<^verbatim>\<open>getLogicalImmediate\<close>: the position of the top bit of \<open>size\<close>, and the replication.\<close>

function log_length :: "u64 \<Rightarrow> u64 \<Rightarrow> u64" where
  "log_length sz len = (if 1 < sz then log_length (shr sz 1) (len + 1) else len)"
  by auto
termination
proof (relation "measure (\<lambda>(sz, len). unat sz)")
  fix sz len :: u64
  assume "1 < sz"
  then have "unat (shr sz 1) < unat sz"
    by (simp add: shr_def drop_bit_Suc word_less_nat_alt unat_div)
  then show "((shr sz 1, len + 1), sz, len) \<in> measure (\<lambda>(sz, len). unat sz)" by simp
qed simp

declare log_length.simps [simp del]

fun replicate_elem :: "nat \<Rightarrow> nat \<Rightarrow> u64 \<Rightarrow> u64 \<Rightarrow> u64" where
  "replicate_elem 0 esize welem ret = ret"
| "replicate_elem (Suc n) esize welem ret = replicate_elem n esize (shl welem esize) (ret OR welem)"

definition getLogicalImmediate :: "u32 \<Rightarrow> u64" where
  "getLogicalImmediate inst =
     (let sz = shl (ucast (inst_N inst)) 6 OR (NOT (ucast (inst_imms inst)) AND bitmask 6);
          len = log_length sz 0;
          levels = bitmask_rt len;
          S = ucast (inst_imms inst) AND levels;
          R = ucast (inst_immr inst) AND levels;
          esize = shl 1 (unat len) :: u64;
          welem = bitmask_rt (S + 1);
          welem = shr welem (unat R) OR (shl welem (unat (esize - R)) AND bitmask_rt esize)
      in replicate_elem (64 div unat esize) (unat esize) welem 0)"

definition addWithCarry :: "bool \<Rightarrow> bool \<Rightarrow> u64 \<Rightarrow> u64 \<Rightarrow> u64 \<Rightarrow> PSTATE_t \<Rightarrow> u64 \<times> PSTATE_t" where
  "addWithCarry is64 updateFlags op1 op2 carry state =
     (let result = op1 + op2 + carry;
          result = (if \<not> is64 then result AND bitmask 32 else result)
      in if updateFlags then
           (let msb = (if is64 then 63 else 31);
                op1MSB = testBit msb op1;
                op2MSB = testBit msb op2;
                resMSB = testBit msb result;
                mask = (if is64 then bitmask 63 else bitmask 31);
                partial = (op1 AND mask) + (op2 AND mask) + carry;
                parMSB = testBit msb partial
            in (result, state\<lparr>
                  PS_N := resMSB,
                  PS_Z := result = 0,
                  PS_V := op1MSB = op2MSB \<and> op1MSB \<noteq> resMSB,
                  PS_C := op1MSB \<and> op2MSB \<or> op1MSB \<and> parMSB \<or> op2MSB \<and> parMSB\<rparr>))
         else (result, state))"

subsection \<open>The adder\<close>

text \<open>Both widths of \<^verbatim>\<open>addWithCarry\<close> are one computation on the low \<open>width is64\<close> bits.\<close>

definition width :: "bool \<Rightarrow> nat" where "width is64 = (if is64 then 64 else 32)"

lemma adder_partial:
  fixes a b c :: u64
  assumes "p < 64" and "c \<le> 1"
  shows "unat ((a AND mask p) + (b AND mask p) + c) = take_bit p (unat a) + take_bit p (unat b) + unat c"
proof -
  have 1: "unat (a AND mask p) = take_bit p (unat a)" "unat (b AND mask p) = take_bit p (unat b)"
    by (simp_all flip: take_bit_eq_mask add: unat_take_bit)
  have "unat c \<le> 1" using assms(2) by (simp add: word_le_nat_alt)
  moreover have "take_bit p (unat a) < 2 ^ p" "take_bit p (unat b) < 2 ^ p" by simp_all
  moreover have "(2::nat) ^ Suc p \<le> 2 ^ 64" using assms(1) by (intro power_increasing) auto
  ultimately have "take_bit p (unat a) + take_bit p (unat b) + unat c < 2 ^ 64"
    unfolding power_Suc by linarith
  with 1 show ?thesis by (simp add: unat_word_ariths)
qed

lemma carry_majority:
  fixes X Y k :: nat
  assumes "X < 2 ^ p" "Y < 2 ^ p" "k \<le> 1"
  shows "(P \<and> Q \<or> P \<and> 2 ^ p \<le> X + Y + k \<or> Q \<and> 2 ^ p \<le> X + Y + k) \<longleftrightarrow>
    2 ^ Suc p \<le> of_bool P * 2 ^ p + X + (of_bool Q * 2 ^ p + Y) + k"
  using assms by (cases P; cases Q; auto)

lemma adder_facts:
  fixes a b c :: u64
  assumes p: "p < 64" and c: "c \<le> 1"
  defines "A \<equiv> take_bit (Suc p) (unat a)" and "B \<equiv> take_bit (Suc p) (unat b)"
    and "r \<equiv> take_bit (Suc p) (a + b + c)"
  shows adder_result: "unat r = (A + B + unat c) mod 2 ^ Suc p"
    and adder_carry: "(bit a p \<and> bit b p \<or> bit a p \<and> bit ((a AND mask p) + (b AND mask p) + c) p \<or>
        bit b p \<and> bit ((a AND mask p) + (b AND mask p) + c) p) \<longleftrightarrow> 2 ^ Suc p \<le> A + B + unat c"
    and adder_msb: "bit r p \<longleftrightarrow> 2 ^ p \<le> (A + B + unat c) mod 2 ^ Suc p"
proof -
  have le: "(2::nat) ^ Suc p dvd 2 ^ 64" using p by (intro le_imp_power_dvd) auto
  have "unat r = take_bit (Suc p) ((unat a + unat b + unat c) mod 2 ^ 64)"
    by (simp add: r_def unat_take_bit unat_word_ariths mod_simps)
  also have "\<dots> = (unat a + unat b + unat c) mod 2 ^ Suc p"
    using le by (simp add: take_bit_eq_mod mod_mod_cancel)
  also have "\<dots> = (A + B + unat c) mod 2 ^ Suc p"
    unfolding A_def B_def take_bit_eq_mod by (metis mod_add_eq mod_add_left_eq)
  finally show res: "unat r = (A + B + unat c) mod 2 ^ Suc p" .
  have "bit r p \<longleftrightarrow> bit (unat r) p" by (simp add: bit_unsigned_iff)
  then show "bit r p \<longleftrightarrow> 2 ^ p \<le> (A + B + unat c) mod 2 ^ Suc p"
    using bit_top_nat [of "unat r" p] by (simp add: res)
  have c1: "unat c \<le> 1" using c by (simp add: word_le_nat_alt)
  have xy: "take_bit p (unat a) < 2 ^ p" "take_bit p (unat b) < 2 ^ p" by simp_all
  let ?s = "take_bit p (unat a) + take_bit p (unat b) + unat c"
  have "?s < 2 ^ Suc p" using c1 xy unfolding power_Suc by linarith
  then have par: "bit ((a AND mask p) + (b AND mask p) + c) p \<longleftrightarrow> 2 ^ p \<le> ?s"
    using bit_top_nat [of ?s p] adder_partial [OF p c, of a b]
      bit_unsigned_iff [of "(a AND mask p) + (b AND mask p) + c" p, where 'a = nat] by simp
  show "(bit a p \<and> bit b p \<or> bit a p \<and> bit ((a AND mask p) + (b AND mask p) + c) p \<or>
        bit b p \<and> bit ((a AND mask p) + (b AND mask p) + c) p) \<longleftrightarrow> 2 ^ Suc p \<le> A + B + unat c"
    unfolding par A_def B_def low_split
    by (rule carry_majority [OF xy c1])
qed

lemma adder_overflow:
  fixes a b c :: u64
  assumes p: "p < 64" and c: "c \<le> 1"
  shows "(bit a p = bit b p \<and> bit a p \<noteq> bit (take_bit (Suc p) (a + b + c)) p) \<longleftrightarrow>
    signed_take_bit p (uint a) + signed_take_bit p (uint b) + uint c \<notin> {- (2 ^ p)..<2 ^ p}"
proof -
  define X Y where "X = take_bit p (unat a)" and "Y = take_bit p (unat b)"
  obtain k where k: "unat c = k" and uc: "uint c = int k" by simp
  have c1: "k \<le> 1" using c k by (simp add: word_le_nat_alt)
  have xy: "X < 2 ^ p" "Y < 2 ^ p" by (simp_all add: X_def Y_def)
  have s: "X + Y + k < 2 ^ Suc p" using c1 xy unfolding power_Suc by linarith
  have r: "bit (take_bit (Suc p) (a + b + c)) p \<longleftrightarrow>
      2 ^ p \<le> (of_bool (bit a p) * 2 ^ p + X + (of_bool (bit b p) * 2 ^ p + Y) + k) mod 2 ^ Suc p"
    using adder_msb [OF p c, of a b] by (simp add: low_split X_def Y_def k)
  have 2: "(2::int) ^ p = int (2 ^ p)" by simp
  show ?thesis
  proof (cases "bit a p = bit b p")
    case True
    have "(2 ^ p + X + (2 ^ p + Y) + k) mod 2 ^ Suc p = X + Y + k"
    proof -
      have "2 ^ p + X + (2 ^ p + Y) + k = (X + Y + k) + 1 * 2 ^ Suc p" by simp
      then show ?thesis using s by (simp only: mod_mult_self1 mod_less)
    qed
    moreover have "(X + Y + k) mod 2 ^ Suc p = X + Y + k" using s by simp
    ultimately have "bit (take_bit (Suc p) (a + b + c)) p \<longleftrightarrow> 2 ^ p \<le> X + Y + k"
      using r True by (cases "bit a p") (simp_all add: ac_simps)
    then show ?thesis
      unfolding signed_low_split uc using True xy s
      by (cases "bit a p") (auto simp: X_def [symmetric] Y_def [symmetric] 2 simp del: of_nat_power)
  next
    case False
    then show ?thesis
      unfolding signed_low_split uc using xy c1
      by (cases "bit a p") (auto simp: X_def [symmetric] Y_def [symmetric] 2 simp del: of_nat_power)
  qed
qed

lemma addWithCarry_unfold:
  fixes is64 op1 op2 carry st
  defines "p \<equiv> width is64 - 1"
  shows "addWithCarry is64 True op1 op2 carry st =
    (let r = take_bit (Suc p) (op1 + op2 + carry);
         par = (op1 AND mask p) + (op2 AND mask p) + carry
     in (r, st\<lparr>PS_N := bit r p, PS_Z := r = 0, PS_V := bit op1 p = bit op2 p \<and> bit op1 p \<noteq> bit r p,
         PS_C := bit op1 p \<and> bit op2 p \<or> bit op1 p \<and> bit par p \<or> bit op2 p \<and> bit par p\<rparr>))"
  by (cases is64) (simp_all add: addWithCarry_def p_def width_def Let_def testBit_iff_bit bitmask_eq_mask
      take_bit_eq_mask and_mask_64)

lemma addWithCarry_spec:
  assumes "carry \<le> 1"
  shows "let w = width is64; A = take_bit w (unat op1); B = take_bit w (unat op2);
             (r, s) = addWithCarry is64 True op1 op2 carry st
         in unat r = (A + B + unat carry) mod 2 ^ w \<and>
            (PS_N s \<longleftrightarrow> 2 ^ (w - 1) \<le> unat r) \<and>
            (PS_Z s \<longleftrightarrow> unat r = 0) \<and>
            (PS_C s \<longleftrightarrow> 2 ^ w \<le> A + B + unat carry) \<and>
            (PS_V s \<longleftrightarrow> signed_take_bit (w - 1) (uint op1) + signed_take_bit (w - 1) (uint op2) + uint carry
               \<notin> {- (2 ^ (w - 1))..<2 ^ (w - 1)})"
proof -
  define p where "p = width is64 - 1"
  have w: "width is64 = Suc p" and p: "p < 64" by (simp_all add: p_def width_def)
  show ?thesis
    unfolding addWithCarry_unfold p_def [symmetric] Let_def w prod.case
    using adder_result [OF p assms, of op1 op2] adder_carry [OF p assms, of op1 op2]
      adder_msb [OF p assms, of op1 op2] adder_overflow [OF p assms, of op1 op2]
      unat_eq_0 [of "take_bit (Suc p) (op1 + op2 + carry)"]
    by simp
qed

text \<open>Flags of a comparison: the sum of one operand, the complement of the other, and one.\<close>

lemma take_bit_unat_not:
  assumes "n \<le> 64"
  shows "int (take_bit n (unat (NOT (b :: u64)))) = int (2 ^ n) - 1 - int (take_bit n (unat b))"
proof -
  have "int (take_bit n (unat (NOT b))) = take_bit n (uint (NOT b))"
    by (simp add: of_nat_take_bit)
  also have "\<dots> = take_bit n (NOT (uint b))"
    using assms by (simp add: unsigned_not_eq min_def)
  also have "\<dots> = int (2 ^ n) - 1 - int (take_bit n (unat b))"
    by (simp add: take_bit_not_eq_mask_diff mask_eq_exp_minus_1 of_nat_take_bit)
  finally show ?thesis .
qed

lemma signed_take_bit_uint_not:
  assumes "n < 64"
  shows "signed_take_bit n (uint (NOT (b :: u64))) = - 1 - signed_take_bit n (uint b)"
proof -
  have "bit (uint (NOT b)) n \<longleftrightarrow> \<not> bit b n" using assms by (simp add: bit_unsigned_iff bit_not_iff)
  moreover have "bit (uint b) n \<longleftrightarrow> bit b n" by (simp add: bit_unsigned_iff)
  moreover have "take_bit (Suc n) (uint (NOT b)) = 2 ^ Suc n - 1 - take_bit (Suc n) (uint b)"
    using take_bit_unat_not [of "Suc n" b] assms by (simp add: of_nat_take_bit)
  ultimately show ?thesis
    by (simp add: signed_take_bit_eq_take_bit_minus)
qed

lemma subtract_flags:
  fixes X Y P A B r :: nat and n v :: bool
  assumes "X < P" "Y < P" "A = of_bool \<alpha> * P + X" "B = of_bool \<beta> * P + Y"
    and "r = (if B \<le> A then A - B else A + 2 * P - B)"
    and "n \<longleftrightarrow> P \<le> r"
    and "v \<longleftrightarrow> (int X - of_bool \<alpha> * int P) - (int Y - of_bool \<beta> * int P) \<notin> {- int P..<int P}"
  shows "(n = v) \<longleftrightarrow> int Y - of_bool \<beta> * int P \<le> int X - of_bool \<alpha> * int P"
    and "A = B \<longleftrightarrow> int Y - of_bool \<beta> * int P = int X - of_bool \<alpha> * int P"
  using assms by (cases \<alpha>; cases \<beta>; auto)+

lemma subtract_mod:
  fixes A B M :: nat
  assumes "A < M" "B < M"
  shows "(A + (M - 1 - B) + 1) mod M = (if B \<le> A then A - B else A + M - B)"
proof (cases "B \<le> A")
  case True
  then have "A + (M - 1 - B) + 1 = (A - B) + 1 * M" using assms by simp
  then show ?thesis using True assms by (simp only: mod_mult_self1) simp
next
  case False
  then show ?thesis using assms by simp
qed

lemma compare_flags:
  fixes a b :: u64
  defines "U w x \<equiv> take_bit w (unat x)" and "I w x \<equiv> signed_take_bit (w - 1) (uint x)"
  assumes w: "w = width is64" and s: "s = snd (addWithCarry is64 True a (NOT b) 1 st)"
  shows "(testCondition s EQ \<longleftrightarrow> U w a = U w b) \<and> (testCondition s NE \<longleftrightarrow> U w a \<noteq> U w b) \<and>
    (testCondition s CS \<longleftrightarrow> U w b \<le> U w a) \<and> (testCondition s CC \<longleftrightarrow> U w a < U w b) \<and>
    (testCondition s HI \<longleftrightarrow> U w b < U w a) \<and> (testCondition s LS \<longleftrightarrow> U w a \<le> U w b) \<and>
    (testCondition s GE \<longleftrightarrow> I w b \<le> I w a) \<and> (testCondition s LT \<longleftrightarrow> I w a < I w b) \<and>
    (testCondition s GT \<longleftrightarrow> I w b < I w a) \<and> (testCondition s LE \<longleftrightarrow> I w a \<le> I w b)"
proof -
  define p where "p = w - 1"
  have wp: "w = Suc p" and p: "p < 64" and w64: "w \<le> 64" by (simp_all add: w p_def width_def)
  let ?A = "take_bit w (unat a)" and ?B = "take_bit w (unat b)"
  have A: "?A < 2 ^ w" and B: "?B < 2 ^ w" by simp_all
  have nb: "take_bit w (unat (NOT b)) = 2 ^ w - 1 - ?B"
    using take_bit_unat_not [OF w64, of b] B by linarith
  obtain r where rs: "addWithCarry is64 True a (NOT b) 1 st = (r, s)"
    using s by (metis prod.collapse)
  have c: "unat r = (?A + (2 ^ w - 1 - ?B) + 1) mod 2 ^ w" "PS_N s \<longleftrightarrow> 2 ^ p \<le> unat r"
    "PS_Z s \<longleftrightarrow> unat r = 0" "PS_C s \<longleftrightarrow> 2 ^ w \<le> ?A + (2 ^ w - 1 - ?B) + 1"
    "PS_V s \<longleftrightarrow> signed_take_bit p (uint a) + signed_take_bit p (uint (NOT b)) + 1 \<notin> {- (2 ^ p)..<2 ^ p}"
    using addWithCarry_spec [of 1 is64 a "NOT b" st]
    unfolding rs w [symmetric] Let_def prod.case nb p_def [symmetric] by simp_all
  have r: "unat r = (if ?B \<le> ?A then ?A - ?B else ?A + 2 * 2 ^ p - ?B)"
    using c(1) subtract_mod [OF A B] by (simp add: wp)
  have X: "take_bit p (unat a) < 2 ^ p" and Y: "take_bit p (unat b) < 2 ^ p" by simp_all
  have z: "PS_Z s \<longleftrightarrow> ?A = ?B"
    unfolding c(3) r using A B by (auto simp only: wp power_Suc split: if_splits)
  have cc: "PS_C s \<longleftrightarrow> ?B \<le> ?A"
    unfolding c(4) using B by linarith
  have I: "I w x = int (take_bit p (unat x)) - of_bool (bit x p) * int (2 ^ p)" for x
    by (simp add: I_def wp signed_low_split)
  have "signed_take_bit p (uint a) + signed_take_bit p (uint (NOT b)) + 1 = I w a - I w b"
    using signed_take_bit_uint_not [OF p, of b] by (simp add: I_def wp)
  then have v: "PS_V s \<longleftrightarrow> I w a - I w b \<notin> {- int (2 ^ p)..<int (2 ^ p)}"
    using c(5) by simp
  note sf = subtract_flags [OF X Y low_split [of p a, folded wp] low_split [of p b, folded wp] r c(2)
      v [unfolded I], folded I]
  show ?thesis
    using sf z cc by (auto simp: U_def)
qed

subsection \<open>Logical immediates\<close>

lemma log_length_eq:
  "2 ^ k \<le> unat sz \<Longrightarrow> unat sz < 2 ^ Suc k \<Longrightarrow> log_length sz len = len + of_nat k"
proof (induction k arbitrary: sz len)
  case 0
  then have "\<not> 1 < sz" by (simp add: word_less_nat_alt)
  then show ?case by (simp add: log_length.simps [of sz])
next
  case (Suc k)
  have "2 \<le> (2::nat) ^ Suc k" by simp
  with Suc.prems(1) have "1 < unat sz" by linarith
  then have "1 < sz" by (simp add: word_less_nat_alt)
  moreover have "unat (shr sz 1) = unat sz div 2"
    by (simp add: shr_def drop_bit_Suc unat_div)
  ultimately show ?case
    using Suc.IH [of "shr sz 1" "len + 1"] Suc.prems by (simp add: log_length.simps [of sz] ac_simps)
qed

lemma bit_bitmask_rt:
  "unat n \<le> 64 \<Longrightarrow> bit (bitmask_rt n :: u64) j \<longleftrightarrow> j < unat n"
proof (cases "unat n = 64")
  case True
  then have "n = 64" by (simp add: word_unat_eq_iff)
  then show ?thesis by (auto simp: bitmask_rt_def bit_simps)
next
  case False
  assume "unat n \<le> 64"
  with False have "unat n < 64" by simp
  moreover from this have "n \<noteq> 64" by auto
  moreover have "shl 1 k - 1 = (mask k :: u64)" if "k < 64" for k
    using that by (simp add: shl_less mask_eq_exp_minus_1 push_bit_eq_mult)
  ultimately show ?thesis by (auto simp: bitmask_rt_def bit_simps)
qed

lemma ror_elem_bits:
  fixes S R :: u64
  assumes L: "L \<le> 6" and S: "unat S < 2 ^ L" and R: "unat R < 2 ^ L"
  shows "bit (shr (bitmask_rt (S + 1)) (unat R) OR
       (shl (bitmask_rt (S + 1)) (unat (2 ^ L - R)) AND bitmask_rt (2 ^ L)) :: u64) j
     \<longleftrightarrow> j < 2 ^ L \<and> (j + unat R) mod 2 ^ L \<le> unat S"
proof -
  have e: "(2::nat) ^ L \<le> 2 ^ 6" using L by (intro power_increasing) auto
  have uL: "unat (2 ^ L :: u64) = 2 ^ L" using L by (intro unat_two_power) simp
  have S1: "unat (S + 1) = Suc (unat S)" using S e by (simp add: unat_word_ariths)
  have sub: "unat (2 ^ L - R) = 2 ^ L - unat R" using R uL unat_sub [of R "2 ^ L"]
    by (simp only: word_le_nat_alt less_imp_le)
  have m: "bit (bitmask_rt (S + 1) :: u64) i \<longleftrightarrow> i \<le> unat S" for i
    using bit_bitmask_rt [of "S + 1" i] S1 S e by auto
  have es: "bit (bitmask_rt (2 ^ L) :: u64) j \<longleftrightarrow> j < 2 ^ L"
    using bit_bitmask_rt [of "2 ^ L" j] uL e by simp
  show ?thesis
  proof (cases "unat R = 0 \<and> L = 6")
    case True
    then have "(2 ^ L - unat R) mod 64 = 0" by simp
    then show ?thesis
      using S R True unfolding bit_or_iff bit_and_iff bit_shl bit_shr sub m es by auto
  next
    case False
    then have "(2 ^ L - unat R) mod 64 = 2 ^ L - unat R"
    proof (cases "unat R = 0")
      case True
      with False L have "(2::nat) ^ L \<le> 2 ^ 5" by (intro power_increasing) auto
      with True show ?thesis by simp
    next
      case False
      then have "2 ^ L - unat R < 64" using e R by simp
      then show ?thesis by simp
    qed
    moreover have "unat R mod 64 = unat R" using R e by simp
    moreover have "(j + unat R) mod 2 ^ L = (if j + unat R < 2 ^ L then j + unat R else j + unat R - 2 ^ L)"
      if "j < 2 ^ L" using R that by (simp add: mod_if)
    ultimately show ?thesis
      using S R e by (auto simp: bit_simps bit_shl bit_shr m es sub split: if_splits)
  qed
qed

lemma replicate_elem_bits:
  assumes "\<And>j. bit welem j \<Longrightarrow> j < es" and "0 < es" and "es < 64"
  shows "bit (replicate_elem n es (push_bit (es * k) welem) ret) i \<longleftrightarrow>
    bit ret i \<or> (i < 64 \<and> k \<le> i div es \<and> i div es < k + n \<and> bit welem (i mod es))"
proof (induction n arbitrary: k ret)
  case (Suc n)
  have "shl (push_bit (es * k) welem) es = push_bit (es * Suc k) welem"
    using assms(3) by (simp add: shl_less ac_simps)
  moreover have "bit (push_bit (es * k) welem) i \<longleftrightarrow> i < 64 \<and> i div es = k \<and> bit welem (i mod es)"
  proof -
    have "es * k \<le> i \<and> i - es * k < es \<longleftrightarrow> i div es = k"
      using assms(2) by (auto simp: div_nat_eqI minus_mult_div_eq_mod)
    then show ?thesis using assms(1) by (auto simp: bit_simps minus_mult_div_eq_mod)
  qed
  ultimately show ?case
    by (simp only: replicate_elem.simps Suc.IH) (auto simp: bit_simps)
qed auto

lemma replicate_elem_all:
  assumes "\<And>j. bit welem j \<Longrightarrow> j < 2 ^ L" and "L \<le> 6"
  shows "bit (replicate_elem (64 div 2 ^ L) (2 ^ L) welem 0) i \<longleftrightarrow> i < 64 \<and> bit welem (i mod 2 ^ L)"
proof (cases "L = 6")
  case True
  then show ?thesis using assms(1) [of i] by (auto dest: bit_imp_le_length)
next
  case False
  with assms(2) have L: "L \<le> 5" by simp
  then have "(2::nat) ^ L \<le> 2 ^ 5" by (intro power_increasing) auto
  moreover have "i div 2 ^ L < 64 div 2 ^ L" if "i < 64"
  proof -
    have "(64::nat) = 2 ^ (6 - L) * 2 ^ L" using assms(2) by (simp flip: power_add)
    then have "64 div 2 ^ L = (2::nat) ^ (6 - L)" and "i < 2 ^ (6 - L) * 2 ^ L"
      using that by (metis nonzero_mult_div_cancel_right power_not_zero zero_neq_numeral, simp)
    then show ?thesis by (simp only: less_mult_imp_div_less)
  qed
  ultimately show ?thesis
    using replicate_elem_bits [OF assms(1), where n = "64 div 2 ^ L" and k = 0 and ret = 0 and i = i] by auto
qed

lemma logical_size:
  assumes n: "unat n < 2" and s: "unat s < 64"
  shows "unat (shl (ucast n) 6 OR (NOT (ucast s) AND bitmask 6) :: u64) =
    64 * unat (n :: u32) + (63 - unat (s :: u32))"
proof -
  let ?n = "ucast n :: u64" and ?s = "ucast s :: u64"
  have low: "unat (NOT ?s AND mask 6) = 63 - unat s"
    using s by (simp flip: take_bit_eq_mask add: unat_take_bit_not unat_ucast_u32)
  have hi: "unat (push_bit 6 ?n) = 64 * unat n"
    using n by (simp add: push_bit_eq_mult unat_word_ariths unat_ucast_u32)
  have "push_bit 6 ?n OR (NOT ?s AND mask 6) = push_bit 6 ?n + (NOT ?s AND mask 6)"
    by (rule disjunctive_add [symmetric]) (auto simp: bit_simps)
  then show ?thesis
    using n s low hi by (simp add: shl_less bitmask_eq_mask unat_word_ariths)
qed

subsection \<open>Properties\<close>

text \<open>
  C3. \<^verbatim>\<open>addWithCarry\<close> computes the sum of the low 32 or 64 bits with carry, and its flags are exact: carry
  is unsigned overflow, overflow is signed overflow.
\<close>

theorem addWithCarry_correct:
  assumes "carry \<le> 1"
  shows "let w = width is64; A = take_bit w (unat op1); B = take_bit w (unat op2);
             (r, s) = addWithCarry is64 True op1 op2 carry st
         in unat r = (A + B + unat carry) mod 2 ^ w \<and>
            (PS_N s \<longleftrightarrow> 2 ^ (w - 1) \<le> unat r) \<and>
            (PS_Z s \<longleftrightarrow> unat r = 0) \<and>
            (PS_C s \<longleftrightarrow> 2 ^ w \<le> A + B + unat carry) \<and>
            (PS_V s \<longleftrightarrow> signed_take_bit (w - 1) (uint op1) + signed_take_bit (w - 1) (uint op2) + uint carry
               \<notin> {- (2 ^ (w - 1))..<2 ^ (w - 1)})"
  by (rule addWithCarry_spec [OF assms])

theorem addWithCarry_correct_witness:
  "let st = \<lparr>PS_N = False, PS_Z = False, PS_C = False, PS_V = False\<rparr>;
       (r, s) = addWithCarry False True 0x7FFFFFFF 0 1 st
   in unat r = 0x80000000 \<and> PS_N s \<and> \<not> PS_Z s \<and> \<not> PS_C s \<and> PS_V s"
  using addWithCarry_correct [of 1 False "0x7FFFFFFF" 0
      "\<lparr>PS_N = False, PS_Z = False, PS_C = False, PS_V = False\<rparr>"]
  by (simp add: width_def Let_def case_prod_beta take_bit_eq_mod signed_take_bit_eq_take_bit_minus
      bit_iff_odd)

text \<open>
  The condition codes mean what their names say after a comparison: on the flags of
  \<open>a - b\<close> (as \<^verbatim>\<open>CMP\<close> computes them, at either width) they decide equality and the unsigned and signed
  orders of the operands.
\<close>

theorem compare_conditions:
  "let w = width is64; s = snd (addWithCarry is64 True a (NOT b) 1 st);
       U = (\<lambda>x. take_bit w (unat x)); I = (\<lambda>x. signed_take_bit (w - 1) (uint x))
   in (testCondition s EQ \<longleftrightarrow> U a = U b) \<and> (testCondition s NE \<longleftrightarrow> U a \<noteq> U b) \<and>
      (testCondition s CS \<longleftrightarrow> U b \<le> U a) \<and> (testCondition s CC \<longleftrightarrow> U a < U b) \<and>
      (testCondition s HI \<longleftrightarrow> U b < U a) \<and> (testCondition s LS \<longleftrightarrow> U a \<le> U b) \<and>
      (testCondition s GE \<longleftrightarrow> I b \<le> I a) \<and> (testCondition s LT \<longleftrightarrow> I a < I b) \<and>
      (testCondition s GT \<longleftrightarrow> I b < I a) \<and> (testCondition s LE \<longleftrightarrow> I a \<le> I b)"
  unfolding Let_def by (rule compare_flags [OF refl refl])

text \<open>
  \<^verbatim>\<open>getLogicalImmediate\<close> computes the immediate of the logical instructions: with \<open>L\<close> the position of
  the top bit of \<open>N:NOT(imms)\<close>, it is the \<open>2 ^ L\<close>-bit element of \<open>S + 1\<close> ones rotated right by \<open>R\<close>,
  replicated over 64 bits.
\<close>

theorem getLogicalImmediate_bits:
  assumes "2 ^ L \<le> 64 * unat (inst_N inst) + (63 - unat (inst_imms inst))"
    and "64 * unat (inst_N inst) + (63 - unat (inst_imms inst)) < 2 ^ Suc L"
  shows "bit (getLogicalImmediate inst) i \<longleftrightarrow>
    i < 64 \<and> (i + unat (inst_immr inst) mod 2 ^ L) mod 2 ^ L \<le> unat (inst_imms inst) mod 2 ^ L"
proof -
  let ?N = "ucast (inst_N inst) :: u64" and ?imms = "ucast (inst_imms inst) :: u64"
    and ?immr = "ucast (inst_immr inst) :: u64"
  have N: "unat (inst_N inst) < 2" and S: "unat (inst_imms inst) < 64" and R: "unat (inst_immr inst) < 64"
    using unat_FLD_less [of 22 22 inst] unat_FLD_less [of 10 15 inst] unat_FLD_less [of 16 21 inst]
    by (simp_all add: inst_N_def inst_imms_def inst_immr_def)
  have sz: "unat (shl ?N 6 OR (NOT ?imms AND bitmask 6)) = 64 * unat (inst_N inst) + (63 - unat (inst_imms inst))"
    by (rule logical_size [OF N S])
  have "(2::nat) ^ L < 2 ^ 7" using assms(1) N S by simp
  then have L: "L \<le> 6" by (simp only: power_strict_increasing_iff)
  have len: "log_length (shl ?N 6 OR (NOT ?imms AND bitmask 6)) 0 = of_nat L"
    using log_length_eq [of L _ 0] assms by (simp add: sz)
  have uL: "unat (of_nat L :: u64) = L" using L by (simp add: unat_of_nat)
  have "bitmask_rt (of_nat L) = (mask L :: u64)"
    using bit_bitmask_rt [of "of_nat L"] uL L by (intro bit_word_eqI) (simp add: bit_mask_iff)
  then have field: "unat (ucast x AND bitmask_rt (of_nat L) :: u64) = unat x mod 2 ^ L" for x :: u32
    by (simp add: unat_and_mask take_bit_eq_mod unat_ucast_u32)
  have e: "shl 1 (unat (of_nat L :: u64)) = (2 ^ L :: u64)" and ue: "unat (2 ^ L :: u64) = 2 ^ L"
    using L by (simp_all add: uL shl_less push_bit_eq_mult unat_two_power)
  have ror: "bit (shr (bitmask_rt ((?imms AND bitmask_rt (of_nat L)) + 1)) (unat (?immr AND bitmask_rt (of_nat L))) OR
       (shl (bitmask_rt ((?imms AND bitmask_rt (of_nat L)) + 1)) (unat (2 ^ L - (?immr AND bitmask_rt (of_nat L)))) AND
        bitmask_rt (2 ^ L)) :: u64) j \<longleftrightarrow>
      j < 2 ^ L \<and> (j + unat (inst_immr inst) mod 2 ^ L) mod 2 ^ L \<le> unat (inst_imms inst) mod 2 ^ L" for j
    using ror_elem_bits [OF L, of "?imms AND bitmask_rt (of_nat L)" "?immr AND bitmask_rt (of_nat L)" j]
    by (simp add: field)
  have "bit (getLogicalImmediate inst) i \<longleftrightarrow> i < 64 \<and>
      (i mod 2 ^ L + unat (inst_immr inst) mod 2 ^ L) mod 2 ^ L \<le> unat (inst_imms inst) mod 2 ^ L"
    unfolding getLogicalImmediate_def Let_def len e ue
    by (subst replicate_elem_all [OF _ L]) (simp_all add: ror)
  then show ?thesis by (simp add: mod_simps)
qed

theorem getLogicalImmediate_bits_witness:
  "bit (getLogicalImmediate 0x9201F000) 1 \<longleftrightarrow> (1 + 1 mod 2) mod (2 :: nat) \<le> 0"
  using getLogicalImmediate_bits [of 1 "0x9201F000" 1]
  by (simp add: inst_fields bitRange_def shr_def bitmask_def shl_def)

end
