(* ===== verification/Interp_Branch.thy ===== *)
theory Interp_Branch
  imports Instutils
begin

text \<open>
  \<^verbatim>\<open>libcpu/src/interpreter/Branch.cpp\<close>: branch handlers, one definition per C++ function; a template
  takes its template arguments first. A branch assigns \<^verbatim>\<open>nextPC\<close>, which \<^verbatim>\<open>step\<close> has set to
  \<open>PC + 4\<close>. \<^verbatim>\<open>UNIMPLEMENTED_FUNC\<close> only logs.
\<close>

unbundle bit_operations_syntax

definition UNIMPLEMENTED_FUNC :: "Core \<Rightarrow> u32 \<Rightarrow> Core" where
  "UNIMPLEMENTED_FUNC core inst = core"

definition condBranch :: "Core \<Rightarrow> u32 \<Rightarrow> Core" where
  "condBranch core inst =
     (let cond = to_Condition (inst_cond inst);
          off = signExtend 21 (ucast (shl (inst_5_23 inst) 2) :: u64)
      in if testCondition (PSTATE core) cond then core\<lparr>nextPC := PC core + off\<rparr> else core)"

definition uncondBranchRegGeneric :: "bool \<Rightarrow> Core \<Rightarrow> u32 \<Rightarrow> Core" where
  "uncondBranchRegGeneric link core inst =
     (let addr = GPRegs core (inst_Rn inst);
          core = (if link then set_GPR 30 (PC core + 4) core else core)
      in core\<lparr>nextPC := addr\<rparr>)"

definition uncondBranchRegNoLink :: "Core \<Rightarrow> u32 \<Rightarrow> Core" where
  "uncondBranchRegNoLink core inst = uncondBranchRegGeneric False core inst"

definition uncondBranchRegLink :: "Core \<Rightarrow> u32 \<Rightarrow> Core" where
  "uncondBranchRegLink core inst = uncondBranchRegGeneric True core inst"

definition uncondBranchImmGeneric :: "bool \<Rightarrow> Core \<Rightarrow> u32 \<Rightarrow> Core" where
  "uncondBranchImmGeneric link core inst =
     (let off = signExtend 28 (ucast (shl (inst_0_25 inst) 2) :: u64);
          core = (if link then set_GPR 30 (PC core + 4) core else core)
      in core\<lparr>nextPC := PC core + off\<rparr>)"

definition uncondBranchImmNoLink :: "Core \<Rightarrow> u32 \<Rightarrow> Core" where
  "uncondBranchImmNoLink core inst = uncondBranchImmGeneric False core inst"

definition uncondBranchImmLink :: "Core \<Rightarrow> u32 \<Rightarrow> Core" where
  "uncondBranchImmLink core inst = uncondBranchImmGeneric True core inst"

definition compareBranchGeneric :: "bool \<Rightarrow> bool \<Rightarrow> Core \<Rightarrow> u32 \<Rightarrow> Core" where
  "compareBranchGeneric is64 negate core inst =
     (let off = signExtend 21 (ucast (shl (inst_5_23 inst) 2) :: u64);
          operand = GPRegs core (inst_Rt inst);
          operand = (if \<not> is64 then operand AND bitmask 32 else operand);
          cond = (operand = 0);
          cond = (if negate then \<not> cond else cond)
      in if cond then core\<lparr>nextPC := PC core + off\<rparr> else core)"

definition cbz32 :: "Core \<Rightarrow> u32 \<Rightarrow> Core" where
  "cbz32 core inst = compareBranchGeneric False False core inst"

definition cbnz32 :: "Core \<Rightarrow> u32 \<Rightarrow> Core" where
  "cbnz32 core inst = compareBranchGeneric False True core inst"

definition cbz64 :: "Core \<Rightarrow> u32 \<Rightarrow> Core" where
  "cbz64 core inst = compareBranchGeneric True False core inst"

definition cbnz64 :: "Core \<Rightarrow> u32 \<Rightarrow> Core" where
  "cbnz64 core inst = compareBranchGeneric True True core inst"

definition testBitBranchGeneric :: "bool \<Rightarrow> Core \<Rightarrow> u32 \<Rightarrow> Core" where
  "testBitBranchGeneric negate core inst =
     (let off = signExtend 16 (ucast (shl (inst_5_18 inst) 2) :: u64);
          operand = GPRegs core (inst_Rt inst);
          pos = inst_b40 inst OR shl (inst_b5 inst) 5;
          cond = testBit (unat pos) operand;
          cond = (if negate then \<not> cond else cond)
      in if cond then core\<lparr>nextPC := PC core + off\<rparr> else core)"

definition tbz :: "Core \<Rightarrow> u32 \<Rightarrow> Core" where
  "tbz core inst = testBitBranchGeneric True core inst"

definition tbnz :: "Core \<Rightarrow> u32 \<Rightarrow> Core" where
  "tbnz core inst = testBitBranchGeneric False core inst"

definition registerBranchInstructions :: "(instructionID \<times> (Core \<Rightarrow> u32 \<Rightarrow> Core)) list" where
  "registerBranchInstructions = [
     (ID_B_cond, condBranch),
     (ID_BR, uncondBranchRegNoLink),
     (ID_BLR, uncondBranchRegLink),
     (ID_RET, uncondBranchRegNoLink),
     (ID_ERET, UNIMPLEMENTED_FUNC),
     (ID_DRPS, UNIMPLEMENTED_FUNC),
     (ID_B, uncondBranchImmNoLink),
     (ID_BL, uncondBranchImmLink),
     (ID_CBZ_32, cbz32),
     (ID_CBNZ_32, cbnz32),
     (ID_CBZ_64, cbz64),
     (ID_CBNZ_64, cbnz64),
     (ID_TBZ, tbz),
     (ID_TBNZ, tbnz)]"

lemmas branch_handlers =
  UNIMPLEMENTED_FUNC_def condBranch_def
  uncondBranchRegNoLink_def
  uncondBranchRegLink_def
  uncondBranchImmNoLink_def
  uncondBranchImmLink_def
  cbz32_def
  cbnz32_def
  cbz64_def
  cbnz64_def
  tbz_def
  tbnz_def
  uncondBranchRegGeneric_def uncondBranchImmGeneric_def compareBranchGeneric_def testBitBranchGeneric_def

subsection \<open>Branch offsets\<close>

text \<open>
  An offset field of \<open>k\<close> bits is scaled by 4 and sign extended at \<open>k + 2\<close> bits: it denotes four times
  the two's complement value of the field.
\<close>

definition branch_offset :: "nat \<Rightarrow> u32 \<Rightarrow> u64" where
  "branch_offset k fld = of_int (4 * signed_take_bit (k - 1) (uint fld))"

lemma scaled_offset:
  assumes k: "0 < k" "k + 2 \<le> 32" and fld: "unat fld < 2 ^ k"
  shows "signExtend (k + 2) (ucast (shl fld 2) :: u64) = branch_offset k fld"
proof -
  have le: "(2::nat) ^ k \<le> 2 ^ 30" using k by (intro power_increasing) auto
  have u: "unat (shl fld 2) = 4 * unat fld"
    using fld le by (simp add: shl_less push_bit_eq_mult unat_word_ariths)
  then have w: "(ucast (shl fld 2) :: u64) = 4 * ucast fld" (is "?w = _")
    using fld le by (simp add: word_unat_eq_iff unat_word_ariths unat_ucast_u32)
  have tb: "take_bit (k + 2) ?w = ?w"
    using fld by (simp add: word_unat_eq_iff unat_take_bit unat_ucast_u32 u take_bit_nat_eq_self)
  have "bit ?w (k + 1) \<longleftrightarrow> bit fld (k - 1)"
    using k by (simp add: bit_simps shl_less)
  then have "signExtend (k + 2) ?w = 4 * ucast fld - of_bool (bit fld (k - 1)) * 2 ^ (k + 2)"
    using signExtend_arith [OF _ _ tb] k by (simp add: w)
  moreover have "signed_take_bit (k - 1) (uint fld) = uint fld - of_bool (bit fld (k - 1)) * 2 ^ k"
  proof -
    have "int (unat fld) < int (2 ^ k)" using fld by (simp only: of_nat_less_iff)
    then have "take_bit k (uint fld) = uint fld" by (simp add: take_bit_int_eq_self)
    then show ?thesis
      using k by (simp add: signed_take_bit_eq_take_bit_minus bit_unsigned_iff)
  qed
  ultimately show ?thesis
    by (simp add: branch_offset_def right_diff_distrib)
qed
lemmas branch_offsets =
  scaled_offset [of 26, simplified] scaled_offset [of 19, simplified] scaled_offset [of 14, simplified]

lemma branch_field_bounds:
  "unat (inst_0_25 inst) < 2 ^ 26" "unat (inst_5_23 inst) < 2 ^ 19" "unat (inst_5_18 inst) < 2 ^ 14"
  using unat_FLD_less [of 0 25 inst] unat_FLD_less [of 5 23 inst] unat_FLD_less [of 5 18 inst]
  by (simp_all add: inst_0_25_def inst_5_23_def inst_5_18_def)

lemma test_bit_position:
  "unat (inst_b40 inst OR shl (inst_b5 inst) 5) = unat (inst_b40 inst) + 32 * unat (inst_b5 inst)"
  "unat (inst_b40 inst) + 32 * unat (inst_b5 inst) < 64"
proof -
  have b: "unat (inst_b40 inst) < 32" "unat (inst_b5 inst) < 2"
    using unat_FLD_less [of 19 23 inst] unat_FLD_less [of 31 31 inst]
    by (simp_all add: inst_b40_def inst_b5_def)
  then show "unat (inst_b40 inst) + 32 * unat (inst_b5 inst) < 64" by simp
  have "take_bit 5 (inst_b40 inst) = inst_b40 inst"
    using b by (simp add: word_unat_eq_iff unat_take_bit take_bit_nat_eq_self)
  then have low: "bit (inst_b40 inst) i \<Longrightarrow> i < 5" for i by (metis bit_take_bit_iff)
  have "inst_b40 inst + push_bit 5 (inst_b5 inst) = inst_b40 inst OR push_bit 5 (inst_b5 inst)"
    by (intro disjunctive_add) (auto simp: bit_simps dest: low)
  moreover have "unat (inst_b40 inst + push_bit 5 (inst_b5 inst)) = unat (inst_b40 inst) + 32 * unat (inst_b5 inst)"
    using b by (simp add: push_bit_eq_mult unat_word_ariths)
  moreover have "shl (inst_b5 inst) 5 = push_bit 5 (inst_b5 inst)" by (simp add: shl_less)
  ultimately show "unat (inst_b40 inst OR shl (inst_b5 inst) 5) = unat (inst_b40 inst) + 32 * unat (inst_b5 inst)"
    by (simp only:)
qed

lemma branch_next:
  "nextPC (uncondBranchImmGeneric link core inst) = PC core + branch_offset 26 (inst_0_25 inst) \<and>
   nextPC (uncondBranchRegGeneric link core inst) = GPRegs core (inst_Rn inst) \<and>
   nextPC (condBranch core inst) =
     (if testCondition (PSTATE core) (to_Condition (inst_cond inst))
      then PC core + branch_offset 19 (inst_5_23 inst) else nextPC core) \<and>
   nextPC (compareBranchGeneric is64 negate core inst) =
     (if (take_bit (width is64) (GPRegs core (inst_Rt inst)) = 0) \<noteq> negate
      then PC core + branch_offset 19 (inst_5_23 inst) else nextPC core) \<and>
   nextPC (testBitBranchGeneric negate core inst) =
     (if bit (GPRegs core (inst_Rt inst)) (unat (inst_b40 inst) + 32 * unat (inst_b5 inst)) \<noteq> negate
      then PC core + branch_offset 14 (inst_5_18 inst) else nextPC core)"
  by (auto simp: branch_handlers Let_def branch_offsets branch_field_bounds [simplified]
      testBit_iff_bit test_bit_position width_def bitmask_eq_mask take_bit_eq_mask and_mask_64)

subsection \<open>Properties\<close>

text \<open>
  Branch targets: \<^verbatim>\<open>B\<close> and \<^verbatim>\<open>BL\<close> go to \<open>PC\<close> plus four times the signed 26-bit field; a conditional
  branch, a compare-and-branch and a test-bit-and-branch go to \<open>PC\<close> plus four times their signed 19-bit or
  14-bit field exactly when the condition holds, and otherwise leave \<^verbatim>\<open>nextPC\<close>; a register branch goes to
  the register's value even when it links through the same register.
\<close>

theorem branch_targets:
  "nextPC (uncondBranchImmGeneric link core inst) = PC core + branch_offset 26 (inst_0_25 inst) \<and>
   nextPC (uncondBranchRegGeneric link core inst) = GPRegs core (inst_Rn inst) \<and>
   nextPC (condBranch core inst) =
     (if testCondition (PSTATE core) (to_Condition (inst_cond inst))
      then PC core + branch_offset 19 (inst_5_23 inst) else nextPC core) \<and>
   nextPC (compareBranchGeneric is64 negate core inst) =
     (if (take_bit (width is64) (GPRegs core (inst_Rt inst)) = 0) \<noteq> negate
      then PC core + branch_offset 19 (inst_5_23 inst) else nextPC core) \<and>
   nextPC (testBitBranchGeneric negate core inst) =
     (if bit (GPRegs core (inst_Rt inst)) (unat (inst_b40 inst) + 32 * unat (inst_b5 inst)) \<noteq> negate
      then PC core + branch_offset 14 (inst_5_18 inst) else nextPC core)"
  by (rule branch_next)

end
