(* ===== verification/Interp_DPImm.thy ===== *)
theory Interp_DPImm
  imports Interp_Branch
begin

text \<open>
  \<^verbatim>\<open>libcpu/src/interpreter/DataProcessingImm.cpp\<close>: data processing with an immediate operand. The
  template parameter \<^verbatim>\<open>is64\<close> selects the 64-bit form; a 32-bit form clears the upper half of its
  destination.
\<close>

unbundle bit_operations_syntax

text \<open>The statement \<^verbatim>\<open>if constexpr (!is64) x &= bitmask<32, uint64_t>()\<close>.\<close>

definition narrow :: "bool \<Rightarrow> u64 \<Rightarrow> u64" where
  "narrow is64 x = (if \<not> is64 then x AND bitmask 32 else x)"

text \<open>The flags of a logical operation.\<close>

definition logical_flags :: "bool \<Rightarrow> u64 \<Rightarrow> Core \<Rightarrow> Core" where
  "logical_flags is64 res core = core\<lparr>PSTATE := (PSTATE core)\<lparr>
     PS_N := testBit (if is64 then 63 else 31) res, PS_Z := res = 0, PS_C := False, PS_V := False\<rparr>\<rparr>"

definition addSubImmGeneric :: "bool \<Rightarrow> bool \<Rightarrow> bool \<Rightarrow> Core \<Rightarrow> u32 \<Rightarrow> Core" where
  "addSubImmGeneric is64 isSub updatesFlags core inst =
     (let shft = testBit 22 inst;
          imm = shl (ucast (inst_10_21 inst) :: u64) (if shft then 12 else 0);
          operand1 = (if inst_Rn inst = 31 then SP core else GPRegs core (inst_Rn inst));
          operand2 = (if isSub then NOT imm else imm);
          (result, state) = addWithCarry is64 updatesFlags operand1 operand2 (if isSub then 1 else 0) (PSTATE core);
          core = core\<lparr>PSTATE := state\<rparr>;
          result = narrow is64 result
      in if inst_Rd inst = 31 then (if \<not> updatesFlags then core\<lparr>SP := result\<rparr> else core)
         else set_GPR (inst_Rd inst) result core)"

definition add32Imm :: "Core \<Rightarrow> u32 \<Rightarrow> Core" where
  "add32Imm core inst = addSubImmGeneric False False False core inst"

definition adds32Imm :: "Core \<Rightarrow> u32 \<Rightarrow> Core" where
  "adds32Imm core inst = addSubImmGeneric False False True core inst"

definition sub32Imm :: "Core \<Rightarrow> u32 \<Rightarrow> Core" where
  "sub32Imm core inst = addSubImmGeneric False True False core inst"

definition subs32Imm :: "Core \<Rightarrow> u32 \<Rightarrow> Core" where
  "subs32Imm core inst = addSubImmGeneric False True True core inst"

definition add64Imm :: "Core \<Rightarrow> u32 \<Rightarrow> Core" where
  "add64Imm core inst = addSubImmGeneric True False False core inst"

definition adds64Imm :: "Core \<Rightarrow> u32 \<Rightarrow> Core" where
  "adds64Imm core inst = addSubImmGeneric True False True core inst"

definition sub64Imm :: "Core \<Rightarrow> u32 \<Rightarrow> Core" where
  "sub64Imm core inst = addSubImmGeneric True True False core inst"

definition subs64Imm :: "Core \<Rightarrow> u32 \<Rightarrow> Core" where
  "subs64Imm core inst = addSubImmGeneric True True True core inst"

definition moveWideImmGeneric :: "bool \<Rightarrow> Core \<Rightarrow> u32 \<Rightarrow> Core" where
  "moveWideImmGeneric is64 core inst =
     (let shft = unat (inst_hw inst) * 16;
          imm = shl (ucast (inst_5_20 inst) :: u64) shft;
          imm = (if inst_opc inst = 0 then NOT imm
                 else if inst_opc inst = 3 then
                   (let old = GPRegs core (inst_Rd inst);
                        mask = NOT (shl 0xFFFF shft)
                    in (old AND mask) OR imm)
                 else imm)
      in set_GPR (inst_Rd inst) (narrow is64 imm) core)"

definition mov32 :: "Core \<Rightarrow> u32 \<Rightarrow> Core" where
  "mov32 core inst = moveWideImmGeneric False core inst"

definition mov64 :: "Core \<Rightarrow> u32 \<Rightarrow> Core" where
  "mov64 core inst = moveWideImmGeneric True core inst"

definition PCRelativeGeneric :: "bool \<Rightarrow> Core \<Rightarrow> u32 \<Rightarrow> Core" where
  "PCRelativeGeneric isPage core inst =
     (let imm = ucast (shl (inst_immhi inst) 2 OR inst_immlo inst) :: u64;
          imm = signExtend 21 imm;
          base = PC core;
          (imm, base) = (if isPage then (shl imm 12, base AND 0xFFFFFFFFFFFFF000) else (imm, base))
      in set_GPR (inst_Rd inst) (base + imm) core)"

definition adr :: "Core \<Rightarrow> u32 \<Rightarrow> Core" where
  "adr core inst = PCRelativeGeneric False core inst"

definition adrp :: "Core \<Rightarrow> u32 \<Rightarrow> Core" where
  "adrp core inst = PCRelativeGeneric True core inst"

definition logicalGeneric :: "bool \<Rightarrow> bool \<Rightarrow> Core \<Rightarrow> u32 \<Rightarrow> (u64 \<Rightarrow> u64 \<Rightarrow> u64) \<Rightarrow> Core" where
  "logicalGeneric is64 updatesFlags core inst func =
     (let imm = getLogicalImmediate inst;
          op1 = GPRegs core (inst_Rn inst);
          res = narrow is64 (func op1 imm);
          core = (if inst_Rd inst = 31 then (if \<not> updatesFlags then core\<lparr>SP := res\<rparr> else core)
                  else set_GPR (inst_Rd inst) res core)
      in if updatesFlags then logical_flags is64 res core else core)"

definition and32Imm :: "Core \<Rightarrow> u32 \<Rightarrow> Core" where
  "and32Imm core inst = logicalGeneric False False core inst (AND)"

definition orr32Imm :: "Core \<Rightarrow> u32 \<Rightarrow> Core" where
  "orr32Imm core inst = logicalGeneric False False core inst (OR)"

definition eor32Imm :: "Core \<Rightarrow> u32 \<Rightarrow> Core" where
  "eor32Imm core inst = logicalGeneric False False core inst (XOR)"

definition ands32Imm :: "Core \<Rightarrow> u32 \<Rightarrow> Core" where
  "ands32Imm core inst = logicalGeneric False True core inst (AND)"

definition and64Imm :: "Core \<Rightarrow> u32 \<Rightarrow> Core" where
  "and64Imm core inst = logicalGeneric True False core inst (AND)"

definition orr64Imm :: "Core \<Rightarrow> u32 \<Rightarrow> Core" where
  "orr64Imm core inst = logicalGeneric True False core inst (OR)"

definition eor64Imm :: "Core \<Rightarrow> u32 \<Rightarrow> Core" where
  "eor64Imm core inst = logicalGeneric True False core inst (XOR)"

definition ands64Imm :: "Core \<Rightarrow> u32 \<Rightarrow> Core" where
  "ands64Imm core inst = logicalGeneric True True core inst (AND)"

definition bitfieldMoveGeneric :: "bool \<Rightarrow> bool \<Rightarrow> bool \<Rightarrow> Core \<Rightarrow> u32 \<Rightarrow> Core" where
  "bitfieldMoveGeneric is64 writeZeros isSigned core inst =
     (let imms = ucast (inst_imms inst) :: u64;
          immr = ucast (inst_immr inst) :: u64;
          regSize = (if is64 then 64 else 32) :: u64;
          data = narrow is64 (GPRegs core (inst_Rn inst));
          originalSignBit = testBit (unat imms) data;
          finalPos = (imms + regSize - immr) mod regSize;
          sourceMask = bitmask_rt (imms + 1);
          sourceMask = (if imms = 63 then 0xFFFFFFFFFFFFFFFF else sourceMask);
          data = data AND sourceMask;
          data = shr data (unat immr) OR shl data (unat (regSize - immr));
          shiftedMask = (if imms < finalPos then shl sourceMask (unat (finalPos - imms))
                         else shr sourceMask (unat (imms - finalPos)));
          data = data AND shiftedMask;
          data = (if writeZeros then
                    (if isSigned then
                       (if originalSignBit then signExtend_rt data finalPos else data)
                     else data)
                  else
                    (let oldData = GPRegs core (inst_Rd inst);
                         rotatedMask = shr sourceMask (unat immr) OR shl sourceMask (unat (regSize - immr));
                         oldData = oldData AND NOT rotatedMask
                     in data OR oldData))
      in set_GPR (inst_Rd inst) (narrow is64 data) core)"

definition sbfm32 :: "Core \<Rightarrow> u32 \<Rightarrow> Core" where
  "sbfm32 core inst = bitfieldMoveGeneric False True True core inst"

definition bfm32 :: "Core \<Rightarrow> u32 \<Rightarrow> Core" where
  "bfm32 core inst = bitfieldMoveGeneric False False False core inst"

definition ubfm32 :: "Core \<Rightarrow> u32 \<Rightarrow> Core" where
  "ubfm32 core inst = bitfieldMoveGeneric False True False core inst"

definition sbfm64 :: "Core \<Rightarrow> u32 \<Rightarrow> Core" where
  "sbfm64 core inst = bitfieldMoveGeneric True True True core inst"

definition bfm64 :: "Core \<Rightarrow> u32 \<Rightarrow> Core" where
  "bfm64 core inst = bitfieldMoveGeneric True False False core inst"

definition ubfm64 :: "Core \<Rightarrow> u32 \<Rightarrow> Core" where
  "ubfm64 core inst = bitfieldMoveGeneric True True False core inst"

definition extractGeneric :: "bool \<Rightarrow> Core \<Rightarrow> u32 \<Rightarrow> Core" where
  "extractGeneric is64 core inst =
     (let operand1 = narrow is64 (GPRegs core (inst_Rn inst));
          operand2 = narrow is64 (GPRegs core (inst_Rm inst));
          imms = unat (inst_imms inst);
          result = shr operand2 imms OR shl operand1 ((if is64 then 64 else 32) - imms)
      in set_GPR (inst_Rd inst) (narrow is64 result) core)"

definition extr32 :: "Core \<Rightarrow> u32 \<Rightarrow> Core" where
  "extr32 core inst = extractGeneric False core inst"

definition extr64 :: "Core \<Rightarrow> u32 \<Rightarrow> Core" where
  "extr64 core inst = extractGeneric True core inst"

definition registerDPImmInstructions :: "(instructionID \<times> (Core \<Rightarrow> u32 \<Rightarrow> Core)) list" where
  "registerDPImmInstructions = [
     (ID_ADR, adr),
     (ID_ADRP, adrp),
     (ID_ADD_32_imm, add32Imm),
     (ID_ADDS_32_imm, adds32Imm),
     (ID_SUB_32_imm, sub32Imm),
     (ID_SUBS_32_imm, subs32Imm),
     (ID_ADD_64_imm, add64Imm),
     (ID_ADDS_64_imm, adds64Imm),
     (ID_SUB_64_imm, sub64Imm),
     (ID_SUBS_64_imm, subs64Imm),
     (ID_AND_32_imm, and32Imm),
     (ID_ORR_32_imm, orr32Imm),
     (ID_EOR_32_imm, eor32Imm),
     (ID_ANDS_32_imm, ands32Imm),
     (ID_AND_64_imm, and64Imm),
     (ID_ORR_64_imm, orr64Imm),
     (ID_EOR_64_imm, eor64Imm),
     (ID_ANDS_64_imm, ands64Imm),
     (ID_MOVN_32, mov32),
     (ID_MOVZ_32, mov32),
     (ID_MOVK_32, mov32),
     (ID_MOVN_64, mov64),
     (ID_MOVZ_64, mov64),
     (ID_MOVK_64, mov64),
     (ID_SBFM_32, sbfm32),
     (ID_BFM_32, bfm32),
     (ID_UBFM_32, ubfm32),
     (ID_SBFM_64, sbfm64),
     (ID_BFM_64, bfm64),
     (ID_UBFM_64, ubfm64),
     (ID_EXTR_32, extr32),
     (ID_EXTR_64, extr64)]"

lemmas dpimm_generic =
  addSubImmGeneric_def moveWideImmGeneric_def PCRelativeGeneric_def logicalGeneric_def
  bitfieldMoveGeneric_def extractGeneric_def logical_flags_def

lemmas dpimm_handlers =
  add32Imm_def
  adds32Imm_def
  sub32Imm_def
  subs32Imm_def
  add64Imm_def
  adds64Imm_def
  sub64Imm_def
  subs64Imm_def
  mov32_def
  mov64_def
  adr_def
  adrp_def
  and32Imm_def
  orr32Imm_def
  eor32Imm_def
  ands32Imm_def
  and64Imm_def
  orr64Imm_def
  eor64Imm_def
  ands64Imm_def
  sbfm32_def
  bfm32_def
  ubfm32_def
  sbfm64_def
  bfm64_def
  ubfm64_def
  extr32_def
  extr64_def

lemma narrow_eq_take_bit: "narrow is64 x = take_bit (width is64) x"
  by (simp add: narrow_def width_def bitmask_eq_mask take_bit_eq_mask and_mask_64)

lemma bit_narrow: "bit (narrow is64 x) i \<longleftrightarrow> i < width is64 \<and> bit x i"
  by (simp add: narrow_eq_take_bit bit_take_bit_iff)

subsection \<open>Bit-field extraction\<close>

lemma bitfield_nats:
  fixes s r :: u64
  assumes "unat s < width is64" "unat r < width is64"
  defines "w \<equiv> (if is64 then 64 else 32) :: u64"
  shows "unat ((s + w - r) mod w) = (if unat r \<le> unat s then unat s - unat r else unat s + width is64 - unat r)"
    and "unat (w - r) = width is64 - unat r"
proof -
  have w: "unat w = width is64" by (simp add: w_def width_def)
  have w64: "width is64 \<le> 64" by (simp add: width_def)
  show wr: "unat (w - r) = width is64 - unat r"
    using assms w by (simp add: unat_sub word_le_nat_alt)
  have "unat (s + w - r) = unat s + width is64 - unat r"
  proof -
    have "s + w - r = s + (w - r)" by simp
    then show ?thesis using assms(1,2) w64 by (simp only: unat_word_ariths wr) simp
  qed
  then have "unat ((s + w - r) mod w) = (unat s + width is64 - unat r) mod width is64"
    by (simp add: unat_mod_distrib w)
  also have "\<dots> = (if unat r \<le> unat s then unat s - unat r else unat s + width is64 - unat r)"
    using assms(1,2) by (auto simp: mod_if)
  finally show "unat ((s + w - r) mod w) = (if unat r \<le> unat s then unat s - unat r else unat s + width is64 - unat r)" .
qed

lemma source_mask_bits:
  fixes s :: u64
  assumes "unat s < 64"
  shows "bit (if s = 63 then 0xFFFFFFFFFFFFFFFF else bitmask_rt (s + 1) :: u64) i \<longleftrightarrow> i \<le> unat s"
proof -
  have "(if s = 63 then 0xFFFFFFFFFFFFFFFF else bitmask_rt (s + 1) :: u64) = bitmask_rt (s + 1)"
    by (cases "s = 63") (simp_all add: bitmask_rt_def)
  moreover have "unat (s + 1) = Suc (unat s)" using assms by (simp add: unat_word_ariths)
  ultimately show ?thesis
    using bit_bitmask_rt [of "s + 1" i] assms by (auto simp: less_Suc_eq_le)
qed

definition ubfm_bit :: "nat \<Rightarrow> nat \<Rightarrow> nat \<Rightarrow> u64 \<Rightarrow> nat \<Rightarrow> bool" where
  "ubfm_bit w s r x i \<longleftrightarrow>
     (if r \<le> s then i + r \<le> s \<and> bit x (i + r) else w - r \<le> i \<and> i - (w - r) \<le> s \<and> bit x (i - (w - r)))"

lemma rotated_field_bits:
  fixes s r x :: u64
  assumes s: "unat s < width is64" and r: "unat r < width is64"
  defines "w \<equiv> (if is64 then 64 else 32) :: u64"
  defines "m \<equiv> (if s = 63 then 0xFFFFFFFFFFFFFFFF else bitmask_rt (s + 1)) :: u64"
  defines "fp \<equiv> (s + w - r) mod w"
  defines "d \<equiv> narrow is64 x AND m"
  shows "bit ((shr d (unat r) OR shl d (unat (w - r))) AND
      (if s < fp then shl m (unat (fp - s)) else shr m (unat (s - fp)))) i \<longleftrightarrow>
    i < 64 \<and> ubfm_bit (width is64) (unat s) (unat r) x i"
proof -
  let ?w = "width is64" and ?s = "unat s" and ?r = "unat r"
  have w64: "?w \<le> 64" "?w = 64 \<or> ?w = 32" by (simp_all add: width_def)
  have m: "bit m i \<longleftrightarrow> i \<le> ?s" for i unfolding m_def using s w64 by (intro source_mask_bits) simp
  have d: "bit d i \<longleftrightarrow> i \<le> ?s \<and> bit x i" for i
    unfolding d_def bit_and_iff bit_narrow m using s by auto
  have fp: "unat fp = (if ?r \<le> ?s then ?s - ?r else ?s + ?w - ?r)" and wr: "unat (w - r) = ?w - ?r"
    unfolding fp_def w_def by (rule bitfield_nats [OF s r])+
  have lt: "s < fp \<longleftrightarrow> ?s < ?r"
    using s r by (auto simp: word_less_nat_alt fp)
  show ?thesis
  proof (cases "?r \<le> ?s")
    case True
    then have sf: "unat (s - fp) = ?r" using fp by (simp add: unat_sub word_le_nat_alt)
    show ?thesis
    proof (cases "?w - ?r = 64")
      case True
      then have "?r = 0" using w64 r by auto
      then show ?thesis
        using True lt s r w64 by (auto simp: bit_simps bit_shl bit_shr m d sf wr ubfm_bit_def)
    next
      case False
      then have "(?w - ?r) mod 64 = ?w - ?r" using w64 by auto
      then show ?thesis
        using \<open>?r \<le> ?s\<close> lt s r w64 by (auto simp: bit_simps bit_shl bit_shr m d sf wr ubfm_bit_def add.commute)
    qed
  next
    case False
    then have sf: "unat (fp - s) = ?w - ?r" using fp r by (simp add: unat_sub word_le_nat_alt)
    have "(?w - ?r) mod 64 = ?w - ?r" using w64 False by auto
    then show ?thesis
      using False lt s r w64 by (auto simp: bit_simps bit_shl bit_shr m d sf wr ubfm_bit_def)
  qed
qed

lemma ubfm_bit_less: "s < w \<Longrightarrow> r < w \<Longrightarrow> ubfm_bit w s r x i \<Longrightarrow> i < w"
  by (auto simp: ubfm_bit_def split: if_splits)

text \<open>
  The unsigned bit-field move is exact at both widths: with \<open>immr \<le> imms\<close> it extracts the bits
  \<open>immr..imms\<close> of the source to the bottom of the destination, otherwise it inserts the low \<open>imms + 1\<close> bits
  at position \<open>width - immr\<close>; every other bit is zero.
\<close>

theorem ubfm_bits:
  assumes "unat (inst_imms inst) < width is64" and "unat (inst_immr inst) < width is64"
  shows "bit (GPRegs (bitfieldMoveGeneric is64 True False core inst) (inst_Rd inst)) i \<longleftrightarrow>
    ubfm_bit (width is64) (unat (inst_imms inst)) (unat (inst_immr inst)) (GPRegs core (inst_Rn inst)) i"
proof -
  note rot = rotated_field_bits [of "ucast (inst_imms inst)" is64 "ucast (inst_immr inst)"
      "GPRegs core (inst_Rn inst)" i, unfolded unat_ucast_u32, OF assms]
  have "width is64 \<le> 64" by (simp add: width_def)
  then show ?thesis
    using ubfm_bit_less [OF assms, of "GPRegs core (inst_Rn inst)" i] rot
    by (auto simp: bitfieldMoveGeneric_def Let_def bit_narrow unat_ucast_u32)
qed

theorem ubfm_bits_witness:
  "bit (GPRegs (bitfieldMoveGeneric True True False (set_GPR 1 0xF0 zero_core)
      0xD3441C20) (inst_Rd 0xD3441C20)) 3"
proof -
  have f: "unat (inst_imms 0xD3441C20) = 7" "unat (inst_immr 0xD3441C20) = 4"
    by (simp_all add: inst_fields bitRange_def shr_def bitmask_def shl_def)
  show ?thesis
    by (subst ubfm_bits) (simp_all add: f width_def ubfm_bit_def inst_fields bitRange_def shr_def bitmask_def shl_def)
qed

end
