(* ===== verification/Interp_DPReg.thy ===== *)
theory Interp_DPReg
  imports Interp_DPImm
begin

text \<open>
  \<^verbatim>\<open>libcpu/src/interpreter/DataProcessingReg.cpp\<close>: data processing on registers. Signed operands are
  converted with \<^verbatim>\<open>memcpy\<close> or casts to \<^verbatim>\<open>int64_t\<close>, which reads the same bits as two's complement; the
  additions and products on \<^verbatim>\<open>int64_t\<close> wrap around on the target, as the word operations do.
\<close>

unbundle bit_operations_syntax

definition logicalShiftedRegGeneric :: "bool \<Rightarrow> bool \<Rightarrow> bool \<Rightarrow> Core \<Rightarrow> u32 \<Rightarrow> (u64 \<Rightarrow> u64 \<Rightarrow> u64) \<Rightarrow> Core" where
  "logicalShiftedRegGeneric is64 negate updatesFlags core inst func =
     (let shiftType = to_SHIFT_TYPE (inst_shift inst);
          operand1 = GPRegs core (inst_Rn inst);
          operand2 = GPRegs core (inst_Rm inst);
          operand2 = shift operand2 shiftType (ucast (inst_10_15 inst)) (if is64 then 64 else 32);
          operand2 = (if negate then NOT operand2 else operand2);
          result = narrow is64 (func operand1 operand2);
          core = set_GPR (inst_Rd inst) result core
      in if updatesFlags then logical_flags is64 result core else core)"

definition and32Shifted :: "Core \<Rightarrow> u32 \<Rightarrow> Core" where
  "and32Shifted core inst = logicalShiftedRegGeneric False False False core inst (AND)"

definition bic32Shifted :: "Core \<Rightarrow> u32 \<Rightarrow> Core" where
  "bic32Shifted core inst = logicalShiftedRegGeneric False True False core inst (AND)"

definition orr32Shifted :: "Core \<Rightarrow> u32 \<Rightarrow> Core" where
  "orr32Shifted core inst = logicalShiftedRegGeneric False False False core inst (OR)"

definition orn32Shifted :: "Core \<Rightarrow> u32 \<Rightarrow> Core" where
  "orn32Shifted core inst = logicalShiftedRegGeneric False True False core inst (OR)"

definition eor32Shifted :: "Core \<Rightarrow> u32 \<Rightarrow> Core" where
  "eor32Shifted core inst = logicalShiftedRegGeneric False False False core inst (XOR)"

definition eon32Shifted :: "Core \<Rightarrow> u32 \<Rightarrow> Core" where
  "eon32Shifted core inst = logicalShiftedRegGeneric False True False core inst (XOR)"

definition ands32Shifted :: "Core \<Rightarrow> u32 \<Rightarrow> Core" where
  "ands32Shifted core inst = logicalShiftedRegGeneric False False True core inst (AND)"

definition bics32Shifted :: "Core \<Rightarrow> u32 \<Rightarrow> Core" where
  "bics32Shifted core inst = logicalShiftedRegGeneric False True True core inst (AND)"

definition and64Shifted :: "Core \<Rightarrow> u32 \<Rightarrow> Core" where
  "and64Shifted core inst = logicalShiftedRegGeneric True False False core inst (AND)"

definition bic64Shifted :: "Core \<Rightarrow> u32 \<Rightarrow> Core" where
  "bic64Shifted core inst = logicalShiftedRegGeneric True True False core inst (AND)"

definition orr64Shifted :: "Core \<Rightarrow> u32 \<Rightarrow> Core" where
  "orr64Shifted core inst = logicalShiftedRegGeneric True False False core inst (OR)"

definition orn64Shifted :: "Core \<Rightarrow> u32 \<Rightarrow> Core" where
  "orn64Shifted core inst = logicalShiftedRegGeneric True True False core inst (OR)"

definition eor64Shifted :: "Core \<Rightarrow> u32 \<Rightarrow> Core" where
  "eor64Shifted core inst = logicalShiftedRegGeneric True False False core inst (XOR)"

definition eon64Shifted :: "Core \<Rightarrow> u32 \<Rightarrow> Core" where
  "eon64Shifted core inst = logicalShiftedRegGeneric True True False core inst (XOR)"

definition ands64Shifted :: "Core \<Rightarrow> u32 \<Rightarrow> Core" where
  "ands64Shifted core inst = logicalShiftedRegGeneric True False True core inst (AND)"

definition bics64Shifted :: "Core \<Rightarrow> u32 \<Rightarrow> Core" where
  "bics64Shifted core inst = logicalShiftedRegGeneric True True True core inst (AND)"

definition addSubShiftedRegGeneric :: "bool \<Rightarrow> bool \<Rightarrow> bool \<Rightarrow> Core \<Rightarrow> u32 \<Rightarrow> Core" where
  "addSubShiftedRegGeneric is64 isSub updatesFlags core inst =
     (let shiftType = to_SHIFT_TYPE (inst_shift inst);
          operand1 = GPRegs core (inst_Rn inst);
          operand2 = GPRegs core (inst_Rm inst);
          operand2 = shift operand2 shiftType (ucast (inst_10_15 inst)) (if is64 then 64 else 32);
          operand2 = (if isSub then NOT operand2 else operand2);
          (result, state) = addWithCarry is64 updatesFlags operand1 operand2 (if isSub then 1 else 0) (PSTATE core);
          core = core\<lparr>PSTATE := state\<rparr>
      in set_GPR (inst_Rd inst) (narrow is64 result) core)"

definition add32Shifted :: "Core \<Rightarrow> u32 \<Rightarrow> Core" where
  "add32Shifted core inst = addSubShiftedRegGeneric False False False core inst"

definition adds32Shifted :: "Core \<Rightarrow> u32 \<Rightarrow> Core" where
  "adds32Shifted core inst = addSubShiftedRegGeneric False False True core inst"

definition sub32Shifted :: "Core \<Rightarrow> u32 \<Rightarrow> Core" where
  "sub32Shifted core inst = addSubShiftedRegGeneric False True False core inst"

definition subs32Shifted :: "Core \<Rightarrow> u32 \<Rightarrow> Core" where
  "subs32Shifted core inst = addSubShiftedRegGeneric False True True core inst"

definition add64Shifted :: "Core \<Rightarrow> u32 \<Rightarrow> Core" where
  "add64Shifted core inst = addSubShiftedRegGeneric True False False core inst"

definition adds64Shifted :: "Core \<Rightarrow> u32 \<Rightarrow> Core" where
  "adds64Shifted core inst = addSubShiftedRegGeneric True False True core inst"

definition sub64Shifted :: "Core \<Rightarrow> u32 \<Rightarrow> Core" where
  "sub64Shifted core inst = addSubShiftedRegGeneric True True False core inst"

definition subs64Shifted :: "Core \<Rightarrow> u32 \<Rightarrow> Core" where
  "subs64Shifted core inst = addSubShiftedRegGeneric True True True core inst"

definition addSubExtendedRegGeneric :: "bool \<Rightarrow> bool \<Rightarrow> bool \<Rightarrow> Core \<Rightarrow> u32 \<Rightarrow> Core" where
  "addSubExtendedRegGeneric is64 isSub updatesFlags core inst =
     (let operand1 = (if inst_Rn inst = 31 then SP core else GPRegs core (inst_Rn inst));
          shft = inst_10_12 inst;
          (sz, isSigned) =
            (if inst_option inst = 0 then (8, False)
             else if inst_option inst = 1 then (16, False)
             else if inst_option inst = 2 then (32, False)
             else if inst_option inst = 3 then (64, False)
             else if inst_option inst = 4 then (8, True)
             else if inst_option inst = 5 then (16, True)
             else if inst_option inst = 6 then (32, True)
             else if inst_option inst = 7 then (64, True)
             else (0, False)) :: u64 \<times> bool;
          operand2 = GPRegs core (inst_Rm inst);
          operand2 = operand2 AND bitmask_rt sz;
          operand2 = (if isSigned then signExtend_rt operand2 sz else operand2);
          operand2 = shl operand2 (unat shft);
          operand2 = (if isSub then NOT operand2 else operand2);
          (result, state) = addWithCarry is64 updatesFlags operand1 operand2 (if isSub then 1 else 0) (PSTATE core);
          core = core\<lparr>PSTATE := state\<rparr>;
          result = narrow is64 result
      in if inst_Rd inst = 31 then (if \<not> updatesFlags then core\<lparr>SP := result\<rparr> else core)
         else set_GPR (inst_Rd inst) result core)"

definition add32Extended :: "Core \<Rightarrow> u32 \<Rightarrow> Core" where
  "add32Extended core inst = addSubExtendedRegGeneric False False False core inst"

definition adds32Extended :: "Core \<Rightarrow> u32 \<Rightarrow> Core" where
  "adds32Extended core inst = addSubExtendedRegGeneric False False True core inst"

definition sub32Extended :: "Core \<Rightarrow> u32 \<Rightarrow> Core" where
  "sub32Extended core inst = addSubExtendedRegGeneric False True False core inst"

definition subs32Extended :: "Core \<Rightarrow> u32 \<Rightarrow> Core" where
  "subs32Extended core inst = addSubExtendedRegGeneric False True True core inst"

definition add64Extended :: "Core \<Rightarrow> u32 \<Rightarrow> Core" where
  "add64Extended core inst = addSubExtendedRegGeneric True False False core inst"

definition adds64Extended :: "Core \<Rightarrow> u32 \<Rightarrow> Core" where
  "adds64Extended core inst = addSubExtendedRegGeneric True False True core inst"

definition sub64Extended :: "Core \<Rightarrow> u32 \<Rightarrow> Core" where
  "sub64Extended core inst = addSubExtendedRegGeneric True True False core inst"

definition subs64Extended :: "Core \<Rightarrow> u32 \<Rightarrow> Core" where
  "subs64Extended core inst = addSubExtendedRegGeneric True True True core inst"

definition addSubCarryGeneric :: "bool \<Rightarrow> bool \<Rightarrow> bool \<Rightarrow> Core \<Rightarrow> u32 \<Rightarrow> Core" where
  "addSubCarryGeneric is64 isSub updatesFlags core inst =
     (let operand1 = GPRegs core (inst_Rn inst);
          operand2 = GPRegs core (inst_Rm inst);
          operand2 = (if isSub then NOT operand2 else operand2);
          (result, state) = addWithCarry is64 updatesFlags operand1 operand2 (if PS_C (PSTATE core) then 1 else 0) (PSTATE core);
          core = core\<lparr>PSTATE := state\<rparr>
      in set_GPR (inst_Rd inst) (narrow is64 result) core)"

definition adc32 :: "Core \<Rightarrow> u32 \<Rightarrow> Core" where
  "adc32 core inst = addSubCarryGeneric False False False core inst"

definition adcs32 :: "Core \<Rightarrow> u32 \<Rightarrow> Core" where
  "adcs32 core inst = addSubCarryGeneric False False True core inst"

definition sbc32 :: "Core \<Rightarrow> u32 \<Rightarrow> Core" where
  "sbc32 core inst = addSubCarryGeneric False True False core inst"

definition sbcs32 :: "Core \<Rightarrow> u32 \<Rightarrow> Core" where
  "sbcs32 core inst = addSubCarryGeneric False True True core inst"

definition adc64 :: "Core \<Rightarrow> u32 \<Rightarrow> Core" where
  "adc64 core inst = addSubCarryGeneric True False False core inst"

definition adcs64 :: "Core \<Rightarrow> u32 \<Rightarrow> Core" where
  "adcs64 core inst = addSubCarryGeneric True False True core inst"

definition sbc64 :: "Core \<Rightarrow> u32 \<Rightarrow> Core" where
  "sbc64 core inst = addSubCarryGeneric True True False core inst"

definition sbcs64 :: "Core \<Rightarrow> u32 \<Rightarrow> Core" where
  "sbcs64 core inst = addSubCarryGeneric True True True core inst"

text \<open>One line \<^verbatim>\<open>op = ((op << k) & hi) | ((op >> k) & lo)\<close> of the reversals.\<close>

definition swap_step :: "nat \<Rightarrow> u64 \<Rightarrow> u64 \<Rightarrow> u64 \<Rightarrow> u64" where
  "swap_step k hi lo op = (shl op k AND hi) OR (shr op k AND lo)"

definition reverseBits :: "bool \<Rightarrow> Core \<Rightarrow> u32 \<Rightarrow> Core" where
  "reverseBits is64 core inst =
     (let op = GPRegs core (inst_Rn inst);
          op = swap_step 1 0xAAAAAAAAAAAAAAAA 0x5555555555555555 op;
          op = swap_step 2 0xCCCCCCCCCCCCCCCC 0x3333333333333333 op;
          op = swap_step 4 0xF0F0F0F0F0F0F0F0 0x0F0F0F0F0F0F0F0F op;
          op = swap_step 8 0xFF00FF00FF00FF00 0x00FF00FF00FF00FF op;
          op = swap_step 16 0xFFFF0000FFFF0000 0x0000FFFF0000FFFF op;
          op = (if \<not> is64 then op AND bitmask 32
                else swap_step 32 0xFFFFFFFF00000000 0x00000000FFFFFFFF op)
      in set_GPR (inst_Rd inst) op core)"

definition rbit32 :: "Core \<Rightarrow> u32 \<Rightarrow> Core" where
  "rbit32 core inst = reverseBits False core inst"

definition rbit64 :: "Core \<Rightarrow> u32 \<Rightarrow> Core" where
  "rbit64 core inst = reverseBits True core inst"

definition reverseBytes :: "bool \<Rightarrow> Core \<Rightarrow> u32 \<Rightarrow> Core" where
  "reverseBytes is64 core inst =
     (let op = GPRegs core (inst_Rn inst);
          op = swap_step 8 0xFF00FF00FF00FF00 0x00FF00FF00FF00FF op;
          op = swap_step 16 0xFFFF0000FFFF0000 0x0000FFFF0000FFFF op;
          op = (if \<not> is64 then op AND bitmask 32
                else swap_step 32 0xFFFFFFFF00000000 0x00000000FFFFFFFF op)
      in set_GPR (inst_Rd inst) op core)"

definition rev32 :: "Core \<Rightarrow> u32 \<Rightarrow> Core" where
  "rev32 core inst = reverseBytes False core inst"

definition rev64 :: "Core \<Rightarrow> u32 \<Rightarrow> Core" where
  "rev64 core inst = reverseBytes True core inst"

definition reverse16 :: "bool \<Rightarrow> Core \<Rightarrow> u32 \<Rightarrow> Core" where
  "reverse16 is64 core inst =
     (let op = GPRegs core (inst_Rn inst);
          op = swap_step 16 0xFFFF0000FFFF0000 0x0000FFFF0000FFFF op;
          op = (if \<not> is64 then op AND bitmask 32
                else swap_step 32 0xFFFFFFFF00000000 0x00000000FFFFFFFF op)
      in set_GPR (inst_Rd inst) op core)"

definition rev16_32 :: "Core \<Rightarrow> u32 \<Rightarrow> Core" where
  "rev16_32 core inst = reverse16 False core inst"

definition rev16_64 :: "Core \<Rightarrow> u32 \<Rightarrow> Core" where
  "rev16_64 core inst = reverse16 True core inst"

definition reverse32 :: "Core \<Rightarrow> u32 \<Rightarrow> Core" where
  "reverse32 core inst =
     set_GPR (inst_Rd inst) (swap_step 32 0xFFFFFFFF00000000 0x00000000FFFFFFFF (GPRegs core (inst_Rn inst))) core"

definition rev32_64 :: "Core \<Rightarrow> u32 \<Rightarrow> Core" where
  "rev32_64 core inst = reverse32 core inst"

text \<open>
  The loop \<^verbatim>\<open>while (index >= 0 && testBit(op, index) == b) { res++; index--; }\<close>, with \<open>n\<close> for
  \<open>index + 1\<close>.
\<close>

fun count_leading :: "bool \<Rightarrow> u64 \<Rightarrow> nat \<Rightarrow> u64 \<Rightarrow> u64" where
  "count_leading b op 0 res = res"
| "count_leading b op (Suc n) res = (if testBit n op = b then count_leading b op n (res + 1) else res)"

definition countLeadingClearBits :: "bool \<Rightarrow> Core \<Rightarrow> u32 \<Rightarrow> Core" where
  "countLeadingClearBits is64 core inst =
     set_GPR (inst_Rd inst) (count_leading False (GPRegs core (inst_Rn inst)) (if is64 then 64 else 32) 0) core"

definition clz32 :: "Core \<Rightarrow> u32 \<Rightarrow> Core" where
  "clz32 core inst = countLeadingClearBits False core inst"

definition clz64 :: "Core \<Rightarrow> u32 \<Rightarrow> Core" where
  "clz64 core inst = countLeadingClearBits True core inst"

definition countLeadingSetBits :: "bool \<Rightarrow> Core \<Rightarrow> u32 \<Rightarrow> Core" where
  "countLeadingSetBits is64 core inst =
     set_GPR (inst_Rd inst) (count_leading True (GPRegs core (inst_Rn inst)) (if is64 then 64 else 32) 0) core"

definition cls32 :: "Core \<Rightarrow> u32 \<Rightarrow> Core" where
  "cls32 core inst = countLeadingSetBits False core inst"

definition cls64 :: "Core \<Rightarrow> u32 \<Rightarrow> Core" where
  "cls64 core inst = countLeadingSetBits True core inst"

definition unsignedDivide :: "bool \<Rightarrow> Core \<Rightarrow> u32 \<Rightarrow> Core" where
  "unsignedDivide is64 core inst =
     (let op1 = narrow is64 (GPRegs core (inst_Rn inst));
          op2 = narrow is64 (GPRegs core (inst_Rm inst));
          result = (if op2 = 0 then 0 else op1 div op2)
      in set_GPR (inst_Rd inst) (narrow is64 result) core)"

definition udiv32 :: "Core \<Rightarrow> u32 \<Rightarrow> Core" where
  "udiv32 core inst = unsignedDivide False core inst"

definition udiv64 :: "Core \<Rightarrow> u32 \<Rightarrow> Core" where
  "udiv64 core inst = unsignedDivide True core inst"

text \<open>\<^verbatim>\<open>/\<close> on \<^verbatim>\<open>int64_t\<close> truncates towards zero.\<close>

definition trunc_div :: "int \<Rightarrow> int \<Rightarrow> int" where
  "trunc_div a b = sgn a * sgn b * (\<bar>a\<bar> div \<bar>b\<bar>)"

definition signedDivide :: "bool \<Rightarrow> Core \<Rightarrow> u32 \<Rightarrow> Core" where
  "signedDivide is64 core inst =
     (let op1 = GPRegs core (inst_Rn inst);
          op2 = GPRegs core (inst_Rm inst);
          op1 = (if \<not> is64 then signExtend 32 (op1 AND bitmask 32) else op1);
          op2 = (if \<not> is64 then signExtend 32 (op2 AND bitmask 32) else op2);
          result = (if op2 = 0 then 0
                    else if is64 \<and> op1 = 0x8000000000000000 \<and> op2 = 0xFFFFFFFFFFFFFFFF then op1
                    else word_of_int (trunc_div (sint op1) (sint op2)))
      in set_GPR (inst_Rd inst) (narrow is64 result) core)"

definition sdiv32 :: "Core \<Rightarrow> u32 \<Rightarrow> Core" where
  "sdiv32 core inst = signedDivide False core inst"

definition sdiv64 :: "Core \<Rightarrow> u32 \<Rightarrow> Core" where
  "sdiv64 core inst = signedDivide True core inst"

definition shiftGeneric :: "bool \<Rightarrow> Core \<Rightarrow> u32 \<Rightarrow> Core" where
  "shiftGeneric is64 core inst =
     (let shiftType = to_SHIFT_TYPE (bitRange 10 11 inst);
          shiftAmount = GPRegs core (inst_Rm inst) mod (if is64 then 64 else 32);
          operand = narrow is64 (GPRegs core (inst_Rn inst));
          res = shift operand shiftType shiftAmount (if is64 then 64 else 32)
      in set_GPR (inst_Rd inst) (narrow is64 res) core)"

definition lslv32 :: "Core \<Rightarrow> u32 \<Rightarrow> Core" where
  "lslv32 core inst = shiftGeneric False core inst"

definition lsrv32 :: "Core \<Rightarrow> u32 \<Rightarrow> Core" where
  "lsrv32 core inst = shiftGeneric False core inst"

definition asrv32 :: "Core \<Rightarrow> u32 \<Rightarrow> Core" where
  "asrv32 core inst = shiftGeneric False core inst"

definition rorv32 :: "Core \<Rightarrow> u32 \<Rightarrow> Core" where
  "rorv32 core inst = shiftGeneric False core inst"

definition lslv64 :: "Core \<Rightarrow> u32 \<Rightarrow> Core" where
  "lslv64 core inst = shiftGeneric True core inst"

definition lsrv64 :: "Core \<Rightarrow> u32 \<Rightarrow> Core" where
  "lsrv64 core inst = shiftGeneric True core inst"

definition asrv64 :: "Core \<Rightarrow> u32 \<Rightarrow> Core" where
  "asrv64 core inst = shiftGeneric True core inst"

definition rorv64 :: "Core \<Rightarrow> u32 \<Rightarrow> Core" where
  "rorv64 core inst = shiftGeneric True core inst"

definition multiply :: "bool \<Rightarrow> bool \<Rightarrow> Core \<Rightarrow> u32 \<Rightarrow> Core" where
  "multiply is64 isSub core inst =
     (let op1 = GPRegs core (inst_Rn inst);
          op2 = GPRegs core (inst_Rm inst);
          op3 = GPRegs core (inst_Ra inst);
          product = op1 * op2;
          res = (if isSub then op3 - product else op3 + product)
      in set_GPR (inst_Rd inst) (narrow is64 res) core)"

definition madd32 :: "Core \<Rightarrow> u32 \<Rightarrow> Core" where
  "madd32 core inst = multiply False False core inst"

definition msub32 :: "Core \<Rightarrow> u32 \<Rightarrow> Core" where
  "msub32 core inst = multiply False True core inst"

definition madd64 :: "Core \<Rightarrow> u32 \<Rightarrow> Core" where
  "madd64 core inst = multiply True False core inst"

definition msub64 :: "Core \<Rightarrow> u32 \<Rightarrow> Core" where
  "msub64 core inst = multiply True True core inst"

definition uMultiplyLong :: "bool \<Rightarrow> Core \<Rightarrow> u32 \<Rightarrow> Core" where
  "uMultiplyLong isSub core inst =
     (let op1 = GPRegs core (inst_Rn inst) AND bitmask 32;
          op2 = GPRegs core (inst_Rm inst) AND bitmask 32;
          op3 = GPRegs core (inst_Ra inst);
          product = op1 * op2;
          res = (if isSub then op3 - product else op3 + product)
      in set_GPR (inst_Rd inst) res core)"

definition umaddl :: "Core \<Rightarrow> u32 \<Rightarrow> Core" where
  "umaddl core inst = uMultiplyLong False core inst"

definition umsubl :: "Core \<Rightarrow> u32 \<Rightarrow> Core" where
  "umsubl core inst = uMultiplyLong True core inst"

definition sMultiplyLong :: "bool \<Rightarrow> Core \<Rightarrow> u32 \<Rightarrow> Core" where
  "sMultiplyLong isSub core inst =
     (let op1 = GPRegs core (inst_Rn inst) AND bitmask 32;
          op2 = GPRegs core (inst_Rm inst) AND bitmask 32;
          op3 = GPRegs core (inst_Ra inst);
          op1_32 = ucast op1 :: u32;
          op2_32 = ucast op2 :: u32;
          op1_s64 = scast op1_32 :: u64;
          op2_s64 = scast op2_32 :: u64;
          product = op1_s64 * op2_s64;
          res = (if isSub then op3 - product else op3 + product)
      in set_GPR (inst_Rd inst) res core)"

definition smaddl :: "Core \<Rightarrow> u32 \<Rightarrow> Core" where
  "smaddl core inst = sMultiplyLong False core inst"

definition smsubl :: "Core \<Rightarrow> u32 \<Rightarrow> Core" where
  "smsubl core inst = sMultiplyLong True core inst"

definition mulhGeneric :: "bool \<Rightarrow> Core \<Rightarrow> u32 \<Rightarrow> Core" where
  "mulhGeneric isSigned core inst =
     (let op1 = GPRegs core (inst_Rn inst);
          op2 = GPRegs core (inst_Rm inst);
          op1hi = shr op1 32;
          op1lo = op1 AND 0xFFFFFFFF;
          op2hi = shr op2 32;
          op2lo = op2 AND 0xFFFFFFFF;
          bd = op1lo * op2lo;
          bc = op1lo * op2hi;
          ad = op1hi * op2lo;
          ac = op1hi * op2hi;
          cy = ucast (shr ((ad AND 0xFFFFFFFF) + (bc AND 0xFFFFFFFF) + shr bd 32) 32) :: u32;
          result = ac + shr ad 32 + shr bc 32 + ucast cy;
          result = (if isSigned then
                      (let result = (if testBit 63 op1 then result - op2 else result)
                       in if testBit 63 op2 then result - op1 else result)
                    else result)
      in set_GPR (inst_Rd inst) result core)"

definition umulh :: "Core \<Rightarrow> u32 \<Rightarrow> Core" where
  "umulh core inst = mulhGeneric False core inst"

definition smulh :: "Core \<Rightarrow> u32 \<Rightarrow> Core" where
  "smulh core inst = mulhGeneric True core inst"

text \<open>The flags an unmet conditional compare takes from its \<^verbatim>\<open>nzcv\<close> field.\<close>

definition nzcv_flags :: "u32 \<Rightarrow> Core \<Rightarrow> Core" where
  "nzcv_flags inst core = core\<lparr>PSTATE := (PSTATE core)\<lparr>
     PS_V := testBit 0 inst, PS_C := testBit 1 inst, PS_Z := testBit 2 inst, PS_N := testBit 3 inst\<rparr>\<rparr>"

definition condCompareRegGeneric :: "bool \<Rightarrow> bool \<Rightarrow> Core \<Rightarrow> u32 \<Rightarrow> Core" where
  "condCompareRegGeneric is64 negate core inst =
     (let cond = to_Condition (inst_cond_comp inst);
          operand1 = GPRegs core (inst_Rn inst);
          operand2 = GPRegs core (inst_Rm inst)
      in if testCondition (PSTATE core) cond then
           (let operand2 = (if negate then NOT operand2 else operand2);
                (result, state) = addWithCarry is64 True operand1 operand2 (if negate then 1 else 0) (PSTATE core)
            in core\<lparr>PSTATE := state\<rparr>)
         else nzcv_flags inst core)"

definition ccmp32Reg :: "Core \<Rightarrow> u32 \<Rightarrow> Core" where
  "ccmp32Reg core inst = condCompareRegGeneric False True core inst"

definition ccmn32Reg :: "Core \<Rightarrow> u32 \<Rightarrow> Core" where
  "ccmn32Reg core inst = condCompareRegGeneric False False core inst"

definition ccmp64Reg :: "Core \<Rightarrow> u32 \<Rightarrow> Core" where
  "ccmp64Reg core inst = condCompareRegGeneric True True core inst"

definition ccmn64Reg :: "Core \<Rightarrow> u32 \<Rightarrow> Core" where
  "ccmn64Reg core inst = condCompareRegGeneric True False core inst"

definition condCompareImmGeneric :: "bool \<Rightarrow> bool \<Rightarrow> Core \<Rightarrow> u32 \<Rightarrow> Core" where
  "condCompareImmGeneric is64 negate core inst =
     (let cond = to_Condition (inst_cond_comp inst);
          operand1 = GPRegs core (inst_Rn inst);
          operand2 = ucast (inst_16_20 inst) :: u64
      in if testCondition (PSTATE core) cond then
           (let operand2 = (if negate then NOT operand2 else operand2);
                (result, state) = addWithCarry is64 True operand1 operand2 (if negate then 1 else 0) (PSTATE core)
            in core\<lparr>PSTATE := state\<rparr>)
         else nzcv_flags inst core)"

definition ccmp32Imm :: "Core \<Rightarrow> u32 \<Rightarrow> Core" where
  "ccmp32Imm core inst = condCompareImmGeneric False True core inst"

definition ccmn32Imm :: "Core \<Rightarrow> u32 \<Rightarrow> Core" where
  "ccmn32Imm core inst = condCompareImmGeneric False False core inst"

definition ccmp64Imm :: "Core \<Rightarrow> u32 \<Rightarrow> Core" where
  "ccmp64Imm core inst = condCompareImmGeneric True True core inst"

definition ccmn64Imm :: "Core \<Rightarrow> u32 \<Rightarrow> Core" where
  "ccmn64Imm core inst = condCompareImmGeneric True False core inst"

definition condSelGeneric :: "bool \<Rightarrow> bool \<Rightarrow> bool \<Rightarrow> Core \<Rightarrow> u32 \<Rightarrow> Core" where
  "condSelGeneric is64 invert increment core inst =
     (let cond = to_Condition (inst_cond_comp inst);
          op1 = GPRegs core (inst_Rn inst);
          op2 = GPRegs core (inst_Rm inst);
          res = (if testCondition (PSTATE core) cond then op1
                 else (let res = op2;
                           res = (if invert then NOT res else res)
                       in if increment then res + 1 else res))
      in set_GPR (inst_Rd inst) (narrow is64 res) core)"

definition csel32 :: "Core \<Rightarrow> u32 \<Rightarrow> Core" where
  "csel32 core inst = condSelGeneric False False False core inst"

definition csinc32 :: "Core \<Rightarrow> u32 \<Rightarrow> Core" where
  "csinc32 core inst = condSelGeneric False False True core inst"

definition csinv32 :: "Core \<Rightarrow> u32 \<Rightarrow> Core" where
  "csinv32 core inst = condSelGeneric False True False core inst"

definition csneg32 :: "Core \<Rightarrow> u32 \<Rightarrow> Core" where
  "csneg32 core inst = condSelGeneric False True True core inst"

definition csel64 :: "Core \<Rightarrow> u32 \<Rightarrow> Core" where
  "csel64 core inst = condSelGeneric True False False core inst"

definition csinc64 :: "Core \<Rightarrow> u32 \<Rightarrow> Core" where
  "csinc64 core inst = condSelGeneric True False True core inst"

definition csinv64 :: "Core \<Rightarrow> u32 \<Rightarrow> Core" where
  "csinv64 core inst = condSelGeneric True True False core inst"

definition csneg64 :: "Core \<Rightarrow> u32 \<Rightarrow> Core" where
  "csneg64 core inst = condSelGeneric True True True core inst"

definition registerDPRegInstructions :: "(instructionID \<times> (Core \<Rightarrow> u32 \<Rightarrow> Core)) list" where
  "registerDPRegInstructions = [
     (ID_UDIV_32, udiv32),
     (ID_SDIV_32, sdiv32),
     (ID_LSLV_32, lslv32),
     (ID_LSRV_32, lsrv32),
     (ID_ASRV_32, asrv32),
     (ID_RORV_32, rorv32),
     (ID_UDIV_64, udiv64),
     (ID_SDIV_64, sdiv64),
     (ID_LSLV_64, lslv64),
     (ID_LSRV_64, lsrv64),
     (ID_ASRV_64, asrv64),
     (ID_RORV_64, rorv64),
     (ID_CRC32B, UNIMPLEMENTED_FUNC),
     (ID_CRC32H, UNIMPLEMENTED_FUNC),
     (ID_CRC32W, UNIMPLEMENTED_FUNC),
     (ID_CRC32X, UNIMPLEMENTED_FUNC),
     (ID_CRC32CB, UNIMPLEMENTED_FUNC),
     (ID_CRC32CH, UNIMPLEMENTED_FUNC),
     (ID_CRC32CW, UNIMPLEMENTED_FUNC),
     (ID_CRC32CX, UNIMPLEMENTED_FUNC),
     (ID_RBIT_32, rbit32),
     (ID_REV16_32, rev16_32),
     (ID_REV_32, rev32),
     (ID_CLZ_32, clz32),
     (ID_CLS_32, cls32),
     (ID_RBIT_64, rbit64),
     (ID_REV16_64, rev16_64),
     (ID_REV32_64, rev32_64),
     (ID_REV_64, rev64),
     (ID_CLZ_64, clz64),
     (ID_CLS_64, cls64),
     (ID_AND_32_shifted, and32Shifted),
     (ID_BIC_32_shifted, bic32Shifted),
     (ID_ORR_32_shifted, orr32Shifted),
     (ID_ORN_32_shifted, orn32Shifted),
     (ID_EOR_32_shifted, eor32Shifted),
     (ID_EON_32_shifted, eon32Shifted),
     (ID_ANDS_32_shifted, ands32Shifted),
     (ID_BICS_32_shifted, bics32Shifted),
     (ID_AND_64_shifted, and64Shifted),
     (ID_BIC_64_shifted, bic64Shifted),
     (ID_ORR_64_shifted, orr64Shifted),
     (ID_ORN_64_shifted, orn64Shifted),
     (ID_EOR_64_shifted, eor64Shifted),
     (ID_EON_64_shifted, eon64Shifted),
     (ID_ANDS_64_shifted, ands64Shifted),
     (ID_BICS_64_shifted, bics64Shifted),
     (ID_ADD_32_shifted, add32Shifted),
     (ID_ADDS_32_shifted, adds32Shifted),
     (ID_SUB_32_shifted, sub32Shifted),
     (ID_SUBS_32_shifted, subs32Shifted),
     (ID_ADD_64_shifted, add64Shifted),
     (ID_ADDS_64_shifted, adds64Shifted),
     (ID_SUB_64_shifted, sub64Shifted),
     (ID_SUBS_64_shifted, subs64Shifted),
     (ID_ADD_32_extended, add32Extended),
     (ID_ADDS_32_extended, adds32Extended),
     (ID_SUB_32_extended, sub32Extended),
     (ID_SUBS_32_extended, subs32Extended),
     (ID_ADD_64_extended, add64Extended),
     (ID_ADDS_64_extended, adds64Extended),
     (ID_SUB_64_extended, sub64Extended),
     (ID_SUBS_64_extended, subs64Extended),
     (ID_ADC_32, adc32),
     (ID_ADCS_32, adcs32),
     (ID_SBC_32, sbc32),
     (ID_SBCS_32, sbcs32),
     (ID_ADC_64, adc64),
     (ID_ADCS_64, adcs64),
     (ID_SBC_64, sbc64),
     (ID_SBCS_64, sbcs64),
     (ID_CCMN_32_reg, ccmn32Reg),
     (ID_CCMP_32_reg, ccmp32Reg),
     (ID_CCMN_64_reg, ccmn64Reg),
     (ID_CCMP_64_reg, ccmp64Reg),
     (ID_CCMN_32_imm, ccmn32Imm),
     (ID_CCMP_32_imm, ccmp32Imm),
     (ID_CCMN_64_imm, ccmn64Imm),
     (ID_CCMP_64_imm, ccmp64Imm),
     (ID_CSEL_32, csel32),
     (ID_CSINC_32, csinc32),
     (ID_CSINV_32, csinv32),
     (ID_CSNEG_32, csneg32),
     (ID_CSEL_64, csel64),
     (ID_CSINC_64, csinc64),
     (ID_CSINV_64, csinv64),
     (ID_CSNEG_64, csneg64),
     (ID_MADD_32, madd32),
     (ID_MSUB_32, msub32),
     (ID_MADD_64, madd64),
     (ID_MSUB_64, msub64),
     (ID_SMADDL, smaddl),
     (ID_SMSUBL, smsubl),
     (ID_SMULH, smulh),
     (ID_UMADDL, umaddl),
     (ID_UMSUBL, umsubl),
     (ID_UMULH, umulh)]"

lemmas dpreg_generic =
  logicalShiftedRegGeneric_def addSubShiftedRegGeneric_def addSubExtendedRegGeneric_def
  addSubCarryGeneric_def reverseBits_def reverseBytes_def reverse16_def reverse32_def
  countLeadingClearBits_def countLeadingSetBits_def unsignedDivide_def signedDivide_def
  shiftGeneric_def multiply_def uMultiplyLong_def sMultiplyLong_def mulhGeneric_def
  condCompareRegGeneric_def condCompareImmGeneric_def condSelGeneric_def nzcv_flags_def

lemmas dpreg_handlers =
  and32Shifted_def
  bic32Shifted_def
  orr32Shifted_def
  orn32Shifted_def
  eor32Shifted_def
  eon32Shifted_def
  ands32Shifted_def
  bics32Shifted_def
  and64Shifted_def
  bic64Shifted_def
  orr64Shifted_def
  orn64Shifted_def
  eor64Shifted_def
  eon64Shifted_def
  ands64Shifted_def
  bics64Shifted_def
  add32Shifted_def
  adds32Shifted_def
  sub32Shifted_def
  subs32Shifted_def
  add64Shifted_def
  adds64Shifted_def
  sub64Shifted_def
  subs64Shifted_def
  add32Extended_def
  adds32Extended_def
  sub32Extended_def
  subs32Extended_def
  add64Extended_def
  adds64Extended_def
  sub64Extended_def
  subs64Extended_def
  adc32_def
  adcs32_def
  sbc32_def
  sbcs32_def
  adc64_def
  adcs64_def
  sbc64_def
  sbcs64_def
  rbit32_def
  rbit64_def
  rev32_def
  rev64_def
  rev16_32_def
  rev16_64_def
  rev32_64_def
  clz32_def
  clz64_def
  cls32_def
  cls64_def
  udiv32_def
  udiv64_def
  sdiv32_def
  sdiv64_def
  lslv32_def
  lsrv32_def
  asrv32_def
  rorv32_def
  lslv64_def
  lsrv64_def
  asrv64_def
  rorv64_def
  madd32_def
  msub32_def
  madd64_def
  msub64_def
  umaddl_def
  umsubl_def
  smaddl_def
  smsubl_def
  umulh_def
  smulh_def
  ccmp32Reg_def
  ccmn32Reg_def
  ccmp64Reg_def
  ccmn64Reg_def
  ccmp32Imm_def
  ccmn32Imm_def
  ccmp64Imm_def
  ccmn64Imm_def
  csel32_def
  csinc32_def
  csinv32_def
  csneg32_def
  csel64_def
  csinc64_def
  csinv64_def
  csneg64_def

subsection \<open>High half of a product\<close>

lemma schoolbook_high:
  fixes a b c d B :: nat
  assumes "0 < B"
  shows "(a * B + b) * (c * B + d) div (B * B) =
    a * c + (a * d) div B + (b * c) div B + ((a * d) mod B + (b * c) mod B + (b * d) div B) div B"
proof -
  have "(a * B + b) * (c * B + d) = b * d + (a * c * B + a * d + b * c) * B"
    by (simp add: algebra_simps)
  then have "(a * B + b) * (c * B + d) div B = b * d div B + (a * c * B + a * d + b * c)"
    using assms by simp
  also have "\<dots> = (a * d mod B + b * c mod B + b * d div B) + (a * c + a * d div B + b * c div B) * B"
    using div_mult_mod_eq [of "a * d" B] div_mult_mod_eq [of "b * c" B]
    unfolding distrib_right by linarith
  finally show ?thesis
    using assms by (simp add: div_mult2_eq)
qed

lemma unat_parts:
  fixes x y :: u64
  shows "unat (shr x 32) = unat x div 2 ^ 32" and "unat (x AND 0xFFFFFFFF) = unat x mod 2 ^ 32"
    and "unat x = unat (shr x 32) * 2 ^ 32 + unat (x AND 0xFFFFFFFF)"
    and "unat (shr x 32) < 2 ^ 32" and "unat (x AND 0xFFFFFFFF) < 2 ^ 32"
proof -
  have "(0xFFFFFFFF :: u64) = mask 32" by (simp add: mask_eq_exp_minus_1)
  then show lo: "unat (x AND 0xFFFFFFFF) = unat x mod 2 ^ 32"
    by (simp only: unat_and_mask take_bit_eq_mod)
  show hi: "unat (shr x 32) = unat x div 2 ^ 32"
    by (simp add: shr_less drop_bit_eq_div unat_div)
  show "unat x = unat (shr x 32) * 2 ^ 32 + unat (x AND 0xFFFFFFFF)"
    by (simp only: hi lo div_mult_mod_eq)
  have "unat x < 2 ^ 32 * 2 ^ 32" using unsigned_less [of x, where 'a = nat] by simp
  then show "unat (shr x 32) < 2 ^ 32" "unat (x AND 0xFFFFFFFF) < 2 ^ 32"
    unfolding hi lo by (simp_all only: less_mult_imp_div_less mod_less_divisor zero_less_power zero_less_numeral)
qed

lemma unat_mult_half:
  fixes x y :: u64
  assumes "unat x < 2 ^ 32" and "unat y < 2 ^ 32"
  shows "unat (x * y) = unat x * unat y" and "unat x * unat y \<le> (2 ^ 32 - 1) * (2 ^ 32 - 1)"
proof -
  show le: "unat x * unat y \<le> (2 ^ 32 - 1) * (2 ^ 32 - 1)"
    using assms by (intro mult_le_mono) simp_all
  then have "unat x * unat y < 2 ^ 64" by simp
  then show "unat (x * y) = unat x * unat y" by (simp add: unat_word_ariths)
qed

definition mulh_high :: "u64 \<Rightarrow> u64 \<Rightarrow> u64" where
  "mulh_high op1 op2 =
     (let op1hi = shr op1 32; op1lo = op1 AND 0xFFFFFFFF;
          op2hi = shr op2 32; op2lo = op2 AND 0xFFFFFFFF;
          bd = op1lo * op2lo; bc = op1lo * op2hi; ad = op1hi * op2lo; ac = op1hi * op2hi;
          cy = ucast (shr ((ad AND 0xFFFFFFFF) + (bc AND 0xFFFFFFFF) + shr bd 32) 32) :: u32
      in ac + shr ad 32 + shr bc 32 + ucast cy)"

lemma unat_mulh_high: "unat (mulh_high op1 op2) = unat op1 * unat op2 div 2 ^ 64"
proof -
  define a b c d where "a = shr op1 32" and "b = op1 AND 0xFFFFFFFF" and "c = shr op2 32" and "d = op2 AND 0xFFFFFFFF"
  have lt: "unat a < 2 ^ 32" "unat b < 2 ^ 32" "unat c < 2 ^ 32" "unat d < 2 ^ 32"
    unfolding a_def b_def c_def d_def by (rule unat_parts)+
  note ac = unat_mult_half [OF lt(1,3)] and ad = unat_mult_half [OF lt(1,4)]
    and bc = unat_mult_half [OF lt(2,3)] and bd = unat_mult_half [OF lt(2,4)]
  define t where "t = (a * d AND 0xFFFFFFFF) + (b * c AND 0xFFFFFFFF) + shr (b * d) 32"
  let ?p = "unat a * unat d mod 2 ^ 32" and ?q = "unat b * unat c mod 2 ^ 32" and ?r = "unat b * unat d div 2 ^ 32"
  have pqr: "?p < 2 ^ 32" "?q < 2 ^ 32" "?r < 2 ^ 32"
    using bd(2) by (simp_all only: mod_less_divisor zero_less_power zero_less_numeral) (simp add: div_less_iff_less_mult)
  then have "?p + ?q + ?r < 2 ^ 64" by simp
  then have t: "unat t = ?p + ?q + ?r"
    by (simp add: t_def unat_word_ariths(1) unat_parts(1,2) ad bc bd del: power_numeral)
  have "unat t div 2 ^ 32 < 2 ^ 32" unfolding t using pqr by (simp add: div_less_iff_less_mult)
  then have "unat (shr t 32) < 2 ^ 32" by (simp only: unat_parts(1))
  then have "unat (ucast (shr t 32) :: u32) = unat (shr t 32)"
    by (simp add: unsigned_ucast_eq take_bit_nat_eq_self del: power_numeral)
  then have cy: "unat (ucast (ucast (shr t 32) :: u32) :: u64) = unat t div 2 ^ 32"
    by (simp only: unat_ucast_u32 unat_parts(1))
  let ?S = "unat a * unat c + unat a * unat d div 2 ^ 32 + unat b * unat c div 2 ^ 32 + unat t div 2 ^ 32"
  have "?S = (unat a * 2 ^ 32 + unat b) * (unat c * 2 ^ 32 + unat d) div (2 ^ 32 * 2 ^ 32)"
    unfolding t by (rule schoolbook_high [symmetric]) simp
  also have "\<dots> = unat op1 * unat op2 div 2 ^ 64"
    unfolding a_def b_def c_def d_def unat_parts(3) [symmetric] by simp
  finally have S: "?S = unat op1 * unat op2 div 2 ^ 64" .
  have "unat op1 * unat op2 div 2 ^ 64 < 2 ^ 64"
    using unsigned_less [of op1, where 'a = nat] unsigned_less [of op2, where 'a = nat]
    by (intro less_mult_imp_div_less mult_strict_mono) auto
  then have "unat (a * c + shr (a * d) 32 + shr (b * c) 32 + ucast (ucast (shr t 32) :: u32)) = ?S"
    unfolding S [symmetric] by (simp add: unat_word_ariths(1) unat_parts(1) ac ad bc cy mod_simps del: power_numeral)
  then show ?thesis
    unfolding S mulh_high_def Let_def a_def [symmetric] b_def [symmetric] c_def [symmetric] d_def [symmetric] t_def [symmetric] .
qed

lemma uint_sint: "sint x = uint x - of_bool (bit x 63) * 2 ^ 64" for x :: u64
proof -
  have "take_bit 64 (uint x) = uint x"
    using unsigned_less [of x, where 'a = int] by (simp add: take_bit_int_eq_self)
  then show ?thesis
    using signed_take_bit_eq_take_bit_minus [of 63 "uint x"] by (simp add: sint_uint bit_unsigned_iff)
qed

text \<open>
  \<^verbatim>\<open>UMULH\<close> and \<^verbatim>\<open>SMULH\<close>: the schoolbook multiplication on 32-bit halves gives the upper 64 bits of the
  128-bit unsigned product, and the sign correction gives those of the signed product.
\<close>

theorem mulh_high_product:
  "GPRegs (mulhGeneric False core inst) (inst_Rd inst) =
     word_of_nat (unat (GPRegs core (inst_Rn inst)) * unat (GPRegs core (inst_Rm inst)) div 2 ^ 64) \<and>
   GPRegs (mulhGeneric True core inst) (inst_Rd inst) =
     word_of_int (sint (GPRegs core (inst_Rn inst)) * sint (GPRegs core (inst_Rm inst)) div 2 ^ 64)"
proof -
  let ?a = "GPRegs core (inst_Rn inst)" and ?b = "GPRegs core (inst_Rm inst)"
  let ?na = "bit ?a 63" and ?nb = "bit ?b 63"
  have H: "word_of_nat (unat ?a * unat ?b div 2 ^ 64) = mulh_high ?a ?b"
    by (simp only: unat_mulh_high [symmetric]) simp
  have "sint ?a * sint ?b = uint ?a * uint ?b + (of_bool (?na \<and> ?nb) * 2 ^ 64 - of_bool ?na * uint ?b - of_bool ?nb * uint ?a) * 2 ^ 64"
    unfolding uint_sint by (auto simp: algebra_simps)
  moreover have "(x + y * 2 ^ 64) div 2 ^ 64 = x div 2 ^ 64 + y" for x y :: int
    using div_mult_self1 [of "2 ^ 64" x y] by simp
  ultimately have "sint ?a * sint ?b div 2 ^ 64 = uint ?a * uint ?b div 2 ^ 64 + (of_bool (?na \<and> ?nb) * 2 ^ 64 - of_bool ?na * uint ?b - of_bool ?nb * uint ?a)"
    by (simp only:)
  moreover have "uint ?a * uint ?b div 2 ^ 64 = int (unat ?a * unat ?b div 2 ^ 64)"
    by (simp add: zdiv_int)
  ultimately have "word_of_int (sint ?a * sint ?b div 2 ^ 64) =
     mulh_high ?a ?b - of_bool ?na * ?b - of_bool ?nb * ?a"
    using H by simp
  moreover have "GPRegs (mulhGeneric False core inst) (inst_Rd inst) = mulh_high ?a ?b"
    "GPRegs (mulhGeneric True core inst) (inst_Rd inst) = mulh_high ?a ?b - of_bool ?na * ?b - of_bool ?nb * ?a"
    by (simp_all add: mulhGeneric_def mulh_high_def Let_def testBit_iff_bit)
  ultimately show ?thesis using H by simp
qed

subsection \<open>Reversals\<close>

definition swap_masks :: "nat \<Rightarrow> u64 \<Rightarrow> u64 \<Rightarrow> bool" where
  "swap_masks k hi lo \<longleftrightarrow> list_all (\<lambda>i.
     if bit hi i then \<not> bit lo i \<and> k \<le> i \<and> i XOR k = i - k else bit lo i \<and> i XOR k = i + k) [0..<64]"

lemma bit_swap_step:
  assumes m: "swap_masks k hi lo" and k: "k < 64"
  shows "bit (swap_step k hi lo op) i \<longleftrightarrow> i < 64 \<and> bit op (i XOR k)"
proof (cases "i < 64")
  case True
  then have "if bit hi i then \<not> bit lo i \<and> k \<le> i \<and> i XOR k = i - k else bit lo i \<and> i XOR k = i + k"
    using m by (simp add: swap_masks_def list_all_iff)
  then show ?thesis
    using True k by (auto simp: swap_step_def bit_simps bit_shl bit_shr add.commute split: if_splits)
qed (auto dest: bit_imp_le_length)

lemma swap_masks:
  "swap_masks 1 0xAAAAAAAAAAAAAAAA 0x5555555555555555"
  "swap_masks 2 0xCCCCCCCCCCCCCCCC 0x3333333333333333"
  "swap_masks 4 0xF0F0F0F0F0F0F0F0 0x0F0F0F0F0F0F0F0F"
  "swap_masks 8 0xFF00FF00FF00FF00 0x00FF00FF00FF00FF"
  "swap_masks 16 0xFFFF0000FFFF0000 0x0000FFFF0000FFFF"
  "swap_masks 32 0xFFFFFFFF00000000 0x00000000FFFFFFFF"
  by code_simp+

lemmas bit_swap_steps = swap_masks [THEN bit_swap_step, simplified]

lemma xor_indices:
  "i < 64 \<Longrightarrow> i XOR 63 = (63 - i :: nat)" "i < 32 \<Longrightarrow> i XOR 31 = (31 - i :: nat)"
  "i < 64 \<Longrightarrow> i XOR 56 = 8 * (7 - i div 8) + (i mod 8 :: nat)" "i < 32 \<Longrightarrow> i XOR 24 = 8 * (3 - i div 8) + (i mod 8 :: nat)"
  "i < 64 \<Longrightarrow> k < 64 \<Longrightarrow> i XOR k < (64 :: nat)"
proof -
  have "list_all (\<lambda>i. i XOR 63 = 63 - i \<and> i XOR 56 = 8 * (7 - i div 8) + i mod 8) [0..<64]"
    by code_simp
  moreover have "list_all (\<lambda>i. i XOR 31 = 31 - i \<and> i XOR 24 = 8 * (3 - i div 8) + i mod 8) [0..<32]"
    by code_simp
  ultimately show "i < 64 \<Longrightarrow> i XOR 63 = (63 - i :: nat)" "i < 32 \<Longrightarrow> i XOR 31 = (31 - i :: nat)"
  "i < 64 \<Longrightarrow> i XOR 56 = 8 * (7 - i div 8) + (i mod 8 :: nat)" "i < 32 \<Longrightarrow> i XOR 24 = 8 * (3 - i div 8) + (i mod 8 :: nat)"
    by (simp_all add: list_all_iff)
  assume "i < 64" "k < 64"
  then have "take_bit 6 i = i" "take_bit 6 k = k" by (simp_all add: take_bit_nat_eq_self)
  then have "i XOR k = take_bit 6 (i XOR k)" by (simp only: take_bit_xor)
  also have "\<dots> < 2 ^ 6" by (rule take_bit_nat_less_exp)
  finally show "i XOR k < 64" by simp
qed

text \<open>
  \<^verbatim>\<open>RBIT\<close> reverses the order of the bits and \<^verbatim>\<open>REV\<close> the order of the bytes of the register, at both widths
  (32-bit \<^verbatim>\<open>REV\<close> on a word, 64-bit \<^verbatim>\<open>REV\<close> on a doubleword).
\<close>

theorem reversals:
  "(\<forall>i. bit (GPRegs (reverseBits is64 core inst) (inst_Rd inst)) i =
     (i < width is64 \<and> bit (GPRegs core (inst_Rn inst)) (width is64 - 1 - i))) \<and>
   (\<forall>i. bit (GPRegs (reverseBytes is64 core inst) (inst_Rd inst)) i =
     (i < width is64 \<and> bit (GPRegs core (inst_Rn inst)) (8 * (width is64 div 8 - 1 - i div 8) + i mod 8)))"
  by (auto simp: reverseBits_def reverseBytes_def Let_def bit_swap_steps bit_and_iff bitmask_eq_mask bit_mask_iff xor.assoc xor_indices width_def)

subsection \<open>Shifts, leading zeros and division\<close>

fun shift_bit :: "nat \<Rightarrow> SHIFT_TYPE \<Rightarrow> nat \<Rightarrow> u64 \<Rightarrow> nat \<Rightarrow> bool" where
  "shift_bit w LSL n x i \<longleftrightarrow> n \<le> i \<and> bit x (i - n)"
| "shift_bit w LSR n x i \<longleftrightarrow> i + n < w \<and> bit x (i + n)"
| "shift_bit w ASR n x i \<longleftrightarrow> bit x (min (i + n) (w - 1))"
| "shift_bit w ROR n x i \<longleftrightarrow> bit x ((i + n) mod w)"

lemma bit_signExtend_rt:
  assumes "0 < unat n" and "unat n \<le> 64"
  shows "bit (signExtend_rt (x :: u64) n) i \<longleftrightarrow> bit x i \<or> bit x (unat n - 1) \<and> unat n \<le> i \<and> i < 64"
proof -
  have "unat (n - 1) = unat n - 1"
    using assms by (simp add: unat_sub word_le_nat_alt)
  then show ?thesis
    using assms by (auto simp: signExtend_rt_def testBit_iff_bit bit_simps bit_bitmask_rt)
qed

lemma bit_shift:
  assumes x: "take_bit (width is64) x = x" and n: "unat n < width is64" and i: "i < width is64"
  shows "bit (shift x t n (if is64 then 64 else 32)) i \<longleftrightarrow> shift_bit (width is64) t (unat n) x i"
proof (cases "n = 0")
  case True
  then show ?thesis using i by (cases t) (simp_all add: shift_def)
next
  case False
  then have n0: "0 < unat n" by (simp add: unat_gt_0)
  let ?w = "(if is64 then 64 else 32) :: u64"
  have w: "unat ?w = width is64" "width is64 \<le> 64" by (simp_all add: width_def)
  have wn: "unat (?w - n) = width is64 - unat n"
    using n w by (simp add: unat_sub word_le_nat_alt)
  have top: "\<not> bit x j" if "width is64 \<le> j" for j
    using x that by (metis bit_take_bit_iff not_less)
  show ?thesis
  proof (cases t)
    case ASR
    have "bit (signExtend_rt (shr x (unat n)) (?w - n)) i \<longleftrightarrow> bit x (min (i + unat n) (width is64 - 1))"
      using n n0 i w top bit_signExtend_rt [of "?w - n" "shr x (unat n)" i]
      by (auto simp: wn bit_shr min_def add.commute)
    then show ?thesis using ASR False by (simp add: shift_def)
  next
    case ROR
    have "(i + unat n) mod width is64 = (if i + unat n < width is64 then i + unat n else i + unat n - width is64)"
      using n i by (simp add: mod_if)
    then show ?thesis using ROR False n n0 i w top
      by (auto simp: shift_def wn bit_shr bit_shl bit_or_iff add.commute)
  qed (use False n i w top in \<open>auto simp: shift_def bit_shr bit_shl add.commute not_less intro: ccontr\<close>)
qed

text \<open>
  The variable shifts \<^verbatim>\<open>LSLV\<close>, \<^verbatim>\<open>LSRV\<close>, \<^verbatim>\<open>ASRV\<close> and \<^verbatim>\<open>RORV\<close> shift by the count modulo the width and give,
  bit by bit, the logical, arithmetic or rotated value of the operand at that width.
\<close>

theorem shift_correct:
  "bit (GPRegs (shiftGeneric is64 core inst) (inst_Rd inst)) i \<longleftrightarrow>
     i < width is64 \<and>
     shift_bit (width is64) (to_SHIFT_TYPE (bitRange 10 11 inst))
       (unat (GPRegs core (inst_Rm inst)) mod width is64) (narrow is64 (GPRegs core (inst_Rn inst))) i"
proof -
  let ?n = "GPRegs core (inst_Rm inst) mod (if is64 then 64 else 32)"
  have n: "unat ?n = unat (GPRegs core (inst_Rm inst)) mod width is64"
    by (simp add: unat_mod_distrib width_def)
  then have "unat ?n < width is64" by (simp add: width_def)
  moreover have "take_bit (width is64) (narrow is64 x) = narrow is64 x" for x
    by (simp add: narrow_eq_take_bit)
  ultimately show ?thesis
    using bit_shift [of is64 "narrow is64 (GPRegs core (inst_Rn inst))" ?n i]
    by (auto simp: shiftGeneric_def Let_def bit_narrow simp flip: n)
qed

lemma count_leading_eq:
  assumes "n \<le> 64"
  shows "\<exists>k \<le> n. count_leading b x n res = res + of_nat k \<and> (\<forall>i<n. n - k \<le> i \<longrightarrow> bit x i = b) \<and> (k < n \<longrightarrow> bit x (n - k - 1) \<noteq> b)"
  using assms
proof (induction n arbitrary: res)
  case (Suc n)
  show ?case
  proof (cases "testBit n x = b")
    case True
    from Suc.IH [of "res + 1"] Suc.prems obtain k where k: "k \<le> n"
      "count_leading b x n (res + 1) = res + 1 + of_nat k" "\<forall>i<n. n - k \<le> i \<longrightarrow> bit x i = b" "k < n \<longrightarrow> bit x (n - k - 1) \<noteq> b"
      by auto
    show ?thesis
      using k True Suc.prems
      by (intro exI [of _ "Suc k"]) (auto simp: testBit_iff_bit less_Suc_eq)
  qed (use Suc.prems in \<open>auto simp: testBit_iff_bit intro!: exI [of _ 0]\<close>)
qed simp

lemma leading_run_bounds:
  assumes "k \<le> w" and hi: "\<forall>i<w. w - k \<le> i \<longrightarrow> \<not> bit x i" and lo: "k < w \<longrightarrow> bit x (w - k - 1)"
  shows "take_bit w x < 2 ^ (w - k)" and "k < w \<Longrightarrow> 2 ^ (w - k - 1) \<le> take_bit w (x :: nat)"
proof -
  have "take_bit w x = take_bit (w - k) x"
    using assms by (intro bit_eqI) (auto simp: bit_take_bit_iff not_less)
  then show "take_bit w x < 2 ^ (w - k)" by (simp only: take_bit_nat_less_exp)
  assume k: "k < w"
  then have "bit (take_bit w x) (w - k - 1)" using lo by (simp add: bit_take_bit_iff)
  then show "2 ^ (w - k - 1) \<le> take_bit w x"
    by (metis bit_take_bit_iff nat_le_linear not_less take_bit_nat_eq_self)
qed

text \<open>
  \<^verbatim>\<open>CLZ\<close> returns the number of leading zero bits at its width: the operand is below \<open>2 ^ (width - r)\<close>, and
  unless \<open>r\<close> is the width it has bit \<open>width - r - 1\<close> set.
\<close>

theorem clz_correct:
  "let r = unat (GPRegs (countLeadingClearBits is64 core inst) (inst_Rd inst));
       x = take_bit (width is64) (unat (GPRegs core (inst_Rn inst)))
   in r \<le> width is64 \<and> x < 2 ^ (width is64 - r) \<and> (r = width is64 \<or> 2 ^ (width is64 - r - 1) \<le> x)"
proof -
  let ?x = "GPRegs core (inst_Rn inst)"
  have w: "width is64 \<le> 64" by (simp add: width_def)
  obtain k where k: "k \<le> width is64" "count_leading False ?x (width is64) 0 = of_nat k"
    "\<forall>i<width is64. width is64 - k \<le> i \<longrightarrow> \<not> bit (unat ?x) i" "k < width is64 \<longrightarrow> bit (unat ?x) (width is64 - k - 1)"
    using count_leading_eq [OF w, of False ?x 0] w by (auto simp: bit_unsigned_iff)
  have "unat (of_nat k :: u64) = k" using k(1) w by (simp add: unat_of_nat)
  then have "unat (GPRegs (countLeadingClearBits is64 core inst) (inst_Rd inst)) = k"
    using k(2) by (simp add: countLeadingClearBits_def flip: width_def)
  then show ?thesis
    using leading_run_bounds [OF k(1,3,4)] k(1) by (auto simp: Let_def le_less)
qed

lemma sint_narrow:
  "sint (if \<not> is64 then signExtend 32 (x AND bitmask 32) else x) = signed_take_bit (width is64 - 1) (uint (x :: u64))"
proof (cases is64)
  case True
  then show ?thesis by (simp add: width_def sint_uint)
next
  case False
  have "signExtend 32 (take_bit 32 x) = signed_take_bit 31 x"
    by (subst signExtend_eq_signed_take_bit) (auto intro!: bit_word_eqI simp: bit_simps)
  then have "signExtend 32 (x AND bitmask 32) = signed_take_bit 31 x"
    by (simp add: bitmask_eq_mask take_bit_eq_mask)
  moreover have "sint (signed_take_bit 31 x) = signed_take_bit 31 (uint x)"
    by (rule bit_eqI) (simp add: bit_simps min_less_iff_disj flip: min.assoc)
  ultimately show ?thesis using False by (simp add: width_def)
qed

lemma uint_narrow: "uint (narrow is64 (word_of_int q)) = q mod 2 ^ width is64"
proof -
  have "uint (narrow is64 (word_of_int q)) = take_bit (width is64) (take_bit 64 q)"
    by (simp add: narrow_eq_take_bit unsigned_take_bit_eq unsigned_of_int)
  also have "\<dots> = take_bit (width is64) q" by (simp add: width_def)
  finally show ?thesis by (simp add: take_bit_eq_mod)
qed

text \<open>
  \<^verbatim>\<open>UDIV\<close> and \<^verbatim>\<open>SDIV\<close> at both widths: division by zero gives zero, the unsigned quotient is exact, and the
  signed quotient truncates towards zero and wraps around in the one case that overflows.
\<close>

theorem divide_correct:
  "let w = width is64; a = GPRegs core (inst_Rn inst); b = GPRegs core (inst_Rm inst);
       U = (\<lambda>x. take_bit w (unat x)); I = (\<lambda>x. signed_take_bit (w - 1) (uint x))
   in unat (GPRegs (unsignedDivide is64 core inst) (inst_Rd inst)) = (if U b = 0 then 0 else U a div U b) \<and>
      uint (GPRegs (signedDivide is64 core inst) (inst_Rd inst)) =
        (if I b = 0 then 0 else trunc_div (I a) (I b) mod 2 ^ w)"
proof -
  let ?a = "GPRegs core (inst_Rn inst)" and ?b = "GPRegs core (inst_Rm inst)" and ?w = "width is64"
  have u: "unat (narrow is64 x) = take_bit ?w (unat x)" for x
    by (simp add: narrow_eq_take_bit unat_take_bit)
  have le: "take_bit ?w (take_bit ?w (unat x) div y) = take_bit ?w (unat x) div y" for x :: u64 and y
    by (rule take_bit_nat_eq_self, rule le_less_trans [OF div_le_dividend], rule take_bit_nat_less_exp)
  have z: "narrow is64 ?b = 0 \<longleftrightarrow> take_bit ?w (unat ?b) = 0"
    by (simp only: u [symmetric] unat_eq_0)
  have "GPRegs (unsignedDivide is64 core inst) (inst_Rd inst) =
     narrow is64 (if narrow is64 ?b = 0 then 0 else narrow is64 ?a div narrow is64 ?b)"
    by (simp add: unsignedDivide_def Let_def)
  then have "unat (GPRegs (unsignedDivide is64 core inst) (inst_Rd inst)) =
     (if take_bit ?w (unat ?b) = 0 then 0 else take_bit ?w (unat ?a) div take_bit ?w (unat ?b))"
    by (cases "narrow is64 ?b = 0") (simp_all only: z u unat_div le simp_thms if_True if_False unat_0 take_bit_of_0)
  moreover
  let ?sx = "\<lambda>x. if \<not> is64 then signExtend 32 (x AND bitmask 32) else x"
  have z: "?sx ?b = 0 \<longleftrightarrow> signed_take_bit (?w - 1) (uint ?b) = 0"
    unfolding sint_narrow [symmetric] by (simp add: sint_0 signed_eq_0_iff)
  have ovf: "word_of_int (trunc_div (sint (0x8000000000000000 :: u64)) (sint (0xFFFFFFFFFFFFFFFF :: u64))) = (0x8000000000000000 :: u64)"
    by code_simp
  have "GPRegs (signedDivide is64 core inst) (inst_Rd inst) =
    (if ?sx ?b = 0 then 0 else narrow is64 (word_of_int (trunc_div (sint (?sx ?a)) (sint (?sx ?b)))))"
    using ovf by (auto simp: signedDivide_def Let_def narrow_eq_take_bit)
  then have "uint (GPRegs (signedDivide is64 core inst) (inst_Rd inst)) =
    (if signed_take_bit (?w - 1) (uint ?b) = 0 then 0
     else trunc_div (signed_take_bit (?w - 1) (uint ?a)) (signed_take_bit (?w - 1) (uint ?b)) mod 2 ^ ?w)"
    unfolding z sint_narrow by (simp add: uint_narrow)
  ultimately show ?thesis by (simp add: Let_def)
qed

end
