(* ===== verification/Memory.thy ===== *)
theory Memory
  imports Bitutils
begin

text \<open>
  The guest memory of \<^verbatim>\<open>libcpu/src/mem.cpp\<close> and \<^verbatim>\<open>libcpu/inc/mem.h\<close>: a flat page table from guest page
  numbers to host pages, and the page allocator. The host address space is a function from 64-bit
  addresses to bytes and host pointers are its addresses, with 0 for \<^verbatim>\<open>nullptr\<close>; the free pages form a linked list whose
  links are stored in the first eight bytes of the free pages themselves, as in the source.

  A call of \<^verbatim>\<open>gSegFaultHandler\<close> ends the access with \<open>Inl (SegFault addr)\<close>: the handler of the kernel
  enters the debugger, and the address computed after it would be a null pointer plus an offset.
  \<^verbatim>\<open>gPageAllocatorLock\<close> is a mutex; locking it while it is held never returns, which is the error
  \<open>Deadlock\<close>. The loops over regions count with a 32-bit \<^verbatim>\<open>unsigned\<close> against a 64-bit bound: a loop that never ends
  has no result (\<open>None\<close> of its \<open>partial_function\<close>) and makes its operation \<open>NeverReturns\<close>. The other faults are raised by the kernel: undefined behaviour of the C++ code that the components
  describe where it can occur, and the end of the host thread.
\<close>

unbundle bit_operations_syntax

type_synonym host = "u64 \<Rightarrow> u8"

datatype fault = SegFault u64 | Deadlock | NeverReturns | IteratorPastEnd | DanglingReference | NullPointer | BadCast | BadIndex | ThreadExit

text \<open>Sequencing of operations that may fault.\<close>

definition and_then :: "'e + 'a \<Rightarrow> ('a \<Rightarrow> 'e + 'b) \<Rightarrow> 'e + 'b" where
  "and_then r f = (case r of Inl e \<Rightarrow> Inl e | Inr a \<Rightarrow> f a)"

lemma and_then_simps [simp]:
  "and_then (Inl e) f = Inl e" "and_then (Inr a) f = f a"
  by (simp_all add: and_then_def)

lemma and_then_Inr_iff: "and_then r f = Inr b \<longleftrightarrow> (\<exists>a. r = Inr a \<and> f a = Inr b)"
  by (cases r) simp_all

text \<open>The outcome of a loop that may not end.\<close>

definition outcome :: "(fault + 'a) option \<Rightarrow> fault + 'a" where
  "outcome r = (case r of None \<Rightarrow> Inl NeverReturns | Some x \<Rightarrow> x)"

lemma outcome_simps [simp]: "outcome None = Inl NeverReturns" "outcome (Some x) = x"
  by (simp_all add: outcome_def)

lemma outcome_Inr: "outcome r = Inr a \<longleftrightarrow> r = Some (Inr a)"
  by (cases r) simp_all

subsection \<open>Bytes in host memory\<close>

text \<open>
  A read or write of a C++ integer type of \<open>n\<close> bytes through a host pointer, in the little-endian order
  of the target, and \<^verbatim>\<open>memset\<close>, \<^verbatim>\<open>memcpy\<close>.
\<close>

fun le_val :: "u8 list \<Rightarrow> u64" where
  "le_val [] = 0"
| "le_val (b # bs) = ucast b OR push_bit 8 (le_val bs)"

fun le_bytes :: "nat \<Rightarrow> u64 \<Rightarrow> u8 list" where
  "le_bytes 0 v = []"
| "le_bytes (Suc n) v = ucast v # le_bytes n (drop_bit 8 v)"

definition read_bytes :: "host \<Rightarrow> u64 \<Rightarrow> nat \<Rightarrow> u8 list" where
  "read_bytes h p n = map (\<lambda>i. h (p + of_nat i)) [0..<n]"

definition write_bytes :: "host \<Rightarrow> u64 \<Rightarrow> u8 list \<Rightarrow> host" where
  "write_bytes h p bs = (\<lambda>a. if unat (a - p) < length bs then bs ! unat (a - p) else h a)"

definition memset :: "host \<Rightarrow> u64 \<Rightarrow> u8 \<Rightarrow> nat \<Rightarrow> host" where
  "memset h p b n = (\<lambda>a. if unat (a - p) < n then b else h a)"

definition load_le :: "nat \<Rightarrow> host \<Rightarrow> u64 \<Rightarrow> u64" where
  "load_le n h p = le_val (read_bytes h p n)"

definition store_le :: "nat \<Rightarrow> host \<Rightarrow> u64 \<Rightarrow> u64 \<Rightarrow> host" where
  "store_le n h p v = write_bytes h p (le_bytes n v)"

subsection \<open>Page table and allocator\<close>

definition PAGE_BITS :: nat where "PAGE_BITS = 12"
definition VMEM_SIZE :: u64 where "VMEM_SIZE = shl 1 38"
definition PAGE_SIZE :: u64 where "PAGE_SIZE = shl 1 PAGE_BITS"
definition PAGE_OFFSET_MASK :: u64 where "PAGE_OFFSET_MASK = PAGE_SIZE - 1"
definition NUM_PAGES :: u64 where "NUM_PAGES = shr VMEM_SIZE PAGE_BITS"

datatype Permission = NONE | READ_ONLY | WRITE_ONLY | READ_WRITE | EXECUTE_ONLY
  | READ_EXECUTE | WRITE_EXECUTE | ALL_PERM

definition getPageNum :: "u64 \<Rightarrow> u64" where "getPageNum addr = shr addr PAGE_BITS"
definition isPageAligned :: "u64 \<Rightarrow> bool" where "isPageAligned addr \<longleftrightarrow> addr AND PAGE_OFFSET_MASK = 0"
definition alignToPage :: "u64 \<Rightarrow> u64" where "alignToPage addr = addr AND NOT PAGE_OFFSET_MASK"

record PageTableEntry =
  pointer :: u64
  perm :: Permission

record Memory =
  host_bytes :: host
  entires :: "u64 \<Rightarrow> PageTableEntry"
  gFreePageList :: u64
  gPageAllocatorLock :: bool
  gMemBase :: u64
  gMemBreakpoints :: "u64 set"

text \<open>
  \<^verbatim>\<open>init\<close>: \<open>page\<close> is the result of \<^verbatim>\<open>platform::allocate\<close>. The loop links page \<open>i\<close> to page \<open>i + 1\<close>; its
  counter and the sum \<open>i + 1\<close> are 32 bits wide, its bound \<open>lastPage\<close> has 64 bits.
\<close>

partial_function (option) link_pages :: "u64 \<Rightarrow> u64 \<Rightarrow> u32 \<Rightarrow> host \<Rightarrow> host option" where
  "link_pages base lastPage i h =
     (if ucast i < lastPage
      then link_pages base lastPage (i + 1)
             (store_le 8 h (base + ucast i * PAGE_SIZE) (base + ucast (i + 1) * PAGE_SIZE))
      else Some h)"

definition mem_init :: "u64 \<Rightarrow> u64 \<Rightarrow> Memory \<Rightarrow> fault + bool \<times> Memory" where
  "mem_init memSize page m =
     (if memSize = 0 then Inr (False, m)
      else if \<not> isPageAligned memSize then Inr (False, m)
      else if page = 0 then Inr (False, m)
      else (let numPages = memSize div PAGE_SIZE
            in case link_pages page (numPages - 1) 0 (host_bytes m) of
                 None \<Rightarrow> Inl NeverReturns
               | Some h \<Rightarrow>
                   let h = store_le 8 h (page + (numPages - 1) * PAGE_SIZE) 0
                   in Inr (True, m\<lparr>gMemBase := page, gFreePageList := page, host_bytes := h\<rparr>)))"

definition set_entry :: "u64 \<Rightarrow> PageTableEntry \<Rightarrow> Memory \<Rightarrow> Memory" where
  "set_entry n e m = m\<lparr>entires := (entires m)(n := e)\<rparr>"

definition allocatePage :: "u64 \<Rightarrow> Memory \<Rightarrow> fault + bool \<times> Memory" where
  "allocatePage pageNum m =
     (if NUM_PAGES \<le> pageNum then Inr (False, m)
      else if gPageAllocatorLock m then Inl Deadlock
      else let m = m\<lparr>gPageAllocatorLock := True\<rparr>
      in if pointer (entires m pageNum) \<noteq> 0 then Inr (True, m\<lparr>gPageAllocatorLock := False\<rparr>)
      else if gFreePageList m = 0 then Inr (False, m)
      else let page = gFreePageList m;
               m = m\<lparr>gFreePageList := load_le 8 (host_bytes m) page\<rparr>;
               m = m\<lparr>host_bytes := memset (host_bytes m) page 0 (unat PAGE_SIZE)\<rparr>;
               m = set_entry pageNum ((entires m pageNum)\<lparr>pointer := page\<rparr>) m
           in Inr (True, m\<lparr>gPageAllocatorLock := False\<rparr>))"

definition freePage :: "u64 \<Rightarrow> Memory \<Rightarrow> fault + Memory" where
  "freePage pageNum m =
     (if NUM_PAGES \<le> pageNum then Inr m
      else if gPageAllocatorLock m then Inl Deadlock
      else let m = m\<lparr>gPageAllocatorLock := True\<rparr>;
               freed = pointer (entires m pageNum)
      in if freed = 0 then Inr m
      else let m = set_entry pageNum \<lparr>pointer = 0, perm = NONE\<rparr> m;
               m = m\<lparr>host_bytes := store_le 8 (host_bytes m) freed (gFreePageList m)\<rparr>;
               m = m\<lparr>gFreePageList := freed\<rparr>
           in Inr (m\<lparr>gPageAllocatorLock := False\<rparr>))"

definition protectPage :: "u64 \<Rightarrow> Permission \<Rightarrow> Memory \<Rightarrow> Memory" where
  "protectPage pageNum p m =
     (if NUM_PAGES \<le> pageNum then m
      else if pointer (entires m pageNum) = 0 then m
      else set_entry pageNum ((entires m pageNum)\<lparr>perm := p\<rparr>) m)"

text \<open>The region operations are loops over consecutive pages with the 32-bit counter \<open>i\<close>.\<close>

partial_function (option) allocate_pages :: "u64 \<Rightarrow> u64 \<Rightarrow> u32 \<Rightarrow> Memory \<Rightarrow> (fault + bool \<times> Memory) option" where
  "allocate_pages beginPageNum numPages i m =
     (if ucast i < numPages then
        case allocatePage (beginPageNum + ucast i) m of
          Inl e \<Rightarrow> Some (Inl e)
        | Inr r \<Rightarrow> if \<not> fst r then Some (Inr (False, snd r)) else allocate_pages beginPageNum numPages (i + 1) (snd r)
      else Some (Inr (True, m)))"

partial_function (option) free_pages :: "u64 \<Rightarrow> u64 \<Rightarrow> u32 \<Rightarrow> Memory \<Rightarrow> (fault + Memory) option" where
  "free_pages beginPageNum numPages i m =
     (if ucast i < numPages then
        case freePage (beginPageNum + ucast i) m of
          Inl e \<Rightarrow> Some (Inl e)
        | Inr m \<Rightarrow> free_pages beginPageNum numPages (i + 1) m
      else Some (Inr m))"

partial_function (option) protect_pages :: "u64 \<Rightarrow> u64 \<Rightarrow> Permission \<Rightarrow> u32 \<Rightarrow> Memory \<Rightarrow> (fault + Memory) option" where
  "protect_pages beginPageNum numPages pm i m =
     (if ucast i < numPages
      then protect_pages beginPageNum numPages pm (i + 1) (protectPage (beginPageNum + ucast i) pm m)
      else Some (Inr m))"

definition allocateRegion :: "u64 \<Rightarrow> u64 \<Rightarrow> Memory \<Rightarrow> fault + bool \<times> Memory" where
  "allocateRegion beginPageNum numPages m = outcome (allocate_pages beginPageNum numPages 0 m)"

definition freeRegion :: "u64 \<Rightarrow> u64 \<Rightarrow> Memory \<Rightarrow> fault + Memory" where
  "freeRegion beginPageNum numPages m = outcome (free_pages beginPageNum numPages 0 m)"

definition protectRegion :: "u64 \<Rightarrow> u64 \<Rightarrow> Permission \<Rightarrow> Memory \<Rightarrow> fault + Memory" where
  "protectRegion beginPageNum numPages pm m = outcome (protect_pages beginPageNum numPages pm 0 m)"

definition isValid :: "u64 \<Rightarrow> Memory \<Rightarrow> bool" where
  "isValid addr m =
     (let pageNum = getPageNum addr
      in if NUM_PAGES \<le> pageNum then False
         else if addr < PAGE_SIZE then False
         else pointer (entires m pageNum) \<noteq> 0)"

definition getPermission :: "u64 \<Rightarrow> Memory \<Rightarrow> Permission" where
  "getPermission addr m =
     (if NUM_PAGES \<le> getPageNum addr then NONE else perm (entires m (getPageNum addr)))"

definition translate :: "u64 \<Rightarrow> Memory \<Rightarrow> fault + u64" where
  "translate addr m =
     (let pageNum = getPageNum addr;
          pageOffset = addr AND PAGE_OFFSET_MASK
      in if NUM_PAGES \<le> pageNum \<or> pointer (entires m pageNum) = 0 then Inl (SegFault addr)
         else Inr (pointer (entires m pageNum) + pageOffset))"

definition fetch :: "u64 \<Rightarrow> Memory \<Rightarrow> fault + u32" where
  "fetch addr m = and_then (translate addr m) (\<lambda>p. Inr (ucast (load_le 4 (host_bytes m) p)))"

definition inspect :: "nat \<Rightarrow> u64 \<Rightarrow> Memory \<Rightarrow> fault + u64" where
  "inspect n addr m = and_then (translate addr m) (\<lambda>p. Inr (load_le n (host_bytes m) p))"

subsection \<open>Little-endian values\<close>

lemma length_le_bytes [simp]: "length (le_bytes n v) = n"
  by (induction n arbitrary: v) simp_all

lemma length_read_bytes [simp]: "length (read_bytes h p n) = n"
  by (simp add: read_bytes_def)

lemma bit_le_val: "bit (le_val bs) i \<longleftrightarrow> i < 64 \<and> i div 8 < length bs \<and> bit (bs ! (i div 8)) (i mod 8)"
proof (induction bs arbitrary: i)
  case (Cons b bs)
  show ?case
  proof (cases "i < 8")
    case True
    then show ?thesis by (simp add: bit_simps)
  next
    case False
    then have "i div 8 = Suc ((i - 8) div 8)" "i mod 8 = (i - 8) mod 8"
      by (simp_all add: le_div_geq le_mod_geq)
    with False show ?thesis by (auto simp: bit_simps Cons.IH dest: bit_imp_le_length)
  qed
qed simp

lemma nth_le_bytes: "k < n \<Longrightarrow> le_bytes n v ! k = ucast (drop_bit (8 * k) v)"
proof (induction n arbitrary: k v)
  case (Suc n)
  then show ?case by (cases k) (simp_all add: drop_bit_drop_bit add.commute)
qed simp

lemma le_val_le_bytes: "n \<le> 8 \<Longrightarrow> le_val (le_bytes n v) = take_bit (8 * n) v"
proof (rule bit_word_eqI)
  fix i :: nat
  assume n: "n \<le> 8" and i: "i < LENGTH(64)"
  have "i div 8 < n \<longleftrightarrow> i < 8 * n" by (auto simp: div_less_iff_less_mult mult.commute)
  moreover have "bit (ucast (drop_bit (8 * (i div 8)) v) :: u8) (i mod 8) \<longleftrightarrow> bit v i"
    by (simp add: bit_simps)
  ultimately show "bit (le_val (le_bytes n v)) i \<longleftrightarrow> bit (take_bit (8 * n) v) i"
    using i by (auto simp: bit_le_val nth_le_bytes bit_take_bit_iff)
qed

lemma le_bytes_le_val: "length bs \<le> 8 \<Longrightarrow> le_bytes (length bs) (le_val bs) = bs"
proof (rule nth_equalityI)
  fix k
  assume "length bs \<le> 8" "k < length (le_bytes (length bs) (le_val bs))"
  then show "le_bytes (length bs) (le_val bs) ! k = bs ! k"
    by (intro bit_word_eqI) (simp add: nth_le_bytes bit_simps bit_le_val)
qed simp

subsection \<open>Frame properties of host accesses\<close>

lemma write_bytes_outside: "length bs \<le> unat (a - p) \<Longrightarrow> write_bytes h p bs a = h a"
  by (simp add: write_bytes_def)

lemma offset_unat: "unat (p + of_nat i - p) = i" if "i < 2 ^ 64" for p :: u64
  using that by (simp add: unat_of_nat)

lemma write_bytes_inside:
  "i < length bs \<Longrightarrow> length bs \<le> 4096 \<Longrightarrow> write_bytes h p bs (p + of_nat i) = bs ! i"
  by (simp add: write_bytes_def unat_of_nat)

lemma load_le_cong:
  "(\<And>i. i < n \<Longrightarrow> h (p + of_nat i) = h' (p + of_nat i)) \<Longrightarrow> load_le n h p = load_le n h' p"
  unfolding load_le_def read_bytes_def by (intro arg_cong [of _ _ le_val] map_cong) simp_all

lemma load_store_le: "n \<le> 8 \<Longrightarrow> load_le n (store_le n h p v) p = take_bit (8 * n) v"
proof -
  assume n: "n \<le> 8"
  then have "read_bytes (store_le n h p v) p n = le_bytes n v"
    by (intro nth_equalityI) (simp_all add: read_bytes_def store_le_def write_bytes_inside)
  with n show ?thesis by (simp add: load_le_def le_val_le_bytes)
qed

lemma load_store_8: "load_le 8 (store_le 8 h p v) p = v"
  using take_bit_length_eq [of v] by (simp add: load_store_le)

end
