(* ===== verification/Memory_Alloc.thy ===== *)
theory Memory_Alloc
  imports Memory
begin

text \<open>
  The page allocator of \<^verbatim>\<open>mem.cpp\<close> is correct: its invariant (the free list is an acyclic chain through host
  memory, free and mapped pages partition the reservation, no two guest pages share a host page) and
  what each operation does to the memory the guest sees, \<open>guest_byte\<close>.
\<close>

unbundle bit_operations_syntax

subsection \<open>Host pages\<close>

definition host_pages :: "u64 \<Rightarrow> nat \<Rightarrow> u64 set" where
  "host_pages base n = (\<lambda>k. base + of_nat (4096 * k)) ` {..<n}"

definition fits :: "u64 \<Rightarrow> nat \<Rightarrow> bool" where
  "fits base n \<longleftrightarrow> base \<noteq> 0 \<and> unat base + 4096 * n \<le> 2 ^ 64"

lemma unat_host_page:
  assumes "fits base n" and "k < n" and "j < 4096"
  shows "unat (base + of_nat (4096 * k) + of_nat j) = unat base + 4096 * k + j"
proof -
  have "unat base + 4096 * k + j < 2 ^ 64" using assms by (simp add: fits_def)
  moreover from this have "4096 * k < 2 ^ 64" "j < 2 ^ 64" by simp_all
  ultimately show ?thesis by (simp add: unat_word_ariths unat_of_nat mod_simps)
qed

lemma host_page_cases:
  assumes "fits base n" and "p \<in> host_pages base n"
  obtains k where "k < n" "\<And>j. j < 4096 \<Longrightarrow> unat (p + of_nat j) = unat base + 4096 * k + j"
  using assms unat_host_page by (fastforce simp: host_pages_def)

lemma host_page_eq_iff:
  assumes f: "fits base n" and p: "p \<in> host_pages base n" and q: "q \<in> host_pages base n" and i: "i < 4096" and j: "j < 4096"
  shows "p + of_nat i = q + of_nat j \<longleftrightarrow> p = q \<and> i = j"
proof
  assume eq: "p + of_nat i = q + of_nat j"
  obtain k where k: "\<And>j. j < 4096 \<Longrightarrow> unat (p + of_nat j) = unat base + 4096 * k + j"
    using host_page_cases [OF f p] by blast
  obtain l where l: "\<And>j. j < 4096 \<Longrightarrow> unat (q + of_nat j) = unat base + 4096 * l + j"
    using host_page_cases [OF f q] by blast
  from eq have "4096 * k + i = 4096 * l + j" using k [OF i] l [OF j] by simp
  then have "(4096 * k + i) div 4096 = (4096 * l + j) div 4096" "(4096 * k + i) mod 4096 = (4096 * l + j) mod 4096"
    by (simp_all only:)
  then have "k = l" "i = j" using i j by simp_all
  then show "p = q \<and> i = j" using eq by simp
qed simp

lemma host_page_nonzero: "fits base n \<Longrightarrow> p \<in> host_pages base n \<Longrightarrow> p \<noteq> 0"
proof -
  assume f: "fits base n" and p: "p \<in> host_pages base n"
  obtain k where "\<And>j. j < 4096 \<Longrightarrow> unat (p + of_nat j) = unat base + 4096 * k + j"
    using host_page_cases [OF f p] by blast
  from this [of 0] have k: "unat p = unat base + 4096 * k" by simp
  have "0 < unat base" using f by (simp add: fits_def unat_gt_0)
  with k show "p \<noteq> 0" by auto
qed

lemma other_page_offset:
  assumes f: "fits base n" and p: "p \<in> host_pages base n" and q: "q \<in> host_pages base n" and ne: "p \<noteq> q" and j: "j < 4096"
  shows "4096 \<le> unat (q + of_nat j - p)"
proof (rule ccontr)
  assume "\<not> 4096 \<le> unat (q + of_nat j - p)"
  then have "unat (q + of_nat j - p) < 4096" by simp
  from host_page_eq_iff [OF f p q this j] show False using ne by simp
qed

lemma write_other_page:
  assumes "fits base n" and "p \<in> host_pages base n" and "q \<in> host_pages base n" and "p \<noteq> q"
    and j: "j < 4096" and bs: "i + length bs \<le> 4096"
  shows "write_bytes h (p + of_nat i) bs (q + of_nat j) = h (q + of_nat j)"
proof (rule write_bytes_outside, rule ccontr)
  let ?d = "unat (q + of_nat j - (p + of_nat i))"
  assume "\<not> length bs \<le> ?d"
  then have lt: "i + ?d < 4096" using bs by simp
  have "p + of_nat (i + ?d) = q + of_nat j" by simp
  then show False using host_page_eq_iff [OF assms(1-3) lt j] assms(4) by simp
qed

lemma memset_other_page:
  assumes "fits base n" and "p \<in> host_pages base n" and "q \<in> host_pages base n" and "p \<noteq> q" and "j < 4096"
  shows "memset h p b 4096 (q + of_nat j) = h (q + of_nat j)"
  using other_page_offset [OF assms] by (simp add: memset_def)

lemma memset_page: "j < 4096 \<Longrightarrow> memset h p b 4096 (p + of_nat j) = b"
  by (simp add: memset_def unat_of_nat)

subsection \<open>The allocator's invariant\<close>

fun free_chain :: "host \<Rightarrow> u64 \<Rightarrow> u64 list \<Rightarrow> bool" where
  "free_chain h p [] \<longleftrightarrow> p = 0"
| "free_chain h p (q # qs) \<longleftrightarrow> p = q \<and> p \<noteq> 0 \<and> free_chain h (load_le 8 h p) qs"

definition mapped_pages :: "Memory \<Rightarrow> u64 set" where
  "mapped_pages m = {p. p \<noteq> 0 \<and> (\<exists>n. pointer (entires m n) = p)}"

definition pointers_ok :: "Memory \<Rightarrow> bool" where
  "pointers_ok m \<longleftrightarrow>
     (\<forall>n. NUM_PAGES \<le> n \<longrightarrow> pointer (entires m n) = 0) \<and>
     (\<forall>n n'. pointer (entires m n) \<noteq> 0 \<longrightarrow> pointer (entires m n) = pointer (entires m n') \<longrightarrow> n = n')"

definition alloc_ok :: "nat \<Rightarrow> u64 list \<Rightarrow> Memory \<Rightarrow> bool" where
  "alloc_ok N fl m \<longleftrightarrow>
     fits (gMemBase m) N \<and> pointers_ok m \<and>
     free_chain (host_bytes m) (gFreePageList m) fl \<and> distinct fl \<and>
     set fl \<inter> mapped_pages m = {} \<and> set fl \<union> mapped_pages m = host_pages (gMemBase m) N"

definition alloc_inv :: "nat \<Rightarrow> Memory \<Rightarrow> bool" where
  "alloc_inv N m \<longleftrightarrow> (\<exists>fl. alloc_ok N fl m)"

lemma free_chain_cong:
  "(\<And>q. q \<in> set fl \<Longrightarrow> load_le 8 h q = load_le 8 h' q) \<Longrightarrow> free_chain h p fl = free_chain h' p fl"
  by (induction fl arbitrary: p) auto

lemma alloc_okD:
  assumes "alloc_ok N fl m"
  shows "fits (gMemBase m) N" "NUM_PAGES \<le> n \<Longrightarrow> pointer (entires m n) = 0"
    "pointer (entires m n) \<noteq> 0 \<Longrightarrow> pointer (entires m n) = pointer (entires m n') \<Longrightarrow> n = n'"
    "free_chain (host_bytes m) (gFreePageList m) fl" "distinct fl"
    "set fl \<inter> mapped_pages m = {}" "set fl \<union> mapped_pages m = host_pages (gMemBase m) N"
    "pointer (entires m n) \<noteq> 0 \<Longrightarrow> pointer (entires m n) \<in> host_pages (gMemBase m) N"
    "pointer (entires m n) \<noteq> 0 \<Longrightarrow> pointer (entires m n) \<notin> set fl"
    "q \<in> set fl \<Longrightarrow> q \<in> host_pages (gMemBase m) N"
  using assms unfolding alloc_ok_def pointers_ok_def mapped_pages_def by blast+

lemma load_le_other_page:
  assumes "fits base N" and "p \<in> host_pages base N" and "q \<in> host_pages base N" and "p \<noteq> q"
  shows "i + length bs \<le> 4096 \<Longrightarrow> load_le 8 (write_bytes h (p + of_nat i) bs) q = load_le 8 h q"
    and "load_le 8 (memset h p b 4096) q = load_le 8 h q"
  by (intro load_le_cong write_other_page [OF assms] memset_other_page [OF assms]; simp)+

lemma mapped_pages_host [simp]:
  "mapped_pages (m\<lparr>host_bytes := h\<rparr>) = mapped_pages m" "pointers_ok (m\<lparr>host_bytes := h\<rparr>) = pointers_ok m"
  by (simp_all add: mapped_pages_def pointers_ok_def)

text \<open>A write that stays inside a mapped page leaves the free list alone.\<close>

lemma alloc_ok_write:
  assumes ok: "alloc_ok N fl m" and p: "pointer (entires m n) \<noteq> 0" and bs: "i + length bs \<le> 4096"
  shows "alloc_ok N fl (m\<lparr>host_bytes := write_bytes (host_bytes m) (pointer (entires m n) + of_nat i) bs\<rparr>)"
proof -
  note D = alloc_okD [OF ok]
  have "load_le 8 (write_bytes (host_bytes m) (pointer (entires m n) + of_nat i) bs) q = load_le 8 (host_bytes m) q"
    if "q \<in> set fl" for q
    using that D(9) [OF p] by (intro load_le_other_page(1) [OF D(1) D(8) [OF p] D(10)] bs) auto
  then have "free_chain (write_bytes (host_bytes m) (pointer (entires m n) + of_nat i) bs) (gFreePageList m) fl"
    using D(4) free_chain_cong by metis
  then show ?thesis using ok by (simp add: alloc_ok_def)
qed

subsection \<open>The guest's view\<close>

definition guest_byte :: "Memory \<Rightarrow> u64 \<Rightarrow> u8 option" where
  "guest_byte m a =
     (case translate a m of Inl _ \<Rightarrow> None | Inr p \<Rightarrow> Some (host_bytes m p))"

lemma page_consts: "PAGE_SIZE = 4096" "PAGE_OFFSET_MASK = mask 12" "NUM_PAGES = 0x4000000" "unat PAGE_SIZE = 4096"
  by (simp_all add: PAGE_SIZE_def PAGE_OFFSET_MASK_def NUM_PAGES_def VMEM_SIZE_def PAGE_BITS_def
      shl_def shr_def mask_eq_exp_minus_1)

definition page_offset :: "u64 \<Rightarrow> nat" where "page_offset a = unat a mod 4096"

lemma page_offset_less [simp]: "page_offset a < 4096"
  by (simp add: page_offset_def)

lemma unat_page_offset: "a AND PAGE_OFFSET_MASK = of_nat (page_offset a)"
  by (simp add: page_consts word_unat_eq_iff unat_and_mask take_bit_eq_mod page_offset_def unat_of_nat)

lemma translate_cases:
  assumes "alloc_ok N fl m"
  shows "translate a m = (if pointer (entires m (getPageNum a)) = 0 then Inl (SegFault a)
    else Inr (pointer (entires m (getPageNum a)) + of_nat (page_offset a)))"
  using alloc_okD(2) [OF assms, of "getPageNum a"] by (auto simp: translate_def Let_def unat_page_offset)

lemma guest_byte_eq:
  assumes "alloc_ok N fl m"
  shows "guest_byte m a = (if pointer (entires m (getPageNum a)) = 0 then None
    else Some (host_bytes m (pointer (entires m (getPageNum a)) + of_nat (page_offset a))))"
  by (simp add: guest_byte_def translate_cases [OF assms])

lemma address_split: "unat a = 4096 * unat (getPageNum a) + page_offset a"
  by (simp add: getPageNum_def PAGE_BITS_def page_offset_def shr_def unat_div drop_bit_eq_div)

lemma address_eq_iff: "a = b \<longleftrightarrow> getPageNum a = getPageNum b \<and> page_offset a = page_offset b"
  by (metis address_split word_unat_eq_iff)

lemma same_page_step:
  assumes "page_offset a + d < 4096"
  shows "getPageNum (a + of_nat d) = getPageNum a" "page_offset (a + of_nat d) = page_offset a + d"
    "unat (a + of_nat d) = unat a + d"
proof -
  have "unat (getPageNum a) < 2 ^ 52"
    using unsigned_less [of a, where 'a = nat] address_split [of a] by simp
  then have lt: "unat a + d < 2 ^ 64" using assms address_split [of a] by simp
  then show u: "unat (a + of_nat d) = unat a + d" by (simp add: unat_word_ariths unat_of_nat)
  have "unat (getPageNum b) = unat b div 4096" for b
    using address_split [of b] page_offset_less [of b] by simp
  moreover have "(unat a + d) div 4096 = unat a div 4096" "(unat a + d) mod 4096 = unat a mod 4096 + d"
  proof -
    have eq: "unat a + d = (unat a mod 4096 + d) + unat a div 4096 * 4096"
      using div_mult_mod_eq [of "unat a" 4096] by linarith
    have lt: "unat a mod 4096 + d < 4096" using assms by (simp add: page_offset_def)
    have A: "(r + q * 4096) div 4096 = q" "(r + q * 4096) mod 4096 = r" if "r < 4096" for r q :: nat
      using that by simp_all
    show "(unat a + d) div 4096 = unat a div 4096" "(unat a + d) mod 4096 = unat a mod 4096 + d"
      unfolding eq by (simp_all only: A [OF lt])
  qed
  ultimately show "getPageNum (a + of_nat d) = getPageNum a" "page_offset (a + of_nat d) = page_offset a + d"
    using u by (simp_all add: word_unat_eq_iff page_offset_def)
qed

lemma in_page_iff:
  assumes "page_offset a + n \<le> 4096"
  shows "unat (b - a) < n \<longleftrightarrow>
    getPageNum b = getPageNum a \<and> page_offset a \<le> page_offset b \<and> page_offset b - page_offset a < n"
proof
  assume lt: "unat (b - a) < n"
  then have "page_offset a + unat (b - a) < 4096" using assms by simp
  from same_page_step [OF this] lt show
    "getPageNum b = getPageNum a \<and> page_offset a \<le> page_offset b \<and> page_offset b - page_offset a < n"
    by simp
next
  assume R: "getPageNum b = getPageNum a \<and> page_offset a \<le> page_offset b \<and> page_offset b - page_offset a < n"
  then have "unat b = unat a + (page_offset b - page_offset a)"
    using address_split [of a] address_split [of b] by simp
  then have "unat (b - a) = page_offset b - page_offset a"
    by (simp add: unat_sub word_le_nat_alt)
  with R show "unat (b - a) < n" by simp
qed

text \<open>Within a page, translation is injective and keeps neighbours together.\<close>

lemma guest_byte_write:
  assumes ok: "alloc_ok N fl m" and v: "pointer (entires m (getPageNum a)) \<noteq> 0"
    and len: "page_offset a + length bs \<le> 4096"
  shows "guest_byte (m\<lparr>host_bytes := write_bytes (host_bytes m) (pointer (entires m (getPageNum a)) + of_nat (page_offset a)) bs\<rparr>) b =
    (if unat (b - a) < length bs then Some (bs ! unat (b - a)) else guest_byte m b)"
proof -
  let ?p = "\<lambda>a. pointer (entires m (getPageNum a))" and ?o = page_offset
  let ?h = "write_bytes (host_bytes m) (?p a + of_nat (?o a)) bs"
  note D = alloc_okD [OF ok]
  have g: "guest_byte (m\<lparr>host_bytes := ?h\<rparr>) b = (if ?p b = 0 then None else Some (?h (?p b + of_nat (?o b))))"
    by (simp add: guest_byte_eq [OF alloc_ok_write [OF ok v len]])
  consider (same) "unat (b - a) < length bs" | (page) "\<not> unat (b - a) < length bs" "getPageNum b = getPageNum a"
    | (other) "getPageNum b \<noteq> getPageNum a" by auto
  then show ?thesis
  proof cases
    case same
    then have b: "getPageNum b = getPageNum a" "?o b = ?o a + unat (b - a)"
      using same_page_step [of a "unat (b - a)"] len by simp_all
    have eq: "?p b + of_nat (?o b) = ?p a + of_nat (?o a) + of_nat (unat (b - a))"
      unfolding b by (simp add: add.assoc)
    have "?h (?p b + of_nat (?o b)) = bs ! unat (b - a)"
      unfolding eq using len by (intro write_bytes_inside [OF same]) simp
    then show ?thesis using same v g b by simp
  next
    case page
    have "length bs \<le> unat (?p a + of_nat (?o b) - (?p a + of_nat (?o a)))" (is "_ \<le> ?d")
    proof (rule ccontr)
      assume d: "\<not> length bs \<le> ?d"
      have "of_nat (?o b) = (of_nat (?o a + ?d) :: u64)" by simp
      then have "unat (of_nat (?o b) :: u64) = unat (of_nat (?o a + ?d) :: u64)" by (simp only:)
      then have "?o b = ?o a + ?d"
        using d len page_offset_less [of b] by (simp add: unat_of_nat del: of_nat_add)
      then show False using page d in_page_iff [OF len, of b] by simp
    qed
    then show ?thesis using page v g by (simp add: write_bytes_outside guest_byte_eq [OF ok])
  next
    case other
    have "\<not> unat (b - a) < length bs" using other in_page_iff [OF len, of b] by simp
    moreover have "?h (?p b + of_nat (?o b)) = host_bytes m (?p b + of_nat (?o b))" if "?p b \<noteq> 0"
      using that v other D(3)
      by (intro write_other_page [OF D(1) D(8) [OF v] D(8) [OF that]] len page_offset_less) metis
    ultimately show ?thesis using g by (simp add: guest_byte_eq [OF ok])
  qed
qed

subsection \<open>Allocating and freeing a page\<close>

lemma free_chain_head: "free_chain h p fl \<Longrightarrow> p = 0 \<longleftrightarrow> fl = []"
  by (cases fl) auto

lemma set_entry_simps [simp]:
  "entires (set_entry n e m) = (entires m)(n := e)" "host_bytes (set_entry n e m) = host_bytes m"
  "gFreePageList (set_entry n e m) = gFreePageList m" "gMemBase (set_entry n e m) = gMemBase m"
  "gPageAllocatorLock (set_entry n e m) = gPageAllocatorLock m" "gMemBreakpoints (set_entry n e m) = gMemBreakpoints m"
  by (simp_all add: set_entry_def)

lemma alloc_ok_lock [simp]: "alloc_ok N fl (m\<lparr>gPageAllocatorLock := b\<rparr>) = alloc_ok N fl m"
  by (simp add: alloc_ok_def mapped_pages_def pointers_ok_def)

lemma guest_byte_lock [simp]: "guest_byte (m\<lparr>gPageAllocatorLock := b\<rparr>) = guest_byte m"
  by (simp add: fun_eq_iff guest_byte_def translate_def Let_def)

definition take_page :: "u64 \<Rightarrow> Memory \<Rightarrow> Memory" where
  "take_page n m = m\<lparr>gFreePageList := load_le 8 (host_bytes m) (gFreePageList m),
     host_bytes := memset (host_bytes m) (gFreePageList m) 0 4096,
     entires := (entires m)(n := (entires m n)\<lparr>pointer := gFreePageList m\<rparr>)\<rparr>"

lemma allocatePage_cases:
  assumes "n < NUM_PAGES" and "\<not> gPageAllocatorLock m"
  shows "allocatePage n m =
    (if pointer (entires m n) \<noteq> 0 then Inr (True, m)
     else if gFreePageList m = 0 then Inr (False, m\<lparr>gPageAllocatorLock := True\<rparr>)
     else Inr (True, take_page n m))"
  using assms by (auto simp: allocatePage_def Let_def take_page_def set_entry_def page_consts(4) not_le)

lemma mapped_pages_update:
  assumes "pointers_ok m" and "pointer (entires m n) = 0"
  shows "mapped_pages (m\<lparr>gFreePageList := x, host_bytes := h, entires := (entires m)(n := e)\<rparr>) =
    (if pointer e = 0 then mapped_pages m else insert (pointer e) (mapped_pages m))"
  using assms by (auto simp: mapped_pages_def)

lemma pointers_okI:
  "(\<And>n. NUM_PAGES \<le> n \<Longrightarrow> pointer (entires m n) = 0) \<Longrightarrow>
   (\<And>n n'. pointer (entires m n) \<noteq> 0 \<Longrightarrow> pointer (entires m n) = pointer (entires m n') \<Longrightarrow> n = n') \<Longrightarrow> pointers_ok m"
  unfolding pointers_ok_def by blast

lemma take_page_ok:
  assumes ok: "alloc_ok N (p # fl) m" and n: "n < NUM_PAGES" and z: "pointer (entires m n) = 0"
  shows "alloc_ok N fl (take_page n m)"
    and "guest_byte (take_page n m) a = (if getPageNum a = n then Some 0 else guest_byte m a)"
proof -
  note D = alloc_okD [OF ok]
  have p: "gFreePageList m = p" and p0: "p \<noteq> 0" and ch: "free_chain (host_bytes m) (load_le 8 (host_bytes m) p) fl"
    using D(4) by auto
  have hp: "p \<in> host_pages (gMemBase m) N" using D(10) by simp
  have np: "pointer (entires m k) \<noteq> p" for k using D(9) [of k] p0 by auto
  have "load_le 8 (memset (host_bytes m) p 0 4096) q = load_le 8 (host_bytes m) q" if "q \<in> set fl" for q
    using that D(5) D(10) [of q] by (intro load_le_other_page(2) [OF D(1) hp]) auto
  then have "free_chain (memset (host_bytes m) p 0 4096) (load_le 8 (host_bytes m) p) fl"
    using ch free_chain_cong by metis
  moreover have "pointers_ok (take_page n m)"
  proof (rule pointers_okI)
    show "pointer (entires (take_page n m) k) = 0" if "NUM_PAGES \<le> k" for k
      using D(2) [OF that] n that by (auto simp: take_page_def)
    show "k = k'" if "pointer (entires (take_page n m) k) \<noteq> 0"
      "pointer (entires (take_page n m) k) = pointer (entires (take_page n m) k')" for k k'
      using that D(3) [of k k'] np [of k] np [of k'] by (auto simp: take_page_def p split: if_splits)
  qed
  moreover have "pointers_ok m" using ok by (simp add: alloc_ok_def)
  then have "mapped_pages (take_page n m) = insert p (mapped_pages m)"
    unfolding take_page_def using p0 p z by (subst mapped_pages_update) simp_all
  ultimately show ok': "alloc_ok N fl (take_page n m)"
    using ok p by (auto simp: alloc_ok_def take_page_def)
  have "memset (host_bytes m) p 0 4096 (pointer (entires m k) + of_nat (page_offset a)) =
      host_bytes m (pointer (entires m k) + of_nat (page_offset a))" if "pointer (entires m k) \<noteq> 0" for k
    using np [of k] by (intro memset_other_page [OF D(1) hp D(8) [OF that]]) auto
  then show "guest_byte (take_page n m) a = (if getPageNum a = n then Some 0 else guest_byte m a)"
    unfolding guest_byte_eq [OF ok'] guest_byte_eq [OF ok] using p p0 by (auto simp: take_page_def memset_page)
qed

definition put_page :: "u64 \<Rightarrow> Memory \<Rightarrow> Memory" where
  "put_page n m = m\<lparr>gFreePageList := pointer (entires m n),
     host_bytes := store_le 8 (host_bytes m) (pointer (entires m n)) (gFreePageList m),
     entires := (entires m)(n := \<lparr>pointer = 0, perm = NONE\<rparr>)\<rparr>"

lemma freePage_cases:
  assumes "n < NUM_PAGES" and "\<not> gPageAllocatorLock m"
  shows "freePage n m =
    (if pointer (entires m n) = 0 then Inr (m\<lparr>gPageAllocatorLock := True\<rparr>) else Inr (put_page n m))"
  using assms by (auto simp: freePage_def Let_def put_page_def set_entry_def not_le)

lemma put_page_ok:
  assumes ok: "alloc_ok N fl m" and v: "pointer (entires m n) \<noteq> 0"
  shows "alloc_ok N (pointer (entires m n) # fl) (put_page n m)"
    and "guest_byte (put_page n m) a = (if getPageNum a = n then None else guest_byte m a)"
proof -
  note D = alloc_okD [OF ok]
  let ?p = "pointer (entires m n)" and ?h = "host_bytes m"
  have hp: "?p \<in> host_pages (gMemBase m) N" by (rule D(8) [OF v])
  have "load_le 8 (store_le 8 ?h ?p (gFreePageList m)) q = load_le 8 ?h q" if "q \<in> set fl" for q
    using that D(9) [OF v] load_le_other_page(1) [OF D(1) hp D(10) [OF that], of 0 "le_bytes 8 (gFreePageList m)" ?h]
    by (auto simp: store_le_def)
  then have "free_chain (store_le 8 ?h ?p (gFreePageList m)) (gFreePageList m) fl"
    using D(4) free_chain_cong by metis
  then have ch: "free_chain (host_bytes (put_page n m)) (gFreePageList (put_page n m)) (?p # fl)"
    using v by (simp add: put_page_def load_store_8)
  have "pointers_ok (put_page n m)"
  proof (rule pointers_okI)
    show "pointer (entires (put_page n m) k) = 0" if "NUM_PAGES \<le> k" for k
      using D(2) [OF that] by (simp add: put_page_def)
    show "k = k'" if "pointer (entires (put_page n m) k) \<noteq> 0"
      "pointer (entires (put_page n m) k) = pointer (entires (put_page n m) k')" for k k'
      using that D(3) [of k k'] by (auto simp: put_page_def split: if_splits)
  qed
  moreover have "mapped_pages (put_page n m) = mapped_pages m - {?p}"
    using D(3) [OF v] by (auto simp: mapped_pages_def put_page_def) metis+
  moreover have "?p \<in> mapped_pages m" using v by (auto simp: mapped_pages_def)
  ultimately show ok': "alloc_ok N (?p # fl) (put_page n m)"
    using ok ch D(9) [OF v] by (auto simp: alloc_ok_def put_page_def)
  have "store_le 8 ?h ?p (gFreePageList m) (pointer (entires m k) + of_nat (page_offset a)) =
      ?h (pointer (entires m k) + of_nat (page_offset a))" if "pointer (entires m k) \<noteq> 0" "k \<noteq> n" for k
    using write_other_page [OF D(1) hp D(8) [OF that(1)], of "page_offset a" 0 "le_bytes 8 (gFreePageList m)" ?h] D(3) [OF v, of k] that(2)
    by (auto simp: store_le_def)
  then show "guest_byte (put_page n m) a = (if getPageNum a = n then None else guest_byte m a)"
    unfolding guest_byte_eq [OF ok'] guest_byte_eq [OF ok] by (auto simp: put_page_def)
qed

subsection \<open>Initialisation\<close>

definition nth_page :: "u64 \<Rightarrow> nat \<Rightarrow> u64" where
  "nth_page base k = base + of_nat (4096 * k)"

lemma nth_page_props:
  assumes "fits base N"
  shows "k < N \<Longrightarrow> nth_page base k \<in> host_pages base N"
    and "k < N \<Longrightarrow> l < N \<Longrightarrow> nth_page base k = nth_page base l \<longleftrightarrow> k = l"
    and "k < N \<Longrightarrow> nth_page base k \<noteq> 0"
proof -
  show mem: "nth_page base k \<in> host_pages base N" if "k < N" for k
    using that by (auto simp: nth_page_def host_pages_def)
  show "nth_page base k = nth_page base l \<longleftrightarrow> k = l" if "k < N" "l < N"
  proof -
    have "unat (nth_page base k) = unat base + 4096 * k" "unat (nth_page base l) = unat base + 4096 * l"
      using unat_host_page [OF assms that(1), of 0] unat_host_page [OF assms that(2), of 0]
      unfolding nth_page_def by (simp_all only: of_nat_0 add_0_right) simp_all
    then show ?thesis by (metis add_left_cancel mult_cancel1 zero_neq_numeral)
  qed
  show "k < N \<Longrightarrow> nth_page base k \<noteq> 0"
    by (rule host_page_nonzero [OF assms mem])
qed

lemma load_store_page:
  assumes f: "fits base N" and "k < N" "l < N"
  shows "load_le 8 (store_le 8 h (nth_page base k) v) (nth_page base l) =
    (if k = l then v else load_le 8 h (nth_page base l))"
  using load_le_other_page(1) [OF f nth_page_props(1,1) [OF f], of k l 0 "le_bytes 8 v" h]
    nth_page_props(2) [OF f assms(2,3)] assms(2,3)
  by (cases "k = l") (simp_all add: load_store_8, simp add: store_le_def)

lemma counter_word: "i < 2 ^ 32 \<Longrightarrow> ucast (of_nat i :: u32) = (of_nat i :: u64)"
  by (simp add: word_unat_eq_iff unat_of_nat unsigned_ucast_eq take_bit_nat_eq_self)

lemma counter_less: "i < 2 ^ 32 \<Longrightarrow> n < 2 ^ 32 \<Longrightarrow> ucast (of_nat i :: u32) < (of_nat n :: u64) \<longleftrightarrow> i < n"
  by (simp add: counter_word word_less_nat_alt unat_of_nat)

lemma counter_below: "2 ^ 32 \<le> n \<Longrightarrow> ucast (i :: u32) < (n :: u64)"
proof -
  assume n: "2 ^ 32 \<le> n"
  have "unat (ucast i :: u64) < 2 ^ 32" using le_less_trans [OF take_bit_nat_less_eq_self [of 64 "unat i"] unsigned_less [of i]] by (simp add: unsigned_ucast_eq)
  with n show ?thesis by (simp add: word_less_nat_alt word_le_nat_alt)
qed

lemma link_pages_load:
  assumes "fits base N" and "i + n < N" and "i + n < 2 ^ 32"
  shows "\<exists>h'. link_pages base (of_nat (i + n)) (of_nat i) h = Some h' \<and>
    (\<forall>k<N. load_le 8 h' (nth_page base k) = (if i \<le> k \<and> k < i + n then nth_page base (Suc k) else load_le 8 h (nth_page base k)))"
  using assms(2,3)
proof (induction n arbitrary: i h)
  case 0
  then show ?case by (subst link_pages.simps) (auto simp: counter_less)
next
  case (Suc n)
  have "of_nat i + 1 = (of_nat (Suc i) :: u32)" by simp
  moreover have "base + ucast (of_nat i :: u32) * PAGE_SIZE = nth_page base i"
    "base + ucast (of_nat (Suc i) :: u32) * PAGE_SIZE = nth_page base (Suc i)"
    using Suc.prems counter_word [of i] counter_word [of "Suc i"] by (simp_all add: nth_page_def page_consts algebra_simps)
  ultimately have "link_pages base (of_nat (i + Suc n)) (of_nat i) h =
      link_pages base (of_nat (Suc i + n)) (of_nat (Suc i)) (store_le 8 h (nth_page base i) (nth_page base (Suc i)))"
    using Suc.prems by (subst link_pages.simps) (simp add: counter_less del: of_nat_Suc of_nat_add)
  then show ?case
    using Suc.IH [of "Suc i" "store_le 8 h (nth_page base i) (nth_page base (Suc i))"] Suc.prems assms(1)
    by (fastforce simp: load_store_page simp del: of_nat_Suc of_nat_add)
qed

text \<open>A bound that the 32-bit counter cannot reach.\<close>

lemma link_pages_diverges: "2 ^ 32 \<le> lastPage \<Longrightarrow> link_pages base lastPage i h = None"
proof -
  assume last: "2 ^ 32 \<le> lastPage"
  have "\<not> 2 ^ 32 \<le> lastPage" if "link_pages base lastPage i h = Some r" for r
    using that by (rule link_pages.raw_induct [rotated]) (metis counter_below)
  with last show ?thesis by (cases "link_pages base lastPage i h") auto
qed

lemma free_chain_pages:
  assumes "fits base N" and "\<And>k. k < N \<Longrightarrow> load_le 8 h (nth_page base k) = (if Suc k < N then nth_page base (Suc k) else 0)"
    and "i < N"
  shows "free_chain h (nth_page base i) (map (nth_page base) [i..<N])"
  using assms(3)
proof (induction "N - i" arbitrary: i)
  case (Suc d)
  then have "[i..<N] = i # [Suc i..<N]" by (simp add: upt_conv_Cons)
  moreover have "free_chain h (if Suc i < N then nth_page base (Suc i) else 0) (map (nth_page base) [Suc i..<N])"
    using Suc.hyps Suc.prems by (cases "Suc i < N") simp_all
  ultimately show ?case using Suc.prems assms(2) nth_page_props(3) [OF assms(1)] by simp
qed simp

lemma mem_init_ok:
  assumes page: "page \<noteq> 0" and fit: "unat page + unat memSize \<le> 2 ^ 64" and sz: "memSize \<noteq> 0" "isPageAligned memSize" "memSize \<le> 2 ^ 44"
    and fresh: "\<forall>n. pointer (entires m n) = 0"
  shows "\<exists>m'. mem_init memSize page m = Inr (True, m') \<and> alloc_inv (unat memSize div 4096) m' \<and>
    guest_byte m' = (\<lambda>a. None) \<and> gPageAllocatorLock m' = gPageAllocatorLock m"
proof -
  let ?N = "unat memSize div 4096"
  have al: "4096 * ?N = unat memSize"
  proof -
    have "unat (memSize AND mask 12) = 0" using sz(2) by (simp add: isPageAligned_def page_consts)
    then have "unat memSize mod 4096 = 0" by (simp add: unat_and_mask take_bit_eq_mod)
    then show ?thesis using mult_div_mod_eq [of 4096 "unat memSize"] by simp
  qed
  have N: "0 < ?N" using al sz(1) by (metis mult_0_right neq0_conv unat_eq_0)
  have f: "fits page ?N" using page fit al by (simp add: fits_def)
  have nP: "memSize div PAGE_SIZE - 1 = of_nat (?N - 1)"
    using N word_arith_nat_div [of memSize 4096] by (simp add: page_consts of_nat_diff)
  have last: "nth_page page (?N - 1) = page + (memSize div PAGE_SIZE - 1) * PAGE_SIZE"
    unfolding nP by (simp add: nth_page_def page_consts mult.commute)
  have "?N - 1 < 2 ^ 32" using sz(3) N by (simp add: word_le_nat_alt)
  then obtain h where h: "link_pages page (memSize div PAGE_SIZE - 1) 0 (host_bytes m) = Some h"
    "\<forall>k<?N. load_le 8 h (nth_page page k) = (if k < ?N - 1 then nth_page page (Suc k) else load_le 8 (host_bytes m) (nth_page page k))"
    using link_pages_load [OF f, of 0 "?N - 1" "host_bytes m"] N unfolding nP by auto
  let ?h = "store_le 8 h (nth_page page (?N - 1)) 0"
  let ?m = "m\<lparr>gMemBase := page, gFreePageList := page, host_bytes := ?h\<rparr>"
  have m: "mem_init memSize page m = Inr (True, ?m)"
    using sz page unfolding last by (simp add: mem_init_def Let_def h(1))
  have "load_le 8 ?h (nth_page page k) = (if Suc k < ?N then nth_page page (Suc k) else 0)" if "k < ?N" for k
    using that N f h(2) by (auto simp: load_store_page)
  from free_chain_pages [OF f this N] have "free_chain ?h page (map (nth_page page) [0..<?N])"
    by (simp add: nth_page_def)
  moreover have "distinct (map (nth_page page) [0..<?N])"
    using nth_page_props(2) [OF f] by (auto simp: distinct_map inj_on_def)
  moreover have "host_pages page ?N = set (map (nth_page page) [0..<?N])"
    by (auto simp: host_pages_def nth_page_def)
  moreover have "mapped_pages ?m = {}" "pointers_ok ?m" using fresh by (simp_all add: mapped_pages_def pointers_ok_def)
  ultimately have ok: "alloc_ok ?N (map (nth_page page) [0..<?N]) ?m"
    using f by (simp add: alloc_ok_def)
  have "guest_byte ?m a = None" for a
    unfolding guest_byte_eq [OF ok] using fresh by simp
  with ok m show ?thesis by (auto simp: alloc_inv_def)
qed

subsection \<open>Refinement of an abstract memory\<close>

text \<open>
  What the allocator promises, on the guest's view alone: a mapped page is left alone, otherwise a page of
  zeros appears unless the \<open>N\<close> pages of the reservation are all in use; freeing unmaps the page.
\<close>

definition guest_pages :: "(u64 \<Rightarrow> u8 option) \<Rightarrow> u64 set" where
  "guest_pages g = getPageNum ` {a. g a \<noteq> None}"

definition spec_allocate :: "nat \<Rightarrow> u64 \<Rightarrow> (u64 \<Rightarrow> u8 option) \<Rightarrow> bool \<times> (u64 \<Rightarrow> u8 option)" where
  "spec_allocate N n g =
     (if n \<in> guest_pages g then (True, g)
      else if card (guest_pages g) = N then (False, g)
      else (True, \<lambda>a. if getPageNum a = n then Some 0 else g a))"

definition spec_free :: "u64 \<Rightarrow> (u64 \<Rightarrow> u8 option) \<Rightarrow> (u64 \<Rightarrow> u8 option)" where
  "spec_free n g = (\<lambda>a. if getPageNum a = n then None else g a)"

lemma guest_pages_eq:
  assumes ok: "alloc_ok N fl m"
  shows "guest_pages (guest_byte m) = {n. pointer (entires m n) \<noteq> 0}"
proof -
  have "n \<in> guest_pages (guest_byte m)" if v: "pointer (entires m n) \<noteq> 0" for n
  proof -
    have "n < NUM_PAGES" using alloc_okD(2) [OF ok, of n] v by (auto simp: not_less [symmetric])
    then have "unat n < 0x4000000" by (simp add: page_consts word_less_nat_alt)
    then have "getPageNum (n * 4096) = n"
      by (simp add: getPageNum_def PAGE_BITS_def shr_def drop_bit_eq_div word_unat_eq_iff unat_div unat_word_ariths)
    then show ?thesis
      using v by (auto simp: guest_pages_def guest_byte_eq [OF ok] intro!: image_eqI [of _ _ "n * 4096"])
  qed
  then show ?thesis by (auto simp: guest_pages_def guest_byte_eq [OF ok] split: if_splits)
qed

lemma card_host_pages: "fits base N \<Longrightarrow> card (host_pages base N) = N"
proof -
  assume f: "fits base N"
  have "host_pages base N = nth_page base ` {..<N}" by (auto simp: host_pages_def nth_page_def)
  moreover have "inj_on (nth_page base) {..<N}" using nth_page_props(2) [OF f] by (auto simp: inj_on_def)
  ultimately show ?thesis by (simp add: card_image)
qed

text \<open>No page is lost: free and mapped pages together are the whole reservation.\<close>

lemma guest_pages_count:
  assumes ok: "alloc_ok N fl m"
  shows "card (guest_pages (guest_byte m)) + length fl = N"
proof -
  note D = alloc_okD [OF ok]
  have "mapped_pages m = (\<lambda>n. pointer (entires m n)) ` guest_pages (guest_byte m)"
    by (auto simp: guest_pages_eq [OF ok] mapped_pages_def)
  moreover have "inj_on (\<lambda>n. pointer (entires m n)) (guest_pages (guest_byte m))"
    unfolding guest_pages_eq [OF ok] inj_on_def using D(3) by blast
  ultimately have "card (mapped_pages m) = card (guest_pages (guest_byte m))" by (simp add: card_image)
  moreover have "finite (mapped_pages m)"
  proof (rule finite_subset)
    show "mapped_pages m \<subseteq> host_pages (gMemBase m) N" using D(7) by blast
  qed (simp add: host_pages_def)
  ultimately show ?thesis
    using D(5,6,7) card_host_pages [OF D(1)] card_Un_disjoint [of "set fl" "mapped_pages m"]
    by (simp add: distinct_card)
qed

lemma free_list_empty_iff:
  assumes ok: "alloc_ok N fl m"
  shows "gFreePageList m = 0 \<longleftrightarrow> card (guest_pages (guest_byte m)) = N"
  using free_chain_head [OF alloc_okD(4) [OF ok]] guest_pages_count [OF ok] by auto

lemma allocatePage_spec:
  assumes inv: "alloc_inv N m" and n: "n < NUM_PAGES" and unlocked: "\<not> gPageAllocatorLock m"
  shows "\<exists>ok m'. allocatePage n m = Inr (ok, m') \<and> alloc_inv N m' \<and>
    (ok, guest_byte m') = spec_allocate N n (guest_byte m) \<and> (gPageAllocatorLock m' \<longleftrightarrow> \<not> ok)"
proof -
  obtain fl where ok: "alloc_ok N fl m" using inv by (auto simp: alloc_inv_def)
  note S = allocatePage_cases [OF n unlocked] spec_allocate_def guest_pages_eq [OF ok] free_list_empty_iff [OF ok]
  consider "pointer (entires m n) \<noteq> 0" | "pointer (entires m n) = 0" "fl = []"
    | p fl' where "pointer (entires m n) = 0" "fl = p # fl'" by (cases fl) auto
  then show ?thesis
  proof cases
    case 1
    then show ?thesis using inv unlocked by (auto simp: S)
  next
    case 2
    then show ?thesis
      using ok inv guest_pages_count [OF ok] by (simp add: S alloc_inv_def) (metis guest_pages_eq [OF ok])
  next
    case 3
    note T = take_page_ok [OF ok [unfolded 3(2)] n 3(1)]
    have "card {n. pointer (entires m n) \<noteq> 0} \<noteq> N"
      using guest_pages_count [OF ok] 3 by (simp add: guest_pages_eq [OF ok])
    then show ?thesis
      using 3 T unlocked by (auto simp: S alloc_inv_def fun_eq_iff take_page_def)
  qed
qed

lemma freePage_spec:
  assumes inv: "alloc_inv N m" and n: "n < NUM_PAGES" and unlocked: "\<not> gPageAllocatorLock m"
  shows "\<exists>m'. freePage n m = Inr m' \<and> alloc_inv N m' \<and> guest_byte m' = spec_free n (guest_byte m) \<and>
    (gPageAllocatorLock m' \<longleftrightarrow> n \<notin> guest_pages (guest_byte m))"
proof -
  obtain fl where ok: "alloc_ok N fl m" using inv by (auto simp: alloc_inv_def)
  show ?thesis
  proof (cases "pointer (entires m n) = 0")
    case True
    then have "guest_byte m a = None" if "getPageNum a = n" for a
      using that by (simp add: guest_byte_eq [OF ok])
    then have "spec_free n (guest_byte m) = guest_byte m" by (auto simp: spec_free_def)
    then show ?thesis
      using True ok by (auto simp: freePage_cases [OF n unlocked] alloc_inv_def guest_pages_eq [OF ok])
  next
    case False
    with put_page_ok [OF ok False] unlocked show ?thesis
      by (auto simp: freePage_cases [OF n unlocked] alloc_inv_def guest_pages_eq [OF ok] spec_free_def put_page_def)
  qed
qed

lemma protectPage_ok:
  assumes ok: "alloc_ok N fl m"
  shows "alloc_ok N fl (protectPage n pm m)" and "guest_byte (protectPage n pm m) = guest_byte m"
proof -
  have p: "pointer (entires (protectPage n pm m) k) = pointer (entires m k)" for k
    by (simp add: protectPage_def)
  have e: "host_bytes (protectPage n pm m) = host_bytes m" "gMemBase (protectPage n pm m) = gMemBase m"
    "gFreePageList (protectPage n pm m) = gFreePageList m"
    by (simp_all add: protectPage_def)
  show "alloc_ok N fl (protectPage n pm m)"
  proof -
    have "pointers_ok (protectPage n pm m) = pointers_ok m" unfolding pointers_ok_def p ..
    moreover have "mapped_pages (protectPage n pm m) = mapped_pages m" unfolding mapped_pages_def p ..
    ultimately show ?thesis using ok by (simp add: alloc_ok_def e)
  qed
  then show "guest_byte (protectPage n pm m) = guest_byte m"
    by (simp add: fun_eq_iff guest_byte_eq [OF ok] guest_byte_eq p e)
qed

subsection \<open>Regions\<close>

text \<open>
  A loop over at most \<open>2 ^ 32 - 1\<close> pages visits them in order. With a larger number of pages \<^verbatim>\<open>protectRegion\<close> and
  \<^verbatim>\<open>freeRegion\<close> do not return, while \<^verbatim>\<open>allocateRegion\<close> always does, since the page table ends first.
\<close>

lemma protect_pages_fold:
  assumes "i \<le> n" and "n < 2 ^ 32"
  shows "protect_pages p (of_nat n) pm (of_nat i) m = Some (Inr (fold (\<lambda>k. protectPage (p + of_nat k) pm) [i..<n] m))"
  using assms(1)
proof (induction "n - i" arbitrary: i m)
  case 0
  with assms show ?case by (subst protect_pages.simps) (simp add: counter_less)
next
  case (Suc d)
  then have i: "i < n" by simp
  then have "[i..<n] = i # [Suc i..<n]" by (simp add: upt_conv_Cons)
  moreover have "of_nat i + 1 = (of_nat (Suc i) :: u32)" by simp
  ultimately show ?case
    using i assms(2) Suc.hyps counter_less [of i n] by (subst protect_pages.simps) (simp add: counter_word del: of_nat_Suc)
qed

lemma protectRegion_cases:
  "protectRegion p n pm m =
     (if n < 2 ^ 32 then Inr (fold (\<lambda>k. protectPage (p + of_nat k) pm) [0..<unat n] m) else Inl NeverReturns)"
proof (cases "n < 2 ^ 32")
  case True
  then have "unat n < 2 ^ 32" by (simp add: word_less_nat_alt)
  from protect_pages_fold [OF le0 this, of p pm m] True show ?thesis by (simp add: protectRegion_def)
next
  case False
  have "\<not> 2 ^ 32 \<le> n" if "protect_pages p n pm 0 m = Some r" for r
    using that by (rule protect_pages.raw_induct [rotated]) (metis counter_below)
  with False show ?thesis by (cases "protect_pages p n pm 0 m") (auto simp: protectRegion_def)
qed

lemma freeRegion_diverges: "2 ^ 32 \<le> n \<Longrightarrow> freeRegion p n m \<noteq> Inr m'"
proof
  assume n: "2 ^ 32 \<le> n" and "freeRegion p n m = Inr m'"
  have "\<not> (2 ^ 32 \<le> n \<and> (\<exists>m'. r = Inr m'))" if "free_pages p n 0 m = Some r" for r
    using that by (rule free_pages.raw_induct [rotated]) (fastforce simp: counter_below split: sum.splits)
  with n \<open>freeRegion p n m = Inr m'\<close> show False by (auto simp: freeRegion_def outcome_Inr)
qed

lemma allocatePage_past: "NUM_PAGES \<le> p \<Longrightarrow> allocatePage p m = Inr (False, m)"
  by (simp add: allocatePage_def)

lemma allocatePage_returns: "allocatePage p m \<noteq> Inl NeverReturns"
  by (simp add: allocatePage_def Let_def)

lemma allocate_pages_end:
  assumes "p < NUM_PAGES" and "i \<le> 2 ^ 26"
  shows "\<exists>r. allocate_pages p n (of_nat i) m = Some r \<and> r \<noteq> Inl NeverReturns"
  using assms(2)
proof (induction "2 ^ 26 - i" arbitrary: i m)
  case 0
  then have "i = 2 ^ 26" by simp
  moreover have "NUM_PAGES \<le> p + 2 ^ 26" using assms(1) by (simp add: page_consts word_le_nat_alt word_less_nat_alt unat_word_ariths)
  ultimately show ?case by (subst allocate_pages.simps) (simp add: allocatePage_past)
next
  case (Suc d)
  have "\<exists>r. allocate_pages p n (of_nat i + 1) m1 = Some r \<and> r \<noteq> Inl NeverReturns" for m1
    using Suc.hyps(1) [of "Suc i" m1] Suc.hyps(2) Suc.prems by (simp add: add.commute)
  then show ?case
    using allocatePage_returns by (subst allocate_pages.simps) (auto split: sum.split)
qed

lemma allocateRegion_returns: "allocateRegion p n m \<noteq> Inl NeverReturns"
proof (cases "p < NUM_PAGES")
  case True
  then show ?thesis using allocate_pages_end [of p 0 n m] by (auto simp: allocateRegion_def)
next
  case False
  then have "allocatePage (p + ucast (0 :: u32)) m = Inr (False, m)" by (simp add: allocatePage_past not_less)
  then show ?thesis unfolding allocateRegion_def by (subst allocate_pages.simps) simp
qed

subsection \<open>Properties\<close>

text \<open>
  C8. Initialisation establishes the allocator's invariant: on a reservation of at most \<open>2 ^ 44\<close> bytes that does not wrap around the
  host's address space, \<^verbatim>\<open>mem::init\<close> returns true, all pages are on the free list and the guest sees no memory. On a
  larger reservation it does not return: its 32-bit page counter never reaches the number of pages.
\<close>

theorem mem_init_inv:
  assumes "page \<noteq> 0" and "unat page + unat memSize \<le> 2 ^ 64" and "memSize \<noteq> 0" and "isPageAligned memSize"
    and "\<forall>n. pointer (entires m n) = 0"
  shows "if memSize \<le> 2 ^ 44
    then \<exists>m'. mem_init memSize page m = Inr (True, m') \<and> alloc_inv (unat memSize div 4096) m' \<and> guest_byte m' = (\<lambda>a. None)
    else mem_init memSize page m = Inl NeverReturns"
proof (cases "memSize \<le> 2 ^ 44")
  case True
  then show ?thesis using mem_init_ok [OF assms(1-4) _ assms(5)] by auto
next
  case False
  have "unat memSize mod 4096 = 0"
    using arg_cong [OF assms(4) [unfolded isPageAligned_def page_consts], of unat] by (simp add: unat_and_mask take_bit_eq_mod)
  moreover have "2 ^ 44 < unat memSize" using False by (simp add: word_le_nat_alt)
  ultimately have "2 ^ 32 \<le> unat memSize div 4096 - 1" by auto
  then have "2 ^ 32 \<le> memSize div PAGE_SIZE - 1"
    by (simp add: page_consts unat_sub unat_div word_le_nat_alt)
  then show ?thesis using False assms by (simp add: mem_init_def Let_def link_pages_diverges)
qed

definition zero_memory :: Memory where
  "zero_memory = \<lparr>host_bytes = (\<lambda>a. 0), entires = (\<lambda>n. \<lparr>pointer = 0, perm = NONE\<rparr>), gFreePageList = 0,
     gPageAllocatorLock = False, gMemBase = 0, gMemBreakpoints = {}\<rparr>"

text \<open>A reservation of two pages.\<close>

definition two_pages :: Memory where
  "two_pages = (case mem_init 0x2000 0x10000 zero_memory of Inr (_, m) \<Rightarrow> m | Inl _ \<Rightarrow> zero_memory)"

lemma two_pages_facts:
  "alloc_inv 2 two_pages" "guest_byte two_pages = (\<lambda>a. None)" "\<not> gPageAllocatorLock two_pages"
  using mem_init_ok [of "0x10000" "0x2000" zero_memory]
  by (auto simp: two_pages_def isPageAligned_def page_consts mask_eq_exp_minus_1 zero_memory_def)

theorem mem_init_inv_witness:
  "(\<exists>m'. mem_init 0x2000 0x10000 zero_memory = Inr (True, m') \<and> alloc_inv 2 m') \<and>
   mem_init 0x200000000000 0x10000 zero_memory = Inl NeverReturns"
  using mem_init_inv [of "0x10000" "0x2000" zero_memory] mem_init_inv [of "0x10000" "0x200000000000" zero_memory]
  by (auto simp: isPageAligned_def page_consts mask_eq_exp_minus_1 zero_memory_def)

text \<open>
  C9. \<^verbatim>\<open>allocatePage\<close> refines its specification: it keeps the invariant, a page already mapped keeps its contents,
  otherwise the guest gains exactly one page of zeros and every other byte keeps its value, and it fails only
  when the whole reservation is in use. When it fails the allocator's lock stays held.
\<close>

theorem allocatePage_refines:
  assumes "alloc_inv N m" and "n < NUM_PAGES" and "\<not> gPageAllocatorLock m"
  shows "\<exists>ok m'. allocatePage n m = Inr (ok, m') \<and> alloc_inv N m' \<and>
    (ok, guest_byte m') = spec_allocate N n (guest_byte m) \<and> (gPageAllocatorLock m' \<longleftrightarrow> \<not> ok)"
  by (rule allocatePage_spec [OF assms])

theorem allocatePage_refines_witness:
  "\<exists>m'. allocatePage 1 two_pages = Inr (True, m') \<and> guest_byte m' 0x1234 = Some 0"
proof -
  have "getPageNum 0x1234 = 1" by (simp add: getPageNum_def PAGE_BITS_def shr_def drop_bit_eq_div)
  then show ?thesis
    using allocatePage_refines [OF two_pages_facts(1) _ two_pages_facts(3), of 1]
    by (auto simp: spec_allocate_def two_pages_facts(2) guest_pages_def page_consts)
qed

text \<open>
  C10. \<^verbatim>\<open>freePage\<close> refines its specification: it keeps the invariant (so a freed page can be allocated again and no
  page is lost), unmaps exactly that page and leaves every other byte alone. When the page was not mapped the
  allocator's lock stays held.
\<close>

theorem freePage_refines:
  assumes "alloc_inv N m" and "n < NUM_PAGES" and "\<not> gPageAllocatorLock m"
  shows "\<exists>m'. freePage n m = Inr m' \<and> alloc_inv N m' \<and> guest_byte m' = spec_free n (guest_byte m) \<and>
    (gPageAllocatorLock m' \<longleftrightarrow> n \<notin> guest_pages (guest_byte m))"
  by (rule freePage_spec [OF assms])

theorem freePage_refines_witness:
  "\<exists>m'. freePage 1 two_pages = Inr m' \<and> gPageAllocatorLock m'"
  using freePage_refines [OF two_pages_facts(1) _ two_pages_facts(3), of 1]
  by (auto simp: two_pages_facts(2) guest_pages_def page_consts)

text \<open>
  The early returns of the allocator lose its lock: after \<^verbatim>\<open>freePage\<close> of a page that is not mapped, and after
  \<^verbatim>\<open>allocatePage\<close> on an exhausted reservation, every further call on a valid page number blocks for ever.
\<close>

theorem allocator_lock_leak:
  assumes "n < NUM_PAGES" and "\<not> gPageAllocatorLock m" and "pointer (entires m n) = 0" and "k < NUM_PAGES"
  shows "(\<exists>m'. freePage n m = Inr m' \<and> allocatePage k m' = Inl Deadlock \<and> freePage k m' = Inl Deadlock) \<and>
    (gFreePageList m = 0 \<longrightarrow>
      (\<exists>m'. allocatePage n m = Inr (False, m') \<and> allocatePage k m' = Inl Deadlock \<and> freePage k m' = Inl Deadlock))"
  using assms by (simp add: freePage_cases allocatePage_cases) (simp add: freePage_def allocatePage_def not_le [symmetric])

theorem allocator_lock_leak_witness:
  "\<exists>m'. freePage 7 zero_memory = Inr m' \<and> allocatePage 5 m' = Inl Deadlock"
  using allocator_lock_leak [of 7 zero_memory 5] by (auto simp: page_consts zero_memory_def)

text \<open>A small memory with guest page 1 mapped.\<close>

definition demo_memory :: Memory where
  "demo_memory = (case allocatePage 1 two_pages of Inr (ok, m) \<Rightarrow> m | Inl _ \<Rightarrow> zero_memory)"

lemma demo_memory_facts:
  "alloc_inv 2 demo_memory" "guest_byte demo_memory a = (if getPageNum a = 1 then Some 0 else None)"
  "\<not> gPageAllocatorLock demo_memory"
proof -
  obtain ok m' where "allocatePage 1 two_pages = Inr (ok, m')" "alloc_inv 2 m'"
    "(ok, guest_byte m') = spec_allocate 2 1 (\<lambda>a. None)" "gPageAllocatorLock m' \<longleftrightarrow> \<not> ok"
    using allocatePage_spec [OF two_pages_facts(1) _ two_pages_facts(3), of 1] unfolding two_pages_facts(2) by (auto simp: page_consts)
  then show "alloc_inv 2 demo_memory" "guest_byte demo_memory a = (if getPageNum a = 1 then Some 0 else None)"
    "\<not> gPageAllocatorLock demo_memory"
    by (auto simp: demo_memory_def spec_allocate_def guest_pages_def)
qed

end
