(* ===== verification/Machine.thy ===== *)
theory Machine
  imports Cpu_State Memory_Alloc
begin

text \<open>
  Guest accesses, \<^verbatim>\<open>read\<close>, \<^verbatim>\<open>write\<close>, \<^verbatim>\<open>writeAtomic\<close> of \<^verbatim>\<open>libcpu/inc/mem.h\<close> and the region copies of
  \<^verbatim>\<open>libcpu/src/mem.cpp\<close>, on a machine: the core that executes, the shared guest memory and the
  interpreter's timer. The template parameter \<^verbatim>\<open>T\<close> is its size in bytes, \<open>sz\<close>. An access to an address in
  \<^verbatim>\<open>gMemBreakpoints\<close> sends the executing core a debug interrupt.

  The locale \<open>byte_memory\<close> is what the copies rely on: stores inside a page, and the bytes they leave.
\<close>

unbundle bit_operations_syntax

record Machine =
  mcore :: Core
  memory :: Memory
  gTimer :: u64

definition check_breakpoint :: "u64 \<Rightarrow> Machine \<Rightarrow> Machine" where
  "check_breakpoint addr mc =
     (if addr \<in> gMemBreakpoints (memory mc)
      then mc\<lparr>mcore := sendInterrupts DEBUG_BREAK_INTERRUPT (mcore mc)\<rparr> else mc)"

definition set_host :: "host \<Rightarrow> Machine \<Rightarrow> Machine" where
  "set_host h mc = mc\<lparr>memory := (memory mc)\<lparr>host_bytes := h\<rparr>\<rparr>"

definition mem_read :: "nat \<Rightarrow> u64 \<Rightarrow> Machine \<Rightarrow> fault + u64 \<times> Machine" where
  "mem_read sz addr mc =
     (let mc = check_breakpoint addr mc
      in and_then (translate addr (memory mc))
           (\<lambda>p. Inr (load_le sz (host_bytes (memory mc)) p, mc)))"

definition mem_write :: "nat \<Rightarrow> u64 \<Rightarrow> u64 \<Rightarrow> Machine \<Rightarrow> fault + Machine" where
  "mem_write sz addr data mc =
     (let mc = check_breakpoint addr mc
      in and_then (translate addr (memory mc))
           (\<lambda>p. Inr (set_host (store_le sz (host_bytes (memory mc)) p data) mc)))"

text \<open>\<^verbatim>\<open>compare_exchange_strong\<close> on the \<open>sz\<close> bytes at the translated address.\<close>

definition writeAtomic :: "nat \<Rightarrow> u64 \<Rightarrow> u64 \<Rightarrow> u64 \<Rightarrow> Machine \<Rightarrow> fault + bool \<times> Machine" where
  "writeAtomic sz addr data expected mc =
     and_then (translate addr (memory mc))
       (\<lambda>p. if load_le sz (host_bytes (memory mc)) p = take_bit (8 * sz) expected
            then Inr (True, set_host (store_le sz (host_bytes (memory mc)) p data) mc)
            else Inr (False, mc))"

definition writeAtomic128 :: "u64 \<Rightarrow> u64 \<Rightarrow> u64 \<Rightarrow> u64 \<Rightarrow> u64 \<Rightarrow> Machine \<Rightarrow> fault + bool \<times> Machine" where
  "writeAtomic128 addr dataLo dataHigh expectedLo expectedHigh mc =
     and_then (translate addr (memory mc))
       (\<lambda>dst. let h = host_bytes (memory mc)
            in if load_le 8 h dst = expectedLo \<and> load_le 8 h (dst + 8) = expectedHigh
            then Inr (True, set_host (store_le 8 (store_le 8 h dst dataLo) (dst + 8) dataHigh) mc)
            else Inr (False, mc))"

text \<open>
  The copies move whole pages where the guest address is page aligned and more than a page is left, single
  bytes elsewhere. Their counter \<^verbatim>\<open>i\<close> is 32 bits wide; the sum \<^verbatim>\<open>i + PAGE_SIZE\<close> has the 64 bits of \<^verbatim>\<open>PAGE_SIZE\<close>.
\<close>

definition whole_page :: "u64 \<Rightarrow> nat \<Rightarrow> nat \<Rightarrow> bool" where
  "whole_page addr i len \<longleftrightarrow> (addr + of_nat i) AND PAGE_OFFSET_MASK = 0 \<and> i + unat PAGE_SIZE < len"

partial_function (option) writeRegion_loop :: "u64 \<Rightarrow> u8 list \<Rightarrow> u32 \<Rightarrow> Machine \<Rightarrow> (fault + Machine) option" where
  "writeRegion_loop addr data i mc =
     (if unat i < length data then
        if whole_page addr (unat i) (length data) then
          (case translate (addr + ucast i) (memory mc) of Inl e \<Rightarrow> Some (Inl e)
           | Inr p \<Rightarrow> writeRegion_loop addr data (i + ucast PAGE_SIZE)
               (set_host (write_bytes (host_bytes (memory mc)) p (take (unat PAGE_SIZE) (drop (unat i) data))) mc))
        else
          (case mem_write 1 (addr + ucast i) (ucast (data ! unat i)) mc of Inl e \<Rightarrow> Some (Inl e)
           | Inr mc \<Rightarrow> writeRegion_loop addr data (i + 1) mc)
      else Some (Inr mc))"

definition writeRegion :: "u64 \<Rightarrow> u8 list \<Rightarrow> Machine \<Rightarrow> fault + Machine" where
  "writeRegion addr data mc = outcome (writeRegion_loop addr data 0 mc)"

text \<open>\<^verbatim>\<open>readRegion\<close> fills the caller's buffer; \<open>out\<close> is the part filled so far.\<close>

partial_function (option) readRegion_loop :: "u64 \<Rightarrow> nat \<Rightarrow> u32 \<Rightarrow> u8 list \<Rightarrow> Machine \<Rightarrow> (fault + u8 list \<times> Machine) option" where
  "readRegion_loop addr len i out mc =
     (if unat i < len then
        if whole_page addr (unat i) len then
          (case translate (addr + ucast i) (memory mc) of Inl e \<Rightarrow> Some (Inl e)
           | Inr p \<Rightarrow> readRegion_loop addr len (i + ucast PAGE_SIZE)
               (out @ read_bytes (host_bytes (memory mc)) p (unat PAGE_SIZE)) mc)
        else
          (case mem_read 1 (addr + ucast i) mc of Inl e \<Rightarrow> Some (Inl e)
           | Inr r \<Rightarrow> readRegion_loop addr len (i + 1) (out @ [ucast (fst r)]) (snd r))
      else Some (Inr (out, mc)))"

definition readRegion :: "u64 \<Rightarrow> nat \<Rightarrow> Machine \<Rightarrow> fault + u8 list \<times> Machine" where
  "readRegion addr len mc = outcome (readRegion_loop addr len 0 [] mc)"

text \<open>\<^verbatim>\<open>zeroMem\<close> writes the literal \<^verbatim>\<open>0\<close>, an \<^verbatim>\<open>int\<close>: the element writes are four bytes wide.\<close>

partial_function (option) zeroMem_loop :: "u64 \<Rightarrow> nat \<Rightarrow> u32 \<Rightarrow> Machine \<Rightarrow> (fault + Machine) option" where
  "zeroMem_loop addr len i mc =
     (if unat i < len then
        if whole_page addr (unat i) len then
          (case translate (addr + ucast i) (memory mc) of Inl e \<Rightarrow> Some (Inl e)
           | Inr p \<Rightarrow> zeroMem_loop addr len (i + ucast PAGE_SIZE)
               (set_host (memset (host_bytes (memory mc)) p 0 (unat PAGE_SIZE)) mc))
        else
          (case mem_write 4 (addr + ucast i) 0 mc of Inl e \<Rightarrow> Some (Inl e)
           | Inr mc \<Rightarrow> zeroMem_loop addr len (i + 1) mc)
      else Some (Inr mc))"

definition zeroMem :: "u64 \<Rightarrow> nat \<Rightarrow> Machine \<Rightarrow> fault + Machine" where
  "zeroMem addr len mc = outcome (zeroMem_loop addr len 0 mc)"

subsection \<open>The copies with an unbounded counter\<close>

text \<open>
  Below \<open>2 ^ 32\<close> bytes the counter does not wrap and the copies are the following total functions; from there on
  no copy returns normally.
\<close>

function writeRegion_from :: "u64 \<Rightarrow> u8 list \<Rightarrow> nat \<Rightarrow> Machine \<Rightarrow> fault + Machine" where
  "writeRegion_from addr data i mc =
     (if i < length data then
        if whole_page addr i (length data) then
          and_then (translate (addr + of_nat i) (memory mc))
            (\<lambda>p. writeRegion_from addr data (i + unat PAGE_SIZE)
              (set_host (write_bytes (host_bytes (memory mc)) p (take (unat PAGE_SIZE) (drop i data))) mc))
        else and_then (mem_write 1 (addr + of_nat i) (ucast (data ! i)) mc) (writeRegion_from addr data (i + 1))
      else Inr mc)"
  by pat_completeness auto
termination
  by (relation "measure (\<lambda>(addr, data, i, mc). length data - i)") (auto simp: page_consts)

function readRegion_from :: "u64 \<Rightarrow> nat \<Rightarrow> nat \<Rightarrow> u8 list \<Rightarrow> Machine \<Rightarrow> fault + u8 list \<times> Machine" where
  "readRegion_from addr len i out mc =
     (if i < len then
        if whole_page addr i len then
          and_then (translate (addr + of_nat i) (memory mc))
            (\<lambda>p. readRegion_from addr len (i + unat PAGE_SIZE)
              (out @ read_bytes (host_bytes (memory mc)) p (unat PAGE_SIZE)) mc)
        else and_then (mem_read 1 (addr + of_nat i) mc)
            (\<lambda>(b, mc). readRegion_from addr len (i + 1) (out @ [ucast b]) mc)
      else Inr (out, mc))"
  by pat_completeness auto
termination
  by (relation "measure (\<lambda>(addr, len, i, out, mc). len - i)") (auto simp: page_consts)

declare writeRegion_from.simps [simp del] readRegion_from.simps [simp del]

lemma counter_unat: "i < 2 ^ 32 \<Longrightarrow> unat (of_nat i :: u32) = i"
  by (simp add: unat_of_nat)

lemma counter_range: "unat (i :: u32) < 2 ^ 32"
  using unsigned_less [of i] by simp

lemma counter_page: "(of_nat i :: u32) + ucast PAGE_SIZE = of_nat (i + unat PAGE_SIZE)"
  by (simp add: page_consts)

lemma counter_byte: "(of_nat i :: u32) + 1 = of_nat (i + 1)"
  by simp

lemmas counter_simps = counter_unat counter_word counter_page counter_byte

lemma writeRegion_counts:
  "length data < 2 ^ 32 \<Longrightarrow> i \<le> length data \<Longrightarrow>
     writeRegion_loop addr data (of_nat i) mc = Some (writeRegion_from addr data i mc)"
proof (induction "length data - i" arbitrary: i mc rule: less_induct)
  case less
  have i: "unat (of_nat i :: u32) = i" "ucast (of_nat i :: u32) = (of_nat i :: u64)" using less.prems by (simp_all add: counter_simps)
  note unfold = writeRegion_loop.simps [of addr data "of_nat i" mc] writeRegion_from.simps [of addr data i mc]
  have page: "writeRegion_loop addr data (of_nat (i + unat PAGE_SIZE)) mc1 = Some (writeRegion_from addr data (i + unat PAGE_SIZE) mc1)"
    if "whole_page addr i (length data)" for mc1
    using that less.prems by (intro less.hyps) (auto simp: whole_page_def page_consts)
  have byte: "writeRegion_loop addr data (of_nat (i + 1)) mc1 = Some (writeRegion_from addr data (i + 1) mc1)" if "i < length data" for mc1
    using that less.prems by (intro less.hyps) simp_all
  show ?case unfolding unfold i counter_page counter_byte
    by (auto simp: page byte [unfolded One_nat_def] and_then_def simp del: of_nat_add of_nat_Suc add_Suc_right split: sum.split)
qed

lemma readRegion_counts:
  "len < 2 ^ 32 \<Longrightarrow> i \<le> len \<Longrightarrow>
     readRegion_loop addr len (of_nat i) out mc = Some (readRegion_from addr len i out mc)"
proof (induction "len - i" arbitrary: i out mc rule: less_induct)
  case less
  have i: "unat (of_nat i :: u32) = i" "ucast (of_nat i :: u32) = (of_nat i :: u64)" using less.prems by (simp_all add: counter_simps)
  note unfold = readRegion_loop.simps [of addr len "of_nat i" out mc] readRegion_from.simps [of addr len i out mc]
  have page: "readRegion_loop addr len (of_nat (i + unat PAGE_SIZE)) out1 mc1 = Some (readRegion_from addr len (i + unat PAGE_SIZE) out1 mc1)"
    if "whole_page addr i len" for out1 mc1
    using that less.prems by (intro less.hyps) (auto simp: whole_page_def page_consts)
  have byte: "readRegion_loop addr len (of_nat (i + 1)) out1 mc1 = Some (readRegion_from addr len (i + 1) out1 mc1)" if "i < len" for out1 mc1
    using that less.prems by (intro less.hyps) simp_all
  show ?case unfolding unfold i counter_page counter_byte
    by (auto simp: page byte [unfolded One_nat_def] and_then_def simp del: of_nat_add of_nat_Suc add_Suc_right split: sum.split)
qed

lemma writeRegion_eq: "length data < 2 ^ 32 \<Longrightarrow> writeRegion addr data mc = writeRegion_from addr data 0 mc"
  using writeRegion_counts [of data 0] by (simp add: writeRegion_def)

lemma readRegion_eq: "len < 2 ^ 32 \<Longrightarrow> readRegion addr len mc = readRegion_from addr len 0 [] mc"
  using readRegion_counts [of len 0] by (simp add: readRegion_def)

lemma writeRegion_length:
  assumes "writeRegion addr data mc = Inr mc'"
  shows "length data < 2 ^ 32"
proof -
  have "length data < 2 ^ 32 \<or> (\<exists>e. r = Inl e)" if "writeRegion_loop addr data 0 mc = Some r" for r
    using that
  proof (rule writeRegion_loop.raw_induct [rotated], goal_cases)
    case (1 loop addr data i mc r)
    show ?case
    proof (cases "unat i < length data")
      case True
      with 1(2) show ?thesis by (auto split: if_splits sum.splits dest: 1(1) sym)
    next
      case False
      with counter_range [of i] show ?thesis by simp
    qed
  qed
  with assms show ?thesis by (auto simp: writeRegion_def outcome_Inr)
qed

subsection \<open>Stores inside a page\<close>

lemma offset_shift:
  fixes d :: u64
  assumes "i + L \<le> 2 ^ 64" "i < 2 ^ 64"
  shows "unat (d - of_nat i) < L \<longleftrightarrow> i \<le> unat d \<and> unat d < i + L"
    and "i \<le> unat d \<Longrightarrow> unat (d - of_nat i) = unat d - i"
proof -
  have i: "unat (of_nat i :: u64) = i" using assms by (simp add: unat_of_nat)
  show ge: "i \<le> unat d \<Longrightarrow> unat (d - of_nat i) = unat d - i"
    by (simp add: unat_sub word_le_nat_alt i)
  have "i \<le> unat d" if "unat (d - of_nat i) < L"
  proof -
    have "unat d = unat (of_nat i + of_nat (unat (d - of_nat i)) :: u64)" by simp
    also have "\<dots> = i + unat (d - of_nat i)"
      using that assms by (simp only: of_nat_add [symmetric] unat_of_nat) simp
    finally show ?thesis by simp
  qed
  then show "unat (d - of_nat i) < L \<longleftrightarrow> i \<le> unat d \<and> unat d < i + L"
    using ge by auto
qed

locale byte_memory =
  fixes inv :: "'m \<Rightarrow> bool"
    and view :: "'m \<Rightarrow> u64 \<Rightarrow> u8 option"
    and store :: "u64 \<Rightarrow> u8 list \<Rightarrow> 'm \<Rightarrow> 'm"
    and load :: "u64 \<Rightarrow> nat \<Rightarrow> 'm \<Rightarrow> u8 list"
  assumes store_inv: "inv m \<Longrightarrow> view m a \<noteq> None \<Longrightarrow> page_offset a + length bs \<le> 4096 \<Longrightarrow> inv (store a bs m)"
    and store_view: "inv m \<Longrightarrow> view m a \<noteq> None \<Longrightarrow> page_offset a + length bs \<le> 4096 \<Longrightarrow>
      view (store a bs m) b = (if unat (b - a) < length bs then Some (bs ! unat (b - a)) else view m b)"
    and load_view: "inv m \<Longrightarrow> view m a \<noteq> None \<Longrightarrow> page_offset a + n \<le> 4096 \<Longrightarrow>
      map Some (load a n m) = map (\<lambda>i. view m (a + of_nat i)) [0..<n]"
begin

lemma store_mapped:
  "inv m \<Longrightarrow> view m a \<noteq> None \<Longrightarrow> page_offset a + length bs \<le> 4096 \<Longrightarrow> view m b \<noteq> None \<Longrightarrow> view (store a bs m) b \<noteq> None"
  by (simp add: store_view)

lemma load_eq:
  assumes "inv m" "view m a \<noteq> None" "page_offset a + length bs \<le> 4096"
    and "\<And>i. i < length bs \<Longrightarrow> view m (a + of_nat i) = Some (bs ! i)"
  shows "load a (length bs) m = bs"
proof -
  have "map Some (load a (length bs) m) = map (\<lambda>i. Some (bs ! i)) [0..<length bs]"
    using assms(4) unfolding load_view [OF assms(1-3)] by (intro map_cong) simp_all
  also have "\<dots> = map Some bs"
    by (rule nth_equalityI) simp_all
  finally show ?thesis by (simp add: inj_map_eq_map)
qed

lemma load_store_same:
  assumes "inv m" "view m a \<noteq> None" "page_offset a + length bs \<le> 4096"
  shows "load a (length bs) (store a bs m) = bs"
proof (rule load_eq)
  show "inv (store a bs m)" "view (store a bs m) a \<noteq> None"
    using assms by (simp_all add: store_inv store_mapped)
  show "view (store a bs m) (a + of_nat i) = Some (bs ! i)" if "i < length bs" for i
    using that assms(3) by (simp add: store_view [OF assms] unat_of_nat)
qed (rule assms(3))

lemma store_chunk:
  assumes "inv m" "view m (a + of_nat i) \<noteq> None" "page_offset (a + of_nat i) + length cs \<le> 4096"
    and cs: "cs = take (length cs) (drop i bs)" "i + length cs \<le> length bs" and bs: "length bs < 2 ^ 64"
  shows "view (store (a + of_nat i) cs m) b =
    (if i \<le> unat (b - a) \<and> unat (b - a) < i + length cs then Some (bs ! unat (b - a)) else view m b)"
proof -
  have d: "b - (a + of_nat i) = (b - a) - of_nat i" by simp
  have nth: "cs ! (unat (b - a) - i) = bs ! unat (b - a)" if "i \<le> unat (b - a)" "unat (b - a) < i + length cs"
  proof -
    have "unat (b - a) - i < length cs" using that by simp
    then have "cs ! (unat (b - a) - i) = drop i bs ! (unat (b - a) - i)" by (metis cs(1) nth_take)
    also have "\<dots> = bs ! unat (b - a)" using that cs(2) by (simp add: nth_drop)
    finally show ?thesis .
  qed
  have "i + length cs \<le> 2 ^ 64" "i < 2 ^ 64" using cs(2) bs by simp_all
  note sh = offset_shift [OF this, of "b - a", folded d]
  show ?thesis
    unfolding store_view [OF assms(1-3)] sh(1) using nth sh(2) by auto
qed

lemma load_cong:
  assumes "inv m" "inv m'" "view m b \<noteq> None" "page_offset b + n \<le> 4096"
    and "\<And>i. i < n \<Longrightarrow> view m' (b + of_nat i) = view m (b + of_nat i)" "view m' b \<noteq> None"
  shows "load b n m' = load b n m"
proof -
  have "map Some (load b n m') = map Some (load b n m)"
    unfolding load_view [OF assms(1,3,4)] load_view [OF assms(2,6,4)] using assms(5) by (intro map_cong) simp_all
  then show ?thesis by (simp add: inj_map_eq_map)
qed

lemma load_store_other:
  assumes "inv m" "view m a \<noteq> None" "page_offset a + length bs \<le> 4096" "view m b \<noteq> None" "page_offset b + n \<le> 4096"
    and "\<And>i. i < n \<Longrightarrow> \<not> unat (b + of_nat i - a) < length bs"
  shows "load b n (store a bs m) = load b n m"
  using assms by (intro load_cong) (simp_all add: store_inv store_view)

end

subsection \<open>The machine provides the interface\<close>

definition mem_ok :: "nat \<Rightarrow> Machine \<Rightarrow> bool" where
  "mem_ok N mc \<longleftrightarrow> alloc_inv N (memory mc)"

definition mview :: "Machine \<Rightarrow> u64 \<Rightarrow> u8 option" where
  "mview mc = guest_byte (memory mc)"

definition mstore :: "u64 \<Rightarrow> u8 list \<Rightarrow> Machine \<Rightarrow> Machine" where
  "mstore a bs mc = (case translate a (memory mc) of Inl _ \<Rightarrow> mc
     | Inr p \<Rightarrow> set_host (write_bytes (host_bytes (memory mc)) p bs) mc)"

definition mload :: "u64 \<Rightarrow> nat \<Rightarrow> Machine \<Rightarrow> u8 list" where
  "mload a n mc = (case translate a (memory mc) of Inl _ \<Rightarrow> [] | Inr p \<Rightarrow> read_bytes (host_bytes (memory mc)) p n)"

lemma mview_mapped:
  assumes "alloc_ok N fl (memory mc)"
  shows "mview mc a \<noteq> None \<longleftrightarrow> pointer (entires (memory mc) (getPageNum a)) \<noteq> 0"
  by (simp add: mview_def guest_byte_eq [OF assms])

lemma translate_mapped:
  assumes "alloc_ok N fl (memory mc)" "mview mc a \<noteq> None"
  shows "translate a (memory mc) = Inr (pointer (entires (memory mc) (getPageNum a)) + of_nat (page_offset a))"
  using assms(2) mview_mapped [OF assms(1)] translate_cases [OF assms(1)] by simp

interpretation gm: byte_memory "mem_ok N" mview mstore mload for N
proof
  fix mc a and bs :: "u8 list" and b n
  assume inv: "mem_ok N mc" and v: "mview mc a \<noteq> None"
  then obtain fl where ok: "alloc_ok N fl (memory mc)" by (auto simp: mem_ok_def alloc_inv_def)
  note t = translate_mapped [OF ok v] and p = v [unfolded mview_mapped [OF ok]]
  {
    assume len: "page_offset a + length bs \<le> 4096"
    show "mem_ok N (mstore a bs mc)"
      using alloc_ok_write [OF ok p len] by (auto simp: mem_ok_def mstore_def t set_host_def alloc_inv_def)
    show "mview (mstore a bs mc) b = (if unat (b - a) < length bs then Some (bs ! unat (b - a)) else mview mc b)"
      using guest_byte_write [OF ok p len, of b] by (simp add: mview_def mstore_def t set_host_def)
  }
  assume n: "page_offset a + n \<le> 4096"
  have "mview mc (a + of_nat i) =
      Some (host_bytes (memory mc) (pointer (entires (memory mc) (getPageNum a)) + of_nat (page_offset a) + of_nat i))"
    if "i < n" for i
    using same_page_step [of a i] that n p by (simp add: mview_def guest_byte_eq [OF ok] add.assoc)
  then show "map Some (mload a n mc) = map (\<lambda>i. mview mc (a + of_nat i)) [0..<n]"
    by (simp add: mload_def t read_bytes_def)
qed

lemma check_breakpoint_simps [simp]:
  "memory (check_breakpoint a mc) = memory mc" "mview (check_breakpoint a mc) = mview mc"
  "mem_ok N (check_breakpoint a mc) = mem_ok N mc" "mload b n (check_breakpoint a mc) = mload b n mc"
proof -
  show "memory (check_breakpoint a mc) = memory mc" by (simp add: check_breakpoint_def)
  then show "mview (check_breakpoint a mc) = mview mc" "mem_ok N (check_breakpoint a mc) = mem_ok N mc"
    "mload b n (check_breakpoint a mc) = mload b n mc"
    by (simp_all only: mview_def mem_ok_def mload_def)
qed

lemma access_cases:
  assumes "mem_ok N mc"
  shows "mem_write sz a d mc = (if mview mc a = None then Inl (SegFault a)
      else Inr (mstore a (le_bytes sz d) (check_breakpoint a mc)))"
    and "mem_read sz a mc = (if mview mc a = None then Inl (SegFault a)
      else Inr (le_val (mload a sz mc), check_breakpoint a mc))"
proof -
  obtain fl where ok: "alloc_ok N fl (memory mc)" using assms by (auto simp: mem_ok_def alloc_inv_def)
  have t: "translate a (memory mc) = (if mview mc a = None then Inl (SegFault a)
      else Inr (pointer (entires (memory mc) (getPageNum a)) + of_nat (page_offset a)))"
    using translate_cases [OF ok, of a] mview_mapped [OF ok, of a] by auto
  show "mem_write sz a d mc = (if mview mc a = None then Inl (SegFault a)
      else Inr (mstore a (le_bytes sz d) (check_breakpoint a mc)))"
    by (simp add: mem_write_def Let_def t mstore_def store_le_def)
  show "mem_read sz a mc = (if mview mc a = None then Inl (SegFault a)
      else Inr (le_val (mload a sz mc), check_breakpoint a mc))"
    by (simp add: mem_read_def Let_def t mload_def load_le_def)
qed

lemma mem_write_effect:
  assumes ok: "mem_ok N mc" and v: "mview mc a \<noteq> None" and sz: "page_offset a + sz \<le> 4096"
  obtains mc' where "mem_write sz a d mc = Inr mc'" "mem_ok N mc'" "mload a sz mc' = le_bytes sz d"
    "\<And>b. mview mc' b = (if unat (b - a) < sz then Some (le_bytes sz d ! unat (b - a)) else mview mc b)"
proof -
  let ?c = "check_breakpoint a mc" and ?m = "mstore a (le_bytes sz d) (check_breakpoint a mc)"
  have c: "mem_ok N ?c" "mview ?c a \<noteq> None" "page_offset a + length (le_bytes sz d) \<le> 4096"
    using assms by simp_all
  have "mem_write sz a d mc = Inr ?m" using access_cases [OF ok] v by simp
  moreover have "mload a sz ?m = le_bytes sz d" using gm.load_store_same [OF c] by simp
  ultimately show ?thesis
    using that gm.store_inv [OF c] gm.store_view [OF c] by simp
qed

subsection \<open>Region copies\<close>

lemma ucast_u8: "ucast (ucast (b :: u8) :: u64) = b"
  by (rule bit_word_eqI) (simp add: bit_simps)

lemma page_offset_le [simp]: "page_offset a \<le> 4095"
  using page_offset_less [of a] by linarith

lemma aligned_offset: "whole_page addr i len \<longleftrightarrow> page_offset (addr + of_nat i) = 0 \<and> i + 4096 < len"
proof -
  have "page_offset a < 2 ^ 64" for a by (rule less_trans [OF page_offset_less]) simp
  then show ?thesis
    unfolding whole_page_def unat_page_offset by (auto simp: page_consts(4) word_unat_eq_iff unat_of_nat)
qed

text \<open>One turn of the loop stores the next chunk of the data, a page or a byte.\<close>

lemma writeRegion_step:
  assumes ok: "mem_ok N mc" and v: "mview mc (addr + of_nat i) \<noteq> None" and i: "i < length data"
  obtains cs mc0 where "writeRegion_from addr data i mc = writeRegion_from addr data (i + length cs) (mstore (addr + of_nat i) cs mc0)"
    "cs \<noteq> []" "page_offset (addr + of_nat i) + length cs \<le> 4096" "cs = take (length cs) (drop i data)" "i + length cs \<le> length data"
    "mem_ok N mc0" "mview mc0 = mview mc"
proof (cases "whole_page addr i (length data)")
  case True
  obtain fl where aok: "alloc_ok N fl (memory mc)" using ok by (auto simp: mem_ok_def alloc_inv_def)
  have "writeRegion_from addr data i mc =
      writeRegion_from addr data (i + 4096) (mstore (addr + of_nat i) (take 4096 (drop i data)) mc)"
    using True i by (subst writeRegion_from.simps) (simp add: translate_mapped [OF aok v] mstore_def page_consts)
  moreover have "length (take 4096 (drop i data)) = 4096" "i + 4096 \<le> length data" "page_offset (addr + of_nat i) = 0"
    using True by (auto simp: aligned_offset)
  ultimately show ?thesis
    using True ok by (intro that [of "take 4096 (drop i data)" mc]) (simp_all add: aligned_offset)
next
  case False
  have "le_bytes 1 (ucast (data ! i)) = [data ! i]"
    by (simp add: One_nat_def ucast_u8)
  then have "mem_write 1 (addr + of_nat i) (ucast (data ! i)) mc =
      Inr (mstore (addr + of_nat i) [data ! i] (check_breakpoint (addr + of_nat i) mc))"
    using access_cases(1) [OF ok] v by simp
  then have "writeRegion_from addr data i mc =
      writeRegion_from addr data (i + 1) (mstore (addr + of_nat i) [data ! i] (check_breakpoint (addr + of_nat i) mc))"
    using False i by (subst writeRegion_from.simps) simp
  moreover have "[data ! i] = take 1 (drop i data)" using i by (simp add: take_Suc_conv_app_nth hd_drop_conv_nth take_Suc)
  ultimately show ?thesis
    using i ok page_offset_less [of "addr + of_nat i"]
    by (intro that [of "[data ! i]" "check_breakpoint (addr + of_nat i) mc"]) simp_all
qed

lemma writeRegion_from_effect:
  assumes "mem_ok N mc" and "\<And>k. i \<le> k \<Longrightarrow> k < length data \<Longrightarrow> mview mc (addr + of_nat k) \<noteq> None"
    and len: "length data < 2 ^ 64"
  shows "\<exists>mc'. writeRegion_from addr data i mc = Inr mc' \<and> mem_ok N mc' \<and>
    (\<forall>b. mview mc' b = (if i \<le> unat (b - addr) \<and> unat (b - addr) < length data
       then Some (data ! unat (b - addr)) else mview mc b))"
  using assms(1,2)
proof (induction "length data - i" arbitrary: i mc rule: less_induct)
  case less
  note ok = less.prems(1) and v = less.prems(2)
  show ?case
  proof (cases "i < length data")
    case False
    then have "\<not> (i \<le> unat (b - addr) \<and> unat (b - addr) < length data)" for b by auto
    then show ?thesis using False ok by (auto simp: writeRegion_from.simps)
  next
    case i: True
    obtain cs mc0 where st: "writeRegion_from addr data i mc =
        writeRegion_from addr data (i + length cs) (mstore (addr + of_nat i) cs mc0)"
      and cs: "cs \<noteq> []" "page_offset (addr + of_nat i) + length cs \<le> 4096" "cs = take (length cs) (drop i data)"
        "i + length cs \<le> length data" and mc0: "mem_ok N mc0" "mview mc0 = mview mc"
      using writeRegion_step [OF ok v [OF order_refl i] i] by metis
    have v0: "mview mc0 (addr + of_nat i) \<noteq> None" using v i mc0 by simp
    let ?m1 = "mstore (addr + of_nat i) cs mc0"
    have m1: "mem_ok N ?m1" by (rule gm.store_inv [OF mc0(1) v0 cs(2)])
    have view1: "mview ?m1 b = (if i \<le> unat (b - addr) \<and> unat (b - addr) < i + length cs
        then Some (data ! unat (b - addr)) else mview mc b)" for b
      using gm.store_chunk [OF mc0(1) v0 cs(2-4) len] mc0(2) by simp
    have "mview ?m1 (addr + of_nat k) \<noteq> None" if "i + length cs \<le> k" "k < length data" for k
      using v [of k] that mc0 by (intro gm.store_mapped [OF mc0(1) v0 cs(2)]) simp
    moreover have "length data - (i + length cs) < length data - i" using cs(1) i by (cases cs) simp_all
    ultimately obtain mc' where mc': "writeRegion_from addr data (i + length cs) ?m1 = Inr mc'" "mem_ok N mc'"
      "\<And>b. mview mc' b = (if i + length cs \<le> unat (b - addr) \<and> unat (b - addr) < length data
        then Some (data ! unat (b - addr)) else mview ?m1 b)"
      using less.hyps [of "i + length cs" ?m1] m1 by metis
    then show ?thesis using st cs(4) by (auto simp: view1 not_le)
  qed
qed

text \<open>Likewise for reading.\<close>

lemma readRegion_step:
  assumes ok: "mem_ok N mc" and v: "mview mc (addr + of_nat i) \<noteq> None" and i: "i < len"
  obtains n mc0 where "readRegion_from addr len i out mc = readRegion_from addr len (i + n) (out @ mload (addr + of_nat i) n mc) mc0"
    "0 < n" "page_offset (addr + of_nat i) + n \<le> 4096" "i + n \<le> len" "mem_ok N mc0" "mview mc0 = mview mc"
proof (cases "whole_page addr i len")
  case True
  obtain fl where aok: "alloc_ok N fl (memory mc)" using ok by (auto simp: mem_ok_def alloc_inv_def)
  have "readRegion_from addr len i out mc = readRegion_from addr len (i + 4096) (out @ mload (addr + of_nat i) 4096 mc) mc"
    using True i by (subst readRegion_from.simps) (simp add: translate_mapped [OF aok v] mload_def page_consts)
  then show ?thesis using True ok by (intro that [of 4096 mc]) (simp_all add: aligned_offset)
next
  case False
  have "length (mload (addr + of_nat i) 1 mc) = 1"
    using arg_cong [OF gm.load_view [OF ok v, of 1], of length] page_offset_less [of "addr + of_nat i"] by simp
  then obtain b where b: "mload (addr + of_nat i) 1 mc = [b]" by (auto simp: length_Suc_conv One_nat_def simp del: length_0_conv)
  have "readRegion_from addr len i out mc = readRegion_from addr len (i + 1) (out @ [b]) (check_breakpoint (addr + of_nat i) mc)"
    using False i v access_cases(2) [OF ok, of 1 "addr + of_nat i"] b ucast_u8
    by (subst readRegion_from.simps) auto
  then show ?thesis
    using i ok b page_offset_less [of "addr + of_nat i"] by (intro that [of 1 "check_breakpoint (addr + of_nat i) mc"]) simp_all
qed

lemma readRegion_from_effect:
  assumes "mem_ok N mc" and "\<And>k. i \<le> k \<Longrightarrow> k < len \<Longrightarrow> mview mc (addr + of_nat k) \<noteq> None"
  shows "\<exists>bs mc'. readRegion_from addr len i out mc = Inr (out @ bs, mc') \<and> mem_ok N mc' \<and> mview mc' = mview mc \<and>
    map Some bs = map (\<lambda>k. mview mc (addr + of_nat k)) [i..<len]"
  using assms
proof (induction "len - i" arbitrary: i out mc rule: less_induct)
  case less
  note ok = less.prems(1) and v = less.prems(2)
  show ?case
  proof (cases "i < len")
    case False
    then show ?thesis using ok by (simp add: readRegion_from.simps)
  next
    case i: True
    obtain n mc0 where st: "readRegion_from addr len i out mc = readRegion_from addr len (i + n) (out @ mload (addr + of_nat i) n mc) mc0"
      and n: "0 < n" "page_offset (addr + of_nat i) + n \<le> 4096" "i + n \<le> len" and mc0: "mem_ok N mc0" "mview mc0 = mview mc"
      using readRegion_step [OF ok v [OF order_refl i] i, of out] by metis
    obtain bs mc' where mc': "readRegion_from addr len (i + n) (out @ mload (addr + of_nat i) n mc) mc0 = Inr ((out @ mload (addr + of_nat i) n mc) @ bs, mc')"
      "mem_ok N mc'" "mview mc' = mview mc0" "map Some bs = map (\<lambda>k. mview mc0 (addr + of_nat k)) [i + n..<len]"
    proof -
      have "len - (i + n) < len - i" using n i by simp
      moreover have "mview mc0 (addr + of_nat k) \<noteq> None" if "i + n \<le> k" "k < len" for k
        using v [of k] that mc0(2) by simp
      ultimately show thesis
        using less.hyps [of "i + n" mc0 "out @ mload (addr + of_nat i) n mc"] mc0(1) that by blast
    qed
    have "map Some (mload (addr + of_nat i) n mc) = map (\<lambda>k. mview mc (addr + of_nat k)) [i..<i + n]"
      unfolding gm.load_view [OF ok v [OF order_refl i] n(2)]
      by (rule nth_equalityI) (simp_all add: add.assoc)
    moreover have "[i..<len] = [i..<i + n] @ [i + n..<len]" using n(3) upt_add_eq_append [of i "i + n" "len - (i + n)"] by simp
    ultimately show ?thesis using st mc' mc0 by simp
  qed
qed

subsection \<open>Properties\<close>

text \<open>A machine whose guest has page 1 mapped, for the concrete instances below.\<close>

definition demo_machine :: Machine where
  "demo_machine = \<lparr>mcore = zero_core, memory = demo_memory, gTimer = 0\<rparr>"

lemma demo_machine_facts:
  "mem_ok 2 demo_machine" "mview demo_machine a = (if getPageNum a = 1 then Some 0 else None)"
  by (simp_all add: mem_ok_def mview_def demo_machine_def demo_memory_facts)

lemma demo_pages: "getPageNum 0x1100 = 1" "page_offset 0x1100 = 0x100" "getPageNum 0x2100 = 2"
  by (simp_all add: getPageNum_def PAGE_BITS_def shr_def page_offset_def drop_bit_eq_div)

text \<open>
  C11. A value written to a mapped address is read back: an access of 1, 2, 4 or 8 bytes inside a page returns the
  little-endian value last written there, keeps the allocator's invariant and changes no other byte the guest sees.
\<close>

theorem mem_read_write:
  assumes "mem_ok N mc" and "mview mc a \<noteq> None" and "page_offset a + sz \<le> 4096" and "sz \<le> 8"
  shows "\<exists>mc' mc''. mem_write sz a d mc = Inr mc' \<and> mem_ok N mc' \<and> mem_read sz a mc' = Inr (take_bit (8 * sz) d, mc'') \<and>
    (\<forall>b. \<not> unat (b - a) < sz \<longrightarrow> mview mc' b = mview mc b)"
proof -
  obtain mc' where w: "mem_write sz a d mc = Inr mc'" "mem_ok N mc'" "mload a sz mc' = le_bytes sz d"
    "\<And>b. mview mc' b = (if unat (b - a) < sz then Some (le_bytes sz d ! unat (b - a)) else mview mc b)"
    using mem_write_effect [OF assms(1-3)] by blast
  have "mview mc' a \<noteq> None" using w(4) [of a] assms(2) by auto
  then have "mem_read sz a mc' = Inr (take_bit (8 * sz) d, check_breakpoint a mc')"
    using access_cases(2) [OF w(2)] w(3) assms(4) by (simp add: le_val_le_bytes)
  then show ?thesis using w by auto
qed

theorem mem_read_write_witness:
  "\<exists>mc' mc''. mem_write 4 0x1100 0xDEADBEEF12345678 demo_machine = Inr mc' \<and> mem_read 4 0x1100 mc' = Inr (0x12345678, mc'')"
  using mem_read_write [of 2 demo_machine "0x1100" 4 "0xDEADBEEF12345678"]
  by (auto simp: demo_machine_facts demo_pages take_bit_eq_mod)

text \<open>
  Faults are exact: a read or write raises the segmentation fault for its address precisely when the guest page
  is not mapped, and \<^verbatim>\<open>isValid\<close> is true precisely on mapped pages other than page zero.
\<close>

theorem access_faults:
  assumes "mem_ok N mc"
  shows "(mem_read sz a mc = Inl (SegFault a) \<longleftrightarrow> getPageNum a \<notin> guest_pages (mview mc)) \<and>
    (mem_write sz a d mc = Inl (SegFault a) \<longleftrightarrow> getPageNum a \<notin> guest_pages (mview mc)) \<and>
    (isValid a (memory mc) \<longleftrightarrow> getPageNum a \<in> guest_pages (mview mc) \<and> getPageNum a \<noteq> 0)"
proof -
  obtain fl where ok: "alloc_ok N fl (memory mc)" using assms by (auto simp: mem_ok_def alloc_inv_def)
  have g: "getPageNum a \<in> guest_pages (mview mc) \<longleftrightarrow> mview mc a \<noteq> None"
    using guest_pages_eq [OF ok] mview_mapped [OF ok] by (simp add: mview_def)
  have "a < PAGE_SIZE \<longleftrightarrow> getPageNum a = 0"
  proof -
    have "getPageNum a = 0 \<longleftrightarrow> unat (getPageNum a) = 0" by (rule unat_eq_0 [symmetric])
    also have "\<dots> \<longleftrightarrow> unat a < 4096" using address_split [of a] page_offset_less [of a] by linarith
    finally show ?thesis by (simp add: page_consts word_less_nat_alt)
  qed
  then have "isValid a (memory mc) \<longleftrightarrow> mview mc a \<noteq> None \<and> getPageNum a \<noteq> 0"
    using alloc_okD(2) [OF ok, of "getPageNum a"] mview_mapped [OF ok, of a] by (auto simp: isValid_def Let_def)
  then show ?thesis using access_cases [OF assms] g by auto
qed

lemma demo_guest_pages: "guest_pages (mview demo_machine) = {1}"
  using demo_pages(1) by (auto simp: guest_pages_def demo_machine_facts split: if_splits intro!: image_eqI [of _ _ "0x1100"])

theorem access_faults_witness:
  "mem_read 8 0x2100 demo_machine = Inl (SegFault 0x2100) \<and> isValid 0x1100 (memory demo_machine)"
  using access_faults [OF demo_machine_facts(1), of 8 "0x2100"] access_faults [OF demo_machine_facts(1), of _ "0x1100"]
  by (simp add: demo_guest_pages demo_pages)

text \<open>
  C12. \<^verbatim>\<open>writeRegion\<close> copies every byte of the buffer to consecutive guest addresses, across pages, changes nothing
  else and keeps the allocator's invariant, and \<^verbatim>\<open>readRegion\<close> of the same region returns the buffer.
\<close>

theorem region_roundtrip:
  assumes "mem_ok N mc" and "length data < 2 ^ 32" and "\<forall>k<length data. mview mc (addr + of_nat k) \<noteq> None"
  shows "\<exists>mc' mc''. writeRegion addr data mc = Inr mc' \<and> mem_ok N mc' \<and>
    (\<forall>b. mview mc' b = (if unat (b - addr) < length data then Some (data ! unat (b - addr)) else mview mc b)) \<and>
    readRegion addr (length data) mc' = Inr (data, mc'')"
proof -
  have len: "length data < 2 ^ 64" using assms(2) by simp
  obtain mc' where w: "writeRegion addr data mc = Inr mc'" "mem_ok N mc'"
    "\<And>b. mview mc' b = (if unat (b - addr) < length data then Some (data ! unat (b - addr)) else mview mc b)"
    using writeRegion_from_effect [OF assms(1) _ len, of 0 addr] assms(3) by (auto simp: writeRegion_eq [OF assms(2)])
  have v: "mview mc' (addr + of_nat k) = Some (data ! k)" if "k < length data" for k
    using that len by (simp add: w(3) unat_of_nat)
  obtain bs mc'' where r: "readRegion addr (length data) mc' = Inr (bs, mc'')"
    "map Some bs = map (\<lambda>k. mview mc' (addr + of_nat k)) [0..<length data]"
    using readRegion_from_effect [OF w(2), of 0 "length data" addr "[]"] v by (auto simp: readRegion_eq [OF assms(2)])
  have "map Some bs = map Some data"
    unfolding r(2) by (rule nth_equalityI) (simp_all add: v)
  then have "bs = data" by (simp add: inj_map_eq_map)
  with w r show ?thesis by auto
qed

theorem region_roundtrip_witness:
  "\<exists>mc' mc''. writeRegion 0x1100 [1, 2, 3] demo_machine = Inr mc' \<and> readRegion 0x1100 3 mc' = Inr ([1, 2, 3], mc'')"
proof -
  have "\<forall>k<length [1 :: u8, 2, 3]. mview demo_machine (0x1100 + of_nat k) \<noteq> None"
    using same_page_step(1) [of "0x1100"] by (simp add: demo_machine_facts demo_pages)
  from region_roundtrip [OF demo_machine_facts(1) _ this] show ?thesis by (auto simp: numeral_3_eq_3)
qed

text \<open>
  \<^verbatim>\<open>zeroMem\<close> clears more than it is asked to: a request for one byte clears four, because the element write
  passes the literal \<^verbatim>\<open>0\<close> and so instantiates \<^verbatim>\<open>write\<close> at \<^verbatim>\<open>int\<close>.
\<close>

theorem zeroMem_overrun:
  assumes "mem_ok N mc" and "mview mc a \<noteq> None" and "page_offset a + 4 \<le> 4096"
  shows "\<exists>mc'. zeroMem a 1 mc = Inr mc' \<and> (\<forall>b. mview mc' b = (if unat (b - a) < 4 then Some 0 else mview mc b))"
proof -
  obtain mc' where w: "mem_write 4 a 0 mc = Inr mc'"
    "\<And>b. mview mc' b = (if unat (b - a) < 4 then Some (le_bytes 4 0 ! unat (b - a)) else mview mc b)"
    using mem_write_effect [OF assms(1-3), of 0] by metis
  have "le_bytes 4 0 ! k = 0" if "k < 4" for k using that by (simp add: nth_le_bytes)
  moreover have "zeroMem a 1 mc = Inr mc'"
    using w(1) by (simp add: zeroMem_def zeroMem_loop.simps aligned_offset)
  ultimately show ?thesis using w(2) by auto
qed

theorem zeroMem_overrun_witness:
  "\<exists>mc'. zeroMem 0x1100 1 demo_machine = Inr mc' \<and> mview mc' 0x1103 = Some 0"
  using zeroMem_overrun [of 2 demo_machine "0x1100"] by (auto simp: demo_machine_facts demo_pages)

end
