(* ===== verification/Interp_LoadStore.thy ===== *)
theory Interp_LoadStore
  imports Interp_Branch Machine
begin

text \<open>
  \<^verbatim>\<open>libcpu/src/interpreter/LoadStore.cpp\<close>: the load and store handlers. A template takes the size of \<^verbatim>\<open>T\<close> in
  bytes and the list of its flags. A handler that accesses an unmapped page ends in the segmentation
  fault of that access. The fences of the acquire and release forms order the accesses of different host
  threads and have no effect on the state.
\<close>

unbundle bit_operations_syntax

datatype StoreFlags = StoreWriteBack | StoreImmSigned | StorePostIndex | StoreFloat | Store128BitFloat
  | StoreRelease | StoreExclusive

datatype LoadFlags = LoadWriteBack | LoadImmSigned | LoadPostIndex | LoadExtendResult | LoadExtendTo64
  | LoadFloat | Load128BitFloat | LoadAcquire | LoadExclusive

definition upd_core :: "(Core \<Rightarrow> Core) \<Rightarrow> Machine \<Rightarrow> Machine" where
  "upd_core f mc = mc\<lparr>mcore := f (mcore mc)\<rparr>"

text \<open>The base address \<^verbatim>\<open>(inst.Rn == 31) ? core->SP : core->GPRegs[inst.Rn]\<close> and the write-back to it.\<close>

definition base_addr :: "Core \<Rightarrow> u32 \<Rightarrow> u64" where
  "base_addr core inst = (if inst_Rn inst = 31 then SP core else GPRegs core (inst_Rn inst))"

definition write_base :: "u32 \<Rightarrow> u64 \<Rightarrow> Core \<Rightarrow> Core" where
  "write_base inst addr core =
     (if inst_Rn inst = 31 then core\<lparr>SP := addr\<rparr> else set_GPR (inst_Rn inst) addr core)"

definition set_D0 :: "reg \<Rightarrow> u64 \<Rightarrow> Core \<Rightarrow> Core" where
  "set_D0 r d core = set_VReg r ((VRegs core r)\<lparr>VReg_D0 := d\<rparr>) core"

definition set_D1 :: "reg \<Rightarrow> u64 \<Rightarrow> Core \<Rightarrow> Core" where
  "set_D1 r d core = set_VReg r ((VRegs core r)\<lparr>VReg_D1 := d\<rparr>) core"

definition storeRegImmGeneric :: "nat \<Rightarrow> StoreFlags list \<Rightarrow> Machine \<Rightarrow> u32 \<Rightarrow> fault + Machine" where
  "storeRegImmGeneric T flags mc inst =
     (let core = mcore mc;
          numBits = (if Store128BitFloat \<in> set flags then 4 else constLog2 T);
          imm = (if StoreImmSigned \<in> set flags then signExtend 9 (ucast (inst_12_20 inst))
                 else if StoreExclusive \<notin> set flags \<and> StoreRelease \<notin> set flags
                 then shl (ucast (inst_10_21 inst)) numBits else 0) :: u64;
          addr = base_addr core inst;
          addr = (if StorePostIndex \<notin> set flags then addr + imm else addr);
          data = (if StoreFloat \<in> set flags then VReg_D0 (VRegs core (inst_Rt inst)) else GPRegs core (inst_Rt inst));
          msk = (if Store128BitFloat \<in> set flags then bitmask 64 else bitmask (2 ^ numBits * 8));
          data = data AND msk
      in and_then
          (if StoreExclusive \<in> set flags then
             and_then (writeAtomic T addr data (exclusiveData0 core) mc)
               (\<lambda>(exclusiveStatus, mc). Inr (upd_core (set_GPR (inst_Rs inst) (if exclusiveStatus then 0 else 1)) mc))
           else mem_write T addr data mc)
        (\<lambda>mc. and_then
          (if Store128BitFloat \<in> set flags then
             mem_write T (addr + 8) (VReg_D1 (VRegs core (inst_Rt inst))) mc
           else Inr mc)
        (\<lambda>mc. Inr (if StoreWriteBack \<in> set flags
             then upd_core (write_base inst (if StorePostIndex \<in> set flags then addr + imm else addr)) mc
             else mc))))"

definition strbImm :: "Machine \<Rightarrow> u32 \<Rightarrow> fault + Machine" where
  "strbImm mc inst = storeRegImmGeneric 1 [] mc inst"

definition strhImm :: "Machine \<Rightarrow> u32 \<Rightarrow> fault + Machine" where
  "strhImm mc inst = storeRegImmGeneric 2 [] mc inst"

definition str32Imm :: "Machine \<Rightarrow> u32 \<Rightarrow> fault + Machine" where
  "str32Imm mc inst = storeRegImmGeneric 4 [] mc inst"

definition str64Imm :: "Machine \<Rightarrow> u32 \<Rightarrow> fault + Machine" where
  "str64Imm mc inst = storeRegImmGeneric 8 [] mc inst"

definition str8ImmFloat :: "Machine \<Rightarrow> u32 \<Rightarrow> fault + Machine" where
  "str8ImmFloat mc inst = storeRegImmGeneric 1 [StoreFloat] mc inst"

definition str16ImmFloat :: "Machine \<Rightarrow> u32 \<Rightarrow> fault + Machine" where
  "str16ImmFloat mc inst = storeRegImmGeneric 2 [StoreFloat] mc inst"

definition str32ImmFloat :: "Machine \<Rightarrow> u32 \<Rightarrow> fault + Machine" where
  "str32ImmFloat mc inst = storeRegImmGeneric 4 [StoreFloat] mc inst"

definition str64ImmFloat :: "Machine \<Rightarrow> u32 \<Rightarrow> fault + Machine" where
  "str64ImmFloat mc inst = storeRegImmGeneric 8 [StoreFloat] mc inst"

definition str128Imm :: "Machine \<Rightarrow> u32 \<Rightarrow> fault + Machine" where
  "str128Imm mc inst = storeRegImmGeneric 8 [StoreFloat, Store128BitFloat] mc inst"

definition strbPost :: "Machine \<Rightarrow> u32 \<Rightarrow> fault + Machine" where
  "strbPost mc inst = storeRegImmGeneric 1 [StoreWriteBack, StorePostIndex, StoreImmSigned] mc inst"

definition strhPost :: "Machine \<Rightarrow> u32 \<Rightarrow> fault + Machine" where
  "strhPost mc inst = storeRegImmGeneric 2 [StoreWriteBack, StorePostIndex, StoreImmSigned] mc inst"

definition str32Post :: "Machine \<Rightarrow> u32 \<Rightarrow> fault + Machine" where
  "str32Post mc inst = storeRegImmGeneric 4 [StoreWriteBack, StorePostIndex, StoreImmSigned] mc inst"

definition str64Post :: "Machine \<Rightarrow> u32 \<Rightarrow> fault + Machine" where
  "str64Post mc inst = storeRegImmGeneric 8 [StoreWriteBack, StorePostIndex, StoreImmSigned] mc inst"

definition str8PostFloat :: "Machine \<Rightarrow> u32 \<Rightarrow> fault + Machine" where
  "str8PostFloat mc inst = storeRegImmGeneric 1 [StoreWriteBack, StorePostIndex, StoreFloat, StoreImmSigned] mc inst"

definition str16PostFloat :: "Machine \<Rightarrow> u32 \<Rightarrow> fault + Machine" where
  "str16PostFloat mc inst = storeRegImmGeneric 2 [StoreWriteBack, StorePostIndex, StoreFloat, StoreImmSigned] mc inst"

definition str32PostFloat :: "Machine \<Rightarrow> u32 \<Rightarrow> fault + Machine" where
  "str32PostFloat mc inst = storeRegImmGeneric 4 [StoreWriteBack, StorePostIndex, StoreFloat, StoreImmSigned] mc inst"

definition str64PostFloat :: "Machine \<Rightarrow> u32 \<Rightarrow> fault + Machine" where
  "str64PostFloat mc inst = storeRegImmGeneric 8 [StoreWriteBack, StorePostIndex, StoreFloat, StoreImmSigned] mc inst"

definition str128Post :: "Machine \<Rightarrow> u32 \<Rightarrow> fault + Machine" where
  "str128Post mc inst = storeRegImmGeneric 8 [StoreWriteBack, StorePostIndex, StoreFloat, Store128BitFloat, StoreImmSigned] mc inst"

definition strbPre :: "Machine \<Rightarrow> u32 \<Rightarrow> fault + Machine" where
  "strbPre mc inst = storeRegImmGeneric 1 [StoreWriteBack, StoreImmSigned] mc inst"

definition strhPre :: "Machine \<Rightarrow> u32 \<Rightarrow> fault + Machine" where
  "strhPre mc inst = storeRegImmGeneric 2 [StoreWriteBack, StoreImmSigned] mc inst"

definition str32Pre :: "Machine \<Rightarrow> u32 \<Rightarrow> fault + Machine" where
  "str32Pre mc inst = storeRegImmGeneric 4 [StoreWriteBack, StoreImmSigned] mc inst"

definition str64Pre :: "Machine \<Rightarrow> u32 \<Rightarrow> fault + Machine" where
  "str64Pre mc inst = storeRegImmGeneric 8 [StoreWriteBack, StoreImmSigned] mc inst"

definition str8PreFloat :: "Machine \<Rightarrow> u32 \<Rightarrow> fault + Machine" where
  "str8PreFloat mc inst = storeRegImmGeneric 1 [StoreWriteBack, StoreFloat, StoreImmSigned] mc inst"

definition str16PreFloat :: "Machine \<Rightarrow> u32 \<Rightarrow> fault + Machine" where
  "str16PreFloat mc inst = storeRegImmGeneric 2 [StoreWriteBack, StoreFloat, StoreImmSigned] mc inst"

definition str32PreFloat :: "Machine \<Rightarrow> u32 \<Rightarrow> fault + Machine" where
  "str32PreFloat mc inst = storeRegImmGeneric 4 [StoreWriteBack, StoreFloat, StoreImmSigned] mc inst"

definition str64PreFloat :: "Machine \<Rightarrow> u32 \<Rightarrow> fault + Machine" where
  "str64PreFloat mc inst = storeRegImmGeneric 8 [StoreWriteBack, StoreFloat, StoreImmSigned] mc inst"

definition str128Pre :: "Machine \<Rightarrow> u32 \<Rightarrow> fault + Machine" where
  "str128Pre mc inst = storeRegImmGeneric 8 [StoreWriteBack, StoreFloat, Store128BitFloat, StoreImmSigned] mc inst"

definition sturb :: "Machine \<Rightarrow> u32 \<Rightarrow> fault + Machine" where
  "sturb mc inst = storeRegImmGeneric 1 [StoreImmSigned] mc inst"

definition sturh :: "Machine \<Rightarrow> u32 \<Rightarrow> fault + Machine" where
  "sturh mc inst = storeRegImmGeneric 2 [StoreImmSigned] mc inst"

definition stur32 :: "Machine \<Rightarrow> u32 \<Rightarrow> fault + Machine" where
  "stur32 mc inst = storeRegImmGeneric 4 [StoreImmSigned] mc inst"

definition stur64 :: "Machine \<Rightarrow> u32 \<Rightarrow> fault + Machine" where
  "stur64 mc inst = storeRegImmGeneric 8 [StoreImmSigned] mc inst"

definition stur8Float :: "Machine \<Rightarrow> u32 \<Rightarrow> fault + Machine" where
  "stur8Float mc inst = storeRegImmGeneric 1 [StoreImmSigned, StoreFloat] mc inst"

definition stur16Float :: "Machine \<Rightarrow> u32 \<Rightarrow> fault + Machine" where
  "stur16Float mc inst = storeRegImmGeneric 2 [StoreImmSigned, StoreFloat] mc inst"

definition stur32Float :: "Machine \<Rightarrow> u32 \<Rightarrow> fault + Machine" where
  "stur32Float mc inst = storeRegImmGeneric 4 [StoreImmSigned, StoreFloat] mc inst"

definition stur64Float :: "Machine \<Rightarrow> u32 \<Rightarrow> fault + Machine" where
  "stur64Float mc inst = storeRegImmGeneric 8 [StoreImmSigned, StoreFloat] mc inst"

definition stur128 :: "Machine \<Rightarrow> u32 \<Rightarrow> fault + Machine" where
  "stur128 mc inst = storeRegImmGeneric 8 [StoreImmSigned, StoreFloat, Store128BitFloat] mc inst"

definition stxrbImm :: "Machine \<Rightarrow> u32 \<Rightarrow> fault + Machine" where
  "stxrbImm mc inst = storeRegImmGeneric 1 [StoreExclusive] mc inst"

definition stlxrbImm :: "Machine \<Rightarrow> u32 \<Rightarrow> fault + Machine" where
  "stlxrbImm mc inst = storeRegImmGeneric 1 [StoreRelease, StoreExclusive] mc inst"

definition stlrbImm :: "Machine \<Rightarrow> u32 \<Rightarrow> fault + Machine" where
  "stlrbImm mc inst = storeRegImmGeneric 1 [StoreRelease] mc inst"

definition stxrhImm :: "Machine \<Rightarrow> u32 \<Rightarrow> fault + Machine" where
  "stxrhImm mc inst = storeRegImmGeneric 2 [StoreExclusive] mc inst"

definition stlxrhImm :: "Machine \<Rightarrow> u32 \<Rightarrow> fault + Machine" where
  "stlxrhImm mc inst = storeRegImmGeneric 2 [StoreRelease, StoreExclusive] mc inst"

definition stlrhImm :: "Machine \<Rightarrow> u32 \<Rightarrow> fault + Machine" where
  "stlrhImm mc inst = storeRegImmGeneric 2 [StoreRelease] mc inst"

definition stxr32Imm :: "Machine \<Rightarrow> u32 \<Rightarrow> fault + Machine" where
  "stxr32Imm mc inst = storeRegImmGeneric 4 [StoreExclusive] mc inst"

definition stlxr32Imm :: "Machine \<Rightarrow> u32 \<Rightarrow> fault + Machine" where
  "stlxr32Imm mc inst = storeRegImmGeneric 4 [StoreRelease, StoreExclusive] mc inst"

definition stlr32Imm :: "Machine \<Rightarrow> u32 \<Rightarrow> fault + Machine" where
  "stlr32Imm mc inst = storeRegImmGeneric 4 [StoreRelease] mc inst"

definition stxr64Imm :: "Machine \<Rightarrow> u32 \<Rightarrow> fault + Machine" where
  "stxr64Imm mc inst = storeRegImmGeneric 8 [StoreExclusive] mc inst"

definition stlxr64Imm :: "Machine \<Rightarrow> u32 \<Rightarrow> fault + Machine" where
  "stlxr64Imm mc inst = storeRegImmGeneric 8 [StoreRelease, StoreExclusive] mc inst"

definition stlr64Imm :: "Machine \<Rightarrow> u32 \<Rightarrow> fault + Machine" where
  "stlr64Imm mc inst = storeRegImmGeneric 8 [StoreRelease] mc inst"

definition loadRegImmGeneric :: "nat \<Rightarrow> LoadFlags list \<Rightarrow> Machine \<Rightarrow> u32 \<Rightarrow> fault + Machine" where
  "loadRegImmGeneric T flags mc inst =
     (let core = mcore mc;
          numBits = (if Load128BitFloat \<in> set flags then 4 else constLog2 T);
          imm = (if LoadImmSigned \<in> set flags then signExtend 9 (ucast (inst_12_20 inst))
                 else if LoadExclusive \<notin> set flags \<and> LoadAcquire \<notin> set flags
                 then shl (ucast (inst_10_21 inst)) numBits else 0) :: u64;
          addr = base_addr core inst;
          addr = (if LoadPostIndex \<notin> set flags then addr + imm else addr)
      in and_then (mem_read T addr mc)
        (\<lambda>(data, mc).
          let data = (if LoadExtendResult \<in> set flags then
                        (let data = signExtend (2 ^ numBits * 8) data
                         in if LoadExtendTo64 \<notin> set flags then data AND bitmask 32 else data)
                      else data)
          in and_then
            (if LoadFloat \<in> set flags then
               (let mc = upd_core (set_D0 (inst_Rt inst) data) mc
                in if Load128BitFloat \<in> set flags then
                     and_then (mem_read T (addr + 8) mc)
                       (\<lambda>(data, mc). Inr (upd_core (set_D1 (inst_Rt inst) data) mc))
                   else Inr mc)
             else Inr (upd_core (set_GPR (inst_Rt inst) data) mc))
          (\<lambda>mc. let addr' = (if LoadWriteBack \<in> set flags \<and> LoadPostIndex \<in> set flags then addr + imm else addr);
                    mc = (if LoadWriteBack \<in> set flags then upd_core (write_base inst addr') mc else mc)
            in Inr (if LoadExclusive \<in> set flags then
                 upd_core (\<lambda>core. core\<lparr>exclusiveAccess := True, exclusiveAccessAddr := addr',
                   exclusiveData0 := (if LoadFloat \<in> set flags then VReg_D0 (VRegs core (inst_Rt inst)) else GPRegs core (inst_Rt inst)),
                   exclusiveData1 := (if LoadFloat \<in> set flags \<and> Load128BitFloat \<in> set flags
                                      then VReg_D1 (VRegs core (inst_Rt inst)) else 0)\<rparr>) mc
               else mc))))"

definition ldrbImm :: "Machine \<Rightarrow> u32 \<Rightarrow> fault + Machine" where
  "ldrbImm mc inst = loadRegImmGeneric 1 [] mc inst"

definition ldrsb32Imm :: "Machine \<Rightarrow> u32 \<Rightarrow> fault + Machine" where
  "ldrsb32Imm mc inst = loadRegImmGeneric 1 [LoadExtendResult] mc inst"

definition ldrsb64Imm :: "Machine \<Rightarrow> u32 \<Rightarrow> fault + Machine" where
  "ldrsb64Imm mc inst = loadRegImmGeneric 1 [LoadExtendResult, LoadExtendTo64] mc inst"

definition ldrhImm :: "Machine \<Rightarrow> u32 \<Rightarrow> fault + Machine" where
  "ldrhImm mc inst = loadRegImmGeneric 2 [] mc inst"

definition ldrsh32Imm :: "Machine \<Rightarrow> u32 \<Rightarrow> fault + Machine" where
  "ldrsh32Imm mc inst = loadRegImmGeneric 2 [LoadExtendResult] mc inst"

definition ldrsh64Imm :: "Machine \<Rightarrow> u32 \<Rightarrow> fault + Machine" where
  "ldrsh64Imm mc inst = loadRegImmGeneric 2 [LoadExtendResult, LoadExtendTo64] mc inst"

definition ldr32Imm :: "Machine \<Rightarrow> u32 \<Rightarrow> fault + Machine" where
  "ldr32Imm mc inst = loadRegImmGeneric 4 [] mc inst"

definition ldrswImm :: "Machine \<Rightarrow> u32 \<Rightarrow> fault + Machine" where
  "ldrswImm mc inst = loadRegImmGeneric 4 [LoadExtendResult, LoadExtendTo64] mc inst"

definition ldr64Imm :: "Machine \<Rightarrow> u32 \<Rightarrow> fault + Machine" where
  "ldr64Imm mc inst = loadRegImmGeneric 8 [] mc inst"

definition ldr8ImmFloat :: "Machine \<Rightarrow> u32 \<Rightarrow> fault + Machine" where
  "ldr8ImmFloat mc inst = loadRegImmGeneric 1 [LoadFloat] mc inst"

definition ldr16ImmFloat :: "Machine \<Rightarrow> u32 \<Rightarrow> fault + Machine" where
  "ldr16ImmFloat mc inst = loadRegImmGeneric 2 [LoadFloat] mc inst"

definition ldr32ImmFloat :: "Machine \<Rightarrow> u32 \<Rightarrow> fault + Machine" where
  "ldr32ImmFloat mc inst = loadRegImmGeneric 4 [LoadFloat] mc inst"

definition ldr64ImmFloat :: "Machine \<Rightarrow> u32 \<Rightarrow> fault + Machine" where
  "ldr64ImmFloat mc inst = loadRegImmGeneric 8 [LoadFloat] mc inst"

definition ldr128Imm :: "Machine \<Rightarrow> u32 \<Rightarrow> fault + Machine" where
  "ldr128Imm mc inst = loadRegImmGeneric 8 [LoadFloat, Load128BitFloat] mc inst"

definition ldrbPost :: "Machine \<Rightarrow> u32 \<Rightarrow> fault + Machine" where
  "ldrbPost mc inst = loadRegImmGeneric 1 [LoadWriteBack, LoadPostIndex, LoadImmSigned] mc inst"

definition ldrsb32Post :: "Machine \<Rightarrow> u32 \<Rightarrow> fault + Machine" where
  "ldrsb32Post mc inst = loadRegImmGeneric 1 [LoadWriteBack, LoadPostIndex, LoadExtendResult, LoadImmSigned] mc inst"

definition ldrsb64Post :: "Machine \<Rightarrow> u32 \<Rightarrow> fault + Machine" where
  "ldrsb64Post mc inst = loadRegImmGeneric 1 [LoadWriteBack, LoadPostIndex, LoadExtendResult, LoadExtendTo64, LoadImmSigned] mc inst"

definition ldrhPost :: "Machine \<Rightarrow> u32 \<Rightarrow> fault + Machine" where
  "ldrhPost mc inst = loadRegImmGeneric 2 [LoadWriteBack, LoadPostIndex, LoadImmSigned] mc inst"

definition ldrsh32Post :: "Machine \<Rightarrow> u32 \<Rightarrow> fault + Machine" where
  "ldrsh32Post mc inst = loadRegImmGeneric 2 [LoadWriteBack, LoadPostIndex, LoadExtendResult, LoadImmSigned] mc inst"

definition ldrsh64Post :: "Machine \<Rightarrow> u32 \<Rightarrow> fault + Machine" where
  "ldrsh64Post mc inst = loadRegImmGeneric 2 [LoadWriteBack, LoadPostIndex, LoadExtendResult, LoadExtendTo64, LoadImmSigned] mc inst"

definition ldr32Post :: "Machine \<Rightarrow> u32 \<Rightarrow> fault + Machine" where
  "ldr32Post mc inst = loadRegImmGeneric 4 [LoadWriteBack, LoadPostIndex, LoadImmSigned] mc inst"

definition ldrswPost :: "Machine \<Rightarrow> u32 \<Rightarrow> fault + Machine" where
  "ldrswPost mc inst = loadRegImmGeneric 4 [LoadWriteBack, LoadPostIndex, LoadExtendResult, LoadExtendTo64, LoadImmSigned] mc inst"

definition ldr64Post :: "Machine \<Rightarrow> u32 \<Rightarrow> fault + Machine" where
  "ldr64Post mc inst = loadRegImmGeneric 8 [LoadWriteBack, LoadPostIndex, LoadImmSigned] mc inst"

definition ldr8PostFloat :: "Machine \<Rightarrow> u32 \<Rightarrow> fault + Machine" where
  "ldr8PostFloat mc inst = loadRegImmGeneric 1 [LoadWriteBack, LoadPostIndex, LoadFloat, LoadImmSigned] mc inst"

definition ldr16PostFloat :: "Machine \<Rightarrow> u32 \<Rightarrow> fault + Machine" where
  "ldr16PostFloat mc inst = loadRegImmGeneric 2 [LoadWriteBack, LoadPostIndex, LoadFloat, LoadImmSigned] mc inst"

definition ldr32PostFloat :: "Machine \<Rightarrow> u32 \<Rightarrow> fault + Machine" where
  "ldr32PostFloat mc inst = loadRegImmGeneric 4 [LoadWriteBack, LoadPostIndex, LoadFloat, LoadImmSigned] mc inst"

definition ldr64PostFloat :: "Machine \<Rightarrow> u32 \<Rightarrow> fault + Machine" where
  "ldr64PostFloat mc inst = loadRegImmGeneric 8 [LoadWriteBack, LoadPostIndex, LoadFloat, LoadImmSigned] mc inst"

definition ldr128Post :: "Machine \<Rightarrow> u32 \<Rightarrow> fault + Machine" where
  "ldr128Post mc inst = loadRegImmGeneric 8 [LoadWriteBack, LoadPostIndex, LoadFloat, Load128BitFloat, LoadImmSigned] mc inst"

definition ldrbPre :: "Machine \<Rightarrow> u32 \<Rightarrow> fault + Machine" where
  "ldrbPre mc inst = loadRegImmGeneric 1 [LoadWriteBack, LoadImmSigned] mc inst"

definition ldrsb32Pre :: "Machine \<Rightarrow> u32 \<Rightarrow> fault + Machine" where
  "ldrsb32Pre mc inst = loadRegImmGeneric 1 [LoadWriteBack, LoadExtendResult, LoadImmSigned] mc inst"

definition ldrsb64Pre :: "Machine \<Rightarrow> u32 \<Rightarrow> fault + Machine" where
  "ldrsb64Pre mc inst = loadRegImmGeneric 1 [LoadWriteBack, LoadExtendResult, LoadExtendTo64, LoadImmSigned] mc inst"

definition ldrhPre :: "Machine \<Rightarrow> u32 \<Rightarrow> fault + Machine" where
  "ldrhPre mc inst = loadRegImmGeneric 2 [LoadWriteBack, LoadImmSigned] mc inst"

definition ldrsh32Pre :: "Machine \<Rightarrow> u32 \<Rightarrow> fault + Machine" where
  "ldrsh32Pre mc inst = loadRegImmGeneric 2 [LoadWriteBack, LoadExtendResult, LoadImmSigned] mc inst"

definition ldrsh64Pre :: "Machine \<Rightarrow> u32 \<Rightarrow> fault + Machine" where
  "ldrsh64Pre mc inst = loadRegImmGeneric 2 [LoadWriteBack, LoadExtendResult, LoadExtendTo64, LoadImmSigned] mc inst"

definition ldr32Pre :: "Machine \<Rightarrow> u32 \<Rightarrow> fault + Machine" where
  "ldr32Pre mc inst = loadRegImmGeneric 4 [LoadWriteBack, LoadImmSigned] mc inst"

definition ldrswPre :: "Machine \<Rightarrow> u32 \<Rightarrow> fault + Machine" where
  "ldrswPre mc inst = loadRegImmGeneric 4 [LoadWriteBack, LoadExtendResult, LoadExtendTo64, LoadImmSigned] mc inst"

definition ldr64Pre :: "Machine \<Rightarrow> u32 \<Rightarrow> fault + Machine" where
  "ldr64Pre mc inst = loadRegImmGeneric 8 [LoadWriteBack, LoadImmSigned] mc inst"

definition ldr8PreFloat :: "Machine \<Rightarrow> u32 \<Rightarrow> fault + Machine" where
  "ldr8PreFloat mc inst = loadRegImmGeneric 1 [LoadWriteBack, LoadFloat, LoadImmSigned] mc inst"

definition ldr16PreFloat :: "Machine \<Rightarrow> u32 \<Rightarrow> fault + Machine" where
  "ldr16PreFloat mc inst = loadRegImmGeneric 2 [LoadWriteBack, LoadFloat, LoadImmSigned] mc inst"

definition ldr32PreFloat :: "Machine \<Rightarrow> u32 \<Rightarrow> fault + Machine" where
  "ldr32PreFloat mc inst = loadRegImmGeneric 4 [LoadWriteBack, LoadFloat, LoadImmSigned] mc inst"

definition ldr64PreFloat :: "Machine \<Rightarrow> u32 \<Rightarrow> fault + Machine" where
  "ldr64PreFloat mc inst = loadRegImmGeneric 8 [LoadWriteBack, LoadFloat, LoadImmSigned] mc inst"

definition ldr128Pre :: "Machine \<Rightarrow> u32 \<Rightarrow> fault + Machine" where
  "ldr128Pre mc inst = loadRegImmGeneric 8 [LoadWriteBack, LoadFloat, Load128BitFloat, LoadImmSigned] mc inst"

definition ldurb :: "Machine \<Rightarrow> u32 \<Rightarrow> fault + Machine" where
  "ldurb mc inst = loadRegImmGeneric 1 [LoadImmSigned] mc inst"

definition ldursb32 :: "Machine \<Rightarrow> u32 \<Rightarrow> fault + Machine" where
  "ldursb32 mc inst = loadRegImmGeneric 1 [LoadImmSigned, LoadExtendResult] mc inst"

definition ldursb64 :: "Machine \<Rightarrow> u32 \<Rightarrow> fault + Machine" where
  "ldursb64 mc inst = loadRegImmGeneric 1 [LoadImmSigned, LoadExtendResult, LoadExtendTo64] mc inst"

definition ldurh :: "Machine \<Rightarrow> u32 \<Rightarrow> fault + Machine" where
  "ldurh mc inst = loadRegImmGeneric 2 [LoadImmSigned] mc inst"

definition ldursh32 :: "Machine \<Rightarrow> u32 \<Rightarrow> fault + Machine" where
  "ldursh32 mc inst = loadRegImmGeneric 2 [LoadImmSigned, LoadExtendResult] mc inst"

definition ldursh64 :: "Machine \<Rightarrow> u32 \<Rightarrow> fault + Machine" where
  "ldursh64 mc inst = loadRegImmGeneric 2 [LoadImmSigned, LoadExtendResult, LoadExtendTo64] mc inst"

definition ldur32 :: "Machine \<Rightarrow> u32 \<Rightarrow> fault + Machine" where
  "ldur32 mc inst = loadRegImmGeneric 4 [LoadImmSigned] mc inst"

definition ldursw :: "Machine \<Rightarrow> u32 \<Rightarrow> fault + Machine" where
  "ldursw mc inst = loadRegImmGeneric 4 [LoadImmSigned, LoadExtendResult, LoadExtendTo64] mc inst"

definition ldur64 :: "Machine \<Rightarrow> u32 \<Rightarrow> fault + Machine" where
  "ldur64 mc inst = loadRegImmGeneric 8 [LoadImmSigned] mc inst"

definition ldur8Float :: "Machine \<Rightarrow> u32 \<Rightarrow> fault + Machine" where
  "ldur8Float mc inst = loadRegImmGeneric 1 [LoadImmSigned, LoadFloat] mc inst"

definition ldur16Float :: "Machine \<Rightarrow> u32 \<Rightarrow> fault + Machine" where
  "ldur16Float mc inst = loadRegImmGeneric 2 [LoadImmSigned, LoadFloat] mc inst"

definition ldur32Float :: "Machine \<Rightarrow> u32 \<Rightarrow> fault + Machine" where
  "ldur32Float mc inst = loadRegImmGeneric 4 [LoadImmSigned, LoadFloat] mc inst"

definition ldur64Float :: "Machine \<Rightarrow> u32 \<Rightarrow> fault + Machine" where
  "ldur64Float mc inst = loadRegImmGeneric 8 [LoadImmSigned, LoadFloat] mc inst"

definition ldur128 :: "Machine \<Rightarrow> u32 \<Rightarrow> fault + Machine" where
  "ldur128 mc inst = loadRegImmGeneric 8 [LoadImmSigned, LoadFloat, Load128BitFloat] mc inst"

definition ldxrbImm :: "Machine \<Rightarrow> u32 \<Rightarrow> fault + Machine" where
  "ldxrbImm mc inst = loadRegImmGeneric 1 [LoadExclusive] mc inst"

definition ldaxrbImm :: "Machine \<Rightarrow> u32 \<Rightarrow> fault + Machine" where
  "ldaxrbImm mc inst = loadRegImmGeneric 1 [LoadAcquire, LoadExclusive] mc inst"

definition ldarbImm :: "Machine \<Rightarrow> u32 \<Rightarrow> fault + Machine" where
  "ldarbImm mc inst = loadRegImmGeneric 1 [LoadAcquire] mc inst"

definition ldxrhImm :: "Machine \<Rightarrow> u32 \<Rightarrow> fault + Machine" where
  "ldxrhImm mc inst = loadRegImmGeneric 2 [LoadExclusive] mc inst"

definition ldaxrhImm :: "Machine \<Rightarrow> u32 \<Rightarrow> fault + Machine" where
  "ldaxrhImm mc inst = loadRegImmGeneric 2 [LoadAcquire, LoadExclusive] mc inst"

definition ldarhImm :: "Machine \<Rightarrow> u32 \<Rightarrow> fault + Machine" where
  "ldarhImm mc inst = loadRegImmGeneric 2 [LoadAcquire] mc inst"

definition ldxr32Imm :: "Machine \<Rightarrow> u32 \<Rightarrow> fault + Machine" where
  "ldxr32Imm mc inst = loadRegImmGeneric 4 [LoadExclusive] mc inst"

definition ldaxr32Imm :: "Machine \<Rightarrow> u32 \<Rightarrow> fault + Machine" where
  "ldaxr32Imm mc inst = loadRegImmGeneric 4 [LoadAcquire, LoadExclusive] mc inst"

definition ldar32Imm :: "Machine \<Rightarrow> u32 \<Rightarrow> fault + Machine" where
  "ldar32Imm mc inst = loadRegImmGeneric 4 [LoadAcquire] mc inst"

definition ldxr64Imm :: "Machine \<Rightarrow> u32 \<Rightarrow> fault + Machine" where
  "ldxr64Imm mc inst = loadRegImmGeneric 8 [LoadExclusive] mc inst"

definition ldaxr64Imm :: "Machine \<Rightarrow> u32 \<Rightarrow> fault + Machine" where
  "ldaxr64Imm mc inst = loadRegImmGeneric 8 [LoadAcquire, LoadExclusive] mc inst"

definition ldar64Imm :: "Machine \<Rightarrow> u32 \<Rightarrow> fault + Machine" where
  "ldar64Imm mc inst = loadRegImmGeneric 8 [LoadAcquire] mc inst"

definition storePairGeneric :: "nat \<Rightarrow> StoreFlags list \<Rightarrow> Machine \<Rightarrow> u32 \<Rightarrow> fault + Machine" where
  "storePairGeneric T flags mc inst =
     (let core = mcore mc;
          numBits = (if Store128BitFloat \<in> set flags then 4 else constLog2 T);
          imm = (if StoreExclusive \<in> set flags then 0 else ucast (inst_15_21 inst)) :: u64;
          imm = shl (signExtend 7 imm) numBits;
          addr = base_addr core inst;
          addr = (if StorePostIndex \<notin> set flags then addr + imm else addr);
          rt = VRegs core (inst_Rt inst);
          rt2 = VRegs core (inst_Rt2 inst);
          data1 = GPRegs core (inst_Rt inst);
          data2 = GPRegs core (inst_Rt2 inst);
          set_status = (\<lambda>(exclusiveStatus, mc). Inr (upd_core (set_GPR (inst_Rs inst) (if exclusiveStatus then 0 else 1)) mc))
      in and_then
          (if StoreFloat \<in> set flags then
             if Store128BitFloat \<in> set flags then
               and_then (mem_write 8 addr (VReg_D0 rt) mc)
               (\<lambda>mc. and_then (mem_write 8 (addr + 8) (VReg_D1 rt) mc)
               (\<lambda>mc. and_then (mem_write 8 (addr + 16) (VReg_D0 rt2) mc)
               (mem_write 8 (addr + 24) (VReg_D1 rt2))))
             else
               and_then (mem_write T addr (VReg_D0 rt) mc) (mem_write T (addr + of_nat T) (VReg_D0 rt2))
           else if StoreExclusive \<in> set flags then
             if T = 4 then
               and_then (writeAtomic 8 addr (data1 OR shl data2 32) (exclusiveData0 core) mc) set_status
             else
               and_then (writeAtomic128 addr data1 data2 (exclusiveData0 core) (exclusiveData1 core) mc) set_status
           else
             and_then (mem_write T addr data1 mc) (mem_write T (addr + of_nat T) data2))
        (\<lambda>mc. Inr (if StoreWriteBack \<in> set flags
             then upd_core (write_base inst (if StorePostIndex \<in> set flags then addr + imm else addr)) mc
             else mc)))"

definition stnp32 :: "Machine \<Rightarrow> u32 \<Rightarrow> fault + Machine" where
  "stnp32 mc inst = storePairGeneric 4 [] mc inst"

definition stnp64 :: "Machine \<Rightarrow> u32 \<Rightarrow> fault + Machine" where
  "stnp64 mc inst = storePairGeneric 8 [] mc inst"

definition stp32Off :: "Machine \<Rightarrow> u32 \<Rightarrow> fault + Machine" where
  "stp32Off mc inst = storePairGeneric 4 [] mc inst"

definition stp64Off :: "Machine \<Rightarrow> u32 \<Rightarrow> fault + Machine" where
  "stp64Off mc inst = storePairGeneric 8 [] mc inst"

definition stp32Post :: "Machine \<Rightarrow> u32 \<Rightarrow> fault + Machine" where
  "stp32Post mc inst = storePairGeneric 4 [StoreWriteBack, StorePostIndex] mc inst"

definition stp64Post :: "Machine \<Rightarrow> u32 \<Rightarrow> fault + Machine" where
  "stp64Post mc inst = storePairGeneric 8 [StoreWriteBack, StorePostIndex] mc inst"

definition stp32Pre :: "Machine \<Rightarrow> u32 \<Rightarrow> fault + Machine" where
  "stp32Pre mc inst = storePairGeneric 4 [StoreWriteBack] mc inst"

definition stp64Pre :: "Machine \<Rightarrow> u32 \<Rightarrow> fault + Machine" where
  "stp64Pre mc inst = storePairGeneric 8 [StoreWriteBack] mc inst"

definition stnp32Float :: "Machine \<Rightarrow> u32 \<Rightarrow> fault + Machine" where
  "stnp32Float mc inst = storePairGeneric 4 [StoreFloat] mc inst"

definition stnp64Float :: "Machine \<Rightarrow> u32 \<Rightarrow> fault + Machine" where
  "stnp64Float mc inst = storePairGeneric 8 [StoreFloat] mc inst"

definition stnp128Float :: "Machine \<Rightarrow> u32 \<Rightarrow> fault + Machine" where
  "stnp128Float mc inst = storePairGeneric 8 [StoreFloat, Store128BitFloat] mc inst"

definition stp32OffFloat :: "Machine \<Rightarrow> u32 \<Rightarrow> fault + Machine" where
  "stp32OffFloat mc inst = storePairGeneric 4 [StoreFloat] mc inst"

definition stp64OffFloat :: "Machine \<Rightarrow> u32 \<Rightarrow> fault + Machine" where
  "stp64OffFloat mc inst = storePairGeneric 8 [StoreFloat] mc inst"

definition stp128OffFloat :: "Machine \<Rightarrow> u32 \<Rightarrow> fault + Machine" where
  "stp128OffFloat mc inst = storePairGeneric 8 [StoreFloat, Store128BitFloat] mc inst"

definition stp32PostFloat :: "Machine \<Rightarrow> u32 \<Rightarrow> fault + Machine" where
  "stp32PostFloat mc inst = storePairGeneric 4 [StoreWriteBack, StorePostIndex, StoreFloat] mc inst"

definition stp64PostFloat :: "Machine \<Rightarrow> u32 \<Rightarrow> fault + Machine" where
  "stp64PostFloat mc inst = storePairGeneric 8 [StoreWriteBack, StorePostIndex, StoreFloat] mc inst"

definition stp128PostFloat :: "Machine \<Rightarrow> u32 \<Rightarrow> fault + Machine" where
  "stp128PostFloat mc inst = storePairGeneric 8 [StoreWriteBack, StorePostIndex, StoreFloat, Store128BitFloat] mc inst"

definition stp32PreFloat :: "Machine \<Rightarrow> u32 \<Rightarrow> fault + Machine" where
  "stp32PreFloat mc inst = storePairGeneric 4 [StoreWriteBack, StoreFloat] mc inst"

definition stp64PreFloat :: "Machine \<Rightarrow> u32 \<Rightarrow> fault + Machine" where
  "stp64PreFloat mc inst = storePairGeneric 8 [StoreWriteBack, StoreFloat] mc inst"

definition stp128PreFloat :: "Machine \<Rightarrow> u32 \<Rightarrow> fault + Machine" where
  "stp128PreFloat mc inst = storePairGeneric 8 [StoreWriteBack, StoreFloat, Store128BitFloat] mc inst"

definition stxp32 :: "Machine \<Rightarrow> u32 \<Rightarrow> fault + Machine" where
  "stxp32 mc inst = storePairGeneric 4 [StoreExclusive] mc inst"

definition stlxp32 :: "Machine \<Rightarrow> u32 \<Rightarrow> fault + Machine" where
  "stlxp32 mc inst = storePairGeneric 4 [StoreExclusive, StoreRelease] mc inst"

definition stxp64 :: "Machine \<Rightarrow> u32 \<Rightarrow> fault + Machine" where
  "stxp64 mc inst = storePairGeneric 8 [StoreExclusive] mc inst"

definition stlxp64 :: "Machine \<Rightarrow> u32 \<Rightarrow> fault + Machine" where
  "stlxp64 mc inst = storePairGeneric 8 [StoreExclusive, StoreRelease] mc inst"

definition loadPairGeneric :: "nat \<Rightarrow> LoadFlags list \<Rightarrow> Machine \<Rightarrow> u32 \<Rightarrow> fault + Machine" where
  "loadPairGeneric T flags mc inst =
     (let core = mcore mc;
          imm = (if LoadExclusive \<in> set flags then 0 else ucast (inst_15_21 inst)) :: u64;
          numBits = (if Load128BitFloat \<in> set flags then 4 else constLog2 T);
          imm = shl (signExtend 7 imm) numBits;
          addr = base_addr core inst;
          addr = (if LoadPostIndex \<notin> set flags then addr + imm else addr)
      in and_then
          (if LoadFloat \<in> set flags \<and> Load128BitFloat \<in> set flags then
             and_then (mem_read T addr mc)
             (\<lambda>(d, mc). and_then (mem_read T (addr + 8) (upd_core (set_D0 (inst_Rt inst) d) mc))
             (\<lambda>(d, mc). and_then (mem_read T (addr + 16) (upd_core (set_D1 (inst_Rt inst) d) mc))
             (\<lambda>(d, mc). and_then (mem_read T (addr + 24) (upd_core (set_D0 (inst_Rt2 inst) d) mc))
             (\<lambda>(d, mc). Inr (upd_core (set_D1 (inst_Rt2 inst) d) mc)))))
           else
             and_then (mem_read T addr mc)
             (\<lambda>(data1, mc). and_then (mem_read T (addr + of_nat T) mc)
             (\<lambda>(data2, mc).
               if LoadFloat \<in> set flags then
                 Inr (upd_core (set_D0 (inst_Rt2 inst) data2) (upd_core (set_D0 (inst_Rt inst) data1) mc))
               else
                 (let mc = upd_core (set_GPR (inst_Rt2 inst) data2) (upd_core (set_GPR (inst_Rt inst) data1) mc)
                  in Inr (if LoadExclusive \<in> set flags then
                       upd_core (\<lambda>core. core\<lparr>exclusiveAccess := True, exclusiveAccessAddr := addr,
                         exclusiveData0 := (if T = 4 then data1 OR shl data2 32 else data1),
                         exclusiveData1 := (if T = 4 then 0 else data2)\<rparr>) mc
                     else mc)))))
        (\<lambda>mc. Inr (if LoadWriteBack \<in> set flags
             then upd_core (write_base inst (if LoadPostIndex \<in> set flags then addr + imm else addr)) mc
             else mc)))"

definition ldnp32 :: "Machine \<Rightarrow> u32 \<Rightarrow> fault + Machine" where
  "ldnp32 mc inst = loadPairGeneric 4 [] mc inst"

definition ldnp64 :: "Machine \<Rightarrow> u32 \<Rightarrow> fault + Machine" where
  "ldnp64 mc inst = loadPairGeneric 8 [] mc inst"

definition ldp32Off :: "Machine \<Rightarrow> u32 \<Rightarrow> fault + Machine" where
  "ldp32Off mc inst = loadPairGeneric 4 [] mc inst"

definition ldp64Off :: "Machine \<Rightarrow> u32 \<Rightarrow> fault + Machine" where
  "ldp64Off mc inst = loadPairGeneric 8 [] mc inst"

definition ldp32Post :: "Machine \<Rightarrow> u32 \<Rightarrow> fault + Machine" where
  "ldp32Post mc inst = loadPairGeneric 4 [LoadWriteBack, LoadPostIndex] mc inst"

definition ldp64Post :: "Machine \<Rightarrow> u32 \<Rightarrow> fault + Machine" where
  "ldp64Post mc inst = loadPairGeneric 8 [LoadWriteBack, LoadPostIndex] mc inst"

definition ldp32Pre :: "Machine \<Rightarrow> u32 \<Rightarrow> fault + Machine" where
  "ldp32Pre mc inst = loadPairGeneric 4 [LoadWriteBack] mc inst"

definition ldp64Pre :: "Machine \<Rightarrow> u32 \<Rightarrow> fault + Machine" where
  "ldp64Pre mc inst = loadPairGeneric 8 [LoadWriteBack] mc inst"

definition ldnp32Float :: "Machine \<Rightarrow> u32 \<Rightarrow> fault + Machine" where
  "ldnp32Float mc inst = loadPairGeneric 4 [LoadFloat] mc inst"

definition ldnp64Float :: "Machine \<Rightarrow> u32 \<Rightarrow> fault + Machine" where
  "ldnp64Float mc inst = loadPairGeneric 8 [LoadFloat] mc inst"

definition ldnp128Float :: "Machine \<Rightarrow> u32 \<Rightarrow> fault + Machine" where
  "ldnp128Float mc inst = loadPairGeneric 8 [LoadFloat, Load128BitFloat] mc inst"

definition ldp32OffFloat :: "Machine \<Rightarrow> u32 \<Rightarrow> fault + Machine" where
  "ldp32OffFloat mc inst = loadPairGeneric 4 [LoadFloat] mc inst"

definition ldp64OffFloat :: "Machine \<Rightarrow> u32 \<Rightarrow> fault + Machine" where
  "ldp64OffFloat mc inst = loadPairGeneric 8 [LoadFloat] mc inst"

definition ldp128OffFloat :: "Machine \<Rightarrow> u32 \<Rightarrow> fault + Machine" where
  "ldp128OffFloat mc inst = loadPairGeneric 8 [LoadFloat, Load128BitFloat] mc inst"

definition ldp32PostFloat :: "Machine \<Rightarrow> u32 \<Rightarrow> fault + Machine" where
  "ldp32PostFloat mc inst = loadPairGeneric 4 [LoadWriteBack, LoadPostIndex, LoadFloat] mc inst"

definition ldp64PostFloat :: "Machine \<Rightarrow> u32 \<Rightarrow> fault + Machine" where
  "ldp64PostFloat mc inst = loadPairGeneric 8 [LoadWriteBack, LoadPostIndex, LoadFloat] mc inst"

definition ldp128PostFloat :: "Machine \<Rightarrow> u32 \<Rightarrow> fault + Machine" where
  "ldp128PostFloat mc inst = loadPairGeneric 8 [LoadWriteBack, LoadPostIndex, LoadFloat, Load128BitFloat] mc inst"

definition ldp32PreFloat :: "Machine \<Rightarrow> u32 \<Rightarrow> fault + Machine" where
  "ldp32PreFloat mc inst = loadPairGeneric 4 [LoadWriteBack, LoadFloat] mc inst"

definition ldp64PreFloat :: "Machine \<Rightarrow> u32 \<Rightarrow> fault + Machine" where
  "ldp64PreFloat mc inst = loadPairGeneric 8 [LoadWriteBack, LoadFloat] mc inst"

definition ldp128PreFloat :: "Machine \<Rightarrow> u32 \<Rightarrow> fault + Machine" where
  "ldp128PreFloat mc inst = loadPairGeneric 8 [LoadWriteBack, LoadFloat, Load128BitFloat] mc inst"

definition ldxp32 :: "Machine \<Rightarrow> u32 \<Rightarrow> fault + Machine" where
  "ldxp32 mc inst = loadPairGeneric 4 [LoadExclusive] mc inst"

definition ldaxp32 :: "Machine \<Rightarrow> u32 \<Rightarrow> fault + Machine" where
  "ldaxp32 mc inst = loadPairGeneric 4 [LoadExclusive, LoadAcquire] mc inst"

definition ldxp64 :: "Machine \<Rightarrow> u32 \<Rightarrow> fault + Machine" where
  "ldxp64 mc inst = loadPairGeneric 8 [LoadExclusive] mc inst"

definition ldaxp64 :: "Machine \<Rightarrow> u32 \<Rightarrow> fault + Machine" where
  "ldaxp64 mc inst = loadPairGeneric 8 [LoadExclusive, LoadAcquire] mc inst"

text \<open>The address of the register-offset forms.\<close>

definition regoff_addr :: "nat \<Rightarrow> Core \<Rightarrow> u32 \<Rightarrow> u64" where
  "regoff_addr T core inst =
     (let offset64 = testBit 13 inst;
          offsetSigned = testBit 15 inst;
          numBits = constLog2 T;
          S = testBit 12 inst;
          shft = (if S then numBits else 0);
          imm = GPRegs core (inst_Rm inst);
          imm = (if \<not> offset64 then
                   (let imm = imm AND bitmask 32
                    in if offsetSigned then signExtend 32 imm else imm)
                 else imm);
          imm = shl imm shft
      in base_addr core inst + imm)"

definition storeRegOffGeneric :: "nat \<Rightarrow> StoreFlags list \<Rightarrow> Machine \<Rightarrow> u32 \<Rightarrow> fault + Machine" where
  "storeRegOffGeneric T flags mc inst =
     (let core = mcore mc;
          addr = regoff_addr T core inst;
          msk = bitmask (2 ^ constLog2 T * 8);
          data = (if StoreFloat \<in> set flags then VReg_D0 (VRegs core (inst_Rt inst)) AND msk
                  else GPRegs core (inst_Rt inst) AND msk)
      in and_then (mem_write T addr data mc)
           (\<lambda>mc. if Store128BitFloat \<in> set flags then
                mem_write T (addr + 8) (VReg_D1 (VRegs core (inst_Rt inst)) AND msk) mc
              else Inr mc))"

definition strbRegoff :: "Machine \<Rightarrow> u32 \<Rightarrow> fault + Machine" where
  "strbRegoff mc inst = storeRegOffGeneric 1 [] mc inst"

definition strhRegoff :: "Machine \<Rightarrow> u32 \<Rightarrow> fault + Machine" where
  "strhRegoff mc inst = storeRegOffGeneric 2 [] mc inst"

definition str32Regoff :: "Machine \<Rightarrow> u32 \<Rightarrow> fault + Machine" where
  "str32Regoff mc inst = storeRegOffGeneric 4 [] mc inst"

definition str64Regoff :: "Machine \<Rightarrow> u32 \<Rightarrow> fault + Machine" where
  "str64Regoff mc inst = storeRegOffGeneric 8 [] mc inst"

definition strbRegoffFloat :: "Machine \<Rightarrow> u32 \<Rightarrow> fault + Machine" where
  "strbRegoffFloat mc inst = storeRegOffGeneric 1 [StoreFloat] mc inst"

definition strhRegoffFloat :: "Machine \<Rightarrow> u32 \<Rightarrow> fault + Machine" where
  "strhRegoffFloat mc inst = storeRegOffGeneric 2 [StoreFloat] mc inst"

definition str32RegoffFloat :: "Machine \<Rightarrow> u32 \<Rightarrow> fault + Machine" where
  "str32RegoffFloat mc inst = storeRegOffGeneric 4 [StoreFloat] mc inst"

definition str64RegoffFloat :: "Machine \<Rightarrow> u32 \<Rightarrow> fault + Machine" where
  "str64RegoffFloat mc inst = storeRegOffGeneric 8 [StoreFloat] mc inst"

definition str128RegoffFloat :: "Machine \<Rightarrow> u32 \<Rightarrow> fault + Machine" where
  "str128RegoffFloat mc inst = storeRegOffGeneric 8 [StoreFloat, Store128BitFloat] mc inst"

definition loadRegOffGeneric :: "nat \<Rightarrow> LoadFlags list \<Rightarrow> Machine \<Rightarrow> u32 \<Rightarrow> fault + Machine" where
  "loadRegOffGeneric T flags mc inst =
     (let core = mcore mc;
          addr = regoff_addr T core inst
      in and_then (mem_read T addr mc)
        (\<lambda>(data, mc).
          let data = (if LoadExtendResult \<in> set flags then
                        (let data = signExtend (2 ^ constLog2 T * 8) data
                         in if LoadExtendTo64 \<notin> set flags then data AND bitmask 32 else data)
                      else data)
          in if LoadFloat \<in> set flags then
               (let mc = upd_core (set_D0 (inst_Rt inst) data) mc
                in if Load128BitFloat \<in> set flags then
                     and_then (mem_read T (addr + 8) mc)
                       (\<lambda>(d, mc). Inr (upd_core (set_D1 (inst_Rt inst) d) mc))
                   else Inr (upd_core (set_D1 (inst_Rt inst) 0) mc))
             else Inr (upd_core (set_GPR (inst_Rt inst) data) mc)))"

definition ldrbRegoff :: "Machine \<Rightarrow> u32 \<Rightarrow> fault + Machine" where
  "ldrbRegoff mc inst = loadRegOffGeneric 1 [] mc inst"

definition ldrsb32Regoff :: "Machine \<Rightarrow> u32 \<Rightarrow> fault + Machine" where
  "ldrsb32Regoff mc inst = loadRegOffGeneric 1 [LoadExtendResult] mc inst"

definition ldrsb64Regoff :: "Machine \<Rightarrow> u32 \<Rightarrow> fault + Machine" where
  "ldrsb64Regoff mc inst = loadRegOffGeneric 1 [LoadExtendResult, LoadExtendTo64] mc inst"

definition ldrhRegoff :: "Machine \<Rightarrow> u32 \<Rightarrow> fault + Machine" where
  "ldrhRegoff mc inst = loadRegOffGeneric 2 [] mc inst"

definition ldrsh32Regoff :: "Machine \<Rightarrow> u32 \<Rightarrow> fault + Machine" where
  "ldrsh32Regoff mc inst = loadRegOffGeneric 2 [LoadExtendResult] mc inst"

definition ldrsh64Regoff :: "Machine \<Rightarrow> u32 \<Rightarrow> fault + Machine" where
  "ldrsh64Regoff mc inst = loadRegOffGeneric 2 [LoadExtendResult, LoadExtendTo64] mc inst"

definition ldr32Regoff :: "Machine \<Rightarrow> u32 \<Rightarrow> fault + Machine" where
  "ldr32Regoff mc inst = loadRegOffGeneric 4 [] mc inst"

definition ldrswRegoff :: "Machine \<Rightarrow> u32 \<Rightarrow> fault + Machine" where
  "ldrswRegoff mc inst = loadRegOffGeneric 4 [LoadExtendResult, LoadExtendTo64] mc inst"

definition ldr64Regoff :: "Machine \<Rightarrow> u32 \<Rightarrow> fault + Machine" where
  "ldr64Regoff mc inst = loadRegOffGeneric 8 [] mc inst"

definition ldrbRegoffFloat :: "Machine \<Rightarrow> u32 \<Rightarrow> fault + Machine" where
  "ldrbRegoffFloat mc inst = loadRegOffGeneric 1 [LoadFloat] mc inst"

definition ldrhRegoffFloat :: "Machine \<Rightarrow> u32 \<Rightarrow> fault + Machine" where
  "ldrhRegoffFloat mc inst = loadRegOffGeneric 2 [LoadFloat] mc inst"

definition ldr32RegoffFloat :: "Machine \<Rightarrow> u32 \<Rightarrow> fault + Machine" where
  "ldr32RegoffFloat mc inst = loadRegOffGeneric 4 [LoadFloat] mc inst"

definition ldr64RegoffFloat :: "Machine \<Rightarrow> u32 \<Rightarrow> fault + Machine" where
  "ldr64RegoffFloat mc inst = loadRegOffGeneric 8 [LoadFloat] mc inst"

definition ldr128RegoffFloat :: "Machine \<Rightarrow> u32 \<Rightarrow> fault + Machine" where
  "ldr128RegoffFloat mc inst = loadRegOffGeneric 8 [LoadFloat, Load128BitFloat] mc inst"

definition loadRegLiteralGeneric :: "nat \<Rightarrow> LoadFlags list \<Rightarrow> Machine \<Rightarrow> u32 \<Rightarrow> fault + Machine" where
  "loadRegLiteralGeneric T flags mc inst =
     (let off = signExtend 21 (ucast (shl (inst_5_23 inst) 2) :: u64);
          addr = PC (mcore mc) + off
      in and_then (mem_read T addr mc)
        (\<lambda>(data, mc).
          let data = (if LoadExtendResult \<in> set flags then signExtend 32 data else data)
          in if LoadFloat \<in> set flags then
               (let mc = upd_core (set_D0 (inst_Rt inst) data) mc
                in if Load128BitFloat \<in> set flags then
                     and_then (mem_read T (addr + 8) mc)
                       (\<lambda>(data, mc). Inr (upd_core (set_D1 (inst_Rt inst) data) mc))
                   else Inr mc)
             else Inr (upd_core (set_GPR (inst_Rt inst) data) mc)))"

definition ldr32Literal :: "Machine \<Rightarrow> u32 \<Rightarrow> fault + Machine" where
  "ldr32Literal mc inst = loadRegLiteralGeneric 4 [] mc inst"

definition ldr64Literal :: "Machine \<Rightarrow> u32 \<Rightarrow> fault + Machine" where
  "ldr64Literal mc inst = loadRegLiteralGeneric 8 [] mc inst"

definition ldrswLiteral :: "Machine \<Rightarrow> u32 \<Rightarrow> fault + Machine" where
  "ldrswLiteral mc inst = loadRegLiteralGeneric 4 [LoadExtendResult] mc inst"

definition ldr32LiteralFloat :: "Machine \<Rightarrow> u32 \<Rightarrow> fault + Machine" where
  "ldr32LiteralFloat mc inst = loadRegLiteralGeneric 4 [LoadFloat] mc inst"

definition ldr64LiteralFloat :: "Machine \<Rightarrow> u32 \<Rightarrow> fault + Machine" where
  "ldr64LiteralFloat mc inst = loadRegLiteralGeneric 8 [LoadFloat] mc inst"

definition ldr128Literal :: "Machine \<Rightarrow> u32 \<Rightarrow> fault + Machine" where
  "ldr128Literal mc inst = loadRegLiteralGeneric 8 [LoadFloat, Load128BitFloat] mc inst"

text \<open>A handler that touches only the core, as a handler of the machine.\<close>

definition on_core :: "(Core \<Rightarrow> u32 \<Rightarrow> Core) \<Rightarrow> Machine \<Rightarrow> u32 \<Rightarrow> fault + Machine" where
  "on_core f mc inst = Inr (upd_core (\<lambda>core. f core inst) mc)"

definition nop :: "Core \<Rightarrow> u32 \<Rightarrow> Core" where
  "nop core inst = core"

definition registerLoadStoreInstructions :: "(instructionID \<times> (Machine \<Rightarrow> u32 \<Rightarrow> fault + Machine)) list" where
  "registerLoadStoreInstructions = [
     (ID_STXRB, stxrbImm),
     (ID_STLXRB, stlxrbImm),
     (ID_LDXRB, ldxrbImm),
     (ID_LDAXRB, ldaxrbImm),
     (ID_STLRB, stlrbImm),
     (ID_LDARB, ldarbImm),
     (ID_STXRH, stxrhImm),
     (ID_STLXRH, stlxrhImm),
     (ID_LDXRH, ldxrhImm),
     (ID_LDAXRH, ldaxrhImm),
     (ID_STLRH, stlrhImm),
     (ID_LDARH, ldarhImm),
     (ID_STXR32, stxr32Imm),
     (ID_STLXR32, stlxr32Imm),
     (ID_STXP32, stxp32),
     (ID_STLXP32, stlxp32),
     (ID_LDXR32, ldxr32Imm),
     (ID_LDAXR32, ldaxr32Imm),
     (ID_LDXP32, ldxp32),
     (ID_LDAXP32, ldaxp32),
     (ID_STLR32, stlr32Imm),
     (ID_LDAR32, ldar32Imm),
     (ID_STXR64, stxr64Imm),
     (ID_STLXR64, stlxr64Imm),
     (ID_STXP64, stxp64),
     (ID_STLXP64, stlxp64),
     (ID_LDXR64, ldxr64Imm),
     (ID_LDAXR64, ldaxr64Imm),
     (ID_LDXP64, ldxp64),
     (ID_LDAXP64, ldaxp64),
     (ID_STLR64, stlr64Imm),
     (ID_LDAR64, ldar64Imm),
     (ID_LDR32_literal, ldr32Literal),
     (ID_LDR32_literal_float, ldr32LiteralFloat),
     (ID_LDR64_literal, ldr64Literal),
     (ID_LDR64_literal_float, ldr64LiteralFloat),
     (ID_LDRSW_literal, ldrswLiteral),
     (ID_LDR128_literal, ldr128Literal),
     (ID_PRFM_literal, on_core nop),
     (ID_STNP32, stnp32),
     (ID_LDNP32, ldnp32),
     (ID_STNP32_float, stnp32Float),
     (ID_LDNP32_float, ldnp32Float),
     (ID_STNP64, stnp64),
     (ID_LDNP64, ldnp64),
     (ID_STNP64_float, stnp64Float),
     (ID_LDNP64_float, ldnp64Float),
     (ID_STNP128, stnp128Float),
     (ID_LDNP128, ldnp128Float),
     (ID_STP32_post, stp32Post),
     (ID_LDP32_post, ldp32Post),
     (ID_STP32_post_float, stp32PostFloat),
     (ID_LDP32_post_float, ldp32PostFloat),
     (ID_LDPSW_post, on_core UNIMPLEMENTED_FUNC),
     (ID_STP64_post, stp64Post),
     (ID_LDP64_post, ldp64Post),
     (ID_STP64_post_float, stp64PostFloat),
     (ID_LDP64_post_float, ldp64PostFloat),
     (ID_STP128_post, stp128PostFloat),
     (ID_LDP128_post, ldp128PostFloat),
     (ID_STP32_offset, stp32Off),
     (ID_LDP32_offset, ldp32Off),
     (ID_STP32_offset_float, stp32OffFloat),
     (ID_LDP32_offset_float, ldp32OffFloat),
     (ID_LDPSW_offset, on_core UNIMPLEMENTED_FUNC),
     (ID_STP64_offset, stp64Off),
     (ID_LDP64_offset, ldp64Off),
     (ID_STP64_offset_float, stp64OffFloat),
     (ID_LDP64_offset_float, ldp64OffFloat),
     (ID_STP128_offset, stp128OffFloat),
     (ID_LDP128_offset, ldp128OffFloat),
     (ID_STP32_pre, stp32Pre),
     (ID_LDP32_pre, ldp32Pre),
     (ID_STP32_pre_float, stp32PreFloat),
     (ID_LDP32_pre_float, ldp32PreFloat),
     (ID_LDPSW_pre, on_core UNIMPLEMENTED_FUNC),
     (ID_STP64_pre, stp64Pre),
     (ID_LDP64_pre, ldp64Pre),
     (ID_STP64_pre_float, stp64PreFloat),
     (ID_LDP64_pre_float, ldp64PreFloat),
     (ID_STP128_pre, stp128PreFloat),
     (ID_LDP128_pre, ldp128PreFloat),
     (ID_STURB, sturb),
     (ID_LDURB, ldurb),
     (ID_LDURSB64, ldursb64),
     (ID_LDURSB32, ldursb32),
     (ID_STUR8_float, stur8Float),
     (ID_LDUR8_float, ldur8Float),
     (ID_STUR128, stur128),
     (ID_LDUR128, ldur128),
     (ID_STURH, sturh),
     (ID_LDURH, ldurh),
     (ID_LDURSH64, ldursh64),
     (ID_LDURSH32, ldursh32),
     (ID_STUR16_float, stur16Float),
     (ID_LDUR16_float, ldur16Float),
     (ID_STUR32, stur32),
     (ID_LDUR32, ldur32),
     (ID_LDURSW, ldursw),
     (ID_STUR32_float, stur32Float),
     (ID_LDUR32_float, ldur32Float),
     (ID_STUR64, stur64),
     (ID_LDUR64, ldur64),
     (ID_PRFM_unscaled, on_core nop),
     (ID_STUR64_float, stur64Float),
     (ID_LDUR64_float, ldur64Float),
     (ID_STRB_post, strbPost),
     (ID_LDRB_post, ldrbPost),
     (ID_LDRSB64_post, ldrsb64Post),
     (ID_LDRSB32_post, ldrsb32Post),
     (ID_STR8_post_float, str8PostFloat),
     (ID_LDR8_post_float, ldr8PostFloat),
     (ID_STR128_post, str128Post),
     (ID_LDR128_post, ldr128Post),
     (ID_STRH_post, strhPost),
     (ID_LDRH_post, ldrhPost),
     (ID_LDRSH64_post, ldrsh64Post),
     (ID_LDRSH32_post, ldrsh32Post),
     (ID_STR16_post_float, str16PostFloat),
     (ID_LDR16_post_float, ldr16PostFloat),
     (ID_STR32_post, str32Post),
     (ID_LDR32_post, ldr32Post),
     (ID_LDRSW_post, ldrswPost),
     (ID_STR32_post_float, str32PostFloat),
     (ID_LDR32_post_float, ldr32PostFloat),
     (ID_STR64_post, str64Post),
     (ID_LDR64_post, ldr64Post),
     (ID_STR64_post_float, str64PostFloat),
     (ID_LDR64_post_float, ldr64PostFloat),
     (ID_STTRB, on_core UNIMPLEMENTED_FUNC),
     (ID_LDTRB, on_core UNIMPLEMENTED_FUNC),
     (ID_LDTRSB64, on_core UNIMPLEMENTED_FUNC),
     (ID_LDTRSB32, on_core UNIMPLEMENTED_FUNC),
     (ID_STTRH, on_core UNIMPLEMENTED_FUNC),
     (ID_LDTRH, on_core UNIMPLEMENTED_FUNC),
     (ID_LDTRSH64, on_core UNIMPLEMENTED_FUNC),
     (ID_LDTRSH32, on_core UNIMPLEMENTED_FUNC),
     (ID_STTR32, on_core UNIMPLEMENTED_FUNC),
     (ID_LDTR32, on_core UNIMPLEMENTED_FUNC),
     (ID_LDTRSW, on_core UNIMPLEMENTED_FUNC),
     (ID_STTR64, on_core UNIMPLEMENTED_FUNC),
     (ID_LDTR64, on_core UNIMPLEMENTED_FUNC),
     (ID_STRB_pre, strbPre),
     (ID_LDRB_pre, ldrbPre),
     (ID_LDRSB64_pre, ldrsb64Pre),
     (ID_LDRSB32_pre, ldrsb32Pre),
     (ID_STR8_pre_float, str8PreFloat),
     (ID_LDR8_pre_float, ldr8PreFloat),
     (ID_STR128_pre, str128Pre),
     (ID_LDR128_pre, ldr128Pre),
     (ID_STRH_pre, strhPre),
     (ID_LDRH_pre, ldrhPre),
     (ID_LDRSH64_pre, ldrsh64Pre),
     (ID_LDRSH32_pre, ldrsh32Pre),
     (ID_STR16_pre_float, str16PreFloat),
     (ID_LDR16_pre_float, ldr16PreFloat),
     (ID_STR32_pre, str32Pre),
     (ID_LDR32_pre, ldr32Pre),
     (ID_LDRSW_pre, ldrswPre),
     (ID_STR32_pre_float, str32PreFloat),
     (ID_LDR32_pre_float, ldr32PreFloat),
     (ID_STR64_pre, str64Pre),
     (ID_LDR64_pre, ldr64Pre),
     (ID_STR64_pre_float, str64PreFloat),
     (ID_LDR64_pre_float, ldr64PreFloat),
     (ID_STRB_reg, strbRegoff),
     (ID_LDRB_reg, ldrbRegoff),
     (ID_LDRSB64_reg, ldrsb64Regoff),
     (ID_LDRSB32_reg, ldrsb32Regoff),
     (ID_STR8_reg_float, strbRegoffFloat),
     (ID_LDR8_reg_float, ldrbRegoffFloat),
     (ID_STR128_reg, str128RegoffFloat),
     (ID_LDR128_reg, ldr128RegoffFloat),
     (ID_STRH_reg, strhRegoff),
     (ID_LDRH_reg, ldrhRegoff),
     (ID_LDRSH64_reg, ldrsh64Regoff),
     (ID_LDRSH32_reg, ldrsh32Regoff),
     (ID_STR16_reg_float, strhRegoffFloat),
     (ID_LDR16_reg_float, ldrhRegoffFloat),
     (ID_STR32_reg, str32Regoff),
     (ID_LDR32_reg, ldr32Regoff),
     (ID_LDRSW_reg, ldrswRegoff),
     (ID_STR32_reg_float, str32RegoffFloat),
     (ID_LDR32_reg_float, ldr32RegoffFloat),
     (ID_STR64_reg, str64Regoff),
     (ID_LDR64_reg, ldr64Regoff),
     (ID_PRFM_reg, on_core nop),
     (ID_STR64_reg_float, str64RegoffFloat),
     (ID_LDR64_reg_float, ldr64RegoffFloat),
     (ID_STRB_imm, strbImm),
     (ID_LDRB_imm, ldrbImm),
     (ID_LDRSB64_imm, ldrsb64Imm),
     (ID_LDRSB32_imm, ldrsb32Imm),
     (ID_STR8_imm_float, str8ImmFloat),
     (ID_LDR8_imm_float, ldr8ImmFloat),
     (ID_STR128_imm, str128Imm),
     (ID_LDR128_imm, ldr128Imm),
     (ID_STRH_imm, strhImm),
     (ID_LDRH_imm, ldrhImm),
     (ID_LDRSH64_imm, ldrsh64Imm),
     (ID_LDRSH32_imm, ldrsh32Imm),
     (ID_STR16_imm_float, str16ImmFloat),
     (ID_LDR16_imm_float, ldr16ImmFloat),
     (ID_STR32_imm, str32Imm),
     (ID_LDR32_imm, ldr32Imm),
     (ID_LDRSW_imm, ldrswImm),
     (ID_STR32_imm_float, str32ImmFloat),
     (ID_LDR32_imm_float, ldr32ImmFloat),
     (ID_STR64_imm, str64Imm),
     (ID_LDR64_imm, ldr64Imm),
     (ID_PRFM_imm, on_core nop),
     (ID_STR64_imm_float, str64ImmFloat),
     (ID_LDR64_imm_float, ldr64ImmFloat)]"

lemmas loadstore_generic =
  storeRegImmGeneric_def loadRegImmGeneric_def storePairGeneric_def loadPairGeneric_def
  storeRegOffGeneric_def loadRegOffGeneric_def loadRegLiteralGeneric_def

lemmas loadstore_handlers =
  strbImm_def
  strhImm_def
  str32Imm_def
  str64Imm_def
  str8ImmFloat_def
  str16ImmFloat_def
  str32ImmFloat_def
  str64ImmFloat_def
  str128Imm_def
  strbPost_def
  strhPost_def
  str32Post_def
  str64Post_def
  str8PostFloat_def
  str16PostFloat_def
  str32PostFloat_def
  str64PostFloat_def
  str128Post_def
  strbPre_def
  strhPre_def
  str32Pre_def
  str64Pre_def
  str8PreFloat_def
  str16PreFloat_def
  str32PreFloat_def
  str64PreFloat_def
  str128Pre_def
  sturb_def
  sturh_def
  stur32_def
  stur64_def
  stur8Float_def
  stur16Float_def
  stur32Float_def
  stur64Float_def
  stur128_def
  stxrbImm_def
  stlxrbImm_def
  stlrbImm_def
  stxrhImm_def
  stlxrhImm_def
  stlrhImm_def
  stxr32Imm_def
  stlxr32Imm_def
  stlr32Imm_def
  stxr64Imm_def
  stlxr64Imm_def
  stlr64Imm_def
  ldrbImm_def
  ldrsb32Imm_def
  ldrsb64Imm_def
  ldrhImm_def
  ldrsh32Imm_def
  ldrsh64Imm_def
  ldr32Imm_def
  ldrswImm_def
  ldr64Imm_def
  ldr8ImmFloat_def
  ldr16ImmFloat_def
  ldr32ImmFloat_def
  ldr64ImmFloat_def
  ldr128Imm_def
  ldrbPost_def
  ldrsb32Post_def
  ldrsb64Post_def
  ldrhPost_def
  ldrsh32Post_def
  ldrsh64Post_def
  ldr32Post_def
  ldrswPost_def
  ldr64Post_def
  ldr8PostFloat_def
  ldr16PostFloat_def
  ldr32PostFloat_def
  ldr64PostFloat_def
  ldr128Post_def
  ldrbPre_def
  ldrsb32Pre_def
  ldrsb64Pre_def
  ldrhPre_def
  ldrsh32Pre_def
  ldrsh64Pre_def
  ldr32Pre_def
  ldrswPre_def
  ldr64Pre_def
  ldr8PreFloat_def
  ldr16PreFloat_def
  ldr32PreFloat_def
  ldr64PreFloat_def
  ldr128Pre_def
  ldurb_def
  ldursb32_def
  ldursb64_def
  ldurh_def
  ldursh32_def
  ldursh64_def
  ldur32_def
  ldursw_def
  ldur64_def
  ldur8Float_def
  ldur16Float_def
  ldur32Float_def
  ldur64Float_def
  ldur128_def
  ldxrbImm_def
  ldaxrbImm_def
  ldarbImm_def
  ldxrhImm_def
  ldaxrhImm_def
  ldarhImm_def
  ldxr32Imm_def
  ldaxr32Imm_def
  ldar32Imm_def
  ldxr64Imm_def
  ldaxr64Imm_def
  ldar64Imm_def
  stnp32_def
  stnp64_def
  stp32Off_def
  stp64Off_def
  stp32Post_def
  stp64Post_def
  stp32Pre_def
  stp64Pre_def
  stnp32Float_def
  stnp64Float_def
  stnp128Float_def
  stp32OffFloat_def
  stp64OffFloat_def
  stp128OffFloat_def
  stp32PostFloat_def
  stp64PostFloat_def
  stp128PostFloat_def
  stp32PreFloat_def
  stp64PreFloat_def
  stp128PreFloat_def
  stxp32_def
  stlxp32_def
  stxp64_def
  stlxp64_def
  ldnp32_def
  ldnp64_def
  ldp32Off_def
  ldp64Off_def
  ldp32Post_def
  ldp64Post_def
  ldp32Pre_def
  ldp64Pre_def
  ldnp32Float_def
  ldnp64Float_def
  ldnp128Float_def
  ldp32OffFloat_def
  ldp64OffFloat_def
  ldp128OffFloat_def
  ldp32PostFloat_def
  ldp64PostFloat_def
  ldp128PostFloat_def
  ldp32PreFloat_def
  ldp64PreFloat_def
  ldp128PreFloat_def
  ldxp32_def
  ldaxp32_def
  ldxp64_def
  ldaxp64_def
  strbRegoff_def
  strhRegoff_def
  str32Regoff_def
  str64Regoff_def
  strbRegoffFloat_def
  strhRegoffFloat_def
  str32RegoffFloat_def
  str64RegoffFloat_def
  str128RegoffFloat_def
  ldrbRegoff_def
  ldrsb32Regoff_def
  ldrsb64Regoff_def
  ldrhRegoff_def
  ldrsh32Regoff_def
  ldrsh64Regoff_def
  ldr32Regoff_def
  ldrswRegoff_def
  ldr64Regoff_def
  ldrbRegoffFloat_def
  ldrhRegoffFloat_def
  ldr32RegoffFloat_def
  ldr64RegoffFloat_def
  ldr128RegoffFloat_def
  ldr32Literal_def
  ldr64Literal_def
  ldrswLiteral_def
  ldr32LiteralFloat_def
  ldr64LiteralFloat_def
  ldr128Literal_def

subsection \<open>Accesses and the core\<close>

lemma le_val_8: "le_val (le_bytes 8 v) = v"
  using le_val_le_bytes [of 8 v] take_bit_length_eq [of v] by simp

definition pair_offset :: "nat \<Rightarrow> u32 \<Rightarrow> u64" where
  "pair_offset k inst = shl (signExtend 7 (ucast (inst_15_21 inst))) k"

lemma constLog2_sizes: "constLog2 1 = 0" "constLog2 2 = 1" "constLog2 4 = 2" "constLog2 8 = 3"
  by (simp_all add: constLog2.simps)

lemma mem_upd_core [simp]:
  "memory (upd_core f mc) = memory mc" "mview (upd_core f mc) = mview mc" "mem_ok N (upd_core f mc) = mem_ok N mc"
  "mload a n (upd_core f mc) = mload a n mc" "mcore (upd_core f mc) = f (mcore mc)"
proof -
  show "memory (upd_core f mc) = memory mc" "mcore (upd_core f mc) = f (mcore mc)" by (simp_all add: upd_core_def)
  then show "mview (upd_core f mc) = mview mc" "mem_ok N (upd_core f mc) = mem_ok N mc" "mload a n (upd_core f mc) = mload a n mc"
    by (simp_all only: mview_def mem_ok_def mload_def)
qed

lemma mcore_mstore [simp]: "mcore (mstore a bs mc) = mcore mc"
  by (simp add: mstore_def set_host_def split: sum.split)

lemma mcore_check_breakpoint [simp]:
  "GPRegs (mcore (check_breakpoint a mc)) = GPRegs (mcore mc)" "SP (mcore (check_breakpoint a mc)) = SP (mcore mc)"
  "VRegs (mcore (check_breakpoint a mc)) = VRegs (mcore mc)" "exclusiveData0 (mcore (check_breakpoint a mc)) = exclusiveData0 (mcore mc)"
  by (simp_all add: check_breakpoint_def sendInterrupts_def)

text \<open>Two writes of eight bytes next to each other.\<close>

lemma store_pair_effect:
  assumes ok: "mem_ok N mc" and v: "mview mc a \<noteq> None" and off: "page_offset a + 16 \<le> 4096"
  obtains mc' where "and_then (mem_write 8 a d1 mc) (mem_write 8 (a + 8) d2) = Inr mc'" "mem_ok N mc'"
    "mload a 8 mc' = le_bytes 8 d1" "mload (a + 8) 8 mc' = le_bytes 8 d2" "mview mc' a \<noteq> None" "mview mc' (a + 8) \<noteq> None"
    "GPRegs (mcore mc') = GPRegs (mcore mc)" "SP (mcore mc') = SP (mcore mc)"
proof -
  let ?a1 = "check_breakpoint a mc" let ?m1 = "mstore a (le_bytes 8 d1) ?a1"
  let ?a2 = "check_breakpoint (a + 8) ?m1" let ?m2 = "mstore (a + 8) (le_bytes 8 d2) ?a2"
  have s: "page_offset (a + 8) = page_offset a + 8" "getPageNum (a + 8) = getPageNum a"
    using same_page_step [of a 8] off by simp_all
  have c1: "mem_ok N ?a1" "mview ?a1 a \<noteq> None" "page_offset a + length (le_bytes 8 d1) \<le> 4096" using ok v off by simp_all
  have v8: "mview mc (a + 8) \<noteq> None"
  proof -
    obtain fl where "alloc_ok N fl (memory mc)" using ok by (auto simp: mem_ok_def alloc_inv_def)
    from mview_mapped [OF this] v s(2) show ?thesis by simp
  qed
  have m1: "mem_ok N ?m1" "mview ?m1 a \<noteq> None" "mview ?m1 (a + 8) \<noteq> None" "mload a 8 ?m1 = le_bytes 8 d1"
    using gm.store_inv [OF c1] gm.store_mapped [OF c1, of a] gm.store_mapped [OF c1, of "a + 8"] gm.load_store_same [OF c1] v v8
    by simp_all
  have c2: "mem_ok N ?a2" "mview ?a2 (a + 8) \<noteq> None" "page_offset (a + 8) + length (le_bytes 8 d2) \<le> 4096"
    using m1 s off by simp_all
  have far: "\<not> unat (a + of_nat i - (a + 8)) < length (le_bytes 8 d2)" if "i < 8" for i
  proof -
    have "a + of_nat i - (a + 8) = of_nat i - of_nat 8" by simp
    then show ?thesis using offset_shift(1) [of 8 8 "of_nat i"] that by (simp add: unat_of_nat)
  qed
  have "mload a 8 ?m2 = mload a 8 ?a2"
    using m1 off by (intro gm.load_store_other [OF c2 _ _ far]) simp_all
  moreover have "and_then (mem_write 8 a d1 mc) (mem_write 8 (a + 8) d2) = Inr ?m2"
    using access_cases(1) [OF ok] access_cases(1) [OF m1(1)] v m1 by simp
  ultimately show ?thesis
    using gm.store_inv [OF c2] gm.store_mapped [OF c2, of a] gm.store_mapped [OF c2, of "a + 8"] gm.load_store_same [OF c2] m1
    by (intro that [of ?m2]) simp_all
qed

lemma le_val_inj: "length bs = length cs \<Longrightarrow> length bs \<le> 8 \<Longrightarrow> le_val bs = le_val cs \<longleftrightarrow> bs = cs"
  by (metis le_bytes_le_val)

lemma length_mload:
  "mem_ok N mc \<Longrightarrow> mview mc a \<noteq> None \<Longrightarrow> page_offset a + n \<le> 4096 \<Longrightarrow> length (mload a n mc) = n"
  using arg_cong [OF gm.load_view, of N mc a n length] by simp

lemma le_val_width: "length bs \<le> 8 \<Longrightarrow> take_bit (8 * length bs) (le_val bs) = le_val bs"
proof -
  assume "length bs \<le> 8"
  then have "le_val bs = le_val (le_bytes (length bs) (le_val bs))" by (simp only: le_bytes_le_val)
  also have "\<dots> = take_bit (8 * length bs) (le_val bs)" using \<open>length bs \<le> 8\<close> by (rule le_val_le_bytes)
  finally show ?thesis by simp
qed

lemma writeAtomic_cases:
  assumes "mem_ok N mc" and "mview mc a \<noteq> None"
  shows "writeAtomic T a d e mc =
    (if le_val (mload a T mc) = take_bit (8 * T) e then Inr (True, mstore a (le_bytes T d) mc) else Inr (False, mc))"
proof -
  obtain fl where ok: "alloc_ok N fl (memory mc)" using assms by (auto simp: mem_ok_def alloc_inv_def)
  show ?thesis
    by (simp add: writeAtomic_def translate_mapped [OF ok assms(2)] mstore_def mload_def load_le_def store_le_def)
qed

lemma le_bytes_cong: "n \<le> 8 \<Longrightarrow> take_bit (8 * n) v = take_bit (8 * n) w \<Longrightarrow> le_bytes n v = le_bytes n w"
  by (metis le_bytes_le_val le_val_le_bytes length_le_bytes)

lemma size_mask: "T \<in> {1, 2, 4, 8} \<Longrightarrow> (v :: u64) AND bitmask (2 ^ constLog2 T * 8) = take_bit (8 * T) v"
  by (auto simp: constLog2_sizes constLog2_sizes(1) [simplified] bitmask_eq_mask take_bit_eq_mask)

definition load_imm :: "nat \<Rightarrow> LoadFlags list \<Rightarrow> u32 \<Rightarrow> u64" where
  "load_imm T flags inst = (if LoadImmSigned \<in> set flags then of_int (signed_take_bit 8 (uint (inst_12_20 inst)))
     else if LoadExclusive \<in> set flags \<or> LoadAcquire \<in> set flags then 0 else of_nat (unat (inst_10_21 inst) * T))"

lemma of_int_signed_take_bit:
  "n < 64 \<Longrightarrow> (of_int (signed_take_bit n (uint x)) :: u64) = signed_take_bit n (x :: u64)"
  by (rule bit_word_eqI) (simp add: bit_simps min_def)

lemma signExtend_bytes:
  assumes "0 < n" "n \<le> 8" and "take_bit (8 * n) x = x"
  shows "signExtend (8 * n) x = (of_int (signed_take_bit (8 * n - 1) (uint x)) :: u64)"
  using assms signExtend_eq_signed_take_bit [of "8 * n" x] of_int_signed_take_bit [of "8 * n - 1" x] by simp

lemma signed_imm9: "signExtend 9 (ucast (inst_12_20 inst) :: u64) = of_int (signed_take_bit 8 (uint (inst_12_20 inst)))"
proof -
  have u: "unat (inst_12_20 inst) < 2 ^ 9" using unat_FLD_less [of 12 20 inst] by (simp add: inst_12_20_def)
  then have "take_bit 9 (ucast (inst_12_20 inst) :: u64) = ucast (inst_12_20 inst)"
    by (simp add: word_unat_eq_iff unat_take_bit unat_ucast_u32 take_bit_nat_eq_self)
  from signExtend_eq_signed_take_bit [OF _ _ this] of_int_signed_take_bit [of 8 "ucast (inst_12_20 inst)"]
  have "signExtend 9 (ucast (inst_12_20 inst) :: u64) = of_int (signed_take_bit 8 (uint (ucast (inst_12_20 inst) :: u64)))" by simp
  moreover have "take_bit 64 (uint (inst_12_20 inst)) = uint (inst_12_20 inst)"
    using unsigned_less [of "inst_12_20 inst", where 'a = int] by (simp add: take_bit_int_eq_self)
  ultimately show ?thesis by (simp add: unsigned_ucast_eq)
qed

lemma scaled_imm12: "T \<in> {1, 2, 4, 8} \<Longrightarrow> shl (ucast (inst_10_21 inst) :: u64) (constLog2 T) = of_nat (unat (inst_10_21 inst) * T)"
  by (auto simp: constLog2_sizes constLog2_sizes(1) [simplified] shl_less push_bit_eq_mult)

lemma ldxr_data:
  assumes "mem_ok N mc" "mview mc a \<noteq> None" "base_addr (mcore mc) ldxr = a"
  shows "\<exists>mc1. loadRegImmGeneric T [LoadExclusive] mc ldxr = Inr mc1 \<and> exclusiveData0 (mcore mc1) = le_val (mload a T mc)"
  using assms by (simp add: loadRegImmGeneric_def Let_def access_cases(2) [OF assms(1)])


subsection \<open>Properties\<close>

lemmas field_eval = inst_fields bitRange_def shr_def bitmask_def shl_def

text \<open>
  C13. Push and pop: \<^verbatim>\<open>STP Xt, Xt2, [SP, #off]!\<close> followed, whatever happens to the registers in between, by
  \<^verbatim>\<open>LDP Xt, Xt2, [SP], #-off\<close> restores both registers and the stack pointer and touches no other register.
\<close>

theorem push_pop:
  assumes a_def: "a = SP (mcore mc) + pair_offset 3 push" and "mem_ok N mc" and "mview mc a \<noteq> None" and "page_offset a + 16 \<le> 4096"
    and "inst_Rn push = 31" and "inst_Rn pop = 31" and "pair_offset 3 push + pair_offset 3 pop = 0"
    and "inst_Rt pop = inst_Rt push" and "inst_Rt2 pop = inst_Rt2 push" and "inst_Rt push \<noteq> inst_Rt2 push"
  shows "\<exists>mc'. stp64Pre mc push = Inr mc' \<and> SP (mcore mc') = a \<and>
    (\<forall>regs. \<exists>mc''. ldp64Post (upd_core (\<lambda>core. core\<lparr>GPRegs := regs\<rparr>) mc') pop = Inr mc'' \<and> SP (mcore mc'') = SP (mcore mc) \<and>
      GPRegs (mcore mc'') = regs(inst_Rt push := GPRegs (mcore mc) (inst_Rt push), inst_Rt2 push := GPRegs (mcore mc) (inst_Rt2 push)))"
proof -
  let ?d1 = "GPRegs (mcore mc) (inst_Rt push)" and ?d2 = "GPRegs (mcore mc) (inst_Rt2 push)"
  obtain m where m: "and_then (mem_write 8 a ?d1 mc) (mem_write 8 (a + 8) ?d2) = Inr m" "mem_ok N m"
    "mload a 8 m = le_bytes 8 ?d1" "mload (a + 8) 8 m = le_bytes 8 ?d2" "mview m a \<noteq> None" "mview m (a + 8) \<noteq> None"
    "GPRegs (mcore m) = GPRegs (mcore mc)" "SP (mcore m) = SP (mcore mc)"
    using store_pair_effect [OF assms(2-4)] by metis
  have push: "stp64Pre mc push = Inr (upd_core (write_base push a) m)"
    using m(1) assms(5)
    by (simp add: stp64Pre_def storePairGeneric_def Let_def base_addr_def constLog2_sizes pair_offset_def [symmetric] a_def [symmetric])
  have ret: "a + pair_offset 3 pop = SP (mcore mc)"
    using assms(7) by (simp add: a_def add.assoc)
  have "\<exists>mc''. ldp64Post (upd_core (\<lambda>core. core\<lparr>GPRegs := regs\<rparr>) (upd_core (write_base push a) m)) pop = Inr mc'' \<and> SP (mcore mc'') = SP (mcore mc) \<and>
      GPRegs (mcore mc'') = regs(inst_Rt push := ?d1, inst_Rt2 push := ?d2)" for regs
  proof -
    let ?m = "upd_core (\<lambda>core. core\<lparr>GPRegs := regs\<rparr>) (upd_core (write_base push a) m)"
    have ok: "mem_ok N ?m" "mem_ok N (check_breakpoint a ?m)" using m by simp_all
    show ?thesis
      using m(3-6) assms(5-10) access_cases(2) [OF ok(1)] access_cases(2) [OF ok(2)]
      by (simp add: ldp64Post_def loadPairGeneric_def Let_def base_addr_def write_base_def constLog2_sizes
          pair_offset_def [symmetric] le_val_8 ret)
  qed
  then show ?thesis using push assms(5) by (auto simp: write_base_def)
qed

theorem push_pop_witness:
  "\<exists>mc'. stp64Pre (upd_core (\<lambda>core. core\<lparr>SP := 0x1110\<rparr>) demo_machine) 0xA9BF07E0 = Inr mc' \<and> SP (mcore mc') = 0x1100"
proof -
  have f: "inst_Rn 0xA9BF07E0 = 31" "inst_Rn 0xA8C107E0 = 31" "inst_Rt 0xA8C107E0 = inst_Rt 0xA9BF07E0"
    "inst_Rt2 0xA8C107E0 = inst_Rt2 0xA9BF07E0" "inst_Rt 0xA9BF07E0 \<noteq> inst_Rt2 0xA9BF07E0"
    by (simp_all add: field_eval)
  have o: "pair_offset 3 0xA9BF07E0 = -16" "pair_offset 3 0xA8C107E0 = 16"
    by (simp_all add: pair_offset_def field_eval signExtend_def testBit_def)
  show ?thesis
    using push_pop [of "0x1100" "upd_core (\<lambda>core. core\<lparr>SP := 0x1110\<rparr>) demo_machine" "0xA9BF07E0" 2 "0xA8C107E0"]
    by (auto simp: f o demo_machine_facts demo_pages)
qed

text \<open>
  C14. Load-exclusive and store-exclusive: a store-exclusive succeeds (status 0) and writes its register exactly when the bytes at its
  address are still those the last load-exclusive of that address returned, and otherwise reports 1 and writes nothing. The state of the monitor
  (\<^verbatim>\<open>exclusiveAccess\<close>, \<^verbatim>\<open>exclusiveAccessAddr\<close>) plays no part in it.
\<close>

theorem exclusive_pair:
  assumes T: "T \<in> {1, 2, 4, 8}" and off: "page_offset a + T \<le> 4096"
    and ld: "mem_ok N mc" "mview mc a \<noteq> None" "base_addr (mcore mc) ldxr = a"
    and st: "mem_ok N mc2" "mview mc2 a \<noteq> None" "base_addr (mcore mc2) stxr = a"
    and same: "\<And>mc1. loadRegImmGeneric T [LoadExclusive] mc ldxr = Inr mc1 \<Longrightarrow> exclusiveData0 (mcore mc2) = exclusiveData0 (mcore mc1)"
  shows "\<exists>mc3. storeRegImmGeneric T [StoreExclusive] mc2 stxr = Inr mc3 \<and> mem_ok N mc3 \<and>
    (if mload a T mc2 = mload a T mc
     then GPRegs (mcore mc3) (inst_Rs stxr) = 0 \<and> mload a T mc3 = le_bytes T (GPRegs (mcore mc2) (inst_Rt stxr))
     else GPRegs (mcore mc3) (inst_Rs stxr) = 1 \<and> mview mc3 = mview mc2)"
proof -
  have T8: "T \<le> 8" using T by auto
  have len: "length (mload a T mc) = T" "length (mload a T mc2) = T"
    using length_mload [OF ld(1,2) off] length_mload [OF st(1,2) off] by simp_all
  have "exclusiveData0 (mcore mc2) = le_val (mload a T mc)" using same ldxr_data [OF ld, of T] by metis
  then have cond: "le_val (mload a T mc2) = take_bit (8 * T) (exclusiveData0 (mcore mc2)) \<longleftrightarrow> mload a T mc2 = mload a T mc"
    using le_val_width [of "mload a T mc"] le_val_inj [of "mload a T mc2" "mload a T mc"] len T8 by simp
  let ?d = "GPRegs (mcore mc2) (inst_Rt stxr)"
  have d: "le_bytes T (take_bit (8 * T) ?d) = le_bytes T ?d" using T8 by (intro le_bytes_cong) simp_all
  have len': "page_offset a + length (le_bytes T ?d) \<le> 4096" using off by simp
  show ?thesis
    using gm.store_inv [OF st(1,2) len'] gm.load_store_same [OF st(1,2) len'] st(1)
    by (simp add: storeRegImmGeneric_def Let_def st(3) size_mask [OF T] writeAtomic_cases [OF st(1,2)] cond d)
qed

theorem exclusive_pair_witness:
  "\<exists>mc3. storeRegImmGeneric 8 [StoreExclusive] (upd_core (\<lambda>core. core\<lparr>GPRegs := (\<lambda>r. 0x1100), exclusiveData0 := 0\<rparr>) demo_machine) 0xC8027C20 = Inr mc3 \<and>
     GPRegs (mcore mc3) (inst_Rs 0xC8027C20) = 0"
proof -
  let ?mc = "upd_core (\<lambda>core. core\<lparr>GPRegs := (\<lambda>r. 0x1100), exclusiveData0 := 0\<rparr>) demo_machine"
  have f: "base_addr (mcore ?mc) 0xC85F7C20 = 0x1100" "base_addr (mcore ?mc) 0xC8027C20 = 0x1100"
    by (simp_all add: base_addr_def field_eval)
  have z: "mload 0x1100 8 ?mc = replicate 8 0"
  proof -
    have "getPageNum (0x1100 + of_nat i) = 1" if "i < 8" for i :: nat
      using same_page_step(1) [of "0x1100" i] that by (simp add: demo_pages)
    then have "map Some (mload 0x1100 8 demo_machine) = map Some (replicate 8 0)"
      using gm.load_view [OF demo_machine_facts(1), of "0x1100" 8]
      by (auto simp: demo_machine_facts demo_pages list_eq_iff_nth_eq)
    then show ?thesis by (simp add: inj_map_eq_map del: map_replicate)
  qed
  have "exclusiveData0 (mcore ?mc) = exclusiveData0 (mcore mc1)" if "loadRegImmGeneric 8 [LoadExclusive] ?mc 0xC85F7C20 = Inr mc1" for mc1
  proof -
    have "le_val (replicate 8 0) = 0" by (simp add: eval_nat_numeral)
    then show ?thesis
      using ldxr_data [of 2 ?mc "0x1100" "0xC85F7C20" 8] that z f by (auto simp: demo_machine_facts demo_pages)
  qed
  from exclusive_pair [of 8 "0x1100" 2 ?mc "0xC85F7C20" ?mc "0xC8027C20", OF _ _ _ _ f(1) _ _ f(2) this] show ?thesis
    by (auto simp: demo_machine_facts demo_pages)
qed

text \<open>
  Every integer load without write-back puts in its register the little-endian value at base plus offset: zero extended, or for the signed
  forms sign extended from the width of the access to 64 bits or to 32 bits.
\<close>

theorem load_extends:
  assumes T: "T \<in> {1, 2, 4, 8}" and fl: "set flags \<inter> {LoadFloat, LoadWriteBack, LoadPostIndex, Load128BitFloat} = {}"
    and a: "a = base_addr (mcore mc) inst + load_imm T flags inst"
    and ok: "mem_ok N mc" "mview mc a \<noteq> None" "page_offset a + T \<le> 4096"
  shows "\<exists>mc'. loadRegImmGeneric T flags mc inst = Inr mc' \<and>
    (let x = le_val (mload a T mc); s = of_int (signed_take_bit (8 * T - 1) (uint x))
     in GPRegs (mcore mc') (inst_Rt inst) =
       (if LoadExtendResult \<notin> set flags then x else if LoadExtendTo64 \<in> set flags then s else take_bit 32 s))"
proof -
  have f: "LoadFloat \<notin> set flags" "LoadWriteBack \<notin> set flags" "LoadPostIndex \<notin> set flags" "Load128BitFloat \<notin> set flags"
    using fl by auto
  have T8: "0 < T" "T \<le> 8" "2 ^ constLog2 T * 8 = 8 * T" using T by (auto simp: constLog2_sizes constLog2_sizes(1) [simplified])
  let ?x = "le_val (mload a T mc)"
  have "take_bit (8 * T) ?x = ?x" using le_val_width [of "mload a T mc"] length_mload [OF ok] T8 by simp
  note sx = signExtend_bytes [OF T8(1,2) this]
  have addr: "base_addr (mcore mc) inst + (if LoadImmSigned \<in> set flags then signExtend 9 (ucast (inst_12_20 inst))
      else if LoadExclusive \<notin> set flags \<and> LoadAcquire \<notin> set flags then shl (ucast (inst_10_21 inst)) (constLog2 T) else 0) = a"
    unfolding a load_imm_def signed_imm9 scaled_imm12 [OF T] by auto
  have r: "mem_read T a mc = Inr (?x, check_breakpoint a mc)" by (simp add: access_cases(2) [OF ok(1)] ok(2))
  show ?thesis
    unfolding loadRegImmGeneric_def Let_def
    by (simp only: f not_False_eq_True if_True if_False addr r and_then_simps prod.case simp_thms)
      (simp add: T8(3) sx bitmask_eq_mask take_bit_eq_mask)
qed

theorem load_extends_witness:
  "\<exists>mc'. loadRegImmGeneric 1 [LoadExtendResult, LoadExtendTo64] (upd_core (set_GPR 1 0x1100) demo_machine) 0x39800020 = Inr mc'"
proof -
  have "base_addr (mcore (upd_core (set_GPR 1 0x1100) demo_machine)) 0x39800020 + load_imm 1 [LoadExtendResult, LoadExtendTo64] 0x39800020 = 0x1100"
    by (simp add: base_addr_def load_imm_def field_eval)
  from load_extends [OF _ _ this [symmetric], of 2] show ?thesis
    by (auto simp: demo_machine_facts demo_pages)
qed

end
