(* ===== verification/Interp_System.thy ===== *)
theory Interp_System
  imports Interp_LoadStore
begin

text \<open>
  \<^verbatim>\<open>libcpu/src/interpreter/System.cpp\<close>: supervisor calls, system registers, hints and barriers. The supervisor
  call goes to the function pointer \<^verbatim>\<open>gSVCHandler\<close>, a parameter here: the kernel installs \<^verbatim>\<open>callSVC\<close>, the tests
  another. Logging has no state.
\<close>

unbundle bit_operations_syntax

record Handlers =
  gSVCHandler :: "u64 \<Rightarrow> Machine \<Rightarrow> fault + Machine"
  gIllInstHandler :: "Machine \<Rightarrow> fault + Machine"

definition svc :: "Handlers \<Rightarrow> Machine \<Rightarrow> u32 \<Rightarrow> fault + Machine" where
  "svc hs mc inst = gSVCHandler hs (ucast (inst_5_20 inst)) mc"

definition sysreg :: "u32 \<Rightarrow> u32 \<Rightarrow> u32 \<Rightarrow> u32 \<Rightarrow> u32 \<Rightarrow> u32 \<Rightarrow> bool" where
  "sysreg o0 op1 CRn CRm op2 inst \<longleftrightarrow>
     inst_o0 inst = o0 \<and> inst_op1 inst = op1 \<and> inst_CRn inst = CRn \<and> inst_CRm inst = CRm \<and> inst_op2 inst = op2"

definition mrs :: "Machine \<Rightarrow> u32 \<Rightarrow> fault + Machine" where
  "mrs mc inst =
     (let set_Rd = (\<lambda>v mc. upd_core (set_GPR (inst_Rd inst) v) mc)
      in Inr (if sysreg 1 3 13 0 2 inst then set_Rd (TLSAddr (mcore mc)) mc
              else if sysreg 1 3 13 0 3 inst then set_Rd (TLSAddr (mcore mc)) mc
              else if sysreg 1 3 14 0 1 inst then (set_Rd (gTimer mc) mc)\<lparr>gTimer := gTimer mc + 1\<rparr>
              else if sysreg 1 3 4 4 0 inst then set_Rd 0 mc
              else if sysreg 1 3 4 4 1 inst then set_Rd 0 mc
              else if sysreg 1 3 0 0 7 inst then set_Rd 0x10 mc
              else set_Rd 0 mc))"

text \<open>Every branch of \<^verbatim>\<open>msrReg\<close> and of \<^verbatim>\<open>sys\<close> only logs or does nothing.\<close>

definition msrImm :: "Core \<Rightarrow> u32 \<Rightarrow> Core" where
  "msrImm core inst = core"

definition msrReg :: "Core \<Rightarrow> u32 \<Rightarrow> Core" where
  "msrReg core inst = core"

definition clrex :: "Core \<Rightarrow> u32 \<Rightarrow> Core" where
  "clrex core inst = core\<lparr>exclusiveAccess := False\<rparr>"

definition dmb :: "Core \<Rightarrow> u32 \<Rightarrow> Core" where
  "dmb core inst = core"

definition sys :: "Core \<Rightarrow> u32 \<Rightarrow> Core" where
  "sys core inst = core"

definition registerSystemInstructions :: "Handlers \<Rightarrow> (instructionID \<times> (Machine \<Rightarrow> u32 \<Rightarrow> fault + Machine)) list" where
  "registerSystemInstructions hs = [
     (ID_SVC, svc hs),
     (ID_HVC, on_core UNIMPLEMENTED_FUNC),
     (ID_SMC, on_core UNIMPLEMENTED_FUNC),
     (ID_BRK, on_core UNIMPLEMENTED_FUNC),
     (ID_HLT, on_core UNIMPLEMENTED_FUNC),
     (ID_DCPS1, on_core UNIMPLEMENTED_FUNC),
     (ID_DCPS2, on_core UNIMPLEMENTED_FUNC),
     (ID_DCPS3, on_core UNIMPLEMENTED_FUNC),
     (ID_MSR_imm, on_core msrImm),
     (ID_MSR_reg, on_core msrReg),
     (ID_HINT, on_core nop),
     (ID_NOP, on_core nop),
     (ID_YIELD, on_core nop),
     (ID_WFE, on_core nop),
     (ID_WFI, on_core nop),
     (ID_SEV, on_core nop),
     (ID_SEVL, on_core nop),
     (ID_CLREX, on_core clrex),
     (ID_DSB, on_core UNIMPLEMENTED_FUNC),
     (ID_DMB, on_core dmb),
     (ID_ISB, on_core nop),
     (ID_SYS, on_core sys),
     (ID_SYSL, on_core UNIMPLEMENTED_FUNC),
     (ID_MRS, mrs)]"

end
