(* ===== verification/Host_Float.thy ===== *)
theory Host_Float
  imports Bitutils
begin

text \<open>
  Floating-point values: the unions \<^verbatim>\<open>halfFloat\<close>, \<^verbatim>\<open>singleFloat\<close> and \<^verbatim>\<open>doubleFloat\<close> of \<^verbatim>\<open>common/inc/types.h\<close>, the
  predicates of \<^verbatim>\<open>common/inc/floatutils.h\<close>, and what the C++ types \<^verbatim>\<open>float\<close> and \<^verbatim>\<open>double\<close> compute on the only build
  target, whose arithmetic is IEEE 754 with rounding to nearest, ties to even.

  A value is its bit pattern, in the low bits of a 64-bit word. Every finite value is an integer multiple of the least positive one
  of its format, \<open>2 ^ - f_scale fmt\<close>; \<open>ival\<close> is that integer, so the exact result of an operation is an integer or a quotient of
  integers, and \<open>round_mag\<close> rounds it.

  What C++ leaves open is a parameter, \<open>HostFP\<close>: which NaN an operation yields, and what a cast to an integer type yields when the
  value is outside the range of that type.
\<close>

unbundle bit_operations_syntax

datatype Format = HalfFloat | SingleFloat | DoubleFloat

fun mant_bits :: "Format \<Rightarrow> nat" where
  "mant_bits HalfFloat = 10"
| "mant_bits SingleFloat = 23"
| "mant_bits DoubleFloat = 52"

fun exp_bits :: "Format \<Rightarrow> nat" where
  "exp_bits HalfFloat = 5"
| "exp_bits SingleFloat = 8"
| "exp_bits DoubleFloat = 11"

definition sign_pos :: "Format \<Rightarrow> nat" where
  "sign_pos fmt = mant_bits fmt + exp_bits fmt"

definition f_mantissa :: "Format \<Rightarrow> u64 \<Rightarrow> u64" where
  "f_mantissa fmt x = take_bit (mant_bits fmt) x"

definition f_exponent :: "Format \<Rightarrow> u64 \<Rightarrow> u64" where
  "f_exponent fmt x = take_bit (exp_bits fmt) (drop_bit (mant_bits fmt) x)"

definition f_sign :: "Format \<Rightarrow> u64 \<Rightarrow> bool" where
  "f_sign fmt x = bit x (sign_pos fmt)"

definition isQuiet :: "Format \<Rightarrow> u64 \<Rightarrow> bool" where
  "isQuiet fmt x = bit x (mant_bits fmt - 1)"

definition maxExp :: "Format \<Rightarrow> u64" where
  "maxExp fmt = mask (exp_bits fmt)"

text \<open>An assignment to a bit field drops the bits of the value that do not fit.\<close>

definition set_mantissa :: "Format \<Rightarrow> u64 \<Rightarrow> u64 \<Rightarrow> u64" where
  "set_mantissa fmt m x = (x AND NOT (mask (mant_bits fmt))) OR take_bit (mant_bits fmt) m"

definition set_exponent :: "Format \<Rightarrow> u64 \<Rightarrow> u64 \<Rightarrow> u64" where
  "set_exponent fmt e x = (x AND NOT (push_bit (mant_bits fmt) (mask (exp_bits fmt))))
     OR push_bit (mant_bits fmt) (take_bit (exp_bits fmt) e)"

definition set_sign :: "Format \<Rightarrow> bool \<Rightarrow> u64 \<Rightarrow> u64" where
  "set_sign fmt s x = (if s then set_bit (sign_pos fmt) x else unset_bit (sign_pos fmt) x)"

definition set_quiet :: "Format \<Rightarrow> bool \<Rightarrow> u64 \<Rightarrow> u64" where
  "set_quiet fmt q x = (if q then set_bit (mant_bits fmt - 1) x else unset_bit (mant_bits fmt - 1) x)"

subsection \<open>Predicates\<close>

definition isPositive :: "Format \<Rightarrow> u64 \<Rightarrow> bool" where
  "isPositive fmt f \<longleftrightarrow> \<not> f_sign fmt f"

definition isNegative :: "Format \<Rightarrow> u64 \<Rightarrow> bool" where
  "isNegative fmt f \<longleftrightarrow> \<not> isPositive fmt f"

definition isZero :: "Format \<Rightarrow> u64 \<Rightarrow> bool" where
  "isZero fmt f \<longleftrightarrow> f_mantissa fmt f = 0 \<and> f_exponent fmt f = 0"

definition isPositiveZero :: "Format \<Rightarrow> u64 \<Rightarrow> bool" where
  "isPositiveZero fmt f \<longleftrightarrow> isPositive fmt f \<and> isZero fmt f"

definition isNegativeZero :: "Format \<Rightarrow> u64 \<Rightarrow> bool" where
  "isNegativeZero fmt f \<longleftrightarrow> isNegative fmt f \<and> isZero fmt f"

definition isInfinity :: "Format \<Rightarrow> u64 \<Rightarrow> bool" where
  "isInfinity fmt f \<longleftrightarrow> f_mantissa fmt f = 0 \<and> f_exponent fmt f = maxExp fmt"

definition isPositiveInfinity :: "Format \<Rightarrow> u64 \<Rightarrow> bool" where
  "isPositiveInfinity fmt f \<longleftrightarrow> isPositive fmt f \<and> isInfinity fmt f"

definition isNegativeInfinity :: "Format \<Rightarrow> u64 \<Rightarrow> bool" where
  "isNegativeInfinity fmt f \<longleftrightarrow> isNegative fmt f \<and> isInfinity fmt f"

definition isNaN :: "Format \<Rightarrow> u64 \<Rightarrow> bool" where
  "isNaN fmt f \<longleftrightarrow> f_mantissa fmt f \<noteq> 0 \<and> f_exponent fmt f = maxExp fmt"

definition isSignalingNaN :: "Format \<Rightarrow> u64 \<Rightarrow> bool" where
  "isSignalingNaN fmt f \<longleftrightarrow> isNaN fmt f \<and> \<not> isQuiet fmt f"

definition isQuietNaN :: "Format \<Rightarrow> u64 \<Rightarrow> bool" where
  "isQuietNaN fmt f \<longleftrightarrow> isNaN fmt f \<and> isQuiet fmt f"

definition generateSNaN :: "Format \<Rightarrow> u64" where
  "generateSNaN fmt = set_quiet fmt False (set_exponent fmt (maxExp fmt) (set_mantissa fmt 0 0))"

definition generateQNaN :: "Format \<Rightarrow> u64" where
  "generateQNaN fmt = set_quiet fmt True (set_exponent fmt (maxExp fmt) (set_mantissa fmt 0 0))"

text \<open>\<^verbatim>\<open>std::numeric_limits<T>::infinity()\<close>, and the negation of a \<^verbatim>\<open>float\<close> or \<^verbatim>\<open>double\<close>, which flips the sign bit.\<close>

definition f_infinity :: "Format \<Rightarrow> u64" where
  "f_infinity fmt = push_bit (mant_bits fmt) (maxExp fmt)"

definition f_negate :: "Format \<Rightarrow> u64 \<Rightarrow> u64" where
  "f_negate fmt x = flip_bit (sign_pos fmt) x"

subsection \<open>Arithmetic\<close>

definition f_scale :: "Format \<Rightarrow> nat" where
  "f_scale fmt = 2 ^ (exp_bits fmt - 1) + mant_bits fmt - 2"

text \<open>The magnitude of a value, from the bits below its sign, in units of the least positive value.\<close>

definition mag_val :: "Format \<Rightarrow> int \<Rightarrow> int" where
  "mag_val fmt n =
     (let e = n div 2 ^ mant_bits fmt; m = n mod 2 ^ mant_bits fmt
      in if e = 0 then m else (2 ^ mant_bits fmt + m) * 2 ^ nat (e - 1))"

definition mag :: "Format \<Rightarrow> u64 \<Rightarrow> int" where
  "mag fmt x = uint (take_bit (sign_pos fmt) x)"

definition ival :: "Format \<Rightarrow> u64 \<Rightarrow> int" where
  "ival fmt x = (if f_sign fmt x then - mag_val fmt (mag fmt x) else mag_val fmt (mag fmt x))"

fun int_bits :: "int \<Rightarrow> nat" where
  "int_bits n = (if n \<le> 0 then 0 else Suc (int_bits (n div 2)))"

declare int_bits.simps [simp del]

text \<open>Rounding of a quotient to an integer, and of a magnitude \<open>n / d\<close> to the bits of a value; what is too large becomes infinity.\<close>

definition div_even :: "int \<Rightarrow> int \<Rightarrow> int" where
  "div_even n d =
     (let q = n div d; r = n mod d
      in if 2 * r > d \<or> 2 * r = d \<and> odd q then q + 1 else q)"

definition round_mag :: "Format \<Rightarrow> int \<Rightarrow> int \<Rightarrow> int" where
  "round_mag fmt n d =
     (let s = int_bits (n div d) - (mant_bits fmt + 1)
      in min (int s * 2 ^ mant_bits fmt + div_even n (d * 2 ^ s)) (uint (f_infinity fmt)))"

definition f_pack :: "Format \<Rightarrow> bool \<Rightarrow> int \<Rightarrow> u64" where
  "f_pack fmt s n = set_sign fmt s (word_of_int n)"

text \<open>The value of an integral number of units; a sum or difference that is exactly 0 is a positive zero.\<close>

definition round_units :: "Format \<Rightarrow> int \<Rightarrow> u64" where
  "round_units fmt n = f_pack fmt (n < 0) (round_mag fmt \<bar>n\<bar> 1)"

record HostFP =
  nan_of :: "Format \<Rightarrow> u64 \<Rightarrow> u64 \<Rightarrow> u64"
  out_of_range :: "bool \<Rightarrow> bool \<Rightarrow> u64 \<Rightarrow> u64"

definition f_add :: "HostFP \<Rightarrow> Format \<Rightarrow> u64 \<Rightarrow> u64 \<Rightarrow> u64" where
  "f_add host fmt x y =
     (if isNaN fmt x \<or> isNaN fmt y \<or> isInfinity fmt x \<and> isInfinity fmt y \<and> f_sign fmt x \<noteq> f_sign fmt y then nan_of host fmt x y
      else if isInfinity fmt x then x
      else if isInfinity fmt y then y
      else if isZero fmt x \<and> isZero fmt y \<and> f_sign fmt x = f_sign fmt y then x
      else round_units fmt (ival fmt x + ival fmt y))"

definition f_sub :: "HostFP \<Rightarrow> Format \<Rightarrow> u64 \<Rightarrow> u64 \<Rightarrow> u64" where
  "f_sub host fmt x y =
     (if isNaN fmt x \<or> isNaN fmt y \<or> isInfinity fmt x \<and> isInfinity fmt y \<and> f_sign fmt x = f_sign fmt y then nan_of host fmt x y
      else if isInfinity fmt x then x
      else if isInfinity fmt y then f_negate fmt y
      else if isZero fmt x \<and> isZero fmt y \<and> f_sign fmt x \<noteq> f_sign fmt y then x
      else round_units fmt (ival fmt x - ival fmt y))"

definition f_mul :: "HostFP \<Rightarrow> Format \<Rightarrow> u64 \<Rightarrow> u64 \<Rightarrow> u64" where
  "f_mul host fmt x y =
     (let s = (f_sign fmt x \<noteq> f_sign fmt y)
      in if isNaN fmt x \<or> isNaN fmt y \<or> isInfinity fmt x \<and> isZero fmt y \<or> isZero fmt x \<and> isInfinity fmt y then nan_of host fmt x y
      else if isInfinity fmt x \<or> isInfinity fmt y then set_sign fmt s (f_infinity fmt)
      else f_pack fmt s (round_mag fmt (mag_val fmt (mag fmt x) * mag_val fmt (mag fmt y)) (2 ^ f_scale fmt)))"

definition f_div :: "HostFP \<Rightarrow> Format \<Rightarrow> u64 \<Rightarrow> u64 \<Rightarrow> u64" where
  "f_div host fmt x y =
     (let s = (f_sign fmt x \<noteq> f_sign fmt y)
      in if isNaN fmt x \<or> isNaN fmt y \<or> isInfinity fmt x \<and> isInfinity fmt y \<or> isZero fmt x \<and> isZero fmt y then nan_of host fmt x y
      else if isInfinity fmt x \<or> isZero fmt y then set_sign fmt s (f_infinity fmt)
      else if isInfinity fmt y then f_pack fmt s 0
      else f_pack fmt s (round_mag fmt (mag_val fmt (mag fmt x) * 2 ^ f_scale fmt) (mag_val fmt (mag fmt y))))"

fun isqrt :: "int \<Rightarrow> int" where
  "isqrt n = (if n \<le> 0 then 0 else let r = 2 * isqrt (n div 4) in if (r + 1) * (r + 1) \<le> n then r + 1 else r)"

declare isqrt.simps [simp del]

text \<open>
  \<^verbatim>\<open>sqrt\<close> of a positive finite value: twice the root of \<open>n\<close> units is between \<open>t\<close> and \<open>t + 1\<close>, and whether it is \<open>t\<close>
  decides every comparison with a rounding boundary.
\<close>

definition f_sqrt :: "Format \<Rightarrow> u64 \<Rightarrow> u64" where
  "f_sqrt fmt x =
     (let n = 4 * (mag_val fmt (mag fmt x) * 2 ^ f_scale fmt);
          t = isqrt n
      in f_pack fmt False (round_mag fmt (2 * t + (if t * t = n then 0 else 1)) 4))"

definition f_less :: "Format \<Rightarrow> u64 \<Rightarrow> u64 \<Rightarrow> bool" where
  "f_less fmt x y \<longleftrightarrow> \<not> isNaN fmt x \<and> \<not> isNaN fmt y \<and> ival fmt x < ival fmt y"

definition f_eq :: "Format \<Rightarrow> u64 \<Rightarrow> u64 \<Rightarrow> bool" where
  "f_eq fmt x y \<longleftrightarrow> \<not> isNaN fmt x \<and> \<not> isNaN fmt y \<and> ival fmt x = ival fmt y"

subsection \<open>Integral values\<close>

text \<open>
  The functions of \<^verbatim>\<open>math.h\<close> that round to an integral value, as integers. A result of 0 has the sign of the argument, a NaN and an infinity
  are results themselves.
\<close>

definition int_floor :: "Format \<Rightarrow> u64 \<Rightarrow> int" where
  "int_floor fmt x = ival fmt x div 2 ^ f_scale fmt"

definition int_ceil :: "Format \<Rightarrow> u64 \<Rightarrow> int" where
  "int_ceil fmt x = - (- ival fmt x div 2 ^ f_scale fmt)"

definition int_trunc :: "Format \<Rightarrow> u64 \<Rightarrow> int" where
  "int_trunc fmt x = (if f_sign fmt x then int_ceil fmt x else int_floor fmt x)"

definition int_away :: "Format \<Rightarrow> u64 \<Rightarrow> int" where
  "int_away fmt x =
     (let n = (2 * mag_val fmt (mag fmt x) + 2 ^ f_scale fmt) div (2 * 2 ^ f_scale fmt)
      in if f_sign fmt x then - n else n)"

definition int_even :: "Format \<Rightarrow> u64 \<Rightarrow> int" where
  "int_even fmt x =
     (let n = div_even (mag_val fmt (mag fmt x)) (2 ^ f_scale fmt) in if f_sign fmt x then - n else n)"

definition f_integral :: "(Format \<Rightarrow> u64 \<Rightarrow> int) \<Rightarrow> Format \<Rightarrow> u64 \<Rightarrow> u64" where
  "f_integral r fmt x =
     (if isNaN fmt x \<or> isInfinity fmt x then x
      else f_pack fmt (f_sign fmt x) (round_mag fmt (\<bar>r fmt x\<bar> * 2 ^ f_scale fmt) 1))"

text \<open>\<^verbatim>\<open>remainder(x, 1.0)\<close>, which is exact.\<close>

definition f_remainder1 :: "HostFP \<Rightarrow> Format \<Rightarrow> u64 \<Rightarrow> u64" where
  "f_remainder1 host fmt x =
     (if isNaN fmt x \<or> isInfinity fmt x then nan_of host fmt x x
      else let r = ival fmt x - int_even fmt x * 2 ^ f_scale fmt
           in if r = 0 then f_pack fmt (f_sign fmt x) 0 else round_units fmt r)"

subsection \<open>Conversions\<close>

text \<open>From an integer, from \<^verbatim>\<open>float\<close> to \<^verbatim>\<open>double\<close>, which is exact, and from \<^verbatim>\<open>double\<close> to an integer type.\<close>

definition f_of_int :: "Format \<Rightarrow> int \<Rightarrow> u64" where
  "f_of_int fmt n = round_units fmt (n * 2 ^ f_scale fmt)"

definition f_widen :: "HostFP \<Rightarrow> u64 \<Rightarrow> u64" where
  "f_widen host x =
     (if isNaN SingleFloat x then nan_of host DoubleFloat x x
      else if isInfinity SingleFloat x then set_sign DoubleFloat (f_sign SingleFloat x) (f_infinity DoubleFloat)
      else f_pack DoubleFloat (f_sign SingleFloat x)
        (round_mag DoubleFloat (mag_val SingleFloat (mag SingleFloat x) * 2 ^ (f_scale DoubleFloat - f_scale SingleFloat)) 1))"

definition int_range :: "bool \<Rightarrow> bool \<Rightarrow> int \<Rightarrow> bool" where
  "int_range isSigned is64 n \<longleftrightarrow>
     (let w = (if is64 then 64 else 32)
      in if isSigned then - (2 ^ (w - 1)) \<le> n \<and> n < 2 ^ (w - 1) else 0 \<le> n \<and> n < 2 ^ w)"

definition f_to_int :: "HostFP \<Rightarrow> bool \<Rightarrow> bool \<Rightarrow> u64 \<Rightarrow> u64" where
  "f_to_int host isSigned is64 x =
     (if isNaN DoubleFloat x \<or> isInfinity DoubleFloat x \<or> \<not> int_range isSigned is64 (int_trunc DoubleFloat x)
      then out_of_range host isSigned is64 x
      else word_of_int (int_trunc DoubleFloat x))"

subsection \<open>Fields\<close>

lemma fmt_sizes:
  "0 < mant_bits fmt" "0 < exp_bits fmt" "sign_pos fmt < 64" "mant_bits fmt < sign_pos fmt" "exp_bits fmt \<le> sign_pos fmt"
  "mant_bits fmt + exp_bits fmt = sign_pos fmt"
  by (cases fmt; simp add: sign_pos_def)+

lemma bit_fields:
  "bit (f_mantissa fmt x) i \<longleftrightarrow> i < mant_bits fmt \<and> bit x i"
  "bit (f_exponent fmt x) i \<longleftrightarrow> i < exp_bits fmt \<and> bit x (mant_bits fmt + i)"
  "bit (set_mantissa fmt m x) i \<longleftrightarrow> i < 64 \<and> (if i < mant_bits fmt then bit m i else bit x i)"
  "bit (set_exponent fmt e x) i \<longleftrightarrow>
     i < 64 \<and> (if mant_bits fmt \<le> i \<and> i < sign_pos fmt then bit e (i - mant_bits fmt) else bit x i)"
  "bit (set_sign fmt s x) i \<longleftrightarrow> (if i = sign_pos fmt then s else bit x i)"
  using fmt_sizes [of fmt]
  by (auto simp: f_mantissa_def f_exponent_def set_mantissa_def set_exponent_def set_sign_def bit_simps)

lemma field_updates [simp]:
  "f_mantissa fmt (set_mantissa fmt m x) = take_bit (mant_bits fmt) m"
  "f_mantissa fmt (set_exponent fmt e x) = f_mantissa fmt x"
  "f_mantissa fmt (set_sign fmt s x) = f_mantissa fmt x"
  "f_exponent fmt (set_mantissa fmt m x) = f_exponent fmt x"
  "f_exponent fmt (set_exponent fmt e x) = take_bit (exp_bits fmt) e"
  "f_exponent fmt (set_sign fmt s x) = f_exponent fmt x"
  "f_sign fmt (set_mantissa fmt m x) = f_sign fmt x"
  "f_sign fmt (set_exponent fmt e x) = f_sign fmt x"
  "f_sign fmt (set_sign fmt s x) = s"
  using fmt_sizes [of fmt]
  by (auto intro!: bit_word_eqI simp: f_sign_def bit_fields bit_simps)

lemma take_fields:
  "f_mantissa fmt (take_bit (Suc (sign_pos fmt)) x) = f_mantissa fmt x"
  "f_exponent fmt (take_bit (Suc (sign_pos fmt)) x) = f_exponent fmt x"
  "f_sign fmt (take_bit (Suc (sign_pos fmt)) x) = f_sign fmt x"
  using fmt_sizes [of fmt]
  by (auto intro!: bit_word_eqI simp: f_sign_def bit_fields bit_simps)

lemma uint_drop_bit: "uint (drop_bit n w) = drop_bit n (uint (w :: 'a::len word))"
  by (rule bit_eqI) (simp add: bit_simps)

lemma mag_fields: "mag fmt x = uint (f_exponent fmt x) * 2 ^ mant_bits fmt + uint (f_mantissa fmt x)"
proof -
  have "uint x mod 2 ^ sign_pos fmt =
      2 ^ mant_bits fmt * (uint x div 2 ^ mant_bits fmt mod 2 ^ exp_bits fmt) + uint x mod 2 ^ mant_bits fmt"
    by (simp add: sign_pos_def power_add zmod_zmult2_eq)
  then show ?thesis
    unfolding mag_def f_exponent_def f_mantissa_def unsigned_take_bit_eq uint_drop_bit
    by (simp add: take_bit_eq_mod drop_bit_eq_div)
qed

lemma uint_fields: "uint (f_mantissa fmt x) < 2 ^ mant_bits fmt" "uint (f_exponent fmt x) < 2 ^ exp_bits fmt"
  by (simp_all add: f_mantissa_def f_exponent_def unsigned_take_bit_eq)

lemma mag_nonneg [simp]: "0 \<le> mag fmt x"
  by (simp add: mag_def)

lemma mag_div_mod:
  "mag fmt x div 2 ^ mant_bits fmt = uint (f_exponent fmt x)" "mag fmt x mod 2 ^ mant_bits fmt = uint (f_mantissa fmt x)"
  using uint_fields(1) [of fmt x] by (simp_all add: mag_fields)

lemma isZero_mag: "isZero fmt x \<longleftrightarrow> mag fmt x = 0"
proof -
  have "mag fmt x = 0 \<longleftrightarrow> uint (f_exponent fmt x) = 0 \<and> uint (f_mantissa fmt x) = 0"
    by (auto simp: mag_fields add_nonneg_eq_0_iff)
  then show ?thesis by (auto simp: isZero_def word_uint_eq_iff)
qed

lemma uint_infinity: "uint (f_infinity fmt) = (2 ^ exp_bits fmt - 1) * 2 ^ mant_bits fmt"
  by (cases fmt; simp add: f_infinity_def maxExp_def mask_eq_exp_minus_1 push_bit_eq_mult)

lemma uint_maxExp: "uint (maxExp fmt) = 2 ^ exp_bits fmt - 1"
  by (cases fmt; simp add: maxExp_def mask_eq_exp_minus_1)

lemma mag_exponent_order:
  "isInfinity fmt x \<longleftrightarrow> mag fmt x = uint (f_infinity fmt)" "isNaN fmt x \<longleftrightarrow> uint (f_infinity fmt) < mag fmt x"
proof -
  let ?b = "2 ^ mant_bits fmt :: int" and ?e = "uint (f_exponent fmt x)" and ?M = "2 ^ exp_bits fmt - 1 :: int"
    and ?m = "uint (f_mantissa fmt x)"
  have eq: "f_exponent fmt x = maxExp fmt \<longleftrightarrow> ?e = ?M" "f_mantissa fmt x = 0 \<longleftrightarrow> ?m = 0"
    by (simp_all add: word_uint_eq_iff uint_maxExp)
  have mag: "mag fmt x = ?e * ?b + ?m" "uint (f_infinity fmt) = ?M * ?b" by (simp_all add: mag_fields uint_infinity)
  have less: "?e * ?b + ?m < ?M * ?b" if "?e \<noteq> ?M"
  proof -
    have "?e + 1 \<le> ?M" using that uint_fields(2) [of fmt x] by simp
    then have "(?e + 1) * ?b \<le> ?M * ?b" by (intro mult_right_mono) simp_all
    then show ?thesis using uint_fields(1) [of fmt x] by (simp add: distrib_right)
  qed
  have "(m = 0 \<and> e = M) = (e * b + m = M * b)" "(m \<noteq> 0 \<and> e = M) = (M * b < e * b + m)"
    if "e \<noteq> M \<Longrightarrow> e * b + m < M * b" "0 \<le> m" for e m M b :: int
    using that by (cases "e = M"; force)+
  from this [OF less] show "isInfinity fmt x \<longleftrightarrow> mag fmt x = uint (f_infinity fmt)" "isNaN fmt x \<longleftrightarrow> uint (f_infinity fmt) < mag fmt x"
    unfolding isInfinity_def isNaN_def eq mag by simp_all
qed

lemmas isInfinity_mag = mag_exponent_order(1) and isNaN_mag = mag_exponent_order(2)

subsection \<open>Magnitudes\<close>

lemma mag_val_normal:
  assumes "2 ^ mant_bits fmt \<le> q" and "q < 2 * 2 ^ mant_bits fmt"
  shows "mag_val fmt (int s * 2 ^ mant_bits fmt + q) = q * 2 ^ s"
proof -
  let ?b = "2 ^ mant_bits fmt :: int"
  define m where "m = q - ?b"
  have m: "0 \<le> m" "m < ?b" using assms by (simp_all add: m_def)
  have "int s * ?b + q = (int s + 1) * ?b + m" by (simp add: algebra_simps m_def)
  moreover have "((int s + 1) * ?b + m) div ?b = int s + 1" "((int s + 1) * ?b + m) mod ?b = m"
    using m by simp_all
  ultimately have "mag_val fmt (int s * ?b + q) = (?b + m) * 2 ^ nat (int s + 1 - 1)"
    unfolding mag_val_def Let_def by simp
  then show ?thesis by (simp add: m_def)
qed

lemma mag_val_small: "0 \<le> q \<Longrightarrow> q < 2 ^ mant_bits fmt \<Longrightarrow> mag_val fmt q = q"
  by (simp add: mag_val_def)

text \<open>Every magnitude is a significand of at most \<open>mant_bits + 1\<close> bits, normalised unless the exponent is the least.\<close>

lemma mag_cases:
  assumes "0 \<le> n"
  obtains (small) "n < 2 ^ mant_bits fmt" "mag_val fmt n = n"
  | (normal) s q where "n = int s * 2 ^ mant_bits fmt + q" "2 ^ mant_bits fmt \<le> q" "q < 2 * 2 ^ mant_bits fmt"
      "mag_val fmt n = q * 2 ^ s"
proof (cases "n < 2 ^ mant_bits fmt")
  case True
  with assms that(1) show ?thesis by (simp add: mag_val_small)
next
  case False
  let ?b = "2 ^ mant_bits fmt :: int"
  have "0 < n div ?b" using False by (simp add: pos_imp_zdiv_pos_iff)
  then obtain s where s: "n div ?b = int s + 1"
    using zero_less_imp_eq_int [of "n div ?b"] by (metis Suc_pred of_nat_Suc add.commute)
  then have n: "n = int s * ?b + (?b + n mod ?b)"
    using div_mult_mod_eq [of n ?b] by (simp add: algebra_simps)
  with that(2) [OF n] show ?thesis
    using mag_val_normal [of fmt "?b + n mod ?b" s] by simp
qed

lemma mag_val_nonneg [simp]: "0 \<le> n \<Longrightarrow> 0 \<le> mag_val fmt n"
  by (simp add: mag_val_def Let_def)

lemma mag_val_step:
  assumes n: "0 \<le> n"
  shows "mag_val fmt n < mag_val fmt (n + 1)"
  using n
proof (cases rule: mag_cases [where fmt = fmt])
  case small
  show ?thesis
  proof (cases "n + 1 = 2 ^ mant_bits fmt")
    case True
    with mag_val_normal [of fmt "n + 1" 0] small show ?thesis by simp
  next
    case False
    with small n show ?thesis by (simp add: mag_val_small)
  qed
next
  case (normal s q)
  show ?thesis
  proof (cases "q + 1 = 2 * 2 ^ mant_bits fmt")
    case True
    then have "n + 1 = int (Suc s) * 2 ^ mant_bits fmt + 2 ^ mant_bits fmt" using normal by (simp add: algebra_simps)
    then have "mag_val fmt (n + 1) = 2 ^ mant_bits fmt * 2 ^ Suc s"
      using mag_val_normal [of fmt "2 ^ mant_bits fmt" "Suc s"] by simp
    also have "\<dots> = (q + 1) * 2 ^ s" using True by simp
    finally show ?thesis using normal by (simp add: algebra_simps)
  next
    case False
    with normal mag_val_normal [of fmt "q + 1" s] show ?thesis by (simp add: algebra_simps)
  qed
qed

lemma mag_val_mono: "0 \<le> m \<Longrightarrow> m < n \<Longrightarrow> mag_val fmt m < mag_val fmt n"
proof (induction "nat (n - m)" arbitrary: n)
  case (Suc k)
  then have "m = n - 1 \<or> m < n - 1" "k = nat (n - 1 - m)" by auto
  with Suc mag_val_step [of "n - 1" fmt] show ?case by (auto dest: less_trans)
qed simp

lemma mag_val_less_iff: "0 \<le> m \<Longrightarrow> 0 \<le> n \<Longrightarrow> mag_val fmt m < mag_val fmt n \<longleftrightarrow> m < n"
  by (metis linorder_neqE_linordered_idom mag_val_mono order_less_asym)

lemma mag_val_eq_iff: "0 \<le> m \<Longrightarrow> 0 \<le> n \<Longrightarrow> mag_val fmt m = mag_val fmt n \<longleftrightarrow> m = n"
  by (metis linorder_neqE_linordered_idom mag_val_mono order_less_irrefl)

lemma mag_val_0 [simp]: "mag_val fmt 0 = 0"
  by (simp add: mag_val_small)

subsection \<open>Rounding\<close>

lemma int_bits_nonpos: "n \<le> 0 \<Longrightarrow> int_bits n = 0"
  by (subst int_bits.simps) simp

lemma int_bits_1: "int_bits 1 = 1"
  by (subst int_bits.simps) (simp add: int_bits_nonpos)

lemma int_div_less: "0 < c \<Longrightarrow> (x :: int) < y * c \<Longrightarrow> x div c < y"
  by (smt (verit) mult_right_less_imp_less pos_mod_sign minus_mod_eq_div_mult)

lemma int_bits_bounds: "0 < n \<Longrightarrow> 2 ^ (int_bits n - 1) \<le> n \<and> n < 2 ^ int_bits n"
proof (induction n rule: int_bits.induct)
  case (1 n)
  show ?case
  proof (cases "n = 1")
    case False
    with 1 have "0 < n div 2" by auto
    with 1 have IH: "2 ^ (int_bits (n div 2) - 1) \<le> n div 2" "n div 2 < 2 ^ int_bits (n div 2)" by auto
    moreover from \<open>0 < n div 2\<close> have "int_bits (n div 2) = Suc (int_bits (n div 2) - 1)" by (subst (1 2) int_bits.simps) simp
    ultimately obtain k where "int_bits (n div 2) = Suc k" "2 ^ k \<le> n div 2" "n div 2 < 2 * 2 ^ k" by (metis power_Suc)
    moreover have "int_bits n = Suc (int_bits (n div 2))" using 1 by (subst int_bits.simps) simp
    ultimately show ?thesis by auto
  qed (simp add: int_bits_1)
qed

lemma int_bits_le: "n < 2 ^ k \<Longrightarrow> int_bits n \<le> k"
proof (cases "0 < n")
  case True
  assume "n < 2 ^ k"
  with int_bits_bounds [OF True] have "(2 :: int) ^ (int_bits n - 1) < 2 ^ k" by linarith
  then have "int_bits n - 1 < k" by simp
  then show ?thesis by simp
qed (simp add: int_bits_nonpos)

lemma div_even_nearest:
  assumes "0 < d"
  shows "\<bar>div_even n d * d - n\<bar> \<le> \<bar>k * d - n\<bar>"
proof -
  let ?q = "n div d" and ?r = "n mod d"
  have n: "n = ?q * d + ?r" and r: "0 \<le> ?r" "?r < d" using assms by simp_all
  have de: "div_even n d * d - n = (if 2 * ?r > d \<or> 2 * ?r = d \<and> odd ?q then d - ?r else - ?r)"
    unfolding div_even_def Let_def by (subst (5 6) n) (simp add: algebra_simps)
  consider "k \<le> ?q" | "?q + 1 \<le> k" by linarith
  then show ?thesis
  proof cases
    case 1
    then have "k * d \<le> ?q * d" using assms by (intro mult_right_mono) simp_all
    then have "?r \<le> \<bar>k * d - n\<bar>" using n r by linarith
    then show ?thesis unfolding de using r by (auto split: if_splits)
  next
    case 2
    then have "(?q + 1) * d \<le> k * d" using assms by (intro mult_right_mono) simp_all
    then have "?q * d + d \<le> k * d" by (simp add: distrib_right)
    then have "d - ?r \<le> \<bar>k * d - n\<bar>" using n r by linarith
    then show ?thesis unfolding de using r by (auto split: if_splits)
  qed
qed

lemma div_even_exact: "0 < d \<Longrightarrow> div_even (k * d) d = k"
  by (simp add: div_even_def)

lemma div_even_bounds:
  assumes "0 < d"
  shows "n div d \<le> div_even n d" "div_even n d \<le> n div d + 1"
  by (simp_all add: div_even_def Let_def)

lemma int_bits_eq: "2 ^ k \<le> n \<Longrightarrow> n < 2 * 2 ^ k \<Longrightarrow> int_bits n = Suc k"
proof -
  assume k: "2 ^ k \<le> n" "n < 2 * 2 ^ k"
  then have "0 < n" by (smt (verit) zero_less_power)
  from int_bits_bounds [OF this] have "2 ^ k < (2 :: int) ^ int_bits n" "2 ^ (int_bits n - 1) < (2 :: int) ^ Suc k"
    using k by (simp_all only: power_Suc) linarith+
  then have "k < int_bits n" "int_bits n - 1 < Suc k" by (simp_all only: power_strict_increasing_iff)
  then show ?thesis by simp
qed

text \<open>The shift that \<open>round_mag\<close> chooses leaves a quotient with the bits of a significand, which is normalised when the shift is not 0.\<close>

lemma round_shift:
  fixes fmt and n d :: int
  defines "s \<equiv> int_bits (n div d) - (mant_bits fmt + 1)" and "b \<equiv> 2 ^ mant_bits fmt :: int"
  assumes "0 < d" and "0 \<le> n"
  shows "0 \<le> div_even n (d * 2 ^ s)" "div_even n (d * 2 ^ s) \<le> 2 * b" "s \<noteq> 0 \<Longrightarrow> b * 2 ^ s \<le> n div d"
    "mag_val fmt (int s * b + div_even n (d * 2 ^ s)) = div_even n (d * 2 ^ s) * 2 ^ s"
proof -
  let ?q = "div_even n (d * 2 ^ s)" and ?t = "n div d"
  have t0: "0 \<le> ?t" using assms by (simp add: pos_imp_zdiv_nonneg_iff)
  have low: "b * 2 ^ s \<le> ?t" if "s \<noteq> 0"
  proof -
    have "0 < ?t" using that t0 by (cases "?t = 0") (auto simp: s_def int_bits_nonpos)
    moreover have "int_bits ?t - 1 = mant_bits fmt + s" using that by (simp add: s_def)
    ultimately show ?thesis using int_bits_bounds [of ?t] by (simp add: b_def power_add)
  qed
  have high: "?t < 2 * b * 2 ^ s"
  proof (cases "?t = 0")
    case False
    with t0 have "?t < 2 ^ int_bits ?t" using int_bits_bounds by simp
    also have "\<dots> \<le> 2 ^ (mant_bits fmt + 1 + s)" by (intro power_increasing) (simp_all add: s_def)
    finally show ?thesis by (simp add: b_def power_add)
  qed (simp add: b_def)
  have div: "n div (d * 2 ^ s) = ?t div 2 ^ s" using assms by (simp add: zdiv_zmult2_eq)
  have "?t div 2 ^ s < 2 * b" using high by (intro int_div_less [of "2 ^ s"]) simp_all
  with div_even_bounds [of "d * 2 ^ s" n] assms(3) div t0
  show q: "0 \<le> ?q" "?q \<le> 2 * b" by (auto intro: order_trans [OF _ div_even_bounds(1)] simp: pos_imp_zdiv_nonneg_iff)
  show "b * 2 ^ s \<le> ?t" if "s \<noteq> 0" using low that .
  have qlow: "b \<le> ?q" if "s \<noteq> 0"
    using zdiv_mono1 [OF low [OF that], of "2 ^ s"] div div_even_bounds(1) [of "d * 2 ^ s" n] assms(3) by simp
  consider "?q < b" "s = 0" | "b \<le> ?q" "?q < 2 * b" | "?q = 2 * b" using q qlow by fastforce
  then show "mag_val fmt (int s * b + ?q) = ?q * 2 ^ s"
  proof cases
    case 1
    then show ?thesis using q mag_val_small [of ?q fmt] by (simp add: b_def)
  next
    case 2
    then show ?thesis using mag_val_normal [of fmt ?q s] by (simp add: b_def)
  next
    case 3
    then have eq: "int s * b + ?q = int (Suc s) * b + b" by (simp add: algebra_simps)
    have val: "mag_val fmt (int (Suc s) * b + b) = b * 2 ^ Suc s"
      unfolding b_def by (rule mag_val_normal) simp_all
    show ?thesis unfolding eq val using 3 by simp
  qed
qed

lemma round_mag_exact:
  assumes "0 \<le> n" and "n \<le> uint (f_infinity fmt)" and "0 < d"
  shows "round_mag fmt (mag_val fmt n * d) d = n"
  using assms(1)
proof (cases rule: mag_cases [where fmt = fmt])
  case small
  have "int_bits n \<le> mant_bits fmt" using small by (simp add: int_bits_le)
  then show ?thesis using assms small by (simp add: round_mag_def Let_def div_even_exact)
next
  case (normal s q)
  have "int_bits (q * 2 ^ s) = Suc (mant_bits fmt + s)"
    using normal by (intro int_bits_eq) (simp_all add: power_add)
  moreover have "div_even (q * 2 ^ s * d) (d * 2 ^ s) = q"
    using div_even_exact [of "d * 2 ^ s" q] assms(3) by (simp add: ac_simps)
  ultimately show ?thesis using assms normal by (simp add: round_mag_def Let_def)
qed

text \<open>A rounded magnitude that is not infinite is nearest to the exact one among all magnitudes.\<close>

lemma round_mag_nearest:
  assumes "0 < d" and "0 \<le> n" and "round_mag fmt n d < uint (f_infinity fmt)" and "0 \<le> m"
  shows "\<bar>mag_val fmt (round_mag fmt n d) * d - n\<bar> \<le> \<bar>mag_val fmt m * d - n\<bar>"
proof -
  define s where "s = int_bits (n div d) - (mant_bits fmt + 1)"
  let ?b = "2 ^ mant_bits fmt :: int" and ?D = "d * 2 ^ s"
  note shift = round_shift [OF assms(1,2), where fmt = fmt, folded s_def]
  have "mag_val fmt (round_mag fmt n d) = div_even n ?D * 2 ^ s"
    using assms(3) shift(4) unfolding round_mag_def Let_def s_def [symmetric] by (simp add: min_def split: if_splits)
  moreover have near: "\<bar>div_even n ?D * ?D - n\<bar> \<le> \<bar>k * ?D - n\<bar>" for k
    using assms(1) by (intro div_even_nearest) simp
  moreover have "\<exists>k. \<bar>k * ?D - n\<bar> \<le> \<bar>mag_val fmt m * d - n\<bar>"
  proof (cases "mag_val fmt m < ?b * 2 ^ s \<and> s \<noteq> 0")
    case True
    then have "mag_val fmt m * d \<le> ?b * 2 ^ s * d" using assms(1) by (intro mult_right_mono) simp_all
    moreover have "?b * 2 ^ s * d \<le> n div d * d" using shift(3) True assms(1) by (intro mult_right_mono) simp_all
    moreover have "n div d * d \<le> n" using assms(1) by (simp add: minus_mod_eq_div_mult [symmetric])
    ultimately show ?thesis by (intro exI [of _ ?b]) (simp add: ac_simps)
  next
    case False
    have "2 ^ s dvd mag_val fmt m"
      using assms(4)
    proof (cases rule: mag_cases [where fmt = fmt])
      case small
      have "?b * 1 \<le> ?b * 2 ^ s" by (intro mult_left_mono) simp_all
      with small False show ?thesis by simp
    next
      case (normal t q)
      have "s \<le> t"
      proof (rule ccontr)
        assume "\<not> s \<le> t"
        then have "(2 :: int) ^ Suc t \<le> 2 ^ s" by (intro power_increasing) simp_all
        then have "?b * 2 ^ Suc t \<le> ?b * 2 ^ s" by (intro mult_left_mono) simp_all
        moreover have "mag_val fmt m < ?b * 2 ^ Suc t" using normal by simp
        ultimately have "mag_val fmt m < ?b * 2 ^ s" by linarith
        with False \<open>\<not> s \<le> t\<close> show False by simp
      qed
      then show ?thesis using normal by (simp add: le_imp_power_dvd)
    qed
    then show ?thesis by (auto simp: dvd_def ac_simps intro: exI)
  qed
  ultimately show ?thesis by (auto simp: ac_simps intro: order_trans)
qed

lemma round_mag_bounds: "0 < d \<Longrightarrow> 0 \<le> n \<Longrightarrow> 0 \<le> round_mag fmt n d \<and> round_mag fmt n d \<le> uint (f_infinity fmt)"
  using round_shift(1) [of d n fmt] by (simp add: round_mag_def Let_def)

lemma uint_infinity_less: "uint (f_infinity fmt) < 2 ^ sign_pos fmt"
  by (cases fmt; simp add: uint_infinity sign_pos_def)

lemma pack_fields:
  assumes "0 \<le> n" and "n < 2 ^ sign_pos fmt"
  shows "f_sign fmt (f_pack fmt s n) = s" "mag fmt (f_pack fmt s n) = n"
    "take_bit (Suc (sign_pos fmt)) (f_pack fmt s n) = f_pack fmt s n"
proof -
  have "(2 :: int) ^ sign_pos fmt \<le> 2 ^ 64" using fmt_sizes(3) [of fmt] by (intro power_increasing) simp_all
  with assms have n: "uint (word_of_int n :: u64) = n" by (simp add: take_bit_int_eq_self unsigned_of_int)
  have high: "i < sign_pos fmt" if "bit (word_of_int n :: u64) i" for i
    using bit_int_less [OF assms, of i] that by (auto simp: bit_word_of_int_iff)
  show "f_sign fmt (f_pack fmt s n) = s" by (simp add: f_pack_def)
  have "take_bit (sign_pos fmt) (set_sign fmt s (word_of_int n)) = (word_of_int n :: u64)"
    by (rule bit_word_eqI) (use high in \<open>auto simp: bit_take_bit_iff bit_fields\<close>)
  then show "mag fmt (f_pack fmt s n) = n" by (simp add: mag_def f_pack_def n)
  show "take_bit (Suc (sign_pos fmt)) (f_pack fmt s n) = f_pack fmt s n"
    by (rule bit_word_eqI) (use high in \<open>auto simp: bit_take_bit_iff bit_fields f_pack_def less_Suc_eq\<close>)
qed

lemma ival_pack: "0 \<le> n \<Longrightarrow> n < 2 ^ sign_pos fmt \<Longrightarrow> ival fmt (f_pack fmt s n) = (if s then - mag_val fmt n else mag_val fmt n)"
  by (simp add: ival_def pack_fields)

subsection \<open>Correct rounding of the arithmetic\<close>

lemma nearest_signed:
  assumes "0 < d" and "0 \<le> n" and "round_mag fmt n d < uint (f_infinity fmt)" and E: "E = (if s then - n else n)"
  shows "\<bar>ival fmt (f_pack fmt s (round_mag fmt n d)) * d - E\<bar> \<le> \<bar>ival fmt z * d - E\<bar>"
proof -
  let ?r = "round_mag fmt n d"
  have "ival fmt (f_pack fmt s ?r) = (if s then - mag_val fmt ?r else mag_val fmt ?r)"
    using round_mag_bounds [OF assms(1,2), of fmt] assms(3) uint_infinity_less [of fmt] by (intro ival_pack) simp_all
  then have "\<bar>ival fmt (f_pack fmt s ?r) * d - E\<bar> = \<bar>mag_val fmt ?r * d - n\<bar>" by (simp add: E) (simp add: abs_minus_commute)
  also have "\<dots> \<le> \<bar>mag_val fmt (mag fmt z) * d - n\<bar>" using assms by (intro round_mag_nearest) simp_all
  also have "\<dots> \<le> \<bar>ival fmt z * d - E\<bar>"
  proof -
    have "\<bar>ival fmt z * d\<bar> = mag_val fmt (mag fmt z) * d" using assms(1) by (simp add: ival_def abs_mult)
    moreover have "\<bar>E\<bar> = n" using assms(2) by (simp add: E)
    ultimately show ?thesis using abs_triangle_ineq3 [of "ival fmt z * d" E] by simp
  qed
  finally show ?thesis .
qed

text \<open>A finite value is below infinity; the result of an operation on finite values is finite unless it overflows.\<close>

lemma finite_mag: "\<not> isNaN fmt x \<Longrightarrow> \<not> isInfinity fmt x \<Longrightarrow> mag fmt x < uint (f_infinity fmt)"
  by (auto simp: isNaN_mag isInfinity_mag)

lemma isInfinity_pack: "0 < d \<Longrightarrow> 0 \<le> n \<Longrightarrow>
    isInfinity fmt (f_pack fmt s (round_mag fmt n d)) \<longleftrightarrow> \<not> round_mag fmt n d < uint (f_infinity fmt)"
  using round_mag_bounds [of d n fmt] uint_infinity_less [of fmt] by (auto simp: isInfinity_mag pack_fields)

lemma ival_zero: "isZero fmt x \<Longrightarrow> ival fmt x = 0" "ival fmt x = 0 \<longleftrightarrow> isZero fmt x"
  using mag_val_eq_iff [of "mag fmt x" 0 fmt] by (auto simp: ival_def isZero_mag)

definition finite_val :: "Format \<Rightarrow> u64 \<Rightarrow> bool" where
  "finite_val fmt x \<longleftrightarrow> \<not> isNaN fmt x \<and> \<not> isInfinity fmt x"

text \<open>
  Twice the magnitude halfway between the greatest finite one and the next that the format would have with a larger exponent: from there on a
  result is infinite. \<open>rounds_to fmt n d r\<close>: the value \<open>r\<close> is the exact number \<open>n / d\<close> of units, correctly rounded to the format.
\<close>

definition overflow_at :: "Format \<Rightarrow> int" where
  "overflow_at fmt = mag_val fmt (uint (f_infinity fmt) - 1) + mag_val fmt (uint (f_infinity fmt))"

definition rounds_to :: "Format \<Rightarrow> int \<Rightarrow> int \<Rightarrow> u64 \<Rightarrow> bool" where
  "rounds_to fmt n d r \<longleftrightarrow>
     (if overflow_at fmt * d \<le> 2 * \<bar>n\<bar> then isInfinity fmt r \<and> (f_sign fmt r \<longleftrightarrow> n < 0)
      else finite_val fmt r \<and> (\<forall>z. \<bar>ival fmt r * d - n\<bar> \<le> \<bar>ival fmt z * d - n\<bar>))"

text \<open>The exponent of the greatest finite magnitude.\<close>

definition top_shift :: "Format \<Rightarrow> nat" where
  "top_shift fmt = 2 ^ exp_bits fmt - 3"

lemma infinity_slot: "uint (f_infinity fmt) = int (top_shift fmt) * 2 ^ mant_bits fmt + 2 * 2 ^ mant_bits fmt"
  by (cases fmt; simp add: uint_infinity top_shift_def)

lemma top_shift_pos: "0 < top_shift fmt"
  by (cases fmt; simp add: top_shift_def)

lemma overflow_at_eq: "overflow_at fmt = (4 * 2 ^ mant_bits fmt - 1) * 2 ^ top_shift fmt"
proof -
  let ?b = "2 ^ mant_bits fmt :: int" and ?S = "top_shift fmt"
  have "uint (f_infinity fmt) - 1 = int ?S * ?b + (2 * ?b - 1)" by (simp add: infinity_slot)
  moreover have "mag_val fmt (int ?S * ?b + (2 * ?b - 1)) = (2 * ?b - 1) * 2 ^ ?S"
    by (rule mag_val_normal) (simp_all add: one_le_power)
  moreover have "uint (f_infinity fmt) = int (Suc ?S) * ?b + ?b" by (simp add: infinity_slot algebra_simps)
  moreover have "mag_val fmt (int (Suc ?S) * ?b + ?b) = ?b * 2 ^ Suc ?S"
    by (rule mag_val_normal) simp_all
  ultimately show ?thesis by (simp add: overflow_at_def algebra_simps)
qed

lemma div_even_top:
  assumes "0 < D" and "n div D < k" and "even k"
  shows "k \<le> div_even n D \<longleftrightarrow> (2 * k - 1) * D \<le> 2 * n"
proof -
  let ?q = "n div D" and ?r = "n mod D"
  have n: "n = ?q * D + ?r" and r: "0 \<le> ?r" "?r < D" using assms by simp_all
  show ?thesis
  proof (cases "?q = k - 1")
    case True
    then have "odd ?q" using assms(3) by simp
    moreover have "2 * n = 2 * (k - 1) * D + 2 * ?r" using n True by (simp add: algebra_simps)
    ultimately show ?thesis using True by (auto simp: div_even_def Let_def algebra_simps)
  next
    case False
    then have q: "?q + 2 \<le> k" using assms(2) by simp
    then have "(?q + 2) * D \<le> k * D" using assms(1) by (intro mult_right_mono) simp_all
    then have "?q * D + 2 * D \<le> k * D" by (simp add: distrib_right)
    moreover have "(2 * k - 1) * D = 2 * (k * D) - D" by (simp add: algebra_simps)
    ultimately have "2 * n < (2 * k - 1) * D" using n r by linarith
    moreover have "div_even n D < k" using q div_even_bounds(2) [of D n] assms(1) by simp
    ultimately show ?thesis by simp
  qed
qed

text \<open>A magnitude rounds to infinity exactly from the halfway point on, where the tie goes to the even significand.\<close>

lemma round_mag_overflow:
  assumes d: "0 < d" and n: "0 \<le> n"
  shows "round_mag fmt n d < uint (f_infinity fmt) \<longleftrightarrow> 2 * n < overflow_at fmt * d"
proof -
  let ?b = "2 ^ mant_bits fmt :: int" and ?S = "top_shift fmt" and ?t = "n div d"
  define s where "s = int_bits ?t - (mant_bits fmt + 1)"
  note shift = round_shift [OF d n, where fmt = fmt, folded s_def]
  have r: "round_mag fmt n d < uint (f_infinity fmt) \<longleftrightarrow> int s * ?b + div_even n (d * 2 ^ s) < int ?S * ?b + 2 * ?b"
    by (simp add: round_mag_def Let_def s_def infinity_slot min_less_iff_disj)
  have t: "?t * d \<le> n" "n < (?t + 1) * d" using d
    by (simp_all add: minus_mod_eq_div_mult [symmetric] distrib_right)
  consider "?t < ?b * 2 ^ ?S" | "?b * 2 ^ ?S \<le> ?t" "?t < 2 * ?b * 2 ^ ?S" | "2 * ?b * 2 ^ ?S \<le> ?t" by linarith
  then show ?thesis
  proof cases
    case 1
    have "s < ?S"
    proof -
      have "?t < 2 ^ (mant_bits fmt + ?S)" using 1 by (simp add: power_add)
      from int_bits_le [OF this] top_shift_pos [of fmt] show ?thesis by (simp add: s_def)
    qed
    then have "(int s + 1) * ?b \<le> int ?S * ?b" by (intro mult_right_mono) simp_all
    then have "int s * ?b + div_even n (d * 2 ^ s) < int ?S * ?b + 2 * ?b"
      using shift(2) zero_less_power [of "2 :: int" "mant_bits fmt"] unfolding distrib_right by linarith
    moreover have "2 * n < overflow_at fmt * d"
    proof -
      have "(?t + 1) * d \<le> ?b * 2 ^ ?S * d" using 1 d by (intro mult_right_mono) simp_all
      then have "2 * n < 2 * ?b * 2 ^ ?S * d" using t(2) by simp
      also have "\<dots> \<le> overflow_at fmt * d"
        unfolding overflow_at_eq using d one_le_power [of "2 :: int" "mant_bits fmt"] by (intro mult_right_mono) (simp_all add: mult_right_mono)
      finally show ?thesis .
    qed
    ultimately show ?thesis using r by simp
  next
    case 2
    have "int_bits ?t = Suc (mant_bits fmt + ?S)" using 2 by (intro int_bits_eq) (simp_all add: power_add)
    then have s: "s = ?S" by (simp add: s_def)
    have "n div (d * 2 ^ ?S) < 2 * ?b"
    proof -
      have "(?t + 1) * d \<le> 2 * ?b * 2 ^ ?S * d" using 2 d by (intro mult_right_mono) simp_all
      then have "n < 2 * ?b * (d * 2 ^ ?S)" using t(2) by (simp add: ac_simps)
      then show ?thesis using d by (intro int_div_less) simp_all
    qed
    moreover have "0 < d * 2 ^ ?S" using d by simp
    ultimately show ?thesis
      using div_even_top [of "d * 2 ^ ?S" n "2 * ?b"]
      unfolding r s overflow_at_eq by (simp add: ac_simps not_le [symmetric])
  next
    case 3
    have "?S < s"
    proof -
      have "0 < ?t" using 3 by (smt (verit) zero_less_power mult_pos_pos)
      then have "2 ^ (mant_bits fmt + 1 + ?S) < (2 :: int) ^ int_bits ?t" using 3 int_bits_bounds [of ?t] by (simp add: power_add)
      then have "mant_bits fmt + 1 + ?S < int_bits ?t" by (rule power_less_imp_less_exp [rotated]) simp
      then show ?thesis by (simp add: s_def)
    qed
    then have "(int ?S + 1) * ?b \<le> int s * ?b" by (intro mult_right_mono) simp_all
    moreover have "?b \<le> div_even n (d * 2 ^ s)"
    proof -
      have "?b \<le> ?t div 2 ^ s" using zdiv_mono1 [OF shift(3), of "2 ^ s"] \<open>?S < s\<close> by simp
      then show ?thesis using div_even_bounds(1) [of "d * 2 ^ s" n] d by (simp add: zdiv_zmult2_eq)
    qed
    ultimately have "int ?S * ?b + 2 * ?b \<le> int s * ?b + div_even n (d * 2 ^ s)" by (simp add: distrib_right)
    moreover have "overflow_at fmt * d \<le> 2 * n"
    proof -
      have "overflow_at fmt * d \<le> 4 * ?b * 2 ^ ?S * d"
        unfolding overflow_at_eq using d by (intro mult_right_mono) simp_all
      also have "\<dots> \<le> 2 * (?t * d)" using mult_right_mono [OF 3, of "2 * d"] d by (simp add: ac_simps)
      finally show ?thesis using t(1) by simp
    qed
    ultimately show ?thesis using r by simp
  qed
qed

lemma overflow_at_pos: "0 < overflow_at fmt"
proof -
  have "(1 :: int) \<le> 2 ^ mant_bits fmt" by simp
  then have "0 < 4 * (2 :: int) ^ mant_bits fmt - 1" by linarith
  then show ?thesis unfolding overflow_at_eq by (intro mult_pos_pos) simp_all
qed

lemma pack_rounds:
  assumes "0 < d" and "0 \<le> n" and "E = (if s then - n else n)"
  shows "rounds_to fmt E d (f_pack fmt s (round_mag fmt n d))"
proof -
  have E: "\<bar>E\<bar> = n" using assms by simp
  have inf: "isInfinity fmt (f_pack fmt s (round_mag fmt n d)) \<longleftrightarrow> overflow_at fmt * d \<le> 2 * n"
    using isInfinity_pack [OF assms(1,2)] round_mag_overflow [OF assms(1,2)] by (simp add: not_less)
  note b = round_mag_bounds [OF assms(1,2), of fmt] uint_infinity_less [of fmt]
  show ?thesis
  proof (cases "overflow_at fmt * d \<le> 2 * n")
    case True
    have "0 < overflow_at fmt * d" using assms(1) overflow_at_pos by simp
    with True have "0 < n" by simp
    then have "f_sign fmt (f_pack fmt s (round_mag fmt n d)) \<longleftrightarrow> E < 0" using b assms(3) by (simp add: pack_fields)
    with True inf show ?thesis by (simp add: rounds_to_def E)
  next
    case False
    then have "round_mag fmt n d < uint (f_infinity fmt)" using round_mag_overflow [OF assms(1,2)] by simp
    moreover have "\<not> isNaN fmt (f_pack fmt s (round_mag fmt n d))" using b by (simp add: isNaN_mag pack_fields)
    ultimately show ?thesis
      using False inf nearest_signed [OF assms(1,2) _ assms(3)] by (simp add: rounds_to_def E finite_val_def)
  qed
qed

lemma round_units_rounds: "rounds_to fmt n 1 (round_units fmt n)"
  unfolding round_units_def by (rule pack_rounds) auto

lemma zero_rounds:
  assumes "isZero fmt x" and "0 < d"
  shows "rounds_to fmt 0 d x"
proof -
  have "0 < overflow_at fmt * d" using assms(2) overflow_at_pos by simp
  moreover have "finite_val fmt x"
    using assms(1) uint_infinity [of fmt] by (cases fmt) (simp_all add: finite_val_def isNaN_mag isInfinity_mag isZero_mag)
  ultimately show ?thesis using assms(1) by (simp add: rounds_to_def ival_zero(1))
qed

lemma f_add_rounds:
  assumes "finite_val fmt x" and "finite_val fmt y"
  shows "rounds_to fmt (ival fmt x + ival fmt y) 1 (f_add host fmt x y)"
proof (cases "isZero fmt x \<and> isZero fmt y \<and> f_sign fmt x = f_sign fmt y")
  case True
  then show ?thesis using assms zero_rounds [of fmt x 1] by (simp add: f_add_def finite_val_def ival_zero(1))
next
  case False
  then have "f_add host fmt x y = round_units fmt (ival fmt x + ival fmt y)"
    using assms by (auto simp: f_add_def finite_val_def)
  then show ?thesis by (simp add: round_units_rounds)
qed

lemma f_sub_rounds:
  assumes "finite_val fmt x" and "finite_val fmt y"
  shows "rounds_to fmt (ival fmt x - ival fmt y) 1 (f_sub host fmt x y)"
proof (cases "isZero fmt x \<and> isZero fmt y \<and> f_sign fmt x \<noteq> f_sign fmt y")
  case True
  then show ?thesis using assms zero_rounds [of fmt x 1] by (simp add: f_sub_def finite_val_def ival_zero(1))
next
  case False
  then have "f_sub host fmt x y = round_units fmt (ival fmt x - ival fmt y)"
    using assms by (auto simp: f_sub_def finite_val_def)
  then show ?thesis by (simp add: round_units_rounds)
qed

lemma f_mul_rounds:
  assumes "finite_val fmt x" and "finite_val fmt y"
  shows "rounds_to fmt (ival fmt x * ival fmt y) (2 ^ f_scale fmt) (f_mul host fmt x y)"
proof -
  let ?s = "f_sign fmt x \<noteq> f_sign fmt y" and ?n = "mag_val fmt (mag fmt x) * mag_val fmt (mag fmt y)"
  have "f_mul host fmt x y = f_pack fmt ?s (round_mag fmt ?n (2 ^ f_scale fmt))"
    using assms by (simp add: f_mul_def finite_val_def Let_def)
  moreover have "ival fmt x * ival fmt y = (if ?s then - ?n else ?n)" by (simp add: ival_def)
  ultimately show ?thesis by (simp add: pack_rounds)
qed

lemma f_div_rounds:
  assumes "finite_val fmt x" and "finite_val fmt y" and "\<not> isZero fmt y"
  shows "rounds_to fmt (ival fmt x * 2 ^ f_scale fmt * sgn (ival fmt y)) \<bar>ival fmt y\<bar> (f_div host fmt x y)"
proof -
  let ?m = "mag_val fmt (mag fmt y)" and ?s = "f_sign fmt x \<noteq> f_sign fmt y" and ?n = "mag_val fmt (mag fmt x) * 2 ^ f_scale fmt"
  have m: "0 < ?m" using assms(3) mag_val_mono [of 0 "mag fmt y" fmt] mag_nonneg [of fmt y] by (simp add: isZero_mag)
  have "f_div host fmt x y = f_pack fmt ?s (round_mag fmt ?n ?m)"
    using assms by (simp add: f_div_def finite_val_def Let_def)
  moreover have "\<bar>ival fmt y\<bar> = ?m" using m by (simp add: ival_def)
  moreover have "ival fmt x * 2 ^ f_scale fmt * sgn (ival fmt y) = (if ?s then - ?n else ?n)"
    using m by (auto simp: ival_def sgn_if)
  ultimately show ?thesis using m by (simp add: pack_rounds)
qed

end
