(* ===== verification/Interp_Float.thy ===== *)
theory Interp_Float
  imports Interp_Branch Host_Float
begin

text \<open>
  \<^verbatim>\<open>libcpu/src/interpreter/float.cpp\<close>: the floating-point handlers. A template takes the list of its flags and its rounding mode. The
  members \<^verbatim>\<open>floatH\<close>, \<^verbatim>\<open>floatS\<close> and \<^verbatim>\<open>floatD\<close> of a vector register are the low 16, 32 and 64 bits of its low half; an
  assignment to one of them leaves the other bits of the register alone. The messages of the logger are not modelled.
\<close>

unbundle bit_operations_syntax

datatype FloatFlags = FloatHalfWidthSource | FloatSingleWidthSource | FloatDoubleWidthSource | FloatHalfWidthDest
  | FloatSingleWidthDest | FloatDoubleWidthDest | FloatUseZero | FloatGenerateExceptions | FloatNegate | FloatCompareQNaNs
  | FloatIsSub | FloatAbsolute | FloatExact | FloatUseFPCR | FloatConditional

datatype RoundingMode = RoundEven | RoundPosInf | RoundNegInf | RoundZero | RoundAway | RoundOdd

datatype ConvertFlags = Convert64Bit | ConvertDouble | ConvertSigned

datatype IntMovFlags = IntMovFloat | IntMovDouble | IntMovUpper | IntMovToInt

definition getReg :: "Format \<Rightarrow> Core \<Rightarrow> reg \<Rightarrow> u64" where
  "getReg fmt core r = take_bit (sign_pos fmt + 1) (VReg_D0 (VRegs core r))"

definition getRegRef :: "Format \<Rightarrow> reg \<Rightarrow> u64 \<Rightarrow> Core \<Rightarrow> Core" where
  "getRegRef fmt r v core =
     (let low = VReg_D0 (VRegs core r)
      in set_VReg r ((VRegs core r)\<lparr>VReg_D0 := (low AND NOT (mask (sign_pos fmt + 1))) OR take_bit (sign_pos fmt + 1) v\<rparr>) core)"

definition source_fmt :: "FloatFlags list \<Rightarrow> Format" where
  "source_fmt flags = (if FloatDoubleWidthSource \<in> set flags then DoubleFloat else SingleFloat)"

definition getZero :: u64 where
  "getZero = 0"

definition roundFloat :: "HostFP \<Rightarrow> Format \<Rightarrow> u64 \<Rightarrow> RoundingMode \<Rightarrow> u64" where
  "roundFloat host fmt f roundingMode =
     (case roundingMode of
        RoundEven \<Rightarrow> f_sub host fmt f (f_remainder1 host fmt f)
      | RoundPosInf \<Rightarrow> f_integral int_ceil fmt f
      | RoundNegInf \<Rightarrow> f_integral int_floor fmt f
      | RoundZero \<Rightarrow> f_integral int_trunc fmt f
      | RoundAway \<Rightarrow> f_integral int_away fmt f
      | RoundOdd \<Rightarrow> 0)"

definition fmovImmToSingle :: "Core \<Rightarrow> u32 \<Rightarrow> Core" where
  "fmovImmToSingle core inst =
     (let data = inst_13_20 inst;
          reg = getReg SingleFloat core (inst_Rd inst);
          reg = set_sign SingleFloat (testBit 7 data) reg;
          reg = set_exponent SingleFloat (ucast ((if testBit 6 data then 0x7C else 0x80) OR bitRange 4 5 data)) reg;
          reg = set_mantissa SingleFloat (ucast (shl (bitRange 0 3 data) 19)) reg
      in getRegRef SingleFloat (inst_Rd inst) reg core)"

definition fmovImmToDouble :: "Core \<Rightarrow> u32 \<Rightarrow> Core" where
  "fmovImmToDouble core inst =
     (let data = ucast (inst_13_20 inst) :: u64;
          reg = getReg DoubleFloat core (inst_Rd inst);
          reg = set_sign DoubleFloat (testBit 7 data) reg;
          reg = set_exponent DoubleFloat ((if testBit 6 data then 0x3FC else 0x400) OR bitRange 4 5 data) reg;
          reg = set_mantissa DoubleFloat (shl (bitRange 0 3 data) 48) reg
      in getRegRef DoubleFloat (inst_Rd inst) reg core)"

definition floatMoveGeneric :: "FloatFlags list \<Rightarrow> Core \<Rightarrow> u32 \<Rightarrow> Core" where
  "floatMoveGeneric flags core inst =
     (let fmt = source_fmt flags;
          reg = getReg fmt core (inst_Rn inst);
          reg = (if FloatNegate \<in> set flags then set_sign fmt (\<not> f_sign fmt reg) reg
                 else if FloatAbsolute \<in> set flags then set_sign fmt False reg else reg)
      in getRegRef fmt (inst_Rd inst) reg core)"

definition fmovRegToSingle :: "Core \<Rightarrow> u32 \<Rightarrow> Core" where
  "fmovRegToSingle core inst = floatMoveGeneric [FloatSingleWidthSource] core inst"

definition fabsSingle :: "Core \<Rightarrow> u32 \<Rightarrow> Core" where
  "fabsSingle core inst = floatMoveGeneric [FloatSingleWidthSource, FloatAbsolute] core inst"

definition fnegSingle :: "Core \<Rightarrow> u32 \<Rightarrow> Core" where
  "fnegSingle core inst = floatMoveGeneric [FloatSingleWidthSource, FloatNegate] core inst"

definition fmovRegToDouble :: "Core \<Rightarrow> u32 \<Rightarrow> Core" where
  "fmovRegToDouble core inst = floatMoveGeneric [FloatDoubleWidthSource] core inst"

definition fabsDouble :: "Core \<Rightarrow> u32 \<Rightarrow> Core" where
  "fabsDouble core inst = floatMoveGeneric [FloatDoubleWidthSource, FloatAbsolute] core inst"

definition fnegDouble :: "Core \<Rightarrow> u32 \<Rightarrow> Core" where
  "fnegDouble core inst = floatMoveGeneric [FloatDoubleWidthSource, FloatNegate] core inst"

definition floatRoundGeneric :: "FloatFlags list \<Rightarrow> RoundingMode \<Rightarrow> HostFP \<Rightarrow> Core \<Rightarrow> u32 \<Rightarrow> Core" where
  "floatRoundGeneric flags md host core inst =
     (let fmt = source_fmt flags;
          reg = getReg fmt core (inst_Rn inst)
      in if isNaN fmt reg \<or> isInfinity fmt reg \<or> isZero fmt reg then getRegRef fmt (inst_Rd inst) reg core
         else let roundingMode = (if FloatUseFPCR \<in> set flags then RoundNegInf else md)
              in getRegRef fmt (inst_Rd inst) (roundFloat host fmt reg roundingMode) core)"

definition frintnSingle :: "HostFP \<Rightarrow> Core \<Rightarrow> u32 \<Rightarrow> Core" where
  "frintnSingle host core inst = floatRoundGeneric [FloatSingleWidthSource] RoundEven host core inst"

definition frintpSingle :: "HostFP \<Rightarrow> Core \<Rightarrow> u32 \<Rightarrow> Core" where
  "frintpSingle host core inst = floatRoundGeneric [FloatSingleWidthSource] RoundPosInf host core inst"

definition frintmSingle :: "HostFP \<Rightarrow> Core \<Rightarrow> u32 \<Rightarrow> Core" where
  "frintmSingle host core inst = floatRoundGeneric [FloatSingleWidthSource] RoundNegInf host core inst"

definition frintzSingle :: "HostFP \<Rightarrow> Core \<Rightarrow> u32 \<Rightarrow> Core" where
  "frintzSingle host core inst = floatRoundGeneric [FloatSingleWidthSource] RoundZero host core inst"

definition frintaSingle :: "HostFP \<Rightarrow> Core \<Rightarrow> u32 \<Rightarrow> Core" where
  "frintaSingle host core inst = floatRoundGeneric [FloatSingleWidthSource] RoundAway host core inst"

definition frintxSingle :: "HostFP \<Rightarrow> Core \<Rightarrow> u32 \<Rightarrow> Core" where
  "frintxSingle host core inst = floatRoundGeneric [FloatSingleWidthSource, FloatExact, FloatUseFPCR] RoundNegInf host core inst"

definition frintiSingle :: "HostFP \<Rightarrow> Core \<Rightarrow> u32 \<Rightarrow> Core" where
  "frintiSingle host core inst = floatRoundGeneric [FloatSingleWidthSource, FloatUseFPCR] RoundNegInf host core inst"

definition frintnDouble :: "HostFP \<Rightarrow> Core \<Rightarrow> u32 \<Rightarrow> Core" where
  "frintnDouble host core inst = floatRoundGeneric [FloatDoubleWidthSource] RoundEven host core inst"

definition frintpDouble :: "HostFP \<Rightarrow> Core \<Rightarrow> u32 \<Rightarrow> Core" where
  "frintpDouble host core inst = floatRoundGeneric [FloatDoubleWidthSource] RoundPosInf host core inst"

definition frintmDouble :: "HostFP \<Rightarrow> Core \<Rightarrow> u32 \<Rightarrow> Core" where
  "frintmDouble host core inst = floatRoundGeneric [FloatDoubleWidthSource] RoundNegInf host core inst"

definition frintzDouble :: "HostFP \<Rightarrow> Core \<Rightarrow> u32 \<Rightarrow> Core" where
  "frintzDouble host core inst = floatRoundGeneric [FloatDoubleWidthSource] RoundZero host core inst"

definition frintaDouble :: "HostFP \<Rightarrow> Core \<Rightarrow> u32 \<Rightarrow> Core" where
  "frintaDouble host core inst = floatRoundGeneric [FloatDoubleWidthSource] RoundAway host core inst"

definition frintxDouble :: "HostFP \<Rightarrow> Core \<Rightarrow> u32 \<Rightarrow> Core" where
  "frintxDouble host core inst = floatRoundGeneric [FloatDoubleWidthSource, FloatExact, FloatUseFPCR] RoundNegInf host core inst"

definition frintiDouble :: "HostFP \<Rightarrow> Core \<Rightarrow> u32 \<Rightarrow> Core" where
  "frintiDouble host core inst = floatRoundGeneric [FloatDoubleWidthSource, FloatUseFPCR] RoundNegInf host core inst"

definition floatSqrtGeneric :: "FloatFlags list \<Rightarrow> Core \<Rightarrow> u32 \<Rightarrow> Core" where
  "floatSqrtGeneric flags core inst =
     (let fmt = source_fmt flags;
          reg = getReg fmt core (inst_Rn inst);
          reg = (if isNaN fmt reg then reg
                 else if isZero fmt reg then reg
                 else if isPositiveInfinity fmt reg then reg
                 else if isNegative fmt reg then generateQNaN fmt
                 else f_sqrt fmt reg)
      in getRegRef fmt (inst_Rd inst) reg core)"

definition fsqrtSingle :: "Core \<Rightarrow> u32 \<Rightarrow> Core" where
  "fsqrtSingle core inst = floatSqrtGeneric [FloatSingleWidthSource] core inst"

definition fsqrtDouble :: "Core \<Rightarrow> u32 \<Rightarrow> Core" where
  "fsqrtDouble core inst = floatSqrtGeneric [FloatDoubleWidthSource] core inst"

text \<open>The exponent is an unsigned 64-bit number: it wraps around below the bias, and the assignment to the field drops the upper bits.\<close>

definition floatConvertGeneric :: "FloatFlags list \<Rightarrow> Core \<Rightarrow> u32 \<Rightarrow> Core" where
  "floatConvertGeneric flags core inst =
     (let (sgn, ex, ma) =
        (if FloatHalfWidthSource \<in> set flags then
           let reg = getReg HalfFloat core (inst_Rn inst)
           in (f_sign HalfFloat reg, f_exponent HalfFloat reg - 15, shl (f_mantissa HalfFloat reg) 42)
         else if FloatSingleWidthSource \<in> set flags then
           let reg = getReg SingleFloat core (inst_Rn inst)
           in (f_sign SingleFloat reg, f_exponent SingleFloat reg - 127, shl (f_mantissa SingleFloat reg) 29)
         else
           let reg = getReg DoubleFloat core (inst_Rn inst)
           in (f_sign DoubleFloat reg, f_exponent DoubleFloat reg - 1023, f_mantissa DoubleFloat reg))
      in if FloatHalfWidthDest \<in> set flags then
           let reg = getReg HalfFloat core (inst_Rd inst);
               reg = set_sign HalfFloat sgn reg;
               reg = set_exponent HalfFloat (ex + 15) reg;
               reg = set_mantissa HalfFloat (shr ma 42) reg
           in getRegRef HalfFloat (inst_Rd inst) reg core
         else if FloatSingleWidthDest \<in> set flags then
           let reg = getReg SingleFloat core (inst_Rd inst);
               reg = set_sign SingleFloat sgn reg;
               reg = set_exponent SingleFloat (ex + 127) reg;
               reg = set_mantissa SingleFloat (shr ma 29) reg
           in getRegRef SingleFloat (inst_Rd inst) reg core
         else
           let reg = getReg DoubleFloat core (inst_Rd inst);
               reg = set_sign DoubleFloat sgn reg;
               reg = set_exponent DoubleFloat (ex + 1023) reg;
               reg = set_mantissa DoubleFloat ma reg
           in getRegRef DoubleFloat (inst_Rd inst) reg core)"

definition fcvtSingleToDouble :: "Core \<Rightarrow> u32 \<Rightarrow> Core" where
  "fcvtSingleToDouble core inst = floatConvertGeneric [FloatSingleWidthSource, FloatDoubleWidthDest] core inst"

definition fcvtSingleToHalf :: "Core \<Rightarrow> u32 \<Rightarrow> Core" where
  "fcvtSingleToHalf core inst = floatConvertGeneric [FloatSingleWidthSource, FloatHalfWidthDest] core inst"

definition fcvtDoubleToSingle :: "Core \<Rightarrow> u32 \<Rightarrow> Core" where
  "fcvtDoubleToSingle core inst = floatConvertGeneric [FloatDoubleWidthSource, FloatSingleWidthDest] core inst"

definition fcvtDoubleToHalf :: "Core \<Rightarrow> u32 \<Rightarrow> Core" where
  "fcvtDoubleToHalf core inst = floatConvertGeneric [FloatDoubleWidthSource, FloatHalfWidthDest] core inst"

definition fcvtHalfToSingle :: "Core \<Rightarrow> u32 \<Rightarrow> Core" where
  "fcvtHalfToSingle core inst = floatConvertGeneric [FloatHalfWidthSource, FloatSingleWidthDest] core inst"

definition fcvtHalfToDouble :: "Core \<Rightarrow> u32 \<Rightarrow> Core" where
  "fcvtHalfToDouble core inst = floatConvertGeneric [FloatDoubleWidthSource, FloatDoubleWidthDest] core inst"

definition floatMulGeneric :: "FloatFlags list \<Rightarrow> HostFP \<Rightarrow> Core \<Rightarrow> u32 \<Rightarrow> Core" where
  "floatMulGeneric flags host core inst =
     (let fmt = source_fmt flags;
          reg1 = getReg fmt core (inst_Rn inst);
          reg2 = getReg fmt core (inst_Rm inst);
          result =
            (if isInfinity fmt reg1 \<and> isZero fmt reg2 \<or> isZero fmt reg1 \<and> isInfinity fmt reg2 then generateQNaN fmt
             else if isInfinity fmt reg1 \<or> isInfinity fmt reg2 then
               (if f_sign fmt reg1 \<noteq> f_sign fmt reg2 then f_negate fmt (f_infinity fmt) else f_infinity fmt)
             else if isZero fmt reg1 \<or> isZero fmt reg2 then
               (if f_sign fmt reg1 = f_sign fmt reg2 then getZero else f_negate fmt getZero)
             else f_mul host fmt reg1 reg2);
          result = (if FloatNegate \<in> set flags then f_negate fmt result else result)
      in getRegRef fmt (inst_Rd inst) result core)"

definition fmulSingle :: "HostFP \<Rightarrow> Core \<Rightarrow> u32 \<Rightarrow> Core" where
  "fmulSingle host core inst = floatMulGeneric [FloatSingleWidthSource] host core inst"

definition fnmulSingle :: "HostFP \<Rightarrow> Core \<Rightarrow> u32 \<Rightarrow> Core" where
  "fnmulSingle host core inst = floatMulGeneric [FloatSingleWidthSource, FloatNegate] host core inst"

definition fmulDouble :: "HostFP \<Rightarrow> Core \<Rightarrow> u32 \<Rightarrow> Core" where
  "fmulDouble host core inst = floatMulGeneric [FloatDoubleWidthSource] host core inst"

definition fnmulDouble :: "HostFP \<Rightarrow> Core \<Rightarrow> u32 \<Rightarrow> Core" where
  "fnmulDouble host core inst = floatMulGeneric [FloatDoubleWidthSource, FloatNegate] host core inst"

definition floatDivGeneric :: "FloatFlags list \<Rightarrow> HostFP \<Rightarrow> Core \<Rightarrow> u32 \<Rightarrow> Core" where
  "floatDivGeneric flags host core inst =
     (let fmt = source_fmt flags;
          reg1 = getReg fmt core (inst_Rn inst);
          reg2 = getReg fmt core (inst_Rm inst);
          result =
            (if isInfinity fmt reg1 \<and> isInfinity fmt reg2 \<or> isZero fmt reg1 \<and> isZero fmt reg2 then generateQNaN fmt
             else if isZero fmt reg2 then
               (if f_sign fmt reg1 = f_sign fmt reg2 then getZero else f_negate fmt getZero)
             else if isInfinity fmt reg1 then
               (if f_sign fmt reg1 \<noteq> f_sign fmt reg2 then f_negate fmt (f_infinity fmt) else f_infinity fmt)
             else if isZero fmt reg1 \<or> isInfinity fmt reg2 then
               (if f_sign fmt reg1 = f_sign fmt reg2 then getZero else f_negate fmt getZero)
             else f_div host fmt reg1 reg2)
      in getRegRef fmt (inst_Rd inst) result core)"

definition fdivSingle :: "HostFP \<Rightarrow> Core \<Rightarrow> u32 \<Rightarrow> Core" where
  "fdivSingle host core inst = floatDivGeneric [FloatSingleWidthSource] host core inst"

definition fdivDouble :: "HostFP \<Rightarrow> Core \<Rightarrow> u32 \<Rightarrow> Core" where
  "fdivDouble host core inst = floatDivGeneric [FloatDoubleWidthSource] host core inst"

definition floatMaxGeneric :: "FloatFlags list \<Rightarrow> Core \<Rightarrow> u32 \<Rightarrow> Core" where
  "floatMaxGeneric flags core inst =
     (let fmt = source_fmt flags;
          reg1 = getReg fmt core (inst_Rn inst);
          reg2 = getReg fmt core (inst_Rm inst);
          (reg1, reg2) =
            (if FloatCompareQNaNs \<in> set flags then
               if isQuietNaN fmt reg1 \<and> \<not> isQuietNaN fmt reg2 then (f_negate fmt (f_infinity fmt), reg2)
               else if \<not> isQuietNaN fmt reg1 \<and> isQuietNaN fmt reg2 then (reg1, f_negate fmt (f_infinity fmt))
               else (reg1, reg2)
             else (reg1, reg2));
          result = (if f_less fmt reg2 reg1 then reg1 else reg2);
          result = (if f_eq fmt result 0 \<and> (isPositive fmt reg1 \<or> isPositive fmt reg2) then 0 else result)
      in getRegRef fmt (inst_Rd inst) result core)"

definition fmaxSingle :: "Core \<Rightarrow> u32 \<Rightarrow> Core" where
  "fmaxSingle core inst = floatMaxGeneric [FloatSingleWidthSource] core inst"

definition fmaxnmSingle :: "Core \<Rightarrow> u32 \<Rightarrow> Core" where
  "fmaxnmSingle core inst = floatMaxGeneric [FloatSingleWidthSource, FloatCompareQNaNs] core inst"

definition fmaxDouble :: "Core \<Rightarrow> u32 \<Rightarrow> Core" where
  "fmaxDouble core inst = floatMaxGeneric [FloatDoubleWidthSource] core inst"

definition fmaxnmDouble :: "Core \<Rightarrow> u32 \<Rightarrow> Core" where
  "fmaxnmDouble core inst = floatMaxGeneric [FloatDoubleWidthSource, FloatCompareQNaNs] core inst"

definition floatMinGeneric :: "FloatFlags list \<Rightarrow> Core \<Rightarrow> u32 \<Rightarrow> Core" where
  "floatMinGeneric flags core inst =
     (let fmt = source_fmt flags;
          reg1 = getReg fmt core (inst_Rn inst);
          reg2 = getReg fmt core (inst_Rm inst);
          (reg1, reg2) =
            (if FloatCompareQNaNs \<in> set flags then
               if isQuietNaN fmt reg1 \<and> \<not> isQuietNaN fmt reg2 then (f_infinity fmt, reg2)
               else if \<not> isQuietNaN fmt reg1 \<and> isQuietNaN fmt reg2 then (reg1, f_infinity fmt)
               else (reg1, reg2)
             else (reg1, reg2));
          result = (if f_less fmt reg1 reg2 then reg1 else reg2);
          result = (if f_eq fmt result 0 \<and> (isNegative fmt reg1 \<or> isNegative fmt reg2) then f_negate fmt 0 else result)
      in getRegRef fmt (inst_Rd inst) result core)"

definition fminSingle :: "Core \<Rightarrow> u32 \<Rightarrow> Core" where
  "fminSingle core inst = floatMinGeneric [FloatSingleWidthSource] core inst"

definition fminnmSingle :: "Core \<Rightarrow> u32 \<Rightarrow> Core" where
  "fminnmSingle core inst = floatMinGeneric [FloatSingleWidthSource, FloatCompareQNaNs] core inst"

definition fminDouble :: "Core \<Rightarrow> u32 \<Rightarrow> Core" where
  "fminDouble core inst = floatMinGeneric [FloatDoubleWidthSource] core inst"

definition fminnmDouble :: "Core \<Rightarrow> u32 \<Rightarrow> Core" where
  "fminnmDouble core inst = floatMinGeneric [FloatDoubleWidthSource, FloatCompareQNaNs] core inst"

definition floatAddGeneric :: "FloatFlags list \<Rightarrow> HostFP \<Rightarrow> Core \<Rightarrow> u32 \<Rightarrow> Core" where
  "floatAddGeneric flags host core inst =
     (let fmt = source_fmt flags;
          reg1 = getReg fmt core (inst_Rn inst);
          reg2 = getReg fmt core (inst_Rm inst);
          result =
            (if isInfinity fmt reg1 \<and> isInfinity fmt reg2 \<and> f_sign fmt reg1 \<noteq> f_sign fmt reg2 then generateQNaN fmt
             else if isInfinity fmt reg1 \<and> isInfinity fmt reg2 then reg1
             else if isZero fmt reg1 \<and> isZero fmt reg2 \<and> f_sign fmt reg1 = f_sign fmt reg2 then reg1
             else f_add host fmt reg1 reg2)
      in getRegRef fmt (inst_Rd inst) result core)"

definition faddSingle :: "HostFP \<Rightarrow> Core \<Rightarrow> u32 \<Rightarrow> Core" where
  "faddSingle host core inst = floatAddGeneric [FloatSingleWidthSource] host core inst"

definition faddDouble :: "HostFP \<Rightarrow> Core \<Rightarrow> u32 \<Rightarrow> Core" where
  "faddDouble host core inst = floatAddGeneric [FloatDoubleWidthSource] host core inst"

definition floatSubGeneric :: "FloatFlags list \<Rightarrow> HostFP \<Rightarrow> Core \<Rightarrow> u32 \<Rightarrow> Core" where
  "floatSubGeneric flags host core inst =
     (let fmt = source_fmt flags;
          reg1 = getReg fmt core (inst_Rn inst);
          reg2 = getReg fmt core (inst_Rm inst);
          result =
            (if isInfinity fmt reg1 \<and> isInfinity fmt reg2 \<and> f_sign fmt reg1 = f_sign fmt reg2 then generateQNaN fmt
             else if isPositiveInfinity fmt reg1 \<and> isNegativeInfinity fmt reg2 then reg1
             else if isNegativeInfinity fmt reg1 \<and> isPositiveInfinity fmt reg2 then reg1
             else if isZero fmt reg1 \<and> isZero fmt reg2 \<and> f_sign fmt reg1 \<noteq> f_sign fmt reg2 then reg1
             else f_sub host fmt reg1 reg2)
      in getRegRef fmt (inst_Rd inst) result core)"

definition fsubSingle :: "HostFP \<Rightarrow> Core \<Rightarrow> u32 \<Rightarrow> Core" where
  "fsubSingle host core inst = floatSubGeneric [FloatSingleWidthSource] host core inst"

definition fsubDouble :: "HostFP \<Rightarrow> Core \<Rightarrow> u32 \<Rightarrow> Core" where
  "fsubDouble host core inst = floatSubGeneric [FloatDoubleWidthSource] host core inst"

text \<open>The branches for infinities assign \<^verbatim>\<open>reg1\<close>, which is not used afterwards; the first NaN branch is overwritten by the branches after it.\<close>

definition floatMulAddGeneric :: "FloatFlags list \<Rightarrow> HostFP \<Rightarrow> Core \<Rightarrow> u32 \<Rightarrow> Core" where
  "floatMulAddGeneric flags host core inst =
     (let fmt = source_fmt flags;
          reg1 = getReg fmt core (inst_Rn inst);
          reg2 = getReg fmt core (inst_Rm inst);
          reg3 = getReg fmt core (inst_Ra inst);
          result = getZero;
          reg1 = (if FloatIsSub \<in> set flags then set_sign fmt (\<not> f_sign fmt reg1) reg1 else reg1);
          inf1 = isInfinity fmt reg1; zero1 = isZero fmt reg1; sign1 = isNegative fmt reg1;
          inf2 = isInfinity fmt reg2; zero2 = isZero fmt reg2; sign2 = isNegative fmt reg2;
          inf3 = isInfinity fmt reg3; zero3 = isZero fmt reg3; sign3 = isNegative fmt reg3;
          infp = (inf1 \<or> inf2); zerop = (zero1 \<or> zero2); signp = (sign1 \<noteq> sign2);
          result = (if isQuietNaN fmt reg3 \<and> (inf1 \<and> zero2 \<or> zero1 \<and> inf2) then generateQNaN fmt else result);
          (result, reg1) =
            (if inf1 \<and> zero2 \<or> zero1 \<and> inf2 \<or> inf3 \<and> infp \<and> sign3 \<noteq> signp then (generateQNaN fmt, reg1)
             else if inf3 \<and> \<not> sign3 \<or> infp \<and> \<not> signp then (result, f_infinity fmt)
             else if inf3 \<and> sign3 \<or> infp \<and> signp then (result, f_negate fmt (f_infinity fmt))
             else if zero3 \<and> zerop \<and> sign3 = signp then (if f_sign fmt reg3 then f_negate fmt getZero else getZero, reg1)
             else (f_add host fmt reg3 (f_mul host fmt reg1 reg2), reg1));
          result = (if FloatNegate \<in> set flags then f_negate fmt result else result)
      in getRegRef fmt (inst_Rd inst) result core)"

definition fmaddSingle :: "HostFP \<Rightarrow> Core \<Rightarrow> u32 \<Rightarrow> Core" where
  "fmaddSingle host core inst = floatMulAddGeneric [FloatSingleWidthSource] host core inst"

definition fmsubSingle :: "HostFP \<Rightarrow> Core \<Rightarrow> u32 \<Rightarrow> Core" where
  "fmsubSingle host core inst = floatMulAddGeneric [FloatSingleWidthSource, FloatIsSub] host core inst"

definition fnmaddSingle :: "HostFP \<Rightarrow> Core \<Rightarrow> u32 \<Rightarrow> Core" where
  "fnmaddSingle host core inst = floatMulAddGeneric [FloatSingleWidthSource, FloatNegate] host core inst"

definition fnmsubSingle :: "HostFP \<Rightarrow> Core \<Rightarrow> u32 \<Rightarrow> Core" where
  "fnmsubSingle host core inst = floatMulAddGeneric [FloatSingleWidthSource, FloatNegate, FloatIsSub] host core inst"

definition fmaddDouble :: "HostFP \<Rightarrow> Core \<Rightarrow> u32 \<Rightarrow> Core" where
  "fmaddDouble host core inst = floatMulAddGeneric [FloatDoubleWidthSource] host core inst"

definition fmsubDouble :: "HostFP \<Rightarrow> Core \<Rightarrow> u32 \<Rightarrow> Core" where
  "fmsubDouble host core inst = floatMulAddGeneric [FloatDoubleWidthSource, FloatIsSub] host core inst"

definition fnmaddDouble :: "HostFP \<Rightarrow> Core \<Rightarrow> u32 \<Rightarrow> Core" where
  "fnmaddDouble host core inst = floatMulAddGeneric [FloatDoubleWidthSource, FloatNegate] host core inst"

definition fnmsubDouble :: "HostFP \<Rightarrow> Core \<Rightarrow> u32 \<Rightarrow> Core" where
  "fnmsubDouble host core inst = floatMulAddGeneric [FloatDoubleWidthSource, FloatNegate, FloatIsSub] host core inst"

definition floatCondSelectGeneric :: "FloatFlags list \<Rightarrow> Core \<Rightarrow> u32 \<Rightarrow> Core" where
  "floatCondSelectGeneric flags core inst =
     (let cond = to_Condition (inst_cond_comp inst);
          fmt = source_fmt flags
      in getRegRef fmt (inst_Rd inst)
           (if testCondition (PSTATE core) cond then getReg fmt core (inst_Rn inst) else getReg fmt core (inst_Rm inst)) core)"

definition fcselSingle :: "Core \<Rightarrow> u32 \<Rightarrow> Core" where
  "fcselSingle core inst = floatCondSelectGeneric [FloatSingleWidthSource] core inst"

definition fcselDouble :: "Core \<Rightarrow> u32 \<Rightarrow> Core" where
  "fcselDouble core inst = floatCondSelectGeneric [FloatDoubleWidthSource] core inst"

definition set_NZCV :: "bool \<Rightarrow> bool \<Rightarrow> bool \<Rightarrow> bool \<Rightarrow> Core \<Rightarrow> Core" where
  "set_NZCV n z c v core = core\<lparr>PSTATE := (PSTATE core)\<lparr>PS_N := n, PS_Z := z, PS_C := c, PS_V := v\<rparr>\<rparr>"

text \<open>\<^verbatim>\<open>bitsSigned\<close> reads the bits of a value as a number in two's complement.\<close>

definition bitsSigned :: "Format \<Rightarrow> u64 \<Rightarrow> int" where
  "bitsSigned fmt x = signed_take_bit (sign_pos fmt) (uint x)"

definition floatCompareGeneric :: "FloatFlags list \<Rightarrow> Core \<Rightarrow> u32 \<Rightarrow> Core" where
  "floatCompareGeneric flags core inst =
     (let cond = to_Condition (inst_cond_comp inst);
          fmt = source_fmt flags;
          reg1 = getReg fmt core (inst_Rn inst);
          reg2 = getReg fmt core (inst_Rm inst);
          reg2 = (if FloatUseZero \<in> set flags then 0 else reg2)
      in if FloatConditional \<in> set flags \<and> \<not> testCondition (PSTATE core) cond
         then set_NZCV (testBit 3 inst) (testBit 2 inst) (testBit 1 inst) (testBit 0 inst) core
         else if (if FloatGenerateExceptions \<in> set flags then isNaN fmt reg1 \<or> isNaN fmt reg2
                  else isSignalingNaN fmt reg1 \<or> isSignalingNaN fmt reg2)
         then set_NZCV False False True True core
         else if bitsSigned fmt reg1 = bitsSigned fmt reg2 then set_NZCV False True True False core
         else if bitsSigned fmt reg1 < bitsSigned fmt reg2 then set_NZCV True False False False core
         else if bitsSigned fmt reg1 > bitsSigned fmt reg2 then set_NZCV False False True False core
         else core)"

definition fcmpSingle :: "Core \<Rightarrow> u32 \<Rightarrow> Core" where
  "fcmpSingle core inst = floatCompareGeneric [FloatSingleWidthSource] core inst"

definition fcmpZeroSingle :: "Core \<Rightarrow> u32 \<Rightarrow> Core" where
  "fcmpZeroSingle core inst = floatCompareGeneric [FloatSingleWidthSource, FloatUseZero] core inst"

definition fcmpeSingle :: "Core \<Rightarrow> u32 \<Rightarrow> Core" where
  "fcmpeSingle core inst = floatCompareGeneric [FloatSingleWidthSource, FloatGenerateExceptions] core inst"

definition fcmpeZeroSingle :: "Core \<Rightarrow> u32 \<Rightarrow> Core" where
  "fcmpeZeroSingle core inst = floatCompareGeneric [FloatSingleWidthSource, FloatUseZero, FloatGenerateExceptions] core inst"

definition fccmpSingle :: "Core \<Rightarrow> u32 \<Rightarrow> Core" where
  "fccmpSingle core inst = floatCompareGeneric [FloatSingleWidthSource, FloatConditional] core inst"

definition fccmpeSingle :: "Core \<Rightarrow> u32 \<Rightarrow> Core" where
  "fccmpeSingle core inst = floatCompareGeneric [FloatSingleWidthSource, FloatGenerateExceptions, FloatConditional] core inst"

definition fcmpDouble :: "Core \<Rightarrow> u32 \<Rightarrow> Core" where
  "fcmpDouble core inst = floatCompareGeneric [FloatDoubleWidthSource] core inst"

definition fcmpZeroDouble :: "Core \<Rightarrow> u32 \<Rightarrow> Core" where
  "fcmpZeroDouble core inst = floatCompareGeneric [FloatDoubleWidthSource, FloatUseZero] core inst"

definition fcmpeDouble :: "Core \<Rightarrow> u32 \<Rightarrow> Core" where
  "fcmpeDouble core inst = floatCompareGeneric [FloatDoubleWidthSource, FloatGenerateExceptions] core inst"

definition fcmpeZeroDouble :: "Core \<Rightarrow> u32 \<Rightarrow> Core" where
  "fcmpeZeroDouble core inst = floatCompareGeneric [FloatDoubleWidthSource, FloatUseZero, FloatGenerateExceptions] core inst"

definition fccmpDouble :: "Core \<Rightarrow> u32 \<Rightarrow> Core" where
  "fccmpDouble core inst = floatCompareGeneric [FloatDoubleWidthSource, FloatConditional] core inst"

definition fccmpeDouble :: "Core \<Rightarrow> u32 \<Rightarrow> Core" where
  "fccmpeDouble core inst = floatCompareGeneric [FloatDoubleWidthSource, FloatGenerateExceptions, FloatConditional] core inst"

definition convert_fmt :: "ConvertFlags list \<Rightarrow> Format" where
  "convert_fmt flags = (if ConvertDouble \<in> set flags then DoubleFloat else SingleFloat)"

text \<open>
  The two loops that move the leading one bit of the value to the position of the implicit one; \<open>n\<close> is that position. Each runs at most 64
  times, the bound on the second, which is entered with a value that is not 0 and is below \<open>2 ^ (n + 1)\<close>.
\<close>

function shift_down :: "nat \<Rightarrow> u64 \<Rightarrow> u64 \<Rightarrow> u64 \<times> u64" where
  "shift_down n val bias = (if val \<ge> shl 1 (n + 1) then shift_down n (shr val 1) (bias + 1) else (val, bias))"
  by auto
termination
proof (relation "measure (\<lambda>(n, val, bias). unat val)")
  fix n :: nat and val bias :: u64
  assume "shl 1 (n + 1) \<le> val"
  moreover have "(0 :: u64) < shl 1 (n + 1)"
    by (rule word_neq_0_conv [THEN iffD1]) (simp add: shl_def push_bit_eq_mult)
  ultimately have "0 < unat val" by (simp add: word_le_nat_alt word_less_nat_alt)
  then show "((n, shr val 1, bias + 1), n, val, bias) \<in> measure (\<lambda>(n, val, bias). unat val)"
    by (simp add: shr_less unat_drop_bit_eq flip: drop_bit_Suc) (simp add: drop_bit_eq_div)
qed simp

declare shift_down.simps [simp del]

fun shift_up :: "nat \<Rightarrow> nat \<Rightarrow> u64 \<Rightarrow> u64 \<Rightarrow> u64 \<times> u64" where
  "shift_up 0 n val bias = (val, bias)"
| "shift_up (Suc k) n val bias = (if \<not> testBit n val then shift_up k n (shl val 1) (bias + 1) else (val, bias))"

definition floatConvIntToFloatGeneric :: "ConvertFlags list \<Rightarrow> Core \<Rightarrow> u32 \<Rightarrow> Core" where
  "floatConvIntToFloatGeneric flags core inst =
     (let val = GPRegs core (inst_Rn inst);
          is64 = (Convert64Bit \<in> set flags);
          fmt = convert_fmt flags;
          val = (if \<not> is64 then val AND bitmask 32 else val);
          reg = getReg fmt core (inst_Rd inst);
          isNeg = (ConvertSigned \<in> set flags \<and> testBit (if is64 then 63 else 31) val);
          reg = (if isNeg then set_sign fmt True reg else reg);
          val = (if isNeg then NOT val + 1 else val);
          base = (if fmt = DoubleFloat then 1023 + 52 else 127 + 23);
          (ex, ma) =
            (if val \<noteq> 0 then
               if val \<ge> shl 1 (mant_bits fmt + 1) then
                 let (v, bias) = shift_down (mant_bits fmt) val 0 in (base + bias, v)
               else
                 let (v, bias) = shift_up 64 (mant_bits fmt) val 0 in (base - bias, v)
             else (0, 0));
          reg = set_exponent fmt ex reg;
          reg = set_mantissa fmt ma reg
      in getRegRef fmt (inst_Rd inst) reg core)"

definition ucvtf32ToSingle :: "Core \<Rightarrow> u32 \<Rightarrow> Core" where
  "ucvtf32ToSingle core inst = floatConvIntToFloatGeneric [] core inst"

definition scvtf32ToSingle :: "Core \<Rightarrow> u32 \<Rightarrow> Core" where
  "scvtf32ToSingle core inst = floatConvIntToFloatGeneric [ConvertSigned] core inst"

definition ucvtf32ToDouble :: "Core \<Rightarrow> u32 \<Rightarrow> Core" where
  "ucvtf32ToDouble core inst = floatConvIntToFloatGeneric [ConvertDouble] core inst"

definition scvtf32ToDouble :: "Core \<Rightarrow> u32 \<Rightarrow> Core" where
  "scvtf32ToDouble core inst = floatConvIntToFloatGeneric [ConvertDouble, ConvertSigned] core inst"

definition ucvtf64ToSingle :: "Core \<Rightarrow> u32 \<Rightarrow> Core" where
  "ucvtf64ToSingle core inst = floatConvIntToFloatGeneric [Convert64Bit] core inst"

definition scvtf64ToSingle :: "Core \<Rightarrow> u32 \<Rightarrow> Core" where
  "scvtf64ToSingle core inst = floatConvIntToFloatGeneric [Convert64Bit, ConvertSigned] core inst"

definition ucvtf64ToDouble :: "Core \<Rightarrow> u32 \<Rightarrow> Core" where
  "ucvtf64ToDouble core inst = floatConvIntToFloatGeneric [ConvertDouble, Convert64Bit] core inst"

definition scvtf64ToDouble :: "Core \<Rightarrow> u32 \<Rightarrow> Core" where
  "scvtf64ToDouble core inst = floatConvIntToFloatGeneric [ConvertDouble, Convert64Bit, ConvertSigned] core inst"

definition floatIntMovGeneric :: "IntMovFlags list \<Rightarrow> Core \<Rightarrow> u32 \<Rightarrow> Core" where
  "floatIntMovGeneric flags core inst =
     (if IntMovToInt \<in> set flags then
        if IntMovFloat \<in> set flags then set_GPR (inst_Rd inst) (getReg SingleFloat core (inst_Rn inst)) core
        else if IntMovDouble \<in> set flags then set_GPR (inst_Rd inst) (getReg DoubleFloat core (inst_Rn inst)) core
        else set_GPR (inst_Rd inst) (VReg_D1 (VRegs core (inst_Rn inst))) core
      else
        if IntMovFloat \<in> set flags then getRegRef SingleFloat (inst_Rd inst) (GPRegs core (inst_Rn inst)) core
        else if IntMovDouble \<in> set flags then getRegRef DoubleFloat (inst_Rd inst) (GPRegs core (inst_Rn inst)) core
        else set_VReg (inst_Rd inst) ((VRegs core (inst_Rd inst))\<lparr>VReg_D1 := GPRegs core (inst_Rn inst)\<rparr>) core)"

definition fmovSingleTo32 :: "Core \<Rightarrow> u32 \<Rightarrow> Core" where
  "fmovSingleTo32 core inst = floatIntMovGeneric [IntMovFloat, IntMovToInt] core inst"

definition fmov32ToSingle :: "Core \<Rightarrow> u32 \<Rightarrow> Core" where
  "fmov32ToSingle core inst = floatIntMovGeneric [IntMovFloat] core inst"

definition fmovDoubleto64 :: "Core \<Rightarrow> u32 \<Rightarrow> Core" where
  "fmovDoubleto64 core inst = floatIntMovGeneric [IntMovDouble, IntMovToInt] core inst"

definition fmov64ToDouble :: "Core \<Rightarrow> u32 \<Rightarrow> Core" where
  "fmov64ToDouble core inst = floatIntMovGeneric [IntMovDouble] core inst"

definition fmovUpperTo64 :: "Core \<Rightarrow> u32 \<Rightarrow> Core" where
  "fmovUpperTo64 core inst = floatIntMovGeneric [IntMovUpper, IntMovToInt] core inst"

definition fmov64ToUpper :: "Core \<Rightarrow> u32 \<Rightarrow> Core" where
  "fmov64ToUpper core inst = floatIntMovGeneric [IntMovUpper] core inst"

text \<open>
  \<^verbatim>\<open>temp\<close> is a \<^verbatim>\<open>double\<close>; the value of a single register is widened, and the rounding functions of \<^verbatim>\<open>math.h\<close> give the same result at
  either width.
\<close>

definition floatConvertToIntGeneric :: "ConvertFlags list \<Rightarrow> RoundingMode \<Rightarrow> HostFP \<Rightarrow> Core \<Rightarrow> u32 \<Rightarrow> Core" where
  "floatConvertToIntGeneric flags md host core inst =
     (let fmt = convert_fmt flags;
          reg = getReg fmt core (inst_Rn inst);
          temp = (if fmt = DoubleFloat then reg else f_widen host reg);
          temp = roundFloat host DoubleFloat temp md;
          data = f_to_int host (ConvertSigned \<in> set flags) (Convert64Bit \<in> set flags) temp
      in set_GPR (inst_Rd inst) data core)"

definition fcvtnsSingleTo32Int :: "HostFP \<Rightarrow> Core \<Rightarrow> u32 \<Rightarrow> Core" where
  "fcvtnsSingleTo32Int host core inst = floatConvertToIntGeneric [ConvertSigned] RoundEven host core inst"

definition fcvtnuSingleTo32Int :: "HostFP \<Rightarrow> Core \<Rightarrow> u32 \<Rightarrow> Core" where
  "fcvtnuSingleTo32Int host core inst = floatConvertToIntGeneric [] RoundEven host core inst"

definition fcvtasSingleTo32Int :: "HostFP \<Rightarrow> Core \<Rightarrow> u32 \<Rightarrow> Core" where
  "fcvtasSingleTo32Int host core inst = floatConvertToIntGeneric [ConvertSigned] RoundAway host core inst"

definition fcvtauSingleTo32Int :: "HostFP \<Rightarrow> Core \<Rightarrow> u32 \<Rightarrow> Core" where
  "fcvtauSingleTo32Int host core inst = floatConvertToIntGeneric [] RoundAway host core inst"

definition fcvtpsSingleTo32Int :: "HostFP \<Rightarrow> Core \<Rightarrow> u32 \<Rightarrow> Core" where
  "fcvtpsSingleTo32Int host core inst = floatConvertToIntGeneric [ConvertSigned] RoundPosInf host core inst"

definition fcvtpuSingleTo32Int :: "HostFP \<Rightarrow> Core \<Rightarrow> u32 \<Rightarrow> Core" where
  "fcvtpuSingleTo32Int host core inst = floatConvertToIntGeneric [] RoundPosInf host core inst"

definition fcvtmsSingleTo32Int :: "HostFP \<Rightarrow> Core \<Rightarrow> u32 \<Rightarrow> Core" where
  "fcvtmsSingleTo32Int host core inst = floatConvertToIntGeneric [ConvertSigned] RoundNegInf host core inst"

definition fcvtmuSingleTo32Int :: "HostFP \<Rightarrow> Core \<Rightarrow> u32 \<Rightarrow> Core" where
  "fcvtmuSingleTo32Int host core inst = floatConvertToIntGeneric [] RoundNegInf host core inst"

definition fcvtzsSingleTo32Int :: "HostFP \<Rightarrow> Core \<Rightarrow> u32 \<Rightarrow> Core" where
  "fcvtzsSingleTo32Int host core inst = floatConvertToIntGeneric [ConvertSigned] RoundZero host core inst"

definition fcvtzuSingleTo32Int :: "HostFP \<Rightarrow> Core \<Rightarrow> u32 \<Rightarrow> Core" where
  "fcvtzuSingleTo32Int host core inst = floatConvertToIntGeneric [] RoundZero host core inst"

definition fcvtnsDoubleTo32Int :: "HostFP \<Rightarrow> Core \<Rightarrow> u32 \<Rightarrow> Core" where
  "fcvtnsDoubleTo32Int host core inst = floatConvertToIntGeneric [ConvertDouble, ConvertSigned] RoundEven host core inst"

definition fcvtnuDoubleTo32Int :: "HostFP \<Rightarrow> Core \<Rightarrow> u32 \<Rightarrow> Core" where
  "fcvtnuDoubleTo32Int host core inst = floatConvertToIntGeneric [ConvertDouble] RoundEven host core inst"

definition fcvtasDoubleTo32Int :: "HostFP \<Rightarrow> Core \<Rightarrow> u32 \<Rightarrow> Core" where
  "fcvtasDoubleTo32Int host core inst = floatConvertToIntGeneric [ConvertDouble, ConvertSigned] RoundAway host core inst"

definition fcvtauDoubleTo32Int :: "HostFP \<Rightarrow> Core \<Rightarrow> u32 \<Rightarrow> Core" where
  "fcvtauDoubleTo32Int host core inst = floatConvertToIntGeneric [ConvertDouble] RoundAway host core inst"

definition fcvtpsDoubleTo32Int :: "HostFP \<Rightarrow> Core \<Rightarrow> u32 \<Rightarrow> Core" where
  "fcvtpsDoubleTo32Int host core inst = floatConvertToIntGeneric [ConvertDouble, ConvertSigned] RoundPosInf host core inst"

definition fcvtpuDoubleTo32Int :: "HostFP \<Rightarrow> Core \<Rightarrow> u32 \<Rightarrow> Core" where
  "fcvtpuDoubleTo32Int host core inst = floatConvertToIntGeneric [ConvertDouble] RoundPosInf host core inst"

definition fcvtmsDoubleTo32Int :: "HostFP \<Rightarrow> Core \<Rightarrow> u32 \<Rightarrow> Core" where
  "fcvtmsDoubleTo32Int host core inst = floatConvertToIntGeneric [ConvertDouble, ConvertSigned] RoundNegInf host core inst"

definition fcvtmuDoubleTo32Int :: "HostFP \<Rightarrow> Core \<Rightarrow> u32 \<Rightarrow> Core" where
  "fcvtmuDoubleTo32Int host core inst = floatConvertToIntGeneric [ConvertDouble] RoundNegInf host core inst"

definition fcvtzsDoubleTo32Int :: "HostFP \<Rightarrow> Core \<Rightarrow> u32 \<Rightarrow> Core" where
  "fcvtzsDoubleTo32Int host core inst = floatConvertToIntGeneric [ConvertDouble, ConvertSigned] RoundZero host core inst"

definition fcvtzuDoubleTo32Int :: "HostFP \<Rightarrow> Core \<Rightarrow> u32 \<Rightarrow> Core" where
  "fcvtzuDoubleTo32Int host core inst = floatConvertToIntGeneric [ConvertDouble] RoundZero host core inst"

definition fcvtnsSingleTo64Int :: "HostFP \<Rightarrow> Core \<Rightarrow> u32 \<Rightarrow> Core" where
  "fcvtnsSingleTo64Int host core inst = floatConvertToIntGeneric [Convert64Bit, ConvertSigned] RoundEven host core inst"

definition fcvtnuSingleTo64Int :: "HostFP \<Rightarrow> Core \<Rightarrow> u32 \<Rightarrow> Core" where
  "fcvtnuSingleTo64Int host core inst = floatConvertToIntGeneric [Convert64Bit] RoundEven host core inst"

definition fcvtasSingleTo64Int :: "HostFP \<Rightarrow> Core \<Rightarrow> u32 \<Rightarrow> Core" where
  "fcvtasSingleTo64Int host core inst = floatConvertToIntGeneric [Convert64Bit, ConvertSigned] RoundAway host core inst"

definition fcvtauSingleTo64Int :: "HostFP \<Rightarrow> Core \<Rightarrow> u32 \<Rightarrow> Core" where
  "fcvtauSingleTo64Int host core inst = floatConvertToIntGeneric [Convert64Bit] RoundAway host core inst"

definition fcvtpsSingleTo64Int :: "HostFP \<Rightarrow> Core \<Rightarrow> u32 \<Rightarrow> Core" where
  "fcvtpsSingleTo64Int host core inst = floatConvertToIntGeneric [Convert64Bit, ConvertSigned] RoundPosInf host core inst"

definition fcvtpuSingleTo64Int :: "HostFP \<Rightarrow> Core \<Rightarrow> u32 \<Rightarrow> Core" where
  "fcvtpuSingleTo64Int host core inst = floatConvertToIntGeneric [Convert64Bit] RoundPosInf host core inst"

definition fcvtmsSingleTo64Int :: "HostFP \<Rightarrow> Core \<Rightarrow> u32 \<Rightarrow> Core" where
  "fcvtmsSingleTo64Int host core inst = floatConvertToIntGeneric [Convert64Bit, ConvertSigned] RoundNegInf host core inst"

definition fcvtmuSingleTo64Int :: "HostFP \<Rightarrow> Core \<Rightarrow> u32 \<Rightarrow> Core" where
  "fcvtmuSingleTo64Int host core inst = floatConvertToIntGeneric [Convert64Bit] RoundNegInf host core inst"

definition fcvtzsSingleTo64Int :: "HostFP \<Rightarrow> Core \<Rightarrow> u32 \<Rightarrow> Core" where
  "fcvtzsSingleTo64Int host core inst = floatConvertToIntGeneric [Convert64Bit, ConvertSigned] RoundZero host core inst"

definition fcvtzuSingleTo64Int :: "HostFP \<Rightarrow> Core \<Rightarrow> u32 \<Rightarrow> Core" where
  "fcvtzuSingleTo64Int host core inst = floatConvertToIntGeneric [Convert64Bit] RoundZero host core inst"

definition fcvtnsDoubleTo64Int :: "HostFP \<Rightarrow> Core \<Rightarrow> u32 \<Rightarrow> Core" where
  "fcvtnsDoubleTo64Int host core inst = floatConvertToIntGeneric [Convert64Bit, ConvertDouble, ConvertSigned] RoundEven host core inst"

definition fcvtnuDoubleTo64Int :: "HostFP \<Rightarrow> Core \<Rightarrow> u32 \<Rightarrow> Core" where
  "fcvtnuDoubleTo64Int host core inst = floatConvertToIntGeneric [Convert64Bit, ConvertDouble] RoundEven host core inst"

definition fcvtasDoubleTo64Int :: "HostFP \<Rightarrow> Core \<Rightarrow> u32 \<Rightarrow> Core" where
  "fcvtasDoubleTo64Int host core inst = floatConvertToIntGeneric [Convert64Bit, ConvertDouble, ConvertSigned] RoundAway host core inst"

definition fcvtauDoubleTo64Int :: "HostFP \<Rightarrow> Core \<Rightarrow> u32 \<Rightarrow> Core" where
  "fcvtauDoubleTo64Int host core inst = floatConvertToIntGeneric [Convert64Bit, ConvertDouble] RoundAway host core inst"

definition fcvtpsDoubleTo64Int :: "HostFP \<Rightarrow> Core \<Rightarrow> u32 \<Rightarrow> Core" where
  "fcvtpsDoubleTo64Int host core inst = floatConvertToIntGeneric [Convert64Bit, ConvertDouble, ConvertSigned] RoundPosInf host core inst"

definition fcvtpuDoubleTo64Int :: "HostFP \<Rightarrow> Core \<Rightarrow> u32 \<Rightarrow> Core" where
  "fcvtpuDoubleTo64Int host core inst = floatConvertToIntGeneric [Convert64Bit, ConvertDouble] RoundPosInf host core inst"

definition fcvtmsDoubleTo64Int :: "HostFP \<Rightarrow> Core \<Rightarrow> u32 \<Rightarrow> Core" where
  "fcvtmsDoubleTo64Int host core inst = floatConvertToIntGeneric [Convert64Bit, ConvertDouble, ConvertSigned] RoundNegInf host core inst"

definition fcvtmuDoubleTo64Int :: "HostFP \<Rightarrow> Core \<Rightarrow> u32 \<Rightarrow> Core" where
  "fcvtmuDoubleTo64Int host core inst = floatConvertToIntGeneric [Convert64Bit, ConvertDouble] RoundNegInf host core inst"

definition fcvtzsDoubleTo64Int :: "HostFP \<Rightarrow> Core \<Rightarrow> u32 \<Rightarrow> Core" where
  "fcvtzsDoubleTo64Int host core inst = floatConvertToIntGeneric [Convert64Bit, ConvertDouble, ConvertSigned] RoundZero host core inst"

definition fcvtzuDoubleTo64Int :: "HostFP \<Rightarrow> Core \<Rightarrow> u32 \<Rightarrow> Core" where
  "fcvtzuDoubleTo64Int host core inst = floatConvertToIntGeneric [Convert64Bit, ConvertDouble] RoundZero host core inst"

definition registerFloatInstructions :: "HostFP \<Rightarrow> (instructionID \<times> (Core \<Rightarrow> u32 \<Rightarrow> Core)) list" where
  "registerFloatInstructions host = [
     (ID_SCVTF_32_single_fixed, UNIMPLEMENTED_FUNC),
     (ID_UCVTF_32_single_fixed, UNIMPLEMENTED_FUNC),
     (ID_FCVTZS_single_32_fixed, UNIMPLEMENTED_FUNC),
     (ID_FCVTZU_single_32_fixed, UNIMPLEMENTED_FUNC),
     (ID_SCVTF_32_double_fixed, UNIMPLEMENTED_FUNC),
     (ID_UCVTF_32_double_fixed, UNIMPLEMENTED_FUNC),
     (ID_FCVTZS_double_32_fixed, UNIMPLEMENTED_FUNC),
     (ID_FCVTZU_double_32_fixed, UNIMPLEMENTED_FUNC),
     (ID_SCVTF_64_single_fixed, UNIMPLEMENTED_FUNC),
     (ID_UCVTF_64_single_fixed, UNIMPLEMENTED_FUNC),
     (ID_FCVTZS_single_64_fixed, UNIMPLEMENTED_FUNC),
     (ID_FCVTZU_single_64_fixed, UNIMPLEMENTED_FUNC),
     (ID_SCVTF_64_double_fixed, UNIMPLEMENTED_FUNC),
     (ID_UCVTF_64_double_fixed, UNIMPLEMENTED_FUNC),
     (ID_FCVTZS_double_64_fixed, UNIMPLEMENTED_FUNC),
     (ID_FCVTZU_double_64_fixed, UNIMPLEMENTED_FUNC),
     (ID_FCVTNS_single_32_int, fcvtnsSingleTo32Int host),
     (ID_FCVTNU_single_32_int, fcvtnuSingleTo32Int host),
     (ID_SCVTF_32_single_int, scvtf32ToSingle),
     (ID_UCVTF_32_single_int, ucvtf32ToSingle),
     (ID_FCVTAS_single_32_int, fcvtasSingleTo32Int host),
     (ID_FCVTAU_single_32_int, fcvtauSingleTo32Int host),
     (ID_FMOV_single_32, fmovSingleTo32),
     (ID_FMOV_32_single, fmov32ToSingle),
     (ID_FCVTPS_single_32_int, fcvtpsSingleTo32Int host),
     (ID_FCVTPU_single_32_int, fcvtpuSingleTo32Int host),
     (ID_FCVTMS_single_32_int, fcvtmsSingleTo32Int host),
     (ID_FCVTMU_single_32_int, fcvtmuSingleTo32Int host),
     (ID_FCVTZS_single_32_int, fcvtzsSingleTo32Int host),
     (ID_FCVTZU_single_32_int, fcvtzuSingleTo32Int host),
     (ID_FCVTNS_double_32_int, fcvtnsDoubleTo32Int host),
     (ID_FCVTNU_double_32_int, fcvtnuDoubleTo32Int host),
     (ID_SCVTF_32_double_int, scvtf32ToDouble),
     (ID_UCVTF_32_double_int, ucvtf32ToDouble),
     (ID_FCVTAS_double_32_int, fcvtasDoubleTo32Int host),
     (ID_FCVTAU_double_32_int, fcvtauDoubleTo32Int host),
     (ID_FCVTPS_double_32_int, fcvtpsDoubleTo32Int host),
     (ID_FCVTPU_double_32_int, fcvtpuDoubleTo32Int host),
     (ID_FCVTMS_double_32_int, fcvtmsDoubleTo32Int host),
     (ID_FCVTMU_double_32_int, fcvtmuDoubleTo32Int host),
     (ID_FCVTZS_double_32_int, fcvtzsDoubleTo32Int host),
     (ID_FCVTZU_double_32_int, fcvtzuDoubleTo32Int host),
     (ID_FCVTNS_single_64_int, fcvtnsSingleTo64Int host),
     (ID_FCVTNU_single_64_int, fcvtnuSingleTo64Int host),
     (ID_SCVTF_64_single_int, scvtf64ToSingle),
     (ID_UCVTF_64_single_int, ucvtf64ToSingle),
     (ID_FCVTAS_single_64_int, fcvtasSingleTo64Int host),
     (ID_FCVTAU_single_64_int, fcvtauSingleTo64Int host),
     (ID_FCVTPS_single_64_int, fcvtpsSingleTo64Int host),
     (ID_FCVTPU_single_64_int, fcvtpuSingleTo64Int host),
     (ID_FCVTMS_single_64_int, fcvtmsSingleTo64Int host),
     (ID_FCVTMU_single_64_int, fcvtmuSingleTo64Int host),
     (ID_FCVTZS_single_64_int, fcvtzsSingleTo64Int host),
     (ID_FCVTZU_single_64_int, fcvtzuSingleTo64Int host),
     (ID_FCVTNS_double_64_int, fcvtnsDoubleTo64Int host),
     (ID_FCVTNU_double_64_int, fcvtnuDoubleTo64Int host),
     (ID_SCVTF_64_double_int, scvtf64ToDouble),
     (ID_UCVTF_64_double_int, ucvtf64ToDouble),
     (ID_FCVTAS_double_64_int, fcvtasDoubleTo64Int host),
     (ID_FCVTAU_double_64_int, fcvtauDoubleTo64Int host),
     (ID_FMOV_double_64, fmovDoubleto64),
     (ID_FMOV_64_double, fmov64ToDouble),
     (ID_FCVTPS_double_64_int, fcvtpsDoubleTo64Int host),
     (ID_FCVTPU_double_64_int, fcvtpuDoubleTo64Int host),
     (ID_FCVTMS_double_64_int, fcvtmsDoubleTo64Int host),
     (ID_FCVTMU_double_64_int, fcvtmuDoubleTo64Int host),
     (ID_FCVTZS_double_64_int, fcvtzsDoubleTo64Int host),
     (ID_FCVTZU_double_64_int, fcvtzuDoubleTo64Int host),
     (ID_FMOV_top128_64, fmovUpperTo64),
     (ID_FMOV_64_top128, fmov64ToUpper),
     (ID_FMOV_reg_single, fmovRegToSingle),
     (ID_FABS_single, fabsSingle),
     (ID_FNEG_single, fnegSingle),
     (ID_FSQRT_single, fsqrtSingle),
     (ID_FCVT_single_double, fcvtSingleToDouble),
     (ID_FCVT_single_half, fcvtSingleToHalf),
     (ID_FRINTN_single, frintnSingle host),
     (ID_FRINTP_single, frintpSingle host),
     (ID_FRINTM_single, frintmSingle host),
     (ID_FRINTZ_single, frintzSingle host),
     (ID_FRINTA_single, frintaSingle host),
     (ID_FRINTX_single, frintxSingle host),
     (ID_FRINTI_single, frintiSingle host),
     (ID_FMOV_reg_double, fmovRegToDouble),
     (ID_FABS_double, fabsDouble),
     (ID_FNEG_double, fnegDouble),
     (ID_FSQRT_double, fsqrtDouble),
     (ID_FCVT_double_single, fcvtDoubleToSingle),
     (ID_FCVT_double_half, fcvtDoubleToHalf),
     (ID_FRINTN_double, frintnDouble host),
     (ID_FRINTP_double, frintpDouble host),
     (ID_FRINTM_double, frintmDouble host),
     (ID_FRINTZ_double, frintzDouble host),
     (ID_FRINTA_double, frintaDouble host),
     (ID_FRINTX_double, frintxDouble host),
     (ID_FRINTI_double, frintiDouble host),
     (ID_FCVT_half_single, fcvtHalfToSingle),
     (ID_FCVT_half_double, fcvtHalfToDouble),
     (ID_FCMP_single, fcmpSingle),
     (ID_FCMP_single_zero, fcmpZeroSingle),
     (ID_FCMPE_single, fcmpeSingle),
     (ID_FCMPE_single_zero, fcmpeZeroSingle),
     (ID_FCMP_double, fcmpDouble),
     (ID_FCMP_double_zero, fcmpZeroDouble),
     (ID_FCMPE_double, fcmpeDouble),
     (ID_FCMPE_double_zero, fcmpeZeroDouble),
     (ID_FMOV_imm_single, fmovImmToSingle),
     (ID_FMOV_imm_double, fmovImmToDouble),
     (ID_FCCMP_single, fccmpSingle),
     (ID_FCCMPE_single, fccmpeSingle),
     (ID_FCCMP_double, fccmpDouble),
     (ID_FCCMPE_double, fccmpeDouble),
     (ID_FMUL_single, fmulSingle host),
     (ID_FDIV_single, fdivSingle host),
     (ID_FADD_single, faddSingle host),
     (ID_FSUB_single, fsubSingle host),
     (ID_FMAX_single, fmaxSingle),
     (ID_FMIN_single, fminSingle),
     (ID_FMAXNM_single, fmaxnmSingle),
     (ID_FMINNM_single, fminnmSingle),
     (ID_FNMUL_single, fnmulSingle host),
     (ID_FMUL_double, fmulDouble host),
     (ID_FDIV_double, fdivDouble host),
     (ID_FADD_double, faddDouble host),
     (ID_FSUB_double, fsubDouble host),
     (ID_FMAX_double, fmaxDouble),
     (ID_FMIN_double, fminDouble),
     (ID_FMAXNM_double, fmaxnmDouble),
     (ID_FMINNM_double, fminnmDouble),
     (ID_FNMUL_double, fnmulDouble host),
     (ID_FCSEL_single, fcselSingle),
     (ID_FCSEL_double, fcselDouble),
     (ID_FMADD_single, fmaddSingle host),
     (ID_FMSUB_single, fmsubSingle host),
     (ID_FNMADD_single, fnmaddSingle host),
     (ID_FNMSUB_single, fnmsubSingle host),
     (ID_FMADD_double, fmaddDouble host),
     (ID_FMSUB_double, fmsubDouble host),
     (ID_FNMADD_double, fnmaddDouble host),
     (ID_FNMSUB_double, fnmsubDouble host)]"

lemmas float_handlers =
  fmovRegToSingle_def
  fabsSingle_def
  fnegSingle_def
  fmovRegToDouble_def
  fabsDouble_def
  fnegDouble_def
  frintnSingle_def
  frintpSingle_def
  frintmSingle_def
  frintzSingle_def
  frintaSingle_def
  frintxSingle_def
  frintiSingle_def
  frintnDouble_def
  frintpDouble_def
  frintmDouble_def
  frintzDouble_def
  frintaDouble_def
  frintxDouble_def
  frintiDouble_def
  fsqrtSingle_def
  fsqrtDouble_def
  fcvtSingleToDouble_def
  fcvtSingleToHalf_def
  fcvtDoubleToSingle_def
  fcvtDoubleToHalf_def
  fcvtHalfToSingle_def
  fcvtHalfToDouble_def
  fmulSingle_def
  fnmulSingle_def
  fmulDouble_def
  fnmulDouble_def
  fdivSingle_def
  fdivDouble_def
  fmaxSingle_def
  fmaxnmSingle_def
  fmaxDouble_def
  fmaxnmDouble_def
  fminSingle_def
  fminnmSingle_def
  fminDouble_def
  fminnmDouble_def
  faddSingle_def
  faddDouble_def
  fsubSingle_def
  fsubDouble_def
  fmaddSingle_def
  fmsubSingle_def
  fnmaddSingle_def
  fnmsubSingle_def
  fmaddDouble_def
  fmsubDouble_def
  fnmaddDouble_def
  fnmsubDouble_def
  fcselSingle_def
  fcselDouble_def
  fcmpSingle_def
  fcmpZeroSingle_def
  fcmpeSingle_def
  fcmpeZeroSingle_def
  fccmpSingle_def
  fccmpeSingle_def
  fcmpDouble_def
  fcmpZeroDouble_def
  fcmpeDouble_def
  fcmpeZeroDouble_def
  fccmpDouble_def
  fccmpeDouble_def
  ucvtf32ToSingle_def
  scvtf32ToSingle_def
  ucvtf32ToDouble_def
  scvtf32ToDouble_def
  ucvtf64ToSingle_def
  scvtf64ToSingle_def
  ucvtf64ToDouble_def
  scvtf64ToDouble_def
  fmovSingleTo32_def
  fmov32ToSingle_def
  fmovDoubleto64_def
  fmov64ToDouble_def
  fmovUpperTo64_def
  fmov64ToUpper_def
  fcvtnsSingleTo32Int_def
  fcvtnuSingleTo32Int_def
  fcvtasSingleTo32Int_def
  fcvtauSingleTo32Int_def
  fcvtpsSingleTo32Int_def
  fcvtpuSingleTo32Int_def
  fcvtmsSingleTo32Int_def
  fcvtmuSingleTo32Int_def
  fcvtzsSingleTo32Int_def
  fcvtzuSingleTo32Int_def
  fcvtnsDoubleTo32Int_def
  fcvtnuDoubleTo32Int_def
  fcvtasDoubleTo32Int_def
  fcvtauDoubleTo32Int_def
  fcvtpsDoubleTo32Int_def
  fcvtpuDoubleTo32Int_def
  fcvtmsDoubleTo32Int_def
  fcvtmuDoubleTo32Int_def
  fcvtzsDoubleTo32Int_def
  fcvtzuDoubleTo32Int_def
  fcvtnsSingleTo64Int_def
  fcvtnuSingleTo64Int_def
  fcvtasSingleTo64Int_def
  fcvtauSingleTo64Int_def
  fcvtpsSingleTo64Int_def
  fcvtpuSingleTo64Int_def
  fcvtmsSingleTo64Int_def
  fcvtmuSingleTo64Int_def
  fcvtzsSingleTo64Int_def
  fcvtzuSingleTo64Int_def
  fcvtnsDoubleTo64Int_def
  fcvtnuDoubleTo64Int_def
  fcvtasDoubleTo64Int_def
  fcvtauDoubleTo64Int_def
  fcvtpsDoubleTo64Int_def
  fcvtpuDoubleTo64Int_def
  fcvtmsDoubleTo64Int_def
  fcvtmuDoubleTo64Int_def
  fcvtzsDoubleTo64Int_def
  fcvtzuDoubleTo64Int_def

lemmas float_generic =
  fmovImmToSingle_def fmovImmToDouble_def
  floatMoveGeneric_def floatRoundGeneric_def floatSqrtGeneric_def floatConvertGeneric_def floatMulGeneric_def floatDivGeneric_def floatMaxGeneric_def floatMinGeneric_def floatAddGeneric_def floatSubGeneric_def floatMulAddGeneric_def floatCondSelectGeneric_def floatCompareGeneric_def floatConvIntToFloatGeneric_def floatIntMovGeneric_def floatConvertToIntGeneric_def

subsection \<open>What the handlers leave alone\<close>

lemma write_simps [simp]:
  "PC (getRegRef fmt r v core) = PC core" "nextPC (getRegRef fmt r v core) = nextPC core"
  "GPRegs (getRegRef fmt r v core) = GPRegs core"
  "PC (set_NZCV n z c v' core) = PC core" "nextPC (set_NZCV n z c v' core) = nextPC core"
  "PC (set_VReg r v'' core) = PC core" "nextPC (set_VReg r v'' core) = nextPC core"
  by (simp_all add: getRegRef_def set_NZCV_def set_VReg_def Let_def)

end
