(* ===== verification/Interp_SIMD.thy ===== *)
theory Interp_SIMD
  imports Interp_Branch Host_Float
begin

text \<open>
  \<^verbatim>\<open>libcpu/src/interpreter/simd.cpp\<close>: the vector handlers. The members \<^verbatim>\<open>B\<close>, \<^verbatim>\<open>H\<close>, \<^verbatim>\<open>S\<close> and \<^verbatim>\<open>D\<close> of a vector register are its
  elements of 8, 16, 32 and 64 bits, in little-endian order. The loops over the elements read and write the registers of the core
  element by element, so that a destination that is also a source is read after the elements before it were written.
\<close>

unbundle bit_operations_syntax

datatype ElementSize = ELEM_SIZE_8 | ELEM_SIZE_16 | ELEM_SIZE_32 | ELEM_SIZE_64

fun elemNumBits :: "ElementSize \<Rightarrow> nat" where
  "elemNumBits ELEM_SIZE_8 = 8"
| "elemNumBits ELEM_SIZE_16 = 16"
| "elemNumBits ELEM_SIZE_32 = 32"
| "elemNumBits ELEM_SIZE_64 = 64"

fun replicate64 :: "u64 \<Rightarrow> ElementSize \<Rightarrow> u64" where
  "replicate64 imm ELEM_SIZE_8 = imm * 0x0101010101010101"
| "replicate64 imm ELEM_SIZE_16 = imm * 0x0001000100010001"
| "replicate64 imm ELEM_SIZE_32 = imm * 0x0000000100000001"
| "replicate64 imm ELEM_SIZE_64 = imm"

text \<open>Element \<open>i\<close> of \<open>n\<close> bits of a register; \<open>n\<close> divides 64 and the element lies in the register.\<close>

definition lane :: "nat \<Rightarrow> nat \<Rightarrow> VReg \<Rightarrow> u64" where
  "lane n i v =
     (if n * i < 64 then take_bit n (drop_bit (n * i) (VReg_D0 v)) else take_bit n (drop_bit (n * i - 64) (VReg_D1 v)))"

definition put_bits :: "nat \<Rightarrow> nat \<Rightarrow> u64 \<Rightarrow> u64 \<Rightarrow> u64" where
  "put_bits n pos x w = (w AND NOT (push_bit pos (mask n))) OR push_bit pos (take_bit n x)"

definition set_lane :: "nat \<Rightarrow> nat \<Rightarrow> u64 \<Rightarrow> VReg \<Rightarrow> VReg" where
  "set_lane n i x v =
     (if n * i < 64 then v\<lparr>VReg_D0 := put_bits n (n * i) x (VReg_D0 v)\<rparr>
      else v\<lparr>VReg_D1 := put_bits n (n * i - 64) x (VReg_D1 v)\<rparr>)"

definition get_elem :: "nat \<Rightarrow> reg \<Rightarrow> nat \<Rightarrow> Core \<Rightarrow> u64" where
  "get_elem n r i core = lane n i (VRegs core r)"

definition set_elem :: "nat \<Rightarrow> reg \<Rightarrow> nat \<Rightarrow> u64 \<Rightarrow> Core \<Rightarrow> Core" where
  "set_elem n r i x core = set_VReg r (set_lane n i x (VRegs core r)) core"

definition size_field :: "u32 \<Rightarrow> nat" where
  "size_field imm = (if imm AND 1 \<noteq> 0 then 0 else if imm AND 2 \<noteq> 0 then 1 else if imm AND 4 \<noteq> 0 then 2
     else if imm AND 8 \<noteq> 0 then 3 else 0)"

definition num_elem :: "nat \<Rightarrow> u32 \<Rightarrow> nat" where
  "num_elem esize inst = (if \<not> testBit 30 inst then 64 else 128) div esize"

definition dupGeneral :: "Core \<Rightarrow> u32 \<Rightarrow> Core" where
  "dupGeneral core inst =
     (let esize = 8 * 2 ^ size_field (inst_16_20 inst);
          numElem = num_elem esize inst;
          data = GPRegs core (inst_Rn inst)
      in fold (\<lambda>i. set_elem esize (inst_Rd inst) i data) [0..<numElem] core)"

definition insGeneral :: "Core \<Rightarrow> u32 \<Rightarrow> Core" where
  "insGeneral core inst =
     (let sz = size_field (inst_16_20 inst);
          index = unat (shr (inst_16_20 inst) (sz + 1));
          data = GPRegs core (inst_Rn inst)
      in set_elem (8 * 2 ^ sz) (inst_Rd inst) index data core)"

definition simd_imm8 :: "u32 \<Rightarrow> u32" where
  "simd_imm8 inst = bitRange 5 9 inst OR shl (bitRange 16 18 inst) 5"

definition fmovVectorImmSingle :: "Core \<Rightarrow> u32 \<Rightarrow> Core" where
  "fmovVectorImmSingle core inst =
     (let imm8 = simd_imm8 inst;
          imm = ucast ((if testBit 7 imm8 then 0x80000000 else 0) OR (if testBit 6 imm8 then 0x3E000000 else 0x40000000)
                  OR shl (bitRange 0 5 imm8) 19) :: u64;
          core = set_elem 32 (inst_Rd inst) 1 imm (set_elem 32 (inst_Rd inst) 0 imm core);
          upper = (if testBit 30 inst then imm else 0)
      in set_elem 32 (inst_Rd inst) 3 upper (set_elem 32 (inst_Rd inst) 2 upper core))"

definition orrRegisterVector :: "Core \<Rightarrow> u32 \<Rightarrow> Core" where
  "orrRegisterVector core inst =
     (let core = set_elem 64 (inst_Rd inst) 0 (get_elem 64 (inst_Rn inst) 0 core OR get_elem 64 (inst_Rm inst) 0 core) core
      in if testBit 30 inst
         then set_elem 64 (inst_Rd inst) 1 (get_elem 64 (inst_Rn inst) 1 core OR get_elem 64 (inst_Rm inst) 1 core) core
         else set_elem 64 (inst_Rd inst) 1 0 core)"

definition ucvtfScalarInt :: "Core \<Rightarrow> u32 \<Rightarrow> Core" where
  "ucvtfScalarInt core inst =
     (if testBit 22 inst
      then set_elem 64 (inst_Rd inst) 0 (f_of_int DoubleFloat (uint (get_elem 64 (inst_Rn inst) 0 core))) core
      else set_elem 32 (inst_Rd inst) 0 (f_of_int SingleFloat (uint (get_elem 32 (inst_Rn inst) 0 core))) core)"

definition scvtfScalarInt :: "Core \<Rightarrow> u32 \<Rightarrow> Core" where
  "scvtfScalarInt core inst =
     (if testBit 22 inst
      then set_elem 64 (inst_Rd inst) 0 (f_of_int DoubleFloat (sint (get_elem 64 (inst_Rn inst) 0 core))) core
      else set_elem 32 (inst_Rd inst) 0
             (f_of_int SingleFloat (signed_take_bit 31 (uint (get_elem 32 (inst_Rn inst) 0 core)))) core)"

datatype MoviFlags = MoviShifted | MoviShiftingOnes

definition movi_bytes :: "u64 \<Rightarrow> u64" where
  "movi_bytes imm =
     (if testBit 0 imm then 0x00000000000000FF else 0) OR (if testBit 1 imm then 0x000000000000FF00 else 0) OR
     (if testBit 2 imm then 0x0000000000FF0000 else 0) OR (if testBit 3 imm then 0x00000000FF000000 else 0) OR
     (if testBit 4 imm then 0x000000FF00000000 else 0) OR (if testBit 5 imm then 0x0000FF0000000000 else 0) OR
     (if testBit 6 imm then 0x00FF000000000000 else 0) OR (if testBit 7 imm then 0xFF00000000000000 else 0)"

definition moviGeneral :: "ElementSize \<Rightarrow> MoviFlags list \<Rightarrow> Core \<Rightarrow> u32 \<Rightarrow> Core" where
  "moviGeneral sz flags core inst =
     (let imm = ucast (simd_imm8 inst) :: u64;
          imm = (if MoviShifted \<in> set flags then shl imm (unat (bitRange 13 14 inst) * 8)
                 else if MoviShiftingOnes \<in> set flags then
                   (let shift = ucast (bitRange 12 12 inst) :: u64
                    in shl imm (unat ((shift + 1) * 8)) OR bitmask_rt ((shift + 1) * 8))
                 else if sz = ELEM_SIZE_64 then movi_bytes imm else imm);
          imm = replicate64 imm sz;
          core = set_elem 64 (inst_Rd inst) 0 imm core
      in set_elem 64 (inst_Rd inst) 1 (if testBit 30 inst then imm else 0) core)"

definition movi8 :: "Core \<Rightarrow> u32 \<Rightarrow> Core" where
  "movi8 core inst = moviGeneral ELEM_SIZE_8 [] core inst"

definition movi16ShiftedImm :: "Core \<Rightarrow> u32 \<Rightarrow> Core" where
  "movi16ShiftedImm core inst = moviGeneral ELEM_SIZE_16 [MoviShifted] core inst"

definition movi32ShiftedImm :: "Core \<Rightarrow> u32 \<Rightarrow> Core" where
  "movi32ShiftedImm core inst = moviGeneral ELEM_SIZE_32 [MoviShifted] core inst"

definition movi32ShiftingOnes :: "Core \<Rightarrow> u32 \<Rightarrow> Core" where
  "movi32ShiftingOnes core inst = moviGeneral ELEM_SIZE_32 [MoviShiftingOnes] core inst"

definition movi64Scalar :: "Core \<Rightarrow> u32 \<Rightarrow> Core" where
  "movi64Scalar core inst = moviGeneral ELEM_SIZE_64 [] core inst"

definition movi64Vector :: "Core \<Rightarrow> u32 \<Rightarrow> Core" where
  "movi64Vector core inst = moviGeneral ELEM_SIZE_64 [] core inst"

definition movGeneral :: "bool \<Rightarrow> bool \<Rightarrow> Core \<Rightarrow> u32 \<Rightarrow> Core" where
  "movGeneral is64 isSigned core inst =
     (let (sz, index) =
            (if testBit 16 inst then (8, bitRange 17 20 inst)
             else if testBit 17 inst then (16, bitRange 18 20 inst)
             else if testBit 18 inst then (32, bitRange 19 20 inst)
             else (64, bitRange 20 20 inst));
          data = get_elem sz (inst_Rn inst) (unat index) core;
          data = (if isSigned then signExtend_rt data (word_of_nat sz) else data);
          data = (if \<not> is64 then data AND bitmask 32 else data)
      in set_GPR (inst_Rd inst) data core)"

definition umov32 :: "Core \<Rightarrow> u32 \<Rightarrow> Core" where
  "umov32 core inst = movGeneral False False core inst"

definition umov64 :: "Core \<Rightarrow> u32 \<Rightarrow> Core" where
  "umov64 core inst = movGeneral True False core inst"

definition smov32 :: "Core \<Rightarrow> u32 \<Rightarrow> Core" where
  "smov32 core inst = movGeneral False True core inst"

definition smov64 :: "Core \<Rightarrow> u32 \<Rightarrow> Core" where
  "smov64 core inst = movGeneral True True core inst"

definition addVector :: "Core \<Rightarrow> u32 \<Rightarrow> Core" where
  "addVector core inst =
     (let esize = 8 * 2 ^ unat (inst_22_23 inst);
          numElem = num_elem esize inst
      in fold (\<lambda>i core. set_elem esize (inst_Rd inst) i
                (get_elem esize (inst_Rn inst) i core + get_elem esize (inst_Rm inst) i core) core) [0..<numElem] core)"

definition andVector :: "Core \<Rightarrow> u32 \<Rightarrow> Core" where
  "andVector core inst =
     (let core = set_elem 64 (inst_Rd inst) 0 (get_elem 64 (inst_Rn inst) 0 core AND get_elem 64 (inst_Rm inst) 0 core) core
      in if testBit 30 inst
         then set_elem 64 (inst_Rd inst) 1 (get_elem 64 (inst_Rn inst) 1 core AND get_elem 64 (inst_Rm inst) 1 core) core
         else core)"

definition cmeqVecGeneric :: "bool \<Rightarrow> Core \<Rightarrow> u32 \<Rightarrow> Core" where
  "cmeqVecGeneric cmpZero core inst =
     (let esize = 8 * 2 ^ unat (inst_22_23 inst);
          numElem = num_elem esize inst
      in fold (\<lambda>i core. set_elem esize (inst_Rd inst) i
                (if get_elem esize (inst_Rn inst) i core = (if cmpZero then 0 else get_elem esize (inst_Rm inst) i core)
                 then mask esize else 0) core) [0..<numElem] core)"

definition cmeqVecReg :: "Core \<Rightarrow> u32 \<Rightarrow> Core" where
  "cmeqVecReg core inst = cmeqVecGeneric False core inst"

definition cmeqVecZero :: "Core \<Rightarrow> u32 \<Rightarrow> Core" where
  "cmeqVecZero core inst = cmeqVecGeneric True core inst"

definition addpVec :: "Core \<Rightarrow> u32 \<Rightarrow> Core" where
  "addpVec core inst =
     (let esize = 8 * 2 ^ unat (inst_22_23 inst);
          numElem = num_elem esize inst
      in fold (\<lambda>i core.
                let core = set_elem esize (inst_Rd inst) i
                      (get_elem esize (inst_Rn inst) (2 * i) core + get_elem esize (inst_Rn inst) (2 * i + 1) core) core
                in set_elem esize (inst_Rd inst) (i + numElem div 2)
                      (get_elem esize (inst_Rm inst) (2 * i) core + get_elem esize (inst_Rm inst) (2 * i + 1) core) core)
           [0..<numElem div 2] core)"

definition registerSIMDInstructions :: "(instructionID \<times> (Core \<Rightarrow> u32 \<Rightarrow> Core)) list" where
  "registerSIMDInstructions = [
     (ID_DUP_general, dupGeneral),
     (ID_INS_general, insGeneral),
     (ID_MOVI_8_imm, movi8),
     (ID_MOVI_16_shifted_imm, movi16ShiftedImm),
     (ID_MOVI_32_shifted_imm, movi32ShiftedImm),
     (ID_MOVI_32_shifting_ones, movi32ShiftingOnes),
     (ID_MOVI_64_scalar, movi64Scalar),
     (ID_MOVI_64_vec, movi64Vector),
     (ID_FMOV_vec_imm_single, fmovVectorImmSingle),
     (ID_ORR_vec_reg, orrRegisterVector),
     (ID_UCVTF_scalar_int, ucvtfScalarInt),
     (ID_SCVTF_scalar_int, scvtfScalarInt),
     (ID_UMOV_32, umov32),
     (ID_UMOV_64, umov64),
     (ID_SMOV_32, smov32),
     (ID_SMOV_64, smov64),
     (ID_ADD_vec, addVector),
     (ID_AND_vec, andVector),
     (ID_CMEQ_vec_reg, cmeqVecReg),
     (ID_CMEQ_vec_zero, cmeqVecZero),
     (ID_ADDP_vec, addpVec)]"

lemmas simd_handlers =
  movi8_def
  movi16ShiftedImm_def
  movi32ShiftedImm_def
  movi32ShiftingOnes_def
  movi64Scalar_def
  movi64Vector_def
  umov32_def
  umov64_def
  smov32_def
  smov64_def
  cmeqVecReg_def
  cmeqVecZero_def

lemmas simd_generic =
  dupGeneral_def insGeneral_def fmovVectorImmSingle_def orrRegisterVector_def ucvtfScalarInt_def scvtfScalarInt_def moviGeneral_def
  movGeneral_def addVector_def andVector_def cmeqVecGeneric_def addpVec_def

lemma set_elem_simps [simp]: "PC (set_elem n r i x core) = PC core" "nextPC (set_elem n r i x core) = nextPC core"
  by (simp_all add: set_elem_def set_VReg_def)

lemma loop_simps [simp]:
  assumes "\<And>i core. PC (f i core) = PC core \<and> nextPC (f i core) = nextPC core"
  shows "PC (fold f is core) = PC core" "nextPC (fold f is core) = nextPC core"
  using assms by (induction "is" arbitrary: core) simp_all

subsection \<open>Registers as arrays of elements\<close>

text \<open>
  What a loop over elements needs of the registers: \<open>count\<close> elements in each, and an assignment that changes the element it names and no
  other. \<open>pointwise g\<close> says that the value assigned to element \<open>i\<close> is computed from elements \<open>i\<close> only.
\<close>

locale element_file =
  fixes get :: "'r \<Rightarrow> nat \<Rightarrow> 'c \<Rightarrow> 'a"
    and put :: "'r \<Rightarrow> nat \<Rightarrow> 'a \<Rightarrow> 'c \<Rightarrow> 'c"
    and norm :: "'a \<Rightarrow> 'a"
    and count :: nat
  assumes get_put: "i < count \<Longrightarrow> j < count \<Longrightarrow> get r i (put r' j x c) = (if r = r' \<and> i = j then norm x else get r i c)"
begin

lemma loop_get:
  assumes g: "\<And>i c c'. i < count \<Longrightarrow> (\<And>r. get r i c = get r i c') \<Longrightarrow> g i c = g i c'"
    and "k \<le> count" and "i < count"
  shows "get r i (fold (\<lambda>i c. put d i (g i c) c) [0..<k] c) = (if r = d \<and> i < k then norm (g i c) else get r i c)"
  using assms(2,3)
proof (induction k arbitrary: r i)
  case (Suc k)
  let ?c = "fold (\<lambda>i c. put d i (g i c) c) [0..<k] c"
  have "get r k ?c = get r k c" for r using Suc by simp
  then have "g k ?c = g k c" using Suc.prems(1) by (intro g) simp_all
  moreover have "get r i ?c = (if r = d \<and> i < k then norm (g i c) else get r i c)" using Suc by simp
  ultimately show ?case using Suc.prems by (auto simp: get_put less_Suc_eq)
qed simp

lemma pair_loop_get:
  assumes g: "\<And>i c c'. 2 * i + 1 < count \<Longrightarrow> (\<And>r j. r \<noteq> d \<Longrightarrow> j < count \<Longrightarrow> get r j c = get r j c') \<Longrightarrow> g i c = g i c'"
    and h: "\<And>i c c'. 2 * i + 1 < count \<Longrightarrow> (\<And>r j. r \<noteq> d \<Longrightarrow> j < count \<Longrightarrow> get r j c = get r j c') \<Longrightarrow> h i c = h i c'"
    and "k \<le> n" and "2 * n \<le> count" and "i < count"
  shows "get r i (fold (\<lambda>i c. put d (i + n) (h i (put d i (g i c) c)) (put d i (g i c) c)) [0..<k] c) =
    (if r = d \<and> i < k then norm (g i c) else if r = d \<and> n \<le> i \<and> i < n + k then norm (h (i - n) c) else get r i c)"
  using assms(3,5)
proof (induction k arbitrary: r i)
  case (Suc k)
  let ?c = "fold (\<lambda>i c. put d (i + n) (h i (put d i (g i c) c)) (put d i (g i c) c)) [0..<k] c"
  have same: "get r j ?c = get r j c" if "r \<noteq> d" "j < count" for r j using Suc that by simp
  moreover have "get r j (put d k x ?c) = get r j c" if "r \<noteq> d" "j < count" for r j x
    using same [OF that] that Suc.prems assms(4) by (simp add: get_put)
  ultimately have "g k ?c = g k c" "h k (put d k x ?c) = h k c" for x
    using Suc.prems assms(4) by (auto intro!: g h)
  moreover have "get r i ?c = (if r = d \<and> i < k then norm (g i c)
      else if r = d \<and> n \<le> i \<and> i < n + k then norm (h (i - n) c) else get r i c)"
    using Suc by simp
  ultimately show ?case using Suc.prems assms(4) by (auto simp: get_put)
qed (auto)

end

lemma bit_put_bits: "bit (put_bits n pos x w) k \<longleftrightarrow> k < 64 \<and> (if pos \<le> k \<and> k < pos + n then bit x (k - pos) else bit w k)"
  by (auto simp: put_bits_def bit_simps)

lemma take_put_same: "pos + n \<le> 64 \<Longrightarrow> take_bit n (drop_bit pos (put_bits n pos x w)) = take_bit n x"
  by (rule bit_eqI) (auto simp: bit_simps bit_put_bits)

lemma take_put_other:
  "pos + n \<le> pos' \<or> pos' + n \<le> pos \<Longrightarrow> take_bit n (drop_bit pos (put_bits n pos' x w)) = take_bit n (drop_bit pos w)"
  by (rule bit_eqI) (auto simp: bit_simps bit_put_bits dest: bit_imp_le_length)

lemma lane_set_lane:
  assumes "n \<in> {8, 16, 32, 64}" and "n * i < 128" and "n * j < 128"
  shows "lane n i (set_lane n j x v) = (if i = j then take_bit n x else lane n i v)"
proof (cases "i = j")
  case True
  have "n * i < 64 \<Longrightarrow> n * i + n \<le> 64" "64 \<le> n * i \<Longrightarrow> n * i - 64 + n \<le> 64"
    using assms by auto
  with True show ?thesis
    by (auto simp: lane_def set_lane_def take_put_same)
next
  case False
  then have "n * i + n \<le> n * j \<or> n * j + n \<le> n * i"
    using mult_le_mono2 [of "Suc i" j n] mult_le_mono2 [of "Suc j" i n] by (cases "i < j") auto
  then have "take_bit n (drop_bit (n * i) (put_bits n (n * j) x w)) = take_bit n (drop_bit (n * i) w)"
    and "64 \<le> n * i \<Longrightarrow> 64 \<le> n * j \<Longrightarrow>
      take_bit n (drop_bit (n * i - 64) (put_bits n (n * j - 64) x w)) = take_bit n (drop_bit (n * i - 64) w)" for w
    by (intro take_put_other; linarith)+
  with False show ?thesis
    by (simp add: lane_def set_lane_def)
qed

lemma element_file_core:
  assumes "n \<in> {8, 16, 32, 64}"
  shows "element_file (get_elem n) (set_elem n) (take_bit n) (128 div n)"
proof
  fix i j :: nat and r r' :: reg and x :: u64 and c :: Core
  assume "i < 128 div n" "j < 128 div n"
  then have "n * i < 128" "n * j < 128" using assms by auto
  then show "get_elem n r i (set_elem n r' j x c) = (if r = r' \<and> i = j then take_bit n x else get_elem n r i c)"
    by (auto simp: get_elem_def set_elem_def set_VReg_def lane_set_lane [OF assms])
qed

interpretation B: element_file "get_elem 8" "set_elem 8" "take_bit 8" 16
  using element_file_core [of 8] by simp

interpretation H: element_file "get_elem 16" "set_elem 16" "take_bit 16" 8
  using element_file_core [of 16] by simp

interpretation S: element_file "get_elem 32" "set_elem 32" "take_bit 32" 4
  using element_file_core [of 32] by simp

interpretation D: element_file "get_elem 64" "set_elem 64" "take_bit 64" 2
  using element_file_core [of 64] by simp

lemma esize_cases: "8 * 2 ^ unat (inst_22_23 inst) \<in> {8, 16, 32, 64 :: nat}"
proof -
  have "unat (inst_22_23 inst) < 4"
    using unat_FLD_less [of 22 23 inst] by (simp add: inst_22_23_def)
  then have "unat (inst_22_23 inst) \<in> {0, 1, 2, 3}" by auto
  then show ?thesis by auto
qed

lemma num_elem_le: "num_elem n inst \<le> 128 div n"
  by (simp add: num_elem_def div_le_mono)

lemma elem_take: "n \<in> {8, 16, 32, 64} \<Longrightarrow> take_bit n (get_elem n r i core) = get_elem n r i core"
  by (auto simp: get_elem_def lane_def)

text \<open>
  The vector addition and comparison work element by element, at every element size and for both register lengths: element \<open>i\<close> of the
  destination is the sum modulo \<open>2 ^ esize\<close>, or the all-ones pattern exactly for equal elements, of the elements the source registers held
  before the instruction, also when the destination is one of the sources; the elements past the register length and all other registers
  keep their contents.
\<close>

theorem vector_elementwise:
  assumes n_def: "n = 8 * 2 ^ unat (inst_22_23 inst)" and "i < 128 div n"
  shows "get_elem n r i (addVector core inst) =
      (if r = inst_Rd inst \<and> i < num_elem n inst
       then take_bit n (get_elem n (inst_Rn inst) i core + get_elem n (inst_Rm inst) i core) else get_elem n r i core)
    \<and> get_elem n r i (cmeqVecGeneric cmpZero core inst) =
      (if r = inst_Rd inst \<and> i < num_elem n inst
       then (if get_elem n (inst_Rn inst) i core = (if cmpZero then 0 else get_elem n (inst_Rm inst) i core) then mask n else 0)
       else get_elem n r i core)"
proof -
  have n: "n \<in> {8, 16, 32, 64}" using esize_cases by (simp add: n_def)
  note loop = element_file.loop_get [OF element_file_core [OF n] _ num_elem_le assms(2)]
  have "get_elem n r i (addVector core inst) =
      (if r = inst_Rd inst \<and> i < num_elem n inst
       then take_bit n (get_elem n (inst_Rn inst) i core + get_elem n (inst_Rm inst) i core) else get_elem n r i core)"
    unfolding addVector_def Let_def n_def [symmetric] by (rule loop) simp
  moreover have "get_elem n r i (cmeqVecGeneric cmpZero core inst) =
      (if r = inst_Rd inst \<and> i < num_elem n inst
       then (if get_elem n (inst_Rn inst) i core = (if cmpZero then 0 else get_elem n (inst_Rm inst) i core) then mask n else 0)
       else get_elem n r i core)"
    unfolding cmeqVecGeneric_def Let_def n_def [symmetric] by (subst loop) auto
  ultimately show ?thesis ..
qed

definition demo_vec :: Core where
  "demo_vec = zero_core\<lparr>VRegs := (\<lambda>r. if r = 1 then \<lparr>VReg_D0 = 0xFFFFFFFF00000005, VReg_D1 = 7\<rparr> else \<lparr>VReg_D0 = 0x300000002, VReg_D1 = 1\<rparr>)\<rparr>"

lemma demo_elems: "get_elem 32 1 0 demo_vec = 5" "get_elem 32 1 1 demo_vec = 0xFFFFFFFF" "get_elem 32 2 0 demo_vec = 2"
    "get_elem 32 2 1 demo_vec = 3"
  by code_simp+

theorem vector_elementwise_witness:
  "get_elem 32 0 1 (addVector demo_vec 0x4EA28420) = 2 \<and> get_elem 32 0 0 (addVector demo_vec 0x4EA28420) = 7
   \<and> get_elem 32 0 1 (cmeqVecGeneric True demo_vec 0x4EA28420) = 0"
proof -
  have fields: "inst_22_23 0x4EA28420 = 2" "inst_Rd 0x4EA28420 = 0" "inst_Rn 0x4EA28420 = 1" "inst_Rm 0x4EA28420 = 2"
    "num_elem 32 0x4EA28420 = 4"
    by (simp_all add: inst_fields bitRange_def shr_def bitmask_def shl_def num_elem_def testBit_def)
  show ?thesis
    using vector_elementwise [of 32 "0x4EA28420" 1 0 demo_vec True] vector_elementwise [of 32 "0x4EA28420" 0 0 demo_vec True]
    by (simp add: fields demo_elems take_bit_eq_mask mask_eq_exp_minus_1 del: One_nat_def)
qed

text \<open>
  The pairwise addition sums adjacent elements of the two sources into the lower and the upper half of the destination when the destination is
  neither source.
\<close>

theorem addp_pairs:
  assumes n_def: "n = 8 * 2 ^ unat (inst_22_23 inst)" and k_def: "k = num_elem n inst div 2"
    and "inst_Rd inst \<noteq> inst_Rn inst" and "inst_Rd inst \<noteq> inst_Rm inst" and "i < k"
  shows "get_elem n (inst_Rd inst) i (addpVec core inst) =
      take_bit n (get_elem n (inst_Rn inst) (2 * i) core + get_elem n (inst_Rn inst) (2 * i + 1) core)
    \<and> get_elem n (inst_Rd inst) (i + k) (addpVec core inst) =
      take_bit n (get_elem n (inst_Rm inst) (2 * i) core + get_elem n (inst_Rm inst) (2 * i + 1) core)"
proof -
  have n: "n \<in> {8, 16, 32, 64}" using esize_cases by (simp add: n_def)
  have k: "2 * k \<le> 128 div n" using num_elem_le [of n inst] by (auto simp: k_def n_def)
  have addp: "get_elem n (inst_Rd inst) j (addpVec core inst) =
      (if j < k then take_bit n (get_elem n (inst_Rn inst) (2 * j) core + get_elem n (inst_Rn inst) (2 * j + 1) core)
       else if k \<le> j \<and> j < k + k
       then take_bit n (get_elem n (inst_Rm inst) (2 * (j - k)) core + get_elem n (inst_Rm inst) (2 * (j - k) + 1) core)
       else get_elem n (inst_Rd inst) j core)" if "j < 128 div n" for j
    unfolding addpVec_def Let_def n_def [symmetric] k_def [symmetric]
    using assms(3,4)
    by (subst element_file.pair_loop_get [OF element_file_core [OF n] _ _ order_refl k that]) auto
  show ?thesis
    using addp [of i] addp [of "i + k"] assms(5) k by simp
qed

theorem addp_pairs_witness: "get_elem 32 0 0 (addpVec demo_vec 0x4EA2BC20) = 4 \<and> get_elem 32 0 2 (addpVec demo_vec 0x4EA2BC20) = 5"
proof -
  have fields: "inst_22_23 0x4EA2BC20 = 2" "inst_Rd 0x4EA2BC20 = 0" "inst_Rn 0x4EA2BC20 = 1" "inst_Rm 0x4EA2BC20 = 2"
    "num_elem 32 0x4EA2BC20 = 4"
    by (simp_all add: inst_fields bitRange_def shr_def bitmask_def shl_def num_elem_def testBit_def)
  show ?thesis
    using addp_pairs [of 32 "0x4EA2BC20" 2 0 demo_vec]
    by (simp add: fields demo_elems take_bit_eq_mask mask_eq_exp_minus_1 del: One_nat_def) (simp add: eval_nat_numeral)
qed

text \<open>
  With a source as destination an element is read after it was overwritten: the second word of \<^verbatim>\<open>ADDP V1.4S, V1.4S, V2.4S\<close> adds the sum of
  the first two words of the other source.
\<close>

lemma addp_aliased:
  assumes "inst_22_23 inst = 2" and "testBit 30 inst" and "inst_Rn inst = inst_Rd inst" and "inst_Rm inst \<noteq> inst_Rd inst"
  shows "get_elem 32 (inst_Rd inst) 1 (addpVec core inst) =
    take_bit 32 (take_bit 32 (get_elem 32 (inst_Rm inst) 0 core + get_elem 32 (inst_Rm inst) 1 core)
      + get_elem 32 (inst_Rd inst) 3 core)"
  using assms by (simp add: addpVec_def num_elem_def upt_conv_Cons S.get_put)

end
