(* ===== verification/Interpreter.thy ===== *)
theory Interpreter
  imports Interp_DPReg Interp_System Interp_Float Interp_SIMD Decoder
begin

text \<open>
  \<^verbatim>\<open>libcpu/src/interpreter/interpreter.cpp\<close>: the table of handlers and the execution of one instruction, and
  \<^verbatim>\<open>meta::isBranch\<close> of \<^verbatim>\<open>libcpu/src/meta/meta.cpp\<close>. \<open>HostFP\<close> is what C++ leaves open of the host's floating-point
  arithmetic.
\<close>

unbundle bit_operations_syntax

type_synonym interptfptr_t = "Machine \<Rightarrow> u32 \<Rightarrow> fault + Machine"

definition invalidInstructionHandler :: "Handlers \<Rightarrow> interptfptr_t" where
  "invalidInstructionHandler hs mc inst = gIllInstHandler hs mc"

definition registerInstruction ::
    "instructionID \<Rightarrow> interptfptr_t \<Rightarrow> (instructionID \<Rightarrow> interptfptr_t) \<Rightarrow> instructionID \<Rightarrow> interptfptr_t" where
  "registerInstruction i func tab = tab(i := func)"

definition register_all ::
    "(instructionID \<times> interptfptr_t) list \<Rightarrow> (instructionID \<Rightarrow> interptfptr_t) \<Rightarrow> instructionID \<Rightarrow> interptfptr_t" where
  "register_all fs tab = fold (\<lambda>(i, f). registerInstruction i f) fs tab"

definition core_list :: "(instructionID \<times> (Core \<Rightarrow> u32 \<Rightarrow> Core)) list \<Rightarrow> (instructionID \<times> interptfptr_t) list" where
  "core_list fs = map (\<lambda>(i, f). (i, on_core f)) fs"

definition interp_init ::
    "Handlers \<Rightarrow> HostFP \<Rightarrow> instructionID \<Rightarrow> interptfptr_t" where
  "interp_init hs host =
     (let tab = (\<lambda>i. on_core UNIMPLEMENTED_FUNC);
          tab = register_all (core_list registerBranchInstructions) tab;
          tab = register_all (registerSystemInstructions hs) tab;
          tab = register_all (core_list registerDPImmInstructions) tab;
          tab = register_all (core_list registerDPRegInstructions) tab;
          tab = register_all (core_list (registerFloatInstructions host)) tab;
          tab = register_all registerLoadStoreInstructions tab;
          tab = register_all (core_list registerSIMDInstructions) tab
      in registerInstruction ID_INVALID (invalidInstructionHandler hs) tab)"

definition getInstructionFunc :: "(instructionID \<Rightarrow> interptfptr_t) \<Rightarrow> instructionID \<Rightarrow> interptfptr_t" where
  "getInstructionFunc gInstructionMap i = gInstructionMap i"

definition step :: "(instructionID \<Rightarrow> interptfptr_t) \<Rightarrow> Machine \<Rightarrow> fault + Machine" where
  "step gInstructionMap mc =
     and_then (fetch (PC (mcore mc)) (memory mc))
       (\<lambda>bits.
         let mc = upd_core (\<lambda>core. core\<lparr>nextPC := PC core + 4\<rparr>) mc;
             inst = decode bits
         in and_then (getInstructionFunc gInstructionMap (di_id inst) mc (di_inst inst))
              (\<lambda>mc.
                let mc = upd_core (set_GPR 31 0) mc;
                    mc = (if PC (mcore mc) = nextPC (mcore mc)
                          then upd_core (sendInterrupts DEBUG_BREAK_INTERRUPT) mc else mc);
                    mc = upd_core (\<lambda>core. core\<lparr>PC := nextPC core\<rparr>) mc
                in Inr (upd_core (\<lambda>core. core\<lparr>numInsts := numInsts core + 1\<rparr>) mc)))"

definition isBranch :: "instructionID \<Rightarrow> bool" where
  "isBranch i \<longleftrightarrow> i = ID_B_cond \<or> i = ID_BR \<or> i = ID_BLR \<or> i = ID_RET \<or> i = ID_ERET \<or> i = ID_DRPS \<or>
     i = ID_B \<or> i = ID_BL \<or> i = ID_CBZ_32 \<or> i = ID_CBNZ_32 \<or> i = ID_CBZ_64 \<or> i = ID_CBNZ_64 \<or>
     i = ID_TBZ \<or> i = ID_TBNZ"

subsection \<open>What a handler leaves alone\<close>

text \<open>
  \<open>keeps_PC\<close> is said of a handler on the core that assigns neither program counter, \<open>straight\<close> of a handler on the machine that
  assigns neither program counter nor the page table and, when it faults, does so with the address of a page that is not mapped. The rules
  in \<open>tame_intro\<close> follow the structure of a handler.
\<close>

named_theorems tame_intro

definition keeps_PC :: "(Core \<Rightarrow> u32 \<Rightarrow> Core) \<Rightarrow> bool" where
  "keeps_PC f \<longleftrightarrow> (\<forall>core inst. nextPC (f core inst) = nextPC core \<and> PC (f core inst) = PC core)"

lemma keeps_PC_generics:
  "keeps_PC UNIMPLEMENTED_FUNC" "keeps_PC nop" "keeps_PC msrImm" "keeps_PC msrReg" "keeps_PC clrex" "keeps_PC dmb" "keeps_PC sys"
  "keeps_PC (addSubImmGeneric a b c)" "keeps_PC (moveWideImmGeneric a)" "keeps_PC (PCRelativeGeneric a)"
  "keeps_PC (\<lambda>core inst. logicalGeneric a b core inst f)" "keeps_PC (bitfieldMoveGeneric a b c)" "keeps_PC (extractGeneric a)"
  "keeps_PC (\<lambda>core inst. logicalShiftedRegGeneric a b c core inst f)" "keeps_PC (addSubShiftedRegGeneric a b c)"
  "keeps_PC (addSubExtendedRegGeneric a b c)" "keeps_PC (addSubCarryGeneric a b c)" "keeps_PC (reverseBits a)"
  "keeps_PC (reverseBytes a)" "keeps_PC (reverse16 a)" "keeps_PC reverse32" "keeps_PC (countLeadingClearBits a)"
  "keeps_PC (countLeadingSetBits a)" "keeps_PC (unsignedDivide a)" "keeps_PC (signedDivide a)" "keeps_PC (shiftGeneric a)"
  "keeps_PC (multiply a b)" "keeps_PC (uMultiplyLong a)" "keeps_PC (sMultiplyLong a)" "keeps_PC (mulhGeneric a)"
  "keeps_PC (condCompareRegGeneric a b)" "keeps_PC (condCompareImmGeneric a b)" "keeps_PC (condSelGeneric a b c)"
  by (simp_all add: keeps_PC_def dpimm_generic dpreg_generic Let_def case_prod_beta UNIMPLEMENTED_FUNC_def nop_def
      msrImm_def msrReg_def clrex_def dmb_def sys_def)

lemma keeps_PC_lists:
  "list_all (\<lambda>(i, f). keeps_PC f) registerDPImmInstructions"
  "list_all (\<lambda>(i, f). keeps_PC f) registerDPRegInstructions"
  using keeps_PC_generics
  by (simp_all add: registerDPImmInstructions_def registerDPRegInstructions_def dpimm_handlers dpreg_handlers keeps_PC_def)

lemma keeps_PC_float:
  "keeps_PC fmovImmToSingle" "keeps_PC fmovImmToDouble" "keeps_PC (floatMoveGeneric a)" "keeps_PC (floatRoundGeneric a b c)"
  "keeps_PC (floatSqrtGeneric a)" "keeps_PC (floatConvertGeneric a)" "keeps_PC (floatMulGeneric a c)" "keeps_PC (floatDivGeneric a c)"
  "keeps_PC (floatMaxGeneric a)" "keeps_PC (floatMinGeneric a)" "keeps_PC (floatAddGeneric a c)" "keeps_PC (floatSubGeneric a c)"
  "keeps_PC (floatMulAddGeneric a c)" "keeps_PC (floatCondSelectGeneric a)" "keeps_PC (floatCompareGeneric a)"
  "keeps_PC (floatConvIntToFloatGeneric d)" "keeps_PC (floatIntMovGeneric e)" "keeps_PC (floatConvertToIntGeneric d b c)"
  by (simp_all add: keeps_PC_def float_generic Let_def case_prod_beta)

lemma keeps_PC_simd:
  "keeps_PC dupGeneral" "keeps_PC insGeneral" "keeps_PC fmovVectorImmSingle" "keeps_PC orrRegisterVector" "keeps_PC ucvtfScalarInt"
  "keeps_PC scvtfScalarInt" "keeps_PC (moviGeneral a b)" "keeps_PC (movGeneral c d)" "keeps_PC addVector" "keeps_PC andVector"
  "keeps_PC (cmeqVecGeneric c)" "keeps_PC addpVec"
  by (simp_all add: keeps_PC_def simd_generic Let_def case_prod_beta)

lemma keeps_PC_vector_lists:
  "list_all (\<lambda>(i, f). keeps_PC f) (registerFloatInstructions host)"
  "list_all (\<lambda>(i, f). keeps_PC f) registerSIMDInstructions"
  using keeps_PC_float keeps_PC_simd keeps_PC_generics(1)
  by (simp_all add: registerFloatInstructions_def registerSIMDInstructions_def float_handlers simd_handlers keeps_PC_def)



definition same_flow :: "Machine \<Rightarrow> Machine \<Rightarrow> bool" where
  "same_flow mc mc' \<longleftrightarrow> nextPC (mcore mc') = nextPC (mcore mc) \<and> PC (mcore mc') = PC (mcore mc) \<and>
     entires (memory mc') = entires (memory mc)"

definition tame :: "Machine \<Rightarrow> ('a \<Rightarrow> Machine) \<Rightarrow> fault + 'a \<Rightarrow> bool" where
  "tame mc get r \<longleftrightarrow> (case r of
      Inl e \<Rightarrow> (\<exists>a. e = SegFault a \<and> translate a (memory mc) = Inl (SegFault a))
    | Inr x \<Rightarrow> same_flow mc (get x))"

lemma same_flow_refl [tame_intro, simp]: "same_flow mc mc"
  by (simp add: same_flow_def)

lemma tame_Inr [tame_intro]: "same_flow mc (get x) \<Longrightarrow> tame mc get (Inr x)"
  by (simp add: tame_def)

lemma tame_then:
  assumes "tame mc get r" and "\<And>x. same_flow mc (get x) \<Longrightarrow> tame mc get' (f x)"
  shows "tame mc get' (and_then r f)"
  using assms by (cases r) (auto simp: tame_def)

lemma translate_same: "same_flow mc mc' \<Longrightarrow> translate a (memory mc') = translate a (memory mc)"
  by (simp add: translate_def same_flow_def Let_def)

lemma translate_Inl: "translate a m = Inl e \<Longrightarrow> e = SegFault a"
  by (auto simp: translate_def Let_def split: if_splits)

lemma same_flow_core [tame_intro]:
  "same_flow mc mc' \<Longrightarrow> same_flow mc (upd_core (set_GPR r v) mc')"
  "same_flow mc mc' \<Longrightarrow> same_flow mc (upd_core (set_D0 r v) mc')"
  "same_flow mc mc' \<Longrightarrow> same_flow mc (upd_core (set_D1 r v) mc')"
  "same_flow mc mc' \<Longrightarrow> same_flow mc (upd_core (write_base inst v) mc')"
  "same_flow mc mc' \<Longrightarrow> same_flow mc (upd_core (\<lambda>core. core\<lparr>exclusiveAccess := x, exclusiveAccessAddr := y,
     exclusiveData0 := z core, exclusiveData1 := w core\<rparr>) mc')"
  by (simp_all add: same_flow_def upd_core_def set_D0_def set_D1_def set_VReg_def write_base_def)

lemma tame_accesses:
  assumes "same_flow mc mc'"
  shows "tame mc (\<lambda>x. x) (mem_write n a d mc')" "tame mc snd (mem_read n a mc')"
    "tame mc snd (writeAtomic n a d e mc')" "tame mc snd (writeAtomic128 a d d' e e' mc')"
proof -
  have c: "same_flow mc (check_breakpoint a mc')" "memory (check_breakpoint a mc') = memory mc'"
    using assms by (simp_all add: check_breakpoint_def same_flow_def)
  have h: "same_flow mc mc0 \<Longrightarrow> same_flow mc (set_host h mc0)" for mc0 h
    by (simp add: same_flow_def set_host_def)
  note t = translate_same [OF assms, of a]
  show "tame mc (\<lambda>x. x) (mem_write n a d mc')" "tame mc snd (mem_read n a mc')"
    "tame mc snd (writeAtomic n a d e mc')" "tame mc snd (writeAtomic128 a d d' e e' mc')"
    using assms c h
    by (cases "translate a (memory mc)";
        auto simp: tame_def mem_write_def mem_read_def writeAtomic_def writeAtomic128_def Let_def t dest: translate_Inl)+
qed

lemma tame_if [tame_intro]:
  "(c \<Longrightarrow> tame mc get r) \<Longrightarrow> (\<not> c \<Longrightarrow> tame mc get r') \<Longrightarrow> tame mc get (if c then r else r')"
  "same_flow mc m1 \<Longrightarrow> same_flow mc m2 \<Longrightarrow> same_flow mc (if c then m1 else m2)"
  "same_flow mc m1 \<Longrightarrow> same_flow mc (m1\<lparr>gTimer := t\<rparr>)"
  by (auto simp: same_flow_def)

lemma tame_then_pair [tame_intro]:
  "tame mc snd r \<Longrightarrow> (\<And>a mc'. same_flow mc mc' \<Longrightarrow> tame mc get (F a mc')) \<Longrightarrow> tame mc get (and_then r (\<lambda>(a, m). F a m))"
  by (rule tame_then [where get = snd]) auto

lemmas tame_then_machine [tame_intro] = tame_then [where get = "\<lambda>x. x"]

definition straight :: "(Machine \<Rightarrow> u32 \<Rightarrow> fault + Machine) \<Rightarrow> bool" where
  "straight f \<longleftrightarrow> (\<forall>mc inst. tame mc (\<lambda>x. x) (f mc inst))"

lemma straight_generics:
  "straight (storeRegImmGeneric T sf)" "straight (loadRegImmGeneric T lf)" "straight (storePairGeneric T sf)"
  "straight (loadPairGeneric T lf)" "straight (storeRegOffGeneric T sf)" "straight (loadRegOffGeneric T lf)"
  "straight (loadRegLiteralGeneric T lf)" "straight mrs"
  unfolding straight_def loadstore_generic Let_def mrs_def
  by (intro allI, (rule tame_intro tame_accesses | assumption)+)+

lemma straight_core: "keeps_PC f \<Longrightarrow> straight (on_core f)"
  by (simp add: keeps_PC_def straight_def on_core_def tame_def same_flow_def upd_core_def)

lemma straight_loadstore: "list_all (\<lambda>(i, f). straight f) registerLoadStoreInstructions"
  using straight_generics straight_core [OF keeps_PC_generics(1)] straight_core [OF keeps_PC_generics(2)]
  by (simp add: registerLoadStoreInstructions_def loadstore_handlers straight_def)

subsection \<open>The table of handlers\<close>

lemma register_all_pred:
  assumes "list_all (\<lambda>(i, f). P i f) fs" and "P i (tab i)"
  shows "P i (register_all fs tab i)"
  using assms by (induction fs arbitrary: tab) (auto simp: register_all_def registerInstruction_def)

lemma register_all_other: "i \<notin> fst ` set fs \<Longrightarrow> register_all fs tab i = tab i"
  by (induction fs arbitrary: tab) (auto simp: register_all_def registerInstruction_def)

definition plain :: "instructionID \<Rightarrow> bool" where
  "plain i \<longleftrightarrow> \<not> isBranch i \<and> i \<noteq> ID_SVC \<and> i \<noteq> ID_INVALID"

lemma plain_lists:
  "list_all (\<lambda>(i, f). plain i \<longrightarrow> straight f) (core_list registerBranchInstructions)"
  "list_all (\<lambda>(i, f). plain i \<longrightarrow> straight f) (registerSystemInstructions hs)"
  "list_all (\<lambda>(i, f). plain i \<longrightarrow> straight f) (core_list registerDPImmInstructions)"
  "list_all (\<lambda>(i, f). plain i \<longrightarrow> straight f) (core_list registerDPRegInstructions)"
  "list_all (\<lambda>(i, f). plain i \<longrightarrow> straight f) registerLoadStoreInstructions"
  "list_all (\<lambda>(i, f). plain i \<longrightarrow> straight f) (core_list (registerFloatInstructions host))"
  "list_all (\<lambda>(i, f). plain i \<longrightarrow> straight f) (core_list registerSIMDInstructions)"
proof -
  show "list_all (\<lambda>(i, f). plain i \<longrightarrow> straight f) (core_list registerBranchInstructions)"
    by (simp add: core_list_def registerBranchInstructions_def plain_def isBranch_def)
  show "list_all (\<lambda>(i, f). plain i \<longrightarrow> straight f) (registerSystemInstructions hs)"
    using keeps_PC_generics(1-7) [THEN straight_core] straight_generics(8)
    by (simp add: registerSystemInstructions_def plain_def)
  show "list_all (\<lambda>(i, f). plain i \<longrightarrow> straight f) (core_list registerDPImmInstructions)"
    "list_all (\<lambda>(i, f). plain i \<longrightarrow> straight f) (core_list registerDPRegInstructions)"
    "list_all (\<lambda>(i, f). plain i \<longrightarrow> straight f) (core_list (registerFloatInstructions host))"
    "list_all (\<lambda>(i, f). plain i \<longrightarrow> straight f) (core_list registerSIMDInstructions)"
    using keeps_PC_lists keeps_PC_vector_lists(1) [of host] keeps_PC_vector_lists(2) straight_core by (auto simp: core_list_def list_all_iff)
  show "list_all (\<lambda>(i, f). plain i \<longrightarrow> straight f) registerLoadStoreInstructions"
    using straight_loadstore by (auto simp: list_all_iff)
qed

lemma plain_straight:
  assumes "plain i"
  shows "straight (interp_init hs host i)"
proof -
  have "plain i \<longrightarrow> straight (interp_init hs host i)"
    unfolding interp_init_def Let_def registerInstruction_def
    using assms straight_core [OF keeps_PC_generics(1)]
    by (subst fun_upd_other) (simp add: plain_def,
        intro register_all_pred [where P = "\<lambda>i f. plain i \<longrightarrow> straight f"] plain_lists, simp)
  then show ?thesis using assms by simp
qed

lemma branch_free_lists:
  "list_all (\<lambda>(i, f). \<not> isBranch i) (registerSystemInstructions hs)"
  "list_all (\<lambda>(i, f). \<not> isBranch i) (core_list registerDPImmInstructions)"
  "list_all (\<lambda>(i, f). \<not> isBranch i) (core_list registerDPRegInstructions)"
  "list_all (\<lambda>(i, f). \<not> isBranch i) registerLoadStoreInstructions"
  "list_all (\<lambda>(i, f). \<not> isBranch i) (core_list (registerFloatInstructions host))"
  "list_all (\<lambda>(i, f). \<not> isBranch i) (core_list registerSIMDInstructions)"
  by (simp_all add: isBranch_def core_list_def registerSystemInstructions_def registerDPImmInstructions_def
      registerDPRegInstructions_def registerLoadStoreInstructions_def registerFloatInstructions_def registerSIMDInstructions_def)

lemma register_all_branch: "list_all (\<lambda>(i, f). \<not> isBranch i) fs \<Longrightarrow> isBranch i \<Longrightarrow> register_all fs tab i = tab i"
  by (rule register_all_other) (auto simp: list_all_iff)

lemma branch_table:
  assumes "isBranch i"
  shows "interp_init hs host i =
    register_all (core_list registerBranchInstructions) (\<lambda>i. on_core UNIMPLEMENTED_FUNC) i"
proof -
  have "i \<noteq> ID_INVALID" using assms by (auto simp: isBranch_def)
  then show ?thesis
    using assms by (simp add: interp_init_def Let_def registerInstruction_def register_all_branch branch_free_lists)
qed

definition branch_target :: "instructionID \<Rightarrow> Core \<Rightarrow> u32 \<Rightarrow> u64" where
  "branch_target i core inst =
     (if i \<in> {ID_B, ID_BL} then PC core + branch_offset 26 (inst_0_25 inst)
      else if i \<in> {ID_BR, ID_BLR, ID_RET} then GPRegs core (inst_Rn inst)
      else if i = ID_B_cond then
        (if testCondition (PSTATE core) (to_Condition (inst_cond inst)) then PC core + branch_offset 19 (inst_5_23 inst) else PC core + 4)
      else if i \<in> {ID_CBZ_32, ID_CBZ_64, ID_CBNZ_32, ID_CBNZ_64} then
        (if (take_bit (width (i \<in> {ID_CBZ_64, ID_CBNZ_64})) (GPRegs core (inst_Rt inst)) = 0) = (i \<in> {ID_CBZ_32, ID_CBZ_64})
         then PC core + branch_offset 19 (inst_5_23 inst) else PC core + 4)
      else if bit (GPRegs core (inst_Rt inst)) (unat (inst_b40 inst) + 32 * unat (inst_b5 inst)) = (i = ID_TBNZ)
        then PC core + branch_offset 14 (inst_5_18 inst) else PC core + 4)"

lemma register_all_Cons:
  "register_all ((j, f) # fs) tab i = register_all fs (tab(j := f)) i" "register_all [] tab i = tab i"
  by (simp_all add: register_all_def registerInstruction_def)

lemma branch_table_entries:
  "register_all (core_list registerBranchInstructions) tab ID_B_cond = on_core condBranch" "register_all (core_list registerBranchInstructions) tab ID_BR = on_core (uncondBranchRegGeneric False)"
  "register_all (core_list registerBranchInstructions) tab ID_BLR = on_core (uncondBranchRegGeneric True)" "register_all (core_list registerBranchInstructions) tab ID_RET = on_core (uncondBranchRegGeneric False)"
  "register_all (core_list registerBranchInstructions) tab ID_B = on_core (uncondBranchImmGeneric False)" "register_all (core_list registerBranchInstructions) tab ID_BL = on_core (uncondBranchImmGeneric True)"
  "register_all (core_list registerBranchInstructions) tab ID_CBZ_32 = on_core (compareBranchGeneric False False)" "register_all (core_list registerBranchInstructions) tab ID_CBNZ_32 = on_core (compareBranchGeneric False True)"
  "register_all (core_list registerBranchInstructions) tab ID_CBZ_64 = on_core (compareBranchGeneric True False)" "register_all (core_list registerBranchInstructions) tab ID_CBNZ_64 = on_core (compareBranchGeneric True True)"
  "register_all (core_list registerBranchInstructions) tab ID_TBZ = on_core (testBitBranchGeneric True)" "register_all (core_list registerBranchInstructions) tab ID_TBNZ = on_core (testBitBranchGeneric False)"
  unfolding core_list_def registerBranchInstructions_def
  by (simp_all add: register_all_Cons fun_eq_iff on_core_def uncondBranchRegNoLink_def uncondBranchRegLink_def
      uncondBranchImmNoLink_def uncondBranchImmLink_def cbz32_def cbnz32_def cbz64_def cbnz64_def tbz_def tbnz_def)

lemma branch_frame:
  "PC (condBranch core inst) = PC core" "GPRegs (condBranch core inst) = GPRegs core"
  "PC (compareBranchGeneric a c core inst) = PC core" "GPRegs (compareBranchGeneric a c core inst) = GPRegs core"
  "PC (testBitBranchGeneric c core inst) = PC core" "GPRegs (testBitBranchGeneric c core inst) = GPRegs core"
  "PC (uncondBranchRegGeneric c core inst) = PC core" "PC (uncondBranchImmGeneric c core inst) = PC core"
  "GPRegs (uncondBranchRegGeneric c core inst) = (if c then (GPRegs core)(30 := PC core + 4) else GPRegs core)"
  "GPRegs (uncondBranchImmGeneric c core inst) = (if c then (GPRegs core)(30 := PC core + 4) else GPRegs core)"
  by (simp_all add: condBranch_def compareBranchGeneric_def testBitBranchGeneric_def uncondBranchRegGeneric_def
      uncondBranchImmGeneric_def Let_def)

lemmas branch_nexts = branch_next [THEN conjunct1] branch_next [THEN conjunct2, THEN conjunct1]
  branch_next [THEN conjunct2, THEN conjunct2, THEN conjunct1]
  branch_next [THEN conjunct2, THEN conjunct2, THEN conjunct2, THEN conjunct1]
  branch_next [THEN conjunct2, THEN conjunct2, THEN conjunct2, THEN conjunct2]

lemma branch_handler_effect:
  assumes "isBranch i" "i \<noteq> ID_ERET" "i \<noteq> ID_DRPS" and "nextPC core = PC core + 4"
  shows "\<exists>f. register_all (core_list registerBranchInstructions) tab i = on_core f \<and>
    nextPC (f core inst) = branch_target i core inst \<and> PC (f core inst) = PC core \<and>
    GPRegs (f core inst) = (if i \<in> {ID_BL, ID_BLR} then (GPRegs core)(30 := PC core + 4) else GPRegs core)"
proof -
  have "i \<in> {ID_B_cond, ID_BR, ID_BLR, ID_RET, ID_B, ID_BL, ID_CBZ_32, ID_CBNZ_32, ID_CBZ_64, ID_CBNZ_64, ID_TBZ, ID_TBNZ}"
    using assms(1-3) by (auto simp: isBranch_def)
  then show ?thesis
    by (elim insertE emptyE; hypsubst)
      (rule exI, rule conjI, rule branch_table_entries, simp add: branch_nexts branch_frame branch_target_def assms(4))+
qed

lemma fetch_view:
  assumes "mem_ok N mc"
  shows "fetch a (memory mc) = (if mview mc a = None then Inl (SegFault a) else Inr (ucast (le_val (mload a 4 mc))))"
proof -
  obtain fl where ok: "alloc_ok N fl (memory mc)" using assms by (auto simp: mem_ok_def alloc_inv_def)
  show ?thesis
    using translate_cases [OF ok, of a] mview_mapped [OF ok, of a] by (auto simp: fetch_def mload_def load_le_def)
qed

text \<open>A machine about to execute the instruction \<open>w\<close> at address \<^verbatim>\<open>0x1100\<close>.\<close>

definition demo_code :: "u32 \<Rightarrow> Machine" where
  "demo_code w = (case mem_write 4 0x1100 (ucast w) demo_machine of
     Inr mc \<Rightarrow> upd_core (\<lambda>core. core\<lparr>PC := 0x1100\<rparr>) mc | Inl _ \<Rightarrow> demo_machine)"

lemma demo_code_facts:
  "fetch 0x1100 (memory (demo_code w)) = Inr w" "PC (mcore (demo_code w)) = 0x1100" "mem_ok 2 (demo_code w)"
proof -
  have v: "mview demo_machine 0x1100 \<noteq> None" "page_offset 0x1100 + 4 \<le> 4096"
    by (simp_all add: demo_machine_facts demo_pages)
  obtain mc' where w: "mem_write 4 0x1100 (ucast w) demo_machine = Inr mc'" "mem_ok 2 mc'" "mload 0x1100 4 mc' = le_bytes 4 (ucast w)"
    "mview mc' 0x1100 \<noteq> None"
    using mem_write_effect [OF demo_machine_facts(1) v, of "ucast w"] v by (metis option.distinct(1))
  have "ucast (take_bit 32 (ucast w :: u64)) = w" by (rule bit_word_eqI) (simp add: bit_simps)
  then have "fetch 0x1100 (memory mc') = Inr w"
    using fetch_view [OF w(2), of "0x1100"] w(3,4) le_val_le_bytes [of 4 "ucast w"] by simp
  then show "fetch 0x1100 (memory (demo_code w)) = Inr w" "PC (mcore (demo_code w)) = 0x1100" "mem_ok 2 (demo_code w)"
    using w by (simp_all add: demo_code_def upd_core_def mem_ok_def)
qed

lemma demo_decodes: "di_id (decode 0xD503201F) = ID_NOP" "di_id (decode 0x14000002) = ID_B"
  by code_simp+

definition plain_host :: HostFP where
  "plain_host = \<lparr>nan_of = (\<lambda>fmt x y. x), out_of_range = (\<lambda>s w x. 0)\<rparr>"

subsection \<open>Properties\<close>

text \<open>
  C6. Control flow is sequential except at branches: a step on an instruction that is not a branch by \<^verbatim>\<open>isBranch\<close>,
  not a supervisor call and not invalid either continues at \<open>PC + 4\<close> with the zero register clear and the page
  table unchanged, or ends in the segmentation fault of an address that is not mapped.
\<close>

theorem step_sequential:
  assumes "\<forall>bits. fetch (PC (mcore mc)) (memory mc) = Inr bits \<longrightarrow> plain (di_id (decode bits))"
  shows "case step (interp_init hs host) mc of
      Inl e \<Rightarrow> (\<exists>a. e = SegFault a \<and> translate a (memory mc) = Inl (SegFault a))
    | Inr mc' \<Rightarrow> PC (mcore mc') = PC (mcore mc) + 4 \<and> GPRegs (mcore mc') 31 = 0 \<and>
        entires (memory mc') = entires (memory mc)"
proof (cases "fetch (PC (mcore mc)) (memory mc)")
  case (Inl e)
  then show ?thesis
    by (cases "translate (PC (mcore mc)) (memory mc)") (auto simp: step_def fetch_def dest: translate_Inl)
next
  case (Inr bits)
  let ?mc = "upd_core (\<lambda>core. core\<lparr>nextPC := PC core + 4\<rparr>) mc"
  let ?r = "interp_init hs host (di_id (decode bits)) ?mc (di_inst (decode bits))"
  have "straight (interp_init hs host (di_id (decode bits)))"
    using plain_straight assms Inr by blast
  then have "tame ?mc (\<lambda>x. x) ?r" by (simp add: straight_def)
  moreover have "memory ?mc = memory mc" "nextPC (mcore ?mc) = PC (mcore mc) + 4" "PC (mcore ?mc) = PC (mcore mc)"
    by (simp_all add: upd_core_def)
  ultimately show ?thesis
    using Inr by (cases ?r) (auto simp: step_def Let_def getInstructionFunc_def tame_def same_flow_def upd_core_def)
qed

theorem step_sequential_witness:
  "case step (interp_init \<lparr>gSVCHandler = (\<lambda>i mc. Inr mc), gIllInstHandler = Inr\<rparr> plain_host) (demo_code 0xD503201F) of
     Inl e \<Rightarrow> (\<exists>a. e = SegFault a \<and> translate a (memory (demo_code 0xD503201F)) = Inl (SegFault a))
   | Inr mc' \<Rightarrow> PC (mcore mc') = PC (mcore (demo_code 0xD503201F)) + 4 \<and> GPRegs (mcore mc') 31 = 0 \<and>
       entires (memory mc') = entires (memory (demo_code 0xD503201F))"
  by (rule step_sequential) (simp_all add: demo_code_facts demo_decodes plain_def isBranch_def)

text \<open>The effect of a step on a branch.\<close>

lemma branch_step:
  assumes "fetch (PC (mcore mc)) (memory mc) = Inr bits"
    and "isBranch (di_id (decode bits))" and "di_id (decode bits) \<notin> {ID_ERET, ID_DRPS}"
  shows "\<exists>mc'. step (interp_init hs host) mc = Inr mc' \<and> memory mc' = memory mc \<and>
    PC (mcore mc') = branch_target (di_id (decode bits)) (mcore mc) bits \<and>
    (\<forall>r. r \<noteq> 31 \<longrightarrow> GPRegs (mcore mc') r =
      (if di_id (decode bits) \<in> {ID_BL, ID_BLR} \<and> r = 30 then PC (mcore mc) + 4 else GPRegs (mcore mc) r))"
proof -
  let ?core = "(mcore mc)\<lparr>nextPC := PC (mcore mc) + 4\<rparr>"
  have bt: "branch_target i ?core x = branch_target i (mcore mc) x" for i x by (simp add: branch_target_def)
  have b: "di_inst (decode bits) = bits" by (simp add: decode_def)
  obtain f where f: "interp_init hs host (di_id (decode bits)) = on_core f"
    "nextPC (f ?core bits) = branch_target (di_id (decode bits)) (mcore mc) bits"
    "GPRegs (f ?core bits) = (if di_id (decode bits) \<in> {ID_BL, ID_BLR} then (GPRegs (mcore mc))(30 := PC (mcore mc) + 4) else GPRegs (mcore mc))"
    using branch_handler_effect [OF assms(2), of ?core "\<lambda>i. on_core UNIMPLEMENTED_FUNC" bits] assms(3) bt
    unfolding branch_table [OF assms(2)] by auto
  show ?thesis
    using assms(1) by (simp add: step_def Let_def getInstructionFunc_def f on_core_def upd_core_def b)
qed

lemma unimplemented_branch:
  assumes "i \<in> {ID_ERET, ID_DRPS}"
  shows "interp_init hs host i = on_core UNIMPLEMENTED_FUNC"
proof -
  have "isBranch i" using assms by (auto simp: isBranch_def)
  from branch_table [OF this] show ?thesis
    using assms unfolding core_list_def registerBranchInstructions_def by (auto simp: register_all_Cons)
qed

text \<open>
  C7. A step on a branch instruction always succeeds, leaves memory alone, continues at the architectural target and, for
  \<^verbatim>\<open>BL\<close> and \<^verbatim>\<open>BLR\<close> only, puts the return address in register 30, with no other general register changed. The exceptions are \<^verbatim>\<open>ERET\<close> and
  \<^verbatim>\<open>DRPS\<close>, which \<^verbatim>\<open>isBranch\<close> counts as branches and the interpreter leaves unimplemented: they continue at \<open>PC + 4\<close>.
\<close>

theorem step_branch:
  assumes "fetch (PC (mcore mc)) (memory mc) = Inr bits" and "isBranch (di_id (decode bits))"
  shows "\<exists>mc'. step (interp_init hs host) mc = Inr mc' \<and> memory mc' = memory mc \<and>
    PC (mcore mc') = (if di_id (decode bits) \<in> {ID_ERET, ID_DRPS} then PC (mcore mc) + 4 else branch_target (di_id (decode bits)) (mcore mc) bits) \<and>
    (\<forall>r. r \<noteq> 31 \<longrightarrow> GPRegs (mcore mc') r =
      (if di_id (decode bits) \<in> {ID_BL, ID_BLR} \<and> r = 30 then PC (mcore mc) + 4 else GPRegs (mcore mc) r))"
proof (cases "di_id (decode bits) \<in> {ID_ERET, ID_DRPS}")
  case True
  then have "interp_init hs host (di_id (decode bits)) = on_core UNIMPLEMENTED_FUNC" by (rule unimplemented_branch)
  then show ?thesis
    using True assms(1) by (auto simp: step_def Let_def getInstructionFunc_def on_core_def upd_core_def UNIMPLEMENTED_FUNC_def)
next
  case False
  from branch_step [OF assms False] False show ?thesis by simp
qed

theorem step_branch_witness:
  "\<exists>mc'. step (interp_init \<lparr>gSVCHandler = (\<lambda>i mc. Inr mc), gIllInstHandler = Inr\<rparr> plain_host) (demo_code 0x14000002) = Inr mc' \<and>
     PC (mcore mc') = 0x1108"
proof -
  have "branch_target ID_B (mcore (demo_code 0x14000002)) 0x14000002 = 0x1108"
    by (simp add: branch_target_def demo_code_facts branch_offset_def inst_fields bitRange_def shr_def bitmask_def shl_def
        signed_take_bit_eq_take_bit_minus bit_iff_odd take_bit_eq_mod)
  then show ?thesis
    using step_branch [of "demo_code 0x14000002" "0x14000002" "\<lparr>gSVCHandler = (\<lambda>i mc. Inr mc), gIllInstHandler = Inr\<rparr>" plain_host]
    by (auto simp: demo_code_facts demo_decodes isBranch_def)
qed

end
