(* ===== verification/Cpu_Interrupts.thy ===== *)
theory Cpu_Interrupts
  imports Cpu_State
begin

text \<open>
  The interrupt protocol of \<^verbatim>\<open>libcpu/src/cpu.cpp\<close> as a transition system over the threads that run it: any number of senders
  in \<^verbatim>\<open>sendInterrupts\<close>, and the thread of each core in \<^verbatim>\<open>waitForInterrupt\<close> or, while it executes guest code, in
  \<^verbatim>\<open>checkInterrupts\<close>. The break handler of the debugger, which runs inside the interrupt handler or after a segmentation fault, drops a pending
  debug break with \<^verbatim>\<open>clearInterrupts\<close> (\<^verbatim>\<open>debug.cpp\<close>). Each transition is one access to shared state: taking or releasing \<^verbatim>\<open>gInterruptLock\<close>, one atomic
  operation on \<^verbatim>\<open>Core::interrupts\<close>, \<^verbatim>\<open>notify_all\<close>, or \<^verbatim>\<open>wait\<close>, which releases the lock and blocks in one step and may
  wake up spuriously. \<open>sent\<close>, \<open>delivered\<close> and \<open>discarded\<close> are history variables: the bits ever passed to \<^verbatim>\<open>sendInterrupts\<close>, ever handed
  to \<^verbatim>\<open>gInterruptHandler\<close> and ever dropped by \<^verbatim>\<open>clearInterrupts\<close>.
\<close>

unbundle bit_operations_syntax

datatype waiter = Running | Checking | AboutToWait | Asleep | Notified | Unlocking u64 | Handling u64

datatype sender = Idle | Locked nat u64 | Notifying | Leaving

datatype owner = CoreThread nat | SenderThread nat

record IState =
  pending :: "nat \<Rightarrow> u64"
  lock_owner :: "owner option"
  waiter_at :: "nat \<Rightarrow> waiter"
  sender_at :: "nat \<Rightarrow> sender"
  sent :: "nat \<Rightarrow> u64"
  delivered :: "nat \<Rightarrow> u64"
  discarded :: "nat \<Rightarrow> u64"

definition wake_all :: "(nat \<Rightarrow> waiter) \<Rightarrow> nat \<Rightarrow> waiter" where
  "wake_all w = (\<lambda>c. if w c = Asleep then Notified else w c)"

inductive istep :: "IState \<Rightarrow> IState \<Rightarrow> bool" where
  send_lock: "sender_at s t = Idle \<Longrightarrow> lock_owner s = None \<Longrightarrow>
    istep s (s\<lparr>sender_at := (sender_at s)(t := Locked c ints), lock_owner := Some (SenderThread t)\<rparr>)"
| send_or: "sender_at s t = Locked c ints \<Longrightarrow>
    istep s (s\<lparr>sender_at := (sender_at s)(t := Notifying), pending := (pending s)(c := pending s c OR ints),
      sent := (sent s)(c := sent s c OR ints)\<rparr>)"
| send_notify: "sender_at s t = Notifying \<Longrightarrow>
    istep s (s\<lparr>sender_at := (sender_at s)(t := Leaving), waiter_at := wake_all (waiter_at s)\<rparr>)"
| send_unlock: "sender_at s t = Leaving \<Longrightarrow>
    istep s (s\<lparr>sender_at := (sender_at s)(t := Idle), lock_owner := None\<rparr>)"
| wait_lock: "waiter_at s c = Running \<Longrightarrow> lock_owner s = None \<Longrightarrow>
    istep s (s\<lparr>waiter_at := (waiter_at s)(c := Checking), lock_owner := Some (CoreThread c)\<rparr>)"
| wait_take: "waiter_at s c = Checking \<Longrightarrow> pending s c \<noteq> 0 \<Longrightarrow>
    istep s (s\<lparr>waiter_at := (waiter_at s)(c := Unlocking (pending s c)), pending := (pending s)(c := 0)\<rparr>)"
| wait_unlock: "waiter_at s c = Unlocking ints \<Longrightarrow>
    istep s (s\<lparr>waiter_at := (waiter_at s)(c := Handling ints), lock_owner := None\<rparr>)"
| wait_none: "waiter_at s c = Checking \<Longrightarrow> pending s c = 0 \<Longrightarrow>
    istep s (s\<lparr>waiter_at := (waiter_at s)(c := AboutToWait), pending := (pending s)(c := 0)\<rparr>)"
| wait_block: "waiter_at s c = AboutToWait \<Longrightarrow>
    istep s (s\<lparr>waiter_at := (waiter_at s)(c := Asleep), lock_owner := None\<rparr>)"
| wait_spurious: "waiter_at s c = Asleep \<Longrightarrow>
    istep s (s\<lparr>waiter_at := (waiter_at s)(c := Notified)\<rparr>)"
| wait_relock: "waiter_at s c = Notified \<Longrightarrow> lock_owner s = None \<Longrightarrow>
    istep s (s\<lparr>waiter_at := (waiter_at s)(c := Checking), lock_owner := Some (CoreThread c)\<rparr>)"
| check_take: "waiter_at s c = Running \<Longrightarrow> pending s c \<noteq> 0 \<Longrightarrow>
    istep s (s\<lparr>waiter_at := (waiter_at s)(c := Handling (pending s c)), pending := (pending s)(c := 0)\<rparr>)"
| handle: "waiter_at s c = Handling ints \<Longrightarrow>
    istep s (s\<lparr>waiter_at := (waiter_at s)(c := Running), delivered := (delivered s)(c := delivered s c OR ints)\<rparr>)"
| break_clear: "waiter_at s c = Running \<or> (\<exists>ints. waiter_at s c = Handling ints \<and> ints AND DEBUG_BREAK_INTERRUPT \<noteq> 0) \<Longrightarrow>
    istep s (s\<lparr>pending := (pending s)(c := pending s c AND NOT DEBUG_BREAK_INTERRUPT),
      discarded := (discarded s)(c := discarded s c OR (pending s c AND DEBUG_BREAK_INTERRUPT))\<rparr>)"

definition initial :: IState where
  "initial = \<lparr>pending = (\<lambda>c. 0), lock_owner = None, waiter_at = (\<lambda>c. Running), sender_at = (\<lambda>t. Idle),
     sent = (\<lambda>c. 0), delivered = (\<lambda>c. 0), discarded = (\<lambda>c. 0)\<rparr>"

inductive reachable :: "IState \<Rightarrow> bool" where
  start: "reachable initial"
| step: "reachable s \<Longrightarrow> istep s s' \<Longrightarrow> reachable s'"

subsection \<open>The invariant\<close>

fun holding :: "waiter \<Rightarrow> bool" where
  "holding Checking = True"
| "holding AboutToWait = True"
| "holding (Unlocking i) = True"
| "holding w = False"

text \<open>Interrupts a core has taken and not yet handled.\<close>

fun in_hand :: "waiter \<Rightarrow> u64" where
  "in_hand (Unlocking i) = i"
| "in_hand (Handling i) = i"
| "in_hand w = 0"

definition lock_inv :: "IState \<Rightarrow> bool" where
  "lock_inv s \<longleftrightarrow>
     (\<forall>c. holding (waiter_at s c) \<longleftrightarrow> lock_owner s = Some (CoreThread c)) \<and>
     (\<forall>t. sender_at s t \<noteq> Idle \<longleftrightarrow> lock_owner s = Some (SenderThread t))"

definition sleep_inv :: "IState \<Rightarrow> bool" where
  "sleep_inv s \<longleftrightarrow>
     (\<forall>c. waiter_at s c = AboutToWait \<longrightarrow> pending s c = 0) \<and>
     (\<forall>c. waiter_at s c = Asleep \<longrightarrow> pending s c = 0 \<or> (\<exists>t. sender_at s t = Notifying))"

definition history_inv :: "IState \<Rightarrow> bool" where
  "history_inv s \<longleftrightarrow> (\<forall>c. sent s c = delivered s c OR in_hand (waiter_at s c) OR pending s c OR discarded s c \<and>
     discarded s c AND NOT DEBUG_BREAK_INTERRUPT = 0)"

lemma clear_split: "(p AND NOT d) OR (x OR (p AND d)) = p OR x" for p d x :: u64
  by (rule bit_word_eqI) (auto simp: bit_simps)

lemma lock_inv_step: "istep s s' \<Longrightarrow> lock_inv s \<Longrightarrow> lock_inv s'"
proof (induction rule: istep.induct)
  case (send_notify s t)
  have "holding (wake_all (waiter_at s) c) = holding (waiter_at s c)" for c
    by (auto simp: wake_all_def)
  with send_notify show ?case by (auto simp: lock_inv_def)
qed (auto simp: lock_inv_def split: if_splits;
    metis holding.simps sender.distinct option.inject owner.distinct owner.inject option.distinct(1))+

lemma sleep_inv_step: "istep s s' \<Longrightarrow> lock_inv s \<Longrightarrow> sleep_inv s \<Longrightarrow> sleep_inv s'"
proof (induction rule: istep.induct)
  case (send_or s t c ints)
  have "lock_owner s = Some (SenderThread t)" using send_or by (simp add: lock_inv_def) (metis sender.distinct(1))
  then have "\<not> holding (waiter_at s d)" for d using send_or by (simp add: lock_inv_def)
  then have "waiter_at s d \<noteq> AboutToWait" for d by (metis holding.simps(2))
  with send_or show ?case by (auto simp: sleep_inv_def)
next
  case (send_notify s t)
  then show ?case by (auto simp: sleep_inv_def wake_all_def split: if_splits)
qed (auto simp: sleep_inv_def split: if_splits; metis sender.distinct)+

lemma history_inv_step: "istep s s' \<Longrightarrow> history_inv s \<Longrightarrow> history_inv s'"
proof (induction rule: istep.induct)
  case (send_notify s t)
  have "in_hand (wake_all (waiter_at s) c) = in_hand (waiter_at s c)" for c by (auto simp: wake_all_def)
  with send_notify show ?case by (simp add: history_inv_def)
next
  case (break_clear s c)
  have "(discarded s c OR (pending s c AND DEBUG_BREAK_INTERRUPT)) AND NOT DEBUG_BREAK_INTERRUPT = 0"
    using break_clear by (simp add: history_inv_def bit_eq_iff bit_simps) blast
  with break_clear show ?case by (simp add: history_inv_def clear_split)
qed (auto simp: history_inv_def ac_simps split: if_splits)

lemma reachable_inv: "reachable s \<Longrightarrow> lock_inv s \<and> sleep_inv s \<and> history_inv s"
proof (induction rule: reachable.induct)
  case start
  then show ?case by (simp add: initial_def lock_inv_def sleep_inv_def history_inv_def)
next
  case (step s s')
  then show ?case using lock_inv_step sleep_inv_step history_inv_step by blast
qed

subsection \<open>Properties\<close>

text \<open>
  C15. No interrupt is lost but debug breaks that the debugger drops: in every reachable state of the protocol, every bit ever sent to a core has been
  handed to its interrupt handler, is in the hands of the core on the way to it, is still pending, or was dropped by \<^verbatim>\<open>clearInterrupts\<close>, which drops
  the bit \<^verbatim>\<open>DEBUG_BREAK_INTERRUPT\<close> only; and a core sleeps with an interrupt pending only while the sender that set it is about to wake it.
\<close>

theorem no_interrupt_lost:
  assumes "reachable s"
  shows "sent s c = delivered s c OR in_hand (waiter_at s c) OR pending s c OR discarded s c \<and>
    discarded s c AND NOT DEBUG_BREAK_INTERRUPT = 0 \<and>
    (waiter_at s c = Asleep \<and> pending s c \<noteq> 0 \<longrightarrow> (\<exists>t. sender_at s t = Notifying))"
  using reachable_inv [OF assms] by (auto simp: history_inv_def sleep_inv_def)

theorem no_interrupt_lost_witness:
  "\<exists>s. reachable s \<and> sent s 1 = 3 \<and> pending s 1 = 1 \<and> discarded s 1 = 2 \<and>
     sent s 1 = delivered s 1 OR in_hand (waiter_at s 1) OR pending s 1 OR discarded s 1"
proof -
  let ?s1 = "initial\<lparr>sender_at := (sender_at initial)(0 := Locked 1 3), lock_owner := Some (SenderThread 0)\<rparr>"
  let ?s2 = "?s1\<lparr>sender_at := (sender_at ?s1)(0 := Notifying), pending := (pending ?s1)(1 := pending ?s1 1 OR 3),
      sent := (sent ?s1)(1 := sent ?s1 1 OR 3)\<rparr>"
  let ?s3 = "?s2\<lparr>pending := (pending ?s2)(1 := pending ?s2 1 AND NOT DEBUG_BREAK_INTERRUPT),
      discarded := (discarded ?s2)(1 := discarded ?s2 1 OR (pending ?s2 1 AND DEBUG_BREAK_INTERRUPT))\<rparr>"
  have "istep initial ?s1" by (rule send_lock) (simp_all add: initial_def)
  moreover have "istep ?s1 ?s2" by (rule send_or) simp
  moreover have "istep ?s2 ?s3" by (rule break_clear) (simp add: initial_def)
  ultimately have r: "reachable ?s3" by (meson reachable.intros)
  moreover have "sent ?s3 1 = 3" "pending ?s3 1 = 1" "discarded ?s3 1 = 2"
    by (simp_all add: initial_def DEBUG_BREAK_INTERRUPT_def shl_def)
  ultimately show ?thesis using no_interrupt_lost [OF r, of 1] by blast
qed

text \<open>
  C16. A sleeping core with a pending interrupt gets to handle it: from every such reachable state the protocol can run on to the state in
  which the core hands exactly the pending interrupts to its handler.
\<close>

theorem sleeper_is_woken:
  assumes "reachable s" and "waiter_at s c = Asleep" and "pending s c \<noteq> 0"
  shows "\<exists>s'. istep\<^sup>*\<^sup>* s s' \<and> waiter_at s' c = Handling (pending s c)"
proof -
  obtain t where t: "sender_at s t = Notifying"
    using reachable_inv [OF assms(1)] assms(2,3) by (auto simp: sleep_inv_def)
  let ?s1 = "s\<lparr>sender_at := (sender_at s)(t := Leaving), waiter_at := wake_all (waiter_at s)\<rparr>"
  let ?s2 = "?s1\<lparr>sender_at := (sender_at ?s1)(t := Idle), lock_owner := None\<rparr>"
  let ?s3 = "?s2\<lparr>waiter_at := (waiter_at ?s2)(c := Checking), lock_owner := Some (CoreThread c)\<rparr>"
  let ?s4 = "?s3\<lparr>waiter_at := (waiter_at ?s3)(c := Unlocking (pending ?s3 c)), pending := (pending ?s3)(c := 0)\<rparr>"
  let ?s5 = "?s4\<lparr>waiter_at := (waiter_at ?s4)(c := Handling (pending s c)), lock_owner := None\<rparr>"
  have "istep s ?s1" using t by (rule send_notify)
  moreover have "istep ?s1 ?s2" by (rule send_unlock) simp
  moreover have "istep ?s2 ?s3" using assms(2) by (intro wait_relock) (simp_all add: wake_all_def)
  moreover have "istep ?s3 ?s4" using assms(3) by (intro wait_take) simp_all
  moreover have "istep ?s4 ?s5" by (rule wait_unlock) simp
  ultimately have "istep\<^sup>*\<^sup>* s ?s5" by (meson converse_rtranclp_into_rtranclp rtranclp.rtrancl_refl)
  then show ?thesis by (intro exI [of _ ?s5]) simp
qed

theorem sleeper_is_woken_witness:
  "\<exists>s s'. reachable s \<and> istep\<^sup>*\<^sup>* s s' \<and> waiter_at s' 1 = Handling 4"
proof -
  let ?s1 = "initial\<lparr>waiter_at := (waiter_at initial)(1 := Checking), lock_owner := Some (CoreThread 1)\<rparr>"
  let ?s2 = "?s1\<lparr>waiter_at := (waiter_at ?s1)(1 := AboutToWait), pending := (pending ?s1)(1 := 0)\<rparr>"
  let ?s3 = "?s2\<lparr>waiter_at := (waiter_at ?s2)(1 := Asleep), lock_owner := None\<rparr>"
  let ?s4 = "?s3\<lparr>sender_at := (sender_at ?s3)(0 := Locked 1 4), lock_owner := Some (SenderThread 0)\<rparr>"
  let ?s5 = "?s4\<lparr>sender_at := (sender_at ?s4)(0 := Notifying), pending := (pending ?s4)(1 := pending ?s4 1 OR 4),
      sent := (sent ?s4)(1 := sent ?s4 1 OR 4)\<rparr>"
  have "istep initial ?s1" by (rule wait_lock) (simp_all add: initial_def)
  moreover have "istep ?s1 ?s2" by (rule wait_none) (simp_all add: initial_def)
  moreover have "istep ?s2 ?s3" by (rule wait_block) simp
  moreover have "istep ?s3 ?s4" by (rule send_lock) (simp_all add: initial_def)
  moreover have "istep ?s4 ?s5" by (rule send_or) simp
  ultimately have r: "reachable ?s5" by (meson reachable.intros)
  have "waiter_at ?s5 1 = Asleep" "pending ?s5 1 = 4" by (simp_all add: initial_def)
  with sleeper_is_woken [OF r, of 1] have "\<exists>s'. istep\<^sup>*\<^sup>* ?s5 s' \<and> waiter_at s' 1 = Handling 4" by simp
  with r show ?thesis by blast
qed

end
