(* ===== verification/Cpu_Run.thy ===== *)
theory Cpu_Run
  imports Interpreter Cpu_Interrupts
begin

text \<open>
  The execution loop of a core, \<^verbatim>\<open>this_core::resume\<close> of \<^verbatim>\<open>libcpu/src/cpu.cpp\<close>, with the interrupt check before and the breakpoint
  checks after every instruction. \<^verbatim>\<open>gInterruptHandler\<close> is a function pointer and a parameter of the definitions; the loop runs the interpreter,
  the recompiler being switched off (\<^verbatim>\<open>gIsJitEnabled = false\<close>). The loop need not end, so \<open>resume\<close> returns \<open>None\<close> when it does not.
\<close>

unbundle bit_operations_syntax

record Breakpoints =
  gBreakpoints :: "u64 set"
  gSingleUseBreakpoints :: "u64 set"
  gSingleStepMode :: bool

definition addBreakpoint :: "u64 \<Rightarrow> Breakpoints \<Rightarrow> Breakpoints" where
  "addBreakpoint addr g = g\<lparr>gBreakpoints := insert addr (gBreakpoints g)\<rparr>"

definition addSingleUseBreakpoint :: "u64 \<Rightarrow> Breakpoints \<Rightarrow> Breakpoints" where
  "addSingleUseBreakpoint addr g = g\<lparr>gSingleUseBreakpoints := insert addr (gSingleUseBreakpoints g)\<rparr>"

definition removeBreakpoint :: "u64 \<Rightarrow> Breakpoints \<Rightarrow> Breakpoints" where
  "removeBreakpoint addr g = g\<lparr>gBreakpoints := gBreakpoints g - {addr}\<rparr>"

definition setSingleStepMode :: "bool \<Rightarrow> Breakpoints \<Rightarrow> Breakpoints" where
  "setSingleStepMode isEnabled g = g\<lparr>gSingleStepMode := isEnabled\<rparr>"

definition clearInterrupts :: "u64 \<Rightarrow> Core \<Rightarrow> Core" where
  "clearInterrupts ints core = core\<lparr>interrupts := interrupts core AND NOT ints\<rparr>"

definition checkInterrupts :: "(u64 \<Rightarrow> Machine \<Rightarrow> fault + Machine) \<Rightarrow> Machine \<Rightarrow> fault + Machine" where
  "checkInterrupts handler mc =
     (let ints = interrupts (mcore mc);
          mc = upd_core (\<lambda>core. core\<lparr>interrupts := 0\<rparr>) mc
      in if ints \<noteq> 0 then handler ints mc else Inr mc)"

definition check_breakpoints :: "Breakpoints \<times> Machine \<Rightarrow> Breakpoints \<times> Machine" where
  "check_breakpoints = (\<lambda>(g, mc).
     let pc = PC (mcore mc);
         mc = (if pc \<in> gBreakpoints g then upd_core (sendInterrupts DEBUG_BREAK_INTERRUPT) mc else mc);
         (g, mc) = (if pc \<in> gSingleUseBreakpoints g
           then (g\<lparr>gSingleUseBreakpoints := gSingleUseBreakpoints g - {pc}\<rparr>, upd_core (sendInterrupts DEBUG_BREAK_INTERRUPT) mc)
           else (g, mc));
         mc = (if gSingleStepMode g then upd_core (sendInterrupts DEBUG_BREAK_INTERRUPT) mc else mc)
     in (g, mc))"

definition resume_iter ::
    "(u64 \<Rightarrow> Machine \<Rightarrow> fault + Machine) \<Rightarrow> (instructionID \<Rightarrow> interptfptr_t) \<Rightarrow>
     Breakpoints \<times> Machine \<Rightarrow> fault + Breakpoints \<times> Machine" where
  "resume_iter handler tab s =
     and_then (checkInterrupts handler (snd s))
       (\<lambda>mc. and_then (step tab mc) (\<lambda>mc. Inr (check_breakpoints (fst s, mc))))"

partial_function (option) resume ::
    "(u64 \<Rightarrow> Machine \<Rightarrow> fault + Machine) \<Rightarrow> (instructionID \<Rightarrow> interptfptr_t) \<Rightarrow>
     Breakpoints \<times> Machine \<Rightarrow> (fault + Breakpoints \<times> Machine) option" where
  "resume handler tab s =
     (if \<not> isActive (mcore (snd s)) then Some (Inr s)
      else case resume_iter handler tab s of Inl e \<Rightarrow> Some (Inl e) | Inr s' \<Rightarrow> resume handler tab s')"

subsection \<open>When the loop returns\<close>

fun iterate :: "(u64 \<Rightarrow> Machine \<Rightarrow> fault + Machine) \<Rightarrow> (instructionID \<Rightarrow> interptfptr_t) \<Rightarrow> nat \<Rightarrow>
    Breakpoints \<times> Machine \<Rightarrow> (fault + Breakpoints \<times> Machine) option" where
  "iterate handler tab 0 s = (if \<not> isActive (mcore (snd s)) then Some (Inr s) else None)"
| "iterate handler tab (Suc n) s =
     (if \<not> isActive (mcore (snd s)) then None
      else case resume_iter handler tab s of
        Inl e \<Rightarrow> (if n = 0 then Some (Inl e) else None)
      | Inr s' \<Rightarrow> iterate handler tab n s')"

lemma iterate_resume: "iterate handler tab n s = Some r \<Longrightarrow> resume handler tab s = Some r"
proof (induction n arbitrary: s)
  case 0
  then show ?case by (subst resume.simps) (simp split: if_splits)
next
  case (Suc n)
  then show ?case by (subst resume.simps) (auto split: if_splits sum.splits)
qed

lemma resume_iterate: "resume handler tab s = Some r \<Longrightarrow> \<exists>n. iterate handler tab n s = Some r"
proof (rule resume.raw_induct [where P = "\<lambda>handler tab s r. \<exists>n. iterate handler tab n s = Some r"])
  fix f handler tab s r
  assume IH: "\<And>handler tab s r. f handler tab s = Some r \<Longrightarrow> \<exists>n. iterate handler tab n s = Some r"
    and eq: "(if \<not> isActive (mcore (snd s)) then Some (Inr s)
      else case resume_iter handler tab s of Inl e \<Rightarrow> Some (Inl e) | Inr s' \<Rightarrow> f handler tab s') = Some r"
  show "\<exists>n. iterate handler tab n s = Some r"
  proof (cases "isActive (mcore (snd s))")
    case False
    then show ?thesis using eq by (intro exI [of _ 0]) simp
  next
    case True
    show ?thesis
    proof (cases "resume_iter handler tab s")
      case (Inl e)
      then have "iterate handler tab (Suc 0) s = Some (Inl e)" using True by simp
      moreover have "r = Inl e" using Inl eq True by simp
      ultimately show ?thesis by blast
    next
      case (Inr s')
      then have "f handler tab s' = Some r" using eq True by simp
      then obtain n where "iterate handler tab n s' = Some r" using IH by blast
      then show ?thesis using Inr True by (intro exI [of _ "Suc n"]) simp
    qed
  qed
qed

text \<open>
  \<^verbatim>\<open>resume\<close> returns exactly when some finite number of turns of its loop ends with the core inactive or in a fault, and then with the
  state of that turn.
\<close>

theorem resume_returns_iff: "resume handler tab s = Some r \<longleftrightarrow> (\<exists>n. iterate handler tab n s = Some r)"
  using iterate_resume resume_iterate by metis

subsection \<open>Breakpoints\<close>

text \<open>
  The breakpoint checks leave a debug interrupt pending if the new program counter is a breakpoint or a single-use
  breakpoint or single-step mode is on, drop no pending interrupt, add nothing else, remove a single-use breakpoint that was hit, and
  keep ordinary breakpoints.
\<close>

lemma breakpoints_hit:
  "let (g', mc') = check_breakpoints (g, mc); pc = PC (mcore mc)
   in interrupts (mcore mc') = interrupts (mcore mc) OR
        (if pc \<in> gBreakpoints g \<or> pc \<in> gSingleUseBreakpoints g \<or> gSingleStepMode g then DEBUG_BREAK_INTERRUPT else 0) \<and>
      gSingleUseBreakpoints g' = gSingleUseBreakpoints g - {pc} \<and> gBreakpoints g' = gBreakpoints g \<and> gSingleStepMode g' = gSingleStepMode g \<and>
      GPRegs (mcore mc') = GPRegs (mcore mc) \<and> PC (mcore mc') = pc \<and> memory mc' = memory mc"
  by (simp add: check_breakpoints_def Let_def or.assoc)

text \<open>The state after \<open>n\<close> full turns of the loop, if it gets that far.\<close>

fun turns :: "(u64 \<Rightarrow> Machine \<Rightarrow> fault + Machine) \<Rightarrow> (instructionID \<Rightarrow> interptfptr_t) \<Rightarrow> nat \<Rightarrow>
    Breakpoints \<times> Machine \<Rightarrow> (Breakpoints \<times> Machine) option" where
  "turns handler tab 0 s = Some s"
| "turns handler tab (Suc n) s =
     (if \<not> isActive (mcore (snd s)) then None
      else case resume_iter handler tab s of Inl e \<Rightarrow> None | Inr s' \<Rightarrow> turns handler tab n s')"

lemma resume_turns: "turns handler tab n s = Some s' \<Longrightarrow> resume handler tab s = resume handler tab s'"
proof (induction n arbitrary: s)
  case (Suc n)
  then show ?case by (subst resume.simps) (auto split: if_splits sum.splits)
qed simp

lemma turn_breakpoints:
  assumes "resume_iter handler tab s = Inr s'"
  shows "gBreakpoints (fst s') = gBreakpoints (fst s)" "gSingleStepMode (fst s') = gSingleStepMode (fst s)"
    "gSingleUseBreakpoints (fst s') = gSingleUseBreakpoints (fst s) - {PC (mcore (snd s'))}"
    "PC (mcore (snd s')) \<in> gBreakpoints (fst s) \<union> gSingleUseBreakpoints (fst s) \<or> gSingleStepMode (fst s) \<Longrightarrow>
       bit (interrupts (mcore (snd s'))) 1"
proof -
  obtain mc where mc: "s' = check_breakpoints (fst s, mc)" using assms by (auto simp: resume_iter_def and_then_Inr_iff)
  have "bit DEBUG_BREAK_INTERRUPT 1" by (simp add: DEBUG_BREAK_INTERRUPT_def shl_def)
  with mc breakpoints_hit [of "fst s" mc]
  show "gBreakpoints (fst s') = gBreakpoints (fst s)" "gSingleStepMode (fst s') = gSingleStepMode (fst s)"
    "gSingleUseBreakpoints (fst s') = gSingleUseBreakpoints (fst s) - {PC (mcore (snd s'))}"
    "PC (mcore (snd s')) \<in> gBreakpoints (fst s) \<union> gSingleUseBreakpoints (fst s) \<or> gSingleStepMode (fst s) \<Longrightarrow>
       bit (interrupts (mcore (snd s'))) 1"
    by (auto simp: bit_simps Let_def split: prod.splits if_splits)
qed

text \<open>The program counters at the ends of the turns.\<close>

definition visits :: "(u64 \<Rightarrow> Machine \<Rightarrow> fault + Machine) \<Rightarrow> (instructionID \<Rightarrow> interptfptr_t) \<Rightarrow> nat \<Rightarrow> Breakpoints \<times> Machine \<Rightarrow> u64 set" where
  "visits handler tab n s = {PC (mcore (snd s')) | s' k. 0 < k \<and> k \<le> n \<and> turns handler tab k s = Some s'}"

lemma turns_Suc:
  "turns handler tab (Suc n) s = Some s' \<longleftrightarrow>
    (\<exists>s1. turns handler tab n s = Some s1 \<and> isActive (mcore (snd s1)) \<and> resume_iter handler tab s1 = Inr s')"
proof (induction n arbitrary: s)
  case (Suc n)
  show ?case
    unfolding turns.simps(2) [of handler tab "Suc n" s] turns.simps(2) [of handler tab n s]
    using Suc.IH by (auto split: if_splits sum.splits simp del: turns.simps)
qed (auto split: sum.splits)

lemma turns_breakpoints:
  assumes "turns handler tab n s = Some s'"
  shows "gBreakpoints (fst s') = gBreakpoints (fst s) \<and> gSingleStepMode (fst s') = gSingleStepMode (fst s) \<and>
    gSingleUseBreakpoints (fst s') = gSingleUseBreakpoints (fst s) - visits handler tab n s"
  using assms
proof (induction n arbitrary: s')
  case 0
  then show ?case by (simp add: visits_def)
next
  case (Suc n)
  then obtain s1 where s1: "turns handler tab n s = Some s1" "resume_iter handler tab s1 = Inr s'" unfolding turns_Suc by blast
  have "visits handler tab (Suc n) s = insert (PC (mcore (snd s'))) (visits handler tab n s)"
  proof (intro set_eqI iffI)
    fix a
    assume "a \<in> visits handler tab (Suc n) s"
    then obtain t k where t: "a = PC (mcore (snd t))" "0 < k" "k \<le> Suc n" "turns handler tab k s = Some t" unfolding visits_def by blast
    show "a \<in> insert (PC (mcore (snd s'))) (visits handler tab n s)"
    proof (cases "k = Suc n")
      case True
      with t(1,4) Suc.prems show ?thesis by (simp del: turns.simps)
    next
      case False
      with t(3) have "k \<le> n" by simp
      with t show ?thesis unfolding visits_def by blast
    qed
  next
    fix a
    assume "a \<in> insert (PC (mcore (snd s'))) (visits handler tab n s)"
    then show "a \<in> visits handler tab (Suc n) s"
      using Suc.prems unfolding visits_def by (blast intro: le_SucI)
  qed
  with Suc.IH [OF s1(1)] turn_breakpoints [OF s1(2)] show ?case by blast
qed

subsection \<open>Properties\<close>

text \<open>
  C17. Breakpoints stop a core before the instruction they stand at: when \<^verbatim>\<open>resume\<close> has executed at least one instruction and the core, still active, arrives at
  a breakpoint, at a single-use breakpoint it has not visited in this run, or anywhere in single-step mode, then what \<^verbatim>\<open>resume\<close> does next is to call the interrupt
  handler with \<^verbatim>\<open>DEBUG_BREAK_INTERRUPT\<close> among the interrupts, which it has cleared; the instruction is executed after that, once, and
  only if the handler returns. A single-use breakpoint is gone then.
\<close>

theorem breakpoint_stops:
  assumes "turns handler tab (Suc n) (g, mc) = Some (g', mc')" and "isActive (mcore mc')"
    and "PC (mcore mc') \<in> gBreakpoints g \<union> (gSingleUseBreakpoints g - visits handler tab n (g, mc)) \<or> gSingleStepMode g"
  shows "\<exists>ints. ints AND DEBUG_BREAK_INTERRUPT \<noteq> 0 \<and> PC (mcore mc') \<notin> gSingleUseBreakpoints g' \<and>
    resume handler tab (g, mc) =
      (case handler ints (upd_core (\<lambda>core. core\<lparr>interrupts := 0\<rparr>) mc') of Inl e \<Rightarrow> Some (Inl e)
       | Inr mc1 \<Rightarrow> (case step tab mc1 of Inl e \<Rightarrow> Some (Inl e) | Inr mc2 \<Rightarrow> resume handler tab (check_breakpoints (g', mc2))))"
proof -
  obtain s1 where s1: "turns handler tab n (g, mc) = Some s1" "resume_iter handler tab s1 = Inr (g', mc')"
    using assms(1) unfolding turns_Suc by blast
  have b: "bit (interrupts (mcore mc')) 1" "PC (mcore mc') \<notin> gSingleUseBreakpoints g'"
    using turn_breakpoints [OF s1(2)] turns_breakpoints [OF s1(1)] assms(3) by auto
  have "bit DEBUG_BREAK_INTERRUPT 1" by (simp add: DEBUG_BREAK_INTERRUPT_def shl_def)
  with b(1) have "bit (interrupts (mcore mc') AND DEBUG_BREAK_INTERRUPT) 1" by (simp add: bit_simps)
  then have i: "interrupts (mcore mc') AND DEBUG_BREAK_INTERRUPT \<noteq> 0" "interrupts (mcore mc') \<noteq> 0" by auto
  have "resume handler tab (g, mc) = resume handler tab (g', mc')" using resume_turns [OF assms(1)] .
  also have "\<dots> = (case handler (interrupts (mcore mc')) (upd_core (\<lambda>core. core\<lparr>interrupts := 0\<rparr>) mc') of Inl e \<Rightarrow> Some (Inl e)
       | Inr mc1 \<Rightarrow> (case step tab mc1 of Inl e \<Rightarrow> Some (Inl e) | Inr mc2 \<Rightarrow> resume handler tab (check_breakpoints (g', mc2))))"
    using assms(2) i(2) by (subst resume.simps) (auto simp: resume_iter_def checkInterrupts_def Let_def and_then_def split: sum.split)
  finally show ?thesis using i(1) b(2) by blast
qed

text \<open>A core that executes one instruction (an \<^verbatim>\<open>ERET\<close>, which does nothing) and reaches a breakpoint; its handler does not return.\<close>

definition demo_active :: Machine where
  "demo_active = upd_core (\<lambda>core. core\<lparr>isActive := True, interrupts := 0\<rparr>) (demo_code 0xD69F03E0)"

lemma demo_active_step:
  "\<exists>mc. step (interp_init hs host) demo_active = Inr mc \<and> PC (mcore mc) = 0x1104 \<and> isActive (mcore mc)"
proof -
  have core: "fetch (PC (mcore demo_active)) (memory demo_active) = Inr 0xD69F03E0" "PC (mcore demo_active) = 0x1100" "isActive (mcore demo_active)"
    using demo_code_facts [of "0xD69F03E0"] by (simp_all add: demo_active_def upd_core_def)
  have "di_id (decode 0xD69F03E0) = ID_ERET" by code_simp
  moreover have "interp_init hs host ID_ERET = on_core UNIMPLEMENTED_FUNC" by (rule unimplemented_branch) simp
  ultimately show ?thesis
    using core unfolding step_def core(1)
    by (simp add: Let_def getInstructionFunc_def on_core_def upd_core_def UNIMPLEMENTED_FUNC_def set_GPR_def sendInterrupts_def)
qed

theorem breakpoint_stops_witness:
  "resume (\<lambda>ints mc. Inl ThreadExit) (interp_init \<lparr>gSVCHandler = (\<lambda>i mc. Inr mc), gIllInstHandler = Inr\<rparr> plain_host)
     (\<lparr>gBreakpoints = {0x1104}, gSingleUseBreakpoints = {}, gSingleStepMode = False\<rparr>, demo_active) = Some (Inl ThreadExit)"
proof -
  let ?tab = "interp_init \<lparr>gSVCHandler = (\<lambda>i mc. Inr mc), gIllInstHandler = Inr\<rparr> plain_host"
  let ?g = "\<lparr>gBreakpoints = {0x1104}, gSingleUseBreakpoints = {}, gSingleStepMode = False\<rparr>"
  obtain mc where mc: "step ?tab demo_active = Inr mc" "PC (mcore mc) = 0x1104" "isActive (mcore mc)"
    using demo_active_step by blast
  have "checkInterrupts (\<lambda>ints mc. Inl ThreadExit) demo_active = Inr demo_active" "isActive (mcore demo_active)"
    by (simp_all add: checkInterrupts_def Let_def demo_active_def upd_core_def)
  then have "turns (\<lambda>ints mc. Inl ThreadExit) ?tab (Suc 0) (?g, demo_active) = Some (?g, upd_core (sendInterrupts DEBUG_BREAK_INTERRUPT) mc)"
    using mc by (simp add: resume_iter_def check_breakpoints_def Let_def)
  from breakpoint_stops [OF this] mc(2,3) show ?thesis
    by (auto simp: upd_core_def sendInterrupts_def)
qed

end
