(* ===== verification/Interp_Float_Laws.thy ===== *)
theory Interp_Float_Laws
  imports Interp_Float
begin

text \<open>
  What the floating-point handlers compute: the correct rounding of the four arithmetic operations, the order FCMP reports, and
  the conversions between integers, singles and doubles, with the cases in which the handlers depart from the architecture.
\<close>

unbundle bit_operations_syntax

subsection \<open>Registers\<close>

lemma getReg_getRegRef: "getReg fmt (getRegRef fmt r v core) r' = (if r = r' then take_bit (Suc (sign_pos fmt)) v else getReg fmt core r')"
proof -
  have "take_bit n (w AND NOT (mask n) OR take_bit n v) = take_bit n v" for n and w :: u64
    by (rule bit_word_eqI) (auto simp: bit_simps)
  then show ?thesis by (simp add: getReg_def getRegRef_def set_VReg_def Let_def)
qed

lemma take_getReg [simp]: "take_bit (Suc (sign_pos fmt)) (getReg fmt core r) = getReg fmt core r"
  by (simp add: getReg_def)

lemma bit_values:
  "bit (f_infinity fmt) i \<longleftrightarrow> mant_bits fmt \<le> i \<and> i < sign_pos fmt"
  "bit (f_negate fmt x) i \<longleftrightarrow> (if i = sign_pos fmt then \<not> bit x i else bit x i)"
  "bit (generateQNaN fmt) i \<longleftrightarrow> mant_bits fmt - 1 \<le> i \<and> i < sign_pos fmt"
  using fmt_sizes [of fmt]
  by (auto simp: f_infinity_def maxExp_def f_negate_def generateQNaN_def set_quiet_def bit_fields bit_simps dest: bit_imp_le_length)

lemma take_value: "(\<And>i. bit x i \<Longrightarrow> i \<le> sign_pos fmt) \<Longrightarrow> take_bit (Suc (sign_pos fmt)) x = (x :: u64)"
  by (rule bit_word_eqI) (auto simp: bit_take_bit_iff less_Suc_eq_le)

lemma take_values [simp]:
  "take_bit (Suc (sign_pos fmt)) (generateQNaN fmt) = generateQNaN fmt"
  "take_bit (Suc (sign_pos fmt)) (f_infinity fmt) = f_infinity fmt"
  "take_bit (Suc (sign_pos fmt)) (f_negate fmt (f_infinity fmt)) = f_negate fmt (f_infinity fmt)"
  "take_bit (Suc (sign_pos fmt)) (f_negate fmt 0) = f_negate fmt 0"
  by (rule take_value; auto simp: bit_values split: if_splits)+

lemma round_mag_zero [simp]: "0 \<le> d \<Longrightarrow> round_mag fmt 0 d = 0"
  by (simp add: round_mag_def int_bits_nonpos div_even_def)

lemma pack_zero: "f_pack fmt s 0 = (if s then f_negate fmt getZero else getZero)"
  by (auto intro!: bit_word_eqI simp: f_pack_def getZero_def bit_fields bit_values split: if_splits)

lemma signed_infinity: "set_sign fmt s (f_infinity fmt) = (if s then f_negate fmt (f_infinity fmt) else f_infinity fmt)"
  by (auto intro!: bit_word_eqI simp: bit_fields bit_values split: if_splits)

lemma zero_not_inf: "isZero fmt x \<Longrightarrow> \<not> isInfinity fmt x" "isInfinity fmt x \<Longrightarrow> \<not> isNaN fmt x" "isZero fmt x \<Longrightarrow> \<not> isNaN fmt x"
proof -
  have "0 < uint (f_infinity fmt)" by (cases fmt; simp add: uint_infinity)
  then show "isZero fmt x \<Longrightarrow> \<not> isInfinity fmt x" "isInfinity fmt x \<Longrightarrow> \<not> isNaN fmt x" "isZero fmt x \<Longrightarrow> \<not> isNaN fmt x"
    by (auto simp: isZero_mag isInfinity_mag isNaN_mag)
qed


text \<open>What the four handlers store, for operands that are not NaNs: the host's result, except where they branch for an invalid operation.\<close>

lemma float_ops:
  assumes fmt: "fmt = source_fmt flags" and a: "a = getReg fmt core (inst_Rn inst)" and b: "b = getReg fmt core (inst_Rm inst)"
    and num: "\<not> isNaN fmt a" "\<not> isNaN fmt b"
  shows float_add_result: "getReg fmt (floatAddGeneric flags host core inst) (inst_Rd inst) =
      (if isInfinity fmt a \<and> isInfinity fmt b \<and> f_sign fmt a \<noteq> f_sign fmt b then generateQNaN fmt
       else take_bit (Suc (sign_pos fmt)) (f_add host fmt a b))"
    and float_sub_result: "getReg fmt (floatSubGeneric flags host core inst) (inst_Rd inst) =
      (if isInfinity fmt a \<and> isInfinity fmt b \<and> f_sign fmt a = f_sign fmt b then generateQNaN fmt
       else take_bit (Suc (sign_pos fmt)) (f_sub host fmt a b))"
    and float_mul_result: "getReg fmt (floatMulGeneric flags host core inst) (inst_Rd inst) =
      take_bit (Suc (sign_pos fmt)) ((if FloatNegate \<in> set flags then f_negate fmt else id)
        (if isInfinity fmt a \<and> isZero fmt b \<or> isZero fmt a \<and> isInfinity fmt b then generateQNaN fmt else f_mul host fmt a b))"
    and float_div_result: "getReg fmt (floatDivGeneric flags host core inst) (inst_Rd inst) =
      (if isInfinity fmt a \<and> isInfinity fmt b \<or> isZero fmt a \<and> isZero fmt b then generateQNaN fmt
       else if isZero fmt b then (if f_sign fmt a = f_sign fmt b then 0 else f_negate fmt 0)
       else take_bit (Suc (sign_pos fmt)) (f_div host fmt a b))"
proof -
  note fold = Let_def fmt [symmetric] a [symmetric] b [symmetric] getReg_getRegRef
  have ab [simp]: "take_bit (Suc (sign_pos fmt)) a = a" "take_bit (Suc (sign_pos fmt)) b = b" by (simp_all add: a b)
  show "getReg fmt (floatAddGeneric flags host core inst) (inst_Rd inst) =
      (if isInfinity fmt a \<and> isInfinity fmt b \<and> f_sign fmt a \<noteq> f_sign fmt b then generateQNaN fmt
       else take_bit (Suc (sign_pos fmt)) (f_add host fmt a b))"
    unfolding floatAddGeneric_def fold f_add_def using num by (auto dest: zero_not_inf(1))
  show "getReg fmt (floatSubGeneric flags host core inst) (inst_Rd inst) =
      (if isInfinity fmt a \<and> isInfinity fmt b \<and> f_sign fmt a = f_sign fmt b then generateQNaN fmt
       else take_bit (Suc (sign_pos fmt)) (f_sub host fmt a b))"
    unfolding floatSubGeneric_def fold f_sub_def isPositiveInfinity_def isNegativeInfinity_def isNegative_def isPositive_def
    using num by (auto dest: zero_not_inf(1))
  show "getReg fmt (floatMulGeneric flags host core inst) (inst_Rd inst) =
      take_bit (Suc (sign_pos fmt)) ((if FloatNegate \<in> set flags then f_negate fmt else id)
        (if isInfinity fmt a \<and> isZero fmt b \<or> isZero fmt a \<and> isInfinity fmt b then generateQNaN fmt else f_mul host fmt a b))"
    unfolding floatMulGeneric_def fold f_mul_def using num
    by (auto simp: signed_infinity isZero_mag pack_zero getZero_def)
  show "getReg fmt (floatDivGeneric flags host core inst) (inst_Rd inst) =
      (if isInfinity fmt a \<and> isInfinity fmt b \<or> isZero fmt a \<and> isZero fmt b then generateQNaN fmt
       else if isZero fmt b then (if f_sign fmt a = f_sign fmt b then 0 else f_negate fmt 0)
       else take_bit (Suc (sign_pos fmt)) (f_div host fmt a b))"
    unfolding floatDivGeneric_def fold f_div_def using num
    by (auto simp: signed_infinity isZero_mag pack_zero getZero_def)
qed


lemma qnan_isNaN: "isNaN fmt (generateQNaN fmt)"
proof -
  have "isNaN HalfFloat (generateQNaN HalfFloat)" "isNaN SingleFloat (generateQNaN SingleFloat)" "isNaN DoubleFloat (generateQNaN DoubleFloat)"
    by code_simp+
  then show ?thesis by (cases fmt) simp_all
qed

lemma take_rounds: "rounds_to fmt n d (take_bit (Suc (sign_pos fmt)) r) \<longleftrightarrow> rounds_to fmt n d r"
proof -
  have "ival fmt (take_bit (Suc (sign_pos fmt)) r) = ival fmt r" by (simp add: ival_def mag_fields take_fields)
  then show ?thesis by (simp add: rounds_to_def finite_val_def isNaN_def isInfinity_def take_fields)
qed

lemma negate_fields: "f_mantissa fmt (f_negate fmt r) = f_mantissa fmt r" "f_exponent fmt (f_negate fmt r) = f_exponent fmt r"
  "f_sign fmt (f_negate fmt r) \<longleftrightarrow> \<not> f_sign fmt r"
  using fmt_sizes [of fmt] by (auto intro!: bit_word_eqI simp: bit_fields bit_values f_sign_def bit_simps f_negate_def)

lemma negate_rounds:
  assumes "rounds_to fmt n d r" and "0 < d"
  shows "rounds_to fmt (- n) d (f_negate fmt r)"
proof -
  have v: "ival fmt (f_negate fmt x) = - ival fmt x" for x by (simp add: ival_def mag_fields negate_fields)
  have i: "isInfinity fmt (f_negate fmt r) \<longleftrightarrow> isInfinity fmt r" "finite_val fmt (f_negate fmt r) \<longleftrightarrow> finite_val fmt r"
    by (simp_all add: isInfinity_def finite_val_def isNaN_def negate_fields)
  show ?thesis
  proof (cases "overflow_at fmt * d \<le> 2 * \<bar>n\<bar>")
    case True
    have "0 < overflow_at fmt * d" using assms(2) overflow_at_pos by simp
    with True have "n \<noteq> 0" by auto
    with True assms(1) i show ?thesis by (auto simp: rounds_to_def negate_fields)
  next
    case False
    have "\<bar>ival fmt (f_negate fmt r) * d - - n\<bar> \<le> \<bar>ival fmt z * d - - n\<bar>" for z
    proof -
      have "\<bar>ival fmt r * d - n\<bar> \<le> \<bar>ival fmt (f_negate fmt z) * d - n\<bar>" using assms(1) False by (simp add: rounds_to_def)
      then show ?thesis unfolding v by (simp add: abs_minus_commute)
    qed
    with False assms(1) i show ?thesis by (simp add: rounds_to_def)
  qed
qed

text \<open>
  C4. FADD, FSUB, FMUL, FNMUL and FDIV at both widths on operands that are neither NaNs nor infinities. The value stored is the exact sum, difference, product (negated for
  FNMUL) or quotient correctly rounded: when twice its magnitude reaches the sum of the greatest finite magnitude and the next one beyond the format, the infinity of its
  sign, and otherwise, never earlier, a finite value that is nearest to it among all values of the format. Values are counted in units of \<open>2 ^ - f_scale fmt\<close>.
  The exception is division by zero: the code stores a zero where the architecture has an infinity (\<^verbatim>\<open>float.cpp\<close>, line 502), and a NaN for zero by zero.
\<close>

theorem float_arith_nearest:
  assumes "fmt = source_fmt flags" and "x = ival fmt (getReg fmt core (inst_Rn inst))" and "y = ival fmt (getReg fmt core (inst_Rm inst))"
    and "finite_val fmt (getReg fmt core (inst_Rn inst))" and "finite_val fmt (getReg fmt core (inst_Rm inst))"
    and "res = (\<lambda>f. getReg fmt (f flags host core inst) (inst_Rd inst))"
  shows "rounds_to fmt (x + y) 1 (res floatAddGeneric) \<and> rounds_to fmt (x - y) 1 (res floatSubGeneric) \<and>
    rounds_to fmt (if FloatNegate \<in> set flags then - (x * y) else x * y) (2 ^ f_scale fmt) (res floatMulGeneric) \<and>
    (if y \<noteq> 0 then rounds_to fmt (x * 2 ^ f_scale fmt * sgn y) \<bar>y\<bar> (res floatDivGeneric)
     else if x \<noteq> 0 then isZero fmt (res floatDivGeneric) else isNaN fmt (res floatDivGeneric))"
proof -
  let ?a = "getReg fmt core (inst_Rn inst)" and ?b = "getReg fmt core (inst_Rm inst)"
  note num = assms(4,5) [unfolded finite_val_def]
  note results = float_ops [OF assms(1) refl refl, of core inst host]
  have "rounds_to fmt (x + y) 1 (res floatAddGeneric)" "rounds_to fmt (x - y) 1 (res floatSubGeneric)"
    using num f_add_rounds [OF assms(4,5), of host] f_sub_rounds [OF assms(4,5), of host]
    by (simp_all add: assms(2,3,6) results take_rounds)
  moreover have "rounds_to fmt (if FloatNegate \<in> set flags then - (x * y) else x * y) (2 ^ f_scale fmt) (res floatMulGeneric)"
    using num f_mul_rounds [OF assms(4,5), of host] negate_rounds [OF f_mul_rounds [OF assms(4,5), of host]]
    by (simp add: assms(2,3,6) results take_rounds)
  moreover have "rounds_to fmt (x * 2 ^ f_scale fmt * sgn y) \<bar>y\<bar> (res floatDivGeneric)" if "y \<noteq> 0"
    using that num f_div_rounds [OF assms(4,5), of host] by (simp add: assms(2,3,6) results take_rounds ival_zero(2))
  moreover have "isZero fmt (f_negate fmt 0)" "isZero fmt 0" unfolding isZero_def negate_fields by (simp_all add: f_mantissa_def f_exponent_def)
  then have "isZero fmt (res floatDivGeneric)" if "y = 0" "x \<noteq> 0"
    using that num by (simp add: assms(2,3,6) results ival_zero(2))
  moreover have "isNaN fmt (res floatDivGeneric)" if "y = 0" "x = 0"
    using that num by (simp add: assms(2,3,6) results ival_zero(2) qnan_isNaN)
  ultimately show ?thesis by simp
qed

text \<open>
  A finite number or an infinity divided by zero is a zero, where the architecture gives an infinity.
\<close>

theorem float_div_by_zero:
  assumes "fmt = source_fmt flags" and "a = getReg fmt core (inst_Rn inst)" and "b = getReg fmt core (inst_Rm inst)"
    and "\<not> isNaN fmt a" and "\<not> isZero fmt a" and "isZero fmt b"
  shows "isZero fmt (getReg fmt (floatDivGeneric flags host core inst) (inst_Rd inst))"
proof -
  have "isZero fmt (f_negate fmt 0)"
    using fmt_sizes [of fmt] by (auto intro!: bit_word_eqI simp: isZero_def bit_fields bit_values)
  then show ?thesis
    using float_div_result [OF assms(1-4)] assms(5,6) by (auto simp: zero_not_inf isZero_def f_mantissa_def f_exponent_def)
qed

subsection \<open>Comparison\<close>

lemma mag_less: "mag fmt x < 2 ^ sign_pos fmt"
  by (simp add: mag_def unsigned_take_bit_eq)

lemma bitsSigned_eq: "bitsSigned fmt x = (if f_sign fmt x then mag fmt x - 2 ^ sign_pos fmt else mag fmt x)"
  by (simp add: bitsSigned_def signed_low_split f_sign_def mag_def unsigned_take_bit_eq of_nat_take_bit)

lemma bitsSigned_order:
  assumes "\<not> isNaN fmt a" and "\<not> isNaN fmt b"
  shows "isZero fmt a \<and> isZero fmt b \<longrightarrow> f_sign fmt a = f_sign fmt b \<Longrightarrow> bitsSigned fmt a = bitsSigned fmt b \<longleftrightarrow> f_eq fmt a b"
    and "\<not> (f_sign fmt a \<and> f_sign fmt b) \<Longrightarrow> isZero fmt a \<and> isZero fmt b \<longrightarrow> f_sign fmt a = f_sign fmt b \<Longrightarrow>
      bitsSigned fmt a < bitsSigned fmt b \<longleftrightarrow> f_less fmt a b"
    and "f_sign fmt a \<Longrightarrow> f_sign fmt b \<Longrightarrow> bitsSigned fmt a < bitsSigned fmt b \<longleftrightarrow> f_less fmt b a"
proof -
  have v: "mag_val fmt (mag fmt a) < mag_val fmt (mag fmt b) \<longleftrightarrow> mag fmt a < mag fmt b"
    "mag_val fmt (mag fmt b) < mag_val fmt (mag fmt a) \<longleftrightarrow> mag fmt b < mag fmt a"
    "mag_val fmt (mag fmt a) = mag_val fmt (mag fmt b) \<longleftrightarrow> mag fmt a = mag fmt b"
    by (simp_all add: mag_val_less_iff mag_val_eq_iff)
  have z: "isZero fmt a \<longleftrightarrow> mag_val fmt (mag fmt a) = 0" "isZero fmt b \<longleftrightarrow> mag_val fmt (mag fmt b) = 0"
    using mag_val_eq_iff [of "mag fmt a" 0 fmt] mag_val_eq_iff [of "mag fmt b" 0 fmt] by (simp_all add: isZero_mag)
  have nn: "0 \<le> mag_val fmt (mag fmt a)" "0 \<le> mag_val fmt (mag fmt b)" "0 \<le> mag fmt a" "0 \<le> mag fmt b" by simp_all
  show "bitsSigned fmt a = bitsSigned fmt b \<longleftrightarrow> f_eq fmt a b"
    if "isZero fmt a \<and> isZero fmt b \<longrightarrow> f_sign fmt a = f_sign fmt b"
    using assms that mag_less [of fmt a] mag_less [of fmt b] v z nn
    unfolding bitsSigned_eq f_eq_def ival_def by (smt (verit))
  show "bitsSigned fmt a < bitsSigned fmt b \<longleftrightarrow> f_less fmt a b"
    if "\<not> (f_sign fmt a \<and> f_sign fmt b)" "isZero fmt a \<and> isZero fmt b \<longrightarrow> f_sign fmt a = f_sign fmt b"
    using assms that mag_less [of fmt a] mag_less [of fmt b] v z nn
    unfolding bitsSigned_eq f_less_def ival_def by (smt (verit))
  show "bitsSigned fmt a < bitsSigned fmt b \<longleftrightarrow> f_less fmt b a" if "f_sign fmt a" "f_sign fmt b"
    using assms that v by (simp add: bitsSigned_eq f_less_def ival_def)
qed

text \<open>
  C5. FCMP and FCMPE at both widths, with a register or with zero, for operands that are not NaNs. Unless both are negative, or zeros of different signs, the flags
  are those of the IEEE order: N for less, Z and C for equal, C for greater. For two negative numbers the handler, which compares the bit
  patterns as integers in two's complement, sets the flags of the comparison with the operands exchanged.
\<close>

theorem float_compare_order:
  assumes "fmt = source_fmt flags" and "a = getReg fmt core (inst_Rn inst)"
    and "b = (if FloatUseZero \<in> set flags then 0 else getReg fmt core (inst_Rm inst))"
    and "FloatConditional \<notin> set flags" and "\<not> isNaN fmt a" and "\<not> isNaN fmt b"
    and "isZero fmt a \<and> isZero fmt b \<longrightarrow> f_sign fmt a = f_sign fmt b"
    and "(x, y) = (if f_sign fmt a \<and> f_sign fmt b then (b, a) else (a, b))"
  shows "floatCompareGeneric flags core inst =
    (if f_eq fmt x y then set_NZCV False True True False core
     else if f_less fmt x y then set_NZCV True False False False core else set_NZCV False False True False core)"
proof -
  have eq: "bitsSigned fmt a = bitsSigned fmt b \<longleftrightarrow> f_eq fmt x y"
    using bitsSigned_order(1) [OF assms(5-7)] assms(8) by (auto simp: f_eq_def split: if_splits)
  have less: "bitsSigned fmt a < bitsSigned fmt b \<longleftrightarrow> f_less fmt x y"
    using bitsSigned_order(2,3) [OF assms(5,6)] assms(7,8) by (auto split: if_splits)
  have snan: "\<not> isSignalingNaN fmt a" "\<not> isSignalingNaN fmt b" using assms(5,6) by (simp_all add: isSignalingNaN_def)
  have "floatCompareGeneric flags core inst =
    (if bitsSigned fmt a = bitsSigned fmt b then set_NZCV False True True False core
     else if bitsSigned fmt a < bitsSigned fmt b then set_NZCV True False False False core else set_NZCV False False True False core)"
    unfolding floatCompareGeneric_def Let_def assms(1) [symmetric] assms(2) [symmetric] assms(3) [symmetric]
    using assms(4-6) snan by simp
  then show ?thesis by (simp only: eq less)
qed

subsection \<open>Integers to floating point\<close>

lemma int_bits_half: "1 < n \<Longrightarrow> int_bits n = Suc (int_bits (n div 2))"
  by (subst int_bits.simps) simp

lemma int_bits_double: "0 < n \<Longrightarrow> int_bits (n * 2) = Suc (int_bits n)"
  using int_bits_half [of "n * 2"] by simp

lemma le_int_bits_iff: "0 < n \<Longrightarrow> 2 ^ k \<le> n \<longleftrightarrow> k < int_bits n"
proof -
  assume n: "0 < n"
  have "k < int_bits n" if "2 ^ k \<le> n"
  proof -
    from that int_bits_bounds [OF n] have "(2 :: int) ^ k < 2 ^ int_bits n" by linarith
    then show ?thesis by simp
  qed
  then show ?thesis using int_bits_le [of n k] by fastforce
qed

lemma uint_shl1: "k < 64 \<Longrightarrow> uint (shl 1 k :: u64) = 2 ^ k"
  using unat_two_power [of k, where 'a = 64] by (simp add: shl_less push_bit_eq_mult uint_nat)

lemma shl1_le_iff: "k < 64 \<Longrightarrow> shl 1 k \<le> (v :: u64) \<longleftrightarrow> 2 ^ k \<le> uint v"
  by (simp add: word_le_def uint_shl1)

lemma shift_down_eq:
  assumes "n < 63"
  shows "shift_down n v b = (drop_bit (int_bits (uint v) - Suc n) v, b + word_of_nat (int_bits (uint v) - Suc n))"
  using assms
proof (induction n v b rule: shift_down.induct)
  case (1 n v b)
  show ?case
  proof (cases "shl 1 (n + 1) \<le> v")
    case True
    then have big: "2 ^ Suc n \<le> uint v" using 1 shl1_le_iff [of "n + 1" v] by simp
    moreover have "(1 :: int) < 2 ^ Suc n" by (rule one_less_power) simp_all
    ultimately have v: "1 < uint v" by linarith
    from int_bits_half [OF this] have L: "int_bits (uint v) = Suc (int_bits (uint (shr v 1)))"
      by (simp add: shr_less drop_bit_eq_div uint_div flip: drop_bit_Suc)
    have "Suc n < int_bits (uint v)" using big v by (subst (asm) le_int_bits_iff) simp_all
    then have k: "int_bits (uint v) - Suc n = Suc (int_bits (uint (shr v 1)) - Suc n)" using L by simp
    have "shift_down n v b = shift_down n (shr v 1) (b + 1)" using True by (subst shift_down.simps) simp
    also have "\<dots> = (drop_bit (int_bits (uint v) - Suc n) v, b + word_of_nat (int_bits (uint v) - Suc n))"
      unfolding 1(1) [OF True 1(2)] k by (simp add: shr_less drop_bit_drop_bit flip: drop_bit_Suc)
    finally show ?thesis .
  next
    case False
    then have "uint v < 2 ^ Suc n" using 1 shl1_le_iff [of "n + 1" v] by simp
    then have "int_bits (uint v) - Suc n = 0" using int_bits_le [of "uint v" "Suc n"] by simp
    then show ?thesis using False by (subst shift_down.simps) simp
  qed
qed

lemma shift_up_eq:
  assumes "n < 63" and "0 < uint v" and "uint v < 2 ^ Suc n" and "Suc n - int_bits (uint v) \<le> f"
  shows "shift_up f n v b = (push_bit (Suc n - int_bits (uint v)) v, b + word_of_nat (Suc n - int_bits (uint v)))"
  using assms
proof (induction f arbitrary: v b)
  case (Suc f)
  have top: "testBit n v \<longleftrightarrow> n < int_bits (uint v)"
  proof -
    have "testBit n v \<longleftrightarrow> bit (unat v) n" using Suc.prems by (simp add: testBit_iff_bit bit_unsigned_iff)
    also have "\<dots> \<longleftrightarrow> 2 ^ n \<le> unat v" using Suc.prems by (intro bit_top_nat) (simp add: nat_less_iff flip: nat_uint_eq)
    also have "\<dots> \<longleftrightarrow> 2 ^ n \<le> uint v" by (simp add: le_nat_iff flip: nat_uint_eq)
    finally show ?thesis using Suc.prems by (simp add: le_int_bits_iff)
  qed
  show ?case
  proof (cases "testBit n v")
    case True
    then have "Suc n - int_bits (uint v) = 0" using top by simp
    with True show ?thesis by simp
  next
    case False
    have "uint v < 2 ^ n" using False top Suc.prems le_int_bits_iff [of "uint v" n] by simp
    then have "uint v * 2 < 2 ^ Suc n" by simp
    moreover have "(2 :: int) ^ Suc n \<le> 2 ^ 64" using Suc.prems by (intro power_increasing) simp_all
    ultimately have dbl: "uint (shl v 1) = uint v * 2"
      by (simp add: shl_less push_bit_eq_mult uint_mult_ge0 uint_word_ariths)
    have k: "Suc n - int_bits (uint v) = Suc (Suc n - int_bits (uint v * 2))"
      using False top Suc.prems by (simp add: int_bits_double)
    have "shift_up f n (shl v 1) (b + 1) =
        (push_bit (Suc n - int_bits (uint v * 2)) (shl v 1), b + 1 + word_of_nat (Suc n - int_bits (uint v * 2)))"
      unfolding dbl [symmetric] using Suc.prems k \<open>uint v * 2 < 2 ^ Suc n\<close> by (intro Suc.IH) (simp_all add: dbl del: One_nat_def)
    then show ?thesis using False unfolding k by (simp add: shl_less push_bit_push_bit)
  qed
qed simp


text \<open>The exponent and the significand the loops leave: \<open>p\<close> is the position of the implicit one and \<open>L\<close> the number of bits of the value.\<close>

definition int_parts :: "nat \<Rightarrow> u64 \<Rightarrow> u64 \<Rightarrow> u64 \<times> u64" where
  "int_parts p base val =
     (if val \<ge> shl 1 (p + 1) then let (v, bias) = shift_down p val 0 in (base + bias, v)
      else let (v, bias) = shift_up 64 p val 0 in (base - bias, v))"

lemma int_parts_eq:
  fixes p :: nat and val base :: u64
  defines "L \<equiv> int_bits (uint val)"
  assumes "p \<le> 52" and "0 < uint val" and "100 \<le> uint base" and "uint base < 2000"
  shows "uint (fst (int_parts p base val)) = uint base + int L - int (Suc p)"
    "uint (snd (int_parts p base val)) = uint val div 2 ^ (L - Suc p) * 2 ^ (Suc p - L)"
    "2 ^ p \<le> uint (snd (int_parts p base val))" "uint (snd (int_parts p base val)) < 2 * 2 ^ p"
proof -
  have L: "0 < L" "L \<le> 64"
    using int_bits_le [of "uint val" 64] le_int_bits_iff [OF assms(3), of 0] assms(3) unsigned_less [of val, where 'a = int]
    by (simp_all add: L_def)
  have bounds: "2 ^ (L - 1) \<le> uint val" "uint val < 2 ^ L" using int_bits_bounds [OF assms(3)] by (simp_all add: L_def)
  have cond: "shl 1 (p + 1) \<le> val \<longleftrightarrow> Suc p < L"
    using shl1_le_iff [of "p + 1" val] le_int_bits_iff [OF assms(3), of "Suc p"] assms(2) by (simp add: L_def)
  define q where "q = uint val div 2 ^ (L - Suc p) * 2 ^ (Suc p - L)"
  have q: "2 ^ p \<le> q \<and> q < 2 * 2 ^ p"
  proof (cases "Suc p < L")
    case True
    then have "(2 :: int) ^ (L - 1) = 2 ^ p * 2 ^ (L - Suc p)" "(2 :: int) ^ L = 2 * 2 ^ p * 2 ^ (L - Suc p)"
      by (simp_all flip: power_add power_Suc)
    then have "2 ^ p * 2 ^ (L - Suc p) \<le> uint val" "uint val < 2 * 2 ^ p * 2 ^ (L - Suc p)" using bounds by simp_all
    then have "2 ^ p \<le> uint val div 2 ^ (L - Suc p)" "uint val div 2 ^ (L - Suc p) < 2 * 2 ^ p"
      using zdiv_mono1 [of "2 ^ p * 2 ^ (L - Suc p)" "uint val" "2 ^ (L - Suc p)"] by (simp_all add: int_div_less)
    with True show ?thesis by (simp add: q_def)
  next
    case False
    then have "(2 :: int) ^ p = 2 ^ (L - 1) * 2 ^ (Suc p - L)" "2 * 2 ^ p = (2 :: int) ^ L * 2 ^ (Suc p - L)"
      using L by (simp_all flip: power_add power_Suc)
    then have "2 ^ p \<le> uint val * 2 ^ (Suc p - L)" "uint val * 2 ^ (Suc p - L) < 2 * 2 ^ p" using bounds by simp_all
    with False show ?thesis by (simp add: q_def)
  qed
  have "uint (fst (int_parts p base val)) = uint base + int L - int (Suc p) \<and> uint (snd (int_parts p base val)) = q"
  proof (cases "Suc p < L")
    case True
    then have "int_parts p base val = (base + word_of_nat (L - Suc p), drop_bit (L - Suc p) val)"
      using cond assms(2) by (simp add: int_parts_def shift_down_eq L_def)
    moreover have "uint (base + word_of_nat (L - Suc p)) = uint base + int (L - Suc p)"
      using L assms(4,5) by (simp add: uint_word_ariths unsigned_of_nat take_bit_nat_eq_self)
    moreover have "uint (drop_bit (L - Suc p) val) = q"
      unfolding uint_drop_bit q_def using True by (simp add: drop_bit_eq_div)
    ultimately show ?thesis using True by simp
  next
    case False
    then have "uint val < 2 ^ Suc p" using bounds(2) power_increasing [of L "Suc p" "2 :: int"] by simp
    then have "int_parts p base val = (base - word_of_nat (Suc p - L), push_bit (Suc p - L) val)"
      using cond False assms(2,3) by (simp add: int_parts_def shift_up_eq L_def)
    moreover have "uint (base - word_of_nat (Suc p - L)) = uint base - int (Suc p - L)"
      using L assms(2,4,5) by (simp add: uint_sub_if' unsigned_of_nat take_bit_nat_eq_self)
    moreover have "uint (push_bit (Suc p - L) val) = q"
    proof -
      have "(2 :: int) * 2 ^ p \<le> 2 ^ 64" using assms(2) power_increasing [of "Suc p" 64 "2 :: int"] by simp
      with q have "take_bit 64 q = q" by (intro take_bit_int_eq_self) auto
      with False show ?thesis unfolding unsigned_push_bit_eq by (simp add: push_bit_eq_mult q_def)
    qed
    ultimately show ?thesis using False by simp
  qed
  with q show "uint (fst (int_parts p base val)) = uint base + int L - int (Suc p)"
    "uint (snd (int_parts p base val)) = uint val div 2 ^ (L - Suc p) * 2 ^ (Suc p - L)"
    "2 ^ p \<le> uint (snd (int_parts p base val))" "uint (snd (int_parts p base val)) < 2 * 2 ^ p"
    by (simp_all add: q_def)
qed


lemma mag_value:
  assumes "uint (f_exponent fmt r) = e" and "uint (f_mantissa fmt r) = q - 2 ^ mant_bits fmt" and "0 < e"
    and "2 ^ mant_bits fmt \<le> q" and "q < 2 * 2 ^ mant_bits fmt"
  shows "mag_val fmt (mag fmt r) = q * 2 ^ nat (e - 1)"
proof -
  have "mag fmt r = int (nat (e - 1)) * 2 ^ mant_bits fmt + q"
    using assms(1-3) by (simp add: mag_fields algebra_simps)
  then show ?thesis by (simp only: mag_val_normal [OF assms(4,5)])
qed

lemma take_bit_word_self: "uint w < 2 ^ n \<Longrightarrow> take_bit n (w :: 'a::len word) = w"
  by (simp add: word_uint_eq_iff unsigned_take_bit_eq take_bit_int_eq_self)

lemma uint_take_implicit:
  assumes "2 ^ n \<le> uint w" and "uint w < 2 * 2 ^ n"
  shows "uint (take_bit n (w :: 'a::len word)) = uint w - 2 ^ n"
proof -
  have "uint w mod 2 ^ n = (uint w - 2 ^ n) mod 2 ^ n" by simp
  also have "\<dots> = uint w - 2 ^ n" using assms by (intro mod_pos_pos_trivial) auto
  finally show ?thesis unfolding unsigned_take_bit_eq by (simp add: take_bit_eq_mod)
qed

text \<open>
  SCVTF and UCVTF of a general register, at all four combinations of widths: the magnitude of the result is the operand with all but its leading bits, as many
  as the format has, cleared (it is truncated, not rounded). A negative operand is negated as a 64-bit number, also when it has only 32 bits. The sign
  of the result is set for a negative operand and is otherwise the sign the destination register had before.
\<close>

theorem int_to_float_value:
  assumes "fmt = convert_fmt flags" and "is64 \<longleftrightarrow> Convert64Bit \<in> set flags"
    and "v = (if is64 then GPRegs core (inst_Rn inst) else take_bit 32 (GPRegs core (inst_Rn inst)))"
    and "neg \<longleftrightarrow> ConvertSigned \<in> set flags \<and> bit v (if is64 then 63 else 31)"
    and "w = (if neg then - v else v)" and "k = int_bits (uint w) - (mant_bits fmt + 1)"
    and "r = getReg fmt (floatConvIntToFloatGeneric flags core inst) (inst_Rd inst)"
  shows "(f_sign fmt r \<longleftrightarrow> neg \<or> f_sign fmt (getReg fmt core (inst_Rd inst)))
    \<and> mag_val fmt (mag fmt r) = uint w div 2 ^ k * 2 ^ k * 2 ^ f_scale fmt"
proof -
  let ?p = "mant_bits fmt"
  define base :: u64 where "base = (if fmt = DoubleFloat then 1023 + 52 else 127 + 23)"
  define reg where "reg = (if neg then set_sign fmt True (getReg fmt core (inst_Rd inst)) else getReg fmt core (inst_Rd inst))"
  define parts where "parts = (if w \<noteq> 0 then int_parts ?p base w else (0, 0))"
  have fmt: "fmt = SingleFloat \<or> fmt = DoubleFloat" by (simp add: assms(1) convert_fmt_def)
  have v: "(if \<not> is64 then GPRegs core (inst_Rn inst) AND bitmask 32 else GPRegs core (inst_Rn inst)) = v"
    by (simp add: assms(3) bitmask_eq_mask take_bit_eq_mask)
  have neg: "(ConvertSigned \<in> set flags \<and> testBit (if is64 then 63 else 31) v) = neg" by (simp add: testBit_iff_bit assms(4))
  have w: "(if neg then NOT v + 1 else v) = w" by (simp add: assms(5) minus_eq_not_plus_1)
  have parts: "(if w \<noteq> 0 then
        if shl 1 (?p + 1) \<le> w then case shift_down ?p w 0 of (v, bias) \<Rightarrow> (base + bias, v)
        else case shift_up 64 ?p w 0 of (v, bias) \<Rightarrow> (base - bias, v)
      else (0, 0)) = parts"
    by (simp add: parts_def int_parts_def Let_def)
  have "r = take_bit (Suc (sign_pos fmt)) (set_mantissa fmt (snd parts) (set_exponent fmt (fst parts) reg))"
    unfolding assms(7) floatConvIntToFloatGeneric_def Let_def assms(1) [symmetric] assms(2) [symmetric] v neg w
      base_def [symmetric] reg_def [symmetric] parts
    by (simp add: getReg_getRegRef case_prod_beta)
  then have fields: "f_sign fmt r = f_sign fmt reg" "f_exponent fmt r = take_bit (exp_bits fmt) (fst parts)"
    "f_mantissa fmt r = take_bit ?p (snd parts)"
    by (simp_all add: take_fields)
  have "mag_val fmt (mag fmt r) = uint w div 2 ^ k * 2 ^ k * 2 ^ f_scale fmt"
  proof (cases "w = 0")
    case True
    then show ?thesis by (simp add: mag_fields fields parts_def)
  next
    case False
    define L where "L = int_bits (uint w)"
    have w: "0 < uint w" using False by (simp add: word_neq_0_conv word_less_def)
    have L: "1 \<le> L" "L \<le> 64"
      using int_bits_le [of "uint w" 64] le_int_bits_iff [OF w, of 0] w unsigned_less [of w, where 'a = int] by (simp_all add: L_def)
    have "?p \<le> 52" "100 \<le> uint base" "uint base < 2000" using fmt by (auto simp: base_def)
    note parts = int_parts_eq [OF \<open>?p \<le> 52\<close> w this(2,3), folded L_def]
    have eq: "parts = int_parts ?p base w" using False by (simp add: parts_def)
    define e where "e = uint base + int L - int (Suc ?p)"
    have e: "0 < e" "e < 2 ^ exp_bits fmt" "nat (e - 1) + (Suc ?p - L) = k + f_scale fmt"
      using fmt L by (auto simp: e_def base_def f_scale_def assms(6) L_def [symmetric])
    have "uint (f_exponent fmt r) = e" using parts(1) e(2) unfolding fields(2) eq by (subst take_bit_word_self) (simp_all add: e_def)
    moreover have "uint (f_mantissa fmt r) = uint (snd (int_parts ?p base w)) - 2 ^ ?p"
      unfolding fields(3) eq by (rule uint_take_implicit [OF parts(3,4)])
    ultimately have "mag_val fmt (mag fmt r) = uint w div 2 ^ k * (2 ^ (Suc ?p - L) * 2 ^ nat (e - 1))"
      using mag_value [OF _ _ e(1) parts(3,4)] parts(2) by (simp add: assms(6) L_def)
    also have "\<dots> = uint w div 2 ^ k * 2 ^ (nat (e - 1) + (Suc ?p - L))" by (simp add: power_add)
    finally show ?thesis unfolding e(3) by (simp add: power_add)
  qed
  then show ?thesis by (simp add: fields(1) reg_def)
qed

lemma mag_val_infinity: "mag_val fmt (uint (f_infinity fmt)) = 2 ^ mant_bits fmt * 2 ^ (2 ^ exp_bits fmt - 2)"
proof -
  have "2 \<le> (2 :: nat) ^ exp_bits fmt" by (cases fmt) simp_all
  then have "uint (f_infinity fmt) = int (2 ^ exp_bits fmt - 2) * 2 ^ mant_bits fmt + 2 ^ mant_bits fmt"
    by (simp add: uint_infinity of_nat_diff algebra_simps)
  then show ?thesis using mag_val_normal [of fmt "2 ^ mant_bits fmt" "2 ^ exp_bits fmt - 2"] by simp
qed

lemma uint_abs_sint: "uint (if sint v < 0 then - v else v) = \<bar>sint (v :: u64)\<bar>"
proof -
  have "sint v = (if bit v 63 then uint v - 2 ^ 64 else uint v)"
    using take_bit_Suc_from_most [of 63 "uint v"] signed_low_split [of 63 v] unsigned_less [of v, where 'a = int]
    by (cases "bit v 63"; simp add: sint_uint of_nat_take_bit take_bit_int_eq_self bit_unsigned_iff; linarith)
  moreover have "uint v < 2 ^ 64" "bit v 63 \<Longrightarrow> uint v \<noteq> 0"
    using unsigned_less [of v, where 'a = int] by (auto simp: uint_0_iff)
  ultimately show ?thesis
    by (auto simp: uint_word_ariths zmod_zminus1_eq_if split: if_splits)
qed

text \<open>A value that is an integer of the format's precision is finite, and rounding it to an integer, towards zero, gives that integer.\<close>

lemma integral_value:
  assumes "ival DoubleFloat r = n * 2 ^ f_scale DoubleFloat" and "\<bar>n\<bar> < 2 ^ 53"
  shows "finite_val DoubleFloat r" "int_trunc DoubleFloat r = n"
    "ival DoubleFloat (f_integral int_trunc DoubleFloat r) = ival DoubleFloat r"
proof -
  let ?m = "mag DoubleFloat r" and ?S = "2 ^ f_scale DoubleFloat :: int"
  have S: "0 < ?S" by simp
  have mv: "mag_val DoubleFloat ?m = \<bar>n\<bar> * ?S"
    using arg_cong [OF assms(1), of abs] by (simp add: ival_def abs_mult split: if_splits)
  have "mag_val DoubleFloat ?m < mag_val DoubleFloat (uint (f_infinity DoubleFloat))"
  proof -
    have "\<bar>n\<bar> * ?S < 2 ^ 53 * ?S" using assms(2) S by (intro mult_strict_right_mono)
    also have "\<dots> \<le> 2 ^ 52 * 2 ^ (2 ^ 11 - 2)" by (simp add: f_scale_def flip: power_add) 
    finally show ?thesis by (simp add: mv mag_val_infinity)
  qed
  then have inf: "?m < uint (f_infinity DoubleFloat)" by (simp add: mag_val_less_iff)
  then show "finite_val DoubleFloat r" by (simp add: finite_val_def isNaN_mag isInfinity_mag)
  show trunc: "int_trunc DoubleFloat r = n"
    by (simp add: int_trunc_def int_floor_def int_ceil_def assms(1) flip: mult_minus_left)
  have "round_mag DoubleFloat (\<bar>n\<bar> * ?S) 1 = ?m"
    using round_mag_exact [of ?m DoubleFloat 1] inf by (simp add: mv)
  then have "f_integral int_trunc DoubleFloat r = f_pack DoubleFloat (f_sign DoubleFloat r) ?m"
    using inf trunc by (simp add: f_integral_def isNaN_mag isInfinity_mag)
  then show "ival DoubleFloat (f_integral int_trunc DoubleFloat r) = ival DoubleFloat r"
    using mag_less [of DoubleFloat r] by (simp add: ival_pack) (simp add: ival_def)
qed

text \<open>
  Round trip of an integer through a double: SCVTF of a 64-bit register whose value has at most 53 bits and FCVTZS of the result give the register's value, provided
  the integer is negative or the sign bit of the intermediate register was clear before.
\<close>

theorem int_float_int:
  assumes "inst_Rn i2 = inst_Rd i1" and "\<bar>sint (GPRegs core (inst_Rn i1))\<bar> < 2 ^ 53"
    and "sint (GPRegs core (inst_Rn i1)) < 0 \<or> \<not> f_sign DoubleFloat (getReg DoubleFloat core (inst_Rd i1))"
  shows "GPRegs (fcvtzsDoubleTo64Int host (scvtf64ToDouble core i1) i2) (inst_Rd i2) = GPRegs core (inst_Rn i1)"
proof -
  define v where "v = GPRegs core (inst_Rn i1)"
  define r where "r = getReg DoubleFloat (scvtf64ToDouble core i1) (inst_Rd i1)"
  let ?n = "sint v"
  note neg = bit_last_iff [of v, simplified] and w = uint_abs_sint [of v]
  have "int_bits \<bar>?n\<bar> \<le> 53" using assms(2) by (intro int_bits_le) (simp add: v_def)
  then have "ival DoubleFloat r = ?n * 2 ^ f_scale DoubleFloat"
    using int_to_float_value [of DoubleFloat "[ConvertDouble, Convert64Bit, ConvertSigned]" True v core i1 "?n < 0"
        "if ?n < 0 then - v else v" 0 r] assms(3)
    by (simp add: v_def [symmetric] neg w r_def scvtf64ToDouble_def convert_fmt_def ival_def abs_if) auto
  note val = integral_value [OF this assms(2) [folded v_def]]
  let ?t = "f_integral int_trunc DoubleFloat r"
  have t: "ival DoubleFloat ?t = ?n * 2 ^ f_scale DoubleFloat" using val(3) \<open>ival DoubleFloat r = _\<close> by simp
  note tv = integral_value [OF t assms(2) [folded v_def]]
  have "int_range True True ?n" using assms(2) by (simp add: int_range_def v_def abs_less_iff)
  then have "f_to_int host True True ?t = v" using tv(1,2) by (simp add: f_to_int_def finite_val_def)
  then show ?thesis
    by (simp add: fcvtzsDoubleTo64Int_def floatConvertToIntGeneric_def convert_fmt_def roundFloat_def assms(1) r_def [symmetric] v_def)
qed


subsection \<open>Conversions between the widths\<close>

lemma value_eqI:
  assumes "f_sign fmt x = f_sign fmt y" and "f_exponent fmt x = f_exponent fmt y" and "f_mantissa fmt x = f_mantissa fmt y"
    and "take_bit (Suc (sign_pos fmt)) x = x" and "take_bit (Suc (sign_pos fmt)) y = y"
  shows "x = y"
proof -
  have "bit (take_bit (Suc (sign_pos fmt)) x) i = bit (take_bit (Suc (sign_pos fmt)) y) i" for i
  proof -
    consider "i < mant_bits fmt" | "mant_bits fmt \<le> i" "i < sign_pos fmt" | "i = sign_pos fmt" | "sign_pos fmt < i" by linarith
    then show ?thesis
    proof cases
      case 1
      with assms(3) show ?thesis using bit_fields(1) [of fmt] by (metis bit_take_bit_iff)
    next
      case 2
      with fmt_sizes [of fmt] have "i - mant_bits fmt < exp_bits fmt" "mant_bits fmt + (i - mant_bits fmt) = i" by simp_all
      with assms(2) show ?thesis using bit_fields(2) [of fmt _ "i - mant_bits fmt"] by (metis bit_take_bit_iff)
    next
      case 3
      with assms(1) show ?thesis by (simp add: bit_take_bit_iff f_sign_def)
    qed (simp add: bit_take_bit_iff)
  qed
  then show ?thesis using assms(4,5) by (metis bit_eqI)
qed

text \<open>
  FCVT from single to double. For every normal number the result has the same value, and FCVT back to single restores the single register bit by bit,
  whatever its contents; a zero, though, becomes \<open>2 ^ - 127\<close>.
\<close>

theorem convert_single_double:
  assumes "d = getReg DoubleFloat (fcvtSingleToDouble core i1) (inst_Rd i1)" and "s = getReg SingleFloat core (inst_Rn i1)"
    and "inst_Rn i2 = inst_Rd i1"
  shows "(f_exponent SingleFloat s \<noteq> 0 \<longrightarrow>
      ival DoubleFloat d = ival SingleFloat s * 2 ^ (f_scale DoubleFloat - f_scale SingleFloat))
    \<and> (isZero SingleFloat s \<longrightarrow> mag_val DoubleFloat (mag DoubleFloat d) = 2 ^ (f_scale DoubleFloat - 127))
    \<and> getReg SingleFloat (fcvtDoubleToSingle (fcvtSingleToDouble core i1) i2) (inst_Rd i2) = s"
proof -
  let ?e = "f_exponent SingleFloat s" and ?m = "f_mantissa SingleFloat s"
  have e: "uint ?e < 256" "0 \<le> uint ?e" and m: "uint ?m < 2 ^ 23" "0 \<le> uint ?m" using uint_fields [of SingleFloat s] by simp_all
  have ue: "uint (?e + 896) = uint ?e + 896" using e by (simp add: uint_word_ariths)
  have um: "uint (push_bit 29 ?m) = uint ?m * 2 ^ 29"
    unfolding unsigned_push_bit_eq using m by (simp add: push_bit_eq_mult take_bit_int_eq_self)
  have te: "take_bit 11 (896 + ?e) = ?e + 896"
    using e ue by (subst add.commute) (simp add: take_bit_word_self)
  have d: "f_sign DoubleFloat d = f_sign SingleFloat s" "f_exponent DoubleFloat d = ?e + 896"
    "f_mantissa DoubleFloat d = push_bit 29 ?m"
    using te um e m
    by (simp_all add: assms(1,2) fcvtSingleToDouble_def floatConvertGeneric_def getReg_getRegRef take_fields Let_def
        take_bit_word_self shl_less)
  have val: "mag_val DoubleFloat (mag DoubleFloat d) = (2 ^ 23 + uint ?m) * 2 ^ 29 * 2 ^ nat (uint ?e + 895)"
    using mag_value [of DoubleFloat d "uint ?e + 896" "(2 ^ 23 + uint ?m) * 2 ^ 29"] ue um e m by (simp add: d add.commute)
  have "ival DoubleFloat d = ival SingleFloat s * 2 ^ (f_scale DoubleFloat - f_scale SingleFloat)" if "?e \<noteq> 0"
  proof -
    have "0 < uint ?e" using that by (simp add: word_neq_0_conv word_less_def)
    then have "mag_val SingleFloat (mag SingleFloat s) = (2 ^ 23 + uint ?m) * 2 ^ nat (uint ?e - 1)"
      using mag_value [of SingleFloat s "uint ?e" "2 ^ 23 + uint ?m"] m by simp
    moreover have "29 + nat (uint ?e + 895) = nat (uint ?e - 1) + (f_scale DoubleFloat - f_scale SingleFloat)"
      using \<open>0 < uint ?e\<close> by (simp add: f_scale_def)
    ultimately have "mag_val DoubleFloat (mag DoubleFloat d) =
        mag_val SingleFloat (mag SingleFloat s) * 2 ^ (f_scale DoubleFloat - f_scale SingleFloat)"
      using val by (metis mult.assoc power_add)
    then show ?thesis by (simp add: ival_def d(1))
  qed
  moreover have "mag_val DoubleFloat (mag DoubleFloat d) = 2 ^ (f_scale DoubleFloat - 127)" if "isZero SingleFloat s"
    using that val by (simp add: isZero_def f_scale_def)
  moreover have "getReg SingleFloat (fcvtDoubleToSingle (fcvtSingleToDouble core i1) i2) (inst_Rd i2) = s"
  proof (rule value_eqI)
    let ?c = "getReg SingleFloat (fcvtDoubleToSingle (fcvtSingleToDouble core i1) i2) (inst_Rd i2)"
    have "drop_bit 29 (push_bit 29 ?m) = ?m"
      using um m unfolding word_uint_eq_iff uint_drop_bit by (simp add: drop_bit_eq_div)
    then have c: "f_sign SingleFloat ?c = f_sign SingleFloat s \<and> f_exponent SingleFloat ?c = ?e \<and> f_mantissa SingleFloat ?c = ?m"
      using d e m unfolding assms(1)
      by (simp add: fcvtDoubleToSingle_def floatConvertGeneric_def [of _ "fcvtSingleToDouble core i1"] getReg_getRegRef take_fields
          Let_def assms(3) shr_less take_bit_word_self)
    then show "f_sign SingleFloat ?c = f_sign SingleFloat s" "f_exponent SingleFloat ?c = ?e" "f_mantissa SingleFloat ?c = ?m"
      by simp_all
  qed (simp_all add: assms(2))
  ultimately show ?thesis by simp
qed

subsection \<open>Concrete instances\<close>

definition demo_host :: HostFP where
  "demo_host = \<lparr>nan_of = (\<lambda>fmt x y. x), out_of_range = (\<lambda>s w x. 0)\<rparr>"

definition demo_float :: Core where
  "demo_float = zero_core\<lparr>GPRegs := (\<lambda>r. if r = 1 then -5 else 0), VRegs := (\<lambda>r. \<lparr>VReg_D0 =
     (if r = 1 then 0xBFF0000000000000 else if r = 2 then 0xC000000000000000 else if r = 3 then 0x40400000 else 0), VReg_D1 = 0\<rparr>)\<rparr>"

lemma demo_fields_1E622820: "inst_Rd 0x1E622820 = 0" "inst_Rn 0x1E622820 = 1" "inst_Rm 0x1E622820 = 2"
  by (simp_all add: inst_fields bitRange_def shr_def bitmask_def shl_def)

lemma demo_regs:
  "getReg DoubleFloat demo_float 1 = 0xBFF0000000000000" "getReg DoubleFloat demo_float 2 = 0xC000000000000000"
  "getReg DoubleFloat demo_float 0 = 0" "getReg SingleFloat demo_float 3 = 0x40400000"
  by code_simp+

lemma demo_vals:
  "ival DoubleFloat 0xBFF0000000000000 = - (2 ^ 1074)" "ival DoubleFloat 0xC000000000000000 = - (2 * 2 ^ 1074)"
  "finite_val DoubleFloat 0xBFF0000000000000" "finite_val DoubleFloat 0xC000000000000000"
  by code_simp+

theorem float_arith_nearest_witness:
  "rounds_to DoubleFloat (- (2 ^ 1074) + - (2 * 2 ^ 1074)) 1
     (getReg DoubleFloat (floatAddGeneric [FloatDoubleWidthSource] demo_host demo_float 0x1E622820) 0)"
proof -
  have "DoubleFloat = source_fmt [FloatDoubleWidthSource]" by (simp add: source_fmt_def)
  from float_arith_nearest [OF this refl refl _ _ refl, of demo_float "0x1E622820" demo_host] show ?thesis
    unfolding demo_fields_1E622820 demo_regs demo_vals(1,2) using demo_vals(3,4) by blast
qed

theorem float_div_by_zero_witness:
  "isZero DoubleFloat (getReg DoubleFloat (floatDivGeneric [FloatDoubleWidthSource] demo_host demo_float 0x1E601820) 0)"
proof -
  have "inst_Rd 0x1E601820 = 0" "inst_Rn 0x1E601820 = 1" "inst_Rm 0x1E601820 = 0"
    by (simp_all add: inst_fields bitRange_def shr_def bitmask_def shl_def)
  moreover have "\<not> isNaN DoubleFloat 0xBFF0000000000000" "\<not> isZero DoubleFloat 0xBFF0000000000000" "isZero DoubleFloat 0" by code_simp+
  ultimately show ?thesis
    using float_div_by_zero [of DoubleFloat "[FloatDoubleWidthSource]" _ demo_float "0x1E601820" _ demo_host]
    by (simp add: demo_regs source_fmt_def)
qed

text \<open>\<open>- 1\<close> compares as less than \<open>- 2\<close>.\<close>

theorem float_compare_order_witness:
  "floatCompareGeneric [FloatDoubleWidthSource] demo_float 0x1E622820 = set_NZCV True False False False demo_float"
proof -
  have "f_sign DoubleFloat 0xBFF0000000000000" "f_sign DoubleFloat 0xC000000000000000"
    "\<not> f_eq DoubleFloat 0xC000000000000000 0xBFF0000000000000" "f_less DoubleFloat 0xC000000000000000 0xBFF0000000000000"
    by code_simp+
  then show ?thesis
    using float_compare_order [of DoubleFloat "[FloatDoubleWidthSource]" _ demo_float "0x1E622820" _ "0xC000000000000000" "0xBFF0000000000000"]
      demo_vals(3,4)
    by (simp add: demo_fields_1E622820 demo_regs source_fmt_def finite_val_def)
qed

text \<open>The 32-bit register value \<open>- 5\<close> becomes \<open>- (2 ^ 64 - 2 ^ 32 + 5)\<close>, truncated to 53 bits.\<close>

theorem int_to_float_value_witness:
  "f_sign DoubleFloat (getReg DoubleFloat (scvtf32ToDouble demo_float 0x1E622820) 0) \<and>
   mag_val DoubleFloat (mag DoubleFloat (getReg DoubleFloat (scvtf32ToDouble demo_float 0x1E622820) 0)) = 0xFFFFFFFF00000000 * 2 ^ 1074"
proof -
  have k: "int_bits 0xFFFFFFFF00000005 = 64" by (rule int_bits_eq [of 63, simplified])  simp_all
  have v: "take_bit 32 (GPRegs demo_float 1) = 0xFFFFFFFB" "bit (0xFFFFFFFB :: u64) 31" "uint (- 0xFFFFFFFB :: u64) = 0xFFFFFFFF00000005"
    by (simp_all add: demo_float_def take_bit_eq_mask mask_eq_exp_minus_1)
  have scale: "f_scale DoubleFloat = 1074" by (simp add: f_scale_def)
  let ?r = "getReg DoubleFloat (floatConvIntToFloatGeneric [ConvertDouble, ConvertSigned] demo_float 0x1E622820) (inst_Rd 0x1E622820)"
  have "(f_sign DoubleFloat ?r \<longleftrightarrow> True \<or> f_sign DoubleFloat (getReg DoubleFloat demo_float (inst_Rd 0x1E622820)))
    \<and> mag_val DoubleFloat (mag DoubleFloat ?r) = uint (- 0xFFFFFFFB :: u64) div 2 ^ 11 * 2 ^ 11 * 2 ^ f_scale DoubleFloat"
  proof (rule int_to_float_value [of _ _ False "0xFFFFFFFB"])
    show "11 = int_bits (uint (- 0xFFFFFFFB :: u64)) - (mant_bits DoubleFloat + 1)" unfolding v k by simp
  qed (simp_all only: demo_fields_1E622820 v if_False if_True, simp_all add: convert_fmt_def v)
  then show ?thesis unfolding scvtf32ToDouble_def demo_fields_1E622820 v(3) scale by simp
qed

theorem int_float_int_witness:
  "GPRegs (fcvtzsDoubleTo64Int demo_host (scvtf64ToDouble demo_float 0x9E620020) 0x9E780002) 2 = - 5"
proof -
  have "inst_Rd 0x9E620020 = 0" "inst_Rn 0x9E620020 = 1" "inst_Rn 0x9E780002 = 0" "inst_Rd 0x9E780002 = 2"
    by (simp_all add: inst_fields bitRange_def shr_def bitmask_def shl_def)
  moreover have "GPRegs demo_float 1 = - 5" "sint (- 5 :: u64) = - 5" by code_simp+
  ultimately show ?thesis
    using int_float_int [of "0x9E780002" "0x9E620020" demo_float demo_host] by simp
qed

theorem convert_single_double_witness:
  "ival DoubleFloat (getReg DoubleFloat (fcvtSingleToDouble demo_float 0x1E22C060) 0) = ival SingleFloat 0x40400000 * 2 ^ (1074 - 149)"
proof -
  have "inst_Rd 0x1E22C060 = 0" "inst_Rn 0x1E22C060 = 3"
    by (simp_all add: inst_fields bitRange_def shr_def bitmask_def shl_def)
  moreover have "f_exponent SingleFloat 0x40400000 \<noteq> 0" "f_scale DoubleFloat = 1074" "f_scale SingleFloat = 149" by code_simp+
  moreover have "inst_Rn 0x1E624000 = 0" by (simp add: inst_fields bitRange_def shr_def bitmask_def shl_def)
  ultimately show ?thesis
    using convert_single_double [of _ demo_float "0x1E22C060" "0x40400000" "0x1E624000"] by (simp add: demo_regs)
qed

end
