(* ===== verification/Handle_Manager.thy ===== *)
theory Handle_Manager
  imports Emu_Prelude
begin

text \<open>
  The handle manager, \<^verbatim>\<open>hle/kernel/handleManager.cpp\<close>. A handle is a 32-bit number; the table stores its low 16
  bits and a compressed pointer, the key of the object in a second map. Objects are values of a type
  \<open>'o\<close> (references to kernel objects); \<open>None\<close> is the null \<^verbatim>\<open>ObjectPtr\<close>. The virtual method \<^verbatim>\<open>getType\<close> of the object is
  an argument of \<open>createHandle\<close>.

  The locale \<open>handle_table\<close> is the contract the kernel relies on: every operation acts on an abstract map from
  handle numbers to objects, as long as the capacity of the 16-bit numbers is not exceeded.
\<close>

type_synonym handle_t = u32

definition INVALID_HANDLE :: handle_t where "INVALID_HANDLE = 0xFFFFFFFF"

datatype ObjectType = NO_TYPE | INTERFACE | THREAD | PROCESS | GPU_DEVICE | TRANSFER_MEM_OBJECT

record KHandleEntry =
  handleId :: u16
  objectType :: ObjectType
  objectCompressedPointer :: u32

record 'o HandleManager =
  gHandleTable :: "KHandleEntry list"
  gCompressedPointerMap :: "u32 \<rightharpoonup> 'o option"
  gHandleCounter :: handle_t
  gCompressedpointerCounter :: u32

definition handle_init :: "'o HandleManager" where
  "handle_init = \<lparr>gHandleTable = [], gCompressedPointerMap = Map.empty, gHandleCounter = 1,
                  gCompressedpointerCounter = 0\<rparr>"

definition createHandle :: "('o \<Rightarrow> ObjectType) \<Rightarrow> 'o \<Rightarrow> 'o HandleManager \<Rightarrow> handle_t \<times> 'o HandleManager" where
  "createHandle getType object hm =
     (let handle = gHandleCounter hm;
          compressedPointer = gCompressedpointerCounter hm;
          newEntry = \<lparr>handleId = ucast handle, objectType = getType object,
                      objectCompressedPointer = compressedPointer\<rparr>
      in (handle, hm\<lparr>gHandleCounter := handle + 1, gCompressedpointerCounter := compressedPointer + 1,
                     gHandleTable := gHandleTable hm @ [newEntry],
                     gCompressedPointerMap := (gCompressedPointerMap hm)(compressedPointer \<mapsto> Some object)\<rparr>))"

text \<open>Both loops stop at the first entry with the wanted number.\<close>

definition find_entry :: "handle_t \<Rightarrow> 'o HandleManager \<Rightarrow> KHandleEntry option" where
  "find_entry handle hm = find (\<lambda>entry. handleId entry = ucast handle) (gHandleTable hm)"

text \<open>\<^verbatim>\<open>operator[]\<close> of the map inserts a null pointer for a key that is not there.\<close>

definition lookupObject :: "handle_t \<Rightarrow> 'o HandleManager \<Rightarrow> 'o option \<times> 'o HandleManager" where
  "lookupObject handle hm =
     (case find_entry handle hm of
        None \<Rightarrow> (None, hm)
      | Some entry \<Rightarrow>
          (case gCompressedPointerMap hm (objectCompressedPointer entry) of
             Some object \<Rightarrow> (object, hm)
           | None \<Rightarrow> (None, hm\<lparr>gCompressedPointerMap :=
                        (gCompressedPointerMap hm)(objectCompressedPointer entry \<mapsto> None)\<rparr>)))"

definition closeHandle :: "handle_t \<Rightarrow> 'o HandleManager \<Rightarrow> bool \<times> 'o HandleManager" where
  "closeHandle handle hm =
     (case find_entry handle hm of
        None \<Rightarrow> (False, hm)
      | Some entry \<Rightarrow>
          (True, hm\<lparr>gCompressedPointerMap := (gCompressedPointerMap hm)(objectCompressedPointer entry := None),
                    gHandleTable := remove1 entry (gHandleTable hm)\<rparr>))"

subsection \<open>Abstract handle tables\<close>

datatype 'o handle_op = Create 'o | Lookup handle_t | Close handle_t

datatype 'o handle_result = Created handle_t | Found "'o option" | Closed bool

type_synonym 'o handle_map = "handle_t \<times> (u16 \<rightharpoonup> 'o)"

fun spec_op :: "'o handle_op \<Rightarrow> 'o handle_map \<Rightarrow> 'o handle_result \<times> 'o handle_map" where
  "spec_op (Create object) (n, m) = (Created n, (n + 1, m(ucast n \<mapsto> object)))"
| "spec_op (Lookup handle) (n, m) = (Found (m (ucast handle)), (n, m))"
| "spec_op (Close handle) (n, m) = (Closed (m (ucast handle) \<noteq> None), (n, m(ucast handle := None)))"

fun manager_op :: "('o \<Rightarrow> ObjectType) \<Rightarrow> 'o handle_op \<Rightarrow> 'o HandleManager \<Rightarrow> 'o handle_result \<times> 'o HandleManager" where
  "manager_op getType (Create object) hm = map_prod Created id (createHandle getType object hm)"
| "manager_op getType (Lookup handle) hm = map_prod Found id (lookupObject handle hm)"
| "manager_op getType (Close handle) hm = map_prod Closed id (closeHandle handle hm)"

fun trace :: "('c \<Rightarrow> 's \<Rightarrow> 'r \<times> 's) \<Rightarrow> 'c list \<Rightarrow> 's \<Rightarrow> 'r list \<times> 's" where
  "trace step [] s = ([], s)"
| "trace step (c # cs) s = (case step c s of (r, s') \<Rightarrow> map_prod (Cons r) id (trace step cs s'))"

fun creations :: "'o handle_op list \<Rightarrow> nat" where
  "creations [] = 0"
| "creations (Create _ # cs) = Suc (creations cs)"
| "creations (_ # cs) = creations cs"

lemma trace_append:
  "trace step (cs @ ds) s = (case trace step cs s of (rs, s') \<Rightarrow> map_prod ((@) rs) id (trace step ds s'))"
  by (induction cs arbitrary: s) (simp_all split: prod.splits add: map_prod_def)

lemma length_trace: "length (fst (trace step cs s)) = length cs"
  by (induction cs arbitrary: s) (simp_all split: prod.splits add: map_prod_def prod_eq_iff)

lemma creations_Create: "creations (map Create xs) = length xs"
  by (induction xs) auto

locale handle_table =
  fixes step :: "'o handle_op \<Rightarrow> 's \<Rightarrow> 'o handle_result \<times> 's"
    and inv :: "nat \<Rightarrow> 's \<Rightarrow> bool"
    and abs :: "'s \<Rightarrow> 'o handle_map"
    and capacity :: nat
  assumes step_sim: "inv n s \<Longrightarrow> n + creations [c] \<le> capacity \<Longrightarrow> step c s = (r, s') \<Longrightarrow>
      inv (n + creations [c]) s' \<and> spec_op c (abs s) = (r, abs s')"
begin

lemma trace_sim:
  "inv n s \<Longrightarrow> n + creations cs \<le> capacity \<Longrightarrow> trace step cs s = (rs, s') \<Longrightarrow>
     inv (n + creations cs) s' \<and> trace spec_op cs (abs s) = (rs, abs s')"
proof (induction cs arbitrary: n s rs)
  case (Cons c cs)
  obtain r s1 where s1: "step c s = (r, s1)" by fastforce
  obtain rs1 where rs1: "trace step cs s1 = (rs1, s')" "rs = r # rs1"
    using Cons.prems(3) s1 by (cases "trace step cs s1") simp
  have cs: "creations (c # cs) = creations [c] + creations cs" by (cases c) simp_all
  from step_sim [OF Cons.prems(1) _ s1] Cons.prems(2) cs
  have one: "inv (n + creations [c]) s1 \<and> spec_op c (abs s) = (r, abs s1)" by linarith
  from Cons.IH [OF conjunct1 [OF one] _ rs1(1)] Cons.prems(2) cs one rs1(2)
  show ?case by (simp add: add.assoc)
qed simp

lemma trace_results:
  "inv n s \<Longrightarrow> n + creations cs \<le> capacity \<Longrightarrow> fst (trace step cs s) = fst (trace spec_op cs (abs s))"
  by (metis fst_conv surj_pair trace_sim)

end

subsection \<open>The table implements the abstract map\<close>

definition entry_ok :: "nat \<Rightarrow> 'o HandleManager \<Rightarrow> KHandleEntry \<Rightarrow> bool" where
  "entry_ok n hm e \<longleftrightarrow> (\<exists>j<n. handleId e = of_nat j + 1 \<and> objectCompressedPointer e = of_nat j
      \<and> (\<exists>object. gCompressedPointerMap hm (of_nat j) = Some (Some object)))"

definition handle_inv :: "nat \<Rightarrow> 'o HandleManager \<Rightarrow> bool" where
  "handle_inv n hm \<longleftrightarrow> n \<le> 65536 \<and> gHandleCounter hm = of_nat n + 1 \<and> gCompressedpointerCounter hm = of_nat n
     \<and> distinct (map handleId (gHandleTable hm)) \<and> (\<forall>e\<in>set (gHandleTable hm). entry_ok n hm e)"

definition handle_abs :: "'o HandleManager \<Rightarrow> 'o handle_map" where
  "handle_abs hm = (gHandleCounter hm,
     \<lambda>i. case find (\<lambda>entry. handleId entry = i) (gHandleTable hm) of None \<Rightarrow> None
         | Some e \<Rightarrow> Option.bind (gCompressedPointerMap hm (objectCompressedPointer e)) id)"

lemma of_nat_u32_inj: "i < 2 ^ 32 \<Longrightarrow> j < 2 ^ 32 \<Longrightarrow> (of_nat i :: u32) = of_nat j \<longleftrightarrow> i = j"
  by (simp add: word_unat_eq_iff unsigned_of_nat take_bit_nat_eq_self)

lemma of_nat_u16_inj: "i < 65536 \<Longrightarrow> j < 65536 \<Longrightarrow> (of_nat i :: u16) = of_nat j \<longleftrightarrow> i = j"
  by (simp add: word_unat_eq_iff unsigned_of_nat take_bit_nat_eq_self)

lemma ucast_of_nat_u32: "(ucast (of_nat n :: u32) :: u16) = of_nat n"
  by (rule bit_word_eqI) (simp add: bit_simps bit_of_nat_iff)

lemma ucast_u16_Suc: "(ucast (of_nat n + 1 :: u32) :: u16) = of_nat n + 1"
proof -
  have "(of_nat n + 1 :: u32) = of_nat (Suc n)" "(of_nat n + 1 :: u16) = of_nat (Suc n)" by simp_all
  then show ?thesis by (metis unsigned_ucast_eq ucast_of_nat_u32)
qed

lemma handle_init_inv: "handle_inv 0 handle_init"
  by (simp add: handle_inv_def handle_init_def)

lemma handle_abs_init: "handle_abs handle_init = (1, Map.empty)"
  by (simp add: handle_abs_def handle_init_def fun_eq_iff)

lemma entry_ok_mono: "entry_ok n hm e \<Longrightarrow> n \<le> m \<Longrightarrow>
    gCompressedPointerMap hm' (objectCompressedPointer e) = gCompressedPointerMap hm (objectCompressedPointer e) \<Longrightarrow>
    entry_ok m hm' e"
  unfolding entry_ok_def by (metis order.strict_trans2)

lemma entries_differ:
  assumes "handle_inv n hm" and "e \<in> set (gHandleTable hm)" and "e' \<in> set (gHandleTable hm)" and "handleId e \<noteq> handleId e'"
  shows "objectCompressedPointer e \<noteq> objectCompressedPointer e'"
proof -
  have "entry_ok n hm e" "entry_ok n hm e'" "n \<le> 65536" using assms by (auto simp: handle_inv_def)
  then show ?thesis using assms(4) by (auto simp: entry_ok_def of_nat_u32_inj)
qed

lemma find_append: "find P (xs @ ys) = (case find P xs of None \<Rightarrow> find P ys | Some x \<Rightarrow> Some x)"
  by (induction xs) auto

lemma find_SomeD: "find P xs = Some x \<Longrightarrow> x \<in> set xs \<and> P x"
  by (auto simp: find_Some_iff)

lemma find_remove1:
  "distinct (map f xs) \<Longrightarrow> x \<in> set xs \<Longrightarrow>
     find (\<lambda>y. f y = i) (remove1 x xs) = (if f x = i then None else find (\<lambda>y. f y = i) xs)"
  by (induction xs) (auto simp: find_None_iff intro: rev_image_eqI)

lemma distinct_remove1_map: "distinct (map f xs) \<Longrightarrow> distinct (map f (remove1 x xs))"
  by (induction xs) (auto dest!: set_remove1_subset [THEN subsetD])

lemma create_sim:
  assumes inv: "handle_inv n hm" and n: "n < 65536" and step: "createHandle ty x hm = (h, hm')"
  shows "handle_inv (Suc n) hm'" and "spec_op (Create x) (handle_abs hm) = (Created h, handle_abs hm')"
    and "snd (handle_abs hm') = (snd (handle_abs hm))(of_nat n + 1 \<mapsto> x)"
proof -
  define new where "new = \<lparr>handleId = of_nat n + 1, objectType = ty x, objectCompressedPointer = of_nat n\<rparr>"
  have hm': "gHandleTable hm' = gHandleTable hm @ [new]" "gHandleCounter hm' = of_nat n + 1 + 1"
    "gCompressedPointerMap hm' = (gCompressedPointerMap hm)(of_nat n \<mapsto> Some x)"
    "gCompressedpointerCounter hm' = of_nat n + 1" "h = of_nat n + 1"
    using inv step by (auto simp: createHandle_def Let_def handle_inv_def new_def ucast_u16_Suc)
  have ok: "entry_ok n hm e" if "e \<in> set (gHandleTable hm)" for e
    using inv that by (simp add: handle_inv_def)
  have fresh: "handleId new \<noteq> handleId e" "objectCompressedPointer e \<noteq> of_nat n"
    if "e \<in> set (gHandleTable hm)" for e
    using ok [OF that] n by (auto simp: entry_ok_def new_def of_nat_u32_inj of_nat_u16_inj)
  have fresh_id: "find (\<lambda>e. handleId e = of_nat n + 1) (gHandleTable hm) = None"
    using fresh(1) [THEN not_sym] by (auto simp: find_None_iff new_def)
  have new_ok: "entry_ok (Suc n) hm' new"
    unfolding entry_ok_def by (intro exI [of _ n]) (simp add: new_def hm')
  show "handle_inv (Suc n) hm'"
    using inv n fresh(1) new_ok entry_ok_mono [OF ok, of _ "Suc n" hm'] fresh(2)
    by (auto simp: handle_inv_def hm')
  show "snd (handle_abs hm') = (snd (handle_abs hm))(of_nat n + 1 \<mapsto> x)"
    using fresh fresh_id
    by (auto simp: handle_abs_def hm' new_def find_append fun_eq_iff
        dest: find_SomeD split: option.splits)
  then show "spec_op (Create x) (handle_abs hm) = (Created h, handle_abs hm')"
    using inv by (auto simp: handle_abs_def hm' handle_inv_def ucast_u16_Suc)
qed

lemma lookup_sim:
  assumes inv: "handle_inv n hm"
  shows "lookupObject h hm = (snd (handle_abs hm) (ucast h), hm)"
proof (cases "find_entry h hm")
  case (Some e)
  then have "entry_ok n hm e"
    using inv by (auto simp: find_entry_def handle_inv_def find_Some_iff)
  then show ?thesis
    using Some by (auto simp: lookupObject_def handle_abs_def find_entry_def entry_ok_def)
qed (simp add: lookupObject_def handle_abs_def find_entry_def)

lemma close_sim:
  assumes inv: "handle_inv n hm" and step: "closeHandle h hm = (b, hm')"
  shows "handle_inv n hm' \<and> spec_op (Close h) (handle_abs hm) = (Closed b, handle_abs hm')"
proof (cases "find_entry h hm")
  case None
  then show ?thesis using inv step by (auto simp: closeHandle_def handle_abs_def find_entry_def)
next
  case (Some e)
  then have e: "e \<in> set (gHandleTable hm)" "handleId e = ucast h"
    by (auto simp: find_entry_def find_Some_iff)
  have hm': "b" "hm' = hm\<lparr>gCompressedPointerMap := (gCompressedPointerMap hm)(objectCompressedPointer e := None),
                          gHandleTable := remove1 e (gHandleTable hm)\<rparr>"
    using step Some by (auto simp: closeHandle_def)
  have dist: "distinct (map handleId (gHandleTable hm))" and ok: "\<forall>e\<in>set (gHandleTable hm). entry_ok n hm e"
    using inv by (auto simp: handle_inv_def)
  have others: "e' \<in> set (gHandleTable hm) \<and> handleId e' \<noteq> handleId e" if "e' \<in> set (remove1 e (gHandleTable hm))" for e'
    using that dist e(1) by (auto simp: distinct_map inj_on_def)
  have "entry_ok n hm' e'" if "e' \<in> set (remove1 e (gHandleTable hm))" for e'
  proof (rule entry_ok_mono [of n hm])
    show "entry_ok n hm e'" using others [OF that] ok by blast
    have "objectCompressedPointer e' \<noteq> objectCompressedPointer e"
      using others [OF that] by (intro entries_differ [OF inv _ e(1)]) auto
    then show "gCompressedPointerMap hm' (objectCompressedPointer e') = gCompressedPointerMap hm (objectCompressedPointer e')"
      by (simp add: hm'(2))
  qed simp
  then have "handle_inv n hm'"
    using inv by (simp add: handle_inv_def hm'(2) distinct_remove1_map)
  moreover have "snd (handle_abs hm') = (snd (handle_abs hm))(ucast h := None)"
  proof
    fix i
    show "snd (handle_abs hm') i = ((snd (handle_abs hm))(ucast h := None)) i"
    proof (cases "i = ucast h \<or> find (\<lambda>e. handleId e = i) (gHandleTable hm) = None")
      case True
      then show ?thesis by (auto simp: handle_abs_def hm' find_remove1 [OF dist e(1)] e(2))
    next
      case False
      then obtain e' where e': "find (\<lambda>e. handleId e = i) (gHandleTable hm) = Some e'" by auto
      then have "objectCompressedPointer e' \<noteq> objectCompressedPointer e"
        using entries_differ [OF inv _ e(1)] False e(2) find_SomeD [OF e'] by metis
      then show ?thesis using False e' by (simp add: handle_abs_def hm' find_remove1 [OF dist e(1)] e(2))
    qed
  qed
  moreover have "snd (handle_abs hm) (ucast h) \<noteq> None"
    using bspec [OF ok e(1)] Some by (auto simp: handle_abs_def find_entry_def entry_ok_def)
  ultimately show ?thesis using hm' by (auto simp: handle_abs_def)
qed

interpretation handles: handle_table "manager_op ty" handle_inv handle_abs 65536
proof
  fix n hm c r hm'
  assume "handle_inv n hm" "n + creations [c] \<le> 65536" "manager_op ty c hm = (r, hm')"
  then show "handle_inv (n + creations [c]) hm' \<and> spec_op c (handle_abs hm) = (r, handle_abs hm')"
    using create_sim [of n hm ty] lookup_sim [of n hm] close_sim [of n hm]
    by (cases c; cases "handle_abs hm") (auto simp: map_prod_def split: prod.splits)
qed

text \<open>
  C19. Up to 65536 handles, the handle manager is a map: whatever sequence of creations, lookups and closings
  runs from the start, each operation returns what the abstract map from 16-bit numbers to objects returns.
  So a handle designates the object it was created for until it is closed, and no other handle does.
\<close>

theorem handles_refine_map:
  assumes "creations cs \<le> 65536"
  shows "fst (trace (manager_op ty) cs handle_init) = fst (trace spec_op cs (1, Map.empty))"
  using handles.trace_results [OF handle_init_inv, of cs ty] assms by (simp add: handle_abs_init)

theorem handles_refine_map_witness:
  "fst (trace (manager_op (\<lambda>_. NO_TYPE)) [Create CHR ''a'', Create CHR ''b'', Lookup 1, Close 1, Lookup 1, Lookup 2, Close 1] handle_init)
     = [Created 1, Created 2, Found (Some CHR ''a''), Closed True, Found None, Found (Some CHR ''b''), Closed False]"
  by (subst handles_refine_map) simp_all

text \<open>
  Past that bound the 16-bit number of a new handle is the number of an old one, which comes first in the table.
\<close>

lemma first_handle_stays:
  assumes "handle_inv n s" and "1 \<le> n" and "n + length xs \<le> 65536" and "snd (handle_abs s) 1 = Some x"
  shows "snd (handle_abs (snd (trace (manager_op ty) (map Create xs) s))) 1 = Some x"
  using assms
proof (induction xs arbitrary: n s)
  case (Cons y ys)
  obtain h s1 where s1: "createHandle ty y s = (h, s1)" by fastforce
  have n: "n < 65536" using Cons.prems(3) by simp
  note sim = create_sim [OF Cons.prems(1) n s1]
  have "(of_nat n :: u16) \<noteq> 0"
    using of_nat_u16_inj [of n 0] Cons.prems(2) n by simp
  then have "snd (handle_abs s1) 1 = Some x"
    using Cons.prems(4) by (simp add: sim(3))
  then have "snd (handle_abs (snd (trace (manager_op ty) (map Create ys) s1))) 1 = Some x"
    using Cons.IH [of "Suc n" s1] Cons.prems(3) sim(1) by simp
  then show ?case by (simp add: s1)
qed simp

lemma lookup_finds_older:
  assumes "handle_inv n s" and "n < 2 ^ 32" and "snd (handle_abs s) (ucast h) = Some x"
  shows "fst (lookupObject h (snd (createHandle ty y s))) = Some x"
proof -
  from assms(3) obtain e where e: "find (\<lambda>e. handleId e = ucast h) (gHandleTable s) = Some e"
      "gCompressedPointerMap s (objectCompressedPointer e) = Some (Some x)"
    by (auto simp: handle_abs_def split: option.splits bind_splits)
  then have "entry_ok n s e" using assms(1) find_SomeD [OF e(1)] by (auto simp: handle_inv_def)
  then have "objectCompressedPointer e \<noteq> gCompressedpointerCounter s"
    using assms(1,2) by (auto simp: entry_ok_def handle_inv_def of_nat_u32_inj)
  with e show ?thesis
    by (simp add: lookupObject_def find_entry_def createHandle_def Let_def find_append)
qed

text \<open>
  Handle numbers wrap around at 16 bits: when 65536 handles have been created and the first one is still open, the
  next handle returned is 65537 and looking it up gives the object of the first handle, not the new one.
\<close>

theorem handle_number_reused:
  assumes "length xs = 65536"
  shows "drop 65536 (fst (trace (manager_op ty) (map Create xs @ [Create y, Lookup 65537]) handle_init))
           = [Created 65537, Found (Some (hd xs))]"
proof -
  obtain x ys where xs: "xs = x # ys" using assms by (cases xs) auto
  obtain rs s where s: "trace (manager_op ty) (map Create xs) handle_init = (rs, s)" by fastforce
  have inv: "handle_inv 65536 s" and len: "length rs = 65536"
    using handles.trace_sim [OF handle_init_inv _ s] assms s length_trace [of "manager_op ty" "map Create xs" handle_init] by (auto simp: creations_Create)
  obtain h s1 where s1: "createHandle ty x handle_init = (h, s1)" by fastforce
  have "handle_inv (Suc 0) s1 \<and> snd (handle_abs s1) 1 = Some x"
    using create_sim(1,3) [OF handle_init_inv _ s1] by simp
  then have first: "snd (handle_abs s) 1 = Some x"
    using first_handle_stays [of "Suc 0" s1 ys x ty] assms s xs s1 by (simp add: map_prod_def split: prod.splits)
  have "(ucast (65537 :: u32) :: u16) = 1" by code_simp
  with first have "fst (lookupObject 65537 (snd (createHandle ty y s))) = Some x"
    by (intro lookup_finds_older [OF inv]) (simp, simp only:)
  moreover have "fst (createHandle ty y s) = 65537"
    using inv by (simp add: createHandle_def Let_def handle_inv_def)
  ultimately obtain s2 s3 where "createHandle ty y s = (65537, s2)" "lookupObject 65537 s2 = (Some x, s3)"
    by (metis prod.collapse)
  moreover have "hd xs = x" using xs by simp
  ultimately show ?thesis
    using len by (simp add: trace_append s)
qed

theorem handle_number_reused_witness:
  "drop 65536 (fst (trace (manager_op (\<lambda>_. NO_TYPE)) (map Create (replicate 65536 CHR ''a'') @ [Create CHR ''b'', Lookup 65537])
     handle_init)) = [Created 65537, Found (Some CHR ''a'')]"
  using handle_number_reused [of "replicate 65536 CHR ''a''" "\<lambda>_. NO_TYPE" "CHR ''b''"] by (simp del: map_replicate)

end
