(* ===== verification/Memory_Mapper.thy ===== *)
theory Memory_Mapper
  imports Memory_Alloc
begin

text \<open>
  The memory mapper, \<^verbatim>\<open>hle/kernel/memoryMapper.cpp\<close>: the list of mapped regions the kernel reports to the guest, and the
  pages that back them. The loop of \<open>addMapping\<close> runs over a \<^verbatim>\<open>std::list\<close> while it changes it: \<open>seen\<close> is the list
  before the iterator (with what \<^verbatim>\<open>push_front\<close> put there), \<open>rest\<close> the list from the iterator on. The iterator
  \<^verbatim>\<open>erase\<close> returns is advanced once more by the loop, so the mapping after an erased one is skipped, and advancing
  the end iterator is the error \<open>IteratorPastEnd\<close>. \<open>findMapping\<close> returns a reference to a temporary when it finds
  nothing: \<open>DanglingReference\<close>.
\<close>

datatype MemoryType = UNMAPPED | IO | NORMAL | CODE_STATIC | CODE | HEAP | SHARED_MEM_BLOCK | WEIRD_MAPPED_MEM
  | MODULE_CODE_STATIC | MODULE_CODE_MUTABLE | IPC_BUFFER_0 | MAPPED_MEM | THEAD_LOCAL_STORAGE
  | ISOLATED_TRANSFER_MEM | TRANSFER_MEM | PROCESS_MEM | RESERVED | IPC_BUFFER_1 | IPC_BUFFER_2 | UNKNOWN

record MemoryState =
  mem_type :: MemoryType
  permissionChangeAllowed :: u8
  unk1 :: u8
  processPermissionChangeAllowed :: u8
  mapAllowed :: u8
  unmapProcessCodeMemoryAllowed :: u8
  transferMemoryAllowed :: u8
  unk2 :: u8
  mapDeviceAllowed :: u8
  mapDeviceAlignedAllowed :: u8
  ipcBufferAllowed :: u8
  isCached :: u8
  mapProcessAllowed :: u8
  attributeChangeAllowed :: u8
  pad :: u8

record MemoryMapping =
  map_base :: u64
  region_size :: u64
  map_state :: MemoryState
  permissions :: Permission

definition mapping :: "u64 \<Rightarrow> u64 \<Rightarrow> MemoryType \<Rightarrow> Permission \<Rightarrow> MemoryMapping" where
  "mapping base' size' type permissions' =
     \<lparr>map_base = base', region_size = size',
      map_state = \<lparr>mem_type = type, permissionChangeAllowed = 0, unk1 = 0, processPermissionChangeAllowed = 0,
               mapAllowed = 0, unmapProcessCodeMemoryAllowed = 0, transferMemoryAllowed = 0, unk2 = 0,
               mapDeviceAllowed = 0, mapDeviceAlignedAllowed = 0, ipcBufferAllowed = 0, isCached = 0,
               mapProcessAllowed = 0, attributeChangeAllowed = 0, pad = 0\<rparr>,
      permissions = permissions'\<rparr>"

fun getPermissionString :: "Permission \<Rightarrow> string" where
  "getPermissionString NONE = ''---''"
| "getPermissionString READ_ONLY = ''r--''"
| "getPermissionString WRITE_ONLY = ''-w-''"
| "getPermissionString READ_WRITE = ''rw-''"
| "getPermissionString EXECUTE_ONLY = ''--x''"
| "getPermissionString READ_EXECUTE = ''r-x''"
| "getPermissionString WRITE_EXECUTE = ''-wx''"
| "getPermissionString ALL_PERM = ''rwx''"

fun getMemTypeString :: "MemoryType \<Rightarrow> string" where
  "getMemTypeString UNMAPPED = ''UNMAPPED''"
| "getMemTypeString IO = ''IO''"
| "getMemTypeString NORMAL = ''NORMAL''"
| "getMemTypeString CODE_STATIC = ''CODE_STATIC''"
| "getMemTypeString CODE = ''CODE''"
| "getMemTypeString HEAP = ''HEAP''"
| "getMemTypeString SHARED_MEM_BLOCK = ''SHARED_MEM_BLOCK''"
| "getMemTypeString WEIRD_MAPPED_MEM = ''WEIRD_MAPPED_MEM''"
| "getMemTypeString MODULE_CODE_STATIC = ''MODULE_CODE_STATIC''"
| "getMemTypeString MODULE_CODE_MUTABLE = ''MODULE_CODE_MUTABLE''"
| "getMemTypeString IPC_BUFFER_0 = ''IPC_BUFFER_0''"
| "getMemTypeString MAPPED_MEM = ''MAPPED_MEM''"
| "getMemTypeString THEAD_LOCAL_STORAGE = ''THEAD_LOCAL_STORAGE''"
| "getMemTypeString ISOLATED_TRANSFER_MEM = ''ISOLATED_TRANSFER_MEM''"
| "getMemTypeString TRANSFER_MEM = ''TRANSFER_MEM''"
| "getMemTypeString PROCESS_MEM = ''PROCESS_MEM''"
| "getMemTypeString RESERVED = ''RESERVED''"
| "getMemTypeString IPC_BUFFER_1 = ''IPC_BUFFER_1''"
| "getMemTypeString IPC_BUFFER_2 = ''IPC_BUFFER_2''"
| "getMemTypeString UNKNOWN = ''UNKNOWN''"

definition map_end :: "MemoryMapping \<Rightarrow> u64" where
  "map_end m = map_base m + region_size m - 1"

fun addMapping_loop :: "u64 \<Rightarrow> u64 \<Rightarrow> MemoryMapping list \<Rightarrow> MemoryMapping list \<Rightarrow> fault + MemoryMapping list" where
  "addMapping_loop newBase newEnd seen [] = Inr seen"
| "addMapping_loop newBase newEnd seen (m # rest) =
     (let mapBase = map_base m;
          mapEnd = map_end m;
          erased = (case rest of [] \<Rightarrow> Inl IteratorPastEnd
                    | skipped # rest' \<Rightarrow> addMapping_loop newBase newEnd (seen @ [skipped]) rest');
          left = m\<lparr>region_size := newBase - mapBase\<rparr>;
          right = m\<lparr>map_base := newEnd + 1, region_size := mapEnd - (newEnd + 1) + 1\<rparr>
      in if mapEnd < newBase then addMapping_loop newBase newEnd (seen @ [m]) rest
         else if mapEnd > newBase \<and> mapEnd \<le> newEnd \<and> mapBase < newBase
           then addMapping_loop newBase newEnd (seen @ [left]) rest
         else if mapEnd \<ge> newEnd \<and> mapBase \<le> newBase then
           if mapBase = newBase \<and> mapEnd = newEnd then erased
           else if mapBase = newBase then addMapping_loop newBase newEnd (seen @ [right]) rest
           else if mapEnd = newEnd then addMapping_loop newBase newEnd (seen @ [left]) rest
           else addMapping_loop newBase newEnd
                  (mapping (newEnd + 1) (mapEnd - newEnd) (mem_type (map_state m)) (permissions m) # seen @ [left]) rest
         else if mapEnd \<le> newEnd \<and> mapBase \<ge> newBase then erased
         else if mapBase \<ge> newBase \<and> mapBase < newEnd \<and> mapEnd > newEnd
           then addMapping_loop newBase newEnd (seen @ [right]) rest
         else addMapping_loop newBase newEnd (seen @ [m]) rest)"

definition back_mapping :: "u64 \<Rightarrow> u64 \<Rightarrow> MemoryType \<Rightarrow> Permission \<Rightarrow> Memory \<Rightarrow> fault + Memory" where
  "back_mapping base' size' type permissions' mem =
     (if type \<noteq> UNMAPPED then
        and_then (allocateRegion (base' div PAGE_SIZE) (size' div PAGE_SIZE) mem)
          (\<lambda>(_, mem). protectRegion (base' div PAGE_SIZE) (size' div PAGE_SIZE) permissions' mem)
      else Inr mem)"

definition addMapping :: "u64 \<Rightarrow> u64 \<Rightarrow> MemoryType \<Rightarrow> Permission \<Rightarrow> MemoryMapping list \<times> Memory \<Rightarrow>
    fault + MemoryMapping list \<times> Memory" where
  "addMapping base' size' type permissions' = (\<lambda>(gMappings, mem).
     and_then (addMapping_loop base' (base' + size' - 1) [] gMappings)
       (\<lambda>gMappings. let gMappings = sort_key map_base (mapping base' size' type permissions' # gMappings)
         in and_then (back_mapping base' size' type permissions' mem) (\<lambda>mem. Inr (gMappings, mem))))"

definition findMapping :: "u64 \<Rightarrow> MemoryMapping list \<Rightarrow> fault + MemoryMapping" where
  "findMapping addr gMappings =
     (case find (\<lambda>m. addr \<ge> map_base m \<and> addr < map_base m + region_size m) gMappings of
        Some m \<Rightarrow> Inr m
      | None \<Rightarrow> Inl DanglingReference)"

text \<open>The lines \<open>printMappings\<close> logs: first and last address, permissions, type.\<close>

definition printMappings :: "MemoryMapping list \<Rightarrow> (u64 \<times> u64 \<times> string \<times> string) list" where
  "printMappings gMappings =
     map (\<lambda>m. (map_base m, map_base m + region_size m - 1, getPermissionString (permissions m),
               getMemTypeString (mem_type (map_state m)))) gMappings"

subsection \<open>Regions as intervals\<close>

definition lo :: "MemoryMapping \<Rightarrow> nat" where "lo m = unat (map_base m)"
definition hi :: "MemoryMapping \<Rightarrow> nat" where "hi m = unat (map_base m) + unat (region_size m)"

definition region_ok :: "MemoryMapping \<Rightarrow> bool" where
  "region_ok m \<longleftrightarrow> lo m < hi m \<and> hi m < 2 ^ 64 \<and> 4096 dvd lo m \<and> 4096 dvd hi m"

definition apart :: "MemoryMapping \<Rightarrow> MemoryMapping \<Rightarrow> bool" where
  "apart m n \<longleftrightarrow> hi m \<le> lo n \<or> hi n \<le> lo m"

definition maps_ok :: "MemoryMapping list \<Rightarrow> bool" where
  "maps_ok ms \<longleftrightarrow> (\<forall>m\<in>set ms. region_ok m) \<and> sorted_wrt apart ms"

definition inside :: "MemoryMapping \<Rightarrow> MemoryMapping \<Rightarrow> bool" where
  "inside m n \<longleftrightarrow> lo n \<le> lo m \<and> hi m \<le> hi n"

fun erases_cleanly :: "MemoryMapping \<Rightarrow> MemoryMapping list \<Rightarrow> bool" where
  "erases_cleanly new [] \<longleftrightarrow> True"
| "erases_cleanly new [m] \<longleftrightarrow> \<not> inside m new"
| "erases_cleanly new (m # n # ms) \<longleftrightarrow> (inside m new \<longrightarrow> apart n new) \<and> erases_cleanly new (n # ms)"

definition described :: "MemoryMapping list \<Rightarrow> u64 \<Rightarrow> (MemoryType \<times> Permission) option" where
  "described ms addr = (case findMapping addr ms of Inr m \<Rightarrow> Some (mem_type (map_state m), permissions m) | Inl _ \<Rightarrow> None)"

lemma apart_sym: "apart m n \<longleftrightarrow> apart n m"
  by (auto simp: apart_def)

lemma sorted_wrt_insort_key:
  assumes "\<And>x y. R x y \<longleftrightarrow> R y x"
  shows "sorted_wrt R (insort_key f x xs) \<longleftrightarrow> (\<forall>y\<in>set xs. R x y) \<and> sorted_wrt R xs"
  using assms by (induction xs) (auto simp: set_insort_key)

lemma sorted_wrt_sort_key:
  assumes "\<And>x y. R x y \<longleftrightarrow> R y x"
  shows "sorted_wrt R (sort_key f xs) \<longleftrightarrow> sorted_wrt R xs"
  by (induction xs) (auto simp: sorted_wrt_insort_key [of R, OF assms])

lemma unat_plus: "unat a + unat b < 2 ^ 64 \<Longrightarrow> unat (a + b) = unat a + unat b" for a b :: u64
  by (simp add: unat_add_lem [THEN iffD1])

lemma unat_minus: "b \<le> a \<Longrightarrow> unat (a - b) = unat a - unat b" for a b :: u64
  by (simp add: unat_sub)

lemma unat_end: "0 < unat n \<Longrightarrow> unat b + unat n < 2 ^ 64 \<Longrightarrow> unat (b + n - 1) = unat b + unat n - 1" for b n :: u64
  by (subst unat_minus) (simp_all add: unat_plus word_le_nat_alt)

lemma in_region: "region_ok m \<Longrightarrow>
    addr \<ge> map_base m \<and> addr < map_base m + region_size m \<longleftrightarrow> lo m \<le> unat addr \<and> unat addr < hi m"
  by (simp add: region_ok_def lo_def hi_def word_le_nat_alt word_less_nat_alt unat_plus)

lemma unat_bounds: "region_ok m \<Longrightarrow>
    unat (map_base m) = lo m \<and> unat (map_end m) = hi m - 1 \<and> unat (map_end m + 1) = hi m"
  using unat_plus [of "map_end m" 1] by (auto simp: region_ok_def map_end_def lo_def hi_def unat_end)

lemma unat_newEnd: "region_ok new \<Longrightarrow> newEnd = map_base new + region_size new - 1 \<Longrightarrow>
    unat newEnd = hi new - 1 \<and> unat (newEnd + 1) = hi new"
  using unat_bounds [of new] by (simp add: map_end_def)

lemma aligned_ends: "region_ok m \<Longrightarrow> region_ok n \<Longrightarrow> hi m - 1 \<noteq> lo n"
proof
  assume ok: "region_ok m" "region_ok n" and eq: "hi m - 1 = lo n"
  then have "4096 dvd hi m - (hi m - 1)" unfolding region_ok_def by (metis dvd_diff_nat)
  moreover have "hi m - (hi m - 1) = 1" using ok by (simp add: region_ok_def)
  ultimately show False by simp
qed

subsection \<open>One mapping against the new region\<close>

definition new_end :: "MemoryMapping \<Rightarrow> u64" where
  "new_end new = map_base new + region_size new - 1"

definition left_piece :: "MemoryMapping \<Rightarrow> MemoryMapping \<Rightarrow> MemoryMapping" where
  "left_piece new m = m\<lparr>region_size := map_base new - map_base m\<rparr>"

definition right_piece :: "MemoryMapping \<Rightarrow> MemoryMapping \<Rightarrow> MemoryMapping" where
  "right_piece new m = m\<lparr>map_base := new_end new + 1, region_size := map_end m - (new_end new + 1) + 1\<rparr>"

definition split_piece :: "MemoryMapping \<Rightarrow> MemoryMapping \<Rightarrow> MemoryMapping" where
  "split_piece new m =
     mapping (new_end new + 1) (map_end m - new_end new) (mem_type (map_state m)) (permissions m)"

lemma bounds_upd: "lo (m\<lparr>map_base := b, region_size := n\<rparr>) = unat b" "hi (m\<lparr>map_base := b, region_size := n\<rparr>) = unat b + unat n"
  by (simp_all add: lo_def hi_def)

lemma bounds_mapping: "lo (mapping b n ty pm) = unat b" "hi (mapping b n ty pm) = unat b + unat n"
  by (simp_all add: lo_def hi_def mapping_def)

lemma left_piece_bounds:
  "region_ok new \<Longrightarrow> region_ok m \<Longrightarrow> lo m < lo new \<Longrightarrow> lo (left_piece new m) = lo m \<and> hi (left_piece new m) = lo new"
  by (simp add: left_piece_def lo_def hi_def unat_minus word_le_nat_alt)

lemma right_piece_bounds:
  assumes "region_ok new" "region_ok m" "hi new < hi m"
  shows "lo (right_piece new m) = hi new \<and> hi (right_piece new m) = hi m"
proof -
  have "new_end new + 1 \<le> map_end m"
    using unat_newEnd [OF assms(1) new_end_def] unat_bounds [OF assms(2)] assms(3) by (simp add: word_le_nat_alt)
  then have "unat (map_end m - (new_end new + 1)) = hi m - 1 - hi new"
    using unat_newEnd [OF assms(1) new_end_def] unat_bounds [OF assms(2)] by (simp add: unat_minus)
  then have "unat (map_end m - (new_end new + 1) + 1) = hi m - hi new"
    using assms(2,3) by (subst unat_plus) (auto simp: region_ok_def)
  then show ?thesis
    using unat_newEnd [OF assms(1) new_end_def] assms(3) by (simp add: right_piece_def bounds_upd)
qed

lemma split_piece_bounds:
  assumes "region_ok new" "region_ok m" "hi new < hi m"
  shows "lo (split_piece new m) = hi new \<and> hi (split_piece new m) = hi m"
proof -
  have "new_end new \<le> map_end m"
    using unat_newEnd [OF assms(1) new_end_def] unat_bounds [OF assms(2)] assms(3) by (simp add: word_le_nat_alt)
  then have "unat (map_end m - new_end new) = hi m - hi new"
    using unat_newEnd [OF assms(1) new_end_def] unat_bounds [OF assms(2)] assms by (simp add: unat_minus region_ok_def)
  then show ?thesis
    using unat_newEnd [OF assms(1) new_end_def] assms(3) by (simp add: split_piece_def bounds_mapping)
qed

lemma addMapping_loop_step:
  assumes new: "region_ok new" and m: "region_ok m"
  shows "addMapping_loop (map_base new) (new_end new) seen (m # rest) =
    (let continue = (\<lambda>seen. addMapping_loop (map_base new) (new_end new) seen rest)
     in if apart m new then continue (seen @ [m])
        else if inside m new then
          (case rest of [] \<Rightarrow> Inl IteratorPastEnd
           | skipped # rest' \<Rightarrow> addMapping_loop (map_base new) (new_end new) (seen @ [skipped]) rest')
        else if lo new \<le> lo m then continue (seen @ [right_piece new m])
        else if hi m \<le> hi new then continue (seen @ [left_piece new m])
        else continue (split_piece new m # seen @ [left_piece new m]))"
proof -
  have bounds: "unat (map_base new) = lo new" "unat (new_end new) = hi new - 1" "unat (map_base m) = lo m" "unat (map_end m) = hi m - 1"
    using unat_bounds [OF new] unat_newEnd [OF new new_end_def] unat_bounds [OF m] by auto
  have ranges: "lo new < hi new" "lo m < hi m" "hi m - 1 \<noteq> lo new" "hi new - 1 \<noteq> lo m"
    using new m aligned_ends by (auto simp: region_ok_def)
  show ?thesis
    using ranges
    by (auto simp: Let_def word_less_nat_alt word_le_nat_alt word_unat_eq_iff bounds apart_def inside_def
        left_piece_def right_piece_def split_piece_def simp del: unat_eq_zero)
qed

declare addMapping_loop.simps(2) [simp del]

subsection \<open>The loop\<close>

definition tagged :: "MemoryMapping list \<Rightarrow> nat \<Rightarrow> MemoryType \<Rightarrow> Permission \<Rightarrow> bool" where
  "tagged ms a ty pm \<longleftrightarrow> (\<exists>m\<in>set ms. lo m \<le> a \<and> a < hi m \<and> mem_type (map_state m) = ty \<and> permissions m = pm)"

lemma piece_tags [simp]:
  "mem_type (map_state (left_piece new m)) = mem_type (map_state m)" "permissions (left_piece new m) = permissions m"
  "mem_type (map_state (right_piece new m)) = mem_type (map_state m)" "permissions (right_piece new m) = permissions m"
  "mem_type (map_state (split_piece new m)) = mem_type (map_state m)" "permissions (split_piece new m) = permissions m"
  by (simp_all add: left_piece_def right_piece_def split_piece_def mapping_def)

lemma maps_ok_replace:
  "maps_ok (xs @ m # ys) \<Longrightarrow> region_ok q \<Longrightarrow> inside q m \<Longrightarrow> maps_ok (xs @ q # ys)"
  by (fastforce simp: maps_ok_def sorted_wrt_append apart_def inside_def)

lemma maps_ok_push:
  "maps_ok (xs @ m # ys) \<Longrightarrow> region_ok p \<Longrightarrow> region_ok q \<Longrightarrow> inside p m \<Longrightarrow> inside q m \<Longrightarrow> apart p q \<Longrightarrow>
     maps_ok (p # xs @ q # ys)"
  by (fastforce simp: maps_ok_def sorted_wrt_append apart_def inside_def)

lemma maps_ok_erase: "maps_ok (xs @ m # ys) \<Longrightarrow> maps_ok (xs @ ys)"
  by (auto simp: maps_ok_def sorted_wrt_append)

lemma erases_cleanly_tl: "erases_cleanly new (m # ms) \<Longrightarrow> erases_cleanly new ms"
  by (cases ms) auto

lemma pieces_ok:
  assumes "region_ok new" "region_ok m" "\<not> apart m new"
  shows "lo m < lo new \<Longrightarrow> region_ok (left_piece new m) \<and> inside (left_piece new m) m \<and> apart (left_piece new m) new"
    and "hi new < hi m \<Longrightarrow> region_ok (right_piece new m) \<and> inside (right_piece new m) m \<and> apart (right_piece new m) new"
    and "hi new < hi m \<Longrightarrow> region_ok (split_piece new m) \<and> inside (split_piece new m) m \<and> apart (split_piece new m) new"
  using assms left_piece_bounds [of new m] right_piece_bounds [of new m] split_piece_bounds [of new m]
  by (auto simp: region_ok_def inside_def apart_def)

definition result_ok :: "MemoryMapping \<Rightarrow> MemoryMapping list \<Rightarrow> fault + MemoryMapping list \<Rightarrow> bool" where
  "result_ok new ms r \<longleftrightarrow> (\<exists>ms'. r = Inr ms' \<and> maps_ok ms' \<and> (\<forall>m\<in>set ms'. apart m new)
     \<and> (\<forall>a ty pm. \<not> (lo new \<le> a \<and> a < hi new) \<longrightarrow> tagged ms' a ty pm = tagged ms a ty pm))"

lemma result_ok_cong:
  "result_ok new ms r \<Longrightarrow> (\<And>a ty pm. \<not> (lo new \<le> a \<and> a < hi new) \<Longrightarrow> tagged ms a ty pm = tagged ns a ty pm) \<Longrightarrow> result_ok new ns r"
  by (auto simp: result_ok_def)

lemma addMapping_loop_ok:
  assumes "region_ok new" and "maps_ok (seen @ rest)" and "\<forall>m\<in>set seen. apart m new" and "erases_cleanly new rest"
  shows "result_ok new (seen @ rest) (addMapping_loop (map_base new) (new_end new) seen rest)"
  using assms(2-4)
proof (induction rest arbitrary: seen rule: length_induct)
  case (1 rest)
  note IH = 1(1)[rule_format]
  show ?case
  proof (cases rest)
    case Nil
    then show ?thesis using 1(2,3) by (simp add: result_ok_def)
  next
    case (Cons m ms)
    have m: "region_ok m" using 1(2) Cons by (simp add: maps_ok_def)
    note step = addMapping_loop_step [OF assms(1) m, of seen ms, unfolded Let_def]
    note pieces = pieces_ok [OF assms(1) m]
    have order: "lo new < hi new" using assms(1) by (simp add: region_ok_def)
    have clean: "erases_cleanly new ms" using 1(4) Cons erases_cleanly_tl by simp
    have IH': "result_ok new (seen' @ ms) (addMapping_loop (map_base new) (new_end new) seen' ms)"
      if "maps_ok (seen' @ ms)" "\<forall>m\<in>set seen'. apart m new" for seen'
      using IH [of ms seen'] Cons that clean by simp
    consider (apart) "apart m new" | (inside) "\<not> apart m new" "inside m new"
      | (right) "\<not> apart m new" "\<not> inside m new" "lo new \<le> lo m"
      | (left) "\<not> apart m new" "\<not> inside m new" "lo m < lo new" "hi m \<le> hi new"
      | (split) "\<not> apart m new" "\<not> inside m new" "lo m < lo new" "hi new < hi m"
      by fastforce
    then show ?thesis
    proof cases
      case apart
      then show ?thesis using IH' [of "seen @ [m]"] 1(2,3) Cons step by simp
    next
      case inside
      then obtain k ks where ks: "ms = k # ks" using 1(4) Cons by (cases ms) auto
      have k: "apart k new" "erases_cleanly new ks" using 1(4) Cons ks inside erases_cleanly_tl by auto
      have "result_ok new ((seen @ [k]) @ ks) (addMapping_loop (map_base new) (new_end new) (seen @ [k]) ks)"
        using IH [of ks "seen @ [k]"] Cons ks k 1(2,3) maps_ok_erase [of seen m ms] by auto
      then show ?thesis
        using step inside Cons ks by (auto simp: inside_def tagged_def elim!: result_ok_cong)
    next
      case right
      then have hi: "hi new < hi m" "lo m < hi new" using m assms(1) by (auto simp: inside_def apart_def)
      show ?thesis
        using step right Cons pieces(2) [OF right(1) hi(1)] IH' [of "seen @ [right_piece new m]"] 1(2,3)
          maps_ok_replace [of seen m ms] right_piece_bounds [OF assms(1) m hi(1)] hi(2)
        by (auto simp: tagged_def elim!: result_ok_cong)
    next
      case left
      then have "lo new < hi m" by (simp add: apart_def)
      then show ?thesis
        using step left Cons pieces(1) [OF left(1,3)] IH' [of "seen @ [left_piece new m]"] 1(2,3)
          maps_ok_replace [of seen m ms] left_piece_bounds [OF assms(1) m left(3)]
        by (auto simp: tagged_def elim!: result_ok_cong)
    next
      case split
      note bounds = left_piece_bounds [OF assms(1) m split(3)] split_piece_bounds [OF assms(1) m split(4)]
      have "apart (split_piece new m) (left_piece new m)"
        using bounds assms(1) by (simp add: apart_def region_ok_def)
      then show ?thesis
        using step split Cons pieces(1) [OF split(1,3)] pieces(3) [OF split(1,4)] 1(2,3) bounds order
          IH' [of "split_piece new m # seen @ [left_piece new m]"] maps_ok_push [of seen m ms]
        by (auto simp: tagged_def elim!: result_ok_cong)
    qed
  qed
qed

lemma described_tagged:
  assumes "maps_ok ms"
  shows "described ms addr = Some (ty, pm) \<longleftrightarrow> tagged ms (unat addr) ty pm"
  using assms
proof (induction ms)
  case (Cons m ms)
  then have ok: "region_ok m" "maps_ok ms" "\<forall>n\<in>set ms. apart m n" by (auto simp: maps_ok_def)
  then show ?case
    using Cons.IH in_region [OF ok(1), of addr]
    by (fastforce simp: described_def findMapping_def tagged_def apart_def)
qed (simp add: described_def findMapping_def tagged_def)

lemma tagged_insort [simp]: "tagged (insort_key f m (sort_key g ms)) = tagged (m # ms)"
  by (simp add: tagged_def fun_eq_iff set_insort_key)

lemma described_eqI:
  "maps_ok ms \<Longrightarrow> maps_ok ns \<Longrightarrow> (\<And>ty pm. tagged ms (unat addr) ty pm = tagged ns (unat addr) ty pm) \<Longrightarrow>
     described ms addr = described ns addr"
  by (metis described_tagged option.exhaust prod.collapse)

text \<open>
  C20. Mapping a page-aligned region over a list of disjoint page-aligned regions, where no mapping that the new region covers entirely is the last of
  the list or is directly followed by another that the region overlaps (\<open>erases_cleanly\<close>: after an erasure the loop skips the next mapping, or advances the end
  iterator), gives a list sorted by address, again disjoint and page-aligned: inside the new region
  the guest sees the new type and permissions, outside it exactly what it saw before. What happens to the
  backing pages, and a fault there, is \<open>back_mapping\<close>.
\<close>

theorem addMapping_overlays:
  assumes "maps_ok ms" and "region_ok (mapping base' size' ty pm)" and "erases_cleanly (mapping base' size' ty pm) ms"
  shows "\<exists>ms'. addMapping base' size' ty pm (ms, mem)
           = and_then (back_mapping base' size' ty pm mem) (\<lambda>mem'. Inr (ms', mem'))
         \<and> maps_ok ms' \<and> sorted (map map_base ms')
         \<and> (\<forall>addr. described ms' addr =
              (if base' \<le> addr \<and> addr < base' + size' then Some (ty, pm) else described ms addr))"
proof -
  define new where "new = mapping base' size' ty pm"
  have new: "region_ok new" "map_base new = base'" "new_end new = base' + size' - 1" "region_size new = size'"
    using assms(2) by (simp_all add: new_def new_end_def) (simp_all add: mapping_def)
  have "result_ok new ms (addMapping_loop base' (base' + size' - 1) [] ms)"
    using addMapping_loop_ok [OF new(1), of "[]" ms] assms(1,3) new by (simp add: new_def)
  then obtain cut where cut: "addMapping_loop base' (base' + size' - 1) [] ms = Inr cut" "maps_ok cut"
      "\<forall>m\<in>set cut. apart m new"
      "\<And>a ty pm. \<not> (lo new \<le> a \<and> a < hi new) \<Longrightarrow> tagged cut a ty pm = tagged ms a ty pm"
    by (auto simp: result_ok_def)
  let ?ms' = "sort_key map_base (new # cut)"
  have ok: "maps_ok ?ms'"
    using cut(2,3) new(1) apart_sym unfolding maps_ok_def by (subst sorted_wrt_sort_key [OF apart_sym]) (auto simp: set_insort_key)
  have "described ?ms' addr = (if base' \<le> addr \<and> addr < base' + size' then Some (ty, pm) else described ms addr)" for addr
  proof (cases "base' \<le> addr \<and> addr < base' + size'")
    case True
    then have "tagged (new # cut) (unat addr) ty pm"
      using in_region [OF new(1), of addr] new by (auto simp: tagged_def new_def mapping_def)
    then show ?thesis using True described_tagged [OF ok] by simp
  next
    case False
    then have out: "\<not> (lo new \<le> unat addr \<and> unat addr < hi new)"
      using in_region [OF new(1), of addr] new by auto
    then have "tagged (new # cut) (unat addr) ty pm = tagged ms (unat addr) ty pm" for ty pm
      using cut(4) [OF out] by (auto simp: tagged_def)
    then have "described ?ms' addr = described ms addr"
      by (intro described_eqI [OF ok assms(1)]) simp
    then show ?thesis using False by auto
  qed
  then show ?thesis
    using cut(1) ok sorted_sort_key [of map_base "new # cut"]
    by (intro exI [of _ ?ms']) (simp add: addMapping_def new_def)
qed

definition demo_mappings :: "MemoryMapping list" where
  "demo_mappings = [mapping 0 0x4000 UNMAPPED NONE, mapping 0x4000 0x2000 UNMAPPED READ_ONLY]"

lemma demo_mappings_ok: "maps_ok demo_mappings"
  by (simp add: demo_mappings_def maps_ok_def region_ok_def apart_def bounds_mapping)

theorem addMapping_overlays_witness:
  "described demo_mappings 0x3000 = Some (UNMAPPED, NONE)
   \<and> (\<exists>ms'. addMapping 0x3000 0x2000 UNMAPPED READ_WRITE (demo_mappings, zero_memory) = Inr (ms', zero_memory)
       \<and> described ms' 0x3000 = Some (UNMAPPED, READ_WRITE) \<and> described ms' 0x2FFF = Some (UNMAPPED, NONE))"
proof -
  have "region_ok (mapping 0x3000 0x2000 UNMAPPED READ_WRITE)"
      "erases_cleanly (mapping 0x3000 0x2000 UNMAPPED READ_WRITE) demo_mappings"
    by (simp_all add: demo_mappings_def region_ok_def inside_def bounds_mapping)
  from addMapping_overlays [OF demo_mappings_ok this, of zero_memory] obtain ms' where
      "addMapping 0x3000 0x2000 UNMAPPED READ_WRITE (demo_mappings, zero_memory) = Inr (ms', zero_memory)"
      and all: "\<forall>addr. described ms' addr = (if 0x3000 \<le> addr \<and> addr < 0x3000 + 0x2000
        then Some (UNMAPPED, READ_WRITE) else described demo_mappings addr)"
    by (auto simp: back_mapping_def)
  then show ?thesis
    using spec [OF all, of "0x3000"] spec [OF all, of "0x2FFF"]
    by (simp add: described_def findMapping_def demo_mappings_def mapping_def)
qed

lemma loop_keeps_seen:
  assumes "region_ok new" and "\<forall>m\<in>set rest. region_ok m" and "erases_cleanly new rest"
  shows "\<exists>ms. addMapping_loop (map_base new) (new_end new) seen rest = Inr ms \<and> set seen \<subseteq> set ms"
  using assms(2,3)
proof (induction rest arbitrary: seen rule: length_induct)
  case (1 rest)
  show ?case
  proof (cases rest)
    case (Cons m ms)
    have clean: "erases_cleanly new ms" using 1(3) Cons erases_cleanly_tl by simp
    have IH: "\<exists>r. addMapping_loop (map_base new) (new_end new) seen' ms = Inr r \<and> set seen' \<subseteq> set r" for seen'
      using 1 Cons clean by simp
    have skip: "\<exists>r. addMapping_loop (map_base new) (new_end new) (seen @ [k]) ks = Inr r \<and> set seen \<subseteq> set r" if "ms = k # ks" for k ks
      using 1(1)[rule_format, of ks "seen @ [k]"] 1(2) Cons that clean erases_cleanly_tl [of new k ks] by auto
    have m: "region_ok m" using 1(2) Cons by simp
    show ?thesis
      using 1(3) Cons skip IH [of "seen @ [m]"] IH [of "seen @ [right_piece new m]"]
        IH [of "seen @ [left_piece new m]"] IH [of "split_piece new m # seen @ [left_piece new m]"]
      by (auto simp: addMapping_loop_step [OF assms(1) m] Let_def split: list.splits)
  qed simp
qed

lemma loop_skips_apart:
  assumes "region_ok new" and "\<forall>m\<in>set xs. region_ok m \<and> apart m new"
  shows "addMapping_loop (map_base new) (new_end new) seen (xs @ rest) = addMapping_loop (map_base new) (new_end new) (seen @ xs) rest"
  using assms(2)
proof (induction xs arbitrary: seen)
  case (Cons m xs)
  then show ?case using addMapping_loop_step [OF assms(1), of m seen "xs @ rest"] by (simp add: Let_def)
qed simp

text \<open>
  The loop advances its iterator past the mapping that follows an erased one. When the first mapping the
  new region meets is contained in it and is the last of the list, the end iterator is advanced; when another mapping
  \<open>n\<close> follows, \<open>n\<close> stays in the list beside the new region even if it is contained in it.
\<close>

theorem addMapping_skips_after_erase:
  assumes "maps_ok (xs @ m # rest)" and "region_ok (mapping base' size' ty pm)"
    and "\<forall>x\<in>set xs. apart x (mapping base' size' ty pm)" and "inside m (mapping base' size' ty pm)"
  shows "case rest of
      [] \<Rightarrow> addMapping base' size' ty pm (xs @ m # rest, mem) = Inl IteratorPastEnd
    | n # ys \<Rightarrow> erases_cleanly (mapping base' size' ty pm) ys \<longrightarrow>
        (\<exists>ms'. addMapping base' size' ty pm (xs @ m # rest, mem)
             = and_then (back_mapping base' size' ty pm mem) (\<lambda>mem'. Inr (ms', mem'))
           \<and> n \<in> set ms' \<and> mapping base' size' ty pm \<in> set ms')"
proof -
  define new where "new = mapping base' size' ty pm"
  have new: "region_ok new" "map_base new = base'" "new_end new = base' + size' - 1"
    using assms(2) by (simp_all add: new_def new_end_def) (simp_all add: mapping_def)
  have ok: "\<forall>x\<in>set xs. region_ok x" "region_ok m" "\<forall>x\<in>set rest. region_ok x"
    using assms(1) by (auto simp: maps_ok_def)
  have "\<not> apart m new" using assms(4) ok(2) new(1) by (auto simp: new_def apart_def inside_def region_ok_def)
  then have loop: "addMapping_loop base' (base' + size' - 1) [] (xs @ m # rest) =
      (case rest of [] \<Rightarrow> Inl IteratorPastEnd | n # ys \<Rightarrow> addMapping_loop base' (base' + size' - 1) (xs @ [n]) ys)"
    using loop_skips_apart [OF new(1), of xs "[]"] addMapping_loop_step [OF new(1) ok(2), of xs rest] ok assms(3,4)
    unfolding new_def [symmetric] new by (simp add: Let_def)
  show ?thesis
  proof (cases rest)
    case Nil
    then show ?thesis using loop by (simp add: addMapping_def)
  next
    case (Cons n ys)
    show ?thesis
    proof (simp only: Cons list.case, intro impI)
      assume "erases_cleanly (mapping base' size' ty pm) ys"
      then obtain cut where cut: "addMapping_loop base' (base' + size' - 1) (xs @ [n]) ys = Inr cut"
        "n \<in> set cut"
        using loop_keeps_seen [OF new(1), of ys "xs @ [n]"] ok(3) Cons new by (auto simp: new_def)
      with loop Cons
      show "\<exists>ms'. addMapping base' size' ty pm (xs @ m # n # ys, mem)
             = and_then (back_mapping base' size' ty pm mem) (\<lambda>mem'. Inr (ms', mem'))
           \<and> n \<in> set ms' \<and> mapping base' size' ty pm \<in> set ms'"
        by (intro exI [of _ "sort_key map_base (mapping base' size' ty pm # cut)"]) (simp add: addMapping_def set_insort_key)
    qed
  qed
qed

theorem addMapping_skips_after_erase_witness:
  "addMapping 0x4000 0x2000 UNMAPPED NONE (demo_mappings, zero_memory) = Inl IteratorPastEnd
   \<and> (\<exists>ms'. addMapping 0 0x8000 UNMAPPED NONE (demo_mappings, zero_memory) = Inr (ms', zero_memory)
       \<and> mapping 0x4000 0x2000 UNMAPPED READ_ONLY \<in> set ms')"
proof -
  have ok: "maps_ok ([mapping 0 0x4000 UNMAPPED NONE] @ mapping 0x4000 0x2000 UNMAPPED READ_ONLY # [])"
      "maps_ok ([] @ mapping 0 0x4000 UNMAPPED NONE # [mapping 0x4000 0x2000 UNMAPPED READ_ONLY])"
    using demo_mappings_ok by (simp_all add: demo_mappings_def)
  show ?thesis
    using addMapping_skips_after_erase [OF ok(1), of "0x4000" "0x2000" UNMAPPED NONE zero_memory]
      addMapping_skips_after_erase [OF ok(2), of 0 "0x8000" UNMAPPED NONE zero_memory]
    by (auto simp: region_ok_def apart_def inside_def bounds_mapping demo_mappings_def back_mapping_def)
qed

end
