(* ===== verification/Display.thy ===== *)
theory Display
  imports Memory
begin

text \<open>
  Displays, layers and buffer queues, \<^verbatim>\<open>hle/nn/vi/Display.h\<close> and \<^verbatim>\<open>hle/nn/vi/display.cpp\<close>. A game registers its frame buffers with a buffer queue,
  takes a free one to draw into and queues it; the graphics thread shows a queued one and frees it.

  The lookups of the source search a vector and go on with the iterator after logging an error when nothing was found; using the end iterator is
  \<open>DanglingReference\<close>. The bytes of \<^verbatim>\<open>IGBPBuffer\<close> the source calls unknown are never read and are left out.
\<close>

record IGBPBuffer =
  igbp_magic :: u32
  igbp_width :: u32
  igbp_height :: u32
  igbp_stride :: u32
  igbp_format :: u32
  igbp_usage :: u32
  igbp_index :: u32
  igbp_gpuBufferId :: u32
  igbp_nvmapHandle :: u32
  igbp_offset :: u32

datatype BufferStatus = FREE | DEQUEUED | QUEUED

record GraphicBuffer =
  gb_status :: BufferStatus
  gb_slot :: u32
  gb_buffer :: IGBPBuffer

record BufferQueue =
  queue_id :: u64
  buffers :: "GraphicBuffer list"

definition new_BufferQueue :: "u64 \<Rightarrow> BufferQueue" where
  "new_BufferQueue i = \<lparr>queue_id = i, buffers = []\<rparr>"

text \<open>\<^verbatim>\<open>std::find_if\<close> and an update through the iterator it returns; the element found comes first in the result.\<close>

fun at_first :: "('a \<Rightarrow> bool) \<Rightarrow> ('a \<Rightarrow> 'a) \<Rightarrow> 'a list \<Rightarrow> fault + 'a \<times> 'a list" where
  "at_first P f [] = Inl DanglingReference"
| "at_first P f (x # xs) = (if P x then Inr (x, f x # xs) else and_then (at_first P f xs) (\<lambda>(y, ys). Inr (y, x # ys)))"

definition find_ref :: "('a \<Rightarrow> bool) \<Rightarrow> 'a list \<Rightarrow> fault + 'a" where
  "find_ref P xs = (case find P xs of None \<Rightarrow> Inl DanglingReference | Some x \<Rightarrow> Inr x)"

subsection \<open>Buffer queues\<close>

definition setPreallocatedBuffer :: "u32 \<Rightarrow> IGBPBuffer \<Rightarrow> BufferQueue \<Rightarrow> BufferQueue" where
  "setPreallocatedBuffer slot buffer q = q\<lparr>buffers := buffers q @ [\<lparr>gb_status = FREE, gb_slot = slot, gb_buffer = buffer\<rparr>]\<rparr>"

definition requestBuffer :: "u32 \<Rightarrow> BufferQueue \<Rightarrow> fault + IGBPBuffer" where
  "requestBuffer slot q = and_then (find_ref (\<lambda>b. gb_slot b = slot) (buffers q)) (\<lambda>b. Inr (gb_buffer b))"

definition dequeueBuffer :: "BufferQueue \<Rightarrow> fault + u32 \<times> BufferQueue" where
  "dequeueBuffer q = and_then (at_first (\<lambda>b. gb_status b = FREE) (\<lambda>b. b\<lparr>gb_status := DEQUEUED\<rparr>) (buffers q))
     (\<lambda>(b, bs). Inr (gb_slot b, q\<lparr>buffers := bs\<rparr>))"

definition queueBuffer :: "u32 \<Rightarrow> BufferQueue \<Rightarrow> fault + BufferQueue" where
  "queueBuffer slot q = and_then (at_first (\<lambda>b. gb_slot b = slot) (\<lambda>b. b\<lparr>gb_status := QUEUED\<rparr>) (buffers q))
     (\<lambda>(b, bs). Inr (q\<lparr>buffers := bs\<rparr>))"

definition freeBuffer :: "u32 \<Rightarrow> BufferQueue \<Rightarrow> fault + BufferQueue" where
  "freeBuffer slot q = and_then (at_first (\<lambda>b. gb_slot b = slot) (\<lambda>b. b\<lparr>gb_status := FREE\<rparr>) (buffers q))
     (\<lambda>(b, bs). Inr (q\<lparr>buffers := bs\<rparr>))"

definition getQueuedBuffer :: "BufferQueue \<Rightarrow> GraphicBuffer option" where
  "getQueuedBuffer q = find (\<lambda>b. gb_status b = QUEUED) (buffers q)"

subsection \<open>The display manager\<close>

record Layer =
  layer_id :: u64
  layer_bufferId :: u64

record Display =
  display_id :: u64
  display_name :: string
  display_layers :: "u64 list"

definition addLayer :: "u64 \<Rightarrow> Display \<Rightarrow> Display" where
  "addLayer layerId d = d\<lparr>display_layers := display_layers d @ [layerId]\<rparr>"

record DisplayManager =
  nextLayer :: u64
  nextBuffer :: u64
  displays :: "Display list"
  layers :: "Layer list"
  queues :: "BufferQueue list"

definition new_DisplayManager :: DisplayManager where
  "new_DisplayManager = \<lparr>nextLayer = 100, nextBuffer = 1000,
     displays = [\<lparr>display_id = 1, display_name = ''Default'', display_layers = []\<rparr>], layers = [], queues = []\<rparr>"

definition openDisplay :: "string \<Rightarrow> DisplayManager \<Rightarrow> fault + u64" where
  "openDisplay name dm = and_then (find_ref (\<lambda>d. display_name d = name) (displays dm)) (\<lambda>d. Inr (display_id d))"

definition getDisplay :: "u64 \<Rightarrow> DisplayManager \<Rightarrow> fault + Display" where
  "getDisplay i dm = find_ref (\<lambda>d. display_id d = i) (displays dm)"

definition createBufferQueue :: "DisplayManager \<Rightarrow> u64 \<times> DisplayManager" where
  "createBufferQueue dm = (nextBuffer dm, dm\<lparr>nextBuffer := nextBuffer dm + 1, queues := queues dm @ [new_BufferQueue (nextBuffer dm)]\<rparr>)"

definition createLayer :: "u64 \<Rightarrow> DisplayManager \<Rightarrow> fault + u64 \<times> DisplayManager" where
  "createLayer displayId dm =
     (let layerId = nextLayer dm;
          (bufferId, dm) = createBufferQueue (dm\<lparr>nextLayer := nextLayer dm + 1\<rparr>);
          dm = dm\<lparr>layers := layers dm @ [\<lparr>layer_id = layerId, layer_bufferId = bufferId\<rparr>]\<rparr>
      in and_then (at_first (\<lambda>d. display_id d = displayId) (addLayer layerId) (displays dm))
           (\<lambda>(_, ds). Inr (layerId, dm\<lparr>displays := ds\<rparr>)))"

definition getLayer :: "u64 \<Rightarrow> DisplayManager \<Rightarrow> fault + Layer" where
  "getLayer i dm = find_ref (\<lambda>l. layer_id l = i) (layers dm)"

definition getBufferQueue :: "u64 \<Rightarrow> DisplayManager \<Rightarrow> fault + BufferQueue" where
  "getBufferQueue i dm = find_ref (\<lambda>q. queue_id q = i) (queues dm)"

text \<open>An operation on the queue \<^verbatim>\<open>getBufferQueue\<close> returns a reference to.\<close>

definition on_queue :: "u64 \<Rightarrow> (BufferQueue \<Rightarrow> fault + 'a \<times> BufferQueue) \<Rightarrow> DisplayManager \<Rightarrow> fault + 'a \<times> DisplayManager" where
  "on_queue i f dm = and_then (getBufferQueue i dm) (\<lambda>q. and_then (f q) (\<lambda>(r, q').
     and_then (at_first (\<lambda>q. queue_id q = i) (\<lambda>_. q') (queues dm)) (\<lambda>(_, qs). Inr (r, dm\<lparr>queues := qs\<rparr>))))"

text \<open>
  What \<^verbatim>\<open>draw\<close> does to the queue of a layer: the buffer to show, if one is queued, is freed by the number of its slot.
\<close>

definition take_queued :: "BufferQueue \<Rightarrow> fault + GraphicBuffer option \<times> BufferQueue" where
  "take_queued q = (case getQueuedBuffer q of None \<Rightarrow> Inr (None, q)
     | Some b \<Rightarrow> and_then (freeBuffer (gb_slot b) q) (\<lambda>q. Inr (Some b, q)))"

subsection \<open>Histories of a buffer queue\<close>

text \<open>
  The calls the game and the graphics thread make, in the order they happen, and what each is seen to do.
\<close>

datatype BufferCall = SetPreallocated u32 IGBPBuffer | Dequeue | Queue u32 | Draw

datatype BufferEvent = Registered u32 | HandedOut u32 | Queued u32 | Shown GraphicBuffer | NothingShown

fun buffer_call :: "BufferCall \<Rightarrow> BufferQueue \<Rightarrow> fault + BufferEvent \<times> BufferQueue" where
  "buffer_call (SetPreallocated s b) q = Inr (Registered s, setPreallocatedBuffer s b q)"
| "buffer_call Dequeue q = and_then (dequeueBuffer q) (\<lambda>(s, q). Inr (HandedOut s, q))"
| "buffer_call (Queue s) q = and_then (queueBuffer s q) (\<lambda>q. Inr (Queued s, q))"
| "buffer_call Draw q = and_then (take_queued q) (\<lambda>(b, q). Inr (case b of None \<Rightarrow> NothingShown | Some b \<Rightarrow> Shown b, q))"

fun run_calls :: "('c \<Rightarrow> 'q \<Rightarrow> fault + 'e \<times> 'q) \<Rightarrow> 'c list \<Rightarrow> 'q \<Rightarrow> fault + 'e list \<times> 'q" where
  "run_calls f [] q = Inr ([], q)"
| "run_calls f (c # cs) q = and_then (f c q) (\<lambda>(e, q). and_then (run_calls f cs q) (\<lambda>(es, q). Inr (e # es, q)))"

text \<open>The specification: the status of each registered slot. The slot handed out or shown is any slot of the right status.\<close>

inductive pool_step :: "(u32 \<rightharpoonup> BufferStatus) \<Rightarrow> BufferEvent \<Rightarrow> (u32 \<rightharpoonup> BufferStatus) \<Rightarrow> bool" where
  registered: "m s = None \<Longrightarrow> pool_step m (Registered s) (m(s \<mapsto> FREE))"
| handed_out: "m s = Some FREE \<Longrightarrow> pool_step m (HandedOut s) (m(s \<mapsto> DEQUEUED))"
| queued: "m s \<noteq> None \<Longrightarrow> pool_step m (Queued s) (m(s \<mapsto> QUEUED))"
| shown: "m (gb_slot b) = Some QUEUED \<Longrightarrow> pool_step m (Shown b) (m(gb_slot b \<mapsto> FREE))"
| nothing_shown: "QUEUED \<notin> ran m \<Longrightarrow> pool_step m NothingShown m"

inductive_cases pool_stepE [elim!]:
  "pool_step m (Registered s) m'"
  "pool_step m (HandedOut s) m'"
  "pool_step m (Queued s) m'"
  "pool_step m (Shown b) m'"
  "pool_step m NothingShown m'"

fun pool_run :: "(u32 \<rightharpoonup> BufferStatus) \<Rightarrow> BufferEvent list \<Rightarrow> (u32 \<rightharpoonup> BufferStatus) \<Rightarrow> bool" where
  "pool_run m [] m' \<longleftrightarrow> m' = m"
| "pool_run m (e # es) m' \<longleftrightarrow> (\<exists>m1. pool_step m e m1 \<and> pool_run m1 es m')"

definition registrations :: "BufferEvent list \<Rightarrow> u32 list" where
  "registrations es = concat (map (\<lambda>e. case e of Registered s \<Rightarrow> [s] | _ \<Rightarrow> []) es)"

definition pool :: "BufferQueue \<Rightarrow> u32 \<rightharpoonup> BufferStatus" where
  "pool q = map_of (map (\<lambda>b. (gb_slot b, gb_status b)) (buffers q))"

definition slots_distinct :: "BufferQueue \<Rightarrow> bool" where
  "slots_distinct q \<longleftrightarrow> distinct (map gb_slot (buffers q))"

text \<open>
  The contract of a queue whose calls follow the specification, as long as no slot is registered twice.
\<close>

locale buffer_pool =
  fixes inv :: "'q \<Rightarrow> bool" and view :: "'q \<Rightarrow> u32 \<rightharpoonup> BufferStatus" and call :: "BufferCall \<Rightarrow> 'q \<Rightarrow> fault + BufferEvent \<times> 'q"
  assumes follows: "\<lbrakk>inv q; call c q = Inr (e, q'); \<And>s. e = Registered s \<Longrightarrow> view q s = None\<rbrakk> \<Longrightarrow> inv q' \<and> pool_step (view q) e (view q')"
begin

lemma run_follows:
  assumes "inv q" and "run_calls call cs q = Inr (es, q')" and "distinct (registrations es)" and "set (registrations es) \<inter> dom (view q) = {}"
  shows "inv q' \<and> pool_run (view q) es (view q')"
  using assms
proof (induction cs arbitrary: q es)
  case (Cons c cs)
  then obtain e q1 es1 where c: "call c q = Inr (e, q1)" "run_calls call cs q1 = Inr (es1, q')" "es = e # es1"
    by (auto simp: and_then_Inr_iff)
  have new: "view q s = None" if "e = Registered s" for s
    using Cons.prems(4) that c(3) by (auto simp: registrations_def)
  have step: "inv q1" "pool_step (view q) e (view q1)" using follows [OF Cons.prems(1) c(1) new] by auto
  have "set (registrations es1) \<inter> dom (view q1) = {}" "distinct (registrations es1)"
    using Cons.prems(3,4) step(2) c(3) by (auto simp: registrations_def elim!: pool_step.cases split: if_splits)
  with Cons.IH [OF step(1) c(2)] step(2) c(3) show ?case by auto
qed simp

end

text \<open>A slot becomes free again only when a frame with it is shown, and is shown only after it was queued.\<close>

lemma pool_run_append: "pool_run m (xs @ ys) m' \<longleftrightarrow> (\<exists>m1. pool_run m xs m1 \<and> pool_run m1 ys m')"
  by (induction xs arbitrary: m) auto

lemma freed_by_showing:
  assumes "pool_run m es m'" and "m s \<noteq> None" and "m s \<noteq> Some FREE" and "m' s = Some FREE"
  shows "\<exists>xs b ys. es = xs @ Shown b # ys \<and> gb_slot b = s"
  using assms
proof (induction es arbitrary: m)
  case (Cons e es)
  then obtain m1 where m1: "pool_step m e m1" "pool_run m1 es m'" by auto
  show ?case
  proof (cases "\<exists>b. e = Shown b \<and> gb_slot b = s")
    case True
    then show ?thesis by (metis append_Nil)
  next
    case False
    with m1(1) Cons.prems have "m1 s \<noteq> None" "m1 s \<noteq> Some FREE" by (auto elim!: pool_step.cases split: if_splits)
    from Cons.IH [OF m1(2) this Cons.prems(4)] show ?thesis by (metis append_Cons)
  qed
qed auto

lemma shown_after_queueing:
  assumes "pool_run m es m'" and "m s \<noteq> Some QUEUED" and "m' s = Some QUEUED"
  shows "Queued s \<in> set es"
  using assms
proof (induction es arbitrary: m)
  case (Cons e es)
  then obtain m1 where m1: "pool_step m e m1" "pool_run m1 es m'" by auto
  show ?case
  proof (cases "m1 s = Some QUEUED")
    case True
    with m1(1) Cons.prems(2) show ?thesis by (auto elim!: pool_step.cases split: if_splits)
  next
    case False
    from Cons.IH [OF m1(2) this Cons.prems(3)] show ?thesis by simp
  qed
qed auto

lemma handed_out_again:
  assumes "pool_run m (xs @ HandedOut s # ys @ HandedOut s # zs) m'"
  shows "\<exists>us b vs. ys = us @ Shown b # vs \<and> gb_slot b = s \<and> Queued s \<in> set us"
proof -
  obtain m1 m2 where ys: "pool_run m1 ys m2" "m1 s = Some DEQUEUED" "m2 s = Some FREE"
    using assms by (auto simp: pool_run_append)
  then obtain us b vs where b: "ys = us @ Shown b # vs" "gb_slot b = s"
    using freed_by_showing [OF ys(1), of s] by auto
  with ys(1) obtain m3 where m3: "pool_run m1 us m3" "m3 s = Some QUEUED" by (auto simp: pool_run_append)
  then have "Queued s \<in> set us" using shown_after_queueing [OF m3(1), of s] ys(2) by simp
  with b show ?thesis by blast
qed

subsection \<open>The queue follows the specification\<close>

lemma at_first_Inr:
  assumes "at_first P f xs = Inr (x, ys)"
  obtains pre post where "xs = pre @ x # post" "ys = pre @ f x # post" "P x" "\<forall>y \<in> set pre. \<not> P y"
  using assms
proof (induction xs arbitrary: ys thesis)
  case (Cons z xs)
  show ?case
  proof (cases "P z")
    case True
    then show ?thesis using Cons.prems by (metis append_Nil at_first.simps(2) empty_iff empty_set prod.inject sum.inject(2))
  next
    case False
    then obtain ws where ws: "at_first P f xs = Inr (x, ws)" "ys = z # ws" using Cons.prems(2) by (auto simp: and_then_Inr_iff)
    from Cons.IH [OF _ ws(1)] obtain pre post where "xs = pre @ x # post" "ws = pre @ f x # post" "P x" "\<forall>y \<in> set pre. \<not> P y" by blast
    with False ws(2) Cons.prems(1) [of "z # pre" post] show ?thesis by simp
  qed
qed simp

lemma at_first_total: "(\<exists>x \<in> set xs. P x) \<longleftrightarrow> (\<exists>r. at_first P f xs = Inr r)"
  by (induction xs) (auto simp: and_then_Inr_iff)

abbreviation status_of :: "GraphicBuffer list \<Rightarrow> u32 \<rightharpoonup> BufferStatus" where
  "status_of bs \<equiv> map_of (map (\<lambda>b. (gb_slot b, gb_status b)) bs)"

lemma status_of_None: "s \<notin> gb_slot ` set bs \<Longrightarrow> status_of bs s = None"
  by (induction bs) auto

lemma status_of_replace:
  assumes "gb_slot b \<notin> gb_slot ` set pre" and "gb_slot b' = gb_slot b"
  shows "status_of (pre @ b' # post) = (status_of (pre @ b # post))(gb_slot b \<mapsto> gb_status b')"
  using assms by (induction pre) (auto simp: fun_upd_twist)

lemma pool_upd:
  assumes "buffers q = pre @ b # post" and "slots_distinct q"
  shows "pool (q\<lparr>buffers := pre @ b\<lparr>gb_status := v\<rparr> # post\<rparr>) = (pool q)(gb_slot b \<mapsto> v)"
    and "slots_distinct (q\<lparr>buffers := pre @ b\<lparr>gb_status := v\<rparr> # post\<rparr>)"
    and "pool q (gb_slot b) = Some (gb_status b)"
proof -
  have b: "gb_slot b \<notin> gb_slot ` set pre" using assms by (auto simp: slots_distinct_def)
  from status_of_replace [OF this, of "b\<lparr>gb_status := v\<rparr>" post]
  show "pool (q\<lparr>buffers := pre @ b\<lparr>gb_status := v\<rparr> # post\<rparr>) = (pool q)(gb_slot b \<mapsto> v)"
    by (simp add: pool_def assms(1))
  show "pool q (gb_slot b) = Some (gb_status b)"
    using status_of_None [OF b] by (simp add: pool_def assms(1) map_add_def)
  show "slots_distinct (q\<lparr>buffers := pre @ b\<lparr>gb_status := v\<rparr> # post\<rparr>)" using assms by (simp add: slots_distinct_def)
qed

lemma pool_None_iff: "pool q s = None \<longleftrightarrow> s \<notin> gb_slot ` set (buffers q)"
  by (auto simp: pool_def map_of_eq_None_iff image_image)

lemma pool_registered:
  assumes "pool q s = None" and "slots_distinct q"
  shows "pool (setPreallocatedBuffer s b q) = (pool q)(s \<mapsto> FREE)" and "slots_distinct (setPreallocatedBuffer s b q)"
proof -
  have s: "s \<notin> gb_slot ` set (buffers q)" using assms(1) by (simp add: pool_None_iff)
  show "pool (setPreallocatedBuffer s b q) = (pool q)(s \<mapsto> FREE)"
    using status_of_None [OF s] by (auto simp: pool_def setPreallocatedBuffer_def map_add_def fun_eq_iff split: option.splits)
  show "slots_distinct (setPreallocatedBuffer s b q)"
    using assms(2) s by (auto simp: slots_distinct_def setPreallocatedBuffer_def)
qed

lemma pool_ran: "slots_distinct q \<Longrightarrow> ran (pool q) = gb_status ` set (buffers q)"
  by (simp add: pool_def slots_distinct_def ran_distinct comp_def image_image)

text \<open>A slot of a queue with distinct slots determines the buffer that a search for it finds.\<close>

lemma first_with_slot:
  assumes "slots_distinct q" and "b \<in> set (buffers q)"
  obtains pre post where "buffers q = pre @ b # post" "at_first (\<lambda>b'. gb_slot b' = gb_slot b) f (buffers q) = Inr (b, pre @ f b # post)"
proof -
  obtain r ys where r: "at_first (\<lambda>b'. gb_slot b' = gb_slot b) f (buffers q) = Inr (r, ys)"
    using at_first_total [of "buffers q" "\<lambda>b'. gb_slot b' = gb_slot b" f] assms(2) by auto
  then obtain pre post where p: "buffers q = pre @ r # post" "ys = pre @ f r # post" "gb_slot r = gb_slot b"
    by (rule at_first_Inr)
  then have "r = b" using assms by (auto simp: slots_distinct_def image_iff)
  with p r that show ?thesis by blast
qed

lemma dequeue_follows:
  assumes "slots_distinct q" and "dequeueBuffer q = Inr (s, q')"
  shows "slots_distinct q' \<and> pool_step (pool q) (HandedOut s) (pool q')"
proof -
  obtain b bs where b: "at_first (\<lambda>b. gb_status b = FREE) (\<lambda>b. b\<lparr>gb_status := DEQUEUED\<rparr>) (buffers q) = Inr (b, bs)"
      "s = gb_slot b" "q' = q\<lparr>buffers := bs\<rparr>"
    using assms(2) by (auto simp: dequeueBuffer_def and_then_Inr_iff)
  obtain pre post where p: "buffers q = pre @ b # post" "bs = pre @ b\<lparr>gb_status := DEQUEUED\<rparr> # post" "gb_status b = FREE"
    by (rule at_first_Inr [OF b(1)])
  show ?thesis using pool_upd [OF p(1) assms(1)] b(2,3) p(2,3) by (auto intro: handed_out)
qed

lemma queue_follows:
  assumes "slots_distinct q" and "queueBuffer s q = Inr q'"
  shows "slots_distinct q' \<and> pool_step (pool q) (Queued s) (pool q')"
proof -
  obtain b bs where b: "at_first (\<lambda>b. gb_slot b = s) (\<lambda>b. b\<lparr>gb_status := QUEUED\<rparr>) (buffers q) = Inr (b, bs)" "q' = q\<lparr>buffers := bs\<rparr>"
    using assms(2) by (auto simp: queueBuffer_def and_then_Inr_iff)
  obtain pre post where p: "buffers q = pre @ b # post" "bs = pre @ b\<lparr>gb_status := QUEUED\<rparr> # post" "gb_slot b = s"
    by (rule at_first_Inr [OF b(1)])
  show ?thesis using pool_upd [OF p(1) assms(1)] b(2) p(2,3) by (auto intro: queued)
qed

lemma draw_follows:
  assumes "slots_distinct q"
  shows "\<exists>e q'. buffer_call Draw q = Inr (e, q') \<and> slots_distinct q' \<and> pool_step (pool q) e (pool q')"
proof (cases "getQueuedBuffer q")
  case None
  then have "QUEUED \<notin> ran (pool q)" using pool_ran [OF assms] by (auto simp: getQueuedBuffer_def find_None_iff)
  with None assms show ?thesis by (auto simp: take_queued_def intro: nothing_shown)
next
  case (Some b)
  then have b: "b \<in> set (buffers q)" "gb_status b = QUEUED" by (auto simp: getQueuedBuffer_def find_Some_iff)
  obtain pre post where p: "buffers q = pre @ b # post"
      "at_first (\<lambda>b'. gb_slot b' = gb_slot b) (\<lambda>b. b\<lparr>gb_status := FREE\<rparr>) (buffers q) = Inr (b, pre @ b\<lparr>gb_status := FREE\<rparr> # post)"
    by (rule first_with_slot [OF assms b(1)])
  show ?thesis
    using Some b(2) p(2) pool_upd [OF p(1) assms] by (auto simp: take_queued_def freeBuffer_def intro: shown)
qed

interpretation frames: buffer_pool slots_distinct pool buffer_call
proof
  fix q c e q'
  assume q: "slots_distinct q" "buffer_call c q = Inr (e, q')" and new: "\<And>s. e = Registered s \<Longrightarrow> pool q s = None"
  show "slots_distinct q' \<and> pool_step (pool q) e (pool q')"
  proof (cases c)
    case (SetPreallocated s b)
    with q new pool_registered [of q s b] show ?thesis by (auto intro: registered)
  next
    case Dequeue
    with q dequeue_follows show ?thesis by (auto simp: and_then_Inr_iff)
  next
    case (Queue s)
    with q queue_follows show ?thesis by (auto simp: and_then_Inr_iff)
  next
    case Draw
    with q draw_follows [OF q(1)] show ?thesis by auto
  qed
qed

text \<open>
  C31. Frame buffers are never shared: in whatever order the game registers, takes and queues buffers and the graphics thread draws, a slot that was handed
  out is handed out again only after the game queued it and it was then shown, provided that no slot is registered twice.
\<close>

theorem buffers_not_shared:
  assumes "run_calls buffer_call cs (new_BufferQueue i) = Inr (es, q)" and "distinct (registrations es)"
    and "es = xs @ HandedOut s # ys @ HandedOut s # zs"
  shows "\<exists>us b vs. ys = us @ Shown b # vs \<and> gb_slot b = s \<and> Queued s \<in> set us"
proof -
  have "slots_distinct (new_BufferQueue i)" "dom (pool (new_BufferQueue i)) = {}"
    by (simp_all add: new_BufferQueue_def slots_distinct_def pool_def)
  with frames.run_follows assms(1,2) have "pool_run (pool (new_BufferQueue i)) es (pool q)" by blast
  with assms(3) handed_out_again show ?thesis by blast
qed

definition demo_igbp :: "u32 \<Rightarrow> IGBPBuffer" where
  "demo_igbp h = \<lparr>igbp_magic = 0, igbp_width = 1280, igbp_height = 720, igbp_stride = 1280, igbp_format = 1, igbp_usage = 0, igbp_index = 0,
     igbp_gpuBufferId = 0, igbp_nvmapHandle = h, igbp_offset = 0\<rparr>"

theorem buffers_not_shared_witness:
  "\<exists>us b vs. [Queued 0, Shown \<lparr>gb_status = QUEUED, gb_slot = 0, gb_buffer = demo_igbp 1\<rparr>] = us @ Shown b # vs \<and> gb_slot b = 0 \<and> Queued 0 \<in> set us"
proof -
  let ?cs = "[SetPreallocated 0 (demo_igbp 1), Dequeue, Queue 0, Draw, Dequeue]"
  let ?es = "[Registered 0, HandedOut 0, Queued 0, Shown \<lparr>gb_status = QUEUED, gb_slot = 0, gb_buffer = demo_igbp 1\<rparr>, HandedOut 0]"
  have r: "\<exists>q. run_calls buffer_call ?cs (new_BufferQueue 1000) = Inr (?es, q)"
    by (simp add: new_BufferQueue_def setPreallocatedBuffer_def dequeueBuffer_def queueBuffer_def take_queued_def getQueuedBuffer_def freeBuffer_def)
  have "distinct (registrations ?es)" by (simp add: registrations_def)
  moreover have "?es = [Registered 0] @ HandedOut 0 # [Queued 0, Shown \<lparr>gb_status = QUEUED, gb_slot = 0, gb_buffer = demo_igbp 1\<rparr>] @ HandedOut 0 # []"
    by simp
  ultimately show ?thesis using r buffers_not_shared by blast
qed

text \<open>
  C32. Queued frames can starve: buffers are shown in the order in which they were registered and not in which they were queued. While the game keeps drawing into the
  buffer registered first, taking it, queueing it and waiting for a drawing pass, that buffer is shown every time and the other queued frames never are.
\<close>

theorem queued_frames_starve:
  assumes "buffers q = x # rest" and "gb_status x = QUEUED"
  shows "\<exists>q'. run_calls buffer_call (Draw # concat (replicate n [Dequeue, Queue (gb_slot x), Draw])) q =
      Inr (Shown x # concat (replicate n [HandedOut (gb_slot x), Queued (gb_slot x), Shown x]), q')
    \<and> buffers q' = x\<lparr>gb_status := FREE\<rparr> # rest"
proof -
  let ?r = "[Dequeue, Queue (gb_slot x), Draw]"
  have x: "x\<lparr>gb_status := QUEUED\<rparr> = x" using assms(2) by simp
  have rounds: "\<exists>q'. run_calls buffer_call (concat (replicate n ?r)) q1 =
      Inr (concat (replicate n [HandedOut (gb_slot x), Queued (gb_slot x), Shown x]), q') \<and> buffers q' = x\<lparr>gb_status := FREE\<rparr> # rest"
    if "buffers q1 = x\<lparr>gb_status := FREE\<rparr> # rest" for q1
    using that
  proof (induction n arbitrary: q1)
    case (Suc n)
    let ?q2 = "q1\<lparr>buffers := x\<lparr>gb_status := FREE\<rparr> # rest\<rparr>"
    obtain q' where "run_calls buffer_call (concat (replicate n ?r)) ?q2 =
      Inr (concat (replicate n [HandedOut (gb_slot x), Queued (gb_slot x), Shown x]), q')" "buffers q' = x\<lparr>gb_status := FREE\<rparr> # rest"
      using Suc.IH [of ?q2] by auto
    with Suc.prems x assms(2) show ?case
      by (simp add: dequeueBuffer_def queueBuffer_def take_queued_def getQueuedBuffer_def freeBuffer_def)
  qed simp
  have "buffer_call Draw q = Inr (Shown x, q\<lparr>buffers := x\<lparr>gb_status := FREE\<rparr> # rest\<rparr>)"
    using assms by (simp add: take_queued_def getQueuedBuffer_def freeBuffer_def)
  with rounds [of "q\<lparr>buffers := x\<lparr>gb_status := FREE\<rparr> # rest\<rparr>"] show ?thesis by auto
qed

theorem queued_frames_starve_witness:
  "\<exists>q'. run_calls buffer_call (Draw # concat (replicate 5 [Dequeue, Queue 0, Draw]))
      \<lparr>queue_id = 1000, buffers = [\<lparr>gb_status = QUEUED, gb_slot = 0, gb_buffer = demo_igbp 1\<rparr>, \<lparr>gb_status = QUEUED, gb_slot = 1, gb_buffer = demo_igbp 2\<rparr>]\<rparr> =
      Inr (Shown \<lparr>gb_status = QUEUED, gb_slot = 0, gb_buffer = demo_igbp 1\<rparr>
        # concat (replicate 5 [HandedOut 0, Queued 0, Shown \<lparr>gb_status = QUEUED, gb_slot = 0, gb_buffer = demo_igbp 1\<rparr>]), q')
    \<and> buffers q' = [\<lparr>gb_status = FREE, gb_slot = 0, gb_buffer = demo_igbp 1\<rparr>, \<lparr>gb_status = QUEUED, gb_slot = 1, gb_buffer = demo_igbp 2\<rparr>]"
proof -
  let ?x = "\<lparr>gb_status = QUEUED, gb_slot = 0, gb_buffer = demo_igbp 1\<rparr>" and ?y = "\<lparr>gb_status = QUEUED, gb_slot = 1, gb_buffer = demo_igbp 2\<rparr>"
  have q: "buffers \<lparr>queue_id = 1000, buffers = [?x, ?y]\<rparr> = ?x # [?y]" and x: "gb_status ?x = QUEUED" by simp_all
  show ?thesis using queued_frames_starve [OF q x, of 5] unfolding GraphicBuffer.select_convs GraphicBuffer.update_convs .
qed

end
