(* ===== verification/Service_State.thy ===== *)
theory Service_State
  imports Display
begin

text \<open>
  What the system services keep between calls: the global objects and static variables of the sources under \<^verbatim>\<open>hle/nn\<close>, \<^verbatim>\<open>hle/nns\<close>, \<^verbatim>\<open>hle/SmService\<close> and
  \<^verbatim>\<open>gpu\<close>, and the classes of interfaces and devices a handle may designate. Objects of these classes have no state of their own, apart from the flag of the service manager, so a class stands for
  its objects.
\<close>

text \<open>The classes derived from \<^verbatim>\<open>service::Interface\<close>.\<close>

datatype Interface =
    SmService | IAccountServiceForApplication | IManagerForApplication | INotifier | IProfile | IAllSystemAppletProxiesService
  | IApplicationFunctions | IApplicationProxy | IApplicationProxyService | IAudioController | ICommonStateGetter | IDebugFunctions
  | IDisplayController | ILibraryAppletCreator | ILibraryAppletProxy | IProcessWindingController | ISelfController | am_IStorage
  | IStorageAccessor | IWindowController | IAddOnContentManager | IManager | ISession | IFileSystemProxy | fssrv_IStorage
  | IAppletResource | IHidServer | ILogService | ILogger | IGeneralService | nifm_IStaticService
  | IParentalControlServiceFactory | ISettingsServer | timesrv_IStaticService | ISteadyClock | ISystemClock | ITimeZoneService
  | IApplicationDisplayService | IApplicationRootService | IManagerDisplayService | IManagerRootService | ISystemDisplayService
  | ISystemRootService | IHOSBinderDriver | INvDrvServices

text \<open>The classes derived from \<^verbatim>\<open>gpu::DeviceInterface\<close>.\<close>

datatype Device = NvhostCtrlInterface | NvhostCtrlGpuInterface | NvmapInterface | NvhostAsGpuInterface | NvhostGpuInterface

record NvmapObject =
  nv_handle :: u32
  nv_id :: u32
  nv_size :: u32
  nv_align :: u32
  nv_heap :: u32
  nv_kind :: u8
  nv_addr :: u64

text \<open>
  \<^verbatim>\<open>gRegisteredServices\<close> maps names to pointers; looking up an unknown name inserts a null pointer, which no later lookup can tell from its absence.
  \<open>smInitialized\<close> is the flag of the service manager, \<open>appletMessage\<close> the static variable of \<^verbatim>\<open>ReceiveMessage\<close>, \<open>displayBuffer\<close> the frame the graphics driver shows.
\<close>

record ServiceState =
  gDisplayManager :: DisplayManager
  displayBuffer :: "u8 list"
  gMapObjects :: "NvmapObject list"
  idCounter :: u32
  handleCounter :: u32
  timesCalled :: nat
  fenceId :: u32
  smInitialized :: bool
  gRegisteredServices :: "string \<rightharpoonup> Interface"
  appletMessage :: u32

text \<open>The state before \<^verbatim>\<open>service::init\<close>; the frame is cleared by \<^verbatim>\<open>GraphicsDriver::init\<close>.\<close>

definition frame_size :: nat where "frame_size = 0x3C0000"

definition new_ServiceState :: ServiceState where
  "new_ServiceState = \<lparr>gDisplayManager = new_DisplayManager, displayBuffer = replicate frame_size 0, gMapObjects = [], idCounter = 1, handleCounter = 1,
     timesCalled = 0, fenceId = 1, smInitialized = False, gRegisteredServices = Map.empty, appletMessage = 1\<rparr>"

end
