(* ===== verification/Kernel_Thread.thy ===== *)
theory Kernel_Thread
  imports Machine Handle_Manager Memory_Mapper Service_State
begin

text \<open>
  Kernel objects and threads, \<^verbatim>\<open>hle/kernel/thread.cpp\<close>, and the state the kernel keeps: the four cores, the guest
  memory and its mappings, the handle manager, the objects behind the handles, the scheduler's queues and what the services keep.

  \<open>heap\<close> maps the address of an object to its contents; an \<^verbatim>\<open>ObjectPtr\<close> is such an address, \<open>None\<close> the null pointer, and a
  member access through it is \<open>thread_at\<close>: \<open>NullPointer\<close> on a null pointer and \<open>BadCast\<close> where \<^verbatim>\<open>object_pointer_cast\<close>, an unchecked
  cast, was applied to another kind of object. \<^verbatim>\<open>lookupObject\<close> may insert a null pointer into the map of compressed
  pointers, which no later lookup can tell from its absence (\<open>lookup_unchanged\<close>), so \<open>getThread\<close> leaves the state alone.

  \<^verbatim>\<open>std::array\<close> accesses outside the array are \<open>BadIndex\<close>. \<^verbatim>\<open>CoreAffinity\<close> is a 32-bit number: the supervisor call that creates a thread casts a
  guest register to it.
\<close>

unbundle bit_operations_syntax

subsection \<open>Threads\<close>

datatype ThreadStatus = UNINITIATED | INITIALIZED | READY | RUNNING | WAITING | EXITED

type_synonym CoreAffinity = u32

definition DEFAULT_CORE :: CoreAffinity where "DEFAULT_CORE = 0xFFFFFFFE"
definition NO_PRIORITY :: u64 where "NO_PRIORITY = 64"
definition INVALID_THREAD :: handle_t where "INVALID_THREAD = 0"
definition NUM_CORES :: nat where "NUM_CORES = 4"

record ThreadContext =
  ctx_GPRegs :: "reg \<Rightarrow> u64"
  ctx_VRegs :: "reg \<Rightarrow> VReg"
  ctx_PC :: u64
  ctx_SP :: u64
  ctx_PSTATE :: PSTATE_t
  ctx_TLSAddr :: u64

text \<open>The two callbacks the sources install: the default, which does nothing, and the one of \<^verbatim>\<open>svcWaitSynchronization\<close>.\<close>

datatype WakeupCallback = DEFAULT_WAKEUP_CALLBACK | CancelWaitObjects

record Thread =
  thread_context :: ThreadContext
  status :: ThreadStatus
  affinity :: CoreAffinity
  priority :: u64
  waitingThreads :: "handle_t list"
  wakeupCallback :: WakeupCallback

datatype KObject = ThreadObject Thread | ProcessObject | TransferMemoryObject u64 | InterfaceObject Interface bool | GpuObject Device

fun getType :: "KObject \<Rightarrow> ObjectType" where
  "getType (ThreadObject _) = NO_TYPE"
| "getType ProcessObject = NO_TYPE"
| "getType (TransferMemoryObject _) = TRANSFER_MEM_OBJECT"
| "getType (InterfaceObject _ _) = INTERFACE"
| "getType (GpuObject _) = GPU_DEVICE"

text \<open>
  The 31 general registers of a context: the value at number 31 stands for nothing. The constructor leaves \<^verbatim>\<open>PSTATE\<close>
  uninitialised: \<open>raw\<close> is what the allocation holds.
\<close>

definition new_Thread :: "PSTATE_t \<Rightarrow> u64 \<Rightarrow> u64 \<Rightarrow> u64 \<Rightarrow> u32 \<Rightarrow> CoreAffinity \<Rightarrow> Thread" where
  "new_Thread raw entry arg stack priorityIn affinityIn =
     \<lparr>thread_context = \<lparr>ctx_GPRegs = (\<lambda>_. 0)(0 := arg, 30 := 0x0BADC0DE), ctx_VRegs = (\<lambda>_. \<lparr>VReg_D0 = 0, VReg_D1 = 0\<rparr>),
                 ctx_PC = entry, ctx_SP = stack, ctx_PSTATE = raw, ctx_TLSAddr = 0\<rparr>,
      status = UNINITIATED,
      affinity = (if affinityIn = DEFAULT_CORE then 0 else affinityIn),
      priority = ucast priorityIn, waitingThreads = [], wakeupCallback = DEFAULT_WAKEUP_CALLBACK\<rparr>"

definition getTLS :: "Thread \<Rightarrow> u64" where
  "getTLS t = ctx_TLSAddr (thread_context t)"

definition wait :: "Thread \<Rightarrow> Thread" where
  "wait t = t\<lparr>status := WAITING\<rparr>"

definition cancelAllWaitObjects :: "Thread \<Rightarrow> Thread" where
  "cancelAllWaitObjects t = t"

definition wakeup :: "Thread \<Rightarrow> Thread" where
  "wakeup t = (case wakeupCallback t of DEFAULT_WAKEUP_CALLBACK \<Rightarrow> t | CancelWaitObjects \<Rightarrow> cancelAllWaitObjects t)
                \<lparr>wakeupCallback := DEFAULT_WAKEUP_CALLBACK\<rparr>"

definition removeHandle :: "handle_t \<Rightarrow> Thread \<Rightarrow> Thread" where
  "removeHandle handle t = t\<lparr>waitingThreads := remove1 handle (waitingThreads t)\<rparr>"

subsection \<open>Kernel state\<close>

record Alarm =
  triggerTime :: u64
  hasTriggered :: bool
  alarmWaiting :: "handle_t list"

record Kernel =
  gCores :: "nat \<Rightarrow> Core"
  tCurrentCore :: nat
  kmem :: Memory
  gMappings :: "MemoryMapping list"
  gHandles :: "nat HandleManager"
  heap :: "nat \<rightharpoonup> KObject"
  nextObject :: nat
  gTlsSlotcounter :: u64
  gSchedulerLock :: bool
  gCurrentThreads :: "nat \<Rightarrow> handle_t"
  gThreadLists :: "nat \<Rightarrow> handle_t list"
  gAlarms :: "Alarm list"
  gAlarmCapacity :: nat
  gCurrentProcess :: handle_t
  kTimer :: u64
  gServices :: ServiceState

definition this_core :: "Kernel \<Rightarrow> Core" where
  "this_core k = gCores k (tCurrentCore k)"

definition upd_this :: "(Core \<Rightarrow> Core) \<Rightarrow> Kernel \<Rightarrow> Kernel" where
  "upd_this f k = k\<lparr>gCores := (gCores k)(tCurrentCore k := f (this_core k))\<rparr>"

definition getCoreID :: "Kernel \<Rightarrow> nat" where
  "getCoreID k = coreNum (this_core k)"

definition send_to :: "nat \<Rightarrow> u64 \<Rightarrow> Kernel \<Rightarrow> Kernel" where
  "send_to c ints k = k\<lparr>gCores := (gCores k)(c := sendInterrupts ints (gCores k c))\<rparr>"

text \<open>The machine the executing core sees, and guest accesses through it.\<close>

definition machine_of :: "Kernel \<Rightarrow> Machine" where
  "machine_of k = \<lparr>mcore = this_core k, memory = kmem k, gTimer = kTimer k\<rparr>"

definition put_machine :: "Machine \<Rightarrow> Kernel \<Rightarrow> Kernel" where
  "put_machine mc k = k\<lparr>gCores := (gCores k)(tCurrentCore k := mcore mc), kmem := memory mc, kTimer := gTimer mc\<rparr>"

definition kread :: "nat \<Rightarrow> u64 \<Rightarrow> Kernel \<Rightarrow> fault + u64 \<times> Kernel" where
  "kread sz addr k = and_then (mem_read sz addr (machine_of k)) (\<lambda>(v, mc). Inr (v, put_machine mc k))"

definition kwrite :: "nat \<Rightarrow> u64 \<Rightarrow> u64 \<Rightarrow> Kernel \<Rightarrow> fault + Kernel" where
  "kwrite sz addr v k = and_then (mem_write sz addr v (machine_of k)) (\<lambda>mc. Inr (put_machine mc k))"

definition new_object :: "KObject \<Rightarrow> Kernel \<Rightarrow> handle_t \<times> Kernel" where
  "new_object ob k =
     (let (handle, hm) = createHandle (\<lambda>_. getType ob) (nextObject k) (gHandles k)
      in (handle, k\<lparr>gHandles := hm, heap := (heap k)(nextObject k \<mapsto> ob), nextObject := nextObject k + 1\<rparr>))"

definition getThread :: "handle_t \<Rightarrow> Kernel \<Rightarrow> nat option" where
  "getThread handle k = (if handle = INVALID_THREAD then None else fst (lookupObject handle (gHandles k)))"

definition thread_at :: "nat option \<Rightarrow> Kernel \<Rightarrow> fault + Thread" where
  "thread_at p k = (case p of None \<Rightarrow> Inl NullPointer
     | Some a \<Rightarrow> (case heap k a of Some (ThreadObject t) \<Rightarrow> Inr t | _ \<Rightarrow> Inl BadCast))"

definition upd_thread :: "nat option \<Rightarrow> (Thread \<Rightarrow> Thread) \<Rightarrow> Kernel \<Rightarrow> fault + Kernel" where
  "upd_thread p f k = and_then (thread_at p k)
     (\<lambda>t. Inr (k\<lparr>heap := (heap k)(the p \<mapsto> ThreadObject (f t))\<rparr>))"

definition getCurrentHandle :: "Kernel \<Rightarrow> handle_t" where
  "getCurrentHandle k = gCurrentThreads k (getCoreID k)"

definition getCurrentThread :: "Kernel \<Rightarrow> nat option" where
  "getCurrentThread k = getThread (getCurrentHandle k) k"

subsection \<open>Context switches\<close>

definition saveState :: "Core \<Rightarrow> ThreadContext \<Rightarrow> ThreadContext" where
  "saveState state ctx =
     ctx\<lparr>ctx_GPRegs := (\<lambda>r. if r = 31 then ctx_GPRegs ctx r else GPRegs state r), ctx_VRegs := VRegs state,
         ctx_PC := PC state, ctx_SP := SP state, ctx_PSTATE := PSTATE state, ctx_TLSAddr := TLSAddr state\<rparr>"

definition restoreState :: "ThreadContext \<Rightarrow> Core \<Rightarrow> Core" where
  "restoreState ctx state =
     state\<lparr>GPRegs := (\<lambda>r. if r = 31 then GPRegs state r else ctx_GPRegs ctx r), VRegs := ctx_VRegs ctx,
           PC := ctx_PC ctx, SP := ctx_SP ctx, PSTATE := ctx_PSTATE ctx, TLSAddr := ctx_TLSAddr ctx\<rparr>"

definition contextSwitch :: "nat option \<Rightarrow> Kernel \<Rightarrow> fault + Kernel" where
  "contextSwitch newThread k =
     (let oldThread = getCurrentThread k in
      and_then (if oldThread \<noteq> None
                then upd_thread oldThread (\<lambda>t. t\<lparr>thread_context := saveState (this_core k) (thread_context t)\<rparr>) k else Inr k)
       (\<lambda>k. and_then (if newThread \<noteq> None
                      then and_then (thread_at newThread k) (\<lambda>t. Inr (upd_this (restoreState (thread_context t)) k)) else Inr k)
         (\<lambda>k. Inr (upd_this (\<lambda>core. core\<lparr>exclusiveAccess := False\<rparr>) k))))"

subsection \<open>Lookups\<close>

lemma lookup_unchanged: "fst (lookupObject h (snd (lookupObject h' hm))) = fst (lookupObject h hm)"
  by (auto simp: lookupObject_def find_entry_def split: option.splits)

end
