(* ===== verification/Scheduler.thy ===== *)
theory Scheduler
  imports Kernel_Thread "HOL-Library.Multiset"
begin

text \<open>
  The scheduler, \<^verbatim>\<open>hle/kernel/scheduler.cpp\<close>, and the thread methods that queue threads, \<^verbatim>\<open>exit\<close> and \<^verbatim>\<open>sync\<close> of
  \<^verbatim>\<open>hle/kernel/thread.cpp\<close>. One operation runs at a time, on the core \<open>tCurrentCore\<close>; \<^verbatim>\<open>gSchedulerLock\<close> is a flag and
  locking it twice is \<open>Deadlock\<close>. A smaller number is a higher priority.
\<close>

unbundle bit_operations_syntax

definition lockScheduler :: "Kernel \<Rightarrow> fault + Kernel" where
  "lockScheduler k = (if gSchedulerLock k then Inl Deadlock else Inr (k\<lparr>gSchedulerLock := True\<rparr>))"

definition unlockScheduler :: "Kernel \<Rightarrow> Kernel" where
  "unlockScheduler k = k\<lparr>gSchedulerLock := False\<rparr>"

text \<open>\<^verbatim>\<open>gThreadLists[static_cast<int>(affinity)].push_back(handle)\<close>\<close>

definition push_thread :: "CoreAffinity \<Rightarrow> handle_t \<Rightarrow> Kernel \<Rightarrow> fault + Kernel" where
  "push_thread cores handle k =
     (if unat cores < NUM_CORES
      then Inr (k\<lparr>gThreadLists := (gThreadLists k)(unat cores := gThreadLists k (unat cores) @ [handle])\<rparr>)
      else Inl BadIndex)"

definition startThread :: "handle_t \<Rightarrow> Kernel \<Rightarrow> fault + Kernel" where
  "startThread handle k =
     (let thread = getThread handle k
      in and_then (upd_thread thread (\<lambda>t. t\<lparr>status := READY\<rparr>) k)
       (\<lambda>k. and_then (lockScheduler k)
       (\<lambda>k. and_then (thread_at thread k)
       (\<lambda>t. and_then (push_thread (affinity t) handle k)
       (\<lambda>k. Inr (unlockScheduler k))))))"

definition createThread :: "PSTATE_t \<Rightarrow> u64 \<Rightarrow> u64 \<Rightarrow> u64 \<Rightarrow> u32 \<Rightarrow> CoreAffinity \<Rightarrow> Kernel \<Rightarrow> fault + handle_t \<times> Kernel" where
  "createThread raw entry arg stack priorityIn cores k =
     and_then (lockScheduler k)
       (\<lambda>k. let thread = new_Thread raw entry arg stack priorityIn cores;
              thread = thread\<lparr>status := INITIALIZED,
                thread_context := (thread_context thread)\<lparr>ctx_TLSAddr := 0x700000000 + gTlsSlotcounter k * 0x200\<rparr>\<rparr>;
              k = k\<lparr>gTlsSlotcounter := gTlsSlotcounter k + 1\<rparr>;
              (assignedHandle, k) = new_object (ThreadObject thread) k
          in Inr (assignedHandle, unlockScheduler k))"

definition queueThreadNoLock :: "handle_t \<Rightarrow> Kernel \<Rightarrow> fault + Kernel" where
  "queueThreadNoLock handle k =
     (let thread = getThread handle k
      in and_then (thread_at thread k)
       (\<lambda>t. and_then (push_thread (affinity t) handle k)
       (\<lambda>k. upd_thread thread (\<lambda>t. t\<lparr>status := READY\<rparr>) k)))"

text \<open>The loop of \<^verbatim>\<open>popBest\<close>: \<open>i\<close> is the position of the iterator, \<open>best\<close> the best position so far.\<close>

fun popBest_loop :: "handle_t list \<Rightarrow> nat \<Rightarrow> nat option \<Rightarrow> u64 \<Rightarrow> Kernel \<Rightarrow> fault + nat option" where
  "popBest_loop [] i best bestPriority k = Inr best"
| "popBest_loop (handle # hs) i best bestPriority k =
     (if handle \<noteq> INVALID_THREAD then
        and_then (thread_at (getThread handle k) k)
          (\<lambda>t. if priority t < bestPriority then popBest_loop hs (Suc i) (Some i) (priority t) k
               else popBest_loop hs (Suc i) best bestPriority k)
      else popBest_loop hs (Suc i) best bestPriority k)"

definition popBest :: "handle_t list \<Rightarrow> u64 \<Rightarrow> Kernel \<Rightarrow> fault + handle_t \<times> handle_t list" where
  "popBest list minPriority k =
     and_then (popBest_loop list 0 None minPriority k)
       (\<lambda>best. case best of
          Some i \<Rightarrow> Inr (list ! i, take i list @ drop (Suc i) list)
        | None \<Rightarrow> Inr (INVALID_THREAD, list))"

definition requeue_if_running :: "nat option \<Rightarrow> handle_t \<Rightarrow> Kernel \<Rightarrow> fault + Kernel" where
  "requeue_if_running currentThread currentHandle k =
     and_then (thread_at currentThread k)
       (\<lambda>t. if status t = RUNNING
            then and_then (upd_thread currentThread (\<lambda>t. t\<lparr>status := READY\<rparr>) k) (queueThreadNoLock currentHandle)
            else Inr k)"

definition switch_to :: "handle_t \<Rightarrow> Kernel \<Rightarrow> fault + Kernel" where
  "switch_to nextHandle k =
     and_then (contextSwitch (getThread nextHandle k) k)
       (\<lambda>k. upd_thread (getThread nextHandle k) (\<lambda>t. t\<lparr>status := RUNNING\<rparr>) k)"

definition set_active :: "bool \<Rightarrow> Kernel \<Rightarrow> Kernel" where
  "set_active b k = upd_this (\<lambda>core. core\<lparr>isActive := b\<rparr>) k"

definition rescheduleNoLock :: "Kernel \<Rightarrow> fault + Kernel" where
  "rescheduleNoLock k =
     (let currentCoreNum = getCoreID k;
          currentHandle = getCurrentHandle k;
          currentThread = getCurrentThread k
      in and_then (if currentThread \<noteq> None then and_then (thread_at currentThread k) (\<lambda>t. Inr (priority t))
                   else Inr NO_PRIORITY)
       (\<lambda>currentPriority. and_then (popBest (gThreadLists k currentCoreNum) currentPriority k)
       (\<lambda>(popped, rest).
         let k = k\<lparr>gThreadLists := (gThreadLists k)(currentCoreNum := rest)\<rparr>
         in and_then (if popped = INVALID_THREAD \<and> currentThread \<noteq> None
                      then and_then (thread_at currentThread k)
                             (\<lambda>t. Inr (if status t = RUNNING then currentHandle else popped))
                      else Inr popped)
         (\<lambda>nextHandle. and_then
            (if currentHandle \<noteq> INVALID_THREAD then
               if nextHandle \<noteq> INVALID_THREAD then
                 and_then (if currentHandle \<noteq> nextHandle
                           then and_then (switch_to nextHandle k) (requeue_if_running currentThread currentHandle)
                           else Inr k)
                   (\<lambda>k. Inr (set_active True k))
               else and_then (contextSwitch None k)
                   (\<lambda>k. and_then (requeue_if_running currentThread currentHandle k)
                   (\<lambda>k. Inr (set_active False k)))
             else if nextHandle \<noteq> INVALID_THREAD then
               and_then (switch_to nextHandle k) (\<lambda>k. Inr (set_active True k))
             else Inr (set_active False k))
         (\<lambda>k. let k = k\<lparr>gCurrentThreads := (gCurrentThreads k)(currentCoreNum := nextHandle)\<rparr>
              in if nextHandle \<noteq> INVALID_THREAD then upd_thread (getThread nextHandle k) wakeup k else Inr k)))))"

definition yieldThread :: "Kernel \<Rightarrow> fault + Kernel" where
  "yieldThread k =
     and_then (lockScheduler k)
       (\<lambda>k. and_then (queueThreadNoLock (getCurrentHandle k) k)
       (\<lambda>k. and_then (rescheduleNoLock k) (\<lambda>k. Inr (unlockScheduler k))))"

definition exitThread :: "Kernel \<Rightarrow> fault + Kernel" where
  "exitThread k =
     and_then (lockScheduler k)
       (\<lambda>k. and_then (upd_thread (getCurrentThread k) (\<lambda>t. t\<lparr>status := UNINITIATED\<rparr>) k)
       (\<lambda>k. and_then (rescheduleNoLock k) (\<lambda>k. Inr (unlockScheduler k))))"

subsection \<open>Waiting on a thread\<close>

fun queue_all :: "handle_t list \<Rightarrow> Kernel \<Rightarrow> fault + Kernel" where
  "queue_all [] k = Inr k"
| "queue_all (handle # hs) k = and_then (queueThreadNoLock handle k) (queue_all hs)"

definition thread_exit :: "nat option \<Rightarrow> Kernel \<Rightarrow> fault + Kernel" where
  "thread_exit this k =
     and_then (upd_thread this (\<lambda>t. t\<lparr>status := EXITED\<rparr>) k)
       (\<lambda>k. and_then (thread_at this k)
       (\<lambda>t. and_then (queue_all (waitingThreads t) k)
       (\<lambda>k. upd_thread this (\<lambda>t. t\<lparr>waitingThreads := []\<rparr>) k)))"

definition thread_sync :: "nat option \<Rightarrow> handle_t \<Rightarrow> Kernel \<Rightarrow> fault + Kernel" where
  "thread_sync this handle k =
     and_then (thread_at this k)
       (\<lambda>t. and_then
          (if status t = EXITED then queueThreadNoLock handle k
           else and_then (upd_thread this (\<lambda>t. t\<lparr>waitingThreads := waitingThreads t @ [handle]\<rparr>) k)
                  (\<lambda>k. upd_thread (getThread handle k) wait k))
          (\<lambda>k. Inr (send_to 0 GENERIC_INTERRUPT k)))"

subsection \<open>The best thread of a queue\<close>

definition thread_of :: "handle_t \<Rightarrow> Kernel \<Rightarrow> Thread option" where
  "thread_of h k = (case thread_at (getThread h k) k of Inr t \<Rightarrow> Some t | Inl _ \<Rightarrow> None)"

definition prio :: "Kernel \<Rightarrow> handle_t \<Rightarrow> u64" where
  "prio k h = priority (the (thread_of h k))"

definition valid :: "Kernel \<Rightarrow> handle_t \<Rightarrow> bool" where
  "valid k h \<longleftrightarrow> h \<noteq> INVALID_THREAD \<and> thread_of h k \<noteq> None"

lemma thread_at_Some: "thread_of h k = Some t \<Longrightarrow> thread_at (getThread h k) k = Inr t"
  by (auto simp: thread_of_def split: sum.splits)

lemma valid_thread_at: "valid k h \<Longrightarrow> thread_at (getThread h k) k = Inr (the (thread_of h k))"
  by (auto simp: valid_def intro: thread_at_Some)

definition is_best :: "(handle_t \<Rightarrow> u64) \<Rightarrow> u64 \<Rightarrow> handle_t list \<Rightarrow> handle_t \<Rightarrow> handle_t list \<Rightarrow> bool" where
  "is_best f bound xs h ys \<longleftrightarrow> f h < bound \<and> (\<forall>x\<in>set xs. f h < f x) \<and> (\<forall>y\<in>set ys. f h \<le> f y)"

lemma popBest_loop_spec:
  assumes "\<forall>h\<in>set hs. valid k h"
  shows "(popBest_loop hs i best b k = Inr best \<and> (\<forall>x\<in>set hs. b \<le> prio k x)) \<or>
         (\<exists>xs h ys. hs = xs @ h # ys \<and> popBest_loop hs i best b k = Inr (Some (i + length xs)) \<and> is_best (prio k) b xs h ys)"
  using assms
proof (induction hs arbitrary: i best b)
  case (Cons h hs)
  have h: "h \<noteq> INVALID_THREAD" "thread_at (getThread h k) k = Inr (the (thread_of h k))"
    using Cons.prems by (auto simp: valid_def valid_thread_at)
  show ?case
  proof (cases "prio k h < b")
    case True
    then have loop: "popBest_loop (h # hs) i best b k = popBest_loop hs (Suc i) (Some i) (prio k h) k"
      using h by (simp add: prio_def)
    from Cons.IH [of "Suc i" "Some i" "prio k h"] Cons.prems consider
        "popBest_loop hs (Suc i) (Some i) (prio k h) k = Inr (Some i)" "\<forall>x\<in>set hs. prio k h \<le> prio k x"
      | xs g ys where "hs = xs @ g # ys" "popBest_loop hs (Suc i) (Some i) (prio k h) k = Inr (Some (Suc i + length xs))"
          "is_best (prio k) (prio k h) xs g ys"
      by auto
    then show ?thesis
    proof cases
      case 1
      then show ?thesis using True loop
        by (intro disjI2 exI [of _ "[]"] exI [of _ h] exI [of _ hs]) (simp add: is_best_def)
    next
      case 2
      then show ?thesis using True loop
        by (intro disjI2 exI [of _ "h # xs"] exI [of _ g] exI [of _ ys]) (auto simp: is_best_def)
    qed
  next
    case False
    then have loop: "popBest_loop (h # hs) i best b k = popBest_loop hs (Suc i) best b k"
      using h by (simp add: prio_def)
    from Cons.IH [of "Suc i" best b] Cons.prems consider
        "popBest_loop hs (Suc i) best b k = Inr best" "\<forall>x\<in>set hs. b \<le> prio k x"
      | xs g ys where "hs = xs @ g # ys" "popBest_loop hs (Suc i) best b k = Inr (Some (Suc i + length xs))"
          "is_best (prio k) b xs g ys"
      by auto
    then show ?thesis
    proof cases
      case 1
      then show ?thesis using False loop by auto
    next
      case 2
      then show ?thesis using False loop
        by (intro disjI2 exI [of _ "h # xs"] exI [of _ g] exI [of _ ys]) (auto simp: is_best_def)
    qed
  qed
qed simp

lemma popBest_cases:
  assumes "\<forall>h\<in>set hs. valid k h"
  obtains (none) "popBest hs b k = Inr (INVALID_THREAD, hs)" "\<forall>x\<in>set hs. b \<le> prio k x"
  | (best) xs h ys where "hs = xs @ h # ys" "popBest hs b k = Inr (h, xs @ ys)" "is_best (prio k) b xs h ys"
  using popBest_loop_spec [OF assms, of 0 None b]
  by (auto simp: popBest_def)

subsection \<open>Threads after an update\<close>

definition set_thread :: "handle_t \<Rightarrow> Thread \<Rightarrow> Kernel \<Rightarrow> Kernel" where
  "set_thread h t k = k\<lparr>heap := (heap k)(the (getThread h k) \<mapsto> ThreadObject t)\<rparr>"

lemma getThread_cong: "gHandles k' = gHandles k \<Longrightarrow> getThread h k' = getThread h k"
  by (simp add: getThread_def)

lemma thread_at_cong: "heap k' = heap k \<Longrightarrow> thread_at p k' = thread_at p k"
  by (cases p) (simp_all add: thread_at_def)

lemma thread_of_cong: "gHandles k' = gHandles k \<Longrightarrow> heap k' = heap k \<Longrightarrow> thread_of h k' = thread_of h k"
  by (cases "getThread h k") (simp_all add: thread_of_def thread_at_def getThread_cong [of k' k])

lemma thread_of_eq: "getThread h k = getThread g k \<Longrightarrow> thread_of h k = thread_of g k"
  by (simp add: thread_of_def)

lemma thread_of_at: "thread_at (getThread h k) k = Inr t \<Longrightarrow> thread_of h k = Some t"
  by (simp add: thread_of_def)

lemma upd_thread_valid:
  "thread_of h k = Some t \<Longrightarrow> upd_thread (getThread h k) f k = Inr (set_thread h (f t) k)"
  by (simp add: upd_thread_def thread_at_Some set_thread_def)

lemma set_thread_fields [simp]:
  "gHandles (set_thread h t k) = gHandles k" "gCores (set_thread h t k) = gCores k" "tCurrentCore (set_thread h t k) = tCurrentCore k"
  "gThreadLists (set_thread h t k) = gThreadLists k" "gCurrentThreads (set_thread h t k) = gCurrentThreads k"
  "gSchedulerLock (set_thread h t k) = gSchedulerLock k" "getThread h' (set_thread h t k) = getThread h' k"
  "this_core (set_thread h t k) = this_core k" "getCoreID (set_thread h t k) = getCoreID k"
  "getCurrentHandle (set_thread h t k) = getCurrentHandle k" "getCurrentThread (set_thread h t k) = getCurrentThread k"
  by (simp_all add: set_thread_def getThread_def this_core_def getCoreID_def getCurrentHandle_def getCurrentThread_def)

lemma thread_of_Some: "thread_of h k = Some t \<longleftrightarrow> (\<exists>a. getThread h k = Some a \<and> heap k a = Some (ThreadObject t))"
  by (auto simp: thread_of_def thread_at_def split: option.splits KObject.splits)

lemma thread_of_set:
  "thread_of h k \<noteq> None \<Longrightarrow> thread_of h' (set_thread h t k) = (if getThread h' k = getThread h k then Some t else thread_of h' k)"
proof -
  assume "thread_of h k \<noteq> None"
  then obtain a where a: "getThread h k = Some a" by (auto simp: thread_of_Some)
  show ?thesis
    by (cases "getThread h' k") (auto simp: a set_thread_def thread_of_def thread_at_def getThread_cong [of "k\<lparr>heap := _\<rparr>" k])
qed

lemma upd_this_fields [simp]:
  "gHandles (upd_this f k) = gHandles k" "heap (upd_this f k) = heap k" "tCurrentCore (upd_this f k) = tCurrentCore k"
  "gThreadLists (upd_this f k) = gThreadLists k" "gCurrentThreads (upd_this f k) = gCurrentThreads k"
  "gSchedulerLock (upd_this f k) = gSchedulerLock k" "this_core (upd_this f k) = f (this_core k)"
  "getThread h (upd_this f k) = getThread h k" "thread_of h (upd_this f k) = thread_of h k"
  by (simp_all add: upd_this_def this_core_def getThread_def thread_of_cong [of "k\<lparr>gCores := _\<rparr>" k])

lemma lists_fields [simp]:
  "getThread h (k\<lparr>gThreadLists := l\<rparr>) = getThread h k" "thread_of h (k\<lparr>gThreadLists := l\<rparr>) = thread_of h k"
  "this_core (k\<lparr>gThreadLists := l\<rparr>) = this_core k" "getCurrentHandle (k\<lparr>gThreadLists := l\<rparr>) = getCurrentHandle k" "getCurrentThread (k\<lparr>gThreadLists := l\<rparr>) = getCurrentThread k"
  "getThread h (k\<lparr>gCurrentThreads := c\<rparr>) = getThread h k" "thread_of h (k\<lparr>gCurrentThreads := c\<rparr>) = thread_of h k"
  "this_core (k\<lparr>gCurrentThreads := c\<rparr>) = this_core k" "thread_at p (k\<lparr>gThreadLists := l\<rparr>) = thread_at p k"
  by (simp_all add: getThread_def this_core_def getCurrentThread_def getCurrentHandle_def getCoreID_def
      thread_of_cong [of "k\<lparr>gThreadLists := _\<rparr>" k] thread_of_cong [of "k\<lparr>gCurrentThreads := _\<rparr>" k]
      thread_at_cong [of "k\<lparr>gThreadLists := _\<rparr>" k])

lemma thread_of_getThread: "thread_of h k = Some t \<Longrightarrow> getThread h k \<noteq> None"
  by (auto simp: thread_of_Some)

lemma thread_at_None [simp]: "thread_at None k = Inl NullPointer"
  by (simp add: thread_at_def)

lemma getThread_INVALID [simp]: "getThread INVALID_THREAD k = None"
  by (simp add: getThread_def)

definition saved :: "Core \<Rightarrow> Thread \<Rightarrow> Thread" where
  "saved core t = t\<lparr>thread_context := saveState core (thread_context t)\<rparr>"

definition loaded :: "Thread \<Rightarrow> Core \<Rightarrow> Core" where
  "loaded t core = (restoreState (thread_context t) core)\<lparr>exclusiveAccess := False\<rparr>"

lemma upd_this_twice: "upd_this f (upd_this g k) = upd_this (\<lambda>c. f (g c)) k"
  by (simp add: upd_this_def this_core_def)

lemma contextSwitch_out:
  assumes "thread_of (getCurrentHandle k) k = Some t"
  shows "contextSwitch None k =
    Inr (upd_this (\<lambda>core. core\<lparr>exclusiveAccess := False\<rparr>) (set_thread (getCurrentHandle k) (saved (this_core k) t) k))"
  using assms thread_of_getThread [OF assms]
  by (simp add: contextSwitch_def Let_def getCurrentThread_def upd_thread_valid saved_def)

lemma contextSwitch_between:
  assumes "thread_of (getCurrentHandle k) k = Some t" and "thread_of h k = Some u" and "getThread h k \<noteq> getCurrentThread k"
  shows "contextSwitch (getThread h k) k =
    Inr (upd_this (loaded u) (set_thread (getCurrentHandle k) (saved (this_core k) t) k))"
proof -
  let ?k = "set_thread (getCurrentHandle k) (saved (this_core k) t) k"
  have "thread_of h ?k = Some u"
    using assms by (simp add: thread_of_set getCurrentThread_def)
  then have "thread_at (getThread h k) ?k = Inr u"
    using thread_at_Some [of h ?k u] by simp
  then show ?thesis
    using assms thread_of_getThread [OF assms(1)] thread_of_getThread [OF assms(2)]
    by (simp add: contextSwitch_def Let_def getCurrentThread_def upd_thread_valid saved_def upd_this_twice loaded_def [abs_def])
qed

lemma contextSwitch_in:
  assumes "getCurrentThread k = None" and "thread_of h k = Some u"
  shows "contextSwitch (getThread h k) k = Inr (upd_this (loaded u) k)"
  using assms thread_of_getThread [OF assms(2)]
  by (simp add: contextSwitch_def Let_def thread_at_Some upd_this_twice loaded_def [abs_def])

lemma contextSwitch_old_valid:
  "contextSwitch p k = Inr k' \<Longrightarrow> getCurrentThread k \<noteq> None \<Longrightarrow> \<exists>t. thread_of (getCurrentHandle k) k = Some t"
  by (auto simp: contextSwitch_def Let_def getCurrentThread_def and_then_Inr_iff upd_thread_def dest: thread_of_at)

lemma contextSwitch_new_valid:
  assumes "contextSwitch (getThread h k) k = Inr k'" and "thread_of (getCurrentHandle k) k = Some t"
    and "getThread h k \<noteq> None" and "getThread h k \<noteq> getCurrentThread k"
  shows "\<exists>u. thread_of h k = Some u"
proof -
  let ?k = "set_thread (getCurrentHandle k) (saved (this_core k) t) k"
  have "\<exists>u. thread_at (getThread h k) ?k = Inr u"
    using assms thread_of_getThread [OF assms(2)]
    by (auto simp: contextSwitch_def Let_def getCurrentThread_def upd_thread_valid saved_def and_then_Inr_iff)
  then obtain u where "thread_of h ?k = Some u" using thread_of_at [of h ?k] by auto
  then show ?thesis using assms(2,4) by (simp add: thread_of_set getCurrentThread_def)
qed

subsection \<open>Rescheduling\<close>

lemma wakeup_eq: "wakeup t = t\<lparr>wakeupCallback := DEFAULT_WAKEUP_CALLBACK\<rparr>"
  by (simp add: wakeup_def cancelAllWaitObjects_def split: WakeupCallback.split)

lemma queue_valid:
  assumes "thread_of h k = Some t" and "unat (affinity t) < NUM_CORES"
  shows "queueThreadNoLock h k = Inr (set_thread h (t\<lparr>status := READY\<rparr>)
     (k\<lparr>gThreadLists := (gThreadLists k)(unat (affinity t) := gThreadLists k (unat (affinity t)) @ [h])\<rparr>))"
  using assms upd_thread_valid [of h "k\<lparr>gThreadLists := _\<rparr>" t]
  by (simp add: queueThreadNoLock_def Let_def thread_at_Some push_thread_def)

lemma set_thread_again: "set_thread h t' ((set_thread h t k)\<lparr>gThreadLists := l\<rparr>) = set_thread h t' (k\<lparr>gThreadLists := l\<rparr>)"
  by (simp add: set_thread_def getThread_def)

lemma requeue_running:
  assumes "thread_of h k = Some t" and "status t = RUNNING" and "unat (affinity t) < NUM_CORES"
  shows "requeue_if_running (getThread h k) h k = Inr (set_thread h (t\<lparr>status := READY\<rparr>)
     (k\<lparr>gThreadLists := (gThreadLists k)(unat (affinity t) := gThreadLists k (unat (affinity t)) @ [h])\<rparr>))"
proof -
  have "thread_of h (set_thread h (t\<lparr>status := READY\<rparr>) k) = Some (t\<lparr>status := READY\<rparr>)"
    using assms(1) by (simp add: thread_of_set)
  then show ?thesis
    using assms queue_valid [of h "set_thread h (t\<lparr>status := READY\<rparr>) k" "t\<lparr>status := READY\<rparr>"]
    by (simp add: requeue_if_running_def thread_at_Some upd_thread_valid set_thread_again)
qed

lemma requeue_not_running:
  "thread_of h k = Some t \<Longrightarrow> status t \<noteq> RUNNING \<Longrightarrow> requeue_if_running (getThread h k) h k = Inr k"
  by (simp add: requeue_if_running_def thread_at_Some)

lemma switch_to_between:
  assumes "thread_of (getCurrentHandle k) k = Some t" and "thread_of h k = Some u" and "getThread h k \<noteq> getCurrentThread k"
  shows "switch_to h k = Inr (set_thread h (u\<lparr>status := RUNNING\<rparr>)
    (upd_this (loaded u) (set_thread (getCurrentHandle k) (saved (this_core k) t) k)))"
proof -
  let ?k = "upd_this (loaded u) (set_thread (getCurrentHandle k) (saved (this_core k) t) k)"
  have "thread_of h ?k = Some u" using assms by (simp add: thread_of_set getCurrentThread_def)
  from upd_thread_valid [OF this] show ?thesis
    by (simp add: switch_to_def contextSwitch_between [OF assms])
qed

lemma switch_to_in:
  assumes "getCurrentThread k = None" and "thread_of h k = Some u"
  shows "switch_to h k = Inr (set_thread h (u\<lparr>status := RUNNING\<rparr>) (upd_this (loaded u) k))"
  using upd_thread_valid [of h "upd_this (loaded u) k" u] assms
  by (simp add: switch_to_def contextSwitch_in)

text \<open>What a kernel operation leaves as it was: the handles, and the threads other than those listed.\<close>

definition frame :: "handle_t set \<Rightarrow> Kernel \<Rightarrow> Kernel \<Rightarrow> bool" where
  "frame hs k k' \<longleftrightarrow> gHandles k' = gHandles k \<and> tCurrentCore k' = tCurrentCore k \<and> gSchedulerLock k' = gSchedulerLock k
     \<and> (\<forall>g. getThread g k \<notin> (\<lambda>h. getThread h k) ` hs \<longrightarrow> thread_of g k' = thread_of g k)"

lemma reschedule_switch:
  assumes cur: "thread_of (getCurrentHandle k) k = Some t" "getCurrentHandle k \<noteq> INVALID_THREAD" "status t = RUNNING"
      "unat (affinity t) < NUM_CORES"
    and pop: "popBest (gThreadLists k (getCoreID k)) (priority t) k = Inr (h, rest)"
    and h: "thread_of h k = Some u" "h \<noteq> INVALID_THREAD" "getThread h k \<noteq> getCurrentThread k"
  shows "\<exists>k'. rescheduleNoLock k = Inr k' \<and> gCurrentThreads k' = (gCurrentThreads k)(getCoreID k := h)
    \<and> this_core k' = (loaded u (this_core k))\<lparr>isActive := True\<rparr>
    \<and> thread_of h k' = Some (wakeup (u\<lparr>status := RUNNING\<rparr>))
    \<and> thread_of (getCurrentHandle k) k' = Some ((saved (this_core k) t)\<lparr>status := READY\<rparr>)
    \<and> gThreadLists k' = (let l = (gThreadLists k)(getCoreID k := rest) in
         l(unat (affinity t) := l (unat (affinity t)) @ [getCurrentHandle k]))
    \<and> frame {h, getCurrentHandle k} k k'"
proof -
  let ?cur = "getCurrentHandle k"
  let ?k1 = "k\<lparr>gThreadLists := (gThreadLists k)(getCoreID k := rest)\<rparr>"
  let ?k2 = "set_thread h (u\<lparr>status := RUNNING\<rparr>) (upd_this (loaded u) (set_thread ?cur (saved (this_core k) t) ?k1))"
  have ne: "?cur \<noteq> h" using h(3) by (auto simp: getCurrentThread_def)
  have some: "getCurrentThread k \<noteq> None" "getThread ?cur k = getCurrentThread k"
    using thread_of_getThread [OF cur(1)] by (simp_all add: getCurrentThread_def)
  have k2: "switch_to h ?k1 = Inr ?k2"
    using switch_to_between [of ?k1 t h u] cur(1) h by simp
  have cur2: "thread_of ?cur ?k2 = Some (saved (this_core k) t)"
    using cur(1) h by (simp add: thread_of_set getCurrentThread_def)
  let ?t = "(saved (this_core k) t)\<lparr>status := READY\<rparr>"
  let ?k3 = "set_thread ?cur ?t (?k2\<lparr>gThreadLists := (let l = (gThreadLists k)(getCoreID k := rest) in
         l(unat (affinity t) := l (unat (affinity t)) @ [?cur]))\<rparr>)"
  have k3: "requeue_if_running (getCurrentThread k) ?cur ?k2 = Inr ?k3"
    using requeue_running [OF cur2] cur some(2) by (simp add: saved_def Let_def)
  let ?k4 = "(set_active True ?k3)\<lparr>gCurrentThreads := (gCurrentThreads k)(getCoreID k := h)\<rparr>"
  have u4: "thread_of h ?k4 = Some (u\<lparr>status := RUNNING\<rparr>)"
    using cur(1) h some by (simp add: set_active_def thread_of_set)
  have "rescheduleNoLock k = Inr (set_thread h (wakeup (u\<lparr>status := RUNNING\<rparr>)) ?k4)"
    using cur pop h some ne k2 k3 upd_thread_valid [OF u4, of wakeup]
    by (simp add: rescheduleNoLock_def Let_def thread_at_Some [OF cur(1), unfolded some(2)] set_active_def)
  moreover have "frame {h, ?cur} k (set_thread h (wakeup (u\<lparr>status := RUNNING\<rparr>)) ?k4)"
    using cur(1) h(1) by (auto simp: frame_def set_active_def thread_of_set)
  ultimately show ?thesis
    using cur(1) h some by (simp add: set_active_def thread_of_set)
qed

lemma reschedule_stay:
  assumes cur: "thread_of (getCurrentHandle k) k = Some t" "getCurrentHandle k \<noteq> INVALID_THREAD" "status t = RUNNING"
    and pop: "popBest (gThreadLists k (getCoreID k)) (priority t) k = Inr (INVALID_THREAD, gThreadLists k (getCoreID k))"
  shows "\<exists>k'. rescheduleNoLock k = Inr k' \<and> gCurrentThreads k' = gCurrentThreads k
    \<and> this_core k' = (this_core k)\<lparr>isActive := True\<rparr> \<and> gThreadLists k' = gThreadLists k
    \<and> thread_of (getCurrentHandle k) k' = Some (wakeup t) \<and> frame {getCurrentHandle k} k k'"
proof -
  let ?cur = "getCurrentHandle k"
  have some: "getCurrentThread k \<noteq> None" "getThread ?cur k = getCurrentThread k"
    using thread_of_getThread [OF cur(1)] by (simp_all add: getCurrentThread_def)
  let ?k1 = "(set_active True (k\<lparr>gThreadLists := gThreadLists k\<rparr>))\<lparr>gCurrentThreads := gCurrentThreads k\<rparr>"
  have "thread_of ?cur ?k1 = Some t" using cur(1) by (simp add: set_active_def)
  then have "rescheduleNoLock k = Inr (set_thread ?cur (wakeup t) ?k1)"
    using cur pop some upd_thread_valid [of ?cur ?k1 t wakeup]
    by (simp add: rescheduleNoLock_def Let_def thread_at_Some [OF cur(1), unfolded some(2)] set_active_def
        getCurrentHandle_def)
  moreover have "frame {?cur} k (set_thread ?cur (wakeup t) ?k1)"
    using cur(1) by (auto simp: frame_def set_active_def thread_of_set)
  ultimately show ?thesis
    using cur(1) by (simp add: set_active_def thread_of_set)
qed

lemma reschedule_from_idle:
  assumes cur: "getCurrentHandle k = INVALID_THREAD"
    and pop: "popBest (gThreadLists k (getCoreID k)) NO_PRIORITY k = Inr (h, rest)"
    and h: "thread_of h k = Some u" "h \<noteq> INVALID_THREAD"
  shows "\<exists>k'. rescheduleNoLock k = Inr k' \<and> gCurrentThreads k' = (gCurrentThreads k)(getCoreID k := h)
    \<and> this_core k' = (loaded u (this_core k))\<lparr>isActive := True\<rparr>
    \<and> thread_of h k' = Some (wakeup (u\<lparr>status := RUNNING\<rparr>))
    \<and> gThreadLists k' = (gThreadLists k)(getCoreID k := rest) \<and> frame {h} k k'"
proof -
  have none: "getCurrentThread k = None" using cur by (simp add: getCurrentThread_def)
  let ?k1 = "k\<lparr>gThreadLists := (gThreadLists k)(getCoreID k := rest)\<rparr>"
  let ?k2 = "set_thread h (u\<lparr>status := RUNNING\<rparr>) (upd_this (loaded u) ?k1)"
  have k2: "switch_to h ?k1 = Inr ?k2" using switch_to_in [of ?k1 h u] none h by simp
  let ?k4 = "(set_active True ?k2)\<lparr>gCurrentThreads := (gCurrentThreads k)(getCoreID k := h)\<rparr>"
  have u4: "thread_of h ?k4 = Some (u\<lparr>status := RUNNING\<rparr>)" using h by (simp add: set_active_def thread_of_set)
  have "rescheduleNoLock k = Inr (set_thread h (wakeup (u\<lparr>status := RUNNING\<rparr>)) ?k4)"
    using cur pop h none k2 upd_thread_valid [OF u4, of wakeup]
    by (simp add: rescheduleNoLock_def Let_def set_active_def)
  moreover have "frame {h} k (set_thread h (wakeup (u\<lparr>status := RUNNING\<rparr>)) ?k4)"
    using h(1) by (auto simp: frame_def set_active_def thread_of_set)
  ultimately show ?thesis using h by (simp add: set_active_def thread_of_set)
qed

lemma reschedule_idle:
  assumes cur: "getCurrentHandle k = INVALID_THREAD"
    and pop: "popBest (gThreadLists k (getCoreID k)) NO_PRIORITY k = Inr (INVALID_THREAD, gThreadLists k (getCoreID k))"
  shows "\<exists>k'. rescheduleNoLock k = Inr k' \<and> gCurrentThreads k' = gCurrentThreads k
    \<and> this_core k' = (this_core k)\<lparr>isActive := False\<rparr> \<and> gThreadLists k' = gThreadLists k \<and> frame {} k k'"
  using assms
  by (auto simp: rescheduleNoLock_def Let_def set_active_def getCurrentThread_def frame_def fun_upd_idem getCurrentHandle_def)

text \<open>The current thread has stopped running: it is neither queued nor chosen.\<close>

lemma reschedule_blocked_switch:
  assumes cur: "thread_of (getCurrentHandle k) k = Some t" "getCurrentHandle k \<noteq> INVALID_THREAD" "status t \<noteq> RUNNING"
    and pop: "popBest (gThreadLists k (getCoreID k)) (priority t) k = Inr (h, rest)"
    and h: "thread_of h k = Some u" "h \<noteq> INVALID_THREAD" "getThread h k \<noteq> getCurrentThread k"
  shows "\<exists>k'. rescheduleNoLock k = Inr k' \<and> gCurrentThreads k' = (gCurrentThreads k)(getCoreID k := h)
    \<and> this_core k' = (loaded u (this_core k))\<lparr>isActive := True\<rparr>
    \<and> thread_of h k' = Some (wakeup (u\<lparr>status := RUNNING\<rparr>))
    \<and> thread_of (getCurrentHandle k) k' = Some (saved (this_core k) t)
    \<and> gThreadLists k' = (gThreadLists k)(getCoreID k := rest) \<and> frame {h, getCurrentHandle k} k k'"
proof -
  let ?cur = "getCurrentHandle k"
  let ?k1 = "k\<lparr>gThreadLists := (gThreadLists k)(getCoreID k := rest)\<rparr>"
  let ?k2 = "set_thread h (u\<lparr>status := RUNNING\<rparr>) (upd_this (loaded u) (set_thread ?cur (saved (this_core k) t) ?k1))"
  have ne: "?cur \<noteq> h" using h(3) by (auto simp: getCurrentThread_def)
  have some: "getCurrentThread k \<noteq> None" "getThread ?cur k = getCurrentThread k"
    using thread_of_getThread [OF cur(1)] by (simp_all add: getCurrentThread_def)
  have k2: "switch_to h ?k1 = Inr ?k2"
    using switch_to_between [of ?k1 t h u] cur(1) h by simp
  have cur2: "thread_of ?cur ?k2 = Some (saved (this_core k) t)"
    using cur(1) h by (simp add: thread_of_set getCurrentThread_def)
  have k3: "requeue_if_running (getCurrentThread k) ?cur ?k2 = Inr ?k2"
    using requeue_not_running [OF cur2] cur some(2) by (simp add: saved_def)
  let ?k4 = "(set_active True ?k2)\<lparr>gCurrentThreads := (gCurrentThreads k)(getCoreID k := h)\<rparr>"
  have u4: "thread_of h ?k4 = Some (u\<lparr>status := RUNNING\<rparr>)"
    using cur(1) h some by (simp add: set_active_def thread_of_set)
  have "rescheduleNoLock k = Inr (set_thread h (wakeup (u\<lparr>status := RUNNING\<rparr>)) ?k4)"
    using cur pop h some ne k2 k3 upd_thread_valid [OF u4, of wakeup]
    by (simp add: rescheduleNoLock_def Let_def thread_at_Some [OF cur(1), unfolded some(2)] set_active_def)
  moreover have "frame {h, ?cur} k (set_thread h (wakeup (u\<lparr>status := RUNNING\<rparr>)) ?k4)"
    using cur(1) h(1) by (auto simp: frame_def set_active_def thread_of_set)
  ultimately show ?thesis
    using cur(1) h some by (simp add: set_active_def thread_of_set)
qed

lemma reschedule_blocked_idle:
  assumes cur: "thread_of (getCurrentHandle k) k = Some t" "getCurrentHandle k \<noteq> INVALID_THREAD" "status t \<noteq> RUNNING"
    and pop: "popBest (gThreadLists k (getCoreID k)) (priority t) k = Inr (INVALID_THREAD, gThreadLists k (getCoreID k))"
  shows "\<exists>k'. rescheduleNoLock k = Inr k' \<and> gCurrentThreads k' = (gCurrentThreads k)(getCoreID k := INVALID_THREAD)
    \<and> this_core k' = (this_core k)\<lparr>exclusiveAccess := False, isActive := False\<rparr>
    \<and> thread_of (getCurrentHandle k) k' = Some (saved (this_core k) t)
    \<and> gThreadLists k' = gThreadLists k \<and> frame {getCurrentHandle k} k k'"
proof -
  let ?cur = "getCurrentHandle k"
  have some: "getCurrentThread k \<noteq> None" "getThread ?cur k = getCurrentThread k"
    using thread_of_getThread [OF cur(1)] by (simp_all add: getCurrentThread_def)
  let ?k1 = "k\<lparr>gThreadLists := gThreadLists k\<rparr>"
  let ?k2 = "upd_this (\<lambda>core. core\<lparr>exclusiveAccess := False\<rparr>) (set_thread ?cur (saved (this_core k) t) ?k1)"
  have k2: "contextSwitch None ?k1 = Inr ?k2" using contextSwitch_out [of ?k1 t] cur(1) by simp
  have cur2: "thread_of ?cur ?k2 = Some (saved (this_core k) t)" using cur(1) by (simp add: thread_of_set)
  have k3: "requeue_if_running (getCurrentThread k) ?cur ?k2 = Inr ?k2"
    using requeue_not_running [OF cur2] cur some(2) by (simp add: saved_def)
  have "rescheduleNoLock k = Inr ((set_active False ?k2)\<lparr>gCurrentThreads := (gCurrentThreads k)(getCoreID k := INVALID_THREAD)\<rparr>)"
    using cur pop some k2 k3
    by (simp add: rescheduleNoLock_def Let_def thread_at_Some [OF cur(1), unfolded some(2)] set_active_def)
  then show ?thesis using cur(1) by (auto simp: set_active_def thread_of_set frame_def)
qed

subsection \<open>Which thread runs next\<close>

definition candidates :: "Kernel \<Rightarrow> handle_t list" where
  "candidates k = (if getCurrentHandle k = INVALID_THREAD then [] else [getCurrentHandle k]) @ gThreadLists k (getCoreID k)"

definition sched_ok :: "Kernel \<Rightarrow> bool" where
  "sched_ok k \<longleftrightarrow> getCoreID k < NUM_CORES
     \<and> (\<forall>h\<in>set (gThreadLists k (getCoreID k)). valid k h \<and> prio k h < NO_PRIORITY \<and> getThread h k \<noteq> getCurrentThread k)
     \<and> (getCurrentHandle k \<noteq> INVALID_THREAD \<longrightarrow> (case thread_of (getCurrentHandle k) k of
          Some t \<Rightarrow> status t = RUNNING \<and> unat (affinity t) < NUM_CORES | None \<Rightarrow> False))"

definition queued :: "Kernel \<Rightarrow> handle_t multiset" where
  "queued k = (\<Sum>i<NUM_CORES. mset (gThreadLists k i))"

definition running :: "handle_t \<Rightarrow> handle_t multiset" where
  "running h = (if h = INVALID_THREAD then {#} else {#h#})"

lemma sum_mset_upd:
  assumes "c < (n :: nat)"
  shows "(\<Sum>i<n. mset ((l(c := x)) i)) + mset (l c) = (\<Sum>i<n. mset (l i)) + mset x"
proof -
  have "(\<Sum>i<n. mset (f i)) = mset (f c) + (\<Sum>i\<in>{..<n} - {c}. mset (f i))" for f :: "nat \<Rightarrow> 'a list"
    using assms by (intro sum.remove) auto
  from this [of l] this [of "l(c := x)"] show ?thesis by (simp add: ac_simps)
qed

definition picks_best :: "Kernel \<Rightarrow> Kernel \<Rightarrow> bool" where
  "picks_best k k' \<longleftrightarrow>
     (let next = gCurrentThreads k' (getCoreID k)
      in if candidates k = [] then next = INVALID_THREAD \<and> \<not> isActive (this_core k')
         else next \<in> set (candidates k) \<and> (\<forall>h\<in>set (candidates k). prio k next \<le> prio k h)
           \<and> isActive (this_core k') \<and> map_option status (thread_of next k') = Some RUNNING
           \<and> (next \<noteq> getCurrentHandle k \<longrightarrow>
                this_core k' = (loaded (the (thread_of next k)) (this_core k))\<lparr>isActive := True\<rparr>))"

lemma reschedule_current_picks_best:
  assumes ok: "sched_ok k" and cur: "getCurrentHandle k \<noteq> INVALID_THREAD"
  shows "\<exists>k'. rescheduleNoLock k = Inr k' \<and> picks_best k k'
    \<and> running (gCurrentThreads k' (getCoreID k)) + queued k' = running (getCurrentHandle k) + queued k"
proof -
  obtain t where t: "thread_of (getCurrentHandle k) k = Some t" "status t = RUNNING" "unat (affinity t) < NUM_CORES"
    using ok cur by (auto simp: sched_ok_def split: option.splits)
  have prio_t: "prio k (getCurrentHandle k) = priority t" using t by (simp add: prio_def)
  have list: "\<forall>h\<in>set (gThreadLists k (getCoreID k)). valid k h" using ok by (simp add: sched_ok_def)
  from list show ?thesis
  proof (cases rule: popBest_cases [where b = "priority t"])
    case none
    from reschedule_stay [OF t(1) cur t(2) none(1)] obtain k' where k': "rescheduleNoLock k = Inr k'"
        "gCurrentThreads k' = gCurrentThreads k" "this_core k' = (this_core k)\<lparr>isActive := True\<rparr>"
        "gThreadLists k' = gThreadLists k" "thread_of (getCurrentHandle k) k' = Some (wakeup t)" by auto
    have "gCurrentThreads k (getCoreID k) = getCurrentHandle k" by (simp add: getCurrentHandle_def)
    then show ?thesis
      using k' none(2) cur t by (auto simp: picks_best_def candidates_def Let_def prio_t wakeup_eq queued_def)
  next
    case (best xs h ys)
    then have h: "valid k h" "getThread h k \<noteq> getCurrentThread k" using ok by (auto simp: sched_ok_def)
    then obtain u where u: "thread_of h k = Some u" "h \<noteq> INVALID_THREAD" by (auto simp: valid_def)
    from reschedule_switch [OF t(1) cur t(2,3) best(2) u h(2)] obtain k' where k': "rescheduleNoLock k = Inr k'"
        "gCurrentThreads k' = (gCurrentThreads k)(getCoreID k := h)" "this_core k' = (loaded u (this_core k))\<lparr>isActive := True\<rparr>"
        "thread_of h k' = Some (wakeup (u\<lparr>status := RUNNING\<rparr>))"
        "gThreadLists k' = (let l = (gThreadLists k)(getCoreID k := xs @ ys) in
           l(unat (affinity t) := l (unat (affinity t)) @ [getCurrentHandle k]))" by auto
    let ?l = "(gThreadLists k)(getCoreID k := xs @ ys)"
    have "queued k' = (\<Sum>i<NUM_CORES. mset (?l i)) + {#getCurrentHandle k#}"
      using sum_mset_upd [OF t(3), of ?l "?l (unat (affinity t)) @ [getCurrentHandle k]"] k'(5)
      by (simp add: queued_def Let_def)
    moreover have "(\<Sum>i<NUM_CORES. mset (?l i)) + {#h#} = queued k"
      using sum_mset_upd [of "getCoreID k" NUM_CORES "gThreadLists k" "xs @ ys"] ok best(1)
      by (simp add: queued_def sched_ok_def)
    ultimately have "running h + queued k' = running (getCurrentHandle k) + queued k"
      using u(2) cur by (simp add: running_def ac_simps)
    moreover have "picks_best k k'"
      using k' best t u h(2) by (auto simp: picks_best_def candidates_def Let_def is_best_def prio_t wakeup_eq)
    ultimately show ?thesis using k' by auto
  qed
qed

lemma reschedule_idle_picks_best:
  assumes ok: "sched_ok k" and cur: "getCurrentHandle k = INVALID_THREAD"
  shows "\<exists>k'. rescheduleNoLock k = Inr k' \<and> picks_best k k'
    \<and> running (gCurrentThreads k' (getCoreID k)) + queued k' = running (getCurrentHandle k) + queued k"
proof -
  have list: "\<forall>h\<in>set (gThreadLists k (getCoreID k)). valid k h" using ok by (simp add: sched_ok_def)
  from list show ?thesis
  proof (cases rule: popBest_cases [where b = NO_PRIORITY])
    case none
    then have empty: "gThreadLists k (getCoreID k) = []" using ok by (cases "gThreadLists k (getCoreID k)") (auto simp: sched_ok_def)
    have "gCurrentThreads k (getCoreID k) = INVALID_THREAD" using cur by (simp add: getCurrentHandle_def)
    then show ?thesis
      using reschedule_idle [OF cur none(1)] empty cur by (auto simp: picks_best_def candidates_def Let_def queued_def)
  next
    case (best xs h ys)
    then have "valid k h" using ok by (auto simp: sched_ok_def)
    then obtain u where u: "thread_of h k = Some u" "h \<noteq> INVALID_THREAD" by (auto simp: valid_def)
    from reschedule_from_idle [OF cur best(2) u] obtain k' where k': "rescheduleNoLock k = Inr k'"
        "gCurrentThreads k' = (gCurrentThreads k)(getCoreID k := h)" "this_core k' = (loaded u (this_core k))\<lparr>isActive := True\<rparr>"
        "thread_of h k' = Some (wakeup (u\<lparr>status := RUNNING\<rparr>))" "gThreadLists k' = (gThreadLists k)(getCoreID k := xs @ ys)" by auto
    have "running h + queued k' = running (getCurrentHandle k) + queued k"
      using sum_mset_upd [of "getCoreID k" NUM_CORES "gThreadLists k" "xs @ ys"] ok best(1) k'(5) u(2) cur
      by (simp add: queued_def sched_ok_def running_def)
    moreover have "picks_best k k'"
      using k' best u cur by (auto simp: picks_best_def candidates_def Let_def is_best_def wakeup_eq)
    ultimately show ?thesis using k' by auto
  qed
qed

text \<open>
  C21. Rescheduling a core whose current thread, if there is one, is \<^verbatim>\<open>RUNNING\<close> with the affinity of some core, and whose queue holds valid handles of other
  threads with priorities below 64 (\<open>sched_ok\<close>; when the current thread blocks or yields, the search is bounded by its priority, see \<open>yield_idles_core\<close>): the core ends up idle only when there is nothing to run;
  otherwise it runs a thread of the smallest priority number among the current one and the queue of the core, the
  current one when tied, that thread is marked running, and when it is a new one the registers of
  the core are its saved context. No thread is lost or duplicated: running and queued threads together stay the same.
\<close>

theorem reschedule_picks_best:
  assumes "sched_ok k"
  shows "\<exists>k'. rescheduleNoLock k = Inr k' \<and> picks_best k k'
    \<and> running (gCurrentThreads k' (getCoreID k)) + queued k' = running (getCurrentHandle k) + queued k"
  using reschedule_current_picks_best [OF assms] reschedule_idle_picks_best [OF assms] by blast

text \<open>A kernel with two threads created on core 0, the first of them running.\<close>

definition boot_kernel :: Kernel where
  "boot_kernel = \<lparr>gCores = (\<lambda>i. zero_core\<lparr>coreNum := i\<rparr>), tCurrentCore = 0, kmem = zero_memory, gMappings = [],
     gHandles = handle_init, heap = Map.empty, nextObject = 0, gTlsSlotcounter = 1, gSchedulerLock = False,
     gCurrentThreads = (\<lambda>_. INVALID_THREAD), gThreadLists = (\<lambda>_. []), gAlarms = [], gAlarmCapacity = 0,
     gCurrentProcess = INVALID_HANDLE, kTimer = 0, gServices = new_ServiceState\<rparr>"

definition demo_thread :: "u64 \<Rightarrow> u32 \<Rightarrow> ThreadStatus \<Rightarrow> Thread" where
  "demo_thread entry pri st = (new_Thread (PSTATE zero_core) entry 0 0 pri DEFAULT_CORE)\<lparr>status := st\<rparr>"

definition demo_kernel :: "u32 \<Rightarrow> ThreadStatus \<Rightarrow> u32 \<Rightarrow> Kernel" where
  "demo_kernel pri1 st1 pri2 =
     (snd (new_object (ThreadObject (demo_thread 0x2000 pri2 READY))
       (snd (new_object (ThreadObject (demo_thread 0x1000 pri1 st1)) boot_kernel))))
     \<lparr>gCurrentThreads := (\<lambda>_. INVALID_THREAD)(0 := 1), gThreadLists := (\<lambda>_. [])(0 := [2])\<rparr>"

lemma demo_handles:
  "getThread 1 (demo_kernel p1 s p2) = Some 0" "getThread 2 (demo_kernel p1 s p2) = Some 1"
  by (simp_all add: demo_kernel_def new_object_def boot_kernel_def handle_init_def createHandle_def getThread_def
      lookupObject_def find_entry_def INVALID_THREAD_def)

lemma demo_threads:
  "thread_of 1 (demo_kernel p1 s p2) = Some (demo_thread 0x1000 p1 s)"
  "thread_of 2 (demo_kernel p1 s p2) = Some (demo_thread 0x2000 p2 READY)"
  unfolding thread_of_def demo_handles
  by (simp_all add: thread_at_def demo_kernel_def new_object_def boot_kernel_def createHandle_def handle_init_def)

lemma demo_fields:
  "getCoreID (demo_kernel p1 s p2) = 0" "getCurrentHandle (demo_kernel p1 s p2) = 1"
  "gThreadLists (demo_kernel p1 s p2) = (\<lambda>_. [])(0 := [2])" "gSchedulerLock (demo_kernel p1 s p2) = False"
  "getCurrentThread (demo_kernel p1 s p2) = Some 0"
proof -
  show fields: "getCoreID (demo_kernel p1 s p2) = 0" "getCurrentHandle (demo_kernel p1 s p2) = 1"
    "gThreadLists (demo_kernel p1 s p2) = (\<lambda>_. [])(0 := [2])" "gSchedulerLock (demo_kernel p1 s p2) = False"
    by (simp_all add: demo_kernel_def new_object_def boot_kernel_def createHandle_def handle_init_def getCoreID_def
        this_core_def getCurrentHandle_def)
  show "getCurrentThread (demo_kernel p1 s p2) = Some 0"
    by (simp add: getCurrentThread_def fields demo_handles)
qed

lemma demo_valid: "valid (demo_kernel p1 s p2) 2" "prio (demo_kernel p1 s p2) 2 = ucast p2"
  by (simp_all add: valid_def prio_def demo_threads INVALID_THREAD_def demo_thread_def new_Thread_def)

theorem reschedule_picks_best_witness:
  "\<exists>k'. rescheduleNoLock (demo_kernel 20 RUNNING 10) = Inr k' \<and> gCurrentThreads k' 0 = 2 \<and> PC (this_core k') = 0x2000"
proof -
  have "sched_ok (demo_kernel 20 RUNNING 10)"
    by (simp add: sched_ok_def demo_fields demo_valid demo_threads demo_handles NUM_CORES_def NO_PRIORITY_def)
       (simp add: demo_thread_def new_Thread_def DEFAULT_CORE_def)
  from reschedule_picks_best [OF this] obtain k' where k': "rescheduleNoLock (demo_kernel 20 RUNNING 10) = Inr k'"
      "picks_best (demo_kernel 20 RUNNING 10) k'" by blast
  have "prio (demo_kernel 20 RUNNING 10) 1 = 20"
    by (simp add: prio_def demo_threads demo_thread_def new_Thread_def)
  then have "gCurrentThreads k' 0 = 2 \<and> PC (this_core k') = 0x2000"
    using k'(2)
    by (auto simp: picks_best_def candidates_def demo_fields Let_def demo_valid demo_threads INVALID_THREAD_def)
       (simp add: loaded_def restoreState_def demo_thread_def new_Thread_def)
  with k'(1) show ?thesis by blast
qed

subsection \<open>Yielding\<close>

lemma thread_of_lock [simp]: "thread_of h (k\<lparr>gSchedulerLock := b\<rparr>) = thread_of h k"
  by (rule thread_of_cong) simp_all

lemma lock_fields [simp]:
  "getThread h (k\<lparr>gSchedulerLock := b\<rparr>) = getThread h k" "getCoreID (k\<lparr>gSchedulerLock := b\<rparr>) = getCoreID k"
  "getCurrentHandle (k\<lparr>gSchedulerLock := b\<rparr>) = getCurrentHandle k" "this_core (k\<lparr>gSchedulerLock := b\<rparr>) = this_core k"
  "getCoreID (k\<lparr>gThreadLists := l\<rparr>) = getCoreID k"
  by (simp_all add: getThread_def getCoreID_def this_core_def getCurrentHandle_def)

lemma popBest_none:
  assumes "\<forall>h\<in>set hs. valid k h \<and> b \<le> prio k h"
  shows "popBest hs b k = Inr (INVALID_THREAD, hs)"
proof -
  have "\<forall>h\<in>set hs. valid k h" using assms by simp
  then show ?thesis
    by (cases rule: popBest_cases [where b = b]) (use assms in \<open>auto simp: is_best_def\<close>)
qed

text \<open>The state in which a yielding thread reschedules: it is ready and queued, but still current.\<close>

definition queued_self :: "Thread \<Rightarrow> Kernel \<Rightarrow> Kernel" where
  "queued_self t k = set_thread (getCurrentHandle k) (t\<lparr>status := READY\<rparr>)
     (k\<lparr>gSchedulerLock := True, gThreadLists := (gThreadLists k)(unat (affinity t) :=
        gThreadLists k (unat (affinity t)) @ [getCurrentHandle k])\<rparr>)"

lemma queued_self_fields [simp]:
  "getCurrentHandle (queued_self t k) = getCurrentHandle k" "getCoreID (queued_self t k) = getCoreID k"
  "this_core (queued_self t k) = this_core k" "gCurrentThreads (queued_self t k) = gCurrentThreads k"
  "getThread h (queued_self t k) = getThread h k"
  "gThreadLists (queued_self t k) =
     (gThreadLists k)(unat (affinity t) := gThreadLists k (unat (affinity t)) @ [getCurrentHandle k])"
  by (simp_all add: queued_self_def)

lemma thread_of_queued_self:
  "thread_of (getCurrentHandle k) k \<noteq> None \<Longrightarrow> thread_of h (queued_self t k) =
     (if getThread h k = getThread (getCurrentHandle k) k then Some (t\<lparr>status := READY\<rparr>) else thread_of h k)"
  by (simp add: queued_self_def thread_of_set)

lemma yield_facts:
  assumes ok: "sched_ok k" and cur: "getCurrentHandle k \<noteq> INVALID_THREAD" and free: "\<not> gSchedulerLock k"
  obtains t where "thread_of (getCurrentHandle k) k = Some t" "unat (affinity t) < NUM_CORES"
    "priority t = prio k (getCurrentHandle k)"
    "yieldThread k = and_then (rescheduleNoLock (queued_self t k)) (\<lambda>k. Inr (unlockScheduler k))"
    "thread_of (getCurrentHandle k) (queued_self t k) = Some (t\<lparr>status := READY\<rparr>)"
    "\<And>h. valid k h \<Longrightarrow> prio (queued_self t k) h = prio k h"
    "\<And>h. valid k h \<Longrightarrow> valid (queued_self t k) h"
    "\<forall>h\<in>set (gThreadLists (queued_self t k) (getCoreID k)). valid k h"
proof -
  obtain t where t: "thread_of (getCurrentHandle k) k = Some t" "status t = RUNNING" "unat (affinity t) < NUM_CORES"
    using ok cur by (auto simp: sched_ok_def split: option.splits)
  have "queueThreadNoLock (getCurrentHandle k) (k\<lparr>gSchedulerLock := True\<rparr>) = Inr (queued_self t k)"
    using queue_valid [of "getCurrentHandle k" "k\<lparr>gSchedulerLock := True\<rparr>" t] t by (simp add: queued_self_def)
  then have "yieldThread k = and_then (rescheduleNoLock (queued_self t k)) (\<lambda>k. Inr (unlockScheduler k))"
    using free by (simp add: yieldThread_def lockScheduler_def)
  moreover have "prio (queued_self t k) h = prio k h \<and> valid (queued_self t k) h" if "valid k h" for h
    using that t thread_of_eq [of h k "getCurrentHandle k"] by (auto simp: valid_def prio_def thread_of_queued_self)
  moreover have "\<forall>h\<in>set (gThreadLists (queued_self t k) (getCoreID k)). valid k h"
    using ok t cur by (auto simp: sched_ok_def valid_def)
  ultimately show thesis
    using that [of t] t by (simp add: prio_def thread_of_queued_self)
qed

text \<open>
  A running thread that yields to threads of the same or a lower priority does not hand the core over and does not
  keep it: the core goes idle, although the yielding thread is queued (the search for the next
  thread is bounded by the priority of the thread that yields, which by then is no longer running).
\<close>

theorem yield_idles_core:
  assumes ok: "sched_ok k" and cur: "getCurrentHandle k \<noteq> INVALID_THREAD" and free: "\<not> gSchedulerLock k"
    and best: "\<forall>h\<in>set (gThreadLists k (getCoreID k)). prio k (getCurrentHandle k) \<le> prio k h"
  shows "\<exists>k'. yieldThread k = Inr k' \<and> gCurrentThreads k' (getCoreID k) = INVALID_THREAD \<and> \<not> isActive (this_core k')
    \<and> queued k' = queued k + {#getCurrentHandle k#}"
proof -
  obtain t where t: "unat (affinity t) < NUM_CORES" "priority t = prio k (getCurrentHandle k)"
    "yieldThread k = and_then (rescheduleNoLock (queued_self t k)) (\<lambda>k. Inr (unlockScheduler k))"
    "thread_of (getCurrentHandle k) (queued_self t k) = Some (t\<lparr>status := READY\<rparr>)"
    "\<And>h. valid k h \<Longrightarrow> prio (queued_self t k) h = prio k h" "\<And>h. valid k h \<Longrightarrow> valid (queued_self t k) h"
    "\<forall>h\<in>set (gThreadLists (queued_self t k) (getCoreID k)). valid k h"
    using yield_facts [OF ok cur free] by metis
  have "\<forall>h\<in>set (gThreadLists (queued_self t k) (getCoreID k)). priority t \<le> prio k h"
    using best t(2) by auto
  then have "popBest (gThreadLists (queued_self t k) (getCoreID k)) (priority t) (queued_self t k)
      = Inr (INVALID_THREAD, gThreadLists (queued_self t k) (getCoreID k))"
    using t(5-7) by (intro popBest_none) metis
  with t(4) cur obtain k' where k': "rescheduleNoLock (queued_self t k) = Inr k'"
      "gCurrentThreads k' = (gCurrentThreads k)(getCoreID k := INVALID_THREAD)" "\<not> isActive (this_core k')"
      "gThreadLists k' = gThreadLists (queued_self t k)"
    using reschedule_blocked_idle [of "queued_self t k" "t\<lparr>status := READY\<rparr>"] by auto
  have "queued (unlockScheduler k') = queued k + {#getCurrentHandle k#}"
    using sum_mset_upd [OF t(1), of "gThreadLists k" "gThreadLists k (unat (affinity t)) @ [getCurrentHandle k]"] k'(4)
    by (simp add: queued_def unlockScheduler_def)
  then show ?thesis using k' t(3) by (simp add: unlockScheduler_def)
qed

theorem yield_idles_core_witness:
  "\<exists>k'. yieldThread (demo_kernel 10 RUNNING 10) = Inr k' \<and> gCurrentThreads k' 0 = INVALID_THREAD
     \<and> \<not> isActive (this_core k') \<and> queued k' = {#1, 2#}"
proof -
  have "sched_ok (demo_kernel 10 RUNNING 10)"
    by (simp add: sched_ok_def demo_fields demo_valid demo_threads demo_handles NUM_CORES_def NO_PRIORITY_def)
       (simp add: demo_thread_def new_Thread_def DEFAULT_CORE_def)
  moreover have "prio (demo_kernel 10 RUNNING 10) 1 = 10"
    by (simp add: prio_def demo_threads demo_thread_def new_Thread_def)
  moreover have "queued (demo_kernel 10 RUNNING 10) = {#2#}"
    by (simp add: queued_def demo_fields NUM_CORES_def lessThan_Suc numeral_eq_Suc)
  ultimately show ?thesis
    using yield_idles_core [of "demo_kernel 10 RUNNING 10"]
    by (simp add: demo_fields demo_valid INVALID_THREAD_def add_mset_commute)
qed

lemma yield_switches:
  assumes ok: "sched_ok k" and cur: "getCurrentHandle k \<noteq> INVALID_THREAD" and free: "\<not> gSchedulerLock k"
    and better: "\<exists>h\<in>set (gThreadLists k (getCoreID k)). prio k h < prio k (getCurrentHandle k)"
  shows "\<exists>k' h u. yieldThread k = Inr k' \<and> h \<in> set (gThreadLists k (getCoreID k)) \<and> thread_of h k = Some u
    \<and> gCurrentThreads k' (getCoreID k) = h \<and> this_core k' = (loaded u (this_core k))\<lparr>isActive := True\<rparr>"
proof -
  obtain t where t: "thread_of (getCurrentHandle k) k = Some t" "priority t = prio k (getCurrentHandle k)"
    "yieldThread k = and_then (rescheduleNoLock (queued_self t k)) (\<lambda>k. Inr (unlockScheduler k))"
    "thread_of (getCurrentHandle k) (queued_self t k) = Some (t\<lparr>status := READY\<rparr>)"
    "\<And>h. valid k h \<Longrightarrow> prio (queued_self t k) h = prio k h" "\<And>h. valid k h \<Longrightarrow> valid (queued_self t k) h"
    "\<forall>h\<in>set (gThreadLists (queued_self t k) (getCoreID k)). valid k h"
    using yield_facts [OF ok cur free] by metis
  have "\<forall>h\<in>set (gThreadLists (queued_self t k) (getCoreID k)). valid (queued_self t k) h"
    using t(6,7) by blast
  then show ?thesis
  proof (cases rule: popBest_cases [where b = "priority t"])
    case none
    from better obtain x where x: "x \<in> set (gThreadLists k (getCoreID k))" "prio k x < priority t" using t(2) by auto
    then have "valid k x" "x \<in> set (gThreadLists (queued_self t k) (getCoreID k))" using ok by (auto simp: sched_ok_def)
    then have "priority t \<le> prio k x" using none(2) t(5) [of x] by force
    then show ?thesis using x(2) by simp
  next
    case (best xs h ys)
    have h_in: "h \<in> set (gThreadLists (queued_self t k) (getCoreID k))" using best(1) by simp
    then have vh: "valid k h" using t(7) by blast
    have "prio k h < prio k (getCurrentHandle k)" using best(3) t(2) t(5) [OF vh] by (simp add: is_best_def)
    then have ne: "h \<noteq> getCurrentHandle k" "getThread h k \<noteq> getThread (getCurrentHandle k) k"
      using thread_of_eq [of h k "getCurrentHandle k"] by (auto simp: prio_def)
    then have h: "h \<in> set (gThreadLists k (getCoreID k))" using h_in by (auto split: if_splits)
    obtain u where u: "thread_of h k = Some u" "h \<noteq> INVALID_THREAD" using vh by (auto simp: valid_def)
    have u1: "thread_of h (queued_self t k) = Some u" using u ne t(1) by (simp add: thread_of_queued_self)
    obtain k' where k': "rescheduleNoLock (queued_self t k) = Inr k'" "gCurrentThreads k' = (gCurrentThreads k)(getCoreID k := h)"
        "this_core k' = (loaded u (this_core k))\<lparr>isActive := True\<rparr>"
      using reschedule_blocked_switch [of "queued_self t k" "t\<lparr>status := READY\<rparr>" h "xs @ ys" u] t(4) cur best(2) u u1 ne
      by (auto simp: getCurrentThread_def)
    then show ?thesis using h u(1) t(3) by (auto simp: unlockScheduler_def)
  qed
qed

subsection \<open>Registers across context switches\<close>

definition same_registers :: "Core \<Rightarrow> Core \<Rightarrow> bool" where
  "same_registers c d \<longleftrightarrow> (\<forall>r. r \<noteq> 31 \<longrightarrow> GPRegs c r = GPRegs d r) \<and> VRegs c = VRegs d \<and> PC c = PC d \<and> SP c = SP d
     \<and> PSTATE c = PSTATE d \<and> TLSAddr c = TLSAddr d"

text \<open>
  C22. A thread that is switched out and, with its context untouched, switched in again, on whatever core and
  whatever thread ran there before, finds all its registers, flags, stack pointer, program counter and thread-local storage
  pointer as they were; the exclusive monitor of the core is cleared.
\<close>

theorem context_roundtrip:
  assumes "thread_of (getCurrentHandle k) k = Some t" and "contextSwitch (getThread h k) k = Inr k1"
    and "getThread h k \<noteq> getCurrentThread k"
    and "thread_of (getCurrentHandle k) k2 = thread_of (getCurrentHandle k) k1"
    and "getCurrentThread k2 \<noteq> getThread (getCurrentHandle k) k2"
    and "contextSwitch (getThread (getCurrentHandle k) k2) k2 = Inr k3"
  shows "same_registers (this_core k3) (this_core k) \<and> \<not> exclusiveAccess (this_core k3)"
proof -
  let ?cur = "getCurrentHandle k"
  have "thread_of ?cur k1 = Some (saved (this_core k) t)"
  proof (cases "getThread h k")
    case None
    then show ?thesis using assms(1,2) contextSwitch_out [OF assms(1)] by (auto simp: thread_of_set)
  next
    case (Some a)
    then obtain u where "thread_of h k = Some u"
      using contextSwitch_new_valid [OF assms(2,1) _ assms(3)] by auto
    then show ?thesis using assms(1-3) by (auto simp: contextSwitch_between thread_of_set)
  qed
  then have out: "thread_of ?cur k2 = Some (saved (this_core k) t)" using assms(4) by simp
  show ?thesis
  proof (cases "getCurrentThread k2")
    case None
    then have "this_core k3 = loaded (saved (this_core k) t) (this_core k2)"
      using assms(6) contextSwitch_in [OF None out] by auto
    then show ?thesis by (simp add: same_registers_def loaded_def saved_def restoreState_def saveState_def)
  next
    case (Some a)
    then obtain v where "thread_of (getCurrentHandle k2) k2 = Some v"
      using contextSwitch_old_valid [OF assms(6)] by auto
    then have "this_core k3 = loaded (saved (this_core k) t) (this_core k2)"
      using assms(5,6) contextSwitch_between [OF _ out] by auto
    then show ?thesis by (simp add: same_registers_def loaded_def saved_def restoreState_def saveState_def)
  qed
qed

theorem context_roundtrip_witness:
  "\<exists>k1 k3. contextSwitch (getThread 2 (demo_kernel 20 RUNNING 10)) (demo_kernel 20 RUNNING 10) = Inr k1
     \<and> contextSwitch (getThread 1 k1) (k1\<lparr>gCurrentThreads := (\<lambda>_. 2)\<rparr>) = Inr k3
     \<and> PC (this_core k1) = 0x2000 \<and> same_registers (this_core k3) (this_core (demo_kernel 20 RUNNING 10))"
proof -
  let ?k = "demo_kernel 20 RUNNING 10" let ?t = "demo_thread 0x1000 20 RUNNING" let ?u = "demo_thread 0x2000 10 READY"
  let ?k1 = "upd_this (loaded ?u) (set_thread 1 (saved (this_core ?k) ?t) ?k)"
  let ?k2 = "?k1\<lparr>gCurrentThreads := (\<lambda>_. 2)\<rparr>"
  have k1: "contextSwitch (getThread 2 ?k) ?k = Inr ?k1"
    using contextSwitch_between [of ?k ?t 2 ?u] by (simp add: demo_fields demo_threads demo_handles)
  have k2: "getCurrentHandle ?k2 = 2" "getCurrentThread ?k2 = Some 1"
    "thread_of 2 ?k2 = Some ?u" "thread_of 1 ?k2 = Some (saved (this_core ?k) ?t)" "getThread 1 ?k2 = Some 0"
    by (simp_all add: getCurrentHandle_def getCurrentThread_def thread_of_set demo_threads demo_handles)
  obtain k3 where k3: "contextSwitch (getThread 1 ?k2) ?k2 = Inr k3"
    using contextSwitch_between [of ?k2 ?u 1 "saved (this_core ?k) ?t"] k2 by simp
  have "same_registers (this_core k3) (this_core ?k)"
    using context_roundtrip [of ?k ?t 2 ?k1 ?k2 k3] k1 k2 k3
    by (simp add: demo_fields demo_threads demo_handles)
  moreover have "PC (this_core ?k1) = 0x2000"
    by (simp add: loaded_def restoreState_def demo_thread_def new_Thread_def)
  ultimately show ?thesis using k1 k3 by (intro exI [of _ ?k1] exI [of _ k3]) simp
qed

end
