(* ===== verification/Ipc.thy ===== *)
theory Ipc
  imports Scheduler
begin

text \<open>
  Inter-process calls, \<^verbatim>\<open>hle/ipc.cpp\<close> and \<^verbatim>\<open>hle/ipc.h\<close>, and the dispatch to a service, \<^verbatim>\<open>hle/service.cpp\<close>. A call parses the message in
  guest memory into an \<^verbatim>\<open>IpcInfo\<close>, runs a function of the interface the handle designates and writes the reply over the message.

  \<open>interfaces\<close> gives the function table of each class of interfaces (\<^verbatim>\<open>mFunctions\<close>, with \<open>None\<close> for a null pointer). It is an argument here; the
  theories of the services define the tables. Log output is left out, but not
  the memory reads of \<^verbatim>\<open>debug::dumpMem\<close>, which may fault.
\<close>

unbundle bit_operations_syntax

definition CURRENT_THREAD :: handle_t where "CURRENT_THREAD = 0xFFFF8000"
definition CURRENT_PROCESS :: handle_t where "CURRENT_PROCESS = 0xFFFF8001"

record PointerDescriptor =
  ptr_counter :: u64
  ptr_address :: u64
  ptr_size :: u64

record RegularDescriptor =
  desc_flags :: u64
  desc_address :: u64
  desc_size :: u64

record ReceiveListDescriptor =
  recv_address :: u64
  recv_size :: u64

record IpcInfo =
  pid :: u64
  cmdId :: u32
  sendDescriptors :: "RegularDescriptor list"
  recvDescriptors :: "RegularDescriptor list"
  transDescriptors :: "RegularDescriptor list"
  staticInDescriptors :: "PointerDescriptor list"
  staticOutDescriptors :: "ReceiveListDescriptor list"
  copiedHandles :: "handle_t list"
  movedHandles :: "handle_t list"
  argData :: "u8 list"
  rawData :: u64
  info_buffer :: u64
  info_isDomain :: bool
  domainCmd :: u8
  domainSize :: u16
  domainObjId :: u32

definition empty_info :: IpcInfo where
  "empty_info = \<lparr>pid = 0, cmdId = 0, sendDescriptors = [], recvDescriptors = [], transDescriptors = [],
     staticInDescriptors = [], staticOutDescriptors = [], copiedHandles = [], movedHandles = [], argData = [], rawData = 0,
     info_buffer = 0, info_isDomain = False, domainCmd = 0, domainSize = 0, domainObjId = 0\<rparr>"

subsection \<open>Replies\<close>

record IpcMessageCons =
  memOffset :: u64
  isReply :: bool
  cons_isDomain :: bool
  cons_type :: u16
  dataBuf :: "u8 list"
  cons_copied :: "handle_t list"
  cons_moved :: "handle_t list"
  cons_error :: u64

definition new_IpcMessageCons :: "bool \<Rightarrow> u16 \<Rightarrow> IpcInfo \<Rightarrow> IpcMessageCons" where
  "new_IpcMessageCons reply type info =
     \<lparr>memOffset = info_buffer info, isReply = reply, cons_isDomain = info_isDomain info, cons_type = type, dataBuf = [],
      cons_copied = [], cons_moved = [], cons_error = 0\<rparr>"

definition writeData :: "u64 \<Rightarrow> IpcMessageCons \<Rightarrow> IpcMessageCons" where
  "writeData v r = r\<lparr>dataBuf := dataBuf r @ le_bytes 8 v\<rparr>"

definition writeError :: "u64 \<Rightarrow> IpcMessageCons \<Rightarrow> IpcMessageCons" where
  "writeError err r = r\<lparr>cons_error := err\<rparr>"

definition writeCommandId :: "u64 \<Rightarrow> IpcMessageCons \<Rightarrow> IpcMessageCons" where
  "writeCommandId i r = r\<lparr>cons_error := i\<rparr>"

text \<open>\<^verbatim>\<open>writeArgs\<close> appends the bytes of an object in memory.\<close>

definition writeArgs :: "u8 list \<Rightarrow> IpcMessageCons \<Rightarrow> IpcMessageCons" where
  "writeArgs bytes r = r\<lparr>dataBuf := dataBuf r @ bytes\<rparr>"

definition copyHandle :: "handle_t \<Rightarrow> IpcMessageCons \<Rightarrow> IpcMessageCons" where
  "copyHandle handle r = r\<lparr>cons_copied := cons_copied r @ [handle]\<rparr>"

definition moveHandle :: "handle_t \<Rightarrow> IpcMessageCons \<Rightarrow> IpcMessageCons" where
  "moveHandle handle r = r\<lparr>cons_moved := cons_moved r @ [handle]\<rparr>"

text \<open>A sequence of guest writes: size in bytes, address, value.\<close>

fun write_all :: "(nat \<times> u64 \<times> u64) list \<Rightarrow> Kernel \<Rightarrow> fault + Kernel" where
  "write_all [] k = Inr k"
| "write_all ((sz, addr, v) # ws) k = and_then (kwrite sz addr v k) (write_all ws)"

definition at_each :: "nat \<Rightarrow> u64 \<Rightarrow> u64 list \<Rightarrow> (nat \<times> u64 \<times> u64) list" where
  "at_each sz addr vs = map (\<lambda>i. (sz, addr + of_nat (sz * i), vs ! i)) [0..<length vs]"

definition align16 :: "u64 \<Rightarrow> u64" where
  "align16 n = (if n mod 0x10 \<noteq> 0 then n + (0x10 - n mod 0x10) else n)"

definition domain_objects :: "IpcMessageCons \<Rightarrow> IpcMessageCons" where
  "domain_objects r = (if cons_isDomain r
     then r\<lparr>dataBuf := dataBuf r @ concat (map (\<lambda>h. le_bytes 4 (ucast h)) (cons_moved r)), cons_moved := []\<rparr> else r)"

definition construct_writes :: "IpcMessageCons \<Rightarrow> (nat \<times> u64 \<times> u64) list" where
  "construct_writes r0 =
     (let numObjects = (if cons_isDomain r0 then of_nat (length (cons_moved r0)) else 0);
          r = domain_objects r0;
          mem = memOffset r;
          handles = cons_copied r @ cons_moved r;
          handleDesc = (handles \<noteq> []);
          word0 = ucast (cons_type r);
          word1 = (8 + of_nat ((length (dataBuf r) + 3) div 4) + (if cons_isDomain r then 4 else 0))
                  OR (if handleDesc then 0x80000000 else 0);
          size = align16 (if handleDesc then 12 + of_nat (4 * length handles) else 8);
          body = (if cons_isDomain r then size + 0x10 else size)
      in at_each 1 mem (replicate 0x100 0)
         @ [(4, mem, word0), (4, mem + 4, word1)]
         @ (if handleDesc
            then (4, mem + 8, of_nat (length (cons_copied r) * 2) OR of_nat (length (cons_moved r) * 32))
                 # at_each 4 (mem + 12) (map ucast handles)
            else [])
         @ (if cons_isDomain r then at_each 4 (mem + size) [numObjects, 0, 0, 0] else [])
         @ [(1, mem + body, 0x53), (1, mem + body + 1, 0x46), (1, mem + body + 2, 0x43),
            (1, mem + body + 3, if isReply r then 0x4F else 0x49), (8, mem + body + 8, cons_error r)]
         @ at_each 1 (mem + body + 16) (map ucast (dataBuf r)))"

definition construct :: "IpcMessageCons \<Rightarrow> Kernel \<Rightarrow> fault + Kernel" where
  "construct r k = write_all (construct_writes r) k"

subsection \<open>Requests\<close>

fun read_array :: "nat \<Rightarrow> (u64 \<Rightarrow> Kernel \<Rightarrow> fault + 'a \<times> Kernel) \<Rightarrow> u64 \<Rightarrow> u64 \<Rightarrow> Kernel \<Rightarrow> fault + 'a list \<times> Kernel" where
  "read_array 0 f stride a k = Inr ([], k)"
| "read_array (Suc n) f stride a k =
     and_then (f a k) (\<lambda>(x, k). and_then (read_array n f stride (a + stride) k) (\<lambda>(xs, k). Inr (x # xs, k)))"

definition read_copied_handle :: "u64 \<Rightarrow> Kernel \<Rightarrow> fault + handle_t \<times> Kernel" where
  "read_copied_handle a k =
     and_then (kread 4 a k) (\<lambda>(v, k). let copiedHandle = ucast v in
       Inr (if copiedHandle = CURRENT_PROCESS then gCurrentProcess k
            else if copiedHandle = CURRENT_THREAD then getCurrentHandle k else copiedHandle, k))"

definition read_moved_handle :: "u64 \<Rightarrow> Kernel \<Rightarrow> fault + handle_t \<times> Kernel" where
  "read_moved_handle a k = and_then (kread 4 a k) (\<lambda>(v, k). Inr (ucast v, k))"

definition read_static_in :: "u64 \<Rightarrow> Kernel \<Rightarrow> fault + PointerDescriptor \<times> Kernel" where
  "read_static_in a k =
     and_then (kread 4 a k) (\<lambda>(descWord0, k). and_then (kread 4 (a + 4) k) (\<lambda>(descWord1, k).
       Inr (\<lparr>ptr_counter = 0,
             ptr_address = descWord1 OR shl (bitRange 12 15 descWord0) 32 OR shl (bitRange 6 8 descWord0) 36,
             ptr_size = bitRange 16 31 descWord0\<rparr>, k)))"

definition read_regular :: "u64 \<Rightarrow> Kernel \<Rightarrow> fault + RegularDescriptor \<times> Kernel" where
  "read_regular a k =
     and_then (kread 4 a k) (\<lambda>(descWord0, k). and_then (kread 4 (a + 4) k) (\<lambda>(descWord1, k).
     and_then (kread 4 (a + 8) k) (\<lambda>(descWord2, k).
       Inr (\<lparr>desc_flags = bitRange 0 1 descWord2,
             desc_address = descWord1 OR shl (bitRange 28 31 descWord2) 32 OR shl (bitRange 2 4 descWord2) 36,
             desc_size = descWord0 OR shl (bitRange 24 27 descWord2) 32\<rparr>, k))))"

text \<open>The sizes \<open>sizeStart\<close> points to are read for a log message only.\<close>

fun read_static_outs :: "nat \<Rightarrow> u64 \<Rightarrow> u64 \<Rightarrow> Kernel \<Rightarrow> fault + ReceiveListDescriptor list \<times> Kernel" where
  "read_static_outs 0 sizeStart a k = Inr ([], k)"
| "read_static_outs (Suc n) sizeStart a k =
     and_then (kread 2 sizeStart k) (\<lambda>(_, k). and_then (kread 4 a k) (\<lambda>(descWord0, k).
     and_then (kread 4 (a + 4) k) (\<lambda>(descWord1, k).
     and_then (read_static_outs n (sizeStart + 2) (a + 8) k) (\<lambda>(ds, k).
       Inr (\<lparr>recv_address = descWord0 OR bitRange 0 15 descWord1, recv_size = bitRange 16 31 descWord1\<rparr> # ds, k)))))"

record IpcHeader =
  ipc_type :: u64
  wordCount :: u64
  cFlags :: u64

text \<open>The message up to the raw data: the header, what it describes, and the offset after the descriptors.\<close>

definition parse_descriptors :: "u64 \<Rightarrow> Kernel \<Rightarrow> fault + (IpcHeader \<times> u64 \<times> IpcInfo) \<times> Kernel" where
  "parse_descriptors buffer k =
     and_then (kread 4 buffer k) (\<lambda>(word0, k). and_then (kread 4 (buffer + 4) k) (\<lambda>(word1, k).
     and_then (if testBit 31 word1 then kread 4 (buffer + 8) k else Inr (0, k)) (\<lambda>(word2, k).
     let offset0 = (if testBit 31 word1 then 12 else 8);
         sendPid = testBit 0 word2;
         nCopy = unat (bitRange 1 4 word2); nMove = unat (bitRange 5 8 word2);
         nX = unat (bitRange 16 19 word0); nA = unat (bitRange 20 23 word0);
         nB = unat (bitRange 24 27 word0); nW = unat (bitRange 28 31 word0);
         offset1 = (if sendPid then offset0 + 8 else offset0);
         offset2 = offset1 + of_nat (4 * nCopy); offset3 = offset2 + of_nat (4 * nMove);
         offset4 = offset3 + of_nat (8 * nX); offset5 = offset4 + of_nat (12 * nA);
         offset6 = offset5 + of_nat (12 * nB); offset7 = offset6 + of_nat (12 * nW)
     in and_then (if sendPid then kread 8 (buffer + 12) k else Inr (0, k)) (\<lambda>(pid', k).
        and_then (read_array nCopy read_copied_handle 4 (buffer + offset1) k) (\<lambda>(copied, k).
        and_then (read_array nMove read_moved_handle 4 (buffer + offset2) k) (\<lambda>(moved, k).
        and_then (read_array nX read_static_in 8 (buffer + offset3) k) (\<lambda>(xs, k).
        and_then (read_array nA read_regular 12 (buffer + offset4) k) (\<lambda>(as, k).
        and_then (read_array nB read_regular 12 (buffer + offset5) k) (\<lambda>(bs, k).
        and_then (read_array nW read_regular 12 (buffer + offset6) k) (\<lambda>(ws, k).
          Inr ((\<lparr>ipc_type = bitRange 0 15 word0, wordCount = bitRange 0 9 word1, cFlags = bitRange 10 13 word1\<rparr>,
                offset7,
                empty_info\<lparr>info_buffer := buffer, pid := pid', copiedHandles := copied, movedHandles := moved,
                           staticInDescriptors := xs, sendDescriptors := as, recvDescriptors := bs,
                           transDescriptors := ws\<rparr>), k)))))))))))"

definition parse_static_outs :: "IpcHeader \<Rightarrow> u64 \<Rightarrow> Kernel \<Rightarrow> fault + ReceiveListDescriptor list \<times> Kernel" where
  "parse_static_outs header rawDataStart k =
     (if cFlags header = 0 \<or> cFlags header = 1 then Inr ([], k)
      else let numCBuffs = (if cFlags header = 2 then 1 else cFlags header - 2);
               sizeOfCBufferSizes = (numCBuffs + 1) div 2
           in read_static_outs (unat numCBuffs) (rawDataStart + (wordCount header - sizeOfCBufferSizes) * 4)
                (rawDataStart + wordCount header * 4) k)"

fun inspect_all :: "nat \<Rightarrow> u64 \<Rightarrow> Memory \<Rightarrow> fault + u64 list" where
  "inspect_all 0 a m = Inr []"
| "inspect_all (Suc n) a m = and_then (inspect 1 a m) (\<lambda>v. and_then (inspect_all n (a + 1) m) (\<lambda>vs. Inr (v # vs)))"

definition dumpMem :: "u64 \<Rightarrow> u64 \<Rightarrow> Memory \<Rightarrow> fault + u64 list" where
  "dumpMem addr len m =
     (let startAddr = addr AND NOT 0xF; endAddr = (addr + len + 0xF) AND NOT 0xF
      in inspect_all (unat endAddr - unat startAddr) startAddr m)"

subsection \<open>Dispatch\<close>

type_synonym InterfaceFunc = "IpcInfo \<Rightarrow> IpcMessageCons \<Rightarrow> Kernel \<Rightarrow> fault + u32 \<times> IpcMessageCons \<times> Kernel"

type_synonym Interfaces = "Interface \<Rightarrow> (u32 \<times> InterfaceFunc option) list"

definition handleSyncRequest :: "(u32 \<times> InterfaceFunc option) list \<Rightarrow> IpcInfo \<Rightarrow> Kernel \<Rightarrow> fault + Kernel" where
  "handleSyncRequest mFunctions info k =
     (case find (\<lambda>(i, func). i = cmdId info \<and> func \<noteq> None) mFunctions of
        Some (_, Some func) \<Rightarrow>
          and_then (func info (new_IpcMessageCons True 0 info) k)
            (\<lambda>(err, reply, k). construct (writeError (ucast err) reply) k)
      | _ \<Rightarrow> Inr k)"

definition connect :: "Interface \<Rightarrow> Kernel \<Rightarrow> handle_t \<times> Kernel" where
  "connect interface k = new_object (InterfaceObject interface False) k"

text \<open>The interface behind a handle: \<open>None\<close> when the handle designates nothing.\<close>

definition interface_of :: "handle_t \<Rightarrow> Kernel \<Rightarrow> fault + (Interface \<times> bool) option" where
  "interface_of handle k = (case fst (lookupObject handle (gHandles k)) of
     None \<Rightarrow> Inr None
   | Some a \<Rightarrow> (case heap k a of Some (InterfaceObject i d) \<Rightarrow> Inr (Some (i, d)) | _ \<Rightarrow> Inl BadCast))"

definition set_domain :: "handle_t \<Rightarrow> Kernel \<Rightarrow> Kernel" where
  "set_domain handle k = (case fst (lookupObject handle (gHandles k)) of
     Some a \<Rightarrow> (case heap k a of Some (InterfaceObject i d) \<Rightarrow> k\<lparr>heap := (heap k)(a \<mapsto> InterfaceObject i True)\<rparr> | _ \<Rightarrow> k)
   | None \<Rightarrow> k)"

definition control_request :: "handle_t \<Rightarrow> IpcInfo \<Rightarrow> Kernel \<Rightarrow> fault + Kernel" where
  "control_request handle info k =
     (let reply = writeError 0 (new_IpcMessageCons True 0 info)
      in if cmdId info = 0 then
           and_then (construct (writeArgs (le_bytes 4 (ucast handle)) reply) k) (\<lambda>k. Inr (set_domain handle k))
         else if cmdId info = 2 \<or> cmdId info = 4 then construct (moveHandle handle reply) k
         else if cmdId info = 3 then construct (writeData 0x500 reply) k
         else Inr k)"

text \<open>
  What is done with the parsed message, and the value returned. A handle that designates no interface returns before
  the final dump of the message.
\<close>

definition dispatch :: "Interfaces \<Rightarrow> handle_t \<Rightarrow> u64 \<Rightarrow> IpcInfo \<Rightarrow> Kernel \<Rightarrow> fault + u64 \<times> Kernel" where
  "dispatch interfaces handle type info k =
     (let finish = (\<lambda>v k. and_then (dumpMem (info_buffer info) 0x80 (kmem k)) (\<lambda>_. Inr (v, k)));
          call = (\<lambda>target. and_then (interface_of target k)
            (\<lambda>inter. case inter of None \<Rightarrow> Inr (0, k)
               | Some (i, _) \<Rightarrow> and_then (handleSyncRequest (interfaces i) info k) (finish 0)))
      in if info_isDomain info \<and> type \<noteq> 5 then
           if domainCmd info = 1 then call (domainObjId info) else finish 0 k
         else if type = 4 then call handle
         else if type = 5 then and_then (control_request handle info k) (finish 0)
         else if type = 2 then
           and_then (construct (writeError 0 (new_IpcMessageCons True 0 info)) k) (finish 0xf601)
         else finish 0 k)"

definition doIpcCall :: "Interfaces \<Rightarrow> handle_t \<Rightarrow> u64 \<Rightarrow> u64 \<Rightarrow> Kernel \<Rightarrow> fault + u64 \<times> Kernel" where
  "doIpcCall interfaces handle buffer len k =
     and_then (parse_descriptors buffer k) (\<lambda>((header, offset0, info), k).
     let rawDataStart = buffer + offset0; offset1 = align16 offset0; type = ipc_type header in
     and_then (parse_static_outs header rawDataStart k) (\<lambda>(outs, k).
     let info = info\<lparr>staticOutDescriptors := outs\<rparr> in
     and_then (interface_of handle k) (\<lambda>object. case object of
       None \<Rightarrow> Inr (0, k)
     | Some (_, isDomain) \<Rightarrow>
         and_then (if isDomain \<and> type \<noteq> 5
                   then and_then (kread 1 (buffer + offset1) k) (\<lambda>(cmd, k).
                        and_then (kread 2 (buffer + offset1 + 2) k) (\<lambda>(sz, k).
                        and_then (kread 4 (buffer + offset1 + 4) k) (\<lambda>(ob, k).
                          Inr ((offset1 + 0x10, info\<lparr>domainCmd := ucast cmd, domainSize := ucast sz, domainObjId := ucast ob\<rparr>), k))))
                   else Inr ((offset1, info), k)) (\<lambda>((offset, info), k).
         let raw = buffer + offset; info = info\<lparr>rawData := raw, info_isDomain := isDomain\<rparr> in
         and_then (kread 4 (raw + 8) k) (\<lambda>(cmd, k).
         and_then (read_array (unat (wordCount header) * 4) (\<lambda>a k. and_then (kread 1 a k) (\<lambda>(v, k). Inr (ucast v, k))) 1 (raw + 16) k)
           (\<lambda>(args, k).
         let info = info\<lparr>cmdId := ucast cmd, argData := args\<rparr> in
         and_then (dumpMem buffer 0x80 (kmem k)) (\<lambda>_.
         if \<not> (isDomain \<and> domainCmd info = 2) \<and> type \<noteq> 2 then
           and_then (kread 4 raw k) (\<lambda>(magic, k).
             if magic \<noteq> 0x49434653 then and_then (kread 4 raw k) (\<lambda>(_, k). Inr (0, k))
             else dispatch interfaces handle type info k)
         else dispatch interfaces handle type info k)))))))"

end
