(* ===== verification/Alarm.thy ===== *)
theory Alarm
  imports Scheduler
begin

text \<open>
  Alarms and the clock, \<^verbatim>\<open>hle/kernel/alarm.cpp\<close> and \<^verbatim>\<open>hle/kernel/clock.cpp\<close>. The alarms are the elements of a \<^verbatim>\<open>std::vector\<close>
  of capacity \<open>gAlarmCapacity\<close>. A \<^verbatim>\<open>push_back\<close> on a full vector moves the elements into larger storage with the move constructor
  of \<^verbatim>\<open>Alarm\<close>, which copies \<^verbatim>\<open>triggerTime\<close> only, and then runs the destructor of every old element, which queues the
  threads that wait on it. The time, \<^verbatim>\<open>getTimeInNanoseconds\<close>, reads the host's clock and is the argument \<open>now\<close>.
\<close>

unbundle bit_operations_syntax

definition new_Alarm :: "u64 \<Rightarrow> Alarm" where
  "new_Alarm t = \<lparr>triggerTime = t, hasTriggered = False, alarmWaiting = []\<rparr>"

definition move_Alarm :: "Alarm \<Rightarrow> Alarm" where
  "move_Alarm other = new_Alarm (triggerTime other)"

definition destroy_Alarm :: "Alarm \<Rightarrow> Kernel \<Rightarrow> fault + Kernel" where
  "destroy_Alarm a k = queue_all (alarmWaiting a) k"

definition set_alarm :: "nat \<Rightarrow> Alarm \<Rightarrow> Kernel \<Rightarrow> Kernel" where
  "set_alarm i a k = k\<lparr>gAlarms := (gAlarms k)[i := a]\<rparr>"

definition due :: "u64 \<Rightarrow> Alarm \<Rightarrow> bool" where
  "due time a \<longleftrightarrow> time \<ge> triggerTime a \<and> \<not> hasTriggered a"

definition update :: "u64 \<Rightarrow> nat \<Rightarrow> Kernel \<Rightarrow> fault + bool \<times> Kernel" where
  "update time i k =
     (let a = gAlarms k ! i
      in if due time a then
           and_then (queue_all (alarmWaiting a) (set_alarm i (a\<lparr>hasTriggered := True\<rparr>) k))
             (\<lambda>k. Inr (True, send_to 0 GENERIC_INTERRUPT (set_alarm i (a\<lparr>hasTriggered := True, alarmWaiting := []\<rparr>) k)))
         else Inr (hasTriggered a, k))"

definition alarm_wait :: "handle_t \<Rightarrow> nat \<Rightarrow> Kernel \<Rightarrow> fault + Kernel" where
  "alarm_wait handle i k =
     (let a = gAlarms k ! i
      in and_then
        (if hasTriggered a then queueThreadNoLock handle k
         else let k = set_alarm i (a\<lparr>alarmWaiting := alarmWaiting a @ [handle]\<rparr>) k
              in upd_thread (getThread handle k) wait k)
        (\<lambda>k. Inr (send_to 0 GENERIC_INTERRUPT k)))"

fun update_from :: "u64 \<Rightarrow> nat \<Rightarrow> nat \<Rightarrow> Kernel \<Rightarrow> fault + Kernel" where
  "update_from time i 0 k = Inr k"
| "update_from time i (Suc n) k = and_then (update time i k) (\<lambda>(_, k). update_from time (Suc i) n k)"

definition updateAlarms :: "u64 \<Rightarrow> Kernel \<Rightarrow> fault + bool \<times> Kernel" where
  "updateAlarms now k = and_then (update_from now 0 (length (gAlarms k)) k) (\<lambda>k. Inr (True, k))"

fun destroy_all :: "Alarm list \<Rightarrow> Kernel \<Rightarrow> fault + Kernel" where
  "destroy_all [] k = Inr k"
| "destroy_all (a # as) k = and_then (destroy_Alarm a k) (destroy_all as)"

text \<open>The new element and its capacity; the result is the index of the new alarm.\<close>

definition createAlarm :: "u64 \<Rightarrow> Kernel \<Rightarrow> fault + nat \<times> Kernel" where
  "createAlarm time k =
     (let new = move_Alarm (new_Alarm time); n = length (gAlarms k)
      in if n < gAlarmCapacity k then Inr (n, k\<lparr>gAlarms := gAlarms k @ [new]\<rparr>)
         else and_then
           (destroy_all (gAlarms k)
             (k\<lparr>gAlarms := map move_Alarm (gAlarms k) @ [new],
                gAlarmCapacity := max (n + 1) (gAlarmCapacity k + gAlarmCapacity k div 2)\<rparr>))
           (\<lambda>k. Inr (n, k)))"

definition sleepThread :: "u64 \<Rightarrow> u64 \<Rightarrow> Kernel \<Rightarrow> fault + Kernel" where
  "sleepThread now nano k =
     and_then (createAlarm (now + nano) k) (\<lambda>(alarm, k). alarm_wait (getCurrentHandle k) alarm k)"

subsection \<open>The clock\<close>

text \<open>
  One round of the clock thread: every callback runs, and those that return false are taken off the list. The
  kernel registers one callback, \<^verbatim>\<open>updateAlarms\<close>.
\<close>

fun clock_round :: "('s \<Rightarrow> 'e + bool \<times> 's) list \<Rightarrow> 's \<Rightarrow> 'e + ('s \<Rightarrow> 'e + bool \<times> 's) list \<times> 's" where
  "clock_round [] s = Inr ([], s)"
| "clock_round (callback # cs) s =
     and_then (callback s) (\<lambda>(shouldContinue, s). and_then (clock_round cs s)
       (\<lambda>(cs', s). Inr (if shouldContinue then callback # cs' else cs', s)))"

definition addCallback :: "('s \<Rightarrow> 'e + bool \<times> 's) \<Rightarrow> ('s \<Rightarrow> 'e + bool \<times> 's) list \<Rightarrow> ('s \<Rightarrow> 'e + bool \<times> 's) list" where
  "addCallback func cs = cs @ [func]"

subsection \<open>Queueing several threads\<close>

definition queueable :: "Kernel \<Rightarrow> handle_t \<Rightarrow> bool" where
  "queueable k h \<longleftrightarrow> (case thread_of h k of Some t \<Rightarrow> unat (affinity t) < NUM_CORES | None \<Rightarrow> False)"

definition home :: "Kernel \<Rightarrow> handle_t \<Rightarrow> nat" where
  "home k h = unat (affinity (the (thread_of h k)))"

definition readied :: "handle_t list \<Rightarrow> Kernel \<Rightarrow> Kernel \<Rightarrow> bool" where
  "readied hs k k' \<longleftrightarrow>
     gThreadLists k' = (\<lambda>c. gThreadLists k c @ filter (\<lambda>h. home k h = c) hs)
     \<and> (\<forall>g. thread_of g k' = (if getThread g k \<in> (\<lambda>h. getThread h k) ` set hs
            then map_option (\<lambda>t. t\<lparr>status := READY\<rparr>) (thread_of g k) else thread_of g k))
     \<and> gHandles k' = gHandles k \<and> gCurrentThreads k' = gCurrentThreads k \<and> tCurrentCore k' = tCurrentCore k
     \<and> gSchedulerLock k' = gSchedulerLock k"

lemma readied_refl: "readied [] k k"
  by (simp add: readied_def)

lemma readied_thread:
  "readied hs k k' \<Longrightarrow> thread_of g k' = (if getThread g k \<in> (\<lambda>h. getThread h k) ` set hs
     then map_option (\<lambda>t. t\<lparr>status := READY\<rparr>) (thread_of g k) else thread_of g k)"
  unfolding readied_def by blast

lemma readied_home:
  assumes "readied hs k k'"
  shows "home k' g = home k g" and "queueable k' g = queueable k g"
  unfolding home_def queueable_def readied_thread [OF assms, of g]
  by (cases "thread_of g k"; simp)+

lemma readied_getThread: "readied hs k k' \<Longrightarrow> getThread g k' = getThread g k"
  by (rule getThread_cong) (simp add: readied_def)

lemma readied_trans:
  assumes "readied hs k k1" and "readied js k1 k2"
  shows "readied (hs @ js) k k2"
proof -
  have "thread_of g k2 = (if getThread g k \<in> (\<lambda>h. getThread h k) ` set (hs @ js)
          then map_option (\<lambda>t. t\<lparr>status := READY\<rparr>) (thread_of g k) else thread_of g k)" for g
    by (cases "thread_of g k")
       (auto simp: readied_thread [OF assms(2)] readied_thread [OF assms(1)] readied_getThread [OF assms(1)])
  moreover have "gThreadLists k2 = (\<lambda>c. gThreadLists k c @ filter (\<lambda>h. home k h = c) (hs @ js))"
    using assms by (simp add: readied_def [of js] readied_home [OF assms(1)]) (simp add: readied_def)
  ultimately show ?thesis using assms by (simp add: readied_def)
qed

lemma queue_one_readied:
  assumes "queueable k h"
  shows "\<exists>k'. queueThreadNoLock h k = Inr k' \<and> readied [h] k k' \<and> gAlarms k' = gAlarms k
           \<and> gAlarmCapacity k' = gAlarmCapacity k \<and> gCores k' = gCores k"
proof -
  obtain t where t: "thread_of h k = Some t" "unat (affinity t) < NUM_CORES"
    using assms by (auto simp: queueable_def split: option.splits)
  let ?k = "set_thread h (t\<lparr>status := READY\<rparr>)
     (k\<lparr>gThreadLists := (gThreadLists k)(unat (affinity t) := gThreadLists k (unat (affinity t)) @ [h])\<rparr>)"
  have "thread_of g ?k = (if getThread g k \<in> (\<lambda>h. getThread h k) ` set [h]
          then map_option (\<lambda>t. t\<lparr>status := READY\<rparr>) (thread_of g k) else thread_of g k)" for g
    using t thread_of_eq [of g k h] by (simp add: thread_of_set)
  then have "readied [h] k ?k" using t by (auto simp: readied_def home_def fun_eq_iff)
  then show ?thesis using queue_valid [OF t] by (simp add: set_thread_def)
qed

lemma queue_all_readied:
  assumes "\<forall>h\<in>set hs. queueable k h"
  shows "\<exists>k'. queue_all hs k = Inr k' \<and> readied hs k k' \<and> gAlarms k' = gAlarms k
           \<and> gAlarmCapacity k' = gAlarmCapacity k \<and> gCores k' = gCores k"
  using assms
proof (induction hs arbitrary: k)
  case (Cons h hs)
  obtain k1 where k1: "queueThreadNoLock h k = Inr k1" "readied [h] k k1" "gAlarms k1 = gAlarms k"
      "gAlarmCapacity k1 = gAlarmCapacity k" "gCores k1 = gCores k"
    using queue_one_readied [of k h] Cons.prems by auto
  obtain k2 where "queue_all hs k1 = Inr k2" "readied hs k1 k2" "gAlarms k2 = gAlarms k1"
      "gAlarmCapacity k2 = gAlarmCapacity k1" "gCores k2 = gCores k1"
    using Cons.IH [of k1] Cons.prems readied_home [OF k1(2)] by auto
  with k1 readied_trans [of "[h]" k k1 hs k2] show ?case by simp
qed (simp add: readied_refl)

text \<open>Alarms and interrupts are no part of what \<open>readied\<close> speaks of.\<close>

lemma alarm_fields [simp]:
  "thread_of h (k\<lparr>gAlarms := as\<rparr>) = thread_of h k" "thread_of h (k\<lparr>gAlarmCapacity := n\<rparr>) = thread_of h k"
  "thread_of h (send_to c ints k) = thread_of h k" "thread_of h (set_alarm i a k) = thread_of h k"
  "getThread h (k\<lparr>gAlarms := as\<rparr>) = getThread h k" "getThread h (k\<lparr>gAlarmCapacity := n\<rparr>) = getThread h k"
  "getThread h (send_to c ints k) = getThread h k" "getThread h (set_alarm i a k) = getThread h k"
  by (rule thread_of_cong getThread_cong; simp add: send_to_def set_alarm_def)+

lemma alarm_queueable [simp]:
  "queueable (k\<lparr>gAlarms := as\<rparr>) = queueable k" "queueable (k\<lparr>gAlarmCapacity := n\<rparr>) = queueable k"
  "queueable (send_to c ints k) = queueable k" "queueable (set_alarm i a k) = queueable k"
  by (simp_all add: queueable_def fun_eq_iff)

lemma readied_alarms [simp]:
  "readied hs (k\<lparr>gAlarms := as\<rparr>) k' = readied hs k k'" "readied hs k (k'\<lparr>gAlarms := as\<rparr>) = readied hs k k'"
  "readied hs (k\<lparr>gAlarmCapacity := n\<rparr>) k' = readied hs k k'" "readied hs k (send_to c ints k') = readied hs k k'"
  "readied hs k (set_alarm i a k') = readied hs k k'" "readied hs (set_alarm i a k) k' = readied hs k k'"
  "readied hs (send_to c ints k) k' = readied hs k k'"
  by (simp_all add: readied_def home_def) (simp_all add: send_to_def set_alarm_def)

subsection \<open>Ringing alarms\<close>

definition rung :: "u64 \<Rightarrow> Alarm \<Rightarrow> Alarm" where
  "rung time a = (if due time a then a\<lparr>hasTriggered := True, alarmWaiting := []\<rparr> else a)"

definition due_waiters :: "u64 \<Rightarrow> Alarm list \<Rightarrow> handle_t list" where
  "due_waiters time as = concat (map alarmWaiting (filter (due time) as))"

lemma update_from_rings:
  assumes "\<forall>a\<in>set (drop i (gAlarms k)). \<forall>h\<in>set (alarmWaiting a). queueable k h"
  shows "\<exists>k'. update_from time i (length (gAlarms k) - i) k = Inr k' \<and> readied (due_waiters time (drop i (gAlarms k))) k k'
    \<and> gAlarms k' = take i (gAlarms k) @ map (rung time) (drop i (gAlarms k)) \<and> gAlarmCapacity k' = gAlarmCapacity k
    \<and> gCores k' = (if list_ex (due time) (drop i (gAlarms k))
         then (gCores k)(0 := sendInterrupts GENERIC_INTERRUPT (gCores k 0)) else gCores k)"
  using assms
proof (induction "length (gAlarms k) - i" arbitrary: i k)
  case 0
  then show ?case by (simp add: due_waiters_def readied_refl)
next
  case (Suc n)
  then have i: "i < length (gAlarms k)" by simp
  let ?a = "gAlarms k ! i"
  have drop_i: "drop i (gAlarms k) = ?a # drop (Suc i) (gAlarms k)" using i by (simp add: Cons_nth_drop_Suc)
  have n: "n = length (gAlarms k) - Suc i" using Suc(2) by simp
  have len: "length (gAlarms k) - i = Suc n" using Suc(2) by simp
  have take_i: "take (Suc i) (gAlarms k) = take i (gAlarms k) @ [?a]" using i by (simp add: take_Suc_conv_app_nth)
  show ?case
  proof (cases "due time ?a")
    case False
    then have "update time i k = Inr (hasTriggered ?a, k)" by (simp add: update_def)
    then show ?thesis
      using Suc(1) [of k "Suc i", OF n] Suc(3) False
      unfolding len drop_i n [symmetric] take_i by (simp add: due_waiters_def rung_def)
  next
    case True
    let ?a1 = "?a\<lparr>hasTriggered := True\<rparr>" let ?a2 = "?a\<lparr>hasTriggered := True, alarmWaiting := []\<rparr>"
    obtain k1 where k1: "queue_all (alarmWaiting ?a) (set_alarm i ?a1 k) = Inr k1" "readied (alarmWaiting ?a) k k1"
        "gAlarms k1 = (gAlarms k)[i := ?a1]" "gAlarmCapacity k1 = gAlarmCapacity k" "gCores k1 = gCores k"
      using queue_all_readied [of "alarmWaiting ?a" "set_alarm i ?a1 k"] Suc(3) drop_i by (auto simp: set_alarm_def)
    let ?k2 = "send_to 0 GENERIC_INTERRUPT (set_alarm i ?a2 k1)"
    have upd: "update time i k = Inr (True, ?k2)" using True k1(1) by (simp add: update_def Let_def)
    have k2: "gAlarms ?k2 = (gAlarms k)[i := ?a2]" "readied (alarmWaiting ?a) k ?k2" "gAlarmCapacity ?k2 = gAlarmCapacity k"
      using k1 by (simp_all, simp_all add: send_to_def set_alarm_def)
    have cores2: "gCores ?k2 = (gCores k)(0 := sendInterrupts GENERIC_INTERRUPT (gCores k 0))"
      using k1 by (simp add: send_to_def set_alarm_def)
    have "\<forall>a\<in>set (drop (Suc i) (gAlarms ?k2)). \<forall>h\<in>set (alarmWaiting a). queueable ?k2 h"
      using Suc(3) drop_i k2 by (simp add: readied_home [OF k1(2)])
    from Suc(1) [OF _ this] n k2(1) obtain k' where k': "update_from time (Suc i) n ?k2 = Inr k'"
        "readied (due_waiters time (drop (Suc i) (gAlarms k))) ?k2 k'"
        "gAlarms k' = take (Suc i) ((gAlarms k)[i := ?a2]) @ map (rung time) (drop (Suc i) (gAlarms k))"
        "gAlarmCapacity k' = gAlarmCapacity k"
        "gCores k' = (gCores k)(0 := sendInterrupts GENERIC_INTERRUPT (gCores k 0))"
      using k2 cores2 by (auto simp: sendInterrupts_def)
    have "take (Suc i) ((gAlarms k)[i := ?a2]) = take i (gAlarms k) @ [rung time ?a]"
      using i True by (simp add: take_Suc_conv_app_nth rung_def)
    then show ?thesis
      using upd k' True readied_trans [OF k2(2) k'(2)] unfolding len drop_i by (simp add: due_waiters_def)
  qed
qed

text \<open>
  C23. A tick of the alarms at time \<open>now\<close> wakes exactly the threads that wait on an alarm whose time has come: they are
  marked ready and appended, in order, to the queue of their core; the alarms that rang do not ring again; core 0 is
  interrupted when at least one alarm rang.
\<close>

theorem updateAlarms_wakes:
  assumes "\<forall>a\<in>set (gAlarms k). \<forall>h\<in>set (alarmWaiting a). queueable k h"
  shows "\<exists>k'. updateAlarms now k = Inr (True, k') \<and> readied (due_waiters now (gAlarms k)) k k'
    \<and> gAlarms k' = map (rung now) (gAlarms k)
    \<and> gCores k' = (if list_ex (due now) (gAlarms k)
         then (gCores k)(0 := sendInterrupts GENERIC_INTERRUPT (gCores k 0)) else gCores k)"
  using update_from_rings [of 0 k now] assms by (auto simp: updateAlarms_def)

definition sleepy_kernel :: Kernel where
  "sleepy_kernel = (demo_kernel 20 RUNNING 10)
     \<lparr>gAlarms := [\<lparr>triggerTime = 100, hasTriggered = False, alarmWaiting = [2]\<rparr>,
                  \<lparr>triggerTime = 200, hasTriggered = False, alarmWaiting = [1]\<rparr>], gAlarmCapacity := 2,
      gThreadLists := (\<lambda>_. [])\<rparr>"

lemma sleepy_queueable: "queueable sleepy_kernel 1" "queueable sleepy_kernel 2" "home sleepy_kernel 1 = 0" "home sleepy_kernel 2 = 0"
  by (simp_all add: sleepy_kernel_def queueable_def home_def demo_threads)
     (simp_all add: demo_thread_def new_Thread_def DEFAULT_CORE_def NUM_CORES_def)

theorem updateAlarms_wakes_witness:
  "\<exists>k'. updateAlarms 150 sleepy_kernel = Inr (True, k') \<and> gThreadLists k' 0 = [2]
     \<and> map hasTriggered (gAlarms k') = [True, False]"
proof -
  have as: "gAlarms sleepy_kernel = [\<lparr>triggerTime = 100, hasTriggered = False, alarmWaiting = [2]\<rparr>,
      \<lparr>triggerTime = 200, hasTriggered = False, alarmWaiting = [1]\<rparr>]" "gThreadLists sleepy_kernel = (\<lambda>_. [])"
    by (simp_all add: sleepy_kernel_def)
  show ?thesis
    using updateAlarms_wakes [of sleepy_kernel 150]
    by (auto simp: as sleepy_queueable due_waiters_def due_def rung_def readied_def)
qed

subsection \<open>Reallocation of the alarms\<close>

lemma destroy_all_readied:
  assumes "\<forall>a\<in>set as. \<forall>h\<in>set (alarmWaiting a). queueable k h"
  shows "\<exists>k'. destroy_all as k = Inr k' \<and> readied (concat (map alarmWaiting as)) k k' \<and> gAlarms k' = gAlarms k
    \<and> gAlarmCapacity k' = gAlarmCapacity k"
  using assms
proof (induction as arbitrary: k)
  case (Cons a as)
  obtain k1 where k1: "destroy_Alarm a k = Inr k1" "readied (alarmWaiting a) k k1" "gAlarms k1 = gAlarms k"
      "gAlarmCapacity k1 = gAlarmCapacity k"
    using queue_all_readied [of "alarmWaiting a" k] Cons.prems by (auto simp: destroy_Alarm_def)
  obtain k2 where "destroy_all as k1 = Inr k2" "readied (concat (map alarmWaiting as)) k1 k2" "gAlarms k2 = gAlarms k1"
      "gAlarmCapacity k2 = gAlarmCapacity k1"
    using Cons.IH [of k1] Cons.prems readied_home [OF k1(2)] by auto
  with k1 readied_trans [of "alarmWaiting a" k k1 _ k2] show ?case by simp
qed (simp add: readied_refl)

text \<open>
  Creating an alarm when the vector of alarms is full wakes every thread that waits on any alarm, whatever its
  time: the threads are made ready and queued, and no alarm has a waiting thread any more.
\<close>

theorem createAlarm_wakes_early:
  assumes "length (gAlarms k) = gAlarmCapacity k"
    and "\<forall>a\<in>set (gAlarms k). \<forall>h\<in>set (alarmWaiting a). queueable k h"
  shows "\<exists>k'. createAlarm time k = Inr (length (gAlarms k), k')
    \<and> readied (concat (map alarmWaiting (gAlarms k))) k k'
    \<and> length (gAlarms k') = length (gAlarms k) + 1 \<and> (\<forall>a\<in>set (gAlarms k'). alarmWaiting a = [])"
  using destroy_all_readied [of "gAlarms k" "k\<lparr>gAlarms := map move_Alarm (gAlarms k) @ [move_Alarm (new_Alarm time)],
      gAlarmCapacity := max (length (gAlarms k) + 1) (gAlarmCapacity k + gAlarmCapacity k div 2)\<rparr>"] assms
  by (auto simp: createAlarm_def Let_def move_Alarm_def new_Alarm_def)

theorem createAlarm_wakes_early_witness:
  "\<exists>k'. createAlarm 1000 sleepy_kernel = Inr (2, k') \<and> gThreadLists k' 0 = [2, 1]"
proof -
  have as: "gAlarms sleepy_kernel = [\<lparr>triggerTime = 100, hasTriggered = False, alarmWaiting = [2]\<rparr>,
      \<lparr>triggerTime = 200, hasTriggered = False, alarmWaiting = [1]\<rparr>]" "gThreadLists sleepy_kernel = (\<lambda>_. [])"
      "gAlarmCapacity sleepy_kernel = 2"
    by (simp_all add: sleepy_kernel_def)
  show ?thesis
    using createAlarm_wakes_early [of sleepy_kernel 1000]
    by (auto simp: as sleepy_queueable readied_def)
qed

end
