(* ===== verification/Svc.thy ===== *)
theory Svc
  imports Ipc Alarm Interpreter
begin

text \<open>
  Supervisor calls, \<^verbatim>\<open>hle/svc.cpp\<close>, and the interrupt handler of \<^verbatim>\<open>hle/kernel/kernel.cpp\<close>. A handler runs on the core that
  executed the instruction; its arguments and results are the general registers of that core.

  \<open>Environment\<close> holds what a call takes from outside: the host's clock, the contents of freshly allocated memory (the
  uninitialised flags of a new thread), the function tables of the services with the named ports, and \<^verbatim>\<open>debug::debugBreakHandler\<close>.
  A host thread that ends is \<open>ThreadExit\<close>; an entry outside the table of 128 handlers is \<open>BadIndex\<close>.
\<close>

unbundle bit_operations_syntax

record Environment =
  now :: u64
  raw_flags :: PSTATE_t
  interfaces :: Interfaces
  gNamedPorts :: "(string \<times> Interface) list"
  debugBreakHandler :: "Kernel \<Rightarrow> fault + Kernel"

definition X :: "reg \<Rightarrow> Kernel \<Rightarrow> u64" where
  "X r k = GPRegs (this_core k) r"

definition set_X :: "reg \<Rightarrow> u64 \<Rightarrow> Kernel \<Rightarrow> Kernel" where
  "set_X r v k = upd_this (set_GPR r v) k"

definition map_region :: "u64 \<Rightarrow> u64 \<Rightarrow> MemoryType \<Rightarrow> Permission \<Rightarrow> Kernel \<Rightarrow> fault + Kernel" where
  "map_region addr len ty pm k =
     and_then (addMapping addr len ty pm (gMappings k, kmem k)) (\<lambda>(ms, m). Inr (k\<lparr>gMappings := ms, kmem := m\<rparr>))"

definition svcSetHeapSize :: "Kernel \<Rightarrow> fault + Kernel" where
  "svcSetHeapSize k =
     (let len = ucast (ucast (X 1 k) :: u32)
      in and_then (map_region 0xaa0000000 len HEAP READ_WRITE k) (\<lambda>k. Inr (set_X 1 0xaa0000000 (set_X 0 0 k))))"

definition svcSetMemoryAttribute :: "Kernel \<Rightarrow> fault + Kernel" where
  "svcSetMemoryAttribute k = Inr (set_X 0 0 k)"

fun copy_guest :: "nat \<Rightarrow> u64 \<Rightarrow> u64 \<Rightarrow> Kernel \<Rightarrow> fault + Kernel" where
  "copy_guest 0 dst src k = Inr k"
| "copy_guest (Suc n) dst src k =
     and_then (kread 1 src k) (\<lambda>(v, k). and_then (kwrite 1 dst v k) (copy_guest n (dst + 1) (src + 1)))"

definition svcMapMemory :: "Kernel \<Rightarrow> fault + Kernel" where
  "svcMapMemory k =
     (let dstAddr = X 0 k; srcAddr = X 1 k; len = X 2 k
      in and_then (map_region dstAddr len MAPPED_MEM ALL_PERM k)
       (\<lambda>k. and_then (copy_guest (unat len) dstAddr srcAddr k) (\<lambda>k. Inr (set_X 0 0 k))))"

fun memory_type_number :: "MemoryType \<Rightarrow> u64" where
  "memory_type_number UNMAPPED = 0x0"
| "memory_type_number IO = 0x1"
| "memory_type_number NORMAL = 0x2"
| "memory_type_number CODE_STATIC = 0x3"
| "memory_type_number CODE = 0x4"
| "memory_type_number HEAP = 0x5"
| "memory_type_number SHARED_MEM_BLOCK = 0x6"
| "memory_type_number WEIRD_MAPPED_MEM = 0x7"
| "memory_type_number MODULE_CODE_STATIC = 0x8"
| "memory_type_number MODULE_CODE_MUTABLE = 0x9"
| "memory_type_number IPC_BUFFER_0 = 0xA"
| "memory_type_number MAPPED_MEM = 0xB"
| "memory_type_number THEAD_LOCAL_STORAGE = 0xC"
| "memory_type_number ISOLATED_TRANSFER_MEM = 0xD"
| "memory_type_number TRANSFER_MEM = 0xE"
| "memory_type_number PROCESS_MEM = 0xF"
| "memory_type_number RESERVED = 0x10"
| "memory_type_number IPC_BUFFER_1 = 0x11"
| "memory_type_number IPC_BUFFER_2 = 0x12"
| "memory_type_number UNKNOWN = 0x13"

fun permission_number :: "Permission \<Rightarrow> u64" where
  "permission_number NONE = 0"
| "permission_number READ_ONLY = 1"
| "permission_number WRITE_ONLY = 2"
| "permission_number READ_WRITE = 3"
| "permission_number EXECUTE_ONLY = 4"
| "permission_number READ_EXECUTE = 5"
| "permission_number WRITE_EXECUTE = 6"
| "permission_number ALL_PERM = 7"

definition svcQueryMemory :: "Kernel \<Rightarrow> fault + Kernel" where
  "svcQueryMemory k =
     (let memInfo = X 0 k; addr = X 2 k
      in and_then (findMapping addr (gMappings k))
       (\<lambda>m. and_then (write_all [(8, memInfo, map_base m), (8, memInfo + 8, region_size m),
              (8, memInfo + 16, memory_type_number (mem_type (map_state m))),
              (8, memInfo + 24, permission_number (permissions m))] k)
       (\<lambda>k. Inr (set_X 1 0 (set_X 0 0 k)))))"

definition halt :: "Kernel \<Rightarrow> Kernel" where
  "halt k = fold (\<lambda>c. send_to c RESET_INTERRUPT) [0..<NUM_CORES] k"

definition svcExitProcess :: "Kernel \<Rightarrow> fault + Kernel" where
  "svcExitProcess k = Inr (halt k)"

definition svcCreateThread :: "Environment \<Rightarrow> Kernel \<Rightarrow> fault + Kernel" where
  "svcCreateThread env k =
     and_then (createThread (raw_flags env) (X 1 k) (X 2 k) (X 3 k) (ucast (X 4 k)) (ucast (X 5 k)) k)
       (\<lambda>(thread, k). Inr (set_X 1 (ucast thread) (set_X 0 0 k)))"

definition svcStartThread :: "Kernel \<Rightarrow> fault + Kernel" where
  "svcStartThread k = and_then (startThread (ucast (X 0 k)) k) (\<lambda>k. Inr (set_X 0 0 k))"

definition svcExitThread :: "Kernel \<Rightarrow> fault + Kernel" where
  "svcExitThread k = exitThread k"

definition svcSleepThread :: "Environment \<Rightarrow> Kernel \<Rightarrow> fault + Kernel" where
  "svcSleepThread env k = (let nano = X 0 k in if nano = 0 then yieldThread k else sleepThread (now env) nano k)"

definition svcGetThreadPriority :: "Kernel \<Rightarrow> fault + Kernel" where
  "svcGetThreadPriority k = and_then (kwrite 8 (X 0 k) 0x2C k) (\<lambda>k. Inr (set_X 0 0 k))"

definition svcSetThreadPriority :: "Kernel \<Rightarrow> fault + Kernel" where
  "svcSetThreadPriority k = Inr (set_X 0 0 k)"

definition svcSetThreadCoreMask :: "Kernel \<Rightarrow> fault + Kernel" where
  "svcSetThreadCoreMask k = Inr (set_X 0 0 k)"

definition svcGetCurrentProcessorNumber :: "Kernel \<Rightarrow> fault + Kernel" where
  "svcGetCurrentProcessorNumber k = Inr (set_X 0 (of_nat (getCoreID k)) k)"

definition svcMapSharedMemory :: "Kernel \<Rightarrow> fault + Kernel" where
  "svcMapSharedMemory k = and_then (map_region (X 1 k) (X 2 k) SHARED_MEM_BLOCK ALL_PERM k) (\<lambda>k. Inr (set_X 0 0 k))"

definition new_KTransferMemory :: "u64 \<Rightarrow> u64 \<Rightarrow> Kernel \<Rightarrow> fault + handle_t \<times> Kernel" where
  "new_KTransferMemory baseAddress len k =
     and_then (map_region baseAddress len TRANSFER_MEM ALL_PERM k)
       (\<lambda>k. Inr (new_object (TransferMemoryObject baseAddress) k))"

definition svcCreateTransferMemory :: "Kernel \<Rightarrow> fault + Kernel" where
  "svcCreateTransferMemory k =
     and_then (new_KTransferMemory (X 1 k) (X 2 k) k) (\<lambda>(memHandle, k). Inr (set_X 1 (ucast memHandle) (set_X 0 0 k)))"

definition svcCloseHandle :: "Kernel \<Rightarrow> fault + Kernel" where
  "svcCloseHandle k =
     (let k = k\<lparr>gHandles := snd (closeHandle (ucast (X 0 k)) (gHandles k))\<rparr> in Inr (set_X 0 0 k))"

definition svcResetSignal :: "Kernel \<Rightarrow> fault + Kernel" where
  "svcResetSignal k = Inr (set_X 0 0 k)"

text \<open>
  \<^verbatim>\<open>obj->sync\<close> is a virtual call: threads have their own, a process the empty one of \<^verbatim>\<open>KSynchronizationObject\<close>, and for the other kinds of
  object the cast is wrong.
\<close>

definition sync_object :: "handle_t \<Rightarrow> handle_t \<Rightarrow> Kernel \<Rightarrow> fault + Kernel" where
  "sync_object handle thisThread k =
     (case fst (lookupObject handle (gHandles k)) of
        None \<Rightarrow> Inl NullPointer
      | Some a \<Rightarrow> (case heap k a of
          Some (ThreadObject _) \<Rightarrow> thread_sync (Some a) thisThread k
        | Some ProcessObject \<Rightarrow> Inr k
        | _ \<Rightarrow> Inl BadCast))"

fun sync_all :: "handle_t list \<Rightarrow> handle_t \<Rightarrow> Kernel \<Rightarrow> fault + Kernel" where
  "sync_all [] thisThread k = Inr k"
| "sync_all (handle # hs) thisThread k =
     (if handle > 0x100 then sync_all hs thisThread k
      else and_then (sync_object handle thisThread k) (sync_all hs thisThread))"

definition svcWaitSynchronization :: "Kernel \<Rightarrow> fault + Kernel" where
  "svcWaitSynchronization k =
     (let handlePtr = X 1 k; numHandles = X 2 k
      in and_then (read_array (unat numHandles) read_moved_handle 4 handlePtr k)
       (\<lambda>(handles, k). let thisThread = getCurrentHandle k
         in and_then (upd_thread (getThread thisThread k) (\<lambda>t. t\<lparr>wakeupCallback := CancelWaitObjects\<rparr>) k)
       (\<lambda>k. and_then (sync_all handles thisThread k) (\<lambda>k. Inr (set_X 1 0 (set_X 0 0 k))))))"

definition svcSignalProcessWideKey :: "Kernel \<Rightarrow> fault + Kernel" where
  "svcSignalProcessWideKey k =
     (let ptr = X 0 k
      in and_then (kread 8 ptr k) (\<lambda>(val, k). and_then (kwrite 8 ptr (val + 1) k) (\<lambda>k. Inr (set_X 0 0 k))))"

text \<open>A C string in host memory equals a key when its bytes do, up to and including the terminating zero.\<close>

definition spells :: "host \<Rightarrow> u64 \<Rightarrow> string \<Rightarrow> bool" where
  "spells h p key \<longleftrightarrow> read_bytes h p (length key + 1) = map (of_char :: char \<Rightarrow> u8) key @ [0]"

definition svcConnectToPort :: "Environment \<Rightarrow> Kernel \<Rightarrow> fault + Kernel" where
  "svcConnectToPort env k =
     and_then (translate (X 1 k) (kmem k))
       (\<lambda>name. case find (\<lambda>(key, _). spells (host_bytes (kmem k)) name key) (gNamedPorts env) of
          None \<Rightarrow> Inr (set_X 0 1 k)
        | Some (_, interface) \<Rightarrow> (case connect interface (set_X 0 0 k) of (handle, k) \<Rightarrow> Inr (set_X 1 (ucast handle) k)))"

definition svcSendSyncRequest :: "Environment \<Rightarrow> Kernel \<Rightarrow> fault + Kernel" where
  "svcSendSyncRequest env k =
     and_then (thread_at (getCurrentThread k) k)
       (\<lambda>t. and_then (doIpcCall (interfaces env) (ucast (X 0 k)) (getTLS t) (1024 * 1024) k) (\<lambda>(v, k). Inr (set_X 0 v k)))"

definition svcSendSyncRequestWithUserBuffer :: "Environment \<Rightarrow> Kernel \<Rightarrow> fault + Kernel" where
  "svcSendSyncRequestWithUserBuffer env k =
     and_then (doIpcCall (interfaces env) (ucast (X 2 k)) (X 0 k) (X 1 k) k) (\<lambda>(v, k). Inr (set_X 0 v k))"

definition svcBreak :: "Kernel \<Rightarrow> fault + Kernel" where
  "svcBreak k = Inr (send_to (getCoreID k) DEBUG_BREAK_INTERRUPT k)"

definition svcGetThreadId :: "Kernel \<Rightarrow> fault + Kernel" where
  "svcGetThreadId k = Inr (set_X 1 1 (set_X 0 0 k))"

definition svcGetInfo :: "Kernel \<Rightarrow> fault + Kernel" where
  "svcGetInfo k =
     (let infoType = X 1 k; subType = X 3 k; done = (\<lambda>v. Inr (set_X 0 0 (set_X 1 v k)))
      in if infoType = 0 \<and> subType = 0 then done 0xF
         else if infoType = 2 \<and> subType = 0 then done 0x21000000
         else if infoType = 3 \<and> subType = 0 then done 0x10000000
         else if infoType = 4 \<and> subType = 0 then done 0xaa0000000
         else if infoType = 5 \<and> subType = 0 then done 0
         else if infoType = 6 \<and> subType = 0 then done 0x80000000
         else if infoType = 7 \<and> subType = 0 then done 0x100000
         else if infoType = 11 then (if subType < 4 then done subType else Inr (set_X 0 0 k))
         else if infoType = 12 \<and> subType = 0 then done 0x8000000
         else if infoType = 13 \<and> subType = 0 then done 0x7ff8000000
         else Inr (set_X 0 1 k))"

text \<open>\<^verbatim>\<open>svcOutputDebugString\<close> prints the characters \<open>printed\<close> gives; a null pointer is never returned by \<^verbatim>\<open>translate\<close> here.\<close>

fun printed :: "nat \<Rightarrow> host \<Rightarrow> u64 \<Rightarrow> u8 list" where
  "printed 0 h p = []"
| "printed (Suc n) h p = (if h p = 0 then [] else h p # printed n h (p + 1))"

definition svcOutputDebugString :: "Kernel \<Rightarrow> fault + Kernel" where
  "svcOutputDebugString k = and_then (translate (X 0 k) (kmem k)) (\<lambda>_. Inr k)"

definition svcFunctionTable :: "Environment \<Rightarrow> nat \<Rightarrow> (Kernel \<Rightarrow> fault + Kernel) option" where
  "svcFunctionTable env = map_of
     [(0x01, svcSetHeapSize), (0x03, svcSetMemoryAttribute), (0x04, svcMapMemory), (0x06, svcQueryMemory),
      (0x07, svcExitProcess), (0x08, svcCreateThread env), (0x09, svcStartThread), (0x0A, svcExitThread),
      (0x0B, svcSleepThread env), (0x0C, svcGetThreadPriority), (0x0D, svcSetThreadPriority),
      (0x0F, svcSetThreadCoreMask), (0x10, svcGetCurrentProcessorNumber), (0x13, svcMapSharedMemory),
      (0x15, svcCreateTransferMemory), (0x16, svcCloseHandle), (0x17, svcResetSignal), (0x18, svcWaitSynchronization),
      (0x1D, svcSignalProcessWideKey), (0x1F, svcConnectToPort env), (0x21, svcSendSyncRequest env),
      (0x22, svcSendSyncRequestWithUserBuffer env), (0x25, svcGetThreadId), (0x26, svcBreak),
      (0x27, svcOutputDebugString), (0x29, svcGetInfo)]"

definition callSVC :: "Environment \<Rightarrow> u64 \<Rightarrow> Kernel \<Rightarrow> fault + Kernel" where
  "callSVC env i k =
     (if 0x80 \<le> i then Inl BadIndex
      else case svcFunctionTable env (unat i) of Some func \<Rightarrow> func k | None \<Rightarrow> Inr k)"

definition interruptHandler :: "Environment \<Rightarrow> u64 \<Rightarrow> Kernel \<Rightarrow> fault + Kernel" where
  "interruptHandler env ints k =
     (if ints AND RESET_INTERRUPT \<noteq> 0 then Inl ThreadExit
      else and_then (if ints AND DEBUG_BREAK_INTERRUPT \<noteq> 0 then debugBreakHandler env k else Inr k)
        (\<lambda>k. if ints \<noteq> DEBUG_BREAK_INTERRUPT
             then and_then (lockScheduler k) (\<lambda>k. and_then (rescheduleNoLock k) (\<lambda>k. Inr (unlockScheduler k)))
             else Inr k))"

lemma machine_roundtrip [simp]: "machine_of (put_machine mc k) = mc"
  by (simp add: machine_of_def put_machine_def this_core_def)

lemma put_machine_upd: "put_machine (upd_core f (machine_of k)) k = upd_this f k"
  by (simp add: put_machine_def machine_of_def upd_core_def upd_this_def)

lemma same_core_fields:
  assumes "\<And>c. coreNum (f c) = coreNum c"
  shows "getCoreID (upd_this f k) = getCoreID k" "getCurrentHandle (upd_this f k) = getCurrentHandle k"
    "getCurrentThread (upd_this f k) = getCurrentThread k" "prio (upd_this f k) = prio k" "valid (upd_this f k) = valid k"
    "sched_ok (upd_this f k) = sched_ok k"
proof -
  show fields: "getCoreID (upd_this f k) = getCoreID k" "getCurrentHandle (upd_this f k) = getCurrentHandle k"
      "getCurrentThread (upd_this f k) = getCurrentThread k" "prio (upd_this f k) = prio k" "valid (upd_this f k) = valid k"
    using assms by (simp_all add: getCoreID_def getCurrentHandle_def getCurrentThread_def prio_def valid_def fun_eq_iff)
  show "sched_ok (upd_this f k) = sched_ok k" by (simp add: sched_ok_def fields)
qed

definition kernel_handlers :: "Environment \<Rightarrow> Kernel \<Rightarrow> Handlers" where
  "kernel_handlers env k =
     \<lparr>gSVCHandler = (\<lambda>i mc. map_sum id machine_of (callSVC env i (put_machine mc k))),
      gIllInstHandler = (\<lambda>mc. Inr (upd_core (sendInterrupts DEBUG_BREAK_INTERRUPT) mc))\<rparr>"

lemma svc_free_lists:
  "ID_SVC \<notin> fst ` set (core_list registerDPImmInstructions)" "ID_SVC \<notin> fst ` set (core_list registerDPRegInstructions)"
  "ID_SVC \<notin> fst ` set registerLoadStoreInstructions" "ID_SVC \<notin> fst ` set (core_list (registerFloatInstructions host))"
  "ID_SVC \<notin> fst ` set (core_list registerSIMDInstructions)"
  by (simp_all add: core_list_def registerDPImmInstructions_def registerDPRegInstructions_def registerLoadStoreInstructions_def
      registerFloatInstructions_def registerSIMDInstructions_def)

lemma svc_entry:
  "interp_init hs host ID_SVC = svc hs"
proof -
  have "register_all (registerSystemInstructions hs) tab ID_SVC = svc hs" for tab
    unfolding registerSystemInstructions_def by (simp add: register_all_Cons)
  then show ?thesis
    by (simp add: interp_init_def Let_def registerInstruction_def register_all_other svc_free_lists)
qed

lemma step_svc:
  assumes "fetch (PC (this_core k)) (kmem k) = Inr bits" and "di_id (decode bits) = ID_SVC"
    and "callSVC env (ucast (inst_5_20 bits)) (upd_this (\<lambda>core. core\<lparr>nextPC := PC core + 4\<rparr>) k) = Inr k'"
  shows "\<exists>mc'. step (interp_init (kernel_handlers env k) host) (machine_of k) = Inr mc'
    \<and> PC (mcore mc') = nextPC (this_core k') \<and> SP (mcore mc') = SP (this_core k')
    \<and> (\<forall>r. r \<noteq> 31 \<longrightarrow> GPRegs (mcore mc') r = GPRegs (this_core k') r)"
proof -
  have "gSVCHandler (kernel_handlers env k) (ucast (inst_5_20 bits))
      (upd_core (\<lambda>core. core\<lparr>nextPC := PC core + 4\<rparr>) (machine_of k)) = Inr (machine_of k')"
    using assms(3) by (simp add: kernel_handlers_def put_machine_upd)
  moreover have "fetch (PC (mcore (machine_of k))) (memory (machine_of k)) = Inr bits" "di_inst (decode bits) = bits"
    using assms(1) by (simp_all add: machine_of_def decode_def)
  ultimately show ?thesis
    using assms(2)
    by (simp add: step_def Let_def getInstructionFunc_def svc_entry svc_def)
       (simp add: upd_core_def machine_of_def set_GPR_def sendInterrupts_def)
qed

text \<open>
  C24. A context switch inside a supervisor call is undone half-way by the interpreter. When a thread yields
  (\<^verbatim>\<open>svcSleepThread\<close> with time 0) to a ready thread of a better priority, the core continues with the general registers and the stack
  pointer of that thread, but at the instruction after the call of the thread that yielded: \<^verbatim>\<open>step\<close> assigns the \<^verbatim>\<open>nextPC\<close>
  it computed before the call, which a context switch neither saves nor replaces.
\<close>

theorem yield_resumes_wrong_code:
  assumes "fetch (PC (this_core k)) (kmem k) = Inr bits" and "di_id (decode bits) = ID_SVC" and "inst_5_20 bits = 0xB"
    and "X 0 k = 0" and "sched_ok k" and "getCurrentHandle k \<noteq> INVALID_THREAD" and "\<not> gSchedulerLock k"
    and "\<exists>h\<in>set (gThreadLists k (getCoreID k)). prio k h < prio k (getCurrentHandle k)"
  shows "\<exists>h u mc'. h \<in> set (gThreadLists k (getCoreID k)) \<and> thread_of h k = Some u
    \<and> step (interp_init (kernel_handlers env k) host) (machine_of k) = Inr mc'
    \<and> SP (mcore mc') = ctx_SP (thread_context u)
    \<and> (\<forall>r. r \<noteq> 31 \<longrightarrow> GPRegs (mcore mc') r = ctx_GPRegs (thread_context u) r)
    \<and> PC (mcore mc') = PC (this_core k) + 4"
proof -
  let ?f = "\<lambda>core. core\<lparr>nextPC := PC core + 4\<rparr>"
  note same = same_core_fields [of ?f k]
  obtain k' h u where k': "yieldThread (upd_this ?f k) = Inr k'" "h \<in> set (gThreadLists k (getCoreID k))" "thread_of h k = Some u"
      "this_core k' = (loaded u (?f (this_core k)))\<lparr>isActive := True\<rparr>"
    using yield_switches [of "upd_this ?f k"] assms(5-8) by (auto simp: same)
  have "callSVC env (ucast (inst_5_20 bits)) (upd_this ?f k) = Inr k'"
    using k'(1) assms(3,4)
    by (simp add: callSVC_def svcFunctionTable_def svcSleepThread_def X_def)
  from step_svc [OF assms(1,2) this] k' show ?thesis
    by (fastforce simp: loaded_def restoreState_def)
qed

definition yield_kernel :: Kernel where
  "yield_kernel = upd_this (\<lambda>core. core\<lparr>PC := 0x1100\<rparr>) ((demo_kernel 20 RUNNING 10)\<lparr>kmem := memory (demo_code 0xD4000161)\<rparr>)"

lemma kmem_fields:
  "thread_of h (k\<lparr>kmem := m\<rparr>) = thread_of h k" "getThread h (k\<lparr>kmem := m\<rparr>) = getThread h k"
  "getCoreID (k\<lparr>kmem := m\<rparr>) = getCoreID k" "getCurrentHandle (k\<lparr>kmem := m\<rparr>) = getCurrentHandle k"
  "this_core (k\<lparr>kmem := m\<rparr>) = this_core k" "getCurrentThread (k\<lparr>kmem := m\<rparr>) = getCurrentThread k"
  by (rule thread_of_cong getThread_cong; simp)+
     (simp_all add: getCoreID_def getCurrentHandle_def this_core_def getCurrentThread_def getThread_def)

lemma yield_kernel_ok: "sched_ok yield_kernel" "getCurrentHandle yield_kernel = 1" "gThreadLists yield_kernel (getCoreID yield_kernel) = [2]"
  "prio yield_kernel 1 = 20" "prio yield_kernel 2 = 10" "\<not> gSchedulerLock yield_kernel" "thread_of 2 yield_kernel = Some (demo_thread 0x2000 10 READY)"
proof -
  have coreNum: "coreNum (core\<lparr>PC := 0x1100\<rparr>) = coreNum core" for core :: Core by simp
  note same = same_core_fields [of "\<lambda>core. core\<lparr>PC := 0x1100\<rparr>", OF coreNum]
  show "getCurrentHandle yield_kernel = 1" "gThreadLists yield_kernel (getCoreID yield_kernel) = [2]" "\<not> gSchedulerLock yield_kernel"
    "thread_of 2 yield_kernel = Some (demo_thread 0x2000 10 READY)"
    by (simp_all add: yield_kernel_def same kmem_fields demo_fields demo_threads)
  show "prio yield_kernel 1 = 20" "prio yield_kernel 2 = 10"
    by (simp_all add: yield_kernel_def prio_def kmem_fields demo_threads demo_thread_def new_Thread_def)
  show "sched_ok yield_kernel"
    by (simp add: yield_kernel_def same sched_ok_def kmem_fields demo_fields demo_threads demo_handles NUM_CORES_def NO_PRIORITY_def
        valid_def prio_def INVALID_THREAD_def) (simp add: demo_thread_def new_Thread_def DEFAULT_CORE_def)
qed

theorem yield_resumes_wrong_code_witness:
  "\<exists>mc'. step (interp_init (kernel_handlers \<lparr>now = 0, raw_flags = PSTATE zero_core, interfaces = (\<lambda>_. []), gNamedPorts = [],
         debugBreakHandler = Inr\<rparr> yield_kernel) plain_host) (machine_of yield_kernel) = Inr mc'
     \<and> PC (mcore mc') = 0x1104 \<and> GPRegs (mcore mc') 30 = 0x0BADC0DE"
  (is "\<exists>mc'. step (interp_init (kernel_handlers ?env _) _) _ = _ \<and> _")
proof -
  have "di_id (decode 0xD4000161) = ID_SVC" by code_simp
  moreover have "inst_5_20 0xD4000161 = 0xB"
    by (simp add: inst_fields bitRange_def shr_def bitmask_def shl_def)
  moreover have "PC (this_core yield_kernel) = 0x1100" "fetch 0x1100 (kmem yield_kernel) = Inr 0xD4000161" "X 0 yield_kernel = 0"
    by (simp_all add: yield_kernel_def upd_this_def demo_code_facts this_core_def X_def)
       (simp_all add: demo_kernel_def new_object_def boot_kernel_def createHandle_def handle_init_def zero_core_def)
  ultimately obtain mc' where mc': "step (interp_init (kernel_handlers ?env yield_kernel) plain_host) (machine_of yield_kernel) = Inr mc'"
      "\<forall>r. r \<noteq> 31 \<longrightarrow> GPRegs (mcore mc') r = ctx_GPRegs (thread_context (demo_thread 0x2000 10 READY)) r"
      "PC (mcore mc') = 0x1104"
    using yield_resumes_wrong_code [of yield_kernel "0xD4000161" ?env plain_host] yield_kernel_ok
    by (auto simp: INVALID_THREAD_def)
  moreover from mc'(2) have "GPRegs (mcore mc') 30 = ctx_GPRegs (thread_context (demo_thread 0x2000 10 READY)) 30" by simp
  ultimately show ?thesis
    by (intro exI [of _ mc']) (simp add: demo_thread_def new_Thread_def)
qed

end
