(* ===== verification/Loader.thy ===== *)
theory Loader
  imports Svc
begin

text \<open>
  The loader, \<^verbatim>\<open>hle/kernel/loader/loader.cpp\<close> with the file formats of \<^verbatim>\<open>elf.h\<close>, \<^verbatim>\<open>nso.h\<close> and \<^verbatim>\<open>mod.h\<close>. A file is a list of bytes; a read
  outside a buffer is \<open>BadIndex\<close>, whether the source reads it through a vector or a pointer into it. The position of the
  global \<^verbatim>\<open>gFileReader\<close> is an argument and a result of the functions that move it: each load starts with a \<^verbatim>\<open>seek\<close>.

  The files of the game directory and \<^verbatim>\<open>LZ4_decompress_safe\<close>, a submodule, are parameters (\<open>LoaderEnv\<close>); the decompressor returns its
  \<^verbatim>\<open>int\<close> result and the bytes it wrote. A module loads the libraries it needs, which are modules again: \<open>loadExe\<close> is a partial
  function and \<open>None\<close> is a load that never ends. The \<^verbatim>\<open>std::map\<close> of symbols, ordered by decreasing address, is a list in
  that order. Log output is left out, but not the strings it reads.
\<close>

unbundle bit_operations_syntax

subsection \<open>Buffers and the cursor\<close>

definition buf_bytes :: "nat \<Rightarrow> u8 list \<Rightarrow> u64 \<Rightarrow> fault + u8 list" where
  "buf_bytes n buffer off =
     (if n = 0 then Inr [] else if unat off + n \<le> length buffer then Inr (take n (drop (unat off) buffer)) else Inl BadIndex)"

definition cursor_read :: "nat \<Rightarrow> u8 list \<Rightarrow> u64 \<Rightarrow> fault + u64 \<times> u64" where
  "cursor_read sz buffer mReadOffset =
     and_then (buf_bytes sz buffer mReadOffset) (\<lambda>bs. Inr (le_val bs, mReadOffset + of_nat sz))"

text \<open>Consecutive reads of fields of the given sizes.\<close>

fun read_fields :: "nat list \<Rightarrow> u8 list \<Rightarrow> u64 \<Rightarrow> fault + u64 list \<times> u64" where
  "read_fields [] buffer pos = Inr ([], pos)"
| "read_fields (sz # szs) buffer pos =
     and_then (cursor_read sz buffer pos)
       (\<lambda>(v, pos). and_then (read_fields szs buffer pos) (\<lambda>(vs, pos). Inr (v # vs, pos)))"

text \<open>A \<^verbatim>\<open>char*\<close> into a buffer, read up to its terminating zero.\<close>

definition c_string :: "u8 list \<Rightarrow> u64 \<Rightarrow> fault + string" where
  "c_string buffer off =
     (let rest = drop (unat off) buffer
      in if 0 \<in> set rest then Inr (map (\<lambda>b. char_of (unat b)) (takeWhile (\<lambda>b. b \<noteq> 0) rest)) else Inl BadIndex)"

text \<open>\<^verbatim>\<open>std::to_string\<close> of an unsigned number.\<close>

fun to_string :: "nat \<Rightarrow> string" where
  "to_string n = (if n < 10 then [char_of (48 + n)] else to_string (n div 10) @ [char_of (48 + n mod 10)])"

declare to_string.simps [simp del]

text \<open>The field of \<open>n\<close> bytes at offset \<open>off\<close> of a structure.\<close>

definition struct_field :: "nat \<Rightarrow> nat \<Rightarrow> u8 list \<Rightarrow> u64" where
  "struct_field n off bs = le_val (take n (drop off bs))"

subsection \<open>File formats\<close>

record ElfHeader =
  e_magic :: "u8 list"
  e_class :: u8
  e_data :: u8
  e_elfversion :: u8
  e_osabi :: u8
  e_abiversion :: u8
  e_pad :: "u8 list"
  e_type :: u16
  e_machine :: u16
  e_version :: u32
  e_entry :: u64
  e_phoff :: u64
  e_shoff :: u64
  e_flags :: u32
  e_ehsize :: u16
  e_phentsize :: u16
  e_phnum :: u16
  e_shentsize :: u16
  e_shnum :: u16
  e_shstrndx :: u16

record ElfSectionHeader =
  sh_name :: u32
  sh_type :: u32
  sh_flags :: u64
  sh_addr :: u64
  sh_offset :: u64
  sh_size :: u64
  sh_link :: u32
  sh_info :: u32
  sh_addralign :: u64
  sh_entsize :: u64

record ElfSymbolHeader =
  st_name :: u32
  st_info :: u8
  st_other :: u8
  st_shndx :: u16
  st_value :: u64
  st_size :: u64

definition st_bind :: "ElfSymbolHeader \<Rightarrow> u8" where
  "st_bind symh = drop_bit 4 (st_info symh)"

record ElfProgramHeader =
  p_type :: u32
  p_flags :: u32
  p_offset :: u64
  p_vaddr :: u64
  p_paddr :: u64
  p_filesz :: u64
  p_memsz :: u64
  p_align :: u64

record ElfRela =
  r_offset :: u64
  r_info :: u64
  r_addend :: u64

record NsoSegmentHeader =
  dataOffset :: u32
  memoryOffset :: u32
  seg_size :: u32
  bssSize :: u32

record NSO_header =
  nso_magic :: "u8 list"
  nso_version :: u32
  nso_reserved1 :: u32
  nso_flags :: u32
  segmentHeaders :: "NsoSegmentHeader list"
  gnuBuildId :: "u8 list"
  segmentSizes :: "u32 list"
  rodataDynstr :: "u32 \<times> u32"
  rodataDynsym :: "u32 \<times> u32"
  segmentSha256s :: "u8 list"

record ModHeader =
  mod_magic :: u32
  mod_dynamic :: u32
  bss_start :: u32
  bss_end :: u32
  unwind_start :: u32
  unwind_end :: u32
  mod_object :: u32

record ModObject =
  mo_next :: u64
  mo_prev :: u64
  relplt :: u64
  reldyn :: u64
  module_base :: u64
  mo_dynamic :: u64
  isRela :: u64
  relpltSize :: u64
  mo_init :: u64
  mo_fini :: u64
  bucket :: u64
  chain :: u64
  strtab :: u64
  symtab :: u64
  strtabSize :: u64
  got :: u64
  reladynSize :: u64
  reldynSize :: u64
  relCount :: u64
  relaCount :: u64
  nchain :: u64
  nbucket :: u64
  gotValue :: u64

definition new_ModObject :: ModObject where
  "new_ModObject = \<lparr>mo_next = 0, mo_prev = 0, relplt = 0, reldyn = 0, module_base = 0, mo_dynamic = 0, isRela = 0, relpltSize = 0,
     mo_init = 0, mo_fini = 0, bucket = 0, chain = 0, strtab = 0, symtab = 0, strtabSize = 0, got = 0, reladynSize = 0,
     reldynSize = 0, relCount = 0, relaCount = 0, nchain = 0, nbucket = 0, gotValue = 0\<rparr>"

definition SHT_RELA :: u32 where "SHT_RELA = 4"
definition SHT_NOBITS :: u32 where "SHT_NOBITS = 8"
definition SHT_REL :: u32 where "SHT_REL = 9"
definition SHN_UNDEF :: u16 where "SHN_UNDEF = 0"
definition STB_GLOBAL :: u8 where "STB_GLOBAL = 1"
definition STB_WEAK :: u8 where "STB_WEAK = 2"
definition PT_LOAD :: u32 where "PT_LOAD = 1"
definition PT_DYNAMIC :: u32 where "PT_DYNAMIC = 2"

subsection \<open>Programs\<close>

record Section =
  sec_sh :: ElfSectionHeader
  sec_data :: "u8 list"
  sec_name :: string

record Symbol =
  sym_sh :: ElfSymbolHeader
  sym_name :: string

record Program =
  eh :: ElfHeader
  sections :: "Section list"
  symbols :: "Symbol list"
  dynSymbols :: "Symbol list"

definition findSection :: "string \<Rightarrow> Program \<Rightarrow> Section option" where
  "findSection s p = find (\<lambda>section. sec_name section = s) (sections p)"

definition program_findSymbol :: "string \<Rightarrow> Program \<Rightarrow> Symbol option" where
  "program_findSymbol s p = find (\<lambda>symbol. sym_name symbol = s) (symbols p)"

definition new_Section :: Section where
  "new_Section = \<lparr>sec_sh = \<lparr>sh_name = 0, sh_type = 0, sh_flags = 0, sh_addr = 0, sh_offset = 0, sh_size = 0, sh_link = 0, sh_info = 0,
     sh_addralign = 0, sh_entsize = 0\<rparr>, sec_data = [], sec_name = []\<rparr>"

definition section_at :: "u64 \<Rightarrow> Program \<Rightarrow> fault + Section" where
  "section_at i p = (if unat i < length (sections p) then Inr (sections p ! unat i) else Inl BadIndex)"

text \<open>\<^verbatim>\<open>std::vector::resize\<close>.\<close>

definition resize :: "nat \<Rightarrow> 'a \<Rightarrow> 'a list \<Rightarrow> 'a list" where
  "resize n x xs = take n xs @ replicate (n - length xs) x"

subsection \<open>ELF files\<close>

definition readElfHeader :: "u8 list \<Rightarrow> u64 \<Rightarrow> fault + ElfHeader \<times> u64" where
  "readElfHeader buffer pos =
     and_then (read_fields (replicate 4 1 @ replicate 5 1 @ replicate 7 1 @ [2, 2, 4, 8, 8, 8, 4, 2, 2, 2, 2, 2, 2]) buffer pos)
       (\<lambda>(v, pos). Inr (\<lparr>e_magic = map ucast (take 4 v), e_class = ucast (v ! 4), e_data = ucast (v ! 5),
          e_elfversion = ucast (v ! 6), e_osabi = ucast (v ! 7), e_abiversion = ucast (v ! 8),
          e_pad = map ucast (take 7 (drop 9 v)), e_type = ucast (v ! 16), e_machine = ucast (v ! 17), e_version = ucast (v ! 18),
          e_entry = v ! 19, e_phoff = v ! 20, e_shoff = v ! 21, e_flags = ucast (v ! 22), e_ehsize = ucast (v ! 23),
          e_phentsize = ucast (v ! 24), e_phnum = ucast (v ! 25), e_shentsize = ucast (v ! 26), e_shnum = ucast (v ! 27),
          e_shstrndx = ucast (v ! 28)\<rparr>, pos))"

definition readSectionHeader :: "u8 list \<Rightarrow> u64 \<Rightarrow> fault + ElfSectionHeader \<times> u64" where
  "readSectionHeader buffer pos =
     and_then (read_fields [4, 4, 8, 8, 8, 8, 4, 4, 8, 8] buffer pos)
       (\<lambda>(v, pos). Inr (\<lparr>sh_name = ucast (v ! 0), sh_type = ucast (v ! 1), sh_flags = v ! 2, sh_addr = v ! 3, sh_offset = v ! 4,
          sh_size = v ! 5, sh_link = ucast (v ! 6), sh_info = ucast (v ! 7), sh_addralign = v ! 8, sh_entsize = v ! 9\<rparr>, pos))"

definition readSymbolHeader :: "u8 list \<Rightarrow> u64 \<Rightarrow> fault + ElfSymbolHeader \<times> u64" where
  "readSymbolHeader buffer pos =
     and_then (read_fields [4, 1, 1, 2, 8, 8] buffer pos)
       (\<lambda>(v, pos). Inr (\<lparr>st_name = ucast (v ! 0), st_info = ucast (v ! 1), st_other = ucast (v ! 2), st_shndx = ucast (v ! 3),
          st_value = v ! 4, st_size = v ! 5\<rparr>, pos))"

definition readSection :: "u8 list \<Rightarrow> ElfHeader \<Rightarrow> nat \<Rightarrow> Section \<Rightarrow> fault + Section" where
  "readSection buffer h i section =
     and_then (readSectionHeader buffer (e_shoff h + ucast ((of_nat i :: u32) * ucast (e_shentsize h))))
       (\<lambda>(sh, _). let section = section\<lparr>sec_sh := sh\<rparr>
          in if sh_size sh = 0 then Inr section
             else if sh_type sh = SHT_NOBITS then Inr (section\<lparr>sec_data := replicate (unat (sh_size sh)) 0xCC\<rparr>)
             else and_then (buf_bytes (unat (sh_size sh)) buffer (sh_offset sh)) (\<lambda>bs. Inr (section\<lparr>sec_data := bs\<rparr>)))"

text \<open>A loop over the elements of a vector that replaces each of them.\<close>

fun traverse :: "('a \<Rightarrow> fault + 'b) \<Rightarrow> 'a list \<Rightarrow> fault + 'b list" where
  "traverse f [] = Inr []"
| "traverse f (x # xs) = and_then (f x) (\<lambda>y. and_then (traverse f xs) (\<lambda>ys. Inr (y # ys)))"

definition readSections :: "u8 list \<Rightarrow> Program \<Rightarrow> fault + Program" where
  "readSections buffer p =
     (let n = unat (e_shnum (eh p)); old = resize n new_Section (sections p)
      in and_then (traverse (\<lambda>(i, section). readSection buffer (eh p) i section) (zip [0..<n] old))
           (\<lambda>ss. Inr (p\<lparr>sections := ss\<rparr>)))"

definition loadSections :: "Program \<Rightarrow> fault + Program" where
  "loadSections p =
     and_then (section_at (ucast (e_shstrndx (eh p))) p)
       (\<lambda>strSection. and_then (traverse (\<lambda>section.
            and_then (c_string (sec_data strSection) (ucast (sh_name (sec_sh section)))) (\<lambda>name. Inr (section\<lparr>sec_name := name\<rparr>)))
            (sections p))
          (\<lambda>ss. Inr (p\<lparr>sections := ss\<rparr>)))"

fun read_symbols :: "nat \<Rightarrow> u8 list \<Rightarrow> u8 list \<Rightarrow> u64 \<Rightarrow> fault + Symbol list" where
  "read_symbols 0 buffer strings pos = Inr []"
| "read_symbols (Suc n) buffer strings pos =
     and_then (readSymbolHeader buffer pos)
       (\<lambda>(sh, pos). and_then (c_string strings (ucast (st_name sh)))
          (\<lambda>name. and_then (read_symbols n buffer strings pos) (\<lambda>syms. Inr (\<lparr>sym_sh = sh, sym_name = name\<rparr> # syms))))"

definition loadSymbols :: "u8 list \<Rightarrow> Program \<Rightarrow> fault + bool \<times> Program" where
  "loadSymbols buffer p =
     (case findSection ''.symtab'' p of None \<Rightarrow> Inr (False, p)
      | Some symbolSection \<Rightarrow>
          and_then (section_at (ucast (sh_link (sec_sh symbolSection))) p)
            (\<lambda>stringSection. and_then (read_symbols (length (sec_data symbolSection) div 24) buffer (sec_data stringSection)
                  (sh_offset (sec_sh symbolSection)))
               (\<lambda>syms. Inr (True, p\<lparr>symbols := syms\<rparr>))))"

definition loadDynSymbols :: "u8 list \<Rightarrow> Program \<Rightarrow> fault + bool \<times> Program" where
  "loadDynSymbols buffer p =
     (case findSection ''.dynsym'' p of None \<Rightarrow> Inr (False, p)
      | Some symbolSection \<Rightarrow>
          and_then (section_at (ucast (sh_link (sec_sh symbolSection))) p)
            (\<lambda>stringSection. and_then (read_symbols (length (sec_data symbolSection) div 24) buffer (sec_data stringSection)
                  (sh_offset (sec_sh symbolSection)))
               (\<lambda>syms. Inr (True, p\<lparr>dynSymbols := syms\<rparr>))))"

text \<open>Relocations only resolve names; a jump slot whose name is defined is written with a stub address, eight bytes wide.\<close>

definition kwriteRegion :: "u64 \<Rightarrow> u8 list \<Rightarrow> Kernel \<Rightarrow> fault + Kernel" where
  "kwriteRegion addr data k = and_then (writeRegion addr data (machine_of k)) (\<lambda>mc. Inr (put_machine mc k))"

definition readRela :: "u8 list \<Rightarrow> u64 \<Rightarrow> fault + ElfRela" where
  "readRela buffer pos = and_then (read_fields [8, 8, 8] buffer pos)
     (\<lambda>(v, _). Inr \<lparr>r_offset = v ! 0, r_info = v ! 1, r_addend = v ! 2\<rparr>)"

definition apply_rela :: "Program \<Rightarrow> ElfRela \<Rightarrow> Kernel \<Rightarrow> fault + Kernel" where
  "apply_rela p rela k =
     (let symType = bitRange 0 31 (r_info rela); symIndex = bitRange 32 63 (r_info rela)
      in if unat symIndex < length (dynSymbols p) then
           let symbol = dynSymbols p ! unat symIndex
           in if symType = 1026 \<and> program_findSymbol (sym_name symbol) p \<noteq> None
              then kwrite 8 (r_offset rela) (0x20000000 + 8 * symIndex) k
              else Inr k
         else Inl BadIndex)"

fun rela_loop :: "nat \<Rightarrow> u8 list \<Rightarrow> u64 \<Rightarrow> Program \<Rightarrow> Kernel \<Rightarrow> fault + Kernel" where
  "rela_loop 0 buffer pos p k = Inr k"
| "rela_loop (Suc n) buffer pos p k =
     and_then (readRela buffer pos) (\<lambda>rela. and_then (apply_rela p rela k) (rela_loop n buffer (pos + 24) p))"

fun relocate_sections :: "Section list \<Rightarrow> u8 list \<Rightarrow> Program \<Rightarrow> Kernel \<Rightarrow> fault + Kernel" where
  "relocate_sections [] buffer p k = Inr k"
| "relocate_sections (section # ss) buffer p k =
     (if sh_type (sec_sh section) = SHT_RELA then
        and_then (section_at (ucast (sh_link (sec_sh section))) p)
          (\<lambda>_. and_then (rela_loop (length (sec_data section) div 24) buffer (sh_offset (sec_sh section)) p k)
             (relocate_sections ss buffer p))
      else relocate_sections ss buffer p k)"

definition loadRelocations :: "u8 list \<Rightarrow> Program \<Rightarrow> Kernel \<Rightarrow> fault + Kernel" where
  "loadRelocations buffer p k = relocate_sections (sections p) buffer p k"

definition readProgramHeader :: "u8 list \<Rightarrow> u64 \<Rightarrow> fault + ElfProgramHeader" where
  "readProgramHeader buffer pos = and_then (read_fields [4, 4, 8, 8, 8, 8, 8, 8] buffer pos)
     (\<lambda>(v, _). Inr \<lparr>p_type = ucast (v ! 0), p_flags = ucast (v ! 1), p_offset = v ! 2, p_vaddr = v ! 3, p_paddr = v ! 4,
        p_filesz = v ! 5, p_memsz = v ! 6, p_align = v ! 7\<rparr>)"

fun program_header_loop :: "nat \<Rightarrow> nat \<Rightarrow> u8 list \<Rightarrow> Program \<Rightarrow> Kernel \<Rightarrow> fault + bool \<times> Kernel" where
  "program_header_loop 0 i buffer p k = Inr (True, k)"
| "program_header_loop (Suc n) i buffer p k =
     and_then (readProgramHeader buffer (e_phoff (eh p) + ucast ((of_nat i :: u32) * ucast (e_phentsize (eh p)))))
       (\<lambda>ph. if p_type ph = PT_LOAD then
            and_then (buf_bytes (unat (p_filesz ph)) buffer (p_offset ph))
              (\<lambda>bs. and_then (kwriteRegion (p_vaddr ph) bs k) (program_header_loop n (i + 1) buffer p))
          else if p_type ph = PT_DYNAMIC \<and> findSection ''.dynamic'' p = None then Inr (False, k)
          else program_header_loop n (i + 1) buffer p k)"

definition readProgramHeaders :: "u8 list \<Rightarrow> Program \<Rightarrow> Kernel \<Rightarrow> fault + bool \<times> Kernel" where
  "readProgramHeaders buffer p k = program_header_loop (unat (e_phnum (eh p))) 0 buffer p k"

subsection \<open>The loader object\<close>

type_synonym SymbolMap = "(u64 \<times> string) list"

record Loader =
  workingPath :: string
  nextFreeAddress :: u64
  loadedSymbols :: "Symbol list"
  prog :: Program
  symbolLookupMap :: SymbolMap
  loadedModules :: "ModObject list"
  loadedModulesSizes :: "u64 list"
  out_bin :: "u8 list"

record LoaderEnv =
  files :: "string \<Rightarrow> u8 list option"
  LZ4_decompress_safe :: "u8 list \<Rightarrow> int \<Rightarrow> int \<Rightarrow> int \<times> u8 list"

type_synonym LState = "Loader \<times> Kernel"

text \<open>Assignment to a key of the map, whose keys decrease.\<close>

fun map_assign :: "u64 \<Rightarrow> string \<Rightarrow> SymbolMap \<Rightarrow> SymbolMap" where
  "map_assign a s [] = [(a, s)]"
| "map_assign a s ((b, t) # m) =
     (if a = b then (a, s) # m else if b < a then (a, s) # (b, t) # m else (b, t) # map_assign a s m)"

definition setRootPath :: "string \<Rightarrow> Loader \<Rightarrow> Loader" where
  "setRootPath path L = L\<lparr>workingPath := path\<rparr>"

definition elf_checks :: "ElfHeader \<Rightarrow> bool" where
  "elf_checks h \<longleftrightarrow> e_magic h = [0x7F, 0x45, 0x4C, 0x46] \<and> e_class h = 2 \<and> e_data h = 1 \<and> e_version h = 1 \<and>
     e_machine h = 0xB7 \<and> e_flags h = 0 \<and> e_ehsize h = 64 \<and> e_shentsize h = 64"

definition loadElf :: "u8 list \<Rightarrow> LState \<Rightarrow> fault + bool \<times> LState" where
  "loadElf buffer = (\<lambda>(L, k).
     and_then (readElfHeader buffer 0) (\<lambda>(h, _).
       let p = (prog L)\<lparr>eh := h\<rparr>
       in if \<not> elf_checks h then Inr (False, L\<lparr>prog := p\<rparr>, k)
          else and_then (readSections buffer p) (\<lambda>p.
               and_then (loadSections p) (\<lambda>p.
               and_then (readProgramHeaders buffer p k) (\<lambda>(_, k).
               and_then (loadSymbols buffer p) (\<lambda>(_, p).
               and_then (loadDynSymbols buffer p) (\<lambda>(_, p).
               and_then (loadRelocations buffer p k) (\<lambda>k. Inr (True, L\<lparr>prog := p\<rparr>, k)))))))))"

subsection \<open>NSO modules\<close>

definition nso_segment :: "nat \<Rightarrow> u8 list \<Rightarrow> NsoSegmentHeader" where
  "nso_segment i bs = \<lparr>dataOffset = ucast (struct_field 4 (0x10 + 16 * i) bs), memoryOffset = ucast (struct_field 4 (0x14 + 16 * i) bs),
     seg_size = ucast (struct_field 4 (0x18 + 16 * i) bs), bssSize = ucast (struct_field 4 (0x1C + 16 * i) bs)\<rparr>"

definition nso_header :: "u8 list \<Rightarrow> NSO_header" where
  "nso_header bs = \<lparr>nso_magic = take 4 bs, nso_version = ucast (struct_field 4 4 bs), nso_reserved1 = ucast (struct_field 4 8 bs),
     nso_flags = ucast (struct_field 4 12 bs), segmentHeaders = map (\<lambda>i. nso_segment i bs) [0..<3], gnuBuildId = take 0x20 (drop 0x40 bs),
     segmentSizes = map (\<lambda>i. ucast (struct_field 4 (0x60 + 4 * i) bs)) [0..<3],
     rodataDynstr = (ucast (struct_field 4 0x90 bs), ucast (struct_field 4 0x94 bs)),
     rodataDynsym = (ucast (struct_field 4 0x98 bs), ucast (struct_field 4 0x9C bs)), segmentSha256s = take 0x60 (drop 0xA0 bs)\<rparr>"

definition decompress :: "LoaderEnv \<Rightarrow> u8 list \<Rightarrow> u32 \<Rightarrow> u32 \<Rightarrow> bool \<times> u8 list" where
  "decompress env src srcLength dstLength =
     (let (len, out) = LZ4_decompress_safe env src (sint srcLength) (sint dstLength)
      in (\<not> len < 0 \<and> word_of_int len = dstLength \<and> len > 0, out))"

text \<open>Bytes stored at an offset of a buffer.\<close>

definition overwrite :: "nat \<Rightarrow> u8 list \<Rightarrow> u8 list \<Rightarrow> u8 list" where
  "overwrite off bs img = take off img @ bs @ drop (off + length bs) img"

fun decompress_segments :: "LoaderEnv \<Rightarrow> u8 list \<Rightarrow> (NsoSegmentHeader \<times> u32) list \<Rightarrow> u8 list \<Rightarrow> fault + bool \<times> u8 list" where
  "decompress_segments env buffer [] img = Inr (True, img)"
| "decompress_segments env buffer ((sh, srcLength) # ss) img =
     and_then (buf_bytes (unat srcLength) buffer (ucast (dataOffset sh)))
       (\<lambda>src. let (ok, out) = decompress env src srcLength (seg_size sh)
          in if unat (memoryOffset sh) + length out > length img then Inl BadIndex
             else if ok then decompress_segments env buffer ss (overwrite (unat (memoryOffset sh)) out img)
             else Inr (False, overwrite (unat (memoryOffset sh)) out img))"

definition nso_image_size :: "NSO_header \<Rightarrow> nat" where
  "nso_image_size h = (let s = segmentHeaders h ! 2 in unat (memoryOffset s + seg_size s + bssSize s))"

definition mod_header :: "u8 list \<Rightarrow> ModHeader" where
  "mod_header bs = \<lparr>mod_magic = ucast (struct_field 4 0 bs), mod_dynamic = ucast (struct_field 4 4 bs), bss_start = ucast (struct_field 4 8 bs),
     bss_end = ucast (struct_field 4 12 bs), unwind_start = ucast (struct_field 4 16 bs), unwind_end = ucast (struct_field 4 20 bs),
     mod_object = ucast (struct_field 4 24 bs)\<rparr>"

definition mod_offset :: "u8 list \<Rightarrow> fault + u32" where
  "mod_offset img = and_then (buf_bytes 4 img 4) (\<lambda>bs. Inr (ucast (le_val bs)))"

text \<open>The address after a module, its image rounded up to the next multiple of 0x8000000 (a multiple gains a whole one).\<close>

definition next_module :: "u64 \<Rightarrow> nat \<Rightarrow> u64" where
  "next_module a n = (let e = a + of_nat n in e + (0x8000000 - e mod 0x8000000))"

definition page_up :: "'a::len word \<Rightarrow> 'a word" where
  "page_up n = n + (0x1000 - n mod 0x1000)"

definition add_module :: "nat \<Rightarrow> Loader \<Rightarrow> ModObject \<times> Loader" where
  "add_module image_size L =
     (let modObj = new_ModObject\<lparr>module_base := nextFreeAddress L\<rparr>; next = next_module (nextFreeAddress L) image_size
      in (modObj, L\<lparr>loadedModules := loadedModules L @ [modObj], nextFreeAddress := next,
             loadedModulesSizes := loadedModulesSizes L @ [next - nextFreeAddress L]\<rparr>))"

definition map_module :: "NSO_header \<Rightarrow> u64 \<Rightarrow> Kernel \<Rightarrow> fault + Kernel" where
  "map_module h base k =
     (let seg = (\<lambda>i. segmentHeaders h ! i)
      in and_then (map_region (ucast (memoryOffset (seg 0)) + base) (ucast (page_up (seg_size (seg 0)))) CODE_STATIC READ_EXECUTE k) (\<lambda>k.
         and_then (map_region (ucast (memoryOffset (seg 1)) + base) (ucast (page_up (seg_size (seg 1)))) PROCESS_MEM READ_ONLY k) (\<lambda>k.
         map_region (ucast (memoryOffset (seg 2)) + base) (page_up (ucast (seg_size (seg 2) + bssSize (seg 2)))) PROCESS_MEM READ_WRITE k)))"

definition dyn_entry :: "u64 \<Rightarrow> u64 \<Rightarrow> ModObject \<times> u64 list \<Rightarrow> ModObject \<times> u64 list" where
  "dyn_entry tag val = (\<lambda>(mo, needed).
     if tag = 1 then (mo, needed @ [val])
     else if tag = 23 then (mo\<lparr>relplt := val\<rparr>, needed)
     else if tag = 7 then (mo\<lparr>reldyn := val\<rparr>, needed)
     else if tag = 8 then (mo\<lparr>reladynSize := val\<rparr>, needed)
     else if tag = 20 then (if val = 7 then mo\<lparr>isRela := 1\<rparr> else if val = 17 then mo\<lparr>isRela := 0\<rparr> else mo, needed)
     else if tag = 2 then (mo\<lparr>relpltSize := val\<rparr>, needed)
     else if tag = 12 then (mo\<lparr>mo_init := val\<rparr>, needed)
     else if tag = 13 then (mo\<lparr>mo_fini := val\<rparr>, needed)
     else if tag = 5 then (mo\<lparr>strtab := val\<rparr>, needed)
     else if tag = 6 then (mo\<lparr>symtab := val\<rparr>, needed)
     else if tag = 10 then (mo\<lparr>strtabSize := val\<rparr>, needed)
     else if tag = 3 then (mo\<lparr>got := val\<rparr>, needed)
     else if tag = 0x6ffffff9 then (mo\<lparr>relaCount := val\<rparr>, needed)
     else (mo, needed))"

text \<open>The loop over the dynamic entries ends at \<^verbatim>\<open>DT_NULL\<close> or leaves the image.\<close>

function dyn_loop :: "u8 list \<Rightarrow> nat \<Rightarrow> ModObject \<times> u64 list \<Rightarrow> fault + ModObject \<times> u64 list" where
  "dyn_loop img off acc =
     (if off + 16 \<le> length img then
        let tag = struct_field 8 off img; val = struct_field 8 (off + 8) img
        in if tag = 0 then Inr acc else dyn_loop img (off + 16) (dyn_entry tag val acc)
      else Inl BadIndex)"
  by pat_completeness auto
termination
  by (relation "measure (\<lambda>(img, off, _). length img - off)") auto

declare dyn_loop.simps [simp del]

definition symbol_header :: "u8 list \<Rightarrow> ElfSymbolHeader" where
  "symbol_header bs = \<lparr>st_name = ucast (struct_field 4 0 bs), st_info = ucast (struct_field 1 4 bs), st_other = ucast (struct_field 1 5 bs),
     st_shndx = ucast (struct_field 2 6 bs), st_value = struct_field 8 8 bs, st_size = struct_field 8 16 bs\<rparr>"

definition add_symbol :: "u64 \<Rightarrow> Symbol \<Rightarrow> Loader \<Rightarrow> Loader" where
  "add_symbol base symbol L =
     (let sh = sym_sh symbol
      in if (st_bind sh = STB_GLOBAL \<or> st_bind sh = STB_WEAK) \<and> st_shndx sh \<noteq> SHN_UNDEF then
           let newGlobal = symbol\<lparr>sym_sh := sh\<lparr>st_value := st_value sh + base\<rparr>\<rparr>
           in L\<lparr>loadedSymbols := loadedSymbols L @ [newGlobal],
                symbolLookupMap := map_assign (st_value (sym_sh newGlobal)) (sym_name newGlobal) (symbolLookupMap L)\<rparr>
         else L)"

fun symbol_loop :: "nat \<Rightarrow> u8 list \<Rightarrow> u64 \<Rightarrow> ModObject \<Rightarrow> Loader \<Rightarrow> fault + Loader" where
  "symbol_loop 0 img off mo L = Inr L"
| "symbol_loop (Suc n) img off mo L =
     and_then (buf_bytes 24 img off)
       (\<lambda>bs. let sh = symbol_header bs
          in and_then (c_string img (strtab mo + ucast (st_name sh)))
               (\<lambda>name. symbol_loop n img (off + 24) mo (add_symbol (module_base mo) \<lparr>sym_sh = sh, sym_name = name\<rparr> L)))"

definition load_mod_symbols :: "u8 list \<Rightarrow> ModObject \<Rightarrow> Loader \<Rightarrow> fault + Loader" where
  "load_mod_symbols img mo L =
     (if symtab mo \<noteq> 0 \<and> symtab mo + 24 \<le> of_nat (length img)
      then symbol_loop (unat ((strtab mo - symtab mo) div 24)) img (symtab mo) mo L
      else Inr L)"

text \<open>\<^verbatim>\<open>snprintf\<close> into a buffer of eight bytes keeps seven characters.\<close>

definition library_name :: "nat \<Rightarrow> nat \<Rightarrow> string" where
  "library_name i n = (if i + 1 = n then ''sdk'' else take 7 (''subsdk'' @ to_string i))"

text \<open>Sequencing of loads, which may fault or never end.\<close>

definition load_then :: "(fault + 'a) option \<Rightarrow> ('a \<Rightarrow> (fault + 'b) option) \<Rightarrow> (fault + 'b) option" where
  "load_then r f = Option.bind r (\<lambda>x. case x of Inl e \<Rightarrow> Some (Inl e) | Inr a \<Rightarrow> f a)"

lemma load_then_simps [simp]:
  "load_then None f = None" "load_then (Some (Inl e)) f = Some (Inl e)" "load_then (Some (Inr a)) f = f a"
  by (simp_all add: load_then_def)

lemma load_then_eq_Some: "load_then r f = Some (Inr b) \<longleftrightarrow> (\<exists>a. r = Some (Inr a) \<and> f a = Some (Inr b))"
  by (cases r) (auto simp: load_then_def split: sum.splits)

lemma load_then_eq_None: "load_then r f = None \<longleftrightarrow> r = None \<or> (\<exists>a. r = Some (Inr a) \<and> f a = None)"
  by (cases r) (auto simp: load_then_def split: sum.splits)

lemma load_then_mono [partial_function_mono]:
  fixes r :: "('c \<Rightarrow> 'd option) \<Rightarrow> (fault + 'a) option"
  assumes "mono_option r" and "\<And>a. mono_option (\<lambda>g. f g a)"
  shows "mono_option (\<lambda>g. load_then (r g) (f g))"
  unfolding load_then_def
proof (rule bind_mono [OF assms(1)])
  fix x :: "fault + 'a"
  show "mono_option (\<lambda>g. case x of Inl e \<Rightarrow> Some (Inl e) | Inr a \<Rightarrow> f g a)"
    by (cases x) (simp_all add: option.const_mono assms(2))
qed

fun load_libraries :: "(string \<Rightarrow> LState \<Rightarrow> (fault + bool \<times> LState) option) \<Rightarrow> u8 list \<Rightarrow> u64 \<Rightarrow> nat \<Rightarrow> nat \<Rightarrow> u64 list \<Rightarrow> LState
    \<Rightarrow> (fault + LState) option" where
  "load_libraries exe img strs i n [] s = Some (Inr s)"
| "load_libraries exe img strs i n (name # names) s =
     (case c_string img (strs + name) of Inl e \<Rightarrow> Some (Inl e)
      | Inr _ \<Rightarrow> load_then (exe (workingPath (fst s) @ library_name i n) s)
          (\<lambda>(_, s). load_libraries exe img strs (Suc i) n names s))"

text \<open>
  \<^verbatim>\<open>loadNso\<close> up to its libraries: \<open>None\<close> when a segment does not decompress (the function returns false), else the image, the module
  and the libraries it needs.
\<close>

definition place_nso :: "LoaderEnv \<Rightarrow> u8 list \<Rightarrow> LState \<Rightarrow> fault + (u8 list \<times> ModObject \<times> u64 list) option \<times> LState" where
  "place_nso env buffer = (\<lambda>(L, k).
     and_then (buf_bytes 0x100 buffer 0) (\<lambda>bs. let header = nso_header bs in
     and_then (decompress_segments env buffer (zip (segmentHeaders header) (segmentSizes header)) (replicate (nso_image_size header) 0))
       (\<lambda>(ok, img). if \<not> ok then Inr (None, L, k) else
     and_then (mod_offset img) (\<lambda>off.
     and_then (buf_bytes 0x1C img (ucast off)) (\<lambda>mbs. let modHeader = mod_header mbs;
          (modObj, L) = add_module (length img) (L\<lparr>out_bin := img\<rparr>) in
     and_then (map_module header (module_base modObj) k) (\<lambda>k.
     and_then (kwriteRegion (module_base modObj) img k) (\<lambda>k.
     if mod_magic modHeader = 0x30444F4D then
       and_then (dyn_loop img (unat (mod_dynamic modHeader + off)) (modObj, [])) (\<lambda>(modObj, needed).
       and_then (load_mod_symbols img modObj L) (\<lambda>L. Inr (Some (img, modObj, needed), L, k)))
     else Inr (Some (img, modObj, []), L, k))))))))"

definition loadNso :: "(string \<Rightarrow> LState \<Rightarrow> (fault + bool \<times> LState) option) \<Rightarrow> LoaderEnv \<Rightarrow> u8 list \<Rightarrow> LState
    \<Rightarrow> (fault + bool \<times> LState) option" where
  "loadNso exe env buffer s =
     (case place_nso env buffer s of Inl e \<Rightarrow> Some (Inl e)
      | Inr (None, s) \<Rightarrow> Some (Inr (False, s))
      | Inr (Some (img, modObj, needed), s) \<Rightarrow>
          load_then (load_libraries exe img (strtab modObj) 0 (length needed) needed s) (\<lambda>s. Some (Inr (True, s))))"

definition getFileType :: "u8 list \<Rightarrow> fault + int" where
  "getFileType buffer =
     and_then (buf_bytes 4 buffer 0) (\<lambda>m.
       Inr (if m ! 0 = 0x7F \<or> m ! 1 = 0x45 \<or> m ! 2 = 0x4C \<or> m ! 3 = 0x46 then 0
            else if m ! 0 = 0x4E \<or> m ! 1 = 0x53 \<or> m ! 2 = 0x4F \<or> m ! 3 = 0x30 then 1 else - 1))"

text \<open>The size of a file is cast to 32 bits.\<close>

definition readFile :: "LoaderEnv \<Rightarrow> string \<Rightarrow> u8 list option" where
  "readFile env filePath = map_option (\<lambda>bytes. take (length bytes mod 2 ^ 32) bytes) (files env filePath)"

lemma load_libraries_mono [partial_function_mono]:
  assumes "\<And>path s. mono_option (\<lambda>f. g f path s)"
  shows "mono_option (\<lambda>f. load_libraries (g f) img strs i n names s)"
proof (induction names arbitrary: i s)
  case Nil
  show ?case by (simp add: option.const_mono)
next
  case (Cons name names)
  show ?case
  proof (cases "c_string img (strs + name)")
    case (Inl e)
    then show ?thesis by (simp add: option.const_mono)
  next
    case (Inr x)
    have "mono_option (\<lambda>f. load_then (g f (workingPath (fst s) @ library_name i n) s)
            (\<lambda>(_, s). load_libraries (g f) img strs (Suc i) n names s))"
      by (rule load_then_mono [OF assms]) (auto simp: Cons.IH split: prod.split)
    with Inr show ?thesis by simp
  qed
qed

lemma loadNso_mono [partial_function_mono]:
  assumes "\<And>path s. mono_option (\<lambda>f. g f path s)"
  shows "mono_option (\<lambda>f. loadNso (g f) env buffer s)"
proof (cases "place_nso env buffer s")
  case (Inl e)
  then show ?thesis by (simp add: loadNso_def option.const_mono)
next
  case (Inr r)
  obtain found s' where r: "r = (found, s')" by (cases r)
  show ?thesis
  proof (cases found)
    case None
    with Inr r show ?thesis by (simp add: loadNso_def option.const_mono)
  next
    case (Some m)
    with Inr r show ?thesis
      by (cases m) (simp add: loadNso_def load_then_mono option.const_mono load_libraries_mono assms)
  qed
qed

partial_function (option) loadExe :: "LoaderEnv \<Rightarrow> string \<Rightarrow> LState \<Rightarrow> (fault + bool \<times> LState) option" where
  "loadExe env filePath s =
     (case readFile env filePath of None \<Rightarrow> Some (Inr (False, s))
      | Some buffer \<Rightarrow>
          if length buffer = 0 then Some (Inr (False, s))
          else (case getFileType buffer of Inl e \<Rightarrow> Some (Inl e)
            | Inr t \<Rightarrow> if t = 0 then Some (loadElf buffer s)
                else if t = 1 then loadNso (\<lambda>path s. loadExe env path s) env buffer s
                else Some (Inr (False, s))))"

definition loadGame :: "LoaderEnv \<Rightarrow> LState \<Rightarrow> (fault + bool \<times> LState) option" where
  "loadGame env s =
     load_then (loadExe env (workingPath (fst s) @ ''rtld'') s) (\<lambda>(_, s).
     load_then (loadExe env (workingPath (fst s) @ ''main'') s) (\<lambda>(ok, L, k).
       if \<not> ok then Some (Inr (False, L, k))
       else Some (Inr (True, L\<lparr>prog := (prog L)\<lparr>eh := (eh (prog L))\<lparr>e_entry := 0x8000000\<rparr>\<rparr>\<rparr>, k))))"

definition getProgramEntry :: "Loader \<Rightarrow> u64" where
  "getProgramEntry L = e_entry (eh (prog L))"

definition loader_findSymbol :: "u64 \<Rightarrow> Loader \<Rightarrow> string option" where
  "loader_findSymbol addr L = map_of (symbolLookupMap L) addr"

text \<open>\<^verbatim>\<open>lower_bound\<close> in a map with the order \<^verbatim>\<open>greater\<close>: the first key that is not above the address.\<close>

definition lower_bound :: "u64 \<Rightarrow> SymbolMap \<Rightarrow> (u64 \<times> string) option" where
  "lower_bound addr m = find (\<lambda>(a, _). \<not> a > addr) m"

definition findNearestSymbol :: "u64 \<Rightarrow> Loader \<Rightarrow> string" where
  "findNearestSymbol addr L =
     (case lower_bound addr (symbolLookupMap L) of
        Some (a, name) \<Rightarrow> (let err = addr - a in if err = 0 then name else name @ '' + '' @ to_string (unat err))
      | None \<Rightarrow> ''No Symbol Found'')"

end
