(* ===== verification/Gpu_Devices.thy ===== *)
theory Gpu_Devices
  imports Loader
begin

text \<open>
  The devices of the graphics driver, \<^verbatim>\<open>switch-emu/src/gpu\<close>, and the service that opens them and passes commands to them,
  \<^verbatim>\<open>hle/nns/nvdrv/INvDrvServices.cpp\<close>. A command takes the bytes of a structure and yields an error code and the bytes of another.

  \<open>ServiceEnv\<close> holds what the services take from outside: \<open>raw\<close>, the contents of an object the source leaves uninitialised, by the name of its function and the
  offset in it, and \<open>romfs\<close>, the contents of the file of that name in the directory of the game. A read behind the end of a vector is \<open>BadIndex\<close>.
\<close>

unbundle bit_operations_syntax

record ServiceEnv =
  raw :: "string \<Rightarrow> Kernel \<Rightarrow> nat \<Rightarrow> u8"
  romfs :: "u8 list option"

definition uninit :: "ServiceEnv \<Rightarrow> string \<Rightarrow> nat \<Rightarrow> nat \<Rightarrow> Kernel \<Rightarrow> u8 list" where
  "uninit env name off n k = map (\<lambda>i. raw env name k (off + i)) [0..<n]"

definition upd_services :: "(ServiceState \<Rightarrow> ServiceState) \<Rightarrow> Kernel \<Rightarrow> Kernel" where
  "upd_services f k = k\<lparr>gServices := f (gServices k)\<rparr>"

type_synonym DeviceFunc = "u8 list \<Rightarrow> Kernel \<Rightarrow> fault + u32 \<times> u8 list \<times> Kernel"

definition ERR_NOT_IMPLEMENTED :: u32 where "ERR_NOT_IMPLEMENTED = 1"
definition ERR_SUCCESS :: u32 where "ERR_SUCCESS = 0"

text \<open>\<^verbatim>\<open>readObjectFromBuffer\<close> of an object of \<open>n\<close> bytes; \<^verbatim>\<open>writeObjectToBuffer\<close> appends the bytes of an object.\<close>

definition readObjectFromBuffer :: "nat \<Rightarrow> u8 list \<Rightarrow> fault + u8 list" where
  "readObjectFromBuffer n buffer = (if n \<le> length buffer then Inr (take n buffer) else Inl BadIndex)"

abbreviation w32 :: "u32 \<Rightarrow> u8 list" where "w32 v \<equiv> le_bytes 4 (ucast v)"
abbreviation w64 :: "u64 \<Rightarrow> u8 list" where "w64 v \<equiv> le_bytes 8 v"
abbreviation f32 :: "nat \<Rightarrow> u8 list \<Rightarrow> u32" where "f32 off bs \<equiv> ucast (struct_field 4 off bs)"
abbreviation f64 :: "nat \<Rightarrow> u8 list \<Rightarrow> u64" where "f64 off bs \<equiv> struct_field 8 off bs"

text \<open>A command that reads its argument and logs it.\<close>

definition logged_command :: "nat \<Rightarrow> DeviceFunc" where
  "logged_command n inp k = and_then (readObjectFromBuffer n inp) (\<lambda>_. Inr (ERR_SUCCESS, [], k))"

subsection \<open>Memory objects\<close>

definition lookupNvmapObject :: "u32 \<Rightarrow> Kernel \<Rightarrow> fault + NvmapObject" where
  "lookupNvmapObject handle k = find_ref (\<lambda>ob. nv_handle ob = handle) (gMapObjects (gServices k))"

text \<open>The members after \<^verbatim>\<open>size\<close> of a new object are uninitialised: offsets 12, 16, 20 and 24 of the object.\<close>

definition new_nvmap :: "ServiceEnv \<Rightarrow> u32 \<Rightarrow> u32 \<Rightarrow> u32 \<Rightarrow> Kernel \<Rightarrow> NvmapObject" where
  "new_nvmap env handle i size' k = (let junk = uninit env ''IocCreate.newObject'' 0 32 k in
     \<lparr>nv_handle = handle, nv_id = i, nv_size = size', nv_align = f32 12 junk, nv_heap = f32 16 junk,
      nv_kind = ucast (struct_field 1 20 junk), nv_addr = f64 24 junk\<rparr>)"

definition IocCreate :: "ServiceEnv \<Rightarrow> DeviceFunc" where
  "IocCreate env inp k = and_then (readObjectFromBuffer 8 inp) (\<lambda>objectIn.
     let size' = f32 0 objectIn; st = gServices k; handle = handleCounter st;
         newObject = new_nvmap env handle (idCounter st) size' k
     in Inr (ERR_SUCCESS, w32 size' @ w32 handle,
          upd_services (\<lambda>st. st\<lparr>handleCounter := handleCounter st + 1, idCounter := idCounter st + 1,
                                gMapObjects := gMapObjects st @ [newObject]\<rparr>) k))"

definition IocFromId :: "ServiceEnv \<Rightarrow> DeviceFunc" where
  "IocFromId env inp k = and_then (readObjectFromBuffer 8 inp) (\<lambda>objectIn.
     let handle = (case find (\<lambda>ob. nv_id ob = f32 4 objectIn) (gMapObjects (gServices k)) of
                     Some ob \<Rightarrow> nv_handle ob | None \<Rightarrow> f32 0 objectIn)
     in Inr (ERR_SUCCESS, w32 handle @ uninit env ''IocFromId.objectOut'' 4 4 k, k))"

fun update_first :: "('a \<Rightarrow> bool) \<Rightarrow> ('a \<Rightarrow> 'a) \<Rightarrow> 'a list \<Rightarrow> 'a list" where
  "update_first P f [] = []"
| "update_first P f (x # xs) = (if P x then f x # xs else x # update_first P f xs)"

definition IocAlloc :: DeviceFunc where
  "IocAlloc inp k = and_then (readObjectFromBuffer 32 inp) (\<lambda>objectIn.
     let handle = f32 0 objectIn; align = f32 12 objectIn; addr = f64 24 objectIn
     in Inr (ERR_SUCCESS, w32 handle @ w32 (f32 4 objectIn) @ w32 (f32 8 objectIn) @ w32 align @ [0] @ take 7 (drop 17 objectIn) @ w64 addr,
          upd_services (\<lambda>st. st\<lparr>gMapObjects := update_first (\<lambda>ob. nv_handle ob = handle)
            (\<lambda>ob. ob\<lparr>nv_align := align, nv_heap := 0x40000000, nv_kind := ucast (struct_field 1 16 objectIn), nv_addr := addr\<rparr>)
            (gMapObjects st)\<rparr>) k))"

text \<open>The parameter asked for, of an object whose members are uninitialised when no object has the handle.\<close>

definition nvmap_param :: "u32 \<Rightarrow> NvmapObject \<Rightarrow> u32" where
  "nvmap_param param ob = (if param = 1 then nv_size ob else if param = 2 then nv_align ob else if param = 4 then nv_heap ob
     else if param = 5 then ucast (nv_kind ob) else 0)"

definition raw_nvmap :: "ServiceEnv \<Rightarrow> Kernel \<Rightarrow> NvmapObject" where
  "raw_nvmap env k = (let junk = uninit env ''IocParam.object'' 0 32 k in
     \<lparr>nv_handle = f32 0 junk, nv_id = f32 4 junk, nv_size = f32 8 junk, nv_align = f32 12 junk, nv_heap = f32 16 junk,
      nv_kind = ucast (struct_field 1 20 junk), nv_addr = f64 24 junk\<rparr>)"

definition IocParam :: "ServiceEnv \<Rightarrow> DeviceFunc" where
  "IocParam env inp k = and_then (readObjectFromBuffer 12 inp) (\<lambda>objectIn.
     let handle = f32 0 objectIn; param = f32 4 objectIn;
         ob = (case find (\<lambda>ob. nv_handle ob = handle) (gMapObjects (gServices k)) of Some ob \<Rightarrow> ob | None \<Rightarrow> raw_nvmap env k)
     in Inr (ERR_SUCCESS, w32 handle @ w32 param @ w32 (nvmap_param param ob), k))"

definition IocGetId :: "ServiceEnv \<Rightarrow> DeviceFunc" where
  "IocGetId env inp k = and_then (readObjectFromBuffer 8 inp) (\<lambda>objectIn.
     let handle = f32 0 objectIn
     in Inr (ERR_SUCCESS, w32 handle @ (case find (\<lambda>ob. nv_handle ob = handle) (gMapObjects (gServices k)) of
            Some ob \<Rightarrow> w32 (nv_id ob) | None \<Rightarrow> uninit env ''IocGetId.objectOut'' 4 4 k), k))"

subsection \<open>The other devices\<close>

definition GetConfig :: "ServiceEnv \<Rightarrow> DeviceFunc" where
  "GetConfig env inp k = and_then (readObjectFromBuffer 0x183 inp) (\<lambda>_.
     Inr (ERR_SUCCESS, [0] @ uninit env ''GetConfig.objectOut'' 1 0x40 k @ [0] @ uninit env ''GetConfig.objectOut'' 0x42 0x40 k
       @ [0] @ uninit env ''GetConfig.objectOut'' 0x83 0x100 k, k))"

definition ZcullGetCtxSize :: DeviceFunc where
  "ZcullGetCtxSize inp k = Inr (ERR_SUCCESS, w32 0x10200, k)"

definition ZcullGetInfo :: DeviceFunc where
  "ZcullGetInfo inp k = Inr (ERR_SUCCESS, concat (map w32 [0x20, 0x20, 0x400, 0x800, 0x20, 0x20, 0xC0, 0x20, 0x40, 0x10]), k)"

definition GpuCharacteristics :: "u8 list" where
  "GpuCharacteristics = concat (map w32 [0x120, 0xB, 0xA1, 0x1]) @ w64 0x40000 @ w64 0x0
     @ concat (map w32 [0x2, 0x20, 0x20000, 0x20000, 0x1B, 0x30000, 0x1, 0x503, 0x503, 0x80, 0x28, 0x0]) @ w64 0x55
     @ concat (map w32 [0x902D, 0xB197, 0xB1C0, 0xB06F, 0xA140, 0xB0B5, 0x1, 0x0, 0x2, 0x1, 0x0, 0x1, 0x21D70, 0x0])
     @ w64 0x6230326D67 @ w64 0x0"

definition GetCharacteristics :: DeviceFunc where
  "GetCharacteristics inp k = and_then (readObjectFromBuffer 0xB0 inp) (\<lambda>objectIn.
     Inr (ERR_SUCCESS, w64 (f64 0 objectIn) @ w64 (f64 8 objectIn) @ GpuCharacteristics, k))"

definition GetTpcMasks :: "ServiceEnv \<Rightarrow> DeviceFunc" where
  "GetTpcMasks env inp k = and_then (readObjectFromBuffer 24 inp) (\<lambda>objectIn.
     Inr (ERR_SUCCESS, w32 4 @ uninit env ''GetTpcMasks.objectOut'' 4 4 k @ w64 (f64 8 objectIn) @ w64 0x3, k))"

definition GetL2State :: DeviceFunc where
  "GetL2State inp k = Inr (ERR_SUCCESS, w32 0x7 @ w32 0x0, k)"

definition BindChannel :: DeviceFunc where "BindChannel = logged_command 4"

definition AllocSpace :: DeviceFunc where
  "AllocSpace inp k = and_then (readObjectFromBuffer 24 inp) (\<lambda>objectIn.
     and_then (map_region 0xF0000000 0x10000000 CODE_STATIC ALL_PERM k) (\<lambda>k.
       Inr (ERR_SUCCESS, w32 (f32 0 objectIn) @ w32 (f32 4 objectIn) @ w32 (f32 8 objectIn) @ w32 0 @ w64 0x400000000, k)))"

definition MapBufferEx :: "ServiceEnv \<Rightarrow> DeviceFunc" where
  "MapBufferEx env inp k = and_then (readObjectFromBuffer 40 inp) (\<lambda>objectIn.
     and_then (lookupNvmapObject (f32 8 objectIn) k) (\<lambda>ob.
       Inr (ERR_SUCCESS, uninit env ''MapBufferEx.objectOut'' 0 12 k @ w32 (f32 12 objectIn)
         @ uninit env ''MapBufferEx.objectOut'' 16 16 k @ w64 (nv_addr ob), k)))"

definition AsGpu_Initialize :: DeviceFunc where "AsGpu_Initialize = logged_command 16"

text \<open>A region is written as offset, page size, reserved word and number of pages.\<close>

definition va_region :: "u64 \<Rightarrow> u64 \<Rightarrow> u32 \<Rightarrow> u8 list" where
  "va_region offset pages pageSize = w64 offset @ w32 pageSize @ w32 0 @ w64 pages"

definition GetVaRegions :: DeviceFunc where
  "GetVaRegions inp k = and_then (readObjectFromBuffer 64 inp) (\<lambda>_.
     let (unusedPointer, region0, region1) =
           (if timesCalled (gServices k) = 0 then (0, va_region 0 0 0, va_region 0 0 0)
            else (0x6fff8f0, va_region 0x04000000 0x3fbfff 0x1000, va_region 0x0400000000 0x1bffff 0x10000))
     in Inr (ERR_SUCCESS, w64 unusedPointer @ w32 (2 * 24) @ w32 0 @ region0 @ region1,
          upd_services (\<lambda>st. st\<lparr>timesCalled := timesCalled st + 1\<rparr>) k))"

definition InitializeEx :: DeviceFunc where "InitializeEx = logged_command 40"

definition SetNvmapFd :: DeviceFunc where "SetNvmapFd = logged_command 4"

definition AllocObjCtx :: "ServiceEnv \<Rightarrow> DeviceFunc" where
  "AllocObjCtx env inp k = and_then (readObjectFromBuffer 12 inp) (\<lambda>_. Inr (ERR_SUCCESS, uninit env ''AllocObjCtx.objectOut'' 0 8 k @ w32 0, k))"

definition ZcullBind :: DeviceFunc where "ZcullBind = logged_command 16"
definition SetErrorNotifier :: DeviceFunc where "SetErrorNotifier = logged_command 24"
definition SetPriority :: DeviceFunc where "SetPriority = logged_command 4"

text \<open>\<^verbatim>\<open>SetUserDataArgs\<close> has no members and the size 1.\<close>

definition SetUserData :: DeviceFunc where "SetUserData = logged_command 1"

text \<open>The fence is stored in a local object that is not written to the reply.\<close>

definition AllocGpfifoEx2 :: DeviceFunc where
  "AllocGpfifoEx2 inp k = and_then (readObjectFromBuffer 32 inp)
     (\<lambda>_. Inr (ERR_SUCCESS, [], upd_services (\<lambda>st. st\<lparr>fenceId := fenceId st + 1\<rparr>) k))"

subsection \<open>Dispatch\<close>

fun device_functions :: "ServiceEnv \<Rightarrow> Device \<Rightarrow> (u32 \<times> DeviceFunc option) list" where
  "device_functions env NvhostCtrlInterface = [(27, Some (GetConfig env))]"
| "device_functions env NvhostCtrlGpuInterface = [(1, Some ZcullGetCtxSize), (2, Some ZcullGetInfo), (5, Some GetCharacteristics),
     (6, Some (GetTpcMasks env)), (20, Some GetL2State)]"
| "device_functions env NvmapInterface = [(1, Some (IocCreate env)), (3, Some (IocFromId env)), (4, Some IocAlloc), (9, Some (IocParam env)),
     (14, Some (IocGetId env))]"
| "device_functions env NvhostAsGpuInterface = [(1, Some BindChannel), (2, Some AllocSpace), (6, Some (MapBufferEx env)), (7, Some AsGpu_Initialize),
     (8, Some GetVaRegions), (9, Some InitializeEx)]"
| "device_functions env NvhostGpuInterface = [(1, Some SetNvmapFd), (9, Some (AllocObjCtx env)), (11, Some ZcullBind), (12, Some SetErrorNotifier),
     (13, Some SetPriority), (20, Some SetUserData), (26, Some AllocGpfifoEx2)]"

definition handleIoctl :: "ServiceEnv \<Rightarrow> Device \<Rightarrow> u32 \<Rightarrow> DeviceFunc" where
  "handleIoctl env dev cmd inp k =
     (case find (\<lambda>(i, func). i = cmd AND 0xFF \<and> func \<noteq> None) (device_functions env dev) of
        Some (_, Some func) \<Rightarrow> func inp k
      | _ \<Rightarrow> Inr (ERR_NOT_IMPLEMENTED, [], k))"

definition device_named :: "string \<Rightarrow> Device option" where
  "device_named name =
     (if name = ''/dev/nvhost-ctrl'' then Some NvhostCtrlInterface
      else if name = ''/dev/nvhost-ctrl-gpu'' then Some NvhostCtrlGpuInterface
      else if name = ''/dev/nvmap'' then Some NvmapInterface
      else if name = ''/dev/nvhost-as-gpu'' then Some NvhostAsGpuInterface
      else if name = ''/dev/nvhost-gpu'' then Some NvhostGpuInterface
      else None)"

definition connectToDevice :: "string \<Rightarrow> Kernel \<Rightarrow> handle_t \<times> Kernel" where
  "connectToDevice name k = (case device_named name of Some dev \<Rightarrow> new_object (GpuObject dev) k | None \<Rightarrow> (0, k))"

definition sendIoctl :: "ServiceEnv \<Rightarrow> handle_t \<Rightarrow> u32 \<Rightarrow> DeviceFunc" where
  "sendIoctl env handle cmd inp k = (case fst (lookupObject handle (gHandles k)) of
     None \<Rightarrow> Inl NullPointer
   | Some a \<Rightarrow> (case heap k a of Some (GpuObject dev) \<Rightarrow> handleIoctl env dev cmd inp k | _ \<Rightarrow> Inl BadCast))"

end
