(* ===== verification/Vi_Services.thy ===== *)
theory Vi_Services
  imports Gpu_Devices
begin

text \<open>
  The services a game draws with: the graphics driver's service \<^verbatim>\<open>INvDrvServices\<close>, the display services of \<^verbatim>\<open>hle/nn/visrv\<close>, the binder \<^verbatim>\<open>IHOSBinderDriver\<close> that passes
  transactions to a buffer queue, and the drawing pass of the graphics thread (\<^verbatim>\<open>DisplayManager::draw\<close> and \<^verbatim>\<open>GraphicsDriver::setBuffer\<close>).

  \<^verbatim>\<open>ipc::readArgs\<close> copies a structure from the argument bytes of the message; when they are shorter than the structure the copy reads behind the vector, which is \<open>BadIndex\<close>, as is
  element 0 of an empty vector of descriptors. The graphics thread runs no core; the debug interrupt of a memory breakpoint would go to the core of the state, but the program sets no memory breakpoints.
\<close>

unbundle bit_operations_syntax

subsection \<open>What service functions share\<close>

definition readArgs :: "nat \<Rightarrow> IpcInfo \<Rightarrow> fault + u8 list" where
  "readArgs n info = (if n \<le> length (argData info) then Inr (take n (argData info)) else Inl BadIndex)"

definition first_of :: "'a list \<Rightarrow> fault + 'a" where
  "first_of xs = (case xs of [] \<Rightarrow> Inl BadIndex | x # _ \<Rightarrow> Inr x)"

definition SERVICE_FUNC_STUB :: "string \<Rightarrow> InterfaceFunc" where
  "SERVICE_FUNC_STUB func_name info reply k = Inr (ERR_SUCCESS, reply, k)"

text \<open>Functions that only return, that only log their arguments, that answer with constant bytes or a handle, and that open another interface.\<close>

definition just_succeed :: InterfaceFunc where
  "just_succeed info reply k = Inr (ERR_SUCCESS, reply, k)"

definition log_args :: "nat \<Rightarrow> InterfaceFunc" where
  "log_args n info reply k = and_then (readArgs n info) (\<lambda>_. Inr (ERR_SUCCESS, reply, k))"

definition answer :: "u8 list \<Rightarrow> InterfaceFunc" where
  "answer bytes info reply k = Inr (ERR_SUCCESS, writeArgs bytes reply, k)"

definition open_interface :: "Interface \<Rightarrow> InterfaceFunc" where
  "open_interface i info reply k = (case connect i k of (handle, k) \<Rightarrow> Inr (ERR_SUCCESS, moveHandle handle reply, k))"

definition read_u8s :: "nat \<Rightarrow> u64 \<Rightarrow> Kernel \<Rightarrow> fault + u8 list \<times> Kernel" where
  "read_u8s n addr k = read_array n (\<lambda>a k. and_then (kread 1 a k) (\<lambda>(v, k). Inr (ucast v, k))) 1 addr k"

definition fill_zero :: "u64 \<Rightarrow> u64 \<Rightarrow> Kernel \<Rightarrow> fault + Kernel" where
  "fill_zero addr len k = write_all (at_each 1 addr (replicate (unat len) 0)) k"

definition write_u8s :: "u64 \<Rightarrow> u8 list \<Rightarrow> Kernel \<Rightarrow> fault + Kernel" where
  "write_u8s addr bytes k = write_all (at_each 1 addr (map ucast bytes)) k"

text \<open>A sequence of guest reads: size in bytes and address.\<close>

fun read_all :: "(nat \<times> u64) list \<Rightarrow> Kernel \<Rightarrow> fault + u64 list \<times> Kernel" where
  "read_all [] k = Inr ([], k)"
| "read_all ((sz, addr) # rs) k = and_then (kread sz addr k) (\<lambda>(v, k). and_then (read_all rs k) (\<lambda>(vs, k). Inr (v # vs, k)))"

text \<open>An operation on the display manager.\<close>

definition on_displays :: "(DisplayManager \<Rightarrow> fault + 'a \<times> DisplayManager) \<Rightarrow> Kernel \<Rightarrow> fault + 'a \<times> Kernel" where
  "on_displays f k = and_then (f (gDisplayManager (gServices k))) (\<lambda>(r, dm). Inr (r, upd_services (\<lambda>st. st\<lparr>gDisplayManager := dm\<rparr>) k))"

subsection \<open>The graphics driver's service\<close>

definition INvDrvServices_Open :: InterfaceFunc where
  "INvDrvServices_Open info reply k = and_then (first_of (sendDescriptors info)) (\<lambda>d.
     and_then (read_u8s (unat (desc_size d)) (desc_address d) k) (\<lambda>(name, k).
       case connectToDevice (map (\<lambda>b. char_of (unat b)) name) k of
         (devHandle, k) \<Rightarrow> Inr (ERR_SUCCESS, writeArgs (w32 devHandle @ w32 0) reply, k)))"

text \<open>Where the argument of a command is: the first pointer descriptor with an address, or the first send descriptor.\<close>

definition ioctl_input :: "IpcInfo \<Rightarrow> fault + u64 \<times> u64" where
  "ioctl_input info = (case staticInDescriptors info of
     p # _ \<Rightarrow> if ptr_address p \<noteq> 0 then Inr (ptr_address p, ptr_size p)
              else and_then (first_of (sendDescriptors info)) (\<lambda>d. Inr (desc_address d, desc_size d))
   | [] \<Rightarrow> and_then (first_of (sendDescriptors info)) (\<lambda>d. Inr (desc_address d, desc_size d)))"

definition ioctl_output :: "IpcInfo \<Rightarrow> fault + u64" where
  "ioctl_output info = (case staticOutDescriptors info of
     p # _ \<Rightarrow> if recv_address p \<noteq> 0 then Inr (recv_address p) else and_then (first_of (recvDescriptors info)) (\<lambda>d. Inr (desc_address d))
   | [] \<Rightarrow> and_then (first_of (recvDescriptors info)) (\<lambda>d. Inr (desc_address d)))"

definition INvDrvServices_Ioctl :: "ServiceEnv \<Rightarrow> InterfaceFunc" where
  "INvDrvServices_Ioctl env info reply k =
     and_then (kread 4 (rawData info + 0x10) k) (\<lambda>(handle, k).
     and_then (kread 4 (rawData info + 0x14) k) (\<lambda>(cmd, k).
     and_then (ioctl_input info) (\<lambda>(addr, len).
     and_then (read_u8s (unat len) addr k) (\<lambda>(inp, k).
     and_then (sendIoctl env (ucast handle) (ucast cmd) inp k) (\<lambda>(ioctlRet, out, k).
     and_then (first_of (recvDescriptors info)) (\<lambda>r.
     and_then (fill_zero (desc_address r) (desc_size r) k) (\<lambda>k.
     and_then (if out = [] then Inr k else and_then (ioctl_output info) (\<lambda>outAddr. write_u8s outAddr out k)) (\<lambda>k.
       Inr (ERR_SUCCESS, writeArgs (w32 ioctlRet) reply, k)))))))))"

definition INvDrvServices_Close :: InterfaceFunc where "INvDrvServices_Close = answer (w32 0)"
definition INvDrvServices_Initialize :: InterfaceFunc where "INvDrvServices_Initialize = answer (w32 0)"

definition INvDrvServices_QueryEvent :: InterfaceFunc where
  "INvDrvServices_QueryEvent info reply k = Inr (ERR_SUCCESS, copyHandle 0x1357 (writeArgs (w32 0) reply), k)"

definition INvDrvServices_SetClientPID :: InterfaceFunc where "INvDrvServices_SetClientPID = answer (w32 0)"

subsection \<open>The binder\<close>

definition IHOSBinderDriver_AdjustRefcount :: InterfaceFunc where "IHOSBinderDriver_AdjustRefcount = log_args 12"

definition IHOSBinderDriver_GetNativeHandle :: InterfaceFunc where
  "IHOSBinderDriver_GetNativeHandle info reply k = and_then (readArgs 8 info) (\<lambda>_. Inr (ERR_SUCCESS, copyHandle 0x4321 reply, k))"

text \<open>The words of a reply, written one after the other.\<close>

definition write_parcel :: "u64 \<Rightarrow> u64 list \<Rightarrow> Kernel \<Rightarrow> fault + Kernel" where
  "write_parcel addrOut ws k = write_all (at_each 4 addrOut ws) k"

text \<open>The arguments of a transaction start at offset 0x60 of the parcel.\<close>

definition transact_request :: "u64 \<Rightarrow> u64 \<Rightarrow> u64 \<Rightarrow> Kernel \<Rightarrow> fault + Kernel" where
  "transact_request bufferId addrIn addrOut k =
     and_then (kread 4 (addrIn + 0x60) k) (\<lambda>(slot, k).
     and_then (getBufferQueue bufferId (gDisplayManager (gServices k))) (\<lambda>q.
     and_then (requestBuffer (ucast slot) q) (\<lambda>_.
       write_parcel addrOut ([0x4 + 0x4 + 0x4 + 0x16C + 0x4, 0x10, 0x0, 0x10 + 0x4 + 0x4 + 0x4 + 0x16C + 0x4, 1, 0x16C, 0]
         @ replicate (0x16C div 4) 0 @ [0]) k)))"

definition transact_dequeue :: "u64 \<Rightarrow> u64 \<Rightarrow> u64 \<Rightarrow> Kernel \<Rightarrow> fault + Kernel" where
  "transact_dequeue bufferId addrIn addrOut k =
     and_then (read_all [(4, addrIn + 0x60), (4, addrIn + 0x64), (4, addrIn + 0x68), (4, addrIn + 0x6C), (4, addrIn + 0x70)] k) (\<lambda>(_, k).
     and_then (on_displays (on_queue bufferId dequeueBuffer) k) (\<lambda>(slot, k).
       write_parcel addrOut ([0x4 + 0x2C + 0x4, 0x10, 0x0, 0x10 + 0x4 + 0x2C + 0x4, ucast slot] @ replicate 11 0 @ [0]) k))"

definition transact_queue :: "u64 \<Rightarrow> u64 \<Rightarrow> u64 \<Rightarrow> Kernel \<Rightarrow> fault + Kernel" where
  "transact_queue bufferId addrIn addrOut k =
     and_then (kread 4 (addrIn + 0x60) k) (\<lambda>(slot, k).
     and_then (read_all [(8, addrIn + 0x64), (1, addrIn + 0x6C), (4, addrIn + 0x70), (4, addrIn + 0x74), (4, addrIn + 0x78), (4, addrIn + 0x7C),
                         (4, addrIn + 0x80), (4, addrIn + 0x84)] k) (\<lambda>(_, k).
     and_then (on_displays (on_queue bufferId (\<lambda>q. and_then (queueBuffer (ucast slot) q) (\<lambda>q. Inr ((), q)))) k) (\<lambda>(_, k).
       write_parcel addrOut ([0x16C + 0x4, 0x10, 0x0, 0x10 + 0x4 + 0x4 + 0x4 + 0x16C + 0x4] @ replicate (0x16C div 4) 0 @ [0]) k)))"

definition transact_connect :: "u64 \<Rightarrow> Kernel \<Rightarrow> fault + Kernel" where
  "transact_connect addrOut k = write_parcel addrOut [0x10 + 0x4, 0x10, 0x0, 0x10 + 0x10 + 0x4, 1280, 720, 0, 0, 0] k"

definition transact_preallocated :: "u64 \<Rightarrow> u64 \<Rightarrow> Kernel \<Rightarrow> fault + Kernel" where
  "transact_preallocated bufferId addrIn k =
     and_then (read_all [(4, addrIn + 0x60), (4, addrIn + 0x64), (4, addrIn + 0x68), (4, addrIn + 0x6C)] k) (\<lambda>(args, k).
     and_then (read_all [(4, addrIn + 0x70), (4, addrIn + 0x74), (4, addrIn + 0x78), (4, addrIn + 0x7C), (4, addrIn + 0x80), (4, addrIn + 0x84),
                         (4, addrIn + 0x8C), (4, addrIn + 0x9C), (4, addrIn + 0xE4), (4, addrIn + 0xE8)] k) (\<lambda>(fs, k).
     let buffer = \<lparr>igbp_magic = ucast (fs ! 0), igbp_width = ucast (fs ! 1), igbp_height = ucast (fs ! 2), igbp_stride = ucast (fs ! 3),
                   igbp_format = ucast (fs ! 4), igbp_usage = ucast (fs ! 5), igbp_index = ucast (fs ! 6), igbp_gpuBufferId = ucast (fs ! 7),
                   igbp_nvmapHandle = ucast (fs ! 8), igbp_offset = ucast (fs ! 9)\<rparr>
     in and_then (on_displays (on_queue bufferId (\<lambda>q. Inr ((), setPreallocatedBuffer (ucast (args ! 0)) buffer q))) k) (\<lambda>(_, k). Inr k)))"

definition IHOSBinderDriver_TransactParcelAuto :: InterfaceFunc where
  "IHOSBinderDriver_TransactParcelAuto info reply k =
     and_then (readArgs 12 info) (\<lambda>args.
     let bufferId = scast (f32 0 args); transaction = f32 4 args in
     and_then (first_of (sendDescriptors info)) (\<lambda>s. let addrIn = desc_address s; sizeIn = desc_size s in
     and_then (first_of (recvDescriptors info)) (\<lambda>r. let addrOut = desc_address r in
     and_then (dumpMem addrIn sizeIn (kmem k)) (\<lambda>_.
     and_then (getBufferQueue bufferId (gDisplayManager (gServices k))) (\<lambda>_.
     let done = (\<lambda>r. and_then r (\<lambda>k. Inr (ERR_SUCCESS, reply, k)))
     in if transaction = 0x1 then done (transact_request bufferId addrIn addrOut k)
        else if transaction = 0x3 then done (transact_dequeue bufferId addrIn addrOut k)
        else if transaction = 0x7 then done (transact_queue bufferId addrIn addrOut k)
        else if transaction = 0xA then done (transact_connect addrOut k)
        else if transaction = 0xE then done (transact_preallocated bufferId addrIn k)
        else Inr (1, reply, k))))))"

definition IHOSBinderDriver_TransactParcel :: InterfaceFunc where
  "IHOSBinderDriver_TransactParcel = IHOSBinderDriver_TransactParcelAuto"

subsection \<open>Display services\<close>

definition GetRelayService :: InterfaceFunc where "GetRelayService = open_interface IHOSBinderDriver"
definition GetSystemDisplayService :: InterfaceFunc where "GetSystemDisplayService = open_interface ISystemDisplayService"
definition GetManagerDisplayService :: InterfaceFunc where "GetManagerDisplayService = open_interface IManagerDisplayService"
definition GetIndirectDisplayTransactionService :: InterfaceFunc where
  "GetIndirectDisplayTransactionService = open_interface IHOSBinderDriver"

definition OpenDisplay :: InterfaceFunc where
  "OpenDisplay info reply k = and_then (readArgs 0x40 info) (\<lambda>args. and_then (c_string args 0) (\<lambda>name.
     and_then (openDisplay name (gDisplayManager (gServices k))) (\<lambda>i. Inr (ERR_SUCCESS, writeArgs (w64 i) reply, k))))"

definition OpenLayer :: InterfaceFunc where
  "OpenLayer info reply k = and_then (readArgs 0x50 info) (\<lambda>args.
     let layerId = f64 0x40 args in
     and_then (first_of (recvDescriptors info)) (\<lambda>r. let addr = desc_address r in
     and_then (fill_zero addr (desc_size r) k) (\<lambda>k.
     and_then (write_all [(4, addr, 0x28), (4, addr + 0x4, 0x10), (4, addr + 0x8, 0x4), (4, addr + 0xC, 0xF0),
                          (4, addr + 0x10, 2), (4, addr + 0x14, 0)] k) (\<lambda>k.
     and_then (getLayer layerId (gDisplayManager (gServices k))) (\<lambda>layer.
     and_then (write_all [(4, addr + 0x18, layer_bufferId layer), (1, addr + 0x28, 0x64), (1, addr + 0x29, 0x73), (1, addr + 0x2A, 0x70),
                          (1, addr + 0x2B, 0x64), (1, addr + 0x2C, 0x72), (1, addr + 0x2D, 0x76)] k) (\<lambda>k.
       Inr (ERR_SUCCESS, writeData 0x100 reply, k)))))))"

definition CreateStrayLayer :: InterfaceFunc where
  "CreateStrayLayer info reply k = and_then (readArgs 16 info) (\<lambda>_.
     and_then (first_of (recvDescriptors info)) (\<lambda>r. let addr = desc_address r in
     and_then (fill_zero addr (desc_size r) k) (\<lambda>k.
     and_then (write_all [(4, addr, 0x18), (4, addr + 4, 0x10), (4, addr + 8, 0x0), (4, addr + 0xC, 0x28)] k) (\<lambda>k.
       case connect IHOSBinderDriver k of (handle, k) \<Rightarrow>
         and_then (kwrite 4 (addr + 0x18) (ucast handle) k) (\<lambda>k. Inr (ERR_SUCCESS, writeArgs (w64 1 @ w64 0) reply, k))))))"

definition SetLayerScalingMode :: InterfaceFunc where "SetLayerScalingMode = just_succeed"

definition GetDisplayVsyncEvent :: InterfaceFunc where
  "GetDisplayVsyncEvent info reply k = Inr (ERR_SUCCESS, copyHandle 0x12345678 reply, k)"

definition CreateManagedLayer :: InterfaceFunc where
  "CreateManagedLayer info reply k = and_then (readArgs 24 info) (\<lambda>args.
     and_then (on_displays (createLayer (f64 8 args)) k) (\<lambda>(layerId, k). Inr (ERR_SUCCESS, writeArgs (w64 layerId) reply, k)))"

definition AddToLayerStack :: InterfaceFunc where "AddToLayerStack = just_succeed"
definition SetLayerZ :: InterfaceFunc where "SetLayerZ = just_succeed"

definition IManagerRootService_GetDisplayService :: InterfaceFunc where
  "IManagerRootService_GetDisplayService info reply k = and_then (readArgs 4 info) (\<lambda>_. open_interface IApplicationDisplayService info reply k)"

definition ISystemRootService_GetDisplayService :: InterfaceFunc where
  "ISystemRootService_GetDisplayService info reply k = and_then (readArgs 4 info) (\<lambda>_. open_interface IApplicationDisplayService info reply k)"

subsection \<open>The drawing pass\<close>

definition setBuffer :: "u64 \<Rightarrow> Kernel \<Rightarrow> fault + Kernel" where
  "setBuffer addr k = and_then (readRegion addr frame_size (machine_of k))
     (\<lambda>(bytes, mc). Inr (upd_services (\<lambda>st. st\<lparr>displayBuffer := bytes\<rparr>) (put_machine mc k)))"

definition draw_layer :: "u64 \<Rightarrow> Kernel \<Rightarrow> fault + Kernel" where
  "draw_layer layerId k =
     and_then (getLayer layerId (gDisplayManager (gServices k))) (\<lambda>layer.
     and_then (getBufferQueue (layer_bufferId layer) (gDisplayManager (gServices k))) (\<lambda>q.
       case getQueuedBuffer q of
         None \<Rightarrow> Inr k
       | Some buffer \<Rightarrow>
           and_then (lookupNvmapObject (igbp_nvmapHandle (gb_buffer buffer)) k) (\<lambda>ob.
           and_then (setBuffer (nv_addr ob + ucast (igbp_offset (gb_buffer buffer))) k) (\<lambda>k.
           and_then (on_displays (on_queue (layer_bufferId layer) (\<lambda>q. and_then (freeBuffer (gb_slot buffer) q) (\<lambda>q. Inr ((), q)))) k)
             (\<lambda>(_, k). Inr k)))))"

fun draw_layers :: "u64 list \<Rightarrow> Kernel \<Rightarrow> fault + Kernel" where
  "draw_layers [] k = Inr k"
| "draw_layers (l # ls) k = and_then (draw_layer l k) (draw_layers ls)"

text \<open>A pass changes no display and no layer, so the layers to draw are those of the state it starts in.\<close>

definition draw :: "Kernel \<Rightarrow> fault + Kernel" where
  "draw k = draw_layers (concat (map display_layers (displays (gDisplayManager (gServices k))))) k"

end
