(* ===== verification/Services.thy ===== *)
theory Services
  imports Vi_Services
begin

text \<open>
  The system services of \<^verbatim>\<open>hle/nn\<close> and the service manager of \<^verbatim>\<open>hle/SmService\<close>: the functions that do something, one definition per C++ function with the name of its class in front,
  the function table of every class (the list its constructor passes to \<^verbatim>\<open>registerFunctions\<close>), and \<^verbatim>\<open>service::init\<close>, which registers the services under their names.

  Most functions of the tables are \<^verbatim>\<open>SERVICE_FUNC_STUB\<close>s, which log their name and succeed without an answer.
\<close>

unbundle bit_operations_syntax

subsection \<open>Service manager\<close>

definition SmService_Initialize :: InterfaceFunc where
  "SmService_Initialize info reply k = and_then (readArgs 8 info) (\<lambda>_. Inr (ERR_SUCCESS, reply, upd_services (\<lambda>st. st\<lparr>smInitialized := True\<rparr>) k))"

text \<open>The name is at most eight characters and ends at the first zero.\<close>

definition SmService_GetService :: InterfaceFunc where
  "SmService_GetService info reply k = and_then (readArgs 8 info) (\<lambda>args.
     let name = map (\<lambda>b. char_of (unat b)) (takeWhile (\<lambda>b. b \<noteq> 0) args)
     in case gRegisteredServices (gServices k) name of
          None \<Rightarrow> Inr (1, reply, k)
        | Some service \<Rightarrow> open_interface service info reply k)"

definition SmService_RegisterService :: InterfaceFunc where "SmService_RegisterService = log_args 16"
definition SmService_UnregisterService :: InterfaceFunc where "SmService_UnregisterService = log_args 8"

subsection \<open>Accounts\<close>

definition IAccountServiceForApplication_GetProfile :: InterfaceFunc where "IAccountServiceForApplication_GetProfile = open_interface IProfile"
definition IAccountServiceForApplication_InitializeApplicationInfo :: InterfaceFunc where
  "IAccountServiceForApplication_InitializeApplicationInfo = just_succeed"
definition IAccountServiceForApplication_GetBaasAccountManagerForApplication :: InterfaceFunc where
  "IAccountServiceForApplication_GetBaasAccountManagerForApplication = open_interface IManagerForApplication"

definition IProfile_GetBase :: "ServiceEnv \<Rightarrow> InterfaceFunc" where
  "IProfile_GetBase env info reply k = Inr (ERR_SUCCESS, writeArgs (uninit env ''GetBase.out'' 0 0x38 k) reply, k)"

subsection \<open>Applets\<close>

definition IAllSystemAppletProxiesService_OpenLibraryAppletProxyOld :: InterfaceFunc where
  "IAllSystemAppletProxiesService_OpenLibraryAppletProxyOld = open_interface ILibraryAppletProxy"

definition IApplicationFunctions_PopLaunchParameter :: InterfaceFunc where "IApplicationFunctions_PopLaunchParameter = open_interface am_IStorage"
definition IApplicationFunctions_GetDesiredLanguage :: InterfaceFunc where "IApplicationFunctions_GetDesiredLanguage = answer (w64 1)"
definition IApplicationFunctions_SetTerminateResult :: InterfaceFunc where "IApplicationFunctions_SetTerminateResult = log_args 4"
definition IApplicationFunctions_NotifyRunning :: "ServiceEnv \<Rightarrow> InterfaceFunc" where
  "IApplicationFunctions_NotifyRunning env info reply k = Inr (ERR_SUCCESS, writeArgs (uninit env ''NotifyRunning.out'' 0 1 k) reply, k)"

definition IApplicationProxy_GetCommonStateGetter :: InterfaceFunc where "IApplicationProxy_GetCommonStateGetter = open_interface ICommonStateGetter"
definition IApplicationProxy_GetSelfController :: InterfaceFunc where "IApplicationProxy_GetSelfController = open_interface ISelfController"
definition IApplicationProxy_GetWindowController :: InterfaceFunc where "IApplicationProxy_GetWindowController = open_interface IWindowController"
definition IApplicationProxy_GetAudioController :: InterfaceFunc where "IApplicationProxy_GetAudioController = open_interface IAudioController"
definition IApplicationProxy_GetDisplayController :: InterfaceFunc where "IApplicationProxy_GetDisplayController = open_interface IDisplayController"
definition IApplicationProxy_GetProcessWindingController :: InterfaceFunc where
  "IApplicationProxy_GetProcessWindingController = open_interface IProcessWindingController"
definition IApplicationProxy_GetLibraryAppletCreator :: InterfaceFunc where
  "IApplicationProxy_GetLibraryAppletCreator = open_interface ILibraryAppletCreator"
definition IApplicationProxy_GetApplicationFunctions :: InterfaceFunc where
  "IApplicationProxy_GetApplicationFunctions = open_interface IApplicationFunctions"
definition IApplicationProxy_GetDebugFunctions :: InterfaceFunc where "IApplicationProxy_GetDebugFunctions = open_interface IDebugFunctions"

definition IApplicationProxyService_OpenApplicationProxy :: InterfaceFunc where
  "IApplicationProxyService_OpenApplicationProxy = open_interface IApplicationProxy"

definition ICommonStateGetter_GetEventHandle :: InterfaceFunc where
  "ICommonStateGetter_GetEventHandle info reply k = Inr (ERR_SUCCESS, copyHandle 0x12345678 reply, k)"

definition ICommonStateGetter_ReceiveMessage :: InterfaceFunc where
  "ICommonStateGetter_ReceiveMessage info reply k =
     (let message = appletMessage (gServices k)
      in Inr (ERR_SUCCESS, writeArgs (w32 message) reply, upd_services (\<lambda>st. st\<lparr>appletMessage := if message = 1 then 0xF else 1\<rparr>) k))"

definition ICommonStateGetter_GetOperationMode :: InterfaceFunc where "ICommonStateGetter_GetOperationMode = answer [0x15]"
definition ICommonStateGetter_GetPerformanceMode :: InterfaceFunc where "ICommonStateGetter_GetPerformanceMode = answer (w32 0x15)"
definition ICommonStateGetter_GetCurrentFocusState :: InterfaceFunc where "ICommonStateGetter_GetCurrentFocusState = answer [1]"

definition ILibraryAppletProxy_GetSelfController :: InterfaceFunc where "ILibraryAppletProxy_GetSelfController = open_interface ISelfController"
definition ILibraryAppletProxy_GetWindowController :: InterfaceFunc where "ILibraryAppletProxy_GetWindowController = open_interface IWindowController"

definition ISelfController_SetOperationModeChangedNotification :: InterfaceFunc where
  "ISelfController_SetOperationModeChangedNotification = log_args 1"
definition ISelfController_SetPerformanceModeChangedNotification :: InterfaceFunc where
  "ISelfController_SetPerformanceModeChangedNotification = log_args 1"
definition ISelfController_SetFocusHandlingMode :: InterfaceFunc where "ISelfController_SetFocusHandlingMode = log_args 3"
definition ISelfController_SetRestartMessageEnabled :: InterfaceFunc where "ISelfController_SetRestartMessageEnabled = log_args 1"
definition ISelfController_SetScreenShotAppletIdentityInfo :: InterfaceFunc where
  "ISelfController_SetScreenShotAppletIdentityInfo = log_args 16"
definition ISelfController_SetOutOfFocusSuspendingEnabled :: InterfaceFunc where
  "ISelfController_SetOutOfFocusSuspendingEnabled = log_args 1"

definition ISelfController_CreateManagedDisplayLayer :: InterfaceFunc where
  "ISelfController_CreateManagedDisplayLayer info reply k =
     and_then (openDisplay ''Default'' (gDisplayManager (gServices k))) (\<lambda>displayId.
     and_then (on_displays (createLayer displayId) k) (\<lambda>(layerId, k). Inr (ERR_SUCCESS, writeArgs (w64 layerId) reply, k)))"

definition am_IStorage_Open :: InterfaceFunc where "am_IStorage_Open = open_interface IStorageAccessor"

definition IStorageAccessor_GetSize :: InterfaceFunc where
  "IStorageAccessor_GetSize info reply k = Inr (ERR_SUCCESS, writeData 0x100 reply, k)"

definition IStorageAccessor_Read :: InterfaceFunc where
  "IStorageAccessor_Read info reply k = and_then (first_of (staticOutDescriptors info)) (\<lambda>d. let addr = recv_address d in
     and_then (write_all [(4, addr, 0xC79497CA), (1, addr + 4, 0x1), (8, addr + 8, 0xF), (8, addr + 16, 0xF0)] k)
       (\<lambda>k. Inr (ERR_SUCCESS, reply, k)))"

definition IWindowController_GetAppletResourceUserId :: InterfaceFunc where "IWindowController_GetAppletResourceUserId = answer (w64 0x12345678)"
definition IWindowController_AcquireForegroundRights :: InterfaceFunc where "IWindowController_AcquireForegroundRights = just_succeed"

subsection \<open>Performance, files, input\<close>

definition IManager_OpenSession :: InterfaceFunc where "IManager_OpenSession = open_interface ISession"
definition ISession_SetPerformanceConfiguration :: InterfaceFunc where "ISession_SetPerformanceConfiguration = log_args 8"

definition IFileSystemProxy_Initialize :: InterfaceFunc where "IFileSystemProxy_Initialize = just_succeed"
definition IFileSystemProxy_MountSaveData :: InterfaceFunc where "IFileSystemProxy_MountSaveData = open_interface fssrv_IStorage"
definition IFileSystemProxy_OpenDataStorageByCurrentProcess :: InterfaceFunc where
  "IFileSystemProxy_OpenDataStorageByCurrentProcess = open_interface fssrv_IStorage"
definition IFileSystemProxy_OpenRomStorage :: InterfaceFunc where "IFileSystemProxy_OpenRomStorage = open_interface fssrv_IStorage"
definition IFileSystemProxy_GetGlobalAccessLogMode :: InterfaceFunc where
  "IFileSystemProxy_GetGlobalAccessLogMode info reply k = Inr (ERR_SUCCESS, writeData 0 reply, k)"

text \<open>The bytes \<^verbatim>\<open>read\<close> leaves in a zeroed buffer of \<open>n\<close> bytes after a seek to \<open>off\<close>: a read behind the end of the file stores nothing.\<close>

definition file_bytes :: "u8 list \<Rightarrow> nat \<Rightarrow> nat \<Rightarrow> u8 list" where
  "file_bytes file off n = (let bs = take n (drop off file) in bs @ replicate (n - length bs) 0)"

definition fssrv_IStorage_Read :: "ServiceEnv \<Rightarrow> InterfaceFunc" where
  "fssrv_IStorage_Read env info reply k = and_then (first_of (recvDescriptors info)) (\<lambda>r.
     and_then (kread 8 (rawData info + 16) k) (\<lambda>(offset, k). and_then (kread 8 (rawData info + 24) k) (\<lambda>(_, k).
     and_then (case romfs env of None \<Rightarrow> Inr k
               | Some file \<Rightarrow> write_u8s (desc_address r) (file_bytes file (unat offset) (unat (desc_size r))) k)
       (\<lambda>k. Inr (ERR_SUCCESS, reply, k)))))"

definition IAppletResource_GetSharedMemoryHandle :: InterfaceFunc where
  "IAppletResource_GetSharedMemoryHandle info reply k = Inr (ERR_SUCCESS, moveHandle 0x1234 reply, k)"

definition IHidServer_CreateAppletResource :: InterfaceFunc where
  "IHidServer_CreateAppletResource info reply k = and_then (readArgs 8 info) (\<lambda>_. open_interface IAppletResource info reply k)"
definition IHidServer_ActivateTouchScreen :: InterfaceFunc where "IHidServer_ActivateTouchScreen = log_args 8"
definition IHidServer_SetSupportedNpadStyleSet :: InterfaceFunc where "IHidServer_SetSupportedNpadStyleSet = log_args 16"
definition IHidServer_SetSupportedNpadIdType :: InterfaceFunc where "IHidServer_SetSupportedNpadIdType = log_args 8"
definition IHidServer_ActivateNpad :: InterfaceFunc where "IHidServer_ActivateNpad = log_args 8"
definition IHidServer_SetNpadJoyHoldType :: InterfaceFunc where "IHidServer_SetNpadJoyHoldType = log_args 16"

subsection \<open>Log manager\<close>

definition ILogService_Initialize :: InterfaceFunc where
  "ILogService_Initialize info reply k = and_then (readArgs 8 info) (\<lambda>_. open_interface ILogger info reply k)"

text \<open>
  The strings of a log message: from offset 0x18 of the data a byte for the kind, a byte for the length and the characters of each. The loop is bounded by the size in the message and the
  lengths in it only; where they lead behind the data is \<open>BadIndex\<close>.
\<close>

function log_strings :: "u8 list \<Rightarrow> nat \<Rightarrow> nat \<Rightarrow> fault + string list" where
  "log_strings data msgSize i =
     (if i < msgSize then
        if i + 0x19 < length data then
          let strLength = unat (data ! (i + 0x19)) in
          if i + 0x1A + strLength \<le> length data then
            and_then (log_strings data msgSize (i + 2 + strLength))
              (\<lambda>ss. Inr (map (\<lambda>b. char_of (unat b)) (take strLength (drop (i + 0x1A) data)) # ss))
          else Inl BadIndex
        else Inl BadIndex
      else Inr [])"
  by pat_completeness auto
termination
  by (relation "measure (\<lambda>(data, msgSize, i). msgSize - i)") auto

declare log_strings.simps [simp del]

definition ILogger_unk0 :: InterfaceFunc where
  "ILogger_unk0 info reply k = and_then (first_of (staticInDescriptors info)) (\<lambda>p.
     and_then (read_u8s (unat (ptr_size p)) (ptr_address p) k) (\<lambda>(data, k).
     and_then (readObjectFromBuffer 24 data) (\<lambda>header.
     and_then (log_strings data (unat (f32 20 header)) 0) (\<lambda>_.
       Inr (ERR_SUCCESS, reply, send_to 0 DEBUG_BREAK_INTERRUPT k)))))"

subsection \<open>Network, parental control, settings, time\<close>

definition nifm_IStaticService_CreateGeneralServiceOld :: InterfaceFunc where
  "nifm_IStaticService_CreateGeneralServiceOld = open_interface IGeneralService"

definition IParentalControlServiceFactory_CreateService :: InterfaceFunc where "IParentalControlServiceFactory_CreateService = log_args 8"

definition ISettingsServer_GetAvailableLanguageCodes :: InterfaceFunc where
  "ISettingsServer_GetAvailableLanguageCodes info reply k = and_then (first_of (staticOutDescriptors info)) (\<lambda>d. let addr = recv_address d in
     and_then (write_all [(8, addr, 0x0), (8, addr + 0x8, 0x1), (8, addr + 0x10, 0x2), (8, addr + 0x18, 0x3)] k)
       (\<lambda>k. Inr (ERR_SUCCESS, writeArgs (w32 0x4) reply, k)))"

definition timesrv_IStaticService_GetStandardUserSystemClock :: InterfaceFunc where
  "timesrv_IStaticService_GetStandardUserSystemClock = open_interface ISystemClock"
definition timesrv_IStaticService_GetStandardNetworkSystemClock :: InterfaceFunc where
  "timesrv_IStaticService_GetStandardNetworkSystemClock = open_interface ISystemClock"
definition timesrv_IStaticService_GetStandardSteadyClock :: InterfaceFunc where
  "timesrv_IStaticService_GetStandardSteadyClock = open_interface ISteadyClock"
definition timesrv_IStaticService_GetTimeZoneService :: InterfaceFunc where
  "timesrv_IStaticService_GetTimeZoneService = open_interface ITimeZoneService"

definition ISystemClock_GetCurrentTime :: InterfaceFunc where "ISystemClock_GetCurrentTime = answer (w64 0x12345678)"

text \<open>The last byte of the calendar time is padding and the additional information behind it is uninitialised.\<close>

definition ITimeZoneService_ToCalendarTimeWithMyRule :: "ServiceEnv \<Rightarrow> InterfaceFunc" where
  "ITimeZoneService_ToCalendarTimeWithMyRule env info reply k = and_then (readArgs 8 info) (\<lambda>_.
     Inr (ERR_SUCCESS, writeArgs (le_bytes 2 2017 @ [11, 29, 15, 26, 50] @ uninit env ''ToCalendarTimeWithMyRule.out'' 7 0x19 k) reply, k))"

subsection \<open>Function tables\<close>

type_synonym FunctionTable = "(u32 \<times> InterfaceFunc option) list"

definition SmService_functions :: "ServiceEnv \<Rightarrow> FunctionTable" where
  "SmService_functions env =
     [(0, Some SmService_Initialize), (1, Some SmService_GetService), (2, Some SmService_RegisterService), (3, Some SmService_UnregisterService)]"

definition IAccountServiceForApplication_functions :: "ServiceEnv \<Rightarrow> FunctionTable" where
  "IAccountServiceForApplication_functions env =
     [(0, Some (SERVICE_FUNC_STUB ''GetUserCount'')), (1, Some (SERVICE_FUNC_STUB ''GetUserExistence'')),
      (2, Some (SERVICE_FUNC_STUB ''ListAllUsers'')), (3, Some (SERVICE_FUNC_STUB ''ListOpenUsers'')),
      (4, Some (SERVICE_FUNC_STUB ''GetLastOpenedUser'')), (5, Some IAccountServiceForApplication_GetProfile),
      (6, Some (SERVICE_FUNC_STUB ''GetProfileDigest'')), (50, Some (SERVICE_FUNC_STUB ''IsUserRegistrationRequestPermitted'')),
      (51, Some (SERVICE_FUNC_STUB ''TrySelectUserWithoutInteraction'')), (100, Some IAccountServiceForApplication_InitializeApplicationInfo),
      (101, Some IAccountServiceForApplication_GetBaasAccountManagerForApplication),
      (102, Some (SERVICE_FUNC_STUB ''AuthenticateApplicationAsync'')), (110, Some (SERVICE_FUNC_STUB ''StoreSaveDataThumbnail'')),
      (111, Some (SERVICE_FUNC_STUB ''ClearSaveDataThumbnail'')), (120, Some (SERVICE_FUNC_STUB ''CreateGuestLoginRequest''))]"

definition IManagerForApplication_functions :: "ServiceEnv \<Rightarrow> FunctionTable" where
  "IManagerForApplication_functions env =
     [(0, Some (SERVICE_FUNC_STUB ''CheckAvailability'')), (1, Some (SERVICE_FUNC_STUB ''GetAccountId'')),
      (2, Some (SERVICE_FUNC_STUB ''EnsureIdTokenCacheAsync'')), (3, Some (SERVICE_FUNC_STUB ''LoadIdTokenCache'')),
      (130, Some (SERVICE_FUNC_STUB ''GetNintendoAccountUserResourceCacheForApplication'')),
      (150, Some (SERVICE_FUNC_STUB ''CreateAuthorizationRequest''))]"

definition INotifier_functions :: "ServiceEnv \<Rightarrow> FunctionTable" where
  "INotifier_functions env =
     [(0, Some (SERVICE_FUNC_STUB ''GetSystemEvent''))]"

definition IProfile_functions :: "ServiceEnv \<Rightarrow> FunctionTable" where
  "IProfile_functions env =
     [(0, Some (SERVICE_FUNC_STUB ''Get'')), (1, Some (IProfile_GetBase env)), (10, Some (SERVICE_FUNC_STUB ''GetImageSize'')),
      (11, Some (SERVICE_FUNC_STUB ''LoadImage''))]"

definition IAllSystemAppletProxiesService_functions :: "ServiceEnv \<Rightarrow> FunctionTable" where
  "IAllSystemAppletProxiesService_functions env =
     [(100, Some (SERVICE_FUNC_STUB ''OpenSystemAppletProxy'')), (200, Some IAllSystemAppletProxiesService_OpenLibraryAppletProxyOld),
      (201, Some (SERVICE_FUNC_STUB ''OpenLibraryAppletProxy'')), (300, Some (SERVICE_FUNC_STUB ''OpenOverlayAppletProxy'')),
      (350, Some (SERVICE_FUNC_STUB ''OpenSystemApplicationProxy'')), (400, Some (SERVICE_FUNC_STUB ''CreateSelfLibraryAppletCreatorForDevelop''))]"

definition IApplicationFunctions_functions :: "ServiceEnv \<Rightarrow> FunctionTable" where
  "IApplicationFunctions_functions env =
     [(1, Some IApplicationFunctions_PopLaunchParameter), (10, Some (SERVICE_FUNC_STUB ''CreateApplicationAndPushAndRequestToStart'')),
      (11, Some (SERVICE_FUNC_STUB ''CreateApplicationAndPushAndRequestToStartForQuest'')), (20, Some (SERVICE_FUNC_STUB ''EnsureSaveData'')),
      (21, Some IApplicationFunctions_GetDesiredLanguage), (22, Some IApplicationFunctions_SetTerminateResult),
      (23, Some (SERVICE_FUNC_STUB ''GetDisplayVersion'')), (24, Some (SERVICE_FUNC_STUB ''GetLaunchStorageInfoForDebug'')),
      (25, Some (SERVICE_FUNC_STUB ''ExtendSaveData'')), (26, Some (SERVICE_FUNC_STUB ''GetSaveDataSize'')),
      (30, Some (SERVICE_FUNC_STUB ''BeginBlockingHomeButtonShortAndLongPressed'')),
      (31, Some (SERVICE_FUNC_STUB ''EndBlockingHomeButtonShortAndLongPressed'')), (32, Some (SERVICE_FUNC_STUB ''BeginBlockingHomeButton'')),
      (33, Some (SERVICE_FUNC_STUB ''EndBlockingHomeButton'')), (40, Some (IApplicationFunctions_NotifyRunning env)),
      (50, Some (SERVICE_FUNC_STUB ''GetPseudoDeviceId'')), (60, Some (SERVICE_FUNC_STUB ''SetMediaPlaybackStateForApplication'')),
      (65, Some (SERVICE_FUNC_STUB ''IsGamePlayRecordingSupported'')), (66, Some (SERVICE_FUNC_STUB ''InitializeGamePlayRecording'')),
      (67, Some (SERVICE_FUNC_STUB ''SetGamePlayRecordingState'')), (70, Some (SERVICE_FUNC_STUB ''RequestToShutdown'')),
      (71, Some (SERVICE_FUNC_STUB ''RequestToReboot''))]"

definition IApplicationProxy_functions :: "ServiceEnv \<Rightarrow> FunctionTable" where
  "IApplicationProxy_functions env =
     [(0, Some IApplicationProxy_GetCommonStateGetter), (1, Some IApplicationProxy_GetSelfController),
      (2, Some IApplicationProxy_GetWindowController), (3, Some IApplicationProxy_GetAudioController),
      (4, Some IApplicationProxy_GetDisplayController), (10, Some IApplicationProxy_GetProcessWindingController),
      (11, Some IApplicationProxy_GetLibraryAppletCreator), (20, Some IApplicationProxy_GetApplicationFunctions),
      (1000, Some IApplicationProxy_GetDebugFunctions)]"

definition IApplicationProxyService_functions :: "ServiceEnv \<Rightarrow> FunctionTable" where
  "IApplicationProxyService_functions env =
     [(0, Some IApplicationProxyService_OpenApplicationProxy)]"

definition IAudioController_functions :: "ServiceEnv \<Rightarrow> FunctionTable" where
  "IAudioController_functions env =
     [(0, Some (SERVICE_FUNC_STUB ''SetExpectedMasterVolume'')), (1, Some (SERVICE_FUNC_STUB ''GetMainAppletExpectedMasterVolume'')),
      (2, Some (SERVICE_FUNC_STUB ''GetLibraryAppletExpectedMasterVolume'')), (3, Some (SERVICE_FUNC_STUB ''ChangeMainAppletMasterVolume'')),
      (4, Some (SERVICE_FUNC_STUB ''SetTransparentVolumeRate''))]"

definition ICommonStateGetter_functions :: "ServiceEnv \<Rightarrow> FunctionTable" where
  "ICommonStateGetter_functions env =
     [(0, Some ICommonStateGetter_GetEventHandle), (1, Some ICommonStateGetter_ReceiveMessage), (2, Some (SERVICE_FUNC_STUB ''GetThisAppletKind'')),
      (3, Some (SERVICE_FUNC_STUB ''AllowToEnterSleep'')), (4, Some (SERVICE_FUNC_STUB ''DisallowToEnterSleep'')),
      (5, Some ICommonStateGetter_GetOperationMode), (6, Some ICommonStateGetter_GetPerformanceMode),
      (7, Some (SERVICE_FUNC_STUB ''GetCradleStatus'')), (8, Some (SERVICE_FUNC_STUB ''GetBootMode'')),
      (9, Some ICommonStateGetter_GetCurrentFocusState), (10, Some (SERVICE_FUNC_STUB ''RequestToAcquireSleepLock'')),
      (11, Some (SERVICE_FUNC_STUB ''ReleaseSleepLock'')), (12, Some (SERVICE_FUNC_STUB ''ReleaseSleepLockTransiently'')),
      (13, Some (SERVICE_FUNC_STUB ''GetAcquiredSleepLockEvent'')), (20, Some (SERVICE_FUNC_STUB ''PushToGeneralChannel'')),
      (30, Some (SERVICE_FUNC_STUB ''GetHomeButtonReaderLockAccessor'')), (31, Some (SERVICE_FUNC_STUB ''GetReaderLockAccessorEx'')),
      (40, Some (SERVICE_FUNC_STUB ''GetCradleFwVersion'')), (50, Some (SERVICE_FUNC_STUB ''IsVrModeEnabled'')),
      (51, Some (SERVICE_FUNC_STUB ''SetVrModeEnabled'')), (55, Some (SERVICE_FUNC_STUB ''IsInControllerFirmwareUpdateSection'')),
      (60, Some (SERVICE_FUNC_STUB ''GetDefaultDisplayResolution'')), (61, Some (SERVICE_FUNC_STUB ''GetDefaultDisplayResolutionChangeEvent''))]"

definition IDebugFunctions_functions :: "ServiceEnv \<Rightarrow> FunctionTable" where
  "IDebugFunctions_functions env =
     [(0, Some (SERVICE_FUNC_STUB ''NotifyMessageToHomeMenuForDebug'')), (1, Some (SERVICE_FUNC_STUB ''OpenMainApplication'')),
      (10, Some (SERVICE_FUNC_STUB ''EmulateButtonEvent'')), (20, Some (SERVICE_FUNC_STUB ''InvalidateTransitionLayer''))]"

definition IDisplayController_functions :: "ServiceEnv \<Rightarrow> FunctionTable" where
  "IDisplayController_functions env =
     [(0, Some (SERVICE_FUNC_STUB ''GetLastForegroundCaptureImage'')), (1, Some (SERVICE_FUNC_STUB ''UpdateLastForegroundCaptureImage'')),
      (2, Some (SERVICE_FUNC_STUB ''GetLastApplicationCaptureImage'')), (3, Some (SERVICE_FUNC_STUB ''GetCallerAppletCaptureImage'')),
      (4, Some (SERVICE_FUNC_STUB ''UpdateCallerAppletCaptureImage'')), (5, Some (SERVICE_FUNC_STUB ''GetLastForegroundCaptureImageEx'')),
      (6, Some (SERVICE_FUNC_STUB ''GetLastApplicationCaptureImageEx'')), (7, Some (SERVICE_FUNC_STUB ''GetCallerAppletCaptureImageEx'')),
      (8, Some (SERVICE_FUNC_STUB ''TakeScreenShotOfOwnLayer'')), (10, Some (SERVICE_FUNC_STUB ''AcquireLastApplicationCaptureBuffer'')),
      (11, Some (SERVICE_FUNC_STUB ''ReleaseLastApplicationCaptureBuffer'')), (12, Some (SERVICE_FUNC_STUB ''AcquireLastForegroundCaptureBuffer'')),
      (13, Some (SERVICE_FUNC_STUB ''ReleaseLastForegroundCaptureBuffer'')), (14, Some (SERVICE_FUNC_STUB ''AcquireCallerAppletCaptureBuffer'')),
      (15, Some (SERVICE_FUNC_STUB ''ReleaseCallerAppletCaptureBuffer'')), (16, Some (SERVICE_FUNC_STUB ''AcquireLastApplicationCaptureBufferEx'')),
      (17, Some (SERVICE_FUNC_STUB ''AcquireLastForegroundCaptureBufferEx'')), (18, Some (SERVICE_FUNC_STUB ''AcquireCallerAppletCaptureBufferEx'')),
      (20, Some (SERVICE_FUNC_STUB ''ClearCaptureBuffer'')), (21, Some (SERVICE_FUNC_STUB ''ClearAppletTransitionBuffer''))]"

definition ILibraryAppletCreator_functions :: "ServiceEnv \<Rightarrow> FunctionTable" where
  "ILibraryAppletCreator_functions env =
     [(0, Some (SERVICE_FUNC_STUB ''CreateLibraryApplet'')), (1, Some (SERVICE_FUNC_STUB ''TerminateAllLibraryApplets'')),
      (2, Some (SERVICE_FUNC_STUB ''AreAnyLibraryAppletsLeft'')), (10, Some (SERVICE_FUNC_STUB ''CreateStorage'')),
      (11, Some (SERVICE_FUNC_STUB ''CreateTransferMemoryStorage'')), (12, Some (SERVICE_FUNC_STUB ''CreateHandleStorage''))]"

definition ILibraryAppletProxy_functions :: "ServiceEnv \<Rightarrow> FunctionTable" where
  "ILibraryAppletProxy_functions env =
     [(0, Some (SERVICE_FUNC_STUB ''GetCommonStateGetter'')), (1, Some ILibraryAppletProxy_GetSelfController),
      (2, Some ILibraryAppletProxy_GetWindowController), (3, Some (SERVICE_FUNC_STUB ''GetAudioController'')),
      (4, Some (SERVICE_FUNC_STUB ''GetDisplayController'')), (10, Some (SERVICE_FUNC_STUB ''GetProcessWindingController'')),
      (11, Some (SERVICE_FUNC_STUB ''GetLibraryAppletCreator'')), (20, Some (SERVICE_FUNC_STUB ''OpenLibraryAppletSelfAccessor'')),
      (1000, Some (SERVICE_FUNC_STUB ''GetDebugFunctions''))]"

definition IProcessWindingController_functions :: "ServiceEnv \<Rightarrow> FunctionTable" where
  "IProcessWindingController_functions env =
     [(0, Some (SERVICE_FUNC_STUB ''GetLaunchReason'')), (11, Some (SERVICE_FUNC_STUB ''OpenCallingLibraryApplet'')),
      (21, Some (SERVICE_FUNC_STUB ''PushContext'')), (22, Some (SERVICE_FUNC_STUB ''PopContext'')),
      (23, Some (SERVICE_FUNC_STUB ''CancelWindingReservation'')), (30, Some (SERVICE_FUNC_STUB ''WindAndDoReserved'')),
      (40, Some (SERVICE_FUNC_STUB ''ReserveToStartAndWaitAndUnwindThis''))]"

definition ISelfController_functions :: "ServiceEnv \<Rightarrow> FunctionTable" where
  "ISelfController_functions env =
     [(0, Some (SERVICE_FUNC_STUB ''Exit'')), (1, Some (SERVICE_FUNC_STUB ''LockExit'')), (2, Some (SERVICE_FUNC_STUB ''UnlockExit'')),
      (3, Some (SERVICE_FUNC_STUB ''EnterFatalSection'')), (4, Some (SERVICE_FUNC_STUB ''LeaveFatalSection'')),
      (9, Some (SERVICE_FUNC_STUB ''GetLibraryAppletLaunchableEvent'')), (10, Some (SERVICE_FUNC_STUB ''SetScreenShotPermission'')),
      (11, Some ISelfController_SetOperationModeChangedNotification), (12, Some ISelfController_SetPerformanceModeChangedNotification),
      (13, Some ISelfController_SetFocusHandlingMode), (14, Some ISelfController_SetRestartMessageEnabled),
      (15, Some ISelfController_SetScreenShotAppletIdentityInfo), (16, Some ISelfController_SetOutOfFocusSuspendingEnabled),
      (17, Some (SERVICE_FUNC_STUB ''SetControllerFirmwareUpdateSection'')),
      (18, Some (SERVICE_FUNC_STUB ''SetRequiresCaptureButtonShortPressedMessage'')),
      (19, Some (SERVICE_FUNC_STUB ''SetScreenShotImageOrientation'')), (40, Some ISelfController_CreateManagedDisplayLayer),
      (50, Some (SERVICE_FUNC_STUB ''SetHandlesRequestToDisplay'')), (51, Some (SERVICE_FUNC_STUB ''ApproveToDisplay'')),
      (60, Some (SERVICE_FUNC_STUB ''OverrideAutoSleepTimeAndDimmingTime'')), (61, Some (SERVICE_FUNC_STUB ''SetMediaPlaybackState'')),
      (62, Some (SERVICE_FUNC_STUB ''SetIdleTimeDetectionExtension'')), (63, Some (SERVICE_FUNC_STUB ''GetIdleTimeDetectionExtension'')),
      (64, Some (SERVICE_FUNC_STUB ''SetInputDetectionSourceSet'')), (65, Some (SERVICE_FUNC_STUB ''ReportUserIsActive'')),
      (66, Some (SERVICE_FUNC_STUB ''GetCurrentIlluminance'')), (67, Some (SERVICE_FUNC_STUB ''IsIlluminanceAvailable''))]"

definition am_IStorage_functions :: "ServiceEnv \<Rightarrow> FunctionTable" where
  "am_IStorage_functions env =
     [(0, Some am_IStorage_Open), (1, Some (SERVICE_FUNC_STUB ''OpenTransferStorage''))]"

definition IStorageAccessor_functions :: "ServiceEnv \<Rightarrow> FunctionTable" where
  "IStorageAccessor_functions env =
     [(0, Some IStorageAccessor_GetSize), (10, Some (SERVICE_FUNC_STUB ''Write'')), (11, Some IStorageAccessor_Read)]"

definition IWindowController_functions :: "ServiceEnv \<Rightarrow> FunctionTable" where
  "IWindowController_functions env =
     [(0, Some (SERVICE_FUNC_STUB ''CreateWindow'')), (1, Some IWindowController_GetAppletResourceUserId),
      (10, Some IWindowController_AcquireForegroundRights), (11, Some (SERVICE_FUNC_STUB ''ReleaseForegroundRights'')),
      (12, Some (SERVICE_FUNC_STUB ''RejectToChangeIntoBackground''))]"

definition IAddOnContentManager_functions :: "ServiceEnv \<Rightarrow> FunctionTable" where
  "IAddOnContentManager_functions env =
     [(0, Some (SERVICE_FUNC_STUB ''CountAddOnContentByApplicationId'')), (1, Some (SERVICE_FUNC_STUB ''ListAddOnContentByApplicationId'')),
      (2, Some (SERVICE_FUNC_STUB ''CountAddOnContent'')), (3, Some (SERVICE_FUNC_STUB ''ListAddOnContent'')),
      (4, Some (SERVICE_FUNC_STUB ''GetAddOnContentBaseIdByApplicationId'')), (5, Some (SERVICE_FUNC_STUB ''GetAddOnContentBaseId'')),
      (6, Some (SERVICE_FUNC_STUB ''PrepareAddOnContentByApplicationId'')), (7, Some (SERVICE_FUNC_STUB ''PrepareAddOnContent''))]"

definition IManager_functions :: "ServiceEnv \<Rightarrow> FunctionTable" where
  "IManager_functions env =
     [(0, Some IManager_OpenSession), (1, Some (SERVICE_FUNC_STUB ''GetPerformanceMode''))]"

definition ISession_functions :: "ServiceEnv \<Rightarrow> FunctionTable" where
  "ISession_functions env =
     [(0, Some ISession_SetPerformanceConfiguration), (0, Some (SERVICE_FUNC_STUB ''GetPerformanceConfiguration''))]"

definition IFileSystemProxy_functions :: "ServiceEnv \<Rightarrow> FunctionTable" where
  "IFileSystemProxy_functions env =
     [(1, Some IFileSystemProxy_Initialize), (2, Some (SERVICE_FUNC_STUB ''OpenDataFileSystemByCurrentProcess'')),
      (7, Some (SERVICE_FUNC_STUB ''MountContent7'')), (8, Some (SERVICE_FUNC_STUB ''MountContent'')),
      (9, Some (SERVICE_FUNC_STUB ''OpenDataFileSystemByApplicationId'')), (11, Some (SERVICE_FUNC_STUB ''MountBis'')),
      (12, Some (SERVICE_FUNC_STUB ''OpenBisPartition'')), (13, Some (SERVICE_FUNC_STUB ''InvalidateBisCache'')),
      (17, Some (SERVICE_FUNC_STUB ''OpenHostFileSystemImpl'')), (18, Some (SERVICE_FUNC_STUB ''MountSdCard'')),
      (19, Some (SERVICE_FUNC_STUB ''FormatSdCard'')), (21, Some (SERVICE_FUNC_STUB ''DeleteSaveData'')),
      (22, Some (SERVICE_FUNC_STUB ''CreateSaveData'')), (23, Some (SERVICE_FUNC_STUB ''CreateSystemSaveData'')),
      (24, Some (SERVICE_FUNC_STUB ''RegisterSaveDataAtomicDeletion'')), (25, Some (SERVICE_FUNC_STUB ''DeleteSaveDataWithSpaceId'')),
      (26, Some (SERVICE_FUNC_STUB ''FormatSdCardDryRun'')), (27, Some (SERVICE_FUNC_STUB ''IsExFatSupported'')),
      (30, Some (SERVICE_FUNC_STUB ''OpenGameCardPartition'')), (31, Some (SERVICE_FUNC_STUB ''MountGameCardPartition'')),
      (32, Some (SERVICE_FUNC_STUB ''ExtendSaveData'')), (51, Some IFileSystemProxy_MountSaveData),
      (52, Some (SERVICE_FUNC_STUB ''MountSystemSaveData'')), (53, Some (SERVICE_FUNC_STUB ''MountSaveDataReadOnly'')),
      (57, Some (SERVICE_FUNC_STUB ''ReadSaveDataFileSystemExtraDataWithSpaceId'')),
      (58, Some (SERVICE_FUNC_STUB ''ReadSaveDataFileSystemExtraData'')), (59, Some (SERVICE_FUNC_STUB ''WriteSaveDataFileSystemExtraData'')),
      (60, Some (SERVICE_FUNC_STUB ''OpenSaveDataInfoReader'')), (61, Some (SERVICE_FUNC_STUB ''OpenSaveDataIterator'')),
      (80, Some (SERVICE_FUNC_STUB ''OpenSaveDataThumbnailFile'')), (100, Some (SERVICE_FUNC_STUB ''MountImageDirectory'')),
      (110, Some (SERVICE_FUNC_STUB ''MountContentStorage'')), (200, Some IFileSystemProxy_OpenDataStorageByCurrentProcess),
      (201, Some (SERVICE_FUNC_STUB ''OpenDataStorageByApplicationId'')), (202, Some (SERVICE_FUNC_STUB ''OpenDataStorageByDataId'')),
      (203, Some IFileSystemProxy_OpenRomStorage), (400, Some (SERVICE_FUNC_STUB ''OpenDeviceOperator'')),
      (500, Some (SERVICE_FUNC_STUB ''OpenSdCardDetectionEventNotifier'')), (501, Some (SERVICE_FUNC_STUB ''OpenGameCardDetectionEventNotifier'')),
      (600, Some (SERVICE_FUNC_STUB ''SetCurrentPosixTime'')), (601, Some (SERVICE_FUNC_STUB ''QuerySaveDataTotalSize'')),
      (602, Some (SERVICE_FUNC_STUB ''VerifySaveData'')), (603, Some (SERVICE_FUNC_STUB ''CorruptSaveDataForDebug'')),
      (604, Some (SERVICE_FUNC_STUB ''CreatePaddingFile'')), (605, Some (SERVICE_FUNC_STUB ''DeleteAllPaddingFiles'')),
      (606, Some (SERVICE_FUNC_STUB ''GetRightsId'')), (607, Some (SERVICE_FUNC_STUB ''RegisterExternalKey'')),
      (607, Some (SERVICE_FUNC_STUB ''UnregisterExternalKey'')), (609, Some (SERVICE_FUNC_STUB ''GetRightsIdByPath'')),
      (610, Some (SERVICE_FUNC_STUB ''GetRightsIdByPath2'')), (620, Some (SERVICE_FUNC_STUB ''SetSdCardEncryptionSeed'')),
      (800, Some (SERVICE_FUNC_STUB ''GetAndClearFileSystemProxyErrorInfo'')), (1000, Some (SERVICE_FUNC_STUB ''SetBisRootForHost'')),
      (1001, Some (SERVICE_FUNC_STUB ''SetSaveDataSize'')), (1002, Some (SERVICE_FUNC_STUB ''SetSaveDataRootPath'')),
      (1003, Some (SERVICE_FUNC_STUB ''DisableAutoSaveDataCreation'')), (1004, Some (SERVICE_FUNC_STUB ''SetGlobalAccessLogMode'')),
      (1005, Some IFileSystemProxy_GetGlobalAccessLogMode), (1006, Some (SERVICE_FUNC_STUB ''OutputAccessLogToSdCard''))]"

definition fssrv_IStorage_functions :: "ServiceEnv \<Rightarrow> FunctionTable" where
  "fssrv_IStorage_functions env =
     [(0, Some (fssrv_IStorage_Read env)), (1, Some (SERVICE_FUNC_STUB ''Write'')), (2, Some (SERVICE_FUNC_STUB ''Flush'')),
      (3, Some (SERVICE_FUNC_STUB ''SetSize'')), (4, Some (SERVICE_FUNC_STUB ''GetSize''))]"

definition IAppletResource_functions :: "ServiceEnv \<Rightarrow> FunctionTable" where
  "IAppletResource_functions env =
     [(0, Some IAppletResource_GetSharedMemoryHandle)]"

definition IHidServer_functions :: "ServiceEnv \<Rightarrow> FunctionTable" where
  "IHidServer_functions env =
     [(0, Some IHidServer_CreateAppletResource), (1, Some (SERVICE_FUNC_STUB ''ActivateDebugPad'')), (11, Some IHidServer_ActivateTouchScreen),
      (21, Some (SERVICE_FUNC_STUB ''ActivateMouse'')), (31, Some (SERVICE_FUNC_STUB ''ActivateKeyboard'')),
      (40, Some (SERVICE_FUNC_STUB ''AcquireXpadIdEventHandle'')), (41, Some (SERVICE_FUNC_STUB ''ReleaseXpadIdEventHandle'')),
      (51, Some (SERVICE_FUNC_STUB ''ActivateXpad'')), (55, Some (SERVICE_FUNC_STUB ''GetXpadIds'')),
      (56, Some (SERVICE_FUNC_STUB ''ActivateJoyXpad'')), (58, Some (SERVICE_FUNC_STUB ''GetJoyXpadLifoHandle'')),
      (59, Some (SERVICE_FUNC_STUB ''GetJoyXpadIds'')), (60, Some (SERVICE_FUNC_STUB ''ActivateSixAxisSensor'')),
      (61, Some (SERVICE_FUNC_STUB ''DeactivateSixAxisSensor'')), (62, Some (SERVICE_FUNC_STUB ''GetSixAxisSensorLifoHandle'')),
      (63, Some (SERVICE_FUNC_STUB ''ActivateJoySixAxisSensor'')), (64, Some (SERVICE_FUNC_STUB ''DeactivateJoySixAxisSensor'')),
      (65, Some (SERVICE_FUNC_STUB ''GetJoySixAxisSensorLifoHandle'')), (66, Some (SERVICE_FUNC_STUB ''StartSixAxisSensor'')),
      (67, Some (SERVICE_FUNC_STUB ''StopSixAxisSensor'')), (68, Some (SERVICE_FUNC_STUB ''IsSixAxisSensorFusionEnabled'')),
      (69, Some (SERVICE_FUNC_STUB ''EnableSixAxisSensorFusion'')), (70, Some (SERVICE_FUNC_STUB ''SetSixAxisSensorFusionParameters'')),
      (71, Some (SERVICE_FUNC_STUB ''GetSixAxisSensorFusionParameters'')), (72, Some (SERVICE_FUNC_STUB ''ResetSixAxisSensorFusionParameters'')),
      (73, Some (SERVICE_FUNC_STUB ''SetAccelerometerParameters'')), (74, Some (SERVICE_FUNC_STUB ''GetAccelerometerParameters'')),
      (75, Some (SERVICE_FUNC_STUB ''ResetAccelerometerParameters'')), (76, Some (SERVICE_FUNC_STUB ''SetAccelerometerPlayMode'')),
      (77, Some (SERVICE_FUNC_STUB ''GetAccelerometerPlayMode'')), (78, Some (SERVICE_FUNC_STUB ''ResetAccelerometerPlayMode'')),
      (79, Some (SERVICE_FUNC_STUB ''SetGyroscopeZeroDriftMode'')), (80, Some (SERVICE_FUNC_STUB ''GetGyroscopeZeroDriftMode'')),
      (81, Some (SERVICE_FUNC_STUB ''ResetGyroscopeZeroDriftMode'')), (82, Some (SERVICE_FUNC_STUB ''IsSixAxisSensorAtRest'')),
      (91, Some (SERVICE_FUNC_STUB ''ActivateGesture'')), (100, Some IHidServer_SetSupportedNpadStyleSet),
      (101, Some (SERVICE_FUNC_STUB ''GetSupportedNpadStyleSet'')), (102, Some IHidServer_SetSupportedNpadIdType),
      (103, Some IHidServer_ActivateNpad), (104, Some (SERVICE_FUNC_STUB ''DeactivateNpad'')),
      (106, Some (SERVICE_FUNC_STUB ''AcquireNpadStyleSetUpdateEventHandle'')), (107, Some (SERVICE_FUNC_STUB ''DisconnectNpad'')),
      (108, Some (SERVICE_FUNC_STUB ''GetPlayerLedPattern'')), (120, Some IHidServer_SetNpadJoyHoldType),
      (121, Some (SERVICE_FUNC_STUB ''GetNpadJoyHoldType'')), (122, Some (SERVICE_FUNC_STUB ''SetNpadJoyAssignmentModeSingleByDefault'')),
      (123, Some (SERVICE_FUNC_STUB ''SetNpadJoyAssignmentModeSingle'')), (124, Some (SERVICE_FUNC_STUB ''SetNpadJoyAssignmentModeDual'')),
      (125, Some (SERVICE_FUNC_STUB ''MergeSingleJoyAsDualJoy'')), (126, Some (SERVICE_FUNC_STUB ''StartLrAssignmentMode'')),
      (127, Some (SERVICE_FUNC_STUB ''StopLrAssignmentMode'')), (128, Some (SERVICE_FUNC_STUB ''SetNpadHandheldActivationMode'')),
      (129, Some (SERVICE_FUNC_STUB ''GetNpadHandheldActivationMode'')), (130, Some (SERVICE_FUNC_STUB ''SwapNpadAssignment'')),
      (131, Some (SERVICE_FUNC_STUB ''IsUnintendedHomeButtonInputProtectionEnabled'')),
      (132, Some (SERVICE_FUNC_STUB ''EnableUnintendedHomeButtonInputProtection'')), (200, Some (SERVICE_FUNC_STUB ''GetVibrationDeviceInfo'')),
      (201, Some (SERVICE_FUNC_STUB ''SendVibrationValue'')), (202, Some (SERVICE_FUNC_STUB ''GetActualVibrationValue'')),
      (203, Some (SERVICE_FUNC_STUB ''CreateActiveVibrationDeviceList'')), (204, Some (SERVICE_FUNC_STUB ''PermitVibration'')),
      (205, Some (SERVICE_FUNC_STUB ''IsVibrationPermitted'')), (206, Some (SERVICE_FUNC_STUB ''SendVibrationValues'')),
      (300, Some (SERVICE_FUNC_STUB ''ActivateConsoleSixAxisSensor'')), (301, Some (SERVICE_FUNC_STUB ''StartConsoleSixAxisSensor'')),
      (302, Some (SERVICE_FUNC_STUB ''StopConsoleSixAxisSensor'')), (400, Some (SERVICE_FUNC_STUB ''IsUsbFullKeyControllerEnabled'')),
      (401, Some (SERVICE_FUNC_STUB ''EnableUsbFullKeyController'')), (402, Some (SERVICE_FUNC_STUB ''IsUsbFullKeyControllerConnected'')),
      (1000, Some (SERVICE_FUNC_STUB ''SetNpadCommunicationMode'')), (1001, Some (SERVICE_FUNC_STUB ''GetNpadCommunicationMode''))]"

definition ILogService_functions :: "ServiceEnv \<Rightarrow> FunctionTable" where
  "ILogService_functions env =
     [(0, Some ILogService_Initialize)]"

definition ILogger_functions :: "ServiceEnv \<Rightarrow> FunctionTable" where
  "ILogger_functions env =
     [(0, Some ILogger_unk0), (1, Some (SERVICE_FUNC_STUB ''unk1''))]"

definition IGeneralService_functions :: "ServiceEnv \<Rightarrow> FunctionTable" where
  "IGeneralService_functions env =
     [(1, Some (SERVICE_FUNC_STUB ''GetClientId'')), (2, Some (SERVICE_FUNC_STUB ''CreateScanRequest'')),
      (4, Some (SERVICE_FUNC_STUB ''CreateRequest'')), (5, Some (SERVICE_FUNC_STUB ''GetCurrentNetworkProfile'')),
      (6, Some (SERVICE_FUNC_STUB ''EnumerateNetworkInterfaces'')), (7, Some (SERVICE_FUNC_STUB ''EnumerateNetworkProfiles'')),
      (8, Some (SERVICE_FUNC_STUB ''GetNetworkProfile'')), (9, Some (SERVICE_FUNC_STUB ''SetNetworkProfile'')),
      (10, Some (SERVICE_FUNC_STUB ''RemoveNetworkProfile'')), (11, Some (SERVICE_FUNC_STUB ''GetScanData'')),
      (12, Some (SERVICE_FUNC_STUB ''GetCurrentIpAddress'')), (13, Some (SERVICE_FUNC_STUB ''GetCurrentAccessPoint'')),
      (14, Some (SERVICE_FUNC_STUB ''CreateTemporaryNetworkProfile'')), (15, Some (SERVICE_FUNC_STUB ''GetCurrentIpConfigInfo'')),
      (16, Some (SERVICE_FUNC_STUB ''SetWirelessCommunicationEnabled'')), (17, Some (SERVICE_FUNC_STUB ''IsWirelessCommunicationEnabled'')),
      (18, Some (SERVICE_FUNC_STUB ''GetInternetConnectionStatus'')), (19, Some (SERVICE_FUNC_STUB ''SetEthernetCommunicationEnabled'')),
      (20, Some (SERVICE_FUNC_STUB ''IsEthernetCommunicationEnabled'')), (21, Some (SERVICE_FUNC_STUB ''IsAnyInternetRequestAccepted'')),
      (22, Some (SERVICE_FUNC_STUB ''IsAnyForegroundRequestAccepted'')), (23, Some (SERVICE_FUNC_STUB ''PutToSleep'')),
      (24, Some (SERVICE_FUNC_STUB ''WakeUp'')), (25, Some (SERVICE_FUNC_STUB ''GetSsidListVersion'')),
      (26, Some (SERVICE_FUNC_STUB ''SetExclusiveClient'')), (27, Some (SERVICE_FUNC_STUB ''GetDefaultIpSetting'')),
      (28, Some (SERVICE_FUNC_STUB ''SetDefaultIpSetting'')), (29, Some (SERVICE_FUNC_STUB ''SetWirelessCommunicationEnabledForTest'')),
      (30, Some (SERVICE_FUNC_STUB ''SetEthernetCommunicationEnabledForTest'')),
      (31, Some (SERVICE_FUNC_STUB ''GetTelemetorySystemEventReadableHandle'')), (32, Some (SERVICE_FUNC_STUB ''GetTelemetryInfo'')),
      (33, Some (SERVICE_FUNC_STUB ''ConfirmSystemAvailability''))]"

definition nifm_IStaticService_functions :: "ServiceEnv \<Rightarrow> FunctionTable" where
  "nifm_IStaticService_functions env =
     [(4, Some nifm_IStaticService_CreateGeneralServiceOld), (5, Some (SERVICE_FUNC_STUB ''CreateGeneralService''))]"

definition IParentalControlServiceFactory_functions :: "ServiceEnv \<Rightarrow> FunctionTable" where
  "IParentalControlServiceFactory_functions env =
     [(0, Some IParentalControlServiceFactory_CreateService)]"

definition ISettingsServer_functions :: "ServiceEnv \<Rightarrow> FunctionTable" where
  "ISettingsServer_functions env =
     [(0, Some (SERVICE_FUNC_STUB ''GetLanguageCode'')), (1, Some ISettingsServer_GetAvailableLanguageCodes),
      (3, Some (SERVICE_FUNC_STUB ''GetAvailableLanguageCodeCount'')), (4, Some (SERVICE_FUNC_STUB ''GetRegionCode''))]"

definition timesrv_IStaticService_functions :: "ServiceEnv \<Rightarrow> FunctionTable" where
  "timesrv_IStaticService_functions env =
     [(0, Some timesrv_IStaticService_GetStandardUserSystemClock), (1, Some timesrv_IStaticService_GetStandardNetworkSystemClock),
      (2, Some timesrv_IStaticService_GetStandardSteadyClock), (3, Some timesrv_IStaticService_GetTimeZoneService),
      (4, Some (SERVICE_FUNC_STUB ''GetStandardLocalSystemClock'')),
      (100, Some (SERVICE_FUNC_STUB ''IsStandardUserSystemClockAutomaticCorrectionEnabled'')),
      (101, Some (SERVICE_FUNC_STUB ''SetStandardUserSystemClockAutomaticCorrectionEnabled'')),
      (200, Some (SERVICE_FUNC_STUB ''IsStandardNetworkSystemClockAccuracySufficient''))]"

definition ISteadyClock_functions :: "ServiceEnv \<Rightarrow> FunctionTable" where
  "ISteadyClock_functions env =
     [(0, Some (SERVICE_FUNC_STUB ''GetCurrentTimePoint'')), (2, Some (SERVICE_FUNC_STUB ''GetTestOffset'')),
      (3, Some (SERVICE_FUNC_STUB ''SetTestOffset'')), (100, Some (SERVICE_FUNC_STUB ''GetRtcValue'')),
      (101, Some (SERVICE_FUNC_STUB ''IsRtcResetDetected'')), (102, Some (SERVICE_FUNC_STUB ''GetSetupResutltValue'')),
      (200, Some (SERVICE_FUNC_STUB ''GetInternalOffset'')), (201, Some (SERVICE_FUNC_STUB ''SetInternalOffset''))]"

definition ISystemClock_functions :: "ServiceEnv \<Rightarrow> FunctionTable" where
  "ISystemClock_functions env =
     [(0, Some ISystemClock_GetCurrentTime), (1, Some (SERVICE_FUNC_STUB ''SetCurrentTime'')),
      (2, Some (SERVICE_FUNC_STUB ''GetSystemClockContext'')), (3, Some (SERVICE_FUNC_STUB ''SetSystemClockContext''))]"

definition ITimeZoneService_functions :: "ServiceEnv \<Rightarrow> FunctionTable" where
  "ITimeZoneService_functions env =
     [(0, Some (SERVICE_FUNC_STUB ''GetDeviceLocationName'')), (1, Some (SERVICE_FUNC_STUB ''SetDeviceLocationName'')),
      (2, Some (SERVICE_FUNC_STUB ''GetTotalLocationNameCount'')), (3, Some (SERVICE_FUNC_STUB ''LoadLocationNameList'')),
      (4, Some (SERVICE_FUNC_STUB ''LoadTimeZoneRule'')), (5, Some (SERVICE_FUNC_STUB ''GetTimeZoneRuleVersion'')),
      (100, Some (SERVICE_FUNC_STUB ''ToCalendarTime'')), (101, Some (ITimeZoneService_ToCalendarTimeWithMyRule env)),
      (201, Some (SERVICE_FUNC_STUB ''ToPosixTime'')), (202, Some (SERVICE_FUNC_STUB ''ToPosixTimeWithMyRule''))]"

definition IApplicationDisplayService_functions :: "ServiceEnv \<Rightarrow> FunctionTable" where
  "IApplicationDisplayService_functions env =
     [(100, Some GetRelayService), (101, Some GetSystemDisplayService), (102, Some GetManagerDisplayService),
      (103, Some GetIndirectDisplayTransactionService), (1000, Some (SERVICE_FUNC_STUB ''ListDisplays'')), (1010, Some OpenDisplay),
      (1011, Some (SERVICE_FUNC_STUB ''OpenDefaultDisplay'')), (1020, Some (SERVICE_FUNC_STUB ''CloseDisplay'')),
      (1101, Some (SERVICE_FUNC_STUB ''SetDisplayEnabled'')), (1102, Some (SERVICE_FUNC_STUB ''GetDisplayResolution'')), (2020, Some OpenLayer),
      (2021, Some (SERVICE_FUNC_STUB ''CloseLayer'')), (2030, Some CreateStrayLayer), (2031, Some (SERVICE_FUNC_STUB ''DestroyStrayLayer'')),
      (2101, Some SetLayerScalingMode), (2450, Some (SERVICE_FUNC_STUB ''GetIndirectLayerImageMap'')),
      (2451, Some (SERVICE_FUNC_STUB ''GetIndirectLayerImageCropMap'')),
      (2460, Some (SERVICE_FUNC_STUB ''GetIndirectLayerImageRequiredMemoryInfo'')), (5202, Some GetDisplayVsyncEvent),
      (5203, Some (SERVICE_FUNC_STUB ''GetDisplayVsyncEventForDebug''))]"

definition IApplicationRootService_functions :: "ServiceEnv \<Rightarrow> FunctionTable" where
  "IApplicationRootService_functions env =
     [(0, Some (SERVICE_FUNC_STUB ''GetDisplayService''))]"

definition IManagerDisplayService_functions :: "ServiceEnv \<Rightarrow> FunctionTable" where
  "IManagerDisplayService_functions env =
     [(1102, Some (SERVICE_FUNC_STUB ''GetDisplayResolution'')), (2010, Some CreateManagedLayer),
      (2011, Some (SERVICE_FUNC_STUB ''DestroyManagedLayer'')), (2050, Some (SERVICE_FUNC_STUB ''CreateIndirectLayer'')),
      (2051, Some (SERVICE_FUNC_STUB ''DestroyIndirectLayer'')), (2052, Some (SERVICE_FUNC_STUB ''CreateIndirectProducerEndPoint'')),
      (2053, Some (SERVICE_FUNC_STUB ''DestroyIndirectProducerEndPoint'')), (2054, Some (SERVICE_FUNC_STUB ''CreateIndirectConsumerEndPoint'')),
      (2055, Some (SERVICE_FUNC_STUB ''DestroyIndirectConsumerEndPoint'')), (2300, Some (SERVICE_FUNC_STUB ''AcquireLayerTexturePresentingEvent'')),
      (2301, Some (SERVICE_FUNC_STUB ''ReleaseLayerTexturePresentingEvent'')), (2302, Some (SERVICE_FUNC_STUB ''GetDisplayHotplugEvent'')),
      (2402, Some (SERVICE_FUNC_STUB ''GetDisplayHotplugState'')), (4201, Some (SERVICE_FUNC_STUB ''SetDisplayAlpha'')),
      (4203, Some (SERVICE_FUNC_STUB ''SetDisplayLayerStack'')), (4205, Some (SERVICE_FUNC_STUB ''SetDisplayPowerState'')),
      (6000, Some AddToLayerStack), (6001, Some (SERVICE_FUNC_STUB ''RemoveFromLayerStack'')),
      (6002, Some (SERVICE_FUNC_STUB ''SetLayerVisibility'')), (7000, Some (SERVICE_FUNC_STUB ''SetContentVisibility'')),
      (8000, Some (SERVICE_FUNC_STUB ''SetConductorLayer'')), (8100, Some (SERVICE_FUNC_STUB ''SetIndirectProducerFlipOffset''))]"

definition IManagerRootService_functions :: "ServiceEnv \<Rightarrow> FunctionTable" where
  "IManagerRootService_functions env =
     [(2, Some IManagerRootService_GetDisplayService), (3, Some (SERVICE_FUNC_STUB ''GetDisplayServiceWithProxyNameExchange''))]"

definition ISystemDisplayService_functions :: "ServiceEnv \<Rightarrow> FunctionTable" where
  "ISystemDisplayService_functions env =
     [(1200, Some (SERVICE_FUNC_STUB ''GetZOrderCountMin'')), (1202, Some (SERVICE_FUNC_STUB ''GetZOrderCountMax'')),
      (1203, Some (SERVICE_FUNC_STUB ''GetDisplayLogicalResolution'')), (1204, Some (SERVICE_FUNC_STUB ''SetDisplayMagnification'')),
      (2201, Some (SERVICE_FUNC_STUB ''SetLayerPosition'')), (2203, Some (SERVICE_FUNC_STUB ''SetLayerSize'')),
      (2204, Some (SERVICE_FUNC_STUB ''GetLayerZ'')), (2205, Some SetLayerZ), (2207, Some (SERVICE_FUNC_STUB ''SetLayerVisibility'')),
      (2209, Some (SERVICE_FUNC_STUB ''SetLayerAlpha'')), (2312, Some (SERVICE_FUNC_STUB ''CreateStrayLayer'')),
      (2400, Some (SERVICE_FUNC_STUB ''OpenIndirectLayer'')), (2401, Some (SERVICE_FUNC_STUB ''CloseIndirectLayer'')),
      (2402, Some (SERVICE_FUNC_STUB ''FlipIndirectLayer'')), (3000, Some (SERVICE_FUNC_STUB ''ListDisplayModes'')),
      (3001, Some (SERVICE_FUNC_STUB ''ListDisplayRgbRanges'')), (3002, Some (SERVICE_FUNC_STUB ''ListDisplayContentTypes'')),
      (3200, Some (SERVICE_FUNC_STUB ''GetDisplayMode'')), (3201, Some (SERVICE_FUNC_STUB ''SetDisplayMode'')),
      (3202, Some (SERVICE_FUNC_STUB ''GetDisplayUnderscan'')), (3203, Some (SERVICE_FUNC_STUB ''SetDisplayUnderscan'')),
      (3204, Some (SERVICE_FUNC_STUB ''GetDisplayContentType'')), (3205, Some (SERVICE_FUNC_STUB ''SetDisplayContentType'')),
      (3206, Some (SERVICE_FUNC_STUB ''GetDisplayRgbRange'')), (3207, Some (SERVICE_FUNC_STUB ''SetDisplayRgbRange'')),
      (3208, Some (SERVICE_FUNC_STUB ''GetDisplayCmuMode'')), (3209, Some (SERVICE_FUNC_STUB ''SetDisplayCmuMode'')),
      (3210, Some (SERVICE_FUNC_STUB ''GetDisplayContrastRatio'')), (3211, Some (SERVICE_FUNC_STUB ''SetDisplayContrastRatio'')),
      (3214, Some (SERVICE_FUNC_STUB ''GetDisplayGamma'')), (3215, Some (SERVICE_FUNC_STUB ''SetDisplayGamma'')),
      (3216, Some (SERVICE_FUNC_STUB ''GetDisplayCmuLuma'')), (3217, Some (SERVICE_FUNC_STUB ''SetDisplayCmuLuma''))]"

definition ISystemRootService_functions :: "ServiceEnv \<Rightarrow> FunctionTable" where
  "ISystemRootService_functions env =
     [(1, Some ISystemRootService_GetDisplayService), (3, Some (SERVICE_FUNC_STUB ''GetDisplayServiceWithProxyNameExchange''))]"

definition IHOSBinderDriver_functions :: "ServiceEnv \<Rightarrow> FunctionTable" where
  "IHOSBinderDriver_functions env =
     [(0, Some IHOSBinderDriver_TransactParcel), (1, Some IHOSBinderDriver_AdjustRefcount), (2, Some IHOSBinderDriver_GetNativeHandle),
      (3, Some IHOSBinderDriver_TransactParcelAuto)]"

definition INvDrvServices_functions :: "ServiceEnv \<Rightarrow> FunctionTable" where
  "INvDrvServices_functions env =
     [(0, Some INvDrvServices_Open), (1, Some (INvDrvServices_Ioctl env)), (2, Some INvDrvServices_Close), (3, Some INvDrvServices_Initialize),
      (4, Some INvDrvServices_QueryEvent), (5, Some (SERVICE_FUNC_STUB ''MapSharedMem'')), (6, Some (SERVICE_FUNC_STUB ''GetStatus'')),
      (7, Some (SERVICE_FUNC_STUB ''ForceSetClientPID'')), (8, Some INvDrvServices_SetClientPID),
      (9, Some (SERVICE_FUNC_STUB ''DumpGraphicsMemoryInfo'')), (10, Some (SERVICE_FUNC_STUB ''unk10'')), (11, Some (SERVICE_FUNC_STUB ''Ioctl2'')),
      (12, Some (SERVICE_FUNC_STUB ''Ioctl3'')), (13, Some (SERVICE_FUNC_STUB ''unk13''))]"

primrec service_functions :: "Interface \<Rightarrow> ServiceEnv \<Rightarrow> FunctionTable" where
  "service_functions SmService env = SmService_functions env"
| "service_functions IAccountServiceForApplication env = IAccountServiceForApplication_functions env"
| "service_functions IManagerForApplication env = IManagerForApplication_functions env"
| "service_functions INotifier env = INotifier_functions env"
| "service_functions IProfile env = IProfile_functions env"
| "service_functions IAllSystemAppletProxiesService env = IAllSystemAppletProxiesService_functions env"
| "service_functions IApplicationFunctions env = IApplicationFunctions_functions env"
| "service_functions IApplicationProxy env = IApplicationProxy_functions env"
| "service_functions IApplicationProxyService env = IApplicationProxyService_functions env"
| "service_functions IAudioController env = IAudioController_functions env"
| "service_functions ICommonStateGetter env = ICommonStateGetter_functions env"
| "service_functions IDebugFunctions env = IDebugFunctions_functions env"
| "service_functions IDisplayController env = IDisplayController_functions env"
| "service_functions ILibraryAppletCreator env = ILibraryAppletCreator_functions env"
| "service_functions ILibraryAppletProxy env = ILibraryAppletProxy_functions env"
| "service_functions IProcessWindingController env = IProcessWindingController_functions env"
| "service_functions ISelfController env = ISelfController_functions env"
| "service_functions am_IStorage env = am_IStorage_functions env"
| "service_functions IStorageAccessor env = IStorageAccessor_functions env"
| "service_functions IWindowController env = IWindowController_functions env"
| "service_functions IAddOnContentManager env = IAddOnContentManager_functions env"
| "service_functions IManager env = IManager_functions env"
| "service_functions ISession env = ISession_functions env"
| "service_functions IFileSystemProxy env = IFileSystemProxy_functions env"
| "service_functions fssrv_IStorage env = fssrv_IStorage_functions env"
| "service_functions IAppletResource env = IAppletResource_functions env"
| "service_functions IHidServer env = IHidServer_functions env"
| "service_functions ILogService env = ILogService_functions env"
| "service_functions ILogger env = ILogger_functions env"
| "service_functions IGeneralService env = IGeneralService_functions env"
| "service_functions nifm_IStaticService env = nifm_IStaticService_functions env"
| "service_functions IParentalControlServiceFactory env = IParentalControlServiceFactory_functions env"
| "service_functions ISettingsServer env = ISettingsServer_functions env"
| "service_functions timesrv_IStaticService env = timesrv_IStaticService_functions env"
| "service_functions ISteadyClock env = ISteadyClock_functions env"
| "service_functions ISystemClock env = ISystemClock_functions env"
| "service_functions ITimeZoneService env = ITimeZoneService_functions env"
| "service_functions IApplicationDisplayService env = IApplicationDisplayService_functions env"
| "service_functions IApplicationRootService env = IApplicationRootService_functions env"
| "service_functions IManagerDisplayService env = IManagerDisplayService_functions env"
| "service_functions IManagerRootService env = IManagerRootService_functions env"
| "service_functions ISystemDisplayService env = ISystemDisplayService_functions env"
| "service_functions ISystemRootService env = ISystemRootService_functions env"
| "service_functions IHOSBinderDriver env = IHOSBinderDriver_functions env"
| "service_functions INvDrvServices env = INvDrvServices_functions env"

subsection \<open>Registration\<close>

definition registerService :: "string \<Rightarrow> Interface \<Rightarrow> ServiceState \<Rightarrow> ServiceState" where
  "registerService name interface st = st\<lparr>gRegisteredServices := (gRegisteredServices st)(name \<mapsto> interface)\<rparr>"

text \<open>The names under which the constructors register, in the order in which \<^verbatim>\<open>service::init\<close> makes the objects.\<close>

definition service_names :: "(string \<times> Interface) list" where
  "service_names =
     [(''apm'', IManager), (''appletOE'', IApplicationProxyService), (''appletAE'', IAllSystemAppletProxiesService),
      (''aoc:u'', IAddOnContentManager), (''acc:u0'', IAccountServiceForApplication), (''pctl'', IParentalControlServiceFactory),
      (''pctl:a'', IParentalControlServiceFactory), (''pctl:s'', IParentalControlServiceFactory), (''pctl:r'', IParentalControlServiceFactory),
      (''lm'', ILogService), (''set'', ISettingsServer), (''time:u'', timesrv_IStaticService), (''fsp-srv'', IFileSystemProxy),
      (''hid'', IHidServer), (''nvdrv'', INvDrvServices), (''nvdrv:a'', INvDrvServices), (''nvdrv:s'', INvDrvServices),
      (''nvdrv:t'', INvDrvServices), (''vi:m'', IManagerRootService), (''vi:s'', ISystemRootService), (''vi:u'', IApplicationRootService),
      (''nifm:u'', nifm_IStaticService), (''nifm:a'', nifm_IStaticService), (''nifm:s'', nifm_IStaticService)]"

definition service_init :: "ServiceState \<Rightarrow> ServiceState" where
  "service_init st = fold (\<lambda>(name, interface). registerService name interface) service_names st"

text \<open>The named ports: \<^verbatim>\<open>SmService\<close> is the only class that adds one.\<close>

definition named_ports :: "(string \<times> Interface) list" where
  "named_ports = [(''sm:'', SmService)]"

text \<open>The environment of the supervisor calls in the program: the tables above at the ports.\<close>

definition service_environment :: "ServiceEnv \<Rightarrow> u64 \<Rightarrow> PSTATE_t \<Rightarrow> (Kernel \<Rightarrow> fault + Kernel) \<Rightarrow> Environment" where
  "service_environment env time flags debugger =
     \<lparr>now = time, raw_flags = flags, interfaces = (\<lambda>i. service_functions i env), gNamedPorts = named_ports, debugBreakHandler = debugger\<rparr>"

end
