(* ===== verification/Loader_Ends.thy ===== *)
theory Loader_Ends
  imports Loader
begin

text \<open>
  The loader's calls into guest memory return: the mappings of a module are made of 32-bit sizes and the bytes it copies come from a file
  of less than 4 GiB, so that no 32-bit counter of \<^verbatim>\<open>mem.cpp\<close> wraps. A load never ends in \<open>NeverReturns\<close>.
\<close>

named_theorems ends_rules \<open>operations that never end in \<open>NeverReturns\<close>\<close>

definition ends :: "fault + 'a \<Rightarrow> bool" where
  "ends r \<longleftrightarrow> r \<noteq> Inl NeverReturns"

lemma ends_simps [simp]: "ends (Inr a)" "ends (Inl e) \<longleftrightarrow> e \<noteq> NeverReturns"
  by (simp_all add: ends_def)

lemma ends_then [ends_rules]: "ends r \<Longrightarrow> (\<And>a. r = Inr a \<Longrightarrow> ends (f a)) \<Longrightarrow> ends (and_then r f)"
  by (cases r) simp_all

lemma ends_prod [ends_rules]: "(\<And>a b. p = (a, b) \<Longrightarrow> ends (f a b)) \<Longrightarrow> ends (case p of (a, b) \<Rightarrow> f a b)"
  by (cases p) simp

subsection \<open>Guest memory\<close>

lemma translate_ends [ends_rules]: "ends (translate a m)"
  by (simp add: translate_def Let_def)

lemma mem_write_ends [ends_rules]: "ends (mem_write sz a d mc)"
  by (auto simp: mem_write_def Let_def intro!: ends_rules)

lemma kwrite_ends [ends_rules]: "ends (kwrite sz a v k)"
  by (auto simp: kwrite_def intro!: ends_rules)

lemma writeRegion_from_ends: "ends (writeRegion_from addr data i mc)"
proof (induction addr data i mc rule: writeRegion_from.induct)
  case (1 addr data i mc)
  then show ?case by (subst writeRegion_from.simps) (auto intro!: ends_rules)
qed

lemma kwriteRegion_ends: "length data < 2 ^ 32 \<Longrightarrow> ends (kwriteRegion addr data k)"
  by (auto simp: kwriteRegion_def writeRegion_eq intro!: ends_rules writeRegion_from_ends)

lemma addMapping_loop_ends [ends_rules]: "ends (addMapping_loop b e seen ms)"
proof (induction "length ms" arbitrary: seen ms rule: less_induct)
  case less
  show ?case
  proof (cases ms)
    case (Cons m rest)
    then have "ends (addMapping_loop b e x rest)" "rest = y # ys \<Longrightarrow> ends (addMapping_loop b e x ys)" for x y ys
      using less by simp_all
    then show ?thesis unfolding Cons by (subst addMapping_loop.simps) (auto simp: Let_def split: list.split)
  qed simp
qed

lemma map_region_ends:
  assumes "n < 2 ^ 44"
  shows "ends (map_region a n ty pm k)"
proof -
  have "n div PAGE_SIZE < 2 ^ 32" using assms by (simp add: page_consts word_less_nat_alt unat_div)
  then have "ends (protectRegion p (n div PAGE_SIZE) pm m)" "ends (allocateRegion p q m)" for p q m
    using allocateRegion_returns by (simp_all add: protectRegion_cases ends_def)
  then show ?thesis
    by (auto simp: map_region_def addMapping_def back_mapping_def Let_def intro!: ends_rules)
qed

lemma map_module_ends [ends_rules]: "ends (map_module h base k)"
proof -
  have w: "unat (ucast (w :: u32) :: u64) < 2 ^ 32" for w
    using counter_below [of "2 ^ 32" w] by (simp add: word_less_nat_alt)
  then have "(ucast (w :: u32) :: u64) < 2 ^ 44" for w
    unfolding word_less_nat_alt by (rule less_trans) simp
  moreover have "page_up (ucast (w :: u32) :: u64) < 2 ^ 44" for w
  proof -
    let ?w = "ucast w :: u64"
    have "unat (page_up ?w) \<le> unat ?w + unat (0x1000 - ?w mod 0x1000)"
      by (simp add: page_up_def unat_word_ariths)
    moreover have "unat (0x1000 - ?w mod 0x1000) \<le> 0x1000" by (simp add: unat_sub_if' unat_mod)
    ultimately have "unat (page_up ?w) < 2 ^ 44" using w [of w] by simp
    then show ?thesis by (simp add: word_less_nat_alt)
  qed
  ultimately show ?thesis
    by (auto simp: map_module_def Let_def intro!: ends_rules map_region_ends)
qed

subsection \<open>ELF files\<close>

lemma buf_bytes_ends [ends_rules]: "ends (buf_bytes n buffer off)"
  by (simp add: buf_bytes_def)

lemma buf_bytes_length: "buf_bytes n buffer off = Inr bs \<Longrightarrow> length bs \<le> length buffer"
  by (auto simp: buf_bytes_def split: if_splits)

lemma c_string_ends [ends_rules]: "ends (c_string buffer off)"
  by (simp add: c_string_def Let_def)

lemma section_at_ends [ends_rules]: "ends (section_at i p)"
  by (simp add: section_at_def)

lemma cursor_read_ends [ends_rules]: "ends (cursor_read sz buffer pos)"
  by (auto simp: cursor_read_def intro!: ends_rules)

lemma read_fields_ends [ends_rules]: "ends (read_fields szs buffer pos)"
  by (induction szs buffer pos rule: read_fields.induct) (auto intro!: ends_rules)

lemma traverse_ends [ends_rules]: "(\<And>x. x \<in> set xs \<Longrightarrow> ends (f x)) \<Longrightarrow> ends (traverse f xs)"
  by (induction xs) (auto intro!: ends_rules)

lemma read_symbols_ends [ends_rules]: "ends (read_symbols n buffer strings pos)"
  by (induction n arbitrary: pos) (auto simp: readSymbolHeader_def intro!: ends_rules)

lemma load_sections_ends [ends_rules]: "ends (readSections buffer p)" "ends (loadSections p)"
  by (auto simp: readSections_def readSection_def readSectionHeader_def loadSections_def Let_def intro!: ends_rules)

lemma load_symbols_ends [ends_rules]: "ends (loadSymbols buffer p)" "ends (loadDynSymbols buffer p)"
  by (auto simp: loadSymbols_def loadDynSymbols_def intro!: ends_rules split: option.split)

lemma program_header_loop_ends: "length buffer < 2 ^ 32 \<Longrightarrow> ends (program_header_loop n i buffer p k)"
  by (induction n arbitrary: i k)
    (auto simp: readProgramHeader_def dest!: buf_bytes_length intro!: ends_rules kwriteRegion_ends)

lemma rela_loop_ends [ends_rules]: "ends (rela_loop n buffer pos p k)"
  by (induction n arbitrary: pos k) (auto simp: readRela_def apply_rela_def Let_def intro!: ends_rules)

lemma relocate_sections_ends [ends_rules]: "ends (relocate_sections ss buffer p k)"
  by (induction ss arbitrary: k) (auto intro!: ends_rules)

lemma loadElf_ends: "length buffer < 2 ^ 32 \<Longrightarrow> ends (loadElf buffer s)"
  by (cases s)
    (auto simp: loadElf_def readElfHeader_def readProgramHeaders_def loadRelocations_def Let_def intro!: ends_rules program_header_loop_ends)

subsection \<open>NSO modules\<close>

lemma decompress_segments_ends [ends_rules]: "ends (decompress_segments env buffer ss img)"
  by (induction ss arbitrary: img) (auto simp: Let_def intro!: ends_rules split: prod.split)

lemma dyn_loop_ends [ends_rules]: "ends (dyn_loop img off acc)"
proof (induction img off acc rule: dyn_loop.induct)
  case (1 img off acc)
  then show ?case by (subst dyn_loop.simps) (auto simp: Let_def)
qed

lemma symbol_loop_ends [ends_rules]: "ends (symbol_loop n img off mo L)"
  by (induction n arbitrary: off L) (auto simp: Let_def intro!: ends_rules)

lemma overwrite_length: "off + length bs \<le> length img \<Longrightarrow> length (overwrite off bs img) = length img"
  by (simp add: overwrite_def)

lemma decompress_segments_length:
  "decompress_segments env buffer ss img = Inr (ok, img') \<Longrightarrow> length img' = length img"
proof (induction ss arbitrary: img)
  case (Cons p ss)
  obtain sh n where p: "p = (sh, n)" by (cases p)
  from Cons.prems obtain src where "buf_bytes (unat n) buffer (ucast (dataOffset sh)) = Inr src"
    by (auto simp: p and_then_Inr_iff)
  moreover obtain good out where "decompress env src n (seg_size sh) = (good, out)" by fastforce
  ultimately show ?case
    using Cons.prems Cons.IH [of "overwrite (unat (memoryOffset sh)) out img"]
    by (auto simp: p overwrite_length split: if_splits)
qed simp

lemma place_nso_ends [ends_rules]: "ends (place_nso env buffer s)"
proof -
  have "length img < 2 ^ 32" if "decompress_segments env buffer ss (replicate (nso_image_size h) 0) = Inr (ok, img)" for ss h ok img
    using decompress_segments_length [OF that] counter_range by (simp add: nso_image_size_def Let_def)
  then show ?thesis
    by (cases s) (auto simp: place_nso_def mod_offset_def load_mod_symbols_def Let_def
        intro!: ends_rules kwriteRegion_ends split: prod.split)
qed

subsection \<open>Files and libraries\<close>

definition load_ends :: "(fault + 'a) option \<Rightarrow> bool" where
  "load_ends r \<longleftrightarrow> r \<noteq> Some (Inl NeverReturns)"

lemma load_then_ends: "load_ends r \<Longrightarrow> (\<And>a. load_ends (f a)) \<Longrightarrow> load_ends (load_then r f)"
  by (cases r) (auto simp: load_then_def load_ends_def split: sum.splits)

lemma load_libraries_ends:
  "(\<And>path s. load_ends (exe path s)) \<Longrightarrow> load_ends (load_libraries exe img strs i n names s)"
proof (induction names arbitrary: i s)
  case (Cons name names)
  have "ends (c_string img (strs + name))" by (rule ends_rules)
  moreover have "load_ends (load_then (exe (workingPath (fst s) @ library_name i n) s)
      (\<lambda>(_, s). load_libraries exe img strs (Suc i) n names s))"
    using Cons by (intro load_then_ends) auto
  ultimately show ?case by (auto simp: load_ends_def ends_def split: sum.split)
qed (simp add: load_ends_def)

lemma loadNso_ends:
  assumes "\<And>path s. load_ends (exe path s)"
  shows "load_ends (loadNso exe env buffer s)"
proof -
  have "ends (place_nso env buffer s)" by (rule ends_rules)
  then show ?thesis
    by (auto simp: loadNso_def ends_def split: sum.split option.split intro!: load_then_ends load_libraries_ends assms)
      (auto simp: load_ends_def)
qed

lemma readFile_length: "readFile env path = Some buffer \<Longrightarrow> length buffer < 2 ^ 32"
  by (auto simp: readFile_def)

lemma loadExe_ends: "load_ends (loadExe env path s)"
proof -
  have "y \<noteq> Inl NeverReturns" if "loadExe env path s = Some y" for y
    using that
  proof (rule loadExe.raw_induct [rotated], goal_cases)
    case (1 exe env path s y)
    have "load_ends (loadNso (\<lambda>path s. exe env path s) env buffer s)" for buffer
      using 1(1) [of env] by (intro loadNso_ends) (force simp: load_ends_def)
    moreover have "ends (loadElf buffer s)" if "readFile env path = Some buffer" for buffer
      using readFile_length [OF that] by (rule loadElf_ends)
    moreover have "ends (getFileType buffer)" for buffer
      by (auto simp: getFileType_def intro!: ends_rules)
    ultimately show ?case
      using 1(2) by (auto simp: load_ends_def ends_def split: option.splits sum.splits if_splits)
  qed
  then show ?thesis by (auto simp: load_ends_def)
qed

lemma loadGame_ends: "load_ends (loadGame env s)"
  unfolding loadGame_def
proof (intro load_then_ends loadExe_ends)
  fix r :: "bool \<times> LState"
  show "load_ends ((\<lambda>(_, s). load_then (loadExe env (workingPath (fst s) @ ''main'') s) (\<lambda>(ok, L, k).
       if \<not> ok then Some (Inr (False, L, k))
       else Some (Inr (True, L\<lparr>prog := (prog L)\<lparr>eh := (eh (prog L))\<lparr>e_entry := 0x8000000\<rparr>\<rparr>\<rparr>, k)))) r)"
    by (cases r) (simp, intro load_then_ends loadExe_ends, simp add: load_ends_def split: prod.split)
qed

end
