(* ===== verification/Loader_Laws.thy ===== *)
theory Loader_Laws
  imports Loader_Ends
begin

text \<open>
  What the loader guarantees: modules take consecutive, disjoint ranges of whole slots, each longer than its image, the image of a module is in guest memory at its
  base and stays there, loading disturbs no other mapped byte, the symbol map stays ordered so that the nearest symbol below an address is
  found, and a game whose libraries need no libraries is loaded in finitely many steps.
\<close>

lemma loadElf_frame:
  assumes "loadElf buffer (L, k) = Inr (ok, L', k')"
  shows "\<exists>p. L' = L\<lparr>prog := p\<rparr>"
  using assms by (auto simp: loadElf_def and_then_Inr_iff Let_def split: if_splits prod.splits)

definition sorted_map :: "SymbolMap \<Rightarrow> bool" where
  "sorted_map m \<longleftrightarrow> sorted_wrt (>) (map fst m)"

lemma map_assign_keys: "fst ` set (map_assign a s m) = insert a (fst ` set m)"
  by (induction a s m rule: map_assign.induct) auto

lemma map_assign_sorted: "sorted_map m \<Longrightarrow> sorted_map (map_assign a s m)"
proof (induction a s m rule: map_assign.induct)
  case (2 a s b t m)
  have "\<forall>x\<in>fst ` set m. x < b" using 2(2) by (auto simp: sorted_map_def)
  then show ?case
    using 2 map_assign_keys [of a s m] by (fastforce simp: sorted_map_def)
qed (simp add: sorted_map_def)

lemma map_of_map_assign: "sorted_map m \<Longrightarrow> map_of (map_assign a s m) = (map_of m)(a \<mapsto> s)"
proof (induction a s m rule: map_assign.induct)
  case (2 a s b t m)
  then show ?case by (auto simp: sorted_map_def fun_eq_iff)
qed (simp add: fun_eq_iff)

text \<open>Adding symbols changes only the two collections of symbols and keeps the order of the map.\<close>

definition symbols_only :: "Loader \<Rightarrow> Loader \<Rightarrow> bool" where
  "symbols_only L L' \<longleftrightarrow> L' = L\<lparr>loadedSymbols := loadedSymbols L', symbolLookupMap := symbolLookupMap L'\<rparr> \<and>
     (sorted_map (symbolLookupMap L) \<longrightarrow> sorted_map (symbolLookupMap L'))"

lemma symbols_only_refl [simp]: "symbols_only L L"
  by (simp add: symbols_only_def)

lemma symbols_only_trans: "symbols_only L L' \<Longrightarrow> symbols_only L' L'' \<Longrightarrow> symbols_only L L''"
  by (cases L; cases L'; cases L'') (auto simp: symbols_only_def)

lemma add_symbol_only: "symbols_only L (add_symbol base symbol L)"
  by (simp add: symbols_only_def add_symbol_def Let_def map_assign_sorted)

lemma symbol_loop_only: "symbol_loop n img off mo L = Inr L' \<Longrightarrow> symbols_only L L'"
proof (induction n arbitrary: off L)
  case (Suc n)
  from Suc.prems obtain symbol where "symbol_loop n img (off + 24) mo (add_symbol (module_base mo) symbol L) = Inr L'"
    by (auto simp: and_then_Inr_iff Let_def)
  from symbols_only_trans [OF add_symbol_only Suc.IH [OF this]] show ?case .
qed simp

lemma load_mod_symbols_only: "load_mod_symbols img mo L = Inr L' \<Longrightarrow> symbols_only L L'"
  by (auto simp: load_mod_symbols_def symbol_loop_only split: if_splits)

lemma dyn_entry_base: "module_base (fst (dyn_entry tag val acc)) = module_base (fst acc)"
  by (cases acc) (simp add: dyn_entry_def)

lemma dyn_loop_base: "dyn_loop img off acc = Inr acc' \<Longrightarrow> module_base (fst acc') = module_base (fst acc)"
proof (induction img off acc rule: dyn_loop.induct)
  case (1 img off acc)
  from 1(2) 1(1) [OF _ refl refl] dyn_entry_base show ?case
    by (subst (asm) dyn_loop.simps) (auto simp: Let_def split: if_splits)
qed

text \<open>What a module load does to the loader and the kernel.\<close>

definition nso_segments :: "u8 list \<Rightarrow> (NsoSegmentHeader \<times> u32) list" where
  "nso_segments buffer = (let h = nso_header (take 0x100 buffer) in zip (segmentHeaders h) (segmentSizes h))"

definition nso_image :: "LoaderEnv \<Rightarrow> u8 list \<Rightarrow> fault + bool \<times> u8 list" where
  "nso_image env buffer =
     decompress_segments env buffer (nso_segments buffer) (replicate (nso_image_size (nso_header (take 0x100 buffer))) 0)"

lemma place_nso_effect:
  assumes "place_nso env buffer (L, k) = Inr (r, L', k')"
  shows "r = None \<and> L' = L \<and> k' = k \<or>
    (\<exists>img mo needed header k1.
       r = Some (img, mo, needed) \<and> length img < 2 ^ 32 \<and> nso_image env buffer = Inr (True, img) \<and> module_base mo = nextFreeAddress L \<and>
       symbols_only (snd (add_module (length img) (L\<lparr>out_bin := img\<rparr>))) L' \<and>
       map_module header (nextFreeAddress L) k = Inr k1 \<and> kwriteRegion (nextFreeAddress L) img k1 = Inr k')"
proof -
  from assms obtain bs ok img where b: "buf_bytes 0x100 buffer 0 = Inr bs"
    "decompress_segments env buffer (zip (segmentHeaders (nso_header bs)) (segmentSizes (nso_header bs)))
       (replicate (nso_image_size (nso_header bs)) 0) = Inr (ok, img)"
    by (auto simp: place_nso_def and_then_Inr_iff Let_def)
  have image: "nso_image env buffer = Inr (ok, img)"
    using b by (auto simp: nso_image_def nso_segments_def buf_bytes_def Let_def split: if_splits)
  have len: "length img < 2 ^ 32"
    using decompress_segments_length [OF b(2)] counter_range by (simp add: nso_image_size_def Let_def)
  show ?thesis
  proof (cases ok)
    case False
    with assms b show ?thesis by (simp add: place_nso_def Let_def)
  next
    case True
    obtain mo0 L1 where m: "add_module (length img) (L\<lparr>out_bin := img\<rparr>) = (mo0, L1)" by fastforce
    then have mo0: "module_base mo0 = nextFreeAddress L" by (auto simp: add_module_def Let_def)
    from True assms b m obtain off mbs k1 where c: "mod_offset img = Inr off" "buf_bytes 0x1C img (ucast off) = Inr mbs"
      "map_module (nso_header bs) (nextFreeAddress L) k = Inr k1" "kwriteRegion (nextFreeAddress L) img k1 = Inr k'"
      "if mod_magic (mod_header mbs) = 0x30444F4D
       then and_then (dyn_loop img (unat (mod_dynamic (mod_header mbs) + off)) (mo0, [])) (\<lambda>(modObj, needed).
         and_then (load_mod_symbols img modObj L1) (\<lambda>L. Inr (Some (img, modObj, needed), L, k'))) = Inr (r, L', k')
       else r = Some (img, mo0, []) \<and> L' = L1"
      by (auto simp: place_nso_def and_then_Inr_iff Let_def mo0 split: if_splits)
    obtain mo needed where d: "r = Some (img, mo, needed)" "module_base mo = nextFreeAddress L" "symbols_only L1 L'"
    proof (cases "mod_magic (mod_header mbs) = 0x30444F4D")
      case True
      with c(5) obtain mo needed where e: "dyn_loop img (unat (mod_dynamic (mod_header mbs) + off)) (mo0, []) = Inr (mo, needed)"
        "load_mod_symbols img mo L1 = Inr L'" "r = Some (img, mo, needed)"
        by (auto simp: and_then_Inr_iff)
      with that dyn_loop_base [OF e(1)] mo0 load_mod_symbols_only show thesis by auto
    next
      case False
      with c(5) that [of mo0 "[]"] mo0 show thesis by simp
    qed
    show ?thesis using d c(3,4) len m image True by auto
  qed
qed

subsection \<open>What holds across loads\<close>

text \<open>
  A relation between the states before and after that every file keeps, keeps every load with its libraries. The libraries
  make \<open>loadExe\<close> call itself: the proof is the induction over its approximations.
\<close>

locale load_relation =
  fixes env :: LoaderEnv and R :: "LState \<Rightarrow> LState \<Rightarrow> bool"
  assumes refl: "R s s"
    and trans: "R s s' \<Longrightarrow> R s' s'' \<Longrightarrow> R s s''"
    and elf: "readFile env path = Some buffer \<Longrightarrow> getFileType buffer = Inr 0 \<Longrightarrow> loadElf buffer s = Inr (ok, s') \<Longrightarrow> R s s'"
    and nso: "readFile env path = Some buffer \<Longrightarrow> place_nso env buffer s = Inr (r, s') \<Longrightarrow> R s s'"
    and entry: "R (L, k) (L\<lparr>prog := p\<rparr>, k)"
begin

lemma load_libraries_keeps:
  assumes "load_libraries exe img strs i n names s = Some (Inr s')"
    and exe: "\<And>path s ok s'. exe path s = Some (Inr (ok, s')) \<Longrightarrow> R s s'"
  shows "R s s'"
  using assms(1)
proof (induction names arbitrary: i s)
  case (Cons name names)
  from Cons.prems obtain ok s1 where "exe (workingPath (fst s) @ library_name i n) s = Some (Inr (ok, s1))"
    "load_libraries exe img strs (Suc i) n names s1 = Some (Inr s')"
    by (auto simp: load_then_eq_Some split: sum.split_asm)
  then show ?case using exe trans Cons.IH by blast
qed (simp add: refl)

lemma loadNso_keeps:
  assumes "\<And>path s ok s'. exe path s = Some (Inr (ok, s')) \<Longrightarrow> R s s'" and "readFile env path = Some buffer"
    and "loadNso exe env buffer s = Some (Inr (ok, s'))"
  shows "R s s'"
proof -
  obtain r s1 where r: "place_nso env buffer s = Inr (r, s1)" using assms(3) by (auto simp: loadNso_def split: sum.split_asm)
  then have "R s1 s'"
    using assms(3) by (auto simp: loadNso_def refl load_then_eq_Some and_then_Inr_iff split: option.split_asm
        intro: load_libraries_keeps assms(1))
  with nso [OF assms(2) r] trans show ?thesis by blast
qed

lemma loadExe_keeps: "loadExe env path s = Some (Inr (ok, s')) \<Longrightarrow> R s s'"
proof -
  have "env' = env \<longrightarrow> (\<forall>ok s'. y = Inr (ok, s') \<longrightarrow> R s s')" if "loadExe env' path s = Some y" for env' y
  proof (rule loadExe.raw_induct [OF _ that], intro allI impI)
    fix exe :: "LoaderEnv \<Rightarrow> string \<Rightarrow> LState \<Rightarrow> (fault + bool \<times> LState) option" and env' path s y ok s'
    assume IH: "\<And>env' path s y. exe env' path s = Some y \<Longrightarrow> env' = env \<longrightarrow> (\<forall>ok s'. y = Inr (ok, s') \<longrightarrow> R s s')"
      and "(case readFile env' path of None \<Rightarrow> Some (Inr (False, s))
        | Some buffer \<Rightarrow> if length buffer = 0 then Some (Inr (False, s))
            else (case getFileType buffer of Inl e \<Rightarrow> Some (Inl e)
              | Inr t \<Rightarrow> if t = 0 then Some (loadElf buffer s)
                  else if t = 1 then loadNso (\<lambda>path s. exe env' path s) env' buffer s
                  else Some (Inr (False, s)))) = Some y" and "env' = env" and "y = Inr (ok, s')"
    then show "R s s'"
      by (auto simp: refl split: option.splits sum.splits if_splits intro: elf loadNso_keeps [of "exe env"])
  qed
  then show "loadExe env path s = Some (Inr (ok, s')) \<Longrightarrow> R s s'" by blast
qed

lemma loadGame_keeps:
  assumes "loadGame env s = Some (Inr (ok, s'))"
  shows "R s s'"
proof -
  obtain ok1 s1 ok2 L k where l: "loadExe env (workingPath (fst s) @ ''rtld'') s = Some (Inr (ok1, s1))"
    "loadExe env (workingPath (fst s1) @ ''main'') s1 = Some (Inr (ok2, L, k))"
    and e: "s' = (L, k) \<or> s' = (L\<lparr>prog := (prog L)\<lparr>eh := (eh (prog L))\<lparr>e_entry := 0x8000000\<rparr>\<rparr>\<rparr>, k)"
    using assms by (auto simp: loadGame_def load_then_eq_Some split: if_splits)
  from e have "R (L, k) s'" using refl entry by auto
  with l show ?thesis using loadExe_keeps trans by blast
qed

end

subsection \<open>Module slots\<close>

text \<open>Consecutive address ranges of whole slots of 0x8000000 bytes, from \<open>a\<close> to \<open>e\<close>.\<close>

fun slots :: "u64 \<Rightarrow> (u64 \<times> u64) list \<Rightarrow> u64 \<Rightarrow> bool" where
  "slots a [] e \<longleftrightarrow> e = a"
| "slots a ((b, n) # xs) e \<longleftrightarrow> b = a \<and> 0 < n \<and> unat n \<le> 2 ^ 32 \<and> 2 ^ 27 dvd unat n \<and> slots (a + n) xs e"

lemma slots_append: "slots a (xs @ ys) e \<longleftrightarrow> (\<exists>c. slots a xs c \<and> slots c ys e)"
  by (induction a xs e rule: slots.induct) auto

lemma next_module_slot:
  assumes a: "2 ^ 27 dvd unat a" and n: "n < 2 ^ 32"
  shows "next_module a n - a = of_nat (2 ^ 27 * (n div 2 ^ 27 + 1))"
proof -
  have "unat (a + of_nat n) mod 2 ^ 27 = n mod 2 ^ 27"
  proof -
    have "unat (a + of_nat n) mod 2 ^ 27 = (unat a + n) mod 2 ^ 64 mod 2 ^ 27"
      using n by (simp add: unat_word_ariths unat_of_nat)
    also have "\<dots> = (unat a + n) mod 2 ^ 27" by (rule mod_mod_cancel) (simp add: le_imp_power_dvd)
    also have "\<dots> = n mod 2 ^ 27" using a by (metis mod_add_left_eq mod_0_imp_dvd dvd_imp_mod_0 add_0)
    finally show ?thesis .
  qed
  then have "unat ((a + of_nat n) mod 0x8000000) = n mod 2 ^ 27" by (simp add: unat_mod)
  then have m: "(a + of_nat n) mod 0x8000000 = of_nat (n mod 2 ^ 27)"
    by (metis of_nat_unat ucast_id)
  have "(of_nat n :: u64) = of_nat (2 ^ 27 * (n div 2 ^ 27)) + of_nat (n mod 2 ^ 27)"
    unfolding of_nat_add [symmetric] by simp
  then show ?thesis unfolding next_module_def Let_def m by (simp add: algebra_simps)
qed

lemma next_module_slots:
  assumes "2 ^ 27 dvd unat a" and "n < 2 ^ 32"
  shows "slots a [(a, next_module a n - a)] (next_module a n)" and "n < unat (next_module a n - a)"
proof -
  let ?s = "2 ^ 27 * (n div 2 ^ 27 + 1)"
  have "n div 2 ^ 27 < 2 ^ 5" using assms(2) by simp
  then have s: "?s \<le> 2 ^ 32" by simp
  then have "?s < 2 ^ 64" by (rule le_less_trans) simp
  then have u: "unat (next_module a n - a) = ?s" unfolding next_module_slot [OF assms] unat_of_nat by simp
  then have "0 < next_module a n - a" by (simp add: word_less_nat_alt)
  then show "slots a [(a, next_module a n - a)] (next_module a n)" using u s by simp
  show "n < unat (next_module a n - a)"
    unfolding u using dividend_less_times_div [of "2 ^ 27" n] by simp
qed

lemma slots_bounds:
  assumes "slots a xs e" and "unat a + length xs * 2 ^ 32 < 2 ^ 64" and "2 ^ 27 dvd unat a"
  shows "unat a \<le> unat e" "2 ^ 27 dvd unat e"
    "i < length xs \<Longrightarrow> unat a \<le> unat (fst (xs ! i)) \<and> 2 ^ 27 dvd unat (fst (xs ! i)) \<and> 0 < unat (snd (xs ! i)) \<and>
       unat (fst (xs ! i)) + unat (snd (xs ! i)) \<le> unat e"
    "i < j \<Longrightarrow> j < length xs \<Longrightarrow> unat (fst (xs ! i)) + unat (snd (xs ! i)) \<le> unat (fst (xs ! j))"
proof -
  have "unat a \<le> unat e \<and> 2 ^ 27 dvd unat e \<and> (\<forall>i<length xs. unat a \<le> unat (fst (xs ! i)) \<and> 2 ^ 27 dvd unat (fst (xs ! i)) \<and>
      0 < unat (snd (xs ! i)) \<and> unat (fst (xs ! i)) + unat (snd (xs ! i)) \<le> unat e) \<and>
    (\<forall>i j. i < j \<longrightarrow> j < length xs \<longrightarrow> unat (fst (xs ! i)) + unat (snd (xs ! i)) \<le> unat (fst (xs ! j)))"
    using assms
  proof (induction a xs e rule: slots.induct)
    case (2 a b n xs e)
    from 2(2) have n: "b = a" "0 < n" "unat n \<le> 2 ^ 32" "2 ^ 27 dvd unat n" "slots (a + n) xs e" by simp_all
    have u: "unat (a + n) = unat a + unat n" using 2(3) n(3) by (simp add: unat_word_ariths)
    have "unat (a + n) + length xs * 2 ^ 32 < 2 ^ 64" using 2(3) n(3) by (simp add: u)
    moreover have "2 ^ 27 dvd unat (a + n)" unfolding u using 2(4) n(4) by (rule dvd_add)
    ultimately have IH: "unat (a + n) \<le> unat e" "2 ^ 27 dvd unat e"
      "\<And>i. i < length xs \<Longrightarrow> unat (a + n) \<le> unat (fst (xs ! i)) \<and> 2 ^ 27 dvd unat (fst (xs ! i)) \<and>
        0 < unat (snd (xs ! i)) \<and> unat (fst (xs ! i)) + unat (snd (xs ! i)) \<le> unat e"
      "\<And>i j. i < j \<Longrightarrow> j < length xs \<Longrightarrow> unat (fst (xs ! i)) + unat (snd (xs ! i)) \<le> unat (fst (xs ! j))"
      using 2(1) [OF n(5)] by blast+
    have n0: "0 < unat n" using n(2) by (simp add: word_less_nat_alt)
    show ?case
    proof (intro conjI allI impI)
      show "unat a \<le> unat e" "2 ^ 27 dvd unat e" using IH u by simp_all
    next
      fix i assume i: "i < length ((b, n) # xs)"
      show "unat a \<le> unat (fst (((b, n) # xs) ! i))" "2 ^ 27 dvd unat (fst (((b, n) # xs) ! i))" "0 < unat (snd (((b, n) # xs) ! i))"
        "unat (fst (((b, n) # xs) ! i)) + unat (snd (((b, n) # xs) ! i)) \<le> unat e"
        using i n(1) n0 2(4) IH(1) IH(3) [of "i - 1"] u by (cases i; simp)+
    next
      fix i j assume "i < j" "j < length ((b, n) # xs)"
      then show "unat (fst (((b, n) # xs) ! i)) + unat (snd (((b, n) # xs) ! i)) \<le> unat (fst (((b, n) # xs) ! j))"
        using n(1) IH(3) [of "j - 1"] IH(4) [of "i - 1" "j - 1"] u by (cases i; cases j; simp)
    qed
  qed simp
  then show "unat a \<le> unat e" "2 ^ 27 dvd unat e"
    "i < length xs \<Longrightarrow> unat a \<le> unat (fst (xs ! i)) \<and> 2 ^ 27 dvd unat (fst (xs ! i)) \<and> 0 < unat (snd (xs ! i)) \<and>
       unat (fst (xs ! i)) + unat (snd (xs ! i)) \<le> unat e"
    "i < j \<Longrightarrow> j < length xs \<Longrightarrow> unat (fst (xs ! i)) + unat (snd (xs ! i)) \<le> unat (fst (xs ! j))"
    by blast+
qed

lemma slots_aligned: "slots a xs e \<Longrightarrow> 2 ^ 27 dvd unat a \<Longrightarrow> 2 ^ 27 dvd unat e"
proof (induction a xs e rule: slots.induct)
  case (2 a b n xs e)
  have "(2 :: nat) ^ 27 dvd (unat a + unat n) mod 2 ^ 64"
    using 2 by (simp add: dvd_mod le_imp_power_dvd)
  then have "2 ^ 27 dvd unat (a + n)" by (simp add: unat_word_ariths)
  then show ?case using 2 by simp
qed simp

definition symbols_ordered :: "LState \<Rightarrow> LState \<Rightarrow> bool" where
  "symbols_ordered = (\<lambda>(L, _) (L', _). sorted_map (symbolLookupMap L) \<longrightarrow> sorted_map (symbolLookupMap L'))"

interpretation symbol_order: load_relation env symbols_ordered for env
proof
  fix buffer s r s'
  assume "place_nso env buffer s = Inr (r, s')"
  moreover obtain L k L' k' where s: "s = (L, k)" "s' = (L', k')" by (cases s; cases s')
  ultimately have "symbolLookupMap L' = symbolLookupMap L \<or> (\<exists>n img. symbols_only (snd (add_module n (L\<lparr>out_bin := img\<rparr>))) L')"
    by (auto dest!: place_nso_effect)
  then show "symbols_ordered s s'"
    by (auto simp: s symbols_ordered_def symbols_only_def add_module_def Let_def)
qed (auto simp: symbols_ordered_def dest!: loadElf_frame)

subsection \<open>Guest memory\<close>

text \<open>Mapping regions allocates pages: the allocator's invariant and every mapped byte stay.\<close>

definition mem_grows :: "nat \<Rightarrow> Memory \<Rightarrow> Memory \<Rightarrow> bool" where
  "mem_grows N m m' \<longleftrightarrow> alloc_inv N m \<longrightarrow> alloc_inv N m' \<and> (\<forall>b. guest_byte m b \<noteq> None \<longrightarrow> guest_byte m' b = guest_byte m b)"

lemma mem_grows_refl [simp]: "mem_grows N m m"
  by (simp add: mem_grows_def)

lemma mem_grows_trans: "mem_grows N m m' \<Longrightarrow> mem_grows N m' m'' \<Longrightarrow> mem_grows N m m''"
  by (auto simp: mem_grows_def)

lemma allocatePage_grows:
  assumes "allocatePage n m = Inr (ok, m')"
  shows "mem_grows N m m'"
proof (cases "n < NUM_PAGES \<and> \<not> gPageAllocatorLock m")
  case True
  show ?thesis
  proof (unfold mem_grows_def, intro impI)
    assume inv: "alloc_inv N m"
    have s: "alloc_inv N m'" "(ok, guest_byte m') = spec_allocate N n (guest_byte m)"
      using allocatePage_spec [OF inv, of n] True assms by auto
    then show "alloc_inv N m' \<and> (\<forall>b. guest_byte m b \<noteq> None \<longrightarrow> guest_byte m' b = guest_byte m b)"
      by (auto simp: spec_allocate_def guest_pages_def split: if_splits)
  qed
next
  case False
  with assms have "m' = m" by (auto simp: allocatePage_def split: if_splits)
  then show ?thesis by simp
qed

lemma allocateRegion_grows:
  assumes "allocateRegion p n m = Inr (ok, m')"
  shows "mem_grows N m m'"
proof -
  have "\<forall>ok m'. y = Inr (ok, m') \<longrightarrow> mem_grows N m m'" if "allocate_pages p n i m = Some y" for i y
    using that
  proof (rule allocate_pages.raw_induct [rotated], goal_cases)
    case (1 loop p n i m y)
    then show ?case
      by (auto split: if_splits sum.splits intro: allocatePage_grows mem_grows_trans)
  qed
  with assms show ?thesis by (auto simp: allocateRegion_def outcome_Inr)
qed

lemma allocateRegion_one: "allocateRegion p 1 m = allocatePage p m"
  unfolding allocateRegion_def
  by (subst allocate_pages.simps) (auto simp: allocate_pages.simps [of _ _ 1] split: sum.split)

lemma protectPage_grows: "mem_grows N m (protectPage p pm m)"
  using protectPage_ok by (fastforce simp: mem_grows_def alloc_inv_def)

lemma protectRegion_grows:
  assumes "protectRegion p n pm m = Inr m'"
  shows "mem_grows N m m'"
proof -
  have "mem_grows N m (fold (\<lambda>k. protectPage (p + of_nat k) pm) ks m)" for ks
    by (induction ks arbitrary: m) (auto intro: mem_grows_trans [OF protectPage_grows])
  with assms show ?thesis by (auto simp: protectRegion_cases split: if_splits)
qed

lemma map_region_grows:
  assumes "map_region a n ty pm k = Inr k'"
  shows "mem_grows N (kmem k) (kmem k')"
proof -
  from assms obtain ms m where "addMapping a n ty pm (gMappings k, kmem k) = Inr (ms, m)" "k' = k\<lparr>gMappings := ms, kmem := m\<rparr>"
    by (auto simp: map_region_def and_then_Inr_iff)
  then have "back_mapping a n ty pm (kmem k) = Inr (kmem k')"
    by (auto simp: addMapping_def and_then_Inr_iff Let_def)
  then show ?thesis
    by (auto simp: back_mapping_def and_then_Inr_iff split: if_splits
        intro: mem_grows_trans [OF allocateRegion_grows protectRegion_grows])
qed

lemma map_module_grows:
  assumes "map_module h base k = Inr k'"
  shows "mem_grows N (kmem k) (kmem k')"
  using assms by (auto simp: map_module_def and_then_Inr_iff Let_def) (metis map_region_grows mem_grows_trans)

text \<open>A region copy that does not fault has found every page mapped.\<close>

lemma writeRegion_from_mapped:
  assumes "mem_ok N mc" and "writeRegion_from addr data i mc = Inr mc'" and "length data < 2 ^ 64" and "i \<le> j" and "j < length data"
  shows "mview mc (addr + of_nat j) \<noteq> None"
  using assms
proof (induction "length data - i" arbitrary: i mc rule: less_induct)
  case less
  have i: "i < length data" using less.prems by simp
  have v: "mview mc (addr + of_nat i) \<noteq> None"
  proof
    assume none: "mview mc (addr + of_nat i) = None"
    then have "translate (addr + of_nat i) (memory mc) \<noteq> Inr p" for p
      by (auto simp: mview_def guest_byte_def split: sum.splits)
    moreover have "mem_write 1 (addr + of_nat i) d mc \<noteq> Inr x" for d x
      using access_cases(1) [OF less.prems(1)] none by simp
    ultimately show False
      using less.prems(2) i by (subst (asm) writeRegion_from.simps) (auto simp: and_then_Inr_iff split: if_splits)
  qed
  obtain cs mc0 where st: "writeRegion_from addr data i mc =
      writeRegion_from addr data (i + length cs) (mstore (addr + of_nat i) cs mc0)"
    and cs: "cs \<noteq> []" "page_offset (addr + of_nat i) + length cs \<le> 4096" "cs = take (length cs) (drop i data)"
      "i + length cs \<le> length data" and mc0: "mem_ok N mc0" "mview mc0 = mview mc"
    using writeRegion_step [OF less.prems(1) v i] by metis
  have v0: "mview mc0 (addr + of_nat i) \<noteq> None" using v mc0 by simp
  show ?case
  proof (cases "j < i + length cs")
    case True
    have "page_offset (addr + of_nat i) + (j - i) < 4096" using cs(2) True less.prems(4) by linarith
    from same_page_step(1) [OF this] have "getPageNum (addr + of_nat j) = getPageNum (addr + of_nat i)"
      using less.prems(4) by (simp add: add.assoc flip: of_nat_add)
    moreover obtain fl where "alloc_ok N fl (memory mc)" using less.prems(1) by (auto simp: mem_ok_def alloc_inv_def)
    ultimately show ?thesis using v mview_mapped by metis
  next
    case False
    have "length data - (i + length cs) < length data - i" using cs(1) i by (cases cs) simp_all
    then have "mview (mstore (addr + of_nat i) cs mc0) (addr + of_nat j) \<noteq> None"
      using less.hyps [of "i + length cs"] gm.store_inv [OF mc0(1) v0 cs(2)] less.prems st False by auto
    then show ?thesis
      using gm.store_chunk [OF mc0(1) v0 cs(2-4) less.prems(3)] mc0(2) False less.prems(3-5)
      by (simp add: unat_of_nat)
  qed
qed

lemma kwriteRegion_effect:
  assumes "kwriteRegion addr data k = Inr k'" and "alloc_inv N (kmem k)" and "length data < 2 ^ 64"
  shows "alloc_inv N (kmem k') \<and> (\<forall>b. guest_byte (kmem k') b =
    (if unat (b - addr) < length data then Some (data ! unat (b - addr)) else guest_byte (kmem k) b))"
proof -
  obtain mc' where w: "writeRegion_from addr data 0 (machine_of k) = Inr mc'" "k' = put_machine mc' k"
    using assms(1) writeRegion_length by (fastforce simp: kwriteRegion_def writeRegion_eq and_then_Inr_iff)
  have ok: "mem_ok N (machine_of k)" using assms(2) by (simp add: mem_ok_def machine_of_def)
  obtain mc'' where "writeRegion_from addr data 0 (machine_of k) = Inr mc''" "mem_ok N mc''"
    "\<forall>b. mview mc'' b = (if 0 \<le> unat (b - addr) \<and> unat (b - addr) < length data then Some (data ! unat (b - addr)) else mview (machine_of k) b)"
    using writeRegion_from_effect [OF ok writeRegion_from_mapped [OF ok w(1) assms(3)] assms(3)] by blast
  with w show ?thesis by (simp add: mem_ok_def mview_def machine_of_def put_machine_def)
qed

subsection \<open>The modules of a game\<close>

text \<open>
  The modules of a loader, with their sizes, and what loading adds to them: consecutive slots, each longer than the image of the file
  that takes it. When no file is an ELF executable (whose segments go to addresses of their own) the images stay in guest memory.
\<close>

definition module_list :: "Loader \<Rightarrow> (u64 \<times> u64) list" where
  "module_list L = zip (map module_base (loadedModules L)) (loadedModulesSizes L)"

definition only_modules :: "LoaderEnv \<Rightarrow> bool" where
  "only_modules env \<longleftrightarrow> (\<forall>path buffer. readFile env path = Some buffer \<longrightarrow> getFileType buffer \<noteq> Inr 0)"

definition file_image :: "LoaderEnv \<Rightarrow> u8 list \<Rightarrow> bool" where
  "file_image env img \<longleftrightarrow> (\<exists>path buffer. readFile env path = Some buffer \<and> nso_image env buffer = Inr (True, img))"

definition image_at :: "Memory \<Rightarrow> u64 \<Rightarrow> u8 list \<Rightarrow> bool" where
  "image_at m base img \<longleftrightarrow> (\<forall>j < length img. guest_byte m (base + of_nat j) = Some (img ! j))"

definition keeps_below :: "u64 \<Rightarrow> Memory \<Rightarrow> Memory \<Rightarrow> bool" where
  "keeps_below a m m' \<longleftrightarrow> (\<forall>b. b < a \<longrightarrow> guest_byte m b \<noteq> None \<longrightarrow> guest_byte m' b = guest_byte m b)"

definition images_stay :: "LoaderEnv \<Rightarrow> nat \<Rightarrow> u64 \<Rightarrow> (u64 \<times> u64) list \<Rightarrow> u8 list list \<Rightarrow> Memory \<Rightarrow> Memory \<Rightarrow> bool" where
  "images_stay env N a xs imgs m m' \<longleftrightarrow>
     (only_modules env \<and> alloc_inv N m \<and> unat a + length xs * 2 ^ 32 < 2 ^ 64 \<longrightarrow>
      alloc_inv N m' \<and> keeps_below a m m' \<and> list_all2 (\<lambda>(b, _) img. image_at m' b img) xs imgs)"

definition modules_grow :: "LoaderEnv \<Rightarrow> nat \<Rightarrow> LState \<Rightarrow> LState \<Rightarrow> bool" where
  "modules_grow env N = (\<lambda>(L, k) (L', k'). workingPath L' = workingPath L \<and>
     (length (loadedModules L) = length (loadedModulesSizes L) \<longrightarrow> 2 ^ 27 dvd unat (nextFreeAddress L) \<longrightarrow>
      length (loadedModules L') = length (loadedModulesSizes L') \<and>
      (\<exists>xs imgs. module_list L' = module_list L @ xs \<and> slots (nextFreeAddress L) xs (nextFreeAddress L') \<and>
         list_all2 (\<lambda>(_, n) img. file_image env img \<and> length img < unat n) xs imgs \<and>
         images_stay env N (nextFreeAddress L) xs imgs (kmem k) (kmem k'))))"

lemma slots_end: "slots a xs e \<Longrightarrow> unat e \<le> unat a + length xs * 2 ^ 32"
proof (induction a xs e rule: slots.induct)
  case (2 a b n xs e)
  have "unat (a + n) \<le> unat a + unat n" by (simp add: unat_word_ariths)
  with 2 show ?case by fastforce
qed simp

lemma image_at_kept:
  assumes "image_at m b img" and "keeps_below e m m'" and "unat b + length img \<le> unat e"
  shows "image_at m' b img"
proof -
  have "unat (b + of_nat j) < unat e" if "j < length img" for j
  proof -
    have "unat (b + of_nat j) \<le> unat b + j" by (simp add: unat_word_ariths unat_of_nat)
    with assms(3) that show ?thesis by linarith
  qed
  with assms(1,2) show ?thesis by (auto simp: image_at_def keeps_below_def word_less_nat_alt)
qed

lemma images_stay_append:
  assumes "images_stay env N a xs imgs m m'" and "images_stay env N e ys imgs' m' m''"
    and s: "slots a xs e" "2 ^ 27 dvd unat a" and l: "list_all2 (\<lambda>(_, n) img. file_image env img \<and> length img < unat n) xs imgs"
  shows "images_stay env N a (xs @ ys) (imgs @ imgs') m m''"
proof (unfold images_stay_def, intro impI)
  assume h: "only_modules env \<and> alloc_inv N m \<and> unat a + length (xs @ ys) * 2 ^ 32 < 2 ^ 64"
  then have wx: "unat a + length xs * 2 ^ 32 < 2 ^ 64" and wy: "unat e + length ys * 2 ^ 32 < 2 ^ 64"
    using slots_end [OF s(1)] by (simp_all add: algebra_simps)
  note B = slots_bounds [OF s(1) wx s(2)]
  have 1: "alloc_inv N m'" "keeps_below a m m'" "list_all2 (\<lambda>(b, _) img. image_at m' b img) xs imgs"
    using assms(1) h wx by (auto simp: images_stay_def)
  have 2: "alloc_inv N m''" "keeps_below e m' m''" "list_all2 (\<lambda>(b, _) img. image_at m'' b img) ys imgs'"
    using assms(2) h wy 1(1) by (auto simp: images_stay_def)
  have "keeps_below a m m''"
    using 1(2) 2(2) B(1) unfolding keeps_below_def word_less_nat_alt by (metis order_less_le_trans)
  moreover have "list_all2 (\<lambda>(b, _) img. image_at m'' b img) xs imgs"
  proof (rule list_all2_all_nthI)
    show "length xs = length imgs" using l by (rule list_all2_lengthD)
    fix i
    assume i: "i < length xs"
    obtain b n where x: "xs ! i = (b, n)" by fastforce
    have "length (imgs ! i) < unat n" "image_at m' b (imgs ! i)"
      using list_all2_nthD [OF l i] list_all2_nthD [OF 1(3) i] x by auto
    moreover have "unat b + unat n \<le> unat e" using B(3) [OF i] x by simp
    ultimately have "image_at m'' b (imgs ! i)" using image_at_kept 2(2) by fastforce
    then show "(case xs ! i of (b, _) \<Rightarrow> \<lambda>img. image_at m'' b img) (imgs ! i)" using x by simp
  qed
  ultimately show "alloc_inv N m'' \<and> keeps_below a m m'' \<and> list_all2 (\<lambda>(b, _) img. image_at m'' b img) (xs @ ys) (imgs @ imgs')"
    using 2 by (simp add: list_all2_appendI)
qed

lemma image_written:
  assumes "map_module header a k = Inr k1" and "kwriteRegion a img k1 = Inr k'" and "length img < 2 ^ 32" and "unat a + 2 ^ 32 < 2 ^ 64"
    and "alloc_inv N (kmem k)"
  shows "alloc_inv N (kmem k') \<and> keeps_below a (kmem k) (kmem k') \<and> image_at (kmem k') a img"
proof -
  have k1: "alloc_inv N (kmem k1)" "\<And>b. guest_byte (kmem k) b \<noteq> None \<Longrightarrow> guest_byte (kmem k1) b = guest_byte (kmem k) b"
    using map_module_grows [OF assms(1), of N] assms(5) by (auto simp: mem_grows_def)
  have len: "length img < 2 ^ 64" using assms(3) by simp
  note W = kwriteRegion_effect [OF assms(2) k1(1) len]
  have "\<not> unat (b - a) < length img" if "b < a" for b
  proof -
    have "unat (b - a) = unat b + 2 ^ 64 - unat a" using that by (simp add: unat_sub_if' word_less_nat_alt)
    then show ?thesis using assms(3,4) by simp
  qed
  then show ?thesis
    using W k1 len by (auto simp: keeps_below_def image_at_def unat_of_nat)
qed

lemma modules_grow_place:
  assumes rd: "readFile env path = Some buffer" and "place_nso env buffer s = Inr (r, s')"
  shows "modules_grow env N s s'"
proof -
  obtain L k L' k' where s: "s = (L, k)" "s' = (L', k')" by (cases s; cases s')
  from place_nso_effect [OF assms(2) [unfolded s]] show ?thesis
  proof (elim disjE conjE exE)
    fix img mo needed header k1
    assume len: "length img < 2 ^ 32" and "symbols_only (snd (add_module (length img) (L\<lparr>out_bin := img\<rparr>))) L'"
      and img: "nso_image env buffer = Inr (True, img)"
      and w: "map_module header (nextFreeAddress L) k = Inr k1" "kwriteRegion (nextFreeAddress L) img k1 = Inr k'"
    then obtain ss m where L': "L' = (snd (add_module (length img) (L\<lparr>out_bin := img\<rparr>)))\<lparr>loadedSymbols := ss, symbolLookupMap := m\<rparr>"
      unfolding symbols_only_def by blast
    let ?a = "nextFreeAddress L"
    let ?xs = "[(?a, next_module ?a (length img) - ?a)]"
    have "file_image env img" using rd img by (auto simp: file_image_def)
    then have "list_all2 (\<lambda>(_, n) img. file_image env img \<and> length img < unat n) ?xs [img]" if "2 ^ 27 dvd unat ?a"
      using next_module_slots(2) [OF that len] by simp
    moreover have "images_stay env N ?a ?xs [img] (kmem k) (kmem k')"
      using image_written [OF w len, of N] by (auto simp: images_stay_def)
    ultimately show ?thesis
      using next_module_slots(1) [OF _ len, of ?a]
      by (auto simp: s L' modules_grow_def module_list_def add_module_def Let_def simp del: slots.simps)
  qed (auto simp: s modules_grow_def images_stay_def keeps_below_def intro!: exI [of _ "[]"])
qed

lemma modules_grow_trans:
  assumes "modules_grow env N s s'" and "modules_grow env N s' s''"
  shows "modules_grow env N s s''"
proof -
  obtain L k L' k' L'' k'' where s: "s = (L, k)" "s' = (L', k')" "s'' = (L'', k'')" by (cases s; cases s'; cases s'')
  note g = assms [unfolded s modules_grow_def, simplified]
  show ?thesis
  proof (unfold s modules_grow_def, simp, intro conjI impI)
    show "workingPath L'' = workingPath L" using g by simp
    assume h: "length (loadedModules L) = length (loadedModulesSizes L)" "134217728 dvd unat (nextFreeAddress L)"
    with g obtain xs imgs where 1: "length (loadedModules L') = length (loadedModulesSizes L')"
      "module_list L' = module_list L @ xs" "slots (nextFreeAddress L) xs (nextFreeAddress L')"
      "list_all2 (\<lambda>(_, n) img. file_image env img \<and> length img < unat n) xs imgs"
      "images_stay env N (nextFreeAddress L) xs imgs (kmem k) (kmem k')"
      by auto
    have "134217728 dvd unat (nextFreeAddress L')" using slots_aligned [OF 1(3)] h(2) by simp
    with g 1(1) obtain ys imgs' where 2: "length (loadedModules L'') = length (loadedModulesSizes L'')"
      "module_list L'' = module_list L' @ ys" "slots (nextFreeAddress L') ys (nextFreeAddress L'')"
      "list_all2 (\<lambda>(_, n) img. file_image env img \<and> length img < unat n) ys imgs'"
      "images_stay env N (nextFreeAddress L') ys imgs' (kmem k') (kmem k'')"
      by auto
    show "length (loadedModules L'') = length (loadedModulesSizes L'')" by (rule 2(1))
    have "images_stay env N (nextFreeAddress L) (xs @ ys) (imgs @ imgs') (kmem k) (kmem k'')"
      using images_stay_append [OF 1(5) 2(5) 1(3) _ 1(4)] h(2) by simp
    moreover have "slots (nextFreeAddress L) (xs @ ys) (nextFreeAddress L'')" using 1(3) 2(3) by (auto simp: slots_append)
    ultimately show "\<exists>xs. module_list L'' = module_list L @ xs \<and> slots (nextFreeAddress L) xs (nextFreeAddress L'') \<and>
        (\<exists>imgs. list_all2 (\<lambda>(_, n) img. file_image env img \<and> length img < unat n) xs imgs \<and>
          images_stay env N (nextFreeAddress L) xs imgs (kmem k) (kmem k''))"
      using 1(2,4) 2(2,4) by (intro exI [of _ "xs @ ys"] conjI exI [of _ "imgs @ imgs'"]) (simp_all add: list_all2_appendI)
  qed
qed

lemma modules_grow_path: "modules_grow env N s s' \<Longrightarrow> workingPath (fst s') = workingPath (fst s)"
  by (auto simp: modules_grow_def split: prod.splits)

interpretation modules: load_relation env "modules_grow env N" for env N
proof
  fix s s' s'' :: LState
  show "modules_grow env N s s"
    by (cases s) (auto simp: modules_grow_def images_stay_def keeps_below_def intro!: exI [of _ "[]"])
  assume "modules_grow env N s s'" "modules_grow env N s' s''"
  then show "modules_grow env N s s''" by (rule modules_grow_trans)
next
  fix path buffer s ok s'
  assume "readFile env path = Some buffer" "getFileType buffer = Inr 0" "loadElf buffer s = Inr (ok, s')"
  then show "modules_grow env N s s'"
    by (cases s; cases s') (auto simp: modules_grow_def module_list_def images_stay_def only_modules_def
        intro!: exI [of _ "[]"] dest!: loadElf_frame)
next
  fix L k p
  show "modules_grow env N (L, k) (L\<lparr>prog := p\<rparr>, k)"
    by (auto simp: modules_grow_def module_list_def images_stay_def keeps_below_def intro!: exI [of _ "[]"])
qed (rule modules_grow_place)

subsection \<open>Segments of an image\<close>

text \<open>The bytes a segment decompresses to, and the offsets they take.\<close>

definition segment_bytes :: "LoaderEnv \<Rightarrow> u8 list \<Rightarrow> NsoSegmentHeader \<times> u32 \<Rightarrow> u8 list" where
  "segment_bytes env buffer = (\<lambda>(sh, n).
     snd (decompress env (take (unat n) (drop (unat (dataOffset sh)) buffer)) n (seg_size sh)))"

definition segment_range :: "LoaderEnv \<Rightarrow> u8 list \<Rightarrow> NsoSegmentHeader \<times> u32 \<Rightarrow> nat set" where
  "segment_range env buffer s = {unat (memoryOffset (fst s))..<unat (memoryOffset (fst s)) + length (segment_bytes env buffer s)}"

lemma overwrite_nth:
  assumes "off + length bs \<le> length img" "i < length img"
  shows "overwrite off bs img ! i = (if off \<le> i \<and> i < off + length bs then bs ! (i - off) else img ! i)"
  using assms by (auto simp: overwrite_def nth_append)

lemma decompress_segments_step:
  assumes "decompress_segments env buffer (s # ss) img = Inr (True, img')"
  shows "unat (memoryOffset (fst s)) + length (segment_bytes env buffer s) \<le> length img"
    and "decompress_segments env buffer ss (overwrite (unat (memoryOffset (fst s))) (segment_bytes env buffer s) img) = Inr (True, img')"
proof -
  obtain sh n where s: "s = (sh, n)" by (cases s)
  obtain src where src: "buf_bytes (unat n) buffer (ucast (dataOffset sh)) = Inr src"
    using assms by (auto simp: s and_then_Inr_iff)
  then have "src = take (unat n) (drop (unat (dataOffset sh)) buffer)"
    by (auto simp: buf_bytes_def unat_ucast_u32 split: if_splits)
  with assms src show "unat (memoryOffset (fst s)) + length (segment_bytes env buffer s) \<le> length img"
    "decompress_segments env buffer ss (overwrite (unat (memoryOffset (fst s))) (segment_bytes env buffer s) img) = Inr (True, img')"
    by (auto simp: s segment_bytes_def Let_def split: prod.split_asm if_splits)
qed

lemma decompress_segments_outside:
  assumes "decompress_segments env buffer ss img = Inr (True, img')" and "i < length img"
    and "\<forall>s\<in>set ss. i \<notin> segment_range env buffer s"
  shows "img' ! i = img ! i"
  using assms
proof (induction ss arbitrary: img)
  case (Cons s ss)
  note st = decompress_segments_step [OF Cons.prems(1)]
  have "img' ! i = overwrite (unat (memoryOffset (fst s))) (segment_bytes env buffer s) img ! i"
    using Cons.prems by (intro Cons.IH [OF st(2)]) (simp_all add: overwrite_length [OF st(1)])
  then show ?case using Cons.prems(2,3) by (auto simp: overwrite_nth [OF st(1)] segment_range_def)
qed simp

lemma decompress_segments_inside:
  assumes "decompress_segments env buffer ss img = Inr (True, img')"
    and "sorted_wrt (\<lambda>s t. segment_range env buffer s \<inter> segment_range env buffer t = {}) ss"
    and "s \<in> set ss" and "j < length (segment_bytes env buffer s)"
  shows "unat (memoryOffset (fst s)) + j < length img' \<and> img' ! (unat (memoryOffset (fst s)) + j) = segment_bytes env buffer s ! j"
  using assms
proof (induction ss arbitrary: img)
  case (Cons t ss)
  note st = decompress_segments_step [OF Cons.prems(1)]
  show ?case
  proof (cases "s \<in> set ss")
    case True
    with Cons.IH [OF st(2)] Cons.prems(2,4) show ?thesis by simp
  next
    case False
    with Cons.prems have s: "t = s" by simp
    let ?i = "unat (memoryOffset (fst s)) + j"
    have i: "?i < length img" using st(1) Cons.prems(4) by (simp add: s)
    have "\<forall>t\<in>set ss. ?i \<notin> segment_range env buffer t"
      using Cons.prems(2,4) by (fastforce simp: s segment_range_def)
    then have "img' ! ?i = overwrite (unat (memoryOffset (fst s))) (segment_bytes env buffer s) img ! ?i"
      using i by (intro decompress_segments_outside [OF st(2) [unfolded s]]) (simp_all add: overwrite_length [OF st(1) [unfolded s]])
    moreover have "length img' = length img"
      using decompress_segments_length [OF Cons.prems(1)] .
    ultimately show ?thesis using i Cons.prems(4) by (simp add: overwrite_nth [OF st(1) [unfolded s]])
  qed
qed simp

subsection \<open>Termination\<close>

lemma load_libraries_returns:
  assumes "\<And>i s. workingPath (fst s) = wp \<Longrightarrow> exe (wp @ library_name i n) s \<noteq> None"
    and "\<And>path s ok s'. exe path s = Some (Inr (ok, s')) \<Longrightarrow> modules_grow env N s s'"
  shows "workingPath (fst s) = wp \<Longrightarrow> load_libraries exe img strs i n names s \<noteq> None"
proof (induction names arbitrary: i s)
  case (Cons name names)
  have "load_libraries exe img strs (Suc i) n names s' \<noteq> None"
    if "exe (workingPath (fst s) @ library_name i n) s = Some (Inr (ok, s'))" for ok s'
    using modules_grow_path [OF assms(2) [OF that]] Cons.prems by (intro Cons.IH) simp
  then show ?case
    using assms(1) [OF Cons.prems, of i] Cons.prems by (auto simp: load_then_eq_None simp del: not_None_eq split: sum.split)
qed simp

text \<open>A file whose modules need no libraries, and a file whose libraries are such files.\<close>

lemma loadExe_leaf_returns:
  assumes "\<And>buffer img mo needed s'. readFile env path = Some buffer \<Longrightarrow>
    place_nso env buffer s = Inr (Some (img, mo, needed), s') \<Longrightarrow> needed = []"
  shows "loadExe env path s \<noteq> None"
  using assms
  by (subst loadExe.simps)
    (fastforce simp: loadNso_def split: option.splits sum.splits prod.splits)

lemma loadExe_returns:
  assumes "\<And>i n s. workingPath (fst s) = wp \<Longrightarrow> loadExe env (wp @ library_name i n) s \<noteq> None" and "workingPath (fst s) = wp"
  shows "loadExe env path s \<noteq> None"
proof -
  have "loadNso (\<lambda>path s. loadExe env path s) env buffer s \<noteq> None" if rd: "readFile env path = Some buffer" for buffer
  proof (cases "place_nso env buffer s")
    case (Inr x)
    obtain r s' where x: "x = (r, s')" by (cases x)
    have wp: "workingPath (fst s') = wp"
      using modules_grow_path [OF modules_grow_place [OF rd Inr [unfolded x]]] assms(2) by simp
    have "load_libraries (loadExe env) img strs i n names s' \<noteq> None" for img strs i n names
      by (rule load_libraries_returns [where exe = "loadExe env" and wp = wp, OF assms(1) modules.loadExe_keeps wp])
    with Inr x show ?thesis
      by (auto simp: loadNso_def load_then_eq_None simp del: not_None_eq split: option.split prod.split)
  qed (simp add: loadNso_def)
  then show ?thesis by (subst loadExe.simps) (auto split: option.split sum.split)
qed

lemma lower_bound_greatest:
  assumes "sorted_map m"
  shows "lower_bound addr m = None \<Longrightarrow> {a. map_of m a \<noteq> None \<and> a \<le> addr} = {}"
    and "lower_bound addr m = Some (a, name) \<Longrightarrow> map_of m a = Some name \<and> a \<le> addr \<and> Max {a. map_of m a \<noteq> None \<and> a \<le> addr} = a"
proof -
  show "{a. map_of m a \<noteq> None \<and> a \<le> addr} = {}" if "lower_bound addr m = None"
    using that by (fastforce simp: lower_bound_def find_None_iff dest!: map_of_SomeD)
  assume lb: "lower_bound addr m = Some (a, name)"
  then obtain i where i: "i < length m" "m ! i = (a, name)" "a \<le> addr" "\<And>j. j < i \<Longrightarrow> \<not> fst (m ! j) \<le> addr"
    unfolding lower_bound_def find_Some_iff case_prod_unfold not_less by (metis fst_conv)
  have d: "distinct (map fst m)" using assms by (auto simp: sorted_map_def distinct_conv_nth sorted_wrt_iff_nth_less nat_neq_iff) (metis order_less_irrefl)+
  then have "map_of m a = Some name" using i by (metis map_of_is_SomeI nth_mem)
  moreover have "b \<le> a" if b: "map_of m b \<noteq> None" "b \<le> addr" for b
  proof -
    obtain j where j: "j < length m" "fst (m ! j) = b" using b(1) by (fastforce simp: in_set_conv_nth dest: map_of_SomeD)
    then have "i \<le> j" using i(4) b(2) by (metis not_le)
    then have "fst (m ! j) \<le> fst (m ! i)"
      using assms j(1) by (cases "i = j") (auto simp: sorted_map_def sorted_wrt_iff_nth_less intro!: less_imp_le)
    then show ?thesis using i j by simp
  qed
  moreover have "finite {a. map_of m a \<noteq> None \<and> a \<le> addr}" using finite_dom_map_of [of m] by (rule rev_finite_subset) (auto simp: dom_def)
  ultimately show "map_of m a = Some name \<and> a \<le> addr \<and> Max {a. map_of m a \<noteq> None \<and> a \<le> addr} = a"
    using i(3) by (auto intro: Max_eqI)
qed

subsection \<open>A small game\<close>

text \<open>A module file of one symbol, stored without compression, and a decompressor that copies.\<close>

definition demo_nso :: "u8 list" where
  "demo_nso = [0x4E, 0x53, 0x4F, 0x30] @ replicate 12 0
     @ concat (map (le_bytes 4) [0x100, 0, 8, 0, 0x108, 8, 28, 0, 0x124, 36, 74, 0]) @ replicate 0x20 0
     @ concat (map (le_bytes 4) [8, 28, 74]) @ replicate 0x94 0
     @ concat (map (le_bytes 4) [0, 8]) @ concat (map (le_bytes 4) [0x30444F4D, 28, 0, 0, 0, 0, 0])
     @ concat (map (le_bytes 8) [5, 108, 6, 84, 0, 0]) @ le_bytes 4 0 @ [0x10, 0] @ le_bytes 2 1 @ le_bytes 8 0x10 @ le_bytes 8 4 @ [0x66, 0]"

definition demo_env :: LoaderEnv where
  "demo_env = \<lparr>files = (\<lambda>path. if path = ''cart/main'' then Some demo_nso else None),
     LZ4_decompress_safe = (\<lambda>src n cap. (int (length src), src))\<rparr>"

definition demo_loader :: Loader where
  "demo_loader = \<lparr>workingPath = ''cart/'', nextFreeAddress = 0x8000000, loadedSymbols = [],
     prog = \<lparr>eh = \<lparr>e_magic = [], e_class = 0, e_data = 0, e_elfversion = 0, e_osabi = 0, e_abiversion = 0, e_pad = [], e_type = 0,
       e_machine = 0, e_version = 0, e_entry = 0, e_phoff = 0, e_shoff = 0, e_flags = 0, e_ehsize = 0, e_phentsize = 0, e_phnum = 0,
       e_shentsize = 0, e_shnum = 0, e_shstrndx = 0\<rparr>, sections = [], symbols = [], dynSymbols = []\<rparr>,
     symbolLookupMap = [], loadedModules = [], loadedModulesSizes = [], out_bin = []\<rparr>"

definition demo_image :: "u8 list" where
  "demo_image = drop 0x100 demo_nso"

lemma demo_header: "buf_bytes 0x100 demo_nso 0 = Inr (take 0x100 demo_nso)"
  by code_simp

lemma demo_segs:
  "decompress_segments demo_env demo_nso (zip (segmentHeaders (nso_header (take 0x100 demo_nso))) (segmentSizes (nso_header (take 0x100 demo_nso))))
     (replicate (nso_image_size (nso_header (take 0x100 demo_nso))) 0) = Inr (True, demo_image)"
  by code_simp

lemma demo_mod: "mod_offset demo_image = Inr 8" "buf_bytes 0x1C demo_image 8 = Inr (take 28 (drop 8 demo_image))"
  "mod_magic (mod_header (take 28 (drop 8 demo_image))) = 0x30444F4D" "mod_dynamic (mod_header (take 28 (drop 8 demo_image))) = 28"
  "length demo_image = 110"
  by code_simp+

lemma demo_dyn:
  "dyn_loop demo_image 36 (new_ModObject\<lparr>module_base := 0x8000000\<rparr>, []) =
    Inr (new_ModObject\<lparr>module_base := 0x8000000, strtab := 108, symtab := 84\<rparr>, [])"
  by code_simp

lemma demo_symbols:
  "load_mod_symbols demo_image (new_ModObject\<lparr>module_base := 0x8000000, strtab := 108, symtab := 84\<rparr>)
     (snd (add_module 110 (demo_loader\<lparr>out_bin := demo_image\<rparr>))) =
   Inr (demo_loader\<lparr>out_bin := demo_image, loadedModules := [new_ModObject\<lparr>module_base := 0x8000000\<rparr>], loadedModulesSizes := [0x8000000],
     nextFreeAddress := 0x10000000, loadedSymbols := [\<lparr>sym_sh = \<lparr>st_name = 0, st_info = 0x10, st_other = 0, st_shndx = 1, st_value = 0x8000010, st_size = 4\<rparr>, sym_name = ''f''\<rparr>],
     symbolLookupMap := [(0x8000010, ''f'')]\<rparr>)"
  by code_simp

text \<open>Mapping a region of one page whose page is mapped or can be allocated.\<close>

lemma map_region_page:
  assumes inv: "alloc_inv N (kmem k)" and lock: "\<not> gPageAllocatorLock (kmem k)"
    and loop: "addMapping_loop a (a + n - 1) [] (gMappings k) = Inr ms"
    and page: "a div PAGE_SIZE = p" "n div PAGE_SIZE = 1" "p < NUM_PAGES" and ty: "ty \<noteq> UNMAPPED"
    and free: "p \<in> guest_pages (guest_byte (kmem k)) \<or> card (guest_pages (guest_byte (kmem k))) \<noteq> N"
  shows "\<exists>m'. map_region a n ty pm k = Inr (k\<lparr>gMappings := sort_key map_base (mapping a n ty pm # ms), kmem := m'\<rparr>) \<and>
    alloc_inv N m' \<and> \<not> gPageAllocatorLock m' \<and> p \<in> guest_pages (guest_byte m')"
proof -
  obtain ok m1 where a: "allocatePage p (kmem k) = Inr (ok, m1)" "alloc_inv N m1"
    "(ok, guest_byte m1) = spec_allocate N p (guest_byte (kmem k))" "gPageAllocatorLock m1 \<longleftrightarrow> \<not> ok"
    using allocatePage_spec [OF inv page(3) lock] by blast
  have ok: "ok" using a(3) free by (auto simp: spec_allocate_def split: if_splits)
  obtain b where "getPageNum b = p"
  proof
    show "getPageNum (p * 4096) = p"
      using page(3) by (simp add: getPageNum_def shr_def PAGE_BITS_def page_consts drop_bit_eq_div word_less_nat_alt
          word_unat_eq_iff unat_div unat_word_ariths)
  qed
  then have g: "p \<in> guest_pages (guest_byte m1)" using a(3) ok by (fastforce simp: spec_allocate_def guest_pages_def split: if_splits)
  obtain fl where fl: "alloc_ok N fl m1" using a(2) by (auto simp: alloc_inv_def)
  have "gPageAllocatorLock (protectPage p pm m1) = gPageAllocatorLock m1" by (simp add: protectPage_def)
  moreover have "map_region a n ty pm k =
      Inr (k\<lparr>gMappings := sort_key map_base (mapping a n ty pm # ms), kmem := protectPage p pm m1\<rparr>)"
    using loop ty a(1) ok page
    by (simp add: map_region_def addMapping_def back_mapping_def allocateRegion_one protectRegion_cases One_nat_def Let_def)
  ultimately show ?thesis
    using protectPage_ok [OF fl, of p pm] a(4) ok g by (auto simp: alloc_inv_def)
qed

definition demo_load_kernel :: Kernel where
  "demo_load_kernel = boot_kernel\<lparr>kmem := two_pages\<rparr>"

lemma demo_loops:
  "addMapping_loop 0x8000008 0x8001007 [] [mapping 0x8000000 0x1000 CODE_STATIC READ_EXECUTE] = Inr [mapping 0x8000000 8 CODE_STATIC READ_EXECUTE]"
  "addMapping_loop 0x8000024 0x8001023 [] [mapping 0x8000000 8 CODE_STATIC READ_EXECUTE, mapping 0x8000008 0x1000 PROCESS_MEM READ_ONLY] =
     Inr [mapping 0x8000000 8 CODE_STATIC READ_EXECUTE, mapping 0x8000008 0x1C PROCESS_MEM READ_ONLY]"
  by code_simp+

lemma demo_mapped:
  "\<exists>k1. map_module (nso_header (take 0x100 demo_nso)) 0x8000000 demo_load_kernel = Inr k1 \<and> alloc_inv 2 (kmem k1) \<and>
     0x8000 \<in> guest_pages (guest_byte (kmem k1))"
proof -
  let ?k = demo_load_kernel
  have k: "alloc_inv 2 (kmem ?k)" "\<not> gPageAllocatorLock (kmem ?k)" "guest_byte (kmem ?k) = (\<lambda>a. None)" "gMappings ?k = []"
    by (simp_all add: demo_load_kernel_def two_pages_facts boot_kernel_def)
  have "addMapping_loop 0x8000000 (0x8000000 + 0x1000 - 1) [] (gMappings ?k) = Inr []" by (simp add: k)
  from map_region_page [OF k(1,2) this, of "0x8000" CODE_STATIC READ_EXECUTE] obtain m1 where m1:
    "map_region 0x8000000 0x1000 CODE_STATIC READ_EXECUTE ?k =
       Inr (?k\<lparr>gMappings := [mapping 0x8000000 0x1000 CODE_STATIC READ_EXECUTE], kmem := m1\<rparr>)"
    "alloc_inv 2 m1" "\<not> gPageAllocatorLock m1" "0x8000 \<in> guest_pages (guest_byte m1)"
    by (auto simp: k page_consts guest_pages_def)
  let ?k1 = "?k\<lparr>gMappings := [mapping 0x8000000 0x1000 CODE_STATIC READ_EXECUTE], kmem := m1\<rparr>"
  have "addMapping_loop 0x8000008 (0x8000008 + 0x1000 - 1) [] (gMappings ?k1) = Inr [mapping 0x8000000 8 CODE_STATIC READ_EXECUTE]"
    by (simp add: demo_loops)
  from map_region_page [OF _ _ this, of 2 "0x8000" PROCESS_MEM READ_ONLY] m1 obtain m2 where m2:
    "map_region 0x8000008 0x1000 PROCESS_MEM READ_ONLY ?k1 =
       Inr (?k1\<lparr>gMappings := [mapping 0x8000000 8 CODE_STATIC READ_EXECUTE, mapping 0x8000008 0x1000 PROCESS_MEM READ_ONLY], kmem := m2\<rparr>)"
    "alloc_inv 2 m2" "\<not> gPageAllocatorLock m2" "0x8000 \<in> guest_pages (guest_byte m2)"
    by (auto simp: page_consts mapping_def)
  let ?k2 = "?k1\<lparr>gMappings := [mapping 0x8000000 8 CODE_STATIC READ_EXECUTE, mapping 0x8000008 0x1000 PROCESS_MEM READ_ONLY], kmem := m2\<rparr>"
  have "addMapping_loop 0x8000024 (0x8000024 + 0x1000 - 1) [] (gMappings ?k2) =
      Inr [mapping 0x8000000 8 CODE_STATIC READ_EXECUTE, mapping 0x8000008 0x1C PROCESS_MEM READ_ONLY]"
    by (simp add: demo_loops)
  from map_region_page [OF _ _ this, of 2 "0x8000" PROCESS_MEM READ_WRITE] m2 obtain k3 where k3:
    "map_region 0x8000024 0x1000 PROCESS_MEM READ_WRITE ?k2 = Inr k3"
    "alloc_inv 2 (kmem k3)" "0x8000 \<in> guest_pages (guest_byte (kmem k3))"
    by (auto simp: page_consts)
  have segs: "map (\<lambda>i. let s = segmentHeaders (nso_header (take 0x100 demo_nso)) ! i in (memoryOffset s, seg_size s, bssSize s)) [0, 1, 2] =
      [(0, 8, 0), (8, 28, 0), (36, 74, 0)]"
    by code_simp
  then show ?thesis
    using m1(1) m2(1) k3 by (simp add: map_module_def Let_def page_up_def)
qed

lemma demo_written:
  assumes "alloc_inv 2 (kmem k1)" and "0x8000 \<in> guest_pages (guest_byte (kmem k1))"
  shows "\<exists>k'. kwriteRegion 0x8000000 demo_image k1 = Inr k'"
proof -
  have p0: "getPageNum 0x8000000 = 0x8000" "page_offset 0x8000000 = 0"
    by (simp_all add: getPageNum_def page_offset_def shr_def PAGE_BITS_def page_consts mask_eq_exp_minus_1 drop_bit_eq_div)
  have p: "getPageNum (0x8000000 + of_nat i) = 0x8000" if "i < length demo_image" for i
    using same_page_step(1) [of "0x8000000" i] that p0 by (simp add: demo_mod)
  obtain fl where "alloc_ok 2 fl (kmem k1)" using assms(1) by (auto simp: alloc_inv_def)
  then have "mview (machine_of k1) (0x8000000 + of_nat i) \<noteq> None" if "i < length demo_image" for i
    using assms(2) p [OF that] by (simp add: mview_def machine_of_def guest_byte_eq guest_pages_eq)
  then show ?thesis
    using writeRegion_from_effect [of 2 "machine_of k1" 0 demo_image "0x8000000"] assms(1) demo_mod(5)
    by (auto simp: kwriteRegion_def writeRegion_eq mem_ok_def machine_of_def)
qed

definition demo_loaded :: Loader where
  "demo_loaded = demo_loader\<lparr>out_bin := demo_image, loadedModules := [new_ModObject\<lparr>module_base := 0x8000000\<rparr>],
     loadedModulesSizes := [0x8000000], nextFreeAddress := 0x10000000,
     loadedSymbols := [\<lparr>sym_sh = \<lparr>st_name = 0, st_info = 0x10, st_other = 0, st_shndx = 1, st_value = 0x8000010, st_size = 4\<rparr>, sym_name = ''f''\<rparr>],
     symbolLookupMap := [(0x8000010, ''f'')]\<rparr>"

lemma demo_placed:
  "\<exists>k'. place_nso demo_env demo_nso (demo_loader, demo_load_kernel) =
     Inr (Some (demo_image, new_ModObject\<lparr>module_base := 0x8000000, strtab := 108, symtab := 84\<rparr>, []), demo_loaded, k')"
proof -
  obtain k1 where k1: "map_module (nso_header (take 0x100 demo_nso)) 0x8000000 demo_load_kernel = Inr k1"
    "alloc_inv 2 (kmem k1)" "0x8000 \<in> guest_pages (guest_byte (kmem k1))"
    using demo_mapped by blast
  obtain k' where k': "kwriteRegion 0x8000000 demo_image k1 = Inr k'" using demo_written [OF k1(2,3)] by blast
  obtain L1 where m: "add_module 110 (demo_loader\<lparr>out_bin := demo_image\<rparr>) = (new_ModObject\<lparr>module_base := 0x8000000\<rparr>, L1)"
    by (simp add: add_module_def Let_def demo_loader_def)
  have sy: "load_mod_symbols demo_image (new_ModObject\<lparr>module_base := 0x8000000, strtab := 108, symtab := 84\<rparr>) L1 = Inr demo_loaded"
    using demo_symbols unfolding m demo_loaded_def by simp
  have "place_nso demo_env demo_nso (demo_loader, demo_load_kernel) =
     Inr (Some (demo_image, new_ModObject\<lparr>module_base := 0x8000000, strtab := 108, symtab := 84\<rparr>, []), demo_loaded, k')"
    unfolding place_nso_def prod.case demo_header and_then_simps Let_def demo_segs demo_mod(1,5) m
    by (simp add: demo_mod demo_dyn sy k1 k')
  then show ?thesis ..
qed

lemma demo_game:
  "\<exists>L k'. loadGame demo_env (demo_loader, demo_load_kernel) = Some (Inr (True, L, k')) \<and> symbolLookupMap L = [(0x8000010, ''f'')] \<and>
     loadedModules L = [new_ModObject\<lparr>module_base := 0x8000000\<rparr>] \<and> loadedModulesSizes L = [0x8000000]"
proof -
  obtain k' where k': "place_nso demo_env demo_nso (demo_loader, demo_load_kernel) =
     Inr (Some (demo_image, new_ModObject\<lparr>module_base := 0x8000000, strtab := 108, symtab := 84\<rparr>, []), demo_loaded, k')"
    using demo_placed by blast
  have n: "length demo_nso = 366" "getFileType demo_nso = Inr 1" by code_simp+
  then have f: "readFile demo_env ''cart/rtld'' = None" "readFile demo_env ''cart/main'' = Some demo_nso" "demo_nso \<noteq> []"
    by (auto simp: readFile_def demo_env_def)
  have "loadExe demo_env ''cart/rtld'' (demo_loader, demo_load_kernel) = Some (Inr (False, demo_loader, demo_load_kernel))"
    by (subst loadExe.simps) (simp add: f)
  moreover have "loadExe demo_env ''cart/main'' (demo_loader, demo_load_kernel) = Some (Inr (True, demo_loaded, k'))"
    by (subst loadExe.simps) (simp add: f n loadNso_def k')
  moreover have "workingPath demo_loader = ''cart/''" by (simp add: demo_loader_def)
  ultimately show ?thesis by (simp add: loadGame_def demo_loaded_def)
qed

subsection \<open>Properties\<close>

text \<open>
  C25. Modules do not overlap: after a game is loaded into an empty loader, with all its libraries, the modules stand at multiples of
  0x8000000 from 0x8000000 up to the next free address, each in a range of its own that is longer than its image and ends where the next
  begins at the earliest; the images are those of files of the game. When no file of the game is taken for an ELF executable, whose
  segments go to addresses of their own, guest memory holds every image byte for byte at the end: no load has overwritten an earlier module.
  (Fewer than 2^31 modules: the addresses are 64 bits wide and a module takes at most 2^32 bytes.)
\<close>

theorem modules_apart:
  assumes "loadGame env (L, k) = Some (Inr (ok, L', k'))"
    and "loadedModules L = []" and "loadedModulesSizes L = []" and "nextFreeAddress L = 0x8000000"
    and "length (loadedModules L') < 2 ^ 31"
  shows "\<exists>imgs. length imgs = length (loadedModules L') \<and> length (loadedModulesSizes L') = length (loadedModules L') \<and>
    (\<forall>i < length imgs. file_image env (imgs ! i) \<and> length (imgs ! i) < unat (loadedModulesSizes L' ! i) \<and>
       0x8000000 dvd unat (module_base (loadedModules L' ! i)) \<and> 0x8000000 \<le> unat (module_base (loadedModules L' ! i)) \<and>
       unat (module_base (loadedModules L' ! i)) + unat (loadedModulesSizes L' ! i) \<le> unat (nextFreeAddress L')) \<and>
    (\<forall>j < length imgs. \<forall>i < j.
       unat (module_base (loadedModules L' ! i)) + unat (loadedModulesSizes L' ! i) \<le> unat (module_base (loadedModules L' ! j))) \<and>
    (only_modules env \<and> alloc_inv N (kmem k) \<longrightarrow>
       alloc_inv N (kmem k') \<and>
       (\<forall>i < length imgs. \<forall>j < length (imgs ! i).
          guest_byte (kmem k') (module_base (loadedModules L' ! i) + of_nat j) = Some (imgs ! i ! j)))"
proof -
  obtain imgs where len: "length (loadedModulesSizes L') = length (loadedModules L')"
    and s: "slots 0x8000000 (module_list L') (nextFreeAddress L')"
    and l: "list_all2 (\<lambda>(_, n) img. file_image env img \<and> length img < unat n) (module_list L') imgs"
    and c: "images_stay env N 0x8000000 (module_list L') imgs (kmem k) (kmem k')"
    using modules.loadGame_keeps [OF assms(1), of N] assms(2-4) by (auto simp: modules_grow_def module_list_def)
  have nth: "module_list L' ! i = (module_base (loadedModules L' ! i), loadedModulesSizes L' ! i)" if "i < length (loadedModules L')" for i
    using that len by (simp add: module_list_def)
  have n: "length (module_list L') = length (loadedModules L')" using len by (simp add: module_list_def)
  have w: "unat (0x8000000 :: u64) + length (module_list L') * 2 ^ 32 < 2 ^ 64" "2 ^ 27 dvd unat (0x8000000 :: u64)"
    using assms(5) n by simp_all
  note B = slots_bounds [OF s w, unfolded n]
  have "alloc_inv N (kmem k') \<and> (\<forall>i < length imgs. image_at (kmem k') (module_base (loadedModules L' ! i)) (imgs ! i))"
    if "only_modules env" "alloc_inv N (kmem k)"
    using c that w(1) nth n by (auto simp: images_stay_def list_all2_conv_all_nth)
  then show ?thesis
    using B(3,4) l nth len n
    by (intro exI [of _ imgs]) (auto simp: list_all2_conv_all_nth image_at_def)
qed

lemma demo_only_modules: "only_modules demo_env"
proof -
  have "length demo_nso = 366" "getFileType demo_nso = Inr 1" by code_simp+
  then show ?thesis by (auto simp: only_modules_def readFile_def demo_env_def split: if_splits)
qed

theorem modules_apart_witness:
  "\<exists>L k' img. loadGame demo_env (demo_loader, demo_load_kernel) = Some (Inr (True, L, k')) \<and> length (loadedModules L) = 1 \<and>
     file_image demo_env img \<and> length img < unat (loadedModulesSizes L ! 0) \<and>
     (\<forall>j < length img. guest_byte (kmem k') (module_base (loadedModules L ! 0) + of_nat j) = Some (img ! j))"
proof -
  obtain L k' where L: "loadGame demo_env (demo_loader, demo_load_kernel) = Some (Inr (True, L, k'))"
    "loadedModules L = [new_ModObject\<lparr>module_base := 0x8000000\<rparr>]"
    using demo_game by blast
  have "alloc_inv 2 (kmem demo_load_kernel)" by (simp add: demo_load_kernel_def two_pages_facts)
  with modules_apart [OF L(1), of 2] demo_only_modules obtain imgs where "length imgs = 1" "file_image demo_env (imgs ! 0)"
    "length (imgs ! 0) < unat (loadedModulesSizes L ! 0)"
    "\<forall>j < length (imgs ! 0). guest_byte (kmem k') (module_base (loadedModules L ! 0) + of_nat j) = Some (imgs ! 0 ! j)"
    using L(2) by (auto simp: demo_loader_def)
  with L show ?thesis by auto
qed

text \<open>
  Symbol lookup: after a load into an empty loader \<^verbatim>\<open>findNearestSymbol\<close> answers with the symbol of the greatest address that is not above
  the given one, with the distance to it when that is not zero, and with the message when every symbol lies above.
\<close>

theorem nearest_symbol:
  assumes "loadGame env (L, k) = Some (Inr (ok, L', k'))" and "symbolLookupMap L = []"
  shows "findNearestSymbol addr L' =
    (let below = {a. loader_findSymbol a L' \<noteq> None \<and> a \<le> addr}; a = Max below; name = the (loader_findSymbol a L')
     in if below = {} then ''No Symbol Found'' else if a = addr then name else name @ '' + '' @ to_string (unat addr - unat a))"
proof -
  have "sorted_map (symbolLookupMap L')"
    using symbol_order.loadGame_keeps [OF assms(1)] assms(2) by (simp add: symbols_ordered_def sorted_map_def)
  note N = lower_bound_greatest [OF this, of addr]
  show ?thesis
  proof (cases "lower_bound addr (symbolLookupMap L')")
    case None
    with N(1) show ?thesis by (simp add: findNearestSymbol_def loader_findSymbol_def)
  next
    case (Some p)
    obtain a name where p: "p = (a, name)" by (cases p)
    note a = N(2) [OF Some [unfolded p]]
    then have "{a. map_of (symbolLookupMap L') a \<noteq> None \<and> a \<le> addr} \<noteq> {}" by blast
    with a Some p show ?thesis
      by (auto simp: findNearestSymbol_def loader_findSymbol_def Let_def unat_minus simp del: not_None_eq)
        (metis option.distinct(1))+
  qed
qed

theorem nearest_symbol_witness:
  "\<exists>L k'. loadGame demo_env (demo_loader, demo_load_kernel) = Some (Inr (True, L, k')) \<and> findNearestSymbol 0x8000014 L = ''f + 4''"
proof -
  obtain L k' where L: "loadGame demo_env (demo_loader, demo_load_kernel) = Some (Inr (True, L, k'))"
    "symbolLookupMap L = [(0x8000010, ''f'')]"
    using demo_game by blast
  have "{a. loader_findSymbol a L \<noteq> None \<and> a \<le> 0x8000014} = {0x8000010}"
    by (auto simp: loader_findSymbol_def L(2))
  moreover have "to_string 4 = ''4''" by code_simp
  ultimately have "findNearestSymbol 0x8000014 L = ''f + 4''"
    using nearest_symbol [OF L(1), of "0x8000014"] by (simp add: demo_loader_def loader_findSymbol_def L(2))
  with L show ?thesis by blast
qed

text \<open>
  C26. A module arrives in guest memory: when \<^verbatim>\<open>loadNso\<close> places a module, its image stands at the module's base byte for byte, the bytes of
  every decompressed segment are at the segment's offset of the image (for segments that do not overlap), every other byte that was mapped
  keeps its value and the page allocator keeps its invariant.
\<close>

theorem nso_image_placed:
  assumes "place_nso env buffer (L, k) = Inr (Some (img, modObj, needed), L', k')" and "alloc_inv N (kmem k)"
  shows "module_base modObj = nextFreeAddress L \<and> alloc_inv N (kmem k') \<and>
    (\<forall>i < length img. guest_byte (kmem k') (module_base modObj + of_nat i) = Some (img ! i)) \<and>
    (\<forall>b. guest_byte (kmem k) b \<noteq> None \<and> \<not> unat (b - module_base modObj) < length img \<longrightarrow> guest_byte (kmem k') b = guest_byte (kmem k) b) \<and>
    (sorted_wrt (\<lambda>s t. segment_range env buffer s \<inter> segment_range env buffer t = {}) (nso_segments buffer) \<longrightarrow>
      (\<forall>s \<in> set (nso_segments buffer). \<forall>j < length (segment_bytes env buffer s).
         unat (memoryOffset (fst s)) + j < length img \<and> img ! (unat (memoryOffset (fst s)) + j) = segment_bytes env buffer s ! j))"
proof -
  obtain header k1 where p: "length img < 2 ^ 32" "module_base modObj = nextFreeAddress L" "nso_image env buffer = Inr (True, img)"
    "map_module header (nextFreeAddress L) k = Inr k1" "kwriteRegion (nextFreeAddress L) img k1 = Inr k'"
    using place_nso_effect [OF assms(1)] by auto
  have len: "length img < 2 ^ 64" using p(1) by simp
  have k1: "alloc_inv N (kmem k1)" "\<And>b. guest_byte (kmem k) b \<noteq> None \<Longrightarrow> guest_byte (kmem k1) b = guest_byte (kmem k) b"
    using map_module_grows [OF p(4), of N] assms(2) by (auto simp: mem_grows_def)
  note W = kwriteRegion_effect [OF p(5) k1(1) len]
  show ?thesis
    using W k1 decompress_segments_inside [OF p(3) [unfolded nso_image_def]] len by (auto simp: p(2) unat_of_nat)
qed

theorem nso_image_placed_witness:
  "\<exists>L k'. place_nso demo_env demo_nso (demo_loader, demo_load_kernel) =
     Inr (Some (demo_image, new_ModObject\<lparr>module_base := 0x8000000, strtab := 108, symtab := 84\<rparr>, []), L, k') \<and>
     guest_byte (kmem k') 0x8000004 = Some 8"
proof -
  obtain k' where k': "place_nso demo_env demo_nso (demo_loader, demo_load_kernel) =
     Inr (Some (demo_image, new_ModObject\<lparr>module_base := 0x8000000, strtab := 108, symtab := 84\<rparr>, []), demo_loaded, k')"
    using demo_placed by blast
  have "alloc_inv 2 (kmem demo_load_kernel)" by (simp add: demo_load_kernel_def two_pages_facts)
  then have "\<forall>i < 110. guest_byte (kmem k') (0x8000000 + of_nat i) = Some (demo_image ! i)"
    using nso_image_placed [OF k'] by (simp add: demo_mod(5))
  moreover have "demo_image ! 4 = 8" by code_simp
  ultimately have "guest_byte (kmem k') 0x8000004 = Some 8" by (auto dest: spec [of _ 4])
  with k' show ?thesis by blast
qed

text \<open>
  C27. Loading ends: when no library file of the game is a module that needs libraries itself, \<^verbatim>\<open>loadGame\<close> returns, with a result or a fault;
  none of the loops over guest memory that it runs is one that never ends.
\<close>

theorem loadGame_returns:
  assumes "\<forall>i n buffer s img modObj needed s'. readFile env (workingPath L @ library_name i n) = Some buffer \<longrightarrow>
      place_nso env buffer s = Inr (Some (img, modObj, needed), s') \<longrightarrow> needed = []"
  shows "\<exists>r. loadGame env (L, k) = Some r \<and> r \<noteq> Inl NeverReturns"
proof -
  have "loadExe env (workingPath L @ library_name i n) s \<noteq> None" for i n s
    using assms by (intro loadExe_leaf_returns) blast
  then have returns: "loadExe env path s \<noteq> None" if "workingPath (fst s) = workingPath L" for path s
    using loadExe_returns that by blast
  have "workingPath (fst s) = workingPath L" if "loadExe env path (L, k) = Some (Inr (ok, s))" for path ok s
    using modules_grow_path [OF modules.loadExe_keeps [OF that]] by simp
  then have "loadGame env (L, k) \<noteq> None"
    using returns by (auto simp: loadGame_def load_then_eq_None)
  then show ?thesis using loadGame_ends by (auto simp: load_ends_def)
qed

theorem loadGame_returns_witness:
  "\<exists>r. loadGame demo_env (demo_loader, demo_load_kernel) = Some r \<and> r \<noteq> Inl NeverReturns"
proof (rule loadGame_returns, intro allI impI)
  fix i n buffer s img modObj needed s'
  assume "readFile demo_env (workingPath demo_loader @ library_name i n) = Some buffer"
  moreover have "readFile demo_env (workingPath demo_loader @ library_name i n) = None"
    by (simp add: readFile_def demo_env_def demo_loader_def library_name_def)
  ultimately show "needed = []" by simp
qed

end
