(* ===== verification/Kernel_Boot.thy ===== *)
theory Kernel_Boot
  imports Loader_Laws
begin

text \<open>
  Starting a game, \<^verbatim>\<open>hle/kernel/kernel.cpp\<close>: \<^verbatim>\<open>launchGameCart\<close> maps the fixed regions, loads the game and creates the process; \<^verbatim>\<open>cpuEntry\<close>, the
  first code of each core's thread, creates the main thread on core 0. The loop at its end is \<^verbatim>\<open>waitForInterrupt\<close> and \<^verbatim>\<open>resume\<close>, the subjects of
  \<open>Cpu_Interrupts\<close> and \<open>Cpu_Run\<close>. \<open>raw\<close> is the contents of the memory a new thread is placed in.
\<close>

definition launchGameCart :: "LoaderEnv \<Rightarrow> string \<Rightarrow> LState \<Rightarrow> (fault + bool \<times> LState) option" where
  "launchGameCart env gBasePath = (\<lambda>(L, k).
     if gBasePath = [] then Some (Inr (False, L, k))
     else load_then (Some (and_then (map_region 0 (shl 1 36) UNMAPPED NONE k) (\<lambda>k.
            and_then (map_region 0x700000000 (0x200 * 32) THEAD_LOCAL_STORAGE READ_WRITE k)
              (map_region 0xE0000000 0x10000000 NORMAL READ_WRITE))))
       (\<lambda>k. load_then (loadGame env (setRootPath gBasePath L, k)) (\<lambda>(ok, L, k).
          if \<not> ok then Some (Inr (False, L, k))
          else let (process, k) = new_object ProcessObject k
               in Some (Inr (True, L, k\<lparr>gCurrentProcess := process\<rparr>)))))"

definition stopGame :: "Kernel \<Rightarrow> Kernel" where
  "stopGame k = k\<lparr>gHandles := snd (closeHandle (gCurrentProcess k) (gHandles k)), gCurrentProcess := INVALID_HANDLE\<rparr>"

definition isGameRunning :: "Kernel \<Rightarrow> bool" where
  "isGameRunning k \<longleftrightarrow> gCurrentProcess k \<noteq> INVALID_HANDLE"

definition getCurrentProcess :: "Kernel \<Rightarrow> nat option" where
  "getCurrentProcess k = fst (lookupObject (gCurrentProcess k) (gHandles k))"

definition getCommandBuffer :: "Kernel \<Rightarrow> fault + u64" where
  "getCommandBuffer k = and_then (thread_at (getCurrentThread k) k) (\<lambda>t. translate (getTLS t) (kmem k))"

definition segFaultHandler :: "Environment \<Rightarrow> Kernel \<Rightarrow> fault + Kernel" where
  "segFaultHandler env k = debugBreakHandler env k"

definition illInstHandler :: "Kernel \<Rightarrow> Kernel" where
  "illInstHandler k = send_to (coreNum (this_core k)) DEBUG_BREAK_INTERRUPT k"

definition set_ctx_reg :: "reg \<Rightarrow> u64 \<Rightarrow> Thread \<Rightarrow> Thread" where
  "set_ctx_reg r v t = t\<lparr>thread_context := (thread_context t)\<lparr>ctx_GPRegs := (ctx_GPRegs (thread_context t))(r := v)\<rparr>\<rparr>"

definition cpuEntry :: "PSTATE_t \<Rightarrow> Loader \<Rightarrow> Kernel \<Rightarrow> fault + Kernel" where
  "cpuEntry raw L k =
     (if getCoreID k = 0 then
        and_then (createThread raw (getProgramEntry L) 0 0xF0000000 0 0 k) (\<lambda>(coreThread, k).
        and_then (upd_thread (getThread coreThread k) (set_ctx_reg 0 0) k) (\<lambda>k.
        and_then (upd_thread (getThread coreThread k) (set_ctx_reg 1 (ucast coreThread)) k) (\<lambda>k.
        and_then (startThread coreThread k) (\<lambda>k. Inr (send_to 0 GENERIC_INTERRUPT k)))))
      else Inr k)"

subsection \<open>The main thread\<close>

lemma new_object_found:
  assumes "handle_inv n (gHandles k)" and "n < 65536"
  shows "\<exists>k'. new_object ob k = (of_nat n + 1, k') \<and> getThread (of_nat n + 1) k' = Some (nextObject k) \<and>
    k' = k\<lparr>gHandles := gHandles k', heap := (heap k)(nextObject k \<mapsto> ob), nextObject := nextObject k + 1\<rparr> \<and> handle_inv (Suc n) (gHandles k')"
proof -
  obtain h hm' where c: "createHandle (\<lambda>_. getType ob) (nextObject k) (gHandles k) = (h, hm')" by fastforce
  then have h: "h = of_nat n + 1" using assms(1) by (auto simp: createHandle_def Let_def handle_inv_def)
  note C = create_sim [OF assms c]
  have "lookupObject h hm' = (Some (nextObject k), hm')"
    using lookup_sim [OF C(1), of h] by (simp add: C(3) h ucast_u16_Suc)
  moreover have "h \<noteq> INVALID_THREAD"
    using of_nat_u32_inj [of "Suc n" 0] assms(2) by (simp add: h INVALID_THREAD_def add.commute)
  ultimately show ?thesis
    using C(1) by (simp add: new_object_def c getThread_def h)
qed

text \<open>The thread \<^verbatim>\<open>cpuEntry\<close> creates.\<close>

definition main_thread :: "PSTATE_t \<Rightarrow> u64 \<Rightarrow> u64 \<Rightarrow> handle_t \<Rightarrow> Thread" where
  "main_thread raw entry tls h = (let t = new_Thread raw entry 0 0xF0000000 0 0
     in set_ctx_reg 1 (ucast h) (set_ctx_reg 0 0 (t\<lparr>status := INITIALIZED, thread_context := (thread_context t)\<lparr>ctx_TLSAddr := tls\<rparr>\<rparr>)))"

lemma cpuEntry_effect:
  assumes inv: "handle_inv n (gHandles k)" and n: "n < 65536" and core: "getCoreID k = 0" and lock: "\<not> gSchedulerLock k"
  shows "\<exists>hm. let h = of_nat n + 1; t = main_thread raw (getProgramEntry L) (0x700000000 + gTlsSlotcounter k * 0x200) h in
    cpuEntry raw L k = Inr (send_to 0 GENERIC_INTERRUPT (k\<lparr>gHandles := hm, nextObject := nextObject k + 1,
      gTlsSlotcounter := gTlsSlotcounter k + 1, heap := (heap k)(nextObject k \<mapsto> ThreadObject (t\<lparr>status := READY\<rparr>)), gThreadLists := (gThreadLists k)(0 := gThreadLists k 0 @ [h])\<rparr>)) \<and>
    fst (lookupObject h hm) = Some (nextObject k) \<and> h \<noteq> INVALID_THREAD"
proof -
  let ?h = "of_nat n + 1 :: handle_t"
  let ?init = "let t = new_Thread raw (getProgramEntry L) 0 0xF0000000 0 0
    in t\<lparr>status := INITIALIZED, thread_context := (thread_context t)\<lparr>ctx_TLSAddr := 0x700000000 + gTlsSlotcounter k * 0x200\<rparr>\<rparr>"
  let ?start = "k\<lparr>gSchedulerLock := True, gTlsSlotcounter := gTlsSlotcounter k + 1\<rparr>"
  obtain k1 where k1: "new_object (ThreadObject ?init) ?start = (?h, k1)" "getThread ?h k1 = Some (nextObject k)"
    "k1 = ?start\<lparr>gHandles := gHandles k1, heap := (heap k)(nextObject k \<mapsto> ThreadObject ?init), nextObject := nextObject k + 1\<rparr>"
    using new_object_found [of n ?start "ThreadObject ?init"] inv n by auto
  have c: "createThread raw (getProgramEntry L) 0 0xF0000000 0 0 k = Inr (?h, unlockScheduler k1)"
    using k1(1) lock by (simp add: createThread_def lockScheduler_def Let_def)
  have f: "fst (lookupObject ?h (gHandles k1)) = Some (nextObject k)" "?h \<noteq> INVALID_THREAD"
    using k1(2) by (auto simp: getThread_def split: if_splits)
  let ?made = "k\<lparr>gHandles := gHandles k1, heap := (heap k)(nextObject k \<mapsto> ThreadObject ?init), nextObject := nextObject k + 1,
    gTlsSlotcounter := gTlsSlotcounter k + 1\<rparr>"
  have k2: "unlockScheduler k1 = ?made" using lock by (subst k1(3)) (cases k, simp add: unlockScheduler_def)
  have g: "getThread ?h k' = Some (nextObject k)" if "gHandles k' = gHandles k1" for k'
    using getThread_cong [OF that] k1(2) by simp
  have u: "upd_thread (Some (nextObject k)) f k' = Inr (k'\<lparr>heap := (heap k')(nextObject k \<mapsto> ThreadObject (f t))\<rparr>)"
    if "heap k' (nextObject k) = Some (ThreadObject t)" for k' f t
    using that by (simp add: upd_thread_def thread_at_def)
  let ?t = "main_thread raw (getProgramEntry L) (0x700000000 + gTlsSlotcounter k * 0x200) ?h"
  let ?set = "?made\<lparr>heap := (heap k)(nextObject k \<mapsto> ThreadObject ?t)\<rparr>"
  have t: "set_ctx_reg 1 (ucast ?h) (set_ctx_reg 0 0 ?init) = ?t" by (simp add: main_thread_def Let_def)
  have aff: "affinity ?t = 0" by (simp add: main_thread_def Let_def set_ctx_reg_def new_Thread_def DEFAULT_CORE_def)
  have s: "startThread ?h ?set = Inr (?set\<lparr>heap := (heap k)(nextObject k \<mapsto> ThreadObject (?t\<lparr>status := READY\<rparr>)),
      gThreadLists := (gThreadLists k)(0 := gThreadLists k 0 @ [?h])\<rparr>)"
    using lock aff by (simp add: startThread_def u g thread_at_def Let_def lockScheduler_def push_thread_def NUM_CORES_def)
      (cases k, simp add: unlockScheduler_def)
  have "cpuEntry raw L k = Inr (send_to 0 GENERIC_INTERRUPT (k\<lparr>gHandles := gHandles k1, nextObject := nextObject k + 1,
      gTlsSlotcounter := gTlsSlotcounter k + 1, heap := (heap k)(nextObject k \<mapsto> ThreadObject (?t\<lparr>status := READY\<rparr>)), gThreadLists := (gThreadLists k)(0 := gThreadLists k 0 @ [?h])\<rparr>))"
    unfolding cpuEntry_def using core s
    by (simp add: c k2 u g t del: Let_def)
  with f show ?thesis by (auto simp: Let_def)
qed

lemma interrupt_bits: "GENERIC_INTERRUPT = 1" "DEBUG_BREAK_INTERRUPT = 2" "RESET_INTERRUPT = 4"
  by (simp_all add: GENERIC_INTERRUPT_def DEBUG_BREAK_INTERRUPT_def RESET_INTERRUPT_def shl_def push_bit_eq_mult)

text \<open>A loader whose program starts at the first module.\<close>

definition demo_program :: Loader where
  "demo_program = demo_loaded\<lparr>prog := (prog demo_loaded)\<lparr>eh := (eh (prog demo_loaded))\<lparr>e_entry := 0x8000000\<rparr>\<rparr>\<rparr>"

subsection \<open>Properties\<close>

text \<open>
  C28. The main thread starts: on an idle core 0 \<^verbatim>\<open>cpuEntry\<close> creates a thread and interrupts the core, and the interrupt handler then runs it:
  the core is active at the entry point of the program with the stack pointer 0xF0000000, zero in register 0, the handle of the thread in
  register 1 and its own thread-local storage.
\<close>

theorem main_thread_starts:
  assumes "handle_inv n (gHandles k)" and "n < 65536" and "getCoreID k = 0" and "tCurrentCore k = 0" and "\<not> gSchedulerLock k"
    and "gCurrentThreads k 0 = INVALID_THREAD" and "gThreadLists k 0 = []"
  shows "\<exists>k1 k2. cpuEntry raw L k = Inr k1 \<and> interrupts (this_core k1) AND GENERIC_INTERRUPT \<noteq> 0 \<and>
    interruptHandler env GENERIC_INTERRUPT k1 = Inr k2 \<and>
    gCurrentThreads k2 0 = of_nat n + 1 \<and> isActive (this_core k2) \<and> PC (this_core k2) = getProgramEntry L \<and>
    SP (this_core k2) = 0xF0000000 \<and> GPRegs (this_core k2) 0 = 0 \<and> GPRegs (this_core k2) 1 = ucast (of_nat n + 1 :: handle_t) \<and>
    TLSAddr (this_core k2) = 0x700000000 + gTlsSlotcounter k * 0x200"
proof -
  let ?h = "of_nat n + 1 :: handle_t"
  define t where "t = main_thread raw (getProgramEntry L) (0x700000000 + gTlsSlotcounter k * 0x200) ?h"
  obtain hm where e: "cpuEntry raw L k = Inr (send_to 0 GENERIC_INTERRUPT (k\<lparr>gHandles := hm, nextObject := nextObject k + 1,
      gTlsSlotcounter := gTlsSlotcounter k + 1, heap := (heap k)(nextObject k \<mapsto> ThreadObject (t\<lparr>status := READY\<rparr>)),
      gThreadLists := (gThreadLists k)(0 := gThreadLists k 0 @ [?h])\<rparr>))"
    and f: "fst (lookupObject ?h hm) = Some (nextObject k)" "?h \<noteq> INVALID_THREAD"
    using cpuEntry_effect [OF assms(1-3,5), of raw L] unfolding Let_def t_def by blast
  define k1 where "k1 = send_to 0 GENERIC_INTERRUPT (k\<lparr>gHandles := hm, nextObject := nextObject k + 1,
      gTlsSlotcounter := gTlsSlotcounter k + 1, heap := (heap k)(nextObject k \<mapsto> ThreadObject (t\<lparr>status := READY\<rparr>)),
      gThreadLists := (gThreadLists k)(0 := gThreadLists k 0 @ [?h])\<rparr>)"
  define kl where "kl = k1\<lparr>gSchedulerLock := True\<rparr>"
  have c: "getCoreID kl = 0" using assms(3,4) by (simp add: kl_def k1_def send_to_def getCoreID_def this_core_def sendInterrupts_def)
  have kl: "gThreadLists kl 0 = [?h]" "getCurrentHandle kl = INVALID_THREAD" "thread_of ?h kl = Some (t\<lparr>status := READY\<rparr>)"
    using assms(6,7) f c by (simp_all add: getCurrentHandle_def kl_def k1_def send_to_def thread_of_def getThread_def thread_at_def)
  have p: "priority t = 0" by (simp add: t_def main_thread_def Let_def set_ctx_reg_def new_Thread_def)
  have "popBest (gThreadLists kl (getCoreID kl)) NO_PRIORITY kl = Inr (?h, [])"
    using f(2) p thread_at_Some [OF kl(3)] by (simp add: c kl(1) popBest_def NO_PRIORITY_def)
  from reschedule_from_idle [OF kl(2) this kl(3) f(2)] obtain k2 where k2: "rescheduleNoLock kl = Inr k2"
    "gCurrentThreads k2 = (gCurrentThreads kl)(0 := ?h)" "this_core k2 = (loaded (t\<lparr>status := READY\<rparr>) (this_core kl))\<lparr>isActive := True\<rparr>"
    unfolding c by blast
  have "interruptHandler env GENERIC_INTERRUPT k1 = Inr (unlockScheduler k2)"
    using k2(1) assms(5) by (simp add: interruptHandler_def interrupt_bits lockScheduler_def kl_def k1_def send_to_def)
  moreover have "this_core (unlockScheduler k2) = this_core k2" "gCurrentThreads (unlockScheduler k2) = gCurrentThreads k2"
    by (simp_all add: unlockScheduler_def this_core_def)
  moreover have "(x OR 1) AND 1 = (1 :: u64)" for x by (rule bit_word_eqI) (auto simp: bit_simps)
  then have "interrupts (this_core k1) AND GENERIC_INTERRUPT \<noteq> 0"
    using assms(4) by (simp add: k1_def send_to_def this_core_def sendInterrupts_def interrupt_bits)
  ultimately show ?thesis
    using e k2 unfolding k1_def [symmetric]
    by (auto simp: loaded_def restoreState_def t_def main_thread_def Let_def set_ctx_reg_def new_Thread_def)
qed

theorem main_thread_starts_witness:
  "\<exists>k1 k2. cpuEntry (PSTATE zero_core) demo_program boot_kernel = Inr k1 \<and>
    interruptHandler \<lparr>now = 0, raw_flags = PSTATE zero_core, interfaces = (\<lambda>_. []), gNamedPorts = [], debugBreakHandler = Inr\<rparr>
      GENERIC_INTERRUPT k1 = Inr k2 \<and> PC (this_core k2) = 0x8000000 \<and> GPRegs (this_core k2) 1 = 1"
  using main_thread_starts [of 0 boot_kernel "PSTATE zero_core" demo_program
      "\<lparr>now = 0, raw_flags = PSTATE zero_core, interfaces = (\<lambda>_. []), gNamedPorts = [], debugBreakHandler = Inr\<rparr>"]
  by (auto simp: boot_kernel_def handle_init_inv getCoreID_def this_core_def getProgramEntry_def demo_program_def)

end
