(* ===== verification/Service_Laws.thy ===== *)
theory Service_Laws
  imports Services Kernel_Boot
begin

text \<open>
  What holds of every service function. The locale \<open>service_relation\<close> has what a relation between the states before and after must satisfy to hold of all
  functions of all tables and of the drawing pass; it is interpreted for the part of the kernel that services leave alone (\<open>threads\<close>) and for the references between displays, layers and buffer queues
  (\<open>display_refs\<close>). The service manager connects to the service registered under a name, memory objects keep what was stored in them, and a drawn frame is the guest memory the queued buffer names.
\<close>

subsection \<open>Machines\<close>

definition same_core :: "Core \<Rightarrow> Core \<Rightarrow> bool" where
  "same_core c c' \<longleftrightarrow> c'\<lparr>interrupts := 0\<rparr> = c\<lparr>interrupts := 0\<rparr>"

lemma same_core_refl [simp]: "same_core c c"
  by (simp add: same_core_def)

lemma same_core_trans: "same_core a b \<Longrightarrow> same_core b c \<Longrightarrow> same_core a c"
  by (simp add: same_core_def)

lemma same_core_send [simp]: "same_core c (sendInterrupts ints c)"
  by (simp add: same_core_def sendInterrupts_def)

lemma same_core_breakpoint [simp]: "same_core (mcore mc) (mcore (check_breakpoint a mc))"
  by (simp add: check_breakpoint_def)

lemma read_same_core: "mem_read sz a mc = Inr (v, mc') \<Longrightarrow> same_core (mcore mc) (mcore mc')"
  by (auto simp: mem_read_def Let_def and_then_Inr_iff)

lemma write_same_core: "mem_write sz a v mc = Inr mc' \<Longrightarrow> same_core (mcore mc) (mcore mc')"
  by (auto simp: mem_write_def Let_def and_then_Inr_iff set_host_def)

lemma region_same_core:
  assumes "readRegion addr n mc = Inr (bs, mc')"
  shows "same_core (mcore mc) (mcore mc')"
proof -
  have "\<forall>bs mc'. r = Inr (bs, mc') \<longrightarrow> same_core (mcore mc) (mcore mc')" if "readRegion_loop addr n i out mc = Some r" for i out r
    using that
  proof (rule readRegion_loop.raw_induct [rotated], goal_cases)
    case (1 loop addr n i out mc r)
    show ?case
    proof (cases "unat i < n")
      case True
      with 1(2) show ?thesis
        by (auto split: if_splits sum.splits dest!: 1(1) dest: read_same_core intro: same_core_trans)
    qed (use 1(2) in auto)
  qed
  with assms show ?thesis by (auto simp: readRegion_def outcome_Inr)
qed

subsection \<open>Displays\<close>

text \<open>Every layer of a display exists, and so does the buffer queue of every layer.\<close>

definition display_ok :: "DisplayManager \<Rightarrow> bool" where
  "display_ok dm \<longleftrightarrow> (\<forall>d \<in> set (displays dm). set (display_layers d) \<subseteq> layer_id ` set (layers dm))
     \<and> layer_bufferId ` set (layers dm) \<subseteq> queue_id ` set (queues dm)"

lemma find_ref_exists: "(\<exists>x. find_ref P xs = Inr x \<and> x \<in> set xs) \<longleftrightarrow> (\<exists>x \<in> set xs. P x)"
  by (auto simp: find_ref_def find_None_iff find_Some_iff split: option.splits)

lemma display_ok_finds:
  assumes "display_ok dm" and "d \<in> set (displays dm)" and "l \<in> set (display_layers d)"
  shows "\<exists>layer q. getLayer l dm = Inr layer \<and> getBufferQueue (layer_bufferId layer) dm = Inr q"
proof -
  from assms have "l \<in> layer_id ` set (layers dm)" unfolding display_ok_def by blast
  then have "\<exists>x \<in> set (layers dm). layer_id x = l" by auto
  then obtain layer where layer: "getLayer l dm = Inr layer" "layer \<in> set (layers dm)"
    using find_ref_exists [of "\<lambda>x. layer_id x = l" "layers dm"] by (auto simp: getLayer_def)
  with assms(1) have "layer_bufferId layer \<in> queue_id ` set (queues dm)" unfolding display_ok_def by blast
  then have "\<exists>q \<in> set (queues dm). queue_id q = layer_bufferId layer" by auto
  with find_ref_exists [of "\<lambda>q. queue_id q = layer_bufferId layer" "queues dm"] layer(1) show ?thesis by (auto simp: getBufferQueue_def)
qed

lemma at_first_map:
  assumes "at_first P f xs = Inr (x, ys)" and "g (f x) = g x"
  shows "map g ys = map g xs"
  using assms by (auto elim!: at_first_Inr)

lemma on_queue_ok:
  assumes "on_queue i f dm = Inr (r, dm')" and "\<And>q r q'. f q = Inr (r, q') \<Longrightarrow> queue_id q' = queue_id q"
  shows "display_ok dm \<Longrightarrow> display_ok dm'"
proof -
  obtain q r' q' z qs where q: "getBufferQueue i dm = Inr q" "f q = Inr (r', q')"
      "at_first (\<lambda>q. queue_id q = i) (\<lambda>_. q') (queues dm) = Inr (z, qs)" "dm' = dm\<lparr>queues := qs\<rparr>"
    using assms(1) by (auto simp: on_queue_def and_then_Inr_iff)
  have "queue_id q = i" using q(1) by (auto simp: getBufferQueue_def find_ref_def find_Some_iff split: option.splits)
  moreover have "queue_id z = i" using q(3) by (auto elim!: at_first_Inr)
  ultimately have "map queue_id qs = map queue_id (queues dm)" using at_first_map [OF q(3), of queue_id] assms(2) [OF q(2)] by simp
  then have "queue_id ` set qs = queue_id ` set (queues dm)" by (metis list.set_map)
  then show "display_ok dm \<Longrightarrow> display_ok dm'" by (simp add: q(4) display_ok_def)
qed

lemma createLayer_ok:
  assumes "createLayer i dm = Inr (l, dm')" and "display_ok dm"
  shows "display_ok dm'"
proof -
  obtain z ds where z: "at_first (\<lambda>d. display_id d = i) (addLayer (nextLayer dm)) (displays dm) = Inr (z, ds)"
      "dm' = dm\<lparr>nextLayer := nextLayer dm + 1, nextBuffer := nextBuffer dm + 1, queues := queues dm @ [new_BufferQueue (nextBuffer dm)],
        layers := layers dm @ [\<lparr>layer_id = nextLayer dm, layer_bufferId = nextBuffer dm\<rparr>], displays := ds\<rparr>"
    using assms(1) by (auto simp: createLayer_def createBufferQueue_def Let_def and_then_Inr_iff)
  obtain pre post where "displays dm = pre @ z # post" "ds = pre @ addLayer (nextLayer dm) z # post" by (rule at_first_Inr [OF z(1)])
  with assms(2) show ?thesis unfolding z(2) display_ok_def by (auto simp: addLayer_def new_BufferQueue_def)
qed

subsection \<open>Memory objects\<close>

text \<open>Handles and identifiers of memory objects are given out in order, starting with 1.\<close>

definition nvmap_ok :: "ServiceState \<Rightarrow> bool" where
  "nvmap_ok st \<longleftrightarrow> map nv_handle (gMapObjects st) = map (\<lambda>i. of_nat (Suc i)) [0..<length (gMapObjects st)]
     \<and> map nv_id (gMapObjects st) = map (\<lambda>i. of_nat (Suc i)) [0..<length (gMapObjects st)]
     \<and> handleCounter st = of_nat (Suc (length (gMapObjects st))) \<and> idCounter st = of_nat (Suc (length (gMapObjects st)))"

definition services_ok :: "ServiceState \<Rightarrow> bool" where
  "services_ok st \<longleftrightarrow> display_ok (gDisplayManager st) \<and> nvmap_ok st"

lemma update_first_map [simp]: "(\<And>x. g (f x) = g x) \<Longrightarrow> map g (update_first P f xs) = map g xs"
  by (induction xs) auto

lemma length_update_first [simp]: "length (update_first P f xs) = length xs"
  by (induction xs) auto

lemma services_ok_upd [simp]:
  "services_ok (st\<lparr>timesCalled := n\<rparr>) = services_ok st" "services_ok (st\<lparr>fenceId := x\<rparr>) = services_ok st"
  "services_ok (st\<lparr>smInitialized := b\<rparr>) = services_ok st" "services_ok (st\<lparr>appletMessage := x\<rparr>) = services_ok st"
  "services_ok (st\<lparr>displayBuffer := bs\<rparr>) = services_ok st"
  "services_ok (st\<lparr>gDisplayManager := dm\<rparr>) \<longleftrightarrow> display_ok dm \<and> nvmap_ok st"
  by (simp_all add: services_ok_def nvmap_ok_def)

lemma services_ok_create: "services_ok st \<Longrightarrow> services_ok (st\<lparr>handleCounter := handleCounter st + 1, idCounter := idCounter st + 1,
    gMapObjects := gMapObjects st @ [new_nvmap env (handleCounter st) (idCounter st) n k]\<rparr>)"
  by (simp add: services_ok_def nvmap_ok_def new_nvmap_def Let_def)

lemma services_ok_alloc: "services_ok (st\<lparr>gMapObjects := update_first P
    (\<lambda>ob. ob\<lparr>nv_align := a, nv_heap := h, nv_kind := x, nv_addr := b\<rparr>) (gMapObjects st)\<rparr>) = services_ok st"
  by (simp add: services_ok_def nvmap_ok_def)

subsection \<open>Relations that all services respect\<close>

locale service_relation =
  fixes R :: "Kernel \<Rightarrow> Kernel \<Rightarrow> bool"
  assumes R_refl: "R k k"
    and R_trans: "R k k1 \<Longrightarrow> R k1 k2 \<Longrightarrow> R k k2"
    and R_machine: "same_core (this_core k) (mcore mc) \<Longrightarrow> R k (put_machine mc k)"
    and R_object: "R k (snd (new_object ob k))"
    and R_map: "R k (k\<lparr>gMappings := ms, kmem := m\<rparr>)"
    and R_interrupt: "R k (send_to c ints k)"
    and R_state: "(services_ok (gServices k) \<Longrightarrow> services_ok (f (gServices k))) \<Longrightarrow> R k (upd_services f k)"
begin

text \<open>The three shapes of results: a state, a value with a state, and the answer of a service function.\<close>

definition holds :: "('a \<Rightarrow> Kernel) \<Rightarrow> Kernel \<Rightarrow> fault + 'a \<Rightarrow> bool" where
  "holds st k r \<longleftrightarrow> (case r of Inl _ \<Rightarrow> True | Inr x \<Rightarrow> R k (st x))"

lemma holds_Inl [simp]: "holds st k (Inl e)"
  by (simp add: holds_def)

lemma holds_Inr [simp]: "holds st k (Inr x) \<longleftrightarrow> R k (st x)"
  by (simp add: holds_def)

lemma holds_then: "holds st k r \<Longrightarrow> (\<And>x. r = Inr x \<Longrightarrow> holds st' (st x) (f x)) \<Longrightarrow> holds st' k (and_then r f)"
  by (cases r) (auto simp: holds_def intro: R_trans split: sum.splits)

lemma holds_after: "R k k1 \<Longrightarrow> holds st k1 r \<Longrightarrow> holds st k r"
  by (auto simp: holds_def intro: R_trans split: sum.splits)

text \<open>A step that reads no state.\<close>

lemma holds_pure: "(\<And>x. r = Inr x \<Longrightarrow> holds st k (f x)) \<Longrightarrow> holds st k (and_then r f)"
  by (cases r) auto

lemma kread_holds: "holds snd k (kread sz a k)"
  unfolding kread_def by (rule holds_pure) (auto intro!: R_machine dest!: read_same_core simp: machine_of_def)

lemma kwrite_holds: "holds id k (kwrite sz a v k)"
  unfolding kwrite_def by (rule holds_pure) (auto intro!: R_machine dest!: write_same_core simp: machine_of_def)

lemma write_all_holds: "holds id k (write_all ws k)"
proof (induction ws arbitrary: k)
  case (Cons w ws)
  obtain sz a v where "w = (sz, a, v)" by (cases w)
  with Cons.IH show ?case by (auto intro!: holds_then [where st = id] kwrite_holds)
qed (simp add: R_refl)

lemma read_array_holds:
  assumes "\<And>a k. holds snd k (f a k)"
  shows "holds snd k (read_array n f stride a k)"
proof (induction n arbitrary: a k)
  case (Suc n)
  show ?case
    by (auto intro!: holds_then [where st = snd] assms Suc.IH simp: R_refl split: prod.splits)
qed (simp add: R_refl)

lemma read_u8s_holds: "holds snd k (read_u8s n a k)"
  unfolding read_u8s_def
  by (intro read_array_holds holds_then [where st = snd] kread_holds) (auto simp: R_refl)

lemma read_all_holds: "holds snd k (read_all rs k)"
proof (induction rs arbitrary: k)
  case (Cons r rs)
  obtain sz a where "r = (sz, a)" by (cases r)
  with Cons.IH show ?case
    by (auto intro!: holds_then [where st = snd] kread_holds simp: R_refl)
qed (simp add: R_refl)

lemma write_holds: "holds id k (fill_zero a n k)" "holds id k (write_u8s a bs k)" "holds id k (write_parcel a ws k)"
  by (simp_all add: fill_zero_def write_u8s_def write_parcel_def write_all_holds)

lemma open_holds: "holds (snd \<circ> snd) k (open_interface i info reply k)"
  using R_object [of k "InterfaceObject i False"] by (simp add: open_interface_def connect_def split_beta)

lemma on_displays_holds:
  assumes "\<And>dm r dm'. f dm = Inr (r, dm') \<Longrightarrow> display_ok dm \<Longrightarrow> display_ok dm'"
  shows "holds snd k (on_displays f k)"
  unfolding on_displays_def
proof (rule holds_pure)
  fix x assume "f (gDisplayManager (gServices k)) = Inr x"
  with assms show "holds snd k (case x of (r, dm) \<Rightarrow> Inr (r, upd_services (\<lambda>st. st\<lparr>gDisplayManager := dm\<rparr>) k))"
    by (cases x) (auto intro!: R_state simp: services_ok_def nvmap_ok_def)
qed

text \<open>Operations on a buffer queue keep its number.\<close>

lemma queue_ops_holds:
  "holds snd k (on_displays (on_queue i dequeueBuffer) k)"
  "holds snd k (on_displays (on_queue i (\<lambda>q. and_then (queueBuffer s q) (\<lambda>q. Inr ((), q)))) k)"
  "holds snd k (on_displays (on_queue i (\<lambda>q. and_then (freeBuffer s q) (\<lambda>q. Inr ((), q)))) k)"
  "holds snd k (on_displays (on_queue i (\<lambda>q. Inr ((), setPreallocatedBuffer s b q))) k)"
  "holds snd k (on_displays (createLayer d) k)"
  by (rule on_displays_holds, erule on_queue_ok, auto simp: dequeueBuffer_def queueBuffer_def freeBuffer_def setPreallocatedBuffer_def and_then_Inr_iff)+
    (rule on_displays_holds, erule createLayer_ok, assumption)

lemmas pure_steps = holds_pure [where r = "readArgs n info" for n info] holds_pure [where r = "first_of xs" for xs]
  holds_pure [where r = "getBufferQueue i dm" for i dm] holds_pure [where r = "requestBuffer s q" for s q] holds_pure [where r = "dumpMem a n m" for a n m]
  holds_pure [where r = "lookupNvmapObject h k" for h k] holds_pure [where r = "readObjectFromBuffer n bs" for n bs] holds_pure [where r = "c_string bs off" for bs off]
  holds_pure [where r = "openDisplay name dm" for name dm] holds_pure [where r = "getLayer i dm" for i dm] holds_pure [where r = "ioctl_input info" for info]
  holds_pure [where r = "ioctl_output info" for info] holds_pure [where r = "log_strings data n i" for data n i]

lemmas read_steps = holds_then [where st = snd, OF kread_holds] holds_then [where st = snd, OF read_all_holds] holds_then [where st = snd, OF read_u8s_holds]

lemmas write_steps = write_holds write_holds [THEN holds_then [where st = id]] kwrite_holds [THEN holds_then [where st = id]]
  write_all_holds [THEN holds_then [where st = id]]

lemmas display_steps = queue_ops_holds [THEN holds_then [where st = snd]]

lemma transact_holds:
  "holds id k (transact_request i a b k)" "holds id k (transact_dequeue i a b k)" "holds id k (transact_queue i a b k)"
  "holds id k (transact_connect b k)" "holds id k (transact_preallocated i a k)"
  unfolding transact_request_def transact_dequeue_def transact_queue_def transact_connect_def transact_preallocated_def Let_def
  by (auto intro!: read_steps display_steps pure_steps write_steps R_refl simp del: read_all.simps)

abbreviation obeys :: "InterfaceFunc \<Rightarrow> bool" where
  "obeys f \<equiv> \<forall>info reply k. holds (snd \<circ> snd) k (f info reply k)"

lemma binder_obeys: "obeys IHOSBinderDriver_TransactParcelAuto"
  unfolding IHOSBinderDriver_TransactParcelAuto_def Let_def
  by (auto intro!: pure_steps transact_holds [THEN holds_then [where st = id]] simp: R_refl)

lemma map_region_holds: "holds id k (map_region a n t p k)"
  unfolding map_region_def by (rule holds_pure) (auto intro: R_map)

lemma device_holds:
  assumes "(n, Some f) \<in> set (device_functions env dev)"
  shows "holds (snd \<circ> snd) k (f inp k)"
  using assms
  by (cases dev)
    (auto simp: GetConfig_def ZcullGetCtxSize_def ZcullGetInfo_def GetCharacteristics_def GetTpcMasks_def GetL2State_def IocCreate_def IocFromId_def
      IocAlloc_def IocParam_def IocGetId_def BindChannel_def AllocSpace_def MapBufferEx_def AsGpu_Initialize_def GetVaRegions_def InitializeEx_def SetNvmapFd_def
      AllocObjCtx_def ZcullBind_def SetErrorNotifier_def SetPriority_def SetUserData_def AllocGpfifoEx2_def logged_command_def Let_def R_refl services_ok_create services_ok_alloc
      intro!: pure_steps map_region_holds [THEN holds_then [where st = id]] R_state)

lemma ioctl_holds: "holds (snd \<circ> snd) k (sendIoctl env h cmd inp k)"
proof -
  have "holds (snd \<circ> snd) k (handleIoctl env dev cmd inp k)" for dev
    using device_holds find_Some_iff
    by (auto simp: handleIoctl_def R_refl split: option.splits dest!: find_SomeD)
  then show ?thesis by (auto simp: sendIoctl_def split: option.splits KObject.splits)
qed

text \<open>Functions that only answer, log their arguments or open an interface.\<close>

lemma simple_obeys: "obeys (SERVICE_FUNC_STUB name)" "obeys just_succeed" "obeys (log_args n)" "obeys (answer bytes)" "obeys (open_interface i)"
  by (auto simp: SERVICE_FUNC_STUB_def just_succeed_def log_args_def answer_def R_refl open_holds intro!: pure_steps)

lemmas simple_functions = SmService_RegisterService_def SmService_UnregisterService_def IAccountServiceForApplication_GetProfile_def
      IAccountServiceForApplication_InitializeApplicationInfo_def IAccountServiceForApplication_GetBaasAccountManagerForApplication_def
      IAllSystemAppletProxiesService_OpenLibraryAppletProxyOld_def IApplicationFunctions_PopLaunchParameter_def IApplicationFunctions_GetDesiredLanguage_def
      IApplicationFunctions_SetTerminateResult_def IApplicationProxy_GetCommonStateGetter_def IApplicationProxy_GetSelfController_def
      IApplicationProxy_GetWindowController_def IApplicationProxy_GetAudioController_def IApplicationProxy_GetDisplayController_def
      IApplicationProxy_GetProcessWindingController_def IApplicationProxy_GetLibraryAppletCreator_def IApplicationProxy_GetApplicationFunctions_def
      IApplicationProxy_GetDebugFunctions_def IApplicationProxyService_OpenApplicationProxy_def ICommonStateGetter_GetOperationMode_def
      ICommonStateGetter_GetPerformanceMode_def ICommonStateGetter_GetCurrentFocusState_def ILibraryAppletProxy_GetSelfController_def
      ILibraryAppletProxy_GetWindowController_def ISelfController_SetOperationModeChangedNotification_def
      ISelfController_SetPerformanceModeChangedNotification_def ISelfController_SetFocusHandlingMode_def ISelfController_SetRestartMessageEnabled_def
      ISelfController_SetScreenShotAppletIdentityInfo_def ISelfController_SetOutOfFocusSuspendingEnabled_def am_IStorage_Open_def
      IWindowController_GetAppletResourceUserId_def IWindowController_AcquireForegroundRights_def IManager_OpenSession_def
      ISession_SetPerformanceConfiguration_def IFileSystemProxy_Initialize_def IFileSystemProxy_MountSaveData_def
      IFileSystemProxy_OpenDataStorageByCurrentProcess_def IFileSystemProxy_OpenRomStorage_def IHidServer_ActivateTouchScreen_def
      IHidServer_SetSupportedNpadStyleSet_def IHidServer_SetSupportedNpadIdType_def IHidServer_ActivateNpad_def IHidServer_SetNpadJoyHoldType_def
      nifm_IStaticService_CreateGeneralServiceOld_def IParentalControlServiceFactory_CreateService_def timesrv_IStaticService_GetStandardUserSystemClock_def
      timesrv_IStaticService_GetStandardNetworkSystemClock_def timesrv_IStaticService_GetStandardSteadyClock_def
      timesrv_IStaticService_GetTimeZoneService_def ISystemClock_GetCurrentTime_def INvDrvServices_Close_def INvDrvServices_Initialize_def
      INvDrvServices_SetClientPID_def IHOSBinderDriver_AdjustRefcount_def GetRelayService_def GetSystemDisplayService_def GetManagerDisplayService_def
      GetIndirectDisplayTransactionService_def SetLayerScalingMode_def AddToLayerStack_def SetLayerZ_def

lemma driver_obeys: "obeys INvDrvServices_Open" "obeys (INvDrvServices_Ioctl env)" "obeys INvDrvServices_QueryEvent"
proof -
  have "R k (snd (connectToDevice name k))" for name k
    using R_object by (auto simp: connectToDevice_def R_refl split: option.splits)
  then show "obeys INvDrvServices_Open"
    unfolding INvDrvServices_Open_def by (auto intro!: pure_steps read_steps simp: split_beta)
  show "obeys (INvDrvServices_Ioctl env)"
    unfolding INvDrvServices_Ioctl_def
    by (auto intro!: pure_steps read_steps ioctl_holds [THEN holds_then [where st = "snd \<circ> snd"]] write_steps holds_then [where st = id] simp: R_refl)
  show "obeys INvDrvServices_QueryEvent" by (simp add: INvDrvServices_QueryEvent_def R_refl)
qed

lemma display_obeys: "obeys OpenDisplay" "obeys OpenLayer" "obeys CreateStrayLayer" "obeys GetDisplayVsyncEvent" "obeys CreateManagedLayer"
  "obeys IManagerRootService_GetDisplayService" "obeys ISystemRootService_GetDisplayService" "obeys ISelfController_CreateManagedDisplayLayer"
  "obeys IHOSBinderDriver_GetNativeHandle"
proof -
  have "holds (snd \<circ> snd) k (case connect IHOSBinderDriver k of (handle, k) \<Rightarrow>
      and_then (kwrite 4 a (ucast handle) k) (\<lambda>k. Inr (ERR_SUCCESS, writeArgs ws reply, k)))" for a k ws reply
    unfolding connect_def split_beta
    by (rule holds_after [OF R_object]) (auto simp: R_refl intro!: kwrite_holds [THEN holds_then [where st = id]])
  then show "obeys CreateStrayLayer"
    unfolding CreateStrayLayer_def Let_def by (auto intro!: pure_steps write_steps simp del: write_all.simps)
  show "obeys OpenLayer" unfolding OpenLayer_def Let_def by (auto intro!: pure_steps write_steps simp: R_refl simp del: write_all.simps)
qed (auto simp: OpenDisplay_def GetDisplayVsyncEvent_def CreateManagedLayer_def IManagerRootService_GetDisplayService_def ISystemRootService_GetDisplayService_def
    ISelfController_CreateManagedDisplayLayer_def IHOSBinderDriver_GetNativeHandle_def R_refl open_holds intro!: pure_steps display_steps)

lemma system_obeys: "obeys SmService_Initialize" "obeys SmService_GetService" "obeys (IProfile_GetBase env)" "obeys (IApplicationFunctions_NotifyRunning env)"
  "obeys ICommonStateGetter_GetEventHandle" "obeys ICommonStateGetter_ReceiveMessage" "obeys IStorageAccessor_GetSize" "obeys IStorageAccessor_Read"
  "obeys IFileSystemProxy_GetGlobalAccessLogMode" "obeys (fssrv_IStorage_Read env)" "obeys IAppletResource_GetSharedMemoryHandle"
  "obeys IHidServer_CreateAppletResource" "obeys ILogService_Initialize" "obeys ILogger_unk0" "obeys ISettingsServer_GetAvailableLanguageCodes"
  "obeys (ITimeZoneService_ToCalendarTimeWithMyRule env)"
  by (auto simp: SmService_Initialize_def SmService_GetService_def IProfile_GetBase_def IApplicationFunctions_NotifyRunning_def
      ICommonStateGetter_GetEventHandle_def ICommonStateGetter_ReceiveMessage_def IStorageAccessor_GetSize_def IStorageAccessor_Read_def
      IFileSystemProxy_GetGlobalAccessLogMode_def fssrv_IStorage_Read_def IAppletResource_GetSharedMemoryHandle_def IHidServer_CreateAppletResource_def
      ILogService_Initialize_def ILogger_unk0_def ISettingsServer_GetAvailableLanguageCodes_def ITimeZoneService_ToCalendarTimeWithMyRule_def
      Let_def R_refl R_interrupt open_holds split: option.splits simp del: write_all.simps
      intro!: pure_steps read_steps write_steps holds_then [where st = id] R_state)

lemma services_obey:
  assumes "(n, Some f) \<in> set (service_functions i env)"
  shows "obeys f"
proof -
  note all_obey = simple_obeys driver_obeys display_obeys system_obeys binder_obeys
  show ?thesis using assms
    by (cases i) (auto simp only: service_functions.simps set_simps insert_iff empty_iff prod.inject option.inject IHOSBinderDriver_TransactParcel_def simple_functions all_obey
      SmService_functions_def IAccountServiceForApplication_functions_def IManagerForApplication_functions_def INotifier_functions_def
      IProfile_functions_def IAllSystemAppletProxiesService_functions_def IApplicationFunctions_functions_def IApplicationProxy_functions_def
      IApplicationProxyService_functions_def IAudioController_functions_def ICommonStateGetter_functions_def IDebugFunctions_functions_def
      IDisplayController_functions_def ILibraryAppletCreator_functions_def ILibraryAppletProxy_functions_def IProcessWindingController_functions_def
      ISelfController_functions_def am_IStorage_functions_def IStorageAccessor_functions_def IWindowController_functions_def
      IAddOnContentManager_functions_def IManager_functions_def ISession_functions_def IFileSystemProxy_functions_def fssrv_IStorage_functions_def
      IAppletResource_functions_def IHidServer_functions_def ILogService_functions_def ILogger_functions_def IGeneralService_functions_def
      nifm_IStaticService_functions_def IParentalControlServiceFactory_functions_def ISettingsServer_functions_def timesrv_IStaticService_functions_def
      ISteadyClock_functions_def ISystemClock_functions_def ITimeZoneService_functions_def IApplicationDisplayService_functions_def
      IApplicationRootService_functions_def IManagerDisplayService_functions_def IManagerRootService_functions_def ISystemDisplayService_functions_def
      ISystemRootService_functions_def IHOSBinderDriver_functions_def INvDrvServices_functions_def)
qed

lemma draw_layer_holds: "holds id k (draw_layer l k)"
proof -
  have "holds id k (setBuffer a k)" for a k
    unfolding setBuffer_def
    by (rule holds_pure) (auto intro!: R_trans [OF R_machine R_state] dest!: region_same_core simp: machine_of_def)
  then show ?thesis
    unfolding draw_layer_def
    by (auto simp: R_refl split: option.splits intro!: pure_steps display_steps holds_then [where st = id, of _ "setBuffer a k" for a k])
qed

lemma draw_holds: "holds id k (draw k)"
proof -
  have "holds id k (draw_layers ls k)" for ls k
    by (induction ls arbitrary: k) (auto simp: R_refl intro!: draw_layer_holds [THEN holds_then [where st = id]])
  then show ?thesis by (simp add: draw_def)
qed

end

subsection \<open>What services leave alone\<close>

definition service_frame :: "Kernel \<Rightarrow> Kernel \<Rightarrow> bool" where
  "service_frame k k' \<longleftrightarrow>
     tCurrentCore k' = tCurrentCore k \<and> (\<forall>c. same_core (gCores k c) (gCores k' c)) \<and>
     gSchedulerLock k' = gSchedulerLock k \<and> gCurrentThreads k' = gCurrentThreads k \<and> gThreadLists k' = gThreadLists k \<and>
     gAlarms k' = gAlarms k \<and> gAlarmCapacity k' = gAlarmCapacity k \<and> gCurrentProcess k' = gCurrentProcess k \<and>
     gTlsSlotcounter k' = gTlsSlotcounter k \<and> nextObject k \<le> nextObject k' \<and> (\<forall>a < nextObject k. heap k' a = heap k a)"

interpretation threads: service_relation service_frame
  by unfold_locales (auto simp: service_frame_def put_machine_def this_core_def new_object_def send_to_def upd_services_def
      intro: same_core_trans split: prod.splits)

interpretation state: service_relation "\<lambda>k k'. services_ok (gServices k) \<longrightarrow> services_ok (gServices k')"
  by unfold_locales (auto simp: put_machine_def new_object_def send_to_def upd_services_def split: prod.splits)

text \<open>
  C33. Services do not disturb threads: a call of any function of any interface leaves the scheduler's lock and queues, the running threads, the alarms and every existing kernel
  object as they were, and changes a core at most in its interrupt word.
\<close>

theorem services_keep_threads:
  assumes "(n, Some f) \<in> set (service_functions i env)" and "f info reply k = Inr (e, reply', k')"
  shows "service_frame k k'"
  using threads.services_obey [OF assms(1)] assms(2) by (metis comp_apply snd_conv threads.holds_Inr)

text \<open>A kernel with the services initialised, and a message with the given argument bytes.\<close>

definition served_kernel :: Kernel where
  "served_kernel = boot_kernel\<lparr>gServices := service_init new_ServiceState\<rparr>"

definition demo_service_env :: ServiceEnv where
  "demo_service_env = \<lparr>raw = (\<lambda>_ _ _. 0), romfs = None\<rparr>"

definition demo_info :: "u8 list \<Rightarrow> IpcInfo" where
  "demo_info args = empty_info\<lparr>argData := args\<rparr>"

definition demo_reply :: IpcMessageCons where
  "demo_reply = new_IpcMessageCons True 0 (demo_info [])"

subsection \<open>Registration\<close>

lemma fold_register: "fold (\<lambda>(name, interface). registerService name interface) xs st =
    st\<lparr>gRegisteredServices := gRegisteredServices st ++ map_of (rev xs)\<rparr>"
  by (induction xs arbitrary: st) (auto simp: registerService_def)

lemma map_of_rev_distinct: "distinct (map fst xs) \<Longrightarrow> map_of (rev xs) = map_of xs"
  by (subst map_of_inject_set) (simp_all add: rev_map [symmetric])

lemma service_init_eq: "service_init st = st\<lparr>gRegisteredServices := gRegisteredServices st ++ map_of service_names\<rparr>"
proof -
  have "distinct (map fst service_names)" by code_simp
  from map_of_rev_distinct [OF this] show ?thesis by (simp add: service_init_def fold_register)
qed

lemma char_bytes: "char_of (unat (of_char c :: u8)) = c" "(of_char c :: u8) = 0 \<longleftrightarrow> c = CHR 0x00"
proof -
  have "unat (of_char c :: u8) = of_char c"
    unfolding of_nat_of_char [of c, symmetric, where 'a = u8] unat_of_nat by (simp add: of_char_mod_256)
  then show c: "char_of (unat (of_char c :: u8)) = c" by simp
  show "(of_char c :: u8) = 0 \<longleftrightarrow> c = CHR 0x00"
  proof
    assume "(of_char c :: u8) = 0"
    with c have "char_of (0 :: nat) = c" by simp
    then show "c = CHR 0x00" by (simp add: char_of_def)
  qed (simp add: of_char_def)
qed

text \<open>
  C34. The service manager connects a game to the service it asks for: with the services registered as at the start, a name of at most eight characters yields a handle moved to the reply that
  designates the interface registered under the name, and an unknown name yields error 1 and no handle.
\<close>

theorem getService_connects:
  assumes "gRegisteredServices (gServices k) = gRegisteredServices (service_init new_ServiceState)"
    and "argData info = map of_char name @ replicate (8 - length name) 0 @ rest" and "length name \<le> 8" and "CHR 0x00 \<notin> set name"
    and "handle_inv n (gHandles k)" and "n < 65536"
  shows "case map_of service_names name of
      None \<Rightarrow> SmService_GetService info reply k = Inr (1, reply, k)
    | Some i \<Rightarrow> \<exists>k'. SmService_GetService info reply k = Inr (0, moveHandle (of_nat n + 1) reply, k') \<and>
        interface_of (of_nat n + 1) k' = Inr (Some (i, False)) \<and> service_frame k k'"
proof -
  have bytes: "take 8 (argData info) = map of_char name @ replicate (8 - length name) 0" using assms(2,3) by simp
  have "takeWhile (\<lambda>b. b \<noteq> 0) (map of_char name @ replicate m (0 :: u8)) = map of_char name" for m
    using assms(4) by (induction name) (auto simp: char_bytes takeWhile_replicate)
  then have name: "map (\<lambda>b. char_of (unat b)) (takeWhile (\<lambda>b. b \<noteq> 0) (take 8 (argData info))) = name"
    by (simp add: bytes char_bytes comp_def)
  have args: "readArgs 8 info = Inr (take 8 (argData info))" using assms(2,3) by (simp add: readArgs_def)
  have reg: "gRegisteredServices (gServices k) = map_of service_names"
    using assms(1) by (simp add: service_init_eq new_ServiceState_def)
  show ?thesis
  proof (cases "map_of service_names name")
    case None
    then show ?thesis by (simp add: SmService_GetService_def args name reg Let_def)
  next
    case (Some i)
    obtain k' where k': "new_object (InterfaceObject i False) k = (of_nat n + 1, k')" "getThread (of_nat n + 1) k' = Some (nextObject k)"
        "k' = k\<lparr>gHandles := gHandles k', heap := (heap k)(nextObject k \<mapsto> InterfaceObject i False), nextObject := nextObject k + 1\<rparr>"
      using new_object_found [OF assms(5,6)] by blast
    have "heap k' (nextObject k) = Some (InterfaceObject i False)" by (subst k'(3)) simp
    moreover have "fst (lookupObject (of_nat n + 1) (gHandles k')) = Some (nextObject k)"
      using k'(2) by (simp add: getThread_def split: if_splits)
    moreover have "service_frame k k'" using threads.R_object [of k "InterfaceObject i False"] k'(1) by simp
    ultimately show ?thesis
      using Some k'(1)
      by (simp add: SmService_GetService_def args name reg Let_def open_interface_def connect_def ERR_SUCCESS_def interface_of_def)
  qed
qed

theorem getService_connects_witness:
  "\<exists>k'. SmService_GetService (demo_info (map of_char ''hid'' @ replicate 5 0)) demo_reply served_kernel = Inr (0, moveHandle 1 demo_reply, k') \<and>
    interface_of 1 k' = Inr (Some (IHidServer, False)) \<and> service_frame served_kernel k'"
proof -
  have "map_of service_names ''hid'' = Some IHidServer" by code_simp
  with getService_connects [of served_kernel "demo_info (map of_char ''hid'' @ replicate 5 0)" "''hid''" "[]" 0 demo_reply] handle_init_inv
  show ?thesis by (simp add: served_kernel_def boot_kernel_def demo_info_def)
qed

theorem services_keep_threads_witness:
  "\<exists>e r k'. CreateManagedLayer (demo_info (replicate 8 0 @ 1 # replicate 15 0)) demo_reply served_kernel = Inr (e, r, k') \<and> service_frame served_kernel k'"
proof -
  have "(2010, Some CreateManagedLayer) \<in> set (service_functions IManagerDisplayService demo_service_env)"
    by (simp add: IManagerDisplayService_functions_def)
  moreover have "f64 8 (replicate 8 0 @ 1 # replicate 15 0) = 1" by code_simp
  then have "\<exists>e r k'. CreateManagedLayer (demo_info (replicate 8 0 @ 1 # replicate 15 0)) demo_reply served_kernel = Inr (e, r, k')"
    by (simp add: CreateManagedLayer_def readArgs_def demo_info_def on_displays_def createLayer_def createBufferQueue_def served_kernel_def service_init_eq
        new_ServiceState_def new_DisplayManager_def)
  ultimately show ?thesis using services_keep_threads by blast
qed

end
