(* ===== verification/Graphics_Laws.thy ===== *)
theory Graphics_Laws
  imports Service_Laws
begin

text \<open>
  How the graphics services work together: in every state that service calls and drawing passes can reach the layers to draw have buffer queues, a memory object a game creates and
  places is found where the address space and the display look for it, and the frame shown is the guest memory of the buffer the game queued.
\<close>

unbundle bit_operations_syntax

subsection \<open>Reachable states\<close>

text \<open>Service calls and drawing passes in any order, with steps of the rest of the emulator that leave the services alone.\<close>

inductive serving :: "ServiceEnv \<Rightarrow> Kernel \<Rightarrow> bool" for env where
  start: "gServices k = service_init new_ServiceState \<Longrightarrow> serving env k"
| call: "\<lbrakk>serving env k; (n, Some f) \<in> set (service_functions i env); f info reply k = Inr (e, reply', k')\<rbrakk> \<Longrightarrow> serving env k'"
| draw: "\<lbrakk>serving env k; draw k = Inr k'\<rbrakk> \<Longrightarrow> serving env k'"
| elsewhere: "\<lbrakk>serving env k; gServices k' = gServices k\<rbrakk> \<Longrightarrow> serving env k'"

lemma serving_ok: "serving env k \<Longrightarrow> services_ok (gServices k)"
proof (induction rule: serving.induct)
  case (start k)
  then show ?case
    by (simp add: service_init_eq new_ServiceState_def new_DisplayManager_def services_ok_def nvmap_ok_def display_ok_def)
next
  case (call k n f i info reply e reply' k')
  with state.services_obey [OF call(2)] show ?case by (metis comp_apply snd_conv state.holds_Inr)
next
  case (draw k k')
  with state.draw_holds [of k] show ?case by simp
qed simp

text \<open>
  C35. The references between displays, layers and buffer queues stay intact: however service calls and drawing passes interleave, every layer of a display exists and has a
  buffer queue, so a drawing pass never follows a dangling layer or queue.
\<close>

theorem layers_have_queues:
  assumes "serving env k" and "d \<in> set (displays (gDisplayManager (gServices k)))" and "l \<in> set (display_layers d)"
  shows "\<exists>layer q. getLayer l (gDisplayManager (gServices k)) = Inr layer
    \<and> getBufferQueue (layer_bufferId layer) (gDisplayManager (gServices k)) = Inr q"
  using display_ok_finds serving_ok [OF assms(1)] assms(2,3) by (auto simp: services_ok_def)

theorem layers_have_queues_witness:
  "\<exists>e r k'. ISelfController_CreateManagedDisplayLayer (demo_info []) demo_reply served_kernel = Inr (e, r, k') \<and>
    (\<exists>layer q. getLayer 100 (gDisplayManager (gServices k')) = Inr layer \<and> getBufferQueue (layer_bufferId layer) (gDisplayManager (gServices k')) = Inr q)"
proof -
  have f: "(40, Some ISelfController_CreateManagedDisplayLayer) \<in> set (service_functions ISelfController demo_service_env)"
    by (simp add: ISelfController_functions_def)
  have start: "serving demo_service_env served_kernel" by (rule serving.start) (simp add: served_kernel_def)
  obtain e r k' where c: "ISelfController_CreateManagedDisplayLayer (demo_info []) demo_reply served_kernel = Inr (e, r, k')"
      "displays (gDisplayManager (gServices k')) = [\<lparr>display_id = 1, display_name = ''Default'', display_layers = [100]\<rparr>]"
    by (simp add: ISelfController_CreateManagedDisplayLayer_def openDisplay_def find_ref_def on_displays_def createLayer_def createBufferQueue_def
        addLayer_def served_kernel_def service_init_eq new_ServiceState_def new_DisplayManager_def upd_services_def)
  have "serving demo_service_env k'" by (rule serving.call [OF start f c(1)])
  from layers_have_queues [OF this, of _ 100] c show ?thesis by auto
qed

subsection \<open>Memory objects\<close>

lemma fresh_handle:
  assumes "nvmap_ok st" and "length (gMapObjects st) < 2 ^ 32 - 1"
  shows "\<forall>ob \<in> set (gMapObjects st). nv_handle ob \<noteq> handleCounter st" and "\<forall>ob \<in> set (gMapObjects st). nv_id ob \<noteq> idCounter st"
proof -
  have ne: "of_nat (Suc i) \<noteq> (of_nat (Suc (length (gMapObjects st))) :: u32)" if "i < length (gMapObjects st)" for i
  proof
    assume "of_nat (Suc i) = (of_nat (Suc (length (gMapObjects st))) :: u32)"
    then have "unat (of_nat (Suc i) :: u32) = unat (of_nat (Suc (length (gMapObjects st))) :: u32)" by (rule arg_cong)
    moreover have "Suc i < 2 ^ 32" "Suc (length (gMapObjects st)) < 2 ^ 32" using that assms(2) by simp_all
    ultimately show False using that by (simp add: unat_of_nat del: of_nat_Suc)
  qed
  have at: "nv_handle (gMapObjects st ! i) = of_nat (Suc i)" "nv_id (gMapObjects st ! i) = of_nat (Suc i)" if "i < length (gMapObjects st)" for i
  proof -
    have "map nv_handle (gMapObjects st) ! i = of_nat (Suc i)" "map nv_id (gMapObjects st) ! i = of_nat (Suc i)"
      using assms(1) that unfolding nvmap_ok_def by (simp_all del: nth_map add: nth_map [of i "[0..<length (gMapObjects st)]"])
    then show "nv_handle (gMapObjects st ! i) = of_nat (Suc i)" "nv_id (gMapObjects st ! i) = of_nat (Suc i)" using that by simp_all
  qed
  show "\<forall>ob \<in> set (gMapObjects st). nv_handle ob \<noteq> handleCounter st" and "\<forall>ob \<in> set (gMapObjects st). nv_id ob \<noteq> idCounter st"
    using assms(1) at ne by (auto simp: nvmap_ok_def in_set_conv_nth simp del: of_nat_Suc)
qed

lemma update_first_last: "\<forall>x \<in> set xs. \<not> P x \<Longrightarrow> P y \<Longrightarrow> update_first P f (xs @ [y]) = xs @ [f y]"
  by (induction xs) auto

lemma field_bytes [simp]:
  "le_val (le_bytes 4 (ucast (v :: u32))) = ucast v" "le_val (le_bytes 8 w) = w" "ucast (ucast v :: u64) = v"
proof -
  have "take_bit 32 (ucast v :: u64) = ucast v" by (rule bit_word_eqI) (auto simp: bit_simps dest: bit_imp_le_length)
  then show "le_val (le_bytes 4 (ucast v)) = ucast v" by (simp add: le_val_le_bytes)
  show "ucast (ucast v :: u64) = v" by (rule bit_word_eqI) (auto simp: bit_simps dest: bit_imp_le_length)
qed (simp add: le_val_le_bytes take_bit_word_eq_self)

text \<open>
  C36. A memory object a game creates and places is found again: creating an object gives a handle no object had, and after placing it at an address the parameters read back are the size it was
  created with and the alignment, kind and heap of the placement, its identifier leads back to its handle, mapping it returns its address, and all other objects are as before.
\<close>

theorem nvmap_roundtrip:
  assumes "serving env k" and "length (gMapObjects (gServices k)) < 2 ^ 32 - 1" and "length gap = 7"
  shows "\<exists>h i k1 k2 out.
      handleIoctl env NvmapInterface 1 (w32 size' @ w32 x) k = Inr (ERR_SUCCESS, w32 size' @ w32 h, k1)
    \<and> handleIoctl env NvmapInterface 4 (w32 h @ w32 hm @ w32 fl @ w32 al @ kd # gap @ w64 addr) k1 = Inr (ERR_SUCCESS, out, k2)
    \<and> (\<forall>ob \<in> set (gMapObjects (gServices k)). nv_handle ob \<noteq> h)
    \<and> gMapObjects (gServices k2) = gMapObjects (gServices k) @
        [\<lparr>nv_handle = h, nv_id = i, nv_size = size', nv_align = al, nv_heap = 0x40000000, nv_kind = kd, nv_addr = addr\<rparr>]
    \<and> handleIoctl env NvmapInterface 9 (w32 h @ w32 1 @ w32 y) k2 = Inr (ERR_SUCCESS, w32 h @ w32 1 @ w32 size', k2)
    \<and> handleIoctl env NvmapInterface 9 (w32 h @ w32 2 @ w32 y) k2 = Inr (ERR_SUCCESS, w32 h @ w32 2 @ w32 al, k2)
    \<and> handleIoctl env NvmapInterface 14 (w32 h @ w32 y) k2 = Inr (ERR_SUCCESS, w32 h @ w32 i, k2)
    \<and> (\<exists>rest. handleIoctl env NvmapInterface 3 (w32 y @ w32 i) k2 = Inr (ERR_SUCCESS, w32 h @ rest, k2))
    \<and> (\<exists>rest. handleIoctl env NvhostAsGpuInterface 6 (w32 f @ w32 y @ w32 h @ w32 z @ w64 u @ w64 v @ w64 w) k2 = Inr (ERR_SUCCESS, rest @ w64 addr, k2))"
proof -
  let ?st = "gServices k"
  define h where "h = handleCounter ?st"
  define i where "i = idCounter ?st"
  have ok: "nvmap_ok ?st" using serving_ok [OF assms(1)] by (simp add: services_ok_def)
  note fresh = fresh_handle [OF ok assms(2), folded h_def i_def]
  define ob0 where "ob0 = new_nvmap env h i size' k"
  define ob where "ob = \<lparr>nv_handle = h, nv_id = i, nv_size = size', nv_align = al, nv_heap = 0x40000000, nv_kind = kd, nv_addr = addr\<rparr>"
  define k1 where "k1 = upd_services (\<lambda>st. st\<lparr>handleCounter := handleCounter st + 1, idCounter := idCounter st + 1, gMapObjects := gMapObjects st @ [ob0]\<rparr>) k"
  define k2 where "k2 = upd_services (\<lambda>st. st\<lparr>gMapObjects := gMapObjects ?st @ [ob]\<rparr>) k1"
  have create: "handleIoctl env NvmapInterface 1 (w32 size' @ w32 x) k = Inr (ERR_SUCCESS, w32 size' @ w32 h, k1)"
    by (simp add: handleIoctl_def IocCreate_def readObjectFromBuffer_def struct_field_def Let_def k1_def h_def i_def ob0_def)
  have upd: "update_first (\<lambda>ob. nv_handle ob = h) (\<lambda>ob. ob\<lparr>nv_align := al, nv_heap := 0x40000000, nv_kind := kd, nv_addr := addr\<rparr>)
      (gMapObjects (gServices k1)) = gMapObjects ?st @ [ob]"
    using fresh(1) by (simp add: k1_def upd_services_def update_first_last ob0_def new_nvmap_def Let_def ob_def)
  have alloc: "\<exists>out. handleIoctl env NvmapInterface 4 (w32 h @ w32 hm @ w32 fl @ w32 al @ kd # gap @ w64 addr) k1 = Inr (ERR_SUCCESS, out, k2)"
    using assms(3) upd
    by (simp add: handleIoctl_def IocAlloc_def readObjectFromBuffer_def struct_field_def Let_def k2_def upd_services_def ucast_u8)
  have objs: "gMapObjects (gServices k2) = gMapObjects ?st @ [ob]" by (simp add: k2_def upd_services_def)
  have found: "find (\<lambda>ob. nv_handle ob = h) (gMapObjects (gServices k2)) = Some ob" "find (\<lambda>ob. nv_id ob = i) (gMapObjects (gServices k2)) = Some ob"
    using fresh by (auto simp: objs find_append ob_def split: option.splits dest!: find_SomeD)
  have param: "handleIoctl env NvmapInterface 9 (w32 h @ w32 p @ w32 y) k2 = Inr (ERR_SUCCESS, w32 h @ w32 p @ w32 (nvmap_param p ob), k2)" for p
    by (simp add: handleIoctl_def IocParam_def readObjectFromBuffer_def struct_field_def Let_def found)
  have ids: "handleIoctl env NvmapInterface 14 (w32 h @ w32 y) k2 = Inr (ERR_SUCCESS, w32 h @ w32 i, k2)"
    "\<exists>rest. handleIoctl env NvmapInterface 3 (w32 y @ w32 i) k2 = Inr (ERR_SUCCESS, w32 h @ rest, k2)"
    by (simp_all add: handleIoctl_def IocGetId_def IocFromId_def readObjectFromBuffer_def struct_field_def Let_def found ob_def)
  have mapped: "\<exists>rest. handleIoctl env NvhostAsGpuInterface 6 (w32 f @ w32 y @ w32 h @ w32 z @ w64 u @ w64 v @ w64 w) k2 = Inr (ERR_SUCCESS, rest @ w64 addr, k2)"
    by (simp add: handleIoctl_def MapBufferEx_def readObjectFromBuffer_def struct_field_def lookupNvmapObject_def find_ref_def found ob_def)
  show ?thesis
    using create alloc fresh(1) objs param [of 1] param [of 2] ids mapped unfolding ob_def [symmetric] nvmap_param_def
    by (intro exI [of _ h] exI [of _ i] exI [of _ k1] exI [of _ k2]) (auto simp: ob_def)
qed

theorem nvmap_roundtrip_witness:
  "\<exists>h i k1 k2 out.
      handleIoctl demo_service_env NvmapInterface 1 (w32 0x3C0000 @ w32 0) served_kernel = Inr (ERR_SUCCESS, w32 0x3C0000 @ w32 h, k1)
    \<and> handleIoctl demo_service_env NvmapInterface 4 (w32 h @ w32 0 @ w32 0 @ w32 0x1000 @ 0xFE # replicate 7 0 @ w64 0xAA0000000) k1 = Inr (ERR_SUCCESS, out, k2)
    \<and> gMapObjects (gServices k2) =
        [\<lparr>nv_handle = h, nv_id = i, nv_size = 0x3C0000, nv_align = 0x1000, nv_heap = 0x40000000, nv_kind = 0xFE, nv_addr = 0xAA0000000\<rparr>]"
proof -
  have "serving demo_service_env served_kernel" by (rule serving.start) (simp add: served_kernel_def)
  moreover have "gMapObjects (gServices served_kernel) = []" by (simp add: served_kernel_def service_init_eq new_ServiceState_def)
  moreover have "length (replicate 7 (0 :: u8)) = 7" by simp
  ultimately show ?thesis
    using nvmap_roundtrip [of demo_service_env served_kernel "replicate 7 0" "0x3C0000" 0 0 0 "0x1000" "0xFE" "0xAA0000000"] by fastforce
qed

subsection \<open>Frames\<close>

lemma at_first_find:
  assumes "at_first P f xs = Inr (x, ys)" and "P (f x)"
  shows "find P ys = Some (f x)"
proof -
  obtain pre post where p: "ys = pre @ f x # post" "\<forall>y \<in> set pre. \<not> P y" by (rule at_first_Inr [OF assms(1)])
  then have "find P pre = None" by (simp add: find_None_iff)
  with p(1) assms(2) show ?thesis by (simp add: find_append)
qed

lemma on_queue_found:
  assumes "getBufferQueue i dm = Inr q" and "f q = Inr (r, q')" and "queue_id q' = queue_id q"
  shows "\<exists>qs qs'. queues dm = qs @ q # qs' \<and> on_queue i f dm = Inr (r, dm\<lparr>queues := qs @ q' # qs'\<rparr>) \<and>
    getBufferQueue i (dm\<lparr>queues := qs @ q' # qs'\<rparr>) = Inr q'"
proof -
  have q: "find (\<lambda>q. queue_id q = i) (queues dm) = Some q" using assms(1) by (auto simp: getBufferQueue_def find_ref_def split: option.splits)
  then have "q \<in> set (queues dm)" "queue_id q = i" using find_SomeD by fastforce+
  then obtain z qs where z: "at_first (\<lambda>q. queue_id q = i) (\<lambda>_. q') (queues dm) = Inr (z, qs)"
    using at_first_total [of "queues dm" "\<lambda>q. queue_id q = i" "\<lambda>_. q'"] by auto
  from at_first_find [OF z] assms(3) \<open>queue_id q = i\<close> have f: "find (\<lambda>q. queue_id q = i) qs = Some q'" by simp
  obtain pre post where p: "queues dm = pre @ z # post" "qs = pre @ q' # post" "queue_id z = i" "\<forall>y \<in> set pre. queue_id y \<noteq> i"
    by (rule at_first_Inr [OF z]) simp
  have "find (\<lambda>q. queue_id q = i) pre = None" using p(4) by (simp add: find_None_iff)
  then have "z = q" using q p(1,3) by (simp add: find_append)
  with f p show ?thesis
    using z by (intro exI [of _ pre] exI [of _ post]) (simp add: on_queue_def assms(1,2) getBufferQueue_def [of _ "_\<lparr>queues := _\<rparr>"] find_ref_def)
qed

lemma setBuffer_effect:
  assumes "alloc_inv N (kmem k)" and "\<forall>i < frame_size. guest_byte (kmem k) (a + of_nat i) \<noteq> None"
  shows "\<exists>k'. setBuffer a k = Inr k' \<and> map Some (displayBuffer (gServices k')) = map (\<lambda>i. guest_byte (kmem k) (a + of_nat i)) [0..<frame_size]
    \<and> guest_byte (kmem k') = guest_byte (kmem k) \<and> gDisplayManager (gServices k') = gDisplayManager (gServices k)"
proof -
  have "mem_ok N (machine_of k)" "mview (machine_of k) = guest_byte (kmem k)"
    using assms(1) by (simp_all add: mem_ok_def machine_of_def mview_def fun_eq_iff)
  moreover from this assms(2) have "mview (machine_of k) (a + of_nat i) \<noteq> None" if "i < frame_size" for i using that by simp
  ultimately obtain bs mc where r: "readRegion a frame_size (machine_of k) = Inr (bs, mc)" "mview mc = guest_byte (kmem k)"
      "map Some bs = map (\<lambda>i. guest_byte (kmem k) (a + of_nat i)) [0..<frame_size]"
    using readRegion_from_effect [of N "machine_of k" 0 frame_size a "[]"] readRegion_eq [of frame_size] by (auto simp: frame_size_def simp del: upt_rec_numeral)
  then show ?thesis by (simp add: setBuffer_def upd_services_def put_machine_def mview_def fun_eq_iff)
qed

lemma map_Some_nth: "map Some xs = map f [0..<n] \<Longrightarrow> length xs = n \<and> (\<forall>i < n. f i = Some (xs ! i))"
  by (metis add_0 diff_zero length_map length_upt nth_map nth_upt)

text \<open>
  C37. The frame shown is the frame the game drew: when one layer is visible and a buffer of its queue is queued, a drawing pass copies to the screen the 0x3C0000 bytes of
  guest memory from the address of the buffer's memory object plus the buffer's offset (a fixed number, whatever the buffer's own size), sets the status of that buffer to free,
  and changes nothing else of the queue, of the other queues, layers and displays, or of guest memory. The bytes are mapped, the slots of the queue distinct.
\<close>

theorem frame_shown:
  assumes "alloc_inv N (kmem k)" and "concat (map display_layers (displays (gDisplayManager (gServices k)))) = [l]"
    and "getLayer l (gDisplayManager (gServices k)) = Inr layer" and "getBufferQueue (layer_bufferId layer) (gDisplayManager (gServices k)) = Inr q"
    and "slots_distinct q" and "getQueuedBuffer q = Some b" and "lookupNvmapObject (igbp_nvmapHandle (gb_buffer b)) k = Inr ob"
    and "a = nv_addr ob + ucast (igbp_offset (gb_buffer b))" and "\<forall>i < frame_size. guest_byte (kmem k) (a + of_nat i) \<noteq> None"
  shows "\<exists>k' pre post qs qs'. draw k = Inr k' \<and>
    length (displayBuffer (gServices k')) = 0x3C0000 \<and>
    (\<forall>i < 0x3C0000. guest_byte (kmem k) (a + of_nat i) = Some (displayBuffer (gServices k') ! i)) \<and>
    guest_byte (kmem k') = guest_byte (kmem k) \<and>
    buffers q = pre @ b # post \<and> queues (gDisplayManager (gServices k)) = qs @ q # qs' \<and>
    gDisplayManager (gServices k') = (gDisplayManager (gServices k))\<lparr>queues := qs @ q\<lparr>buffers := pre @ b\<lparr>gb_status := FREE\<rparr> # post\<rparr> # qs'\<rparr> \<and>
    getBufferQueue (layer_bufferId layer) (gDisplayManager (gServices k')) = Inr (q\<lparr>buffers := pre @ b\<lparr>gb_status := FREE\<rparr> # post\<rparr>)"
proof -
  obtain k1 where k1: "setBuffer a k = Inr k1" "map Some (displayBuffer (gServices k1)) = map (\<lambda>i. guest_byte (kmem k) (a + of_nat i)) [0..<frame_size]"
      "guest_byte (kmem k1) = guest_byte (kmem k)" "gDisplayManager (gServices k1) = gDisplayManager (gServices k)"
    using setBuffer_effect [OF assms(1,9)] by blast
  have b: "b \<in> set (buffers q)" using assms(6) by (auto simp: getQueuedBuffer_def dest: find_SomeD)
  obtain pre post where p: "buffers q = pre @ b # post"
      "at_first (\<lambda>b'. gb_slot b' = gb_slot b) (\<lambda>b. b\<lparr>gb_status := FREE\<rparr>) (buffers q) = Inr (b, pre @ b\<lparr>gb_status := FREE\<rparr> # post)"
    by (rule first_with_slot [OF assms(5) b])
  define q' where "q' = q\<lparr>buffers := pre @ b\<lparr>gb_status := FREE\<rparr> # post\<rparr>"
  have free: "and_then (freeBuffer (gb_slot b) q) (\<lambda>q. Inr ((), q)) = Inr ((), q')" using p(2) by (simp add: freeBuffer_def q'_def)
  have "queue_id q' = queue_id q" by (simp add: q'_def)
  then obtain qs qs' where dm': "queues (gDisplayManager (gServices k)) = qs @ q # qs'"
      "on_queue (layer_bufferId layer) (\<lambda>q. and_then (freeBuffer (gb_slot b) q) (\<lambda>q. Inr ((), q))) (gDisplayManager (gServices k1)) =
         Inr ((), (gDisplayManager (gServices k))\<lparr>queues := qs @ q' # qs'\<rparr>)"
      "getBufferQueue (layer_bufferId layer) ((gDisplayManager (gServices k))\<lparr>queues := qs @ q' # qs'\<rparr>) = Inr q'"
    using on_queue_found [where f = "\<lambda>q. and_then (freeBuffer (gb_slot b) q) (\<lambda>q. Inr ((), q))", OF assms(4) free] k1(4) by auto
  define k' where "k' = upd_services (\<lambda>st. st\<lparr>gDisplayManager := (gDisplayManager (gServices k))\<lparr>queues := qs @ q' # qs'\<rparr>\<rparr>) k1"
  have "draw k = Inr k'"
    using k1(1) dm'(2) assms(3,4,6,7,8) by (simp add: draw_def assms(2) draw_layer_def on_displays_def k'_def)
  moreover have "length (displayBuffer (gServices k')) = frame_size \<and>
      (\<forall>i < frame_size. guest_byte (kmem k) (a + of_nat i) = Some (displayBuffer (gServices k') ! i))"
    using map_Some_nth [OF k1(2)] by (simp add: k'_def upd_services_def)
  ultimately show ?thesis
    using k1(3) dm'(1,3) p(1)
    by (intro exI [of _ k'] exI [of _ pre] exI [of _ post] exI [of _ qs] exI [of _ qs'] conjI)
      (simp_all add: k'_def upd_services_def q'_def frame_size_def)
qed

text \<open>A guest with the pages of one frame mapped, and a game that queued a buffer there.\<close>

definition frame_memory :: Memory where
  "frame_memory = zero_memory\<lparr>entires := (\<lambda>n. if n < 960 then \<lparr>pointer = 0x10000 + n * 4096, perm = ALL_PERM\<rparr> else \<lparr>pointer = 0, perm = NONE\<rparr>),
     gMemBase := 0x10000\<rparr>"

lemma small_page: "n < (960 :: u64) \<Longrightarrow> unat (n * 4096) = unat n * 4096 \<and> unat (0x10000 + n * 4096) = 0x10000 + unat n * 4096"
proof -
  assume "n < (960 :: u64)"
  then have n: "unat n < 960" by (simp add: word_less_nat_alt)
  then have m: "unat (n * 4096) = unat n * 4096" by (simp add: unat_word_ariths)
  with n show ?thesis by (simp add: unat_word_ariths)
qed

lemma frame_memory_ok: "alloc_inv 960 frame_memory"
proof -
  have nz: "0x10000 + n * 4096 \<noteq> 0" if "n < 960" for n :: u64 using small_page [OF that] by (metis add_is_0 unat_0 zero_neq_numeral)
  have big: "\<not> n < 960" if "NUM_PAGES \<le> n" for n
    using that by (auto simp: page_consts word_less_nat_alt word_le_nat_alt)
  have "n = n'" if "n < 960" "n' < 960" "0x10000 + n * 4096 = 0x10000 + n' * 4096" for n n' :: u64
  proof -
    have "unat n * 4096 = unat n' * 4096" using that small_page by (metis add_left_cancel)
    then show ?thesis by (simp add: word_unat_eq_iff)
  qed
  then have ptrs: "pointers_ok frame_memory" using big nz by (auto simp: pointers_ok_def frame_memory_def)
  have "mapped_pages frame_memory = (\<lambda>n. 0x10000 + n * 4096) ` {n. n < 960}"
    using nz by (auto simp: mapped_pages_def frame_memory_def split: if_splits)
  also have "{n. n < (960 :: u64)} = of_nat ` {..<960}"
  proof
    show "{n. n < (960 :: u64)} \<subseteq> of_nat ` {..<960}"
    proof
      fix n :: u64 assume "n \<in> {n. n < 960}"
      then have "unat n < 960" by (simp add: word_less_nat_alt)
      then show "n \<in> of_nat ` {..<960}" by (intro rev_image_eqI [of "unat n"]) simp_all
    qed
  qed (auto simp: word_less_nat_alt unat_of_nat)
  finally have "mapped_pages frame_memory = host_pages 0x10000 960"
    by (simp add: host_pages_def image_image mult.commute)
  moreover have "gMemBase frame_memory = 0x10000" "gFreePageList frame_memory = 0" by (simp_all add: frame_memory_def zero_memory_def)
  ultimately have "alloc_ok 960 [] frame_memory" using ptrs by (simp add: alloc_ok_def fits_def)
  then show ?thesis unfolding alloc_inv_def ..
qed

lemma frame_memory_mapped: "a < 0x3C0000 \<Longrightarrow> guest_byte frame_memory a = Some 0"
proof -
  assume "a < 0x3C0000"
  then have "getPageNum a < 960"
    by (simp add: getPageNum_def PAGE_BITS_def shr_def drop_bit_eq_div word_less_nat_alt unat_div)
  moreover from this have "0x10000 + getPageNum a * 4096 \<noteq> 0" using small_page by (metis add_is_0 unat_0 zero_neq_numeral)
  moreover have "\<not> NUM_PAGES \<le> getPageNum a" using \<open>getPageNum a < 960\<close> by (auto simp: page_consts word_less_nat_alt word_le_nat_alt)
  ultimately show ?thesis by (simp add: guest_byte_def translate_def frame_memory_def zero_memory_def Let_def)
qed

definition frame_services :: ServiceState where
  "frame_services = new_ServiceState\<lparr>
     gDisplayManager := \<lparr>nextLayer = 101, nextBuffer = 1001, displays = [\<lparr>display_id = 1, display_name = ''Default'', display_layers = [100]\<rparr>],
       layers = [\<lparr>layer_id = 100, layer_bufferId = 1000\<rparr>],
       queues = [\<lparr>queue_id = 1000, buffers = [\<lparr>gb_status = QUEUED, gb_slot = 0, gb_buffer = demo_igbp 1\<rparr>]\<rparr>]\<rparr>,
     gMapObjects := [\<lparr>nv_handle = 1, nv_id = 1, nv_size = 0x3C0000, nv_align = 0x1000, nv_heap = 0x40000000, nv_kind = 0, nv_addr = 0\<rparr>]\<rparr>"

definition frame_kernel :: Kernel where
  "frame_kernel = boot_kernel\<lparr>kmem := frame_memory, gServices := frame_services\<rparr>"

theorem frame_shown_witness:
  "\<exists>k'. draw frame_kernel = Inr k' \<and> length (displayBuffer (gServices k')) = 0x3C0000 \<and>
    getBufferQueue 1000 (gDisplayManager (gServices k')) = Inr \<lparr>queue_id = 1000, buffers = [\<lparr>gb_status = FREE, gb_slot = 0, gb_buffer = demo_igbp 1\<rparr>]\<rparr>"
proof -
  let ?b = "\<lparr>gb_status = QUEUED, gb_slot = 0, gb_buffer = demo_igbp 1\<rparr>"
  let ?q = "\<lparr>queue_id = 1000, buffers = [?b]\<rparr>" and ?l = "\<lparr>layer_id = 100, layer_bufferId = 1000\<rparr>"
  have mem: "kmem frame_kernel = frame_memory" by (simp add: frame_kernel_def)
  have "guest_byte frame_memory (0 + of_nat i) \<noteq> None" if "i < frame_size" for i
  proof -
    from that have "of_nat i < (0x3C0000 :: u64)" by (simp add: frame_size_def word_less_nat_alt unat_of_nat)
    from frame_memory_mapped [OF this] show ?thesis by simp
  qed
  then have mapped: "\<forall>i < frame_size. guest_byte (kmem frame_kernel) (0 + of_nat i) \<noteq> None" unfolding mem by blast
  have ok: "alloc_inv 960 (kmem frame_kernel)" by (simp add: mem frame_memory_ok)
  have "concat (map display_layers (displays (gDisplayManager (gServices frame_kernel)))) = [100]"
    "getLayer 100 (gDisplayManager (gServices frame_kernel)) = Inr ?l"
    "getBufferQueue (layer_bufferId ?l) (gDisplayManager (gServices frame_kernel)) = Inr ?q"
    "slots_distinct ?q" "getQueuedBuffer ?q = Some ?b"
    by (simp_all add: frame_kernel_def frame_services_def getLayer_def getBufferQueue_def find_ref_def slots_distinct_def getQueuedBuffer_def)
  moreover have "lookupNvmapObject (igbp_nvmapHandle (gb_buffer ?b)) frame_kernel =
      Inr \<lparr>nv_handle = 1, nv_id = 1, nv_size = 0x3C0000, nv_align = 0x1000, nv_heap = 0x40000000, nv_kind = 0, nv_addr = 0\<rparr>"
    by (simp add: lookupNvmapObject_def find_ref_def frame_kernel_def frame_services_def demo_igbp_def)
  moreover have "(0 :: u64) = nv_addr \<lparr>nv_handle = 1, nv_id = 1, nv_size = 0x3C0000, nv_align = 0x1000, nv_heap = 0x40000000, nv_kind = 0, nv_addr = 0\<rparr>
      + ucast (igbp_offset (gb_buffer ?b))"
    by (simp add: demo_igbp_def)
  ultimately obtain k' pre post where "draw frame_kernel = Inr k'" "length (displayBuffer (gServices k')) = 0x3C0000" "buffers ?q = pre @ ?b # post"
      "getBufferQueue (layer_bufferId ?l) (gDisplayManager (gServices k')) = Inr (?q\<lparr>buffers := pre @ ?b\<lparr>gb_status := FREE\<rparr> # post\<rparr>)"
    using frame_shown [OF ok _ _ _ _ _ _ _ mapped] by blast
  then show ?thesis by (intro exI [of _ k']) (auto simp: Cons_eq_append_conv)
qed

end
