(* ===== verification/Debug_Break.thy ===== *)
theory Debug_Break
  imports Cpu_State
begin

text \<open>
  The debug break of \<^verbatim>\<open>switch-emu/src/debug/debug.cpp\<close> as a transition system: the four cores in \<^verbatim>\<open>debugBreakHandler\<close> and the thread of the
  user interface in \<^verbatim>\<open>resumeFromDebugBreak\<close>. A core holds \<^verbatim>\<open>gDebugBreakMutex\<close> (\<open>break_lock\<close>) while it runs the handler and gives it up while it
  waits for \<^verbatim>\<open>gResumeIndicator\<close>, so what it does between two waits is one transition; only the test of \<^verbatim>\<open>gIsPaused\<close> and the wait after it are
  two, since the user interface clears the flag without the lock. A wait may end spuriously. A core enters the handler for
  a pending break interrupt or after a fault of the guest, at any time. The stack trace the handler logs is left out.
\<close>

unbundle bit_operations_syntax

datatype breaker = Outside | Pausing | PauseWait | PauseAsleep | PauseNotified | Resuming | ResumeWait | ResumeAsleep | ResumeNotified

record DebugState =
  gPausingCores :: u64
  gResumingCores :: u64
  gIsPaused :: bool
  gBreakInitiator :: u64
  gSingleStepping :: bool
  breaker_at :: "nat \<Rightarrow> breaker"
  break_lock :: "nat option"
  break_pending :: "nat \<Rightarrow> bool"
  stepping_mode :: bool
  ui_resuming :: bool

definition NO_CORES :: u64 where "NO_CORES = 0"
definition ALL_CORES :: u64 where "ALL_CORES = 0xF"

definition coreBit :: "nat \<Rightarrow> u64" where
  "coreBit i = shl 1 i"

definition put_breaker :: "nat \<Rightarrow> breaker \<Rightarrow> DebugState \<Rightarrow> DebugState" where
  "put_breaker i b s = s\<lparr>breaker_at := (breaker_at s)(i := b)\<rparr>"

text \<open>\<^verbatim>\<open>gResumeIndicator.notify_all()\<close>\<close>

fun notified :: "breaker \<Rightarrow> breaker" where
  "notified PauseAsleep = PauseNotified"
| "notified ResumeAsleep = ResumeNotified"
| "notified b = b"

definition notify_break :: "DebugState \<Rightarrow> DebugState" where
  "notify_break s = s\<lparr>breaker_at := (\<lambda>i. notified (breaker_at s i))\<rparr>"

text \<open>The handler up to its first loop.\<close>

definition enter_break :: "nat \<Rightarrow> DebugState \<Rightarrow> DebugState" where
  "enter_break i s =
     (let alreadyPausing = gPausingCores s;
          s = s\<lparr>break_lock := Some i, gSingleStepping := False, gPausingCores := alreadyPausing OR coreBit i\<rparr>;
          s = (if alreadyPausing = NO_CORES
               then s\<lparr>break_pending := (\<lambda>j. if j < 4 \<and> j \<noteq> i then True else break_pending s j),
                      gBreakInitiator := of_nat i, gResumingCores := 0\<rparr>
               else s);
          s = (if alreadyPausing OR coreBit i = ALL_CORES
               then s\<lparr>gIsPaused := True, stepping_mode := False, gPausingCores := 0\<rparr>
               else s)
      in put_breaker i Pausing s)"

text \<open>From the end of the first loop to the second, or to the end for the last core.\<close>

definition end_pause :: "nat \<Rightarrow> DebugState \<Rightarrow> DebugState" where
  "end_pause i s =
     (let resuming = gResumingCores s OR coreBit i;
          s = s\<lparr>break_pending := (break_pending s)(i := False), gResumingCores := resuming\<rparr>
      in if resuming = ALL_CORES then put_breaker i Outside (notify_break (s\<lparr>break_lock := None\<rparr>))
         else put_breaker i Resuming s)"

inductive dstep :: "DebugState \<Rightarrow> DebugState \<Rightarrow> bool" where
  enter_interrupt: "i < 4 \<Longrightarrow> breaker_at s i = Outside \<Longrightarrow> break_lock s = None \<Longrightarrow> break_pending s i \<Longrightarrow>
    dstep s (enter_break i (s\<lparr>break_pending := (break_pending s)(i := False)\<rparr>))"
| enter_fault: "i < 4 \<Longrightarrow> breaker_at s i = Outside \<Longrightarrow> break_lock s = None \<Longrightarrow> dstep s (enter_break i s)"
| still_paused: "breaker_at s i = Pausing \<Longrightarrow> gIsPaused s \<Longrightarrow> dstep s (put_breaker i PauseWait s)"
| not_paused: "breaker_at s i = Pausing \<Longrightarrow> \<not> gIsPaused s \<Longrightarrow> dstep s (end_pause i s)"
| pause_sleep: "breaker_at s i = PauseWait \<Longrightarrow> dstep s (put_breaker i PauseAsleep (s\<lparr>break_lock := None\<rparr>))"
| pause_spurious: "breaker_at s i = PauseAsleep \<Longrightarrow> dstep s (put_breaker i PauseNotified s)"
| pause_relock: "breaker_at s i = PauseNotified \<Longrightarrow> break_lock s = None \<Longrightarrow>
    dstep s (put_breaker i Pausing (s\<lparr>break_lock := Some i\<rparr>))"
| all_resumed: "breaker_at s i = Resuming \<Longrightarrow> gResumingCores s OR coreBit i = ALL_CORES \<Longrightarrow>
    dstep s (put_breaker i Outside (s\<lparr>break_lock := None\<rparr>))"
| not_resumed: "breaker_at s i = Resuming \<Longrightarrow> gResumingCores s OR coreBit i \<noteq> ALL_CORES \<Longrightarrow> dstep s (put_breaker i ResumeWait s)"
| resume_sleep: "breaker_at s i = ResumeWait \<Longrightarrow> dstep s (put_breaker i ResumeAsleep (s\<lparr>break_lock := None\<rparr>))"
| resume_spurious: "breaker_at s i = ResumeAsleep \<Longrightarrow> dstep s (put_breaker i ResumeNotified s)"
| resume_relock: "breaker_at s i = ResumeNotified \<Longrightarrow> break_lock s = None \<Longrightarrow>
    dstep s (put_breaker i Resuming (s\<lparr>break_lock := Some i\<rparr>))"
| ui_single_step: "\<not> ui_resuming s \<Longrightarrow> dstep s (s\<lparr>gSingleStepping := True\<rparr>)"
| ui_resume: "\<not> ui_resuming s \<Longrightarrow> dstep s (s\<lparr>gIsPaused := False, ui_resuming := gIsPaused s\<rparr>)"
| ui_notify: "ui_resuming s \<Longrightarrow> dstep s (notify_break (s\<lparr>ui_resuming := False\<rparr>))"
| ui_step_mode: "dstep s (s\<lparr>stepping_mode := b\<rparr>)"
| break_sent: "dstep s (s\<lparr>break_pending := (break_pending s)(i := True)\<rparr>)"

definition debug_start :: DebugState where
  "debug_start = \<lparr>gPausingCores = 0, gResumingCores = 0, gIsPaused = False, gBreakInitiator = 0, gSingleStepping = False,
     breaker_at = (\<lambda>i. Outside), break_lock = None, break_pending = (\<lambda>i. False), stepping_mode = False, ui_resuming = False\<rparr>"

subsection \<open>The invariant\<close>

fun phase :: "breaker \<Rightarrow> nat" where
  "phase Outside = 0"
| "phase Resuming = 2" | "phase ResumeWait = 2" | "phase ResumeAsleep = 2" | "phase ResumeNotified = 2"
| "phase _ = 1"

definition in_phase :: "nat \<Rightarrow> DebugState \<Rightarrow> nat set" where
  "in_phase n s = {i. i < 4 \<and> phase (breaker_at s i) = n}"

definition cores :: "u64 \<Rightarrow> nat set" where
  "cores w = {i. bit w i}"

lemma cores_add: "i < 4 \<Longrightarrow> cores (w OR coreBit i) = insert i (cores w)"
  by (auto simp: cores_def coreBit_def shl_def bit_simps)

lemma cores_eq: "cores w = cores v \<longleftrightarrow> w = v"
  unfolding cores_def set_eq_iff mem_Collect_eq using bit_word_eqI by blast

lemma cores_0 [simp]: "cores 0 = {}"
  by (simp add: cores_def)

lemma cores_all: "w = ALL_CORES \<longleftrightarrow> cores w = {..<4}"
proof -
  have "cores (mask 4) = {..<4}" by (auto simp: cores_def bit_mask_iff)
  moreover have "ALL_CORES = mask 4" by (simp add: ALL_CORES_def mask_eq_exp_minus_1)
  ultimately have "cores ALL_CORES = {..<4}" by simp
  then show ?thesis by (metis cores_eq)
qed

lemma cores_none: "w = NO_CORES \<longleftrightarrow> cores w = {}"
  using cores_eq [of w 0] by (simp add: NO_CORES_def)

text \<open>
  While a break gathers the cores (some bit of \<^verbatim>\<open>gPausingCores\<close> is set) the cores before the end of their first loop, and those that have set their
  resume bit, are among the cores gathered, all of them in the handler. Otherwise either all cores are in the handler or none is before the
  end of its first loop and the flag is clear.
\<close>

definition debug_inv :: "DebugState \<Rightarrow> bool" where
  "debug_inv s \<longleftrightarrow> cores (gPausingCores s) \<subset> {..<4} \<and> cores (gResumingCores s) \<subseteq> {..<4} \<and>
     cores (gResumingCores s) \<inter> in_phase 1 s = {} \<and> (\<forall>i\<ge>4. breaker_at s i = Outside) \<and>
     (gIsPaused s \<longrightarrow> in_phase 1 s \<noteq> {}) \<and>
     (if cores (gPausingCores s) \<noteq> {}
      then \<not> gIsPaused s \<and> in_phase 1 s \<subseteq> cores (gPausingCores s) \<and> cores (gResumingCores s) \<subseteq> cores (gPausingCores s) \<and>
        cores (gPausingCores s) \<inter> in_phase 0 s = {}
      else in_phase 0 s \<noteq> {} \<longrightarrow> in_phase 1 s = {} \<and> \<not> gIsPaused s)"

lemma phase_notified [simp]: "phase (notified b) = phase b"
  by (cases b) simp_all

lemma notified_Outside [simp]: "notified b = Outside \<longleftrightarrow> b = Outside"
  by (cases b) simp_all

lemma in_phase_put:
  "in_phase n (put_breaker i b s) = (if i < 4 \<and> phase b = n then insert i (in_phase n s) else in_phase n s - {i})"
  by (auto simp: in_phase_def put_breaker_def)

lemma in_phase_notify [simp]: "in_phase n (notify_break s) = in_phase n s"
  by (simp add: in_phase_def notify_break_def)

lemma in_phase_cong: "breaker_at s' = breaker_at s \<Longrightarrow> in_phase n s' = in_phase n s"
  by (simp add: in_phase_def)

lemma in_phase_iff: "i \<in> in_phase n s \<longleftrightarrow> i < 4 \<and> phase (breaker_at s i) = n"
  by (simp add: in_phase_def)

text \<open>Transitions inside a phase keep the invariant.\<close>

lemma debug_inv_same:
  assumes "debug_inv s" and "gPausingCores s' = gPausingCores s" "gResumingCores s' = gResumingCores s" "gIsPaused s' \<longrightarrow> gIsPaused s"
    and "\<And>i. phase (breaker_at s' i) = phase (breaker_at s i)"
  shows "debug_inv s'"
proof -
  have "in_phase n s' = in_phase n s" for n by (simp add: in_phase_def assms(5))
  moreover have "breaker_at s' i = Outside \<longleftrightarrow> breaker_at s i = Outside" for i
    using assms(5) [of i] by (cases "breaker_at s i"; cases "breaker_at s' i") simp_all
  ultimately show ?thesis using assms(1-4) unfolding debug_inv_def by (auto split: if_splits)
qed

lemma debug_inv_enter:
  assumes inv: "debug_inv s" and i: "i < 4" and out: "breaker_at s i = Outside"
  shows "debug_inv (enter_break i s)"
proof -
  have fields: "breaker_at (enter_break i s) = (breaker_at s)(i := Pausing)"
    "gPausingCores (enter_break i s) = (if gPausingCores s OR coreBit i = ALL_CORES then 0 else gPausingCores s OR coreBit i)"
    "gResumingCores (enter_break i s) = (if gPausingCores s = NO_CORES then 0 else gResumingCores s)"
    "gIsPaused (enter_break i s) \<longleftrightarrow> gPausingCores s OR coreBit i = ALL_CORES \<or> gIsPaused s"
    by (simp_all add: enter_break_def Let_def put_breaker_def)
  have ph: "in_phase 1 (enter_break i s) = insert i (in_phase 1 s)" "in_phase 0 (enter_break i s) = in_phase 0 s - {i}"
    using i by (auto simp: in_phase_def fields)
  have o: "i \<in> in_phase 0 s" "i \<notin> in_phase 1 s" using i out by (simp_all add: in_phase_iff)
  have dis: "in_phase 0 s \<inter> in_phase 1 s = {}" "in_phase 0 s \<subseteq> {..<4}" "in_phase 1 s \<subseteq> {..<4}" by (auto simp: in_phase_def)
  show ?thesis
    unfolding debug_inv_def fields ph cores_all cores_none cores_add [OF i]
    using inv i o dis unfolding debug_inv_def
    by (auto simp: cores_add split: if_splits)
qed

lemma debug_inv_end:
  assumes inv: "debug_inv s" and pausing: "breaker_at s i = Pausing" and flag: "\<not> gIsPaused s"
  shows "debug_inv (end_pause i s)"
proof -
  have i: "i < 4" using inv pausing by (auto simp: debug_inv_def intro: ccontr)
  have ph: "in_phase 1 (end_pause i s) = in_phase 1 s - {i}"
    "in_phase 0 (end_pause i s) = (if gResumingCores s OR coreBit i = ALL_CORES then insert i (in_phase 0 s) else in_phase 0 s - {i})"
    using i by (auto simp: in_phase_def end_pause_def Let_def put_breaker_def notify_break_def)
  have fields: "gPausingCores (end_pause i s) = gPausingCores s" "gIsPaused (end_pause i s) = gIsPaused s"
    "gResumingCores (end_pause i s) = gResumingCores s OR coreBit i" "4 \<le> j \<Longrightarrow> breaker_at (end_pause i s) j = Outside \<longleftrightarrow> breaker_at s j = Outside" for j
    using i by (auto simp: end_pause_def Let_def put_breaker_def notify_break_def)
  have o: "i \<in> in_phase 1 s" "i \<notin> in_phase 0 s" "in_phase 1 s \<subseteq> {..<4}" using i pausing by (auto simp: in_phase_def)
  show ?thesis
  proof (cases "gResumingCores s OR coreBit i = ALL_CORES")
    case True
    then have r: "insert i (cores (gResumingCores s)) = {..<4}" by (simp add: cores_all cores_add [OF i])
    have F: "in_phase 1 s = {i}" "cores (gPausingCores s) = {}"
      using inv o r unfolding debug_inv_def by (blast, auto split: if_splits)
    show ?thesis
      unfolding debug_inv_def fields(1-3) ph cores_all cores_add [OF i] F
      using inv i F r flag fields(4) unfolding debug_inv_def by auto
  next
    case False
    then show ?thesis
      unfolding debug_inv_def fields(1-3) ph cores_add [OF i]
      using inv i o flag fields(4) unfolding debug_inv_def by (auto split: if_splits)
  qed
qed

lemma debug_inv_leave:
  assumes inv: "debug_inv s" and resuming: "breaker_at s i = Resuming" and all: "gResumingCores s OR coreBit i = ALL_CORES"
  shows "debug_inv (put_breaker i Outside (s\<lparr>break_lock := None\<rparr>))"
proof -
  have i: "i < 4" using inv resuming by (auto simp: debug_inv_def intro: ccontr)
  let ?s = "put_breaker i Outside (s\<lparr>break_lock := None\<rparr>)"
  have ph: "in_phase 1 ?s = in_phase 1 s" "in_phase 0 ?s = insert i (in_phase 0 s)"
    using i resuming by (auto simp: in_phase_def put_breaker_def)
  have fields: "gPausingCores ?s = gPausingCores s" "gIsPaused ?s = gIsPaused s" "gResumingCores ?s = gResumingCores s"
    "4 \<le> j \<Longrightarrow> breaker_at ?s j = Outside \<longleftrightarrow> breaker_at s j = Outside" for j
    using i by (auto simp: put_breaker_def)
  have o: "i \<notin> in_phase 1 s" "in_phase 1 s \<subseteq> {..<4}" using i resuming by (auto simp: in_phase_def)
  have r: "insert i (cores (gResumingCores s)) = {..<4}" using all by (simp add: cores_all cores_add [OF i])
  have "in_phase 1 s \<subseteq> insert i (cores (gResumingCores s))" using o(2) unfolding r .
  moreover have "cores (gResumingCores s) \<inter> in_phase 1 s = {}" using inv unfolding debug_inv_def by simp
  ultimately have F: "in_phase 1 s = {}" using o(1) by blast
  have p: "\<not> gIsPaused s" using inv F unfolding debug_inv_def by simp
  have q: "i \<notin> cores (gPausingCores s)"
  proof
    assume "i \<in> cores (gPausingCores s)"
    moreover from this inv have "cores (gResumingCores s) \<subseteq> cores (gPausingCores s)" unfolding debug_inv_def by (auto split: if_splits)
    ultimately have "{..<4} \<subseteq> cores (gPausingCores s)" unfolding r [symmetric] by simp
    with inv show False unfolding debug_inv_def by blast
  qed
  show ?thesis
    unfolding debug_inv_def fields(1-3) ph F
    using inv i p q fields(4) unfolding debug_inv_def F by (auto split: if_splits)
qed

lemma debug_inv_step:
  assumes "dstep s s'" and "debug_inv s"
  shows "debug_inv s'"
  using assms
proof cases
  case (enter_interrupt i)
  moreover have "debug_inv (s\<lparr>break_pending := (break_pending s)(i := False)\<rparr>)" by (rule debug_inv_same [OF assms(2)]) simp_all
  ultimately show ?thesis using debug_inv_enter by simp
next
  case (enter_fault i)
  then show ?thesis using assms(2) by (simp add: debug_inv_enter)
next
  case (not_paused i)
  then show ?thesis using assms(2) by (simp add: debug_inv_end)
next
  case (all_resumed i)
  then show ?thesis using assms(2) by (simp add: debug_inv_leave)
qed (auto intro!: debug_inv_same [OF assms(2)] simp: put_breaker_def notify_break_def)

lemma debug_inv_reachable: "dstep\<^sup>*\<^sup>* debug_start s \<Longrightarrow> debug_inv s"
proof (induction rule: rtranclp_induct)
  case base
  have "(0 :: nat) \<in> {..<4}" by simp
  then have "{} \<subset> {..<4 :: nat}" by blast
  then show ?case by (simp add: debug_inv_def debug_start_def in_phase_def)
qed (rule debug_inv_step)

subsection \<open>Two cores that wait for each other\<close>

text \<open>
  Two cores in the second loop whose resume bits are clear: nobody sets the bit of a core but the core itself, before that loop, and each of the two
  needs the other's bit. No later break can gather all cores, so the flag stays clear.
\<close>

definition stuck :: "nat \<Rightarrow> nat \<Rightarrow> DebugState \<Rightarrow> bool" where
  "stuck i j s \<longleftrightarrow> i < 4 \<and> j < 4 \<and> i \<noteq> j \<and> (\<forall>c\<in>{i, j}. phase (breaker_at s c) = 2 \<and> \<not> bit (gResumingCores s) c \<and> \<not> bit (gPausingCores s) c) \<and>
     \<not> gIsPaused s"

lemma bit_coreBit: "i < 4 \<Longrightarrow> bit (coreBit i) n \<longleftrightarrow> n = i"
  by (auto simp: coreBit_def shl_def bit_simps)

lemma bit_all_cores: "bit ALL_CORES n \<longleftrightarrow> n < 4"
  using cores_all [of ALL_CORES] by (auto simp: cores_def)

lemma not_all_cores: "j < 4 \<Longrightarrow> \<not> bit w j \<Longrightarrow> w \<noteq> ALL_CORES"
  using bit_all_cores by blast

lemma stuck_step:
  assumes "dstep s s'" and "debug_inv s" and st: "stuck i j s"
  shows "stuck i j s'"
proof -
  have out: "breaker_at s c = Outside" if "4 \<le> c" for c using assms(2) that by (simp add: debug_inv_def)
  note S = st [unfolded stuck_def]
  have enter: "stuck i j (enter_break c s)" if "stuck i j s" "c < 4" "breaker_at s c = Outside" for c s
  proof -
    have "c \<noteq> i" "c \<noteq> j" using that by (auto simp: stuck_def)
    moreover have "gPausingCores s OR coreBit c \<noteq> ALL_CORES"
      using that calculation by (intro not_all_cores [of i]) (auto simp: stuck_def bit_simps bit_coreBit)
    ultimately show ?thesis
      using that by (auto simp: stuck_def enter_break_def Let_def put_breaker_def bit_simps bit_coreBit)
  qed
  show ?thesis
    using assms(1)
  proof cases
    case (enter_interrupt c)
    moreover have "stuck i j (s\<lparr>break_pending := (break_pending s)(c := False)\<rparr>)" using st by (simp add: stuck_def)
    ultimately show ?thesis using enter by simp
  next
    case (enter_fault c)
    then show ?thesis using enter st by simp
  next
    case (not_paused c)
    then have "c < 4" "c \<noteq> i" "c \<noteq> j" using out [of c] S by (auto intro: ccontr)
    moreover from this S have "gResumingCores s OR coreBit c \<noteq> ALL_CORES"
      by (intro not_all_cores [of i]) (auto simp: bit_simps bit_coreBit)
    ultimately show ?thesis using not_paused S
      by (auto simp: stuck_def end_pause_def Let_def put_breaker_def notify_break_def bit_simps bit_coreBit)
  next
    case (all_resumed c)
    then have c: "c < 4" using out [of c] by (auto intro: ccontr)
    have "d = c" if "d \<in> {i, j}" for d
    proof -
      have "bit (gResumingCores s OR coreBit c) d" unfolding all_resumed(3) using that S by (auto simp: bit_all_cores)
      then show ?thesis using that S by (auto simp: bit_simps bit_coreBit [OF c])
    qed
    then have False using S by blast
    then show ?thesis ..
  qed (use S in \<open>auto simp: stuck_def put_breaker_def notify_break_def\<close>)
qed

lemma stuck_forever:
  assumes "dstep\<^sup>*\<^sup>* s s'" and "debug_inv s" and "stuck i j s"
  shows "stuck i j s'"
proof -
  have "debug_inv s' \<and> stuck i j s'"
    using assms by (induction rule: rtranclp_induct) (auto intro: debug_inv_step stuck_step)
  then show ?thesis ..
qed

text \<open>A core that comes in while others are still missing passes the first loop and goes to sleep in the second.\<close>

definition arrive :: "nat \<Rightarrow> DebugState \<Rightarrow> DebugState" where
  "arrive i s = put_breaker i ResumeAsleep ((end_pause i (enter_break i s))\<lparr>break_lock := None\<rparr>)"

lemma arrive_steps:
  assumes "i < 4" "breaker_at s i = Outside" "break_lock s = None" "\<not> gIsPaused s" "gPausingCores s OR coreBit i \<noteq> ALL_CORES"
    and "(if gPausingCores s = NO_CORES then 0 else gResumingCores s) OR coreBit i \<noteq> ALL_CORES"
  shows "dstep\<^sup>*\<^sup>* s (arrive i s)"
proof -
  let ?s1 = "enter_break i s" and ?s2 = "end_pause i (enter_break i s)"
  have s1: "breaker_at ?s1 i = Pausing" "\<not> gIsPaused ?s1"
    "gResumingCores ?s1 = (if gPausingCores s = NO_CORES then 0 else gResumingCores s)"
    using assms(4,5) by (simp_all add: enter_break_def Let_def put_breaker_def)
  have s2: "breaker_at ?s2 i = Resuming" "gResumingCores ?s2 OR coreBit i \<noteq> ALL_CORES"
    using assms(6) by (simp_all add: end_pause_def Let_def s1(3) put_breaker_def ac_simps)
  have "dstep\<^sup>*\<^sup>* s ?s1" by (rule r_into_rtranclp, rule enter_fault) fact+
  also have "dstep ?s1 ?s2" by (rule not_paused) fact+
  also have "dstep ?s2 (put_breaker i ResumeWait ?s2)" by (rule not_resumed) fact+
  also have "dstep (put_breaker i ResumeWait ?s2) (put_breaker i ResumeAsleep ((put_breaker i ResumeWait ?s2)\<lparr>break_lock := None\<rparr>))"
    by (rule resume_sleep) (simp add: put_breaker_def)
  also have "put_breaker i ResumeAsleep ((put_breaker i ResumeWait ?s2)\<lparr>break_lock := None\<rparr>) = arrive i s"
    by (simp add: arrive_def put_breaker_def)
  finally show ?thesis by simp
qed

definition gathered :: DebugState where
  "gathered = enter_break 3 (arrive 2 (arrive 1 (arrive 0 debug_start)))"

definition resumed :: DebugState where
  "resumed = end_pause 3 (notify_break (gathered\<lparr>gIsPaused := False, ui_resuming := False\<rparr>))"

lemma gathered_reachable: "dstep\<^sup>*\<^sup>* debug_start gathered"
proof -
  have "dstep\<^sup>*\<^sup>* debug_start (arrive 0 debug_start)" by (rule arrive_steps; code_simp)
  also have "dstep\<^sup>*\<^sup>* (arrive 0 debug_start) (arrive 1 (arrive 0 debug_start))" by (rule arrive_steps; code_simp)
  also have "dstep\<^sup>*\<^sup>* (arrive 1 (arrive 0 debug_start)) (arrive 2 (arrive 1 (arrive 0 debug_start)))" by (rule arrive_steps; code_simp)
  also have "dstep (arrive 2 (arrive 1 (arrive 0 debug_start))) gathered"
    unfolding gathered_def by (rule enter_fault; code_simp)
  finally show ?thesis by simp
qed

lemma resumed_reachable: "dstep\<^sup>*\<^sup>* gathered resumed"
proof -
  let ?r = "gathered\<lparr>gIsPaused := False, ui_resuming := gIsPaused gathered\<rparr>"
  have p: "gIsPaused gathered" "\<not> ui_resuming gathered" by code_simp+
  have "dstep\<^sup>*\<^sup>* gathered ?r" using p(2) by (intro r_into_rtranclp ui_resume)
  also have "dstep ?r (notify_break (?r\<lparr>ui_resuming := False\<rparr>))" by (rule ui_notify) (simp add: p)
  also have "notify_break (?r\<lparr>ui_resuming := False\<rparr>) = notify_break (gathered\<lparr>gIsPaused := False, ui_resuming := False\<rparr>)" by simp
  also have "dstep (notify_break (gathered\<lparr>gIsPaused := False, ui_resuming := False\<rparr>)) resumed"
    unfolding resumed_def by (rule not_paused; code_simp)
  finally show ?thesis by simp
qed

subsection \<open>Properties\<close>

text \<open>
  C29. A pause stops every core: in every reachable state in which \<^verbatim>\<open>gIsPaused\<close> is set, each of the four cores is inside the handler, and the core
  that set the flag has not passed its first loop.
\<close>

theorem pause_stops_all:
  assumes "dstep\<^sup>*\<^sup>* debug_start s" and "gIsPaused s"
  shows "(\<forall>i < 4. breaker_at s i \<noteq> Outside) \<and> (\<exists>i < 4. breaker_at s i \<in> {Pausing, PauseWait, PauseAsleep, PauseNotified})"
proof -
  have "debug_inv s" by (rule debug_inv_reachable) fact
  then have "in_phase 0 s = {}" "in_phase 1 s \<noteq> {}" using assms(2) unfolding debug_inv_def by (auto split: if_splits)
  then obtain i where i: "i < 4" "phase (breaker_at s i) = 1" and o: "\<forall>i < 4. phase (breaker_at s i) \<noteq> 0" by (auto simp: in_phase_def)
  from i(2) have "breaker_at s i \<in> {Pausing, PauseWait, PauseAsleep, PauseNotified}" by (cases "breaker_at s i") simp_all
  with i(1) o show ?thesis by (metis phase.simps(1))
qed

theorem pause_stops_all_witness:
  "breaker_at gathered 3 = Pausing \<and> breaker_at gathered 0 \<noteq> Outside \<and> breaker_at gathered 1 \<noteq> Outside \<and> breaker_at gathered 2 \<noteq> Outside"
proof -
  have "gIsPaused gathered" "breaker_at gathered 3 = Pausing" by code_simp+
  with pause_stops_all [OF gathered_reachable] show ?thesis by simp
qed

text \<open>
  C30. Breaking again too early hangs the emulator: when the core that resumed last breaks again before two of the others have left the handler, its
  reset of \<^verbatim>\<open>gResumingCores\<close> makes those wait for ever. Whatever runs afterwards, they stay in the handler and the user cannot resume,
  since \<^verbatim>\<open>gIsPaused\<close> stays clear. The comment in the handler says that the second loop keeps one core from breaking while another is still resuming.
\<close>

theorem early_break_hangs:
  assumes "dstep\<^sup>*\<^sup>* debug_start s" and "breaker_at s c = Outside" and "c < 4" and "break_lock s = None" and "gPausingCores s = 0"
    and "i < 4" and "j < 4" and "i \<noteq> j" and "phase (breaker_at s i) = 2" and "phase (breaker_at s j) = 2"
    and "dstep\<^sup>*\<^sup>* (enter_break c s) s'"
  shows "dstep s (enter_break c s) \<and> breaker_at s' i \<noteq> Outside \<and> breaker_at s' j \<noteq> Outside \<and> \<not> gIsPaused s'"
proof -
  have inv: "debug_inv s" by (rule debug_inv_reachable) fact
  have step: "dstep s (enter_break c s)" by (rule enter_fault) fact+
  have "in_phase 0 s \<noteq> {}" using assms(2,3) by (auto simp: in_phase_def)
  then have "\<not> gIsPaused s" using inv assms(5) by (simp add: debug_inv_def)
  moreover have "c \<noteq> i" "c \<noteq> j" using assms by auto
  moreover have "coreBit c \<noteq> ALL_CORES" using calculation assms(6) by (intro not_all_cores [of i]) (simp_all add: bit_coreBit [OF assms(3)])
  ultimately have "stuck i j (enter_break c s)"
    using assms by (simp add: stuck_def enter_break_def Let_def NO_CORES_def put_breaker_def bit_coreBit)
  from stuck_forever [OF assms(11) debug_inv_step [OF step inv] this] show ?thesis
    using step by (auto simp: stuck_def)
qed

theorem early_break_hangs_witness:
  "dstep\<^sup>*\<^sup>* debug_start resumed \<and> dstep resumed (enter_break 3 resumed) \<and>
    breaker_at (enter_break 3 resumed) 0 \<noteq> Outside \<and> breaker_at (enter_break 3 resumed) 1 \<noteq> Outside \<and> \<not> gIsPaused (enter_break 3 resumed)"
proof -
  have r: "dstep\<^sup>*\<^sup>* debug_start resumed" using gathered_reachable resumed_reachable by (rule rtranclp_trans)
  have "breaker_at resumed 3 = Outside" "break_lock resumed = None" "gPausingCores resumed = 0"
    "phase (breaker_at resumed 0) = 2" "phase (breaker_at resumed 1) = 2" by code_simp+
  with r early_break_hangs [OF r, of 3 0 1 "enter_break 3 resumed"] show ?thesis by simp
qed

end
