(* ===== verification/Inst_Info.thy ===== *)
theory Inst_Info
  imports Instruction_Ids
begin

text \<open>
  What the disassembler knows of the instructions: the operand fields of \<^verbatim>\<open>libcpu/inc/disassembler.h\<close>, the assembler name and the operand list of every line of
  \<^verbatim>\<open>libcpu/inc/instructions.inl\<close>, section by section, and the aliases of \<^verbatim>\<open>libcpu/inc/instruction_aliases.inl\<close>.
\<close>

datatype (plugins only: size) FieldType =
    NONE | cond_branch | cond_comp | Wt | Xt | Bt | Ht | St | Dt | Qt | Wt2 | Xt2 | Bt2 | Ht2 | St2 | Dt2 | Qt2 | Wn | Xn | Bn | Hn | Sn
  | Dn | Qn | Wn_WSP | Xn_SP | Wm | Xm | Bm | Hm | Sm | Dm | Qm | Wa | Xa | Ba | Ha | Sa | Da | Qa | Wd | Xd | Bd | Hd | Sd | Dd | Qd
  | Wd_WSP | Xd_SP | Ws | imm_tbz | imm_exceptions | imm_hint | imm_clrex | imm_adr | imm_adrp | imm_addsub | imm_logical | imm_mov
  | imm_bitfield | imm_extract | imm_compare | imm_shift | label_cond_branch | label_branch | label_tbz | label_loadstore | prefetch_op
  | barrier_type | shifted_reg | W_extended_reg | X_extended_reg | cond_comp_flags | loadstore_no_off | loadstore_post_off
  | loadstore_pre_off | loadstore_unscaled_off | loadstore_unsigned_off_8 | loadstore_unsigned_off_16 | loadstore_unsigned_off_32
  | loadstore_unsigned_off_64 | loadstore_unsigned_off_128 | loadstore_post_off_pair_32 | loadstore_post_off_pair_64
  | loadstore_post_off_pair_128 | loadstore_pre_off_pair_32 | loadstore_pre_off_pair_64 | loadstore_pre_off_pair_128
  | loadstore_off_pair_32 | loadstore_off_pair_64 | loadstore_off_pair_128 | loadstore_reg | float_zero_imm | TODO

record InstructionInfo =
  info_id :: instructionID
  info_name :: string
  info_regs :: "FieldType list"
  info_mask :: u32
  info_condition :: u32
  info_rawName :: string

text \<open>The entry of an \<^verbatim>\<open>INST\<close> line: enumerator, name, operands and the spelling of the enumerator.\<close>

definition INFO :: "instructionID \<Rightarrow> string \<Rightarrow> FieldType list \<Rightarrow> string \<Rightarrow> InstructionInfo" where
  "INFO x name regs raw_name =
     \<lparr>info_id = x, info_name = name, info_regs = regs, info_mask = 0, info_condition = 0, info_rawName = raw_name\<rparr>"

text \<open>The entry of an \<^verbatim>\<open>ALIAS\<close> line: name, operands, mask and the bits under it.\<close>

definition ALIAS :: "string \<Rightarrow> FieldType list \<Rightarrow> u32 \<Rightarrow> u32 \<Rightarrow> InstructionInfo" where
  "ALIAS name regs msk condition =
     \<lparr>info_id = ID_INVALID, info_name = name, info_regs = regs, info_mask = msk, info_condition = condition, info_rawName = []\<rparr>"

subsection \<open>Instructions\<close>

definition info_Branch :: "InstructionInfo list" where
  "info_Branch = [
     INFO ID_B_cond ''B'' [cond_branch, label_cond_branch] ''B_cond'',
     INFO ID_BR ''BR'' [Xn] ''BR'',
     INFO ID_BLR ''BLR'' [Xn] ''BLR'',
     INFO ID_RET ''RET'' [Xn] ''RET'',
     INFO ID_ERET ''ERET'' [] ''ERET'',
     INFO ID_DRPS ''DRPS'' [] ''DRPS'',
     INFO ID_B ''B'' [label_branch] ''B'',
     INFO ID_BL ''BL'' [label_branch] ''BL'',
     INFO ID_CBZ_32 ''CBZ'' [Wt, label_cond_branch] ''CBZ_32'',
     INFO ID_CBNZ_32 ''CBNZ'' [Wt, label_cond_branch] ''CBNZ_32'',
     INFO ID_CBZ_64 ''CBZ'' [Xt, label_cond_branch] ''CBZ_64'',
     INFO ID_CBNZ_64 ''CBNZ'' [Xt, label_cond_branch] ''CBNZ_64'',
     INFO ID_TBZ ''TBZ'' [Xt, imm_tbz, label_tbz] ''TBZ'',
     INFO ID_TBNZ ''TBNZ'' [Xt, imm_tbz, label_tbz] ''TBNZ'']"

definition info_Exception_Generating :: "InstructionInfo list" where
  "info_Exception_Generating = [
     INFO ID_SVC ''SVC'' [imm_exceptions] ''SVC'',
     INFO ID_HVC ''HVC'' [imm_exceptions] ''HVC'',
     INFO ID_SMC ''SMC'' [imm_exceptions] ''SMC'',
     INFO ID_BRK ''BRK'' [imm_exceptions] ''BRK'',
     INFO ID_HLT ''HLT'' [imm_exceptions] ''HLT'',
     INFO ID_DCPS1 ''DCPS1'' [imm_exceptions] ''DCPS1'',
     INFO ID_DCPS2 ''DCPS2'' [imm_exceptions] ''DCPS2'',
     INFO ID_DCPS3 ''DCPS3'' [imm_exceptions] ''DCPS3'']"

definition info_System :: "InstructionInfo list" where
  "info_System = [
     INFO ID_MSR_imm ''MSR'' [TODO] ''MSR_imm'',
     INFO ID_MSR_reg ''MSR'' [TODO] ''MSR_reg'',
     INFO ID_HINT ''HINT'' [imm_hint] ''HINT'',
     INFO ID_NOP ''NOP'' [] ''NOP'',
     INFO ID_YIELD ''YIELD'' [] ''YIELD'',
     INFO ID_WFE ''WFE'' [] ''WFE'',
     INFO ID_WFI ''WFI'' [] ''WFI'',
     INFO ID_SEV ''SEV'' [] ''SEV'',
     INFO ID_SEVL ''SEVL'' [] ''SEVL'',
     INFO ID_CLREX ''CLREX'' [imm_clrex] ''CLREX'',
     INFO ID_DSB ''DSB'' [barrier_type] ''DSB'',
     INFO ID_DMB ''DMB'' [barrier_type] ''DMB'',
     INFO ID_ISB ''ISB'' [barrier_type] ''ISB'',
     INFO ID_SYS ''SYS'' [TODO] ''SYS'',
     INFO ID_SYSL ''SYSL'' [TODO] ''SYSL'',
     INFO ID_MRS ''MRS'' [TODO] ''MRS'']"

definition info_PC_rel_addressing :: "InstructionInfo list" where
  "info_PC_rel_addressing = [
     INFO ID_ADR ''ADR'' [Xd, imm_adr] ''ADR'',
     INFO ID_ADRP ''ADRP'' [Xd, imm_adrp] ''ADRP'']"

definition info_Add_subtract_immediate :: "InstructionInfo list" where
  "info_Add_subtract_immediate = [
     INFO ID_ADD_32_imm ''ADD'' [Wd_WSP, Wn_WSP, imm_addsub] ''ADD_32_imm'',
     INFO ID_ADDS_32_imm ''ADDS'' [Wd, Wn_WSP, imm_addsub] ''ADDS_32_imm'',
     INFO ID_SUB_32_imm ''SUB'' [Wd_WSP, Wn_WSP, imm_addsub] ''SUB_32_imm'',
     INFO ID_SUBS_32_imm ''SUBS'' [Wd, Wn_WSP, imm_addsub] ''SUBS_32_imm'',
     INFO ID_ADD_64_imm ''ADD'' [Xd_SP, Xn_SP, imm_addsub] ''ADD_64_imm'',
     INFO ID_ADDS_64_imm ''ADDS'' [Xd, Xn_SP, imm_addsub] ''ADDS_64_imm'',
     INFO ID_SUB_64_imm ''SUB'' [Xd_SP, Xn_SP, imm_addsub] ''SUB_64_imm'',
     INFO ID_SUBS_64_imm ''SUBS'' [Xd_SP, Xn_SP, imm_addsub] ''SUBS_64_imm'']"

definition info_Logical_immediate :: "InstructionInfo list" where
  "info_Logical_immediate = [
     INFO ID_AND_32_imm ''AND'' [Wd_WSP, Wn, imm_logical] ''AND_32_imm'',
     INFO ID_ORR_32_imm ''ORR'' [Wd_WSP, Wn, imm_logical] ''ORR_32_imm'',
     INFO ID_EOR_32_imm ''EOR'' [Wd_WSP, Wn, imm_logical] ''EOR_32_imm'',
     INFO ID_ANDS_32_imm ''ANDS'' [Wd, Wn, imm_logical] ''ANDS_32_imm'',
     INFO ID_AND_64_imm ''AND'' [Xd_SP, Xn, imm_logical] ''AND_64_imm'',
     INFO ID_ORR_64_imm ''ORR'' [Xd_SP, Xn, imm_logical] ''ORR_64_imm'',
     INFO ID_EOR_64_imm ''EOR'' [Xd_SP, Xn, imm_logical] ''EOR_64_imm'',
     INFO ID_ANDS_64_imm ''ANDS'' [Xd, Xn, imm_logical] ''ANDS_64_imm'']"

definition info_Move_wide_immediate :: "InstructionInfo list" where
  "info_Move_wide_immediate = [
     INFO ID_MOVN_32 ''MOVN'' [Wd, imm_mov] ''MOVN_32'',
     INFO ID_MOVZ_32 ''MOVZ'' [Wd, imm_mov] ''MOVZ_32'',
     INFO ID_MOVK_32 ''MOVK'' [Wd, imm_mov] ''MOVK_32'',
     INFO ID_MOVN_64 ''MOVN'' [Xd, imm_mov] ''MOVN_64'',
     INFO ID_MOVZ_64 ''MOVZ'' [Xd, imm_mov] ''MOVZ_64'',
     INFO ID_MOVK_64 ''MOVK'' [Xd, imm_mov] ''MOVK_64'']"

definition info_Bitfield :: "InstructionInfo list" where
  "info_Bitfield = [
     INFO ID_SBFM_32 ''SBFM'' [Wd, Wn, imm_bitfield] ''SBFM_32'',
     INFO ID_BFM_32 ''BFM'' [Wd, Wn, imm_bitfield] ''BFM_32'',
     INFO ID_UBFM_32 ''UBFM'' [Wd, Wn, imm_bitfield] ''UBFM_32'',
     INFO ID_SBFM_64 ''SBFM'' [Xd, Xn, imm_bitfield] ''SBFM_64'',
     INFO ID_BFM_64 ''BFM'' [Xd, Xn, imm_bitfield] ''BFM_64'',
     INFO ID_UBFM_64 ''UBFM'' [Xd, Xn, imm_bitfield] ''UBFM_64'']"

definition info_Extract :: "InstructionInfo list" where
  "info_Extract = [
     INFO ID_EXTR_32 ''EXTR'' [Wd, Wn, Wm, imm_extract] ''EXTR_32'',
     INFO ID_EXTR_64 ''EXTR'' [Xd, Xn, Xm, imm_extract] ''EXTR_64'']"

definition info_Data_processing_2_source :: "InstructionInfo list" where
  "info_Data_processing_2_source = [
     INFO ID_UDIV_32 ''UDIV'' [Wd, Wn, Wm] ''UDIV_32'',
     INFO ID_SDIV_32 ''SDIV'' [Wd, Wn, Wm] ''SDIV_32'',
     INFO ID_LSLV_32 ''LSL'' [Wd, Wn, Wm] ''LSLV_32'',
     INFO ID_LSRV_32 ''LSR'' [Wd, Wn, Wm] ''LSRV_32'',
     INFO ID_ASRV_32 ''ASR'' [Wd, Wn, Wm] ''ASRV_32'',
     INFO ID_RORV_32 ''ROR'' [Wd, Wn, Wm] ''RORV_32'',
     INFO ID_UDIV_64 ''UDIV'' [Xd, Xn, Xm] ''UDIV_64'',
     INFO ID_SDIV_64 ''SDIV'' [Xd, Xn, Xm] ''SDIV_64'',
     INFO ID_LSLV_64 ''LSL'' [Xd, Xn, Xm] ''LSLV_64'',
     INFO ID_LSRV_64 ''LSR'' [Xd, Xn, Xm] ''LSRV_64'',
     INFO ID_ASRV_64 ''ASR'' [Xd, Xn, Xm] ''ASRV_64'',
     INFO ID_RORV_64 ''ROR'' [Xd, Xn, Xm] ''RORV_64'',
     INFO ID_CRC32B ''CRC32B'' [Wd, Wn, Wm] ''CRC32B'',
     INFO ID_CRC32H ''CRC32H'' [Wd, Wn, Wm] ''CRC32H'',
     INFO ID_CRC32W ''CRC32W'' [Wd, Wn, Wm] ''CRC32W'',
     INFO ID_CRC32X ''CRC32X'' [Wd, Wn, Xm] ''CRC32X'',
     INFO ID_CRC32CB ''CRC32CB'' [Wd, Wn, Wm] ''CRC32CB'',
     INFO ID_CRC32CH ''CRC32CH'' [Wd, Wn, Wm] ''CRC32CH'',
     INFO ID_CRC32CW ''CRC32CW'' [Wd, Wn, Wm] ''CRC32CW'',
     INFO ID_CRC32CX ''CRC32CX'' [Wd, Wn, Xm] ''CRC32CX'']"

definition info_Data_processing_1_source :: "InstructionInfo list" where
  "info_Data_processing_1_source = [
     INFO ID_RBIT_32 ''RBIT'' [Wd, Wn] ''RBIT_32'',
     INFO ID_REV16_32 ''REV16'' [Wd, Wn] ''REV16_32'',
     INFO ID_REV_32 ''REV'' [Wd, Wn] ''REV_32'',
     INFO ID_CLZ_32 ''CLZ'' [Wd, Wn] ''CLZ_32'',
     INFO ID_CLS_32 ''CLS'' [Wd, Wn] ''CLS_32'',
     INFO ID_RBIT_64 ''RBIT'' [Xd, Xn] ''RBIT_64'',
     INFO ID_REV16_64 ''REV16'' [Xd, Xn] ''REV16_64'',
     INFO ID_REV32_64 ''REV32'' [Xd, Xn] ''REV32_64'',
     INFO ID_REV_64 ''REV'' [Xd, Xn] ''REV_64'',
     INFO ID_CLZ_64 ''CLZ'' [Xd, Xn] ''CLZ_64'',
     INFO ID_CLS_64 ''CLS'' [Xd, Xn] ''CLS_64'']"

definition info_Logical_shifted_register :: "InstructionInfo list" where
  "info_Logical_shifted_register = [
     INFO ID_AND_32_shifted ''AND'' [Wd, Wn, Wm, shifted_reg] ''AND_32_shifted'',
     INFO ID_BIC_32_shifted ''BIC'' [Wd, Wn, Wm, shifted_reg] ''BIC_32_shifted'',
     INFO ID_ORR_32_shifted ''ORR'' [Wd, Wn, Wm, shifted_reg] ''ORR_32_shifted'',
     INFO ID_ORN_32_shifted ''ORN'' [Wd, Wn, Wm, shifted_reg] ''ORN_32_shifted'',
     INFO ID_EOR_32_shifted ''EOR'' [Wd, Wn, Wm, shifted_reg] ''EOR_32_shifted'',
     INFO ID_EON_32_shifted ''EON'' [Wd, Wn, Wm, shifted_reg] ''EON_32_shifted'',
     INFO ID_ANDS_32_shifted ''ANDS'' [Wd, Wn, Wm, shifted_reg] ''ANDS_32_shifted'',
     INFO ID_BICS_32_shifted ''BICS'' [Wd, Wn, Wm, shifted_reg] ''BICS_32_shifted'',
     INFO ID_AND_64_shifted ''AND'' [Xd, Xn, Xm, shifted_reg] ''AND_64_shifted'',
     INFO ID_BIC_64_shifted ''BIC'' [Xd, Xn, Xm, shifted_reg] ''BIC_64_shifted'',
     INFO ID_ORR_64_shifted ''ORR'' [Xd, Xn, Xm, shifted_reg] ''ORR_64_shifted'',
     INFO ID_ORN_64_shifted ''ORN'' [Xd, Xn, Xm, shifted_reg] ''ORN_64_shifted'',
     INFO ID_EOR_64_shifted ''EOR'' [Xd, Xn, Xm, shifted_reg] ''EOR_64_shifted'',
     INFO ID_EON_64_shifted ''EON'' [Xd, Xn, Xm, shifted_reg] ''EON_64_shifted'',
     INFO ID_ANDS_64_shifted ''ANDS'' [Xd, Xn, Xm, shifted_reg] ''ANDS_64_shifted'',
     INFO ID_BICS_64_shifted ''BICS'' [Xd, Xn, Xm, shifted_reg] ''BICS_64_shifted'']"

definition info_Add_subtract_shifted_register :: "InstructionInfo list" where
  "info_Add_subtract_shifted_register = [
     INFO ID_ADD_32_shifted ''ADD'' [Wd, Wn, Wm, shifted_reg] ''ADD_32_shifted'',
     INFO ID_ADDS_32_shifted ''ADDS'' [Wd, Wn, Wm, shifted_reg] ''ADDS_32_shifted'',
     INFO ID_SUB_32_shifted ''SUB'' [Wd, Wn, Wm, shifted_reg] ''SUB_32_shifted'',
     INFO ID_SUBS_32_shifted ''SUBS'' [Wd, Wn, Wm, shifted_reg] ''SUBS_32_shifted'',
     INFO ID_ADD_64_shifted ''ADD'' [Xd, Xn, Xm, shifted_reg] ''ADD_64_shifted'',
     INFO ID_ADDS_64_shifted ''ADDS'' [Xd, Xn, Xm, shifted_reg] ''ADDS_64_shifted'',
     INFO ID_SUB_64_shifted ''SUB'' [Xd, Xn, Xm, shifted_reg] ''SUB_64_shifted'',
     INFO ID_SUBS_64_shifted ''SUBS'' [Xd, Xn, Xm, shifted_reg] ''SUBS_64_shifted'']"

definition info_Add_subtract_extended_register :: "InstructionInfo list" where
  "info_Add_subtract_extended_register = [
     INFO ID_ADD_32_extended ''ADD'' [Wd_WSP, Wn_WSP, W_extended_reg] ''ADD_32_extended'',
     INFO ID_ADDS_32_extended ''ADDS'' [Wd, Wn_WSP, W_extended_reg] ''ADDS_32_extended'',
     INFO ID_SUB_32_extended ''SUB'' [Wd_WSP, Wn_WSP, W_extended_reg] ''SUB_32_extended'',
     INFO ID_SUBS_32_extended ''SUBS'' [Wd, Wn_WSP, W_extended_reg] ''SUBS_32_extended'',
     INFO ID_ADD_64_extended ''ADD'' [Xd_SP, Xn_SP, X_extended_reg] ''ADD_64_extended'',
     INFO ID_ADDS_64_extended ''ADDS'' [Xd, Xn_SP, X_extended_reg] ''ADDS_64_extended'',
     INFO ID_SUB_64_extended ''SUB'' [Xd_SP, Xn_SP, X_extended_reg] ''SUB_64_extended'',
     INFO ID_SUBS_64_extended ''SUBS'' [Xd, Xn_SP, X_extended_reg] ''SUBS_64_extended'']"

definition info_Add_subtract_with_carry :: "InstructionInfo list" where
  "info_Add_subtract_with_carry = [
     INFO ID_ADC_32 ''ADC'' [Wd, Wn, Wm] ''ADC_32'',
     INFO ID_ADCS_32 ''ADCS'' [Wd, Wn, Wm] ''ADCS_32'',
     INFO ID_SBC_32 ''SBC'' [Wd, Wn, Wm] ''SBC_32'',
     INFO ID_SBCS_32 ''SBCS'' [Wd, Wn, Wm] ''SBCS_32'',
     INFO ID_ADC_64 ''ADC'' [Xd, Xn, Xm] ''ADC_64'',
     INFO ID_ADCS_64 ''ADCS'' [Xd, Xn, Xm] ''ADCS_64'',
     INFO ID_SBC_64 ''SBC'' [Xd, Xn, Xm] ''SBC_64'',
     INFO ID_SBCS_64 ''SBCS'' [Xd, Xn, Xm] ''SBCS_64'']"

definition info_Conditional_compare_register :: "InstructionInfo list" where
  "info_Conditional_compare_register = [
     INFO ID_CCMN_32_reg ''CCMN'' [Wn, Wm, cond_comp_flags, cond_comp] ''CCMN_32_reg'',
     INFO ID_CCMP_32_reg ''CCMP'' [Wn, Wm, cond_comp_flags, cond_comp] ''CCMP_32_reg'',
     INFO ID_CCMN_64_reg ''CCMN'' [Xn, Xm, cond_comp_flags, cond_comp] ''CCMN_64_reg'',
     INFO ID_CCMP_64_reg ''CCMP'' [Xn, Xm, cond_comp_flags, cond_comp] ''CCMP_64_reg'']"

definition info_Conditional_compare_immediate :: "InstructionInfo list" where
  "info_Conditional_compare_immediate = [
     INFO ID_CCMN_32_imm ''CCMN'' [Wn, imm_compare, cond_comp_flags, cond_comp] ''CCMN_32_imm'',
     INFO ID_CCMP_32_imm ''CCMP'' [Wn, imm_compare, cond_comp_flags, cond_comp] ''CCMP_32_imm'',
     INFO ID_CCMN_64_imm ''CCMN'' [Xn, imm_compare, cond_comp_flags, cond_comp] ''CCMN_64_imm'',
     INFO ID_CCMP_64_imm ''CCMP'' [Xn, imm_compare, cond_comp_flags, cond_comp] ''CCMP_64_imm'']"

definition info_Conditional_select :: "InstructionInfo list" where
  "info_Conditional_select = [
     INFO ID_CSEL_32 ''CSEL'' [Wd, Wn, Wm, cond_comp] ''CSEL_32'',
     INFO ID_CSINC_32 ''CSINC'' [Wd, Wn, Wm, cond_comp] ''CSINC_32'',
     INFO ID_CSINV_32 ''CSINV'' [Wd, Wn, Wm, cond_comp] ''CSINV_32'',
     INFO ID_CSNEG_32 ''CSNEG'' [Wd, Wn, Wm, cond_comp] ''CSNEG_32'',
     INFO ID_CSEL_64 ''CSEL'' [Xd, Xn, Xm, cond_comp] ''CSEL_64'',
     INFO ID_CSINC_64 ''CSINC'' [Xd, Xn, Xm, cond_comp] ''CSINC_64'',
     INFO ID_CSINV_64 ''CSINV'' [Xd, Xn, Xm, cond_comp] ''CSINV_64'',
     INFO ID_CSNEG_64 ''CSNEG'' [Xd, Xn, Xm, cond_comp] ''CSNEG_64'']"

definition info_Data_processing_3_source :: "InstructionInfo list" where
  "info_Data_processing_3_source = [
     INFO ID_MADD_32 ''MADD'' [Wd, Wn, Wm, Wa] ''MADD_32'',
     INFO ID_MSUB_32 ''MSUB'' [Wd, Wn, Wm, Wa] ''MSUB_32'',
     INFO ID_MADD_64 ''MADD'' [Xd, Xn, Xm, Xa] ''MADD_64'',
     INFO ID_MSUB_64 ''MSUB'' [Xd, Xn, Xm, Xa] ''MSUB_64'',
     INFO ID_SMADDL ''SMADDL'' [Xd, Wn, Wm, Xa] ''SMADDL'',
     INFO ID_SMSUBL ''SMSUBL'' [Xd, Wn, Wm, Xa] ''SMSUBL'',
     INFO ID_SMULH ''SMULH'' [Xd, Xn, Xm] ''SMULH'',
     INFO ID_UMADDL ''UMADDL'' [Xd, Wn, Wm, Xa] ''UMADDL'',
     INFO ID_UMSUBL ''UMSUBL'' [Xd, Wn, Wm, Xa] ''UMSUBL'',
     INFO ID_UMULH ''UMULH'' [Xd, Xn, Xm] ''UMULH'']"

definition info_Advanced_SIMD_load_store_multiple_structures :: "InstructionInfo list" where
  "info_Advanced_SIMD_load_store_multiple_structures = [
     INFO ID_ST1_multi_1reg ''ST1'' [TODO] ''ST1_multi_1reg'',
     INFO ID_ST1_multi_2reg ''ST1'' [TODO] ''ST1_multi_2reg'',
     INFO ID_ST1_multi_3reg ''ST1'' [TODO] ''ST1_multi_3reg'',
     INFO ID_ST1_multi_4reg ''ST1'' [TODO] ''ST1_multi_4reg'',
     INFO ID_ST2_multi ''ST2'' [TODO] ''ST2_multi'',
     INFO ID_ST3_multi ''ST3'' [TODO] ''ST3_multi'',
     INFO ID_ST4_multi ''ST4'' [TODO] ''ST4_multi'',
     INFO ID_LD1_multi_1reg ''LD1'' [TODO] ''LD1_multi_1reg'',
     INFO ID_LD1_multi_2reg ''LD1'' [TODO] ''LD1_multi_2reg'',
     INFO ID_LD1_multi_3reg ''LD1'' [TODO] ''LD1_multi_3reg'',
     INFO ID_LD1_multi_4reg ''LD1'' [TODO] ''LD1_multi_4reg'',
     INFO ID_LD2_multi ''LD2'' [TODO] ''LD2_multi'',
     INFO ID_LD3_multi ''LD3'' [TODO] ''LD3_multi'',
     INFO ID_LD4_multi ''LD4'' [TODO] ''LD4_multi'']"

definition info_Advanced_SIMD_load_store_multiple_structures_post_indexed :: "InstructionInfo list" where
  "info_Advanced_SIMD_load_store_multiple_structures_post_indexed = [
     INFO ID_ST1_multi_reg_1reg ''ST1'' [TODO] ''ST1_multi_reg_1reg'',
     INFO ID_ST1_multi_reg_2reg ''ST1'' [TODO] ''ST1_multi_reg_2reg'',
     INFO ID_ST1_multi_reg_3reg ''ST1'' [TODO] ''ST1_multi_reg_3reg'',
     INFO ID_ST1_multi_reg_4reg ''ST1'' [TODO] ''ST1_multi_reg_4reg'',
     INFO ID_ST2_multi_reg ''ST2'' [TODO] ''ST2_multi_reg'',
     INFO ID_ST3_multi_reg ''ST3'' [TODO] ''ST3_multi_reg'',
     INFO ID_ST4_multi_reg ''ST4'' [TODO] ''ST4_multi_reg'',
     INFO ID_ST1_multi_offset_1reg ''ST1'' [TODO] ''ST1_multi_offset_1reg'',
     INFO ID_ST1_multi_offset_2reg ''ST1'' [TODO] ''ST1_multi_offset_2reg'',
     INFO ID_ST1_multi_offset_3reg ''ST1'' [TODO] ''ST1_multi_offset_3reg'',
     INFO ID_ST1_multi_offset_4reg ''ST1'' [TODO] ''ST1_multi_offset_4reg'',
     INFO ID_ST2_multi_offset ''ST2'' [TODO] ''ST2_multi_offset'',
     INFO ID_ST3_multi_offset ''ST3'' [TODO] ''ST3_multi_offset'',
     INFO ID_ST4_multi_offset ''ST4'' [TODO] ''ST4_multi_offset'',
     INFO ID_LD1_multi_reg_1reg ''LD1'' [TODO] ''LD1_multi_reg_1reg'',
     INFO ID_LD1_multi_reg_2reg ''LD1'' [TODO] ''LD1_multi_reg_2reg'',
     INFO ID_LD1_multi_reg_3reg ''LD1'' [TODO] ''LD1_multi_reg_3reg'',
     INFO ID_LD1_multi_reg_4reg ''LD1'' [TODO] ''LD1_multi_reg_4reg'',
     INFO ID_LD2_multi_reg ''LD2'' [TODO] ''LD2_multi_reg'',
     INFO ID_LD3_multi_reg ''LD3'' [TODO] ''LD3_multi_reg'',
     INFO ID_LD4_multi_reg ''LD4'' [TODO] ''LD4_multi_reg'',
     INFO ID_LD1_multi_offset_1reg ''LD1'' [TODO] ''LD1_multi_offset_1reg'',
     INFO ID_LD1_multi_offset_2reg ''LD1'' [TODO] ''LD1_multi_offset_2reg'',
     INFO ID_LD1_multi_offset_3reg ''LD1'' [TODO] ''LD1_multi_offset_3reg'',
     INFO ID_LD1_multi_offset_4reg ''LD1'' [TODO] ''LD1_multi_offset_4reg'',
     INFO ID_LD2_multi_offset ''LD2'' [TODO] ''LD2_multi_offset'',
     INFO ID_LD3_multi_offset ''LD3'' [TODO] ''LD3_multi_offset'',
     INFO ID_LD4_multi_offset ''LD4'' [TODO] ''LD4_multi_offset'']"

definition info_Advanced_SIMD_load_store_single_structure :: "InstructionInfo list" where
  "info_Advanced_SIMD_load_store_single_structure = [
     INFO ID_ST1_single_8 ''ST1'' [TODO] ''ST1_single_8'',
     INFO ID_ST1_single_16 ''ST1'' [TODO] ''ST1_single_16'',
     INFO ID_ST1_single_32 ''ST1'' [TODO] ''ST1_single_32'',
     INFO ID_ST1_single_64 ''ST1'' [TODO] ''ST1_single_64'',
     INFO ID_ST2_single_8 ''ST2'' [TODO] ''ST2_single_8'',
     INFO ID_ST2_single_16 ''ST2'' [TODO] ''ST2_single_16'',
     INFO ID_ST2_single_32 ''ST2'' [TODO] ''ST2_single_32'',
     INFO ID_ST2_single_64 ''ST2'' [TODO] ''ST2_single_64'',
     INFO ID_ST3_single_8 ''ST3'' [TODO] ''ST3_single_8'',
     INFO ID_ST3_single_16 ''ST3'' [TODO] ''ST3_single_16'',
     INFO ID_ST3_single_32 ''ST3'' [TODO] ''ST3_single_32'',
     INFO ID_ST3_single_64 ''ST3'' [TODO] ''ST3_single_64'',
     INFO ID_ST4_single_8 ''ST4'' [TODO] ''ST4_single_8'',
     INFO ID_ST4_single_16 ''ST4'' [TODO] ''ST4_single_16'',
     INFO ID_ST4_single_32 ''ST4'' [TODO] ''ST4_single_32'',
     INFO ID_ST4_single_64 ''ST4'' [TODO] ''ST4_single_64'',
     INFO ID_LD1_single_8 ''LD1'' [TODO] ''LD1_single_8'',
     INFO ID_LD1_single_16 ''LD1'' [TODO] ''LD1_single_16'',
     INFO ID_LD1_single_32 ''LD1'' [TODO] ''LD1_single_32'',
     INFO ID_LD1_single_64 ''LD1'' [TODO] ''LD1_single_64'',
     INFO ID_LD2_single_8 ''LD2'' [TODO] ''LD2_single_8'',
     INFO ID_LD2_single_16 ''LD2'' [TODO] ''LD2_single_16'',
     INFO ID_LD2_single_32 ''LD2'' [TODO] ''LD2_single_32'',
     INFO ID_LD2_single_64 ''LD2'' [TODO] ''LD2_single_64'',
     INFO ID_LD3_single_8 ''LD3'' [TODO] ''LD3_single_8'',
     INFO ID_LD3_single_16 ''LD3'' [TODO] ''LD3_single_16'',
     INFO ID_LD3_single_32 ''LD3'' [TODO] ''LD3_single_32'',
     INFO ID_LD3_single_64 ''LD3'' [TODO] ''LD3_single_64'',
     INFO ID_LD4_single_8 ''LD4'' [TODO] ''LD4_single_8'',
     INFO ID_LD4_single_16 ''LD4'' [TODO] ''LD4_single_16'',
     INFO ID_LD4_single_32 ''LD4'' [TODO] ''LD4_single_32'',
     INFO ID_LD4_single_64 ''LD4'' [TODO] ''LD4_single_64'',
     INFO ID_LD1R ''LD1R'' [TODO] ''LD1R'',
     INFO ID_LD2R ''LD2R'' [TODO] ''LD2R'',
     INFO ID_LD3R ''LD3R'' [TODO] ''LD3R'',
     INFO ID_LD4R ''LD4R'' [TODO] ''LD4R'']"

definition info_Advanced_SIMD_load_store_single_structure_post_indexed :: "InstructionInfo list" where
  "info_Advanced_SIMD_load_store_single_structure_post_indexed = [
     INFO ID_ST1_single_8_reg ''ST1'' [TODO] ''ST1_single_8_reg'',
     INFO ID_ST1_single_16_reg ''ST1'' [TODO] ''ST1_single_16_reg'',
     INFO ID_ST1_single_32_reg ''ST1'' [TODO] ''ST1_single_32_reg'',
     INFO ID_ST1_single_64_reg ''ST1'' [TODO] ''ST1_single_64_reg'',
     INFO ID_ST2_single_8_reg ''ST2'' [TODO] ''ST2_single_8_reg'',
     INFO ID_ST2_single_16_reg ''ST2'' [TODO] ''ST2_single_16_reg'',
     INFO ID_ST2_single_32_reg ''ST2'' [TODO] ''ST2_single_32_reg'',
     INFO ID_ST2_single_64_reg ''ST2'' [TODO] ''ST2_single_64_reg'',
     INFO ID_ST3_single_8_reg ''ST3'' [TODO] ''ST3_single_8_reg'',
     INFO ID_ST3_single_16_reg ''ST3'' [TODO] ''ST3_single_16_reg'',
     INFO ID_ST3_single_32_reg ''ST3'' [TODO] ''ST3_single_32_reg'',
     INFO ID_ST3_single_64_reg ''ST3'' [TODO] ''ST3_single_64_reg'',
     INFO ID_ST4_single_8_reg ''ST4'' [TODO] ''ST4_single_8_reg'',
     INFO ID_ST4_single_16_reg ''ST4'' [TODO] ''ST4_single_16_reg'',
     INFO ID_ST4_single_32_reg ''ST4'' [TODO] ''ST4_single_32_reg'',
     INFO ID_ST4_single_64_reg ''ST4'' [TODO] ''ST4_single_64_reg'',
     INFO ID_ST1_single_8_imm ''ST1'' [TODO] ''ST1_single_8_imm'',
     INFO ID_ST1_single_16_imm ''ST1'' [TODO] ''ST1_single_16_imm'',
     INFO ID_ST1_single_32_imm ''ST1'' [TODO] ''ST1_single_32_imm'',
     INFO ID_ST1_single_64_imm ''ST1'' [TODO] ''ST1_single_64_imm'',
     INFO ID_ST2_single_8_imm ''ST2'' [TODO] ''ST2_single_8_imm'',
     INFO ID_ST2_single_16_imm ''ST2'' [TODO] ''ST2_single_16_imm'',
     INFO ID_ST2_single_32_imm ''ST2'' [TODO] ''ST2_single_32_imm'',
     INFO ID_ST2_single_64_imm ''ST2'' [TODO] ''ST2_single_64_imm'',
     INFO ID_ST3_single_8_imm ''ST3'' [TODO] ''ST3_single_8_imm'',
     INFO ID_ST3_single_16_imm ''ST3'' [TODO] ''ST3_single_16_imm'',
     INFO ID_ST3_single_32_imm ''ST3'' [TODO] ''ST3_single_32_imm'',
     INFO ID_ST3_single_64_imm ''ST3'' [TODO] ''ST3_single_64_imm'',
     INFO ID_ST4_single_8_imm ''ST4'' [TODO] ''ST4_single_8_imm'',
     INFO ID_ST4_single_16_imm ''ST4'' [TODO] ''ST4_single_16_imm'',
     INFO ID_ST4_single_32_imm ''ST4'' [TODO] ''ST4_single_32_imm'',
     INFO ID_ST4_single_64_imm ''ST4'' [TODO] ''ST4_single_64_imm'',
     INFO ID_LD1_single_8_reg ''LD1'' [TODO] ''LD1_single_8_reg'',
     INFO ID_LD1_single_16_reg ''LD1'' [TODO] ''LD1_single_16_reg'',
     INFO ID_LD1_single_32_reg ''LD1'' [TODO] ''LD1_single_32_reg'',
     INFO ID_LD1_single_64_reg ''LD1'' [TODO] ''LD1_single_64_reg'',
     INFO ID_LD2_single_8_reg ''LD2'' [TODO] ''LD2_single_8_reg'',
     INFO ID_LD2_single_16_reg ''LD2'' [TODO] ''LD2_single_16_reg'',
     INFO ID_LD2_single_32_reg ''LD2'' [TODO] ''LD2_single_32_reg'',
     INFO ID_LD2_single_64_reg ''LD2'' [TODO] ''LD2_single_64_reg'',
     INFO ID_LD3_single_8_reg ''LD3'' [TODO] ''LD3_single_8_reg'',
     INFO ID_LD3_single_16_reg ''LD3'' [TODO] ''LD3_single_16_reg'',
     INFO ID_LD3_single_32_reg ''LD3'' [TODO] ''LD3_single_32_reg'',
     INFO ID_LD3_single_64_reg ''LD3'' [TODO] ''LD3_single_64_reg'',
     INFO ID_LD4_single_8_reg ''LD4'' [TODO] ''LD4_single_8_reg'',
     INFO ID_LD4_single_16_reg ''LD4'' [TODO] ''LD4_single_16_reg'',
     INFO ID_LD4_single_32_reg ''LD4'' [TODO] ''LD4_single_32_reg'',
     INFO ID_LD4_single_64_reg ''LD4'' [TODO] ''LD4_single_64_reg'',
     INFO ID_LD1R_reg ''LD1R'' [TODO] ''LD1R_reg'',
     INFO ID_LD2R_reg ''LD2R'' [TODO] ''LD2R_reg'',
     INFO ID_LD3R_reg ''LD3R'' [TODO] ''LD3R_reg'',
     INFO ID_LD4R_reg ''LD4R'' [TODO] ''LD4R_reg'',
     INFO ID_LD1_single_8_imm ''LD1'' [TODO] ''LD1_single_8_imm'',
     INFO ID_LD1_single_16_imm ''LD1'' [TODO] ''LD1_single_16_imm'',
     INFO ID_LD1_single_32_imm ''LD1'' [TODO] ''LD1_single_32_imm'',
     INFO ID_LD1_single_64_imm ''LD1'' [TODO] ''LD1_single_64_imm'',
     INFO ID_LD2_single_8_imm ''LD2'' [TODO] ''LD2_single_8_imm'',
     INFO ID_LD2_single_16_imm ''LD2'' [TODO] ''LD2_single_16_imm'',
     INFO ID_LD2_single_32_imm ''LD2'' [TODO] ''LD2_single_32_imm'',
     INFO ID_LD2_single_64_imm ''LD2'' [TODO] ''LD2_single_64_imm'',
     INFO ID_LD3_single_8_imm ''LD3'' [TODO] ''LD3_single_8_imm'',
     INFO ID_LD3_single_16_imm ''LD3'' [TODO] ''LD3_single_16_imm'',
     INFO ID_LD3_single_32_imm ''LD3'' [TODO] ''LD3_single_32_imm'',
     INFO ID_LD3_single_64_imm ''LD3'' [TODO] ''LD3_single_64_imm'',
     INFO ID_LD4_single_8_imm ''LD4'' [TODO] ''LD4_single_8_imm'',
     INFO ID_LD4_single_16_imm ''LD4'' [TODO] ''LD4_single_16_imm'',
     INFO ID_LD4_single_32_imm ''LD4'' [TODO] ''LD4_single_32_imm'',
     INFO ID_LD4_single_64_imm ''LD4'' [TODO] ''LD4_single_64_imm'',
     INFO ID_LD1R_imm ''LD1R'' [TODO] ''LD1R_imm'',
     INFO ID_LD2R_imm ''LD2R'' [TODO] ''LD2R_imm'',
     INFO ID_LD3R_imm ''LD3R'' [TODO] ''LD3R_imm'',
     INFO ID_LD4R_imm ''LD4R'' [TODO] ''LD4R_imm'']"

definition info_Load_store_exclusive :: "InstructionInfo list" where
  "info_Load_store_exclusive = [
     INFO ID_STXRB ''STXRB'' [Ws, Wt, loadstore_no_off] ''STXRB'',
     INFO ID_STLXRB ''STLXRB'' [Ws, Wt, loadstore_no_off] ''STLXRB'',
     INFO ID_LDXRB ''LDXRB'' [Wt, loadstore_no_off] ''LDXRB'',
     INFO ID_LDAXRB ''LDAXRB'' [Wt, loadstore_no_off] ''LDAXRB'',
     INFO ID_STLRB ''STLRB'' [Wt, loadstore_no_off] ''STLRB'',
     INFO ID_LDARB ''LDARB'' [Wt, loadstore_no_off] ''LDARB'',
     INFO ID_STXRH ''STXRH'' [Ws, Wt, loadstore_no_off] ''STXRH'',
     INFO ID_STLXRH ''STLXRH'' [Ws, Wt, loadstore_no_off] ''STLXRH'',
     INFO ID_LDXRH ''LDXRH'' [Wt, loadstore_no_off] ''LDXRH'',
     INFO ID_LDAXRH ''LDAXRH'' [Wt, loadstore_no_off] ''LDAXRH'',
     INFO ID_STLRH ''STLRH'' [Wt, loadstore_no_off] ''STLRH'',
     INFO ID_LDARH ''LDARH'' [Wt, loadstore_no_off] ''LDARH'',
     INFO ID_STXR32 ''STXR'' [Ws, Wt, loadstore_no_off] ''STXR32'',
     INFO ID_STLXR32 ''STLXR'' [Ws, Wt, loadstore_no_off] ''STLXR32'',
     INFO ID_STXP32 ''STXP'' [Ws, Wt, Wt2, loadstore_no_off] ''STXP32'',
     INFO ID_STLXP32 ''STLXP'' [Ws, Wt, Wt2, loadstore_no_off] ''STLXP32'',
     INFO ID_LDXR32 ''LDXR'' [Wt, loadstore_no_off] ''LDXR32'',
     INFO ID_LDAXR32 ''LDAXR'' [Wt, loadstore_no_off] ''LDAXR32'',
     INFO ID_LDXP32 ''LDXP'' [Wt, Wt2, loadstore_no_off] ''LDXP32'',
     INFO ID_LDAXP32 ''LDAXP'' [Wt, Wt2, loadstore_no_off] ''LDAXP32'',
     INFO ID_STLR32 ''STLR'' [Ws, Wt, loadstore_no_off] ''STLR32'',
     INFO ID_LDAR32 ''LDAR'' [Wt, loadstore_no_off] ''LDAR32'',
     INFO ID_STXR64 ''STXR'' [Ws, Xt, loadstore_no_off] ''STXR64'',
     INFO ID_STLXR64 ''STLXR'' [Ws, Xt, loadstore_no_off] ''STLXR64'',
     INFO ID_STXP64 ''STXP'' [Ws, Xt, Xt2, loadstore_no_off] ''STXP64'',
     INFO ID_STLXP64 ''STLXP'' [Ws, Xt, Xt2, loadstore_no_off] ''STLXP64'',
     INFO ID_LDXR64 ''LDXR'' [Xt, loadstore_no_off] ''LDXR64'',
     INFO ID_LDAXR64 ''LDAXR'' [Xt, loadstore_no_off] ''LDAXR64'',
     INFO ID_LDXP64 ''LDXP'' [Xt, Xt2, loadstore_no_off] ''LDXP64'',
     INFO ID_LDAXP64 ''LDAXP'' [Xt, Xt2, loadstore_no_off] ''LDAXP64'',
     INFO ID_STLR64 ''STLR'' [Ws, Xt, loadstore_no_off] ''STLR64'',
     INFO ID_LDAR64 ''LDAR'' [Xt, loadstore_no_off] ''LDAR64'']"

definition info_Load_register_literal :: "InstructionInfo list" where
  "info_Load_register_literal = [
     INFO ID_LDR32_literal ''LDR'' [Wt, label_loadstore] ''LDR32_literal'',
     INFO ID_LDR32_literal_float ''LDR'' [St, label_loadstore] ''LDR32_literal_float'',
     INFO ID_LDR64_literal ''LDR'' [Xt, label_loadstore] ''LDR64_literal'',
     INFO ID_LDR64_literal_float ''LDR'' [Dt, label_loadstore] ''LDR64_literal_float'',
     INFO ID_LDRSW_literal ''LDRSW'' [Xt, label_loadstore] ''LDRSW_literal'',
     INFO ID_LDR128_literal ''LDR'' [Qt, label_loadstore] ''LDR128_literal'',
     INFO ID_PRFM_literal ''PRFM'' [prefetch_op, label_loadstore] ''PRFM_literal'']"

definition info_Load_store_no_allocate_pair_offset :: "InstructionInfo list" where
  "info_Load_store_no_allocate_pair_offset = [
     INFO ID_STNP32 ''STNP'' [Wt, Wt2, loadstore_off_pair_32] ''STNP32'',
     INFO ID_LDNP32 ''LDNP'' [Wt, Wt2, loadstore_off_pair_32] ''LDNP32'',
     INFO ID_STNP32_float ''STNP'' [St, St2, loadstore_off_pair_32] ''STNP32_float'',
     INFO ID_LDNP32_float ''LDNP'' [St, St2, loadstore_off_pair_32] ''LDNP32_float'',
     INFO ID_STNP64_float ''STNP'' [Dt, Dt2, loadstore_off_pair_64] ''STNP64_float'',
     INFO ID_LDNP64_float ''LDNP'' [Dt, Dt2, loadstore_off_pair_64] ''LDNP64_float'',
     INFO ID_STNP64 ''STNP'' [Xt, Xt2, loadstore_off_pair_64] ''STNP64'',
     INFO ID_LDNP64 ''LDNP'' [Xt, Xt2, loadstore_off_pair_64] ''LDNP64'',
     INFO ID_STNP128 ''STNP'' [Qt, Qt2, loadstore_off_pair_128] ''STNP128'',
     INFO ID_LDNP128 ''LDNP'' [Qt, Qt2, loadstore_off_pair_128] ''LDNP128'']"

definition info_Load_store_register_pair_post_indexed :: "InstructionInfo list" where
  "info_Load_store_register_pair_post_indexed = [
     INFO ID_STP32_post ''STP'' [Wt, Wt2, loadstore_post_off_pair_32] ''STP32_post'',
     INFO ID_LDP32_post ''LDP'' [Wt, Wt2, loadstore_post_off_pair_32] ''LDP32_post'',
     INFO ID_STP32_post_float ''STP'' [St, St2, loadstore_post_off_pair_32] ''STP32_post_float'',
     INFO ID_LDP32_post_float ''LDP'' [St, St2, loadstore_post_off_pair_32] ''LDP32_post_float'',
     INFO ID_LDPSW_post ''LDPSW'' [Xt, Xt2, loadstore_post_off_pair_64] ''LDPSW_post'',
     INFO ID_STP64_post_float ''STP'' [Dt, Dt2, loadstore_post_off_pair_64] ''STP64_post_float'',
     INFO ID_LDP64_post_float ''LDP'' [Dt, Dt2, loadstore_post_off_pair_64] ''LDP64_post_float'',
     INFO ID_STP64_post ''STP'' [Xt, Xt2, loadstore_post_off_pair_64] ''STP64_post'',
     INFO ID_LDP64_post ''LDP'' [Xt, Xt2, loadstore_post_off_pair_64] ''LDP64_post'',
     INFO ID_STP128_post ''STP'' [Qt, Qt2, loadstore_post_off_pair_128] ''STP128_post'',
     INFO ID_LDP128_post ''LDP'' [Qt, Qt2, loadstore_post_off_pair_128] ''LDP128_post'']"

definition info_Load_store_register_pair_offset :: "InstructionInfo list" where
  "info_Load_store_register_pair_offset = [
     INFO ID_STP32_offset ''STP'' [Wt, Wt2, loadstore_off_pair_32] ''STP32_offset'',
     INFO ID_LDP32_offset ''LDP'' [Wt, Wt2, loadstore_off_pair_32] ''LDP32_offset'',
     INFO ID_STP32_offset_float ''STP'' [St, St2, loadstore_off_pair_32] ''STP32_offset_float'',
     INFO ID_LDP32_offset_float ''LDP'' [St, St2, loadstore_off_pair_32] ''LDP32_offset_float'',
     INFO ID_LDPSW_offset ''LDPSW'' [Xt, Xt2, loadstore_off_pair_32] ''LDPSW_offset'',
     INFO ID_STP64_offset_float ''STP'' [Dt, Dt2, loadstore_off_pair_64] ''STP64_offset_float'',
     INFO ID_LDP64_offset_float ''LDP'' [Dt, Dt2, loadstore_off_pair_64] ''LDP64_offset_float'',
     INFO ID_STP64_offset ''STP'' [Xt, Xt2, loadstore_off_pair_64] ''STP64_offset'',
     INFO ID_LDP64_offset ''LDP'' [Xt, Xt2, loadstore_off_pair_64] ''LDP64_offset'',
     INFO ID_STP128_offset ''STP'' [Qt, Qt2, loadstore_off_pair_128] ''STP128_offset'',
     INFO ID_LDP128_offset ''LDP'' [Qt, Qt2, loadstore_off_pair_128] ''LDP128_offset'']"

definition info_Load_store_register_pair_pre_indexed :: "InstructionInfo list" where
  "info_Load_store_register_pair_pre_indexed = [
     INFO ID_STP32_pre ''STP'' [Wt, Wt2, loadstore_pre_off_pair_32] ''STP32_pre'',
     INFO ID_LDP32_pre ''LDP'' [Wt, Wt2, loadstore_pre_off_pair_32] ''LDP32_pre'',
     INFO ID_STP32_pre_float ''STP'' [St, St2, loadstore_pre_off_pair_32] ''STP32_pre_float'',
     INFO ID_LDP32_pre_float ''LDP'' [St, St2, loadstore_pre_off_pair_32] ''LDP32_pre_float'',
     INFO ID_LDPSW_pre ''LDPSW'' [Xt, Xt2, loadstore_pre_off_pair_64] ''LDPSW_pre'',
     INFO ID_STP64_pre_float ''STP'' [Dt, Dt2, loadstore_pre_off_pair_64] ''STP64_pre_float'',
     INFO ID_LDP64_pre_float ''LDP'' [Dt, Dt2, loadstore_pre_off_pair_64] ''LDP64_pre_float'',
     INFO ID_STP64_pre ''STP'' [Xt, Xt2, loadstore_pre_off_pair_64] ''STP64_pre'',
     INFO ID_LDP64_pre ''LDP'' [Xt, Xt2, loadstore_pre_off_pair_64] ''LDP64_pre'',
     INFO ID_STP128_pre ''STP'' [Qt, Qt2, loadstore_pre_off_pair_128] ''STP128_pre'',
     INFO ID_LDP128_pre ''LDP'' [Qt, Qt2, loadstore_pre_off_pair_128] ''LDP128_pre'']"

definition info_Load_store_register_unscaled_immediate :: "InstructionInfo list" where
  "info_Load_store_register_unscaled_immediate = [
     INFO ID_STURB ''STURB'' [Wt, loadstore_unscaled_off] ''STURB'',
     INFO ID_LDURB ''LDURB'' [Wt, loadstore_unscaled_off] ''LDURB'',
     INFO ID_LDURSB64 ''LDURSB'' [Xt, loadstore_unscaled_off] ''LDURSB64'',
     INFO ID_LDURSB32 ''LDURSB'' [Wt, loadstore_unscaled_off] ''LDURSB32'',
     INFO ID_STUR8_float ''STUR'' [Bt, loadstore_unscaled_off] ''STUR8_float'',
     INFO ID_LDUR8_float ''LDUR'' [Bt, loadstore_unscaled_off] ''LDUR8_float'',
     INFO ID_STUR128 ''STUR'' [Qt, loadstore_unscaled_off] ''STUR128'',
     INFO ID_LDUR128 ''LDUR'' [Qt, loadstore_unscaled_off] ''LDUR128'',
     INFO ID_STURH ''STURH'' [Wt, loadstore_unscaled_off] ''STURH'',
     INFO ID_LDURH ''LDURH'' [Wt, loadstore_unscaled_off] ''LDURH'',
     INFO ID_LDURSH64 ''LDURSH'' [Xt, loadstore_unscaled_off] ''LDURSH64'',
     INFO ID_LDURSH32 ''LDURSH'' [Wt, loadstore_unscaled_off] ''LDURSH32'',
     INFO ID_STUR16_float ''STUR'' [Ht, loadstore_unscaled_off] ''STUR16_float'',
     INFO ID_LDUR16_float ''LDUR'' [Ht, loadstore_unscaled_off] ''LDUR16_float'',
     INFO ID_STUR32 ''STUR'' [Wt, loadstore_unscaled_off] ''STUR32'',
     INFO ID_LDUR32 ''LDUR'' [Wt, loadstore_unscaled_off] ''LDUR32'',
     INFO ID_LDURSW ''LDURSW'' [Xt, loadstore_unscaled_off] ''LDURSW'',
     INFO ID_STUR32_float ''STUR'' [St, loadstore_unscaled_off] ''STUR32_float'',
     INFO ID_LDUR32_float ''LDUR'' [St, loadstore_unscaled_off] ''LDUR32_float'',
     INFO ID_STUR64 ''STUR'' [Xt, loadstore_unscaled_off] ''STUR64'',
     INFO ID_LDUR64 ''LDUR'' [Xt, loadstore_unscaled_off] ''LDUR64'',
     INFO ID_PRFM_unscaled ''PRFM'' [prefetch_op, loadstore_unscaled_off] ''PRFM_unscaled'',
     INFO ID_STUR64_float ''STUR'' [Dt, loadstore_unscaled_off] ''STUR64_float'',
     INFO ID_LDUR64_float ''LDUR'' [Dt, loadstore_unscaled_off] ''LDUR64_float'']"

definition info_Load_store_register_immediate_post_indexed :: "InstructionInfo list" where
  "info_Load_store_register_immediate_post_indexed = [
     INFO ID_STRB_post ''STRB'' [Wt, loadstore_post_off] ''STRB_post'',
     INFO ID_LDRB_post ''LDRB'' [Wt, loadstore_post_off] ''LDRB_post'',
     INFO ID_LDRSB64_post ''LDRSB'' [Xt, loadstore_post_off] ''LDRSB64_post'',
     INFO ID_LDRSB32_post ''LDRSB'' [Wt, loadstore_post_off] ''LDRSB32_post'',
     INFO ID_STR8_post_float ''STR'' [Bt, loadstore_post_off] ''STR8_post_float'',
     INFO ID_LDR8_post_float ''LDR'' [Bt, loadstore_post_off] ''LDR8_post_float'',
     INFO ID_STR128_post ''STR'' [Qt, loadstore_post_off] ''STR128_post'',
     INFO ID_LDR128_post ''LDR'' [Qt, loadstore_post_off] ''LDR128_post'',
     INFO ID_STRH_post ''STRH'' [Wt, loadstore_post_off] ''STRH_post'',
     INFO ID_LDRH_post ''LDRH'' [Wt, loadstore_post_off] ''LDRH_post'',
     INFO ID_LDRSH64_post ''LDRSH'' [Xt, loadstore_post_off] ''LDRSH64_post'',
     INFO ID_LDRSH32_post ''LDRSH'' [Wt, loadstore_post_off] ''LDRSH32_post'',
     INFO ID_STR16_post_float ''STR'' [Ht, loadstore_post_off] ''STR16_post_float'',
     INFO ID_LDR16_post_float ''LDR'' [Ht, loadstore_post_off] ''LDR16_post_float'',
     INFO ID_STR32_post ''STR'' [Wt, loadstore_post_off] ''STR32_post'',
     INFO ID_LDR32_post ''LDR'' [Wt, loadstore_post_off] ''LDR32_post'',
     INFO ID_LDRSW_post ''LDRSW'' [Xt, loadstore_post_off] ''LDRSW_post'',
     INFO ID_STR32_post_float ''STR'' [St, loadstore_post_off] ''STR32_post_float'',
     INFO ID_LDR32_post_float ''LDR'' [St, loadstore_post_off] ''LDR32_post_float'',
     INFO ID_STR64_post ''STR'' [Xt, loadstore_post_off] ''STR64_post'',
     INFO ID_LDR64_post ''LDR'' [Xt, loadstore_post_off] ''LDR64_post'',
     INFO ID_STR64_post_float ''STR'' [Dt, loadstore_post_off] ''STR64_post_float'',
     INFO ID_LDR64_post_float ''LDR'' [Dt, loadstore_post_off] ''LDR64_post_float'']"

definition info_Load_store_register_unprivileged :: "InstructionInfo list" where
  "info_Load_store_register_unprivileged = [
     INFO ID_STTRB ''STTRB'' [Wt, loadstore_unscaled_off] ''STTRB'',
     INFO ID_LDTRB ''LDTRB'' [Wt, loadstore_unscaled_off] ''LDTRB'',
     INFO ID_LDTRSB64 ''LDTRSB'' [Xt, loadstore_unscaled_off] ''LDTRSB64'',
     INFO ID_LDTRSB32 ''LDTRSB'' [Wt, loadstore_unscaled_off] ''LDTRSB32'',
     INFO ID_STTRH ''STTRH'' [Wt, loadstore_unscaled_off] ''STTRH'',
     INFO ID_LDTRH ''LDTRH'' [Wt, loadstore_unscaled_off] ''LDTRH'',
     INFO ID_LDTRSH64 ''LDTRSH'' [Xt, loadstore_unscaled_off] ''LDTRSH64'',
     INFO ID_LDTRSH32 ''LDTRSH'' [Wt, loadstore_unscaled_off] ''LDTRSH32'',
     INFO ID_STTR32 ''STTR'' [Wt, loadstore_unscaled_off] ''STTR32'',
     INFO ID_LDTR32 ''LDTR'' [Wt, loadstore_unscaled_off] ''LDTR32'',
     INFO ID_LDTRSW ''LDTRSW'' [Xt, loadstore_unscaled_off] ''LDTRSW'',
     INFO ID_STTR64 ''STTR'' [Xt, loadstore_unscaled_off] ''STTR64'',
     INFO ID_LDTR64 ''LDTR'' [Xt, loadstore_unscaled_off] ''LDTR64'']"

definition info_Load_store_register_immediate_pre_indexed :: "InstructionInfo list" where
  "info_Load_store_register_immediate_pre_indexed = [
     INFO ID_STRB_pre ''STRB'' [Wt, loadstore_pre_off] ''STRB_pre'',
     INFO ID_LDRB_pre ''LDRB'' [Wt, loadstore_pre_off] ''LDRB_pre'',
     INFO ID_LDRSB64_pre ''LDRSB'' [Xt, loadstore_pre_off] ''LDRSB64_pre'',
     INFO ID_LDRSB32_pre ''LDRSB'' [Wt, loadstore_pre_off] ''LDRSB32_pre'',
     INFO ID_STR8_pre_float ''STR'' [Bt, loadstore_pre_off] ''STR8_pre_float'',
     INFO ID_LDR8_pre_float ''LDR'' [Bt, loadstore_pre_off] ''LDR8_pre_float'',
     INFO ID_STR128_pre ''STR'' [Qt, loadstore_pre_off] ''STR128_pre'',
     INFO ID_LDR128_pre ''LDR'' [Qt, loadstore_pre_off] ''LDR128_pre'',
     INFO ID_STRH_pre ''STRH'' [Wt, loadstore_pre_off] ''STRH_pre'',
     INFO ID_LDRH_pre ''LDRH'' [Wt, loadstore_pre_off] ''LDRH_pre'',
     INFO ID_LDRSH64_pre ''LDRSH'' [Xt, loadstore_pre_off] ''LDRSH64_pre'',
     INFO ID_LDRSH32_pre ''LDRSH'' [Wt, loadstore_pre_off] ''LDRSH32_pre'',
     INFO ID_STR16_pre_float ''STR'' [Ht, loadstore_pre_off] ''STR16_pre_float'',
     INFO ID_LDR16_pre_float ''LDR'' [Ht, loadstore_pre_off] ''LDR16_pre_float'',
     INFO ID_STR32_pre ''STR'' [Wt, loadstore_pre_off] ''STR32_pre'',
     INFO ID_LDR32_pre ''LDR'' [Wt, loadstore_pre_off] ''LDR32_pre'',
     INFO ID_LDRSW_pre ''LDRSW'' [Xt, loadstore_pre_off] ''LDRSW_pre'',
     INFO ID_STR32_pre_float ''STR'' [St, loadstore_pre_off] ''STR32_pre_float'',
     INFO ID_LDR32_pre_float ''LDR'' [St, loadstore_pre_off] ''LDR32_pre_float'',
     INFO ID_STR64_pre ''STR'' [Xt, loadstore_pre_off] ''STR64_pre'',
     INFO ID_LDR64_pre ''LDR'' [Xt, loadstore_pre_off] ''LDR64_pre'',
     INFO ID_STR64_pre_float ''STR'' [Dt, loadstore_pre_off] ''STR64_pre_float'',
     INFO ID_LDR64_pre_float ''LDR'' [Dt, loadstore_pre_off] ''LDR64_pre_float'']"

definition info_Load_store_register_register_offset :: "InstructionInfo list" where
  "info_Load_store_register_register_offset = [
     INFO ID_STRB_reg ''STRB'' [Wt, loadstore_reg] ''STRB_reg'',
     INFO ID_LDRB_reg ''LDRB'' [Wt, loadstore_reg] ''LDRB_reg'',
     INFO ID_LDRSB64_reg ''LDRSB'' [Xt, loadstore_reg] ''LDRSB64_reg'',
     INFO ID_LDRSB32_reg ''LDRSB'' [Wt, loadstore_reg] ''LDRSB32_reg'',
     INFO ID_STR8_reg_float ''STR'' [Bt, loadstore_reg] ''STR8_reg_float'',
     INFO ID_LDR8_reg_float ''LDR'' [Bt, loadstore_reg] ''LDR8_reg_float'',
     INFO ID_STR128_reg ''STR'' [Qt, loadstore_reg] ''STR128_reg'',
     INFO ID_LDR128_reg ''LDR'' [Qt, loadstore_reg] ''LDR128_reg'',
     INFO ID_STRH_reg ''STRH'' [Wt, loadstore_reg] ''STRH_reg'',
     INFO ID_LDRH_reg ''LDRH'' [Wt, loadstore_reg] ''LDRH_reg'',
     INFO ID_LDRSH64_reg ''LDRSH'' [Xt, loadstore_reg] ''LDRSH64_reg'',
     INFO ID_LDRSH32_reg ''LDRSH'' [Wt, loadstore_reg] ''LDRSH32_reg'',
     INFO ID_STR16_reg_float ''STR'' [Ht, loadstore_reg] ''STR16_reg_float'',
     INFO ID_LDR16_reg_float ''LDR'' [Ht, loadstore_reg] ''LDR16_reg_float'',
     INFO ID_STR32_reg ''STR'' [Wt, loadstore_reg] ''STR32_reg'',
     INFO ID_LDR32_reg ''LDR'' [Wt, loadstore_reg] ''LDR32_reg'',
     INFO ID_LDRSW_reg ''LDRSW'' [Xt, loadstore_reg] ''LDRSW_reg'',
     INFO ID_STR32_reg_float ''STR'' [St, loadstore_reg] ''STR32_reg_float'',
     INFO ID_LDR32_reg_float ''LDR'' [St, loadstore_reg] ''LDR32_reg_float'',
     INFO ID_STR64_reg ''STR'' [Xt, loadstore_reg] ''STR64_reg'',
     INFO ID_LDR64_reg ''LDR'' [Xt, loadstore_reg] ''LDR64_reg'',
     INFO ID_PRFM_reg ''PRFM'' [prefetch_op, loadstore_reg] ''PRFM_reg'',
     INFO ID_STR64_reg_float ''STR'' [Dt, loadstore_reg] ''STR64_reg_float'',
     INFO ID_LDR64_reg_float ''LDR'' [Dt, loadstore_reg] ''LDR64_reg_float'']"

definition info_Load_store_register_unsigned_immediate :: "InstructionInfo list" where
  "info_Load_store_register_unsigned_immediate = [
     INFO ID_STRB_imm ''STRB'' [Wt, loadstore_unsigned_off_8] ''STRB_imm'',
     INFO ID_LDRB_imm ''LDRB'' [Wt, loadstore_unsigned_off_8] ''LDRB_imm'',
     INFO ID_LDRSB64_imm ''LDRSB'' [Xt, loadstore_unsigned_off_8] ''LDRSB64_imm'',
     INFO ID_LDRSB32_imm ''LDRSB'' [Wt, loadstore_unsigned_off_8] ''LDRSB32_imm'',
     INFO ID_STR8_imm_float ''STR'' [Bt, loadstore_unsigned_off_8] ''STR8_imm_float'',
     INFO ID_LDR8_imm_float ''LDR'' [Bt, loadstore_unsigned_off_8] ''LDR8_imm_float'',
     INFO ID_STR128_imm ''STR'' [Qt, loadstore_unsigned_off_128] ''STR128_imm'',
     INFO ID_LDR128_imm ''LDR'' [Qt, loadstore_unsigned_off_128] ''LDR128_imm'',
     INFO ID_STRH_imm ''STRH'' [Wt, loadstore_unsigned_off_16] ''STRH_imm'',
     INFO ID_LDRH_imm ''LDRH'' [Wt, loadstore_unsigned_off_16] ''LDRH_imm'',
     INFO ID_LDRSH64_imm ''LDRSH'' [Xt, loadstore_unsigned_off_16] ''LDRSH64_imm'',
     INFO ID_LDRSH32_imm ''LDRSH'' [Wt, loadstore_unsigned_off_16] ''LDRSH32_imm'',
     INFO ID_STR16_imm_float ''STR'' [Ht, loadstore_unsigned_off_16] ''STR16_imm_float'',
     INFO ID_LDR16_imm_float ''LDR'' [Ht, loadstore_unsigned_off_16] ''LDR16_imm_float'',
     INFO ID_STR32_imm ''STR'' [Wt, loadstore_unsigned_off_32] ''STR32_imm'',
     INFO ID_LDR32_imm ''LDR'' [Wt, loadstore_unsigned_off_32] ''LDR32_imm'',
     INFO ID_LDRSW_imm ''LDRSW'' [Xt, loadstore_unsigned_off_32] ''LDRSW_imm'',
     INFO ID_STR32_imm_float ''STR'' [St, loadstore_unsigned_off_32] ''STR32_imm_float'',
     INFO ID_LDR32_imm_float ''LDR'' [St, loadstore_unsigned_off_32] ''LDR32_imm_float'',
     INFO ID_STR64_imm ''STR'' [Xt, loadstore_unsigned_off_64] ''STR64_imm'',
     INFO ID_LDR64_imm ''LDR'' [Xt, loadstore_unsigned_off_64] ''LDR64_imm'',
     INFO ID_PRFM_imm ''PRFM'' [prefetch_op, loadstore_unsigned_off_64] ''PRFM_imm'',
     INFO ID_STR64_imm_float ''STR'' [Dt, loadstore_unsigned_off_64] ''STR64_imm_float'',
     INFO ID_LDR64_imm_float ''LDR'' [Dt, loadstore_unsigned_off_64] ''LDR64_imm_float'']"

definition info_Conversion_between_floating_point_and_fixed_point :: "InstructionInfo list" where
  "info_Conversion_between_floating_point_and_fixed_point = [
     INFO ID_SCVTF_32_single_fixed ''SCVTF'' [TODO] ''SCVTF_32_single_fixed'',
     INFO ID_UCVTF_32_single_fixed ''UCVTF'' [TODO] ''UCVTF_32_single_fixed'',
     INFO ID_FCVTZS_single_32_fixed ''FCVTZS'' [TODO] ''FCVTZS_single_32_fixed'',
     INFO ID_FCVTZU_single_32_fixed ''FCVTZU'' [TODO] ''FCVTZU_single_32_fixed'',
     INFO ID_SCVTF_32_double_fixed ''SCVTF'' [TODO] ''SCVTF_32_double_fixed'',
     INFO ID_UCVTF_32_double_fixed ''UCVTF'' [TODO] ''UCVTF_32_double_fixed'',
     INFO ID_FCVTZS_double_32_fixed ''FCVTZS'' [TODO] ''FCVTZS_double_32_fixed'',
     INFO ID_FCVTZU_double_32_fixed ''FCVTZU'' [TODO] ''FCVTZU_double_32_fixed'',
     INFO ID_SCVTF_64_single_fixed ''SCVTF'' [TODO] ''SCVTF_64_single_fixed'',
     INFO ID_UCVTF_64_single_fixed ''UCVTF'' [TODO] ''UCVTF_64_single_fixed'',
     INFO ID_FCVTZS_single_64_fixed ''FCVTZS'' [TODO] ''FCVTZS_single_64_fixed'',
     INFO ID_FCVTZU_single_64_fixed ''FCVTZU'' [TODO] ''FCVTZU_single_64_fixed'',
     INFO ID_SCVTF_64_double_fixed ''SCVTF'' [TODO] ''SCVTF_64_double_fixed'',
     INFO ID_UCVTF_64_double_fixed ''UCVTF'' [TODO] ''UCVTF_64_double_fixed'',
     INFO ID_FCVTZS_double_64_fixed ''FCVTZS'' [TODO] ''FCVTZS_double_64_fixed'',
     INFO ID_FCVTZU_double_64_fixed ''FCVTZU'' [TODO] ''FCVTZU_double_64_fixed'']"

definition info_Conversion_between_floating_point_and_integer :: "InstructionInfo list" where
  "info_Conversion_between_floating_point_and_integer = [
     INFO ID_FCVTNS_single_32_int ''FCVTNS'' [Wd, Sn] ''FCVTNS_single_32_int'',
     INFO ID_FCVTNU_single_32_int ''FCVTNU'' [Wd, Sn] ''FCVTNU_single_32_int'',
     INFO ID_SCVTF_32_single_int ''SCVTF'' [Sd, Wn] ''SCVTF_32_single_int'',
     INFO ID_UCVTF_32_single_int ''UCVTF'' [Sd, Wn] ''UCVTF_32_single_int'',
     INFO ID_FCVTAS_single_32_int ''FCVTAS'' [Wd, Sn] ''FCVTAS_single_32_int'',
     INFO ID_FCVTAU_single_32_int ''FCVTAU'' [Wd, Sn] ''FCVTAU_single_32_int'',
     INFO ID_FMOV_single_32 ''FMOV'' [Wd, Sn] ''FMOV_single_32'',
     INFO ID_FMOV_32_single ''FMOV'' [Sd, Wn] ''FMOV_32_single'',
     INFO ID_FCVTPS_single_32_int ''FCVTPS'' [Wd, Sn] ''FCVTPS_single_32_int'',
     INFO ID_FCVTPU_single_32_int ''FCVTPU'' [Wd, Sn] ''FCVTPU_single_32_int'',
     INFO ID_FCVTMS_single_32_int ''FCVTMS'' [Wd, Sn] ''FCVTMS_single_32_int'',
     INFO ID_FCVTMU_single_32_int ''FCVTMU'' [Wd, Sn] ''FCVTMU_single_32_int'',
     INFO ID_FCVTZS_single_32_int ''FCVTZS'' [Wd, Sn] ''FCVTZS_single_32_int'',
     INFO ID_FCVTZU_single_32_int ''FCVTZU'' [Wd, Sn] ''FCVTZU_single_32_int'',
     INFO ID_FCVTNS_double_32_int ''FCVTNS'' [Wd, Dn] ''FCVTNS_double_32_int'',
     INFO ID_FCVTNU_double_32_int ''FCVTNU'' [Wd, Dn] ''FCVTNU_double_32_int'',
     INFO ID_SCVTF_32_double_int ''SCVTF'' [Dd, Wn] ''SCVTF_32_double_int'',
     INFO ID_UCVTF_32_double_int ''UCVTF'' [Dd, Wn] ''UCVTF_32_double_int'',
     INFO ID_FCVTAS_double_32_int ''FCVTAS'' [Wd, Dn] ''FCVTAS_double_32_int'',
     INFO ID_FCVTAU_double_32_int ''FCVTAU'' [Wd, Dn] ''FCVTAU_double_32_int'',
     INFO ID_FCVTPS_double_32_int ''FCVTPS'' [Wd, Dn] ''FCVTPS_double_32_int'',
     INFO ID_FCVTPU_double_32_int ''FCVTPU'' [Wd, Dn] ''FCVTPU_double_32_int'',
     INFO ID_FCVTMS_double_32_int ''FCVTMS'' [Wd, Dn] ''FCVTMS_double_32_int'',
     INFO ID_FCVTMU_double_32_int ''FCVTMU'' [Wd, Dn] ''FCVTMU_double_32_int'',
     INFO ID_FCVTZS_double_32_int ''FCVTZS'' [Wd, Dn] ''FCVTZS_double_32_int'',
     INFO ID_FCVTZU_double_32_int ''FCVTZU'' [Wd, Dn] ''FCVTZU_double_32_int'',
     INFO ID_FCVTNS_single_64_int ''FCVTNS'' [Xd, Sn] ''FCVTNS_single_64_int'',
     INFO ID_FCVTNU_single_64_int ''FCVTNU'' [Xd, Sn] ''FCVTNU_single_64_int'',
     INFO ID_SCVTF_64_single_int ''SCVTF'' [Sd, Xn] ''SCVTF_64_single_int'',
     INFO ID_UCVTF_64_single_int ''UCVTF'' [Sd, Xn] ''UCVTF_64_single_int'',
     INFO ID_FCVTAS_single_64_int ''FCVTAS'' [Xd, Sn] ''FCVTAS_single_64_int'',
     INFO ID_FCVTAU_single_64_int ''FCVTAU'' [Xd, Sn] ''FCVTAU_single_64_int'',
     INFO ID_FCVTPS_single_64_int ''FCVTPS'' [Xd, Sn] ''FCVTPS_single_64_int'',
     INFO ID_FCVTPU_single_64_int ''FCVTPU'' [Xd, Sn] ''FCVTPU_single_64_int'',
     INFO ID_FCVTMS_single_64_int ''FCVTMS'' [Xd, Sn] ''FCVTMS_single_64_int'',
     INFO ID_FCVTMU_single_64_int ''FCVTMU'' [Xd, Sn] ''FCVTMU_single_64_int'',
     INFO ID_FCVTZS_single_64_int ''FCVTZS'' [Xd, Sn] ''FCVTZS_single_64_int'',
     INFO ID_FCVTZU_single_64_int ''FCVTZU'' [Xd, Sn] ''FCVTZU_single_64_int'',
     INFO ID_FCVTNS_double_64_int ''FCVTNS'' [Xd, Dn] ''FCVTNS_double_64_int'',
     INFO ID_FCVTNU_double_64_int ''FCVTNU'' [Xd, Dn] ''FCVTNU_double_64_int'',
     INFO ID_SCVTF_64_double_int ''SCVTF'' [Dd, Xn] ''SCVTF_64_double_int'',
     INFO ID_UCVTF_64_double_int ''UCVTF'' [Dd, Xn] ''UCVTF_64_double_int'',
     INFO ID_FCVTAS_double_64_int ''FCVTAS'' [Xd, Dn] ''FCVTAS_double_64_int'',
     INFO ID_FCVTAU_double_64_int ''FCVTAU'' [Xd, Dn] ''FCVTAU_double_64_int'',
     INFO ID_FMOV_double_64 ''FMOV'' [Xd, Dn] ''FMOV_double_64'',
     INFO ID_FMOV_64_double ''FMOV'' [Dd, Xn] ''FMOV_64_double'',
     INFO ID_FCVTPS_double_64_int ''FCVTPS'' [Xd, Dn] ''FCVTPS_double_64_int'',
     INFO ID_FCVTPU_double_64_int ''FCVTPU'' [Xd, Dn] ''FCVTPU_double_64_int'',
     INFO ID_FCVTMS_double_64_int ''FCVTMS'' [Xd, Dn] ''FCVTMS_double_64_int'',
     INFO ID_FCVTMU_double_64_int ''FCVTMU'' [Xd, Dn] ''FCVTMU_double_64_int'',
     INFO ID_FCVTZS_double_64_int ''FCVTZS'' [Xd, Dn] ''FCVTZS_double_64_int'',
     INFO ID_FCVTZU_double_64_int ''FCVTZU'' [Xd, Dn] ''FCVTZU_double_64_int'',
     INFO ID_FMOV_top128_64 ''FMOV'' [TODO] ''FMOV_top128_64'',
     INFO ID_FMOV_64_top128 ''FMOV'' [TODO] ''FMOV_64_top128'']"

definition info_Floating_point_data_processing_1_source :: "InstructionInfo list" where
  "info_Floating_point_data_processing_1_source = [
     INFO ID_FMOV_reg_single ''FMOV'' [Sd, Sn] ''FMOV_reg_single'',
     INFO ID_FABS_single ''FABS'' [Sd, Sn] ''FABS_single'',
     INFO ID_FNEG_single ''FNEG'' [Sd, Sn] ''FNEG_single'',
     INFO ID_FSQRT_single ''FSQRT'' [Sd, Sn] ''FSQRT_single'',
     INFO ID_FCVT_single_double ''FCVT'' [Dd, Sn] ''FCVT_single_double'',
     INFO ID_FCVT_single_half ''FCVT'' [Hd, Sn] ''FCVT_single_half'',
     INFO ID_FRINTN_single ''FRINTN'' [Sd, Sn] ''FRINTN_single'',
     INFO ID_FRINTP_single ''FRINTP'' [Sd, Sn] ''FRINTP_single'',
     INFO ID_FRINTM_single ''FRINTM'' [Sd, Sn] ''FRINTM_single'',
     INFO ID_FRINTZ_single ''FRINTZ'' [Sd, Sn] ''FRINTZ_single'',
     INFO ID_FRINTA_single ''FRINTA'' [Sd, Sn] ''FRINTA_single'',
     INFO ID_FRINTX_single ''FRINTX'' [Sd, Sn] ''FRINTX_single'',
     INFO ID_FRINTI_single ''FRINTI'' [Sd, Sn] ''FRINTI_single'',
     INFO ID_FMOV_reg_double ''FMOV'' [Dd, Dn] ''FMOV_reg_double'',
     INFO ID_FABS_double ''FABS'' [Dd, Dn] ''FABS_double'',
     INFO ID_FNEG_double ''FNEG'' [Dd, Dn] ''FNEG_double'',
     INFO ID_FSQRT_double ''FSQRT'' [Dd, Dn] ''FSQRT_double'',
     INFO ID_FCVT_double_single ''FCVT'' [Sd, Dn] ''FCVT_double_single'',
     INFO ID_FCVT_double_half ''FCVT'' [Hd, Dn] ''FCVT_double_half'',
     INFO ID_FRINTN_double ''FRINTN'' [Dd, Dn] ''FRINTN_double'',
     INFO ID_FRINTP_double ''FRINTP'' [Dd, Dn] ''FRINTP_double'',
     INFO ID_FRINTM_double ''FRINTM'' [Dd, Dn] ''FRINTM_double'',
     INFO ID_FRINTZ_double ''FRINTZ'' [Dd, Dn] ''FRINTZ_double'',
     INFO ID_FRINTA_double ''FRINTA'' [Dd, Dn] ''FRINTA_double'',
     INFO ID_FRINTX_double ''FRINTX'' [Dd, Dn] ''FRINTX_double'',
     INFO ID_FRINTI_double ''FRINTI'' [Dd, Dn] ''FRINTI_double'',
     INFO ID_FCVT_half_single ''FCVT'' [Sd, Hn] ''FCVT_half_single'',
     INFO ID_FCVT_half_double ''FCVT'' [Dd, Hn] ''FCVT_half_double'']"

definition info_Floating_point_compare :: "InstructionInfo list" where
  "info_Floating_point_compare = [
     INFO ID_FCMP_single ''FCMP'' [Sn, Sm] ''FCMP_single'',
     INFO ID_FCMP_single_zero ''FCMP'' [Sn, float_zero_imm] ''FCMP_single_zero'',
     INFO ID_FCMPE_single ''FCMPE'' [Sn, Sm] ''FCMPE_single'',
     INFO ID_FCMPE_single_zero ''FCMPE'' [Sn, float_zero_imm] ''FCMPE_single_zero'',
     INFO ID_FCMP_double ''FCMP'' [Dn, Dm] ''FCMP_double'',
     INFO ID_FCMP_double_zero ''FCMP'' [Dn, float_zero_imm] ''FCMP_double_zero'',
     INFO ID_FCMPE_double ''FCMPE'' [Dn, Dm] ''FCMPE_double'',
     INFO ID_FCMPE_double_zero ''FCMPE'' [Dn, float_zero_imm] ''FCMPE_double_zero'']"

definition info_Floating_point_immediate :: "InstructionInfo list" where
  "info_Floating_point_immediate = [
     INFO ID_FMOV_imm_single ''FMOV'' [TODO] ''FMOV_imm_single'',
     INFO ID_FMOV_imm_double ''FMOV'' [TODO] ''FMOV_imm_double'']"

definition info_Floating_point_conditional_compare :: "InstructionInfo list" where
  "info_Floating_point_conditional_compare = [
     INFO ID_FCCMP_single ''FCCMP'' [Sn, Sm, cond_comp_flags, cond_comp] ''FCCMP_single'',
     INFO ID_FCCMPE_single ''FCCMPE'' [Sn, Sm, cond_comp_flags, cond_comp] ''FCCMPE_single'',
     INFO ID_FCCMP_double ''FCCMP'' [Dn, Dm, cond_comp_flags, cond_comp] ''FCCMP_double'',
     INFO ID_FCCMPE_double ''FCCMPE'' [Dn, Dm, cond_comp_flags, cond_comp] ''FCCMPE_double'']"

definition info_Floating_point_data_processing_2_source :: "InstructionInfo list" where
  "info_Floating_point_data_processing_2_source = [
     INFO ID_FMUL_single ''FMUL'' [Sd, Sn, Sm] ''FMUL_single'',
     INFO ID_FDIV_single ''FDIV'' [Sd, Sn, Sm] ''FDIV_single'',
     INFO ID_FADD_single ''FADD'' [Sd, Sn, Sm] ''FADD_single'',
     INFO ID_FSUB_single ''FSUB'' [Sd, Sn, Sm] ''FSUB_single'',
     INFO ID_FMAX_single ''FMAX'' [Sd, Sn, Sm] ''FMAX_single'',
     INFO ID_FMIN_single ''FMIN'' [Sd, Sn, Sm] ''FMIN_single'',
     INFO ID_FMAXNM_single ''FMAXNM'' [Sd, Sn, Sm] ''FMAXNM_single'',
     INFO ID_FMINNM_single ''FMINNM'' [Sd, Sn, Sm] ''FMINNM_single'',
     INFO ID_FNMUL_single ''FNMUL'' [Sd, Sn, Sm] ''FNMUL_single'',
     INFO ID_FMUL_double ''FMUL'' [Dd, Dn, Dm] ''FMUL_double'',
     INFO ID_FDIV_double ''FDIV'' [Dd, Dn, Dm] ''FDIV_double'',
     INFO ID_FADD_double ''FADD'' [Dd, Dn, Dm] ''FADD_double'',
     INFO ID_FSUB_double ''FSUB'' [Dd, Dn, Dm] ''FSUB_double'',
     INFO ID_FMAX_double ''FMAX'' [Dd, Dn, Dm] ''FMAX_double'',
     INFO ID_FMIN_double ''FMIN'' [Dd, Dn, Dm] ''FMIN_double'',
     INFO ID_FMAXNM_double ''FMANNM'' [Dd, Dn, Dm] ''FMAXNM_double'',
     INFO ID_FMINNM_double ''FMINNM'' [Dd, Dn, Dm] ''FMINNM_double'',
     INFO ID_FNMUL_double ''FNMUL'' [Dd, Dn, Dm] ''FNMUL_double'']"

definition info_Floating_point_conditional_select :: "InstructionInfo list" where
  "info_Floating_point_conditional_select = [
     INFO ID_FCSEL_single ''FCSEL'' [Sd, Sn, Sm, cond_comp] ''FCSEL_single'',
     INFO ID_FCSEL_double ''FCSEL'' [Dd, Dn, Dm, cond_comp] ''FCSEL_double'']"

definition info_Floating_point_data_processing_3_source :: "InstructionInfo list" where
  "info_Floating_point_data_processing_3_source = [
     INFO ID_FMADD_single ''FMADD'' [Sd, Sn, Sm, Sa] ''FMADD_single'',
     INFO ID_FMSUB_single ''FMSUB'' [Sd, Sn, Sm, Sa] ''FMSUB_single'',
     INFO ID_FNMADD_single ''FNMADD'' [Sd, Sn, Sm, Sa] ''FNMADD_single'',
     INFO ID_FNMSUB_single ''FNMSUB'' [Sd, Sn, Sm, Sa] ''FNMSUB_single'',
     INFO ID_FMADD_double ''FMADD'' [Dd, Dn, Dm, Da] ''FMADD_double'',
     INFO ID_FMSUB_double ''FMSUB'' [Dd, Dn, Dm, Da] ''FMSUB_double'',
     INFO ID_FNMADD_double ''FNMADD'' [Dd, Dn, Dm, Da] ''FNMADD_double'',
     INFO ID_FNMSUB_double ''FNMSUB'' [Dd, Dn, Dm, Da] ''FNMSUB_double'']"

definition info_Cryptographic_AES :: "InstructionInfo list" where
  "info_Cryptographic_AES = [
     INFO ID_AESE ''AESE'' [TODO] ''AESE'',
     INFO ID_AESD ''AESD'' [TODO] ''AESD'',
     INFO ID_AESMC ''AESMC'' [TODO] ''AESMC'',
     INFO ID_AESIMC ''AESIMC'' [TODO] ''AESIMC'']"

definition info_Cryptographic_three_register_SHA :: "InstructionInfo list" where
  "info_Cryptographic_three_register_SHA = [
     INFO ID_SHA1C ''SHA1C'' [TODO] ''SHA1C'',
     INFO ID_SHA1P ''SHA1P'' [TODO] ''SHA1P'',
     INFO ID_SHA1M ''SHA1M'' [TODO] ''SHA1M'',
     INFO ID_SHA1SU0 ''SHA1SU0'' [TODO] ''SHA1SU0'',
     INFO ID_SHA256H ''SHA256H'' [TODO] ''SHA256H'',
     INFO ID_SHA256H2 ''SHA256H2'' [TODO] ''SHA256H2'',
     INFO ID_SHA256SU1 ''SHA256SU1'' [TODO] ''SHA256SU1'']"

definition info_Cryptographic_two_register_SHA :: "InstructionInfo list" where
  "info_Cryptographic_two_register_SHA = [
     INFO ID_SHA1H ''SHA1H'' [TODO] ''SHA1H'',
     INFO ID_SHA1SU1 ''SHA1SU1'' [TODO] ''SHA1SU1'',
     INFO ID_SHA256SU0 ''SHA256SU0'' [TODO] ''SHA256SU0'']"

definition info_Advanced_SIMD_scalar_copy :: "InstructionInfo list" where
  "info_Advanced_SIMD_scalar_copy = [
     INFO ID_DUP_element_scalar ''DUP'' [TODO] ''DUP_element_scalar'']"

definition info_Advanced_SIMD_scalar_two_register_miscellaneous :: "InstructionInfo list" where
  "info_Advanced_SIMD_scalar_two_register_miscellaneous = [
     INFO ID_SUQADD_scalar ''SUQADD'' [TODO] ''SUQADD_scalar'',
     INFO ID_SQABS_scalar ''SQABS'' [TODO] ''SQABS_scalar'',
     INFO ID_CMGT_scalar_zero ''CMGT'' [TODO] ''CMGT_scalar_zero'',
     INFO ID_CMEQ_scalar_zero ''CMEQ'' [TODO] ''CMEQ_scalar_zero'',
     INFO ID_CMLT_scalar_zero ''CMLT'' [TODO] ''CMLT_scalar_zero'',
     INFO ID_ABS_scalar ''ABS'' [TODO] ''ABS_scalar'',
     INFO ID_SQXTN_scalar ''SQXTN'' [TODO] ''SQXTN_scalar'',
     INFO ID_FCVTNS_scalar ''FCVTNS'' [TODO] ''FCVTNS_scalar'',
     INFO ID_FCVTMS_scalar ''FCVTMS'' [TODO] ''FCVTMS_scalar'',
     INFO ID_FCVTAS_scalar ''FCVTAS'' [TODO] ''FCVTAS_scalar'',
     INFO ID_SCVTF_scalar_int ''SCVTF'' [TODO] ''SCVTF_scalar_int'',
     INFO ID_FCMGT_scalar_zero ''FCMGT'' [TODO] ''FCMGT_scalar_zero'',
     INFO ID_FCMEQ_scalar_zero ''FCMEQ'' [TODO] ''FCMEQ_scalar_zero'',
     INFO ID_FCMLT_scalar_zero ''FCMLT'' [TODO] ''FCMLT_scalar_zero'',
     INFO ID_FCVTPS_scalar ''FCVTPS'' [TODO] ''FCVTPS_scalar'',
     INFO ID_FCVTZS_scalar_int ''FCVTZS'' [TODO] ''FCVTZS_scalar_int'',
     INFO ID_FRECPE_scalar ''FRECPE'' [TODO] ''FRECPE_scalar'',
     INFO ID_FRECPX_scalar ''FRECPX'' [TODO] ''FRECPX_scalar'',
     INFO ID_USQADD_scalar ''USQADD'' [TODO] ''USQADD_scalar'',
     INFO ID_SQNEG_scalar ''SQNEG'' [TODO] ''SQNEG_scalar'',
     INFO ID_CMGE_scalar_zero ''CMGE'' [TODO] ''CMGE_scalar_zero'',
     INFO ID_CMLE_scalar_zero ''CMLE'' [TODO] ''CMLE_scalar_zero'',
     INFO ID_NEG_scalar ''NEG'' [TODO] ''NEG_scalar'',
     INFO ID_SQXTUN_scalar ''SQXTUN'' [TODO] ''SQXTUN_scalar'',
     INFO ID_UQXTN_scalar ''UQXTN'' [TODO] ''UQXTN_scalar'',
     INFO ID_FCVTXN_scalar ''FCVTXN'' [TODO] ''FCVTXN_scalar'',
     INFO ID_FCVTNU_scalar ''FCVTNU'' [TODO] ''FCVTNU_scalar'',
     INFO ID_FCVTMU_scalar ''FCVTMU'' [TODO] ''FCVTMU_scalar'',
     INFO ID_FCVTAU_scalar ''FCVTAU'' [TODO] ''FCVTAU_scalar'',
     INFO ID_UCVTF_scalar_int ''UCVTF'' [TODO] ''UCVTF_scalar_int'',
     INFO ID_FCMGE_scalar_zero ''FCMGE'' [TODO] ''FCMGE_scalar_zero'',
     INFO ID_FCMLE_scalar_zero ''FCMLE'' [TODO] ''FCMLE_scalar_zero'',
     INFO ID_FCVTPU_scalar ''FCVTPU'' [TODO] ''FCVTPU_scalar'',
     INFO ID_FCVTZU_scalar_int ''FCVTZU'' [TODO] ''FCVTZU_scalar_int'',
     INFO ID_FRSQRTE_scalar ''FRSQRTE'' [TODO] ''FRSQRTE_scalar'']"

definition info_Advanced_SIMD_scalar_pairwise :: "InstructionInfo list" where
  "info_Advanced_SIMD_scalar_pairwise = [
     INFO ID_ADDP_scalar ''ADDP'' [TODO] ''ADDP_scalar'',
     INFO ID_FMAXNMP_scalar ''FMAXNMP'' [TODO] ''FMAXNMP_scalar'',
     INFO ID_FADDP_scalar ''FADDP'' [TODO] ''FADDP_scalar'',
     INFO ID_FMAXP_scalar ''FMAXP'' [TODO] ''FMAXP_scalar'',
     INFO ID_FMINNMP_scalar ''FMINNMP'' [TODO] ''FMINNMP_scalar'',
     INFO ID_FMINP_scalar ''FMINP'' [TODO] ''FMINP_scalar'']"

definition info_Advanced_SIMD_scalar_three_different :: "InstructionInfo list" where
  "info_Advanced_SIMD_scalar_three_different = [
     INFO ID_SQDMLAL_scalar ''SQDMLAL'' [TODO] ''SQDMLAL_scalar'',
     INFO ID_SQDMLSL_scalar ''SQDMLSL'' [TODO] ''SQDMLSL_scalar'',
     INFO ID_SQDMULL_scalar ''SQDMULL'' [TODO] ''SQDMULL_scalar'']"

definition info_Advanced_SIMD_scalar_three_same :: "InstructionInfo list" where
  "info_Advanced_SIMD_scalar_three_same = [
     INFO ID_SQADD_scalar ''SQADD'' [TODO] ''SQADD_scalar'',
     INFO ID_SQSUB_scalar ''SQSUB'' [TODO] ''SQSUB_scalar'',
     INFO ID_CMGT_scalar_reg ''CMGT'' [TODO] ''CMGT_scalar_reg'',
     INFO ID_CMGE_scalar_reg ''CMGE'' [TODO] ''CMGE_scalar_reg'',
     INFO ID_SSHL_scalar ''SSHL'' [TODO] ''SSHL_scalar'',
     INFO ID_SQSHL_scalar_reg ''SQSHL'' [TODO] ''SQSHL_scalar_reg'',
     INFO ID_SRSHL_scalar ''SRSHL'' [TODO] ''SRSHL_scalar'',
     INFO ID_SQRSHL_scalar ''SQRSHL'' [TODO] ''SQRSHL_scalar'',
     INFO ID_ADD_scalar ''ADD'' [TODO] ''ADD_scalar'',
     INFO ID_CMTST_scalar ''CMTST'' [TODO] ''CMTST_scalar'',
     INFO ID_SQDMULH_scalar ''SQDMULH'' [TODO] ''SQDMULH_scalar'',
     INFO ID_FMULX_scalar ''FMULX'' [TODO] ''FMULX_scalar'',
     INFO ID_FCMEQ_scalar_reg ''FCMEQ'' [TODO] ''FCMEQ_scalar_reg'',
     INFO ID_FRECPS_scalar ''FRECPS'' [TODO] ''FRECPS_scalar'',
     INFO ID_FRSQRTS_scalar ''FRSQRTS'' [TODO] ''FRSQRTS_scalar'',
     INFO ID_UQADD_scalar ''UQADD'' [TODO] ''UQADD_scalar'',
     INFO ID_UQSUB_scalar ''UQSUB'' [TODO] ''UQSUB_scalar'',
     INFO ID_CMHI_scalar_reg ''CMHI'' [TODO] ''CMHI_scalar_reg'',
     INFO ID_CMHS_scalar_reg ''CMHS'' [TODO] ''CMHS_scalar_reg'',
     INFO ID_USHL_scalar ''USHL'' [TODO] ''USHL_scalar'',
     INFO ID_UQSHL_scalar_reg ''UQSHL'' [TODO] ''UQSHL_scalar_reg'',
     INFO ID_URSHL_scalar ''URSHL'' [TODO] ''URSHL_scalar'',
     INFO ID_UQRSHL_scalar ''UQRSHL'' [TODO] ''UQRSHL_scalar'',
     INFO ID_SUB_scalar ''SUB'' [TODO] ''SUB_scalar'',
     INFO ID_CMEQ_scalar_reg ''CMEQ'' [TODO] ''CMEQ_scalar_reg'',
     INFO ID_SQRDMULH_scalar ''SQRDMULH'' [TODO] ''SQRDMULH_scalar'',
     INFO ID_FCMGE_scalar_reg ''FCMGE'' [TODO] ''FCMGE_scalar_reg'',
     INFO ID_FACGE_scalar ''FACGE'' [TODO] ''FACGE_scalar'',
     INFO ID_FABD_scalar ''FABD'' [TODO] ''FABD_scalar'',
     INFO ID_FCMGT_scalar_reg ''FCMGT'' [TODO] ''FCMGT_scalar_reg'',
     INFO ID_FACGT_scalar ''FACGT'' [TODO] ''FACGT_scalar'']"

definition info_Advanced_SIMD_scalar_shift_by_immediate :: "InstructionInfo list" where
  "info_Advanced_SIMD_scalar_shift_by_immediate = [
     INFO ID_SSHR_scalar ''SSHR'' [TODO] ''SSHR_scalar'',
     INFO ID_SSRA_scalar ''SSRA'' [TODO] ''SSRA_scalar'',
     INFO ID_SRSHR_scalar ''SRSHR'' [TODO] ''SRSHR_scalar'',
     INFO ID_SRSRA_scalar ''SRSRA'' [TODO] ''SRSRA_scalar'',
     INFO ID_SHL_scalar ''SHL'' [TODO] ''SHL_scalar'',
     INFO ID_SQSHL_scalar_imm ''SQSHL'' [TODO] ''SQSHL_scalar_imm'',
     INFO ID_SQSHRN_scalar ''SQSHRN'' [TODO] ''SQSHRN_scalar'',
     INFO ID_SQRSHRN_scalar ''SQRSHRN'' [TODO] ''SQRSHRN_scalar'',
     INFO ID_SCVTF_scalar_fixed ''SCVTF'' [TODO] ''SCVTF_scalar_fixed'',
     INFO ID_FCVTZS_scalar_fixed ''FCVTZS'' [TODO] ''FCVTZS_scalar_fixed'',
     INFO ID_USHR_scalar ''USHR'' [TODO] ''USHR_scalar'',
     INFO ID_USRA_scalar ''USRA'' [TODO] ''USRA_scalar'',
     INFO ID_URSHR_scalar ''URSHR'' [TODO] ''URSHR_scalar'',
     INFO ID_URSRA_scalar ''URSRA'' [TODO] ''URSRA_scalar'',
     INFO ID_SRI_scalar ''SRI'' [TODO] ''SRI_scalar'',
     INFO ID_SLI_scalar ''SLI'' [TODO] ''SLI_scalar'',
     INFO ID_SQSHLU_scalar ''SQSHLU'' [TODO] ''SQSHLU_scalar'',
     INFO ID_UQSHL_scalar_imm ''UQSHL'' [TODO] ''UQSHL_scalar_imm'',
     INFO ID_SQSHRUN_scalar ''SQSHRUN'' [TODO] ''SQSHRUN_scalar'',
     INFO ID_SQRSHRUN_scalar ''SQRSHRUN'' [TODO] ''SQRSHRUN_scalar'',
     INFO ID_UQSHRN_scalar ''UQSHRN'' [TODO] ''UQSHRN_scalar'',
     INFO ID_UQRSHRN_scalar ''UQRSHRN'' [TODO] ''UQRSHRN_scalar'',
     INFO ID_UCVTF_scalar_fixed ''UCVTF'' [TODO] ''UCVTF_scalar_fixed'',
     INFO ID_FCVTZU_scalar_fixed ''FCVTZU'' [TODO] ''FCVTZU_scalar_fixed'']"

definition info_Advanced_SIMD_scalar_x_indexed_element :: "InstructionInfo list" where
  "info_Advanced_SIMD_scalar_x_indexed_element = [
     INFO ID_SQDMLAL_scalar_element ''SQDMLAL'' [TODO] ''SQDMLAL_scalar_element'',
     INFO ID_SQDMLSL_scalar_element ''SQDMLSL'' [TODO] ''SQDMLSL_scalar_element'',
     INFO ID_SQDMULL_scalar_element ''SQDMULL'' [TODO] ''SQDMULL_scalar_element'',
     INFO ID_SQDMULH_scalar_element ''SQDMULH'' [TODO] ''SQDMULH_scalar_element'',
     INFO ID_SQRDMULH_scalar_element ''SQRDMULH'' [TODO] ''SQRDMULH_scalar_element'',
     INFO ID_FMLA_scalar_element ''FMLA'' [TODO] ''FMLA_scalar_element'',
     INFO ID_FMLS_scalar_element ''FMLS'' [TODO] ''FMLS_scalar_element'',
     INFO ID_FMUL_scalar_element ''FMUL'' [TODO] ''FMUL_scalar_element'',
     INFO ID_FMULX_scalar_element ''FMULX'' [TODO] ''FMULX_scalar_element'']"

definition info_Advanced_SIMD_table_lookup :: "InstructionInfo list" where
  "info_Advanced_SIMD_table_lookup = [
     INFO ID_TBL_one_reg ''TBL'' [TODO] ''TBL_one_reg'',
     INFO ID_TBX_one_reg ''TBX'' [TODO] ''TBX_one_reg'',
     INFO ID_TBL_two_reg ''TBL'' [TODO] ''TBL_two_reg'',
     INFO ID_TBX_two_reg ''TBX'' [TODO] ''TBX_two_reg'',
     INFO ID_TBL_three_reg ''TBL'' [TODO] ''TBL_three_reg'',
     INFO ID_TBX_three_reg ''TBX'' [TODO] ''TBX_three_reg'',
     INFO ID_TBL_four_reg ''TBL'' [TODO] ''TBL_four_reg'',
     INFO ID_TBX_four_reg ''TBX'' [TODO] ''TBX_four_reg'']"

definition info_Advanced_SIMD_permute :: "InstructionInfo list" where
  "info_Advanced_SIMD_permute = [
     INFO ID_UZP1 ''UZP1'' [TODO] ''UZP1'',
     INFO ID_TRN1 ''TRN1'' [TODO] ''TRN1'',
     INFO ID_ZIP1 ''ZIP1'' [TODO] ''ZIP1'',
     INFO ID_UZP2 ''UZP2'' [TODO] ''UZP2'',
     INFO ID_TRN2 ''TRN2'' [TODO] ''TRN2'',
     INFO ID_ZIP2 ''ZIP2'' [TODO] ''ZIP2'']"

definition info_Advanced_SIMD_extract :: "InstructionInfo list" where
  "info_Advanced_SIMD_extract = [
     INFO ID_EXT ''EXT'' [TODO] ''EXT'']"

definition info_Advanced_SIMD_copy :: "InstructionInfo list" where
  "info_Advanced_SIMD_copy = [
     INFO ID_DUP_element_vec ''DUP'' [TODO] ''DUP_element_vec'',
     INFO ID_DUP_general ''DUP'' [TODO] ''DUP_general'',
     INFO ID_SMOV_32 ''SMOV'' [TODO] ''SMOV_32'',
     INFO ID_UMOV_32 ''UMOV'' [TODO] ''UMOV_32'',
     INFO ID_INS_general ''INS'' [TODO] ''INS_general'',
     INFO ID_SMOV_64 ''SMOV'' [TODO] ''SMOV_64'',
     INFO ID_UMOV_64 ''UMOV'' [TODO] ''UMOV_64'',
     INFO ID_INS_element ''INS'' [TODO] ''INS_element'']"

definition info_Advanced_SIMD_two_register_miscellaneous :: "InstructionInfo list" where
  "info_Advanced_SIMD_two_register_miscellaneous = [
     INFO ID_REV64_vec ''REV64'' [TODO] ''REV64_vec'',
     INFO ID_REV16_vec ''REV16'' [TODO] ''REV16_vec'',
     INFO ID_SADDLP_vec ''SADDLP'' [TODO] ''SADDLP_vec'',
     INFO ID_SUQADD_vec ''SUQADD'' [TODO] ''SUQADD_vec'',
     INFO ID_CLS_vec ''CLS'' [TODO] ''CLS_vec'',
     INFO ID_CNT_vec ''CNT'' [TODO] ''CNT_vec'',
     INFO ID_SADALP_vec ''SADALP'' [TODO] ''SADALP_vec'',
     INFO ID_SQABS_vec ''SQABS'' [TODO] ''SQABS_vec'',
     INFO ID_CMGT_vec_zero ''CMGT'' [TODO] ''CMGT_vec_zero'',
     INFO ID_CMEQ_vec_zero ''CMEQ'' [TODO] ''CMEQ_vec_zero'',
     INFO ID_CMLT_vec_zero ''CMLT'' [TODO] ''CMLT_vec_zero'',
     INFO ID_ABS_vec ''ABS'' [TODO] ''ABS_vec'',
     INFO ID_XTN_vec ''XTN'' [TODO] ''XTN_vec'',
     INFO ID_XTN2_vec ''XTN2'' [TODO] ''XTN2_vec'',
     INFO ID_SQXTN_vec ''SQXTN'' [TODO] ''SQXTN_vec'',
     INFO ID_SQXTN2_vec ''SQXTN2'' [TODO] ''SQXTN2_vec'',
     INFO ID_FCVTN_vec ''FCVTN'' [TODO] ''FCVTN_vec'',
     INFO ID_FCVTN2_vec ''FCVTN2'' [TODO] ''FCVTN2_vec'',
     INFO ID_FCVTL_vec ''FCVTL'' [TODO] ''FCVTL_vec'',
     INFO ID_FCVTL2_vec ''FCVTL2'' [TODO] ''FCVTL2_vec'',
     INFO ID_FRINTN_vec ''FRINTN'' [TODO] ''FRINTN_vec'',
     INFO ID_FRINTM_vec ''FRINTM'' [TODO] ''FRINTM_vec'',
     INFO ID_FCVTNS_vec ''FCVTNS'' [TODO] ''FCVTNS_vec'',
     INFO ID_FCVTMS_vec ''FCVTMS'' [TODO] ''FCVTMS_vec'',
     INFO ID_FCVTAS_vec ''FCVTAS'' [TODO] ''FCVTAS_vec'',
     INFO ID_SCVTF_vec_int ''SCVTF'' [TODO] ''SCVTF_vec_int'',
     INFO ID_FCMGT_vec_zero ''FCMGT'' [TODO] ''FCMGT_vec_zero'',
     INFO ID_FCMEQ_vec_zero ''FCMEQ'' [TODO] ''FCMEQ_vec_zero'',
     INFO ID_FCMLT_vec_zero ''FCMLT'' [TODO] ''FCMLT_vec_zero'',
     INFO ID_FABS_vec ''FABS'' [TODO] ''FABS_vec'',
     INFO ID_FRINTP_vec ''FRINTP'' [TODO] ''FRINTP_vec'',
     INFO ID_FRINTZ_vec ''FRINTZ'' [TODO] ''FRINTZ_vec'',
     INFO ID_FCVTPS_vec ''FCVTPS'' [TODO] ''FCVTPS_vec'',
     INFO ID_FCVTZS_vec_int ''FCVTZS'' [TODO] ''FCVTZS_vec_int'',
     INFO ID_URECPE_vec ''URECPE'' [TODO] ''URECPE_vec'',
     INFO ID_FRECPE_vec ''FRECPE'' [TODO] ''FRECPE_vec'',
     INFO ID_REV32_vec ''REV32'' [TODO] ''REV32_vec'',
     INFO ID_UADDLP_vec ''UADDLP'' [TODO] ''UADDLP_vec'',
     INFO ID_USQADD_vec ''USQADD'' [TODO] ''USQADD_vec'',
     INFO ID_CLZ_vec ''CLZ'' [TODO] ''CLZ_vec'',
     INFO ID_UADALP_vec ''UADALP'' [TODO] ''UADALP_vec'',
     INFO ID_SQNEG_vec ''SQNEG'' [TODO] ''SQNEG_vec'',
     INFO ID_CMGE_vec_zero ''CMGE'' [TODO] ''CMGE_vec_zero'',
     INFO ID_CMLE_vec_zero ''CMLE'' [TODO] ''CMLE_vec_zero'',
     INFO ID_NEG_vec ''NEG'' [TODO] ''NEG_vec'',
     INFO ID_SQXTUN_vec ''SQXTUN'' [TODO] ''SQXTUN_vec'',
     INFO ID_SQXTUN2_vec ''SQXTUN2'' [TODO] ''SQXTUN2_vec'',
     INFO ID_SHLL_vec ''SHLL'' [TODO] ''SHLL_vec'',
     INFO ID_SHLL2_vec ''SHLL2'' [TODO] ''SHLL2_vec'',
     INFO ID_UQXTN_vec ''UQXTN'' [TODO] ''UQXTN_vec'',
     INFO ID_UQXTN2_vec ''UQXTN2'' [TODO] ''UQXTN2_vec'',
     INFO ID_FCVTXN_vec ''FCVTXN'' [TODO] ''FCVTXN_vec'',
     INFO ID_FCVTXN2_vec ''FCVTXN2'' [TODO] ''FCVTXN2_vec'',
     INFO ID_FRINTA_vec ''FRINTA'' [TODO] ''FRINTA_vec'',
     INFO ID_FRINTX_vec ''FRINTX'' [TODO] ''FRINTX_vec'',
     INFO ID_FCVTNU_vec ''FCVTNU'' [TODO] ''FCVTNU_vec'',
     INFO ID_FCVTMU_vec ''FCVTMU'' [TODO] ''FCVTMU_vec'',
     INFO ID_FCVTAU_vec ''FCVTAU'' [TODO] ''FCVTAU_vec'',
     INFO ID_UCVTF_vec_int ''UCVTF'' [TODO] ''UCVTF_vec_int'',
     INFO ID_NOT_vec ''NOT'' [TODO] ''NOT_vec'',
     INFO ID_RBIT_vec ''RBIT'' [TODO] ''RBIT_vec'',
     INFO ID_FCMGE_vec_zero ''FCMGE'' [TODO] ''FCMGE_vec_zero'',
     INFO ID_FCMLE_vec_zero ''FCMLE'' [TODO] ''FCMLE_vec_zero'',
     INFO ID_FNEG_vec ''FNEG'' [TODO] ''FNEG_vec'',
     INFO ID_FRINTI_vec ''FRINTI'' [TODO] ''FRINTI_vec'',
     INFO ID_FCVTPU_vec ''FCVTPU'' [TODO] ''FCVTPU_vec'',
     INFO ID_FCVTZU_vec_int ''FCVTZU'' [TODO] ''FCVTZU_vec_int'',
     INFO ID_URSQRTE_vec ''URSQRTE'' [TODO] ''URSQRTE_vec'',
     INFO ID_FRSQRTE_vec ''FRSQRTE'' [TODO] ''FRSQRTE_vec'',
     INFO ID_FSQRT_vec ''FSQRT'' [TODO] ''FSQRT_vec'']"

definition info_Advanced_SIMD_across_lanes :: "InstructionInfo list" where
  "info_Advanced_SIMD_across_lanes = [
     INFO ID_SADDLV_vec ''SADDLV'' [TODO] ''SADDLV_vec'',
     INFO ID_SMAXV_vec ''SMAXV'' [TODO] ''SMAXV_vec'',
     INFO ID_SMINV_vec ''SMINV'' [TODO] ''SMINV_vec'',
     INFO ID_ADDV_vec ''ADDV'' [TODO] ''ADDV_vec'',
     INFO ID_UADDLV_vec ''UADDLV'' [TODO] ''UADDLV_vec'',
     INFO ID_UMAXV_vec ''UMAXV'' [TODO] ''UMAXV_vec'',
     INFO ID_UMINV_vec ''UMINV'' [TODO] ''UMINV_vec'',
     INFO ID_FMAXNMV_vec ''FMAXNMV'' [TODO] ''FMAXNMV_vec'',
     INFO ID_FMAXV_vec ''FMAXV'' [TODO] ''FMAXV_vec'',
     INFO ID_FMINNMV_vec ''FMINNMV'' [TODO] ''FMINNMV_vec'',
     INFO ID_FMINV_vec ''FMINV'' [TODO] ''FMINV_vec'']"

definition info_Advanced_SIMD_three_different :: "InstructionInfo list" where
  "info_Advanced_SIMD_three_different = [
     INFO ID_SADDL ''SADDL'' [TODO] ''SADDL'',
     INFO ID_SADDL2 ''SADDL2'' [TODO] ''SADDL2'',
     INFO ID_SADDW ''SADDW'' [TODO] ''SADDW'',
     INFO ID_SADDW2 ''SADDW2'' [TODO] ''SADDW2'',
     INFO ID_SSUBL ''SSUBL'' [TODO] ''SSUBL'',
     INFO ID_SSUBL2 ''SSUBL2'' [TODO] ''SSUBL2'',
     INFO ID_SSUBW ''SSUBW'' [TODO] ''SSUBW'',
     INFO ID_SSUBW2 ''SSUBW2'' [TODO] ''SSUBW2'',
     INFO ID_ADDHN ''ADDHN'' [TODO] ''ADDHN'',
     INFO ID_ADDHN2 ''ADDHN2'' [TODO] ''ADDHN2'',
     INFO ID_SABAL ''SABAL'' [TODO] ''SABAL'',
     INFO ID_SABAL2 ''SABAL2'' [TODO] ''SABAL2'',
     INFO ID_SUBHN ''SUBHN'' [TODO] ''SUBHN'',
     INFO ID_SUBHN2 ''SUBHN2'' [TODO] ''SUBHN2'',
     INFO ID_SABDL ''SABDL'' [TODO] ''SABDL'',
     INFO ID_SABDL2 ''SABDL2'' [TODO] ''SABDL2'',
     INFO ID_SMLAL_vec ''SMLAL'' [TODO] ''SMLAL_vec'',
     INFO ID_SMLAL2_vec ''SMLAL2'' [TODO] ''SMLAL2_vec'',
     INFO ID_SQDMLAL_vec ''SQDMLAL'' [TODO] ''SQDMLAL_vec'',
     INFO ID_SQDMLAL2_vec ''SQDMLAL2'' [TODO] ''SQDMLAL2_vec'',
     INFO ID_SMLSL_vec ''SMLSL'' [TODO] ''SMLSL_vec'',
     INFO ID_SMLSL2_vec ''SMLSL2'' [TODO] ''SMLSL2_vec'',
     INFO ID_SQDMLSL_vec ''SQDMLSL'' [TODO] ''SQDMLSL_vec'',
     INFO ID_SQDMLSL2_vec ''SQDMLSL2'' [TODO] ''SQDMLSL2_vec'',
     INFO ID_SMULL_vec ''SMULL'' [TODO] ''SMULL_vec'',
     INFO ID_SMULL2_vec ''SMULL2'' [TODO] ''SMULL2_vec'',
     INFO ID_SQDMULL_vec ''SQDMULL'' [TODO] ''SQDMULL_vec'',
     INFO ID_SQDMULL2_vec ''SQDMULL2'' [TODO] ''SQDMULL2_vec'',
     INFO ID_PMULL ''PMULL'' [TODO] ''PMULL'',
     INFO ID_PMULL2 ''PMULL2'' [TODO] ''PMULL2'',
     INFO ID_UADDL ''UADDL'' [TODO] ''UADDL'',
     INFO ID_UADDL2 ''UADDL2'' [TODO] ''UADDL2'',
     INFO ID_UADDW ''UADDW'' [TODO] ''UADDW'',
     INFO ID_UADDW2 ''UADDW2'' [TODO] ''UADDW2'',
     INFO ID_USUBL ''USUBL'' [TODO] ''USUBL'',
     INFO ID_USUBL2 ''USUBL2'' [TODO] ''USUBL2'',
     INFO ID_USUBW ''USUBW'' [TODO] ''USUBW'',
     INFO ID_USUBW2 ''USUBW2'' [TODO] ''USUBW2'',
     INFO ID_RADDHN ''RADDHN'' [TODO] ''RADDHN'',
     INFO ID_RADDHN2 ''RADDHN2'' [TODO] ''RADDHN2'',
     INFO ID_UABAL ''UABAL'' [TODO] ''UABAL'',
     INFO ID_UABAL2 ''UABAL2'' [TODO] ''UABAL2'',
     INFO ID_RSUBHN ''RSUBHN'' [TODO] ''RSUBHN'',
     INFO ID_RSUBHN2 ''RSUBHN2'' [TODO] ''RSUBHN2'',
     INFO ID_UABDL ''UABDL'' [TODO] ''UABDL'',
     INFO ID_UABDL2 ''UABDL2'' [TODO] ''UABDL2'',
     INFO ID_UMLAL_vec ''UMLAL'' [TODO] ''UMLAL_vec'',
     INFO ID_UMLAL2_vec ''UMLAL2'' [TODO] ''UMLAL2_vec'',
     INFO ID_UMLSL_vec ''UMLSL'' [TODO] ''UMLSL_vec'',
     INFO ID_UMLSL2_vec ''UMLSL2'' [TODO] ''UMLSL2_vec'',
     INFO ID_UMULL_vec ''UMULL'' [TODO] ''UMULL_vec'',
     INFO ID_UMULL2_vec ''UMULL2'' [TODO] ''UMULL2_vec'']"

definition info_Advanced_SIMD_three_same :: "InstructionInfo list" where
  "info_Advanced_SIMD_three_same = [
     INFO ID_SHADD_vec ''SHADD'' [TODO] ''SHADD_vec'',
     INFO ID_SQADD_vec ''SQADD'' [TODO] ''SQADD_vec'',
     INFO ID_SRHADD_vec ''SRHADD'' [TODO] ''SRHADD_vec'',
     INFO ID_SHSUB_vec ''SHSUB'' [TODO] ''SHSUB_vec'',
     INFO ID_SQSUB_vec ''SQSUB'' [TODO] ''SQSUB_vec'',
     INFO ID_CMGT_vec_reg ''CMGT'' [TODO] ''CMGT_vec_reg'',
     INFO ID_CMGE_vec_reg ''CMGE'' [TODO] ''CMGE_vec_reg'',
     INFO ID_SSHL_vec ''SSHL'' [TODO] ''SSHL_vec'',
     INFO ID_SQSHL_vec_reg ''SQSHL'' [TODO] ''SQSHL_vec_reg'',
     INFO ID_SRSHL_vec ''SRSHL'' [TODO] ''SRSHL_vec'',
     INFO ID_SQRSHL_vec ''SQRSHL'' [TODO] ''SQRSHL_vec'',
     INFO ID_SMAX_vec ''SMAX'' [TODO] ''SMAX_vec'',
     INFO ID_SMIN_vec ''SMIN'' [TODO] ''SMIN_vec'',
     INFO ID_SABD_vec ''SABD'' [TODO] ''SABD_vec'',
     INFO ID_SABA_vec ''SABA'' [TODO] ''SABA_vec'',
     INFO ID_ADD_vec ''ADD'' [TODO] ''ADD_vec'',
     INFO ID_CMTST_vec ''CMTST'' [TODO] ''CMTST_vec'',
     INFO ID_MLA_vec ''MLA'' [TODO] ''MLA_vec'',
     INFO ID_MUL_vec ''MUL'' [TODO] ''MUL_vec'',
     INFO ID_SMAXP_vec ''SMAXP'' [TODO] ''SMAXP_vec'',
     INFO ID_SMINP_vec ''SMINP'' [TODO] ''SMINP_vec'',
     INFO ID_SQDMULH_vec ''SQDMULH'' [TODO] ''SQDMULH_vec'',
     INFO ID_ADDP_vec ''ADDP'' [TODO] ''ADDP_vec'',
     INFO ID_FMAXNM_vec ''FMAXNM'' [TODO] ''FMAXNM_vec'',
     INFO ID_FMLA_vec ''FMLA'' [TODO] ''FMLA_vec'',
     INFO ID_FADD_vec ''FADD'' [TODO] ''FADD_vec'',
     INFO ID_FMULX_vec ''FMULX'' [TODO] ''FMULX_vec'',
     INFO ID_FCMEQ_vec_reg ''FCMEQ'' [TODO] ''FCMEQ_vec_reg'',
     INFO ID_FMAX_vec ''FMAX'' [TODO] ''FMAX_vec'',
     INFO ID_FRECPS_vec ''FRECPS'' [TODO] ''FRECPS_vec'',
     INFO ID_AND_vec ''AND'' [TODO] ''AND_vec'',
     INFO ID_BIC_vec_reg ''BIC'' [TODO] ''BIC_vec_reg'',
     INFO ID_FMINNM_vec ''FMINNM'' [TODO] ''FMINNM_vec'',
     INFO ID_FMLS_vec ''FMLS'' [TODO] ''FMLS_vec'',
     INFO ID_FSUB_vec ''FSUB'' [TODO] ''FSUB_vec'',
     INFO ID_FMIN_vec ''FMIN'' [TODO] ''FMIN_vec'',
     INFO ID_FRSQRTS_vec ''FRSQRTS'' [TODO] ''FRSQRTS_vec'',
     INFO ID_ORR_vec_reg ''ORR'' [TODO] ''ORR_vec_reg'',
     INFO ID_ORN_vec ''ORN'' [TODO] ''ORN_vec'',
     INFO ID_UHADD_vec ''UHADD'' [TODO] ''UHADD_vec'',
     INFO ID_UQADD_vec ''UQADD'' [TODO] ''UQADD_vec'',
     INFO ID_URHADD_vec ''URHADD'' [TODO] ''URHADD_vec'',
     INFO ID_UHSUB_vec ''UHSUB'' [TODO] ''UHSUB_vec'',
     INFO ID_UQSUB_vec ''UQSUB'' [TODO] ''UQSUB_vec'',
     INFO ID_CMHI_vec_reg ''CMHI'' [TODO] ''CMHI_vec_reg'',
     INFO ID_CMHS_vec_reg ''CMHS'' [TODO] ''CMHS_vec_reg'',
     INFO ID_USHL_vec ''USHL'' [TODO] ''USHL_vec'',
     INFO ID_UQSHL_vec_reg ''UQSHL'' [TODO] ''UQSHL_vec_reg'',
     INFO ID_URSHL_vec ''URSHL'' [TODO] ''URSHL_vec'',
     INFO ID_UQRSHL_vec ''UQRSHL'' [TODO] ''UQRSHL_vec'',
     INFO ID_UMAX_vec ''UMAX'' [TODO] ''UMAX_vec'',
     INFO ID_UMIN_vec ''UMIN'' [TODO] ''UMIN_vec'',
     INFO ID_UABD_vec ''UABD'' [TODO] ''UABD_vec'',
     INFO ID_UABA_vec ''UABA'' [TODO] ''UABA_vec'',
     INFO ID_SUB_vec ''SUB'' [TODO] ''SUB_vec'',
     INFO ID_CMEQ_vec_reg ''CMEQ'' [TODO] ''CMEQ_vec_reg'',
     INFO ID_MLS_vec ''MLS'' [TODO] ''MLS_vec'',
     INFO ID_PMUL_vec ''PMUL'' [TODO] ''PMUL_vec'',
     INFO ID_UMAXP_vec ''UMAXP'' [TODO] ''UMAXP_vec'',
     INFO ID_UMINP_vec ''UMINP'' [TODO] ''UMINP_vec'',
     INFO ID_SQRDMULH_vec ''SQRDMULH'' [TODO] ''SQRDMULH_vec'',
     INFO ID_FMAXNMP_vec ''FMAXNMP'' [TODO] ''FMAXNMP_vec'',
     INFO ID_FADDP_vec ''FADDP'' [TODO] ''FADDP_vec'',
     INFO ID_FMUL_vec ''FMUL'' [TODO] ''FMUL_vec'',
     INFO ID_FCMGE_vec_reg ''FCMGE'' [TODO] ''FCMGE_vec_reg'',
     INFO ID_FACGE_vec ''FACGE'' [TODO] ''FACGE_vec'',
     INFO ID_FMAXP_vec ''FMAXP'' [TODO] ''FMAXP_vec'',
     INFO ID_FDIV_vec ''FDIV'' [TODO] ''FDIV_vec'',
     INFO ID_EOR_vec ''EOR'' [TODO] ''EOR_vec'',
     INFO ID_BSL_vec ''BSL'' [TODO] ''BSL_vec'',
     INFO ID_FMINNMP_vec ''FMINNMP'' [TODO] ''FMINNMP_vec'',
     INFO ID_FABD_vec ''FABD'' [TODO] ''FABD_vec'',
     INFO ID_FCMGT_vec_reg ''FCMGT'' [TODO] ''FCMGT_vec_reg'',
     INFO ID_FACGT_vec ''FACGT'' [TODO] ''FACGT_vec'',
     INFO ID_FMINP_vec ''FMINP'' [TODO] ''FMINP_vec'',
     INFO ID_BIT_vec ''BIT'' [TODO] ''BIT_vec'',
     INFO ID_BIF_vec ''BIF'' [TODO] ''BIF_vec'']"

definition info_Advanced_SIMD_modified_immediate :: "InstructionInfo list" where
  "info_Advanced_SIMD_modified_immediate = [
     INFO ID_MOVI_32_shifted_imm ''MOVI'' [TODO] ''MOVI_32_shifted_imm'',
     INFO ID_ORR_vec_imm_32 ''ORR'' [TODO] ''ORR_vec_imm_32'',
     INFO ID_MOVI_16_shifted_imm ''MOVI'' [TODO] ''MOVI_16_shifted_imm'',
     INFO ID_ORR_vec_imm_16 ''ORR'' [TODO] ''ORR_vec_imm_16'',
     INFO ID_MOVI_32_shifting_ones ''MOVI'' [TODO] ''MOVI_32_shifting_ones'',
     INFO ID_MOVI_8_imm ''MOVI'' [TODO] ''MOVI_8_imm'',
     INFO ID_FMOV_vec_imm_single ''FMOV'' [TODO] ''FMOV_vec_imm_single'',
     INFO ID_MVNI_32_shifted_imm ''MVNI'' [TODO] ''MVNI_32_shifted_imm'',
     INFO ID_BIC_vec_imm_32 ''BIC'' [TODO] ''BIC_vec_imm_32'',
     INFO ID_MVNI_16_shifted_imm ''MVNI'' [TODO] ''MVNI_16_shifted_imm'',
     INFO ID_BIC_vec_imm_16 ''BIC'' [TODO] ''BIC_vec_imm_16'',
     INFO ID_MVNI_32_shifting_ones ''MVNI'' [TODO] ''MVNI_32_shifting_ones'',
     INFO ID_MOVI_64_scalar ''MOVI'' [TODO] ''MOVI_64_scalar'',
     INFO ID_MOVI_64_vec ''MOVI'' [TODO] ''MOVI_64_vec'',
     INFO ID_FMOV_vec_imm_double ''FMOV'' [TODO] ''FMOV_vec_imm_double'']"

definition info_Advanced_SIMD_shift_by_immediate :: "InstructionInfo list" where
  "info_Advanced_SIMD_shift_by_immediate = [
     INFO ID_SSHR_vec ''SSHR'' [TODO] ''SSHR_vec'',
     INFO ID_SSRA_vec ''SSRA'' [TODO] ''SSRA_vec'',
     INFO ID_SRSHR_vec ''SRSHR'' [TODO] ''SRSHR_vec'',
     INFO ID_SRSRA_vec ''SRSRA'' [TODO] ''SRSRA_vec'',
     INFO ID_SHL_vec ''SHL'' [TODO] ''SHL_vec'',
     INFO ID_SQSHL_vec_imm ''SQSHL'' [TODO] ''SQSHL_vec_imm'',
     INFO ID_SHRN_vec ''SHRN'' [TODO] ''SHRN_vec'',
     INFO ID_SHRN2_vec ''SHRN2'' [TODO] ''SHRN2_vec'',
     INFO ID_RSHRN_vec ''RSHRN'' [TODO] ''RSHRN_vec'',
     INFO ID_RSHRN2_vec ''RSHRN2'' [TODO] ''RSHRN2_vec'',
     INFO ID_SQSHRN_vec ''SQSHRN'' [TODO] ''SQSHRN_vec'',
     INFO ID_SQSHRN2_vec ''SQSHRN2'' [TODO] ''SQSHRN2_vec'',
     INFO ID_SQRSHRN_vec ''SQRSHRN'' [TODO] ''SQRSHRN_vec'',
     INFO ID_SQRSHRN2_vec ''SQRSHRN2'' [TODO] ''SQRSHRN2_vec'',
     INFO ID_SSHLL_vec ''SSHLL'' [TODO] ''SSHLL_vec'',
     INFO ID_SSHLL2_vec ''SSHLL2'' [TODO] ''SSHLL2_vec'',
     INFO ID_SCVTF_vec_fixed ''SCVTF'' [TODO] ''SCVTF_vec_fixed'',
     INFO ID_FCVTZS_vec_fixed ''FCVTZS'' [TODO] ''FCVTZS_vec_fixed'',
     INFO ID_USHR_vec ''USHR'' [TODO] ''USHR_vec'',
     INFO ID_USRA_vec ''USRA'' [TODO] ''USRA_vec'',
     INFO ID_URSHR_vec ''URSHR'' [TODO] ''URSHR_vec'',
     INFO ID_URSRA_vec ''URSRA'' [TODO] ''URSRA_vec'',
     INFO ID_SRI_vec ''SRI'' [TODO] ''SRI_vec'',
     INFO ID_SLI_vec ''SLI'' [TODO] ''SLI_vec'',
     INFO ID_SQSHLU_vec ''SQSHLU'' [TODO] ''SQSHLU_vec'',
     INFO ID_UQSHL_vec_imm ''UQSHL_imm'' [TODO] ''UQSHL_vec_imm'',
     INFO ID_SQSHRUN_vec ''SQSHRUN'' [TODO] ''SQSHRUN_vec'',
     INFO ID_SQSHRUN2_vec ''SQSHRUN2'' [TODO] ''SQSHRUN2_vec'',
     INFO ID_SQRSHRUN_vec ''SQRSHRUN'' [TODO] ''SQRSHRUN_vec'',
     INFO ID_SQRSHRUN2_vec ''SQRSHRUN2'' [TODO] ''SQRSHRUN2_vec'',
     INFO ID_UQSHRN_vec ''UQSHRN'' [TODO] ''UQSHRN_vec'',
     INFO ID_UQSHRN2_vec ''UQSHRN2'' [TODO] ''UQSHRN2_vec'',
     INFO ID_UQRSHRN_vec ''UQRSHRN'' [TODO] ''UQRSHRN_vec'',
     INFO ID_UQRSHRN2_vec ''UQRSHRN2'' [TODO] ''UQRSHRN2_vec'',
     INFO ID_USHLL_vec ''USHLL'' [TODO] ''USHLL_vec'',
     INFO ID_USHLL2_vec ''USHLL2'' [TODO] ''USHLL2_vec'',
     INFO ID_UCVTF_vec_fixed ''UCVTF'' [TODO] ''UCVTF_vec_fixed'',
     INFO ID_FCVTZU_vec_fixed ''FCVTZU'' [TODO] ''FCVTZU_vec_fixed'']"

definition info_Advanced_SIMD_vector_x_indexed_element :: "InstructionInfo list" where
  "info_Advanced_SIMD_vector_x_indexed_element = [
     INFO ID_SMLAL_vec_element ''SMLAL'' [TODO] ''SMLAL_vec_element'',
     INFO ID_SMLAL2_vec_element ''SMLAL2'' [TODO] ''SMLAL2_vec_element'',
     INFO ID_SQDMLAL_vec_element ''SQDMLAL'' [TODO] ''SQDMLAL_vec_element'',
     INFO ID_SQDMLAL2_vec_element ''SQDMLAL2'' [TODO] ''SQDMLAL2_vec_element'',
     INFO ID_SMLSL_vec_element ''SMLSL'' [TODO] ''SMLSL_vec_element'',
     INFO ID_SMLSL2_vec_element ''SMLSL2'' [TODO] ''SMLSL2_vec_element'',
     INFO ID_SQDMLSL_vec_element ''SQDMLSL'' [TODO] ''SQDMLSL_vec_element'',
     INFO ID_SQDMLSL2_vec_element ''SQDMLSL2'' [TODO] ''SQDMLSL2_vec_element'',
     INFO ID_MUL_vec_element ''MUL'' [TODO] ''MUL_vec_element'',
     INFO ID_SMULL_vec_element ''SMULL'' [TODO] ''SMULL_vec_element'',
     INFO ID_SMULL2_vec_element ''SMULL2'' [TODO] ''SMULL2_vec_element'',
     INFO ID_SQDMULL_vec_element ''SQDMULL'' [TODO] ''SQDMULL_vec_element'',
     INFO ID_SQDMULL2_vec_element ''SQDMULL2'' [TODO] ''SQDMULL2_vec_element'',
     INFO ID_SQDMULH_vec_element ''SQDMULH'' [TODO] ''SQDMULH_vec_element'',
     INFO ID_SQRDMULH_vec_element ''SQRDMULH'' [TODO] ''SQRDMULH_vec_element'',
     INFO ID_FMLA_vec_element ''FMLA'' [TODO] ''FMLA_vec_element'',
     INFO ID_FMLS_vec_element ''FMLS'' [TODO] ''FMLS_vec_element'',
     INFO ID_FMUL_vec_element ''FMUL'' [TODO] ''FMUL_vec_element'',
     INFO ID_MLA_vec_element ''MLA'' [TODO] ''MLA_vec_element'',
     INFO ID_UMLAL_vec_element ''UMLAL'' [TODO] ''UMLAL_vec_element'',
     INFO ID_UMLAL2_vec_element ''UMLAL2'' [TODO] ''UMLAL2_vec_element'',
     INFO ID_MLS_vec_element ''MLS'' [TODO] ''MLS_vec_element'',
     INFO ID_UMLSL_vec_element ''UMLSL'' [TODO] ''UMLSL_vec_element'',
     INFO ID_UMLSL2_vec_element ''UMLSL2'' [TODO] ''UMLSL2_vec_element'',
     INFO ID_UMULL_vec_element ''UMULL'' [TODO] ''UMULL_vec_element'',
     INFO ID_UMULL2_vec_element ''UMULL2'' [TODO] ''UMULL2_vec_element'',
     INFO ID_FMULX_vec_element ''FMULX'' [TODO] ''FMULX_vec_element'']"

definition infoTable :: "InstructionInfo list" where
  "infoTable =
     INFO ID_INVALID ''INVALID'' [] ''INVALID'' #
     info_Branch @
     info_Exception_Generating @
     info_System @
     info_PC_rel_addressing @
     info_Add_subtract_immediate @
     info_Logical_immediate @
     info_Move_wide_immediate @
     info_Bitfield @
     info_Extract @
     info_Data_processing_2_source @
     info_Data_processing_1_source @
     info_Logical_shifted_register @
     info_Add_subtract_shifted_register @
     info_Add_subtract_extended_register @
     info_Add_subtract_with_carry @
     info_Conditional_compare_register @
     info_Conditional_compare_immediate @
     info_Conditional_select @
     info_Data_processing_3_source @
     info_Advanced_SIMD_load_store_multiple_structures @
     info_Advanced_SIMD_load_store_multiple_structures_post_indexed @
     info_Advanced_SIMD_load_store_single_structure @
     info_Advanced_SIMD_load_store_single_structure_post_indexed @
     info_Load_store_exclusive @
     info_Load_register_literal @
     info_Load_store_no_allocate_pair_offset @
     info_Load_store_register_pair_post_indexed @
     info_Load_store_register_pair_offset @
     info_Load_store_register_pair_pre_indexed @
     info_Load_store_register_unscaled_immediate @
     info_Load_store_register_immediate_post_indexed @
     info_Load_store_register_unprivileged @
     info_Load_store_register_immediate_pre_indexed @
     info_Load_store_register_register_offset @
     info_Load_store_register_unsigned_immediate @
     info_Conversion_between_floating_point_and_fixed_point @
     info_Conversion_between_floating_point_and_integer @
     info_Floating_point_data_processing_1_source @
     info_Floating_point_compare @
     info_Floating_point_immediate @
     info_Floating_point_conditional_compare @
     info_Floating_point_data_processing_2_source @
     info_Floating_point_conditional_select @
     info_Floating_point_data_processing_3_source @
     info_Cryptographic_AES @
     info_Cryptographic_three_register_SHA @
     info_Cryptographic_two_register_SHA @
     info_Advanced_SIMD_scalar_copy @
     info_Advanced_SIMD_scalar_two_register_miscellaneous @
     info_Advanced_SIMD_scalar_pairwise @
     info_Advanced_SIMD_scalar_three_different @
     info_Advanced_SIMD_scalar_three_same @
     info_Advanced_SIMD_scalar_shift_by_immediate @
     info_Advanced_SIMD_scalar_x_indexed_element @
     info_Advanced_SIMD_table_lookup @
     info_Advanced_SIMD_permute @
     info_Advanced_SIMD_extract @
     info_Advanced_SIMD_copy @
     info_Advanced_SIMD_two_register_miscellaneous @
     info_Advanced_SIMD_across_lanes @
     info_Advanced_SIMD_three_different @
     info_Advanced_SIMD_three_same @
     info_Advanced_SIMD_modified_immediate @
     info_Advanced_SIMD_shift_by_immediate @
     info_Advanced_SIMD_vector_x_indexed_element @
     [INFO NUM_INSTRUCTIONS ''NUM_INSTRUCTIONS'' [] ''NUM_INSTRUCTIONS'']"

subsection \<open>Aliases\<close>

definition aliasTable :: "InstructionInfo list" where
  "aliasTable = [
     ALIAS ''ASR'' [Wd, Wn, imm_shift] 0b11111111110000001111110000000000 0b00010011000000000111110000000000,
     ALIAS ''ASR'' [Xd, Xn, imm_shift] 0b11111111110000001111110000000000 0b10010011010000001111110000000000,
     ALIAS ''CMN'' [Wn_WSP, W_extended_reg] 0b11111111111000000000000000011111 0b00101011001000000000000000011111,
     ALIAS ''CMN'' [Xn_SP, X_extended_reg] 0b11111111111000000000000000011111 0b10101011001000000000000000011111,
     ALIAS ''CMN'' [Wn_WSP, imm_addsub] 0b11111111000000000000000000011111 0b00110001000000000000000000011111,
     ALIAS ''CMN'' [Xn_SP, imm_addsub] 0b11111111000000000000000000011111 0b10110001000000000000000000011111,
     ALIAS ''CMN'' [Wn, shifted_reg] 0b11111111001000000000000000011111 0b00101011000000000000000000011111,
     ALIAS ''CMN'' [Xn, shifted_reg] 0b11111111001000000000000000011111 0b10101011000000000000000000011111,
     ALIAS ''CMP'' [Wn_WSP, W_extended_reg] 0b11111111111000000000000000011111 0b01101011001000000000000000011111,
     ALIAS ''CMP'' [Xn_SP, X_extended_reg] 0b11111111111000000000000000011111 0b11101011001000000000000000011111,
     ALIAS ''CMP'' [Wn_WSP, imm_addsub] 0b11111111000000000000000000011111 0b01110001000000000000000000011111,
     ALIAS ''CMP'' [Xn_SP, imm_addsub] 0b11111111000000000000000000011111 0b11110001000000000000000000011111,
     ALIAS ''CMP'' [Wn, Wm, shifted_reg] 0b11111111001000000000000000011111 0b01101011000000000000000000011111,
     ALIAS ''CMP'' [Xn, Xm, shifted_reg] 0b11111111001000000000000000011111 0b11101011000000000000000000011111,
     ALIAS ''LSR'' [Wd, Wn, imm_shift] 0b11111111110000001111110000000000 0b01010011000000000111110000000000,
     ALIAS ''LSR'' [Xd, Xn, imm_shift] 0b11111111110000001111110000000000 0b11010011010000001111110000000000,
     ALIAS ''MNEG'' [Wd, Wn, Wm] 0b11111111111000001111110000000000 0b00011011000000001111110000000000,
     ALIAS ''MNEG'' [Xd, Xn, Xm] 0b11111111111000001111110000000000 0b10011011000000001111110000000000,
     ALIAS ''MOV'' [Wd_WSP, Wn_WSP] 0b11111111111111111111110000011111 0b00010001000000000000000000011111,
     ALIAS ''MOV'' [Xd_SP, Xn_SP] 0b11111111111111111111110000011111 0b10010001000000000000000000011111,
     ALIAS ''MOV'' [Wd_WSP, Wn_WSP] 0b11111111111111111111111111100000 0b00010001000000000000001111100000,
     ALIAS ''MOV'' [Xd_SP, Xn_SP] 0b11111111111111111111111111100000 0b10010001000000000000001111100000,
     ALIAS ''MOV'' [Wd, Wm] 0b11111111111000001111111111100000 0b00101010000000000000001111100000,
     ALIAS ''MOV'' [Xd, Xm] 0b11111111111000001111111111100000 0b10101010000000000000001111100000,
     ALIAS ''MUL'' [Wd, Wn, Wm] 0b11111111111000001111110000000000 0b00011011000000000111110000000000,
     ALIAS ''MUL'' [Xd, Xn, Xm] 0b11111111111000001111110000000000 0b10011011000000000111110000000000,
     ALIAS ''MVN'' [Wd, Wm, shifted_reg] 0b11111111001000000000001111100000 0b00101010001000000000001111100000,
     ALIAS ''MVN'' [Xd, Xm, shifted_reg] 0b11111111001000000000001111100000 0b10101010001000000000001111100000,
     ALIAS ''NEG'' [Wd, Wm, shifted_reg] 0b11111111001000000000001111100000 0b01001011000000000000001111100000,
     ALIAS ''NEG'' [Xd, Xm, shifted_reg] 0b11111111001000000000001111100000 0b11001011000000000000001111100000,
     ALIAS ''NEGS'' [Wd, Wm, shifted_reg] 0b11111111001000000000001111100000 0b01101011000000000000001111100000,
     ALIAS ''NEGS'' [Xd, Xm, shifted_reg] 0b11111111001000000000001111100000 0b11101011000000000000001111100000,
     ALIAS ''NGC'' [Wd, Wm] 0b11111111111000001111111111100000 0b01011010000000000000001111100000,
     ALIAS ''NGC'' [Xd, Xm] 0b11111111111000001111111111100000 0b11011010000000000000001111100000,
     ALIAS ''NGCS'' [Wd, Wm] 0b11111111111000001111111111100000 0b01111010000000000000001111100000,
     ALIAS ''NGCS'' [Xd, Xm] 0b11111111111000001111111111100000 0b11111010000000000000001111100000,
     ALIAS ''SMNEGL'' [Xd, Wn, Wm] 0b11111111111000001111110000000000 0b10011011001000001111110000000000,
     ALIAS ''SMULL'' [Xd, Wn, Wm] 0b11111111111000001111110000000000 0b10011011001000000111110000000000,
     ALIAS ''SXTB'' [Wd, Wn] 0b11111111111111111111110000000000 0b00010011000000000001110000000000,
     ALIAS ''SXTB'' [Xd, Wn] 0b11111111111111111111110000000000 0b10010011010000000001110000000000,
     ALIAS ''SXTH'' [Wd, Wn] 0b11111111111111111111110000000000 0b00010011000000000011110000000000,
     ALIAS ''SXTH'' [Xd, Wn] 0b11111111111111111111110000000000 0b10010011010000000011110000000000,
     ALIAS ''SXTW'' [Xd, Wn] 0b11111111111111111111110000000000 0b10010011010000000111110000000000,
     ALIAS ''TST'' [Wn, imm_logical] 0b11111111100000000000000000011111 0b01110010000000000000000000011111,
     ALIAS ''TST'' [Xn, imm_logical] 0b11111111100000000000000000011111 0b11110010000000000000000000011111,
     ALIAS ''TST'' [Wn, Wm, shifted_reg] 0b11111111001000000000000000011111 0b01101010000000000000000000011111,
     ALIAS ''TST'' [Xn, Xm, shifted_reg] 0b11111111001000000000000000011111 0b11101010000000000000000000011111,
     ALIAS ''UMNEGL'' [Xd, Wn, Wm] 0b11111111111000001111110000000000 0b10011011101000001111110000000000,
     ALIAS ''UMULL'' [Wd, Wn, Wm] 0b11111111111000001111110000000000 0b10011011101000000111110000000000,
     ALIAS ''UXTB'' [Wd, Wn] 0b11111111111111111111110000000000 0b01010011000000000001110000000000,
     ALIAS ''UXTH'' [Wd, Wn] 0b11111111111111111111110000000000 0b01010011000000000011110000000000]"

end
