(* ===== verification/Disassembler.thy ===== *)
theory Disassembler
  imports Inst_Info Decode_Equiv Loader
begin

text \<open>
  \<^verbatim>\<open>libcpu/src/disassembler/disassembler.cpp\<close>: the text of an instruction, its name and its operands. \<^verbatim>\<open>getInstruction\<close> prefers an alias; then the operand fields of
  the entry are printed one after the other, separated by commas. \<^verbatim>\<open>disassemble\<close> returns false, which is \<open>None\<close>, for an unmapped address and an invalid instruction.

  Bit fields are shown with \<^verbatim>\<open>std::to_string\<close> in decimal (\<open>to_string\<close>, with the loader) or through a stream in hexadecimal, where a negative number appears as its two's complement.
  A \<^verbatim>\<open>default\<close> that only logs \<^verbatim>\<open>UNREACHABLE\<close> leaves the empty string.
\<close>

unbundle bit_operations_syntax

record Disassembly =
  dis_name :: string
  dis_args :: string

datatype RegType = X_reg | W_reg | B_reg | H_reg | S_reg | D_reg | Q_reg

text \<open>\<^verbatim>\<open>std::hex\<close>\<close>

fun hex_string :: "nat \<Rightarrow> string" where
  "hex_string n = (let d = n mod 16; c = char_of (if d < 10 then 48 + d else 87 + d) in if n < 16 then [c] else hex_string (n div 16) @ [c])"

declare hex_string.simps [simp del]

abbreviation hex :: "'a::len word \<Rightarrow> string" where "hex w \<equiv> hex_string (unat w)"
abbreviation dec :: "'a::len word \<Rightarrow> string" where "dec w \<equiv> to_string (unat w)"

definition inst_5_11 :: "u32 \<Rightarrow> u32" where "inst_5_11 = FLD 5 11"
definition inst_8_11 :: "u32 \<Rightarrow> u32" where "inst_8_11 = FLD 8 11"

subsection \<open>Names\<close>

primrec disassembleCondition :: "Condition \<Rightarrow> string" where
  "disassembleCondition EQ = ''EQ''"
| "disassembleCondition NE = ''NE''"
| "disassembleCondition CS = ''CS''"
| "disassembleCondition CC = ''CC''"
| "disassembleCondition MI = ''MI''"
| "disassembleCondition PL = ''PL''"
| "disassembleCondition VS = ''VS''"
| "disassembleCondition VC = ''VC''"
| "disassembleCondition HI = ''HI''"
| "disassembleCondition LS = ''LS''"
| "disassembleCondition GE = ''GE''"
| "disassembleCondition LT = ''LT''"
| "disassembleCondition GT = ''GT''"
| "disassembleCondition LE = ''LE''"
| "disassembleCondition AL = ''AL''"
| "disassembleCondition A2 = ''AL''"

definition disassembleShiftType :: "u32 \<Rightarrow> string" where
  "disassembleShiftType sh = (if sh = 0 then ''LSL'' else if sh = 1 then ''LSR'' else if sh = 2 then ''ASR'' else if sh = 3 then ''ROR'' else [])"

definition disassembleExtendType :: "u32 \<Rightarrow> string" where
  "disassembleExtendType ext =
     (if ext = 0 then ''UXTB'' else if ext = 1 then ''UXTH'' else if ext = 2 then ''UXTW'' else if ext = 3 then ''UXTX''
      else if ext = 4 then ''SXTB'' else if ext = 5 then ''SXTH'' else if ext = 6 then ''SXTW'' else if ext = 7 then ''SXTX'' else [])"

definition disassemblePrefetchOp :: "reg \<Rightarrow> string" where
  "disassemblePrefetchOp op = ''#'' @ dec op"

definition disassembleBarrierType :: "u32 \<Rightarrow> string" where
  "disassembleBarrierType type =
     (if type = 0 then ''#0'' else if type = 1 then ''OSHLD'' else if type = 2 then ''OSHST'' else if type = 3 then ''OSH''
      else if type = 4 then ''#4'' else if type = 5 then ''NSHLD'' else if type = 6 then ''NSHST'' else if type = 7 then ''NSH''
      else if type = 8 then ''#8'' else if type = 9 then ''ISHLD'' else if type = 10 then ''ISHST'' else if type = 11 then ''ISH''
      else if type = 12 then ''#12'' else if type = 13 then ''LD'' else if type = 14 then ''ST'' else if type = 15 then ''SY'' else [])"

definition disassembleReg :: "RegType \<Rightarrow> bool \<Rightarrow> reg \<Rightarrow> string" where
  "disassembleReg type useSP regNum =
     (case type of
        X_reg \<Rightarrow> if regNum = 31 then if useSP then ''SP'' else ''XZR'' else ''X'' @ dec regNum
      | W_reg \<Rightarrow> if regNum = 31 then if useSP then ''WSP'' else ''WZR'' else ''W'' @ dec regNum
      | B_reg \<Rightarrow> ''B'' @ dec regNum
      | H_reg \<Rightarrow> ''H'' @ dec regNum
      | S_reg \<Rightarrow> ''S'' @ dec regNum
      | D_reg \<Rightarrow> ''D'' @ dec regNum
      | Q_reg \<Rightarrow> ''Q'' @ dec regNum)"

definition getInstruction :: "DecodedInstruction \<Rightarrow> InstructionInfo" where
  "getInstruction dInst =
     (case find (\<lambda>alias. di_inst dInst AND info_mask alias = info_condition alias) aliasTable of
        Some alias \<Rightarrow> alias
      | None \<Rightarrow> infoTable ! di_id dInst)"

definition getBaseInstructionName :: "instructionID \<Rightarrow> string" where
  "getBaseInstructionName i = info_rawName (infoTable ! i)"

subsection \<open>Operands\<close>

text \<open>The part of the address and offset of a field that is relative to the instruction.\<close>

definition label_offset :: "nat \<Rightarrow> u32 \<Rightarrow> u64" where
  "label_offset k fld = shl (signExtend k (ucast fld :: u64)) 2"

definition adr_offset :: "u32 \<Rightarrow> u64" where
  "adr_offset inst = signExtend 21 (ucast (shl (inst_immhi inst) 2 OR inst_immlo inst) :: u64)"

text \<open>Memory operands: a base register in brackets, with the offset behind it, inside the brackets, or inside them with the mark of a pre-indexed access.\<close>

definition base_reg :: "u32 \<Rightarrow> string" where
  "base_reg inst = ''['' @ disassembleReg X_reg True (inst_Rn inst)"

definition post_indexed :: "u32 \<Rightarrow> u64 \<Rightarrow> string" where
  "post_indexed inst imm = base_reg inst @ ''], #0x'' @ hex imm"

definition pre_indexed :: "u32 \<Rightarrow> u64 \<Rightarrow> string" where
  "pre_indexed inst imm = base_reg inst @ '', #0x'' @ hex imm @ '']!''"

definition with_offset :: "u32 \<Rightarrow> u64 \<Rightarrow> string" where
  "with_offset inst imm = base_reg inst @ '', #0x'' @ hex imm @ '']''"

definition imm9 :: "u32 \<Rightarrow> u64" where
  "imm9 inst = signExtend 9 (ucast (inst_12_20 inst))"

definition imm12 :: "u32 \<Rightarrow> nat \<Rightarrow> u64" where
  "imm12 inst scale = shl (ucast (inst_10_21 inst)) scale"

definition imm7 :: "u32 \<Rightarrow> nat \<Rightarrow> u64" where
  "imm7 inst scale = shl (signExtend 7 (ucast (inst_15_21 inst))) scale"

definition register_offset :: "u32 \<Rightarrow> string" where
  "register_offset inst = base_reg inst @ '', '' @ disassembleReg (if testBit 13 inst then X_reg else W_reg) False (inst_Rm inst) @ '', '' @
     (let opt = inst_option inst in
      if opt = 2 then ''UXTW'' else if opt = 3 then ''LSL'' else if opt = 6 then ''SXTW'' else if opt = 7 then ''SXTX'' else ''UNKNOWN'') @
     '', '' @ (if testBit 12 inst then ''2'' else ''0'') @ '']''"

definition extended_reg :: "RegType \<Rightarrow> u32 \<Rightarrow> string" where
  "extended_reg type inst = disassembleReg type False (inst_Rm inst) @ '' '' @ disassembleExtendType (inst_option inst) @ '' #'' @ dec (inst_10_12 inst)"

text \<open>What a field adds: nothing, a suffix of the name, or an operand, which \<^verbatim>\<open>insertDelimiter\<close> separates from the one before.\<close>

datatype Printed = Nothing | Suffix string | Operand string

primrec disassembleField :: "FieldType \<Rightarrow> DecodedInstruction \<Rightarrow> u64 \<Rightarrow> Printed" where
  "disassembleField FieldType.NONE d addr = Operand ''TODO_ARG''"
| "disassembleField cond_branch d addr = Suffix (''.'' @ disassembleCondition (to_Condition (inst_cond (di_inst d))))"
| "disassembleField cond_comp d addr = Operand (disassembleCondition (to_Condition (inst_cond_comp (di_inst d))))"
| "disassembleField Wt d addr = Operand (disassembleReg W_reg False (inst_Rt (di_inst d)))"
| "disassembleField Xt d addr = Operand (disassembleReg X_reg False (inst_Rt (di_inst d)))"
| "disassembleField Bt d addr = Operand (disassembleReg B_reg False (inst_Rt (di_inst d)))"
| "disassembleField Ht d addr = Operand (disassembleReg H_reg False (inst_Rt (di_inst d)))"
| "disassembleField St d addr = Operand (disassembleReg S_reg False (inst_Rt (di_inst d)))"
| "disassembleField Dt d addr = Operand (disassembleReg D_reg False (inst_Rt (di_inst d)))"
| "disassembleField Qt d addr = Operand (disassembleReg Q_reg False (inst_Rt (di_inst d)))"
| "disassembleField Wt2 d addr = Operand (disassembleReg W_reg False (inst_Rt2 (di_inst d)))"
| "disassembleField Xt2 d addr = Operand (disassembleReg X_reg False (inst_Rt2 (di_inst d)))"
| "disassembleField Bt2 d addr = Operand (disassembleReg B_reg False (inst_Rt2 (di_inst d)))"
| "disassembleField Ht2 d addr = Operand (disassembleReg H_reg False (inst_Rt2 (di_inst d)))"
| "disassembleField St2 d addr = Operand (disassembleReg S_reg False (inst_Rt2 (di_inst d)))"
| "disassembleField Dt2 d addr = Operand (disassembleReg D_reg False (inst_Rt2 (di_inst d)))"
| "disassembleField Qt2 d addr = Operand (disassembleReg Q_reg False (inst_Rt2 (di_inst d)))"
| "disassembleField Wn d addr = Operand (disassembleReg W_reg False (inst_Rn (di_inst d)))"
| "disassembleField Xn d addr = (if di_id d \<noteq> ID_RET \<or> inst_Rn (di_inst d) \<noteq> 30 then Operand (disassembleReg X_reg False (inst_Rn (di_inst d))) else Nothing)"
| "disassembleField Bn d addr = Operand (disassembleReg B_reg False (inst_Rn (di_inst d)))"
| "disassembleField Hn d addr = Operand (disassembleReg H_reg False (inst_Rn (di_inst d)))"
| "disassembleField Sn d addr = Operand (disassembleReg S_reg False (inst_Rn (di_inst d)))"
| "disassembleField Dn d addr = Operand (disassembleReg D_reg False (inst_Rn (di_inst d)))"
| "disassembleField Qn d addr = Operand (disassembleReg Q_reg False (inst_Rn (di_inst d)))"
| "disassembleField Wn_WSP d addr = Operand (disassembleReg W_reg True (inst_Rn (di_inst d)))"
| "disassembleField Xn_SP d addr = Operand (disassembleReg X_reg True (inst_Rn (di_inst d)))"
| "disassembleField Wm d addr = Operand (disassembleReg W_reg False (inst_Rm (di_inst d)))"
| "disassembleField Xm d addr = Operand (disassembleReg X_reg False (inst_Rm (di_inst d)))"
| "disassembleField Bm d addr = Operand (disassembleReg B_reg False (inst_Rm (di_inst d)))"
| "disassembleField Hm d addr = Operand (disassembleReg H_reg False (inst_Rm (di_inst d)))"
| "disassembleField Sm d addr = Operand (disassembleReg S_reg False (inst_Rm (di_inst d)))"
| "disassembleField Dm d addr = Operand (disassembleReg D_reg False (inst_Rm (di_inst d)))"
| "disassembleField Qm d addr = Operand (disassembleReg Q_reg False (inst_Rm (di_inst d)))"
| "disassembleField Wa d addr = Operand (disassembleReg W_reg False (inst_Ra (di_inst d)))"
| "disassembleField Xa d addr = Operand (disassembleReg X_reg False (inst_Ra (di_inst d)))"
| "disassembleField Ba d addr = Operand (disassembleReg B_reg False (inst_Ra (di_inst d)))"
| "disassembleField Ha d addr = Operand (disassembleReg H_reg False (inst_Ra (di_inst d)))"
| "disassembleField Sa d addr = Operand (disassembleReg S_reg False (inst_Ra (di_inst d)))"
| "disassembleField Da d addr = Operand (disassembleReg D_reg False (inst_Ra (di_inst d)))"
| "disassembleField Qa d addr = Operand (disassembleReg Q_reg False (inst_Ra (di_inst d)))"
| "disassembleField Wd d addr = Operand (disassembleReg W_reg False (inst_Rd (di_inst d)))"
| "disassembleField Xd d addr = Operand (disassembleReg X_reg False (inst_Rd (di_inst d)))"
| "disassembleField Bd d addr = Operand (disassembleReg B_reg False (inst_Rd (di_inst d)))"
| "disassembleField Hd d addr = Operand (disassembleReg H_reg False (inst_Rd (di_inst d)))"
| "disassembleField Sd d addr = Operand (disassembleReg S_reg False (inst_Rd (di_inst d)))"
| "disassembleField Dd d addr = Operand (disassembleReg D_reg False (inst_Rd (di_inst d)))"
| "disassembleField Qd d addr = Operand (disassembleReg Q_reg False (inst_Rd (di_inst d)))"
| "disassembleField Wd_WSP d addr = Operand (disassembleReg W_reg True (inst_Rd (di_inst d)))"
| "disassembleField Xd_SP d addr = Operand (disassembleReg X_reg True (inst_Rd (di_inst d)))"
| "disassembleField Ws d addr = Operand (disassembleReg W_reg False (inst_Rs (di_inst d)))"
| "disassembleField imm_tbz d addr = Operand (''#'' @ dec (inst_b40 (di_inst d)))"
| "disassembleField imm_exceptions d addr = Operand (''#'' @ dec (inst_5_20 (di_inst d)))"
| "disassembleField imm_hint d addr = Operand (''#'' @ dec (inst_5_11 (di_inst d)))"
| "disassembleField imm_clrex d addr = Operand (''#'' @ dec (inst_8_11 (di_inst d)))"
| "disassembleField imm_adr d addr = Operand (hex (addr + adr_offset (di_inst d)))"
| "disassembleField imm_adrp d addr = Operand (hex ((addr + shl (adr_offset (di_inst d)) 12) AND 0xFFFFFFFFFFFFF000))"
| "disassembleField imm_addsub d addr = Operand (''#0x'' @ hex (shl (ucast (inst_10_21 (di_inst d)) :: u64) (if testBit 22 (di_inst d) then 12 else 0)))"
| "disassembleField imm_logical d addr = Operand (''#0x'' @ hex (getLogicalImmediate (di_inst d)))"
| "disassembleField imm_mov d addr = Operand (''#0x'' @ hex (shl (ucast (inst_5_20 (di_inst d)) :: u64) (unat (inst_hw (di_inst d)) * 16)))"
| "disassembleField imm_bitfield d addr = Operand (''#0x'' @ hex (inst_immr (di_inst d)) @ '', #0x'' @ hex (inst_imms (di_inst d)))"
| "disassembleField imm_extract d addr = Operand (''#0x'' @ hex (inst_imms (di_inst d)))"
| "disassembleField imm_compare d addr = Operand (''#0x'' @ hex (inst_16_20 (di_inst d)))"
| "disassembleField imm_shift d addr = Operand (''#0x'' @ hex (inst_immr (di_inst d)))"
| "disassembleField label_cond_branch d addr = Operand (hex (addr + label_offset 19 (inst_5_23 (di_inst d))))"
| "disassembleField label_branch d addr = Operand (hex (addr + label_offset 26 (inst_0_25 (di_inst d))))"
| "disassembleField label_tbz d addr = Operand (hex (addr + label_offset 14 (inst_5_18 (di_inst d))))"
| "disassembleField label_loadstore d addr = Operand (hex (addr + label_offset 19 (inst_5_23 (di_inst d))))"
| "disassembleField prefetch_op d addr = Operand (disassemblePrefetchOp (inst_Rt (di_inst d)))"
| "disassembleField barrier_type d addr = Operand (disassembleBarrierType (inst_CRm (di_inst d)))"
| "disassembleField shifted_reg d addr = (if inst_10_15 (di_inst d) \<noteq> 0 then Operand (disassembleShiftType (inst_shift (di_inst d)) @ '' #'' @ dec (inst_10_15 (di_inst d))) else Nothing)"
| "disassembleField W_extended_reg d addr = Operand (extended_reg W_reg (di_inst d))"
| "disassembleField X_extended_reg d addr = Operand (extended_reg (if inst_option (di_inst d) = 3 \<or> inst_option (di_inst d) = 7 then X_reg else W_reg) (di_inst d))"
| "disassembleField cond_comp_flags d addr = Operand (''#'' @ dec (inst_nzcv (di_inst d)))"
| "disassembleField loadstore_no_off d addr = Operand (base_reg (di_inst d) @ '']'')"
| "disassembleField loadstore_post_off d addr = Operand (post_indexed (di_inst d) (imm9 (di_inst d)))"
| "disassembleField loadstore_pre_off d addr = Operand (pre_indexed (di_inst d) (imm9 (di_inst d)))"
| "disassembleField loadstore_unscaled_off d addr = Operand (with_offset (di_inst d) (imm9 (di_inst d)))"
| "disassembleField loadstore_unsigned_off_8 d addr = Operand (with_offset (di_inst d) (imm12 (di_inst d) 0))"
| "disassembleField loadstore_unsigned_off_16 d addr = Operand (with_offset (di_inst d) (imm12 (di_inst d) 1))"
| "disassembleField loadstore_unsigned_off_32 d addr = Operand (with_offset (di_inst d) (imm12 (di_inst d) 2))"
| "disassembleField loadstore_unsigned_off_64 d addr = Operand (with_offset (di_inst d) (imm12 (di_inst d) 3))"
| "disassembleField loadstore_unsigned_off_128 d addr = Operand (with_offset (di_inst d) (imm12 (di_inst d) 4))"
| "disassembleField loadstore_post_off_pair_32 d addr = Operand (post_indexed (di_inst d) (imm7 (di_inst d) 2))"
| "disassembleField loadstore_post_off_pair_64 d addr = Operand (post_indexed (di_inst d) (imm7 (di_inst d) 3))"
| "disassembleField loadstore_post_off_pair_128 d addr = Operand (post_indexed (di_inst d) (imm7 (di_inst d) 3))"
| "disassembleField loadstore_pre_off_pair_32 d addr = Operand (pre_indexed (di_inst d) (imm7 (di_inst d) 2))"
| "disassembleField loadstore_pre_off_pair_64 d addr = Operand (pre_indexed (di_inst d) (imm7 (di_inst d) 3))"
| "disassembleField loadstore_pre_off_pair_128 d addr = Operand (pre_indexed (di_inst d) (imm7 (di_inst d) 4))"
| "disassembleField loadstore_off_pair_32 d addr = Operand (with_offset (di_inst d) (imm7 (di_inst d) 2))"
| "disassembleField loadstore_off_pair_64 d addr = Operand (with_offset (di_inst d) (imm7 (di_inst d) 3))"
| "disassembleField loadstore_off_pair_128 d addr = Operand (with_offset (di_inst d) (imm7 (di_inst d) 4))"
| "disassembleField loadstore_reg d addr = Operand (register_offset (di_inst d))"
| "disassembleField float_zero_imm d addr = Operand ''#0.0''"
| "disassembleField TODO d addr = Operand ''TODO_ARG''"

text \<open>One turn of the loop over the fields; the state is the name, the operands and \<^verbatim>\<open>insertComma\<close>.\<close>

definition add_field :: "DecodedInstruction \<Rightarrow> u64 \<Rightarrow> FieldType \<Rightarrow> string \<times> string \<times> bool \<Rightarrow> string \<times> string \<times> bool" where
  "add_field dInst addr fld st = (case st of (name, args, insertComma) \<Rightarrow>
     case disassembleField fld dInst addr of
       Nothing \<Rightarrow> st
     | Suffix s \<Rightarrow> (name @ s, args, insertComma)
     | Operand s \<Rightarrow> (name, args @ (if insertComma then '', '' else []) @ s, True))"

definition disassemble :: "DecodedInstruction \<Rightarrow> u64 \<Rightarrow> Memory \<Rightarrow> Disassembly option" where
  "disassemble dInst addr m =
     (if \<not> isValid addr m then None
      else if di_id dInst = ID_INVALID then None
      else let info = getInstruction dInst;
               (name, args, _) = fold (add_field dInst addr) (info_regs info) (info_name info, [], False)
           in Some \<lparr>dis_name = name, dis_args = args\<rparr>)"

subsection \<open>What is printed\<close>

lemmas info_sections =
  info_Branch_def
  info_Exception_Generating_def
  info_System_def
  info_PC_rel_addressing_def
  info_Add_subtract_immediate_def
  info_Logical_immediate_def
  info_Move_wide_immediate_def
  info_Bitfield_def
  info_Extract_def
  info_Data_processing_2_source_def
  info_Data_processing_1_source_def
  info_Logical_shifted_register_def
  info_Add_subtract_shifted_register_def
  info_Add_subtract_extended_register_def
  info_Add_subtract_with_carry_def
  info_Conditional_compare_register_def
  info_Conditional_compare_immediate_def
  info_Conditional_select_def
  info_Data_processing_3_source_def
  info_Advanced_SIMD_load_store_multiple_structures_def
  info_Advanced_SIMD_load_store_multiple_structures_post_indexed_def
  info_Advanced_SIMD_load_store_single_structure_def
  info_Advanced_SIMD_load_store_single_structure_post_indexed_def
  info_Load_store_exclusive_def
  info_Load_register_literal_def
  info_Load_store_no_allocate_pair_offset_def
  info_Load_store_register_pair_post_indexed_def
  info_Load_store_register_pair_offset_def
  info_Load_store_register_pair_pre_indexed_def
  info_Load_store_register_unscaled_immediate_def
  info_Load_store_register_immediate_post_indexed_def
  info_Load_store_register_unprivileged_def
  info_Load_store_register_immediate_pre_indexed_def
  info_Load_store_register_register_offset_def
  info_Load_store_register_unsigned_immediate_def
  info_Conversion_between_floating_point_and_fixed_point_def
  info_Conversion_between_floating_point_and_integer_def
  info_Floating_point_data_processing_1_source_def
  info_Floating_point_compare_def
  info_Floating_point_immediate_def
  info_Floating_point_conditional_compare_def
  info_Floating_point_data_processing_2_source_def
  info_Floating_point_conditional_select_def
  info_Floating_point_data_processing_3_source_def
  info_Cryptographic_AES_def
  info_Cryptographic_three_register_SHA_def
  info_Cryptographic_two_register_SHA_def
  info_Advanced_SIMD_scalar_copy_def
  info_Advanced_SIMD_scalar_two_register_miscellaneous_def
  info_Advanced_SIMD_scalar_pairwise_def
  info_Advanced_SIMD_scalar_three_different_def
  info_Advanced_SIMD_scalar_three_same_def
  info_Advanced_SIMD_scalar_shift_by_immediate_def
  info_Advanced_SIMD_scalar_x_indexed_element_def
  info_Advanced_SIMD_table_lookup_def
  info_Advanced_SIMD_permute_def
  info_Advanced_SIMD_extract_def
  info_Advanced_SIMD_copy_def
  info_Advanced_SIMD_two_register_miscellaneous_def
  info_Advanced_SIMD_across_lanes_def
  info_Advanced_SIMD_three_different_def
  info_Advanced_SIMD_three_same_def
  info_Advanced_SIMD_modified_immediate_def
  info_Advanced_SIMD_shift_by_immediate_def
  info_Advanced_SIMD_vector_x_indexed_element_def

lemma section_ids:
  "map info_id info_Branch = map fst insts_Branch"
  "map info_id info_Exception_Generating = map fst insts_Exception_Generating"
  "map info_id info_System = map fst insts_System"
  "map info_id info_PC_rel_addressing = map fst insts_PC_rel_addressing"
  "map info_id info_Add_subtract_immediate = map fst insts_Add_subtract_immediate"
  "map info_id info_Logical_immediate = map fst insts_Logical_immediate"
  "map info_id info_Move_wide_immediate = map fst insts_Move_wide_immediate"
  "map info_id info_Bitfield = map fst insts_Bitfield"
  "map info_id info_Extract = map fst insts_Extract"
  "map info_id info_Data_processing_2_source = map fst insts_Data_processing_2_source"
  "map info_id info_Data_processing_1_source = map fst insts_Data_processing_1_source"
  "map info_id info_Logical_shifted_register = map fst insts_Logical_shifted_register"
  "map info_id info_Add_subtract_shifted_register = map fst insts_Add_subtract_shifted_register"
  "map info_id info_Add_subtract_extended_register = map fst insts_Add_subtract_extended_register"
  "map info_id info_Add_subtract_with_carry = map fst insts_Add_subtract_with_carry"
  "map info_id info_Conditional_compare_register = map fst insts_Conditional_compare_register"
  "map info_id info_Conditional_compare_immediate = map fst insts_Conditional_compare_immediate"
  "map info_id info_Conditional_select = map fst insts_Conditional_select"
  "map info_id info_Data_processing_3_source = map fst insts_Data_processing_3_source"
  "map info_id info_Advanced_SIMD_load_store_multiple_structures = map fst insts_Advanced_SIMD_load_store_multiple_structures"
  "map info_id info_Advanced_SIMD_load_store_multiple_structures_post_indexed = map fst insts_Advanced_SIMD_load_store_multiple_structures_post_indexed"
  "map info_id info_Advanced_SIMD_load_store_single_structure = map fst insts_Advanced_SIMD_load_store_single_structure"
  "map info_id info_Advanced_SIMD_load_store_single_structure_post_indexed = map fst insts_Advanced_SIMD_load_store_single_structure_post_indexed"
  "map info_id info_Load_store_exclusive = map fst insts_Load_store_exclusive"
  "map info_id info_Load_register_literal = map fst insts_Load_register_literal"
  "map info_id info_Load_store_no_allocate_pair_offset = map fst insts_Load_store_no_allocate_pair_offset"
  "map info_id info_Load_store_register_pair_post_indexed = map fst insts_Load_store_register_pair_post_indexed"
  "map info_id info_Load_store_register_pair_offset = map fst insts_Load_store_register_pair_offset"
  "map info_id info_Load_store_register_pair_pre_indexed = map fst insts_Load_store_register_pair_pre_indexed"
  "map info_id info_Load_store_register_unscaled_immediate = map fst insts_Load_store_register_unscaled_immediate"
  "map info_id info_Load_store_register_immediate_post_indexed = map fst insts_Load_store_register_immediate_post_indexed"
  "map info_id info_Load_store_register_unprivileged = map fst insts_Load_store_register_unprivileged"
  "map info_id info_Load_store_register_immediate_pre_indexed = map fst insts_Load_store_register_immediate_pre_indexed"
  "map info_id info_Load_store_register_register_offset = map fst insts_Load_store_register_register_offset"
  "map info_id info_Load_store_register_unsigned_immediate = map fst insts_Load_store_register_unsigned_immediate"
  "map info_id info_Conversion_between_floating_point_and_fixed_point = map fst insts_Conversion_between_floating_point_and_fixed_point"
  "map info_id info_Conversion_between_floating_point_and_integer = map fst insts_Conversion_between_floating_point_and_integer"
  "map info_id info_Floating_point_data_processing_1_source = map fst insts_Floating_point_data_processing_1_source"
  "map info_id info_Floating_point_compare = map fst insts_Floating_point_compare"
  "map info_id info_Floating_point_immediate = map fst insts_Floating_point_immediate"
  "map info_id info_Floating_point_conditional_compare = map fst insts_Floating_point_conditional_compare"
  "map info_id info_Floating_point_data_processing_2_source = map fst insts_Floating_point_data_processing_2_source"
  "map info_id info_Floating_point_conditional_select = map fst insts_Floating_point_conditional_select"
  "map info_id info_Floating_point_data_processing_3_source = map fst insts_Floating_point_data_processing_3_source"
  "map info_id info_Cryptographic_AES = map fst insts_Cryptographic_AES"
  "map info_id info_Cryptographic_three_register_SHA = map fst insts_Cryptographic_three_register_SHA"
  "map info_id info_Cryptographic_two_register_SHA = map fst insts_Cryptographic_two_register_SHA"
  "map info_id info_Advanced_SIMD_scalar_copy = map fst insts_Advanced_SIMD_scalar_copy"
  "map info_id info_Advanced_SIMD_scalar_two_register_miscellaneous = map fst insts_Advanced_SIMD_scalar_two_register_miscellaneous"
  "map info_id info_Advanced_SIMD_scalar_pairwise = map fst insts_Advanced_SIMD_scalar_pairwise"
  "map info_id info_Advanced_SIMD_scalar_three_different = map fst insts_Advanced_SIMD_scalar_three_different"
  "map info_id info_Advanced_SIMD_scalar_three_same = map fst insts_Advanced_SIMD_scalar_three_same"
  "map info_id info_Advanced_SIMD_scalar_shift_by_immediate = map fst insts_Advanced_SIMD_scalar_shift_by_immediate"
  "map info_id info_Advanced_SIMD_scalar_x_indexed_element = map fst insts_Advanced_SIMD_scalar_x_indexed_element"
  "map info_id info_Advanced_SIMD_table_lookup = map fst insts_Advanced_SIMD_table_lookup"
  "map info_id info_Advanced_SIMD_permute = map fst insts_Advanced_SIMD_permute"
  "map info_id info_Advanced_SIMD_extract = map fst insts_Advanced_SIMD_extract"
  "map info_id info_Advanced_SIMD_copy = map fst insts_Advanced_SIMD_copy"
  "map info_id info_Advanced_SIMD_two_register_miscellaneous = map fst insts_Advanced_SIMD_two_register_miscellaneous"
  "map info_id info_Advanced_SIMD_across_lanes = map fst insts_Advanced_SIMD_across_lanes"
  "map info_id info_Advanced_SIMD_three_different = map fst insts_Advanced_SIMD_three_different"
  "map info_id info_Advanced_SIMD_three_same = map fst insts_Advanced_SIMD_three_same"
  "map info_id info_Advanced_SIMD_modified_immediate = map fst insts_Advanced_SIMD_modified_immediate"
  "map info_id info_Advanced_SIMD_shift_by_immediate = map fst insts_Advanced_SIMD_shift_by_immediate"
  "map info_id info_Advanced_SIMD_vector_x_indexed_element = map fst insts_Advanced_SIMD_vector_x_indexed_element"
  by (simp_all add: info_sections all_sections INFO_def INST_def)

lemma infoTable_ids: "map info_id infoTable = [0..<Suc NUM_INSTRUCTIONS]"
proof -
  have upt: "0 # [1..<n] @ [n] = [0..<Suc n]" if "0 < n" for n using that by (simp add: upt_conv_Cons)
  have "map info_id infoTable = 0 # map fst instructions @ [NUM_INSTRUCTIONS]"
    by (simp add: infoTable_def instructions_def section_ids INFO_def)
  also have "\<dots> = 0 # [1..<NUM_INSTRUCTIONS] @ [NUM_INSTRUCTIONS]" by (simp only: instructions_ids)
  also have "\<dots> = [0..<Suc NUM_INSTRUCTIONS]" by (rule upt) simp
  finally show ?thesis .
qed

text \<open>The entry at the index of an instruction is its own.\<close>

lemma infoTable_entry: "i < NUM_INSTRUCTIONS \<Longrightarrow> info_id (infoTable ! i) = i \<and> infoTable ! i \<in> set infoTable"
proof -
  assume i: "i < NUM_INSTRUCTIONS"
  then have n: "i < length infoTable" using arg_cong [OF infoTable_ids, of length] by simp
  have "info_id (infoTable ! i) = map info_id infoTable ! i" using n by simp
  also have "\<dots> = i" unfolding infoTable_ids using i by (subst nth_upt) simp_all
  finally show ?thesis using n by simp
qed

text \<open>The instruction each alias is another name of, in the order of \<open>aliasTable\<close>.\<close>

definition alias_bases :: "instructionID list" where
  "alias_bases = [ID_SBFM_32, ID_SBFM_64, ID_ADDS_32_extended, ID_ADDS_64_extended, ID_ADDS_32_imm, ID_ADDS_64_imm, ID_ADDS_32_shifted,
     ID_ADDS_64_shifted, ID_SUBS_32_extended, ID_SUBS_64_extended, ID_SUBS_32_imm, ID_SUBS_64_imm, ID_SUBS_32_shifted, ID_SUBS_64_shifted,
     ID_UBFM_32, ID_UBFM_64, ID_MSUB_32, ID_MSUB_64, ID_ADD_32_imm, ID_ADD_64_imm, ID_ADD_32_imm, ID_ADD_64_imm, ID_ORR_32_shifted,
     ID_ORR_64_shifted, ID_MADD_32, ID_MADD_64, ID_ORN_32_shifted, ID_ORN_64_shifted, ID_SUB_32_shifted, ID_SUB_64_shifted,
     ID_SUBS_32_shifted, ID_SUBS_64_shifted, ID_SBC_32, ID_SBC_64, ID_SBCS_32, ID_SBCS_64, ID_SMSUBL, ID_SMADDL, ID_SBFM_32, ID_SBFM_64,
     ID_SBFM_32, ID_SBFM_64, ID_SBFM_64, ID_ANDS_32_imm, ID_ANDS_64_imm, ID_ANDS_32_shifted, ID_ANDS_64_shifted, ID_UMSUBL, ID_UMADDL,
     ID_UBFM_32, ID_UBFM_32]"

lemma alias_base:
  "list_all (\<lambda>(alias, i). w AND info_mask alias = info_condition alias \<longrightarrow> di_id (decode w) \<in> {ID_INVALID, i}) (zip aliasTable alias_bases)"
  by (simp add: aliasTable_def alias_bases_def ALIAS_def decode_class dpimm_defs dpreg_defs bit_lits)

lemma alias_found:
  assumes "find (\<lambda>alias. w AND info_mask alias = info_condition alias) aliasTable = Some alias" and "di_id (decode w) \<noteq> ID_INVALID"
  shows "(alias, di_id (decode w)) \<in> set (zip aliasTable alias_bases)"
proof -
  obtain k where k: "k < length aliasTable" "w AND info_mask (aliasTable ! k) = info_condition (aliasTable ! k)" "alias = aliasTable ! k"
    using assms(1) by (auto simp: find_Some_iff)
  have "length alias_bases = length aliasTable" by (simp add: alias_bases_def aliasTable_def)
  with k(1) have zip: "zip aliasTable alias_bases ! k = (aliasTable ! k, alias_bases ! k)" "k < length (zip aliasTable alias_bases)" by simp_all
  with alias_base [of w] k(2) assms(2) have "di_id (decode w) = alias_bases ! k" by (fastforce simp: list_all_length)
  with zip k(3) show ?thesis by (metis nth_mem)
qed

lemma cond_branch_only:
  "list_all (\<lambda>info. info_id info = ID_B_cond \<or> cond_branch \<notin> set (info_regs info)) infoTable"
  "list_all (\<lambda>info. cond_branch \<notin> set (info_regs info)) aliasTable"
  by (simp_all add: infoTable_def info_sections INFO_def aliasTable_def ALIAS_def)

lemma suffix_only: "fld \<noteq> cond_branch \<Longrightarrow> disassembleField fld d addr \<noteq> Suffix s"
  by (cases fld) simp_all

lemma no_suffix:
  assumes "cond_branch \<notin> set fs"
  shows "\<exists>args c'. fold (add_field d addr) fs (name, args0, c) = (name, args, c')"
  using assms
proof (induction fs arbitrary: args0 c)
  case (Cons fld fs)
  have "\<exists>args1 c1. add_field d addr fld (name, args0, c) = (name, args1, c1)"
    using suffix_only [of fld d addr] Cons.prems by (auto simp: add_field_def split: Printed.splits)
  with Cons show ?case by auto
qed simp

lemma getInstruction_cases:
  assumes "di_id (decode w) \<noteq> ID_INVALID"
  shows "getInstruction (decode w) = infoTable ! di_id (decode w) \<and> info_id (getInstruction (decode w)) = di_id (decode w)
    \<or> (getInstruction (decode w), di_id (decode w)) \<in> set (zip aliasTable alias_bases)"
  using alias_found [OF _ assms] infoTable_entry [OF decode_id_range [of w]]
  by (auto simp: getInstruction_def decode_def split: option.splits)

text \<open>The branches have no aliases.\<close>

lemma branch_info:
  assumes "di_id (decode w) \<in> {ID_B_cond..ID_TBNZ}"
  shows "getInstruction (decode w) = infoTable ! di_id (decode w)"
proof -
  have "\<not> list_ex (\<lambda>i. i \<in> {ID_B_cond..ID_TBNZ}) alias_bases" by (simp add: alias_bases_def)
  then have "di_id (decode w) \<notin> set alias_bases" using assms by (auto simp: list_ex_iff)
  then show ?thesis using getInstruction_cases [of w] assms by (auto dest: set_zip_rightD)
qed

text \<open>
  C38. The disassembler names every instruction the decoder accepts: at a mapped address the name printed is that of the entry of the decoded instruction or of an alias of it, and
  only conditional branches have their condition appended. An alias whose mask also covered another instruction would misname it; none of the 51 does.
\<close>

theorem disassembly_named:
  assumes "isValid addr m" and "di_id (decode w) \<noteq> ID_INVALID"
  shows "\<exists>info args. disassemble (decode w) addr m = Some \<lparr>dis_name = info_name info @
        (if di_id (decode w) = ID_B_cond then ''.'' @ disassembleCondition (to_Condition (inst_cond w)) else []), dis_args = args\<rparr>
    \<and> (info = infoTable ! di_id (decode w) \<and> info_id info = di_id (decode w) \<or> (info, di_id (decode w)) \<in> set (zip aliasTable alias_bases))"
proof (cases "di_id (decode w) = ID_B_cond")
  case True
  have "infoTable ! ID_B_cond = INFO ID_B_cond ''B'' [cond_branch, label_cond_branch] ''B_cond''"
    by (simp add: infoTable_def info_Branch_def)
  with True branch_info [of w] assms(1) have "\<exists>args. disassemble (decode w) addr m = Some \<lparr>dis_name = info_name (infoTable ! ID_B_cond) @
      ''.'' @ disassembleCondition (to_Condition (inst_cond w)), dis_args = args\<rparr>"
    by (simp add: disassemble_def add_field_def decode_def INFO_def)
  with True infoTable_entry [of ID_B_cond] show ?thesis by auto
next
  case False
  let ?info = "getInstruction (decode w)"
  have "cond_branch \<notin> set (info_regs ?info)"
    using getInstruction_cases [OF assms(2)] False cond_branch_only infoTable_entry [OF decode_id_range [of w]]
    by (auto simp: list_all_iff dest: set_zip_leftD)
  from no_suffix [OF this] obtain args c
    where "fold (add_field (decode w) addr) (info_regs ?info) (info_name ?info, [], False) = (info_name ?info, args, c)" by metis
  with False assms getInstruction_cases [OF assms(2)] show ?thesis
    by (intro exI [of _ ?info] exI [of _ args]) (simp add: disassemble_def)
qed

theorem disassembly_named_witness:
  "\<exists>args. disassemble (decode 0x54000040) 0x1100 (memory demo_machine) = Some \<lparr>dis_name = ''B.EQ'', dis_args = args\<rparr>"
proof -
  have w: "di_id (decode 0x54000040) = ID_B_cond" by (simp add: decode_class decodeSystemOrBranch_def field_tests bit_lits)
  have v: "isValid 0x1100 (memory demo_machine)" using access_faults_witness by simp
  have c: "disassembleCondition (to_Condition (inst_cond 0x54000040)) = ''EQ''"
    by code_simp
  have n: "info_name (infoTable ! ID_B_cond) = ''B''" by (simp add: infoTable_def info_Branch_def INFO_def)
  have "\<not> list_ex (\<lambda>i. i = ID_B_cond) alias_bases" by (simp add: alias_bases_def)
  with disassembly_named [OF v, of "0x54000040"] w c n show ?thesis by (auto simp: list_ex_iff dest: set_zip_rightD)
qed


end
