(* ===== verification/Debug_Analysis.thy ===== *)
theory Debug_Analysis
  imports Disassembler Interpreter
begin

text \<open>
  What the debugger derives from the program: function names and branch targets (\<^verbatim>\<open>switch-emu/src/debug/analysis.cpp\<close>) and the stack trace a core logs when it breaks
  (\<^verbatim>\<open>switch-emu/src/debug/stackTrace.cpp\<close>). The dump of the registers is log output without further effect and is left out; the entries of the trace are its result.
\<close>

unbundle bit_operations_syntax

subsection \<open>Functions and branches\<close>

record FuncInfo =
  func_name :: string

record BranchInfo =
  bi_target :: u64
  bi_isVariable :: bool

definition st_type :: "ElfSymbolHeader \<Rightarrow> u8" where
  "st_type symh = st_info symh AND 0xF"

definition STT_FUNC :: u8 where "STT_FUNC = 2"

text \<open>\<^verbatim>\<open>std::map::emplace\<close> keeps the entry of a key that is present.\<close>

definition emplace :: "'k \<Rightarrow> 'v \<Rightarrow> ('k \<rightharpoonup> 'v) \<Rightarrow> 'k \<rightharpoonup> 'v" where
  "emplace key v table = (if table key = None then table(key \<mapsto> v) else table)"

definition analysis_init :: "Program \<Rightarrow> (u64 \<rightharpoonup> FuncInfo) \<Rightarrow> u64 \<rightharpoonup> FuncInfo" where
  "analysis_init program table =
     fold (\<lambda>sym table. if st_type (sym_sh sym) = STT_FUNC then emplace (st_value (sym_sh sym)) \<lparr>func_name = sym_name sym\<rparr> table else table)
       (symbols program) table"

definition analysis_get :: "u64 \<Rightarrow> (u64 \<rightharpoonup> FuncInfo) \<Rightarrow> FuncInfo option" where
  "analysis_get addr table = table addr"

definition getBranchInfo :: "DecodedInstruction \<Rightarrow> u64 \<Rightarrow> Core \<Rightarrow> BranchInfo" where
  "getBranchInfo dInst addr state =
     (let i = di_id dInst; inst = di_inst dInst;
          relative = (\<lambda>off. \<lparr>bi_target = addr + off, bi_isVariable = False\<rparr>);
          variable = \<lparr>bi_target = GPRegs state (inst_Rn inst), bi_isVariable = True\<rparr>
      in if i = ID_B_cond then relative (label_offset 19 (inst_5_23 inst))
         else if i = ID_BR then variable
         else if i = ID_BLR then variable
         else if i = ID_RET then variable
         else if i = ID_B then relative (label_offset 26 (inst_0_25 inst))
         else if i = ID_BL then relative (label_offset 26 (inst_0_25 inst))
         else if i = ID_CBZ_32 then relative (label_offset 19 (inst_5_23 inst))
         else if i = ID_CBNZ_32 then relative (label_offset 19 (inst_5_23 inst))
         else if i = ID_CBZ_64 then relative (label_offset 19 (inst_5_23 inst))
         else if i = ID_CBNZ_64 then relative (label_offset 19 (inst_5_23 inst))
         else if i = ID_TBZ then relative (label_offset 14 (inst_5_18 inst))
         else if i = ID_TBNZ then relative (label_offset 14 (inst_5_18 inst))
         else \<lparr>bi_target = 0xFFFFFFFFFFFFFFFF, bi_isVariable = False\<rparr>)"

subsection \<open>Stack traces\<close>

text \<open>The condition of the loop, and the loop. It follows the links between frames in guest memory, which may form a cycle: never returning is \<open>None\<close>.\<close>

definition trace_continues :: "u64 \<Rightarrow> u64 \<Rightarrow> Memory \<Rightarrow> bool" where
  "trace_continues pc sp m \<longleftrightarrow> pc \<noteq> 0xBADC0DE \<and> pc \<noteq> 0 \<and> isValid pc m \<and> isValid sp m"

partial_function (option) stack_trace :: "Memory \<Rightarrow> Loader \<Rightarrow> u64 \<Rightarrow> u64 \<Rightarrow> u64 \<Rightarrow> (fault + (u64 \<times> string) list) option" where
  "stack_trace m L pc sp x30 =
     (if trace_continues pc sp m then
        load_then (Some (inspect 8 (sp + 8) m)) (\<lambda>x30'.
        load_then (Some (inspect 8 sp m)) (\<lambda>sp'.
        load_then (stack_trace m L x30 sp' x30') (\<lambda>entries. Some (Inr ((pc, findNearestSymbol pc L) # entries)))))
      else Some (Inr []))"

definition printStackTrace :: "Core \<Rightarrow> Memory \<Rightarrow> Loader \<Rightarrow> (fault + (u64 \<times> string) list) option" where
  "printStackTrace core m L = stack_trace m L (PC core) (SP core) (GPRegs core 30)"

subsection \<open>Functions found\<close>

text \<open>Of several function symbols at an address the first is shown.\<close>

lemma analysis_finds_function:
  "analysis_get a (analysis_init program Map.empty) =
     map_option (\<lambda>sym. \<lparr>func_name = sym_name sym\<rparr>) (find (\<lambda>sym. st_type (sym_sh sym) = STT_FUNC \<and> st_value (sym_sh sym) = a) (symbols program))"
proof -
  have "fold (\<lambda>sym table. if st_type (sym_sh sym) = STT_FUNC then emplace (st_value (sym_sh sym)) \<lparr>func_name = sym_name sym\<rparr> table else table) syms table a =
      (case table a of Some f \<Rightarrow> Some f | None \<Rightarrow>
         map_option (\<lambda>sym. \<lparr>func_name = sym_name sym\<rparr>) (find (\<lambda>sym. st_type (sym_sh sym) = STT_FUNC \<and> st_value (sym_sh sym) = a) syms))" for syms table
    by (induction syms arbitrary: table) (auto simp: emplace_def split: option.splits)
  from this [of "symbols program" Map.empty] show ?thesis by (simp add: analysis_get_def analysis_init_def)
qed

subsection \<open>Branch targets\<close>

lemma label_offset_eq:
  assumes k: "0 < k" "k + 2 \<le> 32" and fld: "unat fld < 2 ^ k"
  shows "label_offset k fld = branch_offset k fld"
proof -
  have "unat (ucast fld :: u64) < 2 ^ k" using fld by (simp add: unat_ucast_u32)
  then have tb: "take_bit k (ucast fld :: u64) = ucast fld"
    by (simp add: word_unat_eq_iff unat_take_bit take_bit_nat_eq_self)
  have "k - 1 < 64" using k by simp
  then have "bit (ucast fld :: u64) (k - 1) \<longleftrightarrow> bit fld (k - 1)" by (simp add: bit_simps)
  then have se: "signExtend k (ucast fld :: u64) = ucast fld - of_bool (bit fld (k - 1)) * 2 ^ k"
    using signExtend_arith [OF _ _ tb] k by simp
  have "int (unat fld) < int (2 ^ k)" using fld by (simp only: of_nat_less_iff)
  then have "take_bit k (uint fld) = uint fld" by (simp add: take_bit_int_eq_self)
  then have "signed_take_bit (k - 1) (uint fld) = uint fld - of_bool (bit fld (k - 1)) * 2 ^ k"
    using k by (simp add: signed_take_bit_eq_take_bit_minus bit_unsigned_iff)
  then show ?thesis
    by (simp add: label_offset_def se branch_offset_def shl_less push_bit_eq_mult right_diff_distrib mult.commute)
qed

lemma label_offsets:
  "label_offset 26 (inst_0_25 w) = branch_offset 26 (inst_0_25 w)"
  "label_offset 19 (inst_5_23 w) = branch_offset 19 (inst_5_23 w)"
  "label_offset 14 (inst_5_18 w) = branch_offset 14 (inst_5_18 w)"
  using unat_FLD_less [of 0 25 w] unat_FLD_less [of 5 23 w] unat_FLD_less [of 5 18 w]
  by (auto intro!: label_offset_eq simp: inst_0_25_def inst_5_23_def inst_5_18_def)

lemma branch_infos:
  "infoTable ! ID_B_cond = INFO ID_B_cond ''B'' [cond_branch, label_cond_branch] ''B_cond''"
  "infoTable ! ID_B = INFO ID_B ''B'' [label_branch] ''B''"
  "infoTable ! ID_BL = INFO ID_BL ''BL'' [label_branch] ''BL''"
  "infoTable ! ID_CBZ_32 = INFO ID_CBZ_32 ''CBZ'' [Wt, label_cond_branch] ''CBZ_32''"
  "infoTable ! ID_CBNZ_32 = INFO ID_CBNZ_32 ''CBNZ'' [Wt, label_cond_branch] ''CBNZ_32''"
  "infoTable ! ID_CBZ_64 = INFO ID_CBZ_64 ''CBZ'' [Xt, label_cond_branch] ''CBZ_64''"
  "infoTable ! ID_CBNZ_64 = INFO ID_CBNZ_64 ''CBNZ'' [Xt, label_cond_branch] ''CBNZ_64''"
  "infoTable ! ID_TBZ = INFO ID_TBZ ''TBZ'' [Xt, imm_tbz, label_tbz] ''TBZ''"
  "infoTable ! ID_TBNZ = INFO ID_TBNZ ''TBNZ'' [Xt, imm_tbz, label_tbz] ''TBNZ''"
  by (simp_all add: infoTable_def info_Branch_def)

text \<open>The last operand printed for a branch with a label is the target the debugger shows.\<close>

lemma label_printed:
  assumes "isBranch (di_id (decode w))" and "di_id (decode w) \<notin> {ID_BR, ID_BLR, ID_RET, ID_ERET, ID_DRPS}" and "isValid addr m"
  shows "\<exists>name pre. disassemble (decode w) addr m = Some \<lparr>dis_name = name, dis_args = pre @ hex (bi_target (getBranchInfo (decode w) addr core))\<rparr>"
proof -
  have i: "di_id (decode w) \<in> {ID_B_cond, ID_B, ID_BL, ID_CBZ_32, ID_CBNZ_32, ID_CBZ_64, ID_CBNZ_64, ID_TBZ, ID_TBNZ}"
    using assms(1,2) by (auto simp: isBranch_def)
  then have "getInstruction (decode w) = infoTable ! di_id (decode w)" by (intro branch_info) auto
  with i assms(3) show ?thesis
    by (auto simp: disassemble_def branch_infos INFO_def add_field_def getBranchInfo_def Let_def simp del: One_nat_def split: prod.splits)
qed

text \<open>
  C39. The debugger, the disassembler and the interpreter agree on branches: after a step on a branch other than \<^verbatim>\<open>ERET\<close> and \<^verbatim>\<open>DRPS\<close> (unimplemented in the
  interpreter, and without a target in the debugger) the program counter is at the target \<^verbatim>\<open>getBranchInfo\<close> computed before it, or, for
  a conditional branch that is not taken, behind the branch; and for a branch with a label the address printed is that target in hexadecimal.
\<close>

theorem branch_info_agrees:
  assumes "fetch (PC (mcore mc)) (memory mc) = Inr bits" and "isBranch (di_id (decode bits))" and "di_id (decode bits) \<notin> {ID_ERET, ID_DRPS}"
    and "info = getBranchInfo (decode bits) (PC (mcore mc)) (mcore mc)"
  shows "(\<exists>mc'. step (interp_init hs host) mc = Inr mc' \<and>
      (PC (mcore mc') = bi_target info \<or>
       di_id (decode bits) \<in> {ID_B_cond, ID_CBZ_32, ID_CBNZ_32, ID_CBZ_64, ID_CBNZ_64, ID_TBZ, ID_TBNZ} \<and> PC (mcore mc') = PC (mcore mc) + 4))
    \<and> (bi_isVariable info \<longleftrightarrow> di_id (decode bits) \<in> {ID_BR, ID_BLR, ID_RET})
    \<and> (isValid (PC (mcore mc)) (memory mc) \<and> \<not> bi_isVariable info \<longrightarrow>
        (\<exists>name pre. disassemble (decode bits) (PC (mcore mc)) (memory mc) = Some \<lparr>dis_name = name, dis_args = pre @ hex (bi_target info)\<rparr>))"
proof -
  have b: "di_inst (decode bits) = bits" by (simp add: decode_def)
  have v: "bi_isVariable info \<longleftrightarrow> di_id (decode bits) \<in> {ID_BR, ID_BLR, ID_RET}"
    by (simp add: assms(4) getBranchInfo_def Let_def)
  have "branch_target (di_id (decode bits)) (mcore mc) bits = bi_target info \<or>
      di_id (decode bits) \<in> {ID_B_cond, ID_CBZ_32, ID_CBNZ_32, ID_CBZ_64, ID_CBNZ_64, ID_TBZ, ID_TBNZ} \<and>
      branch_target (di_id (decode bits)) (mcore mc) bits = PC (mcore mc) + 4"
    using assms(2,3) by (auto simp: assms(4) isBranch_def branch_target_def getBranchInfo_def Let_def b label_offsets)
  with branch_step [OF assms(1-3), of hs host] v label_printed [OF assms(2), of "PC (mcore mc)" "memory mc" "mcore mc"] assms(3,4)
  show ?thesis by auto
qed


theorem branch_info_agrees_witness:
  "\<exists>mc'. step (interp_init \<lparr>gSVCHandler = (\<lambda>i mc. Inr mc), gIllInstHandler = Inr\<rparr> plain_host) (demo_code 0x14000002) = Inr mc' \<and>
     PC (mcore mc') = bi_target (getBranchInfo (decode 0x14000002) 0x1100 (mcore (demo_code 0x14000002)))"
  using branch_info_agrees [of "demo_code 0x14000002" "0x14000002" _ "\<lparr>gSVCHandler = (\<lambda>i mc. Inr mc), gIllInstHandler = Inr\<rparr>" plain_host, OF _ _ _ refl]
  by (auto simp: demo_code_facts demo_decodes isBranch_def)

subsection \<open>The stack trace\<close>

text \<open>The loop follows a chain of frames: \<open>ss\<close> are the frame addresses, \<open>ps\<close> the program counters in the order the loop takes them.\<close>

lemma stack_trace_chain:
  assumes "\<forall>i < n. trace_continues (ps ! i) (ss ! i) m \<and> inspect 8 (ss ! i) m = Inr (ss ! Suc i) \<and> inspect 8 (ss ! i + 8) m = Inr (ps ! Suc (Suc i))"
    and "\<not> trace_continues (ps ! n) (ss ! n) m" and "j \<le> n"
  shows "stack_trace m L (ps ! j) (ss ! j) (ps ! Suc j) = Some (Inr (map (\<lambda>i. (ps ! i, findNearestSymbol (ps ! i) L)) [j..<n]))"
  using assms(3)
proof (induction rule: inc_induct)
  case base
  then show ?case using assms(2) by (simp add: stack_trace.simps)
next
  case (step j)
  then have "trace_continues (ps ! j) (ss ! j) m" "inspect 8 (ss ! j) m = Inr (ss ! Suc j)" "inspect 8 (ss ! j + 8) m = Inr (ps ! Suc (Suc j))"
    using assms(1) by auto
  with step show ?case by (subst stack_trace.simps) (simp add: upt_conv_Cons)
qed

text \<open>A frame that links to itself keeps the loop running.\<close>

lemma stack_trace_cycle:
  assumes "inspect 8 sp m = Inr sp" and "inspect 8 (sp + 8) m = Inr ret" and "trace_continues ret sp m"
    and "trace_continues pc sp m" and "trace_continues x30 sp m"
  shows "stack_trace m L pc sp x30 = None"
proof (rule ccontr)
  assume "stack_trace m L pc sp x30 \<noteq> None"
  then obtain r where "stack_trace m L pc sp x30 = Some r" by auto
  moreover have "\<not> (inspect 8 sp m = Inr sp \<and> inspect 8 (sp + 8) m = Inr ret \<and> trace_continues ret sp m \<and> trace_continues pc sp m \<and> trace_continues x30 sp m)"
    if "stack_trace m L pc sp x30 = Some r" for m L pc sp x30 r
  proof (rule stack_trace.raw_induct [OF _ that], rule notI)
    fix f m L pc sp x30 r
    assume IH: "\<And>m L pc sp x30 r. f m L pc sp x30 = Some r \<Longrightarrow>
        \<not> (inspect 8 sp m = Inr sp \<and> inspect 8 (sp + 8) m = Inr ret \<and> trace_continues ret sp m \<and> trace_continues pc sp m \<and> trace_continues x30 sp m)"
      and body: "(if trace_continues pc sp m then
        load_then (Some (inspect 8 (sp + 8) m)) (\<lambda>x30'. load_then (Some (inspect 8 sp m)) (\<lambda>sp'.
        load_then (f m L x30 sp' x30') (\<lambda>entries. Some (Inr ((pc, findNearestSymbol pc L) # entries)))))
      else Some (Inr [])) = Some r"
      and a: "inspect 8 sp m = Inr sp \<and> inspect 8 (sp + 8) m = Inr ret \<and> trace_continues ret sp m \<and> trace_continues pc sp m \<and> trace_continues x30 sp m"
    from body a have "f m L x30 sp ret \<noteq> None" by (cases "f m L x30 sp ret") (auto simp: load_then_def)
    with IH [of m L x30 sp ret] a show False by blast
  qed
  ultimately show False using assms by blast
qed


text \<open>
  C40. The stack trace follows the frames: when the frame at the stack pointer leads through saved frame pointers to a frame or a return address where the trace ends, the loop
  returns, and it lists the program counter, the link register and then the return addresses saved in the frames, in order, each with the nearest symbol. Only a chain of
  frames that ends is followed to an end; a frame that links to itself is followed for ever (\<open>stack_trace_cycle\<close>).
\<close>

theorem stack_trace_frames:
  assumes "ps = PC core # GPRegs core 30 # rets" and "ss ! 0 = SP core"
    and "\<forall>i < n. trace_continues (ps ! i) (ss ! i) m \<and> inspect 8 (ss ! i) m = Inr (ss ! Suc i) \<and> inspect 8 (ss ! i + 8) m = Inr (ps ! Suc (Suc i))"
    and "\<not> trace_continues (ps ! n) (ss ! n) m" and "n \<le> length ps"
  shows "printStackTrace core m L = Some (Inr (map (\<lambda>p. (p, findNearestSymbol p L)) (take n ps)))"
proof -
  have "map (\<lambda>i. (ps ! i, findNearestSymbol (ps ! i) L)) [0..<n] = map (\<lambda>p. (p, findNearestSymbol p L)) (take n ps)"
    using assms(5) by (intro nth_equalityI) simp_all
  with stack_trace_chain [OF assms(3,4), of 0 L] assms(1,2) show ?thesis by (simp add: printStackTrace_def)
qed

lemma inspect_view:
  assumes "mem_ok N mc"
  shows "inspect n a (memory mc) = (if mview mc a = None then Inl (SegFault a) else Inr (le_val (mload a n mc)))"
proof -
  obtain fl where ok: "alloc_ok N fl (memory mc)" using assms by (auto simp: mem_ok_def alloc_inv_def)
  show ?thesis
    using translate_cases [OF ok, of a] mview_mapped [OF ok, of a] by (auto simp: inspect_def mload_def load_le_def)
qed

lemma demo_inspect: "inspect 8 0x1100 (memory demo_machine) = Inr 0" "inspect 8 0x1108 (memory demo_machine) = Inr 0"
proof -
  have "page_offset 0x1100 + 8 \<le> 4096" "page_offset 0x1108 + 8 \<le> 4096" "getPageNum 0x1100 = 1" "getPageNum 0x1108 = 1"
    by (simp_all add: page_offset_def getPageNum_def PAGE_BITS_def shr_def drop_bit_eq_div)
  moreover have "le_val (mload a 8 demo_machine) = 0" if a: "getPageNum a = 1" "page_offset a + 8 \<le> 4096" for a
  proof -
    have "map Some (mload a 8 demo_machine) = map (\<lambda>i. mview demo_machine (a + of_nat i)) [0..<8]"
      using gm.load_view [OF demo_machine_facts(1), of a 8] a by (simp add: demo_machine_facts)
    also have "\<dots> = map Some (replicate 8 0)"
      using same_page_step [of a] a by (intro nth_equalityI) (simp_all add: demo_machine_facts)
    finally have "mload a 8 demo_machine = replicate 8 0" by (simp only: inj_map_eq_map [OF inj_Some])
    then show ?thesis by (simp add: numeral_eq_Suc)
  qed
  ultimately show "inspect 8 0x1100 (memory demo_machine) = Inr 0" "inspect 8 0x1108 (memory demo_machine) = Inr 0"
    by (simp_all add: inspect_view [OF demo_machine_facts(1)] demo_machine_facts)
qed

theorem stack_trace_frames_witness:
  "\<forall>L. printStackTrace (zero_core\<lparr>PC := 0x1104, SP := 0x1100\<rparr>) (memory demo_machine) L = Some (Inr [(0x1104, findNearestSymbol 0x1104 L)])"
proof
  fix L
  let ?core = "zero_core\<lparr>PC := 0x1104, SP := 0x1100\<rparr>"
  have v: "isValid 0x1104 (memory demo_machine)" "isValid 0x1100 (memory demo_machine)" "\<not> isValid 0 (memory demo_machine)"
    using access_faults [OF demo_machine_facts(1)] demo_guest_pages demo_pages
    by (simp_all add: getPageNum_def PAGE_BITS_def shr_def drop_bit_eq_div)
  show "printStackTrace ?core (memory demo_machine) L = Some (Inr [(0x1104, findNearestSymbol 0x1104 L)])"
    using stack_trace_frames [of "[0x1104, 0, 0]" ?core "[0]" "[0x1100, 0]" 1 "memory demo_machine" L]
    by (simp add: trace_continues_def v demo_inspect zero_core_def)
qed

end
