(* ===== verification/Spec2Isabelle.thy ===== *)
theory Spec2Isabelle
  imports Encode Cpu_Run Interp_Float_Laws Graphics_Laws Debug_Break Debug_Analysis
begin

text \<open>
  switch-emu runs AArch64 programs of the Switch console on a host computer. This library models the emulator from its C++ sources and
  proves what makes its parts correct.

  \<^bold>\<open>The program.\<close> A guest program is loaded into emulated memory by the kernel's loader and executed by four emulated cores. A core
  fetches a word, decodes it to an instruction number (\<^verbatim>\<open>libcpu/src/decode\<close>) and calls the handler the interpreter registered for that
  number (\<^verbatim>\<open>libcpu/src/interpreter\<close>). Handlers change the registers of the core and read and write guest memory through a page table
  (\<^verbatim>\<open>libcpu/src/mem.cpp\<close>). The instruction SVC calls the emulated kernel (\<^verbatim>\<open>switch-emu/src/hle\<close>): threads, scheduler, alarms, handles,
  memory mappings and inter-process calls to emulated system services (\<^verbatim>\<open>hle/nn\<close>, \<^verbatim>\<open>hle/nns\<close>, \<^verbatim>\<open>hle/SmService\<close>). A game draws through the display services, the binder and
  the graphics devices (\<^verbatim>\<open>switch-emu/src/gpu\<close>); the graphics thread shows the frames it queued. Interrupts between host threads wake sleeping cores,
  request rescheduling and stop all cores for the debugger.

  \<^bold>\<open>Conventions.\<close> Integers keep their C++ widths: \<^typ>\<open>u8\<close>, \<^typ>\<open>u16\<close>, \<^typ>\<open>u32\<close> and \<^typ>\<open>u64\<close> are words, and arithmetic on them wraps. An operation that can
  end in undefined behaviour, a guest fault or the end of its host thread returns \<^typ>\<open>fault + 'a\<close>, with one constructor of \<^typ>\<open>fault\<close> per
  way of failing. State is passed explicitly: \<^typ>\<open>Core\<close>, \<^typ>\<open>Memory\<close>, \<^typ>\<open>Machine\<close> (one core with memory) and \<^typ>\<open>Kernel\<close> (everything the kernel
  and its objects hold). Definitions carry the names of the functions they model; log output is left out.

  \<^bold>\<open>Theories, in the order of the dependencies.\<close>

  \<^item> \<^verbatim>\<open>Emu_Prelude\<close>, \<^verbatim>\<open>Bitutils\<close>: integer types, shifts and the bit helpers of \<^verbatim>\<open>common/inc/bitutils.h\<close>, with the shared lemmas on words.
  \<^item> \<^verbatim>\<open>Instruction_Ids\<close>, \<^verbatim>\<open>Decode_Table\<close>: the enumeration of instructions and the list \<^verbatim>\<open>libcpu/inc/instructions.inl\<close> as data.
  \<^item> \<^verbatim>\<open>Decode_DPImm\<close>, \<^verbatim>\<open>Decode_DPReg\<close>, \<^verbatim>\<open>Decode_System\<close>, \<^verbatim>\<open>Decode_LoadStore\<close>, \<^verbatim>\<open>Decode_Float\<close>, \<^verbatim>\<open>Decode_SIMD\<close>, \<^verbatim>\<open>Decoder\<close>: the hand-written decision
    tree and the table-driven decoder \<^verbatim>\<open>decode2\<close>. \<^verbatim>\<open>Decode_Laws\<close> states, in the locale \<open>decode_table\<close>, when a decoder agrees with an
    instruction list; \<^verbatim>\<open>Decode_Complete\<close> and \<^verbatim>\<open>Decode_Sound\<close> prove its two laws section by section and \<^verbatim>\<open>Decode_Equiv\<close> interprets it
    (\<open>dt\<close>), so that both decoders compute the same function on all words. \<^verbatim>\<open>Encode\<close> proves the round trip with \<^verbatim>\<open>encode.cpp\<close>.
  \<^item> \<^verbatim>\<open>Cpu_State\<close>, \<^verbatim>\<open>Instutils\<close>: registers, flags, instruction fields; condition codes, shifted operands, logical immediates and addition with
    carry, with their meaning on numbers.
  \<^item> \<^verbatim>\<open>Memory\<close>, \<^verbatim>\<open>Memory_Alloc\<close>, \<^verbatim>\<open>Machine\<close>: page table, the allocator whose free list lives in the free pages, and typed accesses. The allocator
    refines a set of free pages (\<open>allocatePage_refines\<close>, \<open>freePage_refines\<close>); the locale \<open>byte_memory\<close>, interpreted as \<open>gm\<close>, gives reads
    after writes and region round trips. \<^verbatim>\<open>platform::allocate\<close> is a parameter.
  \<^item> \<^verbatim>\<open>Interp_Branch\<close>, \<^verbatim>\<open>Interp_DPImm\<close>, \<^verbatim>\<open>Interp_DPReg\<close>, \<^verbatim>\<open>Interp_LoadStore\<close>, \<^verbatim>\<open>Interp_System\<close>: the handlers of the interpreter, one definition per
    function or template. Their lemmas give branch targets, bit fields, products, quotients, leading zeros, extension of loaded values, pairs and the
    exclusive monitor.
  \<^item> \<^verbatim>\<open>Host_Float\<close>, \<^verbatim>\<open>Interp_Float\<close>, \<^verbatim>\<open>Interp_Float_Laws\<close>: IEEE arithmetic of the host (rounding to nearest, ties to even, on the exact values), the
    handlers of \<^verbatim>\<open>float.cpp\<close>, and proofs that they round correctly, overflow included, and order numbers as FCMP reports, with the cases in which they do not.
    What the host leaves open, the payload of a NaN and casts out of range, is the parameter \<open>HostFP\<close>.
  \<^item> \<^verbatim>\<open>Interp_SIMD\<close>: vector handlers; the locale \<open>element_file\<close> has the laws of the element views and is interpreted at the four element sizes
    (\<open>B\<close>, \<open>H\<close>, \<open>S\<close>, \<open>D\<close>).
  \<^item> \<^verbatim>\<open>Interpreter\<close>, \<^verbatim>\<open>Cpu_Interrupts\<close>, \<^verbatim>\<open>Cpu_Run\<close>: registration, one step, the interrupt protocol of \<^verbatim>\<open>cpu.cpp\<close> as a transition system over any
    number of threads, in which only a debug break that the break handler clears is dropped, and the execution loop \<^verbatim>\<open>resume\<close>, which calls the interrupt handler
    at a breakpoint before it executes the instruction there.
  \<^item> \<^verbatim>\<open>Handle_Manager\<close>, \<^verbatim>\<open>Memory_Mapper\<close>, \<^verbatim>\<open>Kernel_Thread\<close>, \<^verbatim>\<open>Scheduler\<close>, \<^verbatim>\<open>Alarm\<close>, \<^verbatim>\<open>Ipc\<close>, \<^verbatim>\<open>Svc\<close>: the kernel. Handles refine a finite map
    (locale \<open>handle_table\<close>, interpretation \<open>handles\<close>); a new mapping overlays the old ones; the scheduler runs a thread of the best priority and
    loses none; a context switch restores what was saved; alarms wake what is due.
  \<^item> \<^verbatim>\<open>Loader\<close>, \<^verbatim>\<open>Loader_Ends\<close>, \<^verbatim>\<open>Loader_Laws\<close>, \<^verbatim>\<open>Kernel_Boot\<close>: executables and their symbols, and the start of a game. The locale \<open>load_relation\<close> lifts a relation that
    placing one file of the game respects to whole loads; it is interpreted for the modules' ranges and images (\<open>modules\<close>) and for the symbol map (\<open>symbol_order\<close>).
  \<^item> \<^verbatim>\<open>Display\<close>, \<^verbatim>\<open>Service_State\<close>, \<^verbatim>\<open>Gpu_Devices\<close>, \<^verbatim>\<open>Vi_Services\<close>, \<^verbatim>\<open>Services\<close>: displays, layers and buffer queues, what the services keep between calls, the five
    graphics devices, the services of the display and the binder, and all other system services with the function table of each of the 45 classes and the registration under
    names. The locale \<open>buffer_pool\<close>, interpreted as \<open>frames\<close>, is the contract of a buffer queue against a map from slots to states.
  \<^item> \<^verbatim>\<open>Service_Laws\<close>, \<^verbatim>\<open>Graphics_Laws\<close>: the locale \<open>service_relation\<close> lifts a relation on kernels that the elementary effects of services respect to every function of every table; it is
    interpreted for the part of the kernel services leave alone (\<open>threads\<close>) and for the references between the services' objects (\<open>state\<close>). On it rest the connection of a game to a service,
    memory objects of the graphics driver and the path of a frame to the screen.
  \<^item> \<^verbatim>\<open>Debug_Break\<close>: \<^verbatim>\<open>debug.cpp\<close> as a transition system of four cores and the user interface.
  \<^item> \<^verbatim>\<open>Inst_Info\<close>, \<^verbatim>\<open>Disassembler\<close>, \<^verbatim>\<open>Debug_Analysis\<close>: names and operands of all instructions and aliases, the text of an instruction, function symbols, branch targets and stack
    traces. No alias misnames an instruction, and the debugger, the disassembler and the interpreter agree on where a branch goes.

  \<^bold>\<open>Bounds and termination.\<close> Loops of the source are recursions with a measure, but for those that may run for ever, which are \<open>partial_function (option)\<close>, where \<open>None\<close> is
  never returning. The loops of \<^verbatim>\<open>mem.cpp\<close> over pages and regions count with a 32-bit \<^verbatim>\<open>unsigned\<close> against a 64-bit bound and are modelled with that counter; the operation around
  a loop that does not end is the fault \<open>NeverReturns\<close>. They are proved to end below the range of the counter: \<^verbatim>\<open>mem::init\<close> up to \<open>2 ^ 44\<close> bytes, \<^verbatim>\<open>protectRegion\<close> below \<open>2 ^ 32\<close> pages,
  \<^verbatim>\<open>allocateRegion\<close> always, and the copies below \<open>2 ^ 32\<close> bytes. The others are \<^verbatim>\<open>resume\<close>, which returns exactly when some step ends it, \<^verbatim>\<open>loadExe\<close>, which follows the library names
  in files and is proved to return for games whose libraries need no libraries, and \<open>stack_trace\<close>, which follows the frames in guest memory and is proved to return on chains that end. The loop that normalises a mantissa has fuel 64, the width of the
  word it shifts. Handles are distinct for
  the first 65536 creations, and module ranges stay apart while there are fewer than 2^31 modules; memory objects of the graphics driver keep distinct handles while fewer than 2^32 - 1 exist. These bounds are hypotheses of the theorems.

  \<^bold>\<open>Concurrency.\<close> The interrupt protocol and the debug break are step relations with all interleavings. Kernel operations run under the scheduler's lock
  and are modelled as sequential; \<open>gSchedulerLock\<close> is part of the state and taking it twice is \<open>Deadlock\<close>. Services run inside a supervisor call. The graphics thread has no
  lock in common with them: a drawing pass is one step between service calls, and its races with a call in progress are not modelled.

  \<^bold>\<open>Parameters.\<close> \<open>HostFP\<close> (above); \<open>Environment\<close>, what a supervisor call takes from outside (clock, contents of fresh memory, function tables of the
  services, named ports, the debugger's handler), which \<open>service_environment\<close> of \<^verbatim>\<open>Services\<close> gives with the program's tables and ports; \<open>ServiceEnv\<close>, the bytes of objects the services send
  uninitialised and the file \<^verbatim>\<open>romfs\<close> of the game; \<open>LoaderEnv\<close>, the files of the game and LZ4 decompression, which is third-party code.

  \<^bold>\<open>Not modelled.\<close> The recompiler (\<^verbatim>\<open>libcpu/src/jit\<close>) emits host code through a third-party assembler and is switched off in the program. The
  debugger's windows are drawn with a third-party library. Of the graphics driver only the frame it shows is modelled; the rest calls OpenGL and SDL. Host thread creation,
  \<^verbatim>\<open>kernel::init\<close>, the platform layer and log output have no state of their own. The unit tests are not part of the program.
\<close>

end
